(* ===== verification/Prelude.thy ===== *)
theory Prelude imports Main "HOL-Library.Sublist" begin

text \<open>
  Shared vocabulary of the development.

  The sources are TypeScript. Their values are modelled as follows in every theory:
  \<^item> a JavaScript string is a \<open>string\<close> (a list of \<open>char\<close>), one \<open>char\<close> per code unit; the
    model therefore ranges over the strings whose code units are at most 255 (Latin-1), for
    which \<open>trim\<close>, \<open>toLowerCase\<close> and the UTF-8 length below are exact;
  \<^item> a \<open>number\<close> that the code uses as a counter, a time in milliseconds or a generation is an
    \<open>int\<close> or a \<open>nat\<close>;
  \<^item> \<open>undefined\<close> and \<open>null\<close> are \<open>None\<close>; an optional field is an \<open>option\<close>;
  \<^item> a thrown error is the left injection of a sum type;
  \<^item> an object that is mutated is a record passed through the operation.

  The theory holds the string operations of the standard library that the sources use, the generic
  facts about lists, association lists and sums the components share, and the two locales for
  step systems: one for invariants, one for monotone quantities.
\<close>

named_theorems model_defs "definitions unfolded by the component proofs"
named_theorems keeps "what an operation leaves unchanged"

subsection \<open>Strings\<close>

text \<open>\<open>String.prototype.trim\<close>: white space and line terminators of the Latin-1 range.\<close>

definition is_ws :: "char \<Rightarrow> bool" where
  "is_ws c = (let n = (of_char c :: nat) in (9 \<le> n \<and> n \<le> 13) \<or> n = 32 \<or> n = 160)"

definition js_trim :: "string \<Rightarrow> string" where
  "js_trim s = rev (dropWhile is_ws (rev (dropWhile is_ws s)))"

text \<open>A text of the interface that is not Latin-1 is given by its UTF-8 bytes.\<close>

definition bytes :: "nat list \<Rightarrow> string" where
  "bytes ns = map char_of ns"

text \<open>\<open>value.trim() === ""\<close>, and the test \<open>!value || value.trim() === ""\<close> of the validators.\<close>

definition blank :: "string \<Rightarrow> bool" where
  "blank s \<longleftrightarrow> s = [] \<or> js_trim s = []"

text \<open>\<open>String.prototype.includes\<close>.\<close>

fun js_includes :: "string \<Rightarrow> string \<Rightarrow> bool" where
  "js_includes [] k = (k = [])"
| "js_includes (c # s) k = (prefix k (c # s) \<or> js_includes s k)"

text \<open>\<open>String.prototype.toLowerCase\<close> on the Latin-1 range: A-Z, and 0xC0-0xDE but the
  multiplication sign 0xD7.\<close>

definition lower_char :: "char \<Rightarrow> char" where
  "lower_char c = (let n = (of_char c :: nat) in
     if (65 \<le> n \<and> n \<le> 90) \<or> (192 \<le> n \<and> n \<le> 222 \<and> n \<noteq> 215) then char_of (n + 32) else c)"

definition to_lower :: "string \<Rightarrow> string" where
  "to_lower s = map lower_char s"

text \<open>\<open>Buffer.byteLength(s, "utf8")\<close>: one byte below 128, two up to 255.\<close>

definition utf8_len :: "string \<Rightarrow> nat" where
  "utf8_len s = sum_list (map (\<lambda>c. if (of_char c :: nat) < 128 then 1 else 2) s)"

text \<open>\<open>String.prototype.split\<close> with a string separator: leftmost, non-overlapping.\<close>

function js_split :: "string \<Rightarrow> string \<Rightarrow> string list" where
  "js_split sep s =
     (if sep = [] then map (\<lambda>c. [c]) s
      else if s = [] then [[]]
      else if prefix sep s then [] # js_split sep (drop (length sep) s)
      else (case js_split sep (tl s) of [] \<Rightarrow> [[hd s]] | p # ps \<Rightarrow> (hd s # p) # ps))"
  by pat_completeness auto
termination
  by (relation "measure (\<lambda>(sep, s). length s)") auto

declare js_split.simps [simp del]

fun js_join :: "string \<Rightarrow> string list \<Rightarrow> string" where
  "js_join sep [] = []"
| "js_join sep [p] = p"
| "js_join sep (p # q # ps) = p @ sep @ js_join sep (q # ps)"

text \<open>A natural number in a template literal: its decimal digits.\<close>

fun show_nat :: "nat \<Rightarrow> string" where
  "show_nat n = (if n < 10 then [char_of (48 + n)] else show_nat (n div 10) @ [char_of (48 + n mod 10)])"

declare show_nat.simps [simp del]

lemma js_includes_iff_sublist: "js_includes s k \<longleftrightarrow> sublist k s"
  by (induction s) (auto simp: sublist_Cons_right)

lemma js_includes_refl [simp]: "js_includes k k"
  by (simp add: js_includes_iff_sublist)

lemma js_includes_append: "js_includes (a @ k @ b) k"
  by (auto simp: js_includes_iff_sublist sublist_appendI)

lemma dropWhile_Nil_iff: "dropWhile P xs = [] \<longleftrightarrow> (\<forall>x\<in>set xs. P x)"
  by (induction xs) auto

lemma js_trim_Nil_iff: "js_trim s = [] \<longleftrightarrow> (\<forall>c\<in>set s. is_ws c)"
proof -
  have "(\<forall>c\<in>set (dropWhile is_ws s). is_ws c) \<longleftrightarrow> dropWhile is_ws s = []"
    by (metis dropWhile_Nil_iff dropWhile_idem)
  then show ?thesis
    by (simp add: js_trim_def dropWhile_Nil_iff)
qed

lemma blank_iff: "blank s \<longleftrightarrow> (\<forall>c\<in>set s. is_ws c)"
  by (auto simp: blank_def js_trim_Nil_iff)

lemma blank_Nil [simp]: "blank []"
  by (simp add: blank_def)

lemma utf8_len_append [simp]: "utf8_len (s @ t) = utf8_len s + utf8_len t"
  by (simp add: utf8_len_def)

lemma length_le_utf8_len: "length s \<le> utf8_len s"
  by (induction s) (auto simp: utf8_len_def)

lemma js_split_Nil [simp]: "sep \<noteq> [] \<Longrightarrow> js_split sep [] = [[]]"
  by (simp add: js_split.simps)

lemma js_split_match:
  "sep \<noteq> [] \<Longrightarrow> prefix sep s \<Longrightarrow> js_split sep s = [] # js_split sep (drop (length sep) s)"
  by (subst js_split.simps) auto

lemma js_split_nonempty: "sep \<noteq> [] \<Longrightarrow> js_split sep s \<noteq> []"
  by (subst js_split.simps) (auto split: list.splits)

lemma js_split_step:
  assumes "sep \<noteq> []" and "\<not> prefix sep (c # s)"
  obtains p ps where "js_split sep s = p # ps" and "js_split sep (c # s) = (c # p) # ps"
proof -
  obtain p ps where eq: "js_split sep s = p # ps"
    using js_split_nonempty [OF assms(1), of s] by (cases "js_split sep s") auto
  have "js_split sep (c # s) = (c # p) # ps"
    using assms eq by (subst js_split.simps) simp
  with eq show ?thesis by (rule that)
qed

lemma js_split_length_induct:
  assumes "\<And>s. (\<And>t. length t < length s \<Longrightarrow> P t) \<Longrightarrow> P s"
  shows "P (s :: string)"
  by (rule length_induct) (use assms in blast)

lemma js_join_Cons: "ps \<noteq> [] \<Longrightarrow> js_join sep (p # ps) = p @ sep @ js_join sep ps"
  by (cases ps) auto

text \<open>Splitting loses nothing: joining the parts with the separator gives the string back.\<close>

lemma js_join_split:
  assumes sep: "sep \<noteq> []"
  shows "js_join sep (js_split sep s) = s"
proof (induction s rule: js_split_length_induct)
  case (1 s)
  show ?case
  proof (cases s)
    case Nil
    with sep show ?thesis by simp
  next
    case (Cons c cs)
    show ?thesis
    proof (cases "prefix sep s")
      case True
      have "js_join sep (js_split sep (drop (length sep) s)) = drop (length sep) s"
        using "1" sep Cons by simp
      moreover have "sep @ drop (length sep) s = s"
        using True by (auto simp: prefix_def)
      ultimately show ?thesis
        using True sep js_split_nonempty [OF sep] by (simp add: js_split_match js_join_Cons)
    next
      case False
      then obtain p ps where eq: "js_split sep cs = p # ps" "js_split sep s = (c # p) # ps"
        using js_split_step [OF sep] Cons by metis
      then have "js_join sep (p # ps) = cs"
        using "1" [of cs] Cons by simp
      then have "js_join sep ((c # p) # ps) = c # cs"
        by (cases ps) auto
      with eq Cons show ?thesis by simp
    qed
  qed
qed

lemma js_split_hd_prefix:
  assumes "sep \<noteq> []" and "js_split sep s = p # ps"
  shows "prefix p s"
proof -
  have "prefix p (js_join sep (p # ps))"
    by (cases ps) auto
  then show ?thesis
    using js_join_split [OF assms(1), of s] assms(2) by simp
qed

text \<open>No part holds the separator.\<close>

lemma js_split_no_sep:
  assumes sep: "sep \<noteq> []"
  shows "p \<in> set (js_split sep s) \<Longrightarrow> \<not> sublist sep p"
proof (induction s arbitrary: p rule: js_split_length_induct)
  case (1 s)
  show ?case
  proof (cases s)
    case Nil
    with sep "1.prems" show ?thesis by simp
  next
    case (Cons c cs)
    show ?thesis
    proof (cases "prefix sep s")
      case True
      have "length (drop (length sep) s) < length s"
        using sep Cons by simp
      then show ?thesis
        using "1.IH" [of "drop (length sep) s" p] "1.prems" True sep by (auto simp: js_split_match)
    next
      case False
      then obtain q ps where eq: "js_split sep cs = q # ps" "js_split sep s = (c # q) # ps"
        using js_split_step [OF sep] Cons by metis
      have rest: "\<not> sublist sep r" if "r \<in> set (q # ps)" for r
        using "1.IH" [of cs r] that eq Cons by simp
      have "prefix (c # q) s"
        using js_split_hd_prefix [OF sep eq(1)] Cons by simp
      then have "\<not> prefix sep (c # q)"
        using False prefix_order.trans by blast
      then show ?thesis
        using "1.prems" eq rest by (auto simp: sublist_Cons_right)
    qed
  qed
qed

subsection \<open>Association lists as insertion-ordered maps\<close>

text \<open>
  A JavaScript \<open>Map\<close> whose iteration order matters is an association list in insertion order:
  \<open>set\<close> on a present key replaces the value in place, on a new key appends.
\<close>

fun map_set :: "'k \<Rightarrow> 'v \<Rightarrow> ('k \<times> 'v) list \<Rightarrow> ('k \<times> 'v) list" where
  "map_set k v [] = [(k, v)]"
| "map_set k v (p # ps) = (if fst p = k then (k, v) # ps else p # map_set k v ps)"

definition map_delete :: "'k \<Rightarrow> ('k \<times> 'v) list \<Rightarrow> ('k \<times> 'v) list" where
  "map_delete k ps = filter (\<lambda>p. fst p \<noteq> k) ps"

text \<open>A \<open>Set\<close> in insertion order.\<close>

definition add_set :: "'a \<Rightarrow> 'a list \<Rightarrow> 'a list" where
  "add_set x xs = (if x \<in> set xs then xs else xs @ [x])"

lemma map_of_map_set [simp]: "map_of (map_set k v ps) = (map_of ps)(k \<mapsto> v)"
  by (induction ps) auto

lemma fst_set_map_set [simp]: "fst ` set (map_set k v ps) = insert k (fst ` set ps)"
  by (induction ps) auto

lemma distinct_map_set: "distinct (map fst ps) \<Longrightarrow> distinct (map fst (map_set k v ps))"
proof (induction ps)
  case Nil
  then show ?case by simp
next
  case (Cons p ps)
  show ?case
  proof (cases "fst p = k")
    case True
    with Cons.prems show ?thesis by simp
  next
    case False
    have "fst p \<notin> fst ` set (map_set k v ps)"
      using Cons.prems False by simp
    with False Cons show ?thesis by simp
  qed
qed

lemma map_of_map_delete [simp]: "map_of (map_delete k ps) = (map_of ps)(k := None)"
  by (induction ps) (auto simp: map_delete_def)

lemma fst_set_map_delete [simp]: "fst ` set (map_delete k ps) = fst ` set ps - {k}"
  by (auto simp: map_delete_def)

lemma distinct_map_delete: "distinct (map fst ps) \<Longrightarrow> distinct (map fst (map_delete k ps))"
  by (induction ps) (auto simp: map_delete_def)

lemma length_map_delete_le: "length (map_delete k ps) \<le> length ps"
  by (simp add: map_delete_def)

lemma length_map_set: "length (map_set k v ps) = (if k \<in> fst ` set ps then length ps else Suc (length ps))"
  by (induction ps) auto

lemma set_map_delete: "set (map_delete k ps) \<subseteq> set ps"
  by (auto simp: map_delete_def)

lemma set_map_set: "set (map_set k v ps) \<subseteq> insert (k, v) (set ps)"
  by (induction ps) auto

lemma find_append: "find P (xs @ ys) = (case find P xs of None \<Rightarrow> find P ys | Some x \<Rightarrow> Some x)"
  by (induction xs) auto

subsection \<open>Sums as results\<close>

definition is_ok :: "'e + 'a \<Rightarrow> bool" where
  "is_ok r = (case r of Inl _ \<Rightarrow> False | Inr _ \<Rightarrow> True)"

lemma is_ok_simps [simp]: "is_ok (Inr a)" "\<not> is_ok (Inl e)"
  by (simp_all add: is_ok_def)

subsection \<open>Step systems\<close>

text \<open>
  A component that reacts to events is a step function \<open>step e s\<close>; a run is the fold of the step
  over a list of events. An invariant kept by every event holds after every run, and a quantity
  no event lowers is monotone along runs. Each component interprets these locales on its own step.
\<close>

fun run :: "('e \<Rightarrow> 's \<Rightarrow> 's) \<Rightarrow> 'e list \<Rightarrow> 's \<Rightarrow> 's" where
  "run step [] s = s"
| "run step (e # es) s = run step es (step e s)"

lemma run_append: "run step (es @ fs) s = run step fs (run step es s)"
  by (induction es arbitrary: s) auto

locale step_invariant =
  fixes step :: "'e \<Rightarrow> 's \<Rightarrow> 's"
    and inv :: "'s \<Rightarrow> bool"
    and allowed :: "'e \<Rightarrow> bool"
  assumes step_keeps: "inv s \<Longrightarrow> allowed e \<Longrightarrow> inv (step e s)"
begin

lemma run_keeps: "inv s \<Longrightarrow> (\<And>e. e \<in> set es \<Longrightarrow> allowed e) \<Longrightarrow> inv (run step es s)"
  by (induction es arbitrary: s) (auto intro: step_keeps)

end

locale step_monotone =
  fixes step :: "'e \<Rightarrow> 's \<Rightarrow> 's"
    and measure_of :: "'s \<Rightarrow> int"
    and allowed :: "'e \<Rightarrow> bool"
  assumes step_mono: "allowed e \<Longrightarrow> measure_of s \<le> measure_of (step e s)"
begin

lemma run_mono: "(\<And>e. e \<in> set es \<Longrightarrow> allowed e) \<Longrightarrow> measure_of s \<le> measure_of (run step es s)"
proof (induction es arbitrary: s)
  case Nil
  then show ?case by simp
next
  case (Cons e es)
  have "measure_of s \<le> measure_of (step e s)"
    using Cons.prems by (auto intro: step_mono)
  also have "\<dots> \<le> measure_of (run step es (step e s))"
    using Cons by simp
  finally show ?case by simp
qed

end

end
