(* ===== verification/Canonical_Json.thy ===== *)
theory Canonical_Json imports Prelude "HOL-Library.List_Lexorder" "HOL-Library.Char_ord" begin

text \<open>
  The canonical JSON text that \<open>packages/domain/src/execution-intent.ts\<close> hashes (\<open>canonicalize\<close>), with the
  part of \<open>JSON.stringify\<close> it uses: string quoting, and numbers. A value is a \<open>json\<close>; a key whose value is
  \<open>undefined\<close> is absent. An integer is \<open>Integral\<close> (its decimal text, as JavaScript prints the integers below
  10 to the 21); any other number is \<open>Fractional\<close> with the text JavaScript prints for it. The main fact is
  that the text determines the value: it is injective on values with sorted keys and integral numbers.
\<close>

datatype number = Integral int | Fractional string

datatype json =
    JNull
  | JBool bool
  | JNum number
  | JStr string
  | JArr "json list"
  | JObj "(string \<times> json) list"

definition hex_digit :: "nat \<Rightarrow> char" where
  "hex_digit n = (if n < 10 then char_of (48 + n) else char_of (87 + n))"

text \<open>The escapes of \<open>JSON.stringify\<close> on a string.\<close>

definition escape :: "char \<Rightarrow> string" where
  "escape c = (let n = (of_char c :: nat) in
     if n = 34 then [CHR 0x5C, CHR 0x22]
     else if n = 92 then [CHR 0x5C, CHR 0x5C]
     else if n = 8 then [CHR 0x5C, CHR ''b'']
     else if n = 9 then [CHR 0x5C, CHR ''t'']
     else if n = 10 then [CHR 0x5C, CHR ''n'']
     else if n = 12 then [CHR 0x5C, CHR ''f'']
     else if n = 13 then [CHR 0x5C, CHR ''r'']
     else if n < 32 then [CHR 0x5C, CHR ''u'', CHR ''0'', CHR ''0'', hex_digit (n div 16), hex_digit (n mod 16)]
     else [c])"

definition quote :: "string \<Rightarrow> string" where
  "quote s = CHR 0x22 # concat (map escape s) @ [CHR 0x22]"

definition show_int :: "int \<Rightarrow> string" where
  "show_int i = (if i < 0 then CHR ''-'' # show_nat (nat (- i)) else show_nat (nat i))"

fun show_number :: "number \<Rightarrow> string" where
  "show_number (Integral i) = show_int i"
| "show_number (Fractional t) = t"

lemma json_size_entry: "kv \<in> set kvs \<Longrightarrow> size (snd kv) < size (JObj kvs)"
proof (induction kvs)
  case (Cons a kvs)
  have "size (snd a) \<le> size_prod (\<lambda>_. 0) size a" by (cases a) simp
  with Cons show ?case by (auto simp: less_Suc_eq_le)
qed simp

lemma json_size_element: "v \<in> set vs \<Longrightarrow> size v < size (JArr vs)"
  by (induction vs) auto

function canonicalize :: "json \<Rightarrow> string" where
  "canonicalize JNull = ''null''"
| "canonicalize (JBool b) = (if b then ''true'' else ''false'')"
| "canonicalize (JNum n) = show_number n"
| "canonicalize (JStr s) = quote s"
| "canonicalize (JArr vs) = ''['' @ js_join '','' (map canonicalize vs) @ '']''"
| "canonicalize (JObj kvs) =
     ''{'' @ js_join '','' (map (\<lambda>kv. quote (fst kv) @ '':'' @ canonicalize (snd kv)) (sort_key fst kvs)) @ ''}''"
  by pat_completeness auto
termination
  by (relation "measure size") (simp_all add: json_size_entry [simplified] json_size_element [simplified])

subsection \<open>Texts determine values\<close>

text \<open>A rest that cannot continue a number.\<close>

definition is_digit :: "char \<Rightarrow> bool" where
  "is_digit c \<longleftrightarrow> 48 \<le> (of_char c :: nat) \<and> (of_char c :: nat) \<le> 57"

definition delimited :: "string \<Rightarrow> bool" where
  "delimited r \<longleftrightarrow> r = [] \<or> \<not> is_digit (hd r)"

lemma char_of_nat_inj: "m < 256 \<Longrightarrow> n < 256 \<Longrightarrow> (char_of (m::nat) = char_of n) = (m = n)"
  by (metis mod_less of_char_of)

lemma is_digit_char_of: "d < 10 \<Longrightarrow> is_digit (char_of (48 + d :: nat))"
  by (simp add: is_digit_def of_char_of)

lemma show_nat_digits: "c \<in> set (show_nat n) \<Longrightarrow> is_digit c"
proof (induction n rule: show_nat.induct)
  case (1 n)
  show ?case
  proof (cases "n < 10")
    case True
    with "1.prems" show ?thesis by (simp add: show_nat.simps [of n] is_digit_char_of)
  next
    case False
    with "1.prems" "1.IH" show ?thesis
      by (auto simp: show_nat.simps [of n] is_digit_char_of)
  qed
qed

lemma show_nat_nonempty: "show_nat n \<noteq> []"
  by (subst show_nat.simps) simp

lemma show_nat_inj: "show_nat m = show_nat n \<Longrightarrow> m = n"
proof (induction m arbitrary: n rule: show_nat.induct)
  case (1 m)
  consider "m < 10" "n < 10" | "m < 10" "\<not> n < 10" | "\<not> m < 10" "n < 10" | "\<not> m < 10" "\<not> n < 10" by blast
  then show ?case
  proof cases
    case 1
    with "1.prems" show ?thesis by (simp add: show_nat.simps [of m] show_nat.simps [of n] char_of_nat_inj)
  next
    case 2
    with "1.prems" show ?thesis
      using show_nat_nonempty [of "n div 10"] by (simp add: show_nat.simps [of m] show_nat.simps [of n] Cons_eq_append_conv)
  next
    case 3
    with "1.prems" show ?thesis
      using show_nat_nonempty [of "m div 10"] by (simp add: show_nat.simps [of m] show_nat.simps [of n] append_eq_Cons_conv)
  next
    case 4
    with "1.prems" have eq: "show_nat (m div 10) = show_nat (n div 10)" "m mod 10 = n mod 10"
      by (auto simp: show_nat.simps [of m] show_nat.simps [of n] char_of_nat_inj)
    from "1.IH" [OF 4(1) eq(1)] eq(2) show ?thesis by (metis div_mult_mod_eq)
  qed
qed

lemma takeWhile_delimited:
  "\<forall>c\<in>set xs. is_digit c \<Longrightarrow> delimited r \<Longrightarrow> takeWhile is_digit (xs @ r) = xs"
  by (cases r) (auto simp: takeWhile_append2 delimited_def)

lemma show_nat_delimited:
  assumes "show_nat m @ r = show_nat n @ r'" and "delimited r" and "delimited r'"
  shows "m = n \<and> r = r'"
proof -
  have "show_nat m = takeWhile is_digit (show_nat m @ r)" "show_nat n = takeWhile is_digit (show_nat n @ r')"
    using assms(2,3) show_nat_digits takeWhile_delimited by metis+
  with assms(1) have "show_nat m = show_nat n" by metis
  with assms(1) show ?thesis using show_nat_inj by auto
qed

lemma minus_not_digit: "\<not> is_digit CHR ''-''"
  by (simp add: is_digit_def)

lemma show_nat_not_minus: "show_nat n @ r \<noteq> CHR ''-'' # r'"
  using show_nat_digits [of "hd (show_nat n)" n] show_nat_nonempty [of n] minus_not_digit
  by (cases "show_nat n") auto

lemma show_int_delimited:
  assumes "show_int i @ r = show_int j @ r'" and "delimited r" and "delimited r'"
  shows "i = j \<and> r = r'"
proof -
  note [simp] = show_nat_not_minus show_nat_not_minus [symmetric]
  consider "i < 0" "j < 0" | "i < 0" "0 \<le> j" | "0 \<le> i" "j < 0" | "0 \<le> i" "0 \<le> j" by linarith
  then show ?thesis
  proof cases
    case 1
    with assms show_nat_delimited [of "nat (- i)" r "nat (- j)" r'] show ?thesis by (auto simp: show_int_def)
  next
    case 4
    with assms show_nat_delimited [of "nat i" r "nat j" r'] show ?thesis by (auto simp: show_int_def)
  qed (use assms in \<open>simp_all add: show_int_def\<close>)
qed

text \<open>Quoted strings are self-delimiting: the first character is read back from its escape.\<close>

definition unhex :: "char \<Rightarrow> nat" where
  "unhex c = (let n = of_char c in if n < 58 then n - 48 else n - 87)"

fun read_char :: "string \<Rightarrow> char \<times> string" where
  "read_char (x # y # ys) =
     (if x \<noteq> CHR 0x5C then (x, y # ys)
      else if y = CHR ''b'' then (char_of (8 :: nat), ys)
      else if y = CHR ''t'' then (char_of (9 :: nat), ys)
      else if y = CHR ''n'' then (char_of (10 :: nat), ys)
      else if y = CHR ''f'' then (char_of (12 :: nat), ys)
      else if y = CHR ''r'' then (char_of (13 :: nat), ys)
      else if y = CHR ''u'' then (char_of (16 * unhex (ys ! 2) + unhex (ys ! 3)), drop 4 ys)
      else (y, ys))"
| "read_char [x] = (x, [])"
| "read_char [] = (CHR 0x00, [])"

lemma unhex_hex_digit: "n < 16 \<Longrightarrow> unhex (hex_digit n) = n"
  by (simp add: unhex_def hex_digit_def of_char_of)

lemma char_code: "(of_char c :: nat) = n \<Longrightarrow> char_of n = c"
  using char_of_char by blast

lemma special_chars: "char_of (34 :: nat) = CHR 0x22" "char_of (92 :: nat) = CHR 0x5C"
  by (rule char_code, simp)+

lemma read_plain: "x \<noteq> CHR 0x5C \<Longrightarrow> read_char (x # r) = (x, r)"
  by (cases r) auto

lemma read_escape: "read_char (escape c @ r) = (c, r)"
proof -
  define n where "n = (of_char c :: nat)"
  have c: "char_of n = c" by (simp add: n_def char_code)
  have esc: "escape c = (if n = 34 then [CHR 0x5C, CHR 0x22] else if n = 92 then [CHR 0x5C, CHR 0x5C]
     else if n = 8 then [CHR 0x5C, CHR ''b''] else if n = 9 then [CHR 0x5C, CHR ''t'']
     else if n = 10 then [CHR 0x5C, CHR ''n''] else if n = 12 then [CHR 0x5C, CHR ''f'']
     else if n = 13 then [CHR 0x5C, CHR ''r'']
     else if n < 32 then [CHR 0x5C, CHR ''u'', CHR ''0'', CHR ''0'', hex_digit (n div 16), hex_digit (n mod 16)] else [c])"
    by (simp add: escape_def n_def Let_def)
  have slash: "n \<noteq> 92 \<Longrightarrow> c \<noteq> CHR 0x5C" by (auto simp: n_def)
  consider "n = 34" | "n = 92" | "n = 8" | "n = 9" | "n = 10" | "n = 12" | "n = 13"
    | "n < 32" "n \<notin> {8, 9, 10, 12, 13}" | "32 \<le> n" "n \<noteq> 34" "n \<noteq> 92"
    by fastforce
  then show ?thesis
  proof cases
    case 8
    then have "16 * unhex (hex_digit (n div 16)) + unhex (hex_digit (n mod 16)) = n"
      by (simp add: unhex_hex_digit)
    with 8 c show ?thesis by (simp add: esc)
  next
    case 9
    with slash show ?thesis by (simp add: esc read_plain)
  qed (use c in \<open>auto simp: esc special_chars\<close>)
qed

lemma escape_first: "escape c @ r = escape d @ r' \<Longrightarrow> c = d \<and> r = r'"
  by (metis prod.inject read_escape)

lemma escape_not_quote: "hd (escape c) \<noteq> CHR 0x22 \<and> escape c \<noteq> []"
  by (auto simp: escape_def Let_def)

lemma quoted_rest:
  assumes "concat (map escape s) @ CHR 0x22 # r = concat (map escape t) @ CHR 0x22 # r'"
  shows "s = t \<and> r = r'"
  using assms
proof (induction s arbitrary: t)
  case Nil
  show ?case
  proof (cases t)
    case (Cons d t')
    then show ?thesis using Nil escape_not_quote [of d] by (cases "escape d") auto
  qed (use Nil in simp)
next
  case (Cons c s)
  show ?case
  proof (cases t)
    case Nil
    then show ?thesis using Cons.prems escape_not_quote [of c] by (cases "escape c") auto
  next
    case t: (Cons d t')
    then have "c = d \<and> concat (map escape s) @ CHR 0x22 # r = concat (map escape t') @ CHR 0x22 # r'"
      using Cons.prems escape_first [of c _ d] by simp
    with Cons.IH t show ?thesis by simp
  qed
qed

lemma quote_delimited: "quote s @ r = quote t @ r' \<Longrightarrow> s = t \<and> r = r'"
  using quoted_rest [of s r t r'] by (simp add: quote_def)

subsection \<open>Injectivity\<close>

fun canonical :: "json \<Rightarrow> bool" where
  "canonical (JNum (Fractional t)) = False"
| "canonical (JArr vs) = (\<forall>v\<in>set vs. canonical v)"
| "canonical (JObj kvs) = (sorted (map fst kvs) \<and> distinct (map fst kvs) \<and> (\<forall>kv\<in>set kvs. canonical (snd kv)))"
| "canonical _ = True"

text \<open>The first character tells the kind of a value.\<close>

fun kind :: "json \<Rightarrow> nat" where
  "kind JNull = 0"
| "kind (JBool _) = 1"
| "kind (JNum _) = 2"
| "kind (JStr _) = 3"
| "kind (JArr _) = 4"
| "kind (JObj _) = 5"

definition kind_of_char :: "char \<Rightarrow> nat" where
  "kind_of_char c = (if c = CHR ''n'' then 0 else if c = CHR ''t'' \<or> c = CHR ''f'' then 1
     else if is_digit c \<or> c = CHR ''-'' then 2 else if c = CHR 0x22 then 3
     else if c = CHR ''['' then 4 else if c = CHR ''{'' then 5 else 6)"

lemma kind_of_digit: "is_digit c \<Longrightarrow> kind_of_char c = 2"
  by (auto simp: kind_of_char_def is_digit_def)

lemma kind_of_literals:
  "kind_of_char CHR ''n'' = 0" "kind_of_char CHR ''t'' = 1" "kind_of_char CHR ''f'' = 1" "kind_of_char CHR 0x22 = 3"
  "kind_of_char CHR ''['' = 4" "kind_of_char CHR ''{'' = 5" "kind_of_char CHR '']'' = 6" "kind_of_char CHR ''}'' = 6"
  by (simp_all add: kind_of_char_def is_digit_def)

lemma show_int_head: "show_int i \<noteq> [] \<and> kind_of_char (hd (show_int i)) = 2"
proof (cases "i < 0")
  case True
  then show ?thesis by (simp add: show_int_def kind_of_char_def)
next
  case False
  then show ?thesis
    using show_nat_nonempty [of "nat i"] show_nat_digits [of "hd (show_nat (nat i))" "nat i"]
    by (simp add: show_int_def kind_of_digit)
qed

lemma canonicalize_head: "canonical v \<Longrightarrow> canonicalize v \<noteq> [] \<and> kind_of_char (hd (canonicalize v)) = kind v"
  by (induction v rule: canonical.induct) (simp_all add: show_int_head quote_def kind_of_literals)

lemma head_append: "xs \<noteq> [] \<Longrightarrow> ys \<noteq> [] \<Longrightarrow> xs @ r = ys @ r' \<Longrightarrow> hd xs = hd ys"
  by (metis hd_append2)

definition join_rest :: "('a \<Rightarrow> string) \<Rightarrow> 'a list \<Rightarrow> string" where
  "join_rest f xs = (if xs = [] then [] else CHR '','' # js_join '','' (map f xs))"

lemma join_Cons: "js_join '','' (f x # map f xs) = f x @ join_rest f xs"
  by (cases xs) (simp_all add: join_rest_def)

lemma js_join_hd: "js_join sep (p # ps) = p @ (if ps = [] then [] else sep @ js_join sep ps)"
  by (cases ps) simp_all

lemma join_delimited:
  assumes "\<And>x y r r'. x \<in> set xs \<Longrightarrow> y \<in> set ys \<Longrightarrow> f x @ r = f y @ r' \<Longrightarrow> delimited r \<Longrightarrow> delimited r' \<Longrightarrow> x = y \<and> r = r'"
    and "\<And>x. x \<in> set xs \<union> set ys \<Longrightarrow> f x \<noteq> [] \<and> hd (f x) \<noteq> e"
    and e: "\<not> is_digit e" "e \<noteq> CHR '',''"
    and "js_join '','' (map f xs) @ e # r = js_join '','' (map f ys) @ e # r'"
  shows "xs = ys \<and> r = r'"
  using assms(1,2,5)
proof (induction xs arbitrary: ys)
  case Nil
  show ?case
  proof (cases ys)
    case (Cons y ys')
    then show ?thesis using Nil.prems(2) [of y] Nil.prems(3) by (cases "f y") (auto simp: js_join_hd)
  qed (use Nil in simp)
next
  case (Cons x xs)
  show ?case
  proof (cases ys)
    case Nil
    then show ?thesis using Cons.prems(2) [of x] Cons.prems(3) by (cases "f x") (auto simp: js_join_hd)
  next
    case ys: (Cons y ys')
    have del: "delimited (join_rest f zs @ e # q)" for zs q
      using e by (simp add: delimited_def join_rest_def is_digit_def)
    have "f x @ join_rest f xs @ e # r = f y @ join_rest f ys' @ e # r'"
      using Cons.prems(3) ys by (simp add: join_Cons)
    then have xy: "x = y" and rest: "join_rest f xs @ e # r = join_rest f ys' @ e # r'"
      using Cons.prems(1) [of x y "join_rest f xs @ e # r" "join_rest f ys' @ e # r'"] del ys by auto
    have "xs = ys' \<and> r = r'"
    proof (cases "xs = [] \<or> ys' = []")
      case True
      with rest e show ?thesis by (auto simp: join_rest_def split: if_splits)
    next
      case False
      with rest have "js_join '','' (map f xs) @ e # r = js_join '','' (map f ys') @ e # r'"
        by (simp add: join_rest_def)
      with Cons.IH [of ys'] Cons.prems(1,2) ys show ?thesis by auto
    qed
    with xy ys show ?thesis by simp
  qed
qed

lemma sort_sorted: "sorted (map fst kvs) \<Longrightarrow> sort_key fst kvs = kvs"
  by (rule sort_key_id_if_sorted)

lemma same_kind:
  assumes "canonical v" and "canonical w" and "canonicalize v @ r = canonicalize w @ r'"
  shows "kind w = kind v"
proof -
  have "hd (canonicalize v) = hd (canonicalize w)"
    using head_append [OF _ _ assms(3)] canonicalize_head assms(1,2) by simp
  with canonicalize_head assms(1,2) show ?thesis by metis
qed

lemma canonicalize_not_close:
  assumes "canonical v"
  shows "canonicalize v \<noteq> [] \<and> hd (canonicalize v) \<noteq> CHR '']''"
proof -
  have "kind v \<noteq> 6" by (cases v) auto
  with canonicalize_head [OF assms] kind_of_literals(7) show ?thesis by metis
qed

lemma canonicalize_delimited:
  "canonical v \<Longrightarrow> canonical w \<Longrightarrow> canonicalize v @ r = canonicalize w @ r' \<Longrightarrow> delimited r \<Longrightarrow> delimited r'
     \<Longrightarrow> v = w \<and> r = r'"
proof (induction v arbitrary: w r r')
  case (JNum n)
  then have "kind w = 2" using same_kind [OF JNum.prems(1-3)] by simp
  then obtain n' where w: "w = JNum n'" by (cases w) auto
  with JNum.prems(1,2) obtain i j where "n = Integral i" "n' = Integral j" by (cases n; cases n') auto
  with JNum.prems w show ?case using show_int_delimited [of i r j r'] by simp
next
  case JNull
  then have "kind w = 0" using same_kind [OF JNull.prems(1-3)] by simp
  with JNull.prems show ?case by (cases w) auto
next
  case (JBool b)
  then have "kind w = 1" using same_kind [OF JBool.prems(1-3)] by simp
  with JBool.prems show ?case by (cases w) (auto split: if_splits)
next
  case (JStr s)
  then have "kind w = 3" using same_kind [OF JStr.prems(1-3)] by simp
  then obtain t where "w = JStr t" by (cases w) auto
  with JStr.prems show ?case using quote_delimited [of s r t r'] by simp
next
  case (JArr vs)
  then have "kind w = 4" using same_kind [OF JArr.prems(1-3)] by simp
  then obtain ws where w: "w = JArr ws" by (cases w) auto
  have "vs = ws \<and> r = r'"
  proof (rule join_delimited [where f = canonicalize and e = "CHR '']''"])
    show "js_join '','' (map canonicalize vs) @ CHR '']'' # r = js_join '','' (map canonicalize ws) @ CHR '']'' # r'"
      using JArr.prems(3) w by simp
    show "x = y \<and> q = q'" if "x \<in> set vs" "y \<in> set ws" "canonicalize x @ q = canonicalize y @ q'" "delimited q" "delimited q'"
      for x y q q'
      using JArr.IH [OF that(1), of y q q'] JArr.prems(1,2) that w by simp
    show "canonicalize x \<noteq> [] \<and> hd (canonicalize x) \<noteq> CHR '']''" if "x \<in> set vs \<union> set ws" for x
      using canonicalize_not_close [of x] JArr.prems(1,2) that w by auto
  qed (auto simp: is_digit_def)
  with w show ?case by simp
next
  case (JObj kvs)
  then have "kind w = 5" using same_kind [OF JObj.prems(1-3)] by simp
  then obtain kws where w: "w = JObj kws" by (cases w) auto
  let ?f = "\<lambda>kv. quote (fst kv) @ '':'' @ canonicalize (snd kv)"
  have "kvs = kws \<and> r = r'"
  proof (rule join_delimited [where f = ?f and e = "CHR ''}''"])
    show "js_join '','' (map ?f kvs) @ CHR ''}'' # r = js_join '','' (map ?f kws) @ CHR ''}'' # r'"
      using JObj.prems(1-3) w by (simp add: sort_sorted)
    show "x = y \<and> q = q'" if "x \<in> set kvs" "y \<in> set kws" "?f x @ q = ?f y @ q'" "delimited q" "delimited q'" for x y q q'
    proof -
      have eq: "fst x = fst y" "canonicalize (snd x) @ q = canonicalize (snd y) @ q'"
        using quote_delimited [of "fst x" "'':'' @ canonicalize (snd x) @ q" "fst y" "'':'' @ canonicalize (snd y) @ q'"] that(3)
        by simp_all
      have "snd x \<in> Basic_BNFs.snds x" by (cases x) auto
      then have "snd x = snd y \<and> q = q'"
        using JObj.IH [OF that(1) _ _ _ eq(2) that(4,5)] JObj.prems(1,2) that(1,2) w by simp
      with eq(1) show ?thesis by (simp add: prod_eq_iff)
    qed
  qed (auto simp: is_digit_def quote_def)
  with w show ?case by simp
qed

lemma canonicalize_inj: "canonical v \<Longrightarrow> canonical w \<Longrightarrow> canonicalize v = canonicalize w \<Longrightarrow> v = w"
  using canonicalize_delimited [of v w "[]" "[]"] by (simp add: delimited_def)

end
