(* ===== verification/Jobs.thy ===== *)
theory Jobs imports Canonical_Json Complex_Main "HOL-Library.Option_ord" begin

text \<open>
  Background jobs: \<open>packages/background-jobs/src\<close> (progress, cancellation, registry, manager, runner,
  recovery), the SQLite repository \<open>packages/persistence/src/sqlite/sqlite-job-repository.ts\<close> and the
  service that wires them, \<open>apps/desktop/src/main/services/background-job-service.ts\<close>.

  The table \<open>background_jobs\<close> is the list of its rows. \<open>JobManager.run\<close> is cut at the await of the
  runner: \<open>jm_active\<close> holds the runs whose runner is at work, each with its local copy of the job (the
  object the continuation closes over), its progress and its two cancellation objects, so that
  cancellations, other runs and recovery can come in between. What a runner reports, returns or throws
  arrives as an argument. Progress values are rational; a value that is not finite is \<open>None\<close>.
\<close>

subsection \<open>Data\<close>

datatype job_type = Learning | Review | Audit | Optimization | Index_rebuild

datatype job_state = JQUEUED | JRUNNING | JCANCELLING | JCOMPLETED | JFAILED | JCANCELLED

record job_record =
  jb_job_id :: string
  jb_type :: job_type
  jb_state :: job_state
  jb_progress :: rat
  jb_message :: string
  jb_started_at :: "string option"
  jb_finished_at :: "string option"
  jb_cancellation_token :: "string option"
  jb_error :: "string option"
  jb_result :: "string option"

text \<open>
  The text of a JSON column: the serialization of a string or of \<open>null\<close>. The code writes SQL \<open>NULL\<close> for an
  absent field and the text of \<open>null\<close> for a null one; both are \<open>None\<close> here, are written as the text, and
  read back as \<open>null\<close>.
\<close>

datatype json_cell = J_null | J_string string

fun stringify_cell :: "string option \<Rightarrow> json_cell" where
  "stringify_cell None = J_null"
| "stringify_cell (Some s) = J_string s"

fun parse_cell :: "json_cell option \<Rightarrow> string option" where
  "parse_cell None = None"
| "parse_cell (Some J_null) = None"
| "parse_cell (Some (J_string s)) = Some s"

record job_row =
  jr_job_id :: string
  jr_type :: job_type
  jr_state :: job_state
  jr_progress :: rat
  jr_message :: string
  jr_started_at :: "string option"
  jr_finished_at :: "string option"
  jr_cancellation_token :: "string option"
  jr_error :: "json_cell option"
  jr_result :: "json_cell option"

datatype job_error =
    Job_not_found
  | Job_already_cancelled
  | Job_insert_failed

datatype job_event =
    JobStateChanged string job_state rat "string option"
  | JobProgress_event string rat "string option"

subsection \<open>The repository\<close>

definition mapJob :: "job_row \<Rightarrow> job_record" where
  "mapJob r = \<lparr>jb_job_id = jr_job_id r, jb_type = jr_type r, jb_state = jr_state r, jb_progress = jr_progress r,
     jb_message = jr_message r, jb_started_at = jr_started_at r, jb_finished_at = jr_finished_at r,
     jb_cancellation_token = jr_cancellation_token r,
     jb_error = parse_cell (jr_error r), jb_result = parse_cell (jr_result r)\<rparr>"

definition repo_create :: "job_record \<Rightarrow> job_row list \<Rightarrow> job_error + job_row list" where
  "repo_create j rows =
     (if jb_job_id j \<in> set (map jr_job_id rows) then Inl Job_insert_failed
      else Inr (rows @ [\<lparr>jr_job_id = jb_job_id j, jr_type = jb_type j, jr_state = jb_state j,
        jr_progress = jb_progress j, jr_message = jb_message j, jr_started_at = jb_started_at j,
        jr_finished_at = jb_finished_at j, jr_cancellation_token = jb_cancellation_token j,
        jr_error = Some (stringify_cell (jb_error j)), jr_result = Some (stringify_cell (jb_result j))\<rparr>]))"

definition write_row :: "job_record \<Rightarrow> job_row \<Rightarrow> job_row" where
  "write_row j r = r\<lparr>jr_state := jb_state j, jr_progress := jb_progress j, jr_message := jb_message j,
     jr_finished_at := jb_finished_at j, jr_cancellation_token := jb_cancellation_token j,
     jr_error := Some (stringify_cell (jb_error j)), jr_result := Some (stringify_cell (jb_result j))\<rparr>"

definition repo_update :: "job_record \<Rightarrow> job_row list \<Rightarrow> job_row list" where
  "repo_update j rows = map (\<lambda>r. if jr_job_id r = jb_job_id j then write_row j r else r) rows"

definition repo_get :: "string \<Rightarrow> job_row list \<Rightarrow> job_record option" where
  "repo_get i rows = map_option mapJob (List.find (\<lambda>r. jr_job_id r = i) rows)"

text \<open>\<open>ORDER BY started_at\<close>: nulls first, ties in insertion order.\<close>

definition repo_list :: "job_state option \<Rightarrow> job_row list \<Rightarrow> job_record list" where
  "repo_list st rows = map mapJob (sort_key jr_started_at
     (case st of None \<Rightarrow> rows | Some s \<Rightarrow> filter (\<lambda>r. jr_state r = s) rows))"

text \<open>The adapter's \<open>list(type, limit)\<close>: the filter by type and the cut are done in the service.\<close>

definition service_list :: "job_type option \<Rightarrow> nat option \<Rightarrow> job_row list \<Rightarrow> job_record list" where
  "service_list ty limit rows =
     (let all = repo_list None rows;
          filtered = (case ty of None \<Rightarrow> all | Some t \<Rightarrow> filter (\<lambda>j. jb_type j = t) all)
      in case limit of None \<Rightarrow> filtered | Some n \<Rightarrow> take n filtered)"

text \<open>The in-memory repository keeps whole copies in an insertion-ordered map; \<open>update\<close> also inserts.\<close>

definition mem_update :: "job_record \<Rightarrow> (string \<times> job_record) list \<Rightarrow> (string \<times> job_record) list" where
  "mem_update j ps = map_set (jb_job_id j) j ps"

definition mem_get :: "string \<Rightarrow> (string \<times> job_record) list \<Rightarrow> job_record option" where
  "mem_get i ps = map_of ps i"

definition mem_list :: "job_state option \<Rightarrow> (string \<times> job_record) list \<Rightarrow> job_record list" where
  "mem_list st ps = filter (\<lambda>j. case st of None \<Rightarrow> True | Some s \<Rightarrow> jb_state j = s) (map snd ps)"

subsection \<open>Progress, cancellation, registry\<close>

text \<open>\<open>JobProgress\<close> is its value, \<open>JobCancellation\<close> its flag and token.\<close>

definition progress_report :: "rat option \<Rightarrow> rat \<Rightarrow> rat" where
  "progress_report next v = (case next of None \<Rightarrow> v | Some p \<Rightarrow> max v (min 100 p))"

record job_cancellation =
  cn_cancelled :: bool
  cn_token :: "string option"

definition new_cancellation :: "string option \<Rightarrow> job_cancellation" where
  "new_cancellation t = \<lparr>cn_cancelled = False, cn_token = t\<rparr>"

definition cancellation_cancel :: "job_cancellation \<Rightarrow> job_cancellation" where
  "cancellation_cancel c = c\<lparr>cn_cancelled := True\<rparr>"

subsection \<open>The manager\<close>

record active_run =
  ar_id :: nat
  ar_job :: job_record
  ar_progress :: rat
  ar_cancellation :: job_cancellation
  ar_signal :: job_cancellation

record job_manager =
  jm_runners :: "job_type list"
  jm_rows :: "job_row list"
  jm_active :: "active_run list"
  jm_next_run :: nat
  jm_events :: "job_event list"
  jm_pending :: "(string \<times> json) list"

definition job_emit :: "job_event \<Rightarrow> job_manager \<Rightarrow> job_manager" where
  "job_emit e m = m\<lparr>jm_events := jm_events m @ [e]\<rparr>"

definition job_save :: "job_record \<Rightarrow> job_manager \<Rightarrow> job_manager" where
  "job_save j m = m\<lparr>jm_rows := repo_update j (jm_rows m)\<rparr>"

definition job_register :: "job_type \<Rightarrow> job_manager \<Rightarrow> job_manager" where
  "job_register t m = m\<lparr>jm_runners := (if t \<in> set (jm_runners m) then jm_runners m else jm_runners m @ [t])\<rparr>"

definition idempotent_mark :: string where
  "idempotent_mark = ''{\"idempotent\":true}''"

definition job_create :: "string \<Rightarrow> string \<Rightarrow> job_type \<Rightarrow> bool \<Rightarrow> string option \<Rightarrow> job_manager \<Rightarrow>
    job_error + (job_record \<times> job_manager)" where
  "job_create jobId now ty idempotent token m =
     (let job = \<lparr>jb_job_id = jobId, jb_type = ty, jb_state = JQUEUED, jb_progress = 0, jb_message = [],
            jb_started_at = Some now, jb_finished_at = None, jb_cancellation_token = token, jb_error = None,
            jb_result = (if idempotent then Some idempotent_mark else None)\<rparr>
      in case repo_create job (jm_rows m) of Inl e \<Rightarrow> Inl e
         | Inr rows \<Rightarrow> Inr (job, job_emit (JobStateChanged jobId JQUEUED 0 None) (m\<lparr>jm_rows := rows\<rparr>)))"

definition job_get :: "string \<Rightarrow> job_manager \<Rightarrow> job_record option" where
  "job_get jobId m = repo_get jobId (jm_rows m)"

definition job_transition :: "string \<Rightarrow> job_state \<Rightarrow> job_record \<Rightarrow> job_manager \<Rightarrow> job_record \<times> job_manager" where
  "job_transition now st job m =
     (let j = job\<lparr>jb_state := st\<rparr>;
          j = (if st = JCOMPLETED \<or> st = JFAILED \<or> st = JCANCELLED then j\<lparr>jb_finished_at := Some now\<rparr> else j)
      in (j, job_emit (JobStateChanged (jb_job_id j) st (jb_progress j) (Some (jb_message j))) (job_save j m)))"

definition job_complete :: "string \<Rightarrow> job_record \<Rightarrow> job_manager \<Rightarrow> job_record \<times> job_manager" where
  "job_complete now job m = job_transition now JCOMPLETED job m"

definition job_fail :: "string \<Rightarrow> job_record \<Rightarrow> string \<Rightarrow> job_manager \<Rightarrow> job_record \<times> job_manager" where
  "job_fail now job err m = job_transition now JFAILED (job\<lparr>jb_error := Some (take 500 err)\<rparr>) m"

definition job_cancel :: "string \<Rightarrow> string \<Rightarrow> job_manager \<Rightarrow> job_error + (job_record \<times> job_manager)" where
  "job_cancel now jobId m =
     (case job_get jobId m of None \<Rightarrow> Inl Job_not_found
      | Some job \<Rightarrow>
        (if jb_state job = JCOMPLETED \<or> jb_state job = JCANCELLED then Inl Job_already_cancelled
         else case job_transition now JCANCELLING job m of (job, m) \<Rightarrow>
           Inr (job_transition now JCANCELLED (job\<lparr>jb_finished_at := Some now\<rparr>) m)))"

text \<open>\<open>run\<close> up to the await: both lookups, then \<open>executeJob\<close> up to the call of the runner.\<close>

definition executeJob_start :: "job_record \<Rightarrow> job_manager \<Rightarrow> job_manager" where
  "executeJob_start job m =
     (let job = job\<lparr>jb_state := JRUNNING\<rparr>;
          m = job_emit (JobStateChanged (jb_job_id job) JRUNNING (jb_progress job) (Some (jb_message job))) (job_save job m)
      in m\<lparr>jm_active := jm_active m @
             [\<lparr>ar_id = jm_next_run m, ar_job = job, ar_progress = 0,
               ar_cancellation = new_cancellation (jb_cancellation_token job),
               ar_signal = new_cancellation (jb_cancellation_token job)\<rparr>],
           jm_next_run := jm_next_run m + 1\<rparr>)"

definition run_start :: "string \<Rightarrow> job_manager \<Rightarrow> job_error + job_manager" where
  "run_start jobId m =
     (case job_get jobId m of None \<Rightarrow> Inl Job_not_found
      | Some job \<Rightarrow> if jb_type job \<notin> set (jm_runners m) then Inl Job_not_found
                    else Inr (executeJob_start job m))"

definition find_run :: "nat \<Rightarrow> job_manager \<Rightarrow> active_run option" where
  "find_run rid m = List.find (\<lambda>a. ar_id a = rid) (jm_active m)"

definition put_run :: "active_run \<Rightarrow> job_manager \<Rightarrow> job_manager" where
  "put_run a m = m\<lparr>jm_active := map (\<lambda>b. if ar_id b = ar_id a then a else b) (jm_active m)\<rparr>"

definition drop_run :: "nat \<Rightarrow> job_manager \<Rightarrow> job_manager" where
  "drop_run rid m = m\<lparr>jm_active := filter (\<lambda>b. ar_id b \<noteq> rid) (jm_active m)\<rparr>"

text \<open>The \<open>report\<close> of the runner's context; an absent or empty message leaves the old one.\<close>

definition job_report :: "rat option \<Rightarrow> string option \<Rightarrow> active_run \<Rightarrow> job_manager \<Rightarrow> job_manager" where
  "job_report p msg a m =
     (let next = progress_report p (ar_progress a);
          job = (ar_job a)\<lparr>jb_progress := next\<rparr>;
          job = (case msg of None \<Rightarrow> job | Some t \<Rightarrow> if t = [] then job else job\<lparr>jb_message := t\<rparr>)
      in job_emit (JobProgress_event (jb_job_id job) next msg)
           (job_save job (put_run (a\<lparr>ar_job := job, ar_progress := next\<rparr>) m)))"

definition run_report :: "nat \<Rightarrow> rat option \<Rightarrow> string option \<Rightarrow> job_manager \<Rightarrow> job_manager" where
  "run_report rid p msg m = (case find_run rid m of None \<Rightarrow> m | Some a \<Rightarrow> job_report p msg a m)"

text \<open>
  The runner resolved: its result, if any, is stored in the job (the object \<open>executeJob\<close> returns is the
  job itself, so that \<open>run\<close> keeps the result), and the job is completed.
\<close>

definition run_resolve :: "string \<Rightarrow> nat \<Rightarrow> string option \<Rightarrow> job_manager \<Rightarrow> job_manager" where
  "run_resolve now rid result m =
     (case find_run rid m of None \<Rightarrow> m
      | Some a \<Rightarrow>
        let job = (case result of None \<Rightarrow> ar_job a | Some r \<Rightarrow> (ar_job a)\<lparr>jb_result := Some r\<rparr>)
        in snd (job_complete now job (drop_run rid m)))"

text \<open>
  The runner threw: \<open>run\<close> asks its own cancellation object; a throw of the \<open>cancel\<close> inside the catch
  rejects the promise of \<open>run\<close>.
\<close>

definition run_reject :: "string \<Rightarrow> nat \<Rightarrow> string \<Rightarrow> job_manager \<Rightarrow> job_error + job_manager" where
  "run_reject now rid err m =
     (case find_run rid m of None \<Rightarrow> Inr m
      | Some a \<Rightarrow>
        let m = drop_run rid m
        in if cn_cancelled (ar_cancellation a) then map_sum id snd (job_cancel now (jb_job_id (ar_job a)) m)
           else Inr (snd (job_fail now (ar_job a) err m)))"

subsection \<open>Recovery\<close>

record recovery_decision =
  rd_job_id :: string
  rd_state :: job_state
  rd_automatic_replay :: bool
  rd_duplicate_mutation :: bool

text \<open>\<open>recoverJob\<close> returns the decision and changes its argument, a copy the repository handed out.\<close>

definition recoverJob :: "job_record \<Rightarrow> recovery_decision \<times> job_record" where
  "recoverJob job =
     (if jb_state job = JRUNNING \<or> jb_state job = JCANCELLING then
        let idempotent = (case jb_result job of None \<Rightarrow> False | Some r \<Rightarrow> js_includes r ''idempotent'');
            decision = \<lparr>rd_job_id = jb_job_id job, rd_state = (if idempotent then JQUEUED else JFAILED),
                        rd_automatic_replay = idempotent, rd_duplicate_mutation = False\<rparr>
        in (decision, if idempotent then job
              else job\<lparr>jb_state := JFAILED, jb_error := Some ''interrupted; not auto-replayed (non-idempotent)''\<rparr>)
      else (\<lparr>rd_job_id = jb_job_id job, rd_state = jb_state job, rd_automatic_replay = False,
             rd_duplicate_mutation = False\<rparr>, job))"

definition rewrite_decided :: "recovery_decision \<Rightarrow> job_row list \<Rightarrow> job_row list" where
  "rewrite_decided d rows = (case repo_get (rd_job_id d) rows of None \<Rightarrow> rows | Some j \<Rightarrow> repo_update j rows)"

definition recoverAll :: "job_manager \<Rightarrow> recovery_decision list \<times> job_manager" where
  "recoverAll m =
     (let decisions = map (fst \<circ> recoverJob) (repo_list (Some JRUNNING) (jm_rows m))
                    @ map (fst \<circ> recoverJob) (repo_list (Some JCANCELLING) (jm_rows m))
      in (decisions, m\<lparr>jm_rows := fold rewrite_decided decisions (jm_rows m)\<rparr>))"

subsection \<open>The desktop service\<close>

definition service_create :: "string \<Rightarrow> string \<Rightarrow> job_type \<Rightarrow> json \<Rightarrow> bool \<Rightarrow> string option \<Rightarrow> job_manager \<Rightarrow>
    job_error + (job_record \<times> job_manager)" where
  "service_create jobId now ty request idempotent token m =
     (case job_create jobId now ty idempotent token m of Inl e \<Rightarrow> Inl e
      | Inr (job, m) \<Rightarrow> Inr (job, m\<lparr>jm_pending := map_set jobId request (jm_pending m)\<rparr>))"

definition requestFor :: "string \<Rightarrow> job_manager \<Rightarrow> json option" where
  "requestFor jobId m = map_of (jm_pending m) jobId"

definition job_forget :: "string \<Rightarrow> job_manager \<Rightarrow> job_manager" where
  "job_forget jobId m = m\<lparr>jm_pending := map_delete jobId (jm_pending m)\<rparr>"

text \<open>The calls of the service and the answers of the runners, as one step.\<close>

datatype job_call =
    C_register job_type
  | C_create string string job_type json bool "string option"
  | C_run string
  | C_report nat "rat option" "string option"
  | C_resolve string nat "string option"
  | C_reject string nat string
  | C_cancel string string
  | C_recover
  | C_forget string

definition or_same :: "job_manager \<Rightarrow> 'e + job_manager \<Rightarrow> job_manager" where
  "or_same m r = (case r of Inl _ \<Rightarrow> m | Inr m' \<Rightarrow> m')"

fun job_step :: "job_call \<Rightarrow> job_manager \<Rightarrow> job_manager" where
  "job_step (C_register t) m = job_register t m"
| "job_step (C_create i now ty req idem tok) m = or_same m (map_sum id snd (service_create i now ty req idem tok m))"
| "job_step (C_run i) m = or_same m (run_start i m)"
| "job_step (C_report rid p msg) m = run_report rid p msg m"
| "job_step (C_resolve now rid res) m = run_resolve now rid res m"
| "job_step (C_reject now rid err) m = or_same (drop_run rid m) (run_reject now rid err m)"
| "job_step (C_cancel now i) m = or_same m (map_sum id snd (job_cancel now i m))"
| "job_step C_recover m = snd (recoverAll m)"
| "job_step (C_forget i) m = job_forget i m"

definition new_manager :: job_manager where
  "new_manager = \<lparr>jm_runners = [], jm_rows = [], jm_active = [], jm_next_run = 0, jm_events = [], jm_pending = []\<rparr>"

end
