(* ===== verification/Jobs_Props.thy ===== *)
theory Jobs_Props imports Jobs begin

text \<open>
  Facts about background jobs. The contract between the manager and a job repository is the locale
  \<open>job_store\<close> (what a read returns after an update), interpreted on the SQLite repository; the life of a
  job, the bounds of its progress and what recovery does to the table follow from it and from the
  invariant of the manager's steps.
\<close>

lemmas job_defs = job_emit_def job_save_def job_register_def
  job_transition_def job_complete_def job_fail_def find_run_def put_run_def drop_run_def

subsection \<open>Repositories\<close>

locale job_store =
  fixes get :: "string \<Rightarrow> 's \<Rightarrow> job_record option"
    and update :: "job_record \<Rightarrow> 's \<Rightarrow> 's"
    and merge :: "job_record \<Rightarrow> job_record \<Rightarrow> job_record"
    and wf :: "'s \<Rightarrow> bool"
  assumes get_id: "wf s \<Longrightarrow> get i s = Some j \<Longrightarrow> jb_job_id j = i"
    and update_same: "wf s \<Longrightarrow> get (jb_job_id j) s = Some old \<Longrightarrow> get (jb_job_id j) (update j s) = Some (merge old j)"
    and update_other: "wf s \<Longrightarrow> i \<noteq> jb_job_id j \<Longrightarrow> get i (update j s) = get i s"
    and merge_self: "merge j j = j"
    and update_wf: "wf s \<Longrightarrow> wf (update j s)"
begin

lemma write_back:
  assumes "wf s" and "get i s = Some j"
  shows "get k (update j s) = get k s"
proof -
  have "jb_job_id j = i" using assms by (rule get_id)
  then show ?thesis
    using assms update_same [of s j j] update_other [of s k j] merge_self by (cases "k = i") auto
qed

lemma write_back_all:
  "wf s \<Longrightarrow> wf (fold (\<lambda>i s. case get i s of None \<Rightarrow> s | Some j \<Rightarrow> update j s) is s)
     \<and> get k (fold (\<lambda>i s. case get i s of None \<Rightarrow> s | Some j \<Rightarrow> update j s) is s) = get k s"
  by (induction "is" arbitrary: s) (auto simp: write_back update_wf split: option.splits)

end

definition keep_created :: "job_record \<Rightarrow> job_record \<Rightarrow> job_record" where
  "keep_created old j = j\<lparr>jb_type := jb_type old, jb_started_at := jb_started_at old\<rparr>"

lemma parse_stringify [simp]: "parse_cell (Some (stringify_cell v)) = v"
  by (cases v) auto

lemma mapJob_write_row [simp]:
  "jr_job_id r = jb_job_id j \<Longrightarrow> mapJob (write_row j r) = keep_created (mapJob r) j"
  by (simp add: mapJob_def write_row_def keep_created_def)

lemma jr_job_id_write_row [simp]: "jr_job_id (write_row j r) = jr_job_id r"
  by (simp add: write_row_def)

lemma repo_get_Nil [simp]: "repo_get i [] = None"
  by (simp add: repo_get_def)

lemma repo_get_Cons:
  "repo_get i (r # rows) = (if jr_job_id r = i then Some (mapJob r) else repo_get i rows)"
  by (simp add: repo_get_def)

lemma repo_get_append:
  "repo_get i (rows @ rows') = (case repo_get i rows of None \<Rightarrow> repo_get i rows' | Some j \<Rightarrow> Some j)"
  by (induction rows) (auto simp: repo_get_Cons)

lemma repo_get_None_iff: "repo_get i rows = None \<longleftrightarrow> i \<notin> jr_job_id ` set rows"
  by (induction rows) (auto simp: repo_get_Cons)

lemma repo_get_id: "repo_get i rows = Some j \<Longrightarrow> jb_job_id j = i"
  by (induction rows) (auto simp: repo_get_Cons mapJob_def split: if_splits)

lemma repo_update_Cons:
  "repo_update j (r # rows) = (if jr_job_id r = jb_job_id j then write_row j r else r) # repo_update j rows"
  by (simp add: repo_update_def)

lemma repo_get_update:
  "repo_get i (repo_update j rows) =
     (if i = jb_job_id j then map_option (\<lambda>old. keep_created old j) (repo_get i rows) else repo_get i rows)"
proof (induction rows)
  case Nil
  then show ?case by (simp add: repo_update_def)
next
  case (Cons r rows)
  then show ?case by (auto simp: repo_update_Cons repo_get_Cons)
qed

lemma ids_repo_update [simp]: "map jr_job_id (repo_update j rows) = map jr_job_id rows"
  by (simp add: repo_update_def)

interpretation sqlite_jobs: job_store repo_get repo_update keep_created "\<lambda>_. True"
  by unfold_locales (auto simp: repo_get_id repo_get_update keep_created_def)

definition mem_wf :: "(string \<times> job_record) list \<Rightarrow> bool" where
  "mem_wf ps = (\<forall>p\<in>set ps. jb_job_id (snd p) = fst p)"

lemma mem_update_wf: "mem_wf ps \<Longrightarrow> mem_wf (mem_update j ps)"
  unfolding mem_wf_def mem_update_def by (induction ps) auto

interpretation memory_jobs: job_store mem_get mem_update "\<lambda>old j. j" mem_wf
proof unfold_locales
  show "mem_wf s \<Longrightarrow> mem_get i s = Some j \<Longrightarrow> jb_job_id j = i" for s i j
    by (fastforce simp: mem_wf_def mem_get_def dest: map_of_SomeD)
qed (auto simp: mem_get_def mem_update_def intro: mem_update_wf [unfolded mem_update_def])

lemma repo_create_reads_back:
  assumes "repo_create j rows = Inr rows'"
  shows "repo_get i rows' = (if i = jb_job_id j then Some j else repo_get i rows)"
proof -
  have new: "repo_get (jb_job_id j) rows = None"
    using assms by (auto simp: repo_create_def repo_get_None_iff split: if_splits)
  show ?thesis
  proof (cases "i = jb_job_id j")
    case True
    with assms new show ?thesis
      by (auto simp: repo_create_def repo_get_append repo_get_Cons mapJob_def split: if_splits)
  next
    case False
    with assms show ?thesis
      by (auto simp: repo_create_def repo_get_append repo_get_Cons split: if_splits option.splits)
  qed
qed

subsection \<open>What a read returns after each operation\<close>

lemma job_get_emit [simp]: "job_get i (job_emit e m) = job_get i m"
  by (simp add: job_get_def job_emit_def)

lemma job_get_save:
  "job_get i (job_save j m) =
     (if i = jb_job_id j then map_option (\<lambda>old. keep_created old j) (job_get i m) else job_get i m)"
  by (simp add: job_get_def job_save_def repo_get_update)

lemma job_get_runs [simp]:
  "job_get i (put_run a m) = job_get i m" "job_get i (drop_run r m) = job_get i m"
  by (simp_all add: job_get_def put_run_def drop_run_def)

lemma job_get_id: "job_get i m = Some j \<Longrightarrow> jb_job_id j = i"
  by (simp add: job_get_def repo_get_id)

definition finished :: "job_state \<Rightarrow> bool" where
  "finished st \<longleftrightarrow> st = JCOMPLETED \<or> st = JFAILED \<or> st = JCANCELLED"

lemma job_get_transition:
  "job_get i (snd (job_transition now st j m)) =
     (if i = jb_job_id j
      then map_option (\<lambda>old. keep_created old (j\<lparr>jb_state := st, jb_finished_at := (if finished st then Some now else jb_finished_at j)\<rparr>)) (job_get i m)
      else job_get i m)"
  by (auto simp: job_transition_def Let_def job_get_save finished_def)

lemma keep_created_idem [simp]: "keep_created (keep_created o1 j) k = keep_created o1 k"
  by (simp add: keep_created_def)

lemma keep_created_fields [simp]:
  "jb_job_id (keep_created old j) = jb_job_id j" "jb_state (keep_created old j) = jb_state j"
  "jb_progress (keep_created old j) = jb_progress j" "jb_message (keep_created old j) = jb_message j"
  "jb_finished_at (keep_created old j) = jb_finished_at j" "jb_error (keep_created old j) = jb_error j"
  "jb_result (keep_created old j) = jb_result j" "jb_cancellation_token (keep_created old j) = jb_cancellation_token j"
  "jb_type (keep_created old j) = jb_type old" "jb_started_at (keep_created old j) = jb_started_at old"
  by (simp_all add: keep_created_def)

subsection \<open>The invariant of the active runs\<close>

definition run_ok :: "active_run \<Rightarrow> bool" where
  "run_ok a \<longleftrightarrow> \<not> cn_cancelled (ar_cancellation a) \<and> \<not> cn_cancelled (ar_signal a)
     \<and> 0 \<le> ar_progress a \<and> ar_progress a \<le> 100"

definition runs_inv :: "job_manager \<Rightarrow> bool" where
  "runs_inv m \<longleftrightarrow> (\<forall>a\<in>set (jm_active m). run_ok a \<and> ar_id a < jm_next_run m)"

lemma active_transition [simp]:
  "jm_active (snd (job_transition now st j m)) = jm_active m"
  "jm_next_run (snd (job_transition now st j m)) = jm_next_run m"
  by (simp_all add: job_transition_def Let_def job_emit_def job_save_def)

lemma progress_report_bounds: "0 \<le> v \<Longrightarrow> v \<le> 100 \<Longrightarrow> v \<le> progress_report p v \<and> progress_report p v \<le> 100"
  by (auto simp: progress_report_def split: option.splits)

lemma find_run_SomeD: "find_run rid m = Some a \<Longrightarrow> a \<in> set (jm_active m) \<and> ar_id a = rid"
  by (auto simp: find_run_def find_Some_iff in_set_conv_nth)

lemma runs_inv_cong:
  "jm_active m' = jm_active m \<Longrightarrow> jm_next_run m' = jm_next_run m \<Longrightarrow> runs_inv m \<Longrightarrow> runs_inv m'"
  by (simp add: runs_inv_def)

lemma runs_inv_drop: "runs_inv m \<Longrightarrow> runs_inv (drop_run rid m)"
  by (auto simp: runs_inv_def drop_run_def)

lemma runs_inv_transition: "runs_inv m \<Longrightarrow> runs_inv (snd (job_transition now st j m))"
  by (simp add: runs_inv_def)

lemma runs_inv_create: "runs_inv m \<Longrightarrow> service_create i now ty req idem tok m = Inr (j, m') \<Longrightarrow> runs_inv m'"
  by (rule runs_inv_cong [of _ m])
    (auto simp: service_create_def job_create_def Let_def job_emit_def split: sum.splits)

lemma runs_inv_start: "runs_inv m \<Longrightarrow> run_start i m = Inr m' \<Longrightarrow> runs_inv m'"
  by (fastforce simp: run_start_def executeJob_start_def Let_def job_emit_def job_save_def runs_inv_def run_ok_def
      new_cancellation_def split: option.splits if_splits)

lemma run_ok_report: "run_ok a \<Longrightarrow> run_ok (a\<lparr>ar_job := j, ar_progress := progress_report p (ar_progress a)\<rparr>)"
  using progress_report_bounds [of "ar_progress a" p] by (auto simp: run_ok_def)

lemma runs_inv_report: 
  assumes "runs_inv m"
  shows "runs_inv (run_report rid p msg m)"
proof (cases "find_run rid m")
  case None
  with assms show ?thesis by (simp add: run_report_def)
next
  case (Some a)
  then have "run_ok a" "ar_id a < jm_next_run m"
    using assms find_run_SomeD by (auto simp: runs_inv_def)
  with assms Some show ?thesis
    by (auto simp: run_report_def job_report_def Let_def job_emit_def job_save_def put_run_def runs_inv_def
        intro: run_ok_report)
qed

lemma runs_inv_cancel: "runs_inv m \<Longrightarrow> job_cancel now i m = Inr (j, m') \<Longrightarrow> runs_inv m'"
  by (rule runs_inv_cong [of _ m])
    (auto simp: job_cancel_def job_transition_def Let_def job_emit_def job_save_def split: option.splits if_splits)

lemma run_reject_fails:
  "runs_inv m \<Longrightarrow> find_run rid m = Some a \<Longrightarrow>
     run_reject now rid err m = Inr (snd (job_fail now (ar_job a) err (drop_run rid m)))"
  using find_run_SomeD [of rid m a] by (auto simp: run_reject_def runs_inv_def run_ok_def Let_def)

lemma runs_inv_step: "runs_inv m \<Longrightarrow> runs_inv (job_step c m)"
proof (cases c)
  case (C_register t)
  then show "runs_inv m \<Longrightarrow> ?thesis" by (auto simp: job_register_def runs_inv_def)
next
  case (C_create i now ty req idem tok)
  then show "runs_inv m \<Longrightarrow> ?thesis"
    by (cases "service_create i now ty req idem tok m") (auto simp: or_same_def elim: runs_inv_create)
next
  case (C_run i)
  then show "runs_inv m \<Longrightarrow> ?thesis" by (auto simp: or_same_def split: sum.splits elim: runs_inv_start)
next
  case (C_report rid p msg)
  then show "runs_inv m \<Longrightarrow> ?thesis" by (simp add: runs_inv_report)
next
  case (C_resolve now rid res)
  then show "runs_inv m \<Longrightarrow> ?thesis"
    by (auto simp: run_resolve_def job_complete_def Let_def runs_inv_transition runs_inv_drop split: option.splits)
next
  case (C_reject now rid err)
  then show "runs_inv m \<Longrightarrow> ?thesis"
    by (cases "find_run rid m")
      (simp add: or_same_def run_reject_def runs_inv_drop,
       simp add: or_same_def run_reject_fails job_fail_def runs_inv_transition runs_inv_drop)
next
  case (C_cancel now i)
  then show "runs_inv m \<Longrightarrow> ?thesis"
    by (cases "job_cancel now i m") (auto simp: or_same_def elim: runs_inv_cancel)
next
  case C_recover
  then show "runs_inv m \<Longrightarrow> ?thesis" by (auto simp: recoverAll_def runs_inv_def Let_def)
next
  case (C_forget i)
  then show "runs_inv m \<Longrightarrow> ?thesis" by (auto simp: job_forget_def runs_inv_def)
qed

interpretation runs: step_invariant job_step runs_inv "\<lambda>_. True"
  by unfold_locales (rule runs_inv_step)

lemma runs_inv_reachable: "runs_inv (run job_step cs new_manager)"
  by (rule runs.run_keeps) (auto simp: runs_inv_def new_manager_def)

subsection \<open>One run of a job\<close>

definition run_reports :: "nat \<Rightarrow> (rat option \<times> string option) list \<Rightarrow> job_manager \<Rightarrow> job_manager" where
  "run_reports rid reps m = fold (\<lambda>(p, msg). run_report rid p msg) reps m"

definition last_message :: "string option \<Rightarrow> string \<Rightarrow> string" where
  "last_message msg t = (case msg of None \<Rightarrow> t | Some s \<Rightarrow> if s = [] then t else s)"

definition reported :: "(rat option \<times> string option) list \<Rightarrow> rat \<Rightarrow> rat" where
  "reported reps v = fold (\<lambda>(p, msg). progress_report p) reps v"

definition messaged :: "(rat option \<times> string option) list \<Rightarrow> string \<Rightarrow> string" where
  "messaged reps t = fold (\<lambda>(p, msg). last_message msg) reps t"

lemma reported_Cons [simp]: "reported ((p, msg) # reps) v = reported reps (progress_report p v)"
  by (simp add: reported_def)

lemma messaged_Cons [simp]: "messaged ((p, msg) # reps) t = messaged reps (last_message msg t)"
  by (simp add: messaged_def)

lemma run_reports_Cons [simp]:
  "run_reports rid ((p, msg) # reps) m = run_reports rid reps (run_report rid p msg m)"
  by (simp add: run_reports_def)

lemma reported_bounds: "0 \<le> v \<Longrightarrow> v \<le> 100 \<Longrightarrow> v \<le> reported reps v \<and> reported reps v \<le> 100"
proof (induction reps arbitrary: v)
  case Nil
  then show ?case by (simp add: reported_def)
next
  case (Cons r reps)
  obtain p msg where r: "r = (p, msg)" by force
  have "v \<le> progress_report p v" "progress_report p v \<le> 100"
    using progress_report_bounds Cons.prems by auto
  with Cons.IH [of "progress_report p v"] Cons.prems r show ?case by auto
qed

lemma reported_covers: "0 \<le> v \<Longrightarrow> v \<le> 100 \<Longrightarrow> (Some p, msg) \<in> set reps \<Longrightarrow> min 100 p \<le> reported reps v"
proof (induction reps arbitrary: v)
  case Nil
  then show ?case by simp
next
  case (Cons r reps)
  obtain q t where r: "r = (q, t)" by force
  have b: "0 \<le> progress_report q v" "progress_report q v \<le> 100"
    using progress_report_bounds [of v q] Cons.prems by auto
  show ?case
  proof (cases "(Some p, msg) \<in> set reps")
    case True
    with Cons.IH [OF b] r show ?thesis by simp
  next
    case False
    then have "q = Some p" using Cons.prems r by auto
    then have "min 100 p \<le> progress_report q v" by (simp add: progress_report_def)
    also have "\<dots> \<le> reported reps (progress_report q v)" using reported_bounds [OF b] by simp
    finally show ?thesis using r by simp
  qed
qed

text \<open>
  The run \<open>rid\<close> works on the job \<open>j\<close>: its local copy is \<open>j\<close>, and the table holds the same values.
\<close>

definition works_on :: "nat \<Rightarrow> job_record \<Rightarrow> rat \<Rightarrow> job_manager \<Rightarrow> bool" where
  "works_on rid j v m \<longleftrightarrow> job_get (jb_job_id j) m = Some j
     \<and> (\<exists>a. find_run rid m = Some a \<and> ar_job a = j \<and> ar_progress a = v)"

lemma find_run_put:
  "find_run rid m = Some a \<Longrightarrow> ar_id b = rid \<Longrightarrow> find_run rid (put_run b m) = Some b"
proof -
  have "List.find (\<lambda>a. ar_id a = rid) xs = Some a \<Longrightarrow> ar_id b = rid \<Longrightarrow>
    List.find (\<lambda>a. ar_id a = rid) (map (\<lambda>c. if ar_id c = ar_id b then b else c) xs) = Some b" for xs
    by (induction xs) (auto split: if_splits)
  then show "find_run rid m = Some a \<Longrightarrow> ar_id b = rid \<Longrightarrow> find_run rid (put_run b m) = Some b"
    by (simp add: find_run_def put_run_def)
qed

lemma find_run_keeps [simp]:
  "find_run rid (job_emit e m) = find_run rid m" "find_run rid (job_save j m) = find_run rid m"
  by (simp_all add: find_run_def job_emit_def job_save_def)

lemma keep_created_same: "jb_type j = jb_type old \<Longrightarrow> jb_started_at j = jb_started_at old \<Longrightarrow> keep_created old j = j"
  by (simp add: keep_created_def)

lemma works_on_report:
  assumes "works_on rid j v m"
  shows "works_on rid (j\<lparr>jb_progress := progress_report p v, jb_message := last_message msg (jb_message j)\<rparr>)
           (progress_report p v) (run_report rid p msg m)"
proof -
  obtain a where a: "find_run rid m = Some a" "ar_job a = j" "ar_progress a = v"
    and g: "job_get (jb_job_id j) m = Some j"
    using assms by (auto simp: works_on_def)
  define k where "k = j\<lparr>jb_progress := progress_report p v, jb_message := last_message msg (jb_message j)\<rparr>"
  have eq: "run_report rid p msg m =
      job_emit (JobProgress_event (jb_job_id k) (progress_report p v) msg)
        (job_save k (put_run (a\<lparr>ar_job := k, ar_progress := progress_report p v\<rparr>) m))"
    using a by (auto simp: run_report_def job_report_def Let_def k_def last_message_def split: option.splits)
  have "ar_id a = rid" using find_run_SomeD a(1) by blast
  then have "find_run rid (run_report rid p msg m) = Some (a\<lparr>ar_job := k, ar_progress := progress_report p v\<rparr>)"
    using find_run_put [OF a(1)] by (simp add: eq)
  moreover have "job_get (jb_job_id k) (run_report rid p msg m) = Some k"
    using g by (simp add: eq job_get_save keep_created_same k_def)
  ultimately show ?thesis by (auto simp: works_on_def k_def)
qed

lemma works_on_reports:
  "works_on rid j v m \<Longrightarrow>
     \<exists>k. works_on rid k (reported reps v) (run_reports rid reps m)
       \<and> k = j\<lparr>jb_progress := (if reps = [] then jb_progress j else reported reps v), jb_message := messaged reps (jb_message j)\<rparr>"
proof (induction reps arbitrary: j v m)
  case Nil
  then show ?case by (simp add: run_reports_def reported_def messaged_def)
next
  case (Cons r reps)
  obtain p msg where r: "r = (p, msg)" by force
  have "reported [] w = w" for w by (simp add: reported_def)
  with Cons.IH [OF works_on_report [OF Cons.prems, where p = p and msg = msg]] r show ?case
    by (cases "reps = []") auto
qed

lemma find_append_fresh: "(\<forall>a\<in>set xs. \<not> P a) \<Longrightarrow> List.find P (xs @ [b]) = (if P b then Some b else None)"
  by (induction xs) auto

lemma find_run_fresh:
  assumes "runs_inv m" and "run_start i m = Inr m'" and "job_get i m = Some j"
  shows "works_on (jm_next_run m) (j\<lparr>jb_state := JRUNNING\<rparr>) 0 m'"
proof -
  have "List.find (\<lambda>a. ar_id a = jm_next_run m) (jm_active m @ [b]) = Some b" if "ar_id b = jm_next_run m" for b
    using assms(1) that by (subst find_append_fresh) (auto simp: runs_inv_def)
  then show ?thesis
    using assms by (auto simp: works_on_def run_start_def executeJob_start_def Let_def find_run_def job_emit_def job_save_def
        job_get_def repo_get_update keep_created_same job_get_id [unfolded job_get_def] dest: repo_get_id split: if_splits)
qed

lemma works_on_resolve:
  assumes "works_on rid j v m"
  shows "job_get (jb_job_id j) (run_resolve now rid res m) =
    Some (j\<lparr>jb_state := JCOMPLETED, jb_finished_at := Some now, jb_result := (case res of None \<Rightarrow> jb_result j | Some r \<Rightarrow> Some r)\<rparr>)"
proof -
  obtain a where "find_run rid m = Some a" "ar_job a = j" and "job_get (jb_job_id j) m = Some j"
    using assms by (auto simp: works_on_def)
  then show ?thesis
    by (cases res)
      (simp_all add: run_resolve_def job_complete_def Let_def job_get_transition finished_def keep_created_def)
qed

lemma works_on_reject:
  assumes "runs_inv m" and "works_on rid j v m"
  shows "\<exists>m'. run_reject now rid err m = Inr m' \<and> job_get (jb_job_id j) m' =
    Some (j\<lparr>jb_state := JFAILED, jb_finished_at := Some now, jb_error := Some (take 500 err)\<rparr>)"
proof -
  obtain a where "find_run rid m = Some a" "ar_job a = j" and "job_get (jb_job_id j) m = Some j"
    using assms by (auto simp: works_on_def)
  then show ?thesis
    using assms(1) by (simp add: run_reject_fails job_fail_def job_get_transition finished_def keep_created_def)
qed

lemma runs_inv_reports: "runs_inv m \<Longrightarrow> runs_inv (run_reports rid reps m)"
  by (induction reps arbitrary: m) (auto simp: runs_inv_report, simp add: run_reports_def)

definition created_job :: "string \<Rightarrow> string \<Rightarrow> job_type \<Rightarrow> bool \<Rightarrow> string option \<Rightarrow> job_record" where
  "created_job i now ty idem tok = \<lparr>jb_job_id = i, jb_type = ty, jb_state = JQUEUED, jb_progress = 0, jb_message = [],
     jb_started_at = Some now, jb_finished_at = None, jb_cancellation_token = tok, jb_error = None,
     jb_result = (if idem then Some idempotent_mark else None)\<rparr>"

lemma job_create_ok:
  assumes "job_get i m = None"
  obtains m' where "job_create i now ty idem tok m = Inr (created_job i now ty idem tok, m')"
    and "job_get i m' = Some (created_job i now ty idem tok)"
    and "jm_runners m' = jm_runners m" and "jm_active m' = jm_active m" and "jm_next_run m' = jm_next_run m"
proof -
  have "i \<notin> set (map jr_job_id (jm_rows m))"
    using assms by (auto simp: job_get_def repo_get_None_iff)
  then obtain rows where rows: "repo_create (created_job i now ty idem tok) (jm_rows m) = Inr rows"
    by (auto simp: repo_create_def created_job_def)
  show ?thesis
    using that rows repo_create_reads_back [OF rows, of i]
    by (auto simp: job_create_def Let_def created_job_def [symmetric] job_emit_def job_get_def)
      (auto simp: created_job_def)
qed

subsection \<open>Recovery\<close>

lemma recoverAll_reads: "job_get i (snd (recoverAll m)) = job_get i m"
proof -
  have "rewrite_decided d rows = (\<lambda>i s. case repo_get i s of None \<Rightarrow> s | Some j \<Rightarrow> repo_update j s) (rd_job_id d) rows" for d rows
    by (simp add: rewrite_decided_def)
  then have "fold rewrite_decided ds rows =
      fold (\<lambda>i s. case repo_get i s of None \<Rightarrow> s | Some j \<Rightarrow> repo_update j s) (map rd_job_id ds) rows" for ds rows
    by (induction ds arbitrary: rows) auto
  then show ?thesis
    using sqlite_jobs.write_back_all [where k = i] by (simp add: recoverAll_def Let_def job_get_def)
qed

lemma recoverJob_no_duplicate: "\<not> rd_duplicate_mutation (fst (recoverJob j))"
  by (simp add: recoverJob_def Let_def)

lemma recovery_decisions:
  "set (fst (recoverAll m)) = {fst (recoverJob (mapJob r)) |r. r \<in> set (jm_rows m) \<and> jr_state r \<in> {JRUNNING, JCANCELLING}}"
  by (auto simp: recoverAll_def Let_def repo_list_def)

subsection \<open>Properties\<close>

text \<open>
  Property C31. The life of a job. In every reachable state of the service, a job with a new id and a
  registered type can be created and started; it reads back as QUEUED, then RUNNING; after any sequence of
  reports the table holds the greatest progress reported so far, cut to the range 0 to 100 and never
  lowered, and the last non-empty message; when the runner resolves, the job is COMPLETED with the
  runner's result, and when it throws, FAILED with the first 500 characters of the error.
\<close>

theorem job_lifecycle:
  assumes m: "m = run job_step cs new_manager" and new: "job_get i m = None" and ty: "ty \<in> set (jm_runners m)"
  shows "\<exists>ma mb. job_create i now ty idem tok m = Inr (created_job i now ty idem tok, ma)
    \<and> job_get i ma = Some (created_job i now ty idem tok)
    \<and> run_start i ma = Inr mb
    \<and> (let k = (created_job i now ty idem tok)\<lparr>jb_state := JRUNNING, jb_progress := reported reps 0, jb_message := messaged reps []\<rparr>;
           mc = run_reports (jm_next_run m) reps mb
       in job_get i mc = Some k \<and> reported reps 0 \<in> {0..100} \<and> (\<forall>(p, msg)\<in>set reps. \<forall>x. p = Some x \<longrightarrow> min 100 x \<le> jb_progress k)
        \<and> job_get i (run_resolve later (jm_next_run m) res mc) =
            Some (k\<lparr>jb_state := JCOMPLETED, jb_finished_at := Some later, jb_result := (case res of None \<Rightarrow> jb_result k | Some r \<Rightarrow> Some r)\<rparr>)
        \<and> (\<exists>md. run_reject later (jm_next_run m) err mc = Inr md
            \<and> job_get i md = Some (k\<lparr>jb_state := JFAILED, jb_finished_at := Some later, jb_error := Some (take 500 err)\<rparr>)))"
proof -
  let ?j = "created_job i now ty idem tok"
  obtain ma where ma: "job_create i now ty idem tok m = Inr (?j, ma)" "job_get i ma = Some ?j"
    "jm_runners ma = jm_runners m" "jm_active ma = jm_active m" "jm_next_run ma = jm_next_run m"
    using job_create_ok [OF new] by metis
  have inv: "runs_inv ma" using runs_inv_reachable [of cs] ma m by (simp add: runs_inv_def)
  obtain mb where mb: "run_start i ma = Inr mb"
    using ma ty by (simp add: run_start_def created_job_def)
  let ?k = "?j\<lparr>jb_state := JRUNNING, jb_progress := reported reps 0, jb_message := messaged reps []\<rparr>"
  have w: "works_on (jm_next_run m) ?k (reported reps 0) (run_reports (jm_next_run m) reps mb)"
    using works_on_reports [OF find_run_fresh [OF inv mb ma(2)], of reps] ma(5)
    by (cases "reps = []") (simp_all add: created_job_def reported_def)
  have inv': "runs_inv (run_reports (jm_next_run m) reps mb)"
    using runs_inv_reports runs_inv_start [OF inv mb] by blast
  have i: "jb_job_id ?k = i" by (simp add: created_job_def)
  have "job_get i (run_reports (jm_next_run m) reps mb) = Some ?k"
    using w i by (simp add: works_on_def)
  moreover have "reported reps 0 \<in> {0..100}" using reported_bounds [of 0 reps] by simp
  moreover have "\<forall>(p, msg)\<in>set reps. \<forall>x. p = Some x \<longrightarrow> min 100 x \<le> jb_progress ?k"
    using reported_covers [of 0 _ _ reps] by auto
  ultimately show ?thesis
    using ma mb works_on_resolve [OF w] works_on_reject [OF inv' w, of later err] i by (auto simp: Let_def)
qed

theorem job_lifecycle_witness:
  "\<exists>ma mb. job_create ''j1'' ''t0'' Learning False None (run job_step [C_register Learning] new_manager)
      = Inr (created_job ''j1'' ''t0'' Learning False None, ma)
    \<and> run_start ''j1'' ma = Inr mb
    \<and> map_option jb_progress (job_get ''j1'' (run_reports 0 [(Some 40, None), (Some 30, None)] mb)) = Some 40"
proof -
  have new: "job_get ''j1'' (run job_step [C_register Learning] new_manager) = None"
    by (simp add: new_manager_def job_register_def job_get_def)
  have reg: "Learning \<in> set (jm_runners (run job_step [C_register Learning] new_manager))"
    by (simp add: new_manager_def job_register_def)
  have "reported [(Some 40, None), (Some 30, None)] 0 = 40"
    by (simp add: reported_def progress_report_def)
  moreover have "jm_next_run (run job_step [C_register Learning] new_manager) = 0"
    by (simp add: new_manager_def job_register_def)
  ultimately show ?thesis
    using job_lifecycle [OF refl new reg, of "''t0''" False None "[(Some 40, None), (Some 30, None)]" "[]" None "[]"]
    by (auto simp: Let_def)
qed

text \<open>
  A defect: cancelling a running job does not stop it. In every reachable state, cancelling a
  job whose runner is at work records CANCELLED, but neither of the run's cancellation objects is set,
  so that the runner never sees the cancellation; and when it resolves, the job becomes COMPLETED.
\<close>

theorem cancelled_job_still_completes:
  assumes m: "m = run job_step cs new_manager" and run: "find_run rid m = Some a"
    and i: "jb_job_id (ar_job a) = i" and get: "job_get i m = Some j" and st: "jb_state j = JRUNNING"
  shows "\<exists>k ma b. job_cancel now i m = Inr (k, ma) \<and> map_option jb_state (job_get i ma) = Some JCANCELLED
    \<and> find_run rid ma = Some b \<and> \<not> cn_cancelled (ar_signal b) \<and> \<not> cn_cancelled (ar_cancellation b)
    \<and> map_option jb_state (job_get i (run_resolve later rid res ma)) = Some JCOMPLETED"
proof -
  have ok: "\<not> cn_cancelled (ar_signal a)" "\<not> cn_cancelled (ar_cancellation a)"
    using runs_inv_reachable [of cs] find_run_SomeD [OF run] m by (auto simp: runs_inv_def run_ok_def)
  have "jb_job_id j = i" using get by (rule job_get_id)
  then obtain k ma where ma: "job_cancel now i m = Inr (k, ma)" "find_run rid ma = Some a"
    "map_option jb_state (job_get i ma) = Some JCANCELLED"
    using get st run by (auto simp: job_cancel_def job_transition_def Let_def job_get_save)
  obtain z where "job_get i ma = Some z" using ma(3) by auto
  then have "map_option jb_state (job_get i (run_resolve later rid res ma)) = Some JCOMPLETED"
    using ma(2) i by (cases res) (simp_all add: run_resolve_def job_complete_def Let_def job_get_transition)
  with ma ok show ?thesis by blast
qed

theorem cancelled_job_still_completes_witness:
  "\<exists>k ma b. job_cancel ''t1'' ''j'' (run job_step [C_register Audit, C_create ''j'' ''t0'' Audit (JObj []) False None, C_run ''j''] new_manager) = Inr (k, ma)
    \<and> map_option jb_state (job_get ''j'' ma) = Some JCANCELLED \<and> find_run 0 ma = Some b
    \<and> \<not> cn_cancelled (ar_signal b) \<and> \<not> cn_cancelled (ar_cancellation b)
    \<and> map_option jb_state (job_get ''j'' (run_resolve ''t2'' 0 None ma)) = Some JCOMPLETED"
  by (rule cancelled_job_still_completes [OF refl], simp_all add: new_manager_def job_register_def or_same_def service_create_def job_create_def Let_def repo_create_def
      job_emit_def run_start_def job_get_def repo_get_def executeJob_start_def job_save_def repo_update_def write_row_def
      find_run_def mapJob_def, simp_all)

text \<open>
  Another defect: startup recovery decides and does not write. For every interrupted job that
  was not created as idempotent, \<open>recoverAll\<close> answers with a decision FAILED without replay, and it never
  decides a duplicate mutation or a replay of a job without the mark; but every job reads the same after
  it as before, so that the interrupted jobs stay RUNNING or CANCELLING for ever.
\<close>

theorem recovery_is_not_persisted:
  "(\<forall>r\<in>set (jm_rows m). jr_state r \<in> {JRUNNING, JCANCELLING} \<longrightarrow>
      (\<exists>d\<in>set (fst (recoverAll m)). rd_job_id d = jr_job_id r
        \<and> (rd_automatic_replay d \<longleftrightarrow> (\<exists>t. jb_result (mapJob r) = Some t \<and> js_includes t ''idempotent''))
        \<and> rd_state d = (if rd_automatic_replay d then JQUEUED else JFAILED)))
   \<and> (\<forall>d\<in>set (fst (recoverAll m)). \<not> rd_duplicate_mutation d)
   \<and> job_get i (snd (recoverAll m)) = job_get i m"
proof (intro conjI ballI impI)
  fix r assume "r \<in> set (jm_rows m)" and st: "jr_state r \<in> {JRUNNING, JCANCELLING}"
  then have d: "fst (recoverJob (mapJob r)) \<in> set (fst (recoverAll m))"
    by (auto simp: recovery_decisions)
  show "\<exists>d\<in>set (fst (recoverAll m)). rd_job_id d = jr_job_id r
      \<and> (rd_automatic_replay d \<longleftrightarrow> (\<exists>t. jb_result (mapJob r) = Some t \<and> js_includes t ''idempotent''))
      \<and> rd_state d = (if rd_automatic_replay d then JQUEUED else JFAILED)"
    by (rule bexI [OF _ d]) (use st in \<open>auto simp: recoverJob_def Let_def mapJob_def split: option.splits\<close>)
next
  fix d assume "d \<in> set (fst (recoverAll m))"
  then show "\<not> rd_duplicate_mutation d"
    by (auto simp: recovery_decisions recoverJob_no_duplicate)
qed (rule recoverAll_reads)

theorem recovery_is_not_persisted_witness:
  "let m = run job_step [C_register Audit, C_create ''j'' ''t0'' Audit (JObj []) False None, C_run ''j''] new_manager
   in (\<exists>d\<in>set (fst (recoverAll m)). rd_job_id d = ''j'' \<and> rd_state d = JFAILED)
      \<and> map_option jb_state (job_get ''j'' (snd (recoverAll m))) = Some JRUNNING"
proof -
  define m where "m = run job_step [C_register Audit, C_create ''j'' ''t0'' Audit (JObj []) False None, C_run ''j''] new_manager"
  define r where "r = hd (jm_rows m)"
  have m: "r \<in> set (jm_rows m) \<and> jr_state r = JRUNNING \<and> jr_job_id r = ''j'' \<and> jb_result (mapJob r) = None
      \<and> map_option jb_state (job_get ''j'' m) = Some JRUNNING"
    by (simp add: r_def m_def new_manager_def job_register_def or_same_def service_create_def job_create_def Let_def repo_create_def
      job_emit_def run_start_def job_get_def repo_get_def executeJob_start_def job_save_def repo_update_def write_row_def mapJob_def)
  show ?thesis
    using recovery_is_not_persisted [of m "''j''"] bspec [of "set (jm_rows m)" _ r] m unfolding m_def [symmetric]
    by (metis insertI1 option.distinct(1))
qed

end
