(* ===== verification/Products.thy ===== *)
theory Products imports Canonical_Json begin

text \<open>
  The product repositories of \<open>packages/persistence/src\<close>: \<open>sqlite/sqlite-product-repository.ts\<close> and
  \<open>memory/memory-product-repository.ts\<close>, and the port through which the product optimization uses them
  (\<open>packages/product-optimization/src/ports/product-repository-port.ts\<close>). The table \<open>products\<close> is the list of its rows, in
  insertion order. The locale \<open>product_store\<close> states what the port promises; both repositories keep the promise.
\<close>

subsection \<open>Data\<close>

record product =
  pd_product_id :: string
  pd_title :: string
  pd_detail :: string
  pd_shop :: string
  pd_note :: string
  pd_last_optimized_at :: "string option"

record products_row = product +
  pd_created_at :: string
  pd_updated_at :: string

subsection \<open>SQLite\<close>

definition psql_get :: "string \<Rightarrow> products_row list \<Rightarrow> product option" where
  "psql_get i rows = map_option product.truncate (List.find (\<lambda>r. pd_product_id r = i) rows)"

text \<open>\<open>save\<close> is an upsert that names neither the creation time of an old row nor \<open>last_optimized_at\<close>.\<close>

definition psql_save :: "string \<Rightarrow> product \<Rightarrow> products_row list \<Rightarrow> products_row list" where
  "psql_save now p rows =
     (if pd_product_id p \<in> pd_product_id ` set rows
      then map (\<lambda>r. if pd_product_id r = pd_product_id p
                    then r\<lparr>pd_title := pd_title p, pd_detail := pd_detail p, pd_shop := pd_shop p, pd_note := pd_note p, pd_updated_at := now\<rparr>
                    else r) rows
      else rows @ [\<lparr>pd_product_id = pd_product_id p, pd_title = pd_title p, pd_detail = pd_detail p, pd_shop = pd_shop p,
             pd_note = pd_note p, pd_last_optimized_at = None, pd_created_at = now, pd_updated_at = now\<rparr>])"

definition psql_remove :: "string \<Rightarrow> products_row list \<Rightarrow> products_row list" where
  "psql_remove i rows = filter (\<lambda>r. pd_product_id r \<noteq> i) rows"

definition psql_list :: "products_row list \<Rightarrow> product list" where
  "psql_list rows = map product.truncate (sort_key pd_product_id rows)"

definition psql_applyDetail :: "string \<Rightarrow> string \<Rightarrow> string \<Rightarrow> products_row list \<Rightarrow> bool \<times> products_row list" where
  "psql_applyDetail now i detail rows =
     (i \<in> pd_product_id ` set rows,
      map (\<lambda>r. if pd_product_id r = i then r\<lparr>pd_detail := detail, pd_updated_at := now\<rparr> else r) rows)"

definition psql_updateDetail :: "string \<Rightarrow> string \<Rightarrow> string \<Rightarrow> string option \<Rightarrow> products_row list \<Rightarrow> bool \<times> products_row list" where
  "psql_updateDetail now i detail lastOptimizedAt rows =
     (let last = (case lastOptimizedAt of Some t \<Rightarrow> t | None \<Rightarrow> now) in
      (i \<in> pd_product_id ` set rows,
       map (\<lambda>r. if pd_product_id r = i then r\<lparr>pd_detail := detail, pd_last_optimized_at := Some last, pd_updated_at := now\<rparr> else r) rows))"

subsection \<open>Memory\<close>

definition pmem_get :: "string \<Rightarrow> (string \<times> product) list \<Rightarrow> product option" where
  "pmem_get i ps = map_of ps i"

definition pmem_save :: "product \<Rightarrow> (string \<times> product) list \<Rightarrow> (string \<times> product) list" where
  "pmem_save p ps = map_set (pd_product_id p) p ps"

definition pmem_remove :: "string \<Rightarrow> (string \<times> product) list \<Rightarrow> (string \<times> product) list" where
  "pmem_remove i ps = map_delete i ps"

definition pmem_list :: "(string \<times> product) list \<Rightarrow> product list" where
  "pmem_list ps = map snd ps"

definition pmem_applyDetail :: "string \<Rightarrow> string \<Rightarrow> (string \<times> product) list \<Rightarrow> bool \<times> (string \<times> product) list" where
  "pmem_applyDetail i detail ps = (case map_of ps i of
     None \<Rightarrow> (False, ps) | Some p \<Rightarrow> (True, map_set i (p\<lparr>pd_detail := detail\<rparr>) ps))"

definition pmem_updateDetail :: "string \<Rightarrow> string \<Rightarrow> string option \<Rightarrow> (string \<times> product) list \<Rightarrow> bool \<times> (string \<times> product) list" where
  "pmem_updateDetail i detail lastOptimizedAt ps = (case map_of ps i of
     None \<Rightarrow> (False, ps)
   | Some p \<Rightarrow>
       (let p = p\<lparr>pd_detail := detail\<rparr>;
            p = (case lastOptimizedAt of Some t \<Rightarrow> if t \<noteq> [] then p\<lparr>pd_last_optimized_at := Some t\<rparr> else p | None \<Rightarrow> p)
        in (True, map_set i p ps)))"

subsection \<open>The port\<close>

text \<open>\<open>rp_update\<close> is \<open>updateDetail\<close> with a time of optimization, the only way it is called.\<close>

record 's product_repository =
  rp_get :: "string \<Rightarrow> 's \<Rightarrow> product option"
  rp_update :: "string \<Rightarrow> string \<Rightarrow> string \<Rightarrow> 's \<Rightarrow> bool \<times> 's"

definition sqlite_products :: "string \<Rightarrow> products_row list product_repository" where
  "sqlite_products now = \<lparr>rp_get = psql_get, rp_update = (\<lambda>i d t. psql_updateDetail now i d (Some t))\<rparr>"

definition memory_products :: "(string \<times> product) list product_repository" where
  "memory_products = \<lparr>rp_get = pmem_get, rp_update = (\<lambda>i d t. pmem_updateDetail i d (Some t))\<rparr>"

locale product_store =
  fixes R :: "'s product_repository"
  assumes update_ok: "fst (rp_update R i d t s) \<longleftrightarrow> rp_get R i s \<noteq> None"
    and get_update: "t \<noteq> [] \<Longrightarrow> rp_get R k (snd (rp_update R i d t s)) =
      (if k = i then map_option (\<lambda>p. p\<lparr>pd_detail := d, pd_last_optimized_at := Some t\<rparr>) (rp_get R i s) else rp_get R k s)"

lemma psql_get_Nil [simp]: "psql_get i [] = None"
  by (simp add: psql_get_def)

lemma psql_get_Cons: "psql_get i (r # rows) = (if pd_product_id r = i then Some (product.truncate r) else psql_get i rows)"
  by (simp add: psql_get_def)

lemma psql_get_None_iff: "psql_get i rows = None \<longleftrightarrow> i \<notin> pd_product_id ` set rows"
  by (induction rows) (auto simp: psql_get_Cons)

lemma psql_get_updateDetail:
  "psql_get k (snd (psql_updateDetail now i d (Some t) rows)) =
     (if k = i then map_option (\<lambda>p. p\<lparr>pd_detail := d, pd_last_optimized_at := Some t\<rparr>) (psql_get i rows) else psql_get k rows)"
  by (induction rows) (auto simp: psql_updateDetail_def psql_get_Cons product.defs Let_def)

lemma psql_updateDetail_fst: "fst (psql_updateDetail now i d l rows) \<longleftrightarrow> i \<in> pd_product_id ` set rows"
  by (simp add: psql_updateDetail_def Let_def)

interpretation sqlite_store: product_store "sqlite_products now"
  by unfold_locales (simp_all add: sqlite_products_def psql_get_updateDetail psql_get_None_iff psql_updateDetail_fst)

interpretation memory_store: product_store memory_products
  by unfold_locales (auto simp: memory_products_def pmem_get_def pmem_updateDetail_def Let_def split: option.splits)

lemma psql_get_append: "psql_get i (rows @ [r]) = (case psql_get i rows of Some p \<Rightarrow> Some p
    | None \<Rightarrow> if pd_product_id r = i then Some (product.truncate r) else None)"
  by (induction rows) (auto simp: psql_get_Cons)

lemma psql_get_map_save:
  "psql_get i (map (\<lambda>r. if pd_product_id r = pd_product_id p
                    then r\<lparr>pd_title := pd_title p, pd_detail := pd_detail p, pd_shop := pd_shop p, pd_note := pd_note p, pd_updated_at := now\<rparr>
                    else r) rows)
   = (if i = pd_product_id p then map_option (\<lambda>old. p\<lparr>pd_last_optimized_at := pd_last_optimized_at old\<rparr>) (psql_get i rows) else psql_get i rows)"
  by (induction rows) (auto simp: psql_get_Cons product.defs)

lemma psql_get_save:
  "psql_get i (psql_save now p rows) =
     (if i = pd_product_id p
      then Some (p\<lparr>pd_last_optimized_at := (case psql_get i rows of Some old \<Rightarrow> pd_last_optimized_at old | None \<Rightarrow> None)\<rparr>)
      else psql_get i rows)"
proof (cases "psql_get (pd_product_id p) rows")
  case None
  then show ?thesis
    using psql_get_None_iff [of "pd_product_id p" rows]
    by (simp add: psql_save_def psql_get_append product.defs split: option.split)
next
  case (Some old)
  then have "pd_product_id p \<in> pd_product_id ` set rows" by (metis option.distinct(1) psql_get_None_iff)
  then show ?thesis using Some by (simp add: psql_save_def psql_get_map_save)
qed

text \<open>
  The two repositories differ: saving a product in memory replaces its time of optimization, so that a product saved without one may be
  optimized again at once; the table keeps the time.
\<close>

theorem saving_differs:
  assumes "psql_get (pd_product_id p) rows = Some old" and "pd_last_optimized_at p = None"
  shows "map_option pd_last_optimized_at (psql_get (pd_product_id p) (psql_save now p rows)) = Some (pd_last_optimized_at old)"
    and "map_option pd_last_optimized_at (pmem_get (pd_product_id p) (pmem_save p ps)) = Some None"
  using assms by (simp_all add: psql_get_save pmem_get_def pmem_save_def)

end
