(* ===== verification/Inbound_Normalizer.thy ===== *)
theory Inbound_Normalizer imports Canonical_Json begin

text \<open>
  The first stages of the inbound path: \<open>packages/platform-pdd/src/inbound-normalizer.ts\<close>,
  \<open>apps/desktop/src/main/platforms/pdd/pdd-inbound-event-candidate.ts\<close> and the item kinds of
  \<open>pdd-chat-list-transport.ts\<close>. A value of type \<open>unknown\<close> is a \<open>json\<close>; \<open>undefined\<close> is \<open>None\<close>, and
  a key that is absent reads as \<open>undefined\<close>. The lemmas state which payloads each stage lets through
  and that what it lets through is copied unchanged.
\<close>

subsection \<open>Reading unknown values\<close>

text \<open>Property access \<open>value.k\<close> on a value that is not \<open>null\<close>, and \<open>value?.k\<close> on one that may be.\<close>

fun jget :: "json \<Rightarrow> string \<Rightarrow> json option" where
  "jget (JObj kvs) k = map_of kvs k"
| "jget _ k = None"

definition opt_get :: "json option \<Rightarrow> string \<Rightarrow> json option" where
  "opt_get v k = (case v of None \<Rightarrow> None | Some w \<Rightarrow> jget w k)"

definition isRecord :: "json option \<Rightarrow> bool" where
  "isRecord v = (case v of Some (JObj _) \<Rightarrow> True | _ \<Rightarrow> False)"

definition as_string :: "json option \<Rightarrow> string option" where
  "as_string v = (case v of Some (JStr s) \<Rightarrow> Some s | _ \<Rightarrow> None)"

definition nonEmptyString :: "json option \<Rightarrow> bool" where
  "nonEmptyString v = (case as_string v of Some s \<Rightarrow> s \<noteq> [] | None \<Rightarrow> False)"

definition nonBlankString :: "json option \<Rightarrow> bool" where
  "nonBlankString v = (nonEmptyString v \<and> (case as_string v of Some s \<Rightarrow> js_trim s \<noteq> [] | None \<Rightarrow> False))"

text \<open>\<open>/^\d+$/\<close>.\<close>

definition customerUidString :: "json option \<Rightarrow> bool" where
  "customerUidString v = (case as_string v of Some s \<Rightarrow> s \<noteq> [] \<and> list_all is_digit s | None \<Rightarrow> False)"

definition is_nullish :: "json option \<Rightarrow> bool" where
  "is_nullish v = (v = None \<or> v = Some JNull)"

text \<open>What a value of type \<open>string\<close> reads as once a guard has accepted it.\<close>

definition string_of :: "json option \<Rightarrow> string" where
  "string_of v = (case as_string v of Some s \<Rightarrow> s | None \<Rightarrow> [])"

subsection \<open>The legacy normalizer\<close>

record opaque_fields =
  of_toUid :: "string option"
  of_preMsgId :: "json option"
  of_seqId :: "json option"
  of_baseSeqId :: "json option"
  of_targetId :: "json option"
  of_chatTypeId :: "json option"
  of_version :: "json option"
  of_type :: "json option"

record inbound_candidate =
  ic_customerUid :: string
  ic_platformMessageId :: string
  ic_content :: string
  ic_clientMessageId :: "string option"
  ic_opaque :: "opaque_fields option"

datatype normalization =
    Norm_normalized inbound_candidate
  | Norm_rejected string
  | Norm_unknown string

definition opaque_of :: "json \<Rightarrow> opaque_fields" where
  "opaque_of p = \<lparr>
     of_toUid = (if nonEmptyString (opt_get (jget p ''to'') ''uid'') then as_string (opt_get (jget p ''to'') ''uid'') else None),
     of_preMsgId = jget p ''pre_msg_id'',
     of_seqId = jget p ''seq_id'',
     of_baseSeqId = jget p ''base_seq_id'',
     of_targetId = jget p ''target_id'',
     of_chatTypeId = jget p ''chat_type_id'',
     of_version = jget p ''version'',
     of_type = jget p ''type''\<rparr>"

definition some_defined :: "opaque_fields \<Rightarrow> bool" where
  "some_defined f = (of_toUid f \<noteq> None \<or> list_ex (\<lambda>v. v \<noteq> None)
     [of_preMsgId f, of_seqId f, of_baseSeqId f, of_targetId f, of_chatTypeId f, of_version f, of_type f])"

definition normalizePddInbound :: "json \<Rightarrow> normalization" where
  "normalizePddInbound p =
     (if \<not> nonEmptyString (jget p ''content'') then Norm_rejected ''content_missing_or_invalid''
      else if opt_get (jget p ''from'') ''role'' \<noteq> Some (JStr ''user'') then Norm_rejected ''from_role_not_user''
      else if opt_get (jget p ''to'') ''role'' \<noteq> Some (JStr ''mall_cs'') then Norm_rejected ''to_role_not_mall_cs''
      else if \<not> customerUidString (opt_get (jget p ''from'') ''uid'') then Norm_unknown ''customer_uid_missing_or_invalid''
      else if \<not> nonBlankString (jget p ''msg_id'') then Norm_unknown ''platform_message_id_missing_or_invalid''
      else Norm_normalized \<lparr>
        ic_customerUid = string_of (opt_get (jget p ''from'') ''uid''),
        ic_platformMessageId = string_of (jget p ''msg_id''),
        ic_content = string_of (jget p ''content''),
        ic_clientMessageId = (if nonEmptyString (jget p ''client_msg_id'') then as_string (jget p ''client_msg_id'') else None),
        ic_opaque = (if some_defined (opaque_of p) then Some (opaque_of p) else None)\<rparr>)"

subsection \<open>The normalizer of the canonical ingress\<close>

record canonical_message =
  cm_customerUid :: "string option"
  cm_platformMessageId :: "string option"
  cm_content :: string
  cm_diagnostics :: "string list"

datatype canonical_normalization =
    Canon_accepted canonical_message
  | Canon_rejected string "string list"

definition normalizePddInboundForCanonical :: "json option \<Rightarrow> canonical_normalization" where
  "normalizePddInboundForCanonical input =
     (if \<not> isRecord input then Canon_rejected ''payload_not_object'' []
      else if opt_get input ''direction'' \<noteq> None \<and> opt_get input ''direction'' \<noteq> Some (JStr ''inbound'')
      then Canon_rejected ''direction_not_inbound'' []
      else if opt_get input ''platform'' \<noteq> None \<and> opt_get input ''platform'' \<noteq> Some (JStr ''pdd'')
      then Canon_rejected ''platform_not_pdd'' []
      else
        let from = opt_get input ''from''; to = opt_get input ''to''; content = opt_get input ''content'';
            uid = opt_get from ''uid''; mid = opt_get input ''msg_id'' in
        if \<not> isRecord from \<or> opt_get from ''role'' \<noteq> Some (JStr ''user'') then Canon_rejected ''from_role_not_user'' []
        else if \<not> isRecord to \<or> opt_get to ''role'' \<noteq> Some (JStr ''mall_cs'') then Canon_rejected ''to_role_not_mall_cs'' []
        else if \<not> nonEmptyString content then Canon_rejected ''content_missing_or_invalid'' []
        else if \<not> is_nullish uid \<and> \<not> customerUidString uid then Canon_rejected ''customer_uid_invalid'' []
        else
          let d1 = (if is_nullish uid then [''CUSTOMER_UID_MISSING''] else []) in
          if \<not> is_nullish mid \<and> \<not> nonBlankString mid then Canon_rejected ''platform_message_id_invalid'' d1
          else Canon_accepted \<lparr>
            cm_customerUid = (if is_nullish uid then None else as_string uid),
            cm_platformMessageId = (if is_nullish mid then None else as_string mid),
            cm_content = string_of content,
            cm_diagnostics = d1 @ (if is_nullish mid then [''PLATFORM_MESSAGE_ID_MISSING''] else [])\<rparr>)"

subsection \<open>Page-decoded events\<close>

datatype item_kind = Kind_text | Kind_recall_notice | Kind_non_text | Kind_unknown

text \<open>\<open>TEXT_TYPES\<close>, \<open>RECALL_NOTICE_TYPES\<close> and \<open>KNOWN_NON_TEXT_TYPES\<close>; a fractional number is in none of them.\<close>

definition kindForPlatformType :: "number option \<Rightarrow> item_kind" where
  "kindForPlatformType t = (case t of
       None \<Rightarrow> Kind_unknown
     | Some (Fractional _) \<Rightarrow> Kind_unknown
     | Some (Integral n) \<Rightarrow>
         if n = 0 then Kind_text
         else if n = 31 then Kind_recall_notice
         else if n \<in> {24, 26, 27, 28, 29, 32} then Kind_non_text
         else Kind_unknown)"

datatype event_rejection =
    EVENT_NOT_OBJECT | NOT_CUSTOMER_DIRECTION | HISTORY_LOAD | RECALL_NOTICE | NON_TEXT_MESSAGE
  | UNKNOWN_TYPE | CONTENT_MISSING | PLATFORM_MESSAGE_ID_MISSING

fun kind_reason :: "item_kind \<Rightarrow> event_rejection" where
  "kind_reason Kind_recall_notice = RECALL_NOTICE"
| "kind_reason Kind_non_text = NON_TEXT_MESSAGE"
| "kind_reason _ = UNKNOWN_TYPE"

record event_ingress_input =
  ei_fromUid :: "json option"
  ei_toUid :: "json option"
  ei_content :: string
  ei_msg_id :: string

datatype event_candidate =
    Candidate event_ingress_input "string list"
  | Event_rejected event_rejection "string list"

text \<open>\<open>nonBlankString\<close> of this file does not ask for a positive length first; the two agree.\<close>

definition toInboundEventCandidate :: "json option \<Rightarrow> event_candidate" where
  "toInboundEventCandidate event =
     (if \<not> isRecord event then Event_rejected EVENT_NOT_OBJECT []
      else
        let from = (if isRecord (opt_get event ''from'') then opt_get event ''from'' else None);
            to = (if isRecord (opt_get event ''to'') then opt_get event ''to'' else None);
            fromRole = as_string (opt_get from ''role'');
            toRole = as_string (opt_get to ''role'') in
        if fromRole \<noteq> Some ''user'' \<or> toRole \<noteq> Some ''mall_cs'' then Event_rejected NOT_CUSTOMER_DIRECTION []
        else if opt_get event ''is_history'' = Some (JBool True) then Event_rejected HISTORY_LOAD []
        else
          let kind = kindForPlatformType (case opt_get event ''type'' of Some (JNum n) \<Rightarrow> Some n | _ \<Rightarrow> None) in
          if kind \<noteq> Kind_text then Event_rejected (kind_reason kind) []
          else if \<not> nonBlankString (opt_get event ''content'') then Event_rejected CONTENT_MISSING []
          else if \<not> nonBlankString (opt_get event ''msg_id'')
          then Event_rejected PLATFORM_MESSAGE_ID_MISSING
                 (if nonBlankString (opt_get event ''client_msg_id'') then [''CLIENT_MSG_ID_PRESENT_WITHOUT_PLATFORM_ID''] else [])
          else Candidate \<lparr>ei_fromUid = opt_get from ''uid'', ei_toUid = opt_get to ''uid'',
                           ei_content = string_of (opt_get event ''content''), ei_msg_id = string_of (opt_get event ''msg_id'')\<rparr>
                 [''SOURCE_TIME_UNVERIFIED''])"

text \<open>The object the candidate hands to the ingress; an undefined uid is a key without a value.\<close>

definition opt_entry :: "string \<Rightarrow> json option \<Rightarrow> (string \<times> json) list" where
  "opt_entry k v = (case v of None \<Rightarrow> [] | Some w \<Rightarrow> [(k, w)])"

definition ingress_payload :: "event_ingress_input \<Rightarrow> json" where
  "ingress_payload i = JObj
     [(''from'', JObj ((''role'', JStr ''user'') # opt_entry ''uid'' (ei_fromUid i))),
      (''to'', JObj ((''role'', JStr ''mall_cs'') # opt_entry ''uid'' (ei_toUid i))),
      (''content'', JStr (ei_content i)),
      (''msg_id'', JStr (ei_msg_id i))]"

definition ingress_input :: "event_ingress_input \<Rightarrow> json" where
  "ingress_input i = JObj [(''payload'', ingress_payload i), (''sourceOccurredAt'', JNull)]"

subsection \<open>What the stages let through\<close>

lemma as_string_Some_iff [simp]: "as_string v = Some s \<longleftrightarrow> v = Some (JStr s)"
  by (auto simp: as_string_def split: option.splits json.splits)

lemma string_of_JStr [simp]: "string_of (Some (JStr s)) = s"
  by (simp add: string_of_def as_string_def)

lemma as_string_JStr [simp]: "as_string (Some (JStr s)) = Some s"
  by simp

lemma nonEmptyString_iff: "nonEmptyString v \<longleftrightarrow> (\<exists>s. v = Some (JStr s) \<and> s \<noteq> [])"
  by (auto simp: nonEmptyString_def as_string_def split: option.splits json.splits)

lemma nonBlankString_iff: "nonBlankString v \<longleftrightarrow> (\<exists>s. v = Some (JStr s) \<and> \<not> blank s)"
  by (auto simp: nonBlankString_def nonEmptyString_iff blank_def as_string_def js_trim_def split: option.splits json.splits)

lemma customerUidString_iff: "customerUidString v \<longleftrightarrow> (\<exists>s. v = Some (JStr s) \<and> s \<noteq> [] \<and> list_all is_digit s)"
  by (auto simp: customerUidString_def as_string_def split: option.splits json.splits)

lemma isRecord_iff: "isRecord v \<longleftrightarrow> (\<exists>kvs. v = Some (JObj kvs))"
  by (auto simp: isRecord_def split: option.splits json.splits)

lemma opt_get_simps [simp]:
  "opt_get None k = None" "opt_get (Some (JObj kvs)) k = map_of kvs k" "opt_get (Some (JStr s)) k = None"
  "opt_get (Some JNull) k = None" "opt_get (Some (JBool b)) k = None" "opt_get (Some (JNum n)) k = None"
  "opt_get (Some (JArr vs)) k = None"
  by (simp_all add: opt_get_def)

lemma opt_get_None_role: "opt_get v k = Some w \<Longrightarrow> isRecord v"
  by (auto simp: opt_get_def isRecord_def split: option.splits json.splits elim: jget.elims)

text \<open>The uid an accepted message may have: digits only.\<close>

definition uid_ok :: "json option \<Rightarrow> string option \<Rightarrow> bool" where
  "uid_ok v u = (case u of None \<Rightarrow> is_nullish v | Some s \<Rightarrow> v = Some (JStr s) \<and> s \<noteq> [] \<and> list_all is_digit s)"

definition mid_ok :: "json option \<Rightarrow> string option \<Rightarrow> bool" where
  "mid_ok v u = (case u of None \<Rightarrow> is_nullish v | Some s \<Rightarrow> v = Some (JStr s) \<and> \<not> blank s)"

lemma canonical_accepted_guards:
  assumes "normalizePddInboundForCanonical input = Canon_accepted m"
  defines "uid \<equiv> opt_get (opt_get input ''from'') ''uid''" and "mid \<equiv> opt_get input ''msg_id''"
  shows "opt_get (opt_get input ''from'') ''role'' = Some (JStr ''user'')"
    and "opt_get (opt_get input ''to'') ''role'' = Some (JStr ''mall_cs'')"
    and "nonEmptyString (opt_get input ''content'')"
    and "is_nullish uid \<or> customerUidString uid" and "is_nullish mid \<or> nonBlankString mid"
    and "cm_content m = string_of (opt_get input ''content'')"
    and "cm_customerUid m = (if is_nullish uid then None else as_string uid)"
    and "cm_platformMessageId m = (if is_nullish mid then None else as_string mid)"
  using assms(1) unfolding normalizePddInboundForCanonical_def Let_def uid_def [symmetric] mid_def [symmetric]
  by (simp_all split: if_split_asm) (drule sym; simp)+

lemma canonical_accepted:
  assumes "normalizePddInboundForCanonical input = Canon_accepted m"
  shows "opt_get (opt_get input ''from'') ''role'' = Some (JStr ''user'')"
    and "opt_get (opt_get input ''to'') ''role'' = Some (JStr ''mall_cs'')"
    and "opt_get input ''content'' = Some (JStr (cm_content m))" and "cm_content m \<noteq> []"
    and "uid_ok (opt_get (opt_get input ''from'') ''uid'') (cm_customerUid m)"
    and "mid_ok (opt_get input ''msg_id'') (cm_platformMessageId m)"
  using canonical_accepted_guards [OF assms]
  by (auto simp: nonEmptyString_iff customerUidString_iff nonBlankString_iff uid_ok_def mid_ok_def is_nullish_def)

text \<open>A payload the legacy normalizer accepts is accepted by the canonical one, with the same content.\<close>

lemma legacy_normalized_is_accepted:
  assumes "normalizePddInbound p = Norm_normalized c" and "jget p ''direction'' = None" and "jget p ''platform'' = None"
  shows "normalizePddInboundForCanonical (Some p) = Canon_accepted
     \<lparr>cm_customerUid = Some (ic_customerUid c), cm_platformMessageId = Some (ic_platformMessageId c),
      cm_content = ic_content c, cm_diagnostics = []\<rparr>"
proof -
  obtain kvs where p: "p = JObj kvs"
    using assms(1) by (cases p) (auto simp: normalizePddInbound_def nonEmptyString_def as_string_def)
  have src: "isRecord (map_of kvs ''from'')" and dst: "isRecord (map_of kvs ''to'')"
    using assms(1) by (auto simp: p normalizePddInbound_def intro: opt_get_None_role split: if_splits)
  then show ?thesis
    using assms by (auto simp: p normalizePddInbound_def normalizePddInboundForCanonical_def isRecord_def Let_def
        nonEmptyString_iff customerUidString_iff nonBlankString_iff is_nullish_def split: if_splits)
qed

lemma candidate_of_event:
  assumes "toInboundEventCandidate event = Candidate i ds"
  shows "opt_get (opt_get event ''from'') ''role'' = Some (JStr ''user'')"
    and "opt_get (opt_get event ''to'') ''role'' = Some (JStr ''mall_cs'')"
    and "opt_get event ''is_history'' \<noteq> Some (JBool True)"
    and "opt_get event ''type'' = Some (JNum (Integral 0))"
    and "opt_get event ''content'' = Some (JStr (ei_content i))" and "\<not> blank (ei_content i)"
    and "opt_get event ''msg_id'' = Some (JStr (ei_msg_id i))" and "\<not> blank (ei_msg_id i)"
    and "ei_fromUid i = opt_get (opt_get event ''from'') ''uid''"
    and "ei_toUid i = opt_get (opt_get event ''to'') ''uid''"
  using assms
  by (auto simp: toInboundEventCandidate_def Let_def nonBlankString_iff kindForPlatformType_def
      split: if_splits option.splits json.splits number.splits)

lemma normalize_ingress_payload:
  assumes "\<not> blank (ei_content i)" and "\<not> blank (ei_msg_id i)"
  shows "normalizePddInboundForCanonical (Some (ingress_payload i)) =
    (if is_nullish (ei_fromUid i) \<or> customerUidString (ei_fromUid i)
     then Canon_accepted \<lparr>cm_customerUid = (if is_nullish (ei_fromUid i) then None else as_string (ei_fromUid i)),
                          cm_platformMessageId = Some (ei_msg_id i), cm_content = ei_content i,
                          cm_diagnostics = (if is_nullish (ei_fromUid i) then [''CUSTOMER_UID_MISSING''] else [])\<rparr>
     else Canon_rejected ''customer_uid_invalid'' [])"
proof -
  have uid: "map_of (opt_entry ''uid'' v) ''uid'' = v" for v
    by (cases v) (simp_all add: opt_entry_def)
  have "ei_content i \<noteq> []" using assms(1) by auto
  then show ?thesis
    using assms by (simp add: normalizePddInboundForCanonical_def ingress_payload_def isRecord_def nonEmptyString_iff
        nonBlankString_iff uid is_nullish_def Let_def)
qed

end
