(* ===== verification/Optimization.thy ===== *)
theory Optimization imports Products Inbound_Normalizer Complex_Main begin

text \<open>
  The optimization of product details, \<open>packages/product-optimization/src\<close>: the guards on a proposed detail
  (\<open>optimization-guards.ts\<close>), the cooldown (\<open>cooldown-policy.ts\<close>), the backup policy (\<open>backup-policy.ts\<close>) and \<open>propose\<close> and
  \<open>apply\<close> of \<open>product-optimization-service.ts\<close>. \<open>Date.parse\<close> and \<open>toISOString\<close> are arguments (\<open>oc_parse\<close>, \<open>oc_iso\<close>), as is \<open>String\<close>
  of a value that is neither a string nor nullish. The code reads the clock up to three times in one \<open>apply\<close>; the readings
  are the record \<open>clock_reads\<close>.
\<close>

subsection \<open>Guards\<close>

text \<open>\<open>/<[a-zA-Z/][^>]*>/\<close>; \<open>tag_here\<close> is the match after the \<open><\<close>.\<close>

definition ascii_letter :: "char \<Rightarrow> bool" where
  "ascii_letter c \<longleftrightarrow> (let n = (of_char c :: nat) in (65 \<le> n \<and> n \<le> 90) \<or> (97 \<le> n \<and> n \<le> 122))"

definition tag_here :: "string \<Rightarrow> bool" where
  "tag_here s = (case s of [] \<Rightarrow> False
     | c # rest \<Rightarrow> (ascii_letter c \<or> c = CHR ''/'') \<and> dropWhile (\<lambda>d. d \<noteq> CHR ''>'') rest \<noteq> [])"

fun html_test :: "string \<Rightarrow> bool" where
  "html_test [] = False"
| "html_test (c # s) = ((c = CHR ''<'' \<and> tag_here s) \<or> html_test s)"

text \<open>\<open>/class\s*=\s*["'][^"']*--tw-/\<close>; \<open>tailwind_here\<close> is the match after the word.\<close>

definition is_quote :: "char \<Rightarrow> bool" where
  "is_quote c \<longleftrightarrow> c = CHR 0x22 \<or> c = CHR 0x27"

definition tailwind_here :: "string \<Rightarrow> bool" where
  "tailwind_here s = (case dropWhile is_ws s of [] \<Rightarrow> False
     | e # rest \<Rightarrow> e = CHR ''='' \<and> (case dropWhile is_ws rest of [] \<Rightarrow> False
         | q # value \<Rightarrow> is_quote q \<and> js_includes (takeWhile (\<lambda>c. \<not> is_quote c) value) ''--tw-''))"

fun tailwind_test :: "string \<Rightarrow> bool" where
  "tailwind_test [] = False"
| "tailwind_test (c # s) = ((prefix ''class'' (c # s) \<and> tailwind_here (drop 5 (c # s))) \<or> tailwind_test s)"

text \<open>The result is the reason, if the candidate is dirty.\<close>

definition guardDetail :: "string \<Rightarrow> nat \<Rightarrow> string option" where
  "guardDetail candidate limit =
     (if candidate = [] then Some ''empty''
      else if length candidate > limit then Some ''length''
      else if html_test candidate then Some ''html''
      else if tailwind_test candidate then Some ''tailwind''
      else None)"

subsection \<open>Cooldown and backup\<close>

record opt_config =
  oc_cooldown :: rat
  oc_purge :: rat
  oc_limit :: nat
  oc_parse :: "string \<Rightarrow> int option"
  oc_iso :: "nat \<Rightarrow> string"

datatype cooldown = No_cooldown | Elapsed_gte | Elapsed_purge | Cooling_down

definition isCoolingDown :: "opt_config \<Rightarrow> string option \<Rightarrow> nat \<Rightarrow> cooldown" where
  "isCoolingDown cfg lastOptimizedAt nowMs = (case lastOptimizedAt of
     None \<Rightarrow> No_cooldown
   | Some t \<Rightarrow> if t = [] then No_cooldown else (case oc_parse cfg t of
       None \<Rightarrow> No_cooldown
     | Some l \<Rightarrow>
         (let elapsed = rat_of_int (int nowMs - l) / 1000 in
          if elapsed > oc_purge cfg then Elapsed_purge
          else if elapsed \<ge> oc_cooldown cfg then Elapsed_gte
          else Cooling_down)))"

fun show36 :: "nat \<Rightarrow> string" where
  "show36 n = (let d = n mod 36; c = char_of (if d < 10 then 48 + d else 87 + d) in
     if n < 36 then [c] else show36 (n div 36) @ [c])"

declare show36.simps [simp del]

definition backupId :: "string \<Rightarrow> nat \<Rightarrow> string" where
  "backupId productId now = ''bk-'' @ productId @ ''-'' @ show36 now"

subsection \<open>Propose and apply\<close>

datatype opt_error = Unknown_product | Worker_failed string

fun opt_error_message :: "opt_error \<Rightarrow> string" where
  "opt_error_message Unknown_product = ''unknown product''"
| "opt_error_message (Worker_failed m) = m"

text \<open>\<open>String(v ?? "")\<close>.\<close>

definition text_of :: "(json \<Rightarrow> string) \<Rightarrow> json option \<Rightarrow> string" where
  "text_of coerce v = (case v of None \<Rightarrow> [] | Some JNull \<Rightarrow> [] | Some (JStr s) \<Rightarrow> s | Some w \<Rightarrow> coerce w)"

text \<open>\<open>propose\<close> before and after the call of the worker, whose answer is an object.\<close>

definition propose_start :: "'s product_repository \<Rightarrow> string \<Rightarrow> 's \<Rightarrow> opt_error + json" where
  "propose_start R productId s = (case rp_get R productId s of
     None \<Rightarrow> Inl Unknown_product | Some _ \<Rightarrow> Inr (JObj [(''product_id'', JStr productId)]))"

definition propose_end :: "(json \<Rightarrow> string) \<Rightarrow> (string \<times> json) list \<Rightarrow> string" where
  "propose_end coerce res =
     (let nested = opt_get (jget (JObj res) ''decisions'') ''proposal'';
          proposal = (if is_nullish nested then jget (JObj res) ''proposal'' else nested)
      in text_of coerce (opt_get proposal ''detail''))"

record apply_result =
  ap_applied :: bool
  ap_reason :: "string option"
  ap_backup_id :: "string option"

definition not_applied :: "string \<Rightarrow> apply_result" where
  "not_applied reason = \<lparr>ap_applied = False, ap_reason = Some reason, ap_backup_id = None\<rparr>"

record clock_reads =
  cr_check :: nat
  cr_backup :: nat
  cr_stamp :: nat

definition apply_proposal :: "opt_config \<Rightarrow> 's product_repository \<Rightarrow> clock_reads \<Rightarrow> string \<Rightarrow> string \<Rightarrow> bool \<Rightarrow> 's
    \<Rightarrow> (opt_error + apply_result) \<times> 's" where
  "apply_proposal cfg R clock productId detail backup s = (case rp_get R productId s of
     None \<Rightarrow> (Inl Unknown_product, s)
   | Some row \<Rightarrow> (case guardDetail detail (oc_limit cfg) of
       Some reason \<Rightarrow> (Inr (not_applied reason), s)
     | None \<Rightarrow>
         if isCoolingDown cfg (pd_last_optimized_at row) (cr_check clock) = Cooling_down then (Inr (not_applied ''cooldown''), s)
         else
           (let b = (if backup then Some (backupId productId (cr_backup clock)) else None) in
            case rp_update R productId detail (oc_iso cfg (cr_stamp clock)) s of
              (False, s) \<Rightarrow> (Inr (not_applied ''update_failed''), s)
            | (True, s) \<Rightarrow> (Inr \<lparr>ap_applied = True, ap_reason = None, ap_backup_id = b\<rparr>, s))))"

text \<open>The settings of the desktop.\<close>

definition desktop_config :: "(string \<Rightarrow> int option) \<Rightarrow> (nat \<Rightarrow> string) \<Rightarrow> opt_config" where
  "desktop_config parse print_date = \<lparr>oc_cooldown = 3600, oc_purge = 86400, oc_limit = 20000, oc_parse = parse, oc_iso = print_date\<rparr>"

end
