(* ===== verification/Optimization_Props.thy ===== *)
theory Optimization_Props imports Optimization begin

text \<open>
  Lemmas about the optimization of product details: what the regular expressions of the guards match, when an application may
  change the store, and that the store it leaves holds the stamp of the change. The last are proved once over the locale \<open>product_store\<close> and hold for both
  repositories.
\<close>

subsection \<open>What the guards let through\<close>

lemma dropWhile_gt: "dropWhile (\<lambda>d. d \<noteq> CHR ''>'') s \<noteq> [] \<longleftrightarrow> CHR ''>'' \<in> set s"
  by (induction s) auto

lemma tag_here_iff:
  "tag_here s \<longleftrightarrow> (\<exists>c m b. s = c # m @ CHR ''>'' # b \<and> (ascii_letter c \<or> c = CHR ''/'') \<and> CHR ''>'' \<notin> set m)"
proof (cases s)
  case (Cons c rest)
  have "CHR ''>'' \<in> set rest \<longleftrightarrow> (\<exists>m b. rest = m @ CHR ''>'' # b \<and> CHR ''>'' \<notin> set m)"
    by (metis in_set_conv_decomp_first)
  then show ?thesis using Cons by (auto simp: tag_here_def dropWhile_gt)
qed (simp add: tag_here_def)

lemma html_test_iff: "html_test s \<longleftrightarrow> (\<exists>a r. s = a @ CHR ''<'' # r \<and> tag_here r)"
proof (induction s)
  case (Cons c s)
  show ?case
  proof
    assume "html_test (c # s)"
    then consider "c = CHR ''<'' \<and> tag_here s" | "html_test s" by auto
    then show "\<exists>a r. c # s = a @ CHR ''<'' # r \<and> tag_here r"
    proof cases
      case 1
      then show ?thesis by (metis append_Nil)
    next
      case 2
      then show ?thesis using Cons.IH by (metis append_Cons)
    qed
  next
    assume "\<exists>a r. c # s = a @ CHR ''<'' # r \<and> tag_here r"
    then obtain a r where "c # s = a @ CHR ''<'' # r" "tag_here r" by blast
    then show "html_test (c # s)" using Cons.IH by (cases a) auto
  qed
qed simp

lemma dropWhile_ws: "dropWhile is_ws s = d # r \<longleftrightarrow> (\<exists>w. s = w @ d # r \<and> (\<forall>c\<in>set w. is_ws c) \<and> \<not> is_ws d)"
proof
  assume a: "dropWhile is_ws s = d # r"
  then have "s = takeWhile is_ws s @ d # r" by (metis takeWhile_dropWhile_id)
  moreover have "\<not> is_ws d" using a by (metis hd_dropWhile list.discI list.sel(1))
  ultimately show "\<exists>w. s = w @ d # r \<and> (\<forall>c\<in>set w. is_ws c) \<and> \<not> is_ws d" using set_takeWhileD by metis
qed (auto simp: dropWhile_append)

lemma tailwind_here_iff:
  "tailwind_here s \<longleftrightarrow> (\<exists>w w' q v b. s = w @ ''='' @ w' @ [q] @ v @ ''--tw-'' @ b \<and> (\<forall>c\<in>set (w @ w'). is_ws c)
      \<and> is_quote q \<and> (\<forall>c\<in>set v. \<not> is_quote c))"
  (is "?L \<longleftrightarrow> ?R")
proof
  assume ?L
  then obtain rest q val where d: "dropWhile is_ws s = CHR ''='' # rest" "dropWhile is_ws rest = q # val" "is_quote q"
      and t: "js_includes (takeWhile (\<lambda>c. \<not> is_quote c) val) ''--tw-''"
    by (auto simp: tailwind_here_def split: list.splits)
  from d obtain w w' where s: "s = w @ CHR ''='' # rest" "\<forall>c\<in>set w. is_ws c" "rest = w' @ q # val" "\<forall>c\<in>set w'. is_ws c"
    unfolding dropWhile_ws by blast
  from t obtain v b where v: "takeWhile (\<lambda>c. \<not> is_quote c) val = v @ ''--tw-'' @ b"
    by (auto simp: js_includes_iff_sublist sublist_def)
  then have "val = v @ ''--tw-'' @ (b @ dropWhile (\<lambda>c. \<not> is_quote c) val)"
    by (metis append.assoc takeWhile_dropWhile_id)
  then have "s = w @ ''='' @ w' @ [q] @ v @ ''--tw-'' @ (b @ dropWhile (\<lambda>c. \<not> is_quote c) val)" unfolding s(1) s(3) by simp
  moreover have "\<forall>c\<in>set v. \<not> is_quote c" using v by (metis UnCI set_append set_takeWhileD)
  moreover have "\<forall>c\<in>set (w @ w'). is_ws c" using s(2,4) by auto
  ultimately show ?R using d(3) by blast
next
  assume ?R
  then obtain w w' q v b where s: "s = w @ ''='' @ w' @ [q] @ v @ ''--tw-'' @ b" "\<forall>c\<in>set (w @ w'). is_ws c" "is_quote q" "\<forall>c\<in>set v. \<not> is_quote c"
    by blast
  have q: "\<not> is_ws q" "\<not> is_ws (CHR ''='')" using s(3) by (auto simp: is_quote_def is_ws_def Let_def)
  have 1: "dropWhile is_ws s = CHR ''='' # (w' @ q # v @ ''--tw-'' @ b)" and 2: "dropWhile is_ws (w' @ q # v @ ''--tw-'' @ b) = q # v @ ''--tw-'' @ b"
    using s(1,2) q unfolding dropWhile_ws by force+
  have "takeWhile (\<lambda>c. \<not> is_quote c) (v @ ''--tw-'' @ b) = v @ ''--tw-'' @ takeWhile (\<lambda>c. \<not> is_quote c) b"
    using s(4) by (simp add: takeWhile_append is_quote_def)
  then have "js_includes (takeWhile (\<lambda>c. \<not> is_quote c) (v @ ''--tw-'' @ b)) ''--tw-''" by (simp only: js_includes_append)
  then show ?L unfolding tailwind_here_def 1 list.case 2 using s(3) by simp
qed

lemma tailwind_test_iff: "tailwind_test s \<longleftrightarrow> (\<exists>a r. s = a @ ''class'' @ r \<and> tailwind_here r)"
proof (induction s)
  case (Cons c s)
  show ?case
  proof
    assume "tailwind_test (c # s)"
    then consider "prefix ''class'' (c # s) \<and> tailwind_here (drop 5 (c # s))" | "tailwind_test s" by auto
    then show "\<exists>a r. c # s = a @ ''class'' @ r \<and> tailwind_here r"
    proof cases
      case 1
      then obtain r where r: "c # s = ''class'' @ r" by (auto simp: prefix_def)
      then have "drop 5 (c # s) = r" by simp
      then show ?thesis using 1 r by (metis append_Nil)
    next
      case 2
      then show ?thesis using Cons.IH by (metis append_Cons)
    qed
  next
    assume "\<exists>a r. c # s = a @ ''class'' @ r \<and> tailwind_here r"
    then obtain a r where r: "c # s = a @ ''class'' @ r" "tailwind_here r" by blast
    show "tailwind_test (c # s)"
    proof (cases a)
      case Nil
      then have "prefix ''class'' (c # s)" "drop 5 (c # s) = r" unfolding r(1) by simp_all
      then show ?thesis using r(2) by simp
    next
      case (Cons x xs)
      then have "s = xs @ ''class'' @ r" using r(1) by simp
      then show ?thesis using r(2) Cons.IH by auto
    qed
  qed
qed simp

text \<open>
  The guards let a detail pass exactly when it is neither empty nor too long, holds no complete tag, and sets no class with a Tailwind variable.
\<close>

theorem guards_accept_clean_details:
  "guardDetail d limit = None \<longleftrightarrow> d \<noteq> [] \<and> length d \<le> limit
     \<and> \<not> (\<exists>a c m b. d = a @ ''<'' @ [c] @ m @ ''>'' @ b \<and> (ascii_letter c \<or> c = CHR ''/'') \<and> CHR ''>'' \<notin> set m)
     \<and> \<not> (\<exists>a w w' q v b. d = a @ ''class'' @ w @ ''='' @ w' @ [q] @ v @ ''--tw-'' @ b \<and> (\<forall>c\<in>set (w @ w'). is_ws c)
           \<and> is_quote q \<and> (\<forall>c\<in>set v. \<not> is_quote c))"
proof -
  have html: "html_test d \<longleftrightarrow> (\<exists>a c m b. d = a @ ''<'' @ [c] @ m @ ''>'' @ b \<and> (ascii_letter c \<or> c = CHR ''/'') \<and> CHR ''>'' \<notin> set m)"
    (is "_ \<longleftrightarrow> ?R")
  proof
    assume "html_test d"
    then obtain a c m b where "d = a @ CHR ''<'' # (c # m @ CHR ''>'' # b)" "ascii_letter c \<or> c = CHR ''/''" "CHR ''>'' \<notin> set m"
      unfolding html_test_iff tag_here_iff by blast
    moreover from this(1) have "d = a @ ''<'' @ [c] @ m @ ''>'' @ b" by simp
    ultimately show ?R by blast
  next
    assume ?R
    then obtain a c m b where "d = a @ ''<'' @ [c] @ m @ ''>'' @ b" "ascii_letter c \<or> c = CHR ''/''" "CHR ''>'' \<notin> set m"
      by blast
    moreover from this(1) have "d = a @ CHR ''<'' # (c # m @ CHR ''>'' # b)" by simp
    ultimately show "html_test d" unfolding html_test_iff tag_here_iff by blast
  qed
  have tailwind: "tailwind_test d \<longleftrightarrow> (\<exists>a w w' q v b. d = a @ ''class'' @ w @ ''='' @ w' @ [q] @ v @ ''--tw-'' @ b
      \<and> (\<forall>c\<in>set (w @ w'). is_ws c) \<and> is_quote q \<and> (\<forall>c\<in>set v. \<not> is_quote c))"
    unfolding tailwind_test_iff tailwind_here_iff by metis
  have "guardDetail d limit = None \<longleftrightarrow> d \<noteq> [] \<and> length d \<le> limit \<and> \<not> html_test d \<and> \<not> tailwind_test d"
    by (simp add: guardDetail_def)
  then show ?thesis unfolding html tailwind .
qed

subsection \<open>Applying\<close>

context product_store begin

text \<open>The ends of an application: either the store is as it was, or the product was free, the detail clean, and the store holds both.\<close>

lemma apply_cases:
  assumes "apply_proposal cfg R clock i d backup s = (r, s')"
  obtains (unchanged) "s' = s" "\<forall>x. r = Inr x \<longrightarrow> \<not> ap_applied x"
    | (changed) row where "rp_get R i s = Some row" "guardDetail d (oc_limit cfg) = None"
        "isCoolingDown cfg (pd_last_optimized_at row) (cr_check clock) \<noteq> Cooling_down"
        "s' = snd (rp_update R i d (oc_iso cfg (cr_stamp clock)) s)"
        "r = Inr \<lparr>ap_applied = True, ap_reason = None, ap_backup_id = (if backup then Some (backupId i (cr_backup clock)) else None)\<rparr>"
proof (cases "rp_get R i s")
  case None
  then show thesis using assms by (intro unchanged) (auto simp: apply_proposal_def)
next
  case (Some row)
  have ok: "fst (rp_update R i d t s)" for t using Some by (simp add: update_ok)
  show thesis
  proof (cases "guardDetail d (oc_limit cfg) = None \<and> isCoolingDown cfg (pd_last_optimized_at row) (cr_check clock) \<noteq> Cooling_down")
    case True
    obtain s2 where u: "rp_update R i d (oc_iso cfg (cr_stamp clock)) s = (True, s2)"
      using ok [of "oc_iso cfg (cr_stamp clock)"] by (metis (full_types) prod.collapse)
    show thesis
      by (rule changed [OF Some]) (use assms Some True u in \<open>auto simp: apply_proposal_def Let_def\<close>)
  next
    case False
    then show thesis
      using assms Some by (intro unchanged) (auto simp: apply_proposal_def not_applied_def split: option.splits if_splits)
  qed
qed

lemma applied_is_read_back:
  assumes "apply_proposal cfg R clock i d backup s = (Inr x, s')" and "ap_applied x" and "oc_iso cfg (cr_stamp clock) \<noteq> []"
  shows "\<exists>p. rp_get R i s' = Some p \<and> pd_detail p = d \<and> pd_last_optimized_at p = Some (oc_iso cfg (cr_stamp clock))"
    and "k \<noteq> i \<Longrightarrow> rp_get R k s' = rp_get R k s"
proof -
  show "\<exists>p. rp_get R i s' = Some p \<and> pd_detail p = d \<and> pd_last_optimized_at p = Some (oc_iso cfg (cr_stamp clock))"
    by (rule apply_cases [OF assms(1)]) (use assms(2,3) in \<open>auto simp: get_update\<close>)
  show "rp_get R k s' = rp_get R k s" if "k \<noteq> i"
    by (rule apply_cases [OF assms(1)]) (use assms(2,3) that in \<open>auto simp: get_update\<close>)
qed

end

text \<open>The backup of an application is an identifier only: whether one is asked for changes nothing in the store.\<close>

theorem no_backup_is_made:
  "snd (apply_proposal cfg R clock i d True s) = snd (apply_proposal cfg R clock i d False s)"
  by (simp add: apply_proposal_def Let_def split: option.split prod.split bool.split)

lemma cooling_over:
  assumes "isCoolingDown cfg (Some t) now \<noteq> Cooling_down" and "t \<noteq> []" and "oc_parse cfg t = Some l"
  shows "rat_of_int (int now - l) / 1000 \<ge> min (oc_cooldown cfg) (oc_purge cfg)"
  using assms by (auto simp: isCoolingDown_def Let_def split: if_splits)

end
