(* ===== verification/Execution_Intent.thy ===== *)
theory Execution_Intent imports Canonical_Json begin

text \<open>
  The execution intent of \<open>packages/domain/src/execution-intent.ts\<close>: its validation, its state machine, and the
  hash of its immutable fields, with the identity lock of \<open>packages/domain/src/context-envelope.ts\<close>.

  Web Crypto is a parameter: \<open>None\<close> when the platform has none, otherwise the function that gives the
  lower-case hexadecimal SHA-256 digest of the UTF-8 encoding of a text. \<open>Date.parse\<close> is a parameter too, with
  \<open>None\<close> for \<open>NaN\<close>. A part that is not an object at run time is \<open>None\<close>. The declared unions (state,
  authorization source) are datatypes, so that the two checks of their spelling have no counterpart.
\<close>

subsection \<open>Data\<close>

record customer_identity =
  ci_kind :: string
  ci_value :: string

record identity_lock =
  il_merchant_id :: string
  il_store_id :: string
  il_platform :: string
  il_platform_account_id :: string
  il_customer_identity :: "customer_identity option"
  il_conversation_id :: string
  il_trigger_message_id :: string
  il_generation :: "number option"

datatype authorization_source = HUMAN_CONFIRMATION | POLICY_AUTHORIZATION

datatype intent_state = CREATED | PLAN_BOUND | CONFIRMED | CLAIMED | ATTEMPTED
  | I_ACKNOWLEDGED | I_REJECTED | I_UNKNOWN | EXPIRED | I_CANCELLED

record plan_ref =
  pr_plan_id :: string
  pr_plan_hash :: string

record confirmation_ref =
  cr_confirmation_id :: string
  cr_confirmation_hash :: string
  cr_confirmed_at :: string
  cr_expires_at :: "string option"

record intent_fields =
  ei_schema_version :: string
  ei_intent_id :: string
  ei_authorization_source :: authorization_source
  ei_identity_lock :: "identity_lock option"
  ei_plan_ref :: "plan_ref option"
  ei_policy_ref :: "string option"
  ei_confirmation_ref :: "confirmation_ref option"
  ei_session_generation :: string
  ei_document_generation :: string
  ei_created_at :: string
  ei_expires_at :: string
  ei_nonce :: string

record execution_intent = intent_fields +
  ei_state :: intent_state
  ei_intent_hash :: string

type_synonym failure = "string \<times> string"

datatype intent_error =
    Hashing_unsupported
  | Validation_error "failure list"
  | Invalid_transition intent_state intent_state

definition SCHEMA_VERSION :: string where
  "SCHEMA_VERSION = ''1.0''"

subsection \<open>Transitions\<close>

fun ALLOWED_TRANSITIONS :: "intent_state \<Rightarrow> intent_state list" where
  "ALLOWED_TRANSITIONS CREATED = [PLAN_BOUND, I_CANCELLED, EXPIRED]"
| "ALLOWED_TRANSITIONS PLAN_BOUND = [CONFIRMED, I_CANCELLED, EXPIRED]"
| "ALLOWED_TRANSITIONS CONFIRMED = [CLAIMED, I_CANCELLED, EXPIRED]"
| "ALLOWED_TRANSITIONS CLAIMED = [ATTEMPTED, I_CANCELLED]"
| "ALLOWED_TRANSITIONS ATTEMPTED = [I_ACKNOWLEDGED, I_REJECTED, I_UNKNOWN]"
| "ALLOWED_TRANSITIONS I_ACKNOWLEDGED = []"
| "ALLOWED_TRANSITIONS I_REJECTED = []"
| "ALLOWED_TRANSITIONS I_UNKNOWN = []"
| "ALLOWED_TRANSITIONS EXPIRED = []"
| "ALLOWED_TRANSITIONS I_CANCELLED = []"

definition isTransitionAllowed :: "intent_state \<Rightarrow> intent_state \<Rightarrow> bool" where
  "isTransitionAllowed from to \<longleftrightarrow> to \<in> set (ALLOWED_TRANSITIONS from)"

definition transitionExecutionIntent :: "execution_intent \<Rightarrow> intent_state \<Rightarrow> intent_error + execution_intent" where
  "transitionExecutionIntent i next =
     (if \<not> isTransitionAllowed (ei_state i) next then Inl (Invalid_transition (ei_state i) next)
      else Inr (i\<lparr>ei_state := next\<rparr>))"

subsection \<open>Hash\<close>

definition opt_key :: "string \<Rightarrow> ('a \<Rightarrow> json) \<Rightarrow> 'a option \<Rightarrow> (string \<times> json) list" where
  "opt_key k f v = (case v of None \<Rightarrow> [] | Some x \<Rightarrow> [(k, f x)])"

definition customer_json :: "customer_identity \<Rightarrow> json" where
  "customer_json c = JObj [(''kind'', JStr (ci_kind c)), (''value'', JStr (ci_value c))]"

definition lock_json :: "identity_lock \<Rightarrow> json" where
  "lock_json l = JObj ([(''merchant_id'', JStr (il_merchant_id l)), (''store_id'', JStr (il_store_id l)),
     (''platform'', JStr (il_platform l)), (''platform_account_id'', JStr (il_platform_account_id l)),
     (''conversation_id'', JStr (il_conversation_id l)), (''trigger_message_id'', JStr (il_trigger_message_id l))]
     @ opt_key ''customer_identity'' customer_json (il_customer_identity l)
     @ opt_key ''generation'' JNum (il_generation l))"

definition plan_json :: "plan_ref \<Rightarrow> json" where
  "plan_json p = JObj [(''plan_id'', JStr (pr_plan_id p)), (''plan_hash'', JStr (pr_plan_hash p))]"

definition policy_json :: "string \<Rightarrow> json" where
  "policy_json v = JObj [(''policy_version'', JStr v)]"

definition confirmation_json :: "confirmation_ref \<Rightarrow> json" where
  "confirmation_json c = JObj ([(''confirmation_id'', JStr (cr_confirmation_id c)),
     (''confirmation_hash'', JStr (cr_confirmation_hash c)), (''confirmed_at'', JStr (cr_confirmed_at c))]
     @ opt_key ''expires_at'' JStr (cr_expires_at c))"

fun source_text :: "authorization_source \<Rightarrow> string" where
  "source_text HUMAN_CONFIRMATION = ''HUMAN_CONFIRMATION''"
| "source_text POLICY_AUTHORIZATION = ''POLICY_AUTHORIZATION''"

definition getHashPayload :: "'a intent_fields_scheme \<Rightarrow> json" where
  "getHashPayload i = JObj (
     [(''schema_version'', JStr (ei_schema_version i)), (''intent_id'', JStr (ei_intent_id i)),
      (''authorization_source'', JStr (source_text (ei_authorization_source i)))]
     @ opt_key ''identity_lock'' lock_json (ei_identity_lock i)
     @ opt_key ''plan_ref'' plan_json (ei_plan_ref i)
     @ opt_key ''policy_ref'' policy_json (ei_policy_ref i)
     @ opt_key ''confirmation_ref'' confirmation_json (ei_confirmation_ref i)
     @ [(''session_generation'', JStr (ei_session_generation i)), (''document_generation'', JStr (ei_document_generation i)),
        (''created_at'', JStr (ei_created_at i)), (''expires_at'', JStr (ei_expires_at i)), (''nonce'', JStr (ei_nonce i))])"

definition computeIntentHash :: "(string \<Rightarrow> string) option \<Rightarrow> 'a intent_fields_scheme \<Rightarrow> intent_error + string" where
  "computeIntentHash crypto i = (case crypto of None \<Rightarrow> Inl Hashing_unsupported
     | Some digest \<Rightarrow> Inr (''sha256-'' @ digest (canonicalize (getHashPayload i))))"

definition isNonEmptyString :: "string \<Rightarrow> bool" where
  "isNonEmptyString s \<longleftrightarrow> length (js_trim s) > 0"

definition verifyIntentHash :: "(string \<Rightarrow> string) option \<Rightarrow> execution_intent \<Rightarrow> intent_error + bool" where
  "verifyIntentHash crypto i =
     (if \<not> isNonEmptyString (ei_intent_hash i) then Inr False
      else case computeIntentHash crypto i of Inl e \<Rightarrow> Inl e | Inr expected \<Rightarrow> Inr (ei_intent_hash i = expected))"

subsection \<open>Validation\<close>

definition isIsoDate :: "(string \<Rightarrow> int option) \<Rightarrow> string \<Rightarrow> bool" where
  "isIsoDate date_parse s \<longleftrightarrow> isNonEmptyString s \<and> date_parse s \<noteq> None"

definition add_when :: "bool \<Rightarrow> string \<Rightarrow> string \<Rightarrow> failure list" where
  "add_when b field reason = (if b then [(field, reason)] else [])"

definition lower_hex :: "char \<Rightarrow> bool" where
  "lower_hex c = (let n = (of_char c :: nat) in (48 \<le> n \<and> n \<le> 57) \<or> (97 \<le> n \<and> n \<le> 102))"

text \<open>The regular expression \<open>^sha256-[0-9a-f]{64}$\<close>.\<close>

definition hash_format :: "string \<Rightarrow> bool" where
  "hash_format h \<longleftrightarrow> prefix ''sha256-'' h \<and> length h = 71 \<and> list_all lower_hex (drop 7 h)"

definition required :: "string \<Rightarrow> string \<Rightarrow> string \<Rightarrow> failure list" where
  "required pre field v = add_when (\<not> isNonEmptyString v) (pre @ field) (field @ '' is required'')"

definition check_lock :: "identity_lock option \<Rightarrow> failure list" where
  "check_lock lock = (case lock of
     None \<Rightarrow> [(''identity_lock'', ''identity_lock is required'')]
   | Some l \<Rightarrow>
       required ''identity_lock.'' ''merchant_id'' (il_merchant_id l)
       @ required ''identity_lock.'' ''store_id'' (il_store_id l)
       @ required ''identity_lock.'' ''platform'' (il_platform l)
       @ required ''identity_lock.'' ''platform_account_id'' (il_platform_account_id l)
       @ required ''identity_lock.'' ''conversation_id'' (il_conversation_id l)
       @ required ''identity_lock.'' ''trigger_message_id'' (il_trigger_message_id l)
       @ (case il_customer_identity l of
            None \<Rightarrow> [(''identity_lock.customer_identity'', ''customer_identity is required'')]
          | Some c \<Rightarrow>
              add_when (\<not> isNonEmptyString (ci_kind c)) ''identity_lock.customer_identity.kind'' ''customer identity kind is required''
              @ add_when (\<not> isNonEmptyString (ci_value c)) ''identity_lock.customer_identity.value'' ''customer identity value is required'')
       @ (case il_generation l of
            Some (Fractional t) \<Rightarrow> [(''identity_lock.generation'', ''identity_lock.generation must be an integer when provided'')]
          | _ \<Rightarrow> []))"

definition check_plan :: "plan_ref option \<Rightarrow> failure list" where
  "check_plan p = (case p of None \<Rightarrow> [(''plan_ref'', ''plan_ref is required'')]
   | Some r \<Rightarrow> required ''plan_ref.'' ''plan_id'' (pr_plan_id r) @ required ''plan_ref.'' ''plan_hash'' (pr_plan_hash r))"

definition check_policy :: "string option \<Rightarrow> failure list" where
  "check_policy p = (case p of None \<Rightarrow> [(''policy_ref'', ''policy_ref is required'')]
   | Some v \<Rightarrow> required ''policy_ref.'' ''policy_version'' v)"

definition check_confirmation :: "(string \<Rightarrow> int option) \<Rightarrow> authorization_source \<Rightarrow> confirmation_ref option \<Rightarrow> failure list" where
  "check_confirmation date_parse src c =
     (if src = HUMAN_CONFIRMATION then
        (case c of None \<Rightarrow> [(''confirmation_ref'', ''HUMAN_CONFIRMATION requires confirmation_ref'')]
         | Some r \<Rightarrow>
             required ''confirmation_ref.'' ''confirmation_id'' (cr_confirmation_id r)
             @ required ''confirmation_ref.'' ''confirmation_hash'' (cr_confirmation_hash r)
             @ add_when (\<not> isIsoDate date_parse (cr_confirmed_at r)) ''confirmation_ref.confirmed_at'' ''confirmed_at must be ISO 8601''
             @ (case cr_expires_at r of None \<Rightarrow> []
                | Some e \<Rightarrow> add_when (\<not> isIsoDate date_parse e) ''confirmation_ref.expires_at'' ''expires_at must be ISO 8601 when provided''))
      else add_when (c \<noteq> None) ''confirmation_ref'' ''POLICY_AUTHORIZATION must not include confirmation_ref'')"

definition check_dates :: "(string \<Rightarrow> int option) \<Rightarrow> string \<Rightarrow> string \<Rightarrow> failure list" where
  "check_dates date_parse created expires =
     add_when (\<not> isIsoDate date_parse created) ''created_at'' ''created_at must be ISO 8601''
     @ (if \<not> isIsoDate date_parse expires then [(''expires_at'', ''expires_at must be ISO 8601'')]
        else add_when (isIsoDate date_parse created \<and> the (date_parse expires) \<le> the (date_parse created))
               ''expires_at'' ''expires_at must be after created_at'')"

definition validateExecutionIntent :: "(string \<Rightarrow> int option) \<Rightarrow> execution_intent \<Rightarrow> failure list" where
  "validateExecutionIntent date_parse i =
     add_when (ei_schema_version i \<noteq> SCHEMA_VERSION) ''schema_version'' ''schema_version must be 1.0''
     @ required [] ''intent_id'' (ei_intent_id i)
     @ check_lock (ei_identity_lock i)
     @ check_plan (ei_plan_ref i)
     @ check_policy (ei_policy_ref i)
     @ check_confirmation date_parse (ei_authorization_source i) (ei_confirmation_ref i)
     @ required [] ''session_generation'' (ei_session_generation i)
     @ required [] ''document_generation'' (ei_document_generation i)
     @ required [] ''nonce'' (ei_nonce i)
     @ check_dates date_parse (ei_created_at i) (ei_expires_at i)
     @ add_when (\<not> hash_format (ei_intent_hash i)) ''intent_hash'' ''intent_hash must use sha256-<64 lowercase hex characters>''"

definition intent_of :: "intent_fields \<Rightarrow> intent_state \<Rightarrow> string \<Rightarrow> execution_intent" where
  "intent_of f st h = \<lparr>ei_schema_version = ei_schema_version f, ei_intent_id = ei_intent_id f,
     ei_authorization_source = ei_authorization_source f, ei_identity_lock = ei_identity_lock f,
     ei_plan_ref = ei_plan_ref f, ei_policy_ref = ei_policy_ref f, ei_confirmation_ref = ei_confirmation_ref f,
     ei_session_generation = ei_session_generation f, ei_document_generation = ei_document_generation f,
     ei_created_at = ei_created_at f, ei_expires_at = ei_expires_at f, ei_nonce = ei_nonce f,
     ei_state = st, ei_intent_hash = h\<rparr>"

definition createExecutionIntent ::
  "(string \<Rightarrow> string) option \<Rightarrow> (string \<Rightarrow> int option) \<Rightarrow> intent_state option \<Rightarrow> intent_fields \<Rightarrow> intent_error + execution_intent" where
  "createExecutionIntent crypto date_parse state input =
     (let immutable = input\<lparr>ei_schema_version := SCHEMA_VERSION\<rparr> in
      case computeIntentHash crypto immutable of Inl e \<Rightarrow> Inl e
      | Inr h \<Rightarrow>
        let intent = intent_of immutable (case state of None \<Rightarrow> CREATED | Some s \<Rightarrow> s) h;
            failures = validateExecutionIntent date_parse intent
        in if failures \<noteq> [] then Inl (Validation_error failures)
           else case verifyIntentHash crypto intent of Inl e \<Rightarrow> Inl e
                | Inr ok \<Rightarrow> if \<not> ok then Inl (Validation_error [(''intent_hash'', ''intent_hash verification failed'')])
                            else Inr intent)"

end
