(* ===== verification/Domain_Contracts.thy ===== *)
theory Domain_Contracts imports Execution_Intent "HOL-Library.Word" begin

text \<open>
  The contracts of \<open>packages/domain/src\<close> around an execution: the human confirmation and its hash
  (\<open>confirmation-binding.ts\<close>), verification records, transport outcomes, desktop notifications, the audit
  trail that links them (\<open>audit-correlation.ts\<close>), policy configurations and decisions, the scene filter of
  the knowledge retrieval (\<open>knowledge.ts\<close>), the evidence of the platform adapter, and the ownership
  actions. The identity lock is the one of the theory \<open>Execution_Intent\<close>.

  The clock and the random part of a fresh identifier are arguments: \<open>now\<close> is
  \<open>new Date().toISOString()\<close>, \<open>millis\<close> is \<open>Date.now()\<close>, and \<open>rnd\<close> the text
  \<open>Math.random().toString(36).slice(2, 9)\<close>. A value of type \<open>unknown\<close> is a \<open>json\<close>; metadata is an
  association list in insertion order whose value is \<open>None\<close> when a key holds \<open>undefined\<close>.
\<close>

type_synonym metadata = "(string \<times> json option) list"

definition fresh_id :: "string \<Rightarrow> nat \<Rightarrow> string \<Rightarrow> string" where
  "fresh_id pre millis rnd = pre @ ''-'' @ show_nat millis @ ''-'' @ rnd"

subsection \<open>JSON.stringify\<close>

text \<open>\<open>JSON.stringify\<close> keeps the order of the keys, unlike \<open>canonicalize\<close>.\<close>

function json_stringify :: "json \<Rightarrow> string" where
  "json_stringify JNull = ''null''"
| "json_stringify (JBool b) = (if b then ''true'' else ''false'')"
| "json_stringify (JNum n) = show_number n"
| "json_stringify (JStr s) = quote s"
| "json_stringify (JArr vs) = ''['' @ js_join '','' (map json_stringify vs) @ '']''"
| "json_stringify (JObj kvs) =
     ''{'' @ js_join '','' (map (\<lambda>kv. quote (fst kv) @ '':'' @ json_stringify (snd kv)) kvs) @ ''}''"
  by pat_completeness auto
termination
  by (relation "measure size") (simp_all add: json_size_entry [simplified] json_size_element [simplified])

text \<open>\<open>toString(16)\<close> of a natural number, and \<open>padStart(n, "0")\<close>.\<close>

fun show_hex :: "nat \<Rightarrow> string" where
  "show_hex n = (if n < 16 then [hex_digit n] else show_hex (n div 16) @ [hex_digit (n mod 16)])"

declare show_hex.simps [simp del]

definition pad_zeros :: "nat \<Rightarrow> string \<Rightarrow> string" where
  "pad_zeros n s = replicate (n - length s) CHR ''0'' @ s"

subsection \<open>Confirmations\<close>

datatype confirmation_status = C_PENDING | C_CONFIRMED | C_REJECTED | C_EXPIRED | C_SUPERSEDED

record confirmation_body =
  cb_confirmation_id :: string
  cb_plan_id :: string
  cb_identity_lock :: identity_lock
  cb_policy_version :: string
  cb_confirmed_at :: string
  cb_confirmed_by :: string
  cb_expires_at :: "string option"
  cb_metadata :: "metadata option"

record confirmation_binding = confirmation_body +
  cb_confirmation_hash :: string

record confirmation_request =
  cq_confirmation_id :: string
  cq_plan_id :: string
  cq_identity_lock :: identity_lock
  cq_policy_version :: string
  cq_requested_at :: string
  cq_status :: confirmation_status
  cq_expires_at :: "string option"
  cq_confirmation_reason :: "string option"

definition createConfirmationRequest ::
  "nat \<Rightarrow> string \<Rightarrow> string \<Rightarrow> string \<Rightarrow> identity_lock \<Rightarrow> string \<Rightarrow> string option \<Rightarrow> string option \<Rightarrow> confirmation_request" where
  "createConfirmationRequest millis rnd now planId identityLock policyVersion expiresAt confirmationReason =
     \<lparr>cq_confirmation_id = fresh_id ''conf'' millis rnd, cq_plan_id = planId, cq_identity_lock = identityLock,
      cq_policy_version = policyVersion, cq_requested_at = now, cq_status = C_PENDING,
      cq_expires_at = expiresAt, cq_confirmation_reason = confirmationReason\<rparr>"

definition createConfirmationBinding ::
  "string \<Rightarrow> confirmation_request \<Rightarrow> string \<Rightarrow> string \<Rightarrow> metadata option \<Rightarrow> confirmation_binding" where
  "createConfirmationBinding now request confirmedBy confirmationHash metadata =
     \<lparr>cb_confirmation_id = cq_confirmation_id request, cb_plan_id = cq_plan_id request,
      cb_identity_lock = cq_identity_lock request, cb_policy_version = cq_policy_version request,
      cb_confirmed_at = now, cb_confirmed_by = confirmedBy, cb_expires_at = cq_expires_at request,
      cb_metadata = metadata, cb_confirmation_hash = confirmationHash\<rparr>"

definition isPendingConfirmation :: "confirmation_request \<Rightarrow> bool" where
  "isPendingConfirmation request \<longleftrightarrow> cq_status request = C_PENDING"

definition isConfirmedConfirmation :: "confirmation_request \<Rightarrow> bool" where
  "isConfirmedConfirmation request \<longleftrightarrow> cq_status request = C_CONFIRMED"

text \<open>The lock as an object, its keys in the declared order.\<close>

definition lock_object :: "identity_lock \<Rightarrow> json" where
  "lock_object l = JObj ([(''merchant_id'', JStr (il_merchant_id l)), (''store_id'', JStr (il_store_id l)),
     (''platform'', JStr (il_platform l)), (''platform_account_id'', JStr (il_platform_account_id l))]
     @ opt_key ''customer_identity'' customer_json (il_customer_identity l)
     @ [(''conversation_id'', JStr (il_conversation_id l)), (''trigger_message_id'', JStr (il_trigger_message_id l))]
     @ opt_key ''generation'' JNum (il_generation l))"

definition confirmation_content :: "'a confirmation_body_scheme \<Rightarrow> string" where
  "confirmation_content binding = json_stringify (JObj
     [(''confirmation_id'', JStr (cb_confirmation_id binding)), (''plan_id'', JStr (cb_plan_id binding)),
      (''identity_lock'', lock_object (cb_identity_lock binding)),
      (''policy_version'', JStr (cb_policy_version binding)), (''confirmed_at'', JStr (cb_confirmed_at binding)),
      (''confirmed_by'', JStr (cb_confirmed_by binding))])"

text \<open>
  One round of the hash loop. \<open>hash << 5\<close> is a signed 32-bit shift, the difference and the sum are exact
  numbers below 2 to the 34, and \<open>hash & hash\<close> reduces them to a signed 32-bit integer: arithmetic on
  32-bit words, read as signed at the end.
\<close>

definition hash_step :: "char \<Rightarrow> 32 word \<Rightarrow> 32 word" where
  "hash_step c h = (push_bit 5 h - h) + word_of_nat (of_char c)"

definition hash_text :: "string \<Rightarrow> 32 word" where
  "hash_text s = fold hash_step s 0"

definition computeConfirmationHash :: "'a confirmation_body_scheme \<Rightarrow> string" where
  "computeConfirmationHash binding =
     ''sha256-'' @ pad_zeros 8 (show_hex (nat \<bar>sint (hash_text (confirmation_content binding))\<bar>))"

subsection \<open>Verification records\<close>

datatype verification_type = V_IDENTITY_LOCK | V_WRONG_TARGET | V_BINDING | V_REPLY_PLAN | V_CONFIRMATION

record verification_failure =
  vf_field :: string
  vf_reason :: string
  vf_expected :: "string option"
  vf_actual :: "string option"

record verification_record =
  vr_verification_id :: string
  vr_audit_id :: string
  vr_verification_type :: verification_type
  vr_verified_at :: string
  vr_passed :: bool
  vr_failures :: "verification_failure list option"
  vr_metadata :: "metadata option"

definition createPassedVerification ::
  "nat \<Rightarrow> string \<Rightarrow> string \<Rightarrow> string \<Rightarrow> verification_type \<Rightarrow> metadata option \<Rightarrow> verification_record" where
  "createPassedVerification millis rnd now auditId verificationType metadata =
     \<lparr>vr_verification_id = fresh_id ''ver'' millis rnd, vr_audit_id = auditId,
      vr_verification_type = verificationType, vr_verified_at = now, vr_passed = True,
      vr_failures = None, vr_metadata = metadata\<rparr>"

definition createFailedVerification ::
  "nat \<Rightarrow> string \<Rightarrow> string \<Rightarrow> string \<Rightarrow> verification_type \<Rightarrow> verification_failure list \<Rightarrow> metadata option
     \<Rightarrow> verification_record" where
  "createFailedVerification millis rnd now auditId verificationType failures metadata =
     \<lparr>vr_verification_id = fresh_id ''ver'' millis rnd, vr_audit_id = auditId,
      vr_verification_type = verificationType, vr_verified_at = now, vr_passed = False,
      vr_failures = Some failures, vr_metadata = metadata\<rparr>"

definition isVerificationPassed :: "verification_record \<Rightarrow> bool" where
  "isVerificationPassed r \<longleftrightarrow> vr_passed r"

definition isVerificationFailed :: "verification_record \<Rightarrow> bool" where
  "isVerificationFailed r \<longleftrightarrow> \<not> vr_passed r"

definition createVerificationFailure :: "string \<Rightarrow> string \<Rightarrow> string option \<Rightarrow> string option \<Rightarrow> verification_failure" where
  "createVerificationFailure field reason expected actual =
     \<lparr>vf_field = field, vf_reason = reason, vf_expected = expected, vf_actual = actual\<rparr>"

subsection \<open>Transport outcomes\<close>

datatype transport_outcome_type = T_ACKNOWLEDGED | T_REJECTED | T_UNKNOWN

record transport_outcome =
  to_outcome_type :: transport_outcome_type
  to_attempt_id :: string
  to_platform_message_id :: "string option"
  to_acknowledged_at :: "string option"
  to_rejected_at :: "string option"
  to_unknown_reason :: "string option"
  to_unknown_context :: "json option"
  to_raw_response :: "json option"
  to_created_at :: string

text \<open>The members the refined interfaces require.\<close>

definition acknowledged_outcome :: "transport_outcome \<Rightarrow> bool" where
  "acknowledged_outcome t \<longleftrightarrow> to_outcome_type t = T_ACKNOWLEDGED \<and> to_platform_message_id t \<noteq> None
     \<and> to_acknowledged_at t \<noteq> None"

definition rejected_outcome :: "transport_outcome \<Rightarrow> bool" where
  "rejected_outcome t \<longleftrightarrow> to_outcome_type t = T_REJECTED \<and> to_rejected_at t \<noteq> None"

definition unknown_outcome :: "transport_outcome \<Rightarrow> bool" where
  "unknown_outcome t \<longleftrightarrow> to_outcome_type t = T_UNKNOWN \<and> to_unknown_reason t \<noteq> None"

definition createAcknowledgedOutcome :: "string \<Rightarrow> string \<Rightarrow> string \<Rightarrow> string option \<Rightarrow> transport_outcome" where
  "createAcknowledgedOutcome now attemptId platformMessageId acknowledgedAt =
     \<lparr>to_outcome_type = T_ACKNOWLEDGED, to_attempt_id = attemptId,
      to_platform_message_id = Some platformMessageId,
      to_acknowledged_at = Some (case acknowledgedAt of Some t \<Rightarrow> t | None \<Rightarrow> now),
      to_rejected_at = None, to_unknown_reason = None, to_unknown_context = None, to_raw_response = None,
      to_created_at = now\<rparr>"

definition createRejectedOutcome :: "string \<Rightarrow> string \<Rightarrow> string option \<Rightarrow> json option \<Rightarrow> transport_outcome" where
  "createRejectedOutcome now attemptId rejectedAt rawResponse =
     \<lparr>to_outcome_type = T_REJECTED, to_attempt_id = attemptId, to_platform_message_id = None,
      to_acknowledged_at = None, to_rejected_at = Some (case rejectedAt of Some t \<Rightarrow> t | None \<Rightarrow> now),
      to_unknown_reason = None, to_unknown_context = None, to_raw_response = rawResponse, to_created_at = now\<rparr>"

definition createUnknownOutcome :: "string \<Rightarrow> string \<Rightarrow> string \<Rightarrow> json option \<Rightarrow> json option \<Rightarrow> transport_outcome" where
  "createUnknownOutcome now attemptId reason context rawResponse =
     \<lparr>to_outcome_type = T_UNKNOWN, to_attempt_id = attemptId, to_platform_message_id = None,
      to_acknowledged_at = None, to_rejected_at = None, to_unknown_reason = Some reason,
      to_unknown_context = context, to_raw_response = rawResponse, to_created_at = now\<rparr>"

definition isUnknownOutcome :: "transport_outcome \<Rightarrow> bool" where
  "isUnknownOutcome t \<longleftrightarrow> to_outcome_type t = T_UNKNOWN"

definition isAcknowledgedOutcome :: "transport_outcome \<Rightarrow> bool" where
  "isAcknowledgedOutcome t \<longleftrightarrow> to_outcome_type t = T_ACKNOWLEDGED"

definition isRejectedOutcome :: "transport_outcome \<Rightarrow> bool" where
  "isRejectedOutcome t \<longleftrightarrow> to_outcome_type t = T_REJECTED"

subsection \<open>Desktop notifications\<close>

datatype notification_type = SEND_ACKNOWLEDGED | SEND_REJECTED | SEND_UNKNOWN | CONFIRMATION_REQUIRED | VERIFICATION_FAILED

datatype notification_severity = S_INFO | S_WARNING | S_ERROR | S_CRITICAL

record desktop_notification =
  dn_notification_id :: string
  dn_audit_id :: string
  dn_notification_type :: notification_type
  dn_severity :: notification_severity
  dn_title :: string
  dn_message :: string
  dn_created_at :: string
  dn_metadata :: "metadata option"
  dn_action :: "string option"

text \<open>The object literal the five constructors share.\<close>

definition notification_of ::
  "notification_type \<Rightarrow> notification_severity \<Rightarrow> nat \<Rightarrow> string \<Rightarrow> string \<Rightarrow> string \<Rightarrow> string \<Rightarrow> string \<Rightarrow> string option
     \<Rightarrow> metadata option \<Rightarrow> desktop_notification" where
  "notification_of nkind severity millis rnd now auditId title message action metadata =
     \<lparr>dn_notification_id = fresh_id ''notif'' millis rnd, dn_audit_id = auditId, dn_notification_type = nkind,
      dn_severity = severity, dn_title = title, dn_message = message, dn_created_at = now,
      dn_metadata = metadata, dn_action = action\<rparr>"

definition createAcknowledgedNotification ::
  "nat \<Rightarrow> string \<Rightarrow> string \<Rightarrow> string \<Rightarrow> string \<Rightarrow> string \<Rightarrow> metadata option \<Rightarrow> desktop_notification" where
  "createAcknowledgedNotification millis rnd now auditId title message metadata =
     notification_of SEND_ACKNOWLEDGED S_INFO millis rnd now auditId title message None metadata"

definition createRejectedNotification ::
  "nat \<Rightarrow> string \<Rightarrow> string \<Rightarrow> string \<Rightarrow> string \<Rightarrow> string \<Rightarrow> metadata option \<Rightarrow> desktop_notification" where
  "createRejectedNotification millis rnd now auditId title message metadata =
     notification_of SEND_REJECTED S_WARNING millis rnd now auditId title message None metadata"

definition createUnknownNotification ::
  "nat \<Rightarrow> string \<Rightarrow> string \<Rightarrow> string \<Rightarrow> string \<Rightarrow> string \<Rightarrow> metadata option \<Rightarrow> desktop_notification" where
  "createUnknownNotification millis rnd now auditId title message metadata =
     notification_of SEND_UNKNOWN S_ERROR millis rnd now auditId title message None metadata"

definition createConfirmationRequiredNotification ::
  "nat \<Rightarrow> string \<Rightarrow> string \<Rightarrow> string \<Rightarrow> string \<Rightarrow> string \<Rightarrow> string option \<Rightarrow> metadata option \<Rightarrow> desktop_notification" where
  "createConfirmationRequiredNotification millis rnd now auditId title message action metadata =
     notification_of CONFIRMATION_REQUIRED S_WARNING millis rnd now auditId title message action metadata"

definition createVerificationFailedNotification ::
  "nat \<Rightarrow> string \<Rightarrow> string \<Rightarrow> string \<Rightarrow> string \<Rightarrow> string \<Rightarrow> metadata option \<Rightarrow> desktop_notification" where
  "createVerificationFailedNotification millis rnd now auditId title message metadata =
     notification_of VERIFICATION_FAILED S_ERROR millis rnd now auditId title message None metadata"

definition isUnknownNotification :: "desktop_notification \<Rightarrow> bool" where
  "isUnknownNotification n \<longleftrightarrow> dn_notification_type n = SEND_UNKNOWN"

definition requiresHumanAction :: "desktop_notification \<Rightarrow> bool" where
  "requiresHumanAction n \<longleftrightarrow> dn_notification_type n = SEND_UNKNOWN
     \<or> dn_notification_type n = CONFIRMATION_REQUIRED \<or> dn_notification_type n = VERIFICATION_FAILED"

subsection \<open>Audit trails\<close>

datatype audit_status = A_IN_PROGRESS | A_COMPLETED | A_FAILED

record audit_context =
  ac_shop_id :: string
  ac_conversation_id :: string
  ac_plan_id :: string
  ac_metadata :: "metadata option"

record audit_correlation =
  au_audit_id :: string
  au_shop_id :: string
  au_conversation_id :: string
  au_plan_id :: string
  au_status :: audit_status
  au_created_at :: string
  au_completed_at :: "string option"
  au_confirmation :: "confirmation_binding option"
  au_verifications :: "verification_record list"
  au_outcome :: "transport_outcome option"
  au_notification :: "desktop_notification option"
  au_metadata :: "metadata option"

definition startAudit :: "nat \<Rightarrow> string \<Rightarrow> string \<Rightarrow> audit_context \<Rightarrow> audit_correlation" where
  "startAudit millis rnd now context =
     \<lparr>au_audit_id = fresh_id ''audit'' millis rnd, au_shop_id = ac_shop_id context,
      au_conversation_id = ac_conversation_id context, au_plan_id = ac_plan_id context,
      au_status = A_IN_PROGRESS, au_created_at = now, au_completed_at = None, au_confirmation = None,
      au_verifications = [], au_outcome = None, au_notification = None, au_metadata = ac_metadata context\<rparr>"

definition recordConfirmation :: "audit_correlation \<Rightarrow> confirmation_binding \<Rightarrow> audit_correlation" where
  "recordConfirmation audit confirmation = audit\<lparr>au_confirmation := Some confirmation\<rparr>"

definition recordVerification :: "audit_correlation \<Rightarrow> verification_record \<Rightarrow> audit_correlation" where
  "recordVerification audit verification = audit\<lparr>au_verifications := au_verifications audit @ [verification]\<rparr>"

definition recordOutcome :: "audit_correlation \<Rightarrow> transport_outcome \<Rightarrow> audit_correlation" where
  "recordOutcome audit outcome = audit\<lparr>au_outcome := Some outcome\<rparr>"

definition recordNotification :: "audit_correlation \<Rightarrow> desktop_notification \<Rightarrow> audit_correlation" where
  "recordNotification audit notification = audit\<lparr>au_notification := Some notification\<rparr>"

definition completeAudit :: "string \<Rightarrow> audit_correlation \<Rightarrow> audit_correlation" where
  "completeAudit now audit = audit\<lparr>au_status := A_COMPLETED, au_completed_at := Some now\<rparr>"

text \<open>A key of an object literal after a spread: it replaces the entry of the spread, in its place.\<close>

fun set_key :: "string \<Rightarrow> 'v \<Rightarrow> (string \<times> 'v) list \<Rightarrow> (string \<times> 'v) list" where
  "set_key k v [] = [(k, v)]"
| "set_key k v ((k', v') # kvs) = (if k' = k then (k, v) # kvs else (k', v') # set_key k v kvs)"

definition failAudit :: "string \<Rightarrow> audit_correlation \<Rightarrow> string option \<Rightarrow> audit_correlation" where
  "failAudit now audit reason = audit\<lparr>au_status := A_FAILED, au_completed_at := Some now,
     au_metadata := Some (set_key ''failure_reason'' (map_option JStr reason)
       (case au_metadata audit of None \<Rightarrow> [] | Some m \<Rightarrow> m))\<rparr>"

definition isAuditCompleted :: "audit_correlation \<Rightarrow> bool" where
  "isAuditCompleted audit \<longleftrightarrow> au_status audit = A_COMPLETED"

definition hasConfirmation :: "audit_correlation \<Rightarrow> bool" where
  "hasConfirmation audit \<longleftrightarrow> au_confirmation audit \<noteq> None"

definition hasOutcome :: "audit_correlation \<Rightarrow> bool" where
  "hasOutcome audit \<longleftrightarrow> au_outcome audit \<noteq> None"

definition hasNotification :: "audit_correlation \<Rightarrow> bool" where
  "hasNotification audit \<longleftrightarrow> au_notification audit \<noteq> None"

definition isAuditComplete :: "audit_correlation \<Rightarrow> bool" where
  "isAuditComplete audit \<longleftrightarrow> au_status audit = A_COMPLETED \<and> length (au_verifications audit) > 0
     \<and> au_outcome audit \<noteq> None \<and> au_notification audit \<noteq> None"

subsection \<open>Policy configuration and decision\<close>

datatype rollout_mode = R_OFF | R_SHADOW | R_HUMAN_CONFIRM | R_AUTO

datatype risk_level = Low | Medium | High

record override_condition =
  oc_scene :: "string option"
  oc_risk_level :: "risk_level option"
  oc_has_blocking_unknowns :: "bool option"

record rollout_mode_override =
  ro_condition :: override_condition
  ro_mode :: rollout_mode
  ro_reason :: string

record rollout_mode_config =
  rc_default_mode :: rollout_mode
  rc_overrides :: "rollout_mode_override list option"

record policy_config =
  pc_global :: rollout_mode_config
  pc_shops :: "(string \<times> rollout_mode_config) list option"
  pc_scenes :: "(string \<times> rollout_mode_config) list option"

definition createSimplePolicyConfig :: "rollout_mode \<Rightarrow> policy_config" where
  "createSimplePolicyConfig defaultMode =
     \<lparr>pc_global = \<lparr>rc_default_mode = defaultMode, rc_overrides = None\<rparr>, pc_shops = None, pc_scenes = None\<rparr>"

definition createShopPolicyConfig :: "rollout_mode \<Rightarrow> (string \<times> rollout_mode_config) list \<Rightarrow> policy_config" where
  "createShopPolicyConfig globalDefault shopConfigs =
     \<lparr>pc_global = \<lparr>rc_default_mode = globalDefault, rc_overrides = None\<rparr>, pc_shops = Some shopConfigs,
      pc_scenes = None\<rparr>"

record policy_decision =
  pd_allowed :: bool
  pd_rollout_mode :: rollout_mode
  pd_requires_confirmation :: bool
  pd_confirmation_reason :: "string option"
  pd_reasons :: "string list"
  pd_warnings :: "string list"
  pd_blocking_issues :: "string list"
  pd_evaluated_at :: string
  pd_policy_version :: string

text \<open>A default parameter applies when the argument is \<open>undefined\<close>.\<close>

definition default_to :: "'a option \<Rightarrow> 'a \<Rightarrow> 'a" where
  "default_to x d = (case x of Some v \<Rightarrow> v | None \<Rightarrow> d)"

definition createBlockedDecision :: "string \<Rightarrow> string list \<Rightarrow> string list option \<Rightarrow> string option \<Rightarrow> policy_decision" where
  "createBlockedDecision now blockingIssues reasons policyVersion =
     \<lparr>pd_allowed = False, pd_rollout_mode = R_OFF, pd_requires_confirmation = False,
      pd_confirmation_reason = None, pd_reasons = default_to reasons [], pd_warnings = [],
      pd_blocking_issues = blockingIssues, pd_evaluated_at = now,
      pd_policy_version = default_to policyVersion ''1.0.0''\<rparr>"

definition createModeDecision ::
  "string \<Rightarrow> rollout_mode \<Rightarrow> string list option \<Rightarrow> string list option \<Rightarrow> string option \<Rightarrow> string option \<Rightarrow> policy_decision" where
  "createModeDecision now mode reasons warnings policyVersion confirmationReason =
     \<lparr>pd_allowed = True, pd_rollout_mode = mode, pd_requires_confirmation = (mode = R_HUMAN_CONFIRM),
      pd_confirmation_reason = confirmationReason, pd_reasons = default_to reasons [],
      pd_warnings = default_to warnings [], pd_blocking_issues = [], pd_evaluated_at = now,
      pd_policy_version = default_to policyVersion ''1.0.0''\<rparr>"

subsection \<open>Knowledge filter of a scene\<close>

datatype knowledge_filter_type = K_STORE_RULE | K_PRODUCT_KNOWLEDGE | K_ALL

datatype store_knowledge_type = SK_SHIPPING_TIME | SK_RETURN_POLICY | SK_FAQ | SK_OTHER

text \<open>
  What the lookup \<open>SCENE_KNOWLEDGE_MAPPING[scene]\<close> gives: an own entry, or a member that the object literal
  inherits from \<open>Object.prototype\<close>, whose two fields are both \<open>undefined\<close>.
\<close>

record knowledge_filter =
  kf_knowledgeType :: "knowledge_filter_type option"
  kf_storeKnowledgeType :: "store_knowledge_type option"

definition SCENE_KNOWLEDGE_MAPPING :: "(string \<times> knowledge_filter) list" where
  "SCENE_KNOWLEDGE_MAPPING =
     [(''SHIPPING_TIME'', \<lparr>kf_knowledgeType = Some K_STORE_RULE, kf_storeKnowledgeType = Some SK_SHIPPING_TIME\<rparr>),
      (''RETURN_POLICY'', \<lparr>kf_knowledgeType = Some K_STORE_RULE, kf_storeKnowledgeType = Some SK_RETURN_POLICY\<rparr>),
      (''PRODUCT_INQUIRY'', \<lparr>kf_knowledgeType = Some K_PRODUCT_KNOWLEDGE, kf_storeKnowledgeType = None\<rparr>),
      (''FAQ'', \<lparr>kf_knowledgeType = Some K_STORE_RULE, kf_storeKnowledgeType = Some SK_FAQ\<rparr>)]"

definition DEFAULT_FILTER :: knowledge_filter where
  "DEFAULT_FILTER = \<lparr>kf_knowledgeType = Some K_ALL, kf_storeKnowledgeType = None\<rparr>"

text \<open>The property names of \<open>Object.prototype\<close>.\<close>

definition object_prototype_keys :: "string list" where
  "object_prototype_keys = [''constructor'', ''__defineGetter__'', ''__defineSetter__'', ''hasOwnProperty'',
     ''__lookupGetter__'', ''__lookupSetter__'', ''isPrototypeOf'', ''propertyIsEnumerable'', ''toString'',
     ''valueOf'', ''__proto__'', ''toLocaleString'']"

definition isRecognizedScene :: "string \<Rightarrow> bool" where
  "isRecognizedScene scene \<longleftrightarrow> scene \<in> set (map fst SCENE_KNOWLEDGE_MAPPING) \<or> scene \<in> set object_prototype_keys"

definition scene_entry :: "string \<Rightarrow> knowledge_filter" where
  "scene_entry scene = (case map_of SCENE_KNOWLEDGE_MAPPING scene of
     Some f \<Rightarrow> f
   | None \<Rightarrow> \<lparr>kf_knowledgeType = None, kf_storeKnowledgeType = None\<rparr>)"

definition getKnowledgeFilter :: "string option \<Rightarrow> knowledge_filter" where
  "getKnowledgeFilter scene = (case scene of
     None \<Rightarrow> DEFAULT_FILTER
   | Some s \<Rightarrow> if s = [] then DEFAULT_FILTER
       else if isRecognizedScene s then scene_entry s
       else DEFAULT_FILTER)"

definition getAllScenes :: "string list" where
  "getAllScenes = map fst SCENE_KNOWLEDGE_MAPPING"

definition isDefaultFilter :: "knowledge_filter \<Rightarrow> bool" where
  "isDefaultFilter f \<longleftrightarrow> kf_knowledgeType f = Some K_ALL \<and> kf_storeKnowledgeType f = None"

subsection \<open>Evidence of the adapter\<close>

datatype evidence_availability = E_COMPLETE | E_PARTIAL | E_UNREADABLE

record adapter_identity_evidence =
  ae_evidence_id :: string
  ae_observed_at :: string
  ae_source :: string
  ae_availability :: evidence_availability
  ae_runtime_shop_id :: "string option"
  ae_identity_lock :: "identity_lock option"
  ae_session_id :: "string option"
  ae_session_generation :: "string option"
  ae_document_generation :: "string option"

text \<open>\<open>isNonEmptyString\<close> on a field that may be \<open>undefined\<close>.\<close>

definition present_text :: "string option \<Rightarrow> bool" where
  "present_text x \<longleftrightarrow> (case x of None \<Rightarrow> False | Some s \<Rightarrow> isNonEmptyString s)"

definition complete_field :: "string \<Rightarrow> string option \<Rightarrow> failure list" where
  "complete_field field x = add_when (\<not> present_text x) field (field @ '' is required for COMPLETE evidence'')"

definition evidence_lock :: "identity_lock option \<Rightarrow> failure list" where
  "evidence_lock lock = (case lock of
     None \<Rightarrow> [(''identity_lock'', ''identity_lock is required for COMPLETE evidence'')]
   | Some l \<Rightarrow>
       required ''identity_lock.'' ''merchant_id'' (il_merchant_id l)
       @ required ''identity_lock.'' ''store_id'' (il_store_id l)
       @ required ''identity_lock.'' ''platform'' (il_platform l)
       @ required ''identity_lock.'' ''platform_account_id'' (il_platform_account_id l)
       @ required ''identity_lock.'' ''conversation_id'' (il_conversation_id l)
       @ required ''identity_lock.'' ''trigger_message_id'' (il_trigger_message_id l)
       @ (case il_customer_identity l of
            None \<Rightarrow> [(''identity_lock.customer_identity'', ''customer_identity is required'')]
          | Some c \<Rightarrow>
              add_when (\<not> isNonEmptyString (ci_kind c)) ''identity_lock.customer_identity.kind'' ''customer identity kind is required''
              @ add_when (\<not> isNonEmptyString (ci_value c)) ''identity_lock.customer_identity.value'' ''customer identity value is required'')
       @ (case il_generation l of
            Some (Fractional t) \<Rightarrow> [(''identity_lock.generation'', ''identity_lock.generation must be an integer when provided'')]
          | _ \<Rightarrow> []))"

definition evidence_failures :: "(string \<Rightarrow> int option) \<Rightarrow> adapter_identity_evidence \<Rightarrow> failure list" where
  "evidence_failures date_parse e =
     add_when (\<not> isNonEmptyString (ae_evidence_id e)) ''evidence_id'' ''evidence_id is required''
     @ add_when (\<not> isIsoDate date_parse (ae_observed_at e)) ''observed_at'' ''observed_at must be ISO 8601''
     @ add_when (\<not> isNonEmptyString (ae_source e)) ''source'' ''source is required''
     @ (if ae_availability e \<noteq> E_COMPLETE
        then [(''availability'', ''guard requires COMPLETE adapter evidence'')]
        else complete_field ''runtime_shop_id'' (ae_runtime_shop_id e)
          @ complete_field ''session_id'' (ae_session_id e)
          @ complete_field ''session_generation'' (ae_session_generation e)
          @ complete_field ''document_generation'' (ae_document_generation e)
          @ evidence_lock (ae_identity_lock e))"

definition validateAdapterIdentityEvidence ::
  "(string \<Rightarrow> int option) \<Rightarrow> adapter_identity_evidence \<Rightarrow> bool \<times> failure list" where
  "validateAdapterIdentityEvidence date_parse e =
     (length (evidence_failures date_parse e) = 0, evidence_failures date_parse e)"

subsection \<open>Conversation ownership\<close>

datatype ownership_state = O_UNASSIGNED | O_AI_ACTIVE | O_ASSIGNED | O_CLAIMED | O_ACTIVE
  | O_HANDOFF_REQUIRED | O_SUPERVISOR_TAKEOVER | O_RELEASED

definition CONVERSATION_OWNERSHIP_STATES :: "ownership_state list" where
  "CONVERSATION_OWNERSHIP_STATES = [O_UNASSIGNED, O_AI_ACTIVE, O_ASSIGNED, O_CLAIMED, O_ACTIVE,
     O_HANDOFF_REQUIRED, O_SUPERVISOR_TAKEOVER, O_RELEASED]"

datatype ownership_actor = Member string | Ai

datatype ownership_action = A_claim | A_release | A_handoff | A_supervisor_takeover

record ownership_request =
  or_action :: ownership_action
  or_actor :: ownership_actor
  or_targetMemberId :: "string option"

record ownership_target =
  ot_state :: ownership_state
  ot_ownerRef :: "ownership_actor option"

datatype ownership_error = OwnershipExecutionError string

definition targetOwnershipFor :: "ownership_request \<Rightarrow> ownership_error + ownership_target" where
  "targetOwnershipFor request = (case or_action request of
     A_claim \<Rightarrow> Inr (case or_actor request of
         Ai \<Rightarrow> \<lparr>ot_state = O_AI_ACTIVE, ot_ownerRef = Some Ai\<rparr>
       | Member m \<Rightarrow> \<lparr>ot_state = O_CLAIMED, ot_ownerRef = Some (Member m)\<rparr>)
   | A_release \<Rightarrow> Inr \<lparr>ot_state = O_RELEASED, ot_ownerRef = None\<rparr>
   | A_handoff \<Rightarrow> (case or_targetMemberId request of
         None \<Rightarrow> Inl (OwnershipExecutionError ''handoff requires a target member'')
       | Some m \<Rightarrow> if m = [] then Inl (OwnershipExecutionError ''handoff requires a target member'')
           else Inr \<lparr>ot_state = O_ASSIGNED, ot_ownerRef = Some (Member m)\<rparr>)
   | A_supervisor_takeover \<Rightarrow> Inr \<lparr>ot_state = O_SUPERVISOR_TAKEOVER, ot_ownerRef = Some (or_actor request)\<rparr>)"

end
