(* ===== verification/Job_Services.thy ===== *)
theory Job_Services imports Jobs_Props Optimization_Props Domain_Contracts begin

text \<open>
  The services that run work of the operator as background jobs, \<open>apps/desktop/src/main/services/\<close>: \<open>learning-service.ts\<close>,
  \<open>review-service.ts\<close>, \<open>audit-service.ts\<close> and \<open>product-optimization-service.ts\<close>, with the mapping of methods of
  \<open>packages/background-jobs/src/adapters/worker-job-client.ts\<close>. They share the job service of the theory \<open>Jobs\<close> and the products of the
  theory \<open>Products\<close>.

  A runner is cut at its awaits: \<open>sv_work\<close> holds what each run waits for. Between the end of what is awaited and the end of the job the
  program only runs continuations of that run, so that both are one step. \<open>sv_updates\<close> is a history variable of the model: the applied
  optimizations with the time that was compared with the cooldown and the time that was stored.
\<close>

subsection \<open>State\<close>

text \<open>What a run awaits: a call of the worker, the proposal for a product, or an application that has already ended.\<close>

datatype service_work =
    Worker_call string json
  | Proposing string bool
  | Settled_apply "opt_error + json"

record waiting_run =
  wr_run :: nat
  wr_service :: job_type
  wr_job :: string
  wr_label :: string
  wr_work :: service_work

datatype service_event =
    Service_started job_type string "json option"
  | Service_finished job_type string job_state
  | Optimization_applied string

record services =
  sv_jobs :: job_manager
  sv_active :: "(job_type \<times> string) set"
  sv_work :: "waiting_run list"
  sv_events :: "service_event list"
  sv_products :: "products_row list"
  sv_updates :: "(string \<times> nat \<times> nat) list"

record services_env =
  sx_opt :: opt_config
  sx_coerce :: "json \<Rightarrow> string"

definition sv_emit :: "service_event \<Rightarrow> services \<Rightarrow> services" where
  "sv_emit e st = st\<lparr>sv_events := sv_events st @ [e]\<rparr>"

definition sv_wait :: "waiting_run \<Rightarrow> services \<Rightarrow> services" where
  "sv_wait w st = st\<lparr>sv_work := sv_work st @ [w]\<rparr>"

subsection \<open>The worker client\<close>

definition METHOD_BY_TYPE :: "string \<Rightarrow> string option" where
  "METHOD_BY_TYPE = [''learning'' \<mapsto> ''learning.run'', ''review'' \<mapsto> ''review.propose'', ''audit'' \<mapsto> ''audit.decide'',
     ''optimization'' \<mapsto> ''optimization.propose'']"

definition worker_method :: "string \<Rightarrow> string" where
  "worker_method ty = (if CHR ''.'' \<in> set ty then ty else case METHOD_BY_TYPE ty of Some m \<Rightarrow> m | None \<Rightarrow> ty)"

subsection \<open>The product service\<close>

definition toResult :: "apply_result \<Rightarrow> string \<Rightarrow> json" where
  "toResult r detail = JObj [(''applied'', JBool (ap_applied r)),
     (''reason'', case ap_reason r of Some t \<Rightarrow> JStr t | None \<Rightarrow> JNull),
     (''backup_id'', case ap_backup_id r of Some t \<Rightarrow> JStr t | None \<Rightarrow> JNull),
     (''detail_length'', JNum (Integral (int (length detail))))]"

text \<open>The call of \<open>apply\<close>, with the event it emits.\<close>

definition sv_apply :: "services_env \<Rightarrow> clock_reads \<Rightarrow> string \<Rightarrow> string \<Rightarrow> string \<Rightarrow> bool \<Rightarrow> services \<Rightarrow> (opt_error + json) \<times> services" where
  "sv_apply env clock now productId detail backup st =
     (case apply_proposal (sx_opt env) (sqlite_products now) clock productId detail backup (sv_products st) of
        (Inl e, rows) \<Rightarrow> (Inl e, st\<lparr>sv_products := rows\<rparr>)
      | (Inr r, rows) \<Rightarrow>
          (let st = st\<lparr>sv_products := rows\<rparr>;
               st = (if ap_applied r then sv_emit (Optimization_applied productId)
                       (st\<lparr>sv_updates := sv_updates st @ [(productId, cr_check clock, cr_stamp clock)]\<rparr>) else st)
           in (Inr (toResult r detail), st)))"

text \<open>\<open>request.backup !== false\<close>; \<open>(request.request ?? {})\<close>.\<close>

definition wants_backup :: "json option \<Rightarrow> bool" where
  "wants_backup v \<longleftrightarrow> v \<noteq> Some (JBool False)"

definition or_empty_object :: "json option \<Rightarrow> json" where
  "or_empty_object v = (if is_nullish v then JObj [] else the v)"

definition applyProposal :: "services_env \<Rightarrow> clock_reads \<Rightarrow> string \<Rightarrow> json \<Rightarrow> services \<Rightarrow> (opt_error + json) \<times> services" where
  "applyProposal env clock now request st =
     (let proposal = (if is_nullish (jget request ''proposal'') then request else the (jget request ''proposal''))
      in sv_apply env clock now (text_of (sx_coerce env) (jget proposal ''product_id'')) (text_of (sx_coerce env) (jget proposal ''detail''))
           (wants_backup (jget request ''backup'')) st)"

subsection \<open>The runners\<close>

definition action_of :: "services_env \<Rightarrow> json \<Rightarrow> string" where
  "action_of env request = (if is_nullish (jget request ''action'') then ''propose'' else text_of (sx_coerce env) (jget request ''action''))"

definition review_method :: "string \<Rightarrow> string" where
  "review_method action = (if action = ''apply'' then ''review.apply'' else if action = ''restore'' then ''review.restore'' else ''review.propose'')"

definition audit_payload :: "json \<Rightarrow> json" where
  "audit_payload request = JObj ((case jget request ''action'' of Some a \<Rightarrow> [(''action'', a)] | None \<Rightarrow> []) @ [(''entry'', or_empty_object (jget request ''entry''))])"

definition report_step :: "nat \<Rightarrow> rat \<Rightarrow> string \<Rightarrow> services \<Rightarrow> services" where
  "report_step rid p msg st = st\<lparr>sv_jobs := run_report rid (Some p) (Some msg) (sv_jobs st)\<rparr>"

text \<open>The runners up to their first await; \<open>service\<close> is the service that called \<open>run\<close>.\<close>

definition learning_runner :: "job_type \<Rightarrow> string \<Rightarrow> nat \<Rightarrow> services \<Rightarrow> services" where
  "learning_runner service jobId rid st =
     (let request = or_empty_object (requestFor jobId (sv_jobs st)) in
      sv_wait \<lparr>wr_run = rid, wr_service = service, wr_job = jobId, wr_label = ''learning'',
          wr_work = Worker_call (worker_method ''learning'') request\<rparr>
        (report_step rid 5 ''learning started'' st))"

definition review_runner :: "services_env \<Rightarrow> job_type \<Rightarrow> string \<Rightarrow> nat \<Rightarrow> services \<Rightarrow> services" where
  "review_runner env service jobId rid st =
     (let request = or_empty_object (requestFor jobId (sv_jobs st)); action = action_of env request in
      sv_wait \<lparr>wr_run = rid, wr_service = service, wr_job = jobId, wr_label = ''review '' @ action,
          wr_work = Worker_call (worker_method (review_method action)) (or_empty_object (jget request ''request''))\<rparr>
        (report_step rid 10 (''review '' @ action @ '' started'') st))"

definition audit_runner :: "job_type \<Rightarrow> string \<Rightarrow> nat \<Rightarrow> services \<Rightarrow> services" where
  "audit_runner service jobId rid st =
     (let request = or_empty_object (requestFor jobId (sv_jobs st)) in
      sv_wait \<lparr>wr_run = rid, wr_service = service, wr_job = jobId, wr_label = ''audit decide'',
          wr_work = Worker_call (worker_method ''audit.decide'') (audit_payload request)\<rparr>
        (report_step rid 10 ''audit decide started'' st))"

definition optimization_runner :: "services_env \<Rightarrow> clock_reads \<Rightarrow> string \<Rightarrow> job_type \<Rightarrow> string \<Rightarrow> nat \<Rightarrow> services \<Rightarrow> services" where
  "optimization_runner env clock now service jobId rid st =
     (let request = or_empty_object (requestFor jobId (sv_jobs st)); action = action_of env request;
          inner = or_empty_object (jget request ''request'');
          st = report_step rid 10 (''optimization '' @ action @ '' started'') st;
          wait = (\<lambda>w. sv_wait \<lparr>wr_run = rid, wr_service = service, wr_job = jobId, wr_label = ''optimization '' @ action, wr_work = w\<rparr>)
      in if action = ''apply'' then (case applyProposal env clock now inner st of (r, st) \<Rightarrow> wait (Settled_apply r) st)
         else
           (let productId = text_of (sx_coerce env) (jget inner ''product_id'') in
            case propose_start (sqlite_products now) productId (sv_products st) of
              Inl e \<Rightarrow> wait (Settled_apply (Inl e)) st
            | Inr _ \<Rightarrow> wait (Proposing productId (wants_backup (jget inner ''backup''))) st))"

text \<open>The runner of a job is chosen by its type; no service registers one for \<open>Index_rebuild\<close>.\<close>

fun run_service_job :: "services_env \<Rightarrow> clock_reads \<Rightarrow> string \<Rightarrow> job_type \<Rightarrow> job_type \<Rightarrow> string \<Rightarrow> nat \<Rightarrow> services \<Rightarrow> services" where
  "run_service_job env clock now service Learning jobId rid st = learning_runner service jobId rid st"
| "run_service_job env clock now service Review jobId rid st = review_runner env service jobId rid st"
| "run_service_job env clock now service Audit jobId rid st = audit_runner service jobId rid st"
| "run_service_job env clock now service Optimization jobId rid st = optimization_runner env clock now service jobId rid st"
| "run_service_job env clock now service Index_rebuild jobId rid st = st"

text \<open>\<open>run\<close> of a service: a job that it has run before is not run again.\<close>

definition sv_run :: "services_env \<Rightarrow> clock_reads \<Rightarrow> string \<Rightarrow> job_type \<Rightarrow> string \<Rightarrow> services \<Rightarrow> services" where
  "sv_run env clock now service jobId st =
     (if (service, jobId) \<in> sv_active st then st
      else
        (let st = st\<lparr>sv_active := insert (service, jobId) (sv_active st)\<rparr> in
         case (job_get jobId (sv_jobs st), run_start jobId (sv_jobs st)) of
           (Some job, Inr m) \<Rightarrow> run_service_job env clock now service (jb_type job) jobId (jm_next_run (sv_jobs st)) (st\<lparr>sv_jobs := m\<rparr>)
         | _ \<Rightarrow> st))"

text \<open>\<open>start\<close>, \<open>action\<close> and \<open>decide\<close>.\<close>

definition sv_start :: "services_env \<Rightarrow> clock_reads \<Rightarrow> string \<Rightarrow> job_type \<Rightarrow> json \<Rightarrow> string \<Rightarrow> services \<Rightarrow> (job_error + string) \<times> services" where
  "sv_start env clock now service request jobId st =
     (case service_create jobId now service request False None (sv_jobs st) of
        Inl e \<Rightarrow> (Inl e, st)
      | Inr (job, m) \<Rightarrow>
          (let st = sv_run env clock now service jobId (st\<lparr>sv_jobs := m\<rparr>) in
           (Inr jobId, sv_emit (Service_started service jobId (if service = Learning then None else jget request ''action'')) st)))"

subsection \<open>The end of a run\<close>

definition sv_finished :: "job_type \<Rightarrow> string \<Rightarrow> services \<Rightarrow> services" where
  "sv_finished service jobId st = (case job_get jobId (sv_jobs st) of
     Some j \<Rightarrow> sv_emit (Service_finished service jobId (jb_state j)) st | None \<Rightarrow> st)"

definition end_run :: "string \<Rightarrow> waiting_run \<Rightarrow> string + json \<Rightarrow> services \<Rightarrow> services" where
  "end_run now w r st = (case r of
     Inl err \<Rightarrow> (case run_reject now (wr_run w) err (sv_jobs st) of
         Inl _ \<Rightarrow> st\<lparr>sv_jobs := drop_run (wr_run w) (sv_jobs st)\<rparr>
       | Inr m \<Rightarrow> sv_finished (wr_service w) (wr_job w) (st\<lparr>sv_jobs := m\<rparr>))
   | Inr res \<Rightarrow>
       (let st = report_step (wr_run w) 100 (wr_label w @ '' completed'') st;
            st = st\<lparr>sv_jobs := job_forget (wr_job w) (sv_jobs st)\<rparr>;
            st = st\<lparr>sv_jobs := run_resolve now (wr_run w) (Some (json_stringify res)) (sv_jobs st)\<rparr>
        in sv_finished (wr_service w) (wr_job w) st))"

text \<open>
  What is awaited ends: a call of the worker with an error or an object, an application that ended before with nothing new. After a
  proposal the product service applies it.
\<close>

definition sv_answer :: "services_env \<Rightarrow> clock_reads \<Rightarrow> string \<Rightarrow> nat \<Rightarrow> string + (string \<times> json) list \<Rightarrow> services \<Rightarrow> services" where
  "sv_answer env clock now rid answer st = (case List.find (\<lambda>w. wr_run w = rid) (sv_work st) of
     None \<Rightarrow> st
   | Some w \<Rightarrow>
       (let st = st\<lparr>sv_work := filter (\<lambda>v. wr_run v \<noteq> rid) (sv_work st)\<rparr> in
        case wr_work w of
          Worker_call _ _ \<Rightarrow> end_run now w (map_sum id JObj answer) st
        | Settled_apply r \<Rightarrow> end_run now w (map_sum opt_error_message id r) st
        | Proposing productId backup \<Rightarrow> (case answer of
            Inl err \<Rightarrow> end_run now w (Inl err) st
          | Inr res \<Rightarrow> (case sv_apply env clock now productId (propose_end (sx_coerce env) res) backup st of
              (r, st) \<Rightarrow> end_run now w (map_sum opt_error_message id r) st))))"

subsection \<open>Steps\<close>

text \<open>Besides the services, the jobs are cancelled by the operator and products are saved by the import and by the catalogue.\<close>

datatype service_step =
    S_start clock_reads string job_type json string
  | S_run clock_reads string job_type string
  | S_answer clock_reads string nat "string + (string \<times> json) list"
  | S_cancel string string
  | S_save string product

fun services_step :: "services_env \<Rightarrow> service_step \<Rightarrow> services \<Rightarrow> services" where
  "services_step env (S_start clock now ty request jobId) st = snd (sv_start env clock now ty request jobId st)"
| "services_step env (S_run clock now ty jobId) st = sv_run env clock now ty jobId st"
| "services_step env (S_answer clock now rid answer) st = sv_answer env clock now rid answer st"
| "services_step env (S_cancel now jobId) st = st\<lparr>sv_jobs := job_step (C_cancel now jobId) (sv_jobs st)\<rparr>"
| "services_step env (S_save now p) st = st\<lparr>sv_products := psql_save now p (sv_products st)\<rparr>"

text \<open>The constructors register one runner per service.\<close>

definition new_services :: "products_row list \<Rightarrow> services" where
  "new_services rows =
     \<lparr>sv_jobs = run job_step [C_register Learning, C_register Review, C_register Audit, C_register Optimization] new_manager,
      sv_active = {}, sv_work = [], sv_events = [], sv_products = rows, sv_updates = []\<rparr>"

end
