(* ===== verification/Job_Services_Props.thy ===== *)
theory Job_Services_Props imports Job_Services begin

text \<open>
  Theorems about the services of the theory \<open>Job_Services\<close>: the cooldown between two optimizations of a product over every interleaving of
  starts, answers, cancellations and saved products; what the end of a run leaves behind; and what a failed run does not clean up.
\<close>

subsection \<open>What changes the products\<close>

lemma sv_emit_fields [simp]:
  "sv_jobs (sv_emit e st) = sv_jobs st" "sv_work (sv_emit e st) = sv_work st" "sv_products (sv_emit e st) = sv_products st"
  "sv_updates (sv_emit e st) = sv_updates st" "sv_events (sv_emit e st) = sv_events st @ [e]" "sv_active (sv_emit e st) = sv_active st"
  by (simp_all add: sv_emit_def)

lemma sv_wait_fields [simp]:
  "sv_jobs (sv_wait w st) = sv_jobs st" "sv_work (sv_wait w st) = sv_work st @ [w]" "sv_products (sv_wait w st) = sv_products st"
  "sv_updates (sv_wait w st) = sv_updates st" "sv_events (sv_wait w st) = sv_events st" "sv_active (sv_wait w st) = sv_active st"
  by (simp_all add: sv_wait_def)

lemma report_step_fields [simp]:
  "sv_work (report_step rid p msg st) = sv_work st" "sv_products (report_step rid p msg st) = sv_products st"
  "sv_updates (report_step rid p msg st) = sv_updates st" "sv_events (report_step rid p msg st) = sv_events st"
  "sv_jobs (report_step rid p msg st) = run_report rid (Some p) (Some msg) (sv_jobs st)"
  by (simp_all add: report_step_def)

lemma sv_finished_fields [simp]:
  "sv_jobs (sv_finished ty i st) = sv_jobs st" "sv_work (sv_finished ty i st) = sv_work st" "sv_products (sv_finished ty i st) = sv_products st"
  "sv_updates (sv_finished ty i st) = sv_updates st"
  by (simp_all add: sv_finished_def split: option.split)

lemma end_run_fields [simp]:
  "sv_work (end_run now w r st) = sv_work st" "sv_products (end_run now w r st) = sv_products st" "sv_updates (end_run now w r st) = sv_updates st"
  by (simp_all add: end_run_def Let_def split: sum.split)

lemma sv_apply_fields [simp]:
  "sv_jobs (snd (sv_apply env clock now i d b st)) = sv_jobs st" "sv_work (snd (sv_apply env clock now i d b st)) = sv_work st"
  by (simp_all add: sv_apply_def Let_def split: prod.split sum.split)

text \<open>The time of the last optimization of a product.\<close>

definition last_stamp :: "(string \<times> nat \<times> nat) list \<Rightarrow> string \<Rightarrow> nat option" where
  "last_stamp us p = map_of (rev (map (\<lambda>(q, c, s). (q, s)) us)) p"

lemma last_stamp_append: "last_stamp (us @ [(q, c, s)]) p = (if p = q then Some s else last_stamp us p)"
  by (simp add: last_stamp_def)

definition spaced_updates :: "rat \<Rightarrow> (string \<times> nat \<times> nat) list \<Rightarrow> bool" where
  "spaced_updates gap us \<longleftrightarrow> (\<forall>a p c s b t. us = a @ (p, c, s) # b \<longrightarrow> last_stamp a p = Some t \<longrightarrow> gap \<le> rat_of_int (int c - int t) / 1000)"

lemma spaced_updates_append:
  "spaced_updates gap (us @ [(p, c, s)]) \<longleftrightarrow> spaced_updates gap us \<and> (\<forall>t. last_stamp us p = Some t \<longrightarrow> gap \<le> rat_of_int (int c - int t) / 1000)"
proof
  assume l: "spaced_updates gap (us @ [(p, c, s)])"
  have "spaced_updates gap us"
    unfolding spaced_updates_def
  proof (intro allI impI)
    fix a q d e b t
    assume "us = a @ (q, d, e) # b" and t: "last_stamp a q = Some t"
    then have "us @ [(p, c, s)] = a @ (q, d, e) # (b @ [(p, c, s)])" by simp
    then show "gap \<le> rat_of_int (int d - int t) / 1000" using l t unfolding spaced_updates_def by blast
  qed
  moreover have "us @ [(p, c, s)] = us @ (p, c, s) # []" by simp
  then have "\<forall>t. last_stamp us p = Some t \<longrightarrow> gap \<le> rat_of_int (int c - int t) / 1000"
    using l unfolding spaced_updates_def by blast
  ultimately show "spaced_updates gap us \<and> (\<forall>t. last_stamp us p = Some t \<longrightarrow> gap \<le> rat_of_int (int c - int t) / 1000)" ..
next
  assume r: "spaced_updates gap us \<and> (\<forall>t. last_stamp us p = Some t \<longrightarrow> gap \<le> rat_of_int (int c - int t) / 1000)"
  show "spaced_updates gap (us @ [(p, c, s)])"
    unfolding spaced_updates_def
  proof (intro allI impI)
    fix a q d e b t
    assume eq: "us @ [(p, c, s)] = a @ (q, d, e) # b" and t: "last_stamp a q = Some t"
    show "gap \<le> rat_of_int (int d - int t) / 1000"
    proof (cases b rule: rev_cases)
      case Nil
      then show ?thesis using eq t r by auto
    next
      case (snoc b' x)
      then have "us = a @ (q, d, e) # b'" using eq by simp
      then show ?thesis using t r unfolding spaced_updates_def by blast
    qed
  qed
qed

definition dates_work :: "opt_config \<Rightarrow> bool" where
  "dates_work cfg \<longleftrightarrow> (\<forall>ms. oc_iso cfg ms \<noteq> [] \<and> oc_parse cfg (oc_iso cfg ms) = Some (int ms))"

text \<open>The table remembers the last optimization of each product, and the optimizations are spaced.\<close>

definition cool_inv :: "opt_config \<Rightarrow> services \<Rightarrow> bool" where
  "cool_inv cfg st \<longleftrightarrow> (\<forall>p t. last_stamp (sv_updates st) p = Some t \<longrightarrow> map_option pd_last_optimized_at (psql_get p (sv_products st)) = Some (Some (oc_iso cfg t)))
     \<and> spaced_updates (min (oc_cooldown cfg) (oc_purge cfg)) (sv_updates st)"

lemma cool_inv_cong: "sv_products st' = sv_products st \<Longrightarrow> sv_updates st' = sv_updates st \<Longrightarrow> cool_inv cfg st' = cool_inv cfg st"
  by (simp add: cool_inv_def)

lemma cool_inv_apply:
  assumes inv: "cool_inv (sx_opt env) st" and dates: "dates_work (sx_opt env)"
  shows "cool_inv (sx_opt env) (snd (sv_apply env clock now i d b st))"
proof -
  let ?cfg = "sx_opt env"
  obtain r rows where a: "apply_proposal ?cfg (sqlite_products now) clock i d b (sv_products st) = (r, rows)" by fastforce
  show ?thesis
  proof (rule sqlite_store.apply_cases [OF a], goal_cases)
    case 1
    then show ?case using inv a by (cases r) (auto simp: sv_apply_def Let_def cool_inv_def)
  next
    case (2 row)
    let ?t = "oc_iso ?cfg (cr_stamp clock)"
    have t: "?t \<noteq> []" using dates by (simp add: dates_work_def)
    have row: "psql_get i (sv_products st) = Some row" using 2(1) by (simp add: sqlite_products_def)
    have rows: "psql_get k rows = (if k = i then Some (row\<lparr>pd_detail := d, pd_last_optimized_at := Some ?t\<rparr>) else psql_get k (sv_products st))" for k
      using sqlite_store.get_update [OF t, of now k i d "sv_products st"] 2(1,4) by (simp add: sqlite_products_def)
    have gap: "min (oc_cooldown ?cfg) (oc_purge ?cfg) \<le> rat_of_int (int (cr_check clock) - int s) / 1000"
      if s: "last_stamp (sv_updates st) i = Some s" for s
    proof -
      have "pd_last_optimized_at row = Some (oc_iso ?cfg s)" using inv s row unfolding cool_inv_def by fastforce
      then show ?thesis using 2(3) dates cooling_over [of ?cfg "oc_iso ?cfg s" "cr_check clock" "int s"] by (simp add: dates_work_def)
    qed
    have st': "sv_products (snd (sv_apply env clock now i d b st)) = rows"
        "sv_updates (snd (sv_apply env clock now i d b st)) = sv_updates st @ [(i, cr_check clock, cr_stamp clock)]"
      using a 2(5) by (simp_all add: sv_apply_def Let_def)
    show ?case
      using inv gap unfolding cool_inv_def st' spaced_updates_append last_stamp_append rows by auto
  qed
qed

lemma cool_inv_save: 
  assumes "cool_inv cfg st"
  shows "cool_inv cfg (st\<lparr>sv_products := psql_save now p (sv_products st)\<rparr>)"
proof -
  have "map_option pd_last_optimized_at (psql_get q (psql_save now p (sv_products st))) = Some (Some x)"
    if "map_option pd_last_optimized_at (psql_get q (sv_products st)) = Some (Some x)" for q x
    using that by (auto simp: psql_get_save)
  then show ?thesis using assms unfolding cool_inv_def by simp
qed

text \<open>A runner of the product service waits after its report, or after an application.\<close>

lemma optimization_waits:
  "\<exists>w q msg. run_service_job env clock now service Optimization i rid st = sv_wait w (report_step rid 10 msg st)
     \<or> run_service_job env clock now service Optimization i rid st = sv_wait w (snd (applyProposal env clock now q (report_step rid 10 msg st)))"
  unfolding run_service_job.simps optimization_runner_def Let_def
  by (auto split: prod.split sum.split if_split) (metis snd_conv)+

lemma cool_inv_job:
  assumes "cool_inv (sx_opt env) st" and "dates_work (sx_opt env)"
  shows "cool_inv (sx_opt env) (run_service_job env clock now service ty i rid st)"
proof (cases ty)
  case Optimization
  have inv: "cool_inv (sx_opt env) (report_step rid p msg st)" for p msg
    using assms(1) by (simp add: cool_inv_def)
  have app: "cool_inv (sx_opt env) (snd (applyProposal env clock now q (report_step rid p msg st)))" for q p msg
    unfolding applyProposal_def Let_def by (rule cool_inv_apply [OF inv assms(2)])
  have wait: "cool_inv (sx_opt env) (sv_wait w s) = cool_inv (sx_opt env) s" for w s by (rule cool_inv_cong) simp_all
  from optimization_waits [of env clock now service i rid st] show ?thesis
    unfolding Optimization using inv app by (elim exE disjE) (simp_all only: wait)
qed (use assms in \<open>simp_all add: learning_runner_def review_runner_def audit_runner_def Let_def cool_inv_def\<close>)

lemma cool_inv_run:
  assumes "cool_inv (sx_opt env) st" and "dates_work (sx_opt env)"
  shows "cool_inv (sx_opt env) (sv_run env clock now service i st)"
proof -
  have "cool_inv (sx_opt env) (st\<lparr>sv_active := A\<rparr>)" "cool_inv (sx_opt env) (st\<lparr>sv_active := A, sv_jobs := m\<rparr>)" for A m
    using assms(1) by (simp_all add: cool_inv_def)
  then show ?thesis
    using assms by (auto simp: sv_run_def Let_def intro: cool_inv_job split: option.split sum.split prod.split)
qed

lemma cool_inv_end_run: "cool_inv cfg (end_run now w r st) = cool_inv cfg st"
  by (rule cool_inv_cong) simp_all

lemma cool_inv_answer:
  assumes "cool_inv (sx_opt env) st" and "dates_work (sx_opt env)"
  shows "cool_inv (sx_opt env) (sv_answer env clock now rid answer st)"
proof -
  have inv: "cool_inv (sx_opt env) (st\<lparr>sv_work := W\<rparr>)" for W using assms(1) by (simp add: cool_inv_def)
  have "cool_inv (sx_opt env) st2" if "sv_apply env clock now i d b (st\<lparr>sv_work := W\<rparr>) = (r, st2)" for i d b W r st2
    using cool_inv_apply [OF inv assms(2), of clock now i d b W] that by simp
  then show ?thesis
    using inv assms(1) by (auto simp: sv_answer_def cool_inv_end_run Let_def split: option.split service_work.split sum.split prod.split)
qed

interpretation cooldown_sys: step_invariant "services_step env" "cool_inv (sx_opt env)" "\<lambda>_. dates_work (sx_opt env)" for env
proof unfold_locales
  fix s e
  assume inv: "cool_inv (sx_opt env) s" and dates: "dates_work (sx_opt env)"
  show "cool_inv (sx_opt env) (services_step env e s)"
  proof (cases e)
    case (S_start clock now ty request i)
    have m: "cool_inv (sx_opt env) (s\<lparr>sv_jobs := m\<rparr>)" for m using inv by (simp add: cool_inv_def)
    have ev: "cool_inv (sx_opt env) (sv_emit v t) = cool_inv (sx_opt env) t" for v t by (rule cool_inv_cong) simp_all
    show ?thesis
      unfolding S_start services_step.simps sv_start_def Let_def
      using inv cool_inv_run [OF m dates] by (auto simp: ev split: sum.split prod.split)
  next
    case (S_run clock now ty i)
    then show ?thesis using cool_inv_run [OF inv dates] by simp
  next
    case (S_answer clock now rid answer)
    then show ?thesis using cool_inv_answer [OF inv dates] by simp
  next
    case (S_cancel now i)
    have "cool_inv (sx_opt env) (s\<lparr>sv_jobs := m\<rparr>)" for m using inv by (simp add: cool_inv_def)
    then show ?thesis using S_cancel by simp
  next
    case (S_save now p)
    then show ?thesis using cool_inv_save [OF inv] by simp
  qed
qed

lemma cool_inv_new: "cool_inv cfg (new_services rows)"
  by (simp add: cool_inv_def new_services_def last_stamp_def spaced_updates_def)

text \<open>
  Property C25. Optimizations of a product are spaced. In every run of the services from any table of products, with jobs started, answered and
  cancelled in any order and products saved in between, an applied optimization was checked against a clock that is at least the cooldown (an hour
  in the desktop; the time of purging, if that is shorter) after the time stored by the last optimization of the same product, provided a printed date
  is read back. The clock need not be monotone.
\<close>

theorem optimizations_are_spaced:
  assumes dates: "\<forall>ms. oc_iso (sx_opt env) ms \<noteq> [] \<and> oc_parse (sx_opt env) (oc_iso (sx_opt env) ms) = Some (int ms)"
    and two: "sv_updates (run (services_step env) es (new_services rows)) = a @ (p, check0, stamp0) # b @ (p, check, stamp) # c"
    and between: "p \<notin> fst ` set b"
  shows "min (oc_cooldown (sx_opt env)) (oc_purge (sx_opt env)) \<le> rat_of_int (int check - int stamp0) / 1000"
proof -
  have "dates_work (sx_opt env)" using dates by (simp add: dates_work_def)
  then have "cool_inv (sx_opt env) (run (services_step env) es (new_services rows))"
    by (intro cooldown_sys.run_keeps cool_inv_new)
  then have spaced: "spaced_updates (min (oc_cooldown (sx_opt env)) (oc_purge (sx_opt env))) (sv_updates (run (services_step env) es (new_services rows)))"
    by (simp add: cool_inv_def)
  have "map_of (rev (map (\<lambda>(q, c, s). (q, s)) b)) p = None"
    using between by (force simp: map_of_eq_None_iff)
  then have "last_stamp (a @ (p, check0, stamp0) # b) p = Some stamp0"
    by (simp add: last_stamp_def map_add_def)
  moreover have "sv_updates (run (services_step env) es (new_services rows)) = (a @ (p, check0, stamp0) # b) @ (p, check, stamp) # c"
    using two by simp
  ultimately show ?thesis using spaced unfolding spaced_updates_def by blast
qed

definition unary_config :: opt_config where
  "unary_config = \<lparr>oc_cooldown = 1 / 100, oc_purge = 1, oc_limit = 100, oc_parse = (\<lambda>s. Some (int (length s) - 1)),
     oc_iso = (\<lambda>ms. CHR ''t'' # replicate ms CHR ''i'')\<rparr>"

definition unary_env :: services_env where
  "unary_env = \<lparr>sx_opt = unary_config, sx_coerce = (\<lambda>_. [])\<rparr>"

definition optimize_request :: "string \<Rightarrow> json" where
  "optimize_request d = JObj [(''action'', JStr ''apply''),
     (''request'', JObj [(''product_id'', JStr ''p''), (''detail'', JStr d)])]"

definition two_optimizations :: "service_step list" where
  "two_optimizations =
     [S_start \<lparr>cr_check = 5, cr_backup = 5, cr_stamp = 0\<rparr> ''t0'' Optimization (optimize_request ''warm'') ''j1'',
      S_start \<lparr>cr_check = 7, cr_backup = 7, cr_stamp = 7\<rparr> ''t1'' Optimization (optimize_request ''warmer'') ''j2'',
      S_start \<lparr>cr_check = 10, cr_backup = 1, cr_stamp = 10\<rparr> ''t2'' Optimization (optimize_request ''warmest'') ''j3'']"

definition one_product :: "products_row list" where
  "one_product = [\<lparr>pd_product_id = ''p'', pd_title = ''sock'', pd_detail = ''a sock'', pd_shop = ''s'', pd_note = [],
     pd_last_optimized_at = None, pd_created_at = ''t'', pd_updated_at = ''t''\<rparr>]"

lemma two_optimizations_run:
  "sv_updates (run (services_step unary_env) two_optimizations (new_services one_product)) = [(''p'', 5, 0), (''p'', 10, 10)]"
  by code_simp

theorem optimizations_are_spaced_witness:
  "min (oc_cooldown unary_config) (oc_purge unary_config) \<le> rat_of_int (int 10 - int 0) / 1000"
  using optimizations_are_spaced [of unary_env two_optimizations one_product "[]" "''p''" 5 0 "[]" 10 10 "[]"]
  by (simp add: two_optimizations_run unary_env_def unary_config_def)

subsection \<open>The end of a run\<close>

text \<open>The run \<open>rid\<close> is at work on the job \<open>i\<close>, which has a row.\<close>

definition at_work :: "nat \<Rightarrow> string \<Rightarrow> job_manager \<Rightarrow> bool" where
  "at_work rid i m \<longleftrightarrow> map_option (\<lambda>a. jb_job_id (ar_job a)) (find_run rid m) = Some i \<and> job_get i m \<noteq> None"

lemma find_run_put_other: "rid \<noteq> ar_id b \<Longrightarrow> find_run rid (put_run b m) = find_run rid m"
proof -
  have "rid \<noteq> ar_id b \<Longrightarrow> List.find (\<lambda>a. ar_id a = rid) (map (\<lambda>c. if ar_id c = ar_id b then b else c) xs) = List.find (\<lambda>a. ar_id a = rid) xs" for xs
    by (induction xs) auto
  then show "rid \<noteq> ar_id b \<Longrightarrow> find_run rid (put_run b m) = find_run rid m"
    by (simp add: find_run_def put_run_def)
qed

lemma at_work_report:
  assumes "at_work rid i m"
  shows "at_work rid i (run_report r p msg m)"
proof (cases "find_run r m")
  case None
  then show ?thesis using assms by (simp add: run_report_def)
next
  case (Some a)
  have r: "ar_id a = r" using find_run_SomeD Some by blast
  define k where "k = (case msg of None \<Rightarrow> (ar_job a)\<lparr>jb_progress := progress_report p (ar_progress a)\<rparr>
      | Some t \<Rightarrow> if t = [] then (ar_job a)\<lparr>jb_progress := progress_report p (ar_progress a)\<rparr>
        else (ar_job a)\<lparr>jb_progress := progress_report p (ar_progress a), jb_message := t\<rparr>)"
  have k: "jb_job_id k = jb_job_id (ar_job a)" by (auto simp: k_def split: option.split)
  let ?b = "a\<lparr>ar_job := k, ar_progress := progress_report p (ar_progress a)\<rparr>"
  have eq: "run_report r p msg m = job_emit (JobProgress_event (jb_job_id k) (progress_report p (ar_progress a)) msg) (job_save k (put_run ?b m))"
    using Some by (auto simp: run_report_def job_report_def Let_def k_def split: option.split)
  have "find_run rid (put_run ?b m) = (if rid = r then Some ?b else find_run rid m)"
    using find_run_put [OF Some, of ?b] find_run_put_other [of rid ?b m] r by simp
  then show ?thesis using assms Some k by (auto simp: at_work_def eq job_get_save)
qed

lemma find_run_drop: 
  assumes "rid \<noteq> r"
  shows "find_run rid (drop_run r m) = find_run rid m"
proof -
  have "List.find (\<lambda>a. ar_id a = rid) (filter (\<lambda>b. ar_id b \<noteq> r) xs) = List.find (\<lambda>a. ar_id a = rid) xs" for xs
    using assms by (induction xs) auto
  then show ?thesis unfolding find_run_def drop_run_def by simp
qed

lemma at_work_drop: "at_work rid i m \<Longrightarrow> rid \<noteq> r \<Longrightarrow> at_work rid i (drop_run r m)"
  by (simp add: at_work_def find_run_drop)

lemma at_work_transition: "at_work rid i (snd (job_transition now st j m)) = at_work rid i m"
  by (simp add: at_work_def find_run_def job_get_transition)

lemma at_work_cancel: "at_work rid i m \<Longrightarrow> job_cancel now k m = Inr (j, m') \<Longrightarrow> at_work rid i m'"
proof -
  assume a: "at_work rid i m" "job_cancel now k m = Inr (j, m')"
  then obtain job job1 m1 where "job_transition now JCANCELLING job m = (job1, m1)"
      and "m' = snd (job_transition now JCANCELLED (job1\<lparr>jb_finished_at := Some now\<rparr>) m1)"
    by (auto simp: job_cancel_def split: option.splits if_splits prod.splits)
  then show "at_work rid i m'" using a(1) at_work_transition [of rid i now JCANCELLING job m] by (simp add: at_work_transition)
qed

lemma at_work_create:
  assumes "at_work rid i m" and "service_create k now ty req idem tok m = Inr (j, m')"
  shows "at_work rid i m'"
proof -
  obtain rows where rows: "repo_create j (jm_rows m) = Inr rows" and m': "jm_rows m' = rows" "jm_active m' = jm_active m"
    using assms(2) by (auto simp: service_create_def job_create_def Let_def job_emit_def split: sum.splits)
  have "find_run rid m' = find_run rid m" using m' by (simp add: find_run_def)
  moreover have "job_get i m' \<noteq> None"
    using assms(1) repo_create_reads_back [OF rows, of i] m' by (auto simp: at_work_def job_get_def)
  ultimately show ?thesis using assms(1) by (simp add: at_work_def)
qed

lemma at_work_start:
  assumes "at_work rid i m" and "runs_inv m" and "run_start k m = Inr m'"
  shows "at_work rid i m'"
proof -
  obtain job where "m' = executeJob_start job m" using assms(3) by (auto simp: run_start_def split: option.splits if_splits)
  moreover have "List.find (\<lambda>a. ar_id a = rid) (jm_active m @ [b]) = List.find (\<lambda>a. ar_id a = rid) (jm_active m)"
    if "List.find (\<lambda>a. ar_id a = rid) (jm_active m) \<noteq> None" for b
    using that by (induction "jm_active m") (auto simp: find_None_iff find_append split: option.split)
  ultimately show ?thesis
    using assms(1) by (auto simp: at_work_def executeJob_start_def Let_def find_run_def job_emit_def job_save_def job_get_def repo_get_update)
qed

lemma forget_keeps [simp]: "find_run rid (job_forget i m) = find_run rid m" "job_get k (job_forget i m) = job_get k m"
    "runs_inv (job_forget i m) = runs_inv m" "at_work rid k (job_forget i m) = at_work rid k m"
  by (simp_all add: find_run_def job_forget_def job_get_def runs_inv_def at_work_def)

lemma at_work_resolve: "at_work rid i m \<Longrightarrow> rid \<noteq> r \<Longrightarrow> at_work rid i (run_resolve now r res m)"
  by (auto simp: run_resolve_def job_complete_def Let_def at_work_transition at_work_drop split: option.split)

lemma resolve_ends:
  assumes "at_work rid i m"
  shows "map_option jb_state (job_get i (run_resolve now rid res m)) = Some JCOMPLETED"
proof -
  obtain a where "find_run rid m = Some a" "jb_job_id (ar_job a) = i" "job_get i m \<noteq> None"
    using assms by (auto simp: at_work_def)
  then show ?thesis
    by (cases res) (auto simp: run_resolve_def job_complete_def Let_def job_get_transition)
qed

lemma reject_ends:
  assumes "at_work rid i m" and "runs_inv m"
  obtains m' where "run_reject now rid err m = Inr m'" and "map_option jb_state (job_get i m') = Some JFAILED" and "runs_inv m'"
    and "\<And>r k. at_work r k m \<Longrightarrow> r \<noteq> rid \<Longrightarrow> at_work r k m'"
proof -
  obtain a where a: "find_run rid m = Some a" "jb_job_id (ar_job a) = i" "job_get i m \<noteq> None"
    using assms by (auto simp: at_work_def)
  show thesis
    by (rule that [OF run_reject_fails [OF assms(2) a(1)]])
      (use a in \<open>auto simp: job_fail_def job_get_transition runs_inv_transition runs_inv_drop assms(2) at_work_transition at_work_drop\<close>)
qed

definition end_state :: "'e + 'a \<Rightarrow> job_state" where
  "end_state r = (if isl r then JFAILED else JCOMPLETED)"

lemma end_run_effect:
  assumes inv: "runs_inv (sv_jobs st)" and w: "at_work (wr_run w) (wr_job w) (sv_jobs st)"
  shows "runs_inv (sv_jobs (end_run now w r st))
    \<and> map_option jb_state (job_get (wr_job w) (sv_jobs (end_run now w r st))) = Some (end_state r)
    \<and> sv_events (end_run now w r st) = sv_events st @ [Service_finished (wr_service w) (wr_job w) (end_state r)]
    \<and> (\<forall>rid i. at_work rid i (sv_jobs st) \<longrightarrow> rid \<noteq> wr_run w \<longrightarrow> at_work rid i (sv_jobs (end_run now w r st)))"
proof (cases r)
  case (Inl err)
  obtain m' where m': "run_reject now (wr_run w) err (sv_jobs st) = Inr m'" "map_option jb_state (job_get (wr_job w) m') = Some JFAILED"
      "runs_inv m'" "\<And>r k. at_work r k (sv_jobs st) \<Longrightarrow> r \<noteq> wr_run w \<Longrightarrow> at_work r k m'"
    using reject_ends [OF w inv] by metis
  then obtain j where "job_get (wr_job w) m' = Some j" "jb_state j = JFAILED" by auto
  then show ?thesis using m' Inl by (simp add: end_run_def end_state_def sv_finished_def)
next
  case (Inr res)
  let ?m = "run_report (wr_run w) (Some 100) (Some (wr_label w @ '' completed'')) (sv_jobs st)"
  have m: "at_work (wr_run w) (wr_job w) (job_forget (wr_job w) ?m)" "runs_inv (job_forget (wr_job w) ?m)"
    using w inv by (simp_all add: at_work_report runs_inv_report)
  define m' where "m' = run_resolve now (wr_run w) (Some (json_stringify res)) (job_forget (wr_job w) ?m)"
  have eq: "end_run now w (Inr res) st = sv_finished (wr_service w) (wr_job w) (report_step (wr_run w) 100 (wr_label w @ '' completed'') st\<lparr>sv_jobs := m'\<rparr>)"
    by (simp add: end_run_def Let_def m'_def)
  have st: "map_option jb_state (job_get (wr_job w) m') = Some JCOMPLETED"
    unfolding m'_def by (rule resolve_ends [OF m(1)])
  then obtain j where "job_get (wr_job w) m' = Some j" "jb_state j = JCOMPLETED" by auto
  moreover have "runs_inv m'"
    unfolding m'_def using m(2) by (auto simp: run_resolve_def job_complete_def Let_def runs_inv_transition runs_inv_drop split: option.split)
  moreover have "at_work rid i m'" if "at_work rid i (sv_jobs st)" "rid \<noteq> wr_run w" for rid i
    unfolding m'_def using that by (intro at_work_resolve) (simp_all add: at_work_report)
  ultimately show ?thesis using st Inr by (simp add: eq end_state_def sv_finished_def)
qed

text \<open>What is waited for belongs to a run that is at work on its job.\<close>

definition waits_inv :: "services \<Rightarrow> bool" where
  "waits_inv st \<longleftrightarrow> runs_inv (sv_jobs st) \<and> distinct (map wr_run (sv_work st)) \<and> (\<forall>w\<in>set (sv_work st). at_work (wr_run w) (wr_job w) (sv_jobs st))"

lemma run_service_job_shape:
  assumes "ty \<noteq> Index_rebuild"
  shows "\<exists>w p msg. sv_work (run_service_job env clock now service ty i rid st) = sv_work st @ [w] \<and> wr_run w = rid \<and> wr_job w = i
    \<and> wr_service w = service \<and> sv_jobs (run_service_job env clock now service ty i rid st) = run_report rid (Some p) (Some msg) (sv_jobs st)"
proof (cases ty)
  case Optimization
  have "sv_work (snd (applyProposal env clock now q t)) = sv_work t \<and> sv_jobs (snd (applyProposal env clock now q t)) = sv_jobs t" for q t
    by (simp add: applyProposal_def Let_def)
  then show ?thesis unfolding Optimization run_service_job.simps optimization_runner_def Let_def
    by (auto split: prod.split sum.split if_split) (metis snd_conv report_step_fields(1,5))+
qed (use assms in \<open>auto simp: learning_runner_def review_runner_def audit_runner_def Let_def\<close>)

lemma waits_inv_run:
  assumes inv: "waits_inv st"
  shows "waits_inv (sv_run env clock now service i st)"
proof -
  let ?m = "sv_jobs st"
  have A: "waits_inv (st\<lparr>sv_active := B\<rparr>)" for B using inv by (simp add: waits_inv_def)
  have "waits_inv (run_service_job env clock now service (jb_type job) i (jm_next_run ?m) (st\<lparr>sv_active := B, sv_jobs := m\<rparr>))"
    if job: "job_get i ?m = Some job" and m: "run_start i ?m = Inr m" for job m B
  proof -
    have r: "runs_inv ?m" and w: "\<forall>w\<in>set (sv_work st). at_work (wr_run w) (wr_job w) ?m" and d: "distinct (map wr_run (sv_work st))"
      using inv by (auto simp: waits_inv_def)
    have old: "\<forall>w\<in>set (sv_work st). at_work (wr_run w) (wr_job w) m" and rm: "runs_inv m"
      using w at_work_start [OF _ r m] runs_inv_start [OF r m] by auto
    have fresh: "jm_next_run ?m \<notin> wr_run ` set (sv_work st)"
    proof
      assume "jm_next_run ?m \<in> wr_run ` set (sv_work st)"
      then obtain a where "find_run (jm_next_run ?m) ?m = Some a" using w by (fastforce simp: at_work_def)
      then have "a \<in> set (jm_active ?m)" "ar_id a = jm_next_run ?m" using find_run_SomeD by blast+
      then show False using r by (auto simp: runs_inv_def)
    qed
    have new: "at_work (jm_next_run ?m) i m"
      using find_run_fresh [OF r m job] job_get_id [OF job] by (auto simp: works_on_def at_work_def)
    show ?thesis
    proof (cases "jb_type job = Index_rebuild")
      case True
      then show ?thesis using old rm d by (simp add: waits_inv_def)
    next
      case False
      obtain v p msg where v: "wr_run v = jm_next_run ?m" "wr_job v = i"
        and st': "sv_work (run_service_job env clock now service (jb_type job) i (jm_next_run ?m) (st\<lparr>sv_active := B, sv_jobs := m\<rparr>)) = sv_work st @ [v]"
          "sv_jobs (run_service_job env clock now service (jb_type job) i (jm_next_run ?m) (st\<lparr>sv_active := B, sv_jobs := m\<rparr>))
            = run_report (jm_next_run ?m) (Some p) (Some msg) m"
        using run_service_job_shape [OF False, of env clock now service i "jm_next_run ?m" "st\<lparr>sv_active := B, sv_jobs := m\<rparr>"] by auto
      show ?thesis
        unfolding waits_inv_def st' using old rm d fresh new v by (auto simp: runs_inv_report at_work_report)
    qed
  qed
  then show ?thesis using inv A by (auto simp: sv_run_def Let_def split: option.split sum.split)
qed

lemma waits_inv_start:
  assumes inv: "waits_inv st"
  shows "waits_inv (snd (sv_start env clock now service request i st))"
proof -
  have "waits_inv (st\<lparr>sv_jobs := m\<rparr>)" if "service_create i now service request False None (sv_jobs st) = Inr (j, m)" for j m
    using inv at_work_create [OF _ that] runs_inv_create [OF _ that] by (auto simp: waits_inv_def)
  moreover have "waits_inv (sv_emit e t) = waits_inv t" for e t by (simp add: waits_inv_def)
  ultimately show ?thesis using inv waits_inv_run by (auto simp: sv_start_def Let_def split: sum.split prod.split)
qed

text \<open>An answer ends the run that waits for it, and no other.\<close>

lemma find_waiting:
  "distinct (map wr_run ws) \<Longrightarrow> w \<in> set ws \<Longrightarrow> List.find (\<lambda>v. wr_run v = wr_run w) ws = Some w"
  by (induction ws) auto

lemma sv_answer_ends:
  assumes inv: "waits_inv st" and w: "w \<in> set (sv_work st)"
  obtains r st0 where "sv_answer env clock now (wr_run w) answer st = end_run now w r st0" and "sv_jobs st0 = sv_jobs st"
    and "sv_work st0 = filter (\<lambda>v. wr_run v \<noteq> wr_run w) (sv_work st)"
    and "\<And>m q. wr_work w = Worker_call m q \<Longrightarrow> isl r = isl answer"
proof -
  let ?st = "st\<lparr>sv_work := filter (\<lambda>v. wr_run v \<noteq> wr_run w) (sv_work st)\<rparr>"
  have find: "List.find (\<lambda>v. wr_run v = wr_run w) (sv_work st) = Some w"
    using inv w find_waiting by (auto simp: waits_inv_def)
  show thesis
  proof (cases "wr_work w")
    case (Worker_call m q)
    show thesis
      by (rule that [of "map_sum id JObj answer" ?st]) (cases answer; simp add: sv_answer_def find Worker_call Let_def)+
  next
    case (Settled_apply r)
    show thesis
      by (rule that [of "map_sum opt_error_message id r" ?st]) (simp_all add: sv_answer_def find Settled_apply Let_def)
  next
    case (Proposing i b)
    show thesis
    proof (cases answer)
      case (Inl err)
      show thesis by (rule that [of "Inl err" ?st]) (simp_all add: sv_answer_def find Proposing Inl Let_def)
    next
      case (Inr res)
      obtain r st0 where a: "sv_apply env clock now i (propose_end (sx_coerce env) res) b ?st = (r, st0)" by fastforce
      then have "sv_jobs st0 = sv_jobs st" "sv_work st0 = filter (\<lambda>v. wr_run v \<noteq> wr_run w) (sv_work st)"
        using sv_apply_fields [of env clock now i "propose_end (sx_coerce env) res" b ?st] by simp_all
      then show thesis by (intro that [of "map_sum opt_error_message id r" st0]) (simp_all add: sv_answer_def find Proposing Inr Let_def a)
    qed
  qed
qed

lemma waits_inv_answer:
  assumes inv: "waits_inv st"
  shows "waits_inv (sv_answer env clock now rid answer st)"
proof (cases "List.find (\<lambda>w. wr_run w = rid) (sv_work st)")
  case None
  then show ?thesis using inv by (simp add: sv_answer_def)
next
  case (Some w)
  then have w: "w \<in> set (sv_work st)" "wr_run w = rid" by (auto simp: find_Some_iff)
  obtain r st0 where st': "sv_answer env clock now (wr_run w) answer st = end_run now w r st0" "sv_jobs st0 = sv_jobs st"
      "sv_work st0 = filter (\<lambda>v. wr_run v \<noteq> wr_run w) (sv_work st)"
    using sv_answer_ends [OF inv w(1)] by metis
  have at: "runs_inv (sv_jobs st0)" "\<forall>v\<in>set (sv_work st). at_work (wr_run v) (wr_job v) (sv_jobs st0)" "distinct (map wr_run (sv_work st))"
    using inv st'(2) by (auto simp: waits_inv_def)
  have "runs_inv (sv_jobs (end_run now w r st0))"
      "\<And>rid i. at_work rid i (sv_jobs st0) \<Longrightarrow> rid \<noteq> wr_run w \<Longrightarrow> at_work rid i (sv_jobs (end_run now w r st0))"
    using end_run_effect [OF at(1), of w now r] at(2) w(1) by blast+
  then have "waits_inv (end_run now w r st0)" unfolding waits_inv_def using at by (auto simp: st'(3) distinct_map_filter)
  then show ?thesis using st'(1) w(2) by simp
qed

interpretation waits_sys: step_invariant "services_step env" waits_inv "\<lambda>_. True" for env
proof unfold_locales
  fix s e
  assume inv: "waits_inv s"
  show "waits_inv (services_step env e s)"
  proof (cases e)
    case (S_cancel now i)
    have r: "runs_inv (sv_jobs s)" using inv by (simp add: waits_inv_def)
    have "at_work rid k (job_step (C_cancel now i) (sv_jobs s))" if "at_work rid k (sv_jobs s)" for rid k
      using that by (cases "job_cancel now i (sv_jobs s)") (auto simp: or_same_def intro: at_work_cancel)
    then show ?thesis using S_cancel inv runs_inv_step [OF r, of "C_cancel now i"] by (simp add: waits_inv_def del: job_step.simps)
  next
    case (S_save now p)
    then show ?thesis using inv by (simp add: waits_inv_def)
  qed (use inv in \<open>simp_all add: waits_inv_start waits_inv_run waits_inv_answer\<close>)
qed

lemma waits_inv_new: "waits_inv (new_services rows)"
  by (simp add: waits_inv_def new_services_def new_manager_def job_register_def runs_inv_def)

text \<open>
  Property C32. The end of a run is recorded and told. In every reachable state of the services, when what a run waits for ends, the run is over: its
  job is COMPLETED or FAILED in the table, the event of the end names that state, and every other run goes on waiting. A run that waited
  for a call of the worker is COMPLETED exactly when the call was answered.
\<close>

theorem run_ends_with_its_wait:
  assumes st: "st = run (services_step env) es (new_services rows)" and w: "w \<in> set (sv_work st)"
  shows "let st' = services_step env (S_answer clock now (wr_run w) answer) st in
    sv_work st' = filter (\<lambda>v. wr_run v \<noteq> wr_run w) (sv_work st)
    \<and> (\<exists>e. (e = JCOMPLETED \<or> e = JFAILED) \<and> map_option jb_state (job_get (wr_job w) (sv_jobs st')) = Some e
         \<and> last (sv_events st') = Service_finished (wr_service w) (wr_job w) e
         \<and> (\<forall>m q. wr_work w = Worker_call m q \<longrightarrow> (e = JCOMPLETED \<longleftrightarrow> \<not> isl answer)))"
proof -
  have inv: "waits_inv st" unfolding st by (intro waits_sys.run_keeps waits_inv_new) simp
  obtain r st0 where s: "sv_answer env clock now (wr_run w) answer st = end_run now w r st0" "sv_jobs st0 = sv_jobs st"
      "sv_work st0 = filter (\<lambda>v. wr_run v \<noteq> wr_run w) (sv_work st)" "\<And>m q. wr_work w = Worker_call m q \<Longrightarrow> isl r = isl answer"
    using sv_answer_ends [OF inv w] by metis
  have "runs_inv (sv_jobs st0)" "at_work (wr_run w) (wr_job w) (sv_jobs st0)" using inv w s(2) by (auto simp: waits_inv_def)
  note e = end_run_effect [OF this, of now r]
  show ?thesis
    unfolding Let_def services_step.simps s(1)
    using e s(3,4) by (auto simp: end_state_def intro!: exI [of _ "end_state r"] split: if_splits)
qed

definition clock_tick :: clock_reads where
  "clock_tick = \<lparr>cr_check = 5, cr_backup = 5, cr_stamp = 5\<rparr>"

definition review_started :: "service_step list" where
  "review_started = [S_start clock_tick ''t0'' Review (JObj [(''action'', JStr ''apply'')]) ''j1'']"

definition review_wait :: waiting_run where
  "review_wait = \<lparr>wr_run = 0, wr_service = Review, wr_job = ''j1'', wr_label = ''review apply'', wr_work = Worker_call ''review.apply'' (JObj [])\<rparr>"

lemma review_waits: "sv_work (run (services_step unary_env) review_started (new_services one_product)) = [review_wait]"
  by code_simp

theorem run_ends_with_its_wait_witness:
  "sv_work (services_step unary_env (S_answer clock_tick ''t1'' 0 (Inl ''worker down'')) (run (services_step unary_env) review_started (new_services one_product))) = []"
proof -
  have w: "review_wait \<in> set (sv_work (run (services_step unary_env) review_started (new_services one_product)))"
    by (simp add: review_waits)
  have "sv_work (services_step unary_env (S_answer clock_tick ''t1'' (wr_run review_wait) (Inl ''worker down''))
      (run (services_step unary_env) review_started (new_services one_product))) = filter (\<lambda>v. wr_run v \<noteq> wr_run review_wait) [review_wait]"
    using run_ends_with_its_wait [OF refl w, of clock_tick "''t1''" "Inl ''worker down''"] unfolding Let_def review_waits by blast
  then show ?thesis by (simp add: review_wait_def)
qed

subsection \<open>What is left undone\<close>

text \<open>The request of a job is forgotten when its run succeeds; a run that fails leaves it in the map for good.\<close>

lemma pending_keeps [simp]:
  "jm_pending (job_emit e m) = jm_pending m" "jm_pending (job_save j m) = jm_pending m" "jm_pending (drop_run r m) = jm_pending m"
  "jm_pending (snd (job_transition now s j m)) = jm_pending m" "jm_pending (put_run a m) = jm_pending m"
  "jm_pending (run_report r p msg m) = jm_pending m" "jm_pending (run_resolve now r res m) = jm_pending m"
  by (auto simp: job_emit_def job_save_def drop_run_def job_transition_def put_run_def run_report_def job_report_def Let_def
      run_resolve_def job_complete_def split: option.split)

theorem failed_runs_keep_their_request:
  assumes "waits_inv st" and "w \<in> set (sv_work st)"
  shows "requestFor i (sv_jobs (end_run now w (Inl err) st)) = requestFor i (sv_jobs st)"
    and "requestFor (wr_job w) (sv_jobs (end_run now w (Inr res) st)) = None"
proof -
  have "runs_inv (sv_jobs st)" and "at_work (wr_run w) (wr_job w) (sv_jobs st)" using assms by (auto simp: waits_inv_def)
  then obtain a where r: "runs_inv (sv_jobs st)" and a: "find_run (wr_run w) (sv_jobs st) = Some a" by (auto simp: at_work_def)
  have "run_reject now (wr_run w) err (sv_jobs st) = Inr (snd (job_fail now (ar_job a) err (drop_run (wr_run w) (sv_jobs st))))"
    by (rule run_reject_fails [OF r a])
  then show "requestFor i (sv_jobs (end_run now w (Inl err) st)) = requestFor i (sv_jobs st)"
    by (simp add: end_run_def requestFor_def job_fail_def)
  show "requestFor (wr_job w) (sv_jobs (end_run now w (Inr res) st)) = None"
    by (simp add: end_run_def requestFor_def Let_def job_forget_def)
qed

text \<open>A cancelled optimization is applied all the same when the proposal arrives, and its job is COMPLETED.\<close>

theorem cancelled_optimization_is_applied:
  "let st = run (services_step unary_env)
      [S_start clock_tick ''t0'' Optimization (JObj [(''action'', JStr ''propose''), (''request'', JObj [(''product_id'', JStr ''p'')])]) ''j1'',
       S_cancel ''t1'' ''j1'',
       S_answer clock_tick ''t2'' 0 (Inr [(''proposal'', JObj [(''detail'', JStr ''warm'')])])] (new_services one_product)
   in map_option pd_detail (psql_get ''p'' (sv_products st)) = Some ''warm'' \<and> map_option jb_state (job_get ''j1'' (sv_jobs st)) = Some JCOMPLETED"
  by code_simp

end
