(* ===== verification/Knowledge_Retrieval.thy ===== *)
theory Knowledge_Retrieval imports Inbound_Normalizer begin

text \<open>
  The retrieval of store knowledge through the worker, \<open>apps/desktop/src/main/adapters/rpc-store-knowledge-retrieval.ts\<close> behind
  the port \<open>apps/desktop/src/main/ports/store-knowledge-retrieval-port.ts\<close>. The answer of the worker is an unchecked object; what the runtime says
  when the code reads a property of \<open>undefined\<close> or \<open>null\<close> is the argument \<open>type_error\<close>.
\<close>

record knowledge_query =
  kq_merchant_id :: string
  kq_store_id :: string
  kq_keywords :: "string list option"
  kq_type :: "string option"
  kq_status :: "string option"
  kq_limit :: "int option"

record retrieval_result =
  kr_ok :: bool
  kr_entries :: "json list"
  kr_count :: "json option"
  kr_error :: "string option"

definition scope_payload :: "knowledge_query \<Rightarrow> (string \<times> json) list" where
  "scope_payload q = [(''merchant_id'', JStr (kq_merchant_id q)), (''store_id'', JStr (kq_store_id q))]"

definition text_filter :: "string \<Rightarrow> string option \<Rightarrow> (string \<times> json) list" where
  "text_filter k v = (case v of Some t \<Rightarrow> if t = [] then [] else [(k, JStr t)] | None \<Rightarrow> [])"

definition filter_payload :: "knowledge_query \<Rightarrow> (string \<times> json) list" where
  "filter_payload q = text_filter ''knowledge_type'' (kq_type q) @ text_filter ''status'' (kq_status q)
     @ (case kq_limit q of Some n \<Rightarrow> [(''limit'', JNum (Integral n))] | None \<Rightarrow> [])"

definition list_payload :: "knowledge_query \<Rightarrow> (string \<times> json) list" where
  "list_payload q = scope_payload q @ filter_payload q"

definition query_payload :: "knowledge_query \<Rightarrow> (string \<times> json) list" where
  "query_payload q = scope_payload q
     @ (case kq_keywords q of Some ks \<Rightarrow> if ks = [] then [] else [(''keywords'', JArr (map JStr ks))] | None \<Rightarrow> [])
     @ filter_payload q"

definition ENTRY_FIELDS :: "string list" where
  "ENTRY_FIELDS = [''id'', ''merchant_id'', ''store_id'', ''knowledge_type'', ''title'', ''content'', ''tags'', ''source'', ''status'',
     ''created_at'', ''updated_at'']"

text \<open>An entry keeps these fields only; a missing one stays missing. Reading a field of \<open>null\<close> throws.\<close>

definition map_entry :: "json \<Rightarrow> json option" where
  "map_entry e = (if e = JNull then None
     else Some (JObj (concat (map (\<lambda>k. case jget e k of Some v \<Rightarrow> [(k, v)] | None \<Rightarrow> []) ENTRY_FIELDS))))"

fun map_entries :: "json list \<Rightarrow> json list option" where
  "map_entries [] = Some []"
| "map_entries (e # es) = (case (map_entry e, map_entries es) of (Some x, Some xs) \<Rightarrow> Some (x # xs) | _ \<Rightarrow> None)"

text \<open>The truth value of a field.\<close>

definition js_true :: "json option \<Rightarrow> bool" where
  "js_true v = (case v of None \<Rightarrow> False | Some JNull \<Rightarrow> False | Some (JBool b) \<Rightarrow> b | Some (JStr s) \<Rightarrow> s \<noteq> []
     | Some (JNum n) \<Rightarrow> n \<noteq> Integral 0 | Some (JArr _) \<Rightarrow> True | Some (JObj _) \<Rightarrow> True)"

definition failed_result :: "string \<Rightarrow> retrieval_result" where
  "failed_result msg = \<lparr>kr_ok = False, kr_entries = [], kr_count = Some (JNum (Integral 0)), kr_error = Some msg\<rparr>"

text \<open>\<open>mapResponse\<close>: \<open>None\<close> when it throws. The message of a refused request is a string.\<close>

definition mapResponse :: "(string \<times> json) list \<Rightarrow> retrieval_result option" where
  "mapResponse response =
     (if \<not> js_true (jget (JObj response) ''ok'') then
        Some (failed_result (case jget (JObj response) ''error'' of Some (JStr t) \<Rightarrow> if t = [] then ''Worker returned ok: false'' else t
          | _ \<Rightarrow> ''Worker returned ok: false''))
      else (case jget (JObj response) ''entries'' of
          Some (JArr es) \<Rightarrow> map_option (\<lambda>xs. \<lparr>kr_ok = True, kr_entries = xs, kr_count = jget (JObj response) ''count'', kr_error = None\<rparr>) (map_entries es)
        | _ \<Rightarrow> None))"

text \<open>\<open>query\<close> and \<open>list\<close>: the call of the worker, and the end with its answer.\<close>

datatype knowledge_call = Knowledge_query | Knowledge_list

fun retrieval_request :: "knowledge_call \<Rightarrow> knowledge_query \<Rightarrow> string \<times> (string \<times> json) list" where
  "retrieval_request Knowledge_query q = (''store_knowledge.query'', query_payload q)"
| "retrieval_request Knowledge_list q = (''store_knowledge.list'', list_payload q)"

fun call_text :: "knowledge_call \<Rightarrow> string" where
  "call_text Knowledge_query = ''query''"
| "call_text Knowledge_list = ''list''"

definition knowledge_end :: "string \<Rightarrow> knowledge_call \<Rightarrow> string + (string \<times> json) list \<Rightarrow> retrieval_result" where
  "knowledge_end type_error call answer =
     (let failed = (\<lambda>msg. failed_result (''StoreKnowledge RPC '' @ call_text call @ '' failed: '' @ msg)) in
      case answer of
        Inl err \<Rightarrow> failed err
      | Inr response \<Rightarrow> (case mapResponse response of Some r \<Rightarrow> r | None \<Rightarrow> failed type_error))"

subsection \<open>What is asked and what is answered\<close>

text \<open>Every request names the merchant and the store, first and once.\<close>

lemma request_scope:
  "map_of (snd (retrieval_request call q)) ''merchant_id'' = Some (JStr (kq_merchant_id q))"
  "map_of (snd (retrieval_request call q)) ''store_id'' = Some (JStr (kq_store_id q))"
  by (cases call; simp add: query_payload_def list_payload_def scope_payload_def)+

lemma map_entries_fields: "map_entries es = Some xs \<Longrightarrow> length xs = length es \<and> (\<forall>i<length es. map_entry (es ! i) = Some (xs ! i))"
proof (induction es arbitrary: xs)
  case (Cons e es)
  obtain x ys where e: "map_entry e = Some x" "map_entries es = Some ys" "xs = x # ys"
    using Cons.prems by (auto split: option.splits)
  then show ?case using Cons.IH [OF e(2)] by (auto simp: nth_Cons split: nat.split)
qed simp

lemma map_entry_field:
  assumes "map_entry e = Some x" and "k \<in> set ENTRY_FIELDS"
  shows "jget x k = jget e k"
proof -
  have "map_of (concat (map (\<lambda>k. case f k of Some v \<Rightarrow> [(k, v)] | None \<Rightarrow> []) ks)) k = (if k \<in> set ks then f k else None)" for f :: "string \<Rightarrow> json option" and ks
    by (induction ks) (auto split: option.split)
  then show ?thesis using assms by (auto simp: map_entry_def split: if_splits)
qed

text \<open>
  The retrieval never throws and its answer is whole: it is a success only when the worker said so and sent a list of entries, and then it
  holds one entry per entry of the worker, with the same fields; every other end is a failure with a message and no entries.
\<close>

theorem retrieval_answers:
  assumes "r = knowledge_end type_error call answer"
  shows "if kr_ok r
    then \<exists>response es. answer = Inr response \<and> map_of response ''entries'' = Some (JArr es) \<and> length (kr_entries r) = length es
       \<and> (\<forall>i<length es. \<forall>k\<in>set ENTRY_FIELDS. jget (kr_entries r ! i) k = jget (es ! i) k) \<and> kr_error r = None
    else kr_entries r = [] \<and> kr_count r = Some (JNum (Integral 0)) \<and> kr_error r \<noteq> None"
proof (cases "kr_ok r")
  case True
  then obtain response where a: "answer = Inr response" "mapResponse response = Some r"
    using assms by (auto simp: knowledge_end_def failed_result_def Let_def split: sum.splits option.splits)
  obtain es xs where es: "map_of response ''entries'' = Some (JArr es)" "map_entries es = Some xs" "kr_entries r = xs" "kr_error r = None"
    using a(2) True by (auto simp: mapResponse_def failed_result_def split: if_splits option.splits json.splits)
  show ?thesis using True a(1) es map_entries_fields [OF es(2)] map_entry_field by auto
next
  case False
  then show ?thesis
    using assms by (auto simp: knowledge_end_def mapResponse_def failed_result_def Let_def split: sum.splits option.splits if_splits json.splits)
qed

text \<open>The scope of the request is not compared with the scope of the answer: entries of another merchant pass, and so does any count.\<close>

definition foreign_answer :: "(string \<times> json) list" where
  "foreign_answer = [(''ok'', JBool True), (''entries'', JArr [JObj [(''merchant_id'', JStr ''other'')]]), (''count'', JNum (Integral 7))]"

theorem foreign_entries_pass:
  "let r = knowledge_end ''TypeError'' Knowledge_query (Inr foreign_answer) in
     kr_ok r \<and> map (\<lambda>e. jget e ''merchant_id'') (kr_entries r) = [Some (JStr ''other'')] \<and> kr_count r = Some (JNum (Integral 7))"
  by code_simp

end
