(* ===== verification/Db_Backup.thy ===== *)
theory Db_Backup imports Prelude "HOL-Library.List_Lexorder" "HOL-Library.Char_ord" "HOL-Library.Sublist" begin

text \<open>
  Backups of the database: \<open>packages/persistence/src/backup/backup-manager.ts\<close> and the backup before an upgrade,
  \<open>packages/persistence/src/migrations/database-backup.ts\<close>.

  A path is the list of its segments below the root of the file system (POSIX; the separator is the slash), and a file system
  is a table of files and a list of directories, in the order in which they are listed. A file is a database (its committed content, of any type), the
  metadata of a backup, or something else. What SQLite does is an argument: \<open>VACUUM INTO\<close> writes the committed content or throws and
  leaves something or nothing behind; a check reads the integrity and the version of a content. Copying,
  writing and renaming may throw as well. Removing does not.
\<close>

subsection \<open>Paths and files\<close>

type_synonym file_path = "string list"

fun path_segments :: "string \<Rightarrow> string \<Rightarrow> string list" where
  "path_segments cur [] = [cur]"
| "path_segments cur (c # s) = (if c = CHR ''/'' then cur # path_segments [] s else path_segments (cur @ [c]) s)"

fun normal_step :: "string \<Rightarrow> file_path \<Rightarrow> file_path" where
  "normal_step seg p = (if seg = [] \<or> seg = ''.'' then p else if seg = ''..'' then butlast p else p @ [seg])"

definition resolve_path :: "file_path \<Rightarrow> string \<Rightarrow> file_path" where
  "resolve_path cwd s = fold normal_step (path_segments [] s) (if s \<noteq> [] \<and> hd s = CHR ''/'' then [] else cwd)"

definition path_text :: "file_path \<Rightarrow> string" where
  "path_text p = (if p = [] then ''/'' else concat (map (\<lambda>seg. CHR ''/'' # seg) p))"

record backup_metadata =
  bm_createdAt :: string
  bm_databaseSchemaVersion :: int
  bm_databaseFilename :: string
  bm_backupFile :: "string option"
  bm_backupDir :: "string option"

datatype 'd file_content = Database 'd | Metadata_file backup_metadata | Other_file

record 'd file_system =
  fs_files :: "(file_path \<times> 'd file_content) list"
  fs_dirs :: "file_path list"

definition file_at :: "file_path \<Rightarrow> 'd file_system \<Rightarrow> 'd file_content option" where
  "file_at p fs = map_of (fs_files fs) p"

definition existsSync :: "file_path \<Rightarrow> 'd file_system \<Rightarrow> bool" where
  "existsSync p fs \<longleftrightarrow> file_at p fs \<noteq> None \<or> p \<in> set (fs_dirs fs)"

definition put_file :: "file_path \<Rightarrow> 'd file_content \<Rightarrow> 'd file_system \<Rightarrow> 'd file_system" where
  "put_file p c fs = fs\<lparr>fs_files := map_set p c (fs_files fs)\<rparr>"

definition rm_file :: "file_path \<Rightarrow> 'd file_system \<Rightarrow> 'd file_system" where
  "rm_file p fs = fs\<lparr>fs_files := map_delete p (fs_files fs)\<rparr>"

definition rename_file :: "file_path \<Rightarrow> file_path \<Rightarrow> 'd file_system \<Rightarrow> 'd file_system" where
  "rename_file a b fs = (case file_at a fs of Some c \<Rightarrow> put_file b c (rm_file a fs) | None \<Rightarrow> fs)"

definition mkdir_p :: "file_path \<Rightarrow> 'd file_system \<Rightarrow> 'd file_system" where
  "mkdir_p p fs = fs\<lparr>fs_dirs := fs_dirs fs @ filter (\<lambda>q. q \<notin> set (fs_dirs fs)) (map (\<lambda>n. take n p) [1..<Suc (length p)])\<rparr>"

definition rm_rf :: "file_path \<Rightarrow> 'd file_system \<Rightarrow> 'd file_system" where
  "rm_rf p fs = fs\<lparr>fs_files := filter (\<lambda>(q, _). \<not> prefix p q) (fs_files fs), fs_dirs := filter (\<lambda>q. \<not> prefix p q) (fs_dirs fs)\<rparr>"

definition empty_dir :: "file_path \<Rightarrow> 'd file_system \<Rightarrow> bool" where
  "empty_dir p fs \<longleftrightarrow> (\<forall>(q, _)\<in>set (fs_files fs). \<not> strict_prefix p q) \<and> (\<forall>q\<in>set (fs_dirs fs). \<not> strict_prefix p q)"

definition assertWithin :: "file_path \<Rightarrow> file_path \<Rightarrow> bool" where
  "assertWithin r c \<longleftrightarrow> c = r \<or> (r \<noteq> [] \<and> prefix r c)"

subsection \<open>Checks\<close>

definition DB_FILENAME :: string where
  "DB_FILENAME = ''fast_sheep.sqlite3''"

definition BACKUP_METADATA_FILENAME :: string where
  "BACKUP_METADATA_FILENAME = ''backup-metadata.json''"

definition SUPPORTED_DB_SCHEMA_VERSION :: int where
  "SUPPORTED_DB_SCHEMA_VERSION = 10"

datatype backup_error =
    Invalid_data_root string
  | Schema_too_new int
  | Io_error string

text \<open>What a content shows: the answer of \<open>PRAGMA integrity_check\<close> (none when it throws) and the version in \<open>app_meta\<close>.\<close>

datatype version_reading = Query_throws | No_row | Reads_as "int option"

record 'd evidence =
  ev_integrity :: "'d \<Rightarrow> string option"
  ev_version :: "'d \<Rightarrow> version_reading"

definition check_version :: "int option \<Rightarrow> int \<Rightarrow> backup_error + unit" where
  "check_version actual expected =
     (if actual \<noteq> Some expected then Inl (Invalid_data_root ''backup schema mismatch'')
      else if expected > SUPPORTED_DB_SCHEMA_VERSION then Inl (Schema_too_new expected)
      else Inr ())"

definition validateSnapshot :: "'d evidence \<Rightarrow> 'd file_content option \<Rightarrow> int \<Rightarrow> backup_error + unit" where
  "validateSnapshot ev file expected = (case file of
     Some (Database d) \<Rightarrow> (case ev_integrity ev d of
         None \<Rightarrow> Inl (Invalid_data_root ''backup corrupt'')
       | Some t \<Rightarrow> if t \<noteq> ''ok'' then Inl (Invalid_data_root ''backup corrupt'')
           else (case ev_version ev d of
               Query_throws \<Rightarrow> Inl (Io_error ''query failed'')
             | No_row \<Rightarrow> check_version (Some 0) expected
             | Reads_as n \<Rightarrow> check_version n expected))
   | _ \<Rightarrow> Inl (Invalid_data_root ''backup corrupt''))"

subsection \<open>Creating a backup\<close>

text \<open>A step that writes a file succeeds, or throws and leaves something or nothing at its target.\<close>

datatype write_end = Writes | Throws_leaving_part | Throws_leaving_nothing

record backup_env =
  be_stamp :: string
  be_temp :: string
  be_createdAt :: string
  be_vacuum :: write_end
  be_rename_ok :: bool
  be_write :: write_end

definition write_step :: "write_end \<Rightarrow> file_path \<Rightarrow> 'd file_content \<Rightarrow> 'd file_system \<Rightarrow> (backup_error + unit) \<times> 'd file_system" where
  "write_step we p c fs = (case we of
     Writes \<Rightarrow> (Inr (), put_file p c fs)
   | Throws_leaving_part \<Rightarrow> (Inl (Io_error ''write failed''), put_file p Other_file fs)
   | Throws_leaving_nothing \<Rightarrow> (Inl (Io_error ''write failed''), fs))"

definition snapshotDatabase :: "write_end \<Rightarrow> file_path \<Rightarrow> file_path \<Rightarrow> 'd file_system \<Rightarrow> (backup_error + unit) \<times> 'd file_system" where
  "snapshotDatabase we databasePath target fs =
     (if \<not> existsSync databasePath fs then (Inl (Invalid_data_root ''backup failed: no database file''), fs)
      else case file_at databasePath fs of
        Some (Database d) \<Rightarrow> write_step we target (Database d) fs
      | _ \<Rightarrow> (Inl (Io_error ''file is not a database''), fs))"

definition new_metadata :: "backup_env \<Rightarrow> file_path \<Rightarrow> int \<Rightarrow> backup_metadata" where
  "new_metadata env backupDir schemaVersion =
     \<lparr>bm_createdAt = be_createdAt env, bm_databaseSchemaVersion = schemaVersion, bm_databaseFilename = DB_FILENAME,
      bm_backupFile = Some (path_text (backupDir @ [DB_FILENAME])), bm_backupDir = Some (path_text backupDir)\<rparr>"

text \<open>The body of the \<open>try\<close>, and its \<open>catch\<close>.\<close>

definition backup_body :: "'d evidence \<Rightarrow> backup_env \<Rightarrow> file_path \<Rightarrow> file_path \<Rightarrow> int \<Rightarrow> 'd file_system
    \<Rightarrow> (backup_error + backup_metadata) \<times> 'd file_system" where
  "backup_body ev env databasePath backupDir schemaVersion fs =
     (let temp = backupDir @ [be_temp env]; final = backupDir @ [DB_FILENAME] in
      case snapshotDatabase (be_vacuum env) databasePath temp fs of
        (Inl e, fs) \<Rightarrow> (Inl e, fs)
      | (Inr _, fs) \<Rightarrow> (case validateSnapshot ev (file_at temp fs) schemaVersion of
          Inl e \<Rightarrow> (Inl e, fs)
        | Inr _ \<Rightarrow>
            if \<not> be_rename_ok env then (Inl (Io_error ''rename failed''), fs)
            else
              (let fs = rename_file temp final fs; meta = new_metadata env backupDir schemaVersion in
               case write_step (be_write env) (backupDir @ [BACKUP_METADATA_FILENAME]) (Metadata_file meta) fs of
                 (Inl e, fs) \<Rightarrow> (Inl e, fs)
               | (Inr _, fs) \<Rightarrow> (Inr meta, fs))))"

definition backup_cleanup :: "file_path list \<Rightarrow> file_path \<Rightarrow> 'd file_system \<Rightarrow> 'd file_system" where
  "backup_cleanup ps dir fs =
     (let fs = fold rm_file ps fs in if dir \<in> set (fs_dirs fs) \<and> empty_dir dir fs then rm_rf dir fs else fs)"

definition createBackup :: "'d evidence \<Rightarrow> backup_env \<Rightarrow> file_path \<Rightarrow> file_path \<Rightarrow> int \<Rightarrow> 'd file_system
    \<Rightarrow> (backup_error + backup_metadata) \<times> 'd file_system" where
  "createBackup ev env databasePath root schemaVersion fs =
     (let backupDir = root @ [be_stamp env] in
      case backup_body ev env databasePath backupDir schemaVersion (mkdir_p backupDir fs) of
        (Inr meta, fs) \<Rightarrow> (Inr meta, fs)
      | (Inl e, fs) \<Rightarrow> (Inl e, backup_cleanup
          [backupDir @ [be_temp env], backupDir @ [DB_FILENAME], backupDir @ [BACKUP_METADATA_FILENAME]] backupDir fs))"

text \<open>\<open>backupDatabase\<close>: nothing to do without a database file of some size, otherwise a checked snapshot or a throw.\<close>

definition integrity_ok :: "'d evidence \<Rightarrow> 'd file_content option \<Rightarrow> backup_error + unit" where
  "integrity_ok ev file = (case file of
     Some (Database d) \<Rightarrow> if ev_integrity ev d = Some ''ok'' then Inr () else Inl (Io_error ''pre-upgrade backup corrupt'')
   | _ \<Rightarrow> Inl (Io_error ''pre-upgrade backup corrupt''))"

definition backupDatabase :: "'d evidence \<Rightarrow> backup_env \<Rightarrow> bool \<Rightarrow> file_path \<Rightarrow> file_path \<Rightarrow> 'd file_system
    \<Rightarrow> (backup_error + file_path option) \<times> 'd file_system" where
  "backupDatabase ev env emptyFile databasePath backupDir fs =
     (if \<not> existsSync databasePath fs \<or> emptyFile then (Inr None, fs)
      else
        (let dir = backupDir @ [be_stamp env]; temp = dir @ [be_temp env]; target = dir @ [DB_FILENAME];
             cleanup = backup_cleanup [temp, target] dir in
         case snapshotDatabase (be_vacuum env) databasePath temp (mkdir_p dir fs) of
           (Inl e, fs) \<Rightarrow> (Inl e, cleanup fs)
         | (Inr _, fs) \<Rightarrow> (case integrity_ok ev (file_at temp fs) of
             Inl e \<Rightarrow> (Inl e, cleanup fs)
           | Inr _ \<Rightarrow> if \<not> be_rename_ok env then (Inl (Io_error ''rename failed''), cleanup fs)
               else (Inr (Some target), rename_file temp target fs))))"

subsection \<open>Listing, restoring, rotating\<close>

definition read_meta :: "file_path \<Rightarrow> 'd file_system \<Rightarrow> backup_metadata option" where
  "read_meta p fs = (case file_at p fs of Some (Metadata_file m) \<Rightarrow> Some m | _ \<Rightarrow> None)"

definition or_empty :: "string option \<Rightarrow> string" where
  "or_empty x = (case x of Some s \<Rightarrow> s | None \<Rightarrow> [])"

definition list_entry :: "file_path \<Rightarrow> file_path \<Rightarrow> 'd file_system \<Rightarrow> file_path \<Rightarrow> backup_metadata option" where
  "list_entry cwd root fs dir = (case read_meta (dir @ [BACKUP_METADATA_FILENAME]) fs of
     None \<Rightarrow> None
   | Some m \<Rightarrow>
       if assertWithin root (resolve_path cwd (or_empty (bm_backupDir m)))
          \<and> assertWithin root (resolve_path cwd (or_empty (bm_backupFile m)))
          \<and> or_empty (bm_backupFile m) \<noteq> [] \<and> existsSync (resolve_path cwd (or_empty (bm_backupFile m))) fs
       then Some m else None)"

definition sub_dirs :: "file_path \<Rightarrow> 'd file_system \<Rightarrow> file_path list" where
  "sub_dirs root fs = filter (\<lambda>d. d \<noteq> [] \<and> butlast d = root) (fs_dirs fs)"

definition listBackups :: "file_path \<Rightarrow> file_path \<Rightarrow> 'd file_system \<Rightarrow> backup_metadata list" where
  "listBackups cwd root fs =
     (if \<not> existsSync root fs then []
      else rev (sort_key bm_createdAt (List.map_filter (list_entry cwd root fs) (sub_dirs root fs))))"

definition readBackupMetadata :: "file_path \<Rightarrow> file_path \<Rightarrow> 'd file_system \<Rightarrow> backup_error + backup_metadata" where
  "readBackupMetadata cwd backupFile fs =
     (let p = butlast backupFile @ [BACKUP_METADATA_FILENAME] in
      if \<not> existsSync p fs then Inl (Invalid_data_root ''backup incomplete: metadata missing'')
      else case read_meta p fs of
        None \<Rightarrow> Inl (Invalid_data_root ''backup corrupt: unreadable metadata'')
      | Some m \<Rightarrow> if resolve_path cwd (or_empty (bm_backupFile m)) \<noteq> backupFile
          then Inl (Invalid_data_root ''backup corrupt: metadata backupFile mismatch'') else Inr m)"

record restore_env =
  re_staging :: string
  re_copy :: write_end
  re_rename_ok :: bool

definition restore_body :: "'d evidence \<Rightarrow> restore_env \<Rightarrow> backup_metadata \<Rightarrow> file_path \<Rightarrow> file_path \<Rightarrow> file_path \<Rightarrow> 'd file_system
    \<Rightarrow> (backup_error + file_path) \<times> 'd file_system" where
  "restore_body ev env meta backupFile staging target fs =
     (case file_at backupFile fs of
        None \<Rightarrow> (Inl (Io_error ''copy failed''), fs)
      | Some c \<Rightarrow> (case write_step (re_copy env) staging c fs of
          (Inl e, fs) \<Rightarrow> (Inl e, fs)
        | (Inr _, fs) \<Rightarrow> (case validateSnapshot ev (file_at staging fs) (bm_databaseSchemaVersion meta) of
            Inl e \<Rightarrow> (Inl e, fs)
          | Inr _ \<Rightarrow> if \<not> re_rename_ok env then (Inl (Io_error ''rename failed''), fs)
              else (Inr target, rename_file staging target fs))))"

definition restoreBackup :: "'d evidence \<Rightarrow> restore_env \<Rightarrow> file_path \<Rightarrow> file_path \<Rightarrow> file_path \<Rightarrow> 'd file_system
    \<Rightarrow> (backup_error + file_path) \<times> 'd file_system" where
  "restoreBackup ev env cwd backupFile target fs =
     (if \<not> existsSync backupFile fs then (Inl (Invalid_data_root ''backup missing''), fs)
      else case readBackupMetadata cwd backupFile fs of
        Inl e \<Rightarrow> (Inl e, fs)
      | Inr meta \<Rightarrow>
          if bm_databaseSchemaVersion meta > SUPPORTED_DB_SCHEMA_VERSION then (Inl (Schema_too_new (bm_databaseSchemaVersion meta)), fs)
          else
            (let staging = butlast target @ [re_staging env] in
             case restore_body ev env meta backupFile staging target fs of
               (Inr p, fs) \<Rightarrow> (Inr p, fs)
             | (Inl e, fs) \<Rightarrow> (Inl e, rm_file staging fs)))"

fun rotate_loop :: "file_path \<Rightarrow> file_path \<Rightarrow> backup_metadata list \<Rightarrow> nat \<Rightarrow> 'd file_system \<Rightarrow> (backup_error + nat) \<times> 'd file_system" where
  "rotate_loop cwd root [] removed fs = (Inr removed, fs)"
| "rotate_loop cwd root (m # ms) removed fs = (case bm_backupDir m of
     None \<Rightarrow> (Inl (Io_error ''path must be a string''), fs)
   | Some s \<Rightarrow>
       (let dir = resolve_path cwd s in
        if \<not> assertWithin root dir then (Inl (Invalid_data_root ''path escapes backup root''), fs)
        else if existsSync dir fs then rotate_loop cwd root ms (Suc removed) (rm_rf dir fs)
        else rotate_loop cwd root ms removed fs))"

definition rotateBackups :: "file_path \<Rightarrow> file_path \<Rightarrow> int \<Rightarrow> 'd file_system \<Rightarrow> (backup_error + nat) \<times> 'd file_system" where
  "rotateBackups cwd root maxBackups fs =
     (if maxBackups < 1 then (Inl (Invalid_data_root ''maxBackups must be >= 1''), fs)
      else rotate_loop cwd root (drop (nat maxBackups) (listBackups cwd root fs)) 0 fs)"

end
