(* ===== verification/Db_Migration.thy ===== *)
theory Db_Migration imports Db_Backup begin

text \<open>
  The driver's transactions (\<open>packages/persistence/src/db/sqlite-driver.ts\<close>), the discovery and the application of migrations
  (\<open>packages/persistence/src/migrations\<close>), and the identity of the local workspace
  (\<open>packages/persistence/src/workspace/workspace-identity.ts\<close>).

  A connection holds the content of the database and the flag of the driver. \<open>BEGIN\<close> and \<open>COMMIT\<close> may throw;
  \<open>ROLLBACK\<close> restores the content at \<open>BEGIN\<close>. A script of a migration may fail after a part of it has run. It works on the data of the
  application; the two tables of the runner are rows and a map. The hash of a script is an argument.
\<close>

subsection \<open>Transactions\<close>

record 'c connection =
  cx_db :: 'c
  cx_in_transaction :: bool
  cx_foreign_keys :: bool

definition transaction ::
  "bool \<Rightarrow> bool \<Rightarrow> ('c connection \<Rightarrow> (string + 'r) \<times> 'c connection) \<Rightarrow> 'c connection \<Rightarrow> (string + 'r) \<times> 'c connection" where
  "transaction begin_ok commit_ok fn c =
     (if cx_in_transaction c then fn c
      else if \<not> begin_ok then (Inl ''BEGIN failed'', c\<lparr>cx_in_transaction := True\<rparr>)
      else (case fn (c\<lparr>cx_in_transaction := True\<rparr>) of
          (Inl e, c') \<Rightarrow> (Inl e, c'\<lparr>cx_db := cx_db c, cx_in_transaction := False\<rparr>)
        | (Inr r, c') \<Rightarrow>
            if commit_ok then (Inr r, c'\<lparr>cx_in_transaction := False\<rparr>)
            else (Inl ''COMMIT failed'', c'\<lparr>cx_db := cx_db c, cx_in_transaction := False\<rparr>)))"

subsection \<open>Discovery\<close>

record migration =
  mg_version :: nat
  mg_name :: string
  mg_checksum :: string
  mg_sql :: string

definition digit_ch :: "char \<Rightarrow> bool" where
  "digit_ch c \<longleftrightarrow> 48 \<le> (of_char c :: nat) \<and> (of_char c :: nat) \<le> 57"

definition decimal_value :: "string \<Rightarrow> nat" where
  "decimal_value s = foldl (\<lambda>n c. 10 * n + (of_char c - 48)) 0 s"

definition dot_matches :: "char \<Rightarrow> bool" where
  "dot_matches c \<longleftrightarrow> (of_char c :: nat) \<noteq> 10 \<and> (of_char c :: nat) \<noteq> 13"

text \<open>\<open>/^(\d+)_(.+)\.sql$/\<close>\<close>

definition parse_migration_name :: "string \<Rightarrow> (nat \<times> string) option" where
  "parse_migration_name f =
     (let digits = takeWhile digit_ch f; rest = dropWhile digit_ch f; name = take (length rest - 5) (tl rest) in
      if digits \<noteq> [] \<and> rest \<noteq> [] \<and> hd rest = CHR ''_'' \<and> suffix ''.sql'' (tl rest) \<and> name \<noteq> [] \<and> list_all dot_matches name
      then Some (decimal_value digits, name) else None)"

definition discoverMigrations :: "(string \<Rightarrow> string) \<Rightarrow> (string \<times> string) list \<Rightarrow> migration list" where
  "discoverMigrations hash files =
     List.map_filter (\<lambda>(f, sql). map_option (\<lambda>(v, n). \<lparr>mg_version = v, mg_name = n, mg_checksum = hash sql, mg_sql = sql\<rparr>) (parse_migration_name f))
       (sort_key fst (filter (\<lambda>(f, _). suffix ''.sql'' f) files))"

definition maxMigrationVersion :: "migration list \<Rightarrow> nat" where
  "maxMigrationVersion ms = foldl (\<lambda>mx m. max mx (mg_version m)) 0 ms"

subsection \<open>The runner\<close>

record migration_record =
  mc_version :: nat
  mc_name :: string
  mc_checksum :: string
  mc_applied_at :: string

record 'd schema_db =
  sd_data :: 'd
  sd_migrations :: "migration_record list"
  sd_meta :: "string \<rightharpoonup> string"

datatype migration_error =
    Checksum_mismatch nat
  | Schema_newer int
  | Backup_failed backup_error
  | Migration_failed nat string

record migration_result =
  ms_applied :: "migration_record list"
  ms_backedUp :: bool
  ms_migratedCount :: nat

record 'd migration_env =
  me_now :: string
  me_begin_ok :: "nat \<Rightarrow> bool"
  me_commit_ok :: "nat \<Rightarrow> bool"
  me_exec :: "string \<Rightarrow> 'd \<Rightarrow> bool \<times> 'd"
  me_backup :: backup_env
  me_evidence :: "'d schema_db evidence"
  me_emptyFile :: bool
  me_path :: file_path
  me_backupDir :: file_path

definition applied_rows :: "'d schema_db \<Rightarrow> migration_record list" where
  "applied_rows db = sort_key mc_version (sd_migrations db)"

definition find_applied :: "nat \<Rightarrow> migration_record list \<Rightarrow> migration_record option" where
  "find_applied v rows = find (\<lambda>a. mc_version a = v) rows"

text \<open>The loop that checks the applied migrations and collects the pending ones.\<close>

fun collect_pending :: "migration_record list \<Rightarrow> migration list \<Rightarrow> migration_error + migration list" where
  "collect_pending rows [] = Inr []"
| "collect_pending rows (m # ms) = (case find_applied (mg_version m) rows of
     Some a \<Rightarrow> if mc_checksum a \<noteq> mg_checksum m then Inl (Checksum_mismatch (mg_version m)) else collect_pending rows ms
   | None \<Rightarrow> (case collect_pending rows ms of Inl e \<Rightarrow> Inl e | Inr pending \<Rightarrow> Inr (m # pending)))"

text \<open>\<open>parseInt(value, 10)\<close>: the digits after leading blanks and a sign; nothing when it is not a number.\<close>

definition parse_int :: "string \<Rightarrow> int option" where
  "parse_int s =
     (let t = dropWhile is_ws s; negative = (t \<noteq> [] \<and> hd t = CHR ''-'');
          u = (if t \<noteq> [] \<and> (hd t = CHR ''-'' \<or> hd t = CHR ''+'') then tl t else t); digits = takeWhile digit_ch u in
      if digits = [] then None else Some (if negative then - int (decimal_value digits) else int (decimal_value digits)))"

definition readSchemaVersion :: "'d schema_db \<Rightarrow> int option" where
  "readSchemaVersion db = (case sd_meta db ''database_schema_version'' of Some v \<Rightarrow> parse_int v | None \<Rightarrow> Some 0)"

text \<open>A comparison with \<open>NaN\<close> is false.\<close>

definition assertSchemaSupported :: "int option \<Rightarrow> migration_error option" where
  "assertSchemaSupported version = (case version of
     Some v \<Rightarrow> if v > SUPPORTED_DB_SCHEMA_VERSION then Some (Schema_newer v) else None
   | None \<Rightarrow> None)"

text \<open>The body of the transaction of one migration; the version is the primary key.\<close>

definition migration_body :: "'d migration_env \<Rightarrow> migration \<Rightarrow> 'd schema_db connection \<Rightarrow> (string + unit) \<times> 'd schema_db connection" where
  "migration_body env m c =
     (let (ok, d) = me_exec env (mg_sql m) (sd_data (cx_db c)); c = c\<lparr>cx_db := (cx_db c)\<lparr>sd_data := d\<rparr>\<rparr> in
      if \<not> ok then (Inl ''script failed'', c)
      else if find_applied (mg_version m) (sd_migrations (cx_db c)) \<noteq> None then (Inl ''UNIQUE constraint failed'', c)
      else (Inr (), c\<lparr>cx_db := (cx_db c)\<lparr>sd_migrations := sd_migrations (cx_db c) @
        [\<lparr>mc_version = mg_version m, mc_name = mg_name m, mc_checksum = mg_checksum m, mc_applied_at = me_now env\<rparr>]\<rparr>\<rparr>))"

fun apply_pending :: "'d migration_env \<Rightarrow> migration list \<Rightarrow> 'd schema_db connection \<Rightarrow> (migration_error + unit) \<times> 'd schema_db connection" where
  "apply_pending env [] c = (Inr (), c)"
| "apply_pending env (m # ms) c =
     (case transaction (me_begin_ok env (mg_version m)) (me_commit_ok env (mg_version m)) (migration_body env m) c of
        (Inl e, c) \<Rightarrow> (Inl (Migration_failed (mg_version m) e), c)
      | (Inr _, c) \<Rightarrow> apply_pending env ms c)"

definition set_meta :: "string \<Rightarrow> string \<Rightarrow> 'd schema_db connection \<Rightarrow> 'd schema_db connection" where
  "set_meta k v c = c\<lparr>cx_db := (cx_db c)\<lparr>sd_meta := (sd_meta (cx_db c))(k \<mapsto> v)\<rparr>\<rparr>"

definition run_pending :: "'d migration_env \<Rightarrow> migration list \<Rightarrow> migration list \<Rightarrow> bool \<Rightarrow> 'd schema_db connection
    \<Rightarrow> (migration_error + migration_result) \<times> 'd schema_db connection" where
  "run_pending env ms pending backedUp c =
     (case apply_pending env pending (c\<lparr>cx_foreign_keys := False\<rparr>) of
        (Inl e, c) \<Rightarrow> (Inl e, c\<lparr>cx_foreign_keys := True\<rparr>)
      | (Inr _, c) \<Rightarrow>
          (let c = c\<lparr>cx_foreign_keys := True\<rparr>;
               c = set_meta ''database_schema_version'' (show_nat (maxMigrationVersion ms)) c;
               c = set_meta ''updated_at'' (me_now env) c in
           (Inr \<lparr>ms_applied = applied_rows (cx_db c), ms_backedUp = backedUp, ms_migratedCount = length pending\<rparr>, c)))"

definition migrate :: "'d migration_env \<Rightarrow> migration list \<Rightarrow> 'd schema_db connection \<Rightarrow> 'd schema_db file_system
    \<Rightarrow> (migration_error + migration_result) \<times> 'd schema_db connection \<times> 'd schema_db file_system" where
  "migrate env ms c fs =
     (case collect_pending (applied_rows (cx_db c)) ms of
        Inl e \<Rightarrow> (Inl e, c, fs)
      | Inr pending \<Rightarrow> (case assertSchemaSupported (readSchemaVersion (cx_db c)) of
          Some e \<Rightarrow> (Inl e, c, fs)
        | None \<Rightarrow>
            if pending = [] then (Inr \<lparr>ms_applied = applied_rows (cx_db c), ms_backedUp = False, ms_migratedCount = 0\<rparr>, c, fs)
            else (case backupDatabase (me_evidence env) (me_backup env) (me_emptyFile env) (me_path env) (me_backupDir env)
                    (put_file (me_path env) (Database (cx_db c)) fs) of
                (Inl e, fs) \<Rightarrow> (Inl (Backup_failed e), c, fs)
              | (Inr b, fs) \<Rightarrow> (case run_pending env ms pending (b \<noteq> None) c of (r, c) \<Rightarrow> (r, c, fs)))))"

subsection \<open>The identity of the workspace\<close>

record identity_db =
  id_merchants :: "(string \<times> string option) list"
  id_meta :: "string \<rightharpoonup> string"

definition WORKSPACE_MERCHANT_ID_META_KEY :: string where
  "WORKSPACE_MERCHANT_ID_META_KEY = ''workspace_merchant_id''"

datatype identity_error = Dangling_pointer string | Ambiguous_identity | Bootstrap_failed string

definition resolveWorkspaceMerchantId :: "identity_db connection \<Rightarrow> string option" where
  "resolveWorkspaceMerchantId c = id_meta (cx_db c) WORKSPACE_MERCHANT_ID_META_KEY"

definition merchantExists :: "string \<Rightarrow> identity_db connection \<Rightarrow> bool" where
  "merchantExists i c \<longleftrightarrow> i \<in> fst ` set (id_merchants (cx_db c))"

definition hasMerchantRows :: "identity_db connection \<Rightarrow> bool" where
  "hasMerchantRows c \<longleftrightarrow> id_merchants (cx_db c) \<noteq> []"

text \<open>Which of the four statements of the transaction throw.\<close>

record identity_faults =
  if_begin_ok :: bool
  if_insert_ok :: bool
  if_pointer_ok :: bool
  if_commit_ok :: bool

definition bootstrap_body :: "identity_faults \<Rightarrow> string \<Rightarrow> identity_db connection \<Rightarrow> (string + unit) \<times> identity_db connection" where
  "bootstrap_body faults i c =
     (if \<not> if_insert_ok faults \<or> merchantExists i c then (Inl ''INSERT failed'', c)
      else
        (let c = c\<lparr>cx_db := (cx_db c)\<lparr>id_merchants := id_merchants (cx_db c) @ [(i, None)]\<rparr>\<rparr> in
         if \<not> if_pointer_ok faults then (Inl ''INSERT failed'', c)
         else (Inr (), c\<lparr>cx_db := (cx_db c)\<lparr>id_meta := (id_meta (cx_db c))(WORKSPACE_MERCHANT_ID_META_KEY \<mapsto> i)\<rparr>\<rparr>)))"

definition bootstrapWorkspaceMerchantId :: "identity_faults \<Rightarrow> string \<Rightarrow> identity_db connection \<Rightarrow> (identity_error + string) \<times> identity_db connection" where
  "bootstrapWorkspaceMerchantId faults i c =
     (case transaction (if_begin_ok faults) (if_commit_ok faults) (bootstrap_body faults i) c of
        (Inl e, c) \<Rightarrow> (Inl (Bootstrap_failed e), c)
      | (Inr _, c) \<Rightarrow> (Inr i, c))"

definition generateWorkspaceMerchantId :: "string \<Rightarrow> string" where
  "generateWorkspaceMerchantId uuid = ''merchant-'' @ uuid"

definition resolveOrBootstrapWorkspaceMerchantId :: "identity_faults \<Rightarrow> string \<Rightarrow> identity_db connection
    \<Rightarrow> (identity_error + string) \<times> identity_db connection" where
  "resolveOrBootstrapWorkspaceMerchantId faults uuid c =
     (case resolveWorkspaceMerchantId c of
        Some existing \<Rightarrow> if \<not> merchantExists existing c then (Inl (Dangling_pointer existing), c) else (Inr existing, c)
      | None \<Rightarrow> if hasMerchantRows c then (Inl Ambiguous_identity, c)
          else bootstrapWorkspaceMerchantId faults (generateWorkspaceMerchantId uuid) c)"

text \<open>
  The life of a data root: starts of the application, each on a connection of its own, and merchants that other code adds
  or removes.
\<close>

datatype root_event =
    Start identity_faults string
  | Add_merchant string "string option"
  | Remove_merchant string

fun root_step :: "root_event \<Rightarrow> identity_db \<times> (identity_error + string) list \<Rightarrow> identity_db \<times> (identity_error + string) list" where
  "root_step (Start faults uuid) (db, answers) =
     (case resolveOrBootstrapWorkspaceMerchantId faults uuid \<lparr>cx_db = db, cx_in_transaction = False, cx_foreign_keys = True\<rparr> of
        (r, c) \<Rightarrow> (cx_db c, answers @ [r]))"
| "root_step (Add_merchant i n) (db, answers) =
     ((if i \<in> fst ` set (id_merchants db) then db else db\<lparr>id_merchants := id_merchants db @ [(i, n)]\<rparr>), answers)"
| "root_step (Remove_merchant i) (db, answers) = (db\<lparr>id_merchants := filter (\<lambda>m. fst m \<noteq> i) (id_merchants db)\<rparr>, answers)"

end
