(* ===== verification/Db_Backup_Props.thy ===== *)
theory Db_Backup_Props imports Db_Backup begin

text \<open>
  A restore replaces the database as a whole or not at all; a backup that was made can be restored and gives back the database
  as it was committed; a backup that failed leaves no file; the rotation removes old backups only, unless the
  metadata of a backup was tampered with.
\<close>

subsection \<open>Files\<close>

lemma file_at_put [simp]: "file_at q (put_file p c fs) = (if q = p then Some c else file_at q fs)"
  by (simp add: file_at_def put_file_def)

lemma file_at_rm [simp]: "file_at q (rm_file p fs) = (if q = p then None else file_at q fs)"
  by (simp add: file_at_def rm_file_def)

lemma file_at_mkdir [simp]: "file_at q (mkdir_p p fs) = file_at q fs"
  by (simp add: file_at_def mkdir_p_def)

lemma file_at_rename:
  "file_at q (rename_file a b fs) = (case file_at a fs of None \<Rightarrow> file_at q fs
     | Some c \<Rightarrow> if q = b then Some c else if q = a then None else file_at q fs)"
  by (auto simp: rename_file_def split: option.split)

lemma map_of_filter_key: "map_of (filter (\<lambda>(q, _). P q) xs) q = (if P q then map_of xs q else None)"
  by (induction xs) auto

lemma file_at_rm_rf [simp]: "file_at q (rm_rf p fs) = (if prefix p q then None else file_at q fs)"
  by (simp add: file_at_def rm_rf_def map_of_filter_key)

lemma dirs_same [simp]:
  "fs_dirs (put_file p c fs) = fs_dirs fs" "fs_dirs (rm_file p fs) = fs_dirs fs" "fs_dirs (rename_file a b fs) = fs_dirs fs"
  by (simp_all add: put_file_def rm_file_def rename_file_def split: option.split)

lemma existsSync_iff: "existsSync p fs \<longleftrightarrow> file_at p fs \<noteq> None \<or> p \<in> set (fs_dirs fs)"
  by (simp add: existsSync_def)

lemma write_step_cases:
  assumes "write_step we p c fs = (r, fs')"
  obtains "r = Inr ()" "we = Writes" "fs' = put_file p c fs"
  | e where "r = Inl e" "we \<noteq> Writes" "fs' = put_file p Other_file fs \<or> fs' = fs"
  using assms by (cases we) (auto simp: write_step_def)

subsection \<open>Paths\<close>

definition proper_segment :: "string \<Rightarrow> bool" where
  "proper_segment seg \<longleftrightarrow> seg \<noteq> [] \<and> seg \<noteq> ''.'' \<and> seg \<noteq> ''..'' \<and> CHR ''/'' \<notin> set seg"

lemma segments_plain: "CHR ''/'' \<notin> set s \<Longrightarrow> path_segments cur (s @ t) = (case t of [] \<Rightarrow> [cur @ s] | c # t' \<Rightarrow>
    if c = CHR ''/'' then (cur @ s) # path_segments [] t' else path_segments (cur @ s) t)"
  by (induction s arbitrary: cur) (auto split: list.split)

lemma segments_of_path:
  "list_all proper_segment p \<Longrightarrow> CHR ''/'' \<notin> set cur \<Longrightarrow> path_segments cur (concat (map (\<lambda>seg. CHR ''/'' # seg) p)) = cur # p"
proof (induction p arbitrary: cur)
  case (Cons seg p)
  have seg: "CHR ''/'' \<notin> set seg" using Cons.prems by (simp add: proper_segment_def)
  have "path_segments [] (seg @ concat (map (\<lambda>seg. CHR ''/'' # seg) p)) = seg # p"
    using segments_plain [OF seg, of "[]" "concat (map (\<lambda>seg. CHR ''/'' # seg) p)"] segments_plain [OF seg, of "[]" "[]"]
      Cons.IH [of seg] Cons.prems seg
    by (cases p) auto
  then show ?case by simp
qed simp

lemma normal_proper: "list_all proper_segment p \<Longrightarrow> fold normal_step p q = q @ p"
  by (induction p arbitrary: q) (auto simp: proper_segment_def)

lemma resolve_path_text: "list_all proper_segment p \<Longrightarrow> resolve_path cwd (path_text p) = p"
proof (cases "p = []")
  case False
  assume p: "list_all proper_segment p"
  have "fold normal_step ([] # p) [] = p" using normal_proper [OF p, of "[]"] by simp
  moreover have "hd (concat (map (\<lambda>seg. CHR ''/'' # seg) p)) = CHR ''/''" "concat (map (\<lambda>seg. CHR ''/'' # seg) p) \<noteq> []"
    using False by (cases p; simp)+
  ultimately show ?thesis
    using segments_of_path [OF p, of "[]"] False by (simp add: resolve_path_def path_text_def)
qed (simp add: resolve_path_def path_text_def)

lemma path_text_nonempty [simp]: "path_text p \<noteq> []"
  by (cases p) (simp_all add: path_text_def)

subsection \<open>Checks\<close>

definition restorable :: "'d evidence \<Rightarrow> int \<Rightarrow> 'd \<Rightarrow> bool" where
  "restorable ev version d \<longleftrightarrow> ev_integrity ev d = Some ''ok'' \<and> version \<le> SUPPORTED_DB_SCHEMA_VERSION
     \<and> (ev_version ev d = Reads_as (Some version) \<or> ev_version ev d = No_row \<and> version = 0)"

lemma validateSnapshot_ok:
  "validateSnapshot ev file version = Inr () \<longleftrightarrow> (\<exists>d. file = Some (Database d) \<and> restorable ev version d)"
  by (auto simp: validateSnapshot_def check_version_def restorable_def split: option.splits file_content.splits version_reading.splits if_splits)

subsection \<open>Restoring\<close>

lemma restore_body_end:
  assumes r: "restore_body ev env meta backupFile staging target fs = (r, fs')"
    and fresh: "file_at staging fs = None" and st: "staging \<noteq> target"
  shows "fs_dirs fs' = fs_dirs fs \<and> (\<forall>q. q \<noteq> target \<and> q \<noteq> staging \<longrightarrow> file_at q fs' = file_at q fs)
    \<and> (case r of Inl _ \<Rightarrow> file_at target fs' = file_at target fs
       | Inr p \<Rightarrow> p = target \<and> file_at staging fs' = None \<and> (\<exists>d. file_at backupFile fs = Some (Database d)
           \<and> file_at target fs' = Some (Database d) \<and> restorable ev (bm_databaseSchemaVersion meta) d))"
proof (cases "file_at backupFile fs")
  case None
  then show ?thesis using r by (auto simp: restore_body_def)
next
  case (Some c)
  obtain w fs1 where w: "write_step (re_copy env) staging c fs = (w, fs1)" by fastforce
  show ?thesis
    using w
  proof (cases rule: write_step_cases)
    case 2
    then show ?thesis using r w Some st by (auto simp: restore_body_def)
  next
    case 1
    have c: "file_at staging fs1 = Some c" using 1 by simp
    show ?thesis
    proof (cases "validateSnapshot ev (Some c) (bm_databaseSchemaVersion meta)")
      case (Inl e)
      then show ?thesis using r w Some 1 c st by (auto simp: restore_body_def)
    next
      case (Inr u)
      then obtain d where "c = Database d" "restorable ev (bm_databaseSchemaVersion meta) d"
        using validateSnapshot_ok [of ev "Some c"] by auto
      then show ?thesis
        using r w Some 1 c st Inr by (auto simp: restore_body_def file_at_rename split: if_splits)
    qed
  qed
qed

text \<open>
  Property C14. A restore replaces the target as a whole or leaves it alone. Whatever fails on the way, the target
  keeps its content, and after a success it holds the content of the backup, whose integrity was checked and whose
  version is the one its metadata names and is supported. Nothing else changes and no staging file stays.
\<close>

theorem restore_is_all_or_nothing:
  assumes "restoreBackup ev env cwd backupFile target fs = (r, fs')"
    and "\<not> existsSync (butlast target @ [re_staging env]) fs" and "butlast target @ [re_staging env] \<noteq> target"
  shows "fs_dirs fs' = fs_dirs fs \<and> (\<forall>q. q \<noteq> target \<longrightarrow> file_at q fs' = file_at q fs)
    \<and> (case r of Inl _ \<Rightarrow> file_at target fs' = file_at target fs
       | Inr p \<Rightarrow> p = target \<and> (\<exists>d meta. file_at backupFile fs = Some (Database d) \<and> file_at target fs' = Some (Database d)
           \<and> readBackupMetadata cwd backupFile fs = Inr meta \<and> restorable ev (bm_databaseSchemaVersion meta) d))"
proof (cases "existsSync backupFile fs \<and> (\<exists>meta. readBackupMetadata cwd backupFile fs = Inr meta
    \<and> bm_databaseSchemaVersion meta \<le> SUPPORTED_DB_SCHEMA_VERSION)")
  case False
  then have "isl r \<and> fs' = fs"
    using assms(1) by (auto simp: restoreBackup_def split: sum.splits if_splits)
  then show ?thesis by (auto split: sum.split)
next
  case True
  then obtain meta where meta: "readBackupMetadata cwd backupFile fs = Inr meta" "bm_databaseSchemaVersion meta \<le> SUPPORTED_DB_SCHEMA_VERSION"
    and ex: "existsSync backupFile fs" by blast
  let ?st = "butlast target @ [re_staging env]"
  obtain b fs1 where b: "restore_body ev env meta backupFile ?st target fs = (b, fs1)" by fastforce
  have none: "file_at ?st fs = None" using assms(2) by (auto simp: existsSync_iff)
  note body = restore_body_end [OF b none assms(3)]
  show ?thesis
  proof (cases b)
    case (Inl e)
    then have "r = Inl e" "fs' = rm_file ?st fs1"
      using assms(1) meta ex b by (auto simp: restoreBackup_def Let_def)
    then show ?thesis using body Inl none assms(3) by auto
  next
    case (Inr p)
    then have "r = Inr p" "fs' = fs1" using assms(1) meta ex b by (auto simp: restoreBackup_def Let_def)
    then show ?thesis using body Inr none meta by auto
  qed
qed

subsection \<open>Creating\<close>

lemma file_at_cleanup_files: "file_at q (fold rm_file ps fs) = (if q \<in> set ps then None else file_at q fs)"
  by (induction ps arbitrary: fs) auto

lemma dirs_cleanup_files [simp]: "fs_dirs (fold rm_file ps fs) = fs_dirs fs"
  by (induction ps arbitrary: fs) auto

lemma map_of_file: "(q, c) \<in> set (fs_files fs) \<Longrightarrow> file_at q fs \<noteq> None"
  by (auto simp: file_at_def dest: weak_map_of_SomeI)

lemma cleanup_file_at:
  assumes "\<forall>q. prefix dir q \<longrightarrow> q \<notin> set ps \<longrightarrow> file_at q fs = None" and "\<forall>q\<in>set ps. strict_prefix dir q"
  shows "file_at q (backup_cleanup ps dir fs) = (if prefix dir q \<or> q \<in> set ps then None else file_at q fs)"
  using assms by (auto simp: backup_cleanup_def Let_def file_at_cleanup_files)

lemma cleanup_dirs:
  assumes "\<forall>q. prefix dir q \<longrightarrow> q \<notin> set ps \<longrightarrow> file_at q fs = None" and "\<forall>q\<in>set ps. strict_prefix dir q"
    and "\<forall>q\<in>set (fs_dirs fs). \<not> strict_prefix dir q"
  shows "fs_dirs (backup_cleanup ps dir fs) = filter (\<lambda>q. \<not> prefix dir q) (fs_dirs fs)"
proof (cases "dir \<in> set (fs_dirs fs)")
  case True
  have "file_at q (fold rm_file ps fs) = None" if "prefix dir q" for q
    using assms(1) that by (auto simp: file_at_cleanup_files)
  then have "empty_dir dir (fold rm_file ps fs)"
    using assms(3) map_of_file [of _ _ "fold rm_file ps fs"] by (fastforce simp: empty_dir_def strict_prefix_def)
  then show ?thesis using True by (simp add: backup_cleanup_def Let_def rm_rf_def)
next
  case False
  then have "filter (\<lambda>q. \<not> prefix dir q) (fs_dirs fs) = fs_dirs fs"
    using assms(3) by (auto simp: filter_id_conv strict_prefix_def)
  then show ?thesis using False by (simp add: backup_cleanup_def Let_def)
qed

text \<open>What the body leaves: a failure touches the three files of the directory only, a success leaves the database and the metadata.\<close>

definition artifacts :: "backup_env \<Rightarrow> file_path \<Rightarrow> file_path list" where
  "artifacts env dir = [dir @ [be_temp env], dir @ [DB_FILENAME], dir @ [BACKUP_METADATA_FILENAME]]"

definition good_names :: "backup_env \<Rightarrow> bool" where
  "good_names env \<longleftrightarrow> be_temp env \<noteq> DB_FILENAME \<and> be_temp env \<noteq> BACKUP_METADATA_FILENAME"

lemma names_differ [simp]: "DB_FILENAME \<noteq> BACKUP_METADATA_FILENAME" "BACKUP_METADATA_FILENAME \<noteq> DB_FILENAME"
  by (simp_all add: DB_FILENAME_def BACKUP_METADATA_FILENAME_def)

lemma snapshot_end:
  assumes "snapshotDatabase we db target fs = (r, fs')"
  shows "fs_dirs fs' = fs_dirs fs \<and> (\<forall>q. q \<noteq> target \<longrightarrow> file_at q fs' = file_at q fs)
    \<and> (r = Inr () \<longrightarrow> (\<exists>d. file_at db fs = Some (Database d) \<and> file_at target fs' = Some (Database d)))"
  using assms by (auto simp: snapshotDatabase_def write_step_def split: if_splits option.splits file_content.splits write_end.splits)

lemma backup_body_end:
  assumes b: "backup_body ev env db dir version fs = (r, fs')" and names: "good_names env"
  shows "fs_dirs fs' = fs_dirs fs \<and> (\<forall>q. q \<notin> set (artifacts env dir) \<longrightarrow> file_at q fs' = file_at q fs)
    \<and> (case r of Inl _ \<Rightarrow> True | Inr meta \<Rightarrow> meta = new_metadata env dir version \<and> file_at (dir @ [be_temp env]) fs' = None
        \<and> file_at (dir @ [BACKUP_METADATA_FILENAME]) fs' = Some (Metadata_file meta)
        \<and> (\<exists>d. file_at db fs = Some (Database d) \<and> file_at (dir @ [DB_FILENAME]) fs' = Some (Database d) \<and> restorable ev version d))"
proof -
  let ?temp = "dir @ [be_temp env]"
  obtain s fs1 where s: "snapshotDatabase (be_vacuum env) db ?temp fs = (s, fs1)" by fastforce
  note snap = snapshot_end [OF s]
  show ?thesis
  proof (cases s)
    case (Inl e)
    then show ?thesis using b s snap by (auto simp: backup_body_def artifacts_def Let_def)
  next
    case (Inr u)
    then obtain d where d: "file_at db fs = Some (Database d)" "file_at ?temp fs1 = Some (Database d)" using snap by auto
    show ?thesis
    proof (cases "validateSnapshot ev (Some (Database d)) version")
      case (Inl e)
      then show ?thesis using b s snap d \<open>s = Inr u\<close> by (auto simp: backup_body_def artifacts_def Let_def)
    next
      case v: (Inr _)
      then have ok: "restorable ev version d" using validateSnapshot_ok [of ev "Some (Database d)" version] by auto
      let ?fs2 = "rename_file ?temp (dir @ [DB_FILENAME]) fs1"
      obtain w fs3 where w: "write_step (be_write env) (dir @ [BACKUP_METADATA_FILENAME]) (Metadata_file (new_metadata env dir version)) ?fs2 = (w, fs3)"
        by fastforce
      show ?thesis
        using w
        by (cases rule: write_step_cases)
          (use b s snap d ok v w names \<open>s = Inr u\<close> in
            \<open>auto simp: backup_body_def artifacts_def good_names_def file_at_rename Let_def split: if_splits\<close>)
    qed
  qed
qed

definition fresh_dir :: "file_path \<Rightarrow> 'd file_system \<Rightarrow> bool" where
  "fresh_dir dir fs \<longleftrightarrow> (\<forall>q. prefix dir q \<longrightarrow> \<not> existsSync q fs)"

lemma mkdir_below: "q \<in> set (fs_dirs (mkdir_p p fs)) \<longleftrightarrow> q \<in> set (fs_dirs fs) \<or> (q \<noteq> [] \<and> prefix q p)"
proof -
  have "q \<in> set (map (\<lambda>n. take n p) [1..<Suc (length p)]) \<longleftrightarrow> q \<noteq> [] \<and> prefix q p"
  proof
    assume "q \<noteq> [] \<and> prefix q p"
    then have "q = take (length q) p" "length q \<in> set [1..<Suc (length p)]"
      by (auto simp: prefix_def Suc_le_eq)
    then show "q \<in> set (map (\<lambda>n. take n p) [1..<Suc (length p)])" by (metis image_eqI set_map)
  qed (auto simp: take_is_prefix Suc_le_eq)
  then show ?thesis by (auto simp: mkdir_p_def)
qed

lemma createBackup_end:
  assumes c: "createBackup ev env db root version fs = (r, fs')" and names: "good_names env"
    and fresh: "fresh_dir (root @ [be_stamp env]) fs"
  shows "case r of
      Inl _ \<Rightarrow> (\<forall>q. file_at q fs' = file_at q fs)
        \<and> (\<forall>q. q \<in> set (fs_dirs fs') \<longleftrightarrow> q \<in> set (fs_dirs fs) \<or> (q \<noteq> [] \<and> prefix q root))
    | Inr meta \<Rightarrow> fs_dirs fs' = fs_dirs (mkdir_p (root @ [be_stamp env]) fs)
        \<and> (\<forall>q. \<not> prefix (root @ [be_stamp env]) q \<longrightarrow> file_at q fs' = file_at q fs)
        \<and> meta = new_metadata env (root @ [be_stamp env]) version
        \<and> file_at (root @ [be_stamp env, BACKUP_METADATA_FILENAME]) fs' = Some (Metadata_file meta)
        \<and> (\<exists>d. file_at db fs = Some (Database d) \<and> file_at (root @ [be_stamp env, DB_FILENAME]) fs' = Some (Database d)
             \<and> restorable ev version d)"
proof -
  let ?dir = "root @ [be_stamp env]"
  obtain b fs1 where b: "backup_body ev env db ?dir version (mkdir_p ?dir fs) = (b, fs1)" by fastforce
  note body = backup_body_end [OF b names]
  have below: "strict_prefix ?dir q" if "q \<in> set (artifacts env ?dir)" for q
    using that by (auto simp: artifacts_def strict_prefix_def)
  have nofile: "file_at q fs = None" "q \<notin> set (fs_dirs fs)" if "prefix ?dir q" for q
    using fresh that by (auto simp: fresh_dir_def existsSync_iff)
  show ?thesis
  proof (cases b)
    case (Inr meta)
    then have "r = Inr meta" "fs' = fs1" using c b by (auto simp: createBackup_def Let_def)
    moreover have "q \<notin> set (artifacts env ?dir)" if "\<not> prefix ?dir q" for q
      using below [of q] that by (auto simp: strict_prefix_def)
    ultimately show ?thesis using body Inr by auto
  next
    case (Inl e)
    have r: "r = Inl e" "fs' = backup_cleanup (artifacts env ?dir) ?dir fs1"
      using c b Inl by (auto simp: createBackup_def Let_def artifacts_def)
    have left: "\<forall>q. prefix ?dir q \<longrightarrow> q \<notin> set (artifacts env ?dir) \<longrightarrow> file_at q fs1 = None"
      using body nofile by auto
    have dirs: "\<forall>q\<in>set (fs_dirs fs1). \<not> strict_prefix ?dir q"
    proof
      fix q assume "q \<in> set (fs_dirs fs1)"
      then have q: "q \<in> set (fs_dirs fs) \<or> prefix q ?dir" using body mkdir_below [of q ?dir fs] by auto
      show "\<not> strict_prefix ?dir q"
      proof
        assume "strict_prefix ?dir q"
        then have "prefix ?dir q" "length ?dir < length q" by (auto simp: strict_prefix_def prefix_def)
        with q show False using nofile(2) [of q] prefix_length_le [of q ?dir] by auto
      qed
    qed
    have "file_at q fs' = file_at q fs" for q
      using cleanup_file_at [OF left, of q] below body nofile(1) [of q] by (auto simp: r strict_prefix_def)
    moreover have "q \<in> set (fs_dirs fs') \<longleftrightarrow> q \<in> set (fs_dirs fs) \<or> (q \<noteq> [] \<and> prefix q root)" for q
    proof -
      have "fs_dirs fs' = filter (\<lambda>q. \<not> prefix ?dir q) (fs_dirs fs1)" using cleanup_dirs [OF left _ dirs] below r(2) by blast
      moreover have "prefix q ?dir \<and> \<not> prefix ?dir q \<longleftrightarrow> prefix q root"
        using prefix_length_le [of ?dir q] prefix_length_le [of q root] by (auto simp: prefix_snoc)
      ultimately show ?thesis
        using body nofile(2) [of q] mkdir_below [of q ?dir fs] by auto
    qed
    ultimately show ?thesis using r by simp
  qed
qed

text \<open>
  Property C22. A backup that was made can be restored: after any later changes outside the backup, a restore without
  faults of its own puts the content that was committed when the backup was made in place of the target, wherever the program runs.
\<close>

theorem backup_restores_the_database:
  assumes created: "createBackup ev env db root version fs = (Inr meta, fs1)"
    and names: "good_names env" "list_all proper_segment (root @ [be_stamp env])"
    and fresh: "fresh_dir (root @ [be_stamp env]) fs"
    and kept: "\<forall>q. prefix (root @ [be_stamp env]) q \<longrightarrow> file_at q fs2 = file_at q fs1"
    and staging: "\<not> existsSync (butlast target @ [re_staging renv]) fs2" "butlast target @ [re_staging renv] \<noteq> target"
    and faultless: "re_copy renv = Writes" "re_rename_ok renv"
  shows "\<exists>fs3 d. restoreBackup ev renv cwd (root @ [be_stamp env, DB_FILENAME]) target fs2 = (Inr target, fs3)
    \<and> file_at db fs = Some (Database d) \<and> file_at target fs3 = Some (Database d)"
proof -
  let ?dir = "root @ [be_stamp env]" and ?file = "root @ [be_stamp env, DB_FILENAME]" and ?st = "butlast target @ [re_staging renv]"
  obtain d where d: "file_at db fs = Some (Database d)" "file_at ?file fs1 = Some (Database d)" "restorable ev version d"
    and meta: "meta = new_metadata env ?dir version" "file_at (root @ [be_stamp env, BACKUP_METADATA_FILENAME]) fs1 = Some (Metadata_file meta)"
    using createBackup_end [OF created names(1) fresh] by auto
  have "prefix ?dir ?file" "prefix ?dir (root @ [be_stamp env, BACKUP_METADATA_FILENAME])" by (simp_all add: prefix_def)
  then have two: "file_at ?file fs2 = Some (Database d)"
      "file_at (root @ [be_stamp env, BACKUP_METADATA_FILENAME]) fs2 = Some (Metadata_file meta)"
    using kept d(2) meta(2) by auto
  have "list_all proper_segment ?file" using names(2) by (simp add: proper_segment_def DB_FILENAME_def)
  then have "resolve_path cwd (path_text ?file) = ?file" by (rule resolve_path_text)
  moreover have "butlast ?file @ [BACKUP_METADATA_FILENAME] = root @ [be_stamp env, BACKUP_METADATA_FILENAME]"
    by (simp add: butlast_append)
  ultimately have read: "readBackupMetadata cwd ?file fs2 = Inr meta"
    using two(2) meta(1) by (simp add: readBackupMetadata_def read_meta_def existsSync_iff new_metadata_def or_empty_def Let_def)
  have "version \<le> SUPPORTED_DB_SCHEMA_VERSION" "bm_databaseSchemaVersion meta = version"
    using d(3) meta(1) by (simp_all add: restorable_def new_metadata_def)
  moreover have "validateSnapshot ev (Some (Database d)) version = Inr ()" using d(3) validateSnapshot_ok by blast
  ultimately show ?thesis
    using two(1) read staging faultless d(1)
    by (auto simp: restoreBackup_def restore_body_def write_step_def existsSync_iff file_at_rename Let_def)
qed

text \<open>A backup that failed leaves no file; all it leaves is the directory of all backups.\<close>

theorem failed_backup_leaves_nothing:
  assumes "createBackup ev env db root version fs = (Inl e, fs')" and "good_names env" and "fresh_dir (root @ [be_stamp env]) fs"
  shows "(\<forall>q. file_at q fs' = file_at q fs) \<and> (\<forall>q. q \<in> set (fs_dirs fs') \<longrightarrow> q \<in> set (fs_dirs fs) \<or> prefix q root)"
  using createBackup_end [OF assms] by auto

text \<open>
  The directory is named by the millisecond. A second backup in the same millisecond that fails removes the files of the first.
\<close>

definition tiny_evidence :: "nat evidence" where
  "tiny_evidence = \<lparr>ev_integrity = \<lambda>_. Some ''ok'', ev_version = \<lambda>_. Reads_as (Some 10)\<rparr>"

definition tiny_env :: "string \<Rightarrow> write_end \<Rightarrow> backup_env" where
  "tiny_env temp vacuum = \<lparr>be_stamp = ''t'', be_temp = temp, be_createdAt = ''t'', be_vacuum = vacuum, be_rename_ok = True, be_write = Writes\<rparr>"

definition tiny_fs :: "nat file_system" where
  "tiny_fs = \<lparr>fs_files = [([''db''], Database 7)], fs_dirs = [[''b'']]\<rparr>"

definition tiny_restore :: restore_env where
  "tiny_restore = \<lparr>re_staging = ''s'', re_copy = Writes, re_rename_ok = True\<rparr>"

lemmas tiny_defs = tiny_evidence_def tiny_env_def tiny_fs_def tiny_restore_def

definition tiny_backup :: "nat file_system" where
  "tiny_backup = snd (createBackup tiny_evidence (tiny_env ''x'' Writes) [''db''] [''b''] 10 tiny_fs)"

lemma tiny_backup_made:
  "createBackup tiny_evidence (tiny_env ''x'' Writes) [''db''] [''b''] 10 tiny_fs = (Inr (new_metadata (tiny_env ''x'' Writes) [''b'', ''t''] 10), tiny_backup)"
  unfolding tiny_backup_def by code_simp

theorem same_millisecond_loses_a_backup:
  "file_at [''b'', ''t'', DB_FILENAME] tiny_backup = Some (Database 7)
   \<and> (let (r, fs) = createBackup tiny_evidence (tiny_env ''y'' Throws_leaving_nothing) [''db''] [''b''] 10 tiny_backup
      in isl r \<and> file_at [''b'', ''t'', DB_FILENAME] fs = None)"
  unfolding tiny_backup_def by code_simp

theorem restore_is_all_or_nothing_witness:
  "\<exists>r fs'. restoreBackup tiny_evidence tiny_restore [] [''b'', ''t'', DB_FILENAME] [''db''] tiny_backup = (r, fs')
     \<and> (\<forall>q. q \<noteq> [''db''] \<longrightarrow> file_at q fs' = file_at q tiny_backup)"
proof -
  have "\<not> existsSync (butlast [''db''] @ [re_staging tiny_restore]) tiny_backup"
    unfolding tiny_backup_def by code_simp
  moreover have "butlast [''db''] @ [re_staging tiny_restore] \<noteq> [''db'']" by (simp add: tiny_restore_def)
  moreover obtain r fs' where "restoreBackup tiny_evidence tiny_restore [] [''b'', ''t'', DB_FILENAME] [''db''] tiny_backup = (r, fs')" by fastforce
  ultimately show ?thesis using restore_is_all_or_nothing by blast
qed

theorem backup_restores_the_database_witness:
  "\<exists>fs3 d. restoreBackup tiny_evidence tiny_restore [] [''b'', ''t'', DB_FILENAME] [''db''] tiny_backup = (Inr [''db''], fs3)
     \<and> file_at [''db''] tiny_fs = Some (Database d) \<and> file_at [''db''] fs3 = Some (Database d)"
proof -
  have "fresh_dir [''b'', ''t''] tiny_fs"
    by (auto simp: fresh_dir_def existsSync_def file_at_def tiny_fs_def split: if_splits)
  moreover have "good_names (tiny_env ''x'' Writes)" by code_simp
  moreover have "list_all proper_segment [''b'', ''t'']" by code_simp
  moreover have "\<not> existsSync (butlast [''db''] @ [re_staging tiny_restore]) tiny_backup"
    unfolding tiny_backup_def by code_simp
  ultimately show ?thesis
    using backup_restores_the_database [OF tiny_backup_made, of tiny_backup "[''db'']" tiny_restore "[]"]
    by (simp add: tiny_env_def tiny_restore_def)
qed

subsection \<open>Rotating\<close>

definition dir_of :: "file_path \<Rightarrow> backup_metadata \<Rightarrow> file_path" where
  "dir_of cwd m = resolve_path cwd (or_empty (bm_backupDir m))"

lemma rotate_loop_end:
  assumes "\<forall>m\<in>set ms. bm_backupDir m \<noteq> None \<and> assertWithin root (dir_of cwd m)"
  shows "\<exists>k. fst (rotate_loop cwd root ms n fs) = Inr k
    \<and> (\<forall>q. file_at q (snd (rotate_loop cwd root ms n fs)) = (if \<exists>m\<in>set ms. existsSync (dir_of cwd m) fs \<and> prefix (dir_of cwd m) q then None else file_at q fs))"
  using assms
proof (induction ms arbitrary: n fs)
  case (Cons m ms)
  let ?d = "dir_of cwd m"
  obtain s where s: "bm_backupDir m = Some s" and d: "resolve_path cwd s = ?d" and w: "assertWithin root ?d"
    using Cons.prems by (auto simp: dir_of_def or_empty_def)
  show ?case
  proof (cases "existsSync ?d fs")
    case False
    then have "rotate_loop cwd root (m # ms) n fs = rotate_loop cwd root ms n fs" using s d w by (simp add: Let_def)
    then show ?thesis using Cons.IH [of n fs] Cons.prems False by auto
  next
    case True
    then have step: "rotate_loop cwd root (m # ms) n fs = rotate_loop cwd root ms (Suc n) (rm_rf ?d fs)" using s d w by (simp add: Let_def)
    have left: "existsSync p (rm_rf ?d fs) \<longleftrightarrow> existsSync p fs \<and> \<not> prefix ?d p" for p
      by (auto simp: existsSync_iff rm_rf_def file_at_def map_of_filter_key)
    obtain k where k: "fst (rotate_loop cwd root ms (Suc n) (rm_rf ?d fs)) = Inr k"
      and f: "\<And>q. file_at q (snd (rotate_loop cwd root ms (Suc n) (rm_rf ?d fs))) = (if \<exists>m\<in>set ms. existsSync (dir_of cwd m) (rm_rf ?d fs)
          \<and> prefix (dir_of cwd m) q then None else file_at q (rm_rf ?d fs))"
      using Cons.IH [of "Suc n" "rm_rf ?d fs"] Cons.prems by auto
    have "file_at q (snd (rotate_loop cwd root (m # ms) n fs)) = (if \<exists>m\<in>set (m # ms). existsSync (dir_of cwd m) fs
          \<and> prefix (dir_of cwd m) q then None else file_at q fs)" for q
      unfolding step f using True by (auto simp: left dest: prefix_order.trans)
    then show ?thesis unfolding step using k by blast
  qed
qed simp

text \<open>
  As long as every listed backup names its own directory below the root, the rotation keeps the newest backups as they
  are and touches nothing outside the backups.
\<close>

theorem rotation_keeps_the_newest:
  assumes own: "\<forall>m\<in>set (listBackups cwd root fs). bm_backupDir m \<noteq> None \<and> root \<noteq> [] \<and> (\<exists>seg. dir_of cwd m = root @ [seg])"
    and distinct: "distinct (map (dir_of cwd) (listBackups cwd root fs))"
    and n: "1 \<le> n" and r: "rotateBackups cwd root n fs = (r, fs')"
  shows "(\<forall>m\<in>set (take (nat n) (listBackups cwd root fs)). \<forall>q. prefix (dir_of cwd m) q \<longrightarrow> file_at q fs' = file_at q fs)
    \<and> (\<forall>q. \<not> prefix root q \<longrightarrow> file_at q fs' = file_at q fs) \<and> \<not> isl r"
proof -
  let ?all = "listBackups cwd root fs"
  have "\<forall>m\<in>set (drop (nat n) ?all). bm_backupDir m \<noteq> None \<and> assertWithin root (dir_of cwd m)"
    using own by (auto simp: assertWithin_def prefix_def dest: in_set_dropD)
  from rotate_loop_end [OF this, of 0 fs] r n
  obtain k where k: "r = Inr k" and files: "\<And>q. file_at q fs' = (if \<exists>m\<in>set (drop (nat n) ?all). existsSync (dir_of cwd m) fs \<and> prefix (dir_of cwd m) q then None else file_at q fs)"
    by (auto simp: rotateBackups_def)
  have "file_at q fs' = file_at q fs" if m: "m \<in> set (take (nat n) ?all)" and q: "prefix (dir_of cwd m) q" for m q
  proof -
    have "\<not> prefix (dir_of cwd m') q" if m': "m' \<in> set (drop (nat n) ?all)" for m'
    proof
      assume p: "prefix (dir_of cwd m') q"
      obtain seg seg' where "dir_of cwd m = root @ [seg]" "dir_of cwd m' = root @ [seg']"
        using own m m' by (meson in_set_dropD in_set_takeD)
      then have "dir_of cwd m = dir_of cwd m'" using p q by (auto simp: prefix_def)
      moreover have "dir_of cwd m \<in> set (take (nat n) (map (dir_of cwd) ?all))" "dir_of cwd m' \<in> set (drop (nat n) (map (dir_of cwd) ?all))"
        using m m' by (auto simp: take_map drop_map)
      ultimately show False
        using distinct set_take_disj_set_drop_if_distinct [OF distinct, of "nat n" "nat n"] by auto
    qed
    then show ?thesis using files by auto
  qed
  moreover have "file_at q fs' = file_at q fs" if "\<not> prefix root q" for q
    using own that files by (auto dest!: in_set_dropD) (metis prefix_order.trans prefixI)
  ultimately show ?thesis using k by auto
qed

text \<open>A backup whose metadata names the root of all backups as its directory takes them all with it.\<close>

definition tampered :: "string \<Rightarrow> string \<Rightarrow> backup_metadata" where
  "tampered at dir = \<lparr>bm_createdAt = at, bm_databaseSchemaVersion = 10, bm_databaseFilename = DB_FILENAME,
     bm_backupFile = Some (''/b/t'' @ at @ ''/'' @ DB_FILENAME), bm_backupDir = Some dir\<rparr>"

definition tampered_fs :: "nat file_system" where
  "tampered_fs = \<lparr>fs_files =
       [([''b'', ''t1'', DB_FILENAME], Database 1), ([''b'', ''t1'', BACKUP_METADATA_FILENAME], Metadata_file (tampered ''1'' ''/b'')),
        ([''b'', ''t2'', DB_FILENAME], Database 2), ([''b'', ''t2'', BACKUP_METADATA_FILENAME], Metadata_file (tampered ''2'' ''/b/t2''))],
     fs_dirs = [[''b''], [''b'', ''t1''], [''b'', ''t2'']]\<rparr>"

theorem rotation_can_remove_everything:
  "map bm_createdAt (listBackups [] [''b''] tampered_fs) = [''2'', ''1'']
   \<and> (let (r, fs) = rotateBackups [] [''b''] 1 tampered_fs in \<not> isl r \<and> fs_files fs = [] \<and> fs_dirs fs = [])"
  by code_simp

end
