(* ===== verification/Db_Migration_Props.thy ===== *)
theory Db_Migration_Props imports Db_Migration Db_Backup_Props begin

text \<open>
  Migrations are applied in their order, each as a whole, never without a backup of the database before them, and
  once; the identity of the workspace is made once and never changes. And what happens to a connection whose \<open>BEGIN\<close> threw.
\<close>

subsection \<open>Transactions\<close>

lemma transaction_fresh:
  assumes "\<not> cx_in_transaction c" "transaction b k fn c = (r, c')"
  shows "(\<exists>e. r = Inl e \<and> cx_db c' = cx_db c \<and> (\<not> b \<and> c' = c\<lparr>cx_in_transaction := True\<rparr>
            \<or> (\<exists>c1. fn (c\<lparr>cx_in_transaction := True\<rparr>) = (Inl e, c1) \<and> c' = c1\<lparr>cx_db := cx_db c, cx_in_transaction := False\<rparr>)
            \<or> (\<exists>v c1. fn (c\<lparr>cx_in_transaction := True\<rparr>) = (Inr v, c1) \<and> c' = c1\<lparr>cx_db := cx_db c, cx_in_transaction := False\<rparr>)))
    \<or> (\<exists>v c1. r = Inr v \<and> fn (c\<lparr>cx_in_transaction := True\<rparr>) = (Inr v, c1) \<and> c' = c1\<lparr>cx_in_transaction := False\<rparr>)"
  using assms by (auto simp: transaction_def split: if_splits prod.splits sum.splits)

text \<open>
  After a \<open>BEGIN\<close> that threw, the flag stays: the next transaction of the connection runs without one, and what a failing
  function has done stays in the database.
\<close>

theorem failed_begin_disables_transactions:
  "let c = \<lparr>cx_db = (0::nat), cx_in_transaction = False, cx_foreign_keys = True\<rparr>;
       body = (\<lambda>c. (Inl ''failed'' :: string + unit, c\<lparr>cx_db := 1\<rparr>));
       (r1, c1) = transaction False True body c; (r2, c2) = transaction True True body c1
   in r1 = Inl ''BEGIN failed'' \<and> cx_db c1 = 0 \<and> r2 = Inl ''failed'' \<and> cx_db c2 = 1"
  by (simp add: transaction_def)

subsection \<open>Applying migrations\<close>

definition record_of :: "'d migration_env \<Rightarrow> migration \<Rightarrow> migration_record" where
  "record_of env m = \<lparr>mc_version = mg_version m, mc_name = mg_name m, mc_checksum = mg_checksum m, mc_applied_at = me_now env\<rparr>"

definition scripts :: "'d migration_env \<Rightarrow> migration list \<Rightarrow> 'd \<Rightarrow> 'd" where
  "scripts env ms d = fold (\<lambda>m d. snd (me_exec env (mg_sql m) d)) ms d"

lemma migration_body_end:
  assumes "migration_body env m c = (Inr u, c')"
  shows "c' = c\<lparr>cx_db := (cx_db c)\<lparr>sd_data := snd (me_exec env (mg_sql m) (sd_data (cx_db c))),
      sd_migrations := sd_migrations (cx_db c) @ [record_of env m]\<rparr>\<rparr> \<and> find_applied (mg_version m) (sd_migrations (cx_db c)) = None"
  using assms by (auto simp: migration_body_def record_of_def Let_def split: prod.splits if_splits)

lemma migration_body_flags: "migration_body env m c = (r, c') \<Longrightarrow> cx_foreign_keys c' = cx_foreign_keys c"
  by (auto simp: migration_body_def Let_def split: prod.splits if_splits)

definition applied_part :: "'d migration_env \<Rightarrow> migration list \<Rightarrow> 'd schema_db \<Rightarrow> 'd schema_db" where
  "applied_part env ms db = db\<lparr>sd_data := scripts env ms (sd_data db), sd_migrations := sd_migrations db @ map (record_of env) ms\<rparr>"

lemma applied_part_Nil [simp]: "applied_part env [] db = db"
  by (simp add: applied_part_def scripts_def)

lemma find_applied_append: "find_applied v (xs @ ys) = (case find_applied v xs of Some a \<Rightarrow> Some a | None \<Rightarrow> find_applied v ys)"
  by (induction xs) (simp_all add: find_applied_def)

lemma find_applied_None: "find_applied v rows = None \<longleftrightarrow> v \<notin> mc_version ` set rows"
  by (auto simp: find_applied_def find_None_iff)

lemma migration_transaction:
  assumes "\<not> cx_in_transaction c" "transaction b k (migration_body env m) c = (t, c1)"
  obtains (stopped) e where "t = Inl e" "cx_db c1 = cx_db c" "cx_foreign_keys c1 = cx_foreign_keys c"
  | (applied) "t = Inr ()" "cx_db c1 = applied_part env [m] (cx_db c)" "cx_foreign_keys c1 = cx_foreign_keys c"
      "\<not> cx_in_transaction c1" "mg_version m \<notin> mc_version ` set (sd_migrations (cx_db c))"
proof (cases t)
  case (Inl e)
  have "cx_db c1 = cx_db c" "cx_foreign_keys c1 = cx_foreign_keys c"
    using transaction_fresh [OF assms] Inl by (auto dest!: migration_body_flags)
  then show ?thesis using stopped Inl by blast
next
  case (Inr u)
  then obtain c2 where c2: "migration_body env m (c\<lparr>cx_in_transaction := True\<rparr>) = (Inr u, c2)" "c1 = c2\<lparr>cx_in_transaction := False\<rparr>"
    using transaction_fresh [OF assms] by auto
  from migration_body_end [OF c2(1)] c2(2) show ?thesis
    by (intro applied) (auto simp: Inr applied_part_def scripts_def find_applied_None)
qed

lemma apply_pending_end:
  assumes "\<not> cx_in_transaction c" "apply_pending env ms c = (r, c')"
  shows "\<exists>k\<le>length ms. cx_db c' = applied_part env (take k ms) (cx_db c) \<and> cx_foreign_keys c' = cx_foreign_keys c
    \<and> (\<not> isl r \<longrightarrow> k = length ms \<and> distinct (map mg_version ms)
         \<and> (\<forall>m\<in>set ms. mg_version m \<notin> mc_version ` set (sd_migrations (cx_db c))) \<and> \<not> cx_in_transaction c')"
  using assms
proof (induction ms arbitrary: c)
  case (Cons m ms)
  obtain t c1 where t: "transaction (me_begin_ok env (mg_version m)) (me_commit_ok env (mg_version m)) (migration_body env m) c = (t, c1)"
    by fastforce
  show ?case
    using Cons.prems(1) t
  proof (cases rule: migration_transaction)
    case (stopped e)
    then have "r = Inl (Migration_failed (mg_version m) e)" "c' = c1" using Cons.prems(2) t by auto
    then show ?thesis using stopped by (intro exI [of _ 0]) simp
  next
    case applied
    have rest: "apply_pending env ms c1 = (r, c')" using Cons.prems(2) t applied(1) by simp
    obtain k where k: "k \<le> length ms" "cx_db c' = applied_part env (take k ms) (cx_db c1)" "cx_foreign_keys c' = cx_foreign_keys c1"
      "\<not> isl r \<longrightarrow> k = length ms \<and> distinct (map mg_version ms)
         \<and> (\<forall>m\<in>set ms. mg_version m \<notin> mc_version ` set (sd_migrations (cx_db c1))) \<and> \<not> cx_in_transaction c'"
      using Cons.IH [OF applied(4) rest] by auto
    have "cx_db c' = applied_part env (take (Suc k) (m # ms)) (cx_db c)"
      using k(2) applied(2) by (simp add: applied_part_def scripts_def)
    moreover have "\<not> isl r \<longrightarrow> Suc k = length (m # ms) \<and> distinct (map mg_version (m # ms))
         \<and> (\<forall>m\<in>set (m # ms). mg_version m \<notin> mc_version ` set (sd_migrations (cx_db c))) \<and> \<not> cx_in_transaction c'"
      using k(4) applied(2,5) by (auto simp: applied_part_def record_of_def image_iff)
    ultimately show ?thesis using k(1,3) applied(3) by (intro exI [of _ "Suc k"]) simp
  qed
qed auto

definition pending_of :: "'d schema_db \<Rightarrow> migration list \<Rightarrow> migration list" where
  "pending_of db ms = filter (\<lambda>m. find_applied (mg_version m) (applied_rows db) = None) ms"

definition checksums_match :: "'d schema_db \<Rightarrow> migration list \<Rightarrow> bool" where
  "checksums_match db ms \<longleftrightarrow> (\<forall>m\<in>set ms. \<forall>a. find_applied (mg_version m) (applied_rows db) = Some a \<longrightarrow> mc_checksum a = mg_checksum m)"

lemma collect_pending_ok:
  "collect_pending (applied_rows db) ms = Inr pending \<longleftrightarrow> checksums_match db ms \<and> pending = pending_of db ms"
proof (induction ms arbitrary: pending)
  case (Cons m ms)
  have "collect_pending (applied_rows db) ms = Inr (pending_of db ms) \<longleftrightarrow> checksums_match db ms" using Cons.IH by blast
  moreover have "collect_pending (applied_rows db) ms = Inr p \<Longrightarrow> p = pending_of db ms" for p using Cons.IH by blast
  ultimately show ?case
    by (cases "collect_pending (applied_rows db) ms"; cases "find_applied (mg_version m) (applied_rows db)")
      (auto simp: checksums_match_def pending_of_def)
qed (auto simp: checksums_match_def pending_of_def)

lemma find_applied_version: "find_applied v rows = Some a \<Longrightarrow> mc_version a = v"
  by (auto simp: find_applied_def find_Some_iff)

lemma applied_rows_versions: "set (applied_rows db) = set (sd_migrations db)"
  by (simp add: applied_rows_def)

subsection \<open>The backup before the upgrade\<close>

lemma backupDatabase_end:
  assumes b: "backupDatabase ev env emptyFile db dir fs = (Inr t, fs')" and names: "good_names env"
    and exists: "file_at db fs = Some (Database d)" and p: "\<not> emptyFile"
  shows "t = Some (dir @ [be_stamp env, DB_FILENAME]) \<and> file_at (dir @ [be_stamp env, DB_FILENAME]) fs' = Some (Database d)
    \<and> ev_integrity ev d = Some ''ok''"
proof -
  let ?dir = "dir @ [be_stamp env]"
  obtain s fs1 where s: "snapshotDatabase (be_vacuum env) db (?dir @ [be_temp env]) (mkdir_p ?dir fs) = (s, fs1)" by fastforce
  have "s = Inr ()" using b s exists p by (cases s) (auto simp: backupDatabase_def existsSync_iff Let_def)
  then have "file_at (?dir @ [be_temp env]) fs1 = Some (Database d)"
    using snapshot_end [OF s] exists by auto
  then show ?thesis
    using b s exists p \<open>s = Inr ()\<close> names
    by (auto simp: backupDatabase_def existsSync_iff integrity_ok_def file_at_rename good_names_def Let_def split: if_splits)
qed

text \<open>
  Property C15. Migrations are applied in order, each as a whole, and never without a backup. Whatever fails, the
  data of the database are those after a beginning of the pending migrations in their order, and exactly these are
  recorded; all of them after a success. A migration is applied only when the checksums of all applied ones
  match, the database is not of a newer program, and an intact copy of the database as it was lies in the backup directory (unless the file was
  empty). Foreign keys are enforced afterwards if they were before.
\<close>

theorem migrations_apply_in_order_or_not_at_all:
  assumes c: "\<not> cx_in_transaction c" and m: "migrate env ms c fs = (r, c', fs')" and names: "good_names (me_backup env)"
  shows "\<exists>k\<le>length (pending_of (cx_db c) ms).
      sd_data (cx_db c') = scripts env (take k (pending_of (cx_db c) ms)) (sd_data (cx_db c))
    \<and> sd_migrations (cx_db c') = sd_migrations (cx_db c) @ map (record_of env) (take k (pending_of (cx_db c) ms))
    \<and> (\<not> isl r \<longrightarrow> k = length (pending_of (cx_db c) ms))
    \<and> (cx_foreign_keys c \<longrightarrow> cx_foreign_keys c')
    \<and> (0 < k \<longrightarrow> checksums_match (cx_db c) ms \<and> assertSchemaSupported (readSchemaVersion (cx_db c)) = None
        \<and> (me_emptyFile env \<or> ev_integrity (me_evidence env) (cx_db c) = Some ''ok''
             \<and> file_at (me_backupDir env @ [be_stamp (me_backup env), DB_FILENAME]) fs' = Some (Database (cx_db c))))"
proof -
  let ?p = "pending_of (cx_db c) ms" and ?fs = "put_file (me_path env) (Database (cx_db c)) fs"
  show ?thesis
  proof (cases "collect_pending (applied_rows (cx_db c)) ms")
    case (Inl e)
    then have "c' = c" "\<not> isl r \<longrightarrow> ?p = []" using m by (auto simp: migrate_def)
    then show ?thesis by (intro exI [of _ 0]) (simp add: scripts_def)
  next
    case (Inr p)
    then have p: "p = ?p" and sums: "checksums_match (cx_db c) ms" using collect_pending_ok by blast+
    show ?thesis
    proof (cases "assertSchemaSupported (readSchemaVersion (cx_db c)) = None \<and> p \<noteq> []")
      case False
      then have "c' = c" "\<not> isl r \<longrightarrow> ?p = []" using m Inr p by (auto simp: migrate_def split: option.splits if_splits)
      then show ?thesis by (intro exI [of _ 0]) (simp add: scripts_def)
    next
      case True
      obtain b fs1 where b: "backupDatabase (me_evidence env) (me_backup env) (me_emptyFile env) (me_path env) (me_backupDir env) ?fs = (b, fs1)"
        by fastforce
      show ?thesis
      proof (cases b)
        case (Inl e)
        then have "c' = c" "\<not> isl r \<longrightarrow> ?p = []" using m True \<open>collect_pending _ _ = Inr p\<close> b by (auto simp: migrate_def)
        then show ?thesis by (intro exI [of _ 0]) (simp add: scripts_def)
      next
        case t: (Inr t)
        obtain a c1 where a: "apply_pending env p (c\<lparr>cx_foreign_keys := False\<rparr>) = (a, c1)" by fastforce
        obtain k where k: "k \<le> length p" "cx_db c1 = applied_part env (take k p) (cx_db c)" "\<not> isl a \<longrightarrow> k = length p"
          using apply_pending_end [OF _ a] c by auto
        have end_of: "sd_data (cx_db c') = sd_data (cx_db c1) \<and> sd_migrations (cx_db c') = sd_migrations (cx_db c1)
            \<and> cx_foreign_keys c' \<and> isl r = isl a \<and> fs' = fs1"
          using m True \<open>collect_pending _ _ = Inr p\<close> b t a
          by (cases a) (auto simp: migrate_def run_pending_def set_meta_def Let_def)
        have "me_emptyFile env \<or> file_at (me_backupDir env @ [be_stamp (me_backup env), DB_FILENAME]) fs1 = Some (Database (cx_db c))
            \<and> ev_integrity (me_evidence env) (cx_db c) = Some ''ok''"
          using backupDatabase_end [OF b [unfolded t] names, of "cx_db c"] by auto
        then show ?thesis
          using k end_of p sums True by (intro exI [of _ k]) (auto simp: applied_part_def)
      qed
    qed
  qed
qed

subsection \<open>Migrating twice\<close>

lemma show_nat_decimal: "list_all digit_ch (show_nat n) \<and> decimal_value (show_nat n) = n \<and> show_nat n \<noteq> []"
proof (induction n rule: show_nat.induct)
  case (1 n)
  show ?case
  proof (cases "n < 10")
    case True
    then have "of_char (char_of (48 + n) :: char) = 48 + n" by (simp add: of_char_of)
    then show ?thesis using True by (subst (1 2 3) show_nat.simps) (simp add: digit_ch_def decimal_value_def)
  next
    case False
    have "of_char (char_of (48 + n mod 10) :: char) = 48 + n mod 10" by (simp add: of_char_of)
    moreover have "n mod 10 \<le> 9" using mod_less_divisor [of 10 n] by simp
    moreover have "show_nat n = show_nat (n div 10) @ [char_of (48 + n mod 10)]" using False by (subst show_nat.simps) simp
    ultimately show ?thesis using False 1 by (simp add: digit_ch_def decimal_value_def list_all_iff)
  qed
qed

lemma parse_show_nat: "parse_int (show_nat n) = Some (int n)"
proof -
  obtain c s where s: "show_nat n = c # s" using show_nat_decimal [of n] by (cases "show_nat n") auto
  have c: "digit_ch c" using show_nat_decimal [of n] s by simp
  then have "\<not> is_ws c" "c \<noteq> CHR ''-''" "c \<noteq> CHR ''+''" by (auto simp: digit_ch_def is_ws_def Let_def)
  moreover have tw: "takeWhile digit_ch s = s"
    using show_nat_decimal [of n] s by (simp add: list_all_iff takeWhile_eq_all_conv)
  ultimately show ?thesis
    using show_nat_decimal [of n] by (simp add: parse_int_def s Let_def tw)
qed

lemma find_applied_distinct:
  "distinct (map mc_version rows) \<Longrightarrow> a \<in> set rows \<Longrightarrow> find_applied (mc_version a) rows = Some a"
  by (induction rows) (auto simp: find_applied_def image_iff)

lemma find_applied_rows:
  assumes "distinct (map mc_version (sd_migrations db))"
  shows "find_applied v (applied_rows db) = find_applied v (sd_migrations db)"
proof -
  have d: "distinct (map mc_version (applied_rows db))"
    using assms by (simp add: distinct_map applied_rows_def inj_on_def)
  show ?thesis
  proof (cases "find_applied v (sd_migrations db)")
    case None
    then have "find_applied v (applied_rows db) = None" by (simp add: find_applied_None applied_rows_versions)
    with None show ?thesis by simp
  next
    case (Some a)
    then have "mc_version a = v" "a \<in> set (sd_migrations db)" by (auto simp: find_applied_def find_Some_iff)
    then show ?thesis using find_applied_distinct [OF d, of a] Some by (simp add: applied_rows_versions)
  qed
qed

text \<open>
  A migration that succeeded is done: the next start finds nothing to do and changes nothing, as long as the program supports the versions it
  ships.
\<close>

theorem migrating_twice_changes_nothing:
  assumes c: "\<not> cx_in_transaction c" and m: "migrate env ms c fs = (Inr res, c', fs')"
    and key: "distinct (map mc_version (sd_migrations (cx_db c)))" and supported: "int (maxMigrationVersion ms) \<le> SUPPORTED_DB_SCHEMA_VERSION"
  shows "migrate env' ms c' fs2 = (Inr \<lparr>ms_applied = applied_rows (cx_db c'), ms_backedUp = False, ms_migratedCount = 0\<rparr>, c', fs2)"
proof -
  let ?p = "pending_of (cx_db c) ms"
  obtain p where "collect_pending (applied_rows (cx_db c)) ms = Inr p"
    using m by (cases "collect_pending (applied_rows (cx_db c)) ms") (auto simp: migrate_def)
  then have p: "collect_pending (applied_rows (cx_db c)) ms = Inr ?p" and sums: "checksums_match (cx_db c) ms"
    using collect_pending_ok by blast+
  have sup: "assertSchemaSupported (readSchemaVersion (cx_db c)) = None"
    using m p by (auto simp: migrate_def split: option.splits)
  show ?thesis
  proof (cases "?p = []")
    case True
    then have "c' = c" using m p sup by (auto simp: migrate_def)
    then show ?thesis using p sup True by (simp add: migrate_def)
  next
    case False
    obtain b fs1 where b: "backupDatabase (me_evidence env) (me_backup env) (me_emptyFile env) (me_path env) (me_backupDir env)
        (put_file (me_path env) (Database (cx_db c)) fs) = (b, fs1)" by fastforce
    obtain a c1 where a: "apply_pending env ?p (c\<lparr>cx_foreign_keys := False\<rparr>) = (a, c1)" by fastforce
    have ok: "\<not> isl b \<and> \<not> isl a" using m p sup False b a
      by (cases b; cases a) (auto simp: migrate_def run_pending_def set_meta_def Let_def)
    then have c1: "cx_db c1 = applied_part env ?p (cx_db c)" "distinct (map mg_version ?p)"
        "\<forall>m\<in>set ?p. mg_version m \<notin> mc_version ` set (sd_migrations (cx_db c))"
      using apply_pending_end [OF _ a] c by auto
    have rows: "sd_migrations (cx_db c') = sd_migrations (cx_db c) @ map (record_of env) ?p"
      and stored: "sd_meta (cx_db c') ''database_schema_version'' = Some (show_nat (maxMigrationVersion ms))"
      using m p sup False b a ok c1(1)
      by (cases b; cases a; auto simp: migrate_def run_pending_def set_meta_def applied_part_def Let_def)+
    have mv: "map mc_version (sd_migrations (cx_db c')) = map mc_version (sd_migrations (cx_db c)) @ map mg_version ?p"
      by (simp add: rows record_of_def comp_def)
    have "set (map mc_version (sd_migrations (cx_db c))) \<inter> set (map mg_version ?p) = {}"
    proof (rule equals0I)
      fix v assume "v \<in> set (map mc_version (sd_migrations (cx_db c))) \<inter> set (map mg_version ?p)"
      then obtain x where x: "x \<in> set ?p" "v = mg_version x" and "v \<in> mc_version ` set (sd_migrations (cx_db c))"
        unfolding list.set_map by blast
      then show False using c1(3) by blast
    qed
    then have d: "distinct (map mc_version (sd_migrations (cx_db c')))"
      unfolding mv distinct_append using key c1(2) by blast
    have "find_applied (mg_version x) (applied_rows (cx_db c')) \<noteq> None
        \<and> (\<forall>r. find_applied (mg_version x) (applied_rows (cx_db c')) = Some r \<longrightarrow> mc_checksum r = mg_checksum x)" if x: "x \<in> set ms" for x
    proof (cases "find_applied (mg_version x) (sd_migrations (cx_db c))")
      case (Some r)
      then show ?thesis
        using sums x by (simp add: find_applied_rows [OF d] rows find_applied_append checksums_match_def find_applied_rows [OF key])
    next
      case None
      then have "x \<in> set ?p" using x by (simp add: pending_of_def find_applied_rows [OF key])
      then have "find_applied (mg_version x) (sd_migrations (cx_db c')) = Some (record_of env x)"
        using find_applied_distinct [OF d, of "record_of env x"] by (simp add: rows record_of_def)
      then show ?thesis by (simp add: find_applied_rows [OF d] record_of_def)
    qed
    then have "collect_pending (applied_rows (cx_db c')) ms = Inr []"
      by (auto simp: collect_pending_ok checksums_match_def pending_of_def filter_empty_conv)
    moreover have "assertSchemaSupported (readSchemaVersion (cx_db c')) = None"
      using supported by (simp add: readSchemaVersion_def stored parse_show_nat assertSchemaSupported_def)
    ultimately show ?thesis by (simp add: migrate_def)
  qed
qed

subsection \<open>The identity of the workspace\<close>

abbreviation workspace_pointer :: "identity_db \<Rightarrow> string option" where
  "workspace_pointer db \<equiv> id_meta db WORKSPACE_MERCHANT_ID_META_KEY"

lemma start_end:
  assumes "resolveOrBootstrapWorkspaceMerchantId faults uuid \<lparr>cx_db = db, cx_in_transaction = False, cx_foreign_keys = True\<rparr> = (r, c)"
  shows "(\<exists>e. r = Inl e \<and> cx_db c = db)
    \<or> (\<exists>i. r = Inr i \<and> workspace_pointer db = Some i \<and> i \<in> fst ` set (id_merchants db) \<and> cx_db c = db)
    \<or> (r = Inr (generateWorkspaceMerchantId uuid) \<and> workspace_pointer db = None \<and> id_merchants db = []
        \<and> cx_db c = db\<lparr>id_merchants := [(generateWorkspaceMerchantId uuid, None)],
            id_meta := (id_meta db)(WORKSPACE_MERCHANT_ID_META_KEY \<mapsto> generateWorkspaceMerchantId uuid)\<rparr>)"
proof (cases "workspace_pointer db")
  case (Some i)
  then show ?thesis
    using assms by (auto simp: resolveOrBootstrapWorkspaceMerchantId_def resolveWorkspaceMerchantId_def merchantExists_def split: if_splits)
next
  case pointer: None
  show ?thesis
  proof (cases "id_merchants db = []")
    case False
    then show ?thesis
      using assms pointer by (auto simp: resolveOrBootstrapWorkspaceMerchantId_def resolveWorkspaceMerchantId_def hasMerchantRows_def)
  next
    case True
    let ?c = "\<lparr>cx_db = db, cx_in_transaction = False, cx_foreign_keys = True\<rparr>" and ?i = "generateWorkspaceMerchantId uuid"
    have boot: "bootstrapWorkspaceMerchantId faults ?i ?c = (r, c)"
      using assms pointer True by (simp add: resolveOrBootstrapWorkspaceMerchantId_def resolveWorkspaceMerchantId_def hasMerchantRows_def)
    obtain t c1 where t: "transaction (if_begin_ok faults) (if_commit_ok faults) (bootstrap_body faults ?i) ?c = (t, c1)" by fastforce
    from transaction_fresh [OF _ t] show ?thesis
      using boot t pointer True
      by (auto simp: bootstrapWorkspaceMerchantId_def bootstrap_body_def merchantExists_def Let_def split: if_splits)
  qed
qed

definition identity_inv :: "identity_db \<times> (identity_error + string) list \<Rightarrow> bool" where
  "identity_inv s \<longleftrightarrow> (\<forall>i. Inr i \<in> set (snd s) \<longleftrightarrow> workspace_pointer (fst s) = Some i)"

interpretation root_sys: step_invariant root_step identity_inv "\<lambda>_. True"
proof
  fix s e assume inv: "identity_inv s"
  obtain db answers where s: "s = (db, answers)" by fastforce
  show "identity_inv (root_step e s)"
  proof (cases e)
    case (Start faults uuid)
    obtain r c where rc: "resolveOrBootstrapWorkspaceMerchantId faults uuid \<lparr>cx_db = db, cx_in_transaction = False, cx_foreign_keys = True\<rparr> = (r, c)"
      by fastforce
    have db: "Inr i \<in> set answers \<longleftrightarrow> workspace_pointer db = Some i" for i using inv by (simp add: s identity_inv_def)
    have step: "root_step e s = (cx_db c, answers @ [r])" by (simp add: Start s rc)
    from start_end [OF rc] show ?thesis
    proof (elim disjE exE conjE)
      fix x assume "r = Inl x" "cx_db c = db"
      then show ?thesis using db by (simp add: step identity_inv_def)
    next
      fix i assume "r = Inr i" "workspace_pointer db = Some i" "cx_db c = db"
      then show ?thesis using db by (auto simp: step identity_inv_def)
    next
      assume "r = Inr (generateWorkspaceMerchantId uuid)" "workspace_pointer db = None"
        "cx_db c = db\<lparr>id_merchants := [(generateWorkspaceMerchantId uuid, None)],
            id_meta := (id_meta db)(WORKSPACE_MERCHANT_ID_META_KEY \<mapsto> generateWorkspaceMerchantId uuid)\<rparr>"
      then show ?thesis using db by (auto simp: step identity_inv_def)
    qed
  qed (use inv in \<open>auto simp: s identity_inv_def\<close>)
qed

text \<open>
  Property C39. The workspace has one identity for life. However often the application starts on a fresh data root, whichever statements
  fail, and whatever merchants come and go in between, all starts that succeed give the same identity, which is the stored
  pointer; a start that fails changes nothing; and when merchants exist without a pointer no start succeeds.
\<close>

theorem workspace_identity_is_stable:
  assumes "run root_step es (\<lparr>id_merchants = [], id_meta = Map.empty\<rparr>, []) = (db, answers)"
  shows "(\<forall>i j. Inr i \<in> set answers \<longrightarrow> Inr j \<in> set answers \<longrightarrow> i = j)
    \<and> (\<forall>i. Inr i \<in> set answers \<longleftrightarrow> workspace_pointer db = Some i)
    \<and> (\<forall>faults uuid e db'. root_step (Start faults uuid) (db, answers) = (db', answers @ [Inl e]) \<longrightarrow> db' = db)
    \<and> (workspace_pointer db = None \<longrightarrow> id_merchants db \<noteq> [] \<longrightarrow>
        (\<forall>faults uuid. root_step (Start faults uuid) (db, answers) = (db, answers @ [Inl Ambiguous_identity])))"
proof -
  have "identity_inv (run root_step es (\<lparr>id_merchants = [], id_meta = Map.empty\<rparr>, []))"
    by (intro root_sys.run_keeps) (simp_all add: identity_inv_def)
  then have inv: "Inr i \<in> set answers \<longleftrightarrow> workspace_pointer db = Some i" for i
    using assms by (simp add: identity_inv_def)
  moreover have "db' = db" if "root_step (Start faults uuid) (db, answers) = (db', answers @ [Inl e])" for faults uuid e db'
  proof -
    obtain r c where rc: "resolveOrBootstrapWorkspaceMerchantId faults uuid \<lparr>cx_db = db, cx_in_transaction = False, cx_foreign_keys = True\<rparr> = (r, c)"
      by fastforce
    show ?thesis using start_end [OF rc] that by (auto simp: rc)
  qed
  moreover have "root_step (Start faults uuid) (db, answers) = (db, answers @ [Inl Ambiguous_identity])"
    if "workspace_pointer db = None" "id_merchants db \<noteq> []" for faults uuid
    using that by (simp add: resolveOrBootstrapWorkspaceMerchantId_def resolveWorkspaceMerchantId_def hasMerchantRows_def)
  ultimately show ?thesis by (metis option.inject)
qed

subsection \<open>Examples\<close>

text \<open>Two migrations of a number, the second of which fails.\<close>

definition number_exec :: "string \<Rightarrow> nat \<Rightarrow> bool \<times> nat" where
  "number_exec sql d = (if sql = ''bad'' then (False, d + 100) else (True, d + 1))"

definition number_env :: "nat migration_env" where
  "number_env = \<lparr>me_now = ''now'', me_begin_ok = \<lambda>_. True, me_commit_ok = \<lambda>_. True, me_exec = number_exec,
     me_backup = \<lparr>be_stamp = ''t'', be_temp = ''x'', be_createdAt = ''t'', be_vacuum = Writes, be_rename_ok = True, be_write = Writes\<rparr>,
     me_evidence = \<lparr>ev_integrity = \<lambda>_. Some ''ok'', ev_version = \<lambda>_. No_row\<rparr>, me_emptyFile = False, me_path = [''db''], me_backupDir = [''b'']\<rparr>"

definition number_conn :: "nat schema_db connection" where
  "number_conn = \<lparr>cx_db = \<lparr>sd_data = 5, sd_migrations = [], sd_meta = Map.empty\<rparr>, cx_in_transaction = False, cx_foreign_keys = True\<rparr>"

definition number_migrations :: "migration list" where
  "number_migrations = discoverMigrations (\<lambda>_. ''h'') [(''0002_b.sql'', ''bad''), (''notes.txt'', ''x''), (''0001_a.sql'', ''good'')]"

lemma number_migrations_list:
  "number_migrations = [\<lparr>mg_version = 1, mg_name = ''a'', mg_checksum = ''h'', mg_sql = ''good''\<rparr>,
     \<lparr>mg_version = 2, mg_name = ''b'', mg_checksum = ''h'', mg_sql = ''bad''\<rparr>]"
  by code_simp

definition no_files :: "nat schema_db file_system" where
  "no_files = \<lparr>fs_files = [], fs_dirs = []\<rparr>"

theorem migrations_apply_in_order_or_not_at_all_witness:
  "\<exists>r c' fs' k. migrate number_env number_migrations number_conn no_files = (r, c', fs') \<and> k \<le> 2
     \<and> sd_data (cx_db c') = scripts number_env (take k number_migrations) 5"
proof -
  obtain r c' fs' where m: "migrate number_env number_migrations number_conn no_files = (r, c', fs')"
    by (metis surj_pair)
  have "pending_of (cx_db number_conn) number_migrations = number_migrations" "length number_migrations = 2"
    by (simp_all add: number_migrations_list pending_of_def number_conn_def applied_rows_def find_applied_def)
  note p = this
  have c: "\<not> cx_in_transaction number_conn" "sd_data (cx_db number_conn) = 5" by (simp_all add: number_conn_def)
  have "good_names (me_backup number_env)"
    by (simp add: good_names_def number_env_def DB_FILENAME_def BACKUP_METADATA_FILENAME_def)
  from migrations_apply_in_order_or_not_at_all [OF c(1) m this]
  obtain k where "k \<le> 2" "sd_data (cx_db c') = scripts number_env (take k number_migrations) 5"
    unfolding p c(2) by blast
  then show ?thesis using m by blast
qed

text \<open>A first start whose pointer cannot be written, a second start that succeeds, and a third one.\<close>

definition sample_starts :: "root_event list" where
  "sample_starts = [Start \<lparr>if_begin_ok = True, if_insert_ok = True, if_pointer_ok = False, if_commit_ok = True\<rparr> ''a'',
     Start \<lparr>if_begin_ok = True, if_insert_ok = True, if_pointer_ok = True, if_commit_ok = True\<rparr> ''b'', Add_merchant ''m'' None,
     Start \<lparr>if_begin_ok = True, if_insert_ok = True, if_pointer_ok = True, if_commit_ok = True\<rparr> ''c'']"

theorem workspace_identity_is_stable_witness:
  "\<exists>db answers. run root_step sample_starts (\<lparr>id_merchants = [], id_meta = Map.empty\<rparr>, []) = (db, answers)
     \<and> answers = [Inl (Bootstrap_failed ''INSERT failed''), Inr ''merchant-b'', Inr ''merchant-b''] \<and> workspace_pointer db = Some ''merchant-b''"
proof -
  obtain db answers where r: "run root_step sample_starts (\<lparr>id_merchants = [], id_meta = Map.empty\<rparr>, []) = (db, answers)"
    by fastforce
  then have a: "answers = [Inl (Bootstrap_failed ''INSERT failed''), Inr ''merchant-b'', Inr ''merchant-b'']"
    by (simp add: sample_starts_def resolveOrBootstrapWorkspaceMerchantId_def resolveWorkspaceMerchantId_def hasMerchantRows_def
        merchantExists_def bootstrapWorkspaceMerchantId_def transaction_def bootstrap_body_def generateWorkspaceMerchantId_def Let_def)
  have "Inr ''merchant-b'' \<in> set answers" by (simp add: a)
  then have "workspace_pointer db = Some ''merchant-b''"
    using conjunct1 [OF conjunct2 [OF workspace_identity_is_stable [OF r]]] by blast
  then show ?thesis using r a by blast
qed

end
