(* ===== verification/Inbound_Ingress.thy ===== *)
theory Inbound_Ingress imports Inbound_Normalizer begin

text \<open>
  The canonical inbound ingress: \<open>packages/domain/src/identity-inbound.ts\<close> (identity types),
  \<open>packages/platform-pdd/src/inbound-to-canonical.ts\<close> (the mapper) and
  \<open>apps/desktop/src/main/platforms/pdd/pdd-inbound-ingress.ts\<close> (guards, source time, \<open>processPddInboundIngress\<close>).
  The scope and identity resolvers and the schema validator are arguments and may throw; what a resolver
  returns is an \<open>unknown\<close> value that the code checks with its type guards, so it is a \<open>json\<close> here and
  the \<open>read_\<close> functions say what the typed code sees of it. The branches for a throwing normalizer and
  a throwing mapper are not reached: neither throws on a JSON value.
\<close>

subsection \<open>Identity types\<close>

datatype 'a identity_resolution = Id_resolved 'a | Id_unknown | Id_unresolved

datatype message_identity =
    Authoritative_platform_id string
  | Local_fingerprint string
  | Synthetic_id string
  | Unknown_message_id

text \<open>The references \<open>{ value: string }\<close> are their string.\<close>

datatype selected_customer = Customer_selected string | Customer_none | Customer_unknown

record runtime_evidence =
  rv_sessionId :: string
  rv_documentGeneration :: int
  rv_selected :: "selected_customer option"

record inbound_lock =
  il_platform :: string
  il_runtimeShop :: "string identity_resolution"
  il_merchantId :: "string identity_resolution"
  il_storeId :: "string identity_resolution"
  il_platformAccountId :: "string identity_resolution"
  il_platformCustomerId :: "string identity_resolution"
  il_internalConversationId :: "string identity_resolution"
  il_runtimeConversationReference :: "string identity_resolution"
  il_localMessageId :: "string identity_resolution"
  il_messageIdentity :: message_identity
  il_evidence :: runtime_evidence

record inbound_envelope =
  ie_lock :: inbound_lock
  ie_kind :: string
  ie_text :: string
  ie_sourceOccurredAt :: "string option"

record scope_binding =
  sb_merchantId :: "string identity_resolution"
  sb_storeId :: "string identity_resolution"
  sb_platformAccountId :: "string identity_resolution"

record message_association =
  as_ownerRuntimeShopId :: string
  as_ownerScope :: scope_binding
  as_platformCustomerId :: "string option"
  as_platformMessageId :: "string option"
  as_internalConversationId :: "string identity_resolution"
  as_localMessageId :: "string identity_resolution"

record identity_binding =
  ib_runtimeShop :: "string identity_resolution"
  ib_scope :: scope_binding
  ib_runtimeConversationReference :: "string identity_resolution"
  ib_association :: "message_association option"
  ib_selected :: "selected_customer option"

record document_binding =
  db_sessionId :: string
  db_shopId :: string
  db_documentGeneration :: int

subsection \<open>The mapper\<close>

datatype mapping_result =
    Map_mapped inbound_envelope "string list"
  | Map_rejected string "string list"

definition mapPlatformMessageIdentity :: "string option \<Rightarrow> message_identity" where
  "mapPlatformMessageIdentity i = (case i of None \<Rightarrow> Unknown_message_id | Some v \<Rightarrow> Authoritative_platform_id v)"

definition mapPlatformCustomerId :: "string option \<Rightarrow> string identity_resolution" where
  "mapPlatformCustomerId u = (case u of None \<Rightarrow> Id_unknown | Some v \<Rightarrow> Id_resolved v)"

definition mapRuntimeEvidence :: "string \<Rightarrow> int \<Rightarrow> selected_customer option \<Rightarrow> runtime_evidence" where
  "mapRuntimeEvidence sid gen sel = \<lparr>rv_sessionId = sid, rv_documentGeneration = gen, rv_selected = sel\<rparr>"

definition is_resolved :: "'a identity_resolution \<Rightarrow> bool" where
  "is_resolved r = (case r of Id_resolved _ \<Rightarrow> True | _ \<Rightarrow> False)"

definition mapPddInboundToCanonical ::
  "canonical_message \<Rightarrow> identity_binding \<Rightarrow> string \<Rightarrow> int \<Rightarrow> string option \<Rightarrow> mapping_result" where
  "mapPddInboundToCanonical m ident sid gen occurred =
     (if \<not> is_resolved (ib_runtimeShop ident)
      then Map_rejected ''runtime_shop_unresolved'' (cm_diagnostics m @ [''RUNTIME_SHOP_UNRESOLVED''])
      else if sid = [] then Map_rejected ''session_id_missing'' (cm_diagnostics m @ [''SESSION_ID_MISSING''])
      else if gen < 1 then Map_rejected ''document_generation_invalid'' (cm_diagnostics m @ [''DOCUMENT_GENERATION_INVALID''])
      else Map_mapped
        \<lparr>ie_lock = \<lparr>
           il_platform = ''pdd'',
           il_runtimeShop = ib_runtimeShop ident,
           il_merchantId = sb_merchantId (ib_scope ident),
           il_storeId = sb_storeId (ib_scope ident),
           il_platformAccountId = sb_platformAccountId (ib_scope ident),
           il_platformCustomerId = mapPlatformCustomerId (cm_customerUid m),
           il_internalConversationId =
             (case ib_association ident of None \<Rightarrow> Id_unknown | Some a \<Rightarrow> as_internalConversationId a),
           il_runtimeConversationReference = ib_runtimeConversationReference ident,
           il_localMessageId = (case ib_association ident of None \<Rightarrow> Id_unknown | Some a \<Rightarrow> as_localMessageId a),
           il_messageIdentity = mapPlatformMessageIdentity (cm_platformMessageId m),
           il_evidence = mapRuntimeEvidence sid gen (ib_selected ident)\<rparr>,
         ie_kind = ''text'', ie_text = cm_content m, ie_sourceOccurredAt = occurred\<rparr>
        (cm_diagnostics m))"

subsection \<open>Type guards\<close>

definition has_own :: "json option \<Rightarrow> string \<Rightarrow> bool" where
  "has_own v k = (opt_get v k \<noteq> None)"

definition isIdentityResolution :: "(json option \<Rightarrow> bool) \<Rightarrow> json option \<Rightarrow> bool" where
  "isIdentityResolution ok v =
     (isRecord v \<and>
      (if opt_get v ''status'' = Some (JStr ''RESOLVED'') then has_own v ''value'' \<and> ok (opt_get v ''value'')
       else if opt_get v ''status'' = Some (JStr ''UNKNOWN'') \<or> opt_get v ''status'' = Some (JStr ''UNRESOLVED'')
       then \<not> has_own v ''value''
       else False))"

fun key_count :: "json option \<Rightarrow> nat" where
  "key_count (Some (JObj kvs)) = length kvs"
| "key_count _ = 0"

definition isReferenceValue :: "json option \<Rightarrow> bool" where
  "isReferenceValue v = (isRecord v \<and> nonEmptyString (opt_get v ''value'') \<and> key_count v = 1)"

definition isScopeBinding :: "json option \<Rightarrow> bool" where
  "isScopeBinding v =
     (isRecord v \<and> isIdentityResolution nonEmptyString (opt_get v ''merchantId'')
      \<and> isIdentityResolution nonEmptyString (opt_get v ''storeId'')
      \<and> isIdentityResolution nonEmptyString (opt_get v ''platformAccountId''))"

definition isMessageAssociation :: "json option \<Rightarrow> bool" where
  "isMessageAssociation v =
     (isRecord v \<and> nonEmptyString (opt_get v ''ownerRuntimeShopId'') \<and> isScopeBinding (opt_get v ''ownerScope'')
      \<and> (opt_get v ''platformCustomerId'' \<noteq> None \<longrightarrow> nonEmptyString (opt_get v ''platformCustomerId''))
      \<and> (opt_get v ''platformMessageId'' \<noteq> None \<longrightarrow> nonEmptyString (opt_get v ''platformMessageId''))
      \<and> isIdentityResolution nonEmptyString (opt_get v ''internalConversationId'')
      \<and> isIdentityResolution nonEmptyString (opt_get v ''localMessageId''))"

definition isSelectedCustomerObservation :: "json option \<Rightarrow> bool" where
  "isSelectedCustomerObservation v =
     (isRecord v \<and>
      (if opt_get v ''status'' = Some (JStr ''SELECTED'') then isReferenceValue (opt_get v ''platformCustomerId'')
       else opt_get v ''status'' = Some (JStr ''NONE'') \<or> opt_get v ''status'' = Some (JStr ''UNKNOWN'')))"

definition isIdentityBinding :: "json option \<Rightarrow> bool" where
  "isIdentityBinding v =
     (isRecord v \<and> isIdentityResolution isReferenceValue (opt_get v ''runtimeShop'')
      \<and> isIdentityResolution isReferenceValue (opt_get v ''runtimeConversationReference'')
      \<and> isScopeBinding (opt_get v ''scope'')
      \<and> (opt_get v ''association'' \<noteq> None \<longrightarrow> isMessageAssociation (opt_get v ''association''))
      \<and> (opt_get v ''selectedCustomerObservation'' \<noteq> None \<longrightarrow>
           isSelectedCustomerObservation (opt_get v ''selectedCustomerObservation'')))"

text \<open>What the code after a guard sees of the value.\<close>

definition read_resolution :: "(json option \<Rightarrow> 'a) \<Rightarrow> json option \<Rightarrow> 'a identity_resolution" where
  "read_resolution f v =
     (if opt_get v ''status'' = Some (JStr ''RESOLVED'') then Id_resolved (f (opt_get v ''value''))
      else if opt_get v ''status'' = Some (JStr ''UNKNOWN'') then Id_unknown else Id_unresolved)"

definition read_ref :: "json option \<Rightarrow> string" where
  "read_ref v = string_of (opt_get v ''value'')"

definition read_scope :: "json option \<Rightarrow> scope_binding" where
  "read_scope v = \<lparr>
     sb_merchantId = read_resolution string_of (opt_get v ''merchantId''),
     sb_storeId = read_resolution string_of (opt_get v ''storeId''),
     sb_platformAccountId = read_resolution string_of (opt_get v ''platformAccountId'')\<rparr>"

definition read_association :: "json option \<Rightarrow> message_association" where
  "read_association v = \<lparr>
     as_ownerRuntimeShopId = string_of (opt_get v ''ownerRuntimeShopId''),
     as_ownerScope = read_scope (opt_get v ''ownerScope''),
     as_platformCustomerId = as_string (opt_get v ''platformCustomerId''),
     as_platformMessageId = as_string (opt_get v ''platformMessageId''),
     as_internalConversationId = read_resolution string_of (opt_get v ''internalConversationId''),
     as_localMessageId = read_resolution string_of (opt_get v ''localMessageId'')\<rparr>"

definition read_selected :: "json option \<Rightarrow> selected_customer" where
  "read_selected v =
     (if opt_get v ''status'' = Some (JStr ''SELECTED'') then Customer_selected (read_ref (opt_get v ''platformCustomerId''))
      else if opt_get v ''status'' = Some (JStr ''NONE'') then Customer_none else Customer_unknown)"

definition read_identity :: "json option \<Rightarrow> identity_binding" where
  "read_identity v = \<lparr>
     ib_runtimeShop = read_resolution read_ref (opt_get v ''runtimeShop''),
     ib_scope = read_scope (opt_get v ''scope''),
     ib_runtimeConversationReference = read_resolution read_ref (opt_get v ''runtimeConversationReference''),
     ib_association = map_option (\<lambda>a. read_association (Some a)) (opt_get v ''association''),
     ib_selected = map_option (\<lambda>a. read_selected (Some a)) (opt_get v ''selectedCustomerObservation'')\<rparr>"

definition sameResolution :: "'a identity_resolution \<Rightarrow> 'a identity_resolution \<Rightarrow> bool" where
  "sameResolution l r = (case (l, r) of
       (Id_resolved a, Id_resolved b) \<Rightarrow> a = b
     | (Id_unknown, Id_unknown) \<Rightarrow> True
     | (Id_unresolved, Id_unresolved) \<Rightarrow> True
     | _ \<Rightarrow> False)"

definition sameScope :: "scope_binding \<Rightarrow> scope_binding \<Rightarrow> bool" where
  "sameScope l r = (sameResolution (sb_merchantId l) (sb_merchantId r) \<and> sameResolution (sb_storeId l) (sb_storeId r)
     \<and> sameResolution (sb_platformAccountId l) (sb_platformAccountId r))"

subsection \<open>The schema validator\<close>

text \<open>A validator answers or throws (\<open>None\<close>); \<open>found\<close> is what \<open>validatorFor\<close> gives, \<open>None\<close> when it throws.
  The module caches the first answer.\<close>

type_synonym envelope_validator = "inbound_envelope \<Rightarrow> bool option"

type_synonym validator_cache = "envelope_validator option option"

definition resolveDefaultCanonicalValidator ::
  "envelope_validator option \<Rightarrow> validator_cache \<Rightarrow> envelope_validator option \<times> validator_cache" where
  "resolveDefaultCanonicalValidator found cache = (case cache of Some v \<Rightarrow> (v, cache) | None \<Rightarrow> (found, Some found))"

definition validateCanonicalEnvelope ::
  "envelope_validator option \<Rightarrow> inbound_envelope \<Rightarrow> validator_cache \<Rightarrow> validator_cache \<Rightarrow> string option \<times> validator_cache" where
  "validateCanonicalEnvelope found env validator cache =
     (let (v, cache1) = (case validator of None \<Rightarrow> resolveDefaultCanonicalValidator found cache | Some v \<Rightarrow> (v, cache)) in
      ((case v of
          None \<Rightarrow> Some ''CANONICAL_VALIDATOR_UNAVAILABLE''
        | Some check \<Rightarrow>
            (case check env of
               None \<Rightarrow> Some ''CANONICAL_VALIDATOR_THREW''
             | Some True \<Rightarrow> None
             | Some False \<Rightarrow> Some ''CANONICAL_VALIDATION_FAILED'')), cache1))"

subsection \<open>Source time\<close>

definition daysInMonth :: "nat \<Rightarrow> nat \<Rightarrow> nat" where
  "daysInMonth year month =
     (if month = 2 then (if year mod 4 = 0 \<and> (year mod 100 \<noteq> 0 \<or> year mod 400 = 0) then 29 else 28)
      else if month \<in> {4, 6, 9, 11} then 30 else 31)"

definition digit_value :: "char \<Rightarrow> nat" where
  "digit_value c = of_char c - 48"

definition read_number :: "string \<Rightarrow> nat" where
  "read_number s = fold (\<lambda>c n. 10 * n + digit_value c) s 0"

text \<open>The parts of the regular expression: a group of exactly \<open>n\<close> digits, a fixed character, the
  optional fraction, and the end.\<close>

definition take_digits :: "nat \<Rightarrow> string \<Rightarrow> (nat \<times> string) option" where
  "take_digits n s = (if n \<le> length s \<and> list_all is_digit (take n s) then Some (read_number (take n s), drop n s) else None)"

definition take_char :: "char \<Rightarrow> string \<Rightarrow> string option" where
  "take_char c s = (case s of [] \<Rightarrow> None | d # r \<Rightarrow> if c = d then Some r else None)"

definition fraction_end :: "string \<Rightarrow> bool" where
  "fraction_end s = (s = ''Z'' \<or>
     list_ex (\<lambda>n. take 1 s = ''.'' \<and> length s = n + 2 \<and> list_all is_digit (take n (drop 1 s)) \<and> drop (n + 1) s = ''Z'') [1..<10])"

definition match_time :: "string \<Rightarrow> (nat \<times> nat \<times> nat \<times> nat \<times> nat \<times> nat) option" where
  "match_time s =
     Option.bind (take_digits 4 s) (\<lambda>(y, s). Option.bind (take_char (CHR ''-'') s) (\<lambda>s.
     Option.bind (take_digits 2 s) (\<lambda>(mo, s). Option.bind (take_char (CHR ''-'') s) (\<lambda>s.
     Option.bind (take_digits 2 s) (\<lambda>(d, s). Option.bind (take_char (CHR ''T'') s) (\<lambda>s.
     Option.bind (take_digits 2 s) (\<lambda>(h, s). Option.bind (take_char (CHR '':'') s) (\<lambda>s.
     Option.bind (take_digits 2 s) (\<lambda>(mi, s). Option.bind (take_char (CHR '':'') s) (\<lambda>s.
     Option.bind (take_digits 2 s) (\<lambda>(sec, s).
     if fraction_end s then Some (y, mo, d, h, mi, sec) else None)))))))))))"

definition normalizeSourceOccurredAt :: "json option \<Rightarrow> string option \<times> string list" where
  "normalizeSourceOccurredAt v =
     (if is_nullish v then (None, [''SOURCE_TIME_MISSING''])
      else case as_string v of
        None \<Rightarrow> (None, [''SOURCE_TIME_INVALID''])
      | Some s \<Rightarrow>
          (case match_time s of
             None \<Rightarrow> (None, [''SOURCE_TIME_INVALID''])
           | Some (year, month, day, hour, minute, second) \<Rightarrow>
               if year < 1 \<or> year > 9999 \<or> month < 1 \<or> month > 12 \<or> day < 1 \<or> day > daysInMonth year month
                  \<or> hour > 23 \<or> minute > 59 \<or> second > 59
               then (None, [''SOURCE_TIME_INVALID''])
               else (Some s, [])))"

subsection \<open>The ingress\<close>

datatype ingress_result =
    Ingress_mapped inbound_envelope "string list"
  | Ingress_rejected string "string list"
  | Ingress_failed string "string list"

text \<open>The resolvers: \<open>None\<close> when they throw, otherwise the value returned.\<close>

record ingress_options =
  io_document :: document_binding
  io_input :: "json option"
  io_resolveScope :: "document_binding \<Rightarrow> json option option"
  io_resolveIdentity :: "canonical_message \<Rightarrow> document_binding \<Rightarrow> json option option"
  io_canonicalValidator :: validator_cache

text \<open>The association checks, in the order of the code; \<open>None\<close> when all pass.\<close>

definition check_association :: "document_binding \<Rightarrow> scope_binding \<Rightarrow> canonical_message \<Rightarrow> message_association \<Rightarrow> string option" where
  "check_association doc authScope m a =
     (if as_ownerRuntimeShopId a \<noteq> db_shopId doc then Some ''ASSOCIATION_RUNTIME_SHOP_MISMATCH''
      else if \<not> sameScope (as_ownerScope a) authScope then Some ''ASSOCIATION_SCOPE_MISMATCH''
      else if cm_customerUid m = None \<and> as_platformCustomerId a \<noteq> None then Some ''CUSTOMER_ASSOCIATION_UNEXPECTED''
      else if cm_customerUid m = None \<and> is_resolved (as_internalConversationId a) then Some ''CONVERSATION_ASSOCIATION_UNBOUND''
      else if cm_customerUid m \<noteq> None \<and> as_platformCustomerId a \<noteq> cm_customerUid m then Some ''CUSTOMER_ASSOCIATION_MISMATCH''
      else if cm_platformMessageId m = None \<and> as_platformMessageId a \<noteq> None then Some ''MESSAGE_ASSOCIATION_UNEXPECTED''
      else if cm_platformMessageId m = None \<and> is_resolved (as_localMessageId a) then Some ''LOCAL_MESSAGE_ASSOCIATION_UNBOUND''
      else if cm_platformMessageId m \<noteq> None \<and> as_platformMessageId a \<noteq> cm_platformMessageId m then Some ''MESSAGE_ASSOCIATION_MISMATCH''
      else None)"

text \<open>From the guards on: the identity binding has been accepted.\<close>

definition ingress_map ::
  "envelope_validator option \<Rightarrow> ingress_options \<Rightarrow> canonical_message \<Rightarrow> identity_binding \<Rightarrow> validator_cache \<Rightarrow>
   ingress_result \<times> validator_cache" where
  "ingress_map found opts m ident cache =
     (let (time, tds) = normalizeSourceOccurredAt (opt_get (io_input opts) ''sourceOccurredAt'') in
      case mapPddInboundToCanonical m ident (db_sessionId (io_document opts)) (db_documentGeneration (io_document opts)) time of
        Map_rejected r ds \<Rightarrow> (Ingress_rejected r (cm_diagnostics m @ tds @ ds), cache)
      | Map_mapped env ds \<Rightarrow>
          let (bad, cache1) = validateCanonicalEnvelope found env (io_canonicalValidator opts) cache in
          case bad of
            Some r \<Rightarrow> (Ingress_failed r (cm_diagnostics m @ tds @ ds), cache1)
          | None \<Rightarrow> (Ingress_mapped env (cm_diagnostics m @ tds @ ds), cache1))"

definition ingress_identity ::
  "envelope_validator option \<Rightarrow> ingress_options \<Rightarrow> canonical_message \<Rightarrow> scope_binding \<Rightarrow> json option \<Rightarrow> validator_cache \<Rightarrow>
   ingress_result \<times> validator_cache" where
  "ingress_identity found opts m authScope v cache =
     (let doc = io_document opts; ds = cm_diagnostics m; ident = read_identity v in
      if v = Some JNull then (Ingress_rejected ''IDENTITY_BINDING_MISSING'' ds, cache)
      else if \<not> isIdentityBinding v then (Ingress_rejected ''MALFORMED_IDENTITY_BINDING'' ds, cache)
      else if ib_runtimeShop ident \<noteq> Id_resolved (db_shopId doc) then (Ingress_rejected ''RUNTIME_SHOP_MISMATCH'' ds, cache)
      else if \<not> sameScope (ib_scope ident) authScope then (Ingress_rejected ''CANONICAL_SCOPE_MISMATCH'' ds, cache)
      else case Option.bind (ib_association ident) (check_association doc authScope m) of
          Some r \<Rightarrow> (Ingress_rejected r ds, cache)
        | None \<Rightarrow> ingress_map found opts m ident cache)"

definition processPddInboundIngress ::
  "envelope_validator option \<Rightarrow> ingress_options \<Rightarrow> validator_cache \<Rightarrow> ingress_result \<times> validator_cache" where
  "processPddInboundIngress found opts cache =
     (if \<not> isRecord (io_input opts) \<or> \<not> has_own (io_input opts) ''payload'' then (Ingress_rejected ''MALFORMED_INGRESS_INPUT'' [], cache)
      else case normalizePddInboundForCanonical (opt_get (io_input opts) ''payload'') of
        Canon_rejected r ds \<Rightarrow> (Ingress_rejected r ds, cache)
      | Canon_accepted m \<Rightarrow>
          (case io_resolveScope opts (io_document opts) of
             None \<Rightarrow> (Ingress_failed ''SCOPE_BINDING_RESOLVER_THREW'' (cm_diagnostics m), cache)
           | Some sv \<Rightarrow>
               if \<not> isScopeBinding sv then (Ingress_failed ''MALFORMED_SCOPE_BINDING'' (cm_diagnostics m), cache)
               else case io_resolveIdentity opts m (io_document opts) of
                   None \<Rightarrow> (Ingress_failed ''IDENTITY_BINDING_RESOLVER_THREW'' (cm_diagnostics m), cache)
                 | Some v \<Rightarrow> ingress_identity found opts m (read_scope sv) v cache))"

end
