(* ===== verification/Pdd_Session.thy ===== *)
theory Pdd_Session imports Inbound_Ingress begin

text \<open>
  The PDD session of a shop: the state machine of \<open>packages/platform-pdd/src/session-state.ts\<close> and its host
  \<open>apps/desktop/src/main/platforms/pdd/pdd-session-host.ts\<close>, which owns the view, counts document generations and
  hands out the contexts under which inbound data is accepted. Views and web contents are their
  identities; whether web contents are destroyed is the argument \<open>live\<close>. Loading a page is cut at its await:
  \<open>createAndLoad\<close> and \<open>reload\<close> have a part before it and a part for each outcome. A context is an object whose
  identity is a fresh number. The event hook and the start of the page observer are recorded in the state.
\<close>

subsection \<open>The session state\<close>

datatype session_status =
    Session_stopped | Session_creating | Session_loading | Session_login_required | Session_ready
  | Session_dom_unsupported | Session_auth_reauth | Session_error | Session_disposed

fun LEGAL_SESSION_TRANSITIONS :: "session_status \<Rightarrow> session_status list" where
  "LEGAL_SESSION_TRANSITIONS Session_stopped =
     [Session_stopped, Session_creating, Session_auth_reauth, Session_error, Session_disposed]"
| "LEGAL_SESSION_TRANSITIONS Session_creating =
     [Session_creating, Session_loading, Session_login_required, Session_ready, Session_dom_unsupported, Session_auth_reauth,
      Session_error, Session_disposed]"
| "LEGAL_SESSION_TRANSITIONS Session_loading =
     [Session_loading, Session_ready, Session_login_required, Session_dom_unsupported, Session_auth_reauth, Session_error, Session_disposed]"
| "LEGAL_SESSION_TRANSITIONS Session_login_required =
     [Session_login_required, Session_ready, Session_dom_unsupported, Session_auth_reauth, Session_error, Session_disposed]"
| "LEGAL_SESSION_TRANSITIONS Session_ready = [Session_ready, Session_loading, Session_auth_reauth, Session_error, Session_disposed]"
| "LEGAL_SESSION_TRANSITIONS Session_dom_unsupported =
     [Session_dom_unsupported, Session_loading, Session_auth_reauth, Session_error, Session_disposed]"
| "LEGAL_SESSION_TRANSITIONS Session_auth_reauth = [Session_auth_reauth, Session_loading, Session_error, Session_disposed]"
| "LEGAL_SESSION_TRANSITIONS Session_error = [Session_error, Session_loading, Session_auth_reauth, Session_disposed]"
| "LEGAL_SESSION_TRANSITIONS Session_disposed = [Session_disposed]"

record session_state =
  ss_shopId :: string
  ss_sessionId :: string
  ss_status :: session_status
  ss_lastError :: "string option"
  ss_activeConversationId :: "string option"
  ss_buyerId :: "string option"
  ss_selected :: "selected_customer option"

definition clearSelectedCustomerObservation :: "session_state \<Rightarrow> session_state" where
  "clearSelectedCustomerObservation s = s\<lparr>ss_selected := None\<rparr>"

text \<open>The states in which the observation is cleared and suppressed.\<close>

definition suppressed :: "session_status \<Rightarrow> bool" where
  "suppressed st = (st \<in> {Session_login_required, Session_dom_unsupported, Session_auth_reauth, Session_disposed})"

text \<open>\<open>PddSessionTransitionError\<close> carries both states.\<close>

definition setStatus :: "session_status \<Rightarrow> string option \<Rightarrow> session_state \<Rightarrow> (session_status \<times> session_status) + session_state" where
  "setStatus nxt err s =
     (if nxt \<notin> set (LEGAL_SESSION_TRANSITIONS (ss_status s)) then Inl (ss_status s, nxt)
      else
        let s1 = s\<lparr>ss_status := nxt\<rparr>;
            s2 = (if suppressed nxt then clearSelectedCustomerObservation s1 else s1) in
        Inr (if nxt = Session_auth_reauth then s2\<lparr>ss_lastError := None\<rparr>
             else case err of Some e \<Rightarrow> s2\<lparr>ss_lastError := Some (take 200 e)\<rparr> | None \<Rightarrow> s2))"

definition setConversation :: "string \<Rightarrow> string option \<Rightarrow> session_state \<Rightarrow> session_state" where
  "setConversation c b s = s\<lparr>ss_activeConversationId := Some c, ss_buyerId := b\<rparr>"

definition getSelectedCustomerUid :: "session_state \<Rightarrow> string option" where
  "getSelectedCustomerUid s = (case ss_selected s of Some (Customer_selected u) \<Rightarrow> Some u | _ \<Rightarrow> None)"

record session_view =
  sv_shop_id :: string
  sv_session_id :: string
  sv_status :: session_status
  sv_last_error :: "string option"
  sv_active_conversation_id :: "string option"
  sv_buyer_id :: "string option"

definition session_view_of :: "session_state \<Rightarrow> session_view" where
  "session_view_of s = \<lparr>sv_shop_id = ss_shopId s, sv_session_id = ss_sessionId s, sv_status = ss_status s, sv_last_error = ss_lastError s,
     sv_active_conversation_id = ss_activeConversationId s, sv_buyer_id = ss_buyerId s\<rparr>"

subsection \<open>Page events\<close>

datatype page_event_type =
    Page_ready | Login_required | Dom_unsupported | Auth_reauth_required | Conversation_changed | Message_received
  | Human_reply_detected | Send_ack | Transfer_ack | Selected_customer_observed | Other_event string

record page_event =
  pe_event :: page_event_type
  pe_session_id :: string
  pe_document_generation :: "int option"
  pe_shop_id :: "string option"
  pe_conversation_id :: "string option"
  pe_buyer_id :: "string option"
  pe_buyer :: "string option"
  pe_platform_message_id :: "string option"
  pe_message_type :: "string option"
  pe_direction :: "string option"
  pe_content :: "string option"
  pe_timestamp :: "string option"
  pe_command_id :: "string option"
  pe_ok :: "bool option"
  pe_reason :: "string option"
  pe_status :: "string option"
  pe_error :: "string option"
  pe_selected :: selected_customer

subsection \<open>The host\<close>

record pdd_view =
  pv_id :: nat
  pv_webContents :: nat

record context_record =
  cx_view :: pdd_view
  cx_sender :: nat
  cx_documentGeneration :: int

record session_host =
  sh_state :: session_state
  sh_view :: "pdd_view option"
  sh_documentGeneration :: int
  sh_activeDocumentGeneration :: "int option"
  sh_startedDocumentGeneration :: "int option"
  sh_fixtureDocumentGeneration :: "int option"
  sh_awaitingExplicitNavigationStart :: bool
  sh_contexts :: "(nat \<times> context_record) list"
  sh_hooked :: "page_event list"
  sh_observations :: "int list"

definition new_host :: "string \<Rightarrow> session_host" where
  "new_host shop = \<lparr>sh_state = \<lparr>ss_shopId = shop, ss_sessionId = ''pdd-session-'' @ shop, ss_status = Session_stopped, ss_lastError = None,
       ss_activeConversationId = None, ss_buyerId = None, ss_selected = None\<rparr>,
     sh_view = None, sh_documentGeneration = 0, sh_activeDocumentGeneration = None, sh_startedDocumentGeneration = None,
     sh_fixtureDocumentGeneration = None, sh_awaitingExplicitNavigationStart = False, sh_contexts = [], sh_hooked = [], sh_observations = []\<rparr>"

abbreviation host_status :: "session_host \<Rightarrow> session_status" where
  "host_status h \<equiv> ss_status (sh_state h)"

text \<open>A \<open>setStatus\<close> that throws leaves the state unchanged.\<close>

definition host_setStatus :: "session_status \<Rightarrow> string option \<Rightarrow> session_host \<Rightarrow> bool \<times> session_host" where
  "host_setStatus nxt err h = (case setStatus nxt err (sh_state h) of
       Inl _ \<Rightarrow> (False, h)
     | Inr s \<Rightarrow> (True, h\<lparr>sh_state := s\<rparr>))"

definition failClosed :: "string \<Rightarrow> session_host \<Rightarrow> session_host" where
  "failClosed reason h = (if host_status h = Session_disposed \<or> host_status h = Session_auth_reauth then h
     else snd (host_setStatus Session_error (Some reason) h))"

text \<open>\<open>False\<close> when the transition to loading throws; the observation is cleared by then.\<close>

definition beginDocumentLifecycle :: "bool \<Rightarrow> session_host \<Rightarrow> bool \<times> session_host" where
  "beginDocumentLifecycle allowLegacy h =
     (let h1 = h\<lparr>sh_state := clearSelectedCustomerObservation (sh_state h)\<rparr>;
          (ok, h2) = (if host_status h1 \<noteq> Session_loading then host_setStatus Session_loading None h1 else (True, h1)) in
      if \<not> ok then (False, h2)
      else
        let g = sh_documentGeneration h2 + 1 in
        (True, h2\<lparr>sh_documentGeneration := g, sh_activeDocumentGeneration := Some g, sh_startedDocumentGeneration := None,
                  sh_fixtureDocumentGeneration := (if allowLegacy then Some g else None)\<rparr>))"

text \<open>\<open>view\<close> is what \<open>makeView\<close> returns, \<open>None\<close> when it throws; the result says whether the call goes on to await
  the load.\<close>

definition createAndLoad :: "pdd_view option \<Rightarrow> bool \<Rightarrow> session_host \<Rightarrow> bool \<times> session_host" where
  "createAndLoad view fixture h =
     (let (ok, h1) = host_setStatus Session_creating None h in
      if \<not> ok then (False, h1)
      else case view of
          None \<Rightarrow> (False, failClosed ''SESSION_CREATE_OR_LOAD_FAILED'' h1)
        | Some v \<Rightarrow>
            let h2 = h1\<lparr>sh_view := Some v\<rparr> in
            if \<not> fixture then (True, h2)
            else
              let (ok2, h3) = beginDocumentLifecycle True h2 in
              if ok2 then (True, h3\<lparr>sh_awaitingExplicitNavigationStart := True\<rparr>)
              else (False, failClosed ''SESSION_CREATE_OR_LOAD_FAILED'' h3))"

definition create_settled :: "bool \<Rightarrow> session_host \<Rightarrow> session_host" where
  "create_settled ok h = (if ok then h\<lparr>sh_awaitingExplicitNavigationStart := False\<rparr> else failClosed ''SESSION_CREATE_OR_LOAD_FAILED'' h)"

definition reload_session :: "bool \<Rightarrow> session_host \<Rightarrow> bool \<times> session_host" where
  "reload_session fixture h =
     (if fixture \<and> sh_view h \<noteq> None
      then let (ok, h1) = beginDocumentLifecycle True h in
           if ok then (True, h1\<lparr>sh_awaitingExplicitNavigationStart := True\<rparr>) else (False, h1)
      else (False, h))"

definition reload_settled :: "bool \<Rightarrow> session_host \<Rightarrow> session_host" where
  "reload_settled ok h = (let h1 = h\<lparr>sh_awaitingExplicitNavigationStart := False\<rparr> in if ok then h1 else failClosed ''SESSION_RELOAD_FAILED'' h1)"

definition acceptsCurrentDocument :: "page_event \<Rightarrow> session_host \<Rightarrow> bool" where
  "acceptsCurrentDocument ev h =
     (if sh_activeDocumentGeneration h = None then True
      else case pe_document_generation ev of
          Some g \<Rightarrow> Some g = sh_activeDocumentGeneration h
        | None \<Rightarrow> sh_fixtureDocumentGeneration h = sh_activeDocumentGeneration h \<and> sh_startedDocumentGeneration h = None)"

definition isFreshDocumentEvent :: "page_event \<Rightarrow> session_host \<Rightarrow> bool" where
  "isFreshDocumentEvent ev h = (sh_activeDocumentGeneration h \<noteq> None \<and> pe_document_generation ev \<noteq> None
     \<and> pe_document_generation ev = sh_activeDocumentGeneration h)"

definition hook :: "page_event \<Rightarrow> session_host \<Rightarrow> session_host" where
  "hook ev h = h\<lparr>sh_hooked := sh_hooked h @ [ev]\<rparr>"

text \<open>The transition a session event asks for; an illegal one is caught and fails closed.\<close>

definition event_status :: "page_event \<Rightarrow> session_host \<Rightarrow> bool \<times> session_host" where
  "event_status ev h =
     (if pe_event ev = Auth_reauth_required then host_setStatus Session_auth_reauth None h
      else if host_status h = Session_auth_reauth \<and> \<not> isFreshDocumentEvent ev h
              \<and> pe_event ev \<in> {Page_ready, Login_required, Dom_unsupported} then (True, h)
      else if pe_event ev = Page_ready then host_setStatus Session_ready None h
      else if pe_event ev = Login_required then host_setStatus Session_login_required None h
      else if pe_event ev = Dom_unsupported
      then host_setStatus Session_dom_unsupported (Some (case pe_reason ev of Some r \<Rightarrow> r | None \<Rightarrow> ''DOM_UNSUPPORTED'')) h
      else if pe_event ev = Conversation_changed
      then (case pe_conversation_id ev of
              Some c \<Rightarrow> (True, if c \<noteq> [] then h\<lparr>sh_state := setConversation c (pe_buyer_id ev) (sh_state h)\<rparr> else h)
            | None \<Rightarrow> (True, h))
      else (True, h))"

definition is_other :: "page_event_type \<Rightarrow> bool" where
  "is_other t = (case t of Other_event _ \<Rightarrow> True | _ \<Rightarrow> False)"

definition handleEvent :: "page_event \<Rightarrow> session_host \<Rightarrow> session_host" where
  "handleEvent ev h =
     (if pe_session_id ev \<noteq> ss_sessionId (sh_state h) then h
      else if \<not> acceptsCurrentDocument ev h then h
      else if pe_event ev = Selected_customer_observed
      then (if pe_shop_id ev \<noteq> Some (ss_shopId (sh_state h)) \<or> suppressed (host_status h) then h
            else hook ev (h\<lparr>sh_state := (sh_state h)\<lparr>ss_selected := Some (pe_selected ev)\<rparr>\<rparr>))
      else if is_other (pe_event ev) then hook ev (failClosed ''UNSUPPORTED_SESSION_EVENT'' h)
      else let (ok, h1) = event_status ev h in hook ev (if ok then h1 else failClosed ''ILLEGAL_SESSION_EVENT'' h1))"

definition getCurrentInboundDocumentBinding :: "session_host \<Rightarrow> document_binding option" where
  "getCurrentInboundDocumentBinding h = (case (sh_view h, sh_activeDocumentGeneration h) of
       (Some _, Some g) \<Rightarrow> Some \<lparr>db_sessionId = ss_sessionId (sh_state h), db_shopId = ss_shopId (sh_state h), db_documentGeneration = g\<rparr>
     | _ \<Rightarrow> None)"

definition matchesInboundDocumentBinding :: "document_binding \<Rightarrow> session_host \<Rightarrow> bool" where
  "matchesInboundDocumentBinding b h = (getCurrentInboundDocumentBinding h = Some b)"

definition inbound_blocked :: "session_status \<Rightarrow> bool" where
  "inbound_blocked st = (st \<in> {Session_login_required, Session_auth_reauth, Session_dom_unsupported, Session_error, Session_disposed, Session_stopped})"

text \<open>\<open>admissible\<close> is the status test: \<open>READY\<close> for the legacy context, neither blocked nor creating for the
  canonical one.\<close>

definition legacy_status :: "session_status \<Rightarrow> bool" where
  "legacy_status st = (st = Session_ready)"

definition canonical_status :: "session_status \<Rightarrow> bool" where
  "canonical_status st = (\<not> inbound_blocked st \<and> st \<noteq> Session_creating)"

definition create_context ::
  "(session_status \<Rightarrow> bool) \<Rightarrow> (nat \<Rightarrow> bool) \<Rightarrow> nat option \<Rightarrow> nat \<Rightarrow> session_host \<Rightarrow> nat option \<times> session_host" where
  "create_context admissible live sender ctx h =
     (case (sender, sh_view h, sh_activeDocumentGeneration h) of
        (Some wc, Some v, Some g) \<Rightarrow>
          if pv_webContents v \<noteq> wc \<or> \<not> admissible (host_status h) \<or> \<not> live (pv_webContents v) then (None, h)
          else (Some ctx, h\<lparr>sh_contexts := map_set ctx \<lparr>cx_view = v, cx_sender = wc, cx_documentGeneration = g\<rparr> (sh_contexts h)\<rparr>)
      | _ \<Rightarrow> (None, h))"

definition createInboundIngressContext :: "(nat \<Rightarrow> bool) \<Rightarrow> nat option \<Rightarrow> nat \<Rightarrow> session_host \<Rightarrow> nat option \<times> session_host" where
  "createInboundIngressContext = create_context legacy_status"

definition createCanonicalInboundIngressContext :: "(nat \<Rightarrow> bool) \<Rightarrow> nat option \<Rightarrow> nat \<Rightarrow> session_host \<Rightarrow> nat option \<times> session_host" where
  "createCanonicalInboundIngressContext = create_context canonical_status"

definition resolve_context ::
  "(session_status \<Rightarrow> bool) \<Rightarrow> (nat \<Rightarrow> bool) \<Rightarrow> nat option \<Rightarrow> nat option \<Rightarrow> session_host \<Rightarrow> document_binding option" where
  "resolve_context admissible live ctx sender h =
     (case (sender, Option.bind ctx (map_of (sh_contexts h)), sh_view h) of
        (Some wc, Some r, Some v) \<Rightarrow>
          if cx_sender r \<noteq> wc \<or> cx_view r \<noteq> v \<or> \<not> admissible (host_status h) \<or> \<not> live (pv_webContents v)
             \<or> sh_activeDocumentGeneration h \<noteq> Some (cx_documentGeneration r)
          then None
          else Some \<lparr>db_sessionId = ss_sessionId (sh_state h), db_shopId = ss_shopId (sh_state h),
                     db_documentGeneration = cx_documentGeneration r\<rparr>
      | _ \<Rightarrow> None)"

definition resolveInboundIngressBinding ::
  "(nat \<Rightarrow> bool) \<Rightarrow> nat option \<Rightarrow> nat option \<Rightarrow> session_host \<Rightarrow> document_binding option" where
  "resolveInboundIngressBinding = resolve_context legacy_status"

definition resolveCanonicalInboundIngressBinding ::
  "(nat \<Rightarrow> bool) \<Rightarrow> nat option \<Rightarrow> nat option \<Rightarrow> session_host \<Rightarrow> document_binding option" where
  "resolveCanonicalInboundIngressBinding = resolve_context canonical_status"

definition resolveActiveCanonicalDocumentBinding :: "(nat \<Rightarrow> bool) \<Rightarrow> session_host \<Rightarrow> document_binding option" where
  "resolveActiveCanonicalDocumentBinding live h = (case sh_view h of
       None \<Rightarrow> None
     | Some v \<Rightarrow> if \<not> live (pv_webContents v) \<or> \<not> canonical_status (host_status h) then None else getCurrentInboundDocumentBinding h)"

definition dispose_session :: "session_host \<Rightarrow> session_host" where
  "dispose_session h = snd (host_setStatus Session_disposed None
     (h\<lparr>sh_view := None, sh_state := clearSelectedCustomerObservation (sh_state h)\<rparr>))"

definition onMainFrameNavigationStart :: "session_host \<Rightarrow> session_host" where
  "onMainFrameNavigationStart h =
     (if sh_awaitingExplicitNavigationStart h then h\<lparr>sh_awaitingExplicitNavigationStart := False\<rparr>
      else if host_status h \<in> {Session_creating, Session_loading, Session_ready, Session_dom_unsupported, Session_auth_reauth, Session_error}
      then snd (beginDocumentLifecycle False h) else h)"

definition onMainFrameDomReady :: "session_host \<Rightarrow> session_host" where
  "onMainFrameDomReady h =
     (case (sh_view h, sh_activeDocumentGeneration h) of
        (Some _, Some g) \<Rightarrow>
          if sh_startedDocumentGeneration h = Some g then h
          else h\<lparr>sh_startedDocumentGeneration := Some g, sh_observations := sh_observations h @ [g]\<rparr>
      | _ \<Rightarrow> h)"

definition onMainFrameLoadFailure :: "session_host \<Rightarrow> session_host" where
  "onMainFrameLoadFailure h = (if host_status h = Session_loading then failClosed ''SESSION_DOCUMENT_LOAD_FAILED'' h else h)"

datatype host_event =
    Host_create "pdd_view option" bool
  | Host_create_settled bool
  | Host_reload bool
  | Host_reload_settled bool
  | Host_page page_event
  | Host_context bool "nat \<Rightarrow> bool" "nat option" nat
  | Host_navigation_start
  | Host_dom_ready
  | Host_load_failure
  | Host_dispose

fun host_step :: "host_event \<Rightarrow> session_host \<Rightarrow> session_host" where
  "host_step (Host_create v fixture) h = snd (createAndLoad v fixture h)"
| "host_step (Host_create_settled ok) h = create_settled ok h"
| "host_step (Host_reload fixture) h = snd (reload_session fixture h)"
| "host_step (Host_reload_settled ok) h = reload_settled ok h"
| "host_step (Host_page ev) h = handleEvent ev h"
| "host_step (Host_context canon live sender ctx) h =
     snd (if canon then createCanonicalInboundIngressContext live sender ctx h else createInboundIngressContext live sender ctx h)"
| "host_step Host_navigation_start h = onMainFrameNavigationStart h"
| "host_step Host_dom_ready h = onMainFrameDomReady h"
| "host_step Host_load_failure h = onMainFrameLoadFailure h"
| "host_step Host_dispose h = dispose_session h"

end
