(* ===== verification/Pdd_Dom.thy ===== *)
theory Pdd_Dom imports Pdd_Session begin

text \<open>
  The page side of the PDD platform, below its runtime: the selector profile
  (\<open>packages/platform-pdd/src/selector-profile.ts\<close>), the DOM readers and drivers (\<open>src/dom/*.ts\<close>), the re-authentication
  detector (\<open>src/page/auth-reauth-detector.ts\<close>) and the command handler (\<open>src/page/command-handler.ts\<close>). A document is a tree of
  elements with attributes and text; which selector matches which element is the browser's, the argument
  \<open>matches\<close>. Setting an attribute, the input events and a click are recorded in \<open>pg_actions\<close>, and the page's own
  reaction to them is the argument \<open>react\<close>. Text that the source writes in Chinese is given by its UTF-8 bytes;
  the code only compares it.
\<close>

subsection \<open>Documents\<close>

datatype dom_element = Elem (el_attributes: "(string \<times> string) list") (el_text: "string option") (el_children: "dom_element list")

record dom_document =
  dd_elements :: "dom_element list"
  dd_body :: bool
  dd_location :: "(string \<times> string) option"

type_synonym matcher = "string \<Rightarrow> dom_element \<Rightarrow> bool"

definition getAttribute :: "string \<Rightarrow> dom_element \<Rightarrow> string option" where
  "getAttribute k e = map_of (el_attributes e) k"

text \<open>Document order, the element itself first.\<close>

fun subtree :: "dom_element \<Rightarrow> dom_element list" where
  "subtree (Elem a t cs) = Elem a t cs # concat (map subtree cs)"

definition querySelectorAll :: "matcher \<Rightarrow> string \<Rightarrow> dom_element list \<Rightarrow> dom_element list" where
  "querySelectorAll matches sel roots = filter (matches sel) (concat (map subtree roots))"

definition querySelector :: "matcher \<Rightarrow> string \<Rightarrow> dom_element list \<Rightarrow> dom_element option" where
  "querySelector matches sel roots = (case querySelectorAll matches sel roots of [] \<Rightarrow> None | e # _ \<Rightarrow> Some e)"

text \<open>\<open>element?.textContent?.trim()\<close>.\<close>

definition trimmed_text :: "dom_element option \<Rightarrow> string option" where
  "trimmed_text e = map_option js_trim (Option.bind e el_text)"

definition non_empty :: "string option \<Rightarrow> string option" where
  "non_empty v = (if v = Some [] then None else v)"

subsection \<open>Selector profile\<close>

record selector_entry =
  se_key :: string
  se_primary :: string
  se_fallbacks :: "string list"
  se_required :: bool
  se_provenance :: string

definition entry :: "string \<Rightarrow> string \<Rightarrow> bool \<Rightarrow> string \<Rightarrow> selector_entry" where
  "entry key primary required provenance =
     \<lparr>se_key = key, se_primary = primary, se_fallbacks = [], se_required = required, se_provenance = provenance\<rparr>"

definition PDD_SELECTOR_PROFILE :: "selector_entry list" where
  "PDD_SELECTOR_PROFILE = [
     entry ''chat.list'' ''[data-fw-pdd-chat-list]'' True ''DESIGN'',
     entry ''conversation.item'' ''[data-fw-pdd-conversation]'' True ''DESIGN'',
     entry ''conversation.active'' ''[data-fw-pdd-conversation][data-active='true']'' True ''DESIGN'',
     entry ''messages.container'' ''[data-fw-pdd-messages]'' True ''DESIGN'',
     entry ''message.row'' ''[data-fw-pdd-message]'' True ''DESIGN'',
     (entry ''message.buyer'' ''[data-fw-pdd-buyer-name]'' False ''DESIGN'')\<lparr>se_fallbacks := [''[data-fw-pdd-buyer]'']\<rparr>,
     entry ''message.content'' ''[data-fw-pdd-msg-content]'' True ''DESIGN'',
     entry ''message.unread-badge'' ''[data-fw-pdd-unread]'' False ''PARTIAL'',
     entry ''composer.input'' ''[data-fw-pdd-composer-input]'' True ''DESIGN'',
     entry ''composer.send'' ''[data-fw-pdd-send-btn]'' True ''DESIGN'',
     entry ''composer.disabled'' ''[data-fw-pdd-send-disabled]'' False ''DESIGN'',
     entry ''composer.image-input'' ''[data-fw-pdd-image-input]'' False ''DESIGN'',
     entry ''transfer.open'' ''[data-fw-pdd-transfer-open]'' False ''PARTIAL'',
     entry ''transfer.target-list'' ''[data-fw-pdd-transfer-targets]'' False ''PARTIAL'',
     entry ''transfer.target-item'' ''[data-fw-pdd-transfer-target]'' False ''PARTIAL'',
     entry ''transfer.confirm'' ''[data-fw-pdd-transfer-confirm]'' False ''PARTIAL'',
     entry ''login.required'' ''[data-fw-pdd-login]'' False ''DESIGN'',
     entry ''product.context'' ''[data-fw-pdd-product]'' False ''PARTIAL'',
     entry ''order.context'' ''[data-fw-pdd-order]'' False ''PARTIAL'']"

definition selector :: "selector_entry list \<Rightarrow> string \<Rightarrow> selector_entry option" where
  "selector profile key = find (\<lambda>e. se_key e = key) profile"

definition requiredSelectors :: "selector_entry list \<Rightarrow> selector_entry list" where
  "requiredSelectors profile = filter se_required profile"

subsection \<open>Health\<close>

datatype dom_health = Dom_ready "string list" | Dom_not_ready string "string list"

text \<open>The primary selector, then the fallbacks in order.\<close>

definition find_entry :: "matcher \<Rightarrow> dom_document \<Rightarrow> selector_entry \<Rightarrow> dom_element option" where
  "find_entry matches doc e =
     (case querySelector matches (se_primary e) (dd_elements doc) of
        Some x \<Rightarrow> Some x
      | None \<Rightarrow> Option.bind (find (\<lambda>x. x \<noteq> None) (map (\<lambda>f. querySelector matches f (dd_elements doc)) (se_fallbacks e))) (\<lambda>x. x))"

definition domHealth :: "matcher \<Rightarrow> dom_document \<Rightarrow> selector_entry list \<Rightarrow> dom_health" where
  "domHealth matches doc profile =
     (let found = (\<lambda>e. find_entry matches doc e \<noteq> None);
          missing = map se_key (filter (\<lambda>e. \<not> found e) (requiredSelectors profile)) in
      if missing \<noteq> [] then Dom_not_ready ''DOM_UNSUPPORTED'' missing
      else Dom_ready (map se_key (filter found (requiredSelectors profile))))"

definition health_ready :: "dom_health \<Rightarrow> bool" where
  "health_ready h = (case h of Dom_ready _ \<Rightarrow> True | Dom_not_ready _ _ \<Rightarrow> False)"

definition health_reason :: "dom_health \<Rightarrow> string" where
  "health_reason h = (case h of Dom_ready _ \<Rightarrow> [] | Dom_not_ready r _ \<Rightarrow> r)"

subsection \<open>Readers\<close>

record raw_message =
  rm_unread :: bool
  rm_direction :: "string option"
  rm_buyer :: "string option"
  rm_content :: string
  rm_platform_message_id :: "string option"
  rm_timestamp :: "string option"
  rm_product_context :: "string option"
  rm_order_context :: "string option"

definition readContextBlock :: "matcher \<Rightarrow> dom_document \<Rightarrow> selector_entry list \<Rightarrow> string \<Rightarrow> string option" where
  "readContextBlock matches doc profile key = (case selector profile key of
       None \<Rightarrow> None
     | Some e \<Rightarrow> (case querySelector matches (se_primary e) (dd_elements doc) of
           None \<Rightarrow> None
         | Some node \<Rightarrow> Some (case trimmed_text (Some node) of Some s \<Rightarrow> take 200 s | None \<Rightarrow> [])))"

definition read_row :: "matcher \<Rightarrow> dom_document \<Rightarrow> selector_entry list \<Rightarrow> selector_entry \<Rightarrow> dom_element \<Rightarrow> raw_message option" where
  "read_row matches doc profile contentSel row =
     (let contentEl = (if se_primary contentSel \<noteq> [] then querySelector matches (se_primary contentSel) (el_children row) else None);
          content = (case trimmed_text contentEl of Some s \<Rightarrow> s | None \<Rightarrow> []);
          dir = getAttribute ''data-direction'' row in
      if content = [] then None
      else Some \<lparr>
        rm_unread = (getAttribute ''data-unread'' row = Some ''true''),
        rm_direction = (if dir = Some ''outbound'' \<or> dir = Some ''inbound'' then dir else None),
        rm_buyer = (case selector profile ''message.buyer'' of
            Some b \<Rightarrow> if se_primary b \<noteq> [] then non_empty (trimmed_text (querySelector matches (se_primary b) (el_children row))) else None
          | None \<Rightarrow> None),
        rm_content = content,
        rm_platform_message_id = getAttribute ''data-message-id'' row,
        rm_timestamp = getAttribute ''data-ts'' row,
        rm_product_context = readContextBlock matches doc profile ''product.context'',
        rm_order_context = readContextBlock matches doc profile ''order.context''\<rparr>)"

definition readMessages :: "matcher \<Rightarrow> dom_document \<Rightarrow> selector_entry list \<Rightarrow> raw_message list" where
  "readMessages matches doc profile = (case (selector profile ''message.row'', selector profile ''message.content'') of
       (Some rowSel, Some contentSel) \<Rightarrow>
         List.map_filter (read_row matches doc profile contentSel) (querySelectorAll matches (se_primary rowSel) (dd_elements doc))
     | _ \<Rightarrow> [])"

record conversation_read =
  cv_conversation_id :: "string option"
  cv_buyer_id :: "string option"
  cv_buyer :: "string option"

definition no_conversation :: conversation_read where
  "no_conversation = \<lparr>cv_conversation_id = None, cv_buyer_id = None, cv_buyer = None\<rparr>"

definition readConversation :: "matcher \<Rightarrow> dom_document \<Rightarrow> selector_entry list \<Rightarrow> conversation_read" where
  "readConversation matches doc profile =
     (case (case selector profile ''conversation.active'' of Some e \<Rightarrow> Some e | None \<Rightarrow> selector profile ''conversation.item'') of
        None \<Rightarrow> no_conversation
      | Some itemSel \<Rightarrow>
          (case (case querySelector matches (se_primary itemSel) (dd_elements doc) of
                   Some x \<Rightarrow> Some x
                 | None \<Rightarrow> (case se_fallbacks itemSel of [] \<Rightarrow> None | f # _ \<Rightarrow> querySelector matches f (dd_elements doc))) of
             None \<Rightarrow> no_conversation
           | Some active \<Rightarrow>
               \<lparr>cv_conversation_id = getAttribute ''data-conversation-id'' active,
                cv_buyer_id = getAttribute ''data-buyer-id'' active,
                cv_buyer = non_empty (trimmed_text (querySelector matches
                  (case selector profile ''message.buyer'' of Some b \<Rightarrow> se_primary b | None \<Rightarrow> ''[data-fw-pdd-buyer-name]'') (dd_elements doc)))\<rparr>))"

definition listConversations :: "matcher \<Rightarrow> dom_document \<Rightarrow> selector_entry list \<Rightarrow> (string \<times> bool \<times> string option) list" where
  "listConversations matches doc profile = (case selector profile ''conversation.item'' of
       None \<Rightarrow> []
     | Some itemSel \<Rightarrow> List.map_filter
         (\<lambda>node. case non_empty (getAttribute ''data-conversation-id'' node) of
            None \<Rightarrow> None
          | Some i \<Rightarrow> Some (i, getAttribute ''data-active'' node = Some ''true'', getAttribute ''data-buyer'' node))
         (querySelectorAll matches (se_primary itemSel) (dd_elements doc)))"

text \<open>The selected customer: the class tokens of a row, and the pattern \<open>/^(\d+)-\d+-all$/\<close>.\<close>

fun class_tokens :: "string \<Rightarrow> string \<Rightarrow> string list" where
  "class_tokens acc [] = [acc]"
| "class_tokens acc (c # s) = (if is_ws c then acc # class_tokens [] s else class_tokens (acc @ [c]) s)"

definition hasClassToken :: "dom_element \<Rightarrow> string \<Rightarrow> bool" where
  "hasClassToken e token = (token \<in> set (filter (\<lambda>t. t \<noteq> [])
     (class_tokens [] (case getAttribute ''class'' e of Some c \<Rightarrow> c | None \<Rightarrow> []))))"

definition LIVE_CHAT_ROW_SELECTOR :: string where
  "LIVE_CHAT_ROW_SELECTOR = ''div.chat-item-box[data-random$='' @ [char_of (34 :: nat)] @ ''-all'' @ [char_of (34 :: nat)] @ '']''"

definition match_customer_uid :: "string \<Rightarrow> string option" where
  "match_customer_uid s =
     (let u = takeWhile is_digit s; r = dropWhile is_digit s in
      if u \<noteq> [] \<and> take 1 r = ''-'' \<and> takeWhile is_digit (drop 1 r) \<noteq> [] \<and> dropWhile is_digit (drop 1 r) = ''-all'' then Some u else None)"

definition resolveCustomerUid :: "string option \<Rightarrow> string option" where
  "resolveCustomerUid v = (case v of None \<Rightarrow> None | Some s \<Rightarrow> if s = [] then None else match_customer_uid s)"

definition readSelectedCustomer :: "matcher \<Rightarrow> dom_document \<Rightarrow> selected_customer" where
  "readSelectedCustomer matches doc =
     (case filter (\<lambda>row. hasClassToken row ''active'') (querySelectorAll matches LIVE_CHAT_ROW_SELECTOR (dd_elements doc)) of
        [] \<Rightarrow> Customer_none
      | [row] \<Rightarrow> (case resolveCustomerUid (getAttribute ''data-random'' row) of Some u \<Rightarrow> Customer_selected u | None \<Rightarrow> Customer_unknown)
      | _ \<Rightarrow> Customer_unknown)"

subsection \<open>Re-authentication\<close>

definition AUTH_REAUTH_TITLE :: string where
  "AUTH_REAUTH_TITLE = bytes [231, 153, 187, 229, 189, 149, 232, 191, 135, 230, 156, 159]"

definition AUTH_REAUTH_MESSAGE :: string where
  "AUTH_REAUTH_MESSAGE = bytes [231, 153, 187, 229, 189, 149, 229, 183, 178, 232, 191, 135, 230, 156, 159, 239, 188, 140, 232, 175, 183, 233, 135, 141,
     230, 150, 176, 231, 153, 187, 229, 189, 149]"

definition AUTH_DIALOG_SELECTORS :: "string list" where
  "AUTH_DIALOG_SELECTORS = [''[data-fw-pdd-auth-reauth-dialog]'', ''[role=dialog]'', ''.el-message-box'']"

definition TITLE_SELECTORS :: "string list" where
  "TITLE_SELECTORS = [''[data-fw-pdd-auth-title]'', ''.el-message-box__title'']"

definition MESSAGE_SELECTORS :: "string list" where
  "MESSAGE_SELECTORS = [''[data-fw-pdd-auth-message]'', ''.el-message-box__message'']"

definition exactText :: "dom_element option \<Rightarrow> string \<Rightarrow> bool" where
  "exactText e expected = (Option.bind e el_text = Some expected)"

fun firstMatching :: "matcher \<Rightarrow> dom_element \<Rightarrow> string list \<Rightarrow> dom_element option" where
  "firstMatching matches root [] = None"
| "firstMatching matches root (sel # sels) =
     (case querySelector matches sel (el_children root) of Some e \<Rightarrow> Some e | None \<Rightarrow> firstMatching matches root sels)"

definition hasAuthReauthModal :: "matcher \<Rightarrow> dom_document \<Rightarrow> bool" where
  "hasAuthReauthModal matches doc =
     list_ex (\<lambda>sel. list_ex (\<lambda>dialog. exactText (firstMatching matches dialog TITLE_SELECTORS) AUTH_REAUTH_TITLE
         \<and> exactText (firstMatching matches dialog MESSAGE_SELECTORS) AUTH_REAUTH_MESSAGE)
       (querySelectorAll matches sel (dd_elements doc))) AUTH_DIALOG_SELECTORS"

definition hasAuthReauthLocation :: "dom_document \<Rightarrow> bool" where
  "hasAuthReauthLocation doc = (dd_location doc = Some (''https://mms.pinduoduo.com'', ''/login/''))"

definition hasAuthReauthEvidence :: "matcher \<Rightarrow> dom_document \<Rightarrow> bool" where
  "hasAuthReauthEvidence matches doc = (hasAuthReauthModal matches doc \<or> hasAuthReauthLocation doc)"

subsection \<open>Takeover detection\<close>

text \<open>Acknowledgements are pairs of a message id and a time in milliseconds.\<close>

definition recent_acks :: "(string \<times> int) list \<Rightarrow> int \<Rightarrow> int \<Rightarrow> string list" where
  "recent_acks acks nowMs expiryMs = map fst (filter (\<lambda>(i, t). nowMs - t \<le> expiryMs) acks)"

text \<open>\<open>None\<close> when no row is human, otherwise its message id, if it has one.\<close>

definition detectHumanReply ::
  "matcher \<Rightarrow> dom_document \<Rightarrow> selector_entry list \<Rightarrow> (string \<times> int) list \<Rightarrow> int \<Rightarrow> int \<Rightarrow> string option option" where
  "detectHumanReply matches doc profile acks nowMs expiryMs = (case selector profile ''message.row'' of
       None \<Rightarrow> None
     | Some rowSel \<Rightarrow> map_option (getAttribute ''data-message-id'') (find
         (\<lambda>row. getAttribute ''data-direction'' row = Some ''outbound''
            \<and> (case non_empty (getAttribute ''data-message-id'' row) of
                 Some mid \<Rightarrow> mid \<notin> set (recent_acks acks nowMs expiryMs)
               | None \<Rightarrow> True))
         (querySelectorAll matches (se_primary rowSel) (dd_elements doc))))"

subsection \<open>Drivers\<close>

datatype page_action =
    Set_attribute dom_element string string
  | Input_events dom_element
  | Click dom_element

record page =
  pg_document :: dom_document
  pg_actions :: "page_action list"

type_synonym page_reaction = "page_action \<Rightarrow> dom_document \<Rightarrow> dom_document"

text \<open>
  The methods \<open>setAttribute\<close>, \<open>click\<close> and \<open>dispatchEvent\<close> of an element are optional, and the drivers skip the action when the method is
  missing; for the events the document must also have an event constructor. Which actions can be made is the argument
  \<open>able\<close>.
\<close>

type_synonym capability = "page_action \<Rightarrow> bool"

definition act :: "page_reaction \<Rightarrow> page_action \<Rightarrow> page \<Rightarrow> page" where
  "act react a p = p\<lparr>pg_document := react a (pg_document p), pg_actions := pg_actions p @ [a]\<rparr>"

definition try_act :: "page_reaction \<Rightarrow> capability \<Rightarrow> page_action \<Rightarrow> page \<Rightarrow> page" where
  "try_act react able a p = (if able a then act react a p else p)"

abbreviation query :: "matcher \<Rightarrow> string \<Rightarrow> page \<Rightarrow> dom_element option" where
  "query matches sel p \<equiv> querySelector matches sel (dd_elements (pg_document p))"

record send_result =
  sr_ok :: bool
  sr_message_id :: "string option"
  sr_error :: "string option"

definition dom_unavailable :: send_result where
  "dom_unavailable = \<lparr>sr_ok = False, sr_message_id = None, sr_error = Some ''platform.dom_unavailable''\<rparr>"

definition readComposerState :: "matcher \<Rightarrow> dom_document \<Rightarrow> selector_entry list \<Rightarrow> bool \<times> bool" where
  "readComposerState matches doc profile = (case selector profile ''composer.input'' of
       None \<Rightarrow> (False, True)
     | Some inputSel \<Rightarrow>
         (case find_entry matches doc inputSel of
            None \<Rightarrow> (False, True)
          | Some _ \<Rightarrow> (True, querySelector matches
              (case selector profile ''composer.disabled'' of Some d \<Rightarrow> se_primary d | None \<Rightarrow> []) (dd_elements doc) \<noteq> None)))"

definition dispatchInputEvents :: "page_reaction \<Rightarrow> capability \<Rightarrow> dom_element \<Rightarrow> page \<Rightarrow> page" where
  "dispatchInputEvents react able input p = try_act react able (Input_events input) p"

definition sendText_page ::
  "matcher \<Rightarrow> page_reaction \<Rightarrow> capability \<Rightarrow> selector_entry list \<Rightarrow> string \<Rightarrow> string \<Rightarrow> page \<Rightarrow> send_result \<times> page" where
  "sendText_page matches react able profile conversationId text p =
     (case (selector profile ''composer.input'', selector profile ''composer.send'') of
        (Some inputSel, Some sendSel) \<Rightarrow>
          (case (query matches (se_primary inputSel) p, query matches (se_primary sendSel) p,
                 query matches (case selector profile ''composer.disabled'' of Some d \<Rightarrow> se_primary d | None \<Rightarrow> []) p) of
             (Some input, Some send, None) \<Rightarrow>
               let p1 = try_act react able (Set_attribute input ''value'' text) p;
                   p2 = dispatchInputEvents react able input p1;
                   p3 = try_act react able (Click send) p2 in
               (\<lparr>sr_ok = True,
                 sr_message_id = Option.bind (query matches ''[data-fw-pdd-send-ack]'' p3) (getAttribute ''data-message-id''),
                 sr_error = None\<rparr>, p3)
           | _ \<Rightarrow> (dom_unavailable, p))
      | _ \<Rightarrow> (dom_unavailable, p))"

definition sendImage_page :: "matcher \<Rightarrow> page_reaction \<Rightarrow> capability \<Rightarrow> selector_entry list \<Rightarrow> string \<Rightarrow> string \<Rightarrow> page \<Rightarrow> send_result \<times> page" where
  "sendImage_page matches react able profile conversationId assetRef p =
     (case (selector profile ''composer.image-input'', selector profile ''composer.send'') of
        (Some imageSel, Some sendSel) \<Rightarrow>
          (case (query matches (se_primary imageSel) p, query matches (se_primary sendSel) p) of
             (Some picture, Some send) \<Rightarrow>
               (\<lparr>sr_ok = True, sr_message_id = None, sr_error = None\<rparr>,
                try_act react able (Click send) (try_act react able (Set_attribute picture ''data-asset-ref'' assetRef) p))
           | _ \<Rightarrow> (dom_unavailable, p))
      | _ \<Rightarrow> (dom_unavailable, p))"

record transfer_result =
  tr_ok :: bool
  tr_executed :: bool
  tr_fallback_message :: "string option"
  tr_error :: "string option"

definition transfer_failed :: "string \<Rightarrow> string option \<Rightarrow> transfer_result" where
  "transfer_failed err fallback = \<lparr>tr_ok = False, tr_executed = False, tr_fallback_message = fallback, tr_error = Some err\<rparr>"

definition FALLBACK_TRANSFER_TEXT :: string where
  "FALLBACK_TRANSFER_TEXT = ''<'' @ bytes [232, 189, 172, 230, 142, 165, 230, 148, 190, 229, 188, 131, 232, 175, 157, 230, 156, 175] @ ''>''"

definition is_target :: "string \<Rightarrow> dom_element \<Rightarrow> bool" where
  "is_target target node = (getAttribute ''data-target'' node = Some target \<or> trimmed_text (Some node) = Some target)"

definition confirm_transfer :: "matcher \<Rightarrow> page_reaction \<Rightarrow> capability \<Rightarrow> selector_entry \<Rightarrow> page \<Rightarrow> transfer_result \<times> page" where
  "confirm_transfer matches react able confirmSel p = (case query matches (se_primary confirmSel) p of
       None \<Rightarrow> (transfer_failed ''platform.dom_unavailable'' None, p)
     | Some confirm \<Rightarrow> (\<lparr>tr_ok = True, tr_executed = True, tr_fallback_message = None, tr_error = None\<rparr>,
         try_act react able (Click confirm) p))"

definition executeTransfer_page :: "matcher \<Rightarrow> page_reaction \<Rightarrow> capability \<Rightarrow> selector_entry list \<Rightarrow> string \<Rightarrow> page \<Rightarrow> transfer_result \<times> page" where
  "executeTransfer_page matches react able profile target p =
     (case (selector profile ''transfer.open'', selector profile ''transfer.target-list'', selector profile ''transfer.target-item'',
            selector profile ''transfer.confirm'') of
        (Some openSel, Some listSel, Some itemSel, Some confirmSel) \<Rightarrow>
          (case (query matches (se_primary openSel) p, query matches (se_primary listSel) p) of
             (Some opener, Some targetList) \<Rightarrow>
               let p1 = try_act react able (Click opener) p;
                   after = (case query matches (se_primary listSel) p1 of Some l \<Rightarrow> l | None \<Rightarrow> targetList) in
               (case find (is_target target) (querySelectorAll matches (se_primary itemSel) (el_children after)) of
                  None \<Rightarrow> (transfer_failed ''platform.transfer_target_unavailable'' (Some FALLBACK_TRANSFER_TEXT), p1)
                | Some node \<Rightarrow> confirm_transfer matches react able confirmSel (try_act react able (Click node) p1))
           | _ \<Rightarrow> (transfer_failed ''platform.dom_unavailable'' None, p))
      | _ \<Rightarrow> (transfer_failed ''platform.dom_unavailable'' None, p))"

subsection \<open>Commands\<close>

record page_command =
  pc_type :: string
  pc_command_id :: string
  pc_session_id :: string
  pc_shop_id :: "string option"
  pc_conversation_id :: "string option"
  pc_text :: "string option"
  pc_asset_ref :: "string option"
  pc_target :: "string option"

text \<open>The result object is a list of its defined properties.\<close>

record command_result =
  cr_command_id :: string
  cr_ok :: bool
  cr_result :: "(string \<times> json) list option"
  cr_error :: "string option"

definition ALLOWED_TYPES :: "string list" where
  "ALLOWED_TYPES = [''scan'', ''send_text'', ''send_image'', ''transfer'', ''focus_conversation'', ''health'']"

definition command_failed :: "page_command \<Rightarrow> string option \<Rightarrow> command_result" where
  "command_failed c err = \<lparr>cr_command_id = pc_command_id c, cr_ok = False, cr_result = None, cr_error = err\<rparr>"

definition command_done :: "page_command \<Rightarrow> (string \<times> json) list \<Rightarrow> command_result" where
  "command_done c r = \<lparr>cr_command_id = pc_command_id c, cr_ok = True, cr_result = Some r, cr_error = None\<rparr>"

definition opt_property :: "string \<Rightarrow> string option \<Rightarrow> (string \<times> json) list" where
  "opt_property k v = (case v of Some s \<Rightarrow> [(k, JStr s)] | None \<Rightarrow> [])"

definition context_property :: "string \<Rightarrow> string option \<Rightarrow> (string \<times> json) list" where
  "context_property k v = (case v of Some s \<Rightarrow> [(k, JObj [(''block'', JStr s)])] | None \<Rightarrow> [])"

definition raw_json :: "raw_message \<Rightarrow> json" where
  "raw_json m = JObj ([(''unread'', JBool (rm_unread m))] @ opt_property ''direction'' (rm_direction m) @ opt_property ''buyer'' (rm_buyer m)
     @ [(''content'', JStr (rm_content m))] @ opt_property ''platform_message_id'' (rm_platform_message_id m)
     @ opt_property ''timestamp'' (rm_timestamp m) @ context_property ''product_context'' (rm_product_context m)
     @ context_property ''order_context'' (rm_order_context m))"

definition send_reply :: "page_command \<Rightarrow> send_result \<Rightarrow> command_result" where
  "send_reply c r = (if sr_ok r then command_done c (opt_property ''message_id'' (sr_message_id r)) else command_failed c (sr_error r))"

definition absent :: "string option \<Rightarrow> bool" where
  "absent v = (v = None \<or> v = Some [])"

definition handleCommand :: "matcher \<Rightarrow> page_reaction \<Rightarrow> capability \<Rightarrow> page_command \<Rightarrow> page \<Rightarrow> command_result \<times> page" where
  "handleCommand matches react able c p =
     (let health = domHealth matches (pg_document p) PDD_SELECTOR_PROFILE;
          unavailable = (command_failed c (Some ''platform.dom_unavailable''), p);
          conv = (case pc_conversation_id c of Some v \<Rightarrow> v | None \<Rightarrow> []) in
      if pc_type c \<notin> set ALLOWED_TYPES then (command_failed c (Some ''platform.invalid_command''), p)
      else if pc_type c = ''health''
      then (command_done c ((''ready'', JBool (health_ready health)) # (if health_ready health then [] else [(''reason'', JStr (health_reason health))])), p)
      else if pc_type c = ''scan''
      then (if \<not> health_ready health then unavailable
            else (command_done c [(''messages'', JArr (map raw_json (readMessages matches (pg_document p) PDD_SELECTOR_PROFILE)))], p))
      else if pc_type c = ''send_text''
      then (case pc_text c of
              None \<Rightarrow> unavailable
            | Some text \<Rightarrow>
                if \<not> health_ready health \<or> absent (pc_conversation_id c) then unavailable
                else let (r, p1) = sendText_page matches react able PDD_SELECTOR_PROFILE conv text p in (send_reply c r, p1))
      else if pc_type c = ''send_image''
      then (if \<not> health_ready health \<or> absent (pc_conversation_id c) \<or> absent (pc_asset_ref c) then unavailable
            else let (r, p1) = sendImage_page matches react able PDD_SELECTOR_PROFILE conv (case pc_asset_ref c of Some a \<Rightarrow> a | None \<Rightarrow> []) p in
              (send_reply c r, p1))
      else if pc_type c = ''transfer''
      then (if \<not> health_ready health \<or> absent (pc_conversation_id c) \<or> absent (pc_target c) then unavailable
            else let (r, p1) = executeTransfer_page matches react able PDD_SELECTOR_PROFILE (case pc_target c of Some t \<Rightarrow> t | None \<Rightarrow> []) p in
              (if tr_ok r then command_done c [(''executed'', JBool True)]
               else (command_failed c (tr_error r))\<lparr>cr_result := Some (opt_property ''fallback_message'' (tr_fallback_message r))\<rparr>, p1))
      else (command_done c (opt_property ''conversation_id'' (pc_conversation_id c)), p))"

end
