(* ===== verification/Workbench.thy ===== *)
theory Workbench imports Pdd_Dom begin

text \<open>
  The workbench of the renderer: the view-model functions of \<open>apps/desktop/src/renderer/state/view-model.ts\<close>, the event reducer of
  \<open>event-reducer.ts\<close> and the store of \<open>workbench-store.ts\<close>. A call of the desktop API is noted with its continuation, and an
  answer resumes the continuation; answers come in any order. The listeners of the store are left out, they only read the state.
  Interface texts are UTF-8 bytes. \<open>wb_answered\<close> is a history variable of the model: the continuations and their answers.
\<close>

subsection \<open>View models\<close>

datatype queue_scope = All_stores | Specific_store string

record queue_item =
  qi_conversation_id :: string
  qi_store_id :: string

record store_option =
  so_store_id :: string
  so_name :: string

record timeline_message =
  tl_message_id :: string
  tl_actor :: "string option"
  tl_content_kind :: "string option"
  tl_content_text :: "string option"
  tl_occurred_at :: "string option"

record shop_summary =
  su_shop_id :: string
  su_name :: string
  su_type :: string
  su_enabled :: bool

record suggestion_view =
  sg_reply :: string
  sg_generation :: nat
  sg_status :: string
  sg_mode :: "string option"

record conversation_view =
  cw_conversation_id :: string
  cw_shop_id :: string
  cw_state :: string
  cw_buyer :: "string option"

record worker_status_view =
  wk_status :: string
  wk_worker_version :: "string option"
  wk_protocol_version :: "nat option"
  wk_last_error :: "string option"

record countdown_view =
  cd_enabled :: bool
  cd_remaining_ticks :: nat
  cd_tick_ms :: nat

record workbench_view =
  wv_revision :: nat
  wv_shop_summaries :: "shop_summary list"
  wv_selected_shop_id :: "string option"
  wv_conversation :: "conversation_view option"
  wv_suggestion :: "suggestion_view option"
  wv_mode :: "string option"
  wv_countdown :: "countdown_view option"
  wv_send_status :: "string option"
  wv_takeover_status :: "string option"
  wv_worker_status :: worker_status_view
  wv_last_error :: "string option"
  wv_platform_capability :: string

record platform_view =
  pl_activeShopId :: "string option"
  pl_platformType :: "string option"
  pl_sessionStatus :: "string option"
  pl_viewVisible :: bool
  pl_lastSafeError :: "string option"
  pl_capabilities :: "(string \<times> bool) list"

definition EMPTY_PLATFORM_VIEW_STATE :: platform_view where
  "EMPTY_PLATFORM_VIEW_STATE = \<lparr>pl_activeShopId = None, pl_platformType = None, pl_sessionStatus = None, pl_viewVisible = False,
     pl_lastSafeError = None, pl_capabilities = []\<rparr>"

record job_view =
  jv_job_id :: string
  jv_type :: string
  jv_state :: string
  jv_progress :: nat
  jv_message :: string

record m10_view =
  mv_jobs :: "job_view list"
  mv_lastLearningEvent :: "string option"
  mv_lastReviewEvent :: "string option"
  mv_lastAuditEvent :: "string option"
  mv_lastOptimizationEvent :: "string option"

definition EMPTY_M10_VIEW_MODEL :: m10_view where
  "EMPTY_M10_VIEW_MODEL = \<lparr>mv_jobs = [], mv_lastLearningEvent = None, mv_lastReviewEvent = None, mv_lastAuditEvent = None, mv_lastOptimizationEvent = None\<rparr>"

text \<open>An import plan is shown as it is; only its hash is read.\<close>

record import_plan =
  ip_plan_sha256 :: string
  ip_rest :: json

record import_session =
  iv_session_id :: string
  iv_state :: string
  iv_phases :: "string list"
  iv_error :: "string option"

record import_view =
  im_selection_token :: "string option"
  im_item_count :: nat
  im_plan_sha256 :: "string option"
  im_session :: "import_session option"
  im_plan :: "import_plan option"

definition EMPTY_LEGACY_IMPORT_VIEW_MODEL :: import_view where
  "EMPTY_LEGACY_IMPORT_VIEW_MODEL = \<lparr>im_selection_token = None, im_item_count = 0, im_plan_sha256 = None, im_session = None, im_plan = None\<rparr>"

datatype pending_command = Cmd_set_mode | Cmd_manual_send | Cmd_no_save_send | Cmd_cancel

record ui_state =
  ui_viewModel :: "workbench_view option"
  ui_selectedShopId :: "string option"
  ui_loading :: bool
  ui_lastError :: "string option"
  ui_pendingCommand :: "pending_command option"
  ui_platform :: platform_view
  ui_m10 :: m10_view
  ui_legacyImport :: import_view
  ui_queueScope :: queue_scope
  ui_queueItems :: "queue_item list"
  ui_queueLoading :: bool
  ui_queueError :: "string option"
  ui_queuePlatform :: "string option"
  ui_availableStores :: "store_option list"
  ui_availablePlatforms :: "string list"
  ui_queueOutOfScopeCue :: bool
  ui_activeConversationId :: "string option"
  ui_timelineConversationId :: "string option"
  ui_timelineMessages :: "timeline_message list"
  ui_timelineLoading :: bool
  ui_timelineError :: "string option"
  ui_composerDrafts :: "(string \<times> string) list"
  ui_composerSendAvailable :: bool
  ui_composerNote :: "string option"

definition EMPTY_UI_STATE :: ui_state where
  "EMPTY_UI_STATE = \<lparr>ui_viewModel = None, ui_selectedShopId = None, ui_loading = False, ui_lastError = None, ui_pendingCommand = None,
     ui_platform = EMPTY_PLATFORM_VIEW_STATE, ui_m10 = EMPTY_M10_VIEW_MODEL, ui_legacyImport = EMPTY_LEGACY_IMPORT_VIEW_MODEL,
     ui_queueScope = All_stores, ui_queueItems = [], ui_queueLoading = False, ui_queueError = None, ui_queuePlatform = None,
     ui_availableStores = [], ui_availablePlatforms = [], ui_queueOutOfScopeCue = False, ui_activeConversationId = None,
     ui_timelineConversationId = None, ui_timelineMessages = [], ui_timelineLoading = False, ui_timelineError = None,
     ui_composerDrafts = [], ui_composerSendAvailable = False, ui_composerNote = None\<rparr>"

subsection \<open>Functions of the view model\<close>

definition revisionOf :: "workbench_view option \<Rightarrow> nat" where
  "revisionOf vm = (case vm of Some v \<Rightarrow> wv_revision v | None \<Rightarrow> 0)"

definition ui_selectShop :: "string \<Rightarrow> ui_state \<Rightarrow> ui_state" where
  "ui_selectShop shop u = (if ui_selectedShopId u = Some shop then u else u\<lparr>ui_selectedShopId := Some shop, ui_lastError := None\<rparr>)"

definition ui_setQueueScope :: "queue_scope \<Rightarrow> ui_state \<Rightarrow> ui_state" where
  "ui_setQueueScope sc u = (if ui_queueScope u = sc then u else u\<lparr>ui_queueScope := sc, ui_queueLoading := True, ui_queueError := None\<rparr>)"

definition ui_setQueueItems :: "queue_item list \<Rightarrow> queue_scope \<Rightarrow> ui_state \<Rightarrow> ui_state" where
  "ui_setQueueItems items sc u = u\<lparr>ui_queueItems := items, ui_queueScope := sc, ui_queueLoading := False, ui_queueError := None\<rparr>"

definition ui_setQueuePlatform :: "string option \<Rightarrow> ui_state \<Rightarrow> ui_state" where
  "ui_setQueuePlatform p u = (if ui_queuePlatform u = p then u else u\<lparr>ui_queuePlatform := p, ui_queueLoading := True, ui_queueError := None\<rparr>)"

definition ui_setQueueOptions :: "store_option list \<Rightarrow> string list \<Rightarrow> ui_state \<Rightarrow> ui_state" where
  "ui_setQueueOptions stores platforms u = u\<lparr>ui_availableStores := stores, ui_availablePlatforms := platforms\<rparr>"

definition ui_setQueueError :: "string \<Rightarrow> ui_state \<Rightarrow> ui_state" where
  "ui_setQueueError msg u = u\<lparr>ui_queueLoading := False, ui_queueError := Some msg\<rparr>"

definition ui_setActiveConversation :: "string option \<Rightarrow> ui_state \<Rightarrow> ui_state" where
  "ui_setActiveConversation c u = u\<lparr>ui_activeConversationId := c\<rparr>"

definition ui_setTimelineLoading :: "string \<Rightarrow> ui_state \<Rightarrow> ui_state" where
  "ui_setTimelineLoading c u = u\<lparr>ui_timelineConversationId := Some c,
     ui_timelineMessages := (if ui_timelineConversationId u = Some c then ui_timelineMessages u else []),
     ui_timelineLoading := True, ui_timelineError := None\<rparr>"

definition ui_setTimelineItems :: "string \<Rightarrow> timeline_message list \<Rightarrow> ui_state \<Rightarrow> ui_state" where
  "ui_setTimelineItems c ms u = u\<lparr>ui_timelineConversationId := Some c, ui_timelineMessages := ms, ui_timelineLoading := False, ui_timelineError := None\<rparr>"

definition ui_setTimelineError :: "string \<Rightarrow> string \<Rightarrow> ui_state \<Rightarrow> ui_state" where
  "ui_setTimelineError c msg u = u\<lparr>ui_timelineConversationId := Some c, ui_timelineLoading := False, ui_timelineError := Some msg\<rparr>"

definition ui_clearTimeline :: "ui_state \<Rightarrow> ui_state" where
  "ui_clearTimeline u = u\<lparr>ui_timelineConversationId := None, ui_timelineMessages := [], ui_timelineLoading := False, ui_timelineError := None\<rparr>"

record conversation_presentation =
  cq_conversationId :: string
  cq_storeId :: "string option"
  cq_state :: "string option"
  cq_buyer :: "string option"

definition activeConversationPresentation :: "ui_state \<Rightarrow> conversation_presentation option" where
  "activeConversationPresentation u = (case ui_activeConversationId u of
       None \<Rightarrow> None
     | Some c \<Rightarrow>
         let item = find (\<lambda>i. qi_conversation_id i = c) (ui_queueItems u);
             trusted = (case Option.bind (ui_viewModel u) wv_conversation of
                 Some v \<Rightarrow> if cw_conversation_id v = c then Some v else None | None \<Rightarrow> None) in
         Some \<lparr>cq_conversationId = c, cq_storeId = map_option qi_store_id item, cq_state = map_option cw_state trusted,
               cq_buyer = Option.bind trusted cw_buyer\<rparr>)"

definition ui_setComposerDraft :: "string \<Rightarrow> string \<Rightarrow> ui_state \<Rightarrow> ui_state" where
  "ui_setComposerDraft c txt u = u\<lparr>ui_composerDrafts := map_set c txt (ui_composerDrafts u), ui_composerNote := None\<rparr>"

definition draft_of :: "string \<Rightarrow> ui_state \<Rightarrow> string" where
  "draft_of c u = (case map_of (ui_composerDrafts u) c of Some d \<Rightarrow> d | None \<Rightarrow> [])"

definition ui_applySuggestion :: "string \<Rightarrow> string \<Rightarrow> ui_state \<Rightarrow> ui_state" where
  "ui_applySuggestion c sug u =
     (if draft_of c u = [] \<or> draft_of c u = sug then u\<lparr>ui_composerDrafts := map_set c sug (ui_composerDrafts u), ui_composerNote := None\<rparr>
      else u\<lparr>ui_composerNote := Some (bytes [232, 141, 137, 231, 168, 191, 233, 157, 158, 231, 169, 186, 239, 188, 140, 230, 156, 170, 232, 166, 134, 231, 155, 150, 32, 65, 73, 32, 229, 187, 186, 232, 174, 174])\<rparr>)"

definition ui_setComposerSendAvailable :: "bool \<Rightarrow> ui_state \<Rightarrow> ui_state" where
  "ui_setComposerSendAvailable available u = u\<lparr>ui_composerSendAvailable := available\<rparr>"

record submit_intent =
  si_conversationId :: string
  si_draft :: string

definition captureComposerSubmitIntent :: "string \<Rightarrow> string \<Rightarrow> submit_intent" where
  "captureComposerSubmitIntent c d = \<lparr>si_conversationId = c, si_draft = d\<rparr>"

text \<open>The outcome is whether the draft was sent.\<close>

definition applyComposerSendResult :: "submit_intent \<Rightarrow> bool \<Rightarrow> ui_state \<Rightarrow> ui_state" where
  "applyComposerSendResult intent sent u =
     (if sent then u\<lparr>ui_composerDrafts := map_delete (si_conversationId intent) (ui_composerDrafts u), ui_composerNote := None\<rparr> else u)"

definition shouldSubmitComposerOnEnter :: "bool \<Rightarrow> bool \<Rightarrow> bool" where
  "shouldSubmitComposerOnEnter isComposing shiftKey = (\<not> isComposing \<and> \<not> shiftKey)"

record orchestrator_notice =
  on_revision :: nat
  on_shop_id :: "string option"

definition isStaleEvent :: "ui_state \<Rightarrow> orchestrator_notice \<Rightarrow> bool" where
  "isStaleEvent u ev =
     (on_revision ev < revisionOf (ui_viewModel u)
      \<or> (non_empty (on_shop_id ev) \<noteq> None \<and> non_empty (ui_selectedShopId u) \<noteq> None \<and> on_shop_id ev \<noteq> ui_selectedShopId u))"

datatype event_outcome = Ignored_stale | Resync_required string

definition reduceEvent :: "ui_state \<Rightarrow> orchestrator_notice \<Rightarrow> event_outcome" where
  "reduceEvent u ev =
     (if isStaleEvent u ev then Ignored_stale
      else if revisionOf (ui_viewModel u) \<noteq> 0 \<and> on_revision ev > Suc (revisionOf (ui_viewModel u)) then Resync_required ''revision_gap''
      else Resync_required ''event_applied'')"

end
