(* ===== verification/Delivery.thy ===== *)
theory Delivery imports Prelude "HOL-Library.List_Lexorder" "HOL-Library.Char_ord" "HOL-Library.Product_Lexorder"
  "HOL-Library.Multiset" begin

text \<open>
  The durable delivery-attempt journal: \<open>packages/persistence/src/delivery/delivery-attempt.ts\<close>, with the
  conversation and message repositories it uses
  (\<open>packages/persistence/src/sqlite/sqlite-conversation-repositories.ts\<close>,
  \<open>packages/persistence/src/repositories/conversation-repositories.ts\<close>). A SQLite table is the list of its rows;
  the primary keys and foreign keys of the migrations are the insert checks; an \<open>UPDATE ... WHERE\<close> maps
  the rows. \<open>runDeliveryAttempt\<close> is cut at the port's answer: \<open>jn_awaiting\<close> holds the attempts whose
  \<open>deliver\<close> call is in progress, so that recovery and other runs can come in between. Times are strings
  and arguments.
\<close>

subsection \<open>Records and tables\<close>

datatype delivery_attempt_status = PENDING | IN_FLIGHT | ACKNOWLEDGED | REJECTED | UNKNOWN

datatype delivery_outcome = Out_acknowledged | Out_rejected | Out_unknown

datatype authorize_result = ALLOWED | DENIED | UNAVAILABLE

record delivery_attempt =
  da_id :: string
  da_conversationId :: string
  da_storeId :: string
  da_platformAccountId :: string
  da_textPayload :: string
  da_status :: delivery_attempt_status
  da_createdAt :: string
  da_dispatchedAt :: "string option"
  da_resolvedAt :: "string option"
  da_deliveredMessageId :: "string option"
  da_ackSourceRef :: "string option"
  da_ackOccurredAt :: "string option"

record normalized_conversation =
  nc_id :: string
  nc_merchantId :: string
  nc_storeId :: string
  nc_platformAccountId :: string
  nc_externalRef :: "string option"

datatype message_actor = Customer | Agent

datatype content_kind = Text_content

record message_record =
  ms_id :: string
  ms_conversationId :: string
  ms_externalRef :: "string option"
  ms_actor :: "message_actor option"
  ms_contentKind :: "content_kind option"
  ms_contentText :: "string option"
  ms_occurredAt :: "string option"
  ms_observedAt :: "string option"

text \<open>A row of \<open>normalized_messages\<close>: actor and kind are free text there.\<close>

record message_row =
  mr_id :: string
  mr_conversation_id :: string
  mr_external_ref :: "string option"
  mr_actor :: "string option"
  mr_content_kind :: "string option"
  mr_content_text :: "string option"
  mr_occurred_at :: "string option"
  mr_observed_at :: "string option"

record delivery_result =
  dl_outcome :: delivery_outcome
  dl_sourceRef :: "string option"
  dl_occurredAt :: "string option"

record database =
  db_merchants :: "string list"
  db_stores :: "string list"
  db_accounts :: "string list"
  db_conversations :: "normalized_conversation list"
  db_messages :: "message_row list"
  db_attempts :: "delivery_attempt list"

datatype db_error = Constraint_failed | Delivery_attempt_error string

subsection \<open>Conversations and messages\<close>

definition saveConversation :: "normalized_conversation \<Rightarrow> database \<Rightarrow> db_error + database" where
  "saveConversation c db =
     (if nc_id c \<in> nc_id ` set (db_conversations db) \<or> nc_merchantId c \<notin> set (db_merchants db)
         \<or> nc_storeId c \<notin> set (db_stores db) \<or> nc_platformAccountId c \<notin> set (db_accounts db)
      then Inl Constraint_failed else Inr (db\<lparr>db_conversations := db_conversations db @ [c]\<rparr>))"

definition findConversation :: "string \<Rightarrow> database \<Rightarrow> normalized_conversation option" where
  "findConversation i db = find (\<lambda>c. nc_id c = i) (db_conversations db)"

definition listByMerchant :: "string \<Rightarrow> database \<Rightarrow> normalized_conversation list" where
  "listByMerchant m db = sort_key nc_id (filter (\<lambda>c. nc_merchantId c = m) (db_conversations db))"

definition listByStore :: "string \<Rightarrow> database \<Rightarrow> normalized_conversation list" where
  "listByStore st db = sort_key nc_id (filter (\<lambda>c. nc_storeId c = st) (db_conversations db))"

definition mapMsgRow :: "message_row \<Rightarrow> message_record" where
  "mapMsgRow r =
     \<lparr>ms_id = mr_id r, ms_conversationId = mr_conversation_id r, ms_externalRef = mr_external_ref r,
      ms_actor = (if mr_actor r = Some ''customer'' then Some Customer
                  else if mr_actor r = Some ''agent'' then Some Agent else None),
      ms_contentKind = (if mr_content_kind r = Some ''text'' then Some Text_content else None),
      ms_contentText = mr_content_text r, ms_occurredAt = mr_occurred_at r, ms_observedAt = mr_observed_at r\<rparr>"

definition message_row_of :: "message_record \<Rightarrow> message_row" where
  "message_row_of m =
     \<lparr>mr_id = ms_id m, mr_conversation_id = ms_conversationId m, mr_external_ref = ms_externalRef m,
      mr_actor = map_option (\<lambda>a. case a of Customer \<Rightarrow> ''customer'' | Agent \<Rightarrow> ''agent'') (ms_actor m),
      mr_content_kind = map_option (\<lambda>_. ''text'') (ms_contentKind m),
      mr_content_text = ms_contentText m, mr_occurred_at = ms_occurredAt m, mr_observed_at = ms_observedAt m\<rparr>"

definition saveMessage :: "message_record \<Rightarrow> database \<Rightarrow> db_error + database" where
  "saveMessage m db =
     (if ms_id m \<in> mr_id ` set (db_messages db) \<or> ms_conversationId m \<notin> nc_id ` set (db_conversations db)
      then Inl Constraint_failed
      else Inr (db\<lparr>db_messages := db_messages db @ [message_row_of m]\<rparr>))"

definition findMessage :: "string \<Rightarrow> database \<Rightarrow> message_record option" where
  "findMessage i db = map_option mapMsgRow (find (\<lambda>r. mr_id r = i) (db_messages db))"

text \<open>\<open>ORDER BY (occurred_at IS NULL), occurred_at, id\<close>.\<close>

definition timeline_key :: "message_row \<Rightarrow> bool \<times> string \<times> string" where
  "timeline_key r = (case mr_occurred_at r of
       None \<Rightarrow> (True, [], mr_id r)
     | Some t \<Rightarrow> (False, t, mr_id r))"

definition listByConversation :: "string \<Rightarrow> database \<Rightarrow> message_record list" where
  "listByConversation cid db =
     map mapMsgRow (sort_key timeline_key (filter (\<lambda>r. mr_conversation_id r = cid) (db_messages db)))"

subsection \<open>The attempt repository\<close>

definition findAttempt :: "string \<Rightarrow> database \<Rightarrow> delivery_attempt option" where
  "findAttempt i db = find (\<lambda>a. da_id a = i) (db_attempts db)"

definition createAttempt :: "delivery_attempt \<Rightarrow> database \<Rightarrow> db_error + database" where
  "createAttempt a db =
     (if da_status a \<noteq> PENDING then Inl (Delivery_attempt_error ''delivery attempt must be created as PENDING'')
      else if da_id a \<in> da_id ` set (db_attempts db) \<or> da_conversationId a \<notin> nc_id ` set (db_conversations db)
              \<or> da_storeId a \<notin> set (db_stores db) \<or> da_platformAccountId a \<notin> set (db_accounts db)
      then Inl Constraint_failed
      else Inr (db\<lparr>db_attempts := db_attempts db @ [a]\<rparr>))"

text \<open>\<open>UPDATE delivery_attempts SET ... WHERE ...\<close>.\<close>

definition update_attempts ::
  "(delivery_attempt \<Rightarrow> bool) \<Rightarrow> (delivery_attempt \<Rightarrow> delivery_attempt) \<Rightarrow> database \<Rightarrow> database" where
  "update_attempts wh f db = db\<lparr>db_attempts := map (\<lambda>a. if wh a then f a else a) (db_attempts db)\<rparr>"

definition markInFlight :: "string \<Rightarrow> string \<Rightarrow> database \<Rightarrow> delivery_attempt option \<times> database" where
  "markInFlight i dispatchedAt db =
     (let db1 = update_attempts (\<lambda>a. da_id a = i \<and> da_status a = PENDING)
                  (\<lambda>a. a\<lparr>da_status := IN_FLIGHT, da_dispatchedAt := Some dispatchedAt\<rparr>) db
      in (findAttempt i db1, db1))"

definition resolve :: "string \<Rightarrow> delivery_attempt_status \<Rightarrow> string \<Rightarrow> database \<Rightarrow> delivery_attempt option \<times> database" where
  "resolve i status resolvedAt db =
     (let db1 = update_attempts (\<lambda>a. da_id a = i \<and> da_status a \<in> {PENDING, IN_FLIGHT})
                  (\<lambda>a. a\<lparr>da_status := status, da_resolvedAt := Some resolvedAt\<rparr>) db
      in (findAttempt i db1, db1))"

definition listInFlight :: "database \<Rightarrow> delivery_attempt list" where
  "listInFlight db = sort_key da_createdAt (filter (\<lambda>a. da_status a = IN_FLIGHT) (db_attempts db))"

definition recoverInFlight :: "string \<Rightarrow> database \<Rightarrow> nat \<times> database" where
  "recoverInFlight resolvedAt db =
     (let inFlight = listInFlight db in
      if inFlight = [] then (0, db)
      else (length inFlight,
            update_attempts (\<lambda>a. da_status a = IN_FLIGHT)
              (\<lambda>a. a\<lparr>da_status := UNKNOWN, da_resolvedAt := Some resolvedAt\<rparr>) db))"

definition updateAcknowledged ::
  "string \<Rightarrow> string \<Rightarrow> string \<Rightarrow> string option \<Rightarrow> string option \<Rightarrow> database \<Rightarrow> delivery_attempt option \<times> database" where
  "updateAcknowledged i resolvedAt messageId sourceRef occurredAt db =
     (let db1 = update_attempts (\<lambda>a. da_id a = i \<and> da_status a = IN_FLIGHT)
                  (\<lambda>a. a\<lparr>da_status := ACKNOWLEDGED, da_resolvedAt := Some resolvedAt,
                         da_deliveredMessageId := Some messageId, da_ackSourceRef := sourceRef,
                         da_ackOccurredAt := occurredAt\<rparr>) db
      in (findAttempt i db1, db1))"

definition generateDeliveryMessageId :: "string \<Rightarrow> string" where
  "generateDeliveryMessageId attemptId = ''dlv-'' @ attemptId"

subsection \<open>Operations on attempts\<close>

definition createAuthorizedDeliveryAttempt ::
  "(string \<Rightarrow> authorize_result) \<Rightarrow> string \<Rightarrow> string \<Rightarrow> string \<Rightarrow> string \<Rightarrow> database \<Rightarrow> db_error + delivery_attempt \<times> database" where
  "createAuthorizedDeliveryAttempt authorize i cid text createdAt db =
     (if authorize cid \<noteq> ALLOWED
      then Inl (Delivery_attempt_error ''send not authorized (authorization unavailable or denied)'')
      else case findConversation cid db of
             None \<Rightarrow> Inl (Delivery_attempt_error ''conversation not found'')
           | Some c \<Rightarrow>
               (let a = \<lparr>da_id = i, da_conversationId = nc_id c, da_storeId = nc_storeId c,
                         da_platformAccountId = nc_platformAccountId c, da_textPayload = text, da_status = PENDING,
                         da_createdAt = createdAt, da_dispatchedAt = None, da_resolvedAt = None,
                         da_deliveredMessageId = None, da_ackSourceRef = None, da_ackOccurredAt = None\<rparr>
                in case createAttempt a db of Inl e \<Rightarrow> Inl e | Inr db1 \<Rightarrow> Inr (a, db1)))"

text \<open>
  \<open>finalizeAcknowledgedDelivery\<close>. The transaction is one step: when the message insert fails, nothing
  is written. The message given by the caller contributes its id only; the other fields are overwritten
  or taken from \<open>extRef\<close>.
\<close>

definition finalizeAcknowledgedDelivery ::
  "string \<Rightarrow> string \<Rightarrow> string option \<Rightarrow> string \<Rightarrow> string option \<Rightarrow> string option \<Rightarrow> string \<Rightarrow> database \<Rightarrow> db_error + delivery_attempt \<times> database" where
  "finalizeAcknowledgedDelivery i messageId extRef resolvedAt sourceRef occurredAt now db =
     (case findAttempt i db of
        None \<Rightarrow> Inl (Delivery_attempt_error ''delivery attempt not found'')
      | Some a \<Rightarrow>
          if da_status a = ACKNOWLEDGED then Inr (a, db)
          else if da_status a \<noteq> IN_FLIGHT
          then Inl (Delivery_attempt_error ''only IN_FLIGHT delivery attempts may be acknowledged'')
          else let m = \<lparr>ms_id = messageId, ms_conversationId = da_conversationId a, ms_externalRef = extRef,
                        ms_actor = Some Agent, ms_contentKind = Some Text_content,
                        ms_contentText = Some (da_textPayload a), ms_occurredAt = occurredAt, ms_observedAt = Some now\<rparr>
               in case saveMessage m db of
                    Inl e \<Rightarrow> Inl e
                  | Inr db1 \<Rightarrow>
                      (let db2 = snd (updateAcknowledged i resolvedAt messageId sourceRef occurredAt db1)
                       in case findAttempt i db2 of
                            None \<Rightarrow> Inl (Delivery_attempt_error ''delivery attempt finalization failed'')
                          | Some final \<Rightarrow> Inr (final, db2)))"

text \<open>\<open>runDeliveryAttempt\<close> up to the call of the port, and after its answer.\<close>

definition run_dispatch :: "string \<Rightarrow> string \<Rightarrow> database \<Rightarrow> (db_error + delivery_attempt) \<times> database" where
  "run_dispatch i now db =
     (let (r, db1) = markInFlight i now db
      in case r of
           None \<Rightarrow> (Inl (Delivery_attempt_error ''delivery attempt could not enter IN_FLIGHT''), db1)
         | Some a \<Rightarrow> if da_status a \<noteq> IN_FLIGHT
                     then (Inl (Delivery_attempt_error ''delivery attempt could not enter IN_FLIGHT''), db1)
                     else (Inr a, db1))"

definition outcome_status :: "delivery_outcome \<Rightarrow> delivery_attempt_status" where
  "outcome_status oc = (case oc of Out_acknowledged \<Rightarrow> ACKNOWLEDGED | Out_rejected \<Rightarrow> REJECTED | Out_unknown \<Rightarrow> UNKNOWN)"

definition run_complete :: "delivery_attempt \<Rightarrow> delivery_result \<Rightarrow> string \<Rightarrow> database \<Rightarrow> (db_error + delivery_attempt \<times> delivery_outcome) \<times> database" where
  "run_complete inFlight result now db =
     (if dl_outcome result = Out_acknowledged
      then case finalizeAcknowledgedDelivery (da_id inFlight) (generateDeliveryMessageId (da_id inFlight)) None now
                  (dl_sourceRef result) (dl_occurredAt result) now db of
             Inl e \<Rightarrow> (Inl e, db)
           | Inr (final, db1) \<Rightarrow> (Inr (final, Out_acknowledged), db1)
      else let (r, db1) = resolve (da_id inFlight) (outcome_status (dl_outcome result)) now db
           in case r of
                None \<Rightarrow> (Inl (Delivery_attempt_error ''delivery attempt could not resolve''), db1)
              | Some a \<Rightarrow> (Inr (a, dl_outcome result), db1))"

definition recoverInFlightAttempts :: "string \<Rightarrow> database \<Rightarrow> nat \<times> database" where
  "recoverInFlightAttempts resolvedAt db = recoverInFlight resolvedAt db"

record recovery_result =
  rr_recovered :: nat
  rr_untouched :: nat

fun recover_loop :: "string \<Rightarrow> string \<Rightarrow> delivery_attempt list \<Rightarrow> recovery_result \<Rightarrow> database \<Rightarrow> recovery_result \<times> database" where
  "recover_loop merchantId resolvedAt [] res db = (res, db)"
| "recover_loop merchantId resolvedAt (a # as) res db =
     (case findConversation (da_conversationId a) db of
        None \<Rightarrow> recover_loop merchantId resolvedAt as (res\<lparr>rr_untouched := rr_untouched res + 1\<rparr>) db
      | Some c \<Rightarrow>
          if nc_merchantId c \<noteq> merchantId
          then recover_loop merchantId resolvedAt as (res\<lparr>rr_untouched := rr_untouched res + 1\<rparr>) db
          else let (r, db1) = resolve (da_id a) UNKNOWN resolvedAt db
               in recover_loop merchantId resolvedAt as
                    (if r \<noteq> None then res\<lparr>rr_recovered := rr_recovered res + 1\<rparr> else res\<lparr>rr_untouched := rr_untouched res + 1\<rparr>) db1)"

definition recoverWorkspaceInFlightDeliveryAttempts :: "string \<Rightarrow> string \<Rightarrow> database \<Rightarrow> recovery_result \<times> database" where
  "recoverWorkspaceInFlightDeliveryAttempts merchantId resolvedAt db =
     recover_loop merchantId resolvedAt (listInFlight db) \<lparr>rr_recovered = 0, rr_untouched = 0\<rparr> db"

subsection \<open>The journal as a step system\<close>

record journal =
  jn_db :: database
  jn_awaiting :: "delivery_attempt list"  \<comment> \<open>attempts whose \<open>deliver\<close> call is in progress\<close>

datatype journal_event =
    Create_authorized authorize_result string string string string
  | Dispatch string string
  | Port_answers nat delivery_result string
  | Finalize string string "string option" string "string option" "string option" string
  | Resolve_attempt string bool string
  | Recover_all string
  | Recover_workspace string string
  | Save_message message_record
  | Save_conversation normalized_conversation

definition journal_step :: "journal_event \<Rightarrow> journal \<Rightarrow> journal" where
  "journal_step e s = (case e of
       Create_authorized auth i cid text t \<Rightarrow>
         (case createAuthorizedDeliveryAttempt (\<lambda>_. auth) i cid text t (jn_db s) of
            Inl _ \<Rightarrow> s | Inr (_, db) \<Rightarrow> s\<lparr>jn_db := db\<rparr>)
     | Dispatch i now \<Rightarrow>
         (case run_dispatch i now (jn_db s) of
            (Inl _, db) \<Rightarrow> s\<lparr>jn_db := db\<rparr> | (Inr a, db) \<Rightarrow> s\<lparr>jn_db := db, jn_awaiting := jn_awaiting s @ [a]\<rparr>)
     | Port_answers n r now \<Rightarrow>
         (if n < length (jn_awaiting s)
          then s\<lparr>jn_db := snd (run_complete (jn_awaiting s ! n) r now (jn_db s)),
                 jn_awaiting := take n (jn_awaiting s) @ drop (Suc n) (jn_awaiting s)\<rparr>
          else s)
     | Finalize i mid ext t src occ now \<Rightarrow>
         (case finalizeAcknowledgedDelivery i mid ext t src occ now (jn_db s) of
            Inl _ \<Rightarrow> s | Inr (_, db) \<Rightarrow> s\<lparr>jn_db := db\<rparr>)
     | Resolve_attempt i rejected t \<Rightarrow>
         s\<lparr>jn_db := snd (resolve i (if rejected then REJECTED else UNKNOWN) t (jn_db s))\<rparr>
     | Recover_all t \<Rightarrow> s\<lparr>jn_db := snd (recoverInFlightAttempts t (jn_db s))\<rparr>
     | Recover_workspace m t \<Rightarrow> s\<lparr>jn_db := snd (recoverWorkspaceInFlightDeliveryAttempts m t (jn_db s))\<rparr>
     | Save_message m \<Rightarrow> (case saveMessage m (jn_db s) of Inl _ \<Rightarrow> s | Inr db \<Rightarrow> s\<lparr>jn_db := db\<rparr>)
     | Save_conversation c \<Rightarrow> (case saveConversation c (jn_db s) of Inl _ \<Rightarrow> s | Inr db \<Rightarrow> s\<lparr>jn_db := db\<rparr>))"

definition empty_journal :: "string list \<Rightarrow> string list \<Rightarrow> string list \<Rightarrow> journal" where
  "empty_journal merchants stores accounts =
     \<lparr>jn_db = \<lparr>db_merchants = merchants, db_stores = stores, db_accounts = accounts, db_conversations = [],
               db_messages = [], db_attempts = []\<rparr>, jn_awaiting = []\<rparr>"

end
