(* ===== verification/Policies.thy ===== *)
theory Policies imports Prelude begin

text \<open>
  The decision policies of the conversation orchestrator
  (\<open>packages/orchestrator/src/policies\<close>) and the generation token
  (\<open>packages/orchestrator/src/state/generation-token.ts\<close>): review mode, feedback intent,
  pre-send revalidation, countdown, and the consecutive-reply takeover breaker. Each policy is a
  pure function or a small state record with its operations; the lemmas give the behaviour on every
  branch and the bounds the orchestrator relies on.
\<close>

subsection \<open>Review mode\<close>

datatype review_mode = Human_review | Full_auto

definition isFullAuto :: "review_mode \<Rightarrow> bool" where
  "isFullAuto mode \<longleftrightarrow> mode = Full_auto"

definition holdsForReview :: "review_mode \<Rightarrow> bool" where
  "holdsForReview mode \<longleftrightarrow> mode = Human_review"

definition suggestionDecision :: "review_mode \<Rightarrow> string" where
  "suggestionDecision mode = ''suggestion_ready''"

lemma review_mode_exclusive: "isFullAuto m \<longleftrightarrow> \<not> holdsForReview m"
  by (cases m) (simp_all add: isFullAuto_def holdsForReview_def)

subsection \<open>Feedback intent\<close>

datatype feedback_class = MANUAL | AUTO | NO_SAVE

definition classifyIntent :: "review_mode \<Rightarrow> string \<Rightarrow> feedback_class" where
  "classifyIntent mode key =
     (if key = ''Alt+Enter'' then NO_SAVE
      else if key = ''Enter'' then MANUAL
      else if mode = Full_auto \<or> key = ''countdown'' \<or> key = ''auto'' then AUTO
      else MANUAL)"

lemma classifyIntent_no_save_iff: "classifyIntent m k = NO_SAVE \<longleftrightarrow> k = ''Alt+Enter''"
  by (simp add: classifyIntent_def)

subsection \<open>Pre-send revalidation\<close>

definition shouldRevalidate :: "review_mode \<Rightarrow> string \<Rightarrow> bool" where
  "shouldRevalidate mode key \<longleftrightarrow> mode = Human_review \<and> key = ''Enter''"

lemma shouldRevalidate_is_manual: "shouldRevalidate m k \<Longrightarrow> classifyIntent m k = MANUAL"
  by (simp add: shouldRevalidate_def classifyIntent_def)

subsection \<open>Generation token\<close>

record generation_token =
  gt_value :: int

definition new_token :: generation_token where
  "new_token = \<lparr>gt_value = 0\<rparr>"

definition token_next :: "generation_token \<Rightarrow> int \<times> generation_token" where
  "token_next t = (let v = gt_value t + 1 in (v, t\<lparr>gt_value := v\<rparr>))"

definition token_current :: "generation_token \<Rightarrow> int" where
  "token_current t = gt_value t"

definition token_set :: "int \<Rightarrow> generation_token \<Rightarrow> generation_token" where
  "token_set v t = t\<lparr>gt_value := v\<rparr>"

lemma token_next_fresh:
  "fst (token_next t) = token_current (snd (token_next t))"
  "token_current t < token_current (snd (token_next t))"
  by (simp_all add: token_next_def token_current_def Let_def)

subsection \<open>Countdown\<close>

record countdown_decision =
  cd_remainingTicks :: int
  cd_elapsedTicks :: int
  cd_reachedZero :: bool

definition elapse :: "int \<Rightarrow> int \<Rightarrow> int \<Rightarrow> countdown_decision" where
  "elapse remainingTicks elapsedMs tickMs =
     (if remainingTicks \<le> 0
      then \<lparr>cd_remainingTicks = 0, cd_elapsedTicks = 0, cd_reachedZero = True\<rparr>
      else let step = max 1 tickMs;
               elapsedTicks = elapsedMs div step;
               nxt = max 0 (remainingTicks - elapsedTicks)
           in \<lparr>cd_remainingTicks = nxt, cd_elapsedTicks = elapsedTicks, cd_reachedZero = (nxt = 0)\<rparr>)"

lemma elapse_remaining_nonneg: "0 \<le> cd_remainingTicks (elapse r e t)"
  by (simp add: elapse_def Let_def)

lemma elapse_zero_iff: "cd_reachedZero (elapse r e t) \<longleftrightarrow> cd_remainingTicks (elapse r e t) = 0"
  by (simp add: elapse_def Let_def)

lemma elapse_decreases: "0 \<le> e \<Longrightarrow> cd_remainingTicks (elapse r e t) \<le> max 0 r"
  by (auto simp: elapse_def Let_def pos_imp_zdiv_nonneg_iff)

lemma elapse_reached_iff:
  assumes "0 < r" and "1 \<le> t"
  shows "cd_reachedZero (elapse r e t) \<longleftrightarrow> r * t \<le> e"
proof -
  have "cd_reachedZero (elapse r e t) \<longleftrightarrow> r \<le> e div t"
    using assms by (auto simp: elapse_def Let_def max_def)
  also have "\<dots> \<longleftrightarrow> r * t \<le> e"
  proof
    assume "r \<le> e div t"
    then have "r * t \<le> e div t * t"
      using assms by (simp add: mult_right_mono)
    also have "\<dots> \<le> e"
      using assms by (metis div_mult_mod_eq le_add_same_cancel1 pos_mod_sign zero_less_one order_less_le_trans)
    finally show "r * t \<le> e" .
  next
    assume "r * t \<le> e"
    then have "r * t div t \<le> e div t"
      using assms by (intro zdiv_mono1) simp_all
    then show "r \<le> e div t"
      using assms by simp
  qed
  finally show ?thesis .
qed

subsection \<open>Takeover breaker\<close>

datatype breaker_decision = No_takeover | Takeover_breaker_triggered | Window_exact | Window_exceeded

record breaker =
  br_threshold :: int
  br_windowMs :: int
  br_consecutive :: int
  br_firstReplyAt :: "int option"

definition new_breaker :: "int \<Rightarrow> int \<Rightarrow> breaker" where
  "new_breaker th w = \<lparr>br_threshold = th, br_windowMs = w, br_consecutive = 0, br_firstReplyAt = None\<rparr>"

definition br_reset :: "breaker \<Rightarrow> breaker" where
  "br_reset b = b\<lparr>br_consecutive := 0, br_firstReplyAt := None\<rparr>"

definition recordReply :: "int \<Rightarrow> breaker \<Rightarrow> breaker" where
  "recordReply now b =
     (let b1 = (case br_firstReplyAt b of
                  Some f \<Rightarrow> if now - f > br_windowMs b
                            then b\<lparr>br_consecutive := 0, br_firstReplyAt := Some now\<rparr> else b
                | None \<Rightarrow> b);
          b2 = (if br_consecutive b1 = 0 then b1\<lparr>br_firstReplyAt := Some now\<rparr> else b1)
      in b2\<lparr>br_consecutive := br_consecutive b2 + 1\<rparr>)"

definition br_decide :: "int \<Rightarrow> breaker \<Rightarrow> breaker_decision \<times> breaker" where
  "br_decide now b =
     (if br_consecutive b < br_threshold b then (No_takeover, b)
      else let first = (case br_firstReplyAt b of Some f \<Rightarrow> f | None \<Rightarrow> now);
               elapsed = now - first
           in if elapsed > br_windowMs b then (Window_exceeded, br_reset b)
              else if elapsed = br_windowMs b then (Window_exact, b)
              else (Takeover_breaker_triggered, b))"

datatype breaker_event = Reply int | Decide int | Reset

definition breaker_step :: "breaker_event \<Rightarrow> breaker \<Rightarrow> breaker" where
  "breaker_step e b = (case e of Reply now \<Rightarrow> recordReply now b | Decide now \<Rightarrow> snd (br_decide now b)
     | Reset \<Rightarrow> br_reset b)"

text \<open>The count is positive exactly when a first reply time is kept.\<close>

definition breaker_inv :: "breaker \<Rightarrow> bool" where
  "breaker_inv b \<longleftrightarrow> 0 \<le> br_consecutive b \<and> (br_firstReplyAt b = None \<longleftrightarrow> br_consecutive b = 0)"

lemma recordReply_inv: "breaker_inv b \<Longrightarrow> breaker_inv (recordReply now b)"
  by (auto simp: breaker_inv_def recordReply_def Let_def split: option.splits)

lemma br_decide_inv: "breaker_inv b \<Longrightarrow> breaker_inv (snd (br_decide now b))"
  by (auto simp: breaker_inv_def br_decide_def br_reset_def Let_def)

lemma br_reset_inv: "breaker_inv (br_reset b)"
  by (simp add: breaker_inv_def br_reset_def)

interpretation breaker_sys: step_invariant breaker_step breaker_inv "\<lambda>_. True"
  by unfold_locales
     (simp add: breaker_step_def br_decide_inv recordReply_inv br_reset_inv split: breaker_event.splits)

lemma new_breaker_inv: "breaker_inv (new_breaker th w)"
  by (simp add: breaker_inv_def new_breaker_def)

lemma br_decide_cases:
  assumes "breaker_inv b" and "0 < br_threshold b" and "br_threshold b \<le> br_consecutive b"
  shows "\<exists>f. br_firstReplyAt b = Some f \<and>
     fst (br_decide now b) =
       (if now - f < br_windowMs b then Takeover_breaker_triggered
        else if now - f = br_windowMs b then Window_exact else Window_exceeded)"
proof -
  from assms obtain f where f: "br_firstReplyAt b = Some f"
    by (cases "br_firstReplyAt b") (simp_all add: breaker_inv_def)
  with assms show ?thesis
    by (simp add: br_decide_def)
qed

text \<open>Only the first reply of a burst sets the window's start; later ones inside it keep it.\<close>

lemma recordReply_in_window:
  assumes "br_firstReplyAt b = Some f" and "br_consecutive b \<noteq> 0" and "now - f \<le> br_windowMs b"
  shows "br_firstReplyAt (recordReply now b) = Some f"
    and "br_consecutive (recordReply now b) = br_consecutive b + 1"
  using assms by (simp_all add: recordReply_def Let_def)

lemma recordReply_after_window:
  assumes "br_firstReplyAt b = Some f" and "br_windowMs b < now - f"
  shows "br_firstReplyAt (recordReply now b) = Some now"
    and "br_consecutive (recordReply now b) = 1"
  using assms by (simp_all add: recordReply_def Let_def)

lemma breaker_params:
  "br_threshold (recordReply now b) = br_threshold b" "br_windowMs (recordReply now b) = br_windowMs b"
  by (simp_all add: recordReply_def Let_def split: option.splits)

end
