(* ===== verification/Serializer.thy ===== *)
theory Serializer imports Policies begin

text \<open>
  The per-conversation send serializer: \<open>packages/orchestrator/src/core/send-serializer.ts\<close>,
  with the send request of \<open>packages/orchestrator/src/state/conversation-runtime-state.ts\<close>.
  A key is busy from the \<open>enqueue\<close> that starts it until a \<open>dequeue\<close> finds its queue empty (or
  \<open>markDone\<close>). The locale \<open>keyed_fifo\<close> is the contract the orchestrator uses: per key a first-in
  first-out queue, independent of the other keys.
\<close>

record send_request =
  sr_shopId :: string
  sr_conversationId :: string
  sr_reply :: string
  sr_generation :: int
  sr_mode :: review_mode

record serializer =
  se_sending :: "string set"
  se_queues :: "string \<Rightarrow> send_request list option"

datatype serializer_status = Started | Serialized_wait

definition new_serializer :: serializer where
  "new_serializer = \<lparr>se_sending = {}, se_queues = Map.empty\<rparr>"

definition ser_key :: "string \<Rightarrow> string \<Rightarrow> string" where
  "ser_key shopId conversationId = shopId @ [CHR 0x00] @ conversationId"

text \<open>\<open>this.queues.get(key) ?? []\<close>, the list \<open>queue(key)\<close> copies.\<close>

definition queue_of :: "serializer \<Rightarrow> string \<Rightarrow> send_request list" where
  "queue_of se key = (case se_queues se key of Some q \<Rightarrow> q | None \<Rightarrow> [])"

definition isSending :: "serializer \<Rightarrow> string \<Rightarrow> bool" where
  "isSending se key \<longleftrightarrow> key \<in> se_sending se"

definition queueSize :: "serializer \<Rightarrow> string \<Rightarrow> nat" where
  "queueSize se key = length (queue_of se key)"

definition enqueue :: "string \<Rightarrow> send_request \<Rightarrow> serializer \<Rightarrow> serializer_status \<times> serializer" where
  "enqueue key request se =
     (let se1 = se\<lparr>se_queues := (se_queues se)(key \<mapsto> queue_of se key @ [request])\<rparr>
      in if isSending se1 key then (Serialized_wait, se1)
         else (Started, se1\<lparr>se_sending := insert key (se_sending se1)\<rparr>))"

definition dequeue :: "string \<Rightarrow> serializer \<Rightarrow> send_request option \<times> serializer" where
  "dequeue key se =
     (case se_queues se key of
        None \<Rightarrow> (None, se\<lparr>se_sending := se_sending se - {key}\<rparr>)
      | Some [] \<Rightarrow> (None, se\<lparr>se_sending := se_sending se - {key}\<rparr>)
      | Some (request # rest) \<Rightarrow>
          (Some request, se\<lparr>se_queues := (se_queues se)(key \<mapsto> rest),
                            se_sending := insert key (se_sending se)\<rparr>))"

definition markDone :: "string \<Rightarrow> serializer \<Rightarrow> serializer" where
  "markDone key se = se\<lparr>se_sending := se_sending se - {key}\<rparr>"

definition setSending :: "string \<Rightarrow> bool \<Rightarrow> serializer \<Rightarrow> serializer" where
  "setSending key value se =
     (if value then se\<lparr>se_sending := insert key (se_sending se)\<rparr>
      else se\<lparr>se_sending := se_sending se - {key}\<rparr>)"

definition seedQueue :: "string \<Rightarrow> send_request list \<Rightarrow> serializer \<Rightarrow> serializer" where
  "seedQueue key requests se = se\<lparr>se_queues := (se_queues se)(key \<mapsto> requests)\<rparr>"

text \<open>The separator keeps keys of different conversations apart when no shop id holds a NUL.\<close>

lemma ser_key_inject:
  assumes "CHR 0x00 \<notin> set s" and "CHR 0x00 \<notin> set s'" and "ser_key s c = ser_key s' c'"
  shows "s = s' \<and> c = c'"
proof -
  have "takeWhile (\<lambda>x. x \<noteq> CHR 0x00) (ser_key s c) = s"
    using assms(1) by (simp add: ser_key_def takeWhile_append)
  moreover have "takeWhile (\<lambda>x. x \<noteq> CHR 0x00) (ser_key s' c') = s'"
    using assms(2) by (simp add: ser_key_def takeWhile_append)
  ultimately have "s = s'"
    using assms(3) by simp
  with assms(3) show ?thesis by (simp add: ser_key_def)
qed

lemma queue_of_enqueue [simp]:
  "queue_of (snd (enqueue k r se)) k' = (if k' = k then queue_of se k @ [r] else queue_of se k')"
  by (simp add: enqueue_def queue_of_def isSending_def Let_def)

lemma sending_enqueue [simp]: "se_sending (snd (enqueue k r se)) = insert k (se_sending se)"
  by (auto simp: enqueue_def isSending_def Let_def)

lemma enqueue_status: "fst (enqueue k r se) = (if isSending se k then Serialized_wait else Started)"
  by (simp add: enqueue_def isSending_def Let_def)

lemma dequeue_queue_of:
  "dequeue k se = (case queue_of se k of
      [] \<Rightarrow> (None, se\<lparr>se_sending := se_sending se - {k}\<rparr>)
    | r # rest \<Rightarrow> (Some r, se\<lparr>se_queues := (se_queues se)(k \<mapsto> rest), se_sending := insert k (se_sending se)\<rparr>))"
  by (simp add: dequeue_def queue_of_def split: option.splits list.splits)

lemma fst_dequeue: "fst (dequeue k se) = (case queue_of se k of [] \<Rightarrow> None | r # _ \<Rightarrow> Some r)"
  by (simp add: dequeue_queue_of split: list.splits)

lemma queue_of_dequeue [simp]:
  "queue_of (snd (dequeue k se)) k' = (if k' = k then tl (queue_of se k) else queue_of se k')"
  by (auto simp: dequeue_queue_of queue_of_def split: list.splits option.splits)

lemma sending_dequeue [simp]:
  "se_sending (snd (dequeue k se)) = (if queue_of se k = [] then se_sending se - {k} else insert k (se_sending se))"
  by (simp add: dequeue_queue_of split: list.splits)

lemma markDone_simps [simp]:
  "queue_of (markDone k se) k' = queue_of se k'" "se_sending (markDone k se) = se_sending se - {k}"
  by (simp_all add: markDone_def queue_of_def)

lemma new_serializer_simps [simp]:
  "queue_of new_serializer k = []" "se_sending new_serializer = {}"
  by (simp_all add: new_serializer_def queue_of_def)

subsection \<open>The contract\<close>

text \<open>Feeding a list of requests into a queue, and taking \<open>n\<close> times from it.\<close>

fun enq_all :: "('k \<Rightarrow> 'r \<Rightarrow> 'q \<Rightarrow> 'q) \<Rightarrow> 'k \<Rightarrow> 'r list \<Rightarrow> 'q \<Rightarrow> 'q" where
  "enq_all enq k [] q = q"
| "enq_all enq k (r # rs) q = enq_all enq k rs (enq k r q)"

fun deq_n :: "('k \<Rightarrow> 'q \<Rightarrow> 'r option \<times> 'q) \<Rightarrow> nat \<Rightarrow> 'k \<Rightarrow> 'q \<Rightarrow> 'r option list \<times> 'q" where
  "deq_n deq 0 k q = ([], q)"
| "deq_n deq (Suc n) k q = (let (r, q') = deq k q; (rs, q'') = deq_n deq n k q' in (r # rs, q''))"

locale keyed_fifo =
  fixes empty :: 'q
    and enq :: "'k \<Rightarrow> 'r \<Rightarrow> 'q \<Rightarrow> 'q"
    and deq :: "'k \<Rightarrow> 'q \<Rightarrow> 'r option \<times> 'q"
    and contents :: "'q \<Rightarrow> 'k \<Rightarrow> 'r list"
  assumes contents_empty: "contents empty k = []"
    and contents_enq: "contents (enq k r q) k' = (if k' = k then contents q k @ [r] else contents q k')"
    and deq_result: "fst (deq k q) = (case contents q k of [] \<Rightarrow> None | r # _ \<Rightarrow> Some r)"
    and contents_deq: "contents (snd (deq k q)) k' = (if k' = k then tl (contents q k) else contents q k')"
begin

lemma contents_enq_all: "contents (enq_all enq k rs q) k' = (if k' = k then contents q k @ rs else contents q k')"
  by (induction rs arbitrary: q) (simp_all add: contents_enq)

lemma deq_n_contents:
  "n \<le> length (contents q k) \<Longrightarrow>
     fst (deq_n deq n k q) = map Some (take n (contents q k)) \<and>
     contents (snd (deq_n deq n k q)) k = drop n (contents q k)"
proof (induction n arbitrary: q)
  case 0
  then show ?case by simp
next
  case (Suc n)
  then obtain r rest where c: "contents q k = r # rest"
    by (cases "contents q k") auto
  have "contents (snd (deq k q)) k = rest" and "fst (deq k q) = Some r"
    using c by (simp_all add: contents_deq deq_result)
  with Suc.IH [of "snd (deq k q)"] Suc.prems c show ?case
    by (simp add: case_prod_beta' Let_def)
qed

lemma deq_n_other: "k' \<noteq> k \<Longrightarrow> contents (snd (deq_n deq n k q)) k' = contents q k'"
  by (induction n arbitrary: q) (simp_all add: case_prod_beta' Let_def contents_deq)

text \<open>What goes in comes out in order, whatever was queued for the key before is served first.\<close>

lemma fifo:
  "fst (deq_n deq (length (contents q k) + length rs) k (enq_all enq k rs q)) = map Some (contents q k @ rs)"
  using deq_n_contents [of "length (contents q k) + length rs" "enq_all enq k rs q" k]
  by (simp add: contents_enq_all)

lemma drained:
  "contents (snd (deq_n deq (length (contents q k) + length rs) k (enq_all enq k rs q))) k'
     = (if k' = k then [] else contents q k')"
  using deq_n_contents [of "length (contents q k) + length rs" "enq_all enq k rs q" k]
  by (simp add: contents_enq_all deq_n_other)

end

interpretation ser: keyed_fifo new_serializer "\<lambda>k r se. snd (enqueue k r se)" dequeue queue_of
  by unfold_locales (simp_all add: fst_dequeue)

end
