(* ===== verification/Segments.thy ===== *)
theory Segments imports Prelude "HOL-Library.Multiset" begin

text \<open>
  Segmented sending: \<open>packages/orchestrator/src/policies/segmented-send-policy.ts\<close> and
  \<open>packages/orchestrator/src/core/segmented-sender.ts\<close>.

  \<open>seg_split\<close> is the policy that cuts a reply at \<open>###\<close>. The sender has two paths. With a
  non-positive interval it sends part after part and stops at the first failure
  (\<open>sender_response\<close> is the continuation of its loop after one \<open>sendText\<close> promise). With a
  positive interval it arms one timer per part (\<open>sched_*\<close>): the state record holds what the
  closures share (\<open>remaining\<close>, \<open>failed\<close>, the promise), and the events are the firing of a timer,
  the micro-task of the zero-delay guard, and the settlement of a \<open>sendText\<close> call.
\<close>

subsection \<open>Attempts\<close>

text \<open>The \<open>unknown\<close> error of a send attempt, by what \<open>normalizeError\<close> distinguishes.\<close>

datatype js_error =
    ErrorObject string  \<comment> \<open>\<open>instanceof Error\<close>, its message\<close>
  | ErrorString string
  | MessageObject string  \<comment> \<open>an object with a \<open>message\<close>, converted by \<open>String\<close>\<close>
  | OtherError

record send_attempt =
  sa_ok :: bool
  sa_messageId :: "string option"
  sa_error :: js_error

definition ok_attempt :: send_attempt where
  "ok_attempt = \<lparr>sa_ok = True, sa_messageId = None, sa_error = OtherError\<rparr>"

text \<open>A promise settles with a value or rejects with an error.\<close>

type_synonym settlement = "js_error + send_attempt"

subsection \<open>The split policy\<close>

record segmented_send_part =
  sp_text :: string
  sp_virtualTimeMs :: int

definition seg_split :: "string \<Rightarrow> int \<Rightarrow> segmented_send_part list" where
  "seg_split reply intervalMs =
     (if reply = [] then []
      else let parts = js_split ''###'' reply;
               nonEmpty = filter (\<lambda>part. part \<noteq> []) parts;
               step = (if intervalMs > 0 then intervalMs else 0)
           in map (\<lambda>(index, text). \<lparr>sp_text = text, sp_virtualTimeMs = int index * step\<rparr>)
                (enumerate 0 nonEmpty))"

lemma seg_split_texts:
  "map sp_text (seg_split reply i) = filter (\<lambda>p. p \<noteq> []) (js_split ''###'' reply)"
  by (simp add: seg_split_def Let_def comp_def case_prod_beta' map_snd_enumerate [unfolded comp_def])

lemma length_seg_split:
  "length (seg_split reply i) = length (filter (\<lambda>p. p \<noteq> []) (js_split ''###'' reply))"
  by (metis length_map seg_split_texts)

lemma seg_split_time:
  assumes "k < length (seg_split reply i)"
  shows "sp_virtualTimeMs (seg_split reply i ! k) = int k * max 0 i"
  using assms by (auto simp: seg_split_def Let_def nth_enumerate_eq split: if_splits)

lemma concat_filter_nonempty: "concat (filter (\<lambda>p. p \<noteq> []) ps) = concat ps"
  by (induction ps) auto

lemma seg_split_no_separator:
  assumes "part \<in> set (seg_split reply i)"
  shows "sp_text part \<noteq> []" and "\<not> sublist ''###'' (sp_text part)"
proof -
  have "sp_text part \<in> set (filter (\<lambda>p. p \<noteq> []) (js_split ''###'' reply))"
    using assms seg_split_texts [of reply i] by (metis image_eqI image_set)
  then show "sp_text part \<noteq> []" and "\<not> sublist ''###'' (sp_text part)"
    using js_split_no_sep [of "''###''"] by auto
qed

subsection \<open>The immediate path\<close>

text \<open>
  The loop \<open>for (const part of parts) { const attempt = await sendText(...); ... }\<close>, cut at
  its \<open>await\<close>: \<open>Awaiting t ts\<close> has called \<open>sendText\<close> with \<open>[t]\<close> and has \<open>ts\<close> to go.
\<close>

datatype sender_state = Awaiting string "string list" | Settled settlement

definition sender_start :: "string list \<Rightarrow> sender_state" where
  "sender_start texts = (case texts of [] \<Rightarrow> Settled (Inr ok_attempt) | t # ts \<Rightarrow> Awaiting t ts)"

fun sender_response :: "settlement \<Rightarrow> sender_state \<Rightarrow> sender_state" where
  "sender_response r (Settled x) = Settled x"
| "sender_response (Inl e) (Awaiting t ts) = Settled (Inl e)"
| "sender_response (Inr a) (Awaiting t ts) = (if \<not> sa_ok a then Settled (Inr a) else sender_start ts)"

text \<open>The \<open>sendText\<close> calls made against a list of responses, and the final state.\<close>

fun sender_calls :: "settlement list \<Rightarrow> sender_state \<Rightarrow> string list" where
  "sender_calls rs (Settled x) = []"
| "sender_calls [] (Awaiting t ts) = [t]"
| "sender_calls (r # rs) (Awaiting t ts) = t # sender_calls rs (sender_response r (Awaiting t ts))"

definition good :: "settlement \<Rightarrow> bool" where
  "good r = (case r of Inl _ \<Rightarrow> False | Inr a \<Rightarrow> sa_ok a)"

lemma sender_start_Settled: "sender_start ts = Settled x \<longleftrightarrow> ts = [] \<and> x = Inr ok_attempt"
  by (auto simp: sender_start_def split: list.splits)

text \<open>All parts go out in order when every call succeeds, and the promise is \<open>ok\<close>.\<close>

lemma sender_all_good:
  assumes "length rs = length ts" and "list_all good rs"
  shows "sender_calls rs (sender_start ts) = ts"
    and "run sender_response rs (sender_start ts) = Settled (Inr ok_attempt)"
proof -
  have "sender_calls rs (sender_start ts) = ts \<and>
        run sender_response rs (sender_start ts) = Settled (Inr ok_attempt)"
    using assms
  proof (induction rs ts rule: list_induct2)
    case Nil
    then show ?case by (simp add: sender_start_def)
  next
    case (Cons r rs t ts)
    then obtain a where "r = Inr a" and "sa_ok a"
      by (cases r) (auto simp: good_def)
    with Cons show ?case by (simp add: sender_start_def)
  qed
  then show "sender_calls rs (sender_start ts) = ts"
    and "run sender_response rs (sender_start ts) = Settled (Inr ok_attempt)"
    by simp_all
qed

lemma run_Settled: "run sender_response rs (Settled x) = Settled x"
  by (induction rs) simp_all

text \<open>
  The first bad response ends the send: the parts up to it went out, none after it, and the
  promise carries that response.
\<close>

lemma sender_first_failure:
  assumes "length gs = length us" and "list_all good gs" and "\<not> good b"
  shows "sender_calls (gs @ b # rs) (sender_start (us @ t # ts)) = us @ [t]"
    and "run sender_response (gs @ b # rs) (sender_start (us @ t # ts)) = Settled b"
proof -
  have "sender_calls (gs @ b # rs) (sender_start (us @ t # ts)) = us @ [t] \<and>
        run sender_response (gs @ b # rs) (sender_start (us @ t # ts)) = Settled b"
    using assms(1,2)
  proof (induction gs us rule: list_induct2)
    case Nil
    from \<open>\<not> good b\<close> show ?case
      by (cases b) (auto simp: sender_start_def good_def run_Settled)
  next
    case (Cons r gs u us)
    then obtain a where "r = Inr a" and "sa_ok a"
      by (cases r) (auto simp: good_def)
    with Cons show ?case by (simp add: sender_start_def)
  qed
  then show "sender_calls (gs @ b # rs) (sender_start (us @ t # ts)) = us @ [t]"
    and "run sender_response (gs @ b # rs) (sender_start (us @ t # ts)) = Settled b"
    by simp_all
qed

subsection \<open>The scheduled path\<close>

record sched =
  sc_parts :: "segmented_send_part list"
  sc_timers :: "nat list"  \<comment> \<open>parts whose timer has not fired\<close>
  sc_guard :: bool  \<comment> \<open>the zero-delay micro-task is queued\<close>
  sc_inflight :: nat  \<comment> \<open>\<open>sendText\<close> calls not settled\<close>
  sc_remaining :: int
  sc_failed :: "send_attempt option"
  sc_promise :: "send_attempt option"  \<comment> \<open>the value the promise resolved with\<close>
  sc_calls :: "string list"  \<comment> \<open>texts passed to \<open>sendText\<close>, in order\<close>

definition sched_start :: "segmented_send_part list \<Rightarrow> sched" where
  "sched_start parts =
     \<lparr>sc_parts = parts, sc_timers = [0..<length parts],
      sc_guard = (length parts > 0 \<and> list_all (\<lambda>p. sp_virtualTimeMs p = 0) parts),
      sc_inflight = 0, sc_remaining = int (length parts), sc_failed = None, sc_promise = None,
      sc_calls = []\<rparr>"

text \<open>\<open>finishIfNeeded\<close>; resolving a settled promise again has no effect.\<close>

definition finishIfNeeded :: "sched \<Rightarrow> sched" where
  "finishIfNeeded s =
     (if sc_remaining s = 0 \<and> sc_promise s = None
      then s\<lparr>sc_promise := Some (case sc_failed s of Some a \<Rightarrow> a | None \<Rightarrow> ok_attempt)\<rparr> else s)"

text \<open>The handlers of a settled call: \<open>then\<close> for a value, \<open>catch\<close> for a rejection.\<close>

definition call_settled :: "settlement \<Rightarrow> sched \<Rightarrow> sched" where
  "call_settled r s =
     (let a = (case r of Inr a \<Rightarrow> a | Inl e \<Rightarrow> \<lparr>sa_ok = False, sa_messageId = None, sa_error = e\<rparr>);
          s1 = (if \<not> sa_ok a \<and> sc_failed s = None then s\<lparr>sc_failed := Some a\<rparr> else s)
      in finishIfNeeded (s1\<lparr>sc_remaining := sc_remaining s1 - 1, sc_inflight := sc_inflight s1 - 1\<rparr>))"

definition timer_fired :: "nat \<Rightarrow> sched \<Rightarrow> sched" where
  "timer_fired i s =
     (let s1 = s\<lparr>sc_timers := remove1 i (sc_timers s)\<rparr>
      in if sc_failed s \<noteq> None then s1
         else s1\<lparr>sc_inflight := sc_inflight s1 + 1, sc_calls := sc_calls s1 @ [sp_text (sc_parts s ! i)]\<rparr>)"

definition guard_ran :: "sched \<Rightarrow> sched" where
  "guard_ran s = s\<lparr>sc_guard := False, sc_inflight := sc_inflight s + length (sc_parts s),
     sc_calls := sc_calls s @ map sp_text (sc_parts s)\<rparr>"

datatype sched_event = Fire nat | Guard | Settle settlement

definition sched_step :: "sched_event \<Rightarrow> sched \<Rightarrow> sched" where
  "sched_step e s = (case e of
       Fire i \<Rightarrow> if i \<in> set (sc_timers s) then timer_fired i s else s
     | Guard \<Rightarrow> if sc_guard s then guard_ran s else s
     | Settle r \<Rightarrow> if sc_inflight s > 0 then call_settled r s else s)"

text \<open>
  With more than one part and a positive interval the guard is off. As long as nothing failed,
  \<open>remaining\<close> counts the timers to fire and the calls in flight, and the promise is open
  exactly while that count is positive.
\<close>

definition sched_inv :: "sched \<Rightarrow> bool" where
  "sched_inv s \<longleftrightarrow> \<not> sc_guard s \<and> distinct (sc_timers s) \<and>
     (sc_failed s = None \<longrightarrow>
        sc_remaining s = int (length (sc_timers s)) + int (sc_inflight s) \<and>
        (if sc_remaining s = 0 then sc_promise s = Some ok_attempt else sc_promise s = None))"

lemma sched_start_inv:
  assumes "2 \<le> length parts" and "sp_virtualTimeMs (parts ! 1) \<noteq> 0"
  shows "sched_inv (sched_start parts)"
proof -
  have "\<not> list_all (\<lambda>p. sp_virtualTimeMs p = 0) parts"
    using assms by (force simp: list_all_length)
  with assms show ?thesis
    by (auto simp: sched_inv_def sched_start_def)
qed

lemma length_remove1_int: "i \<in> set ts \<Longrightarrow> int (length (remove1 i ts)) = int (length ts) - 1"
  using length_pos_if_in_set [of i ts] by (simp add: length_remove1 of_nat_diff Suc_le_eq)

lemma timer_fired_inv: "sched_inv s \<Longrightarrow> i \<in> set (sc_timers s) \<Longrightarrow> sched_inv (timer_fired i s)"
  using length_remove1_int [of i "sc_timers s"] length_pos_if_in_set [of i "sc_timers s"]
  by (auto simp: sched_inv_def timer_fired_def Let_def split: if_splits)

lemma call_settled_inv: "sched_inv s \<Longrightarrow> 0 < sc_inflight s \<Longrightarrow> sched_inv (call_settled r s)"
  by (auto simp: sched_inv_def call_settled_def finishIfNeeded_def Let_def split: sum.splits if_splits)

lemma sched_step_inv: "sched_inv s \<Longrightarrow> sched_inv (sched_step e s)"
  by (cases e) (simp_all add: sched_step_def timer_fired_inv call_settled_inv, simp add: sched_inv_def)

interpretation sched_sys: step_invariant sched_step sched_inv "\<lambda>_. True"
  by unfold_locales (rule sched_step_inv)

text \<open>
  A failure with a timer still to fire leaves more \<open>remaining\<close> than calls in flight, and nothing
  brings the two together again.
\<close>

definition stuck :: "sched \<Rightarrow> bool" where
  "stuck s \<longleftrightarrow> sc_failed s \<noteq> None \<and> sc_promise s = None \<and> \<not> sc_guard s \<and>
     int (sc_inflight s) < sc_remaining s"

lemma stuck_step: "stuck s \<Longrightarrow> stuck (sched_step e s)"
  by (cases e)
     (auto simp: stuck_def sched_step_def timer_fired_def call_settled_def finishIfNeeded_def Let_def
       split: sum.splits if_splits)

interpretation stuck_sys: step_invariant sched_step stuck "\<lambda>_. True"
  by unfold_locales (rule stuck_step)

lemma failure_before_last_timer_sticks:
  assumes "sched_inv s" and "sc_failed s = None" and "sc_timers s \<noteq> []"
    and "sc_inflight s > 0" and "\<not> good r"
  shows "stuck (sched_step (Settle r) s)"
proof -
  have "1 \<le> int (length (sc_timers s))"
    using assms by (cases "sc_timers s") simp_all
  then have "1 + int (sc_inflight s) \<le> sc_remaining s" and "sc_promise s = None"
    using assms by (auto simp: sched_inv_def split: if_splits)
  with assms show ?thesis
    by (cases r)
       (auto simp: sched_inv_def stuck_def sched_step_def call_settled_def finishIfNeeded_def Let_def good_def)
qed

text \<open>
  While nothing failed, every part is either a timer to fire or a call made: nothing is sent twice
  and nothing is lost.
\<close>

definition parts_accounted :: "sched \<Rightarrow> bool" where
  "parts_accounted s \<longleftrightarrow> sched_inv s \<and> sc_failed s = None \<and> set (sc_timers s) \<subseteq> {..<length (sc_parts s)} \<and>
     mset (sc_calls s) + image_mset (\<lambda>i. sp_text (sc_parts s ! i)) (mset (sc_timers s)) = mset (map sp_text (sc_parts s))"

fun good_event :: "sched_event \<Rightarrow> bool" where
  "good_event (Settle r) = good r"
| "good_event _ = True"

lemma sched_start_accounted:
  assumes "2 \<le> length parts" and "sp_virtualTimeMs (parts ! 1) \<noteq> 0"
  shows "parts_accounted (sched_start parts)"
proof -
  have "map (\<lambda>i. sp_text (parts ! i)) [0..<length parts] = map sp_text parts"
    by (rule nth_equalityI) simp_all
  then have "image_mset (\<lambda>i. sp_text (parts ! i)) (mset [0..<length parts]) = mset (map sp_text parts)"
    by (metis mset_map)
  then show ?thesis
    using sched_start_inv [OF assms] by (simp add: parts_accounted_def sched_start_def lessThan_atLeast0)
qed

lemma timer_fired_accounted:
  assumes "parts_accounted s" and "i \<in> set (sc_timers s)"
  shows "parts_accounted (timer_fired i s)"
proof -
  let ?text = "\<lambda>i. sp_text (sc_parts s ! i)"
  have inv: "sched_inv (timer_fired i s)"
    using assms timer_fired_inv by (simp add: parts_accounted_def)
  have "mset (sc_timers s) = add_mset i (mset (remove1 i (sc_timers s)))"
    using assms(2) by simp
  then have "add_mset (?text i) (image_mset ?text (mset (remove1 i (sc_timers s)))) = image_mset ?text (mset (sc_timers s))"
    by (metis image_mset_add_mset)
  then have "mset (sc_calls s @ [?text i]) + image_mset ?text (mset (remove1 i (sc_timers s))) =
      mset (map sp_text (sc_parts s))"
    using assms(1) by (simp add: parts_accounted_def del: mset_map mset_remove1) (metis add_mset_add_single union_mset_add_mset_right)
  then show ?thesis
    using assms inv set_remove1_subset [of i "sc_timers s"]
    by (auto simp: parts_accounted_def timer_fired_def Let_def simp del: mset_map mset_remove1)
qed

lemma call_settled_accounted:
  assumes "parts_accounted s" and "0 < sc_inflight s" and "good r"
  shows "parts_accounted (call_settled r s)"
proof -
  obtain a where "r = Inr a" and "sa_ok a"
    using assms(3) by (cases r) (auto simp: good_def)
  then show ?thesis
    using assms call_settled_inv [of s r]
    by (simp add: parts_accounted_def call_settled_def finishIfNeeded_def Let_def)
qed

interpretation accounted_sys: step_invariant sched_step parts_accounted good_event
proof
  fix s e
  assume s: "parts_accounted s" and e: "good_event e"
  show "parts_accounted (sched_step e s)"
  proof (cases e)
    case (Fire i)
    then show ?thesis using s timer_fired_accounted by (simp add: sched_step_def)
  next
    case Guard
    then show ?thesis using s by (simp add: sched_step_def parts_accounted_def sched_inv_def)
  next
    case (Settle r)
    then show ?thesis using s e call_settled_accounted by (simp add: sched_step_def)
  qed
qed

subsection \<open>The sender\<close>

text \<open>\<open>SegmentedSender.send\<close>: the state it starts in.\<close>

datatype sending = Sequential sender_state | Scheduled sched

definition sender_send :: "string \<Rightarrow> int \<Rightarrow> sending" where
  "sender_send reply intervalMs =
     (let parts = seg_split reply intervalMs
      in if length parts = 0 then Sequential (Settled (Inr ok_attempt))
         else if intervalMs \<le> 0 then Sequential (sender_start (map sp_text parts))
         else Scheduled (sched_start parts))"

lemma sender_send_scheduled:
  assumes "0 < intervalMs" and "2 \<le> length (seg_split reply intervalMs)"
  shows "sender_send reply intervalMs = Scheduled (sched_start (seg_split reply intervalMs))"
    and "sp_virtualTimeMs (seg_split reply intervalMs ! 1) \<noteq> 0"
  using assms seg_split_time [of 1 reply intervalMs] by (auto simp: sender_send_def Let_def)

lemma seg_split_single:
  assumes "length (seg_split reply i) = 1"
  obtains t where "seg_split reply i = [\<lparr>sp_text = t, sp_virtualTimeMs = 0\<rparr>]"
proof -
  obtain p where p: "seg_split reply i = [p]"
    using assms by (cases "seg_split reply i") auto
  have "sp_virtualTimeMs p = 0"
    using seg_split_time [of 0 reply i] p by simp
  with p that [of "sp_text p"] show ?thesis by simp
qed

end
