(* ===== verification/Send_Failure.thy ===== *)
theory Send_Failure imports Segments begin

text \<open>
  Classification of a failed send and the retry decision:
  \<open>packages/orchestrator/src/core/send-failure-classifier.ts\<close> and
  \<open>packages/orchestrator/src/policies/retry-policy.ts\<close>. The safety property is that a
  retry is allowed for one failure type only, and that this type requires the absence of a
  platform message id and of every rejection keyword.
\<close>

datatype send_failure_type = SAFE_PRE_ATTEMPT | ATTEMPTED_UNKNOWN | SIDE_EFFECT_POSSIBLE | EXPLICIT_REJECTED

record send_failure_classification =
  fc_failureType :: send_failure_type
  fc_retryAllowed :: bool
  fc_reason :: string
  fc_error :: "string option"  \<comment> \<open>the message of the normalized error\<close>

definition normalizeError :: "js_error \<Rightarrow> string" where
  "normalizeError error = (case error of
       ErrorObject m \<Rightarrow> m
     | ErrorString s \<Rightarrow> s
     | MessageObject m \<Rightarrow> m
     | OtherError \<Rightarrow> ''Unknown error'')"

definition rejectionKeywords :: "string list" where
  "rejectionKeywords = [''rejected'', ''denied'', ''forbidden'', ''not allowed'', ''permission denied'',
     ''unauthorized'', ''blocked by platform'', ''rate limit'', ''quota exceeded'']"

definition sideEffectKeywords :: "string list" where
  "sideEffectKeywords = [''partial'', ''incomplete'', ''timeout during send'', ''interrupted'',
     ''connection lost during'', ''send interrupted'']"

definition safeKeywords :: "string list" where
  "safeKeywords = [''network error'', ''connection refused'', ''dns error'', ''timeout before send'',
     ''failed to connect'', ''socket hang up'', ''econnrefused'', ''enotfound'', ''etimedout'']"

definition isExplicitRejection :: "string \<Rightarrow> bool" where
  "isExplicitRejection errorMessage = list_ex (\<lambda>keyword. js_includes errorMessage keyword) rejectionKeywords"

definition isSideEffectPossible :: "string \<Rightarrow> bool" where
  "isSideEffectPossible errorMessage = list_ex (\<lambda>keyword. js_includes errorMessage keyword) sideEffectKeywords"

definition isSafePreAttempt :: "string \<Rightarrow> bool" where
  "isSafePreAttempt errorMessage = list_ex (\<lambda>keyword. js_includes errorMessage keyword) safeKeywords"

text \<open>\<open>if (attempt.messageId)\<close>: present and not the empty string.\<close>

definition truthy :: "string option \<Rightarrow> bool" where
  "truthy v = (case v of None \<Rightarrow> False | Some s \<Rightarrow> s \<noteq> [])"

definition classifyFailure :: "send_attempt \<Rightarrow> send_failure_classification" where
  "classifyFailure attempt =
     (if sa_ok attempt
      then \<lparr>fc_failureType = SAFE_PRE_ATTEMPT, fc_retryAllowed = False,
            fc_reason = ''Send succeeded, no failure to classify'', fc_error = None\<rparr>
      else let error = normalizeError (sa_error attempt);
               errorMessage = to_lower error
           in if truthy (sa_messageId attempt)
              then \<lparr>fc_failureType = ATTEMPTED_UNKNOWN, fc_retryAllowed = False,
                    fc_reason = ''Message ID present but send failed - message may have been sent'',
                    fc_error = Some error\<rparr>
              else if isExplicitRejection errorMessage
              then \<lparr>fc_failureType = EXPLICIT_REJECTED, fc_retryAllowed = False,
                    fc_reason = ''Platform explicitly rejected the message'', fc_error = Some error\<rparr>
              else if isSafePreAttempt errorMessage
              then \<lparr>fc_failureType = SAFE_PRE_ATTEMPT, fc_retryAllowed = True,
                    fc_reason = ''Safe pre-attempt failure - message was not sent'', fc_error = Some error\<rparr>
              else if isSideEffectPossible errorMessage
              then \<lparr>fc_failureType = SIDE_EFFECT_POSSIBLE, fc_retryAllowed = False,
                    fc_reason = ''Send may have partial side effects'', fc_error = Some error\<rparr>
              else \<lparr>fc_failureType = ATTEMPTED_UNKNOWN, fc_retryAllowed = False,
                    fc_reason = ''Unknown failure type - conservative classification'', fc_error = Some error\<rparr>)"

subsection \<open>Retry policy\<close>

text \<open>
  The reason texts are kept as their kind and the interpolated parts (the first one holds a dash
  outside the Latin-1 range).
\<close>

datatype retry_reason = Safe_pre_attempt_failure string | Retry_blocked_for send_failure_type string

record retry_decision =
  rd_shouldRetry :: bool
  rd_reason :: retry_reason

definition decideRetry :: "send_failure_classification \<Rightarrow> retry_decision" where
  "decideRetry classification =
     (if fc_failureType classification = SAFE_PRE_ATTEMPT
      then \<lparr>rd_shouldRetry = True, rd_reason = Safe_pre_attempt_failure (fc_reason classification)\<rparr>
      else \<lparr>rd_shouldRetry = False,
            rd_reason = Retry_blocked_for (fc_failureType classification) (fc_reason classification)\<rparr>)"

lemma decideRetry_iff: "rd_shouldRetry (decideRetry c) \<longleftrightarrow> fc_failureType c = SAFE_PRE_ATTEMPT"
  by (simp add: decideRetry_def)

lemma classifyFailure_safe_iff:
  assumes "\<not> sa_ok a"
  shows "fc_failureType (classifyFailure a) = SAFE_PRE_ATTEMPT \<longleftrightarrow>
    \<not> truthy (sa_messageId a) \<and>
    \<not> isExplicitRejection (to_lower (normalizeError (sa_error a))) \<and>
    isSafePreAttempt (to_lower (normalizeError (sa_error a)))"
  using assms by (simp add: classifyFailure_def Let_def)

text \<open>The classifier's own flag and the policy's decision agree on failed attempts.\<close>

lemma retry_flag_agrees:
  "\<not> sa_ok a \<Longrightarrow> fc_retryAllowed (classifyFailure a) = rd_shouldRetry (decideRetry (classifyFailure a))"
  by (simp add: classifyFailure_def decideRetry_def Let_def)

text \<open>No safe keyword is hidden by a side-effect keyword, so the two checks are ordered freely on
  messages that hold one keyword only; a message that holds both is taken as safe.\<close>

lemma safe_keyword_not_side_effect: "k \<in> set safeKeywords \<Longrightarrow> \<not> isSideEffectPossible k"
  by (auto simp: safeKeywords_def isSideEffectPossible_def sideEffectKeywords_def)

lemma safe_keyword_not_rejection: "k \<in> set safeKeywords \<Longrightarrow> \<not> isExplicitRejection k"
  by (auto simp: safeKeywords_def isExplicitRejection_def rejectionKeywords_def)

lemma isSafePreAttempt_keyword: "k \<in> set safeKeywords \<Longrightarrow> js_includes m k \<Longrightarrow> isSafePreAttempt m"
  by (auto simp: isSafePreAttempt_def list_ex_iff)

lemma classify_message_id:
  "\<not> sa_ok a \<Longrightarrow> truthy (sa_messageId a) \<Longrightarrow> fc_failureType (classifyFailure a) = ATTEMPTED_UNKNOWN"
  by (simp add: classifyFailure_def Let_def)

end
