(* ===== verification/Target_Checks.thy ===== *)
theory Target_Checks imports Prelude begin

text \<open>
  The pre-send target checks: \<open>packages/orchestrator/src/core/wrong-target-validator.ts\<close> and
  \<open>packages/orchestrator/src/core/binding-validator.ts\<close>. A validator collects failures and is
  valid when it collected none. The failure texts are literals of the source (some with characters
  outside Latin-1), kept as constructors.
\<close>

datatype wrong_target_reason =
    Required_non_empty  \<comment> \<open>\<open>... is required and must be non-empty\<close>\<close>
  | Cross_shop  \<comment> \<open>\<open>shopId does not match the currently controlled shop\<close>\<close>
  | Customer_mismatch  \<comment> \<open>\<open>customerUid mismatch\<close>\<close>
  | Customer_empty  \<comment> \<open>\<open>customerUid is provided but empty\<close>\<close>
  | Provided_but_empty
  | Stale_selection
  | Document_mismatch

record wrong_target_failure =
  wf_field :: string
  wf_reason :: wrong_target_reason
  wf_expected :: "string option"
  wf_actual :: "string option"

record wrong_target_context =
  wc_shopId :: string
  wc_conversationId :: string
  wc_customerUid :: "string option"
  wc_platformAccountId :: "string option"
  wc_triggerMessageId :: "string option"
  wc_sessionId :: "string option"
  wc_documentVersion :: "string option"
  wc_expectedShopId :: "string option"
  wc_expectedCustomerUid :: "string option"
  wc_expectedDocumentVersion :: "string option"

definition wt_fail :: "string \<Rightarrow> wrong_target_reason \<Rightarrow> wrong_target_failure" where
  "wt_fail f r = \<lparr>wf_field = f, wf_reason = r, wf_expected = None, wf_actual = None\<rparr>"

definition wt_fail_with :: "string \<Rightarrow> wrong_target_reason \<Rightarrow> string \<Rightarrow> string \<Rightarrow> wrong_target_failure" where
  "wt_fail_with f r e a = \<lparr>wf_field = f, wf_reason = r, wf_expected = Some e, wf_actual = Some a\<rparr>"

text \<open>\<open>x && ...\<close> on an optional string: present and not empty.\<close>

definition present :: "string option \<Rightarrow> string option" where
  "present v = (case v of Some s \<Rightarrow> if s = [] then None else Some s | None \<Rightarrow> None)"

definition provided_blank :: "string option \<Rightarrow> bool" where
  "provided_blank v = (case v of Some s \<Rightarrow> js_trim s = [] | None \<Rightarrow> False)"

text \<open>The failures of \<open>validate\<close>, in the order the source pushes them.\<close>

definition wrong_target_failures :: "wrong_target_context \<Rightarrow> wrong_target_failure list" where
  "wrong_target_failures c =
     (if blank (wc_shopId c) then [wt_fail ''shopId'' Required_non_empty] else [])
   @ (if blank (wc_conversationId c) then [wt_fail ''conversationId'' Required_non_empty] else [])
   @ (case present (wc_expectedShopId c) of
        Some e \<Rightarrow> if wc_shopId c \<noteq> [] \<and> wc_shopId c \<noteq> e
                  then [wt_fail_with ''shopId'' Cross_shop e (wc_shopId c)] else []
      | None \<Rightarrow> [])
   @ (case (present (wc_expectedCustomerUid c), present (wc_customerUid c)) of
        (Some e, Some u) \<Rightarrow> if u \<noteq> e then [wt_fail_with ''customerUid'' Customer_mismatch e u] else []
      | _ \<Rightarrow> [])
   @ (case present (wc_customerUid c) of
        Some u \<Rightarrow> if js_trim u = [] then [wt_fail ''customerUid'' Customer_empty] else []
      | None \<Rightarrow> [])
   @ (if provided_blank (wc_platformAccountId c) then [wt_fail ''platformAccountId'' Provided_but_empty] else [])
   @ (if provided_blank (wc_triggerMessageId c) then [wt_fail ''triggerMessageId'' Stale_selection] else [])
   @ (if provided_blank (wc_sessionId c) then [wt_fail ''sessionId'' Provided_but_empty] else [])
   @ (case (present (wc_expectedDocumentVersion c), present (wc_documentVersion c)) of
        (Some e, Some d) \<Rightarrow> if d \<noteq> e then [wt_fail_with ''documentVersion'' Document_mismatch e d] else []
      | _ \<Rightarrow> [])"

record wrong_target_validation =
  wv_valid :: bool
  wv_failures :: "wrong_target_failure list"

definition validateTarget :: "wrong_target_context \<Rightarrow> wrong_target_validation" where
  "validateTarget c = (let fs = wrong_target_failures c in \<lparr>wv_valid = (fs = []), wv_failures = fs\<rparr>)"

text \<open>A validated target: what acceptance guarantees, field by field.\<close>

lemma present_Some: "present v = Some s \<longleftrightarrow> v = Some s \<and> s \<noteq> []"
  by (auto simp: present_def split: option.splits)

lemma validateTarget_iff:
  "wv_valid (validateTarget c) \<longleftrightarrow>
     \<not> blank (wc_shopId c) \<and> \<not> blank (wc_conversationId c) \<and>
     (\<forall>e. present (wc_expectedShopId c) = Some e \<longrightarrow> wc_shopId c = e) \<and>
     (\<forall>e u. present (wc_expectedCustomerUid c) = Some e \<longrightarrow> present (wc_customerUid c) = Some u \<longrightarrow> u = e) \<and>
     (\<forall>u. present (wc_customerUid c) = Some u \<longrightarrow> \<not> blank u) \<and>
     \<not> provided_blank (wc_platformAccountId c) \<and> \<not> provided_blank (wc_triggerMessageId c) \<and>
     \<not> provided_blank (wc_sessionId c) \<and>
     (\<forall>e d. present (wc_expectedDocumentVersion c) = Some e \<longrightarrow> present (wc_documentVersion c) = Some d \<longrightarrow> d = e)"
proof -
  have shop: "wc_shopId c \<noteq> []" if "\<not> blank (wc_shopId c)"
    using that by auto
  have cust: "js_trim u = [] \<longleftrightarrow> blank u" for u
    by (auto simp: blank_def js_trim_def)
  show ?thesis
    using shop
    by (auto simp: validateTarget_def wrong_target_failures_def Let_def cust
        split: option.splits if_splits)
qed

subsection \<open>Bindings\<close>

record binding_context =
  bc_shopId :: string
  bc_platformAccountId :: string
  bc_conversationId :: string
  bc_triggerMessageId :: string
  bc_sessionId :: string
  bc_documentVersion :: string

definition binding_failures :: "binding_context \<Rightarrow> string list" where
  "binding_failures c =
     (if blank (bc_shopId c) then [''shop''] else [])
   @ (if blank (bc_platformAccountId c) then [''platform''] else [])
   @ (if blank (bc_conversationId c) then [''conversation''] else [])
   @ (if blank (bc_triggerMessageId c) then [''trigger''] else [])
   @ (if blank (bc_sessionId c) then [''session''] else [])
   @ (if blank (bc_documentVersion c) then [''document''] else [])"

record binding_validation =
  bv_valid :: bool
  bv_failures :: "string list"

definition validateBinding :: "binding_context \<Rightarrow> binding_validation" where
  "validateBinding c = (let fs = binding_failures c in \<lparr>bv_valid = (fs = []), bv_failures = fs\<rparr>)"

lemma validateBinding_iff:
  "bv_valid (validateBinding c) \<longleftrightarrow>
     \<not> blank (bc_shopId c) \<and> \<not> blank (bc_platformAccountId c) \<and> \<not> blank (bc_conversationId c) \<and>
     \<not> blank (bc_triggerMessageId c) \<and> \<not> blank (bc_sessionId c) \<and> \<not> blank (bc_documentVersion c)"
  by (auto simp: validateBinding_def binding_failures_def Let_def)

lemma binding_failures_subset:
  "distinct (binding_failures c)"
  "set (binding_failures c) \<subseteq> {''shop'', ''platform'', ''conversation'', ''trigger'', ''session'', ''document''}"
  by (auto simp: binding_failures_def)

end
