(* ===== verification/Orchestrator.thy ===== *)
theory Orchestrator imports Serializer Send_Failure Target_Checks begin

text \<open>
  The conversation orchestrator: \<open>packages/orchestrator/src/core/conversation-orchestrator.ts\<close>
  with the controllers it owns (\<open>suggestion-manager.ts\<close>, \<open>countdown-controller.ts\<close>,
  \<open>manual-takeover-controller.ts\<close>, \<open>pre-send-controller.ts\<close>) and its state
  (\<open>packages/orchestrator/src/state\<close>).

  The handlers are asynchronous. Each is cut at its \<open>await\<close>s: the synchronous prefix is a function on
  the state that leaves a \<open>task\<close> (the suspended continuation with the variables it captured), and
  \<open>resume_task\<close> runs the continuation with the value the promise settled with. An \<open>orch_event\<close> is a
  call of a handler or the settlement of a suspended task, in any order, so every interleaving of
  the JavaScript event loop is a run. The ports (AI engine, platform adapter, repository, feedback
  sink, event bus) appear as the \<open>effect\<close>s the code has on them, in order; their answers are the
  values carried by the settlement events. The segmented sender is the component of the theory
  Segments: a call of \<open>segmentedSender.send\<close> is the effect \<open>SegmentedSend\<close>, its promise settles
  the \<open>T_send\<close> task.
\<close>

subsection \<open>State\<close>

datatype suggestion_status = Pending | Sent | Cancelled

record transfer_decision =
  td_requested :: bool
  td_target :: "string option"
  td_reason :: "string option"
  td_buyer_message :: "string option"

record suggestion =
  sg_reply :: string
  sg_generation :: int
  sg_createdAt :: int
  sg_mode :: review_mode
  sg_status :: suggestion_status
  sg_decision :: "transfer_decision option"

record countdown_state =
  cs_enabled :: bool
  cs_remainingTicks :: int
  cs_tickMs :: int

record conv_state =
  cv_shopId :: string
  cv_conversationId :: string
  cv_mode :: review_mode
  cv_token :: generation_token
  cv_suggestion :: "suggestion option"
  cv_countdown :: countdown_state
  cv_sending :: bool
  cv_sendQueue :: "send_request list"
  cv_consecutiveReplies :: int
  cv_firstReplyAt :: int
  cv_aiInflight :: bool
  cv_lastMessageId :: "string option"

definition createConversationRuntimeState :: "string \<Rightarrow> string \<Rightarrow> conv_state" where
  "createConversationRuntimeState shopId conversationId =
     \<lparr>cv_shopId = shopId, cv_conversationId = conversationId, cv_mode = Human_review,
      cv_token = new_token, cv_suggestion = None,
      cv_countdown = \<lparr>cs_enabled = False, cs_remainingTicks = 0, cs_tickMs = 1000\<rparr>,
      cv_sending = False, cv_sendQueue = [], cv_consecutiveReplies = 0, cv_firstReplyAt = 0,
      cv_aiInflight = False, cv_lastMessageId = None\<rparr>"

text \<open>A decision record: its name and the optional fields the code attaches.\<close>

record decision_record =
  dr_decision :: string
  dr_shop :: string
  dr_conversation :: "string option"
  dr_generation :: "int option"
  dr_mode :: "review_mode option"
  dr_trust :: "string option"
  dr_failure :: "(send_failure_type \<times> bool) option"
  dr_failures :: "wrong_target_failure list"

definition mk_decision :: "string \<Rightarrow> string \<Rightarrow> string \<Rightarrow> decision_record" where
  "mk_decision name shop conv =
     \<lparr>dr_decision = name, dr_shop = shop, dr_conversation = Some conv, dr_generation = None, dr_mode = None,
      dr_trust = None, dr_failure = None, dr_failures = []\<rparr>"

record buyer_message =
  bm_message_id :: "string option"
  bm_buyer :: "string option"
  bm_content :: "string option"
  bm_message :: "string option"

record ai_result =
  ar_reply :: "string option"
  ar_decision :: "transfer_decision option"
  ar_generation :: "int option"

datatype send_failed_error = Attempt_error js_error | Wrong_target "wrong_target_failure list"

datatype effect =
    Emit_BuyerMessageReceived string string buyer_message
  | Emit_SuggestionReady string string int review_mode string
  | Emit_HumanTakeover string string
  | Emit_SendStarted string string int
  | Emit_SendFailed string string send_failed_error
  | Emit_SendCompleted string string int
  | Call_generateReply string string string int "string option" "string option"  \<comment> \<open>with \<open>message_id\<close> and \<open>buyer\<close>\<close>
  | Call_getCurrentConversationState string string
  | Call_onTransfer transfer_decision
  | Call_appendTurn string string string int
  | Call_recordFeedback feedback_class string string string review_mode string
  | SegmentedSend string string string

text \<open>Suspended continuations, each with its conversation.\<close>

datatype task =
    T_reply string string int  \<comment> \<open>\<open>onBuyerMessage\<close>, awaiting the reply for this generation\<close>
  | T_current string string string  \<comment> \<open>\<open>onManualSend\<close>, awaiting the platform's state\<close>
  | T_revalidate string string int  \<comment> \<open>\<open>revalidate\<close>, awaiting the regenerated reply\<close>
  | T_revalidated string string bool int  \<comment> \<open>\<open>onManualSend\<close>, after \<open>revalidate\<close> returned\<close>
  | T_persistRegenerated string string  \<comment> \<open>\<open>onManualSend\<close>, awaiting \<open>appendTurn\<close>\<close>
  | T_persist string string  \<comment> \<open>\<open>applyGeneratedReply\<close>, awaiting \<open>appendTurn\<close>\<close>
  | T_send string string send_request bool  \<comment> \<open>\<open>performSend\<close> awaiting the sender; true on the retry\<close>
  | T_drain string string  \<comment> \<open>\<open>drainQueue\<close>, after \<open>performSend\<close> returned\<close>

record orchestrator =
  or_now :: int
  or_countdownTickMs :: int
  or_conversations :: "(string \<times> conv_state) list"
  or_serializer :: serializer
  or_decisions :: "decision_record list"
  or_focusedShopId :: "string option"
  or_effects :: "effect list"
  or_tasks :: "task list"

definition new_orchestrator :: "int \<Rightarrow> orchestrator" where
  "new_orchestrator tick =
     \<lparr>or_now = 0, or_countdownTickMs = tick, or_conversations = [], or_serializer = new_serializer,
      or_decisions = [], or_focusedShopId = None, or_effects = [], or_tasks = []\<rparr>"

subsection \<open>Access\<close>

definition conv :: "string \<Rightarrow> string \<Rightarrow> orchestrator \<Rightarrow> conv_state" where
  "conv shopId conversationId s =
     (case map_of (or_conversations s) (ser_key shopId conversationId) of
        Some c \<Rightarrow> c | None \<Rightarrow> createConversationRuntimeState shopId conversationId)"

definition upd_conv :: "string \<Rightarrow> string \<Rightarrow> (conv_state \<Rightarrow> conv_state) \<Rightarrow> orchestrator \<Rightarrow> orchestrator" where
  "upd_conv shopId conversationId f s =
     s\<lparr>or_conversations := map_set (ser_key shopId conversationId) (f (conv shopId conversationId s)) (or_conversations s)\<rparr>"

definition ensureState :: "string \<Rightarrow> string \<Rightarrow> orchestrator \<Rightarrow> orchestrator" where
  "ensureState shopId conversationId s = upd_conv shopId conversationId (\<lambda>c. c) s"

definition recordDecision :: "decision_record \<Rightarrow> orchestrator \<Rightarrow> orchestrator" where
  "recordDecision d s = s\<lparr>or_decisions := or_decisions s @ [d]\<rparr>"

definition emit :: "effect \<Rightarrow> orchestrator \<Rightarrow> orchestrator" where
  "emit e s = s\<lparr>or_effects := or_effects s @ [e]\<rparr>"

definition suspend :: "task \<Rightarrow> orchestrator \<Rightarrow> orchestrator" where
  "suspend t s = s\<lparr>or_tasks := or_tasks s @ [t]\<rparr>"

subsection \<open>Controllers\<close>

definition createSuggestion ::
  "int \<Rightarrow> string \<Rightarrow> int \<Rightarrow> review_mode \<Rightarrow> transfer_decision option \<Rightarrow> suggestion" where
  "createSuggestion now reply generation mode decision =
     \<lparr>sg_reply = reply, sg_generation = generation, sg_createdAt = now, sg_mode = mode,
      sg_status = Pending, sg_decision = decision\<rparr>"

definition markSent :: "suggestion \<Rightarrow> suggestion" where
  "markSent sg = sg\<lparr>sg_status := Sent\<rparr>"

definition cancelSuggestion :: "suggestion \<Rightarrow> suggestion" where
  "cancelSuggestion sg = sg\<lparr>sg_status := Cancelled\<rparr>"

definition invalidate :: "suggestion option \<Rightarrow> suggestion option" where
  "invalidate sgo = map_option (\<lambda>sg. if sg_status sg = Pending then sg\<lparr>sg_status := Cancelled\<rparr> else sg) sgo"

definition hasPending :: "conv_state \<Rightarrow> bool" where
  "hasPending c = (case cv_suggestion c of Some sg \<Rightarrow> sg_status sg = Pending | None \<Rightarrow> False)"

definition countdown_start :: "int \<Rightarrow> int \<Rightarrow> conv_state \<Rightarrow> conv_state" where
  "countdown_start remainingTicks tickMs c =
     c\<lparr>cv_countdown := \<lparr>cs_enabled = True, cs_remainingTicks = remainingTicks, cs_tickMs = tickMs\<rparr>\<rparr>"

definition countdown_cancel :: "conv_state \<Rightarrow> conv_state" where
  "countdown_cancel c = c\<lparr>cv_countdown := (cv_countdown c)\<lparr>cs_enabled := False, cs_remainingTicks := 0\<rparr>\<rparr>"

definition countdown_elapse :: "int \<Rightarrow> conv_state \<Rightarrow> bool \<times> int \<times> conv_state" where
  "countdown_elapse elapsedMs c =
     (let cd = cv_countdown c in
      if \<not> cs_enabled cd then (False, cs_remainingTicks cd, c)
      else let r = elapse (cs_remainingTicks cd) elapsedMs (cs_tickMs cd);
               cd1 = cd\<lparr>cs_remainingTicks := cd_remainingTicks r\<rparr>;
               cd2 = (if cd_reachedZero r then cd1\<lparr>cs_enabled := False\<rparr> else cd1)
           in (cd_reachedZero r, cd_remainingTicks r, c\<lparr>cv_countdown := cd2\<rparr>))"

definition takeover :: "conv_state \<Rightarrow> conv_state" where
  "takeover c =
     (let c1 = c\<lparr>cv_token := snd (token_next (cv_token c)), cv_aiInflight := False,
                 cv_suggestion := invalidate (cv_suggestion c)\<rparr>
      in countdown_cancel c1)"

text \<open>\<open>isBusy()\<close> without a shop: some known conversation is being sent to.\<close>

definition isBusy :: "string option \<Rightarrow> orchestrator \<Rightarrow> bool" where
  "isBusy shop s = list_ex (\<lambda>(k, c).
     (case shop of Some sh \<Rightarrow> sh = [] \<or> cv_shopId c = sh | None \<Rightarrow> True) \<and>
     isSending (or_serializer s) (ser_key (cv_shopId c) (cv_conversationId c))) (or_conversations s)"

subsection \<open>Sending\<close>

definition sync_queue :: "string \<Rightarrow> string \<Rightarrow> orchestrator \<Rightarrow> orchestrator" where
  "sync_queue shop cid s =
     (let key = ser_key shop cid in
      upd_conv shop cid (\<lambda>c. c\<lparr>cv_sendQueue := queue_of (or_serializer s) key,
                               cv_sending := isSending (or_serializer s) key\<rparr>) s)"

text \<open>\<open>validateWrongTargetLegacy\<close>; the optional identity fields of a request are never set by the
  orchestrator, so only the ids are checked.\<close>

definition target_context :: "send_request \<Rightarrow> wrong_target_context" where
  "target_context r =
     \<lparr>wc_shopId = sr_shopId r, wc_conversationId = sr_conversationId r, wc_customerUid = None,
      wc_platformAccountId = None, wc_triggerMessageId = None, wc_sessionId = None,
      wc_documentVersion = None, wc_expectedShopId = None, wc_expectedCustomerUid = None,
      wc_expectedDocumentVersion = None\<rparr>"

definition validateWrongTargetLegacy :: "send_request \<Rightarrow> orchestrator \<Rightarrow> bool \<times> orchestrator" where
  "validateWrongTargetLegacy r s =
     (let v = validateTarget (target_context r) in
      if wv_valid v then (True, s)
      else (False,
        recordDecision ((mk_decision ''wrong_target_rejected'' (sr_shopId r) (sr_conversationId r))
            \<lparr>dr_failures := wv_failures v\<rparr>)
          (emit (Emit_SendFailed (sr_shopId r) (sr_conversationId r) (Wrong_target (wv_failures v))) s)))"

definition start_sender :: "string \<Rightarrow> string \<Rightarrow> send_request \<Rightarrow> bool \<Rightarrow> orchestrator \<Rightarrow> orchestrator" where
  "start_sender shop cid r retry s =
     suspend (T_send shop cid r retry)
       (emit (SegmentedSend (sr_shopId r) (sr_conversationId r) (sr_reply r))
         (emit (Emit_SendStarted (sr_shopId r) (sr_conversationId r) (sr_generation r)) s))"

text \<open>\<open>performSend\<close> up to its first \<open>await\<close>, inside the \<open>drainQueue\<close> of the given conversation.\<close>

definition performSend :: "string \<Rightarrow> string \<Rightarrow> send_request \<Rightarrow> orchestrator \<Rightarrow> orchestrator" where
  "performSend shop cid r s =
     (let s1 = ensureState (sr_shopId r) (sr_conversationId r) s;
          (ok, s2) = validateWrongTargetLegacy r s1
      in if \<not> ok then suspend (T_drain shop cid) s2 else start_sender shop cid r False s2)"

text \<open>One turn of the loop of \<open>drainQueue\<close>.\<close>

definition drain_turn :: "string \<Rightarrow> string \<Rightarrow> bool \<Rightarrow> orchestrator \<Rightarrow> orchestrator" where
  "drain_turn shop cid first s =
     (let (ro, se) = dequeue (ser_key shop cid) (or_serializer s);
          s1 = sync_queue shop cid (s\<lparr>or_serializer := se\<rparr>)
      in case ro of
           None \<Rightarrow> s1
         | Some r \<Rightarrow>
             performSend shop cid r
               (if first then s1
                else recordDecision (mk_decision ''dequeue_next'' (sr_shopId r) (sr_conversationId r)) s1))"

definition submit :: "string \<Rightarrow> string \<Rightarrow> send_request \<Rightarrow> orchestrator \<Rightarrow> orchestrator" where
  "submit shop cid r s =
     (let (status, se) = enqueue (ser_key shop cid) r (or_serializer s);
          s1 = sync_queue shop cid (s\<lparr>or_serializer := se\<rparr>)
      in case status of
           Serialized_wait \<Rightarrow> recordDecision (mk_decision ''serialized_wait'' shop cid) s1
         | Started \<Rightarrow> drain_turn shop cid True s1)"

text \<open>\<open>sendSuggestion\<close>; the feedback is recorded when a class is given.\<close>

definition sendSuggestion ::
  "string \<Rightarrow> string \<Rightarrow> (feedback_class \<times> string) option \<Rightarrow> orchestrator \<Rightarrow> orchestrator" where
  "sendSuggestion shop cid fb s =
     (let c = conv shop cid s in
      case cv_suggestion c of
        None \<Rightarrow> s
      | Some sg \<Rightarrow>
          if sg_status sg \<noteq> Pending then s
          else let s1 = (case fb of
                    None \<Rightarrow> s
                  | Some (cls, trust) \<Rightarrow> emit (Call_recordFeedback cls trust shop cid (cv_mode c) (sg_reply sg)) s);
                   r = \<lparr>sr_shopId = shop, sr_conversationId = cid, sr_reply = sg_reply sg,
                        sr_generation = sg_generation sg, sr_mode = cv_mode c\<rparr>
               in submit shop cid r s1)"

definition persistAiTurn :: "string \<Rightarrow> string \<Rightarrow> orchestrator \<Rightarrow> orchestrator" where
  "persistAiTurn shop cid s =
     (case cv_suggestion (conv shop cid s) of
        None \<Rightarrow> s
      | Some sg \<Rightarrow> emit (Call_appendTurn shop cid (sg_reply sg) (sg_generation sg)) s)"

subsection \<open>Replies\<close>

definition applyGeneratedReply ::
  "string \<Rightarrow> string \<Rightarrow> string \<Rightarrow> int \<Rightarrow> transfer_decision option \<Rightarrow> orchestrator \<Rightarrow> orchestrator" where
  "applyGeneratedReply shop cid reply generation decision s =
     (let mode = cv_mode (conv shop cid s);
          s1 = upd_conv shop cid (\<lambda>c. c\<lparr>cv_suggestion := Some (createSuggestion (or_now s) reply generation mode decision)\<rparr>) s;
          s2 = recordDecision ((mk_decision (suggestionDecision mode) shop cid)
                 \<lparr>dr_mode := Some mode, dr_generation := Some generation\<rparr>) s1;
          s3 = emit (Emit_SuggestionReady shop cid generation mode reply) s2;
          s4 = (case decision of Some d \<Rightarrow> if td_requested d then emit (Call_onTransfer d) s3 else s3 | None \<Rightarrow> s3)
      in suspend (T_persist shop cid) (persistAiTurn shop cid s4))"

definition processAiResult :: "string \<Rightarrow> string \<Rightarrow> ai_result \<Rightarrow> int \<Rightarrow> orchestrator \<Rightarrow> orchestrator" where
  "processAiResult shop cid result fallback s =
     (let generation = (case ar_generation result of Some g \<Rightarrow> g | None \<Rightarrow> fallback) in
      if generation < token_current (cv_token (conv shop cid s))
      then recordDecision ((mk_decision ''ignore_stale'' shop cid)\<lparr>dr_generation := Some generation\<rparr>) s
      else case ar_reply result of
             None \<Rightarrow> s
           | Some reply \<Rightarrow> if reply = [] then s else applyGeneratedReply shop cid reply generation (ar_decision result) s)"

subsection \<open>Handlers\<close>

definition onBuyerMessage :: "string \<Rightarrow> string \<Rightarrow> buyer_message \<Rightarrow> orchestrator \<Rightarrow> orchestrator" where
  "onBuyerMessage shop cid m s =
     (let c = conv shop cid s;
          (generation, tok) = token_next (cv_token c);
          invalidated = (cv_suggestion c \<noteq> None);
          s1 = upd_conv shop cid (\<lambda>c. (countdown_cancel (c\<lparr>cv_token := tok, cv_suggestion := None\<rparr>))
                 \<lparr>cv_aiInflight := True, cv_lastMessageId := bm_message_id m\<rparr>) s;
          s2 = (if isBusy None s1 \<and> \<not> isSending (or_serializer s1) (ser_key shop cid)
                then recordDecision (mk_decision ''concurrent_ok'' shop cid) s1 else s1);
          s3 = emit (Emit_BuyerMessageReceived shop cid m) s2;
          s4 = (if invalidated
                then recordDecision ((mk_decision ''invalidate_suggestion'' shop cid)\<lparr>dr_generation := Some generation\<rparr>) s3
                else s3);
          text = (case bm_content m of Some t \<Rightarrow> t | None \<Rightarrow> (case bm_message m of Some t \<Rightarrow> t | None \<Rightarrow> []))
      in suspend (T_reply shop cid generation) (emit (Call_generateReply shop cid text generation (bm_message_id m) (bm_buyer m)) s4))"

definition onAiResult :: "string \<Rightarrow> string \<Rightarrow> ai_result \<Rightarrow> orchestrator \<Rightarrow> orchestrator" where
  "onAiResult shop cid result s =
     (let s1 = ensureState shop cid s
      in processAiResult shop cid result
           (case ar_generation result of Some g \<Rightarrow> g | None \<Rightarrow> token_current (cv_token (conv shop cid s1))) s1)"

definition onManualSend :: "string \<Rightarrow> string \<Rightarrow> string \<Rightarrow> orchestrator \<Rightarrow> orchestrator" where
  "onManualSend shop cid key s =
     (let s1 = ensureState shop cid s; c = conv shop cid s1 in
      if \<not> hasPending c then s1
      else if classifyIntent (cv_mode c) key = NO_SAVE
      then sendSuggestion shop cid None (recordDecision (mk_decision ''send_no_save'' shop cid) s1)
      else suspend (T_current shop cid key) (emit (Call_getCurrentConversationState shop cid) s1))"

text \<open>The end of \<open>onManualSend\<close>: the confirmed send.\<close>

definition confirmed_send :: "string \<Rightarrow> string \<Rightarrow> orchestrator \<Rightarrow> orchestrator" where
  "confirmed_send shop cid s =
     sendSuggestion shop cid (Some (MANUAL, ''HUMAN_CONFIRMED''))
       (recordDecision ((mk_decision ''send'' shop cid)\<lparr>dr_trust := Some ''HUMAN_CONFIRMED''\<rparr>) s)"

text \<open>\<open>PreSendController.revalidate\<close> up to its \<open>await\<close>.\<close>

definition revalidate :: "string \<Rightarrow> string \<Rightarrow> orchestrator \<Rightarrow> orchestrator" where
  "revalidate shop cid s =
     (let c = conv shop cid s;
          (generation, tok) = token_next (cv_token c);
          s1 = upd_conv shop cid (\<lambda>c. c\<lparr>cv_token := tok\<rparr>) s;
          text = (case cv_lastMessageId c of Some m \<Rightarrow> m | None \<Rightarrow> [])
      in suspend (T_revalidate shop cid generation) (emit (Call_generateReply shop cid text generation None None) s1))"

definition onCancel :: "string \<Rightarrow> string \<Rightarrow> orchestrator \<Rightarrow> orchestrator" where
  "onCancel shop cid s =
     recordDecision (mk_decision ''cancelled'' shop cid)
       (upd_conv shop cid (\<lambda>c. countdown_cancel
          (if hasPending c then c\<lparr>cv_suggestion := map_option cancelSuggestion (cv_suggestion c)\<rparr> else c)) s)"

definition onSetMode :: "string \<Rightarrow> string \<Rightarrow> review_mode \<Rightarrow> orchestrator \<Rightarrow> orchestrator" where
  "onSetMode shop cid mode s =
     (let previous = cv_mode (conv shop cid s);
          s1 = upd_conv shop cid (\<lambda>c. c\<lparr>cv_mode := mode\<rparr>) s
      in if previous = Human_review \<and> mode = Full_auto \<and> hasPending (conv shop cid s1)
         then sendSuggestion shop cid (Some (AUTO, ''AUTO''))
                (recordDecision (mk_decision ''pending_suggestion_sent'' shop cid) s1)
         else s1)"

definition onHumanTakeover :: "string \<Rightarrow> string \<Rightarrow> orchestrator \<Rightarrow> orchestrator" where
  "onHumanTakeover shop cid s =
     emit (Emit_HumanTakeover shop cid)
       (recordDecision (mk_decision ''takeover'' shop cid) (upd_conv shop cid takeover s))"

definition onFocusShop :: "string \<Rightarrow> orchestrator \<Rightarrow> orchestrator" where
  "onFocusShop shop s =
     (if or_focusedShopId s \<noteq> Some shop
      then recordDecision ((mk_decision ''focus_switch'' shop [])\<lparr>dr_conversation := None\<rparr>)
             (s\<lparr>or_focusedShopId := Some shop\<rparr>)
      else s)"

definition onSendRequest ::
  "string \<Rightarrow> string \<Rightarrow> string option \<Rightarrow> int option \<Rightarrow> orchestrator \<Rightarrow> orchestrator" where
  "onSendRequest shop cid reply generation s =
     (let s1 = ensureState shop cid s;
          c = conv shop cid s1;
          r = \<lparr>sr_shopId = shop, sr_conversationId = cid,
               sr_reply = (case reply of Some t \<Rightarrow> t
                           | None \<Rightarrow> (case cv_suggestion c of Some sg \<Rightarrow> sg_reply sg | None \<Rightarrow> [])),
               sr_generation = (case generation of Some g \<Rightarrow> g | None \<Rightarrow> token_current (cv_token c)),
               sr_mode = cv_mode c\<rparr>
      in submit shop cid r s1)"

definition onDequeueNext :: "string \<Rightarrow> string \<Rightarrow> orchestrator \<Rightarrow> orchestrator" where
  "onDequeueNext shop cid s =
     (let s1 = ensureState shop cid s;
          (ro, se) = dequeue (ser_key shop cid) (or_serializer s1);
          s2 = sync_queue shop cid (s1\<lparr>or_serializer := se\<rparr>)
      in if ro \<noteq> None then recordDecision (mk_decision ''dequeue_next'' shop cid) s2 else s2)"

definition onCountdownElapsed :: "string \<Rightarrow> string \<Rightarrow> int \<Rightarrow> orchestrator \<Rightarrow> orchestrator" where
  "onCountdownElapsed shop cid elapsedMs s =
     (let s1 = ensureState shop cid s; c = conv shop cid s1 in
      if \<not> cs_enabled (cv_countdown c) \<or> \<not> hasPending c then s1
      else let (reachedZero, _, c') = countdown_elapse elapsedMs c;
               s2 = upd_conv shop cid (\<lambda>_. c') s1
           in if reachedZero
              then sendSuggestion shop cid (Some (AUTO, ''AUTO''))
                     (recordDecision ((mk_decision ''auto_send'' shop cid)\<lparr>dr_trust := Some ''AUTO''\<rparr>) s2)
              else s2)"

subsection \<open>Continuations\<close>

text \<open>The value a suspended promise settles with.\<close>

datatype outcome =
    Reply_value ai_result
  | Current_value "bool option"  \<comment> \<open>\<open>current?.hasNewMessage\<close>\<close>
  | Unit_value
  | Attempt_value send_attempt
  | Rejected

text \<open>\<open>performSend\<close> after \<open>segmentedSender.send\<close> settled with an attempt.\<close>

definition after_send :: "string \<Rightarrow> string \<Rightarrow> send_request \<Rightarrow> bool \<Rightarrow> send_attempt \<Rightarrow> orchestrator \<Rightarrow> orchestrator" where
  "after_send shop cid r retry a s =
     (let rshop = sr_shopId r; rcid = sr_conversationId r in
      if sa_ok a
      then suspend (T_drain shop cid)
             (let s1 = emit (Emit_SendCompleted rshop rcid (sr_generation r)) s
              in if hasPending (conv rshop rcid s1)
                 then upd_conv rshop rcid (\<lambda>c. c\<lparr>cv_suggestion := map_option markSent (cv_suggestion c)\<rparr>) s1
                 else s1)
      else if retry
      then suspend (T_drain shop cid) (emit (Emit_SendFailed rshop rcid (Attempt_error (sa_error a))) s)
      else let classification = classifyFailure a;
               shouldRetry = rd_shouldRetry (decideRetry classification);
               s1 = emit (Emit_SendFailed rshop rcid (Attempt_error (sa_error a))) s;
               s2 = recordDecision ((mk_decision (if shouldRetry then ''refill_on_failure'' else ''send_failed_no_retry'') rshop rcid)
                      \<lparr>dr_failure := Some (fc_failureType classification, shouldRetry)\<rparr>) s1
           in if shouldRetry then start_sender shop cid r True s2 else suspend (T_drain shop cid) s2)"

fun resume_task :: "task \<Rightarrow> outcome \<Rightarrow> orchestrator \<Rightarrow> orchestrator" where
  "resume_task (T_reply shop cid g) (Reply_value result) s =
     processAiResult shop cid result g (upd_conv shop cid (\<lambda>c. c\<lparr>cv_aiInflight := False\<rparr>) s)"
| "resume_task (T_current shop cid key) (Current_value hasNew) s =
     (if hasNew = Some True \<and> shouldRevalidate (cv_mode (conv shop cid s)) key
      then revalidate shop cid s else confirmed_send shop cid s)"
| "resume_task (T_revalidate shop cid g) (Reply_value result) s =
     (case ar_reply result of
        Some reply \<Rightarrow>
          if reply = [] then suspend (T_revalidated shop cid False g) s
          else suspend (T_revalidated shop cid True g)
                 (upd_conv shop cid (\<lambda>c. c\<lparr>cv_suggestion := Some (createSuggestion (or_now s) reply g
                    (cv_mode (conv shop cid s)) (ar_decision result))\<rparr>) s)
      | None \<Rightarrow> suspend (T_revalidated shop cid False g) s)"
| "resume_task (T_revalidated shop cid regenerated g) Unit_value s =
     (if regenerated
      then suspend (T_persistRegenerated shop cid)
             (persistAiTurn shop cid
               (recordDecision ((mk_decision ''regenerate_before_send'' shop cid)\<lparr>dr_generation := Some g\<rparr>) s))
      else confirmed_send shop cid s)"
| "resume_task (T_persistRegenerated shop cid) Unit_value s = s"
| "resume_task (T_persist shop cid) Unit_value s =
     (if isFullAuto (cv_mode (conv shop cid s)) then sendSuggestion shop cid (Some (AUTO, ''AUTO'')) s else s)"
| "resume_task (T_send shop cid r retry) (Attempt_value a) s = after_send shop cid r retry a s"
| "resume_task (T_drain shop cid) Unit_value s =
     drain_turn shop cid False (sync_queue shop cid (s\<lparr>or_serializer := markDone (ser_key shop cid) (or_serializer s)\<rparr>))"
| "resume_task t _ s = s"

text \<open>
  Which outcomes a task can settle with: its own kind, or a rejection, which ends the handler (only
  the ports' promises reject; the two tasks that resume after a local \<open>async\<close> call returned do not).
\<close>

fun fits :: "task \<Rightarrow> outcome \<Rightarrow> bool" where
  "fits (T_reply _ _ _) (Reply_value _) = True"
| "fits (T_current _ _ _) (Current_value _) = True"
| "fits (T_revalidate _ _ _) (Reply_value _) = True"
| "fits (T_revalidated _ _ _ _) Unit_value = True"
| "fits (T_persistRegenerated _ _) Unit_value = True"
| "fits (T_persist _ _) Unit_value = True"
| "fits (T_send _ _ _ _) (Attempt_value _) = True"
| "fits (T_drain _ _) Unit_value = True"
| "fits (T_drain _ _) Rejected = False"
| "fits (T_revalidated _ _ _ _) Rejected = False"
| "fits _ Rejected = True"
| "fits _ _ = False"

datatype orch_event =
    Buyer_message string string buyer_message
  | Ai_result string string ai_result
  | Manual_send string string string
  | Cancel string string
  | Set_mode string string review_mode
  | Human_takeover string string
  | Focus_shop string
  | Send_request string string "string option" "int option"
  | Dequeue_next string string
  | Countdown_elapsed string string int
  | Clock int
  | Settle_task nat outcome

definition settle_task :: "nat \<Rightarrow> outcome \<Rightarrow> orchestrator \<Rightarrow> orchestrator" where
  "settle_task i v s =
     (if i < length (or_tasks s) \<and> fits (or_tasks s ! i) v
      then resume_task (or_tasks s ! i) v (s\<lparr>or_tasks := take i (or_tasks s) @ drop (Suc i) (or_tasks s)\<rparr>)
      else s)"

fun orch_step :: "orch_event \<Rightarrow> orchestrator \<Rightarrow> orchestrator" where
  "orch_step (Buyer_message shop cid m) s = onBuyerMessage shop cid m s"
| "orch_step (Ai_result shop cid r) s = onAiResult shop cid r s"
| "orch_step (Manual_send shop cid key) s = onManualSend shop cid key s"
| "orch_step (Cancel shop cid) s = onCancel shop cid s"
| "orch_step (Set_mode shop cid m) s = onSetMode shop cid m s"
| "orch_step (Human_takeover shop cid) s = onHumanTakeover shop cid s"
| "orch_step (Focus_shop shop) s = onFocusShop shop s"
| "orch_step (Send_request shop cid reply g) s = onSendRequest shop cid reply g s"
| "orch_step (Dequeue_next shop cid) s = onDequeueNext shop cid s"
| "orch_step (Countdown_elapsed shop cid ms) s = onCountdownElapsed shop cid ms s"
| "orch_step (Clock t) s = s\<lparr>or_now := t\<rparr>"
| "orch_step (Settle_task i v) s = settle_task i v s"

end
