(* ===== verification/Main_Admission.thy ===== *)
theory Main_Admission imports Inbound_Ingress begin

text \<open>
  The Main admission registry, \<open>apps/desktop/src/main/platforms/pdd/pdd-main-admission.ts\<close>. A \<open>WebContents\<close>
  object is its identity (a number); the random id of a grant and the provider's decision (or its throw)
  are arguments. The theorem characterises which admissions validate after an arbitrary history.
\<close>

record connection_evidence =
  ce_webContents :: nat
  ce_observerId :: string
  ce_observerLifecycleId :: int
  ce_sessionId :: string
  ce_shopId :: string
  ce_documentGeneration :: int
  ce_cdpSessionId :: string
  ce_requestId :: string
  ce_url :: string

record admission_request =
  aq_webContents :: nat
  aq_connection :: connection_evidence
  aq_binding :: document_binding

datatype provider_decision = Provider_grants | Provider_denies string | Provider_throws

datatype admission_decision = Admission_granted string | Admission_denied string

text \<open>\<open>DENY_ALL_MAIN_ADMISSION_PROVIDER\<close>, the default.\<close>

definition deny_all :: "admission_request \<Rightarrow> provider_decision" where
  "deny_all q = Provider_denies ''MAIN_ADMISSION_DENIED_DEFAULT''"

text \<open>\<open>connectionEvidenceHash\<close>: the text that is hashed, and its digest.\<close>

definition connectionEvidenceHash :: "(string \<Rightarrow> string) \<Rightarrow> connection_evidence \<Rightarrow> string" where
  "connectionEvidenceHash digest c = digest (js_join ''|'' [ce_observerId c, show_int (ce_observerLifecycleId c), ce_sessionId c, ce_shopId c,
     show_int (ce_documentGeneration c), ce_cdpSessionId c, ce_requestId c, ce_url c])"

definition sameBinding :: "document_binding \<Rightarrow> document_binding \<Rightarrow> bool" where
  "sameBinding l r \<longleftrightarrow> db_sessionId l = db_sessionId r \<and> db_shopId l = db_shopId r \<and> db_documentGeneration l = db_documentGeneration r"

definition sameConnection :: "connection_evidence \<Rightarrow> connection_evidence \<Rightarrow> bool" where
  "sameConnection l r \<longleftrightarrow> ce_webContents l = ce_webContents r \<and> ce_observerId l = ce_observerId r
     \<and> ce_observerLifecycleId l = ce_observerLifecycleId r \<and> ce_sessionId l = ce_sessionId r \<and> ce_shopId l = ce_shopId r
     \<and> ce_documentGeneration l = ce_documentGeneration r \<and> ce_cdpSessionId l = ce_cdpSessionId r
     \<and> ce_requestId l = ce_requestId r \<and> ce_url l = ce_url r"

record admission_record =
  ar_request :: admission_request
  ar_revoked :: bool

type_synonym admission_registry = "(string \<times> admission_record) list"

definition evaluate_admission ::
  "(admission_request \<Rightarrow> provider_decision) \<Rightarrow> string \<Rightarrow> admission_request \<Rightarrow> admission_registry \<Rightarrow> admission_decision \<times> admission_registry" where
  "evaluate_admission provider uuid q rs = (case provider q of
       Provider_throws \<Rightarrow> (Admission_denied ''MAIN_ADMISSION_PROVIDER_THREW'', rs)
     | Provider_denies r \<Rightarrow> (Admission_denied r, rs)
     | Provider_grants \<Rightarrow> (Admission_granted uuid, map_set uuid \<lparr>ar_request = q, ar_revoked = False\<rparr> rs))"

definition validate_admission :: "string \<Rightarrow> admission_request \<Rightarrow> admission_registry \<Rightarrow> bool" where
  "validate_admission aid q rs = (case map_of rs aid of
       None \<Rightarrow> False
     | Some r \<Rightarrow> \<not> ar_revoked r \<and> aq_webContents (ar_request r) = aq_webContents q
         \<and> sameConnection (aq_connection (ar_request r)) (aq_connection q) \<and> sameBinding (aq_binding (ar_request r)) (aq_binding q))"

definition revoke_admission :: "string \<Rightarrow> admission_registry \<Rightarrow> admission_registry" where
  "revoke_admission aid rs = (case map_of rs aid of Some r \<Rightarrow> map_set aid (r\<lparr>ar_revoked := True\<rparr>) rs | None \<Rightarrow> rs)"

definition revokeForWebContents :: "nat \<Rightarrow> admission_registry \<Rightarrow> admission_registry" where
  "revokeForWebContents wc rs = map (\<lambda>(i, r). (i, if aq_webContents (ar_request r) = wc then r\<lparr>ar_revoked := True\<rparr> else r)) rs"

definition clear_admissions :: "admission_registry \<Rightarrow> admission_registry" where
  "clear_admissions rs = []"

datatype admission_event =
    Evaluate string admission_request
  | Revoke string
  | Revoke_contents nat
  | Clear_all

fun admission_step :: "(admission_request \<Rightarrow> provider_decision) \<Rightarrow> admission_event \<Rightarrow> admission_registry \<Rightarrow> admission_registry" where
  "admission_step provider (Evaluate uuid q) rs = snd (evaluate_admission provider uuid q rs)"
| "admission_step provider (Revoke aid) rs = revoke_admission aid rs"
| "admission_step provider (Revoke_contents wc) rs = revokeForWebContents wc rs"
| "admission_step provider Clear_all rs = clear_admissions rs"

subsection \<open>Which admissions validate\<close>

lemma sameBinding_iff [simp]: "sameBinding l r \<longleftrightarrow> l = r"
  by (auto simp: sameBinding_def)

lemma sameConnection_iff [simp]: "sameConnection l r \<longleftrightarrow> l = r"
  by (auto simp: sameConnection_def)

lemma validate_iff: "validate_admission aid q rs \<longleftrightarrow> map_of rs aid = Some \<lparr>ar_request = q, ar_revoked = False\<rparr>"
  by (auto simp: validate_admission_def split: option.splits)

lemma map_of_revokeForWebContents:
  "map_of (revokeForWebContents wc rs) aid =
     map_option (\<lambda>r. if aq_webContents (ar_request r) = wc then r\<lparr>ar_revoked := True\<rparr> else r) (map_of rs aid)"
proof (induction rs)
  case Nil
  then show ?case by (simp add: revokeForWebContents_def)
next
  case (Cons p rs)
  then show ?case by (cases p) (simp add: revokeForWebContents_def)
qed

lemma revoked_record [simp]: "r\<lparr>ar_revoked := True\<rparr> \<noteq> \<lparr>ar_request = q, ar_revoked = False\<rparr>"
  by (cases r) simp

text \<open>An event that ends the admission \<open>aid\<close> of the request \<open>q\<close>, or replaces it.\<close>

fun ends :: "(admission_request \<Rightarrow> provider_decision) \<Rightarrow> string \<Rightarrow> admission_request \<Rightarrow> admission_event \<Rightarrow> bool" where
  "ends provider aid q (Evaluate uuid p) \<longleftrightarrow> uuid = aid \<and> provider p = Provider_grants \<and> p \<noteq> q"
| "ends provider aid q (Revoke i) \<longleftrightarrow> i = aid"
| "ends provider aid q (Revoke_contents wc) \<longleftrightarrow> wc = aq_webContents q"
| "ends provider aid q Clear_all \<longleftrightarrow> True"

lemma validate_step:
  "validate_admission aid q (admission_step provider e rs) \<longleftrightarrow>
     (e = Evaluate aid q \<and> provider q = Provider_grants) \<or> (validate_admission aid q rs \<and> \<not> ends provider aid q e)"
proof (cases e)
  case (Evaluate uuid p)
  then show ?thesis by (cases "provider p") (auto simp: validate_iff evaluate_admission_def)
next
  case (Revoke i)
  then show ?thesis by (cases "map_of rs i") (auto simp: validate_iff revoke_admission_def)
next
  case (Revoke_contents wc)
  then show ?thesis by (cases "map_of rs aid") (auto simp: validate_iff map_of_revokeForWebContents)
next
  case Clear_all
  then show ?thesis by (simp add: validate_iff clear_admissions_def)
qed

text \<open>
  After any history of evaluations and revocations, an admission validates for a request
  exactly when the provider granted that id for the very same request (web contents, connection
  evidence and document binding, field by field), and nothing since then revoked the id, revoked its web
  contents, cleared the registry or gave the id to another request. With the default provider no
  admission ever validates.
\<close>

theorem admission_needs_live_grant:
  "(validate_admission aid q (run (admission_step provider) es []) \<longleftrightarrow>
     (\<exists>us vs. es = us @ Evaluate aid q # vs \<and> provider q = Provider_grants \<and> (\<forall>e \<in> set vs. \<not> ends provider aid q e)))
   \<and> \<not> validate_admission aid q (run (admission_step deny_all) es [])"
proof
  show "validate_admission aid q (run (admission_step provider) es []) \<longleftrightarrow>
     (\<exists>us vs. es = us @ Evaluate aid q # vs \<and> provider q = Provider_grants \<and> (\<forall>e \<in> set vs. \<not> ends provider aid q e))"
    for provider
  proof (induction es rule: rev_induct)
    case Nil
    then show ?case by (simp add: validate_iff)
  next
    case (snoc e es)
    let ?P = "\<lambda>es. \<exists>us vs. es = us @ Evaluate aid q # vs \<and> provider q = Provider_grants \<and> (\<forall>e \<in> set vs. \<not> ends provider aid q e)"
    have "?P (es @ [e]) \<longleftrightarrow> (e = Evaluate aid q \<and> provider q = Provider_grants) \<or> (?P es \<and> \<not> ends provider aid q e)"
    proof
      assume "?P (es @ [e])"
      then obtain us vs where *: "es @ [e] = us @ Evaluate aid q # vs" "provider q = Provider_grants" "\<forall>e \<in> set vs. \<not> ends provider aid q e" by blast
      then show "(e = Evaluate aid q \<and> provider q = Provider_grants) \<or> (?P es \<and> \<not> ends provider aid q e)"
        by (cases vs rule: rev_cases) auto
    next
      assume "(e = Evaluate aid q \<and> provider q = Provider_grants) \<or> (?P es \<and> \<not> ends provider aid q e)"
      then show "?P (es @ [e])"
      proof
        assume "e = Evaluate aid q \<and> provider q = Provider_grants"
        then show ?thesis by (intro exI [of _ es] exI [of _ "[]"]) simp
      next
        assume "?P es \<and> \<not> ends provider aid q e"
        then obtain us vs where "es = us @ Evaluate aid q # vs" "provider q = Provider_grants" "\<forall>e \<in> set vs. \<not> ends provider aid q e"
          "\<not> ends provider aid q e" by blast
        then show ?thesis by (intro exI [of _ us] exI [of _ "vs @ [e]"]) auto
      qed
    qed
    then show ?case using snoc by (simp add: run_append validate_step)
  qed
  from this [of deny_all] show "\<not> validate_admission aid q (run (admission_step deny_all) es [])" by (simp add: deny_all_def)
qed

end
