(* ===== verification/Pdd_Observer.thy ===== *)
theory Pdd_Observer imports Main_Admission begin

text \<open>
  The inbound observer of a view, \<open>apps/desktop/src/main/platforms/pdd/pdd-inbound-observer.ts\<close>: it follows
  the debugger messages of the page's network and hands on text frames of allowed sockets and bodies of
  allowed requests. A debugger message is a value of \<open>cdp_message\<close> with the fields the code reads, absent or
  ill-typed ones as \<open>None\<close>; \<open>getDocumentBinding\<close> is the argument \<open>bind\<close>; the two allowlists are \<open>allowed_url\<close> and
  \<open>allowed_http\<close>. Reading a response body is cut at its await: \<open>ob_reads\<close> holds the reads in progress. The
  callbacks are recorded in \<open>ob_out\<close>. The tallies of discovered targets, child sessions and diagnostic sockets,
  which no other part reads, are left out. \<open>toUpperCase\<close> of a request method is the ASCII one.
\<close>

record http_binding =
  hb_connection :: connection_evidence
  hb_method :: string
  hb_url :: string

record http_response =
  hr_binding :: http_binding
  hr_status :: int
  hr_mimeType :: string
  hr_body :: string

record observed_frame =
  of_connection :: connection_evidence
  of_payloadData :: string

datatype observer_output =
    On_connection connection_evidence
  | On_http_request http_binding
  | On_http_response http_response
  | On_frame observed_frame
  | On_stopped string

record body_read =
  br_key :: string
  br_evidence :: http_binding
  br_status :: int
  br_mimeType :: string
  br_lifecycle :: int
  br_epoch :: nat
  br_navigation :: nat

record inbound_observer =
  ob_id :: string
  ob_webContents :: nat
  ob_allowedSessions :: "string list"
  ob_connections :: "(string \<times> connection_evidence) list"
  ob_terminal :: bool
  ob_enabled :: bool
  ob_lifecycleEpoch :: nat
  ob_navigationEpoch :: nat
  ob_initialNavigationSeen :: bool
  ob_lifecycleId :: int
  ob_httpRequests :: "(string \<times> http_binding) list"
  ob_httpResponses :: "(string \<times> (int \<times> string)) list"
  ob_childSessions :: "string list"
  ob_reads :: "body_read list"
  ob_readAttempts :: nat
  ob_readOk :: nat
  ob_readStopped :: "(string \<times> nat) list"
  ob_out :: "observer_output list"

definition new_observer :: "string \<Rightarrow> nat \<Rightarrow> inbound_observer" where
  "new_observer oid wc = \<lparr>ob_id = oid, ob_webContents = wc, ob_allowedSessions = [''''], ob_connections = [], ob_terminal = False,
     ob_enabled = False, ob_lifecycleEpoch = 0, ob_navigationEpoch = 0, ob_initialNavigationSeen = False, ob_lifecycleId = 0,
     ob_httpRequests = [], ob_httpResponses = [], ob_childSessions = [], ob_reads = [], ob_readAttempts = 0, ob_readOk = 0,
     ob_readStopped = [], ob_out = []\<rparr>"

text \<open>Connection and request keys have the same shape.\<close>

definition observer_key :: "string \<Rightarrow> int \<Rightarrow> string \<Rightarrow> string \<Rightarrow> string" where
  "observer_key oid lifecycle cdp rid = js_join ''|'' [oid, show_int lifecycle, cdp, rid]"

definition emit_out :: "observer_output \<Rightarrow> inbound_observer \<Rightarrow> inbound_observer" where
  "emit_out x s = s\<lparr>ob_out := ob_out s @ [x]\<rparr>"

text \<open>\<open>start\<close>: \<open>None\<close> when it throws.\<close>

definition observer_start :: "inbound_observer \<Rightarrow> inbound_observer option" where
  "observer_start s = (if ob_terminal s then None else Some (s\<lparr>ob_lifecycleId := ob_lifecycleId s + 1\<rparr>))"

definition observer_stop :: "string \<Rightarrow> int \<Rightarrow> inbound_observer \<Rightarrow> inbound_observer" where
  "observer_stop reason lifecycle s =
     (if ob_terminal s \<or> lifecycle \<noteq> ob_lifecycleId s then s
      else emit_out (On_stopped reason)
        (s\<lparr>ob_terminal := True, ob_enabled := False, ob_lifecycleEpoch := Suc (ob_lifecycleEpoch s), ob_connections := [], ob_httpRequests := [],
           ob_httpResponses := [],
           ob_allowedSessions := filter (\<lambda>c. c \<notin> set (ob_childSessions s)) (ob_allowedSessions s), ob_childSessions := []\<rparr>))"

text \<open>The outcome of the enable commands of a start.\<close>

definition enable_settled :: "int \<Rightarrow> bool \<Rightarrow> inbound_observer \<Rightarrow> inbound_observer" where
  "enable_settled lifecycle ok s =
     (if ok then (if ob_terminal s \<or> lifecycle \<noteq> ob_lifecycleId s then s else s\<lparr>ob_enabled := True\<rparr>)
      else observer_stop ''NETWORK_ENABLE_FAILED'' lifecycle s)"

definition navigation_started :: "bool \<Rightarrow> bool \<Rightarrow> int \<Rightarrow> inbound_observer \<Rightarrow> inbound_observer" where
  "navigation_started inPlace mainFrame lifecycle s =
     (if \<not> mainFrame \<or> lifecycle \<noteq> ob_lifecycleId s \<or> ob_terminal s then s
      else
        let s1 = s\<lparr>ob_navigationEpoch := Suc (ob_navigationEpoch s)\<rparr> in
        if \<not> ob_initialNavigationSeen s1 then s1\<lparr>ob_initialNavigationSeen := True\<rparr>
        else if inPlace then s1 else observer_stop ''MAIN_DOCUMENT_REPLACEMENT'' lifecycle s1)"

datatype cdp_message =
    Target_attached "string option"
  | Target_detached "string option"
  | Request_will_be_sent "string option" "string option" "string option"
  | Response_received "string option" "int option" "string option"
  | Loading_finished "string option"
  | Loading_failed "string option"
  | Web_socket_created "string option" "string option"
  | Frame_received "string option" "int option" "string option"
  | Other_message

text \<open>A string that is present and not empty.\<close>

definition present_string :: "string option \<Rightarrow> string option" where
  "present_string v = (case v of Some s \<Rightarrow> if s = [] then None else Some s | None \<Rightarrow> None)"

definition upper_char :: "char \<Rightarrow> char" where
  "upper_char c = (let n = (of_char c :: nat) in if 97 \<le> n \<and> n \<le> 122 then char_of (n - 32) else c)"

definition evidence_for :: "document_binding \<Rightarrow> int \<Rightarrow> string \<Rightarrow> string \<Rightarrow> string \<Rightarrow> inbound_observer \<Rightarrow> connection_evidence" where
  "evidence_for b lifecycle cdp rid url s = \<lparr>ce_webContents = ob_webContents s, ce_observerId = ob_id s, ce_observerLifecycleId = lifecycle,
     ce_sessionId = db_sessionId b, ce_shopId = db_shopId b, ce_documentGeneration = db_documentGeneration b, ce_cdpSessionId = cdp,
     ce_requestId = rid, ce_url = url\<rparr>"

fun target_message :: "cdp_message \<Rightarrow> inbound_observer \<Rightarrow> inbound_observer option" where
  "target_message (Target_attached child) s = Some (case present_string child of
       Some c \<Rightarrow> s\<lparr>ob_childSessions := add_set c (ob_childSessions s), ob_allowedSessions := add_set c (ob_allowedSessions s)\<rparr>
     | None \<Rightarrow> s)"
| "target_message (Target_detached child) s = Some (case present_string child of
       Some c \<Rightarrow> s\<lparr>ob_childSessions := removeAll c (ob_childSessions s), ob_allowedSessions := removeAll c (ob_allowedSessions s)\<rparr>
     | None \<Rightarrow> s)"
| "target_message _ s = None"

definition request_sent ::
  "(string \<Rightarrow> string \<Rightarrow> bool) option \<Rightarrow> document_binding option \<Rightarrow> int \<Rightarrow> string \<Rightarrow> string \<Rightarrow> string \<Rightarrow> string \<Rightarrow> inbound_observer \<Rightarrow> inbound_observer" where
  "request_sent allowed_http bind lifecycle cdp rid url verb s =
     (if (case allowed_http of None \<Rightarrow> True | Some ok \<Rightarrow> \<not> ok verb url) then s
      else case bind of
          None \<Rightarrow> s
        | Some b \<Rightarrow>
            let key = observer_key (ob_id s) lifecycle cdp rid in
            if key \<in> fst ` set (ob_httpRequests s) then s
            else
              let e = \<lparr>hb_connection = evidence_for b lifecycle cdp rid url s, hb_method = verb, hb_url = url\<rparr> in
              emit_out (On_http_request e)
                (s\<lparr>ob_httpRequests := map_set key e (ob_httpRequests s), ob_httpResponses := map_delete key (ob_httpResponses s)\<rparr>))"

definition count_stop :: "string \<Rightarrow> inbound_observer \<Rightarrow> inbound_observer" where
  "count_stop reason s = s\<lparr>ob_readStopped := map_set reason (Suc (case map_of (ob_readStopped s) reason of Some n \<Rightarrow> n | None \<Rightarrow> 0)) (ob_readStopped s)\<rparr>"

text \<open>The \<open>finally\<close> of a body read.\<close>

definition forget_request :: "string \<Rightarrow> inbound_observer \<Rightarrow> inbound_observer" where
  "forget_request key s = s\<lparr>ob_httpRequests := map_delete key (ob_httpRequests s), ob_httpResponses := map_delete key (ob_httpResponses s)\<rparr>"

definition same_document_binding :: "connection_evidence \<Rightarrow> document_binding \<Rightarrow> bool" where
  "same_document_binding c b \<longleftrightarrow> ce_sessionId c = db_sessionId b \<and> ce_shopId c = db_shopId b \<and> ce_documentGeneration c = db_documentGeneration b"

text \<open>\<open>readAndEmitHttpBody\<close> up to the read.\<close>

definition begin_read ::
  "document_binding option \<Rightarrow> string \<Rightarrow> http_binding \<Rightarrow> int \<Rightarrow> string \<Rightarrow> int \<Rightarrow> inbound_observer \<Rightarrow> inbound_observer" where
  "begin_read bind key e status mime lifecycle s =
     (let s1 = s\<lparr>ob_readAttempts := Suc (ob_readAttempts s)\<rparr> in
      if ob_terminal s1 \<or> \<not> ob_enabled s1 \<or> lifecycle \<noteq> ob_lifecycleId s1 then forget_request key (count_stop ''LIFECYCLE_INVALID'' s1)
      else case bind of
          None \<Rightarrow> forget_request key (count_stop ''BINDING_ABSENT'' s1)
        | Some b \<Rightarrow>
            if \<not> same_document_binding (hb_connection e) b then forget_request key (count_stop ''BINDING_MISMATCH_BEFORE_READ'' s1)
            else s1\<lparr>ob_reads := ob_reads s1 @ [\<lparr>br_key = key, br_evidence = e, br_status = status, br_mimeType = mime, br_lifecycle = lifecycle,
                    br_epoch = ob_lifecycleEpoch s1, br_navigation = ob_navigationEpoch s1\<rparr>]\<rparr>)"

text \<open>The answer of the debugger: the body, if it is a string, and whether it is encoded; or a failure.\<close>

datatype body_answer = Body_text "string option" bool | Body_failed

definition end_read :: "document_binding option \<Rightarrow> body_answer \<Rightarrow> body_read \<Rightarrow> inbound_observer \<Rightarrow> inbound_observer" where
  "end_read bind answer r s =
     (let e = br_evidence r in
      case answer of
        Body_failed \<Rightarrow> count_stop ''READ_FAILED'' s
      | Body_text body encoded \<Rightarrow>
          if ob_terminal s \<or> \<not> ob_enabled s \<or> br_lifecycle r \<noteq> ob_lifecycleId s \<or> ob_lifecycleEpoch s \<noteq> br_epoch r
             \<or> ob_navigationEpoch s \<noteq> br_navigation r
          then count_stop ''INVALIDATED_DURING_READ'' s
          else if (case bind of None \<Rightarrow> True | Some b \<Rightarrow> \<not> same_document_binding (hb_connection e) b)
          then count_stop ''BINDING_MISMATCH_AFTER_READ'' s
          else case body of
              None \<Rightarrow> count_stop ''BODY_UNAVAILABLE'' s
            | Some text \<Rightarrow>
                if encoded then count_stop ''BODY_BASE64'' s
                else emit_out (On_http_response \<lparr>hr_binding = e, hr_status = br_status r, hr_mimeType = br_mimeType r, hr_body = text\<rparr>)
                       (s\<lparr>ob_readOk := Suc (ob_readOk s)\<rparr>))"

definition settle_read :: "document_binding option \<Rightarrow> body_answer \<Rightarrow> nat \<Rightarrow> inbound_observer \<Rightarrow> inbound_observer" where
  "settle_read bind answer i s =
     (if i < length (ob_reads s)
      then forget_request (br_key (ob_reads s ! i))
             (end_read bind answer (ob_reads s ! i) (s\<lparr>ob_reads := take i (ob_reads s) @ drop (Suc i) (ob_reads s)\<rparr>))
      else s)"

definition socket_created :: "(string \<Rightarrow> bool) \<Rightarrow> document_binding option \<Rightarrow> int \<Rightarrow> string \<Rightarrow> string \<Rightarrow> string \<Rightarrow> inbound_observer \<Rightarrow> inbound_observer" where
  "socket_created allowed_url bind lifecycle cdp rid url s =
     (if \<not> allowed_url url then s
      else case bind of
          None \<Rightarrow> s
        | Some b \<Rightarrow>
            let c = evidence_for b lifecycle cdp rid url s; key = observer_key (ob_id s) lifecycle cdp rid in
            if key \<in> fst ` set (ob_connections s) then s
            else emit_out (On_connection c) (s\<lparr>ob_connections := map_set key c (ob_connections s)\<rparr>))"

definition network_message ::
  "(string \<Rightarrow> bool) \<Rightarrow> (string \<Rightarrow> string \<Rightarrow> bool) option \<Rightarrow> document_binding option \<Rightarrow> cdp_message \<Rightarrow> string \<Rightarrow> int \<Rightarrow> inbound_observer \<Rightarrow> inbound_observer" where
  "network_message allowed_url allowed_http bind msg cdp lifecycle s =
     (case msg of
        Request_will_be_sent rid url verb \<Rightarrow>
          (case (present_string rid, present_string url, present_string verb) of
             (Some r, Some u, Some v) \<Rightarrow> request_sent allowed_http bind lifecycle cdp r u (map upper_char v) s
           | _ \<Rightarrow> s)
      | Response_received rid status mime \<Rightarrow>
          (case present_string rid of
             None \<Rightarrow> s
           | Some r \<Rightarrow>
               let key = observer_key (ob_id s) lifecycle cdp r in
               if key \<notin> fst ` set (ob_httpRequests s) then s
               else s\<lparr>ob_httpResponses := map_set key
                      (case status of Some n \<Rightarrow> n | None \<Rightarrow> 0, case mime of Some t \<Rightarrow> t | None \<Rightarrow> []) (ob_httpResponses s)\<rparr>)
      | Loading_finished rid \<Rightarrow>
          (case present_string rid of
             None \<Rightarrow> s
           | Some r \<Rightarrow>
               let key = observer_key (ob_id s) lifecycle cdp r in
               (case (map_of (ob_httpRequests s) key, map_of (ob_httpResponses s) key) of
                  (Some e, Some (status, mime)) \<Rightarrow> begin_read bind key e status mime lifecycle s
                | _ \<Rightarrow> s))
      | Loading_failed rid \<Rightarrow>
          (case present_string rid of
             None \<Rightarrow> s
           | Some r \<Rightarrow> forget_request (observer_key (ob_id s) lifecycle cdp r) s)
      | Web_socket_created rid url \<Rightarrow>
          (case (present_string rid, present_string url) of
             (Some r, Some u) \<Rightarrow> socket_created allowed_url bind lifecycle cdp r u s
           | _ \<Rightarrow> s)
      | Frame_received rid opcode payload \<Rightarrow>
          (case (present_string rid, payload) of
             (Some r, Some p) \<Rightarrow>
               (case map_of (ob_connections s) (observer_key (ob_id s) lifecycle cdp r) of
                  Some c \<Rightarrow> if opcode = Some 1 then emit_out (On_frame \<lparr>of_connection = c, of_payloadData = p\<rparr>) s else s
                | None \<Rightarrow> s)
           | _ \<Rightarrow> s)
      | _ \<Rightarrow> s)"

definition handleDebuggerMessage ::
  "(string \<Rightarrow> bool) \<Rightarrow> (string \<Rightarrow> string \<Rightarrow> bool) option \<Rightarrow> document_binding option \<Rightarrow> cdp_message \<Rightarrow> string \<Rightarrow> int \<Rightarrow> inbound_observer \<Rightarrow> inbound_observer" where
  "handleDebuggerMessage allowed_url allowed_http bind msg cdp lifecycle s =
     (case target_message msg s of
        Some s1 \<Rightarrow> s1
      | None \<Rightarrow>
          if ob_terminal s \<or> \<not> ob_enabled s \<or> lifecycle \<noteq> ob_lifecycleId s \<or> cdp \<notin> set (ob_allowedSessions s) then s
          else network_message allowed_url allowed_http bind msg cdp lifecycle s)"

text \<open>The debugger's listeners are removed by \<open>stop\<close>, so a stopped observer gets no message.\<close>

datatype observer_event =
    Observer_start
  | Observer_enabled int bool
  | Observer_message "document_binding option" cdp_message string int
  | Observer_body "document_binding option" body_answer nat
  | Observer_navigation bool bool int
  | Observer_detached string int
  | Observer_destroyed int
  | Observer_stop string

fun observer_step :: "(string \<Rightarrow> bool) \<Rightarrow> (string \<Rightarrow> string \<Rightarrow> bool) option \<Rightarrow> observer_event \<Rightarrow> inbound_observer \<Rightarrow> inbound_observer" where
  "observer_step au ah Observer_start s = (case observer_start s of Some s1 \<Rightarrow> s1 | None \<Rightarrow> s)"
| "observer_step au ah (Observer_enabled l ok) s = enable_settled l ok s"
| "observer_step au ah (Observer_message bind msg cdp l) s = (if ob_terminal s then s else handleDebuggerMessage au ah bind msg cdp l s)"
| "observer_step au ah (Observer_body bind answer i) s = settle_read bind answer i s"
| "observer_step au ah (Observer_navigation inPlace mainFrame l) s = navigation_started inPlace mainFrame l s"
| "observer_step au ah (Observer_detached reason l) s = observer_stop (''EXTERNAL_DEBUGGER_DETACH:'' @ reason) l s"
| "observer_step au ah (Observer_destroyed l) s = observer_stop ''WEBCONTENTS_DESTROYED'' l s"
| "observer_step au ah (Observer_stop reason) s = observer_stop reason (ob_lifecycleId s) s"

end
