(* ===== verification/Pdd_Session_Props.thy ===== *)
theory Pdd_Session_Props imports Pdd_Session begin

text \<open>
  What a PDD session guarantees: its status follows the transition table, a disposed session stays disposed, the
  re-authentication latch is not cleared by page events, a selected customer is never kept across documents or
  in a state where the page is not trusted, and a context dies with the document it was made for.
\<close>

subsection \<open>The state machine\<close>

text \<open>Reachability in the transition table.\<close>

inductive status_path :: "session_status \<Rightarrow> session_status \<Rightarrow> bool" where
  here: "status_path st st"
| step: "status_path st u \<Longrightarrow> v \<in> set (LEGAL_SESSION_TRANSITIONS u) \<Longrightarrow> status_path st v"

lemma status_path_trans: "status_path u v \<Longrightarrow> status_path st u \<Longrightarrow> status_path st v"
  by (induction rule: status_path.induct) (auto intro: status_path.intros)

lemma status_path_one: "v \<in> set (LEGAL_SESSION_TRANSITIONS u) \<Longrightarrow> status_path u v"
  using status_path.here status_path.step by blast

lemma disposed_absorbs: "status_path st u \<Longrightarrow> st = Session_disposed \<Longrightarrow> u = Session_disposed"
  by (induction rule: status_path.induct) auto

lemma stopped_not_reentered: "status_path st u \<Longrightarrow> u = Session_stopped \<Longrightarrow> st = Session_stopped"
proof (induction rule: status_path.induct)
  case (step st u v)
  then show ?case by (cases u) auto
qed simp

lemma setStatus_Inr:
  assumes "setStatus nxt err s = Inr s1"
  shows "ss_status s1 = nxt" "nxt \<in> set (LEGAL_SESSION_TRANSITIONS (ss_status s))" "ss_shopId s1 = ss_shopId s"
    "ss_sessionId s1 = ss_sessionId s" "suppressed nxt \<Longrightarrow> ss_selected s1 = None" "\<not> suppressed nxt \<Longrightarrow> ss_selected s1 = ss_selected s"
    "ss_lastError s1 = (if nxt = Session_auth_reauth then None else case err of Some e \<Rightarrow> Some (take 200 e) | None \<Rightarrow> ss_lastError s)"
  using assms by (auto simp: setStatus_def Let_def clearSelectedCustomerObservation_def split: if_splits option.splits)

text \<open>What a transition of the host does: it is refused and nothing changes, or only the session state changes.\<close>

lemma host_setStatus_cases:
  obtains (refused) "host_setStatus nxt err h = (False, h)" "nxt \<notin> set (LEGAL_SESSION_TRANSITIONS (host_status h))"
  | (changed) s where "host_setStatus nxt err h = (True, h\<lparr>sh_state := s\<rparr>)" "setStatus nxt err (sh_state h) = Inr s"
proof (cases "setStatus nxt err (sh_state h)")
  case (Inl e)
  then show ?thesis by (intro refused) (auto simp: host_setStatus_def setStatus_def Let_def split: if_splits)
next
  case (Inr s)
  then show ?thesis by (intro changed) (simp_all add: host_setStatus_def)
qed

subsection \<open>The invariant of the host\<close>

definition error_bounded :: "session_state \<Rightarrow> bool" where
  "error_bounded s = (case ss_lastError s of Some e \<Rightarrow> length e \<le> 200 | None \<Rightarrow> True)"

definition state_ok :: "session_state \<Rightarrow> bool" where
  "state_ok s \<longleftrightarrow> (suppressed (ss_status s) \<longrightarrow> ss_selected s = None) \<and> error_bounded s"

definition host_inv :: "session_host \<Rightarrow> bool" where
  "host_inv h \<longleftrightarrow> state_ok (sh_state h) \<and> 0 \<le> sh_documentGeneration h
     \<and> sh_activeDocumentGeneration h = (if sh_documentGeneration h = 0 then None else Some (sh_documentGeneration h))
     \<and> (host_status h = Session_disposed \<longrightarrow> sh_view h = None)"

text \<open>How one operation may change a host.\<close>

definition host_advances :: "session_host \<Rightarrow> session_host \<Rightarrow> bool" where
  "host_advances h k \<longleftrightarrow> status_path (host_status h) (host_status k) \<and> ss_shopId (sh_state k) = ss_shopId (sh_state h)
     \<and> ss_sessionId (sh_state k) = ss_sessionId (sh_state h) \<and> sh_documentGeneration h \<le> sh_documentGeneration k
     \<and> sh_contexts k = sh_contexts h"

lemma host_advances_refl [simp]: "host_advances h h"
  by (simp add: host_advances_def status_path.here)

lemma host_advances_trans: "host_advances h k \<Longrightarrow> host_advances k m \<Longrightarrow> host_advances h m"
  by (auto simp: host_advances_def intro: status_path_trans)

definition host_ok :: "session_host \<Rightarrow> session_host \<Rightarrow> bool" where
  "host_ok h k \<longleftrightarrow> host_advances h k \<and> (host_inv h \<longrightarrow> host_inv k)"

lemma host_ok_refl [simp]: "host_ok h h"
  by (simp add: host_ok_def)

lemma host_ok_trans: "host_ok h k \<Longrightarrow> host_ok k m \<Longrightarrow> host_ok h m"
  by (auto simp: host_ok_def intro: host_advances_trans)

lemma setStatus_ok:
  assumes "nxt = Session_disposed \<longrightarrow> sh_view h = None"
  shows "host_ok h (snd (host_setStatus nxt err h))"
proof (cases rule: host_setStatus_cases [where nxt = nxt and err = err and h = h])
  case refused
  then show ?thesis by simp
next
  case (changed s)
  note s = setStatus_Inr [OF changed(2)]
  have "state_ok s" if "state_ok (sh_state h)"
    using that s by (auto simp: state_ok_def error_bounded_def split: option.splits)
  then show ?thesis
    using s changed(1) assms by (auto simp: host_ok_def host_advances_def host_inv_def intro: status_path_one)
qed

lemma failClosed_ok: "host_ok h (failClosed reason h)"
  by (simp add: failClosed_def setStatus_ok)

lemma clear_ok: "host_ok h (h\<lparr>sh_state := clearSelectedCustomerObservation (sh_state h)\<rparr>)"
  by (auto simp: host_ok_def host_advances_def host_inv_def state_ok_def error_bounded_def clearSelectedCustomerObservation_def
      intro: status_path.here)

lemma flags_ok:
  "host_ok h (h\<lparr>sh_awaitingExplicitNavigationStart := b\<rparr>)" "host_ok h (hook ev h)"
  "host_ok h (h\<lparr>sh_startedDocumentGeneration := g, sh_observations := obs\<rparr>)"
  "host_status h \<noteq> Session_disposed \<Longrightarrow> host_ok h (h\<lparr>sh_view := Some v\<rparr>)" "host_ok h (h\<lparr>sh_view := None\<rparr>)"
  "\<not> suppressed (host_status h) \<Longrightarrow> host_ok h (h\<lparr>sh_state := (sh_state h)\<lparr>ss_selected := Some c\<rparr>\<rparr>)"
  "host_ok h (h\<lparr>sh_state := setConversation cid b' (sh_state h)\<rparr>)"
  by (auto simp: host_ok_def host_advances_def host_inv_def state_ok_def error_bounded_def hook_def setConversation_def
      intro: status_path.here)

lemma begin_cases:
  obtains (refused) "beginDocumentLifecycle a h = (False, h\<lparr>sh_state := clearSelectedCustomerObservation (sh_state h)\<rparr>)"
      "host_status h \<noteq> Session_loading" "Session_loading \<notin> set (LEGAL_SESSION_TRANSITIONS (host_status h))"
  | (begun) k where "beginDocumentLifecycle a h = (True, k)" "host_ok h k" "host_status k = Session_loading"
      "sh_documentGeneration k = sh_documentGeneration h + 1" "ss_selected (sh_state k) = None" "sh_view k = sh_view h"
proof -
  let ?h1 = "h\<lparr>sh_state := clearSelectedCustomerObservation (sh_state h)\<rparr>"
  have st: "host_status ?h1 = host_status h" by (simp add: clearSelectedCustomerObservation_def)
  have next_ok: "host_ok k (k\<lparr>sh_documentGeneration := sh_documentGeneration k + 1, sh_activeDocumentGeneration := Some (sh_documentGeneration k + 1),
      sh_startedDocumentGeneration := None, sh_fixtureDocumentGeneration := f\<rparr>)" for k f
    by (auto simp: host_ok_def host_advances_def host_inv_def intro: status_path.here)
  show thesis
  proof (cases "host_status h = Session_loading")
    case True
    show thesis
    proof (rule begun)
      show "beginDocumentLifecycle a h = (True, snd (beginDocumentLifecycle a h))"
        using True st by (simp add: beginDocumentLifecycle_def Let_def)
    qed (use True st host_ok_trans [OF clear_ok next_ok] in \<open>simp_all add: beginDocumentLifecycle_def Let_def clearSelectedCustomerObservation_def\<close>)
  next
    case False
    show thesis
    proof (cases rule: host_setStatus_cases [where nxt = Session_loading and err = None and h = ?h1])
      case refused
      then show thesis using False st by (intro that(1)) (simp_all add: beginDocumentLifecycle_def Let_def)
    next
      case (changed s)
      note s = setStatus_Inr [OF changed(2)]
      have ok: "host_ok h (?h1\<lparr>sh_state := s\<rparr>)"
        using host_ok_trans [OF clear_ok [of h] setStatus_ok [of Session_loading ?h1 None]] changed(1) by simp
      show thesis
      proof (rule begun)
        show "beginDocumentLifecycle a h = (True, snd (beginDocumentLifecycle a h))"
          using False st changed by (simp add: beginDocumentLifecycle_def Let_def)
      qed (use False st changed s host_ok_trans [OF ok next_ok] in
          \<open>simp_all add: beginDocumentLifecycle_def Let_def clearSelectedCustomerObservation_def suppressed_def\<close>)
    qed
  qed
qed

lemma begin_ok: "host_ok h (snd (beginDocumentLifecycle a h))"
  by (cases rule: begin_cases [where a = a and h = h]) (simp_all add: clear_ok)

lemma createAndLoad_ok: "host_ok h (snd (createAndLoad v fixture h))"
proof (cases rule: host_setStatus_cases [where nxt = Session_creating and err = None and h = h])
  case refused
  then show ?thesis by (simp add: createAndLoad_def)
next
  case (changed s)
  let ?h1 = "h\<lparr>sh_state := s\<rparr>"
  have h1: "host_ok h ?h1" using setStatus_ok [of Session_creating h None] changed(1) by simp
  have st: "host_status ?h1 = Session_creating" using setStatus_Inr(1) [OF changed(2)] by simp
  show ?thesis
  proof (cases v)
    case None
    then show ?thesis using changed(1) host_ok_trans [OF h1 failClosed_ok] by (simp add: createAndLoad_def Let_def)
  next
    case (Some w)
    let ?h2 = "?h1\<lparr>sh_view := Some w\<rparr>"
    have h2: "host_ok h ?h2" using host_ok_trans [OF h1 flags_ok(4)] st by simp
    note h3 = host_ok_trans [OF h2 begin_ok [of ?h2 True]]
    show ?thesis
      using changed(1) Some h2 host_ok_trans [OF h3 flags_ok(1)] host_ok_trans [OF h3 failClosed_ok]
      by (simp add: createAndLoad_def Let_def case_prod_beta)
  qed
qed

lemma event_status_ok: "host_ok h (snd (event_status ev h))"
proof -
  have "host_ok h (snd (host_setStatus st err h))" if "st \<noteq> Session_disposed" for st err
    using that by (intro setStatus_ok) simp
  then show ?thesis
    by (cases "pe_conversation_id ev") (simp_all add: event_status_def flags_ok)
qed

lemma handleEvent_ok: "host_ok h (handleEvent ev h)"
proof -
  have hk: "host_ok h k \<Longrightarrow> host_ok h (hook ev k)" for k using host_ok_trans flags_ok(2) by blast
  have "host_ok h (snd (event_status ev h))" "host_ok h (failClosed r (snd (event_status ev h)))" for r
    using event_status_ok host_ok_trans [OF event_status_ok failClosed_ok] by blast+
  then show ?thesis
    by (simp add: handleEvent_def Let_def case_prod_beta hk flags_ok failClosed_ok)
qed

lemma dispose_ok: "host_ok h (dispose_session h)"
proof -
  let ?k = "h\<lparr>sh_view := None, sh_state := clearSelectedCustomerObservation (sh_state h)\<rparr>"
  have "host_ok h ?k" using host_ok_trans [OF flags_ok(5) [of h] clear_ok [of "h\<lparr>sh_view := None\<rparr>"]] by simp
  then show ?thesis unfolding dispose_session_def by (rule host_ok_trans) (simp add: setStatus_ok)
qed

lemma lifecycle_ok:
  "host_ok h (onMainFrameNavigationStart h)" "host_ok h (onMainFrameDomReady h)" "host_ok h (onMainFrameLoadFailure h)"
  "host_ok h (create_settled ok h)" "host_ok h (reload_settled ok h)" "host_ok h (snd (reload_session fixture h))"
proof -
  show "host_ok h (onMainFrameNavigationStart h)" by (simp add: onMainFrameNavigationStart_def flags_ok begin_ok)
  show "host_ok h (onMainFrameDomReady h)" by (auto simp: onMainFrameDomReady_def flags_ok split: option.splits)
  show "host_ok h (onMainFrameLoadFailure h)" by (simp add: onMainFrameLoadFailure_def failClosed_ok)
  show "host_ok h (create_settled ok h)" by (simp add: create_settled_def flags_ok failClosed_ok)
  show "host_ok h (reload_settled ok h)"
    using host_ok_trans [OF flags_ok(1) failClosed_ok] by (simp add: reload_settled_def Let_def flags_ok)
  show "host_ok h (snd (reload_session fixture h))"
    using host_ok_trans [OF begin_ok flags_ok(1)] by (simp add: reload_session_def Let_def case_prod_beta begin_ok)
qed

lemma create_context_cases:
  obtains (refused) "create_context adm live sender ctx h = (None, h)"
  | (created) v wc g where "sender = Some wc" "sh_view h = Some v" "sh_activeDocumentGeneration h = Some g" "pv_webContents v = wc"
      "create_context adm live sender ctx h =
        (Some ctx, h\<lparr>sh_contexts := map_set ctx \<lparr>cx_view = v, cx_sender = wc, cx_documentGeneration = g\<rparr> (sh_contexts h)\<rparr>)"
proof (cases "\<exists>v wc g. sender = Some wc \<and> sh_view h = Some v \<and> sh_activeDocumentGeneration h = Some g \<and> pv_webContents v = wc
    \<and> adm (host_status h) \<and> live wc")
  case True
  then show ?thesis by (auto intro!: created simp: create_context_def)
next
  case False
  then show ?thesis by (intro refused) (auto simp: create_context_def split: option.splits)
qed

text \<open>The context an event creates, if it creates one.\<close>

fun context_event :: "host_event \<Rightarrow> nat option" where
  "context_event (Host_context _ _ _ ctx) = Some ctx"
| "context_event _ = None"

lemma create_context_inv: "host_inv h \<Longrightarrow> host_inv (snd (create_context adm live sender ctx h))"
  by (cases rule: create_context_cases [where adm = adm and live = live and sender = sender and ctx = ctx and h = h])
    (simp_all add: host_inv_def)

lemma host_step_ok: "context_event e = None \<Longrightarrow> host_ok h (host_step e h)"
  by (cases e) (simp_all add: createAndLoad_ok lifecycle_ok handleEvent_ok dispose_ok)

lemma host_step_context:
  "host_step (Host_context c live sender ctx) h = snd (create_context (if c then canonical_status else legacy_status) live sender ctx h)"
  by (simp add: createCanonicalInboundIngressContext_def createInboundIngressContext_def)

lemma context_event_Some: "context_event e = Some ctx \<Longrightarrow> \<exists>c live sender. e = Host_context c live sender ctx"
  by (cases e) auto

lemma host_step_inv: "host_inv h \<Longrightarrow> host_inv (host_step e h)"
proof (cases "context_event e")
  case (Some ctx)
  moreover assume "host_inv h"
  ultimately show ?thesis
    using context_event_Some [of e] create_context_inv by (auto simp: host_step_context simp del: host_step.simps)
next
  case None
  moreover assume "host_inv h"
  ultimately show ?thesis using host_step_ok [of e h] by (auto simp: host_ok_def)
qed

interpretation host_sys: step_invariant host_step host_inv "\<lambda>_. True"
  by unfold_locales (rule host_step_inv)

text \<open>Status, identity and generation along a step and a run.\<close>

definition follows :: "session_host \<Rightarrow> session_host \<Rightarrow> bool" where
  "follows h k \<longleftrightarrow> status_path (host_status h) (host_status k) \<and> sh_documentGeneration h \<le> sh_documentGeneration k
     \<and> ss_shopId (sh_state k) = ss_shopId (sh_state h) \<and> ss_sessionId (sh_state k) = ss_sessionId (sh_state h)"

lemma host_step_follows: "follows h (host_step e h)"
proof (cases "context_event e")
  case (Some ctx)
  then obtain c live sender where e: "e = Host_context c live sender ctx" using context_event_Some by blast
  show ?thesis
    unfolding e host_step_context
    by (cases rule: create_context_cases [where adm = "if c then canonical_status else legacy_status" and live = live and sender = sender
          and ctx = ctx and h = h])
      (simp_all add: follows_def status_path.here)
next
  case None
  then show ?thesis using host_step_ok [of e h] by (auto simp: host_ok_def host_advances_def follows_def)
qed

lemma host_run_follows: "follows h (run host_step es h)"
proof (induction es arbitrary: h)
  case Nil
  then show ?case by (simp add: follows_def status_path.here)
next
  case (Cons e es)
  have "follows h (host_step e h)" by (rule host_step_follows)
  with Cons [of "host_step e h"] show ?case by (auto simp: follows_def intro: status_path_trans)
qed

lemma new_host_inv: "host_inv (new_host shop)"
  by (simp add: host_inv_def new_host_def state_ok_def error_bounded_def)

lemma reachable_host_inv: "host_inv (run host_step es (new_host shop))"
  by (rule host_sys.run_keeps [OF new_host_inv]) simp

text \<open>
  Along every history of a session (loads, reloads, page events, navigation callbacks, contexts
  and disposal, in any order) the status moves only along the transition table, a disposed session stays disposed and
  has no view, no selected customer is held in a state where the page is not trusted, the stored error
  has at most 200 characters, and neither the shop nor the session id changes.
\<close>

theorem session_follows_its_machine:
  assumes "h = run host_step es (new_host shop)" and "k = run host_step fs h"
  shows "status_path (host_status h) (host_status k)
    \<and> (host_status h = Session_disposed \<longrightarrow> host_status k = Session_disposed \<and> sh_view k = None)
    \<and> (suppressed (host_status k) \<longrightarrow> ss_selected (sh_state k) = None) \<and> error_bounded (sh_state k)
    \<and> ss_shopId (sh_state k) = shop \<and> ss_sessionId (sh_state k) = ''pdd-session-'' @ shop"
proof -
  have k: "host_inv k" using reachable_host_inv [of "es @ fs" shop] assms by (simp add: run_append)
  have f: "follows h k" "follows (new_host shop) h" using host_run_follows assms by blast+
  have "host_status h = Session_disposed \<longrightarrow> host_status k = Session_disposed"
    using f(1) disposed_absorbs by (auto simp: follows_def)
  then show ?thesis using f k by (auto simp: follows_def host_inv_def state_ok_def new_host_def)
qed

definition sample_view :: pdd_view where
  "sample_view = \<lparr>pv_id = 1, pv_webContents = 7\<rparr>"

definition sample_page_event :: "page_event_type \<Rightarrow> int option \<Rightarrow> page_event" where
  "sample_page_event t g = \<lparr>pe_event = t, pe_session_id = ''pdd-session-s'', pe_document_generation = g, pe_shop_id = Some ''s'',
     pe_conversation_id = None, pe_buyer_id = None, pe_buyer = None, pe_platform_message_id = None, pe_message_type = None, pe_direction = None, pe_content = None,
     pe_timestamp = None, pe_command_id = None, pe_ok = None, pe_reason = None, pe_status = None, pe_error = None, pe_selected = Customer_selected ''42''\<rparr>"

text \<open>A production session: the view is made, the page navigates, is observed and becomes ready.\<close>

definition sample_session :: "host_event list" where
  "sample_session = [Host_create (Some sample_view) False, Host_navigation_start, Host_dom_ready, Host_page (sample_page_event Page_ready (Some 1))]"

lemmas host_eval = sample_session_def new_host_def createAndLoad_def host_setStatus_def setStatus_def Let_def suppressed_def
  onMainFrameNavigationStart_def beginDocumentLifecycle_def clearSelectedCustomerObservation_def onMainFrameDomReady_def handleEvent_def
  acceptsCurrentDocument_def event_status_def is_other_def hook_def sample_page_event_def failClosed_def isFreshDocumentEvent_def

lemma sample_session_ready:
  "run host_step sample_session (new_host ''s'') = (new_host ''s'')\<lparr>sh_state := (sh_state (new_host ''s''))\<lparr>ss_status := Session_ready\<rparr>,
     sh_view := Some sample_view, sh_documentGeneration := 1, sh_activeDocumentGeneration := Some 1, sh_startedDocumentGeneration := Some 1,
     sh_hooked := [sample_page_event Page_ready (Some 1)], sh_observations := [1]\<rparr>"
  by (simp add: host_eval)

theorem session_follows_its_machine_witness:
  "host_status (run host_step (sample_session @ [Host_dispose]) (new_host ''s'')) = Session_disposed
   \<and> host_status (run host_step [Host_navigation_start, Host_page (sample_page_event Page_ready (Some 2))]
       (run host_step (sample_session @ [Host_dispose]) (new_host ''s''))) = Session_disposed"
proof -
  have d: "host_status (run host_step (sample_session @ [Host_dispose]) (new_host ''s'')) = Session_disposed"
    by (simp add: run_append sample_session_ready dispose_session_def host_eval)
  show ?thesis using session_follows_its_machine [OF refl refl, of "sample_session @ [Host_dispose]" "''s''"] d by blast
qed

subsection \<open>The re-authentication latch\<close>

text \<open>Events that do not start a new document or end the session.\<close>

fun same_document :: "host_event \<Rightarrow> bool" where
  "same_document Host_navigation_start = False"
| "same_document (Host_reload _) = False"
| "same_document Host_dispose = False"
| "same_document _ = True"

lemma failClosed_latched: "host_status h = Session_auth_reauth \<Longrightarrow> failClosed r h = h"
  by (simp add: failClosed_def)

lemma event_status_latched:
  assumes "host_status h = Session_auth_reauth"
  shows "host_status (snd (event_status ev h)) = Session_auth_reauth"
  using assms
  by (cases "pe_event ev"; cases "pe_conversation_id ev")
    (auto simp: event_status_def host_setStatus_def setStatus_def Let_def setConversation_def clearSelectedCustomerObservation_def
      split: option.splits)

lemma handleEvent_latched:
  assumes "host_status h = Session_auth_reauth"
  shows "host_status (handleEvent ev h) = Session_auth_reauth"
  using assms event_status_latched [OF assms, of ev]
  by (simp add: handleEvent_def hook_def Let_def case_prod_beta failClosed_latched)

text \<open>
  Once a session requires re-authentication, it stays so until a new document starts or the
  session is disposed: no page event (of this or another document, fresh or stale, legal or not), no late outcome of a
  load and no second creation clears the latch, and no selected customer is held meanwhile.
\<close>

theorem reauth_latch_holds:
  assumes "h = run host_step es (new_host shop)" and "host_status h = Session_auth_reauth" and "list_all same_document fs"
  shows "host_status (run host_step fs h) = Session_auth_reauth \<and> ss_selected (sh_state (run host_step fs h)) = None"
proof -
  have step: "host_status (host_step e k) = Session_auth_reauth" if "same_document e" "host_status k = Session_auth_reauth" for e k
    using that
  proof (cases e)
    case (Host_context c live sender ctx)
    then show ?thesis
      unfolding Host_context host_step_context
      by (cases rule: create_context_cases [where adm = "if c then canonical_status else legacy_status" and live = live and sender = sender
          and ctx = ctx and h = k]) (simp_all add: that)
  qed (simp_all add: createAndLoad_def host_setStatus_def setStatus_def create_settled_def reload_settled_def failClosed_latched
      handleEvent_latched onMainFrameDomReady_def onMainFrameLoadFailure_def Let_def split: option.splits)
  have "host_status (run host_step fs k) = Session_auth_reauth" if "host_status k = Session_auth_reauth" for k
    using assms(3) that by (induction fs arbitrary: k) (auto simp: step)
  moreover have "host_inv (run host_step fs h)" using reachable_host_inv [of "es @ fs" shop] assms(1) by (simp add: run_append)
  ultimately show ?thesis using assms(2) by (auto simp: host_inv_def state_ok_def suppressed_def)
qed

theorem reauth_latch_holds_witness:
  "host_status (run host_step (sample_session @ [Host_page (sample_page_event Auth_reauth_required (Some 1))]) (new_host ''s'')) = Session_auth_reauth
   \<and> host_status (run host_step [Host_page (sample_page_event Page_ready (Some 1)), Host_load_failure]
       (run host_step (sample_session @ [Host_page (sample_page_event Auth_reauth_required (Some 1))]) (new_host ''s''))) = Session_auth_reauth"
proof -
  let ?es = "sample_session @ [Host_page (sample_page_event Auth_reauth_required (Some 1))]"
  have a: "host_status (run host_step ?es (new_host ''s'')) = Session_auth_reauth"
    by (simp add: run_append sample_session_ready host_eval)
  show ?thesis using reauth_latch_holds [OF refl a, of "[Host_page (sample_page_event Page_ready (Some 1)), Host_load_failure]"] a by simp
qed

subsection \<open>Contexts die with their document\<close>

lemma context_kept:
  assumes "\<forall>e \<in> set es. context_event e \<noteq> Some ctx"
  shows "map_of (sh_contexts (run host_step es h)) ctx = map_of (sh_contexts h) ctx"
  using assms
proof (induction es arbitrary: h)
  case Nil
  then show ?case by simp
next
  case (Cons e es)
  have "map_of (sh_contexts (host_step e h)) ctx = map_of (sh_contexts h) ctx"
  proof (cases "context_event e")
    case (Some ctx')
    then obtain c live sender where e: "e = Host_context c live sender ctx'" using context_event_Some by blast
    then have "ctx' \<noteq> ctx" using Cons.prems by simp
    then show ?thesis
      unfolding e host_step_context
      by (cases rule: create_context_cases [where adm = "if c then canonical_status else legacy_status" and live = live and sender = sender
          and ctx = ctx' and h = h]) simp_all
  next
    case None
    then show ?thesis using host_step_ok [of e h] by (auto simp: host_ok_def host_advances_def)
  qed
  with Cons show ?case by simp
qed

lemma resolve_context_Some:
  assumes "resolve_context adm live (Some ctx) sender h = Some b"
  shows "\<exists>r v. map_of (sh_contexts h) ctx = Some r \<and> sh_view h = Some v \<and> sender = Some (cx_sender r) \<and> cx_view r = v \<and> adm (host_status h)
    \<and> live (pv_webContents v) \<and> sh_activeDocumentGeneration h = Some (cx_documentGeneration r) \<and> getCurrentInboundDocumentBinding h = Some b"
  using assms by (auto simp: resolve_context_def getCurrentInboundDocumentBinding_def split: option.splits if_splits)

text \<open>
  A context resolves only for the sender it was made for, while the same view shows the same
  document, the web contents are alive and the status is admissible; it then resolves to the binding of the current
  document. As soon as a new document has begun, whatever happened in between, it resolves to nothing. The same
  holds for the legacy and the canonical context.
\<close>

theorem context_dies_with_its_document:
  assumes "h = run host_step es (new_host shop)"
    and "create_context adm live sender ctx h = (Some c, h1)"
    and "\<forall>e \<in> set fs. context_event e \<noteq> Some ctx"
    and "resolve_context adm' live' (Some c) sender' (run host_step fs h1) = Some b"
  shows "sender' = sender \<and> getCurrentInboundDocumentBinding (run host_step fs h1) = Some b
    \<and> getCurrentInboundDocumentBinding h = Some b \<and> sh_documentGeneration (run host_step fs h1) = sh_documentGeneration h
    \<and> sh_view (run host_step fs h1) = sh_view h \<and> adm' (host_status (run host_step fs h1))"
proof -
  have inv: "host_inv h" unfolding assms(1) by (rule reachable_host_inv)
  obtain v wc g where cr: "sender = Some wc" "sh_view h = Some v" "sh_activeDocumentGeneration h = Some g" "c = ctx"
    "h1 = h\<lparr>sh_contexts := map_set ctx \<lparr>cx_view = v, cx_sender = wc, cx_documentGeneration = g\<rparr> (sh_contexts h)\<rparr>"
    using assms(2) by (cases rule: create_context_cases [where adm = adm and live = live and sender = sender and ctx = ctx and h = h]) auto
  have rec: "map_of (sh_contexts (run host_step fs h1)) ctx = Some \<lparr>cx_view = v, cx_sender = wc, cx_documentGeneration = g\<rparr>"
    using context_kept [OF assms(3)] cr(5) by simp
  have h1: "host_inv h1" using inv cr(5) by (simp add: host_inv_def)
  have k: "host_inv (run host_step fs h1)" by (rule host_sys.run_keeps [OF h1]) simp
  have f: "follows h1 (run host_step fs h1)" by (rule host_run_follows)
  have gen: "g = sh_documentGeneration h" using inv cr(3) by (auto simp: host_inv_def split: if_splits)
  from resolve_context_Some [OF assms(4) [unfolded cr(4)]] rec
  have r: "sh_view (run host_step fs h1) = Some v" "sender' = Some wc" "adm' (host_status (run host_step fs h1))"
    "sh_activeDocumentGeneration (run host_step fs h1) = Some g" "getCurrentInboundDocumentBinding (run host_step fs h1) = Some b" by auto
  moreover have "sh_documentGeneration (run host_step fs h1) = g" using k r(4) by (auto simp: host_inv_def split: if_splits)
  moreover have "getCurrentInboundDocumentBinding h = Some b"
    using r(1,4,5) f cr by (auto simp: getCurrentInboundDocumentBinding_def follows_def)
  ultimately show ?thesis using cr gen by simp
qed

theorem context_dies_with_its_document_witness:
  "\<exists>c h1. create_context legacy_status (\<lambda>_. True) (Some 7) 0 (run host_step sample_session (new_host ''s'')) = (Some c, h1)
     \<and> resolve_context legacy_status (\<lambda>_. True) (Some c) (Some 7) (run host_step [Host_dom_ready] h1) \<noteq> None
     \<and> getCurrentInboundDocumentBinding (run host_step [Host_dom_ready] h1)
       = getCurrentInboundDocumentBinding (run host_step sample_session (new_host ''s''))"
proof -
  let ?h = "run host_step sample_session (new_host ''s'')"
  obtain h1 where c: "create_context legacy_status (\<lambda>_. True) (Some 7) 0 ?h = (Some 0, h1)"
    and h1: "h1 = ?h\<lparr>sh_contexts := [(0, \<lparr>cx_view = sample_view, cx_sender = 7, cx_documentGeneration = 1\<rparr>)]\<rparr>"
    unfolding sample_session_ready by (simp add: create_context_def legacy_status_def new_host_def sample_view_def)
  obtain b where b: "resolve_context legacy_status (\<lambda>_. True) (Some 0) (Some 7) (run host_step [Host_dom_ready] h1) = Some b"
    unfolding h1 sample_session_ready
    by (simp add: resolve_context_def legacy_status_def new_host_def sample_view_def onMainFrameDomReady_def)
  show ?thesis
    using context_dies_with_its_document [OF refl c _ b] c b by auto
qed

subsection \<open>Events without a document tag\<close>

text \<open>
  Main reports login and blocked routes to the session as events without a document generation. Once a
  document has started in a production session (no fixture), such an event is dropped by
  \<open>acceptsCurrentDocument\<close>, so the session keeps its status.
\<close>

theorem untagged_event_is_dropped:
  assumes "sh_activeDocumentGeneration h \<noteq> None" and "sh_fixtureDocumentGeneration h = None" and "pe_document_generation ev = None"
  shows "handleEvent ev h = h"
  using assms by (auto simp: handleEvent_def acceptsCurrentDocument_def)

text \<open>
  A session that waits for a login starts no new document: the navigation that follows the login is not
  among the states of \<open>onMainFrameNavigationStart\<close>, and the page observer, started for the old generation, is not
  started again.
\<close>

theorem login_navigation_is_not_observed:
  assumes "host_status h = Session_login_required" and "\<not> sh_awaitingExplicitNavigationStart h"
    and "sh_startedDocumentGeneration h = sh_activeDocumentGeneration h"
  shows "onMainFrameDomReady (onMainFrameNavigationStart h) = h"
  using assms by (auto simp: onMainFrameNavigationStart_def onMainFrameDomReady_def split: option.splits)

end
