(* ===== verification/Pdd_View.thy ===== *)
theory Pdd_View imports Pdd_Session_Props begin

text \<open>
  The native view of a shop: the navigation policy (\<open>pdd-navigation-policy.ts\<close>), the partition
  (\<open>pdd-session-partition.ts\<close>), the permission policy (\<open>pdd-permission-policy.ts\<close>) and the view host (\<open>pdd-view-host.ts\<close>), all of
  \<open>apps/desktop/src/main/platforms/pdd/\<close>. The URL parser of the runtime is the argument \<open>parse_url\<close>. The host's calls of
  Electron are values of \<open>native_op\<close>, and \<open>native\<close> is what they do to the two native views: bounds, visibility, closed.
  Coordinates are integers. The theorems state which pages can be reached, and that the read-only shield always covers the
  page.
\<close>

subsection \<open>Navigation policy\<close>

datatype navigation_mode = Nav_fixture | Nav_production

datatype route_kind = Route_fixture | Route_login | Route_chat | Route_blocked

record parsed_url =
  pu_protocol :: string
  pu_hostname :: string
  pu_pathname :: string

definition PDD_TOP_LEVEL_HOST :: string where "PDD_TOP_LEVEL_HOST = ''mms.pinduoduo.com''"

definition PDD_LOGIN_PATH :: string where "PDD_LOGIN_PATH = ''/login/''"

definition PDD_CHAT_PATH :: string where "PDD_CHAT_PATH = ''/chat-merchant/index.html''"

definition PDD_PRODUCTION_CHAT_URL :: string where
  "PDD_PRODUCTION_CHAT_URL = ''https://'' @ PDD_TOP_LEVEL_HOST @ PDD_CHAT_PATH"

definition classifyPddNavigation :: "(string \<Rightarrow> parsed_url option) \<Rightarrow> string \<Rightarrow> navigation_mode \<Rightarrow> string list \<Rightarrow> route_kind" where
  "classifyPddNavigation parse_url url mode hosts =
     (if mode = Nav_fixture then (if prefix ''file://'' url then Route_fixture else Route_blocked)
      else case parse_url url of
          None \<Rightarrow> Route_blocked
        | Some u \<Rightarrow>
            if pu_protocol u \<noteq> ''https:'' then Route_blocked
            else if pu_hostname u \<notin> set hosts then Route_blocked
            else if pu_pathname u = PDD_LOGIN_PATH then Route_login
            else if pu_pathname u = PDD_CHAT_PATH then Route_chat
            else Route_blocked)"

definition isPddNavigationAllowed :: "(string \<Rightarrow> parsed_url option) \<Rightarrow> string \<Rightarrow> navigation_mode \<Rightarrow> string list \<Rightarrow> bool" where
  "isPddNavigationAllowed parse_url url mode hosts = (classifyPddNavigation parse_url url mode hosts \<noteq> Route_blocked)"

definition isPddPopupAllowed :: "string \<Rightarrow> bool" where
  "isPddPopupAllowed url = False"

record interaction_policy =
  ip_pointerInputEnabled :: bool
  ip_keyboardInputEnabled :: bool
  ip_mutationCommandsEnabled :: bool

fun interactionPolicyForRoute :: "route_kind \<Rightarrow> interaction_policy" where
  "interactionPolicyForRoute Route_fixture = \<lparr>ip_pointerInputEnabled = True, ip_keyboardInputEnabled = True, ip_mutationCommandsEnabled = True\<rparr>"
| "interactionPolicyForRoute Route_login = \<lparr>ip_pointerInputEnabled = True, ip_keyboardInputEnabled = True, ip_mutationCommandsEnabled = False\<rparr>"
| "interactionPolicyForRoute _ = \<lparr>ip_pointerInputEnabled = False, ip_keyboardInputEnabled = False, ip_mutationCommandsEnabled = False\<rparr>"

subsection \<open>Partition and permissions\<close>

definition is_safe_char :: "char \<Rightarrow> bool" where
  "is_safe_char c = (let n = (of_char c :: nat) in (65 \<le> n \<and> n \<le> 90) \<or> (97 \<le> n \<and> n \<le> 122) \<or> (48 \<le> n \<and> n \<le> 57)
     \<or> c = CHR ''.'' \<or> c = CHR ''_'' \<or> c = CHR ''-'')"

definition sanitizeShopId :: "string \<Rightarrow> string" where
  "sanitizeShopId shopId = map (\<lambda>c. if is_safe_char c then c else CHR ''_'') shopId"

definition partitionFor :: "string \<Rightarrow> string" where
  "partitionFor shopId = ''persist:shop-'' @ sanitizeShopId shopId"

text \<open>\<open>False\<close> when it throws.\<close>

definition assertSafePartition :: "string \<Rightarrow> bool" where
  "assertSafePartition p = (prefix ''persist:shop-'' p \<and> drop 13 p \<noteq> [] \<and> list_all is_safe_char (drop 13 p))"

definition SENSITIVE_PERMISSIONS :: "string list" where
  "SENSITIVE_PERMISSIONS = [''camera'', ''microphone'', ''geolocation'', ''notifications'', ''midi'', ''bluetooth'', ''usb'', ''serial'', ''screen'',
     ''hid'', ''clipboard-read'', ''media'', ''display-capture'']"

definition pddPermissionDecision :: "string \<Rightarrow> bool" where
  "pddPermissionDecision permission = False"

definition isSensitivePermission :: "string \<Rightarrow> bool" where
  "isSensitivePermission permission = (permission \<in> set SENSITIVE_PERMISSIONS)"

subsection \<open>Bounds\<close>

record view_bounds =
  vb_x :: int
  vb_y :: int
  vb_width :: int
  vb_height :: int
  vb_visible :: bool

definition unionBounds :: "view_bounds \<Rightarrow> view_bounds \<Rightarrow> view_bounds" where
  "unionBounds a b =
     (let x = min (vb_x a) (vb_x b); y = min (vb_y a) (vb_y b);
          right = max (vb_x a + vb_width a) (vb_x b + vb_width b);
          bottom = max (vb_y a + vb_height a) (vb_y b + vb_height b) in
      \<lparr>vb_x = x, vb_y = y, vb_width = right - x, vb_height = bottom - y, vb_visible = (vb_visible a \<or> vb_visible b)\<rparr>)"

definition clampBounds :: "view_bounds \<Rightarrow> view_bounds \<Rightarrow> view_bounds" where
  "clampBounds b content =
     (let width = max 0 (min (vb_width b) (vb_width content)); height = max 0 (min (vb_height b) (vb_height content));
          x = max 0 (min (vb_x b) (max 0 (vb_width content - width)));
          y = max 0 (min (vb_y b) (max 0 (vb_height content - height))) in
      \<lparr>vb_x = x, vb_y = y, vb_width = width, vb_height = height, vb_visible = vb_visible b\<rparr>)"

subsection \<open>The view host\<close>

datatype native_op =
    Page_visible bool
  | Shield_visible bool
  | Page_bounds view_bounds
  | Shield_bounds view_bounds
  | Close_views

record native_views =
  nv_pageVisible :: bool
  nv_shieldVisible :: bool
  nv_pageBounds :: "view_bounds option"
  nv_shieldBounds :: "view_bounds option"
  nv_closed :: bool

fun native :: "native_op \<Rightarrow> native_views \<Rightarrow> native_views" where
  "native (Page_visible b) n = n\<lparr>nv_pageVisible := b\<rparr>"
| "native (Shield_visible b) n = n\<lparr>nv_shieldVisible := b\<rparr>"
| "native (Page_bounds b) n = n\<lparr>nv_pageBounds := Some b\<rparr>"
| "native (Shield_bounds b) n = n\<lparr>nv_shieldBounds := Some b\<rparr>"
| "native Close_views n = n\<lparr>nv_closed := True\<rparr>"

record view_host =
  vh_visible :: bool
  vh_mode :: navigation_mode
  vh_hosts :: "string list"
  vh_entryUrl :: "string option"
  vh_routeKind :: route_kind
  vh_readOnly :: bool
  vh_protectedBounds :: "view_bounds option"
  vh_ops :: "native_op list"
  vh_decisions :: "(route_kind \<times> string option) list"

definition call :: "native_op \<Rightarrow> view_host \<Rightarrow> view_host" where
  "call x h = h\<lparr>vh_ops := vh_ops h @ [x]\<rparr>"

definition applyReadOnlyShield :: "view_host \<Rightarrow> view_host" where
  "applyReadOnlyShield h = call (Shield_visible (vh_visible h \<and> vh_readOnly h)) h"

text \<open>The constructor, once the views are attached.\<close>

definition new_view_host :: "navigation_mode \<Rightarrow> string list \<Rightarrow> string option \<Rightarrow> view_host" where
  "new_view_host mode hosts entryUrl = applyReadOnlyShield (call (Page_visible False)
     \<lparr>vh_visible = False, vh_mode = mode, vh_hosts = hosts, vh_entryUrl = entryUrl,
      vh_routeKind = (if mode = Nav_fixture then Route_fixture else Route_blocked), vh_readOnly = (mode \<noteq> Nav_fixture),
      vh_protectedBounds = None, vh_ops = [], vh_decisions = []\<rparr>)"

definition mutationCommandsEnabled :: "view_host \<Rightarrow> bool" where
  "mutationCommandsEnabled h = ip_mutationCommandsEnabled (interactionPolicyForRoute (vh_routeKind h))"

definition setRoute :: "route_kind \<Rightarrow> string option \<Rightarrow> view_host \<Rightarrow> view_host" where
  "setRoute route url h =
     (let h1 = applyReadOnlyShield (h\<lparr>vh_routeKind := route, vh_readOnly := \<not> ip_pointerInputEnabled (interactionPolicyForRoute route)\<rparr>) in
      h1\<lparr>vh_decisions := vh_decisions h1 @ [(route, url)]\<rparr>)"

text \<open>\<open>handleNavigation\<close>: whether the navigation goes on (\<open>preventDefault\<close> was not called).\<close>

definition handleNavigation :: "(string \<Rightarrow> parsed_url option) \<Rightarrow> string \<Rightarrow> view_host \<Rightarrow> bool \<times> view_host" where
  "handleNavigation parse_url url h =
     (let route = classifyPddNavigation parse_url url (vh_mode h) (vh_hosts h) in
      (route \<noteq> Route_blocked, setRoute route (Some url) h))"

text \<open>Loads: \<open>None\<close> when the promise is rejected, otherwise the URL or file that is loaded.\<close>

definition loadLocalFixture :: "string \<Rightarrow> view_host \<Rightarrow> string option \<times> view_host" where
  "loadLocalFixture path h = (if vh_mode h \<noteq> Nav_fixture then (None, h) else (Some path, setRoute Route_fixture None h))"

definition loadProductionEntry :: "(string \<Rightarrow> parsed_url option) \<Rightarrow> string option \<Rightarrow> view_host \<Rightarrow> string option \<times> view_host" where
  "loadProductionEntry parse_url url h =
     (if vh_mode h \<noteq> Nav_production then (None, h)
      else case (case url of None \<Rightarrow> vh_entryUrl h | Some u \<Rightarrow> Some u) of
          None \<Rightarrow> (None, h)
        | Some u \<Rightarrow>
            if u = [] then (None, h)
            else if classifyPddNavigation parse_url u Nav_production (vh_hosts h) \<noteq> Route_chat then (None, h)
            else (Some u, setRoute Route_chat (Some u) h))"

definition setBounds :: "view_bounds \<Rightarrow> view_bounds \<Rightarrow> view_host \<Rightarrow> view_host" where
  "setBounds bounds content h =
     (let nextBounds = clampBounds bounds content;
          h1 = (case vh_protectedBounds h of
                  None \<Rightarrow> call (Page_bounds nextBounds) (call (Shield_bounds nextBounds) h)
                | Some old \<Rightarrow> call (Shield_bounds nextBounds) (call (Page_bounds nextBounds) (call (Shield_bounds (unionBounds old nextBounds)) h)));
          h2 = h1\<lparr>vh_protectedBounds := Some nextBounds, vh_visible := vb_visible bounds\<rparr> in
      applyReadOnlyShield (call (Page_visible (vh_visible h2)) h2))"

definition show_view :: "view_host \<Rightarrow> view_host" where
  "show_view h = applyReadOnlyShield (call (Page_visible True) (h\<lparr>vh_visible := True\<rparr>))"

definition hide_view :: "view_host \<Rightarrow> view_host" where
  "hide_view h = applyReadOnlyShield (call (Page_visible False) (h\<lparr>vh_visible := False\<rparr>))"

definition dispose_view :: "view_host \<Rightarrow> view_host" where
  "dispose_view h = call Close_views (h\<lparr>vh_readOnly := True, vh_routeKind := Route_blocked\<rparr>)"

datatype view_event =
    View_navigate string
  | View_load_fixture string
  | View_load_entry "string option"
  | View_bounds view_bounds view_bounds
  | View_show
  | View_hide
  | View_dispose

fun view_step :: "(string \<Rightarrow> parsed_url option) \<Rightarrow> view_event \<Rightarrow> view_host \<Rightarrow> view_host" where
  "view_step parse_url (View_navigate url) h = snd (handleNavigation parse_url url h)"
| "view_step parse_url (View_load_fixture path) h = snd (loadLocalFixture path h)"
| "view_step parse_url (View_load_entry url) h = snd (loadProductionEntry parse_url url h)"
| "view_step parse_url (View_bounds b content) h = setBounds b content h"
| "view_step parse_url View_show h = show_view h"
| "view_step parse_url View_hide h = hide_view h"
| "view_step parse_url View_dispose h = dispose_view h"

subsection \<open>Routes\<close>

lemma setRoute_simps [simp]:
  "vh_routeKind (setRoute r u h) = r" "vh_readOnly (setRoute r u h) = (\<not> ip_pointerInputEnabled (interactionPolicyForRoute r))"
  "vh_mode (setRoute r u h) = vh_mode h" "vh_hosts (setRoute r u h) = vh_hosts h" "vh_visible (setRoute r u h) = vh_visible h"
  by (simp_all add: setRoute_def applyReadOnlyShield_def call_def Let_def)

lemma classify_fixture: "classifyPddNavigation parse_url url Nav_fixture hosts \<noteq> Route_blocked \<longleftrightarrow> prefix ''file://'' url"
  by (simp add: classifyPddNavigation_def)

lemma classify_production:
  "classifyPddNavigation parse_url url Nav_production hosts \<noteq> Route_fixture"
  "classifyPddNavigation parse_url url Nav_production hosts \<noteq> Route_blocked \<longleftrightarrow> (\<exists>u. parse_url url = Some u \<and> pu_protocol u = ''https:''
     \<and> pu_hostname u \<in> set hosts \<and> pu_pathname u \<in> {PDD_LOGIN_PATH, PDD_CHAT_PATH})"
  "classifyPddNavigation parse_url url Nav_production hosts = Route_login \<longleftrightarrow> classifyPddNavigation parse_url url Nav_production hosts \<noteq> Route_blocked
     \<and> (\<exists>u. parse_url url = Some u \<and> pu_pathname u = PDD_LOGIN_PATH)"
  by (auto simp: classifyPddNavigation_def split: option.splits)

lemma policy_of_route: "ip_pointerInputEnabled (interactionPolicyForRoute r) \<longleftrightarrow> r = Route_fixture \<or> r = Route_login"
  "ip_mutationCommandsEnabled (interactionPolicyForRoute r) \<longleftrightarrow> r = Route_fixture"
  by (cases r; simp)+

text \<open>
  In production a navigation is let through only to the login or the chat page, over HTTPS, on an
  allowed host; everything else, an unparsable address and the other mode's pages included, is prevented, and in fixture
  mode only files are let through. Whatever navigation happens, the view accepts input only on the login page, or
  on a fixture, and sending commands are enabled on a fixture only.
\<close>

theorem navigation_is_confined:
  assumes "handleNavigation parse_url url h = (proceeds, k)"
  shows "(proceeds \<longleftrightarrow> (vh_mode h = Nav_fixture \<and> prefix ''file://'' url)
        \<or> (vh_mode h = Nav_production \<and> (\<exists>u. parse_url url = Some u \<and> pu_protocol u = ''https:'' \<and> pu_hostname u \<in> set (vh_hosts h)
            \<and> pu_pathname u \<in> {PDD_LOGIN_PATH, PDD_CHAT_PATH})))
    \<and> (vh_mode h = Nav_production \<longrightarrow> \<not> mutationCommandsEnabled k
        \<and> (\<not> vh_readOnly k \<longleftrightarrow> proceeds \<and> (\<exists>u. parse_url url = Some u \<and> pu_pathname u = PDD_LOGIN_PATH)))"
proof -
  let ?r = "classifyPddNavigation parse_url url (vh_mode h) (vh_hosts h)"
  have p: "proceeds \<longleftrightarrow> ?r \<noteq> Route_blocked" and k: "k = setRoute ?r (Some url) h"
    using assms by (auto simp: handleNavigation_def Let_def)
  show ?thesis
  proof (cases "vh_mode h")
    case Nav_fixture
    then show ?thesis using p classify_fixture by simp
  next
    case Nav_production
    then show ?thesis
      using p classify_production [of parse_url url "vh_hosts h"] unfolding k by (auto simp: policy_of_route mutationCommandsEnabled_def)
  qed
qed

theorem navigation_is_confined_witness:
  "fst (handleNavigation (\<lambda>_. Some \<lparr>pu_protocol = ''https:'', pu_hostname = ''mms.pinduoduo.com'', pu_pathname = ''/login/''\<rparr>) ''x''
     (new_view_host Nav_production [''mms.pinduoduo.com''] None))
   \<and> \<not> vh_readOnly (snd (handleNavigation (\<lambda>_. Some \<lparr>pu_protocol = ''https:'', pu_hostname = ''mms.pinduoduo.com'', pu_pathname = ''/login/''\<rparr>) ''x''
     (new_view_host Nav_production [''mms.pinduoduo.com''] None)))"
proof -
  let ?u = "\<lparr>pu_protocol = ''https:'', pu_hostname = ''mms.pinduoduo.com'', pu_pathname = ''/login/''\<rparr>"
  let ?h = "new_view_host Nav_production [''mms.pinduoduo.com''] None"
  let ?x = "handleNavigation (\<lambda>_. Some ?u) ''x'' ?h"
  have "vh_mode ?h = Nav_production" "vh_hosts ?h = [''mms.pinduoduo.com'']" by (simp_all add: new_view_host_def applyReadOnlyShield_def call_def)
  then show ?thesis
    using navigation_is_confined [of "\<lambda>_. Some ?u" "''x''" ?h "fst ?x" "snd ?x"] by (simp add: PDD_LOGIN_PATH_def)
qed

subsection \<open>The shield\<close>

definition covers :: "view_bounds \<Rightarrow> view_bounds \<Rightarrow> bool" where
  "covers a b \<longleftrightarrow> vb_x a \<le> vb_x b \<and> vb_y a \<le> vb_y b \<and> vb_x b + vb_width b \<le> vb_x a + vb_width a
     \<and> vb_y b + vb_height b \<le> vb_y a + vb_height a"

lemma covers_refl [simp]: "covers a a"
  by (simp add: covers_def)

lemma covers_union: "covers (unionBounds a b) a" "covers (unionBounds a b) b"
  by (auto simp: covers_def unionBounds_def Let_def)

lemma clampBounds_inside:
  "0 \<le> vb_width c \<Longrightarrow> 0 \<le> vb_height c \<Longrightarrow> vb_x c = 0 \<Longrightarrow> vb_y c = 0 \<Longrightarrow> covers c (clampBounds b c)"
  by (auto simp: covers_def clampBounds_def Let_def)

text \<open>The shield has bounds that cover those of the page.\<close>

definition shield_in_place :: "native_views \<Rightarrow> bool" where
  "shield_in_place n = (case nv_pageBounds n of
       None \<Rightarrow> True
     | Some p \<Rightarrow> (case nv_shieldBounds n of Some s \<Rightarrow> covers s p | None \<Rightarrow> False))"

text \<open>A property of the native views before and after each of a list of calls.\<close>

fun holds_along :: "(native_views \<Rightarrow> bool) \<Rightarrow> native_op list \<Rightarrow> native_views \<Rightarrow> bool" where
  "holds_along P [] n = P n"
| "holds_along P (x # xs) n = (P n \<and> holds_along P xs (native x n))"

lemma holds_along_append: "holds_along P (xs @ ys) n \<longleftrightarrow> holds_along P xs n \<and> holds_along P ys (run native xs n)"
  by (induction xs arbitrary: n) (auto elim: holds_along.elims)

lemma holds_along_end: "holds_along P xs n \<Longrightarrow> P (run native xs n)"
  by (induction xs arbitrary: n) auto

definition view_inv :: "native_views \<Rightarrow> view_host \<Rightarrow> bool" where
  "view_inv start h \<longleftrightarrow> holds_along shield_in_place (vh_ops h) start
     \<and> nv_pageBounds (run native (vh_ops h) start) = vh_protectedBounds h \<and> nv_shieldBounds (run native (vh_ops h) start) = vh_protectedBounds h
     \<and> nv_pageVisible (run native (vh_ops h) start) = vh_visible h
     \<and> (nv_closed (run native (vh_ops h) start)
         \<or> (nv_shieldVisible (run native (vh_ops h) start) = (vh_visible h \<and> vh_readOnly h)
            \<and> (vh_readOnly h \<longleftrightarrow> vh_routeKind h \<in> {Route_chat, Route_blocked})))"

lemmas view_ops = applyReadOnlyShield_def call_def holds_along_append run_append shield_in_place_def Let_def

lemma setRoute_inv: "view_inv start h \<Longrightarrow> view_inv start (setRoute r u h)"
proof -
  assume inv: "view_inv start h"
  then have "shield_in_place (run native (vh_ops h) start)" by (auto simp: view_inv_def intro: holds_along_end)
  then show ?thesis
    using inv by (cases r) (auto simp: view_inv_def setRoute_def view_ops split: option.splits)
qed

lemma visible_inv:
  assumes "view_inv start h"
  shows "view_inv start (applyReadOnlyShield (call (Page_visible b) (h\<lparr>vh_visible := b\<rparr>)))"
  using assms holds_along_end [of shield_in_place "vh_ops h" start] by (auto simp: view_inv_def view_ops split: option.splits)

lemma bounds_inv:
  assumes inv: "view_inv start h"
  shows "view_inv start (setBounds b c h)"
proof -
  let ?n = "clampBounds b c"
  let ?h1 = "(case vh_protectedBounds h of
      None \<Rightarrow> call (Page_bounds ?n) (call (Shield_bounds ?n) h)
    | Some old \<Rightarrow> call (Shield_bounds ?n) (call (Page_bounds ?n) (call (Shield_bounds (unionBounds old ?n)) h)))\<lparr>vh_protectedBounds := Some ?n\<rparr>"
  have "view_inv start ?h1"
    using inv holds_along_end [of shield_in_place "vh_ops h" start]
    by (auto simp: view_inv_def view_ops covers_union split: option.splits)
  from visible_inv [OF this, of "vb_visible b"] show ?thesis
    by (simp add: setBounds_def Let_def)
qed

lemma dispose_inv: "view_inv start h \<Longrightarrow> view_inv start (dispose_view h)"
  using holds_along_end [of shield_in_place "vh_ops h" start] by (auto simp: view_inv_def dispose_view_def view_ops split: option.splits)

interpretation view_sys: step_invariant "view_step parse_url" "view_inv start" "\<lambda>_. True" for parse_url start
proof
  fix s e assume inv: "view_inv start s"
  show "view_inv start (view_step parse_url e s)"
    using inv setRoute_inv bounds_inv dispose_inv visible_inv [OF inv]
    by (cases e) (auto simp: handleNavigation_def loadLocalFixture_def loadProductionEntry_def show_view_def hide_view_def Let_def split: option.split)
qed

definition fresh_views :: native_views where
  "fresh_views = \<lparr>nv_pageVisible = True, nv_shieldVisible = True, nv_pageBounds = None, nv_shieldBounds = None, nv_closed = False\<rparr>"

lemma new_view_inv: "view_inv fresh_views (new_view_host mode hosts url)"
  by (auto simp: view_inv_def new_view_host_def view_ops fresh_views_def)

text \<open>
  Property C13. Along every history of a view (navigations, loads, bounds, show, hide, disposal) and at every single call of the window
  system on the way, the bounds of the shield cover those of the page; and after every operation, as long as the views are
  open, a visible page that shows neither a fixture nor the login page has its shield visible.
\<close>

theorem shield_always_covers_page:
  assumes "h = run (view_step parse_url) es (new_view_host mode hosts url)" and "n = run native (vh_ops h) fresh_views"
  shows "holds_along shield_in_place (vh_ops h) fresh_views
    \<and> (nv_pageVisible n \<and> \<not> nv_closed n \<and> vh_routeKind h \<in> {Route_chat, Route_blocked} \<longrightarrow> nv_shieldVisible n)"
proof -
  have "view_inv fresh_views h" unfolding assms(1) by (rule view_sys.run_keeps [OF new_view_inv]) simp
  then show ?thesis unfolding assms(2) by (auto simp: view_inv_def)
qed

theorem shield_always_covers_page_witness:
  "nv_shieldVisible (run native (vh_ops (run (view_step (\<lambda>_. None)) [View_show] (new_view_host Nav_production [] None))) fresh_views)"
proof -
  let ?h = "run (view_step (\<lambda>_. None)) [View_show] (new_view_host Nav_production [] None)"
  have "vh_routeKind ?h = Route_blocked" "nv_pageVisible (run native (vh_ops ?h) fresh_views)" "\<not> nv_closed (run native (vh_ops ?h) fresh_views)"
    by (simp_all add: new_view_host_def show_view_def applyReadOnlyShield_def call_def fresh_views_def)
  then show ?thesis
    using shield_always_covers_page [OF refl refl, of "\<lambda>_. None" "[View_show]" Nav_production "[]" None] by simp
qed

subsection \<open>Partitions\<close>

theorem partition_is_safe: "shopId \<noteq> [] \<Longrightarrow> assertSafePartition (partitionFor shopId)"
  by (auto simp: assertSafePartition_def partitionFor_def sanitizeShopId_def list_all_iff is_safe_char_def)

text \<open>Two shops can get the same partition, hence the same cookies and login.\<close>

theorem partitions_collide: "partitionFor ''shop/1'' = partitionFor ''shop_1''"
  by (simp add: partitionFor_def sanitizeShopId_def is_safe_char_def)

end
