(* ===== verification/Pdd_Page.thy ===== *)
theory Pdd_Page imports Pdd_Dom "HOL-Library.Word" begin

text \<open>
  The page runtime, \<open>packages/platform-pdd/src/page/page-runtime.ts\<close>, with the deduplicator
  (\<open>message-deduplicator.ts\<close>), the normalizer and its 32-bit fingerprint (\<open>message-normalizer.ts\<close>), the event builders
  (\<open>dom/page-events.ts\<close>) and the debounced mutation observer (\<open>page/mutation-observer.ts\<close>). The document at the time of an
  event and the clock are arguments. What the runtime sends to the main process is recorded in \<open>pr_sent\<close>; the local
  listeners of \<open>events\<close> get the same events.
\<close>

unbundle bit_operations_syntax

subsection \<open>Deduplicator\<close>

record deduplicator =
  dp_seen :: "(string \<times> nat) list"
  dp_seq :: nat
  dp_maxSize :: nat

definition new_deduplicator :: "nat \<Rightarrow> deduplicator" where
  "new_deduplicator n = \<lparr>dp_seen = [], dp_seq = 0, dp_maxSize = n\<rparr>"

definition dedup_isDuplicate :: "string \<Rightarrow> deduplicator \<Rightarrow> bool" where
  "dedup_isDuplicate key d = (key \<in> fst ` set (dp_seen d))"

text \<open>The loop that looks for the smallest sequence number; \<open>None\<close> is the initial infinity.\<close>

fun oldest :: "(string \<times> nat) list \<Rightarrow> (string \<times> nat) option \<Rightarrow> (string \<times> nat) option" where
  "oldest [] best = best"
| "oldest ((k, s) # ps) best = oldest ps (case best of None \<Rightarrow> Some (k, s) | Some (j, t) \<Rightarrow> if s < t then Some (k, s) else best)"

definition record_key :: "string \<Rightarrow> deduplicator \<Rightarrow> deduplicator" where
  "record_key key d =
     (let seen = map_set key (dp_seq d) (dp_seen d); d1 = d\<lparr>dp_seen := seen, dp_seq := Suc (dp_seq d)\<rparr> in
      if length seen > dp_maxSize d
      then (case oldest seen None of Some (k, _) \<Rightarrow> d1\<lparr>dp_seen := map_delete k seen\<rparr> | None \<Rightarrow> d1)
      else d1)"

definition observe_key :: "string \<Rightarrow> deduplicator \<Rightarrow> bool \<times> deduplicator" where
  "observe_key key d = (if dedup_isDuplicate key d then (False, d) else (True, record_key key d))"

definition dedup_stats :: "deduplicator \<Rightarrow> nat \<times> nat" where
  "dedup_stats d = (length (dp_seen d), dp_maxSize d)"

subsection \<open>Normalizer\<close>

record normalize_input =
  ni_shop_id :: string
  ni_conversation_id :: string
  ni_buyer_id :: "string option"
  ni_raw :: raw_message

text \<open>\<open>((h << 5) - h + c) | 0\<close> on a 32-bit number.\<close>

definition fingerprint_step :: "char \<Rightarrow> 32 word \<Rightarrow> 32 word" where
  "fingerprint_step c h = push_bit 5 h - h + of_nat (of_char c)"

definition base36_digit :: "nat \<Rightarrow> char" where
  "base36_digit n = (if n < 10 then char_of (48 + n) else char_of (87 + n))"

fun show_base36 :: "nat \<Rightarrow> string" where
  "show_base36 n = (if n < 36 then [base36_digit n] else show_base36 (n div 36) @ [base36_digit (n mod 36)])"

declare show_base36.simps [simp del]

definition fallbackFingerprint :: "normalize_input \<Rightarrow> string" where
  "fallbackFingerprint m =
     (let parts = js_join ''|'' [ni_shop_id m, ni_conversation_id m, rm_content (ni_raw m),
            (case rm_timestamp (ni_raw m) of Some t \<Rightarrow> t | None \<Rightarrow> ''?'')] in
      ''fp-'' @ show_base36 (unat (fold fingerprint_step parts 0)))"

record normalized_message =
  nm_platform :: string
  nm_shop_id :: string
  nm_conversation_id :: string
  nm_buyer_id :: "string option"
  nm_buyer :: "string option"
  nm_platform_message_id :: string
  nm_message_type :: string
  nm_direction :: string
  nm_content :: string
  nm_timestamp :: "string option"
  nm_product_context :: "string option"
  nm_order_context :: "string option"

definition normalizeMessage :: "normalize_input \<Rightarrow> normalized_message" where
  "normalizeMessage i =
     (let raw = ni_raw i in
      \<lparr>nm_platform = ''pdd'', nm_shop_id = ni_shop_id i, nm_conversation_id = ni_conversation_id i, nm_buyer_id = ni_buyer_id i,
       nm_buyer = rm_buyer raw,
       nm_platform_message_id = (case rm_platform_message_id raw of Some m \<Rightarrow> m | None \<Rightarrow> fallbackFingerprint i),
       nm_message_type = ''text'', nm_direction = ''inbound'', nm_content = take 4000 (rm_content raw), nm_timestamp = rm_timestamp raw,
       nm_product_context = rm_product_context raw, nm_order_context = rm_order_context raw\<rparr>)"

record raw_scan =
  rs_conversation_id :: string
  rs_buyer_id :: "string option"
  rs_messages :: "raw_message list"

definition normalizeScan :: "raw_scan \<Rightarrow> string \<Rightarrow> normalized_message list" where
  "normalizeScan scan shopId = map (\<lambda>raw. normalizeMessage
     \<lparr>ni_shop_id = shopId, ni_conversation_id = rs_conversation_id scan, ni_buyer_id = rs_buyer_id scan, ni_raw = raw\<rparr>) (rs_messages scan)"

subsection \<open>Page events\<close>

definition bare_event :: "page_event_type \<Rightarrow> string \<Rightarrow> page_event" where
  "bare_event t sid = \<lparr>pe_event = t, pe_session_id = sid, pe_document_generation = None, pe_shop_id = None, pe_conversation_id = None,
     pe_buyer_id = None, pe_buyer = None, pe_platform_message_id = None, pe_message_type = None, pe_direction = None, pe_content = None,
     pe_timestamp = None, pe_command_id = None, pe_ok = None, pe_reason = None, pe_status = None, pe_error = None,
     pe_selected = Customer_unknown\<rparr>"

definition buildPageReady :: "string \<Rightarrow> string \<Rightarrow> page_event" where
  "buildPageReady sid status = (bare_event Page_ready sid)\<lparr>pe_status := Some status\<rparr>"

definition buildLoginRequired :: "string \<Rightarrow> page_event" where
  "buildLoginRequired sid = bare_event Login_required sid"

definition buildDomUnsupported :: "string \<Rightarrow> string \<Rightarrow> page_event" where
  "buildDomUnsupported sid reason = (bare_event Dom_unsupported sid)\<lparr>pe_reason := Some reason\<rparr>"

definition buildAuthReauthRequired :: "string \<Rightarrow> page_event" where
  "buildAuthReauthRequired sid = (bare_event Auth_reauth_required sid)\<lparr>pe_reason := Some ''AUTH_REAUTH_REQUIRED''\<rparr>"

definition buildConversationChanged :: "string \<Rightarrow> string \<Rightarrow> string \<Rightarrow> string option \<Rightarrow> page_event" where
  "buildConversationChanged sid shop c buyer =
     (bare_event Conversation_changed sid)\<lparr>pe_shop_id := Some shop, pe_conversation_id := Some c, pe_buyer_id := buyer\<rparr>"

definition buildMessageReceived :: "string \<Rightarrow> normalized_message \<Rightarrow> page_event" where
  "buildMessageReceived sid m = (bare_event Message_received sid)\<lparr>pe_shop_id := Some (nm_shop_id m),
     pe_conversation_id := Some (nm_conversation_id m), pe_buyer_id := nm_buyer_id m, pe_buyer := nm_buyer m,
     pe_platform_message_id := Some (nm_platform_message_id m), pe_message_type := Some (nm_message_type m),
     pe_direction := Some (nm_direction m), pe_content := Some (nm_content m), pe_timestamp := nm_timestamp m\<rparr>"

definition buildHumanReplyDetected :: "string \<Rightarrow> string \<Rightarrow> string \<Rightarrow> string option \<Rightarrow> page_event" where
  "buildHumanReplyDetected sid shop c mid =
     (bare_event Human_reply_detected sid)\<lparr>pe_shop_id := Some shop, pe_conversation_id := Some c, pe_platform_message_id := mid\<rparr>"

definition build_ack :: "page_event_type \<Rightarrow> string \<Rightarrow> string \<Rightarrow> string \<Rightarrow> string \<Rightarrow> bool \<Rightarrow> string option \<Rightarrow> page_event" where
  "build_ack t sid shop c cmd ok err = (bare_event t sid)\<lparr>pe_shop_id := Some shop, pe_conversation_id := Some c, pe_command_id := Some cmd,
     pe_ok := Some ok, pe_error := err\<rparr>"

definition buildSelectedCustomerObserved :: "string \<Rightarrow> string \<Rightarrow> selected_customer \<Rightarrow> page_event" where
  "buildSelectedCustomerObserved sid shop sel = (bare_event Selected_customer_observed sid)\<lparr>pe_shop_id := Some shop,
     pe_status := Some (case sel of Customer_selected _ \<Rightarrow> ''SELECTED'' | Customer_none \<Rightarrow> ''NONE'' | Customer_unknown \<Rightarrow> ''UNKNOWN''),
     pe_selected := sel\<rparr>"

subsection \<open>The runtime\<close>

datatype readiness = Page_login | Page_is_ready | Page_unsupported

record page_runtime =
  pr_sessionId :: string
  pr_shopId :: string
  pr_generation :: "int option"
  pr_dedup :: deduplicator
  pr_ackRegistry :: "(string \<times> int) list"
  pr_lastConversationId :: "string option"
  pr_lastMessageKeys :: "string list"
  pr_lastSelectedKey :: "string option"
  pr_lastReadiness :: "readiness option"
  pr_authReauthLatched :: bool
  pr_observing :: bool
  pr_timer :: bool
  pr_sent :: "page_event list"

definition new_runtime :: "string \<Rightarrow> string \<Rightarrow> int option \<Rightarrow> page_runtime" where
  "new_runtime sid shop gen = \<lparr>pr_sessionId = sid, pr_shopId = shop, pr_generation = gen, pr_dedup = new_deduplicator 512,
     pr_ackRegistry = [], pr_lastConversationId = None, pr_lastMessageKeys = [], pr_lastSelectedKey = None, pr_lastReadiness = None,
     pr_authReauthLatched = False, pr_observing = False, pr_timer = False, pr_sent = []\<rparr>"

definition page_emit :: "page_event \<Rightarrow> page_runtime \<Rightarrow> page_runtime" where
  "page_emit ev r = r\<lparr>pr_sent := pr_sent r @ [case pr_generation r of None \<Rightarrow> ev | Some g \<Rightarrow> ev\<lparr>pe_document_generation := Some g\<rparr>]\<rparr>"

definition scan_message :: "conversation_read \<Rightarrow> raw_message \<Rightarrow> page_runtime \<Rightarrow> page_runtime" where
  "scan_message conversation raw r =
     (if rm_direction raw = Some ''outbound'' then r
      else
        let m = normalizeMessage \<lparr>ni_shop_id = pr_shopId r,
              ni_conversation_id = (case pr_lastConversationId r of Some c \<Rightarrow> c
                | None \<Rightarrow> (case cv_conversation_id conversation of Some c \<Rightarrow> c | None \<Rightarrow> ''unknown'')),
              ni_buyer_id = cv_buyer_id conversation, ni_raw = raw\<rparr>;
            key = nm_platform_message_id m in
        if key = [] then r
        else
          let (new, d) = observe_key key (pr_dedup r) in
          if \<not> new then r
          else page_emit (buildMessageReceived (pr_sessionId r) m)
            (r\<lparr>pr_dedup := d, pr_lastMessageKeys := (if key \<in> set (pr_lastMessageKeys r) then pr_lastMessageKeys r else pr_lastMessageKeys r @ [key])\<rparr>))"

definition selected_key :: "selected_customer \<Rightarrow> string" where
  "selected_key sel = (case sel of Customer_selected u \<Rightarrow> ''SELECTED:'' @ u | Customer_none \<Rightarrow> ''NONE'' | Customer_unknown \<Rightarrow> ''UNKNOWN'')"

definition scan_conversation :: "conversation_read \<Rightarrow> page_runtime \<Rightarrow> page_runtime" where
  "scan_conversation conversation r = (case non_empty (cv_conversation_id conversation) of
       None \<Rightarrow> r
     | Some c \<Rightarrow> if Some c = pr_lastConversationId r then r
         else page_emit (buildConversationChanged (pr_sessionId r) (pr_shopId r) c (cv_buyer_id conversation)) (r\<lparr>pr_lastConversationId := Some c\<rparr>))"

definition scan_takeover :: "matcher \<Rightarrow> dom_document \<Rightarrow> int \<Rightarrow> page_runtime \<Rightarrow> page_runtime" where
  "scan_takeover matches doc nowMs r =
     (case (detectHumanReply matches doc PDD_SELECTOR_PROFILE (pr_ackRegistry r) nowMs 60000, non_empty (pr_lastConversationId r)) of
        (Some mid, Some c) \<Rightarrow> page_emit (buildHumanReplyDetected (pr_sessionId r) (pr_shopId r) c mid) r
      | _ \<Rightarrow> r)"

definition scan_selected :: "matcher \<Rightarrow> dom_document \<Rightarrow> page_runtime \<Rightarrow> page_runtime" where
  "scan_selected matches doc r =
     (let sel = readSelectedCustomer matches doc in
      if Some (selected_key sel) = pr_lastSelectedKey r then r
      else page_emit (buildSelectedCustomerObserved (pr_sessionId r) (pr_shopId r) sel) (r\<lparr>pr_lastSelectedKey := Some (selected_key sel)\<rparr>))"

definition scan_page :: "matcher \<Rightarrow> dom_document \<Rightarrow> int \<Rightarrow> page_runtime \<Rightarrow> page_runtime" where
  "scan_page matches doc nowMs r =
     (let conversation = readConversation matches doc PDD_SELECTOR_PROFILE;
          r1 = scan_conversation conversation r;
          r2 = fold (scan_message conversation) (readMessages matches doc PDD_SELECTOR_PROFILE) r1 in
      scan_selected matches doc (scan_takeover matches doc nowMs r2))"

definition note_readiness :: "readiness \<Rightarrow> page_event \<Rightarrow> page_runtime \<Rightarrow> page_runtime" where
  "note_readiness x ev r = (if pr_lastReadiness r = Some x then r else page_emit ev (r\<lparr>pr_lastReadiness := Some x\<rparr>))"

definition observeReadiness :: "matcher \<Rightarrow> dom_document \<Rightarrow> int \<Rightarrow> page_runtime \<Rightarrow> page_runtime" where
  "observeReadiness matches doc nowMs r =
     (let sid = pr_sessionId r in
      if hasAuthReauthEvidence matches doc
      then (if pr_authReauthLatched r then r else page_emit (buildAuthReauthRequired sid) (r\<lparr>pr_authReauthLatched := True\<rparr>))
      else if pr_authReauthLatched r then r
      else if querySelector matches ''[data-fw-pdd-login]'' (dd_elements doc) \<noteq> None then note_readiness Page_login (buildLoginRequired sid) r
      else case domHealth matches doc PDD_SELECTOR_PROFILE of
          Dom_not_ready reason _ \<Rightarrow> note_readiness Page_unsupported (buildDomUnsupported sid reason) r
        | Dom_ready _ \<Rightarrow> scan_page matches doc nowMs (note_readiness Page_is_ready (buildPageReady sid ''READY'') r))"

text \<open>\<open>runCommand\<close>, with the result that goes back to the main process.\<close>

definition register_ack :: "string \<Rightarrow> int \<Rightarrow> (string \<times> int) list \<Rightarrow> (string \<times> int) list" where
  "register_ack mid nowMs acks = (let acks1 = map_set mid nowMs acks in if length acks1 > 128 then tl acks1 else acks1)"

definition result_message_id :: "command_result \<Rightarrow> string option" where
  "result_message_id res = (case Option.bind (cr_result res) (\<lambda>kvs. map_of kvs ''message_id'') of Some (JStr m) \<Rightarrow> Some m | _ \<Rightarrow> None)"

definition runCommand ::
  "matcher \<Rightarrow> page_reaction \<Rightarrow> capability \<Rightarrow> page_command \<Rightarrow> dom_document \<Rightarrow> int \<Rightarrow> page_runtime \<Rightarrow> command_result \<times> page_action list \<times> page_runtime" where
  "runCommand matches react able c doc nowMs r =
     (let (res, p) = handleCommand matches react able c \<lparr>pg_document = doc, pg_actions = []\<rparr>;
          conv = (case pc_conversation_id c of Some v \<Rightarrow> v | None \<Rightarrow> []);
          r1 = (if pc_type c = ''send_text''
                then
                  let ra = (if cr_ok res \<and> \<not> absent (pc_conversation_id c)
                            then r\<lparr>pr_ackRegistry := register_ack
                                   (case result_message_id res of Some m \<Rightarrow> m | None \<Rightarrow> pc_command_id c) nowMs (pr_ackRegistry r)\<rparr>
                            else r) in
                  page_emit (build_ack Send_ack (pr_sessionId r) (pr_shopId r) conv (pc_command_id c) (cr_ok res) (cr_error res)) ra
                else r);
          r2 = (if pc_type c = ''transfer''
                then page_emit (build_ack Transfer_ack (pr_sessionId r) (pr_shopId r) conv (pc_command_id c) (cr_ok res) (cr_error res)) r1
                else r1) in
      (res, pg_actions p, r2))"

subsection \<open>Events\<close>

datatype runtime_event =
    Runtime_start dom_document int
  | Runtime_mutation
  | Runtime_timer dom_document int
  | Runtime_command page_command dom_document int
  | Runtime_stop

definition runtime_start :: "matcher \<Rightarrow> dom_document \<Rightarrow> int \<Rightarrow> page_runtime \<Rightarrow> page_runtime" where
  "runtime_start matches doc nowMs r =
     (let r1 = observeReadiness matches doc nowMs r in if dd_body doc then r1\<lparr>pr_observing := True\<rparr> else r1)"

text \<open>The mutation observer's callback, its timer, and \<open>stop\<close>. A disconnected observer and a cleared timer do not
  fire.\<close>

definition schedule_scan :: "page_runtime \<Rightarrow> page_runtime" where
  "schedule_scan r = (if pr_observing r then r\<lparr>pr_timer := True\<rparr> else r)"

definition scan_timer_fired :: "matcher \<Rightarrow> dom_document \<Rightarrow> int \<Rightarrow> page_runtime \<Rightarrow> page_runtime" where
  "scan_timer_fired matches doc nowMs r = (if pr_timer r then observeReadiness matches doc nowMs (r\<lparr>pr_timer := False\<rparr>) else r)"

definition runtime_stop :: "page_runtime \<Rightarrow> page_runtime" where
  "runtime_stop r = r\<lparr>pr_observing := False, pr_timer := False\<rparr>"

fun runtime_step :: "matcher \<Rightarrow> page_reaction \<Rightarrow> capability \<Rightarrow> runtime_event \<Rightarrow> page_runtime \<Rightarrow> page_runtime" where
  "runtime_step matches react able (Runtime_start doc nowMs) r = runtime_start matches doc nowMs r"
| "runtime_step matches react able Runtime_mutation r = schedule_scan r"
| "runtime_step matches react able (Runtime_timer doc nowMs) r = scan_timer_fired matches doc nowMs r"
| "runtime_step matches react able (Runtime_command c doc nowMs) r = snd (snd (runCommand matches react able c doc nowMs r))"
| "runtime_step matches react able Runtime_stop r = runtime_stop r"

end
