(* ===== verification/Pdd_Page_Props.thy ===== *)
theory Pdd_Page_Props imports Pdd_Page Pdd_Session_Props begin

text \<open>
  What the page side guarantees: the deduplicator is a window of the last keys, a message is reported once within
  the window, the re-authentication latch silences the page, events of an earlier document do not reach the session, and a transfer
  clicks only the requested target. Two theorems state defects of the drivers and of the takeover detection.
\<close>

subsection \<open>The deduplicator is a window\<close>

text \<open>The specification: the last \<open>n\<close> keys that were new, oldest first.\<close>

definition window_observe :: "nat \<Rightarrow> string \<Rightarrow> string list \<Rightarrow> bool \<times> string list" where
  "window_observe n k w = (if k \<in> set w then (False, w) else (True, if length w < n then w @ [k] else tl (w @ [k])))"

definition dedup_window :: "deduplicator \<Rightarrow> string list" where
  "dedup_window d = map fst (dp_seen d)"

definition dedup_inv :: "deduplicator \<Rightarrow> bool" where
  "dedup_inv d \<longleftrightarrow> sorted_wrt (<) (map snd (dp_seen d)) \<and> (\<forall>p \<in> set (dp_seen d). snd p < dp_seq d) \<and> distinct (map fst (dp_seen d))
     \<and> length (dp_seen d) \<le> dp_maxSize d"

lemma new_deduplicator_inv [simp]: "dedup_inv (new_deduplicator n)" "dedup_window (new_deduplicator n) = []" "dp_maxSize (new_deduplicator n) = n"
  by (simp_all add: dedup_inv_def new_deduplicator_def dedup_window_def)

lemma map_set_fresh: "k \<notin> fst ` set ps \<Longrightarrow> map_set k v ps = ps @ [(k, v)]"
  by (induction ps) auto

lemma oldest_keeps: "\<forall>p \<in> set ps. t \<le> snd p \<Longrightarrow> oldest ps (Some (j, t)) = Some (j, t)"
  by (induction ps) auto

lemma oldest_first:
  assumes "sorted_wrt (<) (map snd (p # ps))"
  shows "oldest (p # ps) None = Some p"
proof -
  have "oldest ps (Some (fst p, snd p)) = Some (fst p, snd p)" using assms by (intro oldest_keeps) auto
  then show ?thesis by (cases p) simp
qed

lemma map_delete_first: "distinct (map fst (p # ps)) \<Longrightarrow> map_delete (fst p) (p # ps) = ps"
  by (simp add: map_delete_def) (rule filter_True, metis image_eqI)

lemma observe_key_window:
  assumes inv: "dedup_inv d"
  shows "fst (observe_key k d) = fst (window_observe (dp_maxSize d) k (dedup_window d))
    \<and> dedup_window (snd (observe_key k d)) = snd (window_observe (dp_maxSize d) k (dedup_window d))
    \<and> dedup_inv (snd (observe_key k d)) \<and> dp_maxSize (snd (observe_key k d)) = dp_maxSize d"
proof (cases "dedup_isDuplicate k d")
  case True
  then show ?thesis using inv by (auto simp: observe_key_def window_observe_def dedup_window_def dedup_isDuplicate_def)
next
  case False
  let ?seen = "dp_seen d @ [(k, dp_seq d)]"
  have new: "k \<notin> fst ` set (dp_seen d)" using False by (simp add: dedup_isDuplicate_def)
  have sorted: "sorted_wrt (<) (map snd ?seen)" and dist: "distinct (map fst ?seen)"
    using inv new by (auto simp: dedup_inv_def sorted_wrt_append)
  obtain p ps where seen: "?seen = p # ps" by (cases ?seen) auto
  have tail: "sorted_wrt (<) (map snd ps)" "distinct (map fst ps)" "set ps \<subseteq> set ?seen"
    using sorted dist unfolding seen by auto
  have len: "length ps = length (dp_seen d)" using arg_cong [OF seen, of length] by simp
  have rec: "record_key k d = (if length (dp_seen d) < dp_maxSize d then d\<lparr>dp_seen := ?seen, dp_seq := Suc (dp_seq d)\<rparr>
      else d\<lparr>dp_seen := ps, dp_seq := Suc (dp_seq d)\<rparr>)"
    using oldest_first [of p ps] map_delete_first [of p ps] sorted dist unfolding seen
    by (simp add: record_key_def Let_def map_set_fresh [OF new] seen not_less) (use len in \<open>simp add: case_prod_beta\<close>)
  have win: "dedup_window d @ [k] = map fst ?seen" "tl (dedup_window d @ [k]) = map fst ps"
    using arg_cong [OF seen, of "map fst"] by (simp_all add: dedup_window_def)
  have lt: "\<forall>q \<in> set ?seen. snd q < Suc (dp_seq d)" using inv by (auto simp: dedup_inv_def less_Suc_eq)
  have notin: "k \<notin> set (dedup_window d)" and size: "length (dedup_window d) = length (dp_seen d)"
    using new by (simp_all add: dedup_window_def)
  have obs: "observe_key k d = (True, record_key k d)" using False by (simp add: observe_key_def)
  show ?thesis
  proof (cases "length (dp_seen d) < dp_maxSize d")
    case True
    then show ?thesis using sorted dist lt win(1) notin size unfolding obs rec window_observe_def by (simp add: dedup_inv_def dedup_window_def)
  next
    case False
    have "length ps \<le> dp_maxSize d" "\<forall>q \<in> set ps. snd q < Suc (dp_seq d)" using inv len tail lt by (auto simp: dedup_inv_def)
    then show ?thesis using False tail win(2) notin size unfolding obs rec window_observe_def by (simp add: dedup_inv_def dedup_window_def)
  qed
qed

lemma observe_keys_inv: "dedup_inv d \<Longrightarrow> dedup_inv (fold (\<lambda>k d. snd (observe_key k d)) ks d)
    \<and> dp_maxSize (fold (\<lambda>k d. snd (observe_key k d)) ks d) = dp_maxSize d
    \<and> dedup_window (fold (\<lambda>k d. snd (observe_key k d)) ks d) = fold (\<lambda>k w. snd (window_observe (dp_maxSize d) k w)) ks (dedup_window d)"
proof (induction ks arbitrary: d)
  case (Cons k ks)
  then show ?case using observe_key_window [OF Cons.prems, of k] Cons.IH [of "snd (observe_key k d)"] by simp
qed simp

text \<open>
  After any sequence of keys, the deduplicator answers and evolves as the window of the last
  \<open>n\<close> new keys: a key is reported as new exactly when it is not in the window, the oldest key leaves when the
  window is full, and never more than \<open>n\<close> keys are held.
\<close>

theorem deduplicator_refines_window:
  assumes "d = fold (\<lambda>k d. snd (observe_key k d)) ks (new_deduplicator n)"
    and "w = fold (\<lambda>k w. snd (window_observe n k w)) ks []"
  shows "dedup_window d = w \<and> fst (observe_key k d) = fst (window_observe n k w)
    \<and> dedup_window (snd (observe_key k d)) = snd (window_observe n k w) \<and> fst (dedup_stats d) \<le> n"
proof -
  have "dedup_inv d \<and> dp_maxSize d = n \<and> dedup_window d = w"
    using observe_keys_inv [of "new_deduplicator n" ks] assms by simp
  then show ?thesis using observe_key_window [of d k] by (auto simp: dedup_stats_def dedup_inv_def)
qed

theorem deduplicator_refines_window_witness:
  "dedup_window (fold (\<lambda>k d. snd (observe_key k d)) [''a'', ''b'', ''a'', ''c''] (new_deduplicator 2)) = [''b'', ''c'']"
  using deduplicator_refines_window [OF refl refl, where ks = "[''a'', ''b'', ''a'', ''c'']" and n = 2 and k = "''a''"]
  by (simp add: window_observe_def)

subsection \<open>What the runtime sends\<close>

definition last_n :: "nat \<Rightarrow> 'a list \<Rightarrow> 'a list" where
  "last_n n xs = drop (length xs - n) xs"

text \<open>Equal elements are more than \<open>n\<close> positions apart.\<close>

definition spaced :: "nat \<Rightarrow> 'a list \<Rightarrow> bool" where
  "spaced n xs \<longleftrightarrow> (\<forall>i j. i < j \<longrightarrow> j < length xs \<longrightarrow> j \<le> i + n \<longrightarrow> xs ! i \<noteq> xs ! j)"

lemma last_n_snoc: "last_n n (xs @ [k]) = (if length (last_n n xs) < n then last_n n xs @ [k] else tl (last_n n xs @ [k]))"
proof (cases "length xs < n")
  case True
  then show ?thesis by (auto simp: last_n_def Suc_diff_le)
next
  case False
  have "drop (Suc (length xs) - n) (xs @ [k]) = tl (drop (length xs - n) (xs @ [k]))"
    using False by (simp add: Suc_diff_le drop_Suc tl_drop del: drop_append)
  then show ?thesis using False by (simp add: last_n_def)
qed

lemma in_last_n: "i < length xs \<Longrightarrow> length xs \<le> i + n \<Longrightarrow> xs ! i \<in> set (last_n n xs)"
  unfolding last_n_def in_set_conv_nth by (rule exI [of _ "i - (length xs - n)"]) (simp add: nth_drop)

lemma spaced_snoc: "spaced n xs \<Longrightarrow> k \<notin> set (last_n n xs) \<Longrightarrow> spaced n (xs @ [k])"
  unfolding spaced_def by (auto simp: nth_append less_Suc_eq dest: in_last_n)

text \<open>A de-duplicator that has accepted exactly the keys of \<open>xs\<close>, in this order.\<close>

definition dedup_tracks :: "nat \<Rightarrow> string list \<Rightarrow> deduplicator \<Rightarrow> bool" where
  "dedup_tracks n xs d \<longleftrightarrow> dedup_inv d \<and> dp_maxSize d = n \<and> dedup_window d = last_n n xs \<and> spaced n xs"

lemma observe_tracks:
  assumes "dedup_tracks n xs d"
  shows "dedup_tracks n (if fst (observe_key k d) then xs @ [k] else xs) (snd (observe_key k d))"
    and "fst (observe_key k d) \<longleftrightarrow> k \<notin> set (last_n n xs)"
proof -
  have d: "dedup_inv d" and n: "dp_maxSize d = n" and w: "dedup_window d = last_n n xs" and s: "spaced n xs"
    using assms by (simp_all add: dedup_tracks_def)
  note obs = observe_key_window [OF d, of k]
  show new: "fst (observe_key k d) \<longleftrightarrow> k \<notin> set (last_n n xs)" using obs n w by (auto simp: window_observe_def)
  show "dedup_tracks n (if fst (observe_key k d) then xs @ [k] else xs) (snd (observe_key k d))"
  proof (cases "k \<in> set (last_n n xs)")
    case True
    with new have "\<not> fst (observe_key k d)" by simp
    then show ?thesis using obs n w s True by (simp add: dedup_tracks_def window_observe_def)
  next
    case False
    with new have "fst (observe_key k d)" by simp
    moreover have "dedup_window (snd (observe_key k d)) = last_n n (xs @ [k])"
      using obs n w False by (simp add: window_observe_def last_n_snoc)
    ultimately show ?thesis using obs n spaced_snoc [OF s False] by (simp add: dedup_tracks_def)
  qed
qed

lemma new_deduplicator_tracks [simp]: "dedup_tracks n [] (new_deduplicator n)"
  by (simp add: dedup_tracks_def last_n_def spaced_def)

definition reported_keys :: "page_event list \<Rightarrow> string list" where
  "reported_keys evs = List.map_filter (\<lambda>e. if pe_event e = Message_received then pe_platform_message_id e else None) evs"

lemma reported_append [simp]: "reported_keys (xs @ ys) = reported_keys xs @ reported_keys ys"
  by (simp add: reported_keys_def map_filter_def)

lemma reported_single [simp]:
  "reported_keys [e] = (if pe_event e = Message_received then (case pe_platform_message_id e of Some m \<Rightarrow> [m] | None \<Rightarrow> []) else [])"
  by (simp add: reported_keys_def map_filter_def split: option.split)

definition page_inv :: "page_runtime \<Rightarrow> bool" where
  "page_inv r \<longleftrightarrow> dedup_tracks 512 (reported_keys (pr_sent r)) (pr_dedup r)
     \<and> length (filter (\<lambda>e. pe_event e = Auth_reauth_required) (pr_sent r)) = (if pr_authReauthLatched r then 1 else 0)"

definition attributed :: "page_runtime \<Rightarrow> page_event \<Rightarrow> bool" where
  "attributed r e \<longleftrightarrow> pe_session_id e = pr_sessionId r \<and> pe_document_generation e = pr_generation r
     \<and> (pe_shop_id e = None \<or> pe_shop_id e = Some (pr_shopId r))"

text \<open>One operation keeps the identity of the runtime, appends attributed events and keeps the invariant.\<close>

definition page_moves :: "page_runtime \<Rightarrow> page_runtime \<Rightarrow> bool" where
  "page_moves r k \<longleftrightarrow> pr_sessionId k = pr_sessionId r \<and> pr_shopId k = pr_shopId r \<and> pr_generation k = pr_generation r
     \<and> (\<exists>new. pr_sent k = pr_sent r @ new \<and> list_all (attributed r) new) \<and> (page_inv r \<longrightarrow> page_inv k)"

lemma page_moves_trans: "page_moves r k \<Longrightarrow> page_moves k m \<Longrightarrow> page_moves r m"
  unfolding page_moves_def attributed_def by (auto simp: list_all_append)

lemma page_moves_refl [simp]: "page_moves r r"
  by (simp add: page_moves_def)

lemma page_moves_silent:
  "pr_sessionId k = pr_sessionId r \<Longrightarrow> pr_shopId k = pr_shopId r \<Longrightarrow> pr_generation k = pr_generation r \<Longrightarrow> pr_sent k = pr_sent r \<Longrightarrow>
   pr_dedup k = pr_dedup r \<Longrightarrow> pr_authReauthLatched k = pr_authReauthLatched r \<Longrightarrow> page_moves r k"
  by (simp add: page_moves_def page_inv_def)

lemma emit_moves:
  assumes "pe_session_id ev = pr_sessionId r" and "pe_document_generation ev = None" and "pe_shop_id ev = None \<or> pe_shop_id ev = Some (pr_shopId r)"
    and "pe_event ev \<notin> {Message_received, Auth_reauth_required}"
  shows "page_moves r (page_emit ev r)"
  using assms by (auto simp: page_moves_def page_emit_def attributed_def page_inv_def split: option.split)

lemma bare_event_simps [simp]:
  "pe_event (bare_event t sid) = t" "pe_session_id (bare_event t sid) = sid" "pe_document_generation (bare_event t sid) = None"
  "pe_shop_id (bare_event t sid) = None"
  by (simp_all add: bare_event_def)

lemmas builders = buildPageReady_def buildLoginRequired_def buildDomUnsupported_def buildAuthReauthRequired_def buildConversationChanged_def
  buildHumanReplyDetected_def build_ack_def buildSelectedCustomerObserved_def

lemma note_readiness_moves:
  "pe_session_id ev = pr_sessionId r \<Longrightarrow> pe_document_generation ev = None \<Longrightarrow> pe_shop_id ev = None \<Longrightarrow> pe_event ev \<notin> {Message_received, Auth_reauth_required} \<Longrightarrow>
   page_moves r (note_readiness x ev r)"
  unfolding note_readiness_def by (auto intro!: page_moves_trans [OF page_moves_silent emit_moves])

lemma scan_conversation_moves: "page_moves r (scan_conversation c r)"
  unfolding scan_conversation_def
  by (auto simp: builders intro!: page_moves_trans [OF page_moves_silent emit_moves] split: option.split)

lemma scan_selected_moves: "page_moves r (scan_selected matches doc r)"
  unfolding scan_selected_def Let_def by (auto simp: builders intro!: page_moves_trans [OF page_moves_silent emit_moves])

lemma scan_takeover_moves: "page_moves r (scan_takeover matches doc nowMs r)"
  unfolding scan_takeover_def by (auto simp: builders intro!: emit_moves split: option.split)

lemma normalizeMessage_simps [simp]: "nm_shop_id (normalizeMessage i) = ni_shop_id i"
  by (simp add: normalizeMessage_def Let_def)

lemma scan_message_moves: "page_moves r (scan_message c raw r)"
proof -
  let ?i = "\<lparr>ni_shop_id = pr_shopId r, ni_conversation_id = (case pr_lastConversationId r of Some c \<Rightarrow> c
    | None \<Rightarrow> (case cv_conversation_id c of Some c \<Rightarrow> c | None \<Rightarrow> ''unknown'')), ni_buyer_id = cv_buyer_id c, ni_raw = raw\<rparr>"
  let ?m = "normalizeMessage ?i" and ?k = "nm_platform_message_id (normalizeMessage ?i)"
  let ?r1 = "r\<lparr>pr_dedup := snd (observe_key ?k (pr_dedup r)),
    pr_lastMessageKeys := (if ?k \<in> set (pr_lastMessageKeys r) then pr_lastMessageKeys r else pr_lastMessageKeys r @ [?k])\<rparr>"
  let ?ev = "buildMessageReceived (pr_sessionId r) ?m"
  have "page_moves r (page_emit ?ev ?r1)" if new: "fst (observe_key ?k (pr_dedup r))"
  proof -
    have "page_inv (page_emit ?ev ?r1)" if inv: "page_inv r"
    proof -
      have "dedup_tracks 512 (reported_keys (pr_sent r)) (pr_dedup r)" using inv by (simp add: page_inv_def)
      then have "dedup_tracks 512 (reported_keys (pr_sent r) @ [?k]) (snd (observe_key ?k (pr_dedup r)))"
        using observe_tracks(1) [of 512 "reported_keys (pr_sent r)" "pr_dedup r" ?k] new by simp
      moreover have "reported_keys (pr_sent (page_emit ?ev ?r1)) = reported_keys (pr_sent r) @ [?k]"
        by (simp add: page_emit_def buildMessageReceived_def split: option.split)
      moreover have "pr_dedup (page_emit ?ev ?r1) = snd (observe_key ?k (pr_dedup r))" by (simp add: page_emit_def)
      moreover have "filter (\<lambda>e. pe_event e = Auth_reauth_required) (pr_sent (page_emit ?ev ?r1)) = filter (\<lambda>e. pe_event e = Auth_reauth_required) (pr_sent r)"
        "pr_authReauthLatched (page_emit ?ev ?r1) = pr_authReauthLatched r"
        by (simp_all add: page_emit_def buildMessageReceived_def split: option.split)
      ultimately show ?thesis using inv by (simp add: page_inv_def)
    qed
    then show ?thesis
      by (auto simp: page_moves_def page_emit_def attributed_def buildMessageReceived_def split: option.split)
  qed
  then show ?thesis unfolding scan_message_def Let_def by (simp add: case_prod_beta)
qed

lemma scan_messages_moves: "page_moves r (fold (scan_message c) ms r)"
proof (induction ms arbitrary: r)
  case (Cons m ms)
  show ?case using page_moves_trans [OF scan_message_moves Cons.IH] by simp
qed simp

lemma scan_page_moves: "page_moves r (scan_page matches doc nowMs r)"
  unfolding scan_page_def Let_def
  by (rule page_moves_trans [OF scan_conversation_moves page_moves_trans [OF scan_messages_moves
      page_moves_trans [OF scan_takeover_moves scan_selected_moves]]])

lemma observeReadiness_moves: "page_moves r (observeReadiness matches doc nowMs r)"
proof -
  have latch: "page_moves r (page_emit (buildAuthReauthRequired (pr_sessionId r)) (r\<lparr>pr_authReauthLatched := True\<rparr>))" if "\<not> pr_authReauthLatched r"
    using that by (auto simp: builders page_moves_def page_emit_def attributed_def page_inv_def split: option.split)
  have note_it: "page_moves r (note_readiness x (buildPageReady (pr_sessionId r) s) r)"
    "page_moves r (note_readiness x (buildLoginRequired (pr_sessionId r)) r)"
    "page_moves r (note_readiness x (buildDomUnsupported (pr_sessionId r) s) r)" for x s
    by (rule note_readiness_moves; simp add: builders)+
  show ?thesis
    unfolding observeReadiness_def Let_def
    by (simp add: latch note_it page_moves_trans [OF note_it(1) scan_page_moves] split: dom_health.split)
qed

lemma runCommand_moves: "page_moves r (snd (snd (runCommand matches react able c doc nowMs r)))"
proof -
  have ack: "page_moves k (page_emit (build_ack t (pr_sessionId r) (pr_shopId r) cv cmd ok err) k)"
    if "page_moves r k" "t \<notin> {Message_received, Auth_reauth_required}" for k t cv cmd ok err
    using that by (intro emit_moves) (simp_all add: builders page_moves_def)
  have reg: "page_moves r (r\<lparr>pr_ackRegistry := x\<rparr>)" for x by (rule page_moves_silent) simp_all
  show ?thesis
    unfolding runCommand_def Let_def
    by (simp add: case_prod_beta ack page_moves_trans [OF reg ack [OF reg]] page_moves_trans [OF _ ack])
qed

lemma runtime_step_moves: "page_moves r (runtime_step matches react able e r)"
proof (cases e)
  case (Runtime_start doc nowMs)
  have watch: "page_moves k (k\<lparr>pr_observing := True\<rparr>)" for k by (rule page_moves_silent) simp_all
  show ?thesis
    using Runtime_start observeReadiness_moves page_moves_trans [OF observeReadiness_moves watch] by (simp add: runtime_start_def Let_def)
next
  case Runtime_mutation
  then show ?thesis by (simp add: schedule_scan_def page_moves_silent)
next
  case (Runtime_timer doc nowMs)
  have "page_moves r (r\<lparr>pr_timer := False\<rparr>)" by (rule page_moves_silent) simp_all
  then show ?thesis using Runtime_timer page_moves_trans [OF _ observeReadiness_moves] by (simp add: scan_timer_fired_def)
next
  case (Runtime_command c doc nowMs)
  then show ?thesis using runCommand_moves by simp
next
  case Runtime_stop
  then show ?thesis by (simp add: runtime_stop_def page_moves_silent)
qed

lemma runtime_run_moves: "page_moves r (run (runtime_step matches react able) es r)"
proof (induction es arbitrary: r)
  case (Cons e es)
  show ?case using page_moves_trans [OF runtime_step_moves Cons.IH] by simp
qed simp

lemma new_runtime_inv: "page_inv (new_runtime sid shop gen)"
  by (simp add: page_inv_def new_runtime_def reported_keys_def last_n_def spaced_def map_filter_def)

text \<open>
  Along every run of a page (start, mutations, timers, commands and stop, over whatever documents the
  page shows) every event sent carries the session, the shop and the document generation the runtime was
  made for, a customer message is reported again only after 512 other reports (so each message of a
  transcript of up to 512 is reported once, however often the page re-renders), and
  re-authentication is reported at most once.
\<close>

theorem page_reports_each_message_once:
  fixes matches react able es sid shop gen
  defines "r \<equiv> run (runtime_step matches react able) es (new_runtime sid shop gen)"
  shows "list_all (\<lambda>e. pe_session_id e = sid \<and> pe_document_generation e = gen \<and> (pe_shop_id e = None \<or> pe_shop_id e = Some shop)) (pr_sent r)
    \<and> spaced 512 (reported_keys (pr_sent r)) \<and> length (filter (\<lambda>e. pe_event e = Auth_reauth_required) (pr_sent r)) \<le> 1"
proof -
  have "page_moves (new_runtime sid shop gen) r" unfolding r_def by (rule runtime_run_moves)
  then have "page_inv r" "list_all (attributed (new_runtime sid shop gen)) (pr_sent r)"
    using new_runtime_inv by (auto simp: page_moves_def new_runtime_def)
  then show ?thesis by (auto simp: page_inv_def dedup_tracks_def attributed_def [abs_def] new_runtime_def)
qed

subsection \<open>The latch\<close>

fun page_command_event :: "runtime_event \<Rightarrow> bool" where
  "page_command_event (Runtime_command _ _ _) = True"
| "page_command_event _ = False"

lemma observeReadiness_latched: "pr_authReauthLatched r \<Longrightarrow> observeReadiness matches doc nowMs r = r"
  by (simp add: observeReadiness_def Let_def)

lemma step_latched:
  "pr_authReauthLatched r \<Longrightarrow> \<not> page_command_event e \<Longrightarrow>
   pr_sent (runtime_step matches react able e r) = pr_sent r \<and> pr_authReauthLatched (runtime_step matches react able e r)"
  by (cases e) (simp_all add: runtime_start_def schedule_scan_def scan_timer_fired_def runtime_stop_def observeReadiness_latched Let_def)

text \<open>
  Once the page has seen the expired-login dialog or location, neither a re-render nor a timer
  nor a restart makes it send anything again, even after the evidence has gone: no message, no
  readiness and no customer is reported from that document any more. The evidence itself latches at the first look.
\<close>

theorem reauth_silences_the_page:
  assumes "pr_authReauthLatched r \<or> hasAuthReauthEvidence matches doc" and "s = runtime_start matches doc nowMs r"
    and "\<forall>e \<in> set es. \<not> page_command_event e"
  shows "pr_authReauthLatched s \<and> pr_sent (run (runtime_step matches react able) es s) = pr_sent s"
proof -
  have s: "pr_authReauthLatched s"
    using assms(1,2) by (auto simp: runtime_start_def observeReadiness_def page_emit_def Let_def)
  have "pr_sent (run (runtime_step matches react able) es k) = pr_sent k" if "pr_authReauthLatched k" for k
    using assms(3) that
  proof (induction es arbitrary: k)
    case (Cons e es)
    then show ?case using step_latched [of k e matches react able] by simp
  qed simp
  with s show ?thesis by blast
qed

definition login_document :: dom_document where
  "login_document = \<lparr>dd_elements = [], dd_body = True, dd_location = Some (''https://mms.pinduoduo.com'', ''/login/'')\<rparr>"

definition empty_document :: dom_document where
  "empty_document = \<lparr>dd_elements = [], dd_body = True, dd_location = None\<rparr>"

lemma login_evidence [simp]: "hasAuthReauthEvidence matches login_document"
  by (simp add: hasAuthReauthEvidence_def hasAuthReauthLocation_def login_document_def)

theorem reauth_silences_the_page_witness:
  "pr_sent (run (runtime_step (\<lambda>_ _. False) (\<lambda>_ d. d) (\<lambda>_. True)) [Runtime_mutation, Runtime_timer empty_document 9]
     (runtime_start (\<lambda>_ _. False) login_document 1 (new_runtime ''pdd-session-s'' ''s'' (Some 1))))
   = [(buildAuthReauthRequired ''pdd-session-s'')\<lparr>pe_document_generation := Some 1\<rparr>]"
proof -
  let ?r = "new_runtime ''pdd-session-s'' ''s'' (Some 1)"
  have "pr_sent (runtime_start (\<lambda>_ _. False) login_document 1 ?r) = [(buildAuthReauthRequired ''pdd-session-s'')\<lparr>pe_document_generation := Some 1\<rparr>]"
    by (simp add: runtime_start_def observeReadiness_def page_emit_def new_runtime_def Let_def)
  then show ?thesis
    using reauth_silences_the_page [OF _ refl, where r = ?r and matches = "\<lambda>_ _. False" and doc = login_document
        and es = "[Runtime_mutation, Runtime_timer empty_document 9]" and react = "\<lambda>_ d. d" and able = "\<lambda>_. True" and nowMs = 1]
    by simp
qed

subsection \<open>Page and session\<close>

lemma handleEvent_other_document:
  "pe_document_generation e = Some g \<Longrightarrow> sh_activeDocumentGeneration h = Some n \<Longrightarrow> n \<noteq> g \<Longrightarrow> handleEvent e h = h"
  by (simp add: handleEvent_def acceptsCurrentDocument_def)

text \<open>
  Nothing a page of one document generation sends, in any run, changes a session that has moved on
  to another generation: not its status, its selected customer or its conversation, and no event of it is handed
  on.
\<close>

theorem stale_page_cannot_change_session:
  assumes "r = run (runtime_step matches react able) es (new_runtime sid shop (Some g))"
    and "sh_activeDocumentGeneration h = Some n" and "n \<noteq> g"
  shows "fold handleEvent (pr_sent r) h = h"
proof -
  have "page_moves (new_runtime sid shop (Some g)) r" unfolding assms(1) by (rule runtime_run_moves)
  then have "list_all (\<lambda>e. pe_document_generation e = Some g) (pr_sent r)"
    by (auto simp: page_moves_def new_runtime_def attributed_def list_all_iff)
  moreover have "fold handleEvent evs h = h" if "list_all (\<lambda>e. pe_document_generation e = Some g) evs" for evs
    using that by (induction evs) (simp_all add: handleEvent_other_document [OF _ assms(2,3)])
  ultimately show ?thesis by blast
qed

theorem stale_page_cannot_change_session_witness:
  "sh_activeDocumentGeneration (run host_step (sample_session @ [Host_navigation_start]) (new_host ''s'')) = Some 2
   \<and> fold handleEvent (pr_sent (run (runtime_step (\<lambda>_ _. False) (\<lambda>_ d. d) (\<lambda>_. True)) [Runtime_start login_document 1] (new_runtime ''pdd-session-s'' ''s'' (Some 1))))
       (run host_step (sample_session @ [Host_navigation_start]) (new_host ''s''))
     = run host_step (sample_session @ [Host_navigation_start]) (new_host ''s'')"
proof -
  have "sh_activeDocumentGeneration (run host_step (sample_session @ [Host_navigation_start]) (new_host ''s'')) = Some 2"
    by (simp add: run_append sample_session_ready host_eval)
  then show ?thesis using stale_page_cannot_change_session [OF refl, where g = 1 and n = 2] by (auto simp del: run.simps)
qed

subsection \<open>Transfers\<close>

lemma act_simps [simp]:
  "pg_actions (act react a p) = pg_actions p @ [a]"
  "pg_actions (try_act react able a p) = pg_actions p @ filter able [a]"
  by (simp_all add: act_def try_act_def)

lemma find_Some_P: "find P xs = Some x \<Longrightarrow> P x \<and> x \<in> set xs"
  by (auto simp: find_Some_iff in_set_conv_nth)

lemma transfer_selectors [simp]:
  "selector PDD_SELECTOR_PROFILE ''transfer.open'' = Some (entry ''transfer.open'' ''[data-fw-pdd-transfer-open]'' False ''PARTIAL'')"
  "selector PDD_SELECTOR_PROFILE ''transfer.target-list'' = Some (entry ''transfer.target-list'' ''[data-fw-pdd-transfer-targets]'' False ''PARTIAL'')"
  "selector PDD_SELECTOR_PROFILE ''transfer.target-item'' = Some (entry ''transfer.target-item'' ''[data-fw-pdd-transfer-target]'' False ''PARTIAL'')"
  "selector PDD_SELECTOR_PROFILE ''transfer.confirm'' = Some (entry ''transfer.confirm'' ''[data-fw-pdd-transfer-confirm]'' False ''PARTIAL'')"
  by (simp_all add: selector_def PDD_SELECTOR_PROFILE_def entry_def)

lemma querySelector_matches: "querySelector matches sel roots = Some e \<Longrightarrow> matches sel e"
proof -
  assume "querySelector matches sel roots = Some e"
  then have "e \<in> set (querySelectorAll matches sel roots)" by (auto simp: querySelector_def split: list.splits)
  then show ?thesis by (simp add: querySelectorAll_def)
qed

lemma find_target: "find (is_target target) (querySelectorAll matches sel roots) = Some node \<Longrightarrow> matches sel node \<and> is_target target node"
  using find_Some_P [of "is_target target" "querySelectorAll matches sel roots" node] by (simp add: querySelectorAll_def)


definition transfer_page :: dom_document where
  "transfer_page = \<lparr>dd_elements = [Elem [(''id'', ''open'')] None [],
     Elem [(''id'', ''list'')] None [Elem [(''id'', ''item''), (''data-target'', ''bob'')] None []], Elem [(''id'', ''confirm'')] None []],
     dd_body = True, dd_location = None\<rparr>"

text \<open>A matcher that knows the four selectors of a transfer.\<close>

definition transfer_matches :: matcher where
  "transfer_matches sel e = (getAttribute ''id'' e = map_of [(''[data-fw-pdd-transfer-open]'', ''open''), (''[data-fw-pdd-transfer-targets]'', ''list''),
     (''[data-fw-pdd-transfer-target]'', ''item''), (''[data-fw-pdd-transfer-confirm]'', ''confirm'')] sel)"


text \<open>A transfer answers that it was executed even when neither the target nor the confirmation could be clicked.\<close>

theorem transfer_executed_without_clicks:
  "executeTransfer_page transfer_matches (\<lambda>_ d. d) (\<lambda>_. False) PDD_SELECTOR_PROFILE ''bob'' \<lparr>pg_document = transfer_page, pg_actions = []\<rparr>
   = (\<lparr>tr_ok = True, tr_executed = True, tr_fallback_message = None, tr_error = None\<rparr>, \<lparr>pg_document = transfer_page, pg_actions = []\<rparr>)"
  by (simp add: executeTransfer_page_def confirm_transfer_def querySelector_def querySelectorAll_def transfer_matches_def transfer_page_def
      getAttribute_def entry_def act_def try_act_def is_target_def Let_def)

subsection \<open>Defects\<close>

text \<open>
  The text driver does not look at the conversation it is asked to write to: what it types, where it clicks and what it
  answers are the same for every conversation id, so the text goes to whichever conversation the page shows.
\<close>

theorem send_ignores_conversation:
  "sendText_page matches react able profile c text p = sendText_page matches react able profile d text p"
  by (simp add: sendText_page_def)

definition row_matches :: matcher where
  "row_matches sel e = (sel = ''[data-fw-pdd-message]'')"

text \<open>
  An automated send is taken for a human reply once its acknowledgement is more than a minute old and its row is
  still in the transcript.
\<close>

theorem old_automated_send_is_taken_for_human:
  assumes "doc = \<lparr>dd_elements = [Elem [(''data-direction'', ''outbound''), (''data-message-id'', ''m1'')] None []], dd_body = True, dd_location = None\<rparr>"
    and "60000 < nowMs - t"
  shows "detectHumanReply row_matches doc PDD_SELECTOR_PROFILE [(''m1'', t)] nowMs 60000 = Some (Some ''m1'')"
  using assms
  by (simp add: detectHumanReply_def selector_def PDD_SELECTOR_PROFILE_def entry_def querySelectorAll_def row_matches_def getAttribute_def
      recent_acks_def non_empty_def)

text \<open>A scan command answers with the messages and never with the flag that the adapter reads.\<close>

theorem scan_has_no_new_message_flag:
  "pc_type c = ''scan'' \<Longrightarrow>
   Option.bind (cr_result (fst (handleCommand matches react able c p))) (\<lambda>kvs. map_of kvs ''has_new_message'') = None"
  by (simp add: handleCommand_def ALLOWED_TYPES_def command_failed_def command_done_def Let_def)

end
