(* ===== verification/Pdd_Adapter.thy ===== *)
theory Pdd_Adapter imports Pdd_Page_Props Segments begin

text \<open>
  The way from the orchestrator to the page: the preload bridge (\<open>apps/desktop/src/main/platforms/pdd/pdd-preload-bridge.ts\<close>), the
  platform adapter (\<open>packages/platform-pdd/src/pdd-platform-adapter.ts\<close>), its capabilities (\<open>capabilities.ts\<close>), the send
  vocabulary (\<open>send-text-semantics.ts\<close>) and the conversation id (\<open>internal-conversation-id.ts\<close>). A call of \<open>execute\<close> is a number;
  its promise is settled when the number is in \<open>pb_results\<close>. An adapter method is cut at its await into the command it sends and what
  it makes of the result. Generated command ids are arguments.
\<close>

subsection \<open>Preload bridge\<close>

definition MUTATION_COMMANDS :: "string list" where
  "MUTATION_COMMANDS = [''send_text'', ''send_image'', ''transfer'']"

record preload_bridge =
  pb_pending :: "(string \<times> nat) list"
  pb_timers :: "nat list"
  pb_mutationCommandsEnabled :: bool
  pb_results :: "(nat \<times> command_result) list"
  pb_sent :: "page_command list"
  pb_calls :: "page_command list"

definition new_bridge :: preload_bridge where
  "new_bridge = \<lparr>pb_pending = [], pb_timers = [], pb_mutationCommandsEnabled = True, pb_results = [], pb_sent = [], pb_calls = []\<rparr>"

definition setMutationCommandsEnabled :: "bool \<Rightarrow> preload_bridge \<Rightarrow> preload_bridge" where
  "setMutationCommandsEnabled b s = s\<lparr>pb_mutationCommandsEnabled := b\<rparr>"

definition settle_command :: "nat \<Rightarrow> command_result \<Rightarrow> preload_bridge \<Rightarrow> preload_bridge" where
  "settle_command n r s = s\<lparr>pb_results := pb_results s @ [(n, r)]\<rparr>"

text \<open>The call number is the length of \<open>pb_calls\<close>.\<close>

definition execute_command :: "bool \<Rightarrow> page_command \<Rightarrow> preload_bridge \<Rightarrow> preload_bridge" where
  "execute_command destroyed c s =
     (let n = length (pb_calls s); s1 = s\<lparr>pb_calls := pb_calls s @ [c]\<rparr> in
      if \<not> pb_mutationCommandsEnabled s1 \<and> pc_type c \<in> set MUTATION_COMMANDS
      then settle_command n (command_failed c (Some ''platform.command_disabled_navigation_only'')) s1
      else
        let s2 = s1\<lparr>pb_timers := pb_timers s1 @ [n], pb_pending := map_set (pc_command_id c) n (pb_pending s1)\<rparr> in
        if destroyed
        then settle_command n (command_failed c (Some ''platform.session_error''))
               (s2\<lparr>pb_timers := removeAll n (pb_timers s2), pb_pending := map_delete (pc_command_id c) (pb_pending s2)\<rparr>)
        else s2\<lparr>pb_sent := pb_sent s2 @ [c]\<rparr>)"

text \<open>The timer of call \<open>n\<close>; a cleared timer does not fire.\<close>

definition command_timeout :: "nat \<Rightarrow> preload_bridge \<Rightarrow> preload_bridge" where
  "command_timeout n s =
     (if n \<in> set (pb_timers s)
      then let c = pb_calls s ! n in
        settle_command n (command_failed c (Some ''platform.command_timeout''))
          (s\<lparr>pb_timers := removeAll n (pb_timers s), pb_pending := map_delete (pc_command_id c) (pb_pending s)\<rparr>)
      else s)"

definition resolveResult :: "command_result \<Rightarrow> preload_bridge \<Rightarrow> preload_bridge" where
  "resolveResult r s = (case map_of (pb_pending s) (cr_command_id r) of
       None \<Rightarrow> s
     | Some n \<Rightarrow> settle_command n r (s\<lparr>pb_timers := removeAll n (pb_timers s), pb_pending := map_delete (cr_command_id r) (pb_pending s)\<rparr>))"

datatype bridge_event =
    Bridge_execute bool page_command
  | Bridge_timeout nat
  | Bridge_result command_result
  | Bridge_enable bool

fun bridge_step :: "bridge_event \<Rightarrow> preload_bridge \<Rightarrow> preload_bridge" where
  "bridge_step (Bridge_execute destroyed c) s = execute_command destroyed c s"
| "bridge_step (Bridge_timeout n) s = command_timeout n s"
| "bridge_step (Bridge_result r) s = resolveResult r s"
| "bridge_step (Bridge_enable b) s = setMutationCommandsEnabled b s"

subsection \<open>Capabilities\<close>

text \<open>Name, declared, maturity.\<close>

definition PDD_CAPABILITY_DESCRIPTORS :: "(string \<times> bool \<times> string) list" where
  "PDD_CAPABILITY_DESCRIPTORS = [(''receive_text'', True, ''OBSERVATION_ONLY''), (''send_text'', True, ''LOCAL_CONTRACT_ONLY''),
     (''send_image'', True, ''SYNTHETIC_ONLY''), (''manual_takeover_detection'', True, ''LOCAL_CONTRACT_ONLY''),
     (''conversation_selection'', True, ''OBSERVATION_ONLY''), (''transfer'', True, ''SYNTHETIC_ONLY''),
     (''product_context'', True, ''SYNTHETIC_ONLY''), (''order_context'', True, ''SYNTHETIC_ONLY''), (''desktop_helper'', False, ''NOT_IMPLEMENTED'')]"

definition PDD_CAPABILITIES :: "(string \<times> bool) list" where
  "PDD_CAPABILITIES = map (\<lambda>(name, declared, _). (name, declared)) PDD_CAPABILITY_DESCRIPTORS"

definition supportsCapability :: "string \<Rightarrow> bool" where
  "supportsCapability name = (map_of PDD_CAPABILITIES name = Some True)"

subsection \<open>Platform adapter\<close>

definition adapter_command :: "string \<Rightarrow> string \<Rightarrow> string \<Rightarrow> string \<Rightarrow> string \<Rightarrow> page_command" where
  "adapter_command type cmd sid shop conv = \<lparr>pc_type = type, pc_command_id = cmd, pc_session_id = sid, pc_shop_id = Some shop,
     pc_conversation_id = Some conv, pc_text = None, pc_asset_ref = None, pc_target = None\<rparr>"

definition failed_attempt :: "string option \<Rightarrow> send_attempt" where
  "failed_attempt err = \<lparr>sa_ok = False, sa_messageId = None, sa_error = (case err of Some e \<Rightarrow> ErrorString e | None \<Rightarrow> OtherError)\<rparr>"

text \<open>\<open>Inl\<close> when the method returns without a command.\<close>

definition adapter_sendText :: "session_state \<Rightarrow> string \<Rightarrow> string \<Rightarrow> string \<Rightarrow> string list \<Rightarrow> send_attempt + page_command" where
  "adapter_sendText session cmd shop conv segments =
     (if ss_status session \<noteq> Session_ready then Inl (failed_attempt (Some ''platform.not_ready''))
      else case segments of
          [] \<Rightarrow> Inl ok_attempt
        | segment # _ \<Rightarrow>
            if segment = [] then Inl ok_attempt
            else Inr ((adapter_command ''send_text'' cmd (ss_sessionId session) shop conv)\<lparr>pc_text := Some segment\<rparr>))"

definition sendText_result :: "string \<Rightarrow> command_result \<Rightarrow> send_attempt" where
  "sendText_result cmd r =
     (if \<not> cr_ok r then failed_attempt (Some (case cr_error r of Some e \<Rightarrow> e | None \<Rightarrow> ''platform.send_uncertain''))
      else ok_attempt\<lparr>sa_messageId := Some (case result_message_id r of Some m \<Rightarrow> m | None \<Rightarrow> cmd)\<rparr>)"

definition adapter_sendImage :: "session_state \<Rightarrow> string \<Rightarrow> string \<Rightarrow> string \<Rightarrow> string \<Rightarrow> send_attempt + page_command" where
  "adapter_sendImage session cmd shop conv asset =
     (if ss_status session \<noteq> Session_ready then Inl (failed_attempt (Some ''platform.not_ready''))
      else if \<not> supportsCapability ''send_image'' then Inl (failed_attempt (Some ''capability.unsupported''))
      else Inr ((adapter_command ''send_image'' cmd (ss_sessionId session) shop conv)\<lparr>pc_asset_ref := Some asset\<rparr>))"

definition sendImage_result :: "command_result \<Rightarrow> send_attempt" where
  "sendImage_result r = (if cr_ok r then ok_attempt\<lparr>sa_messageId := result_message_id r\<rparr> else failed_attempt (cr_error r))"

text \<open>A transfer decision; its shop and conversation are the undeclared properties that \<open>onTransfer\<close> reads.\<close>

record adapter_decision =
  ad_requested :: bool
  ad_target :: "string option"
  ad_shop_id :: "string option"
  ad_conversation_id :: "string option"

definition adapter_executeTransfer :: "session_state \<Rightarrow> string \<Rightarrow> string \<Rightarrow> string \<Rightarrow> adapter_decision \<Rightarrow> transfer_result + page_command" where
  "adapter_executeTransfer session cmd shop conv d =
     (case ad_target d of
        Some target \<Rightarrow>
          if \<not> ad_requested d \<or> target = [] then Inl (transfer_failed ''no_target'' None)
          else Inr ((adapter_command ''transfer'' cmd (ss_sessionId session) shop conv)\<lparr>pc_target := Some target\<rparr>)
      | None \<Rightarrow> Inl (transfer_failed ''no_target'' None))"

definition executeTransfer_result :: "command_result \<Rightarrow> transfer_result" where
  "executeTransfer_result r =
     (if \<not> cr_ok r
      then transfer_failed (case cr_error r of Some e \<Rightarrow> e | None \<Rightarrow> ''platform.transfer_target_unavailable'')
             (case Option.bind (cr_result r) (\<lambda>kvs. map_of kvs ''fallback_message'') of Some (JStr m) \<Rightarrow> Some m | _ \<Rightarrow> None)
      else \<lparr>tr_ok = True, tr_executed = True, tr_fallback_message = None, tr_error = None\<rparr>)"

text \<open>\<open>onTransfer\<close>: the command sent, if any.\<close>

definition adapter_onTransfer :: "session_state \<Rightarrow> string \<Rightarrow> adapter_decision \<Rightarrow> page_command option" where
  "adapter_onTransfer session cmd d =
     (case (non_empty (ad_shop_id d), non_empty (ad_conversation_id d)) of
        (Some shop, Some conv) \<Rightarrow> (case adapter_executeTransfer session cmd shop conv d of Inr c \<Rightarrow> Some c | Inl _ \<Rightarrow> None)
      | _ \<Rightarrow> None)"

definition adapter_scan :: "session_state \<Rightarrow> string \<Rightarrow> string \<Rightarrow> string \<Rightarrow> page_command" where
  "adapter_scan session cmd shop conv = adapter_command ''scan'' cmd (ss_sessionId session) shop conv"

definition scan_result :: "command_result \<Rightarrow> bool" where
  "scan_result r = (Option.bind (cr_result r) (\<lambda>kvs. map_of kvs ''has_new_message'') = Some (JBool True))"

subsection \<open>Send vocabulary\<close>

datatype send_intent_result = Intent_valid string string | Intent_rejected string

definition validatePddSendIntent :: "json option \<Rightarrow> json option \<Rightarrow> send_intent_result" where
  "validatePddSendIntent target content =
     (if \<not> isRecord target then Intent_rejected ''target_missing_or_invalid''
      else if opt_get target ''kind'' \<noteq> Some (JStr ''PDD_CUSTOMER_UID'') then Intent_rejected ''target_kind_invalid''
      else if \<not> customerUidString (opt_get target ''customerUid'') then Intent_rejected ''customer_uid_missing_or_invalid''
      else if \<not> nonEmptyString content then Intent_rejected ''content_missing_or_invalid''
      else Intent_valid (string_of (opt_get target ''customerUid'')) (string_of content))"

datatype local_validation = Locally_valid | Locally_rejected

datatype platform_attempt = Not_attempted | Attempted | Attempt_unknown

datatype platform_outcome = Outcome_none | Outcome_accepted | Outcome_rejected | Outcome_unknown

record send_state =
  st_localValidation :: local_validation
  st_platformAttempt :: platform_attempt
  st_platformOutcome :: platform_outcome
  st_platformResult :: "json option"

text \<open>\<open>None\<close> when the state is valid, otherwise the reason.\<close>

definition validatePddSendState :: "send_state \<Rightarrow> string option" where
  "validatePddSendState s =
     (if st_localValidation s = Locally_rejected \<and> st_platformAttempt s \<noteq> Not_attempted then Some ''local_rejection_must_not_attempt''
      else if st_platformAttempt s = Not_attempted \<and> st_platformOutcome s \<noteq> Outcome_none then Some ''not_attempted_requires_not_attempted_outcome''
      else if st_platformAttempt s = Attempt_unknown \<and> st_platformOutcome s \<noteq> Outcome_unknown then Some ''unknown_attempt_requires_unknown_outcome''
      else if st_platformAttempt s = Attempted \<and> st_platformOutcome s = Outcome_none then Some ''attempted_requires_platform_outcome''
      else case st_platformResult s of
          None \<Rightarrow> None
        | Some r \<Rightarrow>
            if st_platformAttempt s = Not_attempted then Some ''platform_result_requires_attempt''
            else case r of
                JObj kvs \<Rightarrow>
                  if list_ex (\<lambda>(k, _). k \<noteq> ''platformMessageId'') kvs then Some ''platform_result_invalid''
                  else if map_of kvs ''platformMessageId'' \<noteq> None \<and> \<not> nonBlankString (map_of kvs ''platformMessageId'')
                  then Some ''platform_message_id_invalid''
                  else None
              | _ \<Rightarrow> Some ''platform_result_invalid'')"

definition unknownOutcomeDirective :: "platform_outcome \<Rightarrow> string option" where
  "unknownOutcomeDirective x = (if x = Outcome_unknown then Some ''NO_AUTOMATIC_RETRY'' else None)"

subsection \<open>Conversation id\<close>

definition deriveInternalConversationId :: "json option \<Rightarrow> json option \<Rightarrow> string option" where
  "deriveInternalConversationId account customer =
     (if \<not> nonBlankString account then None
      else if \<not> customerUidString customer then None
      else Some (''conversation:'' @ string_of account @ '':'' @ string_of customer))"

subsection \<open>Every command settles once\<close>

text \<open>Every call has either an active timer or one result, with its own command id; a pending entry belongs to a call with an active timer.\<close>

definition bridge_inv :: "preload_bridge \<Rightarrow> bool" where
  "bridge_inv s \<longleftrightarrow> distinct (map fst (pb_results s) @ pb_timers s) \<and> set (map fst (pb_results s) @ pb_timers s) = {..<length (pb_calls s)}
     \<and> (\<forall>(n, r) \<in> set (pb_results s). cr_command_id r = pc_command_id (pb_calls s ! n))
     \<and> (\<forall>(i, n) \<in> set (pb_pending s). n \<in> set (pb_timers s) \<and> i = pc_command_id (pb_calls s ! n))"

text \<open>A settled call: its timer and its pending entry are gone.\<close>

lemma settle_command_inv:
  assumes inv: "bridge_inv s" and n: "n \<in> set (pb_timers s)" and r: "cr_command_id r = pc_command_id (pb_calls s ! n)"
  shows "bridge_inv (settle_command n r (s\<lparr>pb_timers := removeAll n (pb_timers s), pb_pending := map_delete (pc_command_id (pb_calls s ! n)) (pb_pending s)\<rparr>))"
proof -
  have d: "distinct (map fst (pb_results s))" "distinct (pb_timers s)" "set (map fst (pb_results s)) \<inter> set (pb_timers s) = {}"
    and all: "set (map fst (pb_results s)) \<union> set (pb_timers s) = {..<length (pb_calls s)}"
    and ids: "\<forall>(n, r) \<in> set (pb_results s). cr_command_id r = pc_command_id (pb_calls s ! n)"
    and pend: "\<forall>(i, n) \<in> set (pb_pending s). n \<in> set (pb_timers s) \<and> i = pc_command_id (pb_calls s ! n)"
    using inv unfolding bridge_inv_def by auto
  have "\<forall>(i, m) \<in> set (map_delete (pc_command_id (pb_calls s ! n)) (pb_pending s)). m \<in> set (removeAll n (pb_timers s)) \<and> i = pc_command_id (pb_calls s ! m)"
    using pend by (auto simp: map_delete_def)
  moreover have "distinct (map fst (pb_results s) @ [n] @ removeAll n (pb_timers s))" using d n by (auto simp: distinct_removeAll)
  moreover have "set (map fst (pb_results s) @ [n] @ removeAll n (pb_timers s)) = {..<length (pb_calls s)}" using all n by auto
  ultimately show ?thesis using ids r unfolding bridge_inv_def settle_command_def by auto
qed

lemma timeout_inv: "bridge_inv s \<Longrightarrow> bridge_inv (command_timeout n s)"
  using settle_command_inv by (simp add: command_timeout_def Let_def command_failed_def)

lemma resolve_inv:
  assumes inv: "bridge_inv s"
  shows "bridge_inv (resolveResult r s)"
proof (cases "map_of (pb_pending s) (cr_command_id r)")
  case None
  then show ?thesis using inv by (simp add: resolveResult_def)
next
  case (Some n)
  then have "n \<in> set (pb_timers s)" "cr_command_id r = pc_command_id (pb_calls s ! n)"
    using inv map_of_SomeD [OF Some] by (auto simp: bridge_inv_def)
  then show ?thesis using settle_command_inv [OF inv, of n r] Some by (simp add: resolveResult_def)
qed

text \<open>A new call: its timer runs and it is pending.\<close>

definition begin_call :: "page_command \<Rightarrow> preload_bridge \<Rightarrow> preload_bridge" where
  "begin_call c s = s\<lparr>pb_calls := pb_calls s @ [c], pb_timers := pb_timers s @ [length (pb_calls s)],
     pb_pending := map_set (pc_command_id c) (length (pb_calls s)) (pb_pending s)\<rparr>"

lemma begin_inv:
  assumes inv: "bridge_inv s"
  shows "bridge_inv (begin_call c s)"
proof -
  have all: "set (map fst (pb_results s)) \<union> set (pb_timers s) = {..<length (pb_calls s)}" using inv by (simp add: bridge_inv_def)
  have "(\<forall>(i, n) \<in> set (map_set (pc_command_id c) (length (pb_calls s)) (pb_pending s)).
      n \<in> set (pb_timers s @ [length (pb_calls s)]) \<and> i = pc_command_id ((pb_calls s @ [c]) ! n))"
  proof safe
    fix i n assume "(i, n) \<in> set (map_set (pc_command_id c) (length (pb_calls s)) (pb_pending s))"
    then have "(i, n) = (pc_command_id c, length (pb_calls s)) \<or> (i, n) \<in> set (pb_pending s)" using set_map_set by fastforce
    then have "(i, n) = (pc_command_id c, length (pb_calls s)) \<or> (n \<in> set (pb_timers s) \<and> n < length (pb_calls s) \<and> i = pc_command_id (pb_calls s ! n))"
      using inv all by (auto simp: bridge_inv_def)
    then show "n \<in> set (pb_timers s @ [length (pb_calls s)])" "i = pc_command_id ((pb_calls s @ [c]) ! n)" by (auto simp: nth_append)
  qed
  moreover have "\<forall>(n, r) \<in> set (pb_results s). cr_command_id r = pc_command_id ((pb_calls s @ [c]) ! n)"
  proof safe
    fix n r assume r: "(n, r) \<in> set (pb_results s)"
    then have "n \<in> set (map fst (pb_results s))" by force
    then have "n < length (pb_calls s)" using all by blast
    moreover have "cr_command_id r = pc_command_id (pb_calls s ! n)" using inv r by (auto simp: bridge_inv_def)
    ultimately show "cr_command_id r = pc_command_id ((pb_calls s @ [c]) ! n)" by (simp add: nth_append)
  qed
  moreover have "distinct (map fst (pb_results s) @ pb_timers s @ [length (pb_calls s)])" using inv all by (auto simp: bridge_inv_def)
  ultimately show ?thesis using all by (auto simp: bridge_inv_def begin_call_def lessThan_Suc)
qed

lemma execute_eq:
  "execute_command destroyed c s =
     (if \<not> pb_mutationCommandsEnabled s \<and> pc_type c \<in> set MUTATION_COMMANDS
      then settle_command (length (pb_calls s)) (command_failed c (Some ''platform.command_disabled_navigation_only'')) (s\<lparr>pb_calls := pb_calls s @ [c]\<rparr>)
      else if destroyed
      then settle_command (length (pb_calls s)) (command_failed c (Some ''platform.session_error''))
        ((begin_call c s)\<lparr>pb_timers := removeAll (length (pb_calls s)) (pb_timers (begin_call c s)),
           pb_pending := map_delete (pc_command_id c) (pb_pending (begin_call c s))\<rparr>)
      else (begin_call c s)\<lparr>pb_sent := pb_sent s @ [c]\<rparr>)"
  by (simp add: execute_command_def begin_call_def Let_def)

lemma refused_inv:
  assumes inv: "bridge_inv s" and r: "cr_command_id r = pc_command_id c"
  shows "bridge_inv (settle_command (length (pb_calls s)) r (s\<lparr>pb_calls := pb_calls s @ [c]\<rparr>))"
proof -
  have all: "set (map fst (pb_results s)) \<union> set (pb_timers s) = {..<length (pb_calls s)}" using inv by (simp add: bridge_inv_def)
  have res: "cr_command_id q = pc_command_id ((pb_calls s @ [c]) ! n)" if "(n, q) \<in> set (pb_results s)" for n q
  proof -
    have "n \<in> set (map fst (pb_results s))" using that by force
    then have "n < length (pb_calls s)" using all by blast
    moreover have "cr_command_id q = pc_command_id (pb_calls s ! n)" using inv that by (auto simp: bridge_inv_def)
    ultimately show ?thesis by (simp add: nth_append)
  qed
  have pend: "n \<in> set (pb_timers s) \<and> i = pc_command_id ((pb_calls s @ [c]) ! n)" if "(i, n) \<in> set (pb_pending s)" for i n
  proof -
    have "n \<in> set (pb_timers s) \<and> i = pc_command_id (pb_calls s ! n)" using inv that by (auto simp: bridge_inv_def)
    moreover from this have "n < length (pb_calls s)" using all by blast
    ultimately show ?thesis by (simp add: nth_append)
  qed
  have "distinct (map fst (pb_results s) @ [length (pb_calls s)] @ pb_timers s)" using inv all by (auto simp: bridge_inv_def)
  then show ?thesis using all res pend r by (auto simp: bridge_inv_def settle_command_def lessThan_Suc)
qed

lemma execute_inv:
  assumes inv: "bridge_inv s"
  shows "bridge_inv (execute_command destroyed c s)"
proof -
  have b: "bridge_inv (begin_call c s)" by (rule begin_inv [OF inv])
  have n: "length (pb_calls s) \<in> set (pb_timers (begin_call c s))" "pb_calls (begin_call c s) ! length (pb_calls s) = c"
    by (simp_all add: begin_call_def)
  have sent: "bridge_inv (k\<lparr>pb_sent := x\<rparr>) = bridge_inv k" for k x by (simp add: bridge_inv_def)
  show ?thesis
    unfolding execute_eq using refused_inv [OF inv, of "command_failed c _" c] settle_command_inv [OF b n(1), of "command_failed c _"] b
    by (simp add: n(2) sent command_failed_def)
qed

interpretation bridge_sys: step_invariant bridge_step bridge_inv "\<lambda>_. True"
proof
  fix s e assume "bridge_inv s"
  then show "bridge_inv (bridge_step e s)"
    using execute_inv timeout_inv resolve_inv by (cases e) (auto simp: setMutationCommandsEnabled_def bridge_inv_def)
qed

text \<open>Read-only: no step but \<open>Bridge_enable True\<close> enables sending commands, and none is sent meanwhile.\<close>

definition read_only_inv :: "preload_bridge \<Rightarrow> bool" where
  "read_only_inv s \<longleftrightarrow> \<not> pb_mutationCommandsEnabled s \<and> list_all (\<lambda>c. pc_type c \<notin> set MUTATION_COMMANDS) (pb_sent s)"

interpretation read_only_sys: step_invariant bridge_step read_only_inv "\<lambda>e. e \<noteq> Bridge_enable True"
proof
  fix s e assume "read_only_inv s" "e \<noteq> Bridge_enable True"
  then show "read_only_inv (bridge_step e s)"
    by (cases e) (auto simp: read_only_inv_def execute_command_def command_timeout_def resolveResult_def settle_command_def setMutationCommandsEnabled_def
        Let_def split: option.split)
qed

text \<open>
  Property C34. Over every sequence of commands, results (late, repeated or with foreign ids) and timeouts, every
  command has either a running timer or exactly one result, never both, and a result has the id of its command; so each
  promise settles exactly once. A view that was made read-only never gets a command that sends or transfers, whatever is
  requested.
\<close>

theorem every_command_settles_once:
  assumes "s = run bridge_step es new_bridge" and "k = run bridge_step fs (setMutationCommandsEnabled False new_bridge)" and "Bridge_enable True \<notin> set fs"
  shows "distinct (map fst (pb_results s) @ pb_timers s) \<and> set (map fst (pb_results s) @ pb_timers s) = {..<length (pb_calls s)}
    \<and> (\<forall>(n, r) \<in> set (pb_results s). cr_command_id r = pc_command_id (pb_calls s ! n))
    \<and> list_all (\<lambda>c. pc_type c \<notin> set MUTATION_COMMANDS) (pb_sent k)"
proof -
  have "bridge_inv s" unfolding assms(1) by (rule bridge_sys.run_keeps) (simp_all add: bridge_inv_def new_bridge_def)
  moreover have "read_only_inv k"
    unfolding assms(2)
    by (rule read_only_sys.run_keeps) (use assms(3) in \<open>auto simp: read_only_inv_def setMutationCommandsEnabled_def new_bridge_def\<close>)
  ultimately show ?thesis unfolding bridge_inv_def read_only_inv_def by blast
qed

theorem every_command_settles_once_witness:
  "pb_sent (run bridge_step [Bridge_execute False (adapter_command ''send_text'' ''c1'' ''sid'' ''s'' ''conv'')] (setMutationCommandsEnabled False new_bridge)) = []
   \<and> list_all (\<lambda>c. pc_type c \<notin> set MUTATION_COMMANDS)
       (pb_sent (run bridge_step [Bridge_execute False (adapter_command ''scan'' ''c2'' ''sid'' ''s'' ''conv'')] (setMutationCommandsEnabled False new_bridge)))"
  using every_command_settles_once [OF refl refl, where fs = "[Bridge_execute False (adapter_command ''scan'' ''c2'' ''sid'' ''s'' ''conv'')]"]
  by (simp add: execute_command_def setMutationCommandsEnabled_def new_bridge_def adapter_command_def MUTATION_COMMANDS_def settle_command_def)

subsection \<open>Conversation ids\<close>

lemma digits_no_colon: "list_all is_digit s \<Longrightarrow> CHR '':'' \<notin> set s"
  by (auto simp: list_all_iff is_digit_def)

lemma colon_split:
  assumes "a @ CHR '':'' # c = b @ CHR '':'' # d" and "CHR '':'' \<notin> set c" and "CHR '':'' \<notin> set d"
  shows "a = b \<and> c = d"
  using assms
proof (induction a arbitrary: b)
  case Nil
  then show ?case by (cases b) auto
next
  case (Cons x a)
  then show ?case by (cases b) auto
qed

text \<open>
  A conversation id is derived only from a non-blank account and a numeric customer id, and two
  pairs get the same id only if both the account and the customer are the same, even when an account id contains colons.
\<close>

theorem conversation_id_is_injective:
  assumes "deriveInternalConversationId a c = Some x" and "deriveInternalConversationId b d = Some y"
  shows "(x = y \<longleftrightarrow> a = b \<and> c = d) \<and> (\<exists>s u. a = Some (JStr s) \<and> c = Some (JStr u) \<and> \<not> blank s \<and> u \<noteq> [] \<and> list_all is_digit u)"
proof -
  have read: "\<exists>s u. v = Some (JStr s) \<and> w = Some (JStr u) \<and> \<not> blank s \<and> u \<noteq> [] \<and> list_all is_digit u \<and> z = ''conversation:'' @ s @ '':'' @ u"
    if "deriveInternalConversationId v w = Some z" for v w z
    using that
    by (auto simp: deriveInternalConversationId_def nonBlankString_def nonEmptyString_def customerUidString_def string_of_def as_string_def blank_def
        split: if_splits option.splits json.splits)
  obtain s u where x: "a = Some (JStr s)" "c = Some (JStr u)" "\<not> blank s" "u \<noteq> []" "list_all is_digit u" "x = ''conversation:'' @ s @ '':'' @ u"
    using read [OF assms(1)] by blast
  obtain t v where y: "b = Some (JStr t)" "d = Some (JStr v)" "list_all is_digit v" "y = ''conversation:'' @ t @ '':'' @ v"
    using read [OF assms(2)] by blast
  have "s = t \<and> u = v" if "s @ CHR '':'' # u = t @ CHR '':'' # v"
    using colon_split [OF that] digits_no_colon x(5) y(3) by blast
  then show ?thesis using x y by auto
qed

theorem conversation_id_is_injective_witness:
  "deriveInternalConversationId (Some (JStr ''a:1'')) (Some (JStr ''2'')) \<noteq> deriveInternalConversationId (Some (JStr ''a'')) (Some (JStr ''12''))"
proof -
  have e: "deriveInternalConversationId (Some (JStr ''a:1'')) (Some (JStr ''2'')) = Some ''conversation:a:1:2''"
    "deriveInternalConversationId (Some (JStr ''a'')) (Some (JStr ''12'')) = Some ''conversation:a:12''"
    by (simp_all add: deriveInternalConversationId_def nonBlankString_def nonEmptyString_def customerUidString_def string_of_def as_string_def
        js_trim_Nil_iff is_ws_def is_digit_def)
  show ?thesis using conversation_id_is_injective [OF e] e by simp
qed

subsection \<open>From the adapter to the page\<close>

text \<open>
  Whatever the page, a text reply of the orchestrator reaches it only while the session is ready, as one command with exactly
  the first segment; the page handles it only when it is healthy and the composer is enabled, types exactly that segment
  and clicks the send button once, each where the element has the method; and the attempt is reported as sent exactly when
  the page did that.
\<close>

theorem segment_is_typed_once:
  assumes "adapter_sendText session cmd shop conv segments = Inr c"
    and "handleCommand matches react able c \<lparr>pg_document = doc, pg_actions = []\<rparr> = (res, p)"
  shows "ss_status session = Session_ready \<and> pc_text c = Some (hd segments) \<and> hd segments \<noteq> []
    \<and> (\<not> sa_ok (sendText_result cmd res) \<longrightarrow> pg_actions p = [])
    \<and> (sa_ok (sendText_result cmd res) \<longrightarrow> (\<exists>input send. filter (\<lambda>x. \<forall>e. x \<noteq> Input_events e) (pg_actions p)
          = filter able [Set_attribute input ''value'' (hd segments), Click send]
        \<and> matches ''[data-fw-pdd-composer-input]'' input \<and> matches ''[data-fw-pdd-send-btn]'' send))"
proof -
  have sel: "selector PDD_SELECTOR_PROFILE ''composer.input'' = Some (entry ''composer.input'' ''[data-fw-pdd-composer-input]'' True ''DESIGN'')"
    "selector PDD_SELECTOR_PROFILE ''composer.send'' = Some (entry ''composer.send'' ''[data-fw-pdd-send-btn]'' True ''DESIGN'')"
    "selector PDD_SELECTOR_PROFILE ''composer.disabled'' = Some (entry ''composer.disabled'' ''[data-fw-pdd-send-disabled]'' False ''DESIGN'')"
    by (simp_all add: selector_def PDD_SELECTOR_PROFILE_def entry_def)
  obtain segs where seg: "ss_status session = Session_ready" "segments = hd segments # segs" "hd segments \<noteq> []"
    and c: "c = (adapter_command ''send_text'' cmd (ss_sessionId session) shop conv)\<lparr>pc_text := Some (hd segments)\<rparr>"
    using assms(1) by (cases segments) (auto simp: adapter_sendText_def split: if_splits)
  have fields: "pc_type c = ''send_text''" "pc_text c = Some (hd segments)" "pc_conversation_id c = Some conv" "pc_command_id c = cmd"
    by (simp_all add: c adapter_command_def)
  let ?p = "\<lparr>pg_document = doc, pg_actions = []\<rparr>"
  have cases: "(res = command_failed c (Some ''platform.dom_unavailable'') \<and> p = ?p)
    \<or> (res = send_reply c (fst (sendText_page matches react able PDD_SELECTOR_PROFILE conv (hd segments) ?p)) \<and> p = snd (sendText_page matches react able PDD_SELECTOR_PROFILE conv (hd segments) ?p))"
    using assms(2) fields by (auto simp: handleCommand_def ALLOWED_TYPES_def Let_def case_prod_beta split: if_splits)
  then show ?thesis
  proof
    assume "res = command_failed c (Some ''platform.dom_unavailable'') \<and> p = ?p"
    then show ?thesis using seg fields by (simp add: sendText_result_def failed_attempt_def command_failed_def)
  next
    assume "res = send_reply c (fst (sendText_page matches react able PDD_SELECTOR_PROFILE conv (hd segments) ?p)) \<and> p = snd (sendText_page matches react able PDD_SELECTOR_PROFILE conv (hd segments) ?p)"
    then obtain r where r: "sendText_page matches react able PDD_SELECTOR_PROFILE conv (hd segments) ?p = (r, p)" "res = send_reply c r" by (metis prod.collapse)
    have "(r = dom_unavailable \<and> p = ?p) \<or> (sr_ok r \<and> (\<exists>input send. matches ''[data-fw-pdd-composer-input]'' input
        \<and> matches ''[data-fw-pdd-send-btn]'' send
        \<and> pg_actions p = filter able [Set_attribute input ''value'' (hd segments)] @ filter able [Input_events input] @ filter able [Click send]))"
      using r(1) unfolding sendText_page_def sel
      by (auto simp: entry_def dispatchInputEvents_def Let_def simp del: filter.simps dest!: querySelector_matches split: option.splits)
         blast+
    then show ?thesis
    proof
      assume "r = dom_unavailable \<and> p = ?p"
      then show ?thesis
        using seg fields r(2) by (simp add: dom_unavailable_def send_reply_def command_failed_def sendText_result_def failed_attempt_def)
    next
      assume sent: "sr_ok r \<and> (\<exists>input send. matches ''[data-fw-pdd-composer-input]'' input \<and> matches ''[data-fw-pdd-send-btn]'' send
        \<and> pg_actions p = filter able [Set_attribute input ''value'' (hd segments)] @ filter able [Input_events input] @ filter able [Click send])"
      then obtain input send where m: "matches ''[data-fw-pdd-composer-input]'' input" "matches ''[data-fw-pdd-send-btn]'' send"
        and acts: "pg_actions p = filter able [Set_attribute input ''value'' (hd segments)] @ filter able [Input_events input] @ filter able [Click send]"
        by blast
      have "filter (\<lambda>x. \<forall>e. x \<noteq> Input_events e) (pg_actions p) = filter able [Set_attribute input ''value'' (hd segments), Click send]"
        unfolding acts by simp
      moreover have "sa_ok (sendText_result cmd res)"
        using sent by (simp add: r(2) send_reply_def command_done_def sendText_result_def ok_attempt_def)
      ultimately show ?thesis using seg fields m by blast
    qed
  qed
qed

text \<open>A page with a healthy chat, for the witness: every selector but the disabled marker finds the one element.\<close>

definition healthy_page :: dom_document where
  "healthy_page = \<lparr>dd_elements = [Elem [] None []], dd_body = True, dd_location = None\<rparr>"

definition healthy_matches :: matcher where
  "healthy_matches sel e = (sel \<noteq> ''[data-fw-pdd-send-disabled]'')"

definition ready_session :: session_state where
  "ready_session = \<lparr>ss_shopId = ''s'', ss_sessionId = ''pdd-session-s'', ss_status = Session_ready, ss_lastError = None,
     ss_activeConversationId = None, ss_buyerId = None, ss_selected = None\<rparr>"

theorem segment_is_typed_once_witness:
  "\<exists>input send. filter (\<lambda>x. \<forall>e. x \<noteq> Input_events e) (pg_actions (snd (handleCommand healthy_matches (\<lambda>_ d. d) (\<lambda>_. True)
      ((adapter_command ''send_text'' ''c1'' ''pdd-session-s'' ''s'' ''conv'')\<lparr>pc_text := Some ''hello''\<rparr>) \<lparr>pg_document = healthy_page, pg_actions = []\<rparr>)))
    = [Set_attribute input ''value'' ''hello'', Click send]"
proof -
  let ?c = "(adapter_command ''send_text'' ''c1'' ''pdd-session-s'' ''s'' ''conv'')\<lparr>pc_text := Some ''hello''\<rparr>"
  let ?x = "handleCommand healthy_matches (\<lambda>_ d. d) (\<lambda>_. True) ?c \<lparr>pg_document = healthy_page, pg_actions = []\<rparr>"
  have c: "adapter_sendText ready_session ''c1'' ''s'' ''conv'' [''hello''] = Inr ?c"
    by (simp add: adapter_sendText_def ready_session_def)
  have "sa_ok (sendText_result ''c1'' (fst ?x))"
    by (simp add: sendText_result_def send_reply_def command_done_def ok_attempt_def handleCommand_def adapter_command_def ALLOWED_TYPES_def domHealth_def requiredSelectors_def PDD_SELECTOR_PROFILE_def entry_def
        find_entry_def querySelector_def querySelectorAll_def healthy_page_def healthy_matches_def absent_def health_ready_def sendText_page_def
        selector_def dispatchInputEvents_def act_def try_act_def Let_def)
  then show ?thesis using segment_is_typed_once [OF c, of healthy_matches "\<lambda>_ d. d" "\<lambda>_. True" healthy_page "fst ?x" "snd ?x"] by auto
qed

subsection \<open>Defects\<close>

text \<open>
  The answer of the page to a scan never has the flag that the adapter reads, so \<open>getCurrentConversationState\<close> never reports a new message
  and the orchestrator's check before sending never fires on this platform.
\<close>

theorem adapter_never_sees_new_message:
  "\<not> scan_result (fst (handleCommand matches react able (adapter_scan session cmd shop conv) p))"
  using scan_has_no_new_message_flag [of "adapter_scan session cmd shop conv" matches react able p]
  by (simp add: scan_result_def adapter_scan_def adapter_command_def)

text \<open>A transfer decision of the orchestrator has neither a shop nor a conversation, so \<open>onTransfer\<close> sends nothing.\<close>

theorem transfer_without_shop_is_dropped:
  "ad_shop_id d = None \<or> ad_conversation_id d = None \<Longrightarrow> adapter_onTransfer session cmd d = None"
  by (auto simp: adapter_onTransfer_def non_empty_def split: option.splits)

end
