(* ===== verification/Pdd_Service.thy ===== *)
theory Pdd_Service imports Pdd_Observer Pdd_View Pdd_Adapter begin

text \<open>
  The PDD platform service, \<open>apps/desktop/src/main/platforms/pdd/pdd-platform-service.ts\<close>: it owns the sessions, views and observers of the
  shops and decides which observed data reaches the collector. Objects that the code shares are held by identity: session hosts
  in \<open>ps_hosts\<close>, views in \<open>ps_views\<close>; the maps of the code hold identities. Counters for identities and random ids come
  from \<open>ps_next\<close>. The resolvers and the collector are called synchronously and may call the service again: what they do to it is the argument
  \<open>reenter\<close> of the handlers. A handler returns, beside the new state, the calls of the collector: the envelope and the state of the service
  at the moment of the call. Asynchronous methods are cut at their awaits. Status broadcasts, the diagnostics and the
  decoded-event ledger, which nothing else reads, are left out.
\<close>

subsection \<open>State\<close>

datatype ingress_mode = Mode_disabled | Mode_canonical | Mode_legacy

text \<open>What the collector returns: the status of the object, if it has one; or it throws, or returns a promise.\<close>

datatype collector_answer = Collector_returns "string option" | Collector_throws | Collector_thenable

text \<open>The calls of the legacy path to the orchestrator: a buyer message (shop, conversation, the event), a human reply, a change of the
  conversation.\<close>

datatype legacy_call = Legacy_inbound string string page_event | Legacy_human string string | Legacy_changed string

record service_options =
  so_navigationMode :: navigation_mode
  so_mode :: ingress_mode
  so_provider :: "(admission_request \<Rightarrow> provider_decision) option"
  so_resolveScope :: "(document_binding \<Rightarrow> json option option) option"
  so_resolveIdentity :: "(canonical_message \<Rightarrow> document_binding \<Rightarrow> json option option) option"
  so_validator :: validator_cache
  so_found :: "envelope_validator option"
  so_collector :: "(inbound_envelope \<Rightarrow> collector_answer) option"
  so_decodeFrame :: "(string \<Rightarrow> json option option) option"
  so_decodeHttp :: "(string \<Rightarrow> http_binding \<Rightarrow> json list option option) option"
  so_allowedUrl :: "string \<Rightarrow> bool"
  so_allowedHttp :: "(string \<Rightarrow> string \<Rightarrow> bool) option"
  so_uuid :: "nat \<Rightarrow> string"

text \<open>The constructor's choice of the mode.\<close>

definition resolve_mode :: "ingress_mode option \<Rightarrow> navigation_mode \<Rightarrow> ingress_mode" where
  "resolve_mode requested nav = (case requested of Some m \<Rightarrow> m | None \<Rightarrow> if nav = Nav_fixture then Mode_legacy else Mode_disabled)"

record service =
  ps_hosts :: "(nat \<times> session_host) list"
  ps_views :: "(nat \<times> view_host) list"
  ps_destroyed :: "nat list"
  ps_sessions :: "(string \<times> nat) list"
  ps_bridges :: "(string \<times> preload_bridge) list"
  ps_adapters :: "(string \<times> nat) list"
  ps_trusted :: "nat list"
  ps_senderSessions :: "(nat \<times> nat) list"
  ps_observers :: "(string \<times> inbound_observer) list"
  ps_startups :: "(string \<times> nat) list"
  ps_connections :: "(string \<times> connection_evidence) list"
  ps_connectionAdmissions :: "(string \<times> string) list"
  ps_revokedKeys :: "string list"
  ps_lastAdmissionId :: "string option"
  ps_httpBindings :: "(string \<times> http_binding) list"
  ps_revokedShops :: "string list"
  ps_registry :: admission_registry
  ps_decisions :: "(string \<times> nat) list"
  ps_cache :: validator_cache
  ps_next :: nat
  ps_activationEpoch :: nat
  ps_activeViewShopId :: "string option"
  ps_legacy :: "legacy_call list"

definition new_service :: service where
  "new_service = \<lparr>ps_hosts = [], ps_views = [], ps_destroyed = [], ps_sessions = [], ps_bridges = [], ps_adapters = [], ps_trusted = [],
     ps_senderSessions = [], ps_observers = [], ps_startups = [], ps_connections = [], ps_connectionAdmissions = [], ps_revokedKeys = [],
     ps_lastAdmissionId = None, ps_httpBindings = [], ps_revokedShops = [], ps_registry = [], ps_decisions = [], ps_cache = None, ps_next = 0,
     ps_activationEpoch = 0, ps_activeViewShopId = None, ps_legacy = []\<rparr>"

type_synonym collected = "(inbound_envelope \<times> service) list"

definition live_contents :: "service \<Rightarrow> nat \<Rightarrow> bool" where
  "live_contents s wc = (wc \<notin> set (ps_destroyed s))"

definition sender_session :: "nat \<Rightarrow> service \<Rightarrow> session_host option" where
  "sender_session wc s = Option.bind (map_of (ps_senderSessions s) wc) (map_of (ps_hosts s))"

definition shop_session :: "string \<Rightarrow> service \<Rightarrow> session_host option" where
  "shop_session shop s = Option.bind (map_of (ps_sessions s) shop) (map_of (ps_hosts s))"

definition webContentsFor :: "string \<Rightarrow> service \<Rightarrow> nat option" where
  "webContentsFor shop s = map_option pv_webContents (Option.bind (shop_session shop s) sh_view)"

definition session_route :: "session_host \<Rightarrow> service \<Rightarrow> route_kind option" where
  "session_route h s = map_option vh_routeKind (Option.bind (sh_view h) (\<lambda>v. map_of (ps_views s) (pv_id v)))"

definition recordInboundDecision :: "string \<Rightarrow> service \<Rightarrow> service" where
  "recordInboundDecision reason s =
     s\<lparr>ps_decisions := map_set reason (Suc (case map_of (ps_decisions s) reason of Some n \<Rightarrow> n | None \<Rightarrow> 0)) (ps_decisions s)\<rparr>"

definition connectionKey :: "connection_evidence \<Rightarrow> string" where
  "connectionKey c = js_join ''|'' [ce_observerId c, show_int (ce_observerLifecycleId c), ce_cdpSessionId c, ce_requestId c]"

definition recordConnection :: "connection_evidence \<Rightarrow> service \<Rightarrow> service" where
  "recordConnection c s = (if connectionKey c \<in> fst ` set (ps_connections s) then s
     else s\<lparr>ps_connections := map_set (connectionKey c) c (ps_connections s)\<rparr>)"

subsection \<open>Ingress\<close>

text \<open>The status and the reason of a result.\<close>

datatype service_result =
    Service_mapped inbound_envelope "string list"
  | Service_rejected string "string list"
  | Service_failed string "string list"
  | Service_stopped string "string list"

fun of_ingress :: "ingress_result \<Rightarrow> service_result" where
  "of_ingress (Ingress_mapped e ds) = Service_mapped e ds"
| "of_ingress (Ingress_rejected r ds) = Service_rejected r ds"
| "of_ingress (Ingress_failed r ds) = Service_failed r ds"

definition is_mapped :: "service_result \<Rightarrow> bool" where
  "is_mapped r = (case r of Service_mapped _ _ \<Rightarrow> True | _ \<Rightarrow> False)"

definition describe :: "service_result \<Rightarrow> string" where
  "describe r = (case r of Service_mapped _ _ \<Rightarrow> ''MAPPED'' | Service_rejected x _ \<Rightarrow> ''REJECTED:'' @ x | Service_failed x _ \<Rightarrow> ''FAILED:'' @ x
     | Service_stopped x _ \<Rightarrow> ''STOPPED:'' @ x)"

definition resolve_document :: "bool \<Rightarrow> nat option \<Rightarrow> nat \<Rightarrow> session_host \<Rightarrow> service \<Rightarrow> document_binding option" where
  "resolve_document canon ctx wc h s =
     (if canon then resolveCanonicalInboundIngressBinding (live_contents s) ctx (Some wc) h
      else resolveInboundIngressBinding (live_contents s) ctx (Some wc) h)"

text \<open>The collector and what the code does with its answer. The envelope has been handed over in every case.\<close>

definition collect ::
  "service_options \<Rightarrow> (service \<Rightarrow> service) \<Rightarrow> inbound_envelope \<Rightarrow> string list \<Rightarrow> service \<Rightarrow> service_result \<times> collected \<times> service" where
  "collect opts reenter env ds s = (case so_collector opts of
       None \<Rightarrow> (Service_stopped ''COLLECTOR_MISSING'' ds, [], s)
     | Some collector \<Rightarrow>
         ((case collector env of
             Collector_throws \<Rightarrow> Service_failed ''COLLECTOR_THREW'' ds
           | Collector_thenable \<Rightarrow> Service_failed ''ASYNC_COLLECTOR_UNSUPPORTED'' ds
           | Collector_returns _ \<Rightarrow> Service_mapped env ds), [(env, s)], reenter s))"

text \<open>\<open>handleTrustedInboundIngressInternal\<close>; \<open>i\<close> is the identity of the session that was looked up, so that it is read again
  after the resolvers have run.\<close>

definition ingress_for ::
  "service_options \<Rightarrow> (service \<Rightarrow> service) \<Rightarrow> (service \<Rightarrow> bool) option \<Rightarrow> bool \<Rightarrow> nat \<Rightarrow> nat option \<Rightarrow> json option \<Rightarrow> nat \<Rightarrow> session_host \<Rightarrow> service \<Rightarrow>
   service_result \<times> collected \<times> service" where
  "ingress_for opts reenter guard canon wc ctx input i h s =
     (let doc = resolve_document canon ctx wc h s; refused = (\<lambda>g. case guard of Some ok \<Rightarrow> \<not> ok g | None \<Rightarrow> False) in
      if refused s then (Service_stopped ''MAIN_ADMISSION_INVALIDATED'' [], [], s)
      else case doc of
          None \<Rightarrow> (Service_rejected ''INVALID_DOCUMENT_CONTEXT'' [], [], s)
        | Some d \<Rightarrow>
            (case (so_resolveScope opts, so_resolveIdentity opts) of
               (None, _) \<Rightarrow> (Service_failed ''SCOPE_BINDING_RESOLVER_MISSING'' [], [], s)
             | (Some _, None) \<Rightarrow> (Service_failed ''IDENTITY_BINDING_RESOLVER_MISSING'' [], [], s)
             | (Some scope, Some ident) \<Rightarrow>
                 let (result, cache) = processPddInboundIngress (so_found opts) \<lparr>io_document = d, io_input = input, io_resolveScope = scope,
                       io_resolveIdentity = ident, io_canonicalValidator = so_validator opts\<rparr> (ps_cache s);
                     s1 = reenter (s\<lparr>ps_cache := cache\<rparr>) in
                 (case result of
                    Ingress_mapped env ds \<Rightarrow>
                      (case Option.bind (map_of (ps_hosts s1) i) (\<lambda>h1. resolve_document canon ctx wc h1 s1) of
                         None \<Rightarrow> (Service_failed ''DOCUMENT_CONTEXT_INVALIDATED'' ds, [], s1)
                       | Some _ \<Rightarrow>
                           if refused s1 then (Service_stopped ''MAIN_ADMISSION_INVALIDATED'' ds, [], s1)
                           else collect opts reenter env ds s1)
                  | r \<Rightarrow> (of_ingress r, [], s1))))"

definition handleTrustedInboundIngress ::
  "service_options \<Rightarrow> (service \<Rightarrow> service) \<Rightarrow> (service \<Rightarrow> bool) option \<Rightarrow> bool \<Rightarrow> nat option \<Rightarrow> nat option \<Rightarrow> json option \<Rightarrow> service \<Rightarrow>
   service_result \<times> collected \<times> service" where
  "handleTrustedInboundIngress opts reenter guard canon sender ctx input s =
     (case sender of
        None \<Rightarrow> (Service_rejected ''UNTRUSTED_SENDER'' [], [], s)
      | Some wc \<Rightarrow>
          (case map_of (ps_senderSessions s) wc of
             None \<Rightarrow> (Service_rejected ''UNTRUSTED_SENDER'' [], [], s)
           | Some i \<Rightarrow>
               (case map_of (ps_hosts s) i of
                  None \<Rightarrow> (Service_rejected ''UNTRUSTED_SENDER'' [], [], s)
                | Some h \<Rightarrow> ingress_for opts reenter guard canon wc ctx input i h s)))"

text \<open>The admission guard: the document of session \<open>i\<close> is still bound and the admission validates for it.\<close>

definition admission_guard :: "nat \<Rightarrow> nat \<Rightarrow> string \<Rightarrow> connection_evidence \<Rightarrow> service \<Rightarrow> bool" where
  "admission_guard i wc aid c s = (case Option.bind (map_of (ps_hosts s) i) getCurrentInboundDocumentBinding of
       None \<Rightarrow> False
     | Some b \<Rightarrow> validate_admission aid \<lparr>aq_webContents = wc, aq_connection = c, aq_binding = b\<rparr> (ps_registry s))"

definition handleAdmittedInboundIngress ::
  "service_options \<Rightarrow> (service \<Rightarrow> service) \<Rightarrow> bool \<Rightarrow> nat option \<Rightarrow> nat option \<Rightarrow> string \<Rightarrow> json option \<Rightarrow> connection_evidence \<Rightarrow> service \<Rightarrow>
   service_result \<times> collected \<times> service" where
  "handleAdmittedInboundIngress opts reenter canon sender ctx aid input c s =
     (if so_mode opts \<noteq> Mode_canonical then (Service_stopped ''CANONICAL_INGRESS_DISABLED'' [], [], s)
      else case sender of
          None \<Rightarrow> (Service_rejected ''UNTRUSTED_SENDER'' [], [], s)
        | Some wc \<Rightarrow>
            (case map_of (ps_senderSessions s) wc of
               None \<Rightarrow> (Service_rejected ''UNTRUSTED_SENDER'' [], [], s)
             | Some i \<Rightarrow>
                 if Option.bind (map_of (ps_hosts s) i) getCurrentInboundDocumentBinding = None
                 then (Service_stopped ''DOCUMENT_BINDING_UNAVAILABLE'' [], [], s)
                 else if \<not> admission_guard i wc aid c s then (Service_stopped ''MAIN_ADMISSION_INVALIDATED'' [], [], s)
                 else handleTrustedInboundIngress opts reenter (Some (admission_guard i wc aid c)) canon sender ctx input s))"

subsection \<open>Observed frames\<close>

definition evaluate ::
  "service_options \<Rightarrow> admission_request \<Rightarrow> service \<Rightarrow> admission_decision \<times> service" where
  "evaluate opts q s =
     (let (d, reg) = evaluate_admission (case so_provider opts of Some p \<Rightarrow> p | None \<Rightarrow> deny_all) (so_uuid opts (ps_next s)) q (ps_registry s) in
      (d, s\<lparr>ps_registry := reg, ps_next := Suc (ps_next s)\<rparr>))"

text \<open>The valid admission of a connection, or a new one; \<open>Inl\<close> the reason when it is denied. The flag says whether it is new.\<close>

definition ensure_admission ::
  "service_options \<Rightarrow> string \<Rightarrow> admission_request \<Rightarrow> service \<Rightarrow> (string + (string \<times> bool)) \<times> service" where
  "ensure_admission opts key q s =
     (let known = (case map_of (ps_connectionAdmissions s) key of
            Some aid \<Rightarrow> if aid \<noteq> [] \<and> validate_admission aid q (ps_registry s) then Some aid else None
          | None \<Rightarrow> None) in
      case known of
        Some aid \<Rightarrow> (Inr (aid, False), s)
      | None \<Rightarrow>
          let (d, s1) = evaluate opts q s in
          (case d of
             Admission_denied r \<Rightarrow> (Inl r, s1)
           | Admission_granted aid \<Rightarrow>
               (Inr (aid, True), s1\<lparr>ps_connectionAdmissions := map_set key aid (ps_connectionAdmissions s1), ps_lastAdmissionId := Some aid\<rparr>)))"

text \<open>The observer of a shop is there, runs, and has the lifecycle of the connection.\<close>

definition observer_current :: "connection_evidence \<Rightarrow> service \<Rightarrow> bool" where
  "observer_current c s = (case map_of (ps_observers s) (ce_shopId c) of
       None \<Rightarrow> False
     | Some x \<Rightarrow> \<not> ob_terminal x \<and> ob_lifecycleId x = ce_observerLifecycleId c)"

definition update_host :: "nat \<Rightarrow> session_host \<Rightarrow> service \<Rightarrow> service" where
  "update_host i h s = s\<lparr>ps_hosts := map_set i h (ps_hosts s)\<rparr>"

text \<open>A context of session \<open>i\<close> for the sender, with a fresh identity.\<close>

definition make_context :: "bool \<Rightarrow> nat \<Rightarrow> nat \<Rightarrow> session_host \<Rightarrow> service \<Rightarrow> nat option \<times> service" where
  "make_context canon wc i h s =
     (let (ctx, h1) = (if canon then createCanonicalInboundIngressContext else createInboundIngressContext) (live_contents s) (Some wc) (ps_next s) h in
      (ctx, (update_host i h1 s)\<lparr>ps_next := Suc (ps_next s)\<rparr>))"

text \<open>From the admission on.\<close>

definition admitted_frame ::
  "service_options \<Rightarrow> (service \<Rightarrow> service) \<Rightarrow> observed_frame \<Rightarrow> document_binding \<Rightarrow> nat \<Rightarrow> service \<Rightarrow> collected \<times> service" where
  "admitted_frame opts reenter f b ctx s =
     (let c = of_connection f; key = connectionKey c; q = \<lparr>aq_webContents = ce_webContents c, aq_connection = c, aq_binding = b\<rparr> in
      if key \<in> set (ps_revokedKeys s) then ([], recordInboundDecision ''MAIN_ADMISSION_REVOKED'' s)
      else
        let (adm, s1) = ensure_admission opts key q s in
        case adm of
          Inl r \<Rightarrow> ([], recordInboundDecision (''MAIN_ADMISSION_DENIED:'' @ r) s1)
        | Inr (aid, _) \<Rightarrow>
            (case (case so_decodeFrame opts of None \<Rightarrow> Some None | Some f1 \<Rightarrow> f1 (of_payloadData f)) of
               None \<Rightarrow> ([], recordInboundDecision ''FRAME_DECODER_THREW'' s1)
             | Some None \<Rightarrow> ([], recordInboundDecision ''FRAME_DECODER_MISSING_OR_INVALID'' s1)
             | Some (Some input) \<Rightarrow>
                 let (r, calls, s2) = handleAdmittedInboundIngress opts reenter False (Some (ce_webContents c)) (Some ctx) aid (Some input) c s1 in
                 (calls, recordInboundDecision (describe r) s2)))"

definition handleObservedFrame :: "service_options \<Rightarrow> (service \<Rightarrow> service) \<Rightarrow> observed_frame \<Rightarrow> service \<Rightarrow> collected \<times> service" where
  "handleObservedFrame opts reenter f s =
     (let c = of_connection f; stop = (\<lambda>r. ([], recordInboundDecision r s)) in
      if so_mode opts \<noteq> Mode_canonical then stop ''CANONICAL_INGRESS_DISABLED''
      else if \<not> observer_current c s then stop ''OBSERVER_STALE_OR_TERMINAL''
      else if connectionKey c \<notin> fst ` set (ps_connections s) then stop ''UNBOUND_CONNECTION''
      else if webContentsFor (ce_shopId c) s \<noteq> Some (ce_webContents c) then stop ''WEBCONTENTS_MISMATCH''
      else case (map_of (ps_senderSessions s) (ce_webContents c), sender_session (ce_webContents c) s) of
          (Some i, Some h) \<Rightarrow>
            if host_status h \<noteq> Session_ready then stop ''SESSION_NOT_READY''
            else (case getCurrentInboundDocumentBinding h of
                None \<Rightarrow> stop ''STALE_DOCUMENT_BINDING''
              | Some b \<Rightarrow>
                  if \<not> same_document_binding c b then stop ''STALE_DOCUMENT_BINDING''
                  else
                    let (ctx, s1) = make_context False (ce_webContents c) i h s in
                    (case ctx of
                       None \<Rightarrow> ([], recordInboundDecision ''INVALID_DOCUMENT_CONTEXT'' s1)
                     | Some x \<Rightarrow> admitted_frame opts reenter f b x s1))
        | _ \<Rightarrow> stop ''SESSION_NOT_READY'')"

subsection \<open>Observed responses\<close>

fun status_name :: "session_status \<Rightarrow> string" where
  "status_name Session_stopped = ''STOPPED''"
| "status_name Session_creating = ''CREATING''"
| "status_name Session_loading = ''LOADING''"
| "status_name Session_login_required = ''LOGIN_REQUIRED''"
| "status_name Session_ready = ''READY''"
| "status_name Session_dom_unsupported = ''DOM_UNSUPPORTED''"
| "status_name Session_auth_reauth = ''AUTH_REAUTH_REQUIRED''"
| "status_name Session_error = ''ERROR''"
| "status_name Session_disposed = ''DISPOSED''"

text \<open>\<open>None\<close> when the data is eligible, otherwise the reason.\<close>

definition canAcceptCanonicalInbound ::
  "service_options \<Rightarrow> connection_evidence \<Rightarrow> document_binding \<Rightarrow> (string \<times> admission_request) option \<Rightarrow> service \<Rightarrow> string option" where
  "canAcceptCanonicalInbound opts c binding admission s =
     (let wc = ce_webContents c in
      if so_mode opts \<noteq> Mode_canonical then Some ''MODE_NOT_CONTROLLED''
      else if wc \<notin> set (ps_trusted s) then Some ''WEBCONTENTS_NOT_TRUSTED''
      else if webContentsFor (ce_shopId c) s \<noteq> Some wc then Some ''WEBCONTENTS_MISMATCH''
      else if (case map_of (ps_observers s) (ce_shopId c) of None \<Rightarrow> True
               | Some x \<Rightarrow> ob_terminal x \<or> \<not> ob_enabled x \<or> ob_webContents x \<noteq> wc \<or> ob_lifecycleId x \<noteq> ce_observerLifecycleId c)
      then Some ''OBSERVER_NOT_ELIGIBLE''
      else case sender_session wc s of
          None \<Rightarrow> Some ''SESSION_NOT_FOUND''
        | Some h \<Rightarrow>
            if inbound_blocked (host_status h) then Some (''SESSION_STATUS_'' @ status_name (host_status h))
            else if host_status h = Session_creating then Some ''SESSION_CREATING_NO_DOCUMENT''
            else (case getCurrentInboundDocumentBinding h of
                None \<Rightarrow> Some ''DOCUMENT_BINDING_ABSENT''
              | Some current \<Rightarrow>
                  if \<not> same_document_binding c current then Some ''DOCUMENT_BINDING_MISMATCH''
                  else if \<not> sameBinding binding current then Some ''SUPPLIED_BINDING_MISMATCH''
                  else if session_route h s = Some Route_login then Some ''ROUTE_LOGIN''
                  else if session_route h s = Some Route_blocked then Some ''ROUTE_BLOCKED''
                  else (case admission of
                      None \<Rightarrow> None
                    | Some (aid, q) \<Rightarrow>
                        if connectionKey c \<in> set (ps_revokedKeys s) \<or> ce_shopId c \<in> set (ps_revokedShops s) then Some ''ADMISSION_REVOKED''
                        else if \<not> validate_admission aid q (ps_registry s) then Some ''ADMISSION_INVALID''
                        else None)))"

text \<open>One input of a response; the flag says whether the loop goes on.\<close>

definition http_input ::
  "service_options \<Rightarrow> (service \<Rightarrow> service) \<Rightarrow> connection_evidence \<Rightarrow> json \<Rightarrow> service \<Rightarrow> bool \<times> collected \<times> service" where
  "http_input opts reenter c input s =
     (let wc = ce_webContents c; key = connectionKey c; stop = (\<lambda>r s. (False, [], recordInboundDecision r s)) in
      case (map_of (ps_senderSessions s) wc, sender_session wc s) of
        (Some i, Some h) \<Rightarrow>
          (case getCurrentInboundDocumentBinding h of
             None \<Rightarrow> stop ''HTTP_BINDING_INVALIDATED'' s
           | Some b \<Rightarrow>
               (case canAcceptCanonicalInbound opts c b None s of
                  Some r \<Rightarrow> stop (''HTTP_CANONICAL_NOT_ELIGIBLE:'' @ r) s
                | None \<Rightarrow>
                    let (ctx, s1) = make_context True wc i h s; q = \<lparr>aq_webContents = wc, aq_connection = c, aq_binding = b\<rparr> in
                    (case ctx of
                       None \<Rightarrow> stop ''HTTP_INVALID_DOCUMENT_CONTEXT'' s1
                     | Some x \<Rightarrow>
                         if key \<in> set (ps_revokedKeys s1) \<or> ce_shopId c \<in> set (ps_revokedShops s1) then stop ''MAIN_ADMISSION_REVOKED'' s1
                         else
                           let (adm, s2) = ensure_admission opts key q s1 in
                           (case adm of
                              Inl r \<Rightarrow> stop (''MAIN_ADMISSION_DENIED:'' @ r) s2
                            | Inr (aid, new) \<Rightarrow>
                                let s3 = (if new then s2\<lparr>ps_revokedShops := removeAll (ce_shopId c) (ps_revokedShops s2)\<rparr> else s2) in
                                (case canAcceptCanonicalInbound opts c b (Some (aid, q)) s3 of
                                   Some r \<Rightarrow> stop (''HTTP_CANONICAL_NOT_ELIGIBLE:'' @ r) s3
                                 | None \<Rightarrow>
                                     let (r, calls, s4) = handleAdmittedInboundIngress opts reenter True (Some wc) (Some x) aid (Some input) c s3 in
                                     (is_mapped r, calls, recordInboundDecision (''HTTP_'' @ describe r) s4))))))
      | _ \<Rightarrow> stop ''HTTP_SESSION_INVALIDATED'' s)"

fun http_inputs ::
  "service_options \<Rightarrow> (service \<Rightarrow> service) \<Rightarrow> connection_evidence \<Rightarrow> json list \<Rightarrow> service \<Rightarrow> collected \<times> service" where
  "http_inputs opts reenter c [] s = ([], s)"
| "http_inputs opts reenter c (input # inputs) s =
     (let (go, calls, s1) = http_input opts reenter c input s in
      if go then let (more, s2) = http_inputs opts reenter c inputs s1 in (calls @ more, s2) else (calls, s1))"

definition handleObservedHttpResponse :: "service_options \<Rightarrow> (service \<Rightarrow> service) \<Rightarrow> http_response \<Rightarrow> service \<Rightarrow> collected \<times> service" where
  "handleObservedHttpResponse opts reenter f s =
     (let c = hb_connection (hr_binding f); key = connectionKey c; stop = (\<lambda>r s. ([], recordInboundDecision r s)) in
      if map_of (ps_httpBindings s) key = None then stop ''HTTP_UNBOUND_RESPONSE'' s
      else
        let s0 = s\<lparr>ps_httpBindings := map_delete key (ps_httpBindings s)\<rparr> in
        if so_mode opts \<noteq> Mode_canonical then stop ''CANONICAL_INGRESS_DISABLED'' s0
        else if \<not> observer_current c s0 then stop ''HTTP_OBSERVER_STALE_OR_TERMINAL'' s0
        else if webContentsFor (ce_shopId c) s0 \<noteq> Some (ce_webContents c) then stop ''HTTP_WEBCONTENTS_MISMATCH'' s0
        else case sender_session (ce_webContents c) s0 of
            None \<Rightarrow> stop ''HTTP_SESSION_NOT_READY'' s0
          | Some h \<Rightarrow>
              (case getCurrentInboundDocumentBinding h of
                 None \<Rightarrow> stop ''HTTP_DOCUMENT_BINDING_ABSENT'' s0
               | Some b \<Rightarrow>
                   (case canAcceptCanonicalInbound opts c b None s0 of
                      Some r \<Rightarrow> stop (''HTTP_CANONICAL_NOT_ELIGIBLE:'' @ r) s0
                    | None \<Rightarrow>
                        if hr_status f < 200 \<or> hr_status f \<ge> 300 then stop ''HTTP_STATUS_NOT_OK'' s0
                        else (case so_decodeHttp opts of
                            None \<Rightarrow> stop ''HTTP_DECODER_MISSING'' s0
                          | Some decoder \<Rightarrow>
                              (case decoder (hr_body f) (hr_binding f) of
                                 None \<Rightarrow> stop ''HTTP_DECODER_THREW'' s0
                               | Some None \<Rightarrow> stop ''HTTP_DECODER_NO_CANDIDATES'' s0
                               | Some (Some inputs) \<Rightarrow>
                                   if inputs = [] then stop ''HTTP_DECODER_NO_CANDIDATES'' s0 else http_inputs opts reenter c inputs s0)))))"

subsection \<open>Revocation\<close>

definition revoke_entry :: "string \<Rightarrow> string \<Rightarrow> service \<Rightarrow> service" where
  "revoke_entry key aid s = s\<lparr>ps_registry := revoke_admission aid (ps_registry s), ps_connectionAdmissions := map_delete key (ps_connectionAdmissions s),
     ps_revokedKeys := add_set key (ps_revokedKeys s), ps_lastAdmissionId := (if ps_lastAdmissionId s = Some aid then None else ps_lastAdmissionId s)\<rparr>"

definition revokeMainAdmissionsForShop :: "string \<Rightarrow> service \<Rightarrow> nat \<times> service" where
  "revokeMainAdmissionsForShop shop s =
     (let s1 = s\<lparr>ps_revokedShops := add_set shop (ps_revokedShops s)\<rparr>;
          mine = filter (\<lambda>(key, aid). map_option ce_shopId (map_of (ps_connections s) key) = Some shop) (ps_connectionAdmissions s) in
      (length mine, fold (\<lambda>(key, aid). revoke_entry key aid) mine s1))"

definition revokeMainAdmission :: "string \<Rightarrow> service \<Rightarrow> bool \<times> service" where
  "revokeMainAdmission aid s = (case find (\<lambda>(_, i). i = aid) (ps_connectionAdmissions s) of
       None \<Rightarrow> (False, s\<lparr>ps_registry := revoke_admission aid (ps_registry s)\<rparr>)
     | Some (key, _) \<Rightarrow> (True, revoke_entry key aid s))"

definition handleObserverStopped :: "string \<Rightarrow> string \<Rightarrow> service \<Rightarrow> service" where
  "handleObserverStopped shop reason s =
     (let target = map_option ob_webContents (map_of (ps_observers s) shop);
          gone = (\<lambda>c. ce_shopId c = shop \<or> target = Some (ce_webContents c));
          keys = map fst (filter (\<lambda>(key, c). gone c) (ps_connections s)) in
      recordInboundDecision (''OBSERVER_STOPPED:'' @ reason)
        (s\<lparr>ps_registry := (case target of Some wc \<Rightarrow> revokeForWebContents wc (ps_registry s) | None \<Rightarrow> ps_registry s),
           ps_connections := filter (\<lambda>(key, c). \<not> gone c) (ps_connections s),
           ps_connectionAdmissions := filter (\<lambda>(key, _). key \<notin> set keys) (ps_connectionAdmissions s),
           ps_revokedKeys := filter (\<lambda>key. key \<notin> set keys) (ps_revokedKeys s),
           ps_observers := map_delete shop (ps_observers s), ps_startups := map_delete shop (ps_startups s)\<rparr>))"

text \<open>A running observer is stopped, and its callback is \<open>handleObserverStopped\<close>.\<close>

definition stopInboundObserver :: "string \<Rightarrow> string \<Rightarrow> service \<Rightarrow> service" where
  "stopInboundObserver shop reason s = (case map_of (ps_observers s) shop of
       Some x \<Rightarrow>
         if ob_terminal x then handleObserverStopped shop reason s
         else handleObserverStopped shop reason (s\<lparr>ps_observers := map_set shop (observer_stop reason (ob_lifecycleId x) x) (ps_observers s)\<rparr>)
     | None \<Rightarrow> handleObserverStopped shop reason s)"

subsection \<open>Page events\<close>

text \<open>The session of a page event: the sender's; without a sender, in the legacy mode only, by session id, then by shop.\<close>

definition find_session :: "(session_host \<Rightarrow> bool) \<Rightarrow> service \<Rightarrow> nat option" where
  "find_session P s = map_option snd (find (\<lambda>(_, i). case map_of (ps_hosts s) i of Some h \<Rightarrow> P h | None \<Rightarrow> False) (ps_sessions s))"

definition event_session :: "service_options \<Rightarrow> page_event \<Rightarrow> nat option \<Rightarrow> service \<Rightarrow> nat option" where
  "event_session opts ev sender s = (case sender of
       Some wc \<Rightarrow> map_of (ps_senderSessions s) wc
     | None \<Rightarrow>
         if so_mode opts \<noteq> Mode_legacy then None
         else (case (if pe_session_id ev \<noteq> [] then find_session (\<lambda>h. ss_sessionId (sh_state h) = pe_session_id ev) s else None) of
             Some i \<Rightarrow> Some i
           | None \<Rightarrow> (case non_empty (pe_shop_id ev) of
                 Some shop \<Rightarrow> find_session (\<lambda>h. ss_shopId (sh_state h) = shop) s
               | None \<Rightarrow> None)))"

definition legacy_calls :: "page_event \<Rightarrow> legacy_call list" where
  "legacy_calls ev =
     (case (non_empty (pe_shop_id ev), non_empty (pe_conversation_id ev)) of
        (Some shop, Some conv) \<Rightarrow>
          if pe_event ev = Message_received \<and> pe_content ev \<noteq> None then [Legacy_inbound shop conv ev]
          else if pe_event ev = Human_reply_detected then [Legacy_human shop conv]
          else if pe_event ev = Conversation_changed then [Legacy_changed shop] else []
      | (Some shop, None) \<Rightarrow> if pe_event ev = Conversation_changed then [Legacy_changed shop] else []
      | _ \<Rightarrow> [])"

definition handlePageEvent :: "service_options \<Rightarrow> page_event \<Rightarrow> nat option \<Rightarrow> service \<Rightarrow> service" where
  "handlePageEvent opts ev0 sender s =
     (case event_session opts ev0 sender s of
        None \<Rightarrow> s
      | Some i \<Rightarrow>
          (case map_of (ps_hosts s) i of
             None \<Rightarrow> s
           | Some h \<Rightarrow>
               if pe_session_id ev0 \<noteq> ss_sessionId (sh_state h) then s
               else if pe_shop_id ev0 \<noteq> None \<and> pe_shop_id ev0 \<noteq> Some (ss_shopId (sh_state h)) then s
               else
                 let ev = (if session_route h s = Some Route_login \<and> pe_event ev0 = Page_ready then ev0\<lparr>pe_event := Login_required\<rparr> else ev0);
                     s1 = (if pe_event ev = Auth_reauth_required then stopInboundObserver (ss_shopId (sh_state h)) ''AUTH_REAUTH_REQUIRED'' s else s);
                     s2 = update_host i (handleEvent ev h) s1 in
                 if so_mode opts = Mode_legacy then s2\<lparr>ps_legacy := ps_legacy s2 @ legacy_calls ev\<rparr> else s2))"

definition handleCommandResult :: "service_options \<Rightarrow> command_result \<Rightarrow> nat option \<Rightarrow> service \<Rightarrow> service" where
  "handleCommandResult opts r sender s = (case sender of
       Some wc \<Rightarrow>
         (case sender_session wc s of
            None \<Rightarrow> s
          | Some h \<Rightarrow> (case map_of (ps_bridges s) (ss_shopId (sh_state h)) of
                None \<Rightarrow> s
              | Some b \<Rightarrow> s\<lparr>ps_bridges := map_set (ss_shopId (sh_state h)) (resolveResult r b) (ps_bridges s)\<rparr>))
     | None \<Rightarrow> if so_mode opts = Mode_legacy then s\<lparr>ps_bridges := map (\<lambda>(k, b). (k, resolveResult r b)) (ps_bridges s)\<rparr> else s)"

subsection \<open>Views\<close>

definition update_view :: "(view_host \<Rightarrow> view_host) \<Rightarrow> session_host \<Rightarrow> service \<Rightarrow> service" where
  "update_view f h s = (case sh_view h of
       None \<Rightarrow> s
     | Some v \<Rightarrow> (case map_of (ps_views s) (pv_id v) of None \<Rightarrow> s | Some x \<Rightarrow> s\<lparr>ps_views := map_set (pv_id v) (f x) (ps_views s)\<rparr>))"

definition hideAllViews :: "service \<Rightarrow> service" where
  "hideAllViews s = fold (\<lambda>(_, i) s. case map_of (ps_hosts s) i of Some h \<Rightarrow> update_view hide_view h s | None \<Rightarrow> s) (ps_sessions s)
     (s\<lparr>ps_activationEpoch := Suc (ps_activationEpoch s), ps_activeViewShopId := None\<rparr>)"

definition service_setViewBounds :: "string \<Rightarrow> view_bounds \<Rightarrow> view_bounds \<Rightarrow> service \<Rightarrow> bool \<times> service" where
  "service_setViewBounds shop b content s = (case shop_session shop s of
       None \<Rightarrow> (False, s)
     | Some h \<Rightarrow> if ps_activeViewShopId s \<noteq> Some shop then (False, s) else (True, update_view (setBounds b content) h s))"

definition isTrustedPddWebContents :: "nat \<Rightarrow> service \<Rightarrow> bool" where
  "isTrustedPddWebContents wc s = (wc \<in> set (ps_trusted s))"

record pdd_status_view =
  sw_shop_id :: string
  sw_platform :: string
  sw_session_status :: session_status
  sw_view_visible :: bool
  sw_last_error :: "string option"
  sw_has_capabilities :: bool

definition service_status :: "string \<Rightarrow> service \<Rightarrow> pdd_status_view option" where
  "service_status shop s = (case shop_session shop s of
       None \<Rightarrow> None
     | Some h \<Rightarrow> Some \<lparr>sw_shop_id = shop, sw_platform = ''pdd'', sw_session_status = host_status h,
         sw_view_visible = (case Option.bind (sh_view h) (\<lambda>v. map_of (ps_views s) (pv_id v)) of Some x \<Rightarrow> vh_visible x | None \<Rightarrow> False),
         sw_last_error = ss_lastError (sh_state h), sw_has_capabilities = (shop \<in> fst ` set (ps_adapters s))\<rparr>)"

subsection \<open>Activation\<close>

text \<open>\<open>onViewCreated\<close> for the session \<open>i\<close> of a shop and its new view.\<close>

definition on_view_created :: "service_options \<Rightarrow> string \<Rightarrow> nat \<Rightarrow> pdd_view \<Rightarrow> view_host \<Rightarrow> service \<Rightarrow> service" where
  "on_view_created opts shop i v x s =
     (let wc = pv_webContents v;
          s1 = s\<lparr>ps_views := map_set (pv_id v) x (ps_views s), ps_trusted := add_set wc (ps_trusted s),
                 ps_senderSessions := map_set wc i (ps_senderSessions s),
                 ps_bridges := map_set shop (setMutationCommandsEnabled (so_navigationMode opts = Nav_fixture) new_bridge) (ps_bridges s)\<rparr>;
          s2 = (if so_navigationMode opts = Nav_fixture then s1\<lparr>ps_adapters := map_set shop i (ps_adapters s1)\<rparr> else s1) in
      if so_mode opts \<noteq> Mode_canonical then s2
      else
        let ob = new_observer (so_uuid opts (ps_next s2)) wc in
        s2\<lparr>ps_observers := map_set shop (case observer_start ob of Some y \<Rightarrow> y | None \<Rightarrow> ob) (ps_observers s2),
           ps_startups := map_set shop (Suc (ps_next s2)) (ps_startups s2), ps_next := Suc (Suc (ps_next s2))\<rparr>)"

definition dispose_host :: "nat \<Rightarrow> service \<Rightarrow> service" where
  "dispose_host i s = (case map_of (ps_hosts s) i of
       None \<Rightarrow> s
     | Some h \<Rightarrow> update_host i (dispose_session h) (update_view dispose_view h s))"

definition service_event_of :: "page_event_type \<Rightarrow> session_host \<Rightarrow> string option \<Rightarrow> page_event" where
  "service_event_of t h reason = (bare_event t (ss_sessionId (sh_state h)))\<lparr>pe_shop_id := Some (ss_shopId (sh_state h)), pe_reason := reason\<rparr>"

text \<open>The catch clause of \<open>activate\<close>.\<close>

definition activation_failed :: "service_options \<Rightarrow> string \<Rightarrow> nat \<Rightarrow> service \<Rightarrow> service" where
  "activation_failed opts shop i s =
     (let s1 = (case map_of (ps_hosts s) i of
            Some h \<Rightarrow> if so_navigationMode opts = Nav_production
              then update_host i (handleEvent (service_event_of Dom_unsupported h (Some ''PRODUCTION_ENTRY_CONFIG_INVALID'')) h) s else s
          | None \<Rightarrow> s);
          s2 = dispose_host i (stopInboundObserver shop ''INITIALIZATION_FAILED'' s1) in
      s2\<lparr>ps_sessions := map_delete shop (ps_sessions s2)\<rparr>)"

text \<open>The first part of \<open>activate\<close>: \<open>view\<close> is what \<open>makeView\<close> gives, \<open>fixture\<close> the path of the fixture page, \<open>entryUrl\<close> the production
  entry. The call is done at once for a session that exists; otherwise it throws, or waits for the new session, the observer's start
  if there is one, with the epoch at its beginning.\<close>

datatype activation = Activation_done | Activation_threw | Activation_waits nat "nat option" nat

definition activate_begin ::
  "service_options \<Rightarrow> (string \<Rightarrow> parsed_url option) \<Rightarrow> string option \<Rightarrow> string \<Rightarrow> (pdd_view \<times> view_host) option \<Rightarrow> string option \<Rightarrow> bool \<Rightarrow> service \<Rightarrow> activation \<times> service" where
  "activate_begin opts parse_url entryUrl shop view fixture mayShow s0 =
     (let s = (hideAllViews s0)\<lparr>ps_activeViewShopId := Some shop\<rparr> in
      case map_of (ps_sessions s) shop of
        Some i \<Rightarrow> (Activation_done, case map_of (ps_hosts s) i of Some h \<Rightarrow> if mayShow then update_view show_view h s else s | None \<Rightarrow> s)
      | None \<Rightarrow>
          let i = ps_next s;
              path = (if so_navigationMode opts = Nav_fixture then non_empty fixture else None);
              (ok, h) = createAndLoad (map_option fst view) (path \<noteq> None) (new_host shop);
              s1 = (update_host i h s)\<lparr>ps_sessions := map_set shop i (ps_sessions s), ps_next := Suc (ps_next s)\<rparr>;
              s2 = (case view of Some (v, x) \<Rightarrow> on_view_created opts shop i v x s1 | None \<Rightarrow> s1);
              waits = Activation_waits i (if so_mode opts = Mode_canonical then map_of (ps_startups s2) shop else None) (ps_activationEpoch s2) in
          if \<not> ok then (Activation_threw, activation_failed opts shop i s2)
          else if so_navigationMode opts = Nav_fixture
          then (waits, case path of Some f \<Rightarrow> update_view (\<lambda>x. snd (loadLocalFixture f x)) h s2 | None \<Rightarrow> s2)
          else (case Option.bind view (\<lambda>(v, _). map_of (ps_views s2) (pv_id v)) of
              None \<Rightarrow> (Activation_threw, activation_failed opts shop i s2)
            | Some x \<Rightarrow>
                let (loaded, x1) = loadProductionEntry parse_url (Some (case entryUrl of Some u \<Rightarrow> u | None \<Rightarrow> PDD_PRODUCTION_CHAT_URL)) x;
                    s3 = update_view (\<lambda>_. x1) h s2 in
                if loaded = None then (Activation_threw, activation_failed opts shop i s3) else (waits, s3)))"

text \<open>The waiting ends: \<open>loaded\<close> says how the load of the page ended, \<open>started\<close> that of the observer, \<open>startup\<close> and \<open>epoch\<close> are
  those of the beginning. \<open>False\<close> when the call throws.\<close>

definition activate_settled ::
  "service_options \<Rightarrow> string \<Rightarrow> nat \<Rightarrow> nat option \<Rightarrow> nat \<Rightarrow> bool \<Rightarrow> bool \<Rightarrow> bool \<Rightarrow> service \<Rightarrow> bool \<times> service" where
  "activate_settled opts shop i startup epoch loaded started mayShow s =
     (case map_of (ps_hosts s) i of
        None \<Rightarrow> (False, s)
      | Some h \<Rightarrow>
          let s1 = (if so_navigationMode opts = Nav_fixture then update_host i (create_settled loaded h) s else s) in
          if \<not> loaded \<or> (startup \<noteq> None \<and> (\<not> started \<or> map_of (ps_startups s1) shop \<noteq> startup)) then (False, activation_failed opts shop i s1)
          else (True, if epoch = ps_activationEpoch s1 \<and> mayShow then update_view show_view h s1 else s1))"

text \<open>The route decision of a production view.\<close>

definition route_decided :: "string \<Rightarrow> route_kind \<Rightarrow> service \<Rightarrow> service" where
  "route_decided shop r s = (case map_of (ps_sessions s) shop of
       None \<Rightarrow> s
     | Some i \<Rightarrow> (case map_of (ps_hosts s) i of
           None \<Rightarrow> s
         | Some h \<Rightarrow>
             if r = Route_login then update_host i (handleEvent (service_event_of Login_required h None) h) s
             else if r = Route_blocked then update_host i (handleEvent (service_event_of Dom_unsupported h (Some ''ROUTE_NOT_ALLOWED'')) h) s
             else s))"

definition disposeAll :: "service \<Rightarrow> service" where
  "disposeAll s0 =
     (let s = hideAllViews s0;
          s1 = fold (\<lambda>shop. stopInboundObserver shop ''SERVICE_DISPOSED'') (map fst (ps_observers s)) s;
          s2 = s1\<lparr>ps_registry := clear_admissions (ps_registry s1), ps_connectionAdmissions := [], ps_revokedKeys := [], ps_httpBindings := [],
                 ps_revokedShops := [], ps_lastAdmissionId := None\<rparr>;
          s3 = fold (\<lambda>(_, i). dispose_host i) (ps_sessions s2) s2 in
      s3\<lparr>ps_sessions := [], ps_bridges := [], ps_adapters := [], ps_trusted := [], ps_senderSessions := []\<rparr>)"

subsection \<open>Sending\<close>

text \<open>The routing adapter: \<open>Inl\<close> the attempt when nothing is sent.\<close>

definition routing_sendText :: "string \<Rightarrow> string \<Rightarrow> string \<Rightarrow> string list \<Rightarrow> service \<Rightarrow> send_attempt + page_command" where
  "routing_sendText cmd shop conv segments s =
     (case Option.bind (map_of (ps_adapters s) shop) (map_of (ps_hosts s)) of
        Some h \<Rightarrow> adapter_sendText (sh_state h) cmd shop conv segments
      | None \<Rightarrow> Inl (failed_attempt (Some (if shop \<in> fst ` set (ps_sessions s) then ''platform.command_disabled_navigation_only'' else ''platform.not_found''))))"

subsection \<open>Observer callbacks\<close>

fun dispatch ::
  "service_options \<Rightarrow> (service \<Rightarrow> service) \<Rightarrow> string \<Rightarrow> observer_output \<Rightarrow> service \<Rightarrow> collected \<times> service" where
  "dispatch opts reenter shop (On_connection c) s = ([], recordConnection c s)"
| "dispatch opts reenter shop (On_http_request e) s = ([], s\<lparr>ps_httpBindings := map_set (connectionKey (hb_connection e)) e (ps_httpBindings s)\<rparr>)"
| "dispatch opts reenter shop (On_frame f) s = handleObservedFrame opts reenter f s"
| "dispatch opts reenter shop (On_http_response r) s = handleObservedHttpResponse opts reenter r s"
| "dispatch opts reenter shop (On_stopped reason) s = ([], handleObserverStopped shop reason s)"

fun dispatch_all ::
  "service_options \<Rightarrow> (service \<Rightarrow> service) \<Rightarrow> string \<Rightarrow> observer_output list \<Rightarrow> service \<Rightarrow> collected \<times> service" where
  "dispatch_all opts reenter shop [] s = ([], s)"
| "dispatch_all opts reenter shop (x # xs) s =
     (let (calls, s1) = dispatch opts reenter shop x s; (more, s2) = dispatch_all opts reenter shop xs s1 in (calls @ more, s2))"

text \<open>What happens in the browser of a shop's view, as its observer sees it; the document is the current one of the shop's session.\<close>

definition observe_shop ::
  "service_options \<Rightarrow> (service \<Rightarrow> service) \<Rightarrow> string \<Rightarrow> (document_binding option \<Rightarrow> observer_event) \<Rightarrow> service \<Rightarrow> collected \<times> service" where
  "observe_shop opts reenter shop ev s = (case map_of (ps_observers s) shop of
       None \<Rightarrow> ([], s)
     | Some x \<Rightarrow>
         let x1 = observer_step (so_allowedUrl opts) (so_allowedHttp opts) (ev (Option.bind (shop_session shop s) getCurrentInboundDocumentBinding)) x in
         dispatch_all opts reenter shop (drop (length (ob_out x)) (ob_out x1)) (s\<lparr>ps_observers := map_set shop x1 (ps_observers s)\<rparr>))"

subsection \<open>Decoded page events\<close>

text \<open>\<open>None\<close> when the admission is granted, otherwise the reason.\<close>

definition evaluateDecodedEventAdmission ::
  "service_options \<Rightarrow> string \<Rightarrow> session_host option \<Rightarrow> service \<Rightarrow> string option \<times> service" where
  "evaluateDecodedEventAdmission opts shop session s =
     (if so_provider opts = None then (Some ''MAIN_ADMISSION_PROVIDER_MISSING'', s)
      else case Option.bind session (resolveActiveCanonicalDocumentBinding (live_contents s)) of
          None \<Rightarrow> (Some ''DOCUMENT_BINDING_UNAVAILABLE'', s)
        | Some b \<Rightarrow>
            if shop \<in> set (ps_revokedShops s) then (Some ''MAIN_ADMISSION_REVOKED'', s)
            else (case webContentsFor shop s of
                None \<Rightarrow> (Some ''MAIN_ADMISSION_PAGE_MISSING'', s)
              | Some wc \<Rightarrow>
                  let c = \<lparr>ce_webContents = wc, ce_observerId = ''page-decoded-event'', ce_observerLifecycleId = 0, ce_sessionId = db_sessionId b,
                        ce_shopId = db_shopId b, ce_documentGeneration = db_documentGeneration b, ce_cdpSessionId = [],
                        ce_requestId = ''page-decoded-event'', ce_url = PDD_PRODUCTION_CHAT_URL\<rparr>;
                      (d, s1) = evaluate opts \<lparr>aq_webContents = wc, aq_connection = c, aq_binding = b\<rparr> s in
                  (case d of
                     Admission_granted _ \<Rightarrow> (None, s1)
                   | Admission_denied r \<Rightarrow> (Some (''MAIN_ADMISSION_DENIED:'' @ r), s1))))"

record drain_report =
  dr_ingested :: nat
  dr_duplicates :: nat
  dr_diagnostics :: "string list"

definition drain_note :: "string \<Rightarrow> drain_report \<Rightarrow> drain_report" where
  "drain_note d r = r\<lparr>dr_diagnostics := dr_diagnostics r @ [d]\<rparr>"

definition drain_count :: "collector_answer \<Rightarrow> drain_report \<Rightarrow> drain_report" where
  "drain_count a r = (case a of
       Collector_throws \<Rightarrow> drain_note ''COLLECTOR_THREW'' r
     | Collector_returns (Some st) \<Rightarrow>
         if st = ''INGESTED'' then r\<lparr>dr_ingested := Suc (dr_ingested r)\<rparr>
         else if st = ''DUPLICATE'' then r\<lparr>dr_duplicates := Suc (dr_duplicates r)\<rparr> else r
     | _ \<Rightarrow> r)"

fun result_note :: "ingress_result \<Rightarrow> string" where
  "result_note (Ingress_rejected r _) = ''INGRESS_REJECTED_'' @ r"
| "result_note (Ingress_failed r _) = ''INGRESS_FAILED_'' @ r"
| "result_note (Ingress_mapped _ _) = []"

text \<open>One drained message; \<open>i\<close> is the session of the drain.\<close>

definition drain_message ::
  "service_options \<Rightarrow> (service \<Rightarrow> service) \<Rightarrow> nat \<Rightarrow> json option \<Rightarrow> drain_report \<Rightarrow> service \<Rightarrow> drain_report \<times> collected \<times> service" where
  "drain_message opts reenter i message r s =
     (let binding = (\<lambda>s. Option.bind (map_of (ps_hosts s) i) (resolveActiveCanonicalDocumentBinding (live_contents s))) in
      case toInboundEventCandidate message of
        Candidate input _ \<Rightarrow>
          (case binding s of
             None \<Rightarrow> (drain_note ''DOCUMENT_BINDING_UNAVAILABLE'' r, [], s)
           | Some b \<Rightarrow>
               (case (so_resolveScope opts, so_resolveIdentity opts) of
                  (Some scope, Some ident) \<Rightarrow>
                    let (result, cache) = processPddInboundIngress (so_found opts) \<lparr>io_document = b, io_input = Some (ingress_input input),
                          io_resolveScope = scope, io_resolveIdentity = ident, io_canonicalValidator = so_validator opts\<rparr> (ps_cache s);
                        s1 = reenter (s\<lparr>ps_cache := cache\<rparr>) in
                    (case result of
                       Ingress_mapped env ds \<Rightarrow>
                         if binding s1 \<noteq> Some b then (drain_note ''DOCUMENT_CONTEXT_INVALIDATED'' r, [], s1)
                         else (case so_collector opts of
                             None \<Rightarrow> (drain_note ''COLLECTOR_MISSING'' r, [], s1)
                           | Some collector \<Rightarrow> (drain_count (collector env) r, [(env, s1)], reenter s1))
                     | x \<Rightarrow> (drain_note (result_note x) r, [], s1))
                | _ \<Rightarrow> (drain_note ''BINDING_RESOLVER_MISSING'' r, [], s)))
      | _ \<Rightarrow> (r, [], s))"

fun drain_messages ::
  "service_options \<Rightarrow> (service \<Rightarrow> service) \<Rightarrow> nat \<Rightarrow> json option list \<Rightarrow> drain_report \<Rightarrow> service \<Rightarrow> drain_report \<times> collected \<times> service" where
  "drain_messages opts reenter i [] r s = (r, [], s)"
| "drain_messages opts reenter i (m # ms) r s =
     (let (r1, calls, s1) = drain_message opts reenter i m r s; (r2, more, s2) = drain_messages opts reenter i ms r1 s1 in (r2, calls @ more, s2))"

text \<open>\<open>drainDecodedEvents\<close> before the drain: the session, or the reason of the refusal.\<close>

definition drain_begin :: "service_options \<Rightarrow> string \<Rightarrow> service \<Rightarrow> (string + nat) \<times> service" where
  "drain_begin opts shop s =
     (let (refused, s1) = evaluateDecodedEventAdmission opts shop (shop_session shop s) s in
      case refused of
        Some r \<Rightarrow> (Inl r, s1)
      | None \<Rightarrow> (case map_of (ps_sessions s1) shop of
            None \<Rightarrow> (Inl ''DOCUMENT_BINDING_UNAVAILABLE'', s1)
          | Some i \<Rightarrow> (Inr i, s1)))"

text \<open>After the drain has returned \<open>messages\<close>: the admission is evaluated again.\<close>

definition drain_finish ::
  "service_options \<Rightarrow> (service \<Rightarrow> service) \<Rightarrow> string \<Rightarrow> nat \<Rightarrow> json option list \<Rightarrow> string list \<Rightarrow> service \<Rightarrow> (string + drain_report) \<times> collected \<times> service" where
  "drain_finish opts reenter shop i messages diagnostics s =
     (let (refused, s1) = evaluateDecodedEventAdmission opts shop (map_of (ps_hosts s) i) s in
      case refused of
        Some r \<Rightarrow> (Inl r, [], s1)
      | None \<Rightarrow>
          let (rep, calls, s2) = drain_messages opts reenter i messages \<lparr>dr_ingested = 0, dr_duplicates = 0, dr_diagnostics = diagnostics\<rparr> s1 in
          (Inr rep, calls, s2))"

end
