(* ===== verification/Pdd_Coordinator.thy ===== *)
theory Pdd_Coordinator imports Pdd_Service begin

text \<open>
  The session coordinator above the platform service: \<open>apps/desktop/src/main/platforms/platform-session-coordinator.ts\<close>, with the
  platform ids of \<open>platform-host-registry.ts\<close>, the page channel of \<open>pdd/pdd-page-ipc.ts\<close>, the main-frame events of
  \<open>pdd/pdd-document-lifecycle.ts\<close> and \<open>reload\<close> of the service. A service is an object of a store, so that an activation that still
  waits acts on the service it was begun on; a view target is an object and has a number as its identity. The schema
  validators are arguments.
\<close>

subsection \<open>State\<close>

definition PLATFORM_IDS :: "string list" where
  "PLATFORM_IDS = [''pdd'']"

definition isPlatformId :: "string \<Rightarrow> bool" where
  "isPlatformId p \<longleftrightarrow> p \<in> set PLATFORM_IDS"

text \<open>\<open>capabilitiesFor\<close> of \<open>platform-capability-registry.ts\<close>.\<close>

definition capabilitiesFor :: "string \<Rightarrow> (string \<times> bool) list" where
  "capabilitiesFor p = (if p = ''pdd'' then PDD_CAPABILITIES else map (\<lambda>(k, _). (k, False)) PDD_CAPABILITIES)"

record view_target =
  vt_id :: nat
  vt_platform :: string
  vt_shopId :: string

record waiting =
  wa_object :: nat
  wa_shopId :: string
  wa_session :: nat
  wa_startup :: "nat option"
  wa_epoch :: nat
  wa_target :: nat

record coordinator =
  co_objects :: "(nat \<times> service) list"
  co_services :: "(string \<times> nat) list"
  co_target :: "view_target option"
  co_next :: nat
  co_waiting :: "waiting list"

definition new_coordinator :: coordinator where
  "new_coordinator = \<lparr>co_objects = [], co_services = [], co_target = None, co_next = 0, co_waiting = []\<rparr>"

definition register_service :: "string \<Rightarrow> service \<Rightarrow> coordinator \<Rightarrow> coordinator" where
  "register_service p s c = c\<lparr>co_objects := map_set (co_next c) s (co_objects c), co_services := map_set p (co_next c) (co_services c), co_next := Suc (co_next c)\<rparr>"

definition serviceFor :: "string \<Rightarrow> coordinator \<Rightarrow> service option" where
  "serviceFor p c = Option.bind (map_of (co_services c) p) (map_of (co_objects c))"

definition update_object :: "nat \<Rightarrow> (service \<Rightarrow> service) \<Rightarrow> coordinator \<Rightarrow> coordinator" where
  "update_object n f c = (case map_of (co_objects c) n of None \<Rightarrow> c | Some s \<Rightarrow> c\<lparr>co_objects := map_set n (f s) (co_objects c)\<rparr>)"

definition hide_services :: "coordinator \<Rightarrow> coordinator" where
  "hide_services c = fold (\<lambda>(_, n). update_object n hideAllViews) (co_services c) c"

definition is_current_target :: "nat \<Rightarrow> coordinator \<Rightarrow> bool" where
  "is_current_target t c = (map_option vt_id (co_target c) = Some t)"

subsection \<open>Activation\<close>

text \<open>The catch clause of \<open>activateShop\<close>.\<close>

definition activation_rejected :: "nat \<Rightarrow> coordinator \<Rightarrow> coordinator" where
  "activation_rejected t c = (if is_current_target t c then hide_services (c\<lparr>co_target := None\<rparr>) else c)"

record activation_env =
  ae_options :: service_options
  ae_parseUrl :: "string \<Rightarrow> parsed_url option"
  ae_entryUrl :: "string option"
  ae_hosts :: "string list"

text \<open>\<open>made\<close> says whether the view can be made; its number is new. \<open>None\<close> while the call waits or when it has thrown.\<close>

definition activateShop :: "activation_env \<Rightarrow> string \<Rightarrow> string \<Rightarrow> bool \<Rightarrow> string option \<Rightarrow> coordinator \<Rightarrow> bool option \<times> coordinator" where
  "activateShop env p shop made fixture c =
     (case map_of (co_services c) p of
        None \<Rightarrow> (Some False, c)
      | Some n \<Rightarrow>
          let t = co_next c;
              c1 = hide_services (c\<lparr>co_target := Some \<lparr>vt_id = t, vt_platform = p, vt_shopId = shop\<rparr>, co_next := Suc t\<rparr>);
              view = (if made then Some (\<lparr>pv_id = t, pv_webContents = t\<rparr>,
                        new_view_host (so_navigationMode (ae_options env)) (ae_hosts env) (ae_entryUrl env)) else None) in
          case map_of (co_objects c1) n of
            None \<Rightarrow> (Some False, c1)
          | Some s \<Rightarrow>
              let (r, s1) = activate_begin (ae_options env) (ae_parseUrl env) (ae_entryUrl env) shop view fixture True s;
                  c2 = update_object n (\<lambda>_. s1) c1 in
              (case r of
                 Activation_done \<Rightarrow> (Some True, c2)
               | Activation_threw \<Rightarrow> (None, activation_rejected t c2)
               | Activation_waits i startup epoch \<Rightarrow> (None, c2\<lparr>co_waiting := co_waiting c2 @
                   [\<lparr>wa_object = n, wa_shopId = shop, wa_session = i, wa_startup = startup, wa_epoch = epoch, wa_target = t\<rparr>]\<rparr>)))"

definition activation_settles :: "activation_env \<Rightarrow> nat \<Rightarrow> bool \<Rightarrow> bool \<Rightarrow> coordinator \<Rightarrow> bool option \<times> coordinator" where
  "activation_settles env k loaded started c =
     (if k \<ge> length (co_waiting c) then (None, c)
      else
        let w = co_waiting c ! k; c1 = c\<lparr>co_waiting := take k (co_waiting c) @ drop (Suc k) (co_waiting c)\<rparr> in
        case map_of (co_objects c1) (wa_object w) of
          None \<Rightarrow> (None, c1)
        | Some s \<Rightarrow>
            let (ok, s1) = activate_settled (ae_options env) (wa_shopId w) (wa_session w) (wa_startup w) (wa_epoch w) loaded started
                  (is_current_target (wa_target w) c1) s;
                c2 = update_object (wa_object w) (\<lambda>_. s1) c1 in
            if ok then (Some (is_current_target (wa_target w) c2), c2) else (None, activation_rejected (wa_target w) c2))"

subsection \<open>The other operations\<close>

definition co_status :: "string \<Rightarrow> string \<Rightarrow> coordinator \<Rightarrow> pdd_status_view option" where
  "co_status p shop c = Option.bind (serviceFor p c) (service_status shop)"

definition co_setViewBounds :: "string \<Rightarrow> string \<Rightarrow> view_bounds \<Rightarrow> view_bounds \<Rightarrow> coordinator \<Rightarrow> bool \<times> coordinator" where
  "co_setViewBounds p shop b content c =
     (case (map_of (co_services c) p, serviceFor p c, co_target c) of
        (Some n, Some s, Some t) \<Rightarrow>
          if vt_platform t \<noteq> p \<or> vt_shopId t \<noteq> shop then (False, c)
          else if \<not> vb_visible b then (True, hide_services (c\<lparr>co_target := None\<rparr>))
          else let (ok, s1) = service_setViewBounds shop b content s in (ok, update_object n (\<lambda>_. s1) c)
      | _ \<Rightarrow> (False, c))"

text \<open>\<open>reload\<close> of the service, up to its await.\<close>

definition service_reload :: "activation_env \<Rightarrow> string \<Rightarrow> string option \<Rightarrow> service \<Rightarrow> bool \<times> service" where
  "service_reload env shop fixture s = (case map_of (ps_sessions s) shop of
       None \<Rightarrow> (False, s)
     | Some i \<Rightarrow>
         (case map_of (ps_hosts s) i of
            None \<Rightarrow> (False, s)
          | Some h \<Rightarrow>
              if so_navigationMode (ae_options env) = Nav_fixture
              then (case non_empty fixture of
                  None \<Rightarrow> (True, s)
                | Some f \<Rightarrow> let (go, h1) = reload_session True h; s1 = update_host i h1 s in
                    (True, if go then update_view (\<lambda>x. snd (loadLocalFixture f x)) h s1 else s1))
              else (True, update_view (\<lambda>x. snd (loadProductionEntry (ae_parseUrl env)
                     (Some (case ae_entryUrl env of Some u \<Rightarrow> u | None \<Rightarrow> PDD_PRODUCTION_CHAT_URL)) x)) h s)))"

definition co_reload :: "activation_env \<Rightarrow> string \<Rightarrow> string \<Rightarrow> string option \<Rightarrow> coordinator \<Rightarrow> bool \<times> coordinator" where
  "co_reload env p shop fixture c = (case (map_of (co_services c) p, serviceFor p c) of
       (Some n, Some s) \<Rightarrow> let (ok, s1) = service_reload env shop fixture s in (ok, update_object n (\<lambda>_. s1) c)
     | _ \<Rightarrow> (False, c))"

definition isTrustedWebContents :: "string \<Rightarrow> nat \<Rightarrow> coordinator \<Rightarrow> bool" where
  "isTrustedWebContents p wc c = (case serviceFor p c of None \<Rightarrow> False | Some s \<Rightarrow> isTrustedPddWebContents wc s)"

text \<open>The coordinator passes no sender.\<close>

definition co_handlePageEvent :: "service_options \<Rightarrow> string \<Rightarrow> page_event \<Rightarrow> coordinator \<Rightarrow> coordinator" where
  "co_handlePageEvent opts p ev c = (case map_of (co_services c) p of None \<Rightarrow> c | Some n \<Rightarrow> update_object n (handlePageEvent opts ev None) c)"

definition co_handleCommandResult :: "service_options \<Rightarrow> string \<Rightarrow> command_result \<Rightarrow> coordinator \<Rightarrow> coordinator" where
  "co_handleCommandResult opts p r c = (case map_of (co_services c) p of None \<Rightarrow> c | Some n \<Rightarrow> update_object n (handleCommandResult opts r None) c)"

definition co_disposeAll :: "coordinator \<Rightarrow> coordinator" where
  "co_disposeAll c = (fold (\<lambda>(_, n). update_object n disposeAll) (co_services c) (c\<lparr>co_target := None\<rparr>))\<lparr>co_services := []\<rparr>"

subsection \<open>Page channel and document events\<close>

text \<open>\<open>registerPddPageIpc\<close>: a missing validator drops every message.\<close>

definition onPageEvent :: "service_options \<Rightarrow> (page_event \<Rightarrow> bool) option \<Rightarrow> page_event \<Rightarrow> nat \<Rightarrow> service \<Rightarrow> service" where
  "onPageEvent opts validation ev sender s =
     (if \<not> isTrustedPddWebContents sender s then s
      else case validation of None \<Rightarrow> s | Some valid \<Rightarrow> if valid ev then handlePageEvent opts ev (Some sender) s else s)"

definition onCommandResult :: "service_options \<Rightarrow> (command_result \<Rightarrow> bool) option \<Rightarrow> command_result \<Rightarrow> nat \<Rightarrow> service \<Rightarrow> service" where
  "onCommandResult opts validation r sender s =
     (if \<not> isTrustedPddWebContents sender s then s
      else case validation of None \<Rightarrow> s | Some valid \<Rightarrow> if valid r then handleCommandResult opts r (Some sender) s else s)"

datatype web_contents_event =
    Did_start_navigation bool bool
  | Dom_ready_event
  | Did_fail_load bool
  | Render_process_gone

text \<open>\<open>bindPddDocumentLifecycle\<close>; the flags are \<open>isInPlace\<close> and \<open>isMainFrame\<close>.\<close>

fun document_lifecycle :: "web_contents_event \<Rightarrow> session_host \<Rightarrow> session_host" where
  "document_lifecycle (Did_start_navigation inPlace mainFrame) h = (if mainFrame \<and> \<not> inPlace then onMainFrameNavigationStart h else h)"
| "document_lifecycle Dom_ready_event h = onMainFrameDomReady h"
| "document_lifecycle (Did_fail_load mainFrame) h = (if mainFrame then onMainFrameLoadFailure h else h)"
| "document_lifecycle Render_process_gone h = onMainFrameLoadFailure h"

subsection \<open>Events\<close>

datatype coordinator_event =
    Co_activate string string bool "string option"
  | Co_settle nat bool bool
  | Co_bounds string string view_bounds view_bounds
  | Co_reload_shop string string "string option"
  | Co_page_event page_event nat
  | Co_untrusted_event page_event
  | Co_document nat web_contents_event
  | Co_navigate string string
  | Co_dispose

text \<open>A navigation of the main frame of a shop's view, with the route handler of a production view.\<close>

definition navigate_shop :: "activation_env \<Rightarrow> string \<Rightarrow> string \<Rightarrow> service \<Rightarrow> service" where
  "navigate_shop env shop url s = (case shop_session shop s of
       None \<Rightarrow> s
     | Some h \<Rightarrow>
         let s1 = update_view (\<lambda>x. snd (handleNavigation (ae_parseUrl env) url x)) h s in
         if so_navigationMode (ae_options env) = Nav_production
         then route_decided shop (classifyPddNavigation (ae_parseUrl env) url Nav_production (ae_hosts env)) s1 else s1)"

definition document_of :: "nat \<Rightarrow> web_contents_event \<Rightarrow> service \<Rightarrow> service" where
  "document_of i e s = (case map_of (ps_hosts s) i of None \<Rightarrow> s | Some h \<Rightarrow> if sh_view h = None then s else update_host i (document_lifecycle e h) s)"

fun coordinator_step :: "activation_env \<Rightarrow> (page_event \<Rightarrow> bool) option \<Rightarrow> coordinator_event \<Rightarrow> coordinator \<Rightarrow> coordinator" where
  "coordinator_step env v (Co_activate p shop made fixture) c = snd (activateShop env p shop made fixture c)"
| "coordinator_step env v (Co_settle k loaded started) c = snd (activation_settles env k loaded started c)"
| "coordinator_step env v (Co_bounds p shop b content) c = snd (co_setViewBounds p shop b content c)"
| "coordinator_step env v (Co_reload_shop p shop fixture) c = snd (co_reload env p shop fixture c)"
| "coordinator_step env v (Co_page_event ev sender) c =
     (case map_of (co_services c) ''pdd'' of None \<Rightarrow> c | Some n \<Rightarrow> update_object n (onPageEvent (ae_options env) v ev sender) c)"
| "coordinator_step env v (Co_untrusted_event ev) c = co_handlePageEvent (ae_options env) ''pdd'' ev c"
| "coordinator_step env v (Co_document i e) c = (case map_of (co_services c) ''pdd'' of None \<Rightarrow> c | Some n \<Rightarrow> update_object n (document_of i e) c)"
| "coordinator_step env v (Co_navigate shop url) c = (case map_of (co_services c) ''pdd'' of None \<Rightarrow> c | Some n \<Rightarrow> update_object n (navigate_shop env shop url) c)"
| "coordinator_step env v Co_dispose c = co_disposeAll c"

end
