(* ===== verification/Desktop_Ipc.thy ===== *)
theory Desktop_Ipc imports Workbench Delivery Orchestrator Pdd_Coordinator Jobs begin

text \<open>
  The boundary between the renderer and the main process: the channels and errors of
  \<open>packages/desktop-ipc/src\<close>, the guard and the handlers of \<open>apps/desktop/src/main/ipc\<close>, the workspace
  merchant context, the workbench projection and the worker status of \<open>apps/desktop/src/main/services\<close>.

  JSON-schema validation is an argument (\<open>schema_ok\<close>, by schema name). A handler is a function of the payload and
  of a state of the main process, which it returns changed; it ends with a result or throws. The conversations and messages are
  those of the database of the theory \<open>Delivery\<close>; stores and platform accounts are lists of records.
\<close>

subsection \<open>Channels and errors\<close>

definition QUERY_CHANNELS :: "string list" where
  "QUERY_CHANNELS = [''desktop.bootstrap'', ''shops.list'', ''orchestrator.snapshot'', ''worker.status'', ''conversations.list'',
     ''conversations.listMessages'', ''platform.status'', ''jobs.list'', ''jobs.get'', ''legacy_import.status'',
     ''store_knowledge.query'', ''store_knowledge.list'']"

definition COMMAND_CHANNELS :: "string list" where
  "COMMAND_CHANNELS = [''orchestrator.set_mode'', ''orchestrator.manual_send'', ''orchestrator.no_save_send'', ''orchestrator.cancel'',
     ''orchestrator.focus'', ''platform.activate_shop'', ''platform.set_view_bounds'', ''platform.reload'', ''jobs.cancel'',
     ''learning.start'', ''review.propose'', ''review.apply'', ''review.restore'', ''audit.decide'', ''optimization.propose'',
     ''optimization.apply'', ''legacy_import.select'', ''legacy_import.scan'', ''legacy_import.plan'', ''legacy_import.dry_run'',
     ''legacy_import.apply'', ''legacy_import.cancel'', ''store_knowledge.upsert'', ''store_knowledge.delete'']"

definition EVENT_CHANNELS :: "string list" where
  "EVENT_CHANNELS = [''orchestrator.event'', ''worker.status_changed'', ''shops.changed'', ''platform.status_changed'', ''jobs.changed'',
     ''learning.changed'', ''review.changed'', ''audit.changed'', ''optimization.changed'', ''legacy_import.changed'',
     ''store_knowledge.changed'']"

definition ALL_CHANNELS :: "string list" where
  "ALL_CHANNELS = QUERY_CHANNELS @ COMMAND_CHANNELS @ EVENT_CHANNELS"

definition isAllowedChannel :: "string \<Rightarrow> bool" where
  "isAllowedChannel channel \<longleftrightarrow> channel \<in> set ALL_CHANNELS"

datatype desktop_error_code = INVALID_REQUEST | FORBIDDEN_SENDER | NOT_READY | NOT_FOUND | COMMAND_FAILED
  | WORKER_UNAVAILABLE | WORKSPACE_UNAVAILABLE

record desktop_error =
  de_code :: desktop_error_code
  de_category :: string
  de_message :: string
  de_retryable :: bool

definition new_desktop_error :: "desktop_error_code \<Rightarrow> string \<Rightarrow> desktop_error" where
  "new_desktop_error code msg = \<lparr>de_code = code, de_category = ''internal'', de_message = msg, de_retryable = False\<rparr>"

datatype 'a desktop_result = Res_ok 'a | Res_err desktop_error

abbreviation err :: "desktop_error_code \<Rightarrow> string \<Rightarrow> 'a desktop_result" where
  "err code msg \<equiv> Res_err (new_desktop_error code msg)"

subsection \<open>The guard\<close>

text \<open>How a handler ends: with a result, with a thrown \<open>DesktopError\<close>, or with another throw.\<close>

datatype 'a handler_end = Returned "'a desktop_result" | Threw_desktop desktop_error | Threw_other

definition invalid_unless :: "bool \<Rightarrow> desktop_error_code \<Rightarrow> string \<Rightarrow> desktop_error option" where
  "invalid_unless b code msg = (if b then None else Some (new_desktop_error code msg))"

definition validateRequest :: "(string \<Rightarrow> 'p \<Rightarrow> bool) \<Rightarrow> bool \<Rightarrow> string \<Rightarrow> 'p \<Rightarrow> desktop_error option" where
  "validateRequest schema_ok isTrustedWindow channel payload =
     (if \<not> isAllowedChannel channel then Some (new_desktop_error NOT_FOUND ''unknown channel'')
      else if \<not> isTrustedWindow then Some (new_desktop_error FORBIDDEN_SENDER ''untrusted sender'')
      else if channel = ''orchestrator.set_mode'' then
        invalid_unless (schema_ok ''fastwork:desktop:set-mode-request'' payload) INVALID_REQUEST ''invalid set_mode request''
      else if channel = ''orchestrator.manual_send'' then
        invalid_unless (schema_ok ''fastwork:desktop:manual-send-request'' payload) INVALID_REQUEST ''invalid manual_send request''
      else if channel = ''orchestrator.no_save_send'' then
        invalid_unless (schema_ok ''fastwork:desktop:no-save-send-request'' payload) INVALID_REQUEST ''invalid no_save_send request''
      else if channel = ''orchestrator.cancel'' then
        invalid_unless (schema_ok ''fastwork:desktop:cancel-request'' payload) INVALID_REQUEST ''invalid cancel request''
      else if channel = ''orchestrator.focus'' then
        invalid_unless (schema_ok ''fastwork:desktop:focus-request'' payload) INVALID_REQUEST ''invalid focus request''
      else None)"

definition validateResponse :: "(string \<Rightarrow> 'r \<Rightarrow> bool) \<Rightarrow> string \<Rightarrow> 'r \<Rightarrow> desktop_error option" where
  "validateResponse schema_ok channel data =
     (if channel = ''desktop.bootstrap'' then
        invalid_unless (schema_ok ''fastwork:desktop:bootstrap-state'' data) COMMAND_FAILED ''invalid bootstrap response''
      else if channel = ''orchestrator.snapshot'' then
        invalid_unless (schema_ok ''fastwork:desktop:workbench-view-model'' data) COMMAND_FAILED ''invalid snapshot response''
      else if channel = ''worker.status'' then
        invalid_unless (schema_ok ''fastwork:desktop:worker-status'' data) COMMAND_FAILED ''invalid worker status response''
      else None)"

definition guard_handler :: "(string \<Rightarrow> 'p \<Rightarrow> bool) \<Rightarrow> (string \<Rightarrow> 'r \<Rightarrow> bool) \<Rightarrow> bool \<Rightarrow> string
    \<Rightarrow> ('p \<Rightarrow> 's \<Rightarrow> 'r handler_end \<times> 's) \<Rightarrow> 'p \<Rightarrow> 's \<Rightarrow> 'r desktop_result \<times> 's" where
  "guard_handler req_ok res_ok isTrustedWindow channel handler payload s =
     (case validateRequest req_ok isTrustedWindow channel payload of
        Some e \<Rightarrow> (Res_err e, s)
      | None \<Rightarrow> (case handler payload s of
          (Returned (Res_err e), s') \<Rightarrow> (Res_err e, s')
        | (Returned (Res_ok data), s') \<Rightarrow> (case validateResponse res_ok channel data of
            Some e \<Rightarrow> (Res_err e, s')
          | None \<Rightarrow> (Res_ok data, s'))
        | (Threw_desktop e, s') \<Rightarrow> (Res_err e, s')
        | (Threw_other, s') \<Rightarrow> (err COMMAND_FAILED ''command failed'', s')))"

text \<open>
  \<open>registerIpc\<close>: a request comes from the web contents \<open>sender\<close>. The guard is given whether the trusted web
  contents exist; the sender of the event is not looked at.
\<close>

definition handle_ipc :: "(string \<Rightarrow> 'p \<Rightarrow> bool) \<Rightarrow> (string \<Rightarrow> 'r \<Rightarrow> bool) \<Rightarrow> nat option \<Rightarrow> nat \<Rightarrow> string
    \<Rightarrow> ('p \<Rightarrow> 's \<Rightarrow> 'r handler_end \<times> 's) \<Rightarrow> 'p \<Rightarrow> 's \<Rightarrow> 'r desktop_result \<times> 's" where
  "handle_ipc req_ok res_ok trustedWebContents sender channel handler payload s =
     guard_handler req_ok res_ok (trustedWebContents \<noteq> None) channel handler payload s"

text \<open>The channels with a handler, in the order of the two tables, and \<open>registerIpc\<close>, which throws at a channel that is not
  allowed.\<close>

definition QUERY_HANDLER_CHANNELS :: "string list" where
  "QUERY_HANDLER_CHANNELS = [''desktop.bootstrap'', ''shops.list'', ''orchestrator.snapshot'', ''conversations.list'',
     ''conversations.listMessages'', ''worker.status'', ''platform.status'', ''jobs.list'', ''jobs.get'', ''legacy_import.status'']"

definition COMMAND_HANDLER_CHANNELS :: "string list" where
  "COMMAND_HANDLER_CHANNELS = [''orchestrator.set_mode'', ''orchestrator.manual_send'', ''orchestrator.no_save_send'',
     ''orchestrator.cancel'', ''orchestrator.focus'', ''platform.activate_shop'', ''platform.set_view_bounds'', ''platform.reload'',
     ''jobs.cancel'', ''learning.start'', ''review.propose'', ''review.apply'', ''review.restore'', ''audit.decide'',
     ''optimization.propose'', ''optimization.apply'', ''legacy_import.select'', ''legacy_import.scan'', ''legacy_import.plan'',
     ''legacy_import.dry_run'', ''legacy_import.apply'', ''legacy_import.cancel'']"

record registered_channel =
  rc_channel :: string
  rc_direction :: string
  rc_handlerOwner :: string

fun register_all :: "(string \<times> string) list \<Rightarrow> registered_channel list \<Rightarrow> string + registered_channel list" where
  "register_all [] acc = Inr acc"
| "register_all ((channel, direction) # entries) acc =
     (if \<not> isAllowedChannel channel then Inl (''non-allowlisted channel: '' @ channel)
      else register_all entries (acc @ [\<lparr>rc_channel = channel, rc_direction = direction,
        rc_handlerOwner = (if direction = ''query'' then ''query-handlers'' else ''command-handlers'')\<rparr>]))"

definition registerIpc :: "string + registered_channel list" where
  "registerIpc = register_all (map (\<lambda>k. (k, ''query'')) QUERY_HANDLER_CHANNELS @ map (\<lambda>k. (k, ''command'')) COMMAND_HANDLER_CHANNELS) []"

subsection \<open>The workspace merchant\<close>

record workspace_context =
  wc_merchantId :: string

definition createWorkspaceMerchantContext :: "string \<Rightarrow> string + workspace_context" where
  "createWorkspaceMerchantContext merchantId =
     (if blank merchantId then Inl ''workspace merchant id must be a non-empty stable identity''
      else Inr \<lparr>wc_merchantId = merchantId\<rparr>)"

definition containsMerchant :: "workspace_context \<Rightarrow> string option \<Rightarrow> bool" where
  "containsMerchant w other \<longleftrightarrow> other = Some (wc_merchantId w)"

subsection \<open>Queries\<close>

record store_record =
  sr_id :: string
  sr_merchantId :: string
  sr_name :: string
  sr_platform :: string

record platform_account =
  pa_id :: string
  pa_merchantId :: string
  pa_platform :: string
  pa_externalRef :: "string option"

record identity_tables =
  it_stores :: "store_record list"
  it_accounts :: "platform_account list"

definition findStore :: "string \<Rightarrow> identity_tables \<Rightarrow> store_record option" where
  "findStore i t = find (\<lambda>s. sr_id s = i) (it_stores t)"

definition listStoresByMerchant :: "string \<Rightarrow> identity_tables \<Rightarrow> store_record list" where
  "listStoresByMerchant m t = sort_key sr_id (filter (\<lambda>s. sr_merchantId s = m) (it_stores t))"

definition findAccount :: "string \<Rightarrow> identity_tables \<Rightarrow> platform_account option" where
  "findAccount i t = find (\<lambda>a. pa_id a = i) (it_accounts t)"

definition CANONICAL_PLATFORMS :: "string list" where
  "CANONICAL_PLATFORMS = [''pdd'']"

record conversation_list_request =
  cl_scope :: "queue_scope option"
  cl_platform :: "string option"

record conversation_list_result =
  cr_items :: "queue_item list"
  cr_scope :: queue_scope
  cr_platform :: "string option"
  cr_stores :: "store_option list"
  cr_platforms :: "string list"

definition platform_matches :: "identity_tables \<Rightarrow> string option \<Rightarrow> normalized_conversation \<Rightarrow> bool" where
  "platform_matches t platform c \<longleftrightarrow> (case platform of
     None \<Rightarrow> True
   | Some p \<Rightarrow> p = [] \<or> map_option pa_platform (findAccount (nc_platformAccountId c) t) = Some p)"

definition list_result :: "identity_tables \<Rightarrow> workspace_context \<Rightarrow> queue_scope \<Rightarrow> string option \<Rightarrow> normalized_conversation list
    \<Rightarrow> conversation_list_result" where
  "list_result t w scope platform rows =
     \<lparr>cr_items = sort_key qi_conversation_id
        (map (\<lambda>c. \<lparr>qi_conversation_id = nc_id c, qi_store_id = nc_storeId c\<rparr>) (filter (platform_matches t platform) rows)),
      cr_scope = scope, cr_platform = platform,
      cr_stores = sort_key so_store_id
        (map (\<lambda>s. \<lparr>so_store_id = sr_id s, so_name = sr_name s\<rparr>) (listStoresByMerchant (wc_merchantId w) t)),
      cr_platforms = CANONICAL_PLATFORMS\<rparr>"

definition conversationsList :: "workspace_context option \<Rightarrow> database \<Rightarrow> identity_tables \<Rightarrow> conversation_list_request option
    \<Rightarrow> conversation_list_result desktop_result" where
  "conversationsList workspace db t req =
     (case Option.bind req cl_scope of
        None \<Rightarrow> err INVALID_REQUEST ''missing queue scope''
      | Some scope \<Rightarrow>
          (let platform = Option.bind req cl_platform in
           if platform \<noteq> None \<and> \<not> isPlatformId (the platform) then err INVALID_REQUEST ''unknown platform''
           else case workspace of
             None \<Rightarrow> err WORKSPACE_UNAVAILABLE ''workspace merchant context unavailable''
           | Some w \<Rightarrow> (case scope of
               Specific_store sid \<Rightarrow> (case findStore sid t of
                   None \<Rightarrow> err NOT_FOUND ''unknown store''
                 | Some store \<Rightarrow>
                     if \<not> containsMerchant w (Some (sr_merchantId store)) then err NOT_FOUND ''unknown store''
                     else Res_ok (list_result t w scope platform (listByStore (sr_id store) db)))
             | All_stores \<Rightarrow> Res_ok (list_result t w scope platform (listByMerchant (wc_merchantId w) db)))))"

definition timeline_view :: "message_record \<Rightarrow> timeline_message" where
  "timeline_view m = \<lparr>tl_message_id = ms_id m,
     tl_actor = map_option (\<lambda>a. case a of Customer \<Rightarrow> ''customer'' | Agent \<Rightarrow> ''agent'') (ms_actor m),
     tl_content_kind = map_option (\<lambda>_. ''text'') (ms_contentKind m),
     tl_content_text = ms_contentText m, tl_occurred_at = ms_occurredAt m\<rparr>"

definition conversationsListMessages :: "workspace_context option \<Rightarrow> database \<Rightarrow> string option
    \<Rightarrow> (string \<times> timeline_message list) desktop_result" where
  "conversationsListMessages workspace db conversation_id =
     (if conversation_id = None \<or> conversation_id = Some [] then err INVALID_REQUEST ''missing conversation id''
      else case workspace of
        None \<Rightarrow> err WORKSPACE_UNAVAILABLE ''workspace merchant context unavailable''
      | Some w \<Rightarrow> (case findConversation (the conversation_id) db of
          None \<Rightarrow> err NOT_FOUND ''unknown conversation''
        | Some cv \<Rightarrow>
            if \<not> containsMerchant w (Some (nc_merchantId cv)) then err NOT_FOUND ''unknown conversation''
            else Res_ok (nc_id cv, map timeline_view (listByConversation (nc_id cv) db))))"

text \<open>\<open>platform.status\<close>: the platform of the shop, then the status of the coordinator.\<close>

definition known_platform :: "(string \<Rightarrow> string option) \<Rightarrow> string \<Rightarrow> string option" where
  "known_platform platformForShop shop = (case platformForShop shop of Some p \<Rightarrow> if p = [] then None else Some p | None \<Rightarrow> None)"

definition platformStatus :: "(string \<Rightarrow> string option) \<Rightarrow> string \<Rightarrow> coordinator \<Rightarrow> pdd_status_view desktop_result" where
  "platformStatus platformForShop shop co =
     (case known_platform platformForShop shop of
        None \<Rightarrow> err NOT_FOUND ''unknown platform shop''
      | Some p \<Rightarrow> (case co_status p shop co of
          None \<Rightarrow> err NOT_FOUND ''unknown platform shop''
        | Some v \<Rightarrow> Res_ok v))"

text \<open>The views of jobs. The error of a job is a text in the model of the jobs.\<close>

record job_record_view =
  jrv_job_id :: string
  jrv_type :: job_type
  jrv_state :: job_state
  jrv_progress :: rat
  jrv_message :: string
  jrv_started_at :: "string option"
  jrv_finished_at :: "string option"
  jrv_error :: "string option"

definition toJobView :: "job_record \<Rightarrow> job_record_view" where
  "toJobView j = \<lparr>jrv_job_id = jb_job_id j, jrv_type = jb_type j, jrv_state = jb_state j, jrv_progress = jb_progress j,
     jrv_message = jb_message j, jrv_started_at = jb_started_at j, jrv_finished_at = jb_finished_at j, jrv_error = jb_error j\<rparr>"

definition jobsList :: "job_manager \<Rightarrow> job_record_view list desktop_result" where
  "jobsList m = Res_ok (map toJobView (service_list None None (jm_rows m)))"

definition jobsGet :: "string \<Rightarrow> job_manager \<Rightarrow> job_record_view desktop_result" where
  "jobsGet i m = (case job_get i m of
     None \<Rightarrow> err NOT_FOUND ''unknown job''
   | Some j \<Rightarrow> Res_ok (toJobView j))"

definition jobsCancel :: "string \<Rightarrow> string \<Rightarrow> job_manager \<Rightarrow> bool handler_end \<times> job_manager" where
  "jobsCancel now i m = (case job_cancel now i m of
     Inl _ \<Rightarrow> (Threw_other, m)
   | Inr (_, m') \<Rightarrow> (Returned (Res_ok True), m'))"

subsection \<open>Projections\<close>

text \<open>A truthy text, and the limit of 200 characters on error texts.\<close>

definition truthy_text :: "string option \<Rightarrow> string option" where
  "truthy_text x = (case x of Some s \<Rightarrow> if s = [] then None else Some s | None \<Rightarrow> None)"

definition safe_error :: "string option \<Rightarrow> string option" where
  "safe_error x = map_option (take 200) (truthy_text x)"

definition worker_status_view_of :: "string \<Rightarrow> string option \<Rightarrow> nat option \<Rightarrow> string option \<Rightarrow> worker_status_view" where
  "worker_status_view_of state version protocolVersion lastError =
     \<lparr>wk_status = state, wk_worker_version = truthy_text version, wk_protocol_version = protocolVersion,
      wk_last_error = safe_error lastError\<rparr>"

record projection_source =
  ps_revision :: nat
  ps_shops :: "shop_summary list"
  ps_selectedShopId :: "string option"
  ps_conversation :: "conversation_view option"
  ps_suggestion :: "suggestion_view option"
  ps_mode :: string
  ps_countdown :: "countdown_view option"
  ps_sendStatus :: "string option"
  ps_takeoverStatus :: "string option"
  ps_workerStatus :: worker_status_view
  ps_lastError :: "string option"
  ps_platformCapability :: "string option"

definition project :: "projection_source \<Rightarrow> workbench_view" where
  "project s =
     \<lparr>wv_revision = ps_revision s, wv_shop_summaries = ps_shops s, wv_selected_shop_id = truthy_text (ps_selectedShopId s),
      wv_conversation = ps_conversation s, wv_suggestion = ps_suggestion s, wv_mode = Some (ps_mode s),
      wv_countdown = ps_countdown s, wv_send_status = truthy_text (ps_sendStatus s),
      wv_takeover_status = truthy_text (ps_takeoverStatus s), wv_worker_status = ps_workerStatus s,
      wv_last_error = safe_error (ps_lastError s),
      wv_platform_capability = (case ps_platformCapability s of Some c \<Rightarrow> c | None \<Rightarrow> ''none'')\<rparr>"

record bootstrap_state =
  bs_revision :: nat
  bs_worker_status :: worker_status_view
  bs_shops :: "shop_summary list"
  bs_view_model :: workbench_view

definition handle_bootstrap :: "nat \<Rightarrow> worker_status_view \<Rightarrow> shop_summary list \<Rightarrow> projection_source \<Rightarrow> bootstrap_state desktop_result" where
  "handle_bootstrap revision worker shops src =
     Res_ok \<lparr>bs_revision = revision, bs_worker_status = worker, bs_shops = shops, bs_view_model = project src\<rparr>"

definition handle_snapshot :: "string option \<Rightarrow> projection_source \<Rightarrow> workbench_view desktop_result" where
  "handle_snapshot shop_id src = Res_ok (project src)"

subsection \<open>Commands of the renderer to the orchestrator\<close>

datatype orchestrator_command =
    Ipc_set_mode string "string option" review_mode
  | Ipc_manual_send string string
  | Ipc_no_save_send string string
  | Ipc_cancel string string
  | Ipc_focus string

text \<open>The handlers and the orchestrator host: which handler of the orchestrator a command calls.\<close>

fun command_event :: "orchestrator_command \<Rightarrow> orch_event" where
  "command_event (Ipc_set_mode shop cid m) = Set_mode shop (case cid of Some c \<Rightarrow> c | None \<Rightarrow> shop) m"
| "command_event (Ipc_manual_send shop cid) = Manual_send shop cid ''Enter''"
| "command_event (Ipc_no_save_send shop cid) = Manual_send shop cid ''Alt+Enter''"
| "command_event (Ipc_cancel shop cid) = Cancel shop cid"
| "command_event (Ipc_focus shop) = Focus_shop shop"

fun command_channel :: "orchestrator_command \<Rightarrow> string" where
  "command_channel (Ipc_set_mode _ _ _) = ''orchestrator.set_mode''"
| "command_channel (Ipc_manual_send _ _) = ''orchestrator.manual_send''"
| "command_channel (Ipc_no_save_send _ _) = ''orchestrator.no_save_send''"
| "command_channel (Ipc_cancel _ _) = ''orchestrator.cancel''"
| "command_channel (Ipc_focus _) = ''orchestrator.focus''"

text \<open>
  The commands to the platform coordinator. Their answer says whether the platform knew the shop; the state is the
  coordinator. An activation that waits for its page answers when it settles; its answer is \<open>None\<close>
  until then, and when the activation throws.
\<close>

definition DEFAULT_CONTENT_BOUNDS :: view_bounds where
  "DEFAULT_CONTENT_BOUNDS = \<lparr>vb_x = 0, vb_y = 0, vb_width = 1200, vb_height = 800, vb_visible = True\<rparr>"

definition handle_activate :: "activation_env \<Rightarrow> (string \<Rightarrow> string option) \<Rightarrow> bool \<Rightarrow> string option \<Rightarrow> string \<Rightarrow> coordinator
    \<Rightarrow> bool handler_end option \<times> coordinator" where
  "handle_activate env platformForShop made fixture shop co =
     (case known_platform platformForShop shop of
        None \<Rightarrow> (Some (Returned (Res_ok False)), co)
      | Some p \<Rightarrow> (case activateShop env p shop made fixture co of
          (answer, co') \<Rightarrow> (map_option (\<lambda>b. Returned (Res_ok b)) answer, co')))"

definition handle_set_view_bounds :: "(string \<Rightarrow> string option) \<Rightarrow> view_bounds option \<Rightarrow> string \<Rightarrow> view_bounds
    \<Rightarrow> coordinator \<Rightarrow> bool handler_end \<times> coordinator" where
  "handle_set_view_bounds platformForShop contentBounds shop bounds co =
     (case known_platform platformForShop shop of
        None \<Rightarrow> (Returned (Res_ok False), co)
      | Some p \<Rightarrow> (case co_setViewBounds p shop bounds (case contentBounds of Some b \<Rightarrow> b | None \<Rightarrow> DEFAULT_CONTENT_BOUNDS) co of
          (applied, co') \<Rightarrow> (Returned (Res_ok applied), co')))"

definition handle_reload :: "activation_env \<Rightarrow> (string \<Rightarrow> string option) \<Rightarrow> string \<Rightarrow> string option \<Rightarrow> coordinator
    \<Rightarrow> bool handler_end \<times> coordinator" where
  "handle_reload env platformForShop shop profile co =
     (case known_platform platformForShop shop of
        None \<Rightarrow> (Returned (Res_ok False), co)
      | Some p \<Rightarrow> (Returned (Res_ok True), snd (co_reload env p shop profile co)))"

definition handle_command :: "orchestrator_command \<Rightarrow> orchestrator \<Rightarrow> bool handler_end \<times> orchestrator" where
  "handle_command c s = (Returned (Res_ok True), orch_step (command_event c) s)"

text \<open>
  What reaches the orchestrator of the desktop application: requests of a renderer through the registered guard, and
  the events of the main process itself.
\<close>

datatype desktop_input =
    Renderer_request "nat option" nat orchestrator_command
  | Main_event orch_event

fun desktop_step :: "(string \<Rightarrow> orchestrator_command \<Rightarrow> bool) \<Rightarrow> (string \<Rightarrow> bool \<Rightarrow> bool) \<Rightarrow> desktop_input \<Rightarrow> orchestrator \<Rightarrow> orchestrator" where
  "desktop_step req_ok res_ok (Renderer_request trustedWebContents sender c) s =
     snd (handle_ipc req_ok res_ok trustedWebContents sender (command_channel c) handle_command c s)"
| "desktop_step req_ok res_ok (Main_event e) s = orch_step e s"

end
