(* ===== verification/Orchestrator_Props.thy ===== *)
theory Orchestrator_Props imports Orchestrator begin

text \<open>
  What the orchestrator guarantees over every interleaving of handler calls and promise
  settlements: at most one send in progress per conversation and no stranded request
  (\<open>serial_inv\<close>), generations that only grow, and the rejection of stale replies.
\<close>

subsection \<open>Frame rules\<close>

lemma upd_conv_frame [simp]:
  "or_serializer (upd_conv shop cid f s) = or_serializer s" "or_tasks (upd_conv shop cid f s) = or_tasks s"
  "or_effects (upd_conv shop cid f s) = or_effects s" "or_decisions (upd_conv shop cid f s) = or_decisions s"
  "or_now (upd_conv shop cid f s) = or_now s"
  by (simp_all add: upd_conv_def)

lemma recordDecision_frame [simp]:
  "or_serializer (recordDecision d s) = or_serializer s" "or_tasks (recordDecision d s) = or_tasks s"
  "or_effects (recordDecision d s) = or_effects s" "or_conversations (recordDecision d s) = or_conversations s"
  "or_now (recordDecision d s) = or_now s"
  by (simp_all add: recordDecision_def)

lemma emit_frame [simp]:
  "or_serializer (emit e s) = or_serializer s" "or_tasks (emit e s) = or_tasks s"
  "or_conversations (emit e s) = or_conversations s" "or_decisions (emit e s) = or_decisions s"
  "or_effects (emit e s) = or_effects s @ [e]" "or_now (emit e s) = or_now s"
  by (simp_all add: emit_def)

lemma suspend_frame [simp]:
  "or_serializer (suspend t s) = or_serializer s" "or_tasks (suspend t s) = or_tasks s @ [t]"
  "or_conversations (suspend t s) = or_conversations s" "or_effects (suspend t s) = or_effects s"
  "or_decisions (suspend t s) = or_decisions s"
  by (simp_all add: suspend_def)

lemma sync_queue_frame [simp]:
  "or_serializer (sync_queue shop cid s) = or_serializer s" "or_tasks (sync_queue shop cid s) = or_tasks s"
  "or_effects (sync_queue shop cid s) = or_effects s"
  by (simp_all add: sync_queue_def Let_def)

lemma ensureState_frame [simp]:
  "or_serializer (ensureState shop cid s) = or_serializer s" "or_tasks (ensureState shop cid s) = or_tasks s"
  "or_effects (ensureState shop cid s) = or_effects s" "or_decisions (ensureState shop cid s) = or_decisions s"
  by (simp_all add: ensureState_def)

lemma persistAiTurn_frame [simp]:
  "or_serializer (persistAiTurn shop cid s) = or_serializer s" "or_tasks (persistAiTurn shop cid s) = or_tasks s"
  "or_conversations (persistAiTurn shop cid s) = or_conversations s"
  by (simp_all add: persistAiTurn_def split: option.splits)

lemma validate_frame [simp]:
  "or_serializer (snd (validateWrongTargetLegacy r s)) = or_serializer s"
  "or_tasks (snd (validateWrongTargetLegacy r s)) = or_tasks s"
  "or_conversations (snd (validateWrongTargetLegacy r s)) = or_conversations s"
  by (simp_all add: validateWrongTargetLegacy_def Let_def)

subsection \<open>One send at a time\<close>

text \<open>The drain loops in progress for a key: a conversation's suspended \<open>performSend\<close>s.\<close>

fun drain_key :: "task \<Rightarrow> string option" where
  "drain_key (T_send shop cid _ _) = Some (ser_key shop cid)"
| "drain_key (T_drain shop cid) = Some (ser_key shop cid)"
| "drain_key _ = None"

definition drains :: "string \<Rightarrow> task list \<Rightarrow> nat" where
  "drains k ts = length (filter (\<lambda>t. drain_key t = Some k) ts)"

lemma drains_append [simp]: "drains k (ts @ us) = drains k ts + drains k us"
  by (simp add: drains_def)

lemma drains_Cons [simp]: "drains k (t # ts) = (if drain_key t = Some k then 1 else 0) + drains k ts"
  by (simp add: drains_def)

lemma drains_Nil [simp]: "drains k [] = 0"
  by (simp add: drains_def)

lemma drains_split:
  assumes "i < length ts"
  shows "drains k ts = drains k (take i ts @ drop (Suc i) ts) + (if drain_key (ts ! i) = Some k then 1 else 0)"
proof -
  have "drains k ts = drains k (take i ts @ [ts ! i] @ drop (Suc i) ts)"
    using assms by (simp add: id_take_nth_drop [symmetric])
  then show ?thesis by simp
qed

text \<open>
  At most one drain loop per key, and only for a busy one, apart from \<open>d k\<close> loops more for the key
  \<open>k\<close>; and, when no loop was lost to a rejection, a loop for every busy key and no request waiting
  for an idle one.
\<close>

definition excl_inv :: "(string \<Rightarrow> nat) \<Rightarrow> orchestrator \<Rightarrow> bool" where
  "excl_inv d s \<longleftrightarrow> (\<forall>k. drains k (or_tasks s) \<le> 1 + d k \<and>
     (k \<notin> se_sending (or_serializer s) \<longrightarrow> drains k (or_tasks s) \<le> d k))"

definition serial_inv :: "orchestrator \<Rightarrow> bool" where
  "serial_inv s \<longleftrightarrow> (\<forall>k.
     (k \<in> se_sending (or_serializer s) \<longrightarrow> drains k (or_tasks s) = 1) \<and>
     (k \<notin> se_sending (or_serializer s) \<longrightarrow> drains k (or_tasks s) = 0 \<and> queue_of (or_serializer s) k = []))"

text \<open>What an operation does to the tasks and the serializer, as seen by the invariants.\<close>

lemma performSend_view:
  "or_serializer (performSend shop cid r s) = or_serializer s"
  "drains k (or_tasks (performSend shop cid r s)) = drains k (or_tasks s) + (if k = ser_key shop cid then 1 else 0)"
  by (simp_all add: performSend_def start_sender_def Let_def case_prod_beta')

lemma drain_turn_view:
  "or_serializer (drain_turn shop cid f s) = snd (dequeue (ser_key shop cid) (or_serializer s))"
  "drains k (or_tasks (drain_turn shop cid f s)) = drains k (or_tasks s)
     + (if k = ser_key shop cid \<and> queue_of (or_serializer s) k \<noteq> [] then 1 else 0)"
  by (auto simp: drain_turn_def Let_def case_prod_beta' fst_dequeue performSend_view split: option.splits list.splits)

lemma submit_busy:
  assumes "ser_key shop cid \<in> se_sending (or_serializer s)"
  shows "or_serializer (submit shop cid r s) = snd (enqueue (ser_key shop cid) r (or_serializer s))"
    and "or_tasks (submit shop cid r s) = or_tasks s"
  using assms by (simp_all add: submit_def Let_def case_prod_beta' enqueue_status isSending_def)

lemma submit_idle:
  assumes "ser_key shop cid \<notin> se_sending (or_serializer s)"
  shows "or_serializer (submit shop cid r s) =
      snd (dequeue (ser_key shop cid) (snd (enqueue (ser_key shop cid) r (or_serializer s))))"
    and "drains k (or_tasks (submit shop cid r s)) = drains k (or_tasks s) + (if k = ser_key shop cid then 1 else 0)"
  using assms
  by (simp_all add: submit_def Let_def case_prod_beta' enqueue_status isSending_def drain_turn_view)

text \<open>Facts an operation needs of the invariants to keep them.\<close>

definition same_view :: "orchestrator \<Rightarrow> orchestrator \<Rightarrow> bool" where
  "same_view s t \<longleftrightarrow> or_serializer t = or_serializer s \<and> (\<forall>k. drains k (or_tasks t) = drains k (or_tasks s))"

lemma same_view_inv: "same_view s t \<Longrightarrow> serial_inv t = serial_inv s" "same_view s t \<Longrightarrow> excl_inv d t = excl_inv d s"
  by (simp_all add: same_view_def serial_inv_def excl_inv_def)

lemma submit_serial: "serial_inv s \<Longrightarrow> serial_inv (submit shop cid r s)"
proof (cases "ser_key shop cid \<in> se_sending (or_serializer s)")
  case True
  assume "serial_inv s"
  with True show ?thesis
    by (auto simp: serial_inv_def submit_busy)
next
  case False
  assume inv: "serial_inv s"
  then have "queue_of (or_serializer s) (ser_key shop cid) = []"
    using False by (auto simp: serial_inv_def)
  with False inv show ?thesis
    by (auto simp: serial_inv_def submit_idle)
qed

lemma submit_excl: "excl_inv d s \<Longrightarrow> excl_inv d (submit shop cid r s)"
proof (cases "ser_key shop cid \<in> se_sending (or_serializer s)")
  case True
  assume "excl_inv d s"
  with True show ?thesis
    by (auto simp: excl_inv_def submit_busy split: if_splits)
next
  case False
  assume inv: "excl_inv d s"
  have "drains (ser_key shop cid) (or_tasks s) \<le> d (ser_key shop cid)"
    using inv False by (simp add: excl_inv_def)
  with False inv show ?thesis
    by (auto simp: excl_inv_def submit_idle)
qed

locale submitting =
  fixes inv :: "orchestrator \<Rightarrow> bool"
  assumes frame: "same_view s t \<Longrightarrow> inv t = inv s"
    and submit: "inv s \<Longrightarrow> inv (submit shop cid r s)"
begin

lemma upd [simp]: "inv (upd_conv shop cid f s) = inv s" "inv (recordDecision d s) = inv s"
  "inv (emit e s) = inv s" "inv (ensureState shop cid s) = inv s" "inv (persistAiTurn shop cid s) = inv s"
  "inv (sync_queue shop cid s) = inv s"
  by (simp_all add: frame same_view_def)

lemma suspend_other [simp]: "drain_key t = None \<Longrightarrow> inv (suspend t s) = inv s"
  by (simp add: frame same_view_def)

lemma sendSuggestion: "inv s \<Longrightarrow> inv (sendSuggestion shop cid fb s)"
  by (auto simp: sendSuggestion_def Let_def submit split: option.splits)

lemma applyGeneratedReply: "inv s \<Longrightarrow> inv (applyGeneratedReply shop cid reply g d s)"
  by (simp add: applyGeneratedReply_def Let_def split: option.splits)

lemma processAiResult: "inv s \<Longrightarrow> inv (processAiResult shop cid r g s)"
  by (simp add: processAiResult_def Let_def applyGeneratedReply split: option.splits)

lemma confirmed_send: "inv s \<Longrightarrow> inv (confirmed_send shop cid s)"
  by (simp add: confirmed_send_def sendSuggestion)

lemma revalidate: "inv s \<Longrightarrow> inv (revalidate shop cid s)"
  by (simp add: revalidate_def Let_def case_prod_beta')

lemma handlers:
  assumes "inv s"
  shows "inv (onBuyerMessage shop cid m s)" and "inv (onAiResult shop cid res s)"
    and "inv (onManualSend shop cid key s)" and "inv (onCancel shop cid s)"
    and "inv (onSetMode shop cid mode s)" and "inv (onHumanTakeover shop cid s)"
    and "inv (onSendRequest shop cid reply g s)" and "inv (onCountdownElapsed shop cid ms s)"
  using assms
  by (simp_all add: onBuyerMessage_def onAiResult_def onManualSend_def onCancel_def onSetMode_def
      onHumanTakeover_def onSendRequest_def onCountdownElapsed_def Let_def case_prod_beta'
      processAiResult sendSuggestion submit)

lemma onFocusShop: "inv (onFocusShop shop s) = inv s"
  by (rule frame) (simp add: onFocusShop_def same_view_def)

lemma clock: "inv (s\<lparr>or_now := n\<rparr>) = inv s"
  by (rule frame) (simp add: same_view_def)

text \<open>Settling a task that is no drain loop.\<close>

lemma settle_other:
  assumes "inv s" and "i < length (or_tasks s)" and "drain_key (or_tasks s ! i) = None"
  shows "inv (resume_task (or_tasks s ! i) v (s\<lparr>or_tasks := take i (or_tasks s) @ drop (Suc i) (or_tasks s)\<rparr>))"
proof -
  let ?s = "s\<lparr>or_tasks := take i (or_tasks s) @ drop (Suc i) (or_tasks s)\<rparr>"
  have "same_view s ?s"
    using drains_split [OF assms(2)] assms(3) by (simp add: same_view_def)
  then have "inv ?s"
    using assms(1) frame by simp
  then show ?thesis
    using assms(3)
    by (cases "or_tasks s ! i"; cases v)
       (simp_all add: processAiResult revalidate confirmed_send sendSuggestion split: option.splits)
qed

end

interpretation ser_sub: submitting serial_inv
  by unfold_locales (simp_all add: same_view_inv submit_serial)

interpretation excl_sub: submitting "excl_inv d" for d
  by unfold_locales (simp_all add: same_view_inv submit_excl)

text \<open>The continuations of a drain loop keep one loop per busy key.\<close>

lemma after_send_view:
  "or_serializer (after_send shop cid r retry a s) = or_serializer s"
  "drains k (or_tasks (after_send shop cid r retry a s)) = drains k (or_tasks s) + (if k = ser_key shop cid then 1 else 0)"
  by (simp_all add: after_send_def start_sender_def Let_def)

lemma drain_resume_view:
  fixes s :: orchestrator and shop cid :: string
  defines "s' \<equiv> resume_task (T_drain shop cid) Unit_value s"
  shows "queue_of (or_serializer s') k = (if k = ser_key shop cid then tl (queue_of (or_serializer s) k) else queue_of (or_serializer s) k)"
    and "se_sending (or_serializer s') = (if queue_of (or_serializer s) (ser_key shop cid) = []
            then se_sending (or_serializer s) - {ser_key shop cid} else insert (ser_key shop cid) (se_sending (or_serializer s)))"
    and "drains k (or_tasks s') = drains k (or_tasks s)
            + (if k = ser_key shop cid \<and> queue_of (or_serializer s) k \<noteq> [] then 1 else 0)"
  by (auto simp: s'_def drain_turn_view)

lemma settle_send:
  assumes "i < length (or_tasks s)" and "or_tasks s ! i = T_send shop cid r retry"
  shows "same_view s (settle_task i (Attempt_value a) s)"
  using assms drains_split [OF assms(1)]
  by (simp add: same_view_def settle_task_def after_send_view)

lemma settle_drain_eq:
  assumes "i < length (or_tasks s)" and "or_tasks s ! i = T_drain shop cid"
  shows "queue_of (or_serializer (settle_task i Unit_value s)) k =
      (if k = ser_key shop cid then tl (queue_of (or_serializer s) k) else queue_of (or_serializer s) k)"
    and "se_sending (or_serializer (settle_task i Unit_value s)) =
      (if queue_of (or_serializer s) (ser_key shop cid) = []
       then se_sending (or_serializer s) - {ser_key shop cid} else insert (ser_key shop cid) (se_sending (or_serializer s)))"
    and "drains k (or_tasks (settle_task i Unit_value s)) =
      (if k \<noteq> ser_key shop cid then drains k (or_tasks s)
       else if queue_of (or_serializer s) k = [] then drains k (or_tasks s) - 1 else drains k (or_tasks s))"
proof -
  let ?s = "s\<lparr>or_tasks := take i (or_tasks s) @ drop (Suc i) (or_tasks s)\<rparr>"
  have eq: "settle_task i Unit_value s = resume_task (T_drain shop cid) Unit_value ?s"
    using assms by (simp add: settle_task_def del: resume_task.simps)
  have "drains k (or_tasks s) = drains k (or_tasks ?s) + (if k = ser_key shop cid then 1 else 0)"
    using drains_split [OF assms(1), of k] assms(2) by auto
  then show "drains k (or_tasks (settle_task i Unit_value s)) =
      (if k \<noteq> ser_key shop cid then drains k (or_tasks s)
       else if queue_of (or_serializer s) k = [] then drains k (or_tasks s) - 1 else drains k (or_tasks s))"
    unfolding eq drain_resume_view by (cases "k = ser_key shop cid") auto
  show "queue_of (or_serializer (settle_task i Unit_value s)) k =
      (if k = ser_key shop cid then tl (queue_of (or_serializer s) k) else queue_of (or_serializer s) k)"
    unfolding eq drain_resume_view by simp
  show "se_sending (or_serializer (settle_task i Unit_value s)) =
      (if queue_of (or_serializer s) (ser_key shop cid) = []
       then se_sending (or_serializer s) - {ser_key shop cid} else insert (ser_key shop cid) (se_sending (or_serializer s)))"
    unfolding eq drain_resume_view by simp
qed

lemma settle_drain_busy:
  assumes "i < length (or_tasks s)" and "or_tasks s ! i = T_drain shop cid"
  shows "0 < drains (ser_key shop cid) (or_tasks s)"
  using drains_split [OF assms(1), of "ser_key shop cid"] assms(2) by simp

lemma settle_drain_serial:
  assumes "i < length (or_tasks s)" and "or_tasks s ! i = T_drain shop cid" and "serial_inv s"
  shows "serial_inv (settle_task i Unit_value s)"
  unfolding serial_inv_def settle_drain_eq [OF assms(1,2)]
proof (rule allI)
  fix k
  let ?k = "ser_key shop cid"
  have busy: "?k \<in> se_sending (or_serializer s)"
    using settle_drain_busy [OF assms(1,2)] assms(3) unfolding serial_inv_def by (metis less_irrefl)
  have "(k \<in> se_sending (or_serializer s) \<longrightarrow> drains k (or_tasks s) = 1) \<and>
     (k \<notin> se_sending (or_serializer s) \<longrightarrow> drains k (or_tasks s) = 0 \<and> queue_of (or_serializer s) k = [])"
    using assms(3) by (simp add: serial_inv_def)
  with busy show "(k \<in> (if queue_of (or_serializer s) ?k = [] then se_sending (or_serializer s) - {?k}
            else insert ?k (se_sending (or_serializer s))) \<longrightarrow>
       (if k \<noteq> ?k then drains k (or_tasks s)
        else if queue_of (or_serializer s) k = [] then drains k (or_tasks s) - 1 else drains k (or_tasks s)) = 1) \<and>
     (k \<notin> (if queue_of (or_serializer s) ?k = [] then se_sending (or_serializer s) - {?k}
            else insert ?k (se_sending (or_serializer s))) \<longrightarrow>
       (if k \<noteq> ?k then drains k (or_tasks s)
        else if queue_of (or_serializer s) k = [] then drains k (or_tasks s) - 1 else drains k (or_tasks s)) = 0 \<and>
       (if k = ?k then tl (queue_of (or_serializer s) k) else queue_of (or_serializer s) k) = [])"
    by (cases "k = ?k"; cases "queue_of (or_serializer s) ?k = []") simp_all
qed

lemma settle_drain_excl:
  assumes "i < length (or_tasks s)" and "or_tasks s ! i = T_drain shop cid" and "excl_inv d s"
  shows "excl_inv d (settle_task i Unit_value s)"
  unfolding excl_inv_def settle_drain_eq [OF assms(1,2)]
proof (rule allI)
  fix k
  have "drains k (or_tasks s) \<le> 1 + d k \<and> (k \<notin> se_sending (or_serializer s) \<longrightarrow> drains k (or_tasks s) \<le> d k)"
    using assms(3) by (simp add: excl_inv_def)
  then show "(if k \<noteq> ser_key shop cid then drains k (or_tasks s)
        else if queue_of (or_serializer s) k = [] then drains k (or_tasks s) - 1 else drains k (or_tasks s)) \<le> 1 + d k \<and>
     (k \<notin> (if queue_of (or_serializer s) (ser_key shop cid) = [] then se_sending (or_serializer s) - {ser_key shop cid}
            else insert (ser_key shop cid) (se_sending (or_serializer s))) \<longrightarrow>
      (if k \<noteq> ser_key shop cid then drains k (or_tasks s)
        else if queue_of (or_serializer s) k = [] then drains k (or_tasks s) - 1 else drains k (or_tasks s)) \<le> d k)"
    by (cases "k = ser_key shop cid"; cases "queue_of (or_serializer s) (ser_key shop cid) = []") auto
qed

text \<open>A rejected sender promise ends the loop without freeing the key.\<close>

lemma settle_send_rejected:
  assumes "i < length (or_tasks s)" and "or_tasks s ! i = T_send shop cid r retry"
  shows "or_serializer (settle_task i Rejected s) = or_serializer s"
    and "drains k (or_tasks s) = drains k (or_tasks (settle_task i Rejected s)) + (if k = ser_key shop cid then 1 else 0)"
  using assms drains_split [OF assms(1), of k] by (auto simp: settle_task_def)

text \<open>
  \<open>Dequeue_next\<close> takes a request without sending it, and frees the key when there is none, although
  a loop may be in progress: each call allows one loop more.
\<close>

definition dequeue_of :: "string \<Rightarrow> orch_event \<Rightarrow> bool" where
  "dequeue_of k e = (case e of Dequeue_next shop cid \<Rightarrow> ser_key shop cid = k | _ \<Rightarrow> False)"

text \<open>A rejected sender is set aside, with \<open>Dequeue_next\<close>, for the second invariant.\<close>

definition no_dequeue_no_reject :: "orch_event \<Rightarrow> bool" where
  "no_dequeue_no_reject e = (case e of Dequeue_next _ _ \<Rightarrow> False | Settle_task _ Rejected \<Rightarrow> False | _ \<Rightarrow> True)"

lemma settle_excl: "excl_inv d s \<Longrightarrow> excl_inv d (settle_task i v s)"
proof (cases "i < length (or_tasks s) \<and> fits (or_tasks s ! i) v")
  case False
  assume "excl_inv d s"
  with False show ?thesis by (auto simp: settle_task_def)
next
  case True
  assume inv: "excl_inv d s"
  show ?thesis
  proof (cases "or_tasks s ! i")
    case (T_send shop cid r retry)
    show ?thesis
    proof (cases v)
      case (Attempt_value a)
      with inv True T_send show ?thesis
        using same_view_inv(2) [OF settle_send] by blast
    next
      case Rejected
      have fewer: "drains k (or_tasks (settle_task i v s)) \<le> drains k (or_tasks s)" for k
        using settle_send_rejected(2) [of i s, OF _ T_send, of k] True Rejected by simp
      have same: "or_serializer (settle_task i v s) = or_serializer s"
        using settle_send_rejected(1) [of i s, OF _ T_send] True Rejected by simp
      show ?thesis
        unfolding excl_inv_def same
      proof (intro allI conjI impI)
        fix k
        have le: "drains k (or_tasks s) \<le> 1 + d k" and "k \<notin> se_sending (or_serializer s) \<Longrightarrow> drains k (or_tasks s) \<le> d k"
          using inv by (simp_all add: excl_inv_def)
        with fewer [of k] show "drains k (or_tasks (settle_task i v s)) \<le> 1 + d k"
          and "k \<notin> se_sending (or_serializer s) \<Longrightarrow> drains k (or_tasks (settle_task i v s)) \<le> d k"
          by simp_all
      qed
    qed (use True T_send in auto)
  next
    case (T_drain shop cid)
    then have "v = Unit_value"
      using True by (cases v) auto
    then show ?thesis
      using settle_drain_excl inv True T_drain by blast
  qed (use inv True excl_sub.settle_other [of _ s i v] in \<open>simp_all add: settle_task_def\<close>)
qed

lemma settle_serial: "serial_inv s \<Longrightarrow> v \<noteq> Rejected \<Longrightarrow> serial_inv (settle_task i v s)"
proof (cases "i < length (or_tasks s) \<and> fits (or_tasks s ! i) v")
  case False
  assume "serial_inv s"
  with False show ?thesis by (auto simp: settle_task_def)
next
  case True
  assume inv: "serial_inv s" and "v \<noteq> Rejected"
  show ?thesis
  proof (cases "or_tasks s ! i")
    case (T_send shop cid r retry)
    then obtain a where "v = Attempt_value a"
      using True \<open>v \<noteq> Rejected\<close> by (cases v) auto
    with inv True T_send show ?thesis
      using same_view_inv(1) [OF settle_send] by blast
  next
    case (T_drain shop cid)
    then have "v = Unit_value"
      using True by (cases v) auto
    then show ?thesis
      using settle_drain_serial inv True T_drain by blast
  qed (use inv True ser_sub.settle_other [of s i v] in \<open>simp_all add: settle_task_def\<close>)
qed

lemma dequeueNext_excl:
  assumes "excl_inv d s"
  shows "excl_inv (d(ser_key shop cid := Suc (d (ser_key shop cid)))) (onDequeueNext shop cid s)"
proof -
  have "or_tasks (onDequeueNext shop cid s) = or_tasks s"
    and "or_serializer (onDequeueNext shop cid s) = snd (dequeue (ser_key shop cid) (or_serializer s))"
    by (simp_all add: onDequeueNext_def Let_def case_prod_beta')
  then show ?thesis
    using assms by (auto simp: excl_inv_def le_Suc_eq)
qed

lemma step_excl:
  assumes "excl_inv d s"
  shows "excl_inv (\<lambda>k. d k + (if dequeue_of k e then 1 else 0)) (orch_step e s)"
proof (cases "\<exists>shop cid. e = Dequeue_next shop cid")
  case True
  then obtain shop cid where e: "e = Dequeue_next shop cid" by blast
  then have "(\<lambda>k. d k + (if dequeue_of k e then 1 else 0)) = d(ser_key shop cid := Suc (d (ser_key shop cid)))"
    by (auto simp: dequeue_of_def fun_eq_iff)
  then show ?thesis
    using dequeueNext_excl [OF assms, of shop cid] e by simp
next
  case False
  then have "(\<lambda>k. d k + (if dequeue_of k e then 1 else 0)) = d"
    by (cases e) (simp_all add: dequeue_of_def)
  then show ?thesis
    using assms False
    by (cases e) (simp_all add: excl_sub.handlers excl_sub.onFocusShop excl_sub.clock settle_excl)
qed

lemma run_excl: "excl_inv d s \<Longrightarrow> excl_inv (\<lambda>k. d k + length (filter (dequeue_of k) es)) (run orch_step es s)"
proof (induction es arbitrary: d s)
  case Nil
  then show ?case by simp
next
  case (Cons e es)
  have "(\<lambda>k. d k + (if dequeue_of k e then 1 else 0) + length (filter (dequeue_of k) es))
      = (\<lambda>k. d k + length (filter (dequeue_of k) (e # es)))"
    by auto
  then show ?case
    using Cons.IH [OF step_excl [OF Cons.prems, of e]] by simp
qed

interpretation serial_sys: step_invariant orch_step serial_inv no_dequeue_no_reject
proof
  fix s e
  assume "serial_inv s" and "no_dequeue_no_reject e"
  then show "serial_inv (orch_step e s)"
    by (cases e)
       (auto simp add: no_dequeue_no_reject_def ser_sub.handlers ser_sub.onFocusShop ser_sub.clock
         settle_serial split: outcome.splits)
qed

lemma new_orchestrator_invs: "excl_inv d (new_orchestrator tick)" "serial_inv (new_orchestrator tick)"
  by (simp_all add: new_orchestrator_def excl_inv_def serial_inv_def)

subsection \<open>Generations only grow\<close>

lemma conv_upd_conv [simp]: "conv shop cid (upd_conv shop cid f s) = f (conv shop cid s)"
  by (simp add: conv_def upd_conv_def)

lemma conv_frame [simp]:
  "conv shop cid (recordDecision d s) = conv shop cid s" "conv shop cid (emit e s) = conv shop cid s"
  "conv shop cid (suspend t s) = conv shop cid s" "conv shop cid (s\<lparr>or_tasks := ts\<rparr>) = conv shop cid s"
  by (simp_all add: conv_def)

definition gen :: "string \<Rightarrow> orchestrator \<Rightarrow> int" where
  "gen k s = (case map_of (or_conversations s) k of Some c \<Rightarrow> token_current (cv_token c) | None \<Rightarrow> 0)"

lemma gen_conv: "gen (ser_key shop cid) s = token_current (cv_token (conv shop cid s))"
  by (simp add: gen_def conv_def createConversationRuntimeState_def new_token_def token_current_def split: option.splits)

lemma gen_upd_conv:
  "gen k (upd_conv shop cid f s) =
     (if k = ser_key shop cid then token_current (cv_token (f (conv shop cid s))) else gen k s)"
  by (simp add: gen_def upd_conv_def)

lemma gen_frame [simp]:
  "gen k (recordDecision d s) = gen k s" "gen k (emit e s) = gen k s" "gen k (suspend t s) = gen k s"
  "gen k (s\<lparr>or_tasks := ts\<rparr>) = gen k s" "gen k (s\<lparr>or_serializer := se\<rparr>) = gen k s"
  "gen k (s\<lparr>or_now := n\<rparr>) = gen k s"
  by (simp_all add: gen_def)

lemma gen_upd_same [simp]:
  "(\<And>c. cv_token (f c) = cv_token c) \<Longrightarrow> gen k (upd_conv shop cid f s) = gen k s"
  by (simp add: gen_upd_conv gen_conv)

lemma gen_send [simp]:
  "gen k (ensureState shop cid s) = gen k s" "gen k (sync_queue shop cid s) = gen k s"
  "gen k (persistAiTurn shop cid s) = gen k s" "gen k (snd (validateWrongTargetLegacy r s)) = gen k s"
  "gen k (start_sender shop cid r b s) = gen k s"
  by (simp_all add: ensureState_def sync_queue_def persistAiTurn_def validateWrongTargetLegacy_def
      start_sender_def Let_def split: option.splits)

lemma gen_drain [simp]:
  "gen k (performSend shop cid r s) = gen k s" "gen k (drain_turn shop cid b s) = gen k s"
  "gen k (submit shop cid r s) = gen k s" "gen k (sendSuggestion shop cid fb s) = gen k s"
  "gen k (confirmed_send shop cid s) = gen k s" "gen k (after_send shop cid r b a s) = gen k s"
  by (simp_all add: performSend_def drain_turn_def submit_def sendSuggestion_def confirmed_send_def
      after_send_def Let_def case_prod_beta' split: option.splits serializer_status.splits)

lemma gen_reply [simp]:
  "gen k (applyGeneratedReply shop cid reply g d s) = gen k s"
  "gen k (processAiResult shop cid r g s) = gen k s"
  by (simp_all add: applyGeneratedReply_def processAiResult_def Let_def split: option.splits)

lemma gen_bump:
  "gen k (onBuyerMessage shop cid m s) = gen k s + (if k = ser_key shop cid then 1 else 0)"
  "gen k (revalidate shop cid s) = gen k s + (if k = ser_key shop cid then 1 else 0)"
  "gen k (onHumanTakeover shop cid s) = gen k s + (if k = ser_key shop cid then 1 else 0)"
  by (cases "k = ser_key shop cid",
      simp_all add: onBuyerMessage_def revalidate_def onHumanTakeover_def takeover_def countdown_cancel_def
        Let_def case_prod_beta' gen_upd_conv gen_conv token_next_def token_current_def)+

lemma gen_countdown: "cv_token (snd (snd (countdown_elapse ms c))) = cv_token c"
  by (simp add: countdown_elapse_def Let_def)

lemma gen_handlers [simp]:
  "gen k (onAiResult shop cid r s) = gen k s" "gen k (onManualSend shop cid key s) = gen k s"
  "gen k (onCancel shop cid s) = gen k s" "gen k (onSetMode shop cid m s) = gen k s"
  "gen k (onFocusShop shop s) = gen k s" "gen k (onSendRequest shop cid reply g s) = gen k s"
  "gen k (onDequeueNext shop cid s) = gen k s"
  by (simp_all add: onAiResult_def onManualSend_def onCancel_def onSetMode_def onFocusShop_def
      onSendRequest_def onDequeueNext_def countdown_cancel_def Let_def case_prod_beta')
     (simp add: gen_def)

lemma gen_countdown_elapsed [simp]: "gen k (onCountdownElapsed shop cid ms s) = gen k s"
proof -
  let ?c = "conv shop cid (ensureState shop cid s)"
  have "gen k (upd_conv shop cid (\<lambda>_. snd (snd (countdown_elapse ms ?c))) (ensureState shop cid s)) = gen k s"
    by (simp add: gen_upd_conv gen_countdown flip: gen_conv)
  then show ?thesis
    by (simp add: onCountdownElapsed_def Let_def case_prod_beta')
qed

lemma gen_resume: "gen k s \<le> gen k (resume_task t v s)"
  by (cases "(t, v, s)" rule: resume_task.cases)
     (simp_all add: gen_bump split: option.splits)

lemma gen_step: "gen k s \<le> gen k (orch_step e s)"
proof (cases e)
  case (Settle_task i v)
  have "gen k s \<le> gen k (settle_task i v s)"
    unfolding settle_task_def
    using gen_resume [of k "s\<lparr>or_tasks := take i (or_tasks s) @ drop (Suc i) (or_tasks s)\<rparr>"] by simp
  with Settle_task show ?thesis by simp
qed (simp_all add: gen_bump)

interpretation gen_sys: step_monotone orch_step "gen k" "\<lambda>_. True" for k
  by unfold_locales (rule gen_step)

lemma processAiResult_stale:
  assumes "(case ar_generation r of Some g' \<Rightarrow> g' | None \<Rightarrow> g) < token_current (cv_token (conv shop cid s))"
  shows "processAiResult shop cid r g s =
    recordDecision ((mk_decision ''ignore_stale'' shop cid)
      \<lparr>dr_generation := Some (case ar_generation r of Some g' \<Rightarrow> g' | None \<Rightarrow> g)\<rparr>) s"
  using assms by (simp add: processAiResult_def Let_def)

text \<open>A reply for an older generation changes nothing but the flag and the decision log.\<close>

lemma settle_stale_reply:
  assumes "i < length (or_tasks s)" and "or_tasks s ! i = T_reply shop cid g"
    and "(case ar_generation r of Some g' \<Rightarrow> g' | None \<Rightarrow> g) < gen (ser_key shop cid) s"
  shows "cv_suggestion (conv shop cid (settle_task i (Reply_value r) s)) = cv_suggestion (conv shop cid s)"
    and "or_effects (settle_task i (Reply_value r) s) = or_effects s"
    and "or_serializer (settle_task i (Reply_value r) s) = or_serializer s"
    and "or_tasks (settle_task i (Reply_value r) s) = take i (or_tasks s) @ drop (Suc i) (or_tasks s)"
proof -
  let ?s = "upd_conv shop cid (\<lambda>c. c\<lparr>cv_aiInflight := False\<rparr>)
    (s\<lparr>or_tasks := take i (or_tasks s) @ drop (Suc i) (or_tasks s)\<rparr>)"
  have "settle_task i (Reply_value r) s =
     recordDecision ((mk_decision ''ignore_stale'' shop cid)
       \<lparr>dr_generation := Some (case ar_generation r of Some g' \<Rightarrow> g' | None \<Rightarrow> g)\<rparr>) ?s"
    using assms processAiResult_stale [where r = r and g = g and shop = shop and cid = cid and s = ?s] by (simp add: settle_task_def gen_conv)
  then show "cv_suggestion (conv shop cid (settle_task i (Reply_value r) s)) = cv_suggestion (conv shop cid s)"
    and "or_effects (settle_task i (Reply_value r) s) = or_effects s"
    and "or_serializer (settle_task i (Reply_value r) s) = or_serializer s"
    and "or_tasks (settle_task i (Reply_value r) s) = take i (or_tasks s) @ drop (Suc i) (or_tasks s)"
    by simp_all
qed

end
