(* ===== verification/Orchestrator_Safety.thy ===== *)
theory Orchestrator_Safety imports Orchestrator_Props begin

text \<open>
  Three further guarantees of the orchestrator: every reply handed to the segmented sender has a target
  that passed the wrong-target validator (\<open>target_inv\<close>); without a human action nothing is sent in
  human-review mode (\<open>quiet_inv\<close>); and a busy conversation whose sends are answered empties its queue
  (\<open>serve_all\<close>, the settlements that drive the drain loop to its end).
\<close>

subsection \<open>Only validated targets\<close>

fun target_ok_effect :: "effect \<Rightarrow> bool" where
  "target_ok_effect (SegmentedSend shop cid _) = (\<not> blank shop \<and> \<not> blank cid)"
| "target_ok_effect _ = True"

fun target_ok_task :: "task \<Rightarrow> bool" where
  "target_ok_task (T_send _ _ r _) = wv_valid (validateTarget (target_context r))"
| "target_ok_task _ = True"

definition target_inv :: "orchestrator \<Rightarrow> bool" where
  "target_inv s \<longleftrightarrow> list_all target_ok_effect (or_effects s) \<and> list_all target_ok_task (or_tasks s)"

lemma target_context_valid:
  "wv_valid (validateTarget (target_context r)) \<longleftrightarrow> \<not> blank (sr_shopId r) \<and> \<not> blank (sr_conversationId r)"
  by (simp add: validateTarget_iff target_context_def present_def provided_blank_def)

lemma target_upd [simp]:
  "target_inv (upd_conv shop cid f s) = target_inv s" "target_inv (recordDecision d s) = target_inv s"
  "target_inv (ensureState shop cid s) = target_inv s" "target_inv (sync_queue shop cid s) = target_inv s"
  "target_inv (s\<lparr>or_serializer := se\<rparr>) = target_inv s" "target_inv (s\<lparr>or_now := n\<rparr>) = target_inv s"
  by (simp_all add: target_inv_def)

lemma target_emit [simp]: "target_inv (emit e s) \<longleftrightarrow> target_inv s \<and> target_ok_effect e"
  by (auto simp: target_inv_def)

lemma target_suspend [simp]: "target_inv (suspend t s) \<longleftrightarrow> target_inv s \<and> target_ok_task t"
  by (auto simp: target_inv_def)

lemma target_start_sender:
  "target_inv s \<Longrightarrow> wv_valid (validateTarget (target_context r)) \<Longrightarrow> target_inv (start_sender shop cid r b s)"
  by (simp add: start_sender_def target_context_valid)

lemma target_performSend: "target_inv s \<Longrightarrow> target_inv (performSend shop cid r s)"
  by (simp add: performSend_def validateWrongTargetLegacy_def Let_def target_start_sender)

lemma target_drain_turn: "target_inv s \<Longrightarrow> target_inv (drain_turn shop cid b s)"
  by (simp add: drain_turn_def Let_def case_prod_beta' target_performSend split: option.splits)

lemma target_submit: "target_inv s \<Longrightarrow> target_inv (submit shop cid r s)"
  by (simp add: submit_def Let_def case_prod_beta' target_drain_turn split: serializer_status.splits)

lemma target_sendSuggestion: "target_inv s \<Longrightarrow> target_inv (sendSuggestion shop cid fb s)"
  by (simp add: sendSuggestion_def Let_def target_submit split: option.splits)

lemma target_persistAiTurn [simp]: "target_inv (persistAiTurn shop cid s) = target_inv s"
  by (simp add: persistAiTurn_def split: option.splits)

lemma target_processAiResult: "target_inv s \<Longrightarrow> target_inv (processAiResult shop cid r g s)"
  by (simp add: processAiResult_def applyGeneratedReply_def Let_def split: option.splits)

lemma target_after_send:
  "target_inv s \<Longrightarrow> wv_valid (validateTarget (target_context r)) \<Longrightarrow> target_inv (after_send shop cid r b a s)"
  by (simp add: after_send_def Let_def target_start_sender)

lemma target_resume: "target_inv s \<Longrightarrow> target_ok_task t \<Longrightarrow> target_inv (resume_task t v s)"
  by (cases "(t, v, s)" rule: resume_task.cases)
     (simp_all add: target_processAiResult revalidate_def confirmed_send_def target_sendSuggestion
       target_after_send target_drain_turn Let_def case_prod_beta' split: option.splits)

lemma target_settle: "target_inv s \<Longrightarrow> target_inv (settle_task i v s)"
proof (cases "i < length (or_tasks s) \<and> fits (or_tasks s ! i) v")
  case True
  assume inv: "target_inv s"
  let ?s = "s\<lparr>or_tasks := take i (or_tasks s) @ drop (Suc i) (or_tasks s)\<rparr>"
  have "target_inv ?s" and "target_ok_task (or_tasks s ! i)"
    using inv True by (auto simp: target_inv_def list_all_iff dest: in_set_takeD in_set_dropD)
  with True show ?thesis
    by (simp add: settle_task_def target_resume)
qed (auto simp: settle_task_def)

lemma target_step: "target_inv s \<Longrightarrow> target_inv (orch_step e s)"
  by (cases e)
     (simp_all add: onBuyerMessage_def onAiResult_def onManualSend_def onCancel_def onSetMode_def
       onHumanTakeover_def onSendRequest_def onCountdownElapsed_def onFocusShop_def onDequeueNext_def
       Let_def case_prod_beta' target_processAiResult target_sendSuggestion target_submit target_settle,
      simp_all add: target_inv_def)

interpretation target_sys: step_invariant orch_step target_inv "\<lambda>_. True"
  by unfold_locales (rule target_step)

lemma new_orchestrator_target: "target_inv (new_orchestrator tick)"
  by (simp add: target_inv_def new_orchestrator_def)

subsection \<open>Nothing leaves without a human in review mode\<close>

fun is_send :: "effect \<Rightarrow> bool" where
  "is_send (SegmentedSend _ _ _) = True"
| "is_send _ = False"

fun quiet_task :: "task \<Rightarrow> bool" where
  "quiet_task (T_reply _ _ _) = True"
| "quiet_task (T_persist _ _) = True"
| "quiet_task _ = False"

definition quiet_conv :: "conv_state \<Rightarrow> bool" where
  "quiet_conv c \<longleftrightarrow> cv_mode c = Human_review \<and> \<not> cs_enabled (cv_countdown c)"

definition quiet_inv :: "orchestrator \<Rightarrow> bool" where
  "quiet_inv s \<longleftrightarrow> list_all (\<lambda>e. \<not> is_send e) (or_effects s) \<and> list_all quiet_task (or_tasks s) \<and>
     list_all (\<lambda>p. quiet_conv (snd p)) (or_conversations s)"

text \<open>The events that carry a human decision to send, or switch the review off.\<close>

definition no_human_send :: "orch_event \<Rightarrow> bool" where
  "no_human_send e = (case e of Manual_send _ _ _ \<Rightarrow> False | Send_request _ _ _ _ \<Rightarrow> False
     | Set_mode _ _ m \<Rightarrow> m = Human_review | _ \<Rightarrow> True)"

lemma quiet_conv_conv: "quiet_inv s \<Longrightarrow> quiet_conv (conv shop cid s)"
  by (auto simp: quiet_inv_def conv_def list_all_iff createConversationRuntimeState_def quiet_conv_def
      dest!: map_of_SomeD split: option.splits)

lemma list_all_map_set:
  "list_all (\<lambda>p. P (snd p)) ps \<Longrightarrow> list_all (\<lambda>p. P (snd p)) (map_set k v ps) \<longleftrightarrow> P v"
  by (induction ps) auto

lemma quiet_upd_conv:
  assumes "quiet_inv s"
  shows "quiet_inv (upd_conv shop cid f s) \<longleftrightarrow> quiet_conv (f (conv shop cid s))"
  using assms by (simp add: quiet_inv_def upd_conv_def list_all_map_set)

lemma quiet_conv_fields:
  assumes "quiet_inv s"
  shows "cv_mode (conv shop cid s) = Human_review" and "\<not> cs_enabled (cv_countdown (conv shop cid s))"
  using quiet_conv_conv [OF assms] by (simp_all add: quiet_conv_def)

lemmas quiet_rules = quiet_upd_conv quiet_conv_fields quiet_conv_def

lemma quiet_frame [simp]:
  "quiet_inv (recordDecision d s) = quiet_inv s" "quiet_inv (emit e s) \<longleftrightarrow> quiet_inv s \<and> \<not> is_send e"
  "quiet_inv (suspend t s) \<longleftrightarrow> quiet_inv s \<and> quiet_task t" "quiet_inv (s\<lparr>or_serializer := se\<rparr>) = quiet_inv s"
  "quiet_inv (s\<lparr>or_now := n\<rparr>) = quiet_inv s"
  by (auto simp: quiet_inv_def)

lemma quiet_ensureState: "quiet_inv s \<Longrightarrow> quiet_inv (ensureState shop cid s)"
  by (simp add: ensureState_def quiet_rules)

lemma quiet_sync_queue: "quiet_inv s \<Longrightarrow> quiet_inv (sync_queue shop cid s)"
  by (simp add: sync_queue_def Let_def quiet_rules)

lemma quiet_persistAiTurn [simp]: "quiet_inv (persistAiTurn shop cid s) = quiet_inv s"
  by (simp add: persistAiTurn_def split: option.splits)

lemma quiet_processAiResult: "quiet_inv s \<Longrightarrow> quiet_inv (processAiResult shop cid r g s)"
  by (simp add: processAiResult_def applyGeneratedReply_def Let_def quiet_rules
      split: option.splits)

lemma quiet_settle: "quiet_inv s \<Longrightarrow> quiet_inv (settle_task i v s)"
proof (cases "i < length (or_tasks s) \<and> fits (or_tasks s ! i) v")
  case True
  assume inv: "quiet_inv s"
  let ?s = "s\<lparr>or_tasks := take i (or_tasks s) @ drop (Suc i) (or_tasks s)\<rparr>"
  have s: "quiet_inv ?s" and t: "quiet_task (or_tasks s ! i)"
    using inv True by (auto simp: quiet_inv_def list_all_iff dest: in_set_takeD in_set_dropD)
  have "quiet_inv (resume_task (or_tasks s ! i) v ?s)"
    using t s quiet_conv_conv [OF s]
    by (cases "or_tasks s ! i"; cases v)
       (simp_all add: quiet_processAiResult quiet_rules isFullAuto_def)
  with True show ?thesis
    by (simp add: settle_task_def)
qed (auto simp: settle_task_def)

lemma quiet_countdown_elapsed: "quiet_inv s \<Longrightarrow> quiet_inv (onCountdownElapsed shop cid ms s)"
  using quiet_conv_conv [OF quiet_ensureState, of s shop cid shop cid]
  by (simp add: onCountdownElapsed_def Let_def quiet_conv_def quiet_ensureState)

lemma quiet_onSetMode: "quiet_inv s \<Longrightarrow> quiet_inv (onSetMode shop cid Human_review s)"
  by (simp add: onSetMode_def Let_def quiet_rules)

lemma quiet_handlers:
  assumes "quiet_inv s"
  shows "quiet_inv (onBuyerMessage shop cid m s)" and "quiet_inv (onAiResult shop cid r s)"
    and "quiet_inv (onCancel shop cid s)" and "quiet_inv (onHumanTakeover shop cid s)"
    and "quiet_inv (onFocusShop shop s)" and "quiet_inv (onDequeueNext shop cid s)"
  using assms
  by (simp_all add: onBuyerMessage_def onAiResult_def onCancel_def onHumanTakeover_def onDequeueNext_def
      Let_def case_prod_beta' quiet_processAiResult quiet_ensureState quiet_sync_queue quiet_rules countdown_cancel_def takeover_def)
     (simp add: onFocusShop_def quiet_inv_def)

interpretation quiet_sys: step_invariant orch_step quiet_inv no_human_send
proof
  fix s e
  assume "quiet_inv s" and "no_human_send e"
  then show "quiet_inv (orch_step e s)"
    by (cases e)
       (simp_all add: no_human_send_def quiet_handlers quiet_onSetMode quiet_countdown_elapsed quiet_settle)
qed

lemma new_orchestrator_quiet: "quiet_inv (new_orchestrator tick)"
  by (simp add: quiet_inv_def new_orchestrator_def)

subsection \<open>A busy conversation empties its queue\<close>

text \<open>
  \<open>serve_step\<close> answers the conversation's drain loop: it settles the sender's promise with what the
  platform returns (any attempt, successful or not), or resumes the loop after a send.
\<close>

definition drain_index :: "string \<Rightarrow> task list \<Rightarrow> nat" where
  "drain_index k ts = length (takeWhile (\<lambda>t. drain_key t \<noteq> Some k) ts)"

definition serve_step :: "(task \<Rightarrow> send_attempt) \<Rightarrow> string \<Rightarrow> orchestrator \<Rightarrow> orchestrator" where
  "serve_step ans k s =
     (let i = drain_index k (or_tasks s); t = or_tasks s ! i
      in settle_task i (case t of T_send _ _ _ _ \<Rightarrow> Attempt_value (ans t) | _ \<Rightarrow> Unit_value) s)"

fun serve_all :: "nat \<Rightarrow> (task \<Rightarrow> send_attempt) \<Rightarrow> string \<Rightarrow> orchestrator \<Rightarrow> orchestrator" where
  "serve_all 0 ans k s = s"
| "serve_all (Suc n) ans k s =
     (if isSending (or_serializer s) k then serve_all n ans k (serve_step ans k s) else s)"

text \<open>The settlements a drain loop still needs: a send may be tried twice, then the loop turns.\<close>

fun task_weight :: "task \<Rightarrow> nat" where
  "task_weight (T_send _ _ _ retry) = (if retry then 2 else 3)"
| "task_weight _ = 1"

definition weight :: "string \<Rightarrow> task list \<Rightarrow> nat" where
  "weight k ts = sum_list (map task_weight (filter (\<lambda>t. drain_key t = Some k) ts))"

definition work :: "string \<Rightarrow> orchestrator \<Rightarrow> nat" where
  "work k s = 3 * length (queue_of (or_serializer s) k) + weight k (or_tasks s)"

lemma weight_append [simp]: "weight k (ts @ us) = weight k ts + weight k us"
  by (simp add: weight_def)

lemma weight_Cons [simp]: "weight k (t # ts) = (if drain_key t = Some k then task_weight t else 0) + weight k ts"
  by (simp add: weight_def)

lemma weight_Nil [simp]: "weight k [] = 0"
  by (simp add: weight_def)

lemma weight_split:
  assumes "i < length ts"
  shows "weight k ts = weight k (take i ts @ drop (Suc i) ts) + (if drain_key (ts ! i) = Some k then task_weight (ts ! i) else 0)"
proof -
  have "weight k ts = weight k (take i ts @ [ts ! i] @ drop (Suc i) ts)"
    using assms by (simp add: id_take_nth_drop [symmetric])
  then show ?thesis by simp
qed

lemma drain_index_props:
  assumes "drains k ts \<noteq> 0"
  shows "drain_index k ts < length ts" and "drain_key (ts ! drain_index k ts) = Some k"
proof -
  have "\<exists>t\<in>set ts. drain_key t = Some k"
    using assms unfolding drains_def by (metis (mono_tags, lifting) filter_False length_0_conv)
  then show "drain_index k ts < length ts"
    unfolding drain_index_def by (metis (mono_tags, lifting) length_takeWhile_le le_neq_implies_less
        takeWhile_eq_all_conv takeWhile_eq_take take_all_iff order_refl)
  then show "drain_key (ts ! drain_index k ts) = Some k"
    unfolding drain_index_def using nth_length_takeWhile [of "\<lambda>t. drain_key t \<noteq> Some k" ts] by simp
qed

lemma work_after_send:
  "work (ser_key shop cid) (after_send shop cid r retry a s) \<le> work (ser_key shop cid) s + (if retry then 1 else 2)"
  by (simp add: after_send_def start_sender_def work_def Let_def)

lemma work_performSend: "work (ser_key shop cid) (performSend shop cid r s) \<le> work (ser_key shop cid) s + 3"
  by (simp add: performSend_def start_sender_def work_def Let_def case_prod_beta')

lemma work_frame [simp]:
  "work k (recordDecision d s) = work k s" "work k (sync_queue shop cid s) = work k s"
  by (simp_all add: work_def)

lemma work_drain_turn:
  "work (ser_key shop cid) (drain_turn shop cid b s) \<le> work (ser_key shop cid) s"
proof (cases "queue_of (or_serializer s) (ser_key shop cid)")
  case Nil
  then show ?thesis
    by (simp add: drain_turn_def Let_def case_prod_beta' fst_dequeue work_def)
next
  case (Cons r rest)
  define s1 where "s1 = s\<lparr>or_serializer := snd (dequeue (ser_key shop cid) (or_serializer s))\<rparr>"
  have "work (ser_key shop cid) s1 + 3 = work (ser_key shop cid) s"
    using Cons by (simp add: work_def s1_def)
  moreover have "\<exists>t. drain_turn shop cid b s = performSend shop cid r t \<and> work (ser_key shop cid) t = work (ser_key shop cid) s1"
    using Cons by (auto simp: drain_turn_def Let_def case_prod_beta' fst_dequeue s1_def)
  ultimately show ?thesis
    using work_performSend [of shop cid r] by (metis)
qed

lemma serve_step_progress:
  assumes "serial_inv s" and "isSending (or_serializer s) k"
  shows "serial_inv (serve_step ans k s)" and "work k (serve_step ans k s) < work k s"
proof -
  define i where "i = drain_index k (or_tasks s)"
  define s0 where "s0 = s\<lparr>or_tasks := take i (or_tasks s) @ drop (Suc i) (or_tasks s)\<rparr>"
  have "drains k (or_tasks s) \<noteq> 0"
    using assms by (simp add: serial_inv_def isSending_def)
  then have i: "i < length (or_tasks s)" and key: "drain_key (or_tasks s ! i) = Some k"
    unfolding i_def by (rule drain_index_props)+
  have w: "work k s = work k s0 + task_weight (or_tasks s ! i)"
    using weight_split [OF i, of k] key by (simp add: work_def s0_def)
  show "serial_inv (serve_step ans k s)"
    using assms(1) by (simp add: serve_step_def Let_def settle_serial split: task.splits)
  show "work k (serve_step ans k s) < work k s"
  proof (cases "or_tasks s ! i")
    case (T_send shop cid r retry)
    with i key have "serve_step ans k s = after_send shop cid r retry (ans (or_tasks s ! i)) s0" and "k = ser_key shop cid"
      by (simp_all add: serve_step_def Let_def settle_task_def s0_def flip: i_def)
    then have "work k (serve_step ans k s) \<le> work k s0 + (if retry then 1 else 2)"
      using work_after_send [of shop cid r retry "ans (or_tasks s ! i)" s0] by simp
    moreover have "work k s = work k s0 + (if retry then 2 else 3)"
      using w T_send by simp
    ultimately show ?thesis
      by (cases retry) simp_all
  next
    case (T_drain shop cid)
    with i key have step: "serve_step ans k s = resume_task (T_drain shop cid) Unit_value s0" and k: "k = ser_key shop cid"
      by (simp_all add: serve_step_def Let_def settle_task_def s0_def flip: i_def)
    let ?s1 = "sync_queue shop cid (s0\<lparr>or_serializer := markDone k (or_serializer s0)\<rparr>)"
    have "work k ?s1 = work k s0"
      by (simp add: work_def)
    then have "work k (resume_task (T_drain shop cid) Unit_value s0) \<le> work k s0"
      using work_drain_turn [of shop cid False ?s1] by (simp add: k)
    with w T_drain step show ?thesis by simp
  qed (use key in simp_all)
qed

lemma serve_all_idle:
  "serial_inv s \<Longrightarrow> work k s \<le> n \<Longrightarrow>
     serial_inv (serve_all n ans k s) \<and> \<not> isSending (or_serializer (serve_all n ans k s)) k"
proof (induction n arbitrary: s)
  case 0
  have "drains k (or_tasks s) = 0"
  proof (rule ccontr)
    assume "drains k (or_tasks s) \<noteq> 0"
    then have "0 < weight k (or_tasks s)"
      using drain_index_props [of k "or_tasks s"] weight_split [of _ "or_tasks s" k]
      by (cases "or_tasks s ! drain_index k (or_tasks s)") (fastforce split: if_splits)+
    with "0.prems" show False by (simp add: work_def)
  qed
  then show ?case
    using "0.prems"(1) by (auto simp: serial_inv_def isSending_def)
next
  case (Suc n)
  then show ?case
    using serve_step_progress [of s k ans] by (cases "isSending (or_serializer s) k") simp_all
qed

lemma work_bound:
  assumes "serial_inv s"
  shows "work k s \<le> 3 * (length (queue_of (or_serializer s) k) + 1)"
proof -
  have "weight k ts \<le> 3 * drains k ts" for ts
  proof (induction ts)
    case (Cons t ts)
    moreover have "task_weight t \<le> 3" by (cases t) auto
    ultimately show ?case by simp
  qed simp
  moreover have "drains k (or_tasks s) \<le> 1"
    using assms by (cases "k \<in> se_sending (or_serializer s)") (auto simp: serial_inv_def)
  ultimately have "weight k (or_tasks s) \<le> 3"
    by (metis le_trans mult.right_neutral mult_le_mono2)
  then show ?thesis by (simp add: work_def)
qed

end
