(* ===== verification/Orchestrator_Setup.thy ===== *)
theory Orchestrator_Setup imports Orchestrator_Safety begin

text \<open>
  Construction, seeding, snapshots and the per-shop registry:
  the constructor, \<open>seedConversation\<close>, \<open>snapshot\<close> and \<open>toSnapshot\<close> of
  \<open>packages/orchestrator/src/core/conversation-orchestrator.ts\<close>, and
  \<open>packages/orchestrator/src/core/shop-orchestrator-registry.ts\<close>. A seed is an untyped object; each
  field is an option that is \<open>None\<close> when the field is absent or has another type than the code tests
  for. The default reply text of a seeded suggestion lies outside Latin-1 and is the parameter
  \<open>dflt\<close>.
\<close>

subsection \<open>Seeds\<close>

record seed_suggestion =
  ss_reply :: "string option"
  ss_generation :: "int option"
  ss_decision :: "transfer_decision option"

record seed_countdown =
  sc_enabled :: "bool option"
  sc_remaining_ticks :: "int option"
  sc_tick_ms :: "int option"

record seed =
  sd_shop_id :: "string option"
  sd_mode :: "string option"
  sd_current_generation :: "int option"
  sd_last_message_id :: "string option"
  sd_suggestion :: "seed_suggestion option"
  sd_pending_suggestion :: "bool option"
  sd_countdown :: "seed_countdown option"
  sd_sending :: "bool option"
  sd_queue :: "string option list option"  \<comment> \<open>\<open>None\<close> for an entry that is no string\<close>
  sd_consecutive_replies :: "int option"
  sd_first_reply_at :: "int option"
  sd_ai_inflight :: "bool option"

definition seed_basics :: "seed \<Rightarrow> conv_state \<Rightarrow> conv_state" where
  "seed_basics sd c =
     (let c1 = (case sd_mode sd of
            Some m \<Rightarrow> c\<lparr>cv_mode := (if m = ''full_auto'' then Full_auto else Human_review)\<rparr> | None \<Rightarrow> c);
          c2 = (case sd_current_generation sd of
            Some g \<Rightarrow> c1\<lparr>cv_token := token_set g (cv_token c1)\<rparr> | None \<Rightarrow> c1)
      in case sd_last_message_id sd of Some m \<Rightarrow> c2\<lparr>cv_lastMessageId := Some m\<rparr> | None \<Rightarrow> c2)"

definition seed_suggest :: "string \<Rightarrow> int \<Rightarrow> seed \<Rightarrow> conv_state \<Rightarrow> conv_state" where
  "seed_suggest dflt now sd c =
     (case sd_suggestion sd of
        Some s \<Rightarrow>
          c\<lparr>cv_suggestion := Some (createSuggestion now
              (case ss_reply s of Some r \<Rightarrow> r | None \<Rightarrow> dflt)
              (case ss_generation s of Some g \<Rightarrow> g | None \<Rightarrow> token_current (cv_token c))
              (cv_mode c) (ss_decision s))\<rparr>
      | None \<Rightarrow>
          if sd_pending_suggestion sd = Some True
          then c\<lparr>cv_suggestion := Some (createSuggestion now dflt (token_current (cv_token c)) (cv_mode c) None)\<rparr>
          else c)"

definition seed_count :: "int \<Rightarrow> seed \<Rightarrow> conv_state \<Rightarrow> conv_state" where
  "seed_count defaultTick sd c =
     (case sd_countdown sd of
        Some d \<Rightarrow>
          c\<lparr>cv_countdown :=
             \<lparr>cs_enabled = (sc_enabled d \<noteq> Some False),
              cs_remainingTicks = (case sc_remaining_ticks d of Some n \<Rightarrow> n | None \<Rightarrow> 0),
              cs_tickMs = (case sc_tick_ms d of Some n \<Rightarrow> n | None \<Rightarrow> defaultTick)\<rparr>\<rparr>
      | None \<Rightarrow> c)"

definition seed_requests :: "string \<Rightarrow> string \<Rightarrow> string option list \<Rightarrow> conv_state \<Rightarrow> send_request list" where
  "seed_requests shop cid vs c =
     map (\<lambda>v. \<lparr>sr_shopId = shop, sr_conversationId = (case v of Some x \<Rightarrow> x | None \<Rightarrow> cid), sr_reply = [],
              sr_generation = token_current (cv_token c), sr_mode = cv_mode c\<rparr>) vs"

definition seed_counters :: "seed \<Rightarrow> conv_state \<Rightarrow> conv_state" where
  "seed_counters sd c =
     (let c1 = (case sd_consecutive_replies sd of Some n \<Rightarrow> c\<lparr>cv_consecutiveReplies := n\<rparr> | None \<Rightarrow> c);
          c2 = (case sd_first_reply_at sd of Some n \<Rightarrow> c1\<lparr>cv_firstReplyAt := n\<rparr> | None \<Rightarrow> c1)
      in case sd_ai_inflight sd of Some b \<Rightarrow> c2\<lparr>cv_aiInflight := b\<rparr> | None \<Rightarrow> c2)"

definition seedConversation :: "string \<Rightarrow> string \<Rightarrow> string \<Rightarrow> seed \<Rightarrow> orchestrator \<Rightarrow> orchestrator" where
  "seedConversation dflt shop cid sd s =
     (let key = ser_key shop cid;
          s1 = upd_conv shop cid (\<lambda>c. seed_count (or_countdownTickMs s) sd
                 (seed_suggest dflt (or_now s) sd (seed_basics sd c))) s;
          s2 = (case sd_sending sd of
                  Some b \<Rightarrow> upd_conv shop cid (\<lambda>c. c\<lparr>cv_sending := b\<rparr>)
                              (s1\<lparr>or_serializer := setSending key b (or_serializer s1)\<rparr>)
                | None \<Rightarrow> s1);
          s3 = (case sd_queue sd of
                  Some vs \<Rightarrow>
                    let se = seedQueue key (seed_requests shop cid vs (conv shop cid s2)) (or_serializer s2)
                    in upd_conv shop cid (\<lambda>c. c\<lparr>cv_sendQueue := queue_of se key\<rparr>) (s2\<lparr>or_serializer := se\<rparr>)
                | None \<Rightarrow> s2)
      in upd_conv shop cid (seed_counters sd) s3)"

subsection \<open>Construction\<close>

text \<open>
  The constructor seeds the entries of \<open>initialState\<close> in the order of \<open>Object.entries\<close>. A key with a NUL
  separator names shop and conversation; otherwise the shop comes from the seed, by default \<open>s1\<close>.
\<close>

definition seed_entry :: "string \<Rightarrow> string \<times> seed \<Rightarrow> orchestrator \<Rightarrow> orchestrator" where
  "seed_entry dflt e s =
     (let (seedKey, sd) = e;
          shop = takeWhile (\<lambda>ch. ch \<noteq> CHR 0x00) seedKey
      in if CHR 0x00 \<in> set seedKey
         then seedConversation dflt shop (drop (length shop + 1) seedKey) sd s
         else seedConversation dflt (case sd_shop_id sd of Some x \<Rightarrow> x | None \<Rightarrow> ''s1'') seedKey sd s)"

record orch_options =
  oo_countdownTickMs :: "int option"
  oo_initialState :: "(string \<times> seed) list"

definition construct :: "string \<Rightarrow> orch_options \<Rightarrow> orchestrator" where
  "construct dflt opts =
     run (seed_entry dflt) (oo_initialState opts)
       (new_orchestrator (case oo_countdownTickMs opts of Some t \<Rightarrow> t | None \<Rightarrow> 1000))"

lemma seed_entry_key:
  assumes "CHR 0x00 \<notin> set shop"
  shows "seed_entry dflt (ser_key shop cid, sd) s = seedConversation dflt shop cid sd s"
proof -
  have "takeWhile (\<lambda>ch. ch \<noteq> CHR 0x00) (shop @ CHR 0x00 # cid) = shop"
    using assms by (induction shop) auto
  then show ?thesis
    by (simp add: seed_entry_def ser_key_def Let_def)
qed

text \<open>A seed touches only its conversation and its key.\<close>

lemma seedConversation_other:
  assumes "k \<noteq> ser_key shop cid"
  shows "map_of (or_conversations (seedConversation dflt shop cid sd s)) k = map_of (or_conversations s) k"
    and "queue_of (or_serializer (seedConversation dflt shop cid sd s)) k = queue_of (or_serializer s) k"
    and "k \<in> se_sending (or_serializer (seedConversation dflt shop cid sd s)) \<longleftrightarrow> k \<in> se_sending (or_serializer s)"
  using assms
  by (auto simp: seedConversation_def Let_def upd_conv_def setSending_def seedQueue_def queue_of_def
      split: option.splits)

lemma seedConversation_frame:
  "or_tasks (seedConversation dflt shop cid sd s) = or_tasks s"
  "or_effects (seedConversation dflt shop cid sd s) = or_effects s"
  "or_decisions (seedConversation dflt shop cid sd s) = or_decisions s"
  by (simp_all add: seedConversation_def Let_def split: option.splits)

text \<open>Seeding gives no work away: a constructed orchestrator has sent and scheduled nothing.\<close>

lemma construct_idle:
  "or_tasks (construct dflt opts) = []" "or_effects (construct dflt opts) = []"
  "or_decisions (construct dflt opts) = []"
proof -
  have "or_tasks (run (seed_entry dflt) es s) = or_tasks s \<and> or_effects (run (seed_entry dflt) es s) = or_effects s \<and>
      or_decisions (run (seed_entry dflt) es s) = or_decisions s" for es s
  proof (induction es arbitrary: s)
    case (Cons e es)
    then show ?case
      by (cases e) (simp add: seed_entry_def Let_def seedConversation_frame)
  qed simp
  then show "or_tasks (construct dflt opts) = []" "or_effects (construct dflt opts) = []"
    "or_decisions (construct dflt opts) = []"
    by (simp_all add: construct_def new_orchestrator_def)
qed

text \<open>A seed that neither switches to full automation nor enables a countdown.\<close>

definition quiet_seed :: "seed \<Rightarrow> bool" where
  "quiet_seed sd \<longleftrightarrow> sd_mode sd \<noteq> Some ''full_auto'' \<and>
     (case sd_countdown sd of Some d \<Rightarrow> sc_enabled d = Some False | None \<Rightarrow> True)"

lemma quiet_seedConversation:
  assumes "quiet_inv s" and "quiet_seed sd"
  shows "quiet_inv (seedConversation dflt shop cid sd s)"
proof -
  have basics: "quiet_conv (seed_count t sd (seed_suggest dflt now sd (seed_basics sd c)))" if "quiet_conv c" for t now c
    using that assms(2)
    by (auto simp: quiet_conv_def quiet_seed_def seed_basics_def seed_suggest_def seed_count_def Let_def split: option.splits)
  have counters: "quiet_conv (seed_counters sd c) = quiet_conv c" for c
    by (simp add: quiet_conv_def seed_counters_def Let_def split: option.splits)
  have upd: "quiet_inv (upd_conv shop cid f t)" if "quiet_inv t" and "\<And>c. quiet_conv c \<Longrightarrow> quiet_conv (f c)" for f t
    using that quiet_conv_conv by (simp add: quiet_upd_conv)
  have flag: "quiet_conv (c\<lparr>cv_sending := b\<rparr>) = quiet_conv c" "quiet_conv (c\<lparr>cv_sendQueue := q\<rparr>) = quiet_conv c" for c b q
    by (simp_all add: quiet_conv_def)
  show ?thesis
    unfolding seedConversation_def Let_def
    by (intro upd) (simp_all add: upd counters basics assms(1) flag split: option.split)
qed

lemma construct_quiet:
  assumes "list_all (\<lambda>p. quiet_seed (snd p)) (oo_initialState opts)"
  shows "quiet_inv (construct dflt opts)"
proof -
  have "quiet_inv (run (seed_entry dflt) es s)" if "quiet_inv s" and "list_all (\<lambda>p. quiet_seed (snd p)) es" for es s
    using that by (induction es arbitrary: s) (auto simp: seed_entry_def Let_def quiet_seedConversation)
  then show ?thesis
    unfolding construct_def using assms new_orchestrator_quiet by blast
qed

subsection \<open>Snapshots\<close>

record conversation_snapshot =
  sn_shopId :: string
  sn_conversationId :: string
  sn_mode :: review_mode
  sn_generation :: int
  sn_suggestion :: "suggestion option"
  sn_countdown :: countdown_state
  sn_sending :: bool
  sn_sendQueue :: "send_request list"
  sn_aiInflight :: bool
  sn_consecutiveReplies :: int
  sn_firstReplyAt :: int
  sn_lastMessageId :: "string option"

definition toSnapshot :: "conv_state \<Rightarrow> conversation_snapshot" where
  "toSnapshot c =
     \<lparr>sn_shopId = cv_shopId c, sn_conversationId = cv_conversationId c, sn_mode = cv_mode c,
      sn_generation = token_current (cv_token c), sn_suggestion = cv_suggestion c,
      sn_countdown = cv_countdown c, sn_sending = cv_sending c, sn_sendQueue = cv_sendQueue c,
      sn_aiInflight = cv_aiInflight c, sn_consecutiveReplies = cv_consecutiveReplies c,
      sn_firstReplyAt = cv_firstReplyAt c, sn_lastMessageId = cv_lastMessageId c\<rparr>"

datatype snapshot_result =
    One conversation_snapshot
  | Of_shop "conversation_snapshot list"
  | Whole "string option" "decision_record list" "conversation_snapshot list"

definition snapshot :: "string option \<Rightarrow> string option \<Rightarrow> orchestrator \<Rightarrow> snapshot_result \<times> orchestrator" where
  "snapshot shopId conversationId s =
     (case (present shopId, present conversationId) of
        (Some shop, Some cid) \<Rightarrow>
          let s1 = ensureState shop cid s in (One (toSnapshot (conv shop cid s1)), s1)
      | (Some shop, None) \<Rightarrow>
          (Of_shop (map (\<lambda>p. toSnapshot (snd p)) (filter (\<lambda>p. cv_shopId (snd p) = shop) (or_conversations s))), s)
      | (None, _) \<Rightarrow>
          (Whole (or_focusedShopId s) (or_decisions s) (map (\<lambda>p. toSnapshot (snd p)) (or_conversations s)), s))"

subsection \<open>The registry\<close>

record registry =
  rg_options :: orch_options
  rg_shops :: "(string \<times> orchestrator) list"
  rg_focusedShopId :: "string option"
  rg_decisions :: "decision_record list"

definition new_registry :: "orch_options \<Rightarrow> registry" where
  "new_registry opts = \<lparr>rg_options = opts, rg_shops = [], rg_focusedShopId = None, rg_decisions = []\<rparr>"

definition rg_get :: "string \<Rightarrow> registry \<Rightarrow> orchestrator option" where
  "rg_get shop rg = map_of (rg_shops rg) shop"

definition getOrCreate :: "string \<Rightarrow> string \<Rightarrow> registry \<Rightarrow> orchestrator \<times> registry" where
  "getOrCreate dflt shop rg =
     (case rg_get shop rg of
        Some o1 \<Rightarrow> (o1, rg)
      | None \<Rightarrow> let o1 = construct dflt (rg_options rg) in (o1, rg\<lparr>rg_shops := map_set shop o1 (rg_shops rg)\<rparr>))"

definition shop_decision :: "string \<Rightarrow> string \<Rightarrow> decision_record" where
  "shop_decision name shop = (mk_decision name shop [])\<lparr>dr_conversation := None\<rparr>"

definition focusShop :: "string \<Rightarrow> registry \<Rightarrow> registry" where
  "focusShop shop rg =
     (if rg_focusedShopId rg \<noteq> Some shop
      then rg\<lparr>rg_focusedShopId := Some shop, rg_decisions := rg_decisions rg @ [shop_decision ''focus_switch'' shop]\<rparr>
      else rg)"

definition receiveBuyerMessage :: "string \<Rightarrow> string \<Rightarrow> string \<Rightarrow> buyer_message \<Rightarrow> registry \<Rightarrow> registry" where
  "receiveBuyerMessage dflt shop cid m rg =
     (let otherBusy = list_ex (\<lambda>(candidate, o1). candidate \<noteq> shop \<and> isBusy None o1) (rg_shops rg);
          rg1 = (if otherBusy then rg\<lparr>rg_decisions := rg_decisions rg @ [shop_decision ''concurrent_ok'' shop]\<rparr> else rg);
          (o1, rg2) = getOrCreate dflt shop rg1;
          rg3 = (if present (rg_focusedShopId rg2) = None then rg2\<lparr>rg_focusedShopId := Some shop\<rparr> else rg2)
      in rg3\<lparr>rg_shops := map_set shop (onBuyerMessage shop cid m o1) (rg_shops rg3)\<rparr>)"

definition decisionsSnapshot :: "registry \<Rightarrow> decision_record list" where
  "decisionsSnapshot rg = rg_decisions rg @ concat (map (\<lambda>p. or_decisions (snd p)) (rg_shops rg))"

text \<open>An event of the registry: a call of its own, or an event of one shop's orchestrator.\<close>

datatype registry_event =
    Receive string string buyer_message
  | Focus string
  | At_shop string orch_event

definition registry_step :: "string \<Rightarrow> registry_event \<Rightarrow> registry \<Rightarrow> registry" where
  "registry_step dflt e rg = (case e of
       Receive shop cid m \<Rightarrow> receiveBuyerMessage dflt shop cid m rg
     | Focus shop \<Rightarrow> focusShop shop rg
     | At_shop shop oe \<Rightarrow>
         let (o1, rg1) = getOrCreate dflt shop rg
         in rg1\<lparr>rg_shops := map_set shop (orch_step oe o1) (rg_shops rg1)\<rparr>)"

fun concerns :: "string \<Rightarrow> registry_event \<Rightarrow> bool" where
  "concerns shop (Receive shop' _ _) = (shop' = shop)"
| "concerns shop (Focus _) = False"
| "concerns shop (At_shop shop' _) = (shop' = shop)"

text \<open>What a shop's orchestrator sees of a registry event.\<close>

fun seen_by :: "registry_event \<Rightarrow> orch_event option" where
  "seen_by (Receive shop cid m) = Some (Buyer_message shop cid m)"
| "seen_by (Focus _) = None"
| "seen_by (At_shop _ oe) = Some oe"

definition shop_view :: "string \<Rightarrow> string \<Rightarrow> registry \<Rightarrow> orchestrator" where
  "shop_view dflt shop rg = (case rg_get shop rg of Some o1 \<Rightarrow> o1 | None \<Rightarrow> construct dflt (rg_options rg))"

lemma getOrCreate_view:
  "fst (getOrCreate dflt shop rg) = shop_view dflt shop rg"
  "rg_options (snd (getOrCreate dflt shop rg)) = rg_options rg"
  "shop' \<noteq> shop \<Longrightarrow> map_of (rg_shops (snd (getOrCreate dflt shop rg))) shop' = map_of (rg_shops rg) shop'"
  by (simp_all add: getOrCreate_def shop_view_def Let_def rg_get_def split: option.splits)

lemma getOrCreate_decisions [simp]:
  "getOrCreate dflt shop (rg\<lparr>rg_decisions := d\<rparr>) =
     (fst (getOrCreate dflt shop rg), (snd (getOrCreate dflt shop rg))\<lparr>rg_decisions := d\<rparr>)"
  by (simp add: getOrCreate_def rg_get_def Let_def split: option.splits)

lemma registry_step_options: "rg_options (registry_step dflt e rg) = rg_options rg"
  by (cases e)
     (simp_all add: registry_step_def receiveBuyerMessage_def focusShop_def Let_def case_prod_beta' getOrCreate_view)

lemma registry_step_view:
  "shop_view dflt shop (registry_step dflt e rg) =
     (case seen_by e of
        Some oe \<Rightarrow> if concerns shop e then orch_step oe (shop_view dflt shop rg) else shop_view dflt shop rg
      | None \<Rightarrow> shop_view dflt shop rg)"
  by (cases e; cases "concerns shop e")
     (simp_all add: registry_step_def receiveBuyerMessage_def focusShop_def Let_def case_prod_beta'
       getOrCreate_view shop_view_def rg_get_def split: option.splits)

text \<open>
  The registry refines independent orchestrators: a shop's state after any run of the registry is the
  run of its own orchestrator over the events that concern it.
\<close>

definition shop_events :: "string \<Rightarrow> registry_event list \<Rightarrow> orch_event list" where
  "shop_events shop es = List.map_filter seen_by (filter (concerns shop) es)"

lemma registry_refines:
  "shop_view dflt shop (run (registry_step dflt) es rg) = run orch_step (shop_events shop es) (shop_view dflt shop rg)"
proof (induction es arbitrary: rg)
  case Nil
  then show ?case by (simp add: shop_events_def List.map_filter_simps)
next
  case (Cons e es)
  have "shop_view dflt shop (run (registry_step dflt) (e # es) rg) =
      run orch_step (shop_events shop es) (shop_view dflt shop (registry_step dflt e rg))"
    using Cons by simp
  then show ?case
    by (cases e; cases "concerns shop e")
       (simp_all add: registry_step_view shop_events_def List.map_filter_simps)
qed

end
