(* ===== verification/Desktop_Ipc_Props.thy ===== *)
theory Desktop_Ipc_Props imports Desktop_Ipc Orchestrator_Setup begin

text \<open>
  What the boundary of the main process guarantees to a renderer it does not trust: the queries answer with the
  data of the merchant of the workspace only, and the commands reach the orchestrator through the guard, as events the
  orchestrator's properties cover.
\<close>

subsection \<open>The guard\<close>

text \<open>The schema of the request of a command.\<close>

fun request_schema :: "orchestrator_command \<Rightarrow> string" where
  "request_schema (Ipc_set_mode _ _ _) = ''fastwork:desktop:set-mode-request''"
| "request_schema (Ipc_manual_send _ _) = ''fastwork:desktop:manual-send-request''"
| "request_schema (Ipc_no_save_send _ _) = ''fastwork:desktop:no-save-send-request''"
| "request_schema (Ipc_cancel _ _) = ''fastwork:desktop:cancel-request''"
| "request_schema (Ipc_focus _) = ''fastwork:desktop:focus-request''"

lemmas channel_defs = isAllowedChannel_def ALL_CHANNELS_def QUERY_CHANNELS_def COMMAND_CHANNELS_def EVENT_CHANNELS_def

lemma command_is_validated:
  "validateRequest req_ok trusted (command_channel c) c = None \<longleftrightarrow> trusted \<and> req_ok (request_schema c) c"
  by (cases c) (simp_all add: validateRequest_def channel_defs invalid_unless_def)

lemma guarded_command:
  "snd (handle_ipc req_ok res_ok twc sender (command_channel c) handle_command c s) =
     (if twc \<noteq> None \<and> req_ok (request_schema c) c then orch_step (command_event c) s else s)"
  using command_is_validated [of req_ok "twc \<noteq> None" c]
  by (auto simp: handle_ipc_def guard_handler_def handle_command_def split: option.splits)

text \<open>A guard never throws, and it answers with data only when request and answer are valid.\<close>

theorem guard_answers_valid_data:
  assumes "guard_handler req_ok res_ok trusted channel handler payload s = (Res_ok data, s')"
  shows "isAllowedChannel channel \<and> trusted \<and> handler payload s = (Returned (Res_ok data), s') \<and> validateResponse res_ok channel data = None"
proof -
  have v: "validateRequest req_ok trusted channel payload = None"
    using assms by (cases "validateRequest req_ok trusted channel payload") (auto simp: guard_handler_def)
  then have "isAllowedChannel channel \<and> trusted" by (auto simp: validateRequest_def split: if_splits)
  with assms v show ?thesis
    by (auto simp: guard_handler_def split: prod.splits handler_end.splits desktop_result.splits option.splits)
qed

text \<open>All handlers are on allowed channels; the four channels of the store knowledge have none.\<close>

theorem registration_succeeds:
  "\<exists>channels. registerIpc = Inr channels \<and> map rc_channel channels = QUERY_HANDLER_CHANNELS @ COMMAND_HANDLER_CHANNELS
     \<and> set (QUERY_CHANNELS @ COMMAND_CHANNELS) - set (map rc_channel channels)
       = {''store_knowledge.query'', ''store_knowledge.list'', ''store_knowledge.upsert'', ''store_knowledge.delete''}"
proof (intro exI conjI)
  let ?channels = "map (\<lambda>k. \<lparr>rc_channel = k, rc_direction = ''query'', rc_handlerOwner = ''query-handlers''\<rparr>) QUERY_HANDLER_CHANNELS
      @ map (\<lambda>k. \<lparr>rc_channel = k, rc_direction = ''command'', rc_handlerOwner = ''command-handlers''\<rparr>) COMMAND_HANDLER_CHANNELS"
  show "registerIpc = Inr ?channels" by code_simp
  show channels: "map rc_channel ?channels = QUERY_HANDLER_CHANNELS @ COMMAND_HANDLER_CHANNELS" by (simp add: comp_def)
  show "set (QUERY_CHANNELS @ COMMAND_CHANNELS) - set (map rc_channel ?channels)
      = {''store_knowledge.query'', ''store_knowledge.list'', ''store_knowledge.upsert'', ''store_knowledge.delete''}"
    unfolding channels by code_simp
qed

text \<open>The sender of a request plays no part: any web contents that reaches the channel is answered.\<close>

theorem sender_is_not_checked:
  "handle_ipc req_ok res_ok (Some trusted) stranger channel handler payload s
   = handle_ipc req_ok res_ok (Some trusted) trusted channel handler payload s"
  by (simp add: handle_ipc_def)

subsection \<open>Commands\<close>

text \<open>A request that can make the orchestrator send, and one that the guard lets through.\<close>

fun may_send :: "orchestrator_command \<Rightarrow> bool" where
  "may_send (Ipc_manual_send _ _) = True"
| "may_send (Ipc_no_save_send _ _) = True"
| "may_send (Ipc_set_mode _ _ m) = (m \<noteq> Human_review)"
| "may_send _ = False"

fun harmless_input :: "(string \<Rightarrow> orchestrator_command \<Rightarrow> bool) \<Rightarrow> desktop_input \<Rightarrow> bool" where
  "harmless_input req_ok (Main_event e) = no_human_send e"
| "harmless_input req_ok (Renderer_request twc sender c) = (twc = None \<or> \<not> req_ok (request_schema c) c \<or> \<not> may_send c)"

lemma command_no_human_send: "\<not> may_send c \<Longrightarrow> no_human_send (command_event c)"
  by (cases c) (simp_all add: no_human_send_def)

interpretation quiet_desktop: step_invariant "desktop_step req_ok res_ok" quiet_inv "harmless_input req_ok" for req_ok res_ok
proof
  fix s e assume "quiet_inv s" "harmless_input req_ok e"
  then show "quiet_inv (desktop_step req_ok res_ok e s)"
    by (cases e) (auto simp: guarded_command intro: quiet_sys.step_keeps command_no_human_send)
qed


definition renderer_inputs :: "desktop_input list" where
  "renderer_inputs = [Main_event (Buyer_message ''s'' ''c'' \<lparr>bm_message_id = Some ''m'', bm_buyer = None, bm_content = Some ''q'', bm_message = None\<rparr>),
     Renderer_request None 7 (Ipc_manual_send ''s'' ''c''), Renderer_request (Some 1) 7 (Ipc_focus ''s''),
     Renderer_request (Some 1) 1 (Ipc_set_mode ''s'' None Full_auto)]"


subsection \<open>Queries\<close>

text \<open>
  What a workspace may see: the conversations of its merchant, their messages, and the stores of its merchant.
\<close>

definition own_conversations :: "workspace_context \<Rightarrow> database \<Rightarrow> normalized_conversation list" where
  "own_conversations w db = filter (\<lambda>c. nc_merchantId c = wc_merchantId w) (db_conversations db)"

definition own_messages :: "workspace_context \<Rightarrow> database \<Rightarrow> message_row list" where
  "own_messages w db = filter (\<lambda>r. mr_conversation_id r \<in> nc_id ` set (own_conversations w db)) (db_messages db)"

definition own_stores :: "workspace_context \<Rightarrow> identity_tables \<Rightarrow> store_record list" where
  "own_stores w t = filter (\<lambda>s. sr_merchantId s = wc_merchantId w) (it_stores t)"

text \<open>Primary keys, and conversations that belong to the merchant of their store.\<close>

definition consistent :: "database \<Rightarrow> identity_tables \<Rightarrow> bool" where
  "consistent db t \<longleftrightarrow> distinct (map nc_id (db_conversations db)) \<and> distinct (map sr_id (it_stores t))
     \<and> (\<forall>c\<in>set (db_conversations db). \<forall>s\<in>set (it_stores t). nc_storeId c = sr_id s \<longrightarrow> nc_merchantId c = sr_merchantId s)"

lemma find_own:
  assumes "distinct (map key xs)"
  shows "find (\<lambda>x. key x = i \<and> P x) xs = (case find (\<lambda>x. key x = i) xs of Some x \<Rightarrow> if P x then Some x else None | None \<Rightarrow> None)"
  using assms
proof (induction xs)
  case (Cons x xs)
  show ?case
  proof (cases "key x = i")
    case True
    then have "\<forall>y\<in>set xs. key y \<noteq> i" using Cons.prems by (auto simp: image_iff)
    then have "find (\<lambda>y. key y = i \<and> P y) xs = None" by (auto simp: find_None_iff)
    with True show ?thesis by simp
  qed (use Cons in simp)
qed simp

lemma find_filter: "find P (filter Q xs) = find (\<lambda>x. P x \<and> Q x) xs"
  by (induction xs) auto

lemma owned_conversation:
  assumes "consistent db t"
  shows "find (\<lambda>c. nc_id c = i) (own_conversations w db)
    = (case findConversation i db of Some c \<Rightarrow> if containsMerchant w (Some (nc_merchantId c)) then Some c else None | None \<Rightarrow> None)"
  using assms by (simp add: own_conversations_def find_filter find_own consistent_def findConversation_def containsMerchant_def split: option.split)

lemma owned_store:
  assumes "consistent db t"
  shows "find (\<lambda>s. sr_id s = i) (own_stores w t)
    = (case findStore i t of Some s \<Rightarrow> if containsMerchant w (Some (sr_merchantId s)) then Some s else None | None \<Rightarrow> None)"
  using assms by (simp add: own_stores_def find_filter find_own consistent_def findStore_def containsMerchant_def split: option.split)

lemma stores_of_own: "listStoresByMerchant (wc_merchantId w) t = sort_key sr_id (own_stores w t)"
  by (simp add: listStoresByMerchant_def own_stores_def)

lemma rows_of_merchant: "listByMerchant (wc_merchantId w) db = sort_key nc_id (own_conversations w db)"
  by (simp add: listByMerchant_def own_conversations_def)

lemma rows_of_store:
  assumes "consistent db t" "s \<in> set (it_stores t)" "sr_merchantId s = wc_merchantId w"
  shows "listByStore (sr_id s) db = sort_key nc_id (filter (\<lambda>c. nc_storeId c = sr_id s) (own_conversations w db))"
proof -
  have "filter (\<lambda>c. nc_storeId c = sr_id s) (db_conversations db)
      = filter (\<lambda>c. nc_storeId c = sr_id s) (own_conversations w db)"
    unfolding own_conversations_def filter_filter
    by (rule filter_cong) (use assms in \<open>auto simp: consistent_def\<close>)
  then show ?thesis by (simp add: listByStore_def)
qed

text \<open>The two queries, written over what the workspace may see.\<close>

definition scope_rows :: "queue_scope \<Rightarrow> normalized_conversation list \<Rightarrow> normalized_conversation list" where
  "scope_rows scope cs = (case scope of All_stores \<Rightarrow> cs | Specific_store i \<Rightarrow> filter (\<lambda>c. nc_storeId c = i) cs)"

definition scope_known :: "queue_scope \<Rightarrow> store_record list \<Rightarrow> bool" where
  "scope_known scope stores = (case scope of All_stores \<Rightarrow> True | Specific_store i \<Rightarrow> i \<in> sr_id ` set stores)"

definition own_list_result ::
  "workspace_context \<Rightarrow> platform_account list \<Rightarrow> queue_scope \<Rightarrow> string option \<Rightarrow> normalized_conversation list \<Rightarrow> store_record list
    \<Rightarrow> conversation_list_result desktop_result" where
  "own_list_result w accounts scope platform cs stores =
     (if \<not> scope_known scope stores then err NOT_FOUND ''unknown store''
      else Res_ok (list_result \<lparr>it_stores = stores, it_accounts = accounts\<rparr> w scope platform (sort_key nc_id (scope_rows scope cs))))"

lemma platform_matches_accounts: "platform_matches \<lparr>it_stores = stores, it_accounts = it_accounts t\<rparr> = platform_matches t"
  by (intro ext) (simp add: platform_matches_def findAccount_def split: option.split)

lemma list_result_own: "list_result t w scope platform rows = list_result \<lparr>it_stores = own_stores w t, it_accounts = it_accounts t\<rparr> w scope platform rows"
  by (simp add: list_result_def listStoresByMerchant_def own_stores_def platform_matches_accounts)

lemma conversationsList_own:
  assumes c: "consistent db t"
  shows "conversationsList (Some w) db t req = (case Option.bind req cl_scope of
      None \<Rightarrow> err INVALID_REQUEST ''missing queue scope''
    | Some scope \<Rightarrow> if Option.bind req cl_platform \<noteq> None \<and> \<not> isPlatformId (the (Option.bind req cl_platform))
        then err INVALID_REQUEST ''unknown platform''
        else own_list_result w (it_accounts t) scope (Option.bind req cl_platform) (own_conversations w db) (own_stores w t))"
proof (cases "Option.bind req cl_scope")
  case (Some scope)
  show ?thesis
  proof (cases scope)
    case All_stores
    then show ?thesis
      using Some list_result_own [of t w]
      by (simp add: conversationsList_def own_list_result_def scope_known_def scope_rows_def rows_of_merchant Let_def)
  next
    case (Specific_store i)
    show ?thesis
    proof (cases "find (\<lambda>s. sr_id s = i) (own_stores w t)")
      case None
      then have "i \<notin> sr_id ` set (own_stores w t)" by (auto simp: find_None_iff)
      moreover have "case findStore i t of Some s \<Rightarrow> \<not> containsMerchant w (Some (sr_merchantId s)) | None \<Rightarrow> True"
        using None owned_store [OF c, of i w] by (auto split: option.splits if_splits)
      ultimately show ?thesis
        using Some Specific_store
        by (auto simp: conversationsList_def own_list_result_def scope_known_def Let_def split: option.splits)
    next
      case (Some s)
      then have s: "sr_id s = i" "s \<in> set (own_stores w t)"
        by (auto simp: find_Some_iff)
      then have "s \<in> set (it_stores t)" "sr_merchantId s = wc_merchantId w" by (auto simp: own_stores_def)
      then have rows: "listByStore i db = sort_key nc_id (filter (\<lambda>c. nc_storeId c = i) (own_conversations w db))"
        using rows_of_store [OF c] s(1) by auto
      have "findStore i t = Some s \<and> containsMerchant w (Some (sr_merchantId s))"
        using Some owned_store [OF c, of i w] by (auto split: option.splits if_splits)
      then show ?thesis
        using \<open>Option.bind req cl_scope = Some scope\<close> Specific_store s rows list_result_own [of t w]
        by (auto simp: conversationsList_def own_list_result_def scope_known_def scope_rows_def Let_def)
    qed
  qed
qed (simp add: conversationsList_def)

lemma listMessages_own:
  assumes c: "consistent db t"
  shows "conversationsListMessages (Some w) db cid =
    (if cid = None \<or> cid = Some [] then err INVALID_REQUEST ''missing conversation id''
     else case find (\<lambda>c. nc_id c = the cid) (own_conversations w db) of
       None \<Rightarrow> err NOT_FOUND ''unknown conversation''
     | Some c \<Rightarrow> Res_ok (nc_id c, map timeline_view (map mapMsgRow (sort_key timeline_key
         (filter (\<lambda>r. mr_conversation_id r = nc_id c) (own_messages w db))))))"
proof -
  have "filter (\<lambda>r. mr_conversation_id r = nc_id c) (db_messages db) = filter (\<lambda>r. mr_conversation_id r = nc_id c) (own_messages w db)"
    if "find (\<lambda>c. nc_id c = i) (own_conversations w db) = Some c" for i c
  proof -
    have "c \<in> set (own_conversations w db)" using that by (auto simp: find_Some_iff)
    then show ?thesis unfolding own_messages_def filter_filter by (intro filter_cong) auto
  qed
  then show ?thesis
    using owned_conversation [OF c, of "the cid" w]
    by (auto simp: conversationsListMessages_def listByConversation_def split: option.splits if_splits)
qed

text \<open>
  Property C20. In a consistent database the queries of the renderer answer from the data of the merchant of the workspace
  alone. Two consistent databases with the same platform accounts
  that hold the same conversations, messages and stores of that merchant give the same queue and the same
  timelines, whatever they hold of other merchants and whatever identifiers are asked for: a foreign conversation or
  store is not told from one that does not exist. Consistency is needed: a foreign conversation filed under a store of the
  merchant is listed (\<open>store_queue_lists_foreign_conversation\<close>).
\<close>

theorem other_merchants_are_invisible:
  assumes "consistent db t" and "consistent db' t'"
    and "own_conversations w db = own_conversations w db'" and "own_messages w db = own_messages w db'"
    and "own_stores w t = own_stores w t'" and "it_accounts t = it_accounts t'"
  shows "conversationsList (Some w) db t req = conversationsList (Some w) db' t' req
    \<and> conversationsListMessages (Some w) db cid = conversationsListMessages (Some w) db' cid"
  unfolding conversationsList_own [OF assms(1)] conversationsList_own [OF assms(2)]
      listMessages_own [OF assms(1)] listMessages_own [OF assms(2)] assms(3-6)
  by (intro conjI refl)

lemma insort_key_map: "insort_key k (f x) (map f xs) = map f (insort_key (\<lambda>a. k (f a)) x xs)"
  by (induction xs) auto

lemma sort_key_map: "sort_key k (map f xs) = map f (sort_key (\<lambda>a. k (f a)) xs)"
  by (induction xs) (simp_all add: insort_key_map)

text \<open>
  The queue of a renderer is complete and exact. For a known scope it lists, in the order of their
  identifiers and once each, exactly the conversations of the merchant of the workspace in the scope whose account is
  of the platform asked for; without a workspace, or for a store of another merchant, the answer is an error and no data.
\<close>

theorem queue_is_exact:
  assumes "consistent db t" and "conversationsList workspace db t req = Res_ok r"
  shows "\<exists>w scope. workspace = Some w \<and> Option.bind req cl_scope = Some scope \<and> scope_known scope (own_stores w t)
    \<and> set (cr_items r) = (\<lambda>c. \<lparr>qi_conversation_id = nc_id c, qi_store_id = nc_storeId c\<rparr>)
        ` {c \<in> set (db_conversations db). nc_merchantId c = wc_merchantId w
             \<and> (scope = All_stores \<or> scope = Specific_store (nc_storeId c)) \<and> platform_matches t (Option.bind req cl_platform) c}
    \<and> sorted (map qi_conversation_id (cr_items r)) \<and> distinct (map qi_conversation_id (cr_items r))
    \<and> set (cr_stores r) = (\<lambda>s. \<lparr>so_store_id = sr_id s, so_name = sr_name s\<rparr>) ` set (own_stores w t)"
proof -
  obtain w where w: "workspace = Some w"
    using assms(2) by (cases workspace) (auto simp: conversationsList_def Let_def split: option.splits if_splits)
  let ?p = "Option.bind req cl_platform"
  obtain scope where scope: "Option.bind req cl_scope = Some scope" and known: "scope_known scope (own_stores w t)"
    and r: "r = list_result \<lparr>it_stores = own_stores w t, it_accounts = it_accounts t\<rparr> w scope ?p
        (sort_key nc_id (scope_rows scope (own_conversations w db)))"
    using assms(2) unfolding w conversationsList_own [OF assms(1)]
    by (auto simp: own_list_result_def split: option.splits if_splits)
  have r: "r = list_result t w scope ?p (sort_key nc_id (scope_rows scope (own_conversations w db)))"
    unfolding r by (rule list_result_own [symmetric])
  have "distinct (map nc_id (scope_rows scope (own_conversations w db)))"
    using assms(1) by (auto simp: consistent_def scope_rows_def own_conversations_def distinct_map_filter split: queue_scope.split)
  then have "distinct (map qi_conversation_id (cr_items r))"
    unfolding r by (simp add: list_result_def sort_key_map distinct_map inj_on_def)
  then show ?thesis
    using w scope known
    by (auto simp: r list_result_def listStoresByMerchant_def own_stores_def scope_rows_def own_conversations_def split: queue_scope.splits)
qed

subsection \<open>An example\<close>

definition two_merchants :: "normalized_conversation list" where
  "two_merchants =
     [\<lparr>nc_id = ''c2'', nc_merchantId = ''m'', nc_storeId = ''s1'', nc_platformAccountId = ''a'', nc_externalRef = None\<rparr>,
      \<lparr>nc_id = ''c3'', nc_merchantId = ''other'', nc_storeId = ''s2'', nc_platformAccountId = ''a'', nc_externalRef = None\<rparr>,
      \<lparr>nc_id = ''c1'', nc_merchantId = ''m'', nc_storeId = ''s1'', nc_platformAccountId = ''b'', nc_externalRef = None\<rparr>]"

definition ipc_db :: "normalized_conversation list \<Rightarrow> database" where
  "ipc_db cs = \<lparr>db_merchants = [''m'', ''other''], db_stores = [''s1'', ''s2''], db_accounts = [''a'', ''b''], db_conversations = cs,
     db_messages = [], db_attempts = []\<rparr>"

definition ipc_tables :: "store_record list \<Rightarrow> identity_tables" where
  "ipc_tables ss = \<lparr>it_stores = ss, it_accounts = [\<lparr>pa_id = ''a'', pa_merchantId = ''m'', pa_platform = ''pdd'', pa_externalRef = None\<rparr>]\<rparr>"

definition own_store :: store_record where
  "own_store = \<lparr>sr_id = ''s1'', sr_merchantId = ''m'', sr_name = ''One'', sr_platform = ''pdd''\<rparr>"

definition foreign_store :: store_record where
  "foreign_store = \<lparr>sr_id = ''s2'', sr_merchantId = ''other'', sr_name = ''Two'', sr_platform = ''pdd''\<rparr>"

definition own_workspace :: workspace_context where
  "own_workspace = \<lparr>wc_merchantId = ''m''\<rparr>"

lemmas ipc_samples = two_merchants_def ipc_db_def ipc_tables_def own_store_def foreign_store_def own_workspace_def

lemma samples_consistent:
  "consistent (ipc_db two_merchants) (ipc_tables [own_store, foreign_store])"
  "consistent (ipc_db (filter (\<lambda>c. nc_id c \<noteq> ''c3'') two_merchants)) (ipc_tables [own_store])"
  by (simp_all add: consistent_def ipc_samples)

theorem other_merchants_are_invisible_witness:
  "conversationsList (Some own_workspace) (ipc_db two_merchants) (ipc_tables [own_store, foreign_store])
      (Some \<lparr>cl_scope = Some (Specific_store ''s2''), cl_platform = None\<rparr>)
   = conversationsList (Some own_workspace) (ipc_db (filter (\<lambda>c. nc_id c \<noteq> ''c3'') two_merchants)) (ipc_tables [own_store])
      (Some \<lparr>cl_scope = Some (Specific_store ''s2''), cl_platform = None\<rparr>)
   \<and> conversationsListMessages (Some own_workspace) (ipc_db two_merchants) (Some ''c3'')
     = conversationsListMessages (Some own_workspace) (ipc_db (filter (\<lambda>c. nc_id c \<noteq> ''c3'') two_merchants)) (Some ''c3'')"
  by (rule other_merchants_are_invisible [OF samples_consistent])
    (simp_all add: ipc_samples own_conversations_def own_messages_def own_stores_def)

definition pdd_queue :: "conversation_list_result" where
  "pdd_queue = \<lparr>cr_items = [\<lparr>qi_conversation_id = ''c2'', qi_store_id = ''s1''\<rparr>], cr_scope = All_stores, cr_platform = Some ''pdd'',
     cr_stores = [\<lparr>so_store_id = ''s1'', so_name = ''One''\<rparr>], cr_platforms = [''pdd'']\<rparr>"

theorem queue_is_exact_witness:
  "set (cr_items pdd_queue) = (\<lambda>c. \<lparr>qi_conversation_id = nc_id c, qi_store_id = nc_storeId c\<rparr>)
     ` {c \<in> set two_merchants. nc_merchantId c = ''m'' \<and> platform_matches (ipc_tables [own_store, foreign_store]) (Some ''pdd'') c}"
proof -
  have "conversationsList (Some own_workspace) (ipc_db two_merchants) (ipc_tables [own_store, foreign_store])
      (Some \<lparr>cl_scope = Some All_stores, cl_platform = Some ''pdd''\<rparr>) = Res_ok pdd_queue"
    by (simp add: conversationsList_def isPlatformId_def PLATFORM_IDS_def list_result_def listByMerchant_def listStoresByMerchant_def
        platform_matches_def findAccount_def ipc_samples pdd_queue_def CANONICAL_PLATFORMS_def)
  from queue_is_exact [OF samples_consistent(1) this] show ?thesis
    by (auto simp: own_workspace_def ipc_db_def)
qed

text \<open>
  Without the consistency the queue of a store does leak: the conversations of a store of the workspace are listed whatever their
  merchant, while their timeline is refused.
\<close>

theorem store_queue_lists_foreign_conversation:
  fixes foreign :: normalized_conversation
  defines "foreign \<equiv> \<lparr>nc_id = ''x'', nc_merchantId = ''other'', nc_storeId = ''s1'', nc_platformAccountId = ''a'', nc_externalRef = None\<rparr>"
  shows "(\<exists>r. conversationsList (Some own_workspace) (ipc_db [foreign]) (ipc_tables [own_store])
        (Some \<lparr>cl_scope = Some (Specific_store ''s1''), cl_platform = None\<rparr>) = Res_ok r
      \<and> cr_items r = [\<lparr>qi_conversation_id = ''x'', qi_store_id = ''s1''\<rparr>])
    \<and> conversationsListMessages (Some own_workspace) (ipc_db [foreign]) (Some ''x'') = err NOT_FOUND ''unknown conversation''"
  by (simp add: foreign_def conversationsList_def conversationsListMessages_def list_result_def listByStore_def findStore_def
      findConversation_def containsMerchant_def platform_matches_def ipc_samples)

subsection \<open>Projections\<close>

text \<open>No error text of more than 200 characters leaves the projections, and none is shown as an empty text.\<close>

theorem projected_errors_are_short:
  "wv_last_error (project src) = Some e \<or> wk_last_error (worker_status_view_of st v p le) = Some e \<Longrightarrow> 0 < length e \<and> length e \<le> 200"
  by (auto simp: project_def worker_status_view_of_def safe_error_def truthy_text_def split: option.splits if_splits)

end
