(* ===== verification/Legacy_Import.thy ===== *)
theory Legacy_Import imports Prelude begin

text \<open>
  The legacy import of \<open>packages/legacy-import/src\<close>: the durable sessions (\<open>import-session.ts\<close>), the
  verifier (\<open>import-verifier.ts\<close>) and the orchestrator that applies a plan (\<open>import-orchestrator.ts\<close>).

  Everything behind a port is an argument: the answers of the backup, of the parsers, of the writer of the
  main database, of the worker, of the index rebuild and of the verification queries, and the fingerprints of
  the source files at the time of the application. A thrown error is a left value. The world of the model
  holds the table of sessions and the log of the calls that leave the orchestrator, in their order; a call is
  logged whether it succeeds or throws. The table is a map from the session id to its row.
\<close>

subsection \<open>Data\<close>

datatype source_type = St_shops | St_settings | St_fastkey | St_ai_settings | St_products | St_knowledge
  | St_candidates | St_prompts | St_skills | St_skill_mounts | St_transfer_rules | St_forbidden_words | St_messages

datatype target_aggregate = Ag_shops | Ag_config_groups | Ag_products | Ag_knowledge_entries | Ag_knowledge_candidates
  | Ag_prompt_profiles | Ag_skills | Ag_product_skill_mounts | Ag_transfer_rules | Ag_forbidden_words | Ag_conversations

datatype target_writer = Writer_main | Writer_worker | Writer_derived

datatype conflict_policy = PRESERVE_EXISTING | INSERT_MISSING | MERGE_SAFE_FIELDS | REPLACE_SELECTED

datatype import_phase = Ph_APPLY_REQUEST | Ph_BACKUP | Ph_MAIN_WRITE | Ph_WORKER_WRITE | Ph_DERIVED_REBUILD
  | Ph_VERIFY | Ph_COMPLETE | Ph_FAILED | Ph_CANCELLED

datatype import_state = Ss_MAIN_PREPARED | Ss_MAIN_APPLIED | Ss_WORKER_APPLIED | Ss_DERIVED_REBUILT
  | Ss_VERIFIED | Ss_COMPLETED | Ss_FAILED_RECOVERABLE

record source_item =
  si_item_id :: string
  si_display_name :: string
  si_path :: string
  si_source_type :: source_type

record source_selection =
  sl_selection_id :: string
  sl_root :: string
  sl_items :: "source_item list"
  sl_selected_at :: string

record source_fingerprint =
  sf_sha256 :: string
  sf_size :: nat
  sf_mtime_ms :: string

record import_options =
  io_conflict_policy :: "conflict_policy option"
  io_legacy_timezone :: "string option"
  io_import_provider_secret :: "bool option"
  io_rebuild_rag :: "bool option"

text \<open>The fields of a manifest and of a plan that the application of the plan reads. The modification time of a fingerprint is the
  text JavaScript prints for it.\<close>

record item_manifest =
  im_item_id :: string
  im_display_name :: string
  im_source_type :: source_type
  im_source_fingerprint :: source_fingerprint
  im_target_aggregate :: target_aggregate
  im_target_writer :: target_writer
  im_record_count :: nat

record legacy_plan =
  pl_plan_id :: string
  pl_selection_id :: string
  pl_plan_sha256 :: string
  pl_items :: "item_manifest list"
  pl_options :: import_options

record legacy_session =
  is_session_id :: string
  is_selection_id :: string
  is_plan_sha256 :: string
  is_state :: import_state
  is_phases :: "import_phase list"
  is_started_at :: string
  is_completed_at :: "string option"
  is_backup_id :: "string option"
  is_error :: "string option"

datatype import_error_code = E_SOURCE_CHANGED | E_BACKUP_FAILED | E_VERIFY_FAILED | E_NOT_SELECTED | E_NO_PLAN | E_PLAN_MISMATCH

text \<open>A \<open>LegacyImportError\<close>, or an error of a port with its message.\<close>

datatype import_error = Import_error import_error_code string | Port_error string

fun error_message :: "import_error \<Rightarrow> string" where
  "error_message (Import_error _ m) = m"
| "error_message (Port_error m) = m"

subsection \<open>Sessions\<close>

type_synonym session_table = "string \<rightharpoonup> legacy_session"

definition create_row :: "legacy_session \<Rightarrow> session_table \<Rightarrow> session_table" where
  "create_row s t = t(is_session_id s \<mapsto> s)"

text \<open>Reading a row (\<open>mapSession\<close>): an empty text in an optional column reads as \<open>null\<close>.\<close>

definition text_or_null :: "string option \<Rightarrow> string option" where
  "text_or_null x = (case x of Some s \<Rightarrow> if s = [] then None else Some s | None \<Rightarrow> None)"

definition mapSession :: "legacy_session \<Rightarrow> legacy_session" where
  "mapSession s = s\<lparr>is_completed_at := text_or_null (is_completed_at s), is_backup_id := text_or_null (is_backup_id s),
     is_error := text_or_null (is_error s)\<rparr>"

definition get_session :: "session_table \<Rightarrow> string \<Rightarrow> legacy_session option" where
  "get_session t sid = map_option mapSession (t sid)"

definition appendPhase :: "string \<Rightarrow> import_phase \<Rightarrow> session_table \<Rightarrow> session_table" where
  "appendPhase sid phase t = (case t sid of
     None \<Rightarrow> t
   | Some s \<Rightarrow> if phase \<in> set (is_phases s) then t else t(sid \<mapsto> s\<lparr>is_phases := is_phases s @ [phase]\<rparr>))"

definition updateState ::
  "string \<Rightarrow> string \<Rightarrow> import_state \<Rightarrow> import_phase option \<Rightarrow> string option \<Rightarrow> session_table \<Rightarrow> session_table" where
  "updateState now sid state phase err t =
     (let completedAt = (if state = Ss_COMPLETED then Some now else None);
          t' = (case t sid of
             None \<Rightarrow> t
           | Some s \<Rightarrow> t(sid \<mapsto> s\<lparr>is_state := state,
               is_completed_at := (case completedAt of Some c \<Rightarrow> Some c | None \<Rightarrow> is_completed_at s), is_error := err\<rparr>))
      in case phase of Some p \<Rightarrow> appendPhase sid p t' | None \<Rightarrow> t')"

definition createSession :: "string \<Rightarrow> string \<Rightarrow> string \<Rightarrow> string \<Rightarrow> legacy_session" where
  "createSession uuid8 now selectionId planFingerprint =
     \<lparr>is_session_id = ''sess-'' @ uuid8, is_selection_id = selectionId, is_plan_sha256 = planFingerprint,
      is_state = Ss_MAIN_PREPARED, is_phases = [Ph_APPLY_REQUEST], is_started_at = now, is_completed_at = None,
      is_backup_id = None, is_error = None\<rparr>"

subsection \<open>Verification\<close>

record verification_deps =
  vd_quickCheckOk :: bool
  vd_countKnowledge :: int
  vd_countCandidates :: int
  vd_ragReady :: bool
  vd_noPlaintextSecrets :: bool
  vd_noDanglingMounts :: bool

record import_verification =
  iv_session_id :: string
  iv_checks :: "(string \<times> bool) list"
  iv_all_ok :: bool

definition verification_checks :: "legacy_session \<Rightarrow> verification_deps \<Rightarrow> (string \<times> bool) list" where
  "verification_checks session deps =
     [(''session_completed'', is_state session \<noteq> Ss_FAILED_RECOVERABLE),
      (''sqlite_quick_check'', vd_quickCheckOk deps),
      (''knowledge_count'', vd_countKnowledge deps \<ge> 0),
      (''candidate_count'', vd_countCandidates deps \<ge> 0),
      (''no_dangling_mounts'', vd_noDanglingMounts deps),
      (''no_plaintext_secret'', vd_noPlaintextSecrets deps),
      (''rag_ready'', vd_ragReady deps)]"

definition verifyImport :: "legacy_session \<Rightarrow> verification_deps \<Rightarrow> import_verification" where
  "verifyImport session deps =
     \<lparr>iv_session_id = is_session_id session, iv_checks = verification_checks session deps,
      iv_all_ok = list_all snd (verification_checks session deps)\<rparr>"

subsection \<open>The orchestrator\<close>

datatype import_call =
    Emit string
  | Call_backup string
  | Call_main string
  | Call_worker string
  | Call_rebuild

record import_world =
  iw_sessions :: session_table
  iw_calls :: "import_call list"

text \<open>The ports, with the type of a parsed source as parameter.\<close>

record 'p import_ports =
  ip_now :: string
  ip_uuid8 :: string
  ip_fingerprint :: "string \<Rightarrow> import_error + source_fingerprint"
  ip_backup :: "string \<Rightarrow> import_error + string"
  ip_parse :: "source_item \<Rightarrow> import_error + 'p"
  ip_write :: "source_item \<Rightarrow> 'p \<Rightarrow> item_manifest \<Rightarrow> import_options \<Rightarrow> import_error + nat"
  ip_request :: "source_item \<Rightarrow> import_error + string"
  ip_applyKnowledge :: "string \<Rightarrow> import_error + nat \<times> nat"
  ip_ragRebuild :: "import_error + bool"
  ip_verificationDeps :: verification_deps

definition log_call :: "import_call \<Rightarrow> import_world \<Rightarrow> import_world" where
  "log_call c w = w\<lparr>iw_calls := iw_calls w @ [c]\<rparr>"

definition on_sessions :: "(session_table \<Rightarrow> session_table) \<Rightarrow> import_world \<Rightarrow> import_world" where
  "on_sessions f w = w\<lparr>iw_sessions := f (iw_sessions w)\<rparr>"

text \<open>\<open>new Map(selection.items.map((i) => [i.item_id, i]))\<close>: a later item replaces an earlier one.\<close>

definition item_refs :: "source_selection \<Rightarrow> string \<rightharpoonup> source_item" where
  "item_refs selection = map_of (rev (map (\<lambda>i. (si_item_id i, i)) (sl_items selection)))"

definition resumeSession :: "session_table \<Rightarrow> string \<Rightarrow> legacy_plan \<Rightarrow> import_error + legacy_session" where
  "resumeSession t sid plan = (case get_session t sid of
     None \<Rightarrow> Inl (Import_error E_NO_PLAN ''unknown session'')
   | Some existing \<Rightarrow> if is_plan_sha256 existing \<noteq> pl_plan_sha256 plan
       then Inl (Import_error E_PLAN_MISMATCH ''plan fingerprint mismatch'') else Inr existing)"

fun assertSourcesUnchanged :: "'p import_ports \<Rightarrow> (string \<rightharpoonup> source_item) \<Rightarrow> item_manifest list \<Rightarrow> import_error + unit" where
  "assertSourcesUnchanged P refs [] = Inr ()"
| "assertSourcesUnchanged P refs (item # items) = (case refs (im_item_id item) of
     None \<Rightarrow> assertSourcesUnchanged P refs items
   | Some ref \<Rightarrow> (case ip_fingerprint P (si_path ref) of
       Inl e \<Rightarrow> Inl e
     | Inr current \<Rightarrow>
         if sf_sha256 current \<noteq> sf_sha256 (im_source_fingerprint item) \<or> sf_size current \<noteq> sf_size (im_source_fingerprint item)
         then Inl (Import_error E_SOURCE_CHANGED (''source changed after plan: '' @ im_display_name item))
         else assertSourcesUnchanged P refs items))"

text \<open>BACKUP: reuse the durable backup of a resumed session, otherwise make one and store the session with it.\<close>

definition backup_phase :: "'p import_ports \<Rightarrow> legacy_session \<Rightarrow> import_world \<Rightarrow> (import_error + unit) \<times> import_world" where
  "backup_phase P session w =
     (if text_or_null (is_backup_id session) \<noteq> None then (Inr (), w)
      else
        (let tag = ''legacy-import-'' @ is_session_id session; w = log_call (Call_backup tag) w in
         case ip_backup P tag of
           Inl e \<Rightarrow> (Inl e, w)
         | Inr b \<Rightarrow> (Inr (), on_sessions (create_row (session\<lparr>is_backup_id := Some b\<rparr>)) w)))"

text \<open>MAIN_WRITE: the items of the main writer, in the order of the plan.\<close>

fun main_items :: "'p import_ports \<Rightarrow> (string \<rightharpoonup> source_item) \<Rightarrow> import_options \<Rightarrow> item_manifest list \<Rightarrow> nat \<Rightarrow> import_world
    \<Rightarrow> (import_error + nat) \<times> import_world" where
  "main_items P refs options [] inserted w = (Inr inserted, w)"
| "main_items P refs options (item # items) inserted w =
     (if im_target_writer item \<noteq> Writer_main then main_items P refs options items inserted w
      else case refs (im_item_id item) of
        None \<Rightarrow> (Inl (Import_error E_NOT_SELECTED (''missing source for '' @ im_item_id item)), w)
      | Some ref \<Rightarrow> (case ip_parse P ref of
          Inl e \<Rightarrow> (Inl e, w)
        | Inr parsed \<Rightarrow>
            (let w = log_call (Call_main (im_item_id item)) w in
             case ip_write P ref parsed item options of
               Inl e \<Rightarrow> (Inl e, w)
             | Inr n \<Rightarrow> main_items P refs options items (inserted + n) (log_call (Emit ''legacy_import.main_written'') w))))"

text \<open>WORKER_WRITE: the items of the worker.\<close>

fun worker_items :: "'p import_ports \<Rightarrow> (string \<rightharpoonup> source_item) \<Rightarrow> item_manifest list \<Rightarrow> nat \<times> nat \<Rightarrow> import_world
    \<Rightarrow> (import_error + nat \<times> nat) \<times> import_world" where
  "worker_items P refs [] counts w = (Inr counts, w)"
| "worker_items P refs (item # items) counts w =
     (if im_target_writer item \<noteq> Writer_worker then worker_items P refs items counts w
      else case refs (im_item_id item) of
        None \<Rightarrow> (Inl (Import_error E_NOT_SELECTED (''missing source for '' @ im_item_id item)), w)
      | Some ref \<Rightarrow> (case ip_request P ref of
          Inl e \<Rightarrow> (Inl e, w)
        | Inr request \<Rightarrow>
            (let w = log_call (Call_worker (im_item_id item)) w in
             case ip_applyKnowledge P request of
               Inl e \<Rightarrow> (Inl e, w)
             | Inr (ins, dup) \<Rightarrow> worker_items P refs items (fst counts + ins, snd counts + dup)
                 (log_call (Emit ''legacy_import.worker_written'') w))))"

definition mark_failed :: "'p import_ports \<Rightarrow> string \<Rightarrow> string \<Rightarrow> import_world \<Rightarrow> import_world" where
  "mark_failed P sid msg w = on_sessions (updateState (ip_now P) sid Ss_FAILED_RECOVERABLE (Some Ph_FAILED) (Some msg)) w"

definition mark_state :: "'p import_ports \<Rightarrow> string \<Rightarrow> import_state \<Rightarrow> import_phase \<Rightarrow> import_world \<Rightarrow> import_world" where
  "mark_state P sid state phase w = on_sessions (updateState (ip_now P) sid state (Some phase) None) w"

record apply_effect =
  ae_main_inserted :: nat
  ae_worker_inserted :: nat
  ae_duplicates :: nat

text \<open>VERIFY and COMPLETE, on the durable state of the session.\<close>

definition verify_phase :: "'p import_ports \<Rightarrow> legacy_session \<Rightarrow> apply_effect \<Rightarrow> import_world
    \<Rightarrow> (import_error + (legacy_session option \<times> import_verification \<times> apply_effect)) \<times> import_world" where
  "verify_phase P session eff w =
     (let sid = is_session_id session;
          verifySession = (case get_session (iw_sessions w) sid of Some s \<Rightarrow> s | None \<Rightarrow> session);
          verification = verifyImport verifySession (ip_verificationDeps P) in
      if \<not> iv_all_ok verification
      then (Inl (Import_error E_VERIFY_FAILED ''verification failed''), mark_failed P sid ''verification failed'' w)
      else
        (let w = mark_state P sid Ss_VERIFIED Ph_VERIFY w;
             w = mark_state P sid Ss_COMPLETED Ph_COMPLETE w;
             w = log_call (Emit ''legacy_import.completed'') w
         in (Inr (get_session (iw_sessions w) sid, verification, eff), w)))"

text \<open>DERIVED_REBUILD. An error thrown by the rebuild itself passes through unmarked.\<close>

definition rebuild_phase :: "'p import_ports \<Rightarrow> legacy_session \<Rightarrow> apply_effect \<Rightarrow> import_world
    \<Rightarrow> (import_error + (legacy_session option \<times> import_verification \<times> apply_effect)) \<times> import_world" where
  "rebuild_phase P session eff w =
     (let sid = is_session_id session; w = log_call Call_rebuild w in
      case ip_ragRebuild P of
        Inl e \<Rightarrow> (Inl e, w)
      | Inr ragOk \<Rightarrow>
          if \<not> ragOk then (Inl (Import_error E_VERIFY_FAILED ''rag rebuild failed''), mark_failed P sid ''rag rebuild failed'' w)
          else verify_phase P session eff (mark_state P sid Ss_DERIVED_REBUILT Ph_DERIVED_REBUILD w))"

definition write_phases :: "'p import_ports \<Rightarrow> legacy_plan \<Rightarrow> (string \<rightharpoonup> source_item) \<Rightarrow> legacy_session \<Rightarrow> import_world
    \<Rightarrow> (import_error + (legacy_session option \<times> import_verification \<times> apply_effect)) \<times> import_world" where
  "write_phases P plan refs session w =
     (let sid = is_session_id session in
      case main_items P refs (pl_options plan) (pl_items plan) 0 w of
        (Inl e, w) \<Rightarrow> (Inl e, mark_failed P sid (error_message e) w)
      | (Inr mainInserted, w) \<Rightarrow>
          (case worker_items P refs (pl_items plan) (0, 0) (mark_state P sid Ss_MAIN_APPLIED Ph_MAIN_WRITE w) of
             (Inl e, w) \<Rightarrow> (Inl e, mark_failed P sid (error_message e) w)
           | (Inr counts, w) \<Rightarrow>
               rebuild_phase P session
                 \<lparr>ae_main_inserted = mainInserted, ae_worker_inserted = fst counts, ae_duplicates = snd counts\<rparr>
                 (mark_state P sid Ss_WORKER_APPLIED Ph_WORKER_WRITE w)))"

definition begin_session :: "'p import_ports \<Rightarrow> legacy_plan \<Rightarrow> string option \<Rightarrow> session_table \<Rightarrow> import_error + legacy_session" where
  "begin_session P plan sessionId t = (case sessionId of
     Some sid \<Rightarrow> if sid = [] then Inr (createSession (ip_uuid8 P) (ip_now P) (pl_selection_id plan) (pl_plan_sha256 plan))
       else resumeSession t sid plan
   | None \<Rightarrow> Inr (createSession (ip_uuid8 P) (ip_now P) (pl_selection_id plan) (pl_plan_sha256 plan)))"

definition apply_import :: "'p import_ports \<Rightarrow> legacy_plan \<Rightarrow> source_selection \<Rightarrow> string option \<Rightarrow> import_world
    \<Rightarrow> (import_error + (legacy_session option \<times> import_verification \<times> apply_effect)) \<times> import_world" where
  "apply_import P plan selection sessionId w =
     (case begin_session P plan sessionId (iw_sessions w) of
        Inl e \<Rightarrow> (Inl e, w)
      | Inr session \<Rightarrow>
          (let sid = is_session_id session;
               w = on_sessions (create_row session) w;
               w = mark_state P sid Ss_MAIN_PREPARED Ph_APPLY_REQUEST w;
               refs = item_refs selection in
           case assertSourcesUnchanged P refs (pl_items plan) of
             Inl e \<Rightarrow> (Inl e, w)
           | Inr _ \<Rightarrow>
               (case backup_phase P session (log_call (Emit ''legacy_import.apply_start'') w) of
                  (Inl e, w) \<Rightarrow> (Inl e, w)
                | (Inr _, w) \<Rightarrow> write_phases P plan refs session (on_sessions (appendPhase sid Ph_BACKUP) w))))"

definition status_import :: "string \<Rightarrow> import_world \<Rightarrow> import_error + legacy_session" where
  "status_import sid w = (case get_session (iw_sessions w) sid of
     None \<Rightarrow> Inl (Import_error E_NOT_SELECTED ''unknown session'')
   | Some s \<Rightarrow> Inr s)"

definition cancel_import :: "string \<Rightarrow> string \<Rightarrow> import_world \<Rightarrow> (import_error + legacy_session option) \<times> import_world" where
  "cancel_import now sid w = (case get_session (iw_sessions w) sid of
     None \<Rightarrow> (Inl (Import_error E_NOT_SELECTED ''unknown session''), w)
   | Some s \<Rightarrow>
       if length (is_phases s) \<le> 1 then
         (let s' = s\<lparr>is_phases := is_phases s @ [Ph_CANCELLED]\<rparr> in (Inr (Some s'), on_sessions (create_row s') w))
       else
         (let w' = on_sessions (updateState now sid Ss_FAILED_RECOVERABLE (Some Ph_FAILED) (Some ''cancelled after mutation'')) w
          in (Inr (get_session (iw_sessions w') sid), w')))"

subsection \<open>Conflict policies\<close>

datatype conflict_action = Do_insert | Do_skip | Do_replace | Do_merge

definition DEFAULT_CONFLICT_POLICY :: conflict_policy where
  "DEFAULT_CONFLICT_POLICY = PRESERVE_EXISTING"

fun resolveConflict :: "'e option \<Rightarrow> conflict_policy \<Rightarrow> conflict_action" where
  "resolveConflict existing PRESERVE_EXISTING = (if existing = None then Do_insert else Do_skip)"
| "resolveConflict existing INSERT_MISSING = Do_insert"
| "resolveConflict existing REPLACE_SELECTED = Do_replace"
| "resolveConflict existing MERGE_SAFE_FIELDS = (if existing = None then Do_insert else Do_merge)"

end
