(* ===== verification/Legacy_Planning.thy ===== *)
theory Legacy_Planning imports Legacy_Import Db_Backup Domain_Contracts begin

text \<open>
  What comes before the application of a legacy import: the selection and the scan of sources
  (\<open>source-selection.ts\<close>, \<open>source-scanner.ts\<close>, \<open>path-safety.ts\<close> of \<open>packages/legacy-import/src\<close>), the
  detection of secrets (\<open>secret-policy.ts\<close>), the manifests and the plan (\<open>import-manifest.ts\<close>, \<open>import-plan.ts\<close>,
  \<open>import-planner.ts\<close>), and the desktop services in front of it (\<open>apps/desktop/src/main/services/legacy-import-*.ts\<close>).

  Paths are lists of segments, as in the theory \<open>Db_Backup\<close>; names are UTF-8 bytes. Random
  identifiers, clocks, the hash of a text, real paths, the kind of a path, the fingerprint and the number of records of a file are
  arguments. The previews of timestamps are left out.
\<close>

subsection \<open>Path safety\<close>

record safety_limits =
  lim_maxFiles :: nat
  lim_maxFileBytes :: nat

definition DEFAULT_SAFETY_LIMITS :: safety_limits where
  "DEFAULT_SAFETY_LIMITS = \<lparr>lim_maxFiles = 5000, lim_maxFileBytes = 50 * 1024 * 1024\<rparr>"

datatype planning_error = Path_unsafe string | Invalid_source string | Plan_error string | Import_failed import_error

definition letter :: "char \<Rightarrow> bool" where
  "letter c \<longleftrightarrow> (let n = (of_char c :: nat) in (65 \<le> n \<and> n \<le> 90) \<or> (97 \<le> n \<and> n \<le> 122))"

definition isDevicePath :: "string \<Rightarrow> bool" where
  "isDevicePath p \<longleftrightarrow> (3 \<le> length p \<and> letter (p ! 0) \<and> p ! 1 = CHR '':'' \<and> p ! 2 = CHR ''/'')
     \<or> (p \<noteq> [] \<and> hd p = CHR 0x5C) \<or> prefix ''//'' p"

definition assertInsideRoot :: "file_path \<Rightarrow> file_path \<Rightarrow> planning_error + file_path" where
  "assertInsideRoot root candidate =
     (if candidate = root then Inr root
      else if root = [] \<or> \<not> prefix root candidate then Inl (Path_unsafe ''path escapes selection root'')
      else if ''..'' \<in> set (drop (length root) candidate) then Inl (Path_unsafe ''traversal token in path'')
      else Inr candidate)"

definition rejectTraversal :: "string \<Rightarrow> planning_error + string" where
  "rejectTraversal relPath =
     (let parts = filter (\<lambda>p. p \<noteq> [] \<and> p \<noteq> ''.'') (path_segments [] relPath) in
      if ''..'' \<in> set parts then Inl (Path_unsafe ''traversal token in path'') else Inr (js_join ''/'' parts))"

definition assertNoSymlinkEscape :: "(file_path \<Rightarrow> file_path option) \<Rightarrow> (file_path \<Rightarrow> bool) \<Rightarrow> file_path \<Rightarrow> file_path \<Rightarrow> planning_error option" where
  "assertNoSymlinkEscape realpath known root candidate =
     (case (realpath root, realpath candidate) of
        (Some r, Some c) \<Rightarrow> if c \<noteq> r \<and> (r = [] \<or> \<not> prefix r c) then Some (Path_unsafe ''symlink escape detected'') else None
      | _ \<Rightarrow> if \<not> known root then Some (Invalid_source ''selection root missing'') else None)"

subsection \<open>Selection\<close>

text \<open>The file names of the old program, in UTF-8.\<close>

definition NAME_COLLAB :: string where "NAME_COLLAB = bytes [229, 141, 143, 229, 144, 140] @ ''.json''"
definition NAME_ADVANCED :: string where "NAME_ADVANCED = bytes [233, 171, 152, 233, 152, 182, 232, 174, 190, 231, 189, 174] @ ''.json''"
definition NAME_AI_CONFIG :: string where "NAME_AI_CONFIG = ''AI'' @ bytes [233, 171, 152, 231, 186, 167, 233, 133, 141, 231, 189, 174] @ ''.json''"
definition NAME_PROMPTS :: string where "NAME_PROMPTS = bytes [230, 143, 144, 231, 164, 186, 232, 175, 141] @ ''.json''"
definition NAME_FORBIDDEN :: string where "NAME_FORBIDDEN = bytes [232, 191, 157, 231, 166, 129, 232, 175, 141] @ ''.json''"
definition NAME_TRANSFER :: string where "NAME_TRANSFER = bytes [232, 189, 172, 230, 142, 165, 229, 133, 179, 233, 148, 174, 229, 173, 151] @ ''.csv''"
definition NAME_PRODUCT_TABLE :: string where "NAME_PRODUCT_TABLE = bytes [229, 149, 134, 229, 147, 129, 229, 186, 147, 232, 161, 168, 230, 160, 188] @ ''.csv''"
definition NAME_PRODUCTS :: string where "NAME_PRODUCTS = bytes [229, 149, 134, 229, 147, 129, 229, 186, 147] @ ''.csv''"
definition NAME_MESSAGES :: string where "NAME_MESSAGES = bytes [230, 182, 136, 230, 129, 175, 232, 174, 176, 229, 189, 149] @ ''.csv''"
definition NAME_MOUNTS :: string where "NAME_MOUNTS = bytes [229, 149, 134, 229, 147, 129, 230, 138, 128, 232, 131, 189, 230, 140, 130, 232, 189, 189] @ ''.json''"
definition PART_AUTO :: string where "PART_AUTO = bytes [229, 133, 168, 232, 135, 170, 229, 138, 168, 230, 148, 182, 229, 189, 149]"
definition PART_HUMAN :: string where "PART_HUMAN = bytes [228, 186, 186, 229, 183, 165, 231, 161, 174, 232, 174, 164]"
definition PART_PENDING :: string where "PART_PENDING = bytes [229, 190, 133, 229, 174, 161, 230, 160, 184]"

text \<open>\<open>extname\<close>: from the last dot on, unless the name begins with it.\<close>

definition extname :: "string \<Rightarrow> string" where
  "extname name = (let ext = takeWhile (\<lambda>c. c \<noteq> CHR ''.'') (rev name) in
     if length ext + 1 < length name then CHR ''.'' # rev ext else [])"

definition sourceTypeForPath :: "file_path \<Rightarrow> source_type" where
  "sourceTypeForPath path =
     (let name = last path in
      if name = ''shops.json'' then St_shops
      else if name = ''Fastkey.json'' then St_fastkey
      else if name = NAME_COLLAB then St_settings
      else if name = NAME_ADVANCED then St_settings
      else if name = NAME_AI_CONFIG \<or> name = ''ai_settings.json'' then St_ai_settings
      else if name = NAME_PROMPTS then St_prompts
      else if name = NAME_FORBIDDEN then St_forbidden_words
      else if name = NAME_TRANSFER then St_transfer_rules
      else if name = NAME_PRODUCT_TABLE \<or> name = NAME_PRODUCTS then St_products
      else if name = NAME_MESSAGES then St_messages
      else if name = ''SKILL.md'' then St_skills
      else if name = NAME_MOUNTS then St_skill_mounts
      else if js_includes name PART_AUTO \<or> js_includes name PART_HUMAN \<or> js_includes name PART_PENDING then St_knowledge
      else if suffix ''.csv'' name then St_knowledge
      else if to_lower (extname name) = ''.csv'' then St_knowledge else St_settings)"

datatype path_kind = Missing_path | Regular_file | Other_path

record selection_env =
  se_cwd :: file_path
  se_realpath :: "file_path \<Rightarrow> file_path option"
  se_kind :: "file_path \<Rightarrow> path_kind"
  se_uuid :: "nat \<Rightarrow> string"
  se_now :: string

text \<open>The loop over the chosen files; \<open>seen\<close> holds the pairs of type and path.\<close>

fun select_items :: "selection_env \<Rightarrow> file_path \<Rightarrow> string list \<Rightarrow> (source_type \<times> file_path) list \<Rightarrow> source_item list
    \<Rightarrow> planning_error + source_item list" where
  "select_items env root [] seen items = Inr items"
| "select_items env root (f # files) seen items =
     (let abs = resolve_path (se_cwd env) f in
      case assertInsideRoot root abs of
        Inl e \<Rightarrow> Inl e
      | Inr _ \<Rightarrow> (case assertNoSymlinkEscape (se_realpath env) (\<lambda>p. se_kind env p \<noteq> Missing_path) root abs of
          Some e \<Rightarrow> Inl e
        | None \<Rightarrow> (case se_kind env abs of
            Missing_path \<Rightarrow> Inl (Invalid_source ''selected file missing'')
          | Other_path \<Rightarrow> Inl (Invalid_source ''selected path is not a file'')
          | Regular_file \<Rightarrow>
              (let ty = sourceTypeForPath abs in
               if (ty, abs) \<in> set seen then select_items env root files seen items
               else select_items env root files (seen @ [(ty, abs)])
                 (items @ [\<lparr>si_item_id = ''it-'' @ take 8 (se_uuid env (length items)), si_display_name = last abs,
                   si_path = path_text abs, si_source_type = ty\<rparr>])))))"

definition createSelection :: "selection_env \<Rightarrow> string \<Rightarrow> string list \<Rightarrow> planning_error + source_selection" where
  "createSelection env root chosen =
     (let r = resolve_path (se_cwd env) root in
      case assertNoSymlinkEscape (se_realpath env) (\<lambda>p. se_kind env p \<noteq> Missing_path) r r of
        Some e \<Rightarrow> Inl e
      | None \<Rightarrow> (case select_items env r chosen [] [] of
          Inl e \<Rightarrow> Inl e
        | Inr items \<Rightarrow> Inr \<lparr>sl_selection_id = ''sel-'' @ take 8 (se_uuid env (length items)), sl_root = path_text r,
            sl_items = items, sl_selected_at = se_now env\<rparr>))"

subsection \<open>Scanning\<close>

text \<open>What \<open>readdirSync\<close> shows of a directory. Links are followed by no one; their real path is checked.\<close>

datatype scan_entry =
    Scan_file string nat
  | Scan_dir string "scan_entry list"
  | Scan_link string "file_path option"
  | Scan_other string

fun entry_name :: "scan_entry \<Rightarrow> string" where
  "entry_name (Scan_file n _) = n"
| "entry_name (Scan_dir n _) = n"
| "entry_name (Scan_link n _) = n"
| "entry_name (Scan_other n) = n"

definition link_escapes :: "file_path \<Rightarrow> file_path option \<Rightarrow> bool" where
  "link_escapes root target = (case target of None \<Rightarrow> False | Some c \<Rightarrow> c \<noteq> root \<and> (root = [] \<or> \<not> prefix root c))"

text \<open>\<open>walk\<close> and its loop. The root of the model is a real path that exists.\<close>

fun walk_entries :: "safety_limits \<Rightarrow> file_path \<Rightarrow> file_path \<Rightarrow> scan_entry list \<Rightarrow> file_path list \<Rightarrow> planning_error + file_path list"
and walk_entry :: "safety_limits \<Rightarrow> file_path \<Rightarrow> file_path \<Rightarrow> scan_entry \<Rightarrow> file_path list \<Rightarrow> planning_error + file_path list" where
  "walk_entries lim root dir [] out = Inr out"
| "walk_entries lim root dir (e # es) out =
     (case assertInsideRoot root (dir @ [entry_name e]) of
        Inl err \<Rightarrow> Inl err
      | Inr _ \<Rightarrow> (case walk_entry lim root dir e out of Inl err \<Rightarrow> Inl err | Inr out' \<Rightarrow> walk_entries lim root dir es out'))"
| "walk_entry lim root dir (Scan_link n target) out =
     (if link_escapes root target then Inl (Path_unsafe ''symlink escape detected'') else Inr out)"
| "walk_entry lim root dir (Scan_other n) out = Inr out"
| "walk_entry lim root dir (Scan_dir n es) out =
     (if n = ''node_modules'' \<or> prefix ''.'' n then Inr out
      else if length out + length es > lim_maxFiles lim then Inl (Invalid_source ''selection exceeds maxFiles limit'')
      else walk_entries lim root (dir @ [n]) es out)"
| "walk_entry lim root dir (Scan_file n len) out =
     (if len > lim_maxFileBytes lim then Inl (Invalid_source ''file exceeds maxFileBytes'') else Inr (out @ [dir @ [n]]))"

definition walk :: "safety_limits \<Rightarrow> file_path \<Rightarrow> scan_entry list \<Rightarrow> planning_error + file_path list" where
  "walk lim root entries =
     (if length entries > lim_maxFiles lim then Inl (Invalid_source ''selection exceeds maxFiles limit'')
      else walk_entries lim root root entries [])"

definition KNOWN_FILES :: "string list" where
  "KNOWN_FILES = [''shops.json'', ''Fastkey.json'', NAME_COLLAB, NAME_ADVANCED, NAME_AI_CONFIG, ''ai_settings.json'', NAME_PROMPTS,
     NAME_FORBIDDEN, NAME_TRANSFER, NAME_PRODUCT_TABLE, NAME_PRODUCTS, NAME_MESSAGES, NAME_MOUNTS, ''SKILL.md'']"

definition scan_item :: "(nat \<Rightarrow> string) \<Rightarrow> file_path \<Rightarrow> source_item list \<Rightarrow> source_item list" where
  "scan_item show36 f items =
     (if last f \<notin> set KNOWN_FILES \<and> \<not> suffix ''.csv'' (last f) then items
      else items @ [\<lparr>si_item_id = ''it-'' @ show36 (length items), si_display_name = last f, si_path = path_text f,
        si_source_type = sourceTypeForPath f\<rparr>])"

definition scanSelection :: "safety_limits \<Rightarrow> (nat \<Rightarrow> string) \<Rightarrow> file_path \<Rightarrow> scan_entry list option \<Rightarrow> planning_error + source_item list \<times> nat" where
  "scanSelection lim show36 root tree =
     (case tree of
        None \<Rightarrow> Inl (Invalid_source ''selection root missing'')
      | Some entries \<Rightarrow> (case walk lim root entries of
          Inl e \<Rightarrow> Inl e
        | Inr files \<Rightarrow> Inr (fold (scan_item show36) files [], length files)))"

subsection \<open>Secrets\<close>

definition SELLER_SECRET_FIELDS :: "string list" where
  "SELLER_SECRET_FIELDS = [''cookie'', ''cookies'', ''session'', ''session_token'', ''token'', ''password'', ''passwd'', ''auth'',
     ''authorization'', ''device_fingerprint'', ''license'', ''login_state'', ''credential'']"

definition PROVIDER_SECRET_FIELDS :: "string list" where
  "PROVIDER_SECRET_FIELDS = [''api_key'', ''apiKey'', ''apikey'', ''secret'', ''secret_key'', ''access_key'', ''app_secret'']"

record secret_detection =
  det_fields :: "string list"
  det_seller :: "string list"
  det_provider :: "string list"
  det_must_not_persist :: "string list"

definition no_detection :: secret_detection where
  "no_detection = \<lparr>det_fields = [], det_seller = [], det_provider = [], det_must_not_persist = []\<rparr>"

definition merge_list :: "string list \<Rightarrow> string list \<Rightarrow> string list" where
  "merge_list target src = fold (\<lambda>v t. if v \<in> set t then t else t @ [v]) src target"

definition mergeDetection :: "secret_detection \<Rightarrow> secret_detection \<Rightarrow> secret_detection" where
  "mergeDetection target src =
     \<lparr>det_fields = merge_list (det_fields target) (det_fields src), det_seller = merge_list (det_seller target) (det_seller src),
      det_provider = merge_list (det_provider target) (det_provider src),
      det_must_not_persist = merge_list (det_must_not_persist target) (det_must_not_persist src)\<rparr>"

definition seller_key :: "string \<Rightarrow> bool" where
  "seller_key key \<longleftrightarrow> list_ex (js_includes (to_lower key)) SELLER_SECRET_FIELDS"

definition provider_key :: "string \<Rightarrow> bool" where
  "provider_key key \<longleftrightarrow> list_ex (js_includes (to_lower key)) PROVIDER_SECRET_FIELDS"

definition note_key :: "string \<Rightarrow> secret_detection \<Rightarrow> secret_detection" where
  "note_key key out =
     (if seller_key key then out\<lparr>det_fields := det_fields out @ [key], det_seller := det_seller out @ [key],
        det_must_not_persist := det_must_not_persist out @ [key]\<rparr>
      else if provider_key key then out\<lparr>det_fields := det_fields out @ [key], det_provider := det_provider out @ [key]\<rparr>
      else out)"

function detectSecrets :: "nat \<Rightarrow> json \<Rightarrow> secret_detection" where
  "detectSecrets depth v =
     (if depth > 32 then no_detection
      else case v of
        JArr vs \<Rightarrow> fold (\<lambda>x out. mergeDetection out (detectSecrets (Suc depth) x)) vs no_detection
      | JObj kvs \<Rightarrow> fold (\<lambda>kv out. mergeDetection (note_key (fst kv) out) (detectSecrets (Suc depth) (snd kv))) kvs no_detection
      | _ \<Rightarrow> no_detection)"
  by pat_completeness auto
termination
  by (relation "measure (\<lambda>(d, _). 33 - d)") auto

declare detectSecrets.simps [simp del]

subsection \<open>Manifests and plans\<close>

fun target_of :: "source_type \<Rightarrow> target_aggregate \<times> target_writer" where
  "target_of St_shops = (Ag_shops, Writer_main)"
| "target_of St_settings = (Ag_config_groups, Writer_main)"
| "target_of St_fastkey = (Ag_config_groups, Writer_main)"
| "target_of St_ai_settings = (Ag_config_groups, Writer_main)"
| "target_of St_products = (Ag_products, Writer_main)"
| "target_of St_knowledge = (Ag_knowledge_entries, Writer_worker)"
| "target_of St_candidates = (Ag_knowledge_candidates, Writer_worker)"
| "target_of St_prompts = (Ag_prompt_profiles, Writer_main)"
| "target_of St_skills = (Ag_skills, Writer_main)"
| "target_of St_skill_mounts = (Ag_product_skill_mounts, Writer_main)"
| "target_of St_transfer_rules = (Ag_transfer_rules, Writer_main)"
| "target_of St_forbidden_words = (Ag_forbidden_words, Writer_main)"
| "target_of St_messages = (Ag_conversations, Writer_main)"

text \<open>\<open>parseRawForSecrets\<close>: a CSV file is wrapped as one text, everything else is parsed as JSON.\<close>

definition parseRawForSecrets :: "(string \<Rightarrow> json option) \<Rightarrow> source_type \<Rightarrow> string \<Rightarrow> json" where
  "parseRawForSecrets parse ty raw =
     (if ty = St_knowledge \<or> ty = St_products \<or> ty = St_transfer_rules \<or> ty = St_messages
      then JObj [(''csv'', JStr (take 100000 raw))]
      else case parse raw of Some v \<Rightarrow> v | None \<Rightarrow> JObj [(''text'', JStr (take 100000 raw))])"

record planning_env =
  pe_fingerprint :: "string \<Rightarrow> source_fingerprint option"
  pe_read :: "string \<Rightarrow> string"
  pe_parse :: "string \<Rightarrow> json option"
  pe_count :: "source_item \<Rightarrow> nat"
  pe_hash :: "string \<Rightarrow> string"
  pe_uuid :: string
  pe_scan :: "string \<Rightarrow> planning_error + source_item list"

definition buildItemManifest :: "planning_env \<Rightarrow> source_item \<Rightarrow> (planning_error + item_manifest) \<times> string list" where
  "buildItemManifest env item = (case pe_fingerprint env (si_path item) of
     None \<Rightarrow> (Inl (Plan_error ''file cannot be read''), [])
   | Some fp \<Rightarrow>
       (let secrets = detectSecrets 0 (parseRawForSecrets (pe_parse env) (si_source_type item) (pe_read env (si_path item)));
            (aggregate, writer) = target_of (si_source_type item) in
        (Inr \<lparr>im_item_id = si_item_id item, im_display_name = si_display_name item, im_source_type = si_source_type item,
          im_source_fingerprint = fp, im_target_aggregate = aggregate, im_target_writer = writer, im_record_count = pe_count env item\<rparr>,
         det_fields secrets)))"

fun build_manifests :: "planning_env \<Rightarrow> source_item list \<Rightarrow> planning_error + item_manifest list" where
  "build_manifests env [] = Inr []"
| "build_manifests env (i # items) = (case fst (buildItemManifest env i) of
     Inl e \<Rightarrow> Inl e
   | Inr m \<Rightarrow> (case build_manifests env items of Inl e \<Rightarrow> Inl e | Inr ms \<Rightarrow> Inr (m # ms)))"

fun source_type_text :: "source_type \<Rightarrow> string" where
  "source_type_text St_shops = ''shops''"
| "source_type_text St_settings = ''settings''"
| "source_type_text St_fastkey = ''fastkey''"
| "source_type_text St_ai_settings = ''ai_settings''"
| "source_type_text St_products = ''products''"
| "source_type_text St_knowledge = ''knowledge''"
| "source_type_text St_candidates = ''candidates''"
| "source_type_text St_prompts = ''prompts''"
| "source_type_text St_skills = ''skills''"
| "source_type_text St_skill_mounts = ''skill_mounts''"
| "source_type_text St_transfer_rules = ''transfer_rules''"
| "source_type_text St_forbidden_words = ''forbidden_words''"
| "source_type_text St_messages = ''messages''"

fun aggregate_text :: "target_aggregate \<Rightarrow> string" where
  "aggregate_text Ag_shops = ''shops''"
| "aggregate_text Ag_config_groups = ''config_groups''"
| "aggregate_text Ag_products = ''products''"
| "aggregate_text Ag_knowledge_entries = ''knowledge_entries''"
| "aggregate_text Ag_knowledge_candidates = ''knowledge_candidates''"
| "aggregate_text Ag_prompt_profiles = ''prompt_profiles''"
| "aggregate_text Ag_skills = ''skills''"
| "aggregate_text Ag_product_skill_mounts = ''product_skill_mounts''"
| "aggregate_text Ag_transfer_rules = ''transfer_rules''"
| "aggregate_text Ag_forbidden_words = ''forbidden_words''"
| "aggregate_text Ag_conversations = ''conversations''"

fun policy_text :: "conflict_policy \<Rightarrow> string" where
  "policy_text PRESERVE_EXISTING = ''PRESERVE_EXISTING''"
| "policy_text INSERT_MISSING = ''INSERT_MISSING''"
| "policy_text MERGE_SAFE_FIELDS = ''MERGE_SAFE_FIELDS''"
| "policy_text REPLACE_SELECTED = ''REPLACE_SELECTED''"

definition plan_object :: "string \<Rightarrow> item_manifest list \<Rightarrow> import_options \<Rightarrow> json" where
  "plan_object selectionId items options =
     JObj [(''selection_id'', JStr selectionId),
       (''items'', JArr (map (\<lambda>i. JObj [(''item_id'', JStr (im_item_id i)), (''source_type'', JStr (source_type_text (im_source_type i))),
          (''source_fingerprint'', JObj [(''sha256'', JStr (sf_sha256 (im_source_fingerprint i))),
             (''size'', JNum (Integral (int (sf_size (im_source_fingerprint i))))),
             (''mtime_ms'', JNum (Fractional (sf_mtime_ms (im_source_fingerprint i))))]),
          (''target_aggregate'', JStr (aggregate_text (im_target_aggregate i))),
          (''record_count'', JNum (Integral (int (im_record_count i))))]) items)),
       (''options'', JObj ((case io_conflict_policy options of Some p \<Rightarrow> [(''conflict_policy'', JStr (policy_text p))] | None \<Rightarrow> []) @
          [(''legacy_timezone'', (case io_legacy_timezone options of Some z \<Rightarrow> JStr z | None \<Rightarrow> JNull)),
           (''import_provider_secret'', JBool (case io_import_provider_secret options of Some b \<Rightarrow> b | None \<Rightarrow> False)),
           (''rebuild_rag'', JBool (case io_rebuild_rag options of Some b \<Rightarrow> b | None \<Rightarrow> True))]))]"

definition planFingerprint :: "(string \<Rightarrow> string) \<Rightarrow> string \<Rightarrow> item_manifest list \<Rightarrow> import_options \<Rightarrow> string" where
  "planFingerprint hash selectionId items options = hash (json_stringify (plan_object selectionId items options))"

definition planImport :: "planning_env \<Rightarrow> source_selection \<Rightarrow> import_options \<Rightarrow> planning_error + legacy_plan" where
  "planImport env selection options =
     (case (if sl_items selection \<noteq> [] then Inr (sl_items selection) else pe_scan env (sl_root selection)) of
        Inl e \<Rightarrow> Inl e
      | Inr items \<Rightarrow> (case build_manifests env items of
          Inl e \<Rightarrow> Inl e
        | Inr ms \<Rightarrow> Inr \<lparr>pl_plan_id = ''plan-'' @ take 8 (pe_uuid env), pl_selection_id = sl_selection_id selection,
            pl_plan_sha256 = planFingerprint (pe_hash env) (sl_selection_id selection) ms options, pl_items = ms, pl_options = options\<rparr>))"

subsection \<open>The desktop services\<close>

type_synonym selection_table = "string \<rightharpoonup> source_selection"

definition rootOf :: "string \<Rightarrow> string" where
  "rootOf f = (let g = map (\<lambda>c. if c = CHR 0x5C then CHR ''/'' else c) f; tail = takeWhile (\<lambda>c. c \<noteq> CHR ''/'') (rev g) in
     if length tail + 1 < length f then take (length f - length tail - 1) f else f)"

text \<open>The answer of the dialog is \<open>None\<close> when it was cancelled.\<close>

definition select_source :: "selection_env \<Rightarrow> string \<Rightarrow> string list option \<Rightarrow> selection_table \<Rightarrow> (planning_error + string \<times> nat) \<times> selection_table" where
  "select_source env uuid chosen t = (case chosen of
     None \<Rightarrow> (Inr ([], 0), t)
   | Some [] \<Rightarrow> (Inr ([], 0), t)
   | Some (f # fs) \<Rightarrow> (case createSelection env (rootOf f) (f # fs) of
       Inl e \<Rightarrow> (Inl e, t)
     | Inr sel \<Rightarrow> (let token = ''seltok-'' @ take 12 uuid in (Inr (token, length (sl_items sel)), t(token \<mapsto> sel)))))"

definition take_selection :: "string \<Rightarrow> selection_table \<Rightarrow> (planning_error + source_selection) \<times> selection_table" where
  "take_selection token t = (case t token of
     None \<Rightarrow> (Inl (Plan_error ''unknown or expired selection token''), t)
   | Some sel \<Rightarrow> (Inr sel, t(token := None)))"

definition scan_source :: "string \<Rightarrow> selection_table \<Rightarrow> planning_error + nat" where
  "scan_source token t = (case t token of
     None \<Rightarrow> Inl (Plan_error ''unknown selection token'') | Some sel \<Rightarrow> Inr (length (sl_items sel)))"

text \<open>\<open>ImportOrchestrator.dryRun\<close>: the event is emitted before anything is planned.\<close>

definition dryRun_plan :: "planning_env \<Rightarrow> source_selection \<Rightarrow> import_options \<Rightarrow> import_world \<Rightarrow> (planning_error + legacy_plan) \<times> import_world" where
  "dryRun_plan env selection options w = (planImport env selection options, log_call (Emit ''legacy_import.dry_run'') w)"

definition dry_run :: "planning_env \<Rightarrow> string \<Rightarrow> import_options \<Rightarrow> selection_table \<Rightarrow> import_world
    \<Rightarrow> (planning_error + legacy_plan) \<times> import_world" where
  "dry_run env token options t w = (case t token of
     None \<Rightarrow> (Inl (Plan_error ''unknown selection token''), w)
   | Some sel \<Rightarrow> dryRun_plan env sel options w)"

text \<open>\<open>LegacyImportService.apply\<close>; its event sink gets the events of the orchestrator and one of its own at the end.\<close>

definition apply_source :: "planning_env \<Rightarrow> 'p import_ports \<Rightarrow> string \<Rightarrow> string \<Rightarrow> string option \<Rightarrow> import_options \<Rightarrow> selection_table \<Rightarrow> import_world
    \<Rightarrow> (planning_error + legacy_session option) \<times> selection_table \<times> import_world" where
  "apply_source env P token planSha256 sessionId options t w =
     (case take_selection token t of
        (Inl e, t) \<Rightarrow> (Inl e, t, w)
      | (Inr sel, t) \<Rightarrow> (case dryRun_plan env sel options w of
          (Inl e, w) \<Rightarrow> (Inl e, t, w)
        | (Inr plan, w) \<Rightarrow>
            if planSha256 \<noteq> [] \<and> pl_plan_sha256 plan \<noteq> planSha256 then (Inl (Plan_error ''plan checksum mismatch''), t, w)
            else (case apply_import P plan sel sessionId w of
                (Inl e, w) \<Rightarrow> (Inl (Import_failed e), t, w)
              | (Inr (s, _, _), w) \<Rightarrow> (Inr s, t, log_call (Emit ''completed'') w))))"

text \<open>The apply handler of the desktop builds the options of the plan itself.\<close>

definition apply_options :: "string option \<Rightarrow> bool option \<Rightarrow> import_options" where
  "apply_options legacy_timezone import_provider_secret =
     \<lparr>io_conflict_policy = None, io_legacy_timezone = legacy_timezone, io_import_provider_secret = import_provider_secret,
      io_rebuild_rag = Some True\<rparr>"

record import_status_view =
  st_session_id :: string
  st_state :: import_state
  st_phases :: "import_phase list"
  st_backup_id :: "string option"
  st_error :: "string option"

definition project_status :: "legacy_session \<Rightarrow> import_status_view" where
  "project_status s = \<lparr>st_session_id = is_session_id s, st_state = is_state s, st_phases = is_phases s, st_backup_id = is_backup_id s,
     st_error = map_option (take 200) (text_or_null (is_error s))\<rparr>"

end
