(* ===== verification/Legacy_Import_Props.thy ===== *)
theory Legacy_Import_Props imports Legacy_Import begin

text \<open>
  What the application of an import plan guarantees: nothing is written before a backup exists and the
  sources are the planned ones, the writes happen in the planned order, and the session row tells how the
  application ended. Also what cancelling and resuming do.
\<close>

subsection \<open>Calls\<close>

fun is_write :: "import_call \<Rightarrow> bool" where
  "is_write (Call_main _) = True"
| "is_write (Call_worker _) = True"
| "is_write Call_rebuild = True"
| "is_write _ = False"

text \<open>The writes of a plan: the items of the main writer, the items of the worker, the rebuild.\<close>

definition writes_to :: "target_writer \<Rightarrow> (string \<Rightarrow> import_call) \<Rightarrow> item_manifest list \<Rightarrow> import_call list" where
  "writes_to k call items = map (\<lambda>i. call (im_item_id i)) (filter (\<lambda>i. im_target_writer i = k) items)"

definition planned_writes :: "legacy_plan \<Rightarrow> import_call list" where
  "planned_writes plan = writes_to Writer_main Call_main (pl_items plan)
     @ writes_to Writer_worker Call_worker (pl_items plan) @ [Call_rebuild]"

text \<open>\<open>calls_between w w' d\<close>: from \<open>w\<close> to \<open>w'\<close> the calls \<open>d\<close> were made.\<close>

definition calls_between :: "import_world \<Rightarrow> import_world \<Rightarrow> import_call list \<Rightarrow> bool" where
  "calls_between w w' d \<longleftrightarrow> iw_calls w' = iw_calls w @ d"

lemma calls_refl: "calls_between w w []"
  by (simp add: calls_between_def)

lemma calls_trans: "calls_between w v d \<Longrightarrow> calls_between v u e \<Longrightarrow> calls_between w u (d @ e)"
  by (simp add: calls_between_def)

lemma calls_log [simp]: "calls_between w (log_call c w) [c]"
  by (simp add: calls_between_def log_call_def)

lemma calls_on_sessions [simp]: "iw_calls (on_sessions f w) = iw_calls w" "iw_sessions (on_sessions f w) = f (iw_sessions w)"
  by (simp_all add: on_sessions_def)

lemma log_sessions [simp]: "iw_sessions (log_call c w) = iw_sessions w" "iw_calls (log_call c w) = iw_calls w @ [c]"
  by (simp_all add: log_call_def)

lemma marks_calls [simp]: "iw_calls (mark_state P sid st ph w) = iw_calls w" "iw_calls (mark_failed P sid msg w) = iw_calls w"
  by (simp_all add: mark_state_def mark_failed_def)

lemma marks_sessions:
  "iw_sessions (mark_state P sid st ph w) = updateState (ip_now P) sid st (Some ph) None (iw_sessions w)"
  "iw_sessions (mark_failed P sid msg w) = updateState (ip_now P) sid Ss_FAILED_RECOVERABLE (Some Ph_FAILED) (Some msg) (iw_sessions w)"
  by (simp_all add: mark_state_def mark_failed_def)

text \<open>A run of one writer makes the planned calls up to the first error and leaves the sessions alone.\<close>

definition partial_run :: "import_call list \<Rightarrow> bool \<Rightarrow> import_world \<Rightarrow> import_world \<Rightarrow> bool" where
  "partial_run planned ok w w' \<longleftrightarrow> iw_sessions w' = iw_sessions w
     \<and> (\<exists>d. calls_between w w' d \<and> prefix (filter is_write d) planned \<and> (ok \<longrightarrow> filter is_write d = planned))"

lemma partial_run_none: "partial_run planned False w w"
  by (auto simp: partial_run_def intro!: exI [of _ "[]"] calls_refl)

lemma partial_run_done: "partial_run [] True w w"
  by (auto simp: partial_run_def intro!: exI [of _ "[]"] calls_refl)

lemma partial_run_call: "is_write c \<Longrightarrow> partial_run (c # planned) False w (log_call c w)"
  by (auto simp: partial_run_def intro!: exI [of _ "[c]"])

lemma partial_run_step:
  assumes "is_write c" and "\<not> is_write e" and "partial_run planned ok (log_call e (log_call c w)) w'"
  shows "partial_run (c # planned) ok w w'"
proof -
  obtain d where d: "calls_between (log_call e (log_call c w)) w' d" "prefix (filter is_write d) planned"
    "ok \<longrightarrow> filter is_write d = planned" "iw_sessions w' = iw_sessions w"
    using assms(3) by (auto simp: partial_run_def)
  then have "calls_between w w' ([c, e] @ d)" by (simp add: calls_between_def)
  with d assms(1,2) show ?thesis unfolding partial_run_def by (intro conjI exI [of _ "[c, e] @ d"]) auto
qed

lemma main_items_run:
  "main_items P refs options items n w = (r, w') \<Longrightarrow> partial_run (writes_to Writer_main Call_main items) (\<not> isl r) w w'"
proof (induction P refs options items n w arbitrary: r w' rule: main_items.induct)
  case (2 P refs options item items n w)
  show ?case
  proof (cases "im_target_writer item = Writer_main")
    case False
    with "2" show ?thesis by (simp add: writes_to_def)
  next
    case True
    then have planned: "writes_to Writer_main Call_main (item # items) = Call_main (im_item_id item) # writes_to Writer_main Call_main items"
      by (simp add: writes_to_def)
    show ?thesis
    proof (cases "refs (im_item_id item)")
      case None
      with "2.prems" True show ?thesis by (auto simp: partial_run_none)
    next
      case ref: (Some ref)
      show ?thesis
      proof (cases "ip_parse P ref")
        case (Inl e)
        with "2.prems" True ref show ?thesis by (auto simp: partial_run_none)
      next
        case got: (Inr parsed)
        show ?thesis
        proof (cases "ip_write P ref parsed item options")
          case (Inl e)
          then have "r = Inl e" "w' = log_call (Call_main (im_item_id item)) w"
            using "2.prems" True ref got by (simp_all add: Let_def)
          then show ?thesis unfolding planned by (simp add: partial_run_call)
        next
          case wrote: (Inr k)
          show ?thesis
            unfolding planned
            using "2.prems" "2.IH" True ref got wrote
            by (intro partial_run_step [of _ "Emit ''legacy_import.main_written''"]) (auto simp: Let_def split: prod.splits)
        qed
      qed
    qed
  qed
qed (simp add: writes_to_def partial_run_done)

lemma worker_items_run:
  "worker_items P refs items n w = (r, w') \<Longrightarrow> partial_run (writes_to Writer_worker Call_worker items) (\<not> isl r) w w'"
proof (induction P refs items n w arbitrary: r w' rule: worker_items.induct)
  case (2 P refs item items n w)
  show ?case
  proof (cases "im_target_writer item = Writer_worker")
    case False
    with "2" show ?thesis by (simp add: writes_to_def)
  next
    case True
    then have planned: "writes_to Writer_worker Call_worker (item # items) = Call_worker (im_item_id item) # writes_to Writer_worker Call_worker items"
      by (simp add: writes_to_def)
    show ?thesis
    proof (cases "refs (im_item_id item)")
      case None
      with "2.prems" True show ?thesis by (auto simp: partial_run_none)
    next
      case ref: (Some ref)
      show ?thesis
      proof (cases "ip_request P ref")
        case (Inl e)
        with "2.prems" True ref show ?thesis by (auto simp: partial_run_none)
      next
        case got: (Inr request)
        show ?thesis
        proof (cases "ip_applyKnowledge P request")
          case (Inl e)
          then have "r = Inl e" "w' = log_call (Call_worker (im_item_id item)) w"
            using "2.prems" True ref got by (simp_all add: Let_def)
          then show ?thesis unfolding planned by (simp add: partial_run_call)
        next
          case wrote: (Inr k)
          show ?thesis
            unfolding planned
            using "2.prems" "2.IH" True ref got wrote
            by (intro partial_run_step [of _ "Emit ''legacy_import.worker_written''"]) (auto simp: Let_def split: prod.splits)
        qed
      qed
    qed
  qed
qed (simp add: writes_to_def partial_run_done)

subsection \<open>The session row\<close>

lemma appendPhase_row:
  assumes "t sid = Some s"
  shows "\<exists>s'. appendPhase sid ph t sid = Some s' \<and> is_state s' = is_state s \<and> is_error s' = is_error s
    \<and> set (is_phases s') = insert ph (set (is_phases s)) \<and> is_session_id s' = is_session_id s"
  using assms by (auto simp: appendPhase_def)

lemma updateState_row:
  assumes "t sid = Some s"
  shows "\<exists>s'. updateState now sid st (Some ph) err t sid = Some s' \<and> is_state s' = st \<and> is_error s' = err
    \<and> set (is_phases s') = insert ph (set (is_phases s)) \<and> is_session_id s' = is_session_id s"
proof -
  let ?s = "s\<lparr>is_state := st, is_completed_at := (case (if st = Ss_COMPLETED then Some now else None) of
    Some c \<Rightarrow> Some c | None \<Rightarrow> is_completed_at s), is_error := err\<rparr>"
  have "updateState now sid st (Some ph) err t = appendPhase sid ph (t(sid \<mapsto> ?s))"
    using assms by (simp add: updateState_def Let_def)
  then show ?thesis using appendPhase_row [of "t(sid \<mapsto> ?s)" sid ?s ph] by auto
qed

text \<open>The row of a session has at least the given phases, and it says how the session stands.\<close>

definition row_has :: "session_table \<Rightarrow> string \<Rightarrow> import_phase set \<Rightarrow> bool" where
  "row_has t sid phases \<longleftrightarrow> (\<exists>s. t sid = Some s \<and> phases \<subseteq> set (is_phases s))"

definition row_says :: "session_table \<Rightarrow> string \<Rightarrow> import_state \<Rightarrow> string option \<Rightarrow> bool" where
  "row_says t sid st err \<longleftrightarrow> (\<exists>s. t sid = Some s \<and> is_state s = st \<and> is_error s = err)"

lemma mark_state_row:
  assumes "row_has (iw_sessions w) sid phases"
  shows "row_has (iw_sessions (mark_state P sid st ph w)) sid (insert ph phases)"
    and "row_says (iw_sessions (mark_state P sid st ph w)) sid st None"
  using assms updateState_row [of "iw_sessions w" sid _ "ip_now P" st ph None]
  by (fastforce simp: row_has_def row_says_def marks_sessions)+

lemma mark_failed_row:
  assumes "row_has (iw_sessions w) sid phases"
  shows "row_says (iw_sessions (mark_failed P sid msg w)) sid Ss_FAILED_RECOVERABLE (Some msg)"
  using assms updateState_row [of "iw_sessions w" sid _ "ip_now P" Ss_FAILED_RECOVERABLE Ph_FAILED "Some msg"]
  by (fastforce simp: row_has_def row_says_def marks_sessions)

subsection \<open>The phases\<close>

text \<open>
  How a run of phases ends: completed with the row of the session, failed with the error in the row, or with
  an error that the index rebuild threw.
\<close>

definition ends_durably :: "'p import_ports \<Rightarrow> string
    \<Rightarrow> import_error + (legacy_session option \<times> import_verification \<times> apply_effect) \<Rightarrow> import_world \<Rightarrow> import_phase set \<Rightarrow> bool" where
  "ends_durably P sid r w phases \<longleftrightarrow> (case r of
     Inr (s, v, _) \<Rightarrow> row_has (iw_sessions w) sid phases \<and> row_says (iw_sessions w) sid Ss_COMPLETED None
       \<and> s = get_session (iw_sessions w) sid \<and> iv_all_ok v
   | Inl e \<Rightarrow> ip_ragRebuild P = Inl e \<or> row_says (iw_sessions w) sid Ss_FAILED_RECOVERABLE (Some (error_message e)))"

lemma verify_phase_ends:
  assumes "verify_phase P session eff w = (r, w')" and "row_has (iw_sessions w) (is_session_id session) phases"
  shows "ends_durably P (is_session_id session) r w' (phases \<union> {Ph_VERIFY, Ph_COMPLETE})"
    and "\<exists>d. calls_between w w' d \<and> filter is_write d = []"
proof -
  let ?sid = "is_session_id session"
  let ?v = "verifyImport (case get_session (iw_sessions w) ?sid of Some s \<Rightarrow> s | None \<Rightarrow> session) (ip_verificationDeps P)"
  let ?w1 = "mark_state P ?sid Ss_VERIFIED Ph_VERIFY w" let ?w2 = "mark_state P ?sid Ss_COMPLETED Ph_COMPLETE ?w1"
  note row1 = mark_state_row(1) [OF assms(2), of P Ss_VERIFIED Ph_VERIFY]
  note row2 = mark_state_row [OF row1, of P Ss_COMPLETED Ph_COMPLETE]
  have "ends_durably P ?sid r w' (phases \<union> {Ph_VERIFY, Ph_COMPLETE}) \<and> (\<exists>d. calls_between w w' d \<and> filter is_write d = [])"
  proof (cases "iv_all_ok ?v")
    case False
    then have "r = Inl (Import_error E_VERIFY_FAILED ''verification failed'')" "w' = mark_failed P ?sid ''verification failed'' w"
      using assms(1) by (auto simp: verify_phase_def Let_def)
    then show ?thesis
      using mark_failed_row [OF assms(2), of P "''verification failed''"]
      by (auto simp: ends_durably_def calls_between_def)
  next
    case True
    then have "r = Inr (get_session (iw_sessions ?w2) ?sid, ?v, eff)" "w' = log_call (Emit ''legacy_import.completed'') ?w2"
      using assms(1) by (auto simp: verify_phase_def Let_def)
    then show ?thesis
      using True row2 by (auto simp: ends_durably_def calls_between_def insert_commute)
  qed
  then show "ends_durably P ?sid r w' (phases \<union> {Ph_VERIFY, Ph_COMPLETE})" "\<exists>d. calls_between w w' d \<and> filter is_write d = []"
    by blast+
qed

lemma rebuild_phase_ends:
  assumes "rebuild_phase P session eff w = (r, w')" and "row_has (iw_sessions w) (is_session_id session) phases"
  shows "ends_durably P (is_session_id session) r w' (phases \<union> {Ph_DERIVED_REBUILD, Ph_VERIFY, Ph_COMPLETE})
    \<and> (\<exists>d. calls_between w w' d \<and> filter is_write d = [Call_rebuild])"
proof -
  let ?sid = "is_session_id session" let ?w1 = "log_call Call_rebuild w"
  let ?w2 = "mark_state P ?sid Ss_DERIVED_REBUILT Ph_DERIVED_REBUILD ?w1"
  have row: "row_has (iw_sessions ?w1) ?sid phases" using assms(2) by simp
  consider (thrown) e where "ip_ragRebuild P = Inl e" | (bad) "ip_ragRebuild P = Inr False" | (good) "ip_ragRebuild P = Inr True"
    by (cases "ip_ragRebuild P") auto
  then show ?thesis
  proof cases
    case thrown
    then have "r = Inl e" "w' = ?w1" using assms(1) by (auto simp: rebuild_phase_def Let_def)
    with thrown show ?thesis by (auto simp: ends_durably_def intro!: exI [of _ "[Call_rebuild]"])
  next
    case bad
    then have "r = Inl (Import_error E_VERIFY_FAILED ''rag rebuild failed'')" "w' = mark_failed P ?sid ''rag rebuild failed'' ?w1"
      using assms(1) by (auto simp: rebuild_phase_def Let_def)
    then show ?thesis
      using mark_failed_row [OF row, of P "''rag rebuild failed''"]
      by (auto simp: ends_durably_def calls_between_def)
  next
    case good
    then have v: "verify_phase P session eff ?w2 = (r, w')" using assms(1) by (simp add: rebuild_phase_def Let_def)
    note row2 = mark_state_row(1) [OF row, of P Ss_DERIVED_REBUILT Ph_DERIVED_REBUILD]
    have "insert Ph_DERIVED_REBUILD phases \<union> {Ph_VERIFY, Ph_COMPLETE} = phases \<union> {Ph_DERIVED_REBUILD, Ph_VERIFY, Ph_COMPLETE}"
      by auto
    moreover obtain d where "calls_between ?w2 w' d" "filter is_write d = []" using verify_phase_ends(2) [OF v row2] by blast
    then have "calls_between w w' (Call_rebuild # d)" "filter is_write (Call_rebuild # d) = [Call_rebuild]"
      by (simp_all add: calls_between_def)
    ultimately show ?thesis using verify_phase_ends(1) [OF v row2] by metis
  qed
qed

definition later_phases :: "import_phase set" where
  "later_phases = {Ph_MAIN_WRITE, Ph_WORKER_WRITE, Ph_DERIVED_REBUILD, Ph_VERIFY, Ph_COMPLETE}"

lemma write_phases_ends:
  assumes run: "write_phases P plan refs session w = (r, w')" and row: "row_has (iw_sessions w) (is_session_id session) phases"
  shows "ends_durably P (is_session_id session) r w' (phases \<union> later_phases)
    \<and> (\<exists>d. calls_between w w' d \<and> prefix (filter is_write d) (planned_writes plan)
         \<and> (\<not> isl r \<longrightarrow> filter is_write d = planned_writes plan))"
proof -
  let ?sid = "is_session_id session"
  obtain rm w1 where main: "main_items P refs (pl_options plan) (pl_items plan) 0 w = (rm, w1)" by (meson surj_pair)
  let ?M = "writes_to Writer_main Call_main (pl_items plan)" and ?W = "writes_to Writer_worker Call_worker (pl_items plan)"
  obtain d1 where d1: "calls_between w w1 d1" "prefix (filter is_write d1) ?M" "\<not> isl rm \<longrightarrow> filter is_write d1 = ?M"
    and s1: "iw_sessions w1 = iw_sessions w"
    using main_items_run [OF main] by (auto simp: partial_run_def)
  have row1: "row_has (iw_sessions w1) ?sid phases" using row s1 by simp
  show ?thesis
  proof (cases rm)
    case (Inl e)
    then have "r = Inl e" "w' = mark_failed P ?sid (error_message e) w1" using run main by (auto simp: write_phases_def Let_def)
    with mark_failed_row [OF row1, of P "error_message e"] d1(1,2) show ?thesis
      by (auto simp: ends_durably_def calls_between_def planned_writes_def intro: prefix_prefix)
  next
    case (Inr n)
    let ?w2 = "mark_state P ?sid Ss_MAIN_APPLIED Ph_MAIN_WRITE w1"
    note row2 = mark_state_row(1) [OF row1, of P Ss_MAIN_APPLIED Ph_MAIN_WRITE]
    obtain rw w3 where work: "worker_items P refs (pl_items plan) (0, 0) ?w2 = (rw, w3)" by (meson surj_pair)
    obtain d2 where d2: "calls_between ?w2 w3 d2" "prefix (filter is_write d2) ?W" "\<not> isl rw \<longrightarrow> filter is_write d2 = ?W"
      and s3: "iw_sessions w3 = iw_sessions ?w2"
      using worker_items_run [OF work] by (auto simp: partial_run_def)
    have c3: "calls_between w w3 (d1 @ d2)" using d1(1) d2(1) by (simp add: calls_between_def)
    have m: "filter is_write d1 = ?M" using d1(3) Inr by simp
    have row3: "row_has (iw_sessions w3) ?sid (insert Ph_MAIN_WRITE phases)" using row2 s3 by simp
    show ?thesis
    proof (cases rw)
      case (Inl e)
      then have "r = Inl e" "w' = mark_failed P ?sid (error_message e) w3"
        using run main work Inr \<open>rm = Inr n\<close> by (auto simp: write_phases_def Let_def)
      moreover have "prefix (filter is_write (d1 @ d2)) (planned_writes plan)"
        using d2(2) m by (simp add: planned_writes_def prefix_prefix)
      ultimately show ?thesis
        using mark_failed_row [OF row3, of P "error_message e"] c3
        by (auto simp: ends_durably_def calls_between_def intro!: exI [of _ "d1 @ d2"])
    next
      case ok: (Inr counts)
      let ?w4 = "mark_state P ?sid Ss_WORKER_APPLIED Ph_WORKER_WRITE w3"
      note row4 = mark_state_row(1) [OF row3, of P Ss_WORKER_APPLIED Ph_WORKER_WRITE]
      have rb: "rebuild_phase P session \<lparr>ae_main_inserted = n, ae_worker_inserted = fst counts, ae_duplicates = snd counts\<rparr> ?w4 = (r, w')"
        using run main work Inr ok by (simp add: write_phases_def Let_def)
      obtain d3 where d3: "calls_between ?w4 w' d3" "filter is_write d3 = [Call_rebuild]"
        using rebuild_phase_ends [OF rb row4] by blast
      have "calls_between w w' (d1 @ d2 @ d3)" using c3 d3(1) by (simp add: calls_between_def)
      moreover have "filter is_write (d1 @ d2 @ d3) = planned_writes plan"
        using m d2(3) ok d3(2) by (simp add: planned_writes_def)
      moreover have "insert Ph_WORKER_WRITE (insert Ph_MAIN_WRITE phases) \<union> {Ph_DERIVED_REBUILD, Ph_VERIFY, Ph_COMPLETE}
        = phases \<union> later_phases" by (auto simp: later_phases_def)
      ultimately show ?thesis using rebuild_phase_ends [OF rb row4] by (metis prefix_order.refl)
    qed
  qed
qed

lemma unchanged_sources:
  "assertSourcesUnchanged P refs items = Inr u \<Longrightarrow> item \<in> set items \<Longrightarrow> refs (im_item_id item) = Some ref \<Longrightarrow>
   \<exists>f. ip_fingerprint P (si_path ref) = Inr f \<and> sf_sha256 f = sf_sha256 (im_source_fingerprint item)
     \<and> sf_size f = sf_size (im_source_fingerprint item)"
  by (induction P refs items rule: assertSourcesUnchanged.induct) (auto split: option.splits sum.splits if_splits)

text \<open>A resumed session with a durable backup.\<close>

definition has_backup :: "session_table \<Rightarrow> string option \<Rightarrow> bool" where
  "has_backup t sessionId \<longleftrightarrow> (\<exists>sid s. sessionId = Some sid \<and> t sid = Some s \<and> text_or_null (is_backup_id s) \<noteq> None)"

text \<open>The row of a session names its backup; the later phases leave that alone.\<close>

definition row_backed :: "session_table \<Rightarrow> string \<Rightarrow> string \<Rightarrow> bool" where
  "row_backed t sid b \<longleftrightarrow> (\<exists>s. t sid = Some s \<and> is_backup_id s = Some b)"

lemma appendPhase_backed [simp]: "row_backed (appendPhase k ph t) sid b = row_backed t sid b"
  by (auto simp: row_backed_def appendPhase_def split: option.split)

lemma updateState_backed [simp]: "row_backed (updateState now k st ph err t) sid b = row_backed t sid b"
proof -
  have "row_backed (case t k of None \<Rightarrow> t | Some s \<Rightarrow> t(k \<mapsto> s\<lparr>is_state := st, is_completed_at := c s, is_error := err\<rparr>)) sid b
      = row_backed t sid b" for c
    by (auto simp: row_backed_def split: option.split)
  then show ?thesis by (simp add: updateState_def Let_def split: option.split)
qed

lemma marks_backed [simp]:
  "row_backed (iw_sessions (mark_state P k st ph w)) sid b = row_backed (iw_sessions w) sid b"
  "row_backed (iw_sessions (mark_failed P k msg w)) sid b = row_backed (iw_sessions w) sid b"
  by (simp_all add: marks_sessions)

lemma items_sessions:
  "main_items P refs options items n w = (r, w') \<Longrightarrow> iw_sessions w' = iw_sessions w"
  "worker_items P refs items c w = (q, w') \<Longrightarrow> iw_sessions w' = iw_sessions w"
  using main_items_run worker_items_run unfolding partial_run_def by blast+

lemma verify_phase_backed:
  "row_backed (iw_sessions (snd (verify_phase P session eff w))) sid b = row_backed (iw_sessions w) sid b"
  by (simp add: verify_phase_def Let_def)

lemma write_phases_backed:
  "row_backed (iw_sessions (snd (write_phases P plan refs session w))) sid b = row_backed (iw_sessions w) sid b"
  unfolding write_phases_def rebuild_phase_def Let_def
  by (auto simp: verify_phase_backed dest!: items_sessions split: prod.split sum.split)

lemma backup_phase_calls:
  assumes "backup_phase P session w = (r, w')" and "is_session_id session = sid" and "row_has (iw_sessions w) sid {}"
  shows "\<exists>d. calls_between w w' d \<and> filter is_write d = [] \<and> (isl r \<or> text_or_null (is_backup_id session) \<noteq> None \<or>
      (\<exists>b. ip_backup P (''legacy-import-'' @ sid) = Inr b \<and> Call_backup (''legacy-import-'' @ sid) \<in> set d \<and> row_backed (iw_sessions w') sid b))"
    and "row_has (iw_sessions w') sid {}"
  using assms by (auto simp: backup_phase_def Let_def calls_between_def row_has_def row_backed_def create_row_def split: if_splits sum.splits)

lemma text_or_null_idem [simp]: "text_or_null (text_or_null x) = text_or_null x"
  by (simp add: text_or_null_def split: option.split)

lemma begin_session_backup:
  assumes "begin_session P plan sessionId t = Inr session" and "text_or_null (is_backup_id session) \<noteq> None"
  shows "has_backup t sessionId"
proof -
  have "text_or_null (is_backup_id (createSession u n a b)) = None" for u n a b
    by (simp add: createSession_def text_or_null_def)
  then obtain sid where "sessionId = Some sid" "resumeSession t sid plan = Inr session"
    using assms by (auto simp: begin_session_def split: option.splits if_splits)
  then show ?thesis
    using assms(2) by (auto simp: resumeSession_def get_session_def mapSession_def has_backup_def split: option.splits if_splits)
qed

definition sources_as_planned :: "'p import_ports \<Rightarrow> source_selection \<Rightarrow> legacy_plan \<Rightarrow> bool" where
  "sources_as_planned P selection plan \<longleftrightarrow> (\<forall>item\<in>set (pl_items plan). \<forall>ref. item_refs selection (im_item_id item) = Some ref \<longrightarrow>
     (\<exists>f. ip_fingerprint P (si_path ref) = Inr f \<and> sf_sha256 f = sf_sha256 (im_source_fingerprint item)
       \<and> sf_size f = sf_size (im_source_fingerprint item)))"

text \<open>An application either stops before the first write, or passes the checks and runs the phases.\<close>

lemma apply_import_cases:
  assumes run: "apply_import P plan selection sessionId w = (r, w')"
  obtains (stopped) e d where "r = Inl e" and "calls_between w w' d" and "filter is_write d = []"
  | (ran) sid d1 d2 where "calls_between w w' (d1 @ d2)" and "filter is_write d1 = []"
      and "has_backup (iw_sessions w) sessionId \<or> (\<exists>b. ip_backup P (''legacy-import-'' @ sid) = Inr b
          \<and> Call_backup (''legacy-import-'' @ sid) \<in> set d1 \<and> row_backed (iw_sessions w') sid b)"
      and "sources_as_planned P selection plan"
      and "prefix (filter is_write d2) (planned_writes plan)" and "\<not> isl r \<longrightarrow> filter is_write d2 = planned_writes plan"
      and "ends_durably P sid r w' (insert Ph_BACKUP later_phases)"
proof (cases "begin_session P plan sessionId (iw_sessions w)")
  case (Inl e)
  with run show ?thesis by (intro stopped [of e "[]"]) (auto simp: apply_import_def calls_between_def)
next
  case session: (Inr session)
  let ?sid = "is_session_id session"
  let ?w1 = "mark_state P ?sid Ss_MAIN_PREPARED Ph_APPLY_REQUEST (on_sessions (create_row session) w)"
  let ?w2 = "log_call (Emit ''legacy_import.apply_start'') ?w1"
  have row2: "row_has (iw_sessions ?w2) ?sid {}"
    using mark_state_row(1) [of "on_sessions (create_row session) w" ?sid "{}" P Ss_MAIN_PREPARED Ph_APPLY_REQUEST]
    by (auto simp: row_has_def create_row_def)
  have c2: "calls_between w ?w2 [Emit ''legacy_import.apply_start'']" by (simp add: calls_between_def)
  show ?thesis
  proof (cases "assertSourcesUnchanged P (item_refs selection) (pl_items plan)")
    case (Inl e)
    with session run show ?thesis
      by (intro stopped [of e "[]"]) (auto simp: apply_import_def Let_def calls_between_def)
  next
    case same: (Inr u)
    obtain rb w3 where b: "backup_phase P session ?w2 = (rb, w3)" by (meson surj_pair)
    obtain d where d: "calls_between ?w2 w3 d" "filter is_write d = []"
      "isl rb \<or> text_or_null (is_backup_id session) \<noteq> None \<or> (\<exists>b. ip_backup P (''legacy-import-'' @ ?sid) = Inr b
         \<and> Call_backup (''legacy-import-'' @ ?sid) \<in> set d \<and> row_backed (iw_sessions w3) ?sid b)"
      using backup_phase_calls(1) [OF b refl row2] by blast
    have c3: "calls_between w w3 (Emit ''legacy_import.apply_start'' # d)" using c2 d(1) by (simp add: calls_between_def)
    show ?thesis
    proof (cases rb)
      case (Inl e)
      then have "r = Inl e" "w' = w3" using run session same b by (simp_all add: apply_import_def Let_def)
      with c3 d(2) show ?thesis by (intro stopped [of e "Emit ''legacy_import.apply_start'' # d"]) auto
    next
      case (Inr v)
      let ?w4 = "on_sessions (appendPhase ?sid Ph_BACKUP) w3"
      have wp: "write_phases P plan (item_refs selection) session ?w4 = (r, w')"
        using run session same b Inr by (simp add: apply_import_def Let_def)
      obtain s where "iw_sessions w3 ?sid = Some s" using backup_phase_calls(2) [OF b refl row2] by (auto simp: row_has_def)
      then have "row_has (iw_sessions ?w4) ?sid {Ph_BACKUP}"
        using appendPhase_row [of "iw_sessions w3" ?sid s Ph_BACKUP] by (auto simp: row_has_def)
      note ends = write_phases_ends [OF wp this]
      obtain d2 where d2: "calls_between ?w4 w' d2" "prefix (filter is_write d2) (planned_writes plan)"
        "\<not> isl r \<longrightarrow> filter is_write d2 = planned_writes plan" using ends by blast
      have "calls_between w w' ((Emit ''legacy_import.apply_start'' # d) @ d2)"
        using c3 d2(1) by (simp add: calls_between_def)
      moreover have "sources_as_planned P selection plan"
        using unchanged_sources [OF same] by (auto simp: sources_as_planned_def)
      moreover have "row_backed (iw_sessions w') ?sid b = row_backed (iw_sessions w3) ?sid b" for b
        using write_phases_backed [of P plan "item_refs selection" session ?w4 ?sid b] wp by simp
      then have "has_backup (iw_sessions w) sessionId \<or> (\<exists>b. ip_backup P (''legacy-import-'' @ ?sid) = Inr b
          \<and> Call_backup (''legacy-import-'' @ ?sid) \<in> set (Emit ''legacy_import.apply_start'' # d) \<and> row_backed (iw_sessions w') ?sid b)"
        using d(3) Inr begin_session_backup [OF session] by auto
      moreover have "ends_durably P ?sid r w' (insert Ph_BACKUP later_phases)" using ends by simp
      ultimately show ?thesis using d(2) d2(2,3) by (intro ran [of "Emit ''legacy_import.apply_start'' # d" d2 ?sid]) auto
    qed
  qed
qed

text \<open>
  Property C23. An import writes nothing without a backup, and nothing from a source that changed. Whenever
  the application of a plan calls the writer of the main database, the worker or the index rebuild, a backup
  was made before the first of these calls (the port returned its identifier, and the row of the session holds it), or the resumed
  session already has a durable backup; and every
  planned item whose source is selected has the size and the digest it had when the plan was made. The
  writing calls are the planned ones in their order (main items, worker items, rebuild), up to the first error
  and complete when the application succeeds.
\<close>

theorem import_writes_are_backed_up:
  assumes "apply_import P plan selection sessionId w = (r, w')"
  shows "\<exists>d. iw_calls w' = iw_calls w @ d \<and> prefix (filter is_write d) (planned_writes plan)
    \<and> (\<not> isl r \<longrightarrow> filter is_write d = planned_writes plan)
    \<and> (filter is_write d \<noteq> [] \<longrightarrow> sources_as_planned P selection plan
         \<and> (has_backup (iw_sessions w) sessionId \<or>
            (\<exists>sid b. ip_backup P (''legacy-import-'' @ sid) = Inr b \<and> row_backed (iw_sessions w') sid b
               \<and> Call_backup (''legacy-import-'' @ sid) \<in> set (takeWhile (\<lambda>c. \<not> is_write c) d))))"
proof (rule apply_import_cases [OF assms])
  fix e d assume "r = Inl e" "calls_between w w' d" "filter is_write d = []"
  then show ?thesis by (intro exI [of _ d]) (simp add: calls_between_def)
next
  fix sid d1 d2
  assume d: "calls_between w w' (d1 @ d2)" "filter is_write d1 = []"
    "has_backup (iw_sessions w) sessionId \<or> (\<exists>b. ip_backup P (''legacy-import-'' @ sid) = Inr b
       \<and> Call_backup (''legacy-import-'' @ sid) \<in> set d1 \<and> row_backed (iw_sessions w') sid b)"
    "sources_as_planned P selection plan" "prefix (filter is_write d2) (planned_writes plan)"
    "\<not> isl r \<longrightarrow> filter is_write d2 = planned_writes plan"
  have "\<forall>c\<in>set d1. \<not> is_write c" using d(2) by (simp add: filter_empty_conv)
  then have "takeWhile (\<lambda>c. \<not> is_write c) (d1 @ d2) = d1 @ takeWhile (\<lambda>c. \<not> is_write c) d2" by simp
  then have "set d1 \<subseteq> set (takeWhile (\<lambda>c. \<not> is_write c) (d1 @ d2))" by auto
  with d show ?thesis by (intro exI [of _ "d1 @ d2"]) (auto simp: calls_between_def)
qed

text \<open>
  The end of an import is durable. An application that returns leaves its session completed,
  with every phase recorded and all verification checks passed, and returns that row. An application that
  throws after it has written leaves the session recoverable with the message of the error, unless the index
  rebuild itself threw.
\<close>

theorem import_end_is_recorded:
  assumes "apply_import P plan selection sessionId w = (r, w')"
  shows "case r of
      Inr (s, v, _) \<Rightarrow> iv_all_ok v \<and> (\<exists>sid row. iw_sessions w' sid = Some row \<and> s = Some (mapSession row) \<and> is_state row = Ss_COMPLETED
        \<and> is_error row = None \<and> insert Ph_BACKUP later_phases \<subseteq> set (is_phases row))
    | Inl e \<Rightarrow> (\<exists>c. is_write c \<and> count_list (iw_calls w') c > count_list (iw_calls w) c) \<longrightarrow> ip_ragRebuild P \<noteq> Inl e \<longrightarrow>
        (\<exists>sid row. iw_sessions w' sid = Some row \<and> is_state row = Ss_FAILED_RECOVERABLE \<and> is_error row = Some (error_message e))"
proof (rule apply_import_cases [OF assms])
  fix e d assume d: "r = Inl e" "calls_between w w' d" "filter is_write d = []"
  have "count_list d c = 0" if "is_write c" for c
    using d(3) that by (auto simp: filter_empty_conv count_list_0_iff)
  with d(1,2) show ?thesis by (auto simp: calls_between_def)
next
  fix sid d1 d2 assume "ends_durably P sid r w' (insert Ph_BACKUP later_phases)"
  then show ?thesis
    by (auto simp: ends_durably_def row_has_def row_says_def get_session_def split: sum.split) blast
qed

subsection \<open>An example\<close>

definition sample_item :: "string \<Rightarrow> source_type \<Rightarrow> source_item" where
  "sample_item i ty = \<lparr>si_item_id = i, si_display_name = i, si_path = ''/old/'' @ i, si_source_type = ty\<rparr>"

definition sample_selection :: source_selection where
  "sample_selection = \<lparr>sl_selection_id = ''sel-1'', sl_root = ''/old'',
     sl_items = [sample_item ''k'' St_knowledge, sample_item ''p'' St_products], sl_selected_at = ''t0''\<rparr>"

definition sample_manifest :: "string \<Rightarrow> source_type \<Rightarrow> target_aggregate \<Rightarrow> target_writer \<Rightarrow> item_manifest" where
  "sample_manifest i ty ag wr = \<lparr>im_item_id = i, im_display_name = i, im_source_type = ty,
     im_source_fingerprint = \<lparr>sf_sha256 = ''d'', sf_size = 3, sf_mtime_ms = ''1''\<rparr>, im_target_aggregate = ag, im_target_writer = wr, im_record_count = 1\<rparr>"

definition sample_plan :: legacy_plan where
  "sample_plan = \<lparr>pl_plan_id = ''plan-1'', pl_selection_id = ''sel-1'', pl_plan_sha256 = ''h'',
     pl_items = [sample_manifest ''k'' St_knowledge Ag_knowledge_entries Writer_worker,
                 sample_manifest ''p'' St_products Ag_products Writer_main],
     pl_options = \<lparr>io_conflict_policy = None, io_legacy_timezone = None, io_import_provider_secret = None, io_rebuild_rag = None\<rparr>\<rparr>"

definition sample_ports :: "bool \<Rightarrow> unit import_ports" where
  "sample_ports worker_up = \<lparr>ip_now = ''t1'', ip_uuid8 = ''12345678'',
     ip_fingerprint = (\<lambda>_. Inr \<lparr>sf_sha256 = ''d'', sf_size = 3, sf_mtime_ms = ''1''\<rparr>), ip_backup = (\<lambda>_. Inr ''bk-1''),
     ip_parse = (\<lambda>_. Inr ()), ip_write = (\<lambda>_ _ _ _. Inr 1), ip_request = (\<lambda>i. Inr (si_item_id i)),
     ip_applyKnowledge = (\<lambda>_. if worker_up then Inr (2, 0) else Inl (Port_error ''worker down'')), ip_ragRebuild = Inr True,
     ip_verificationDeps = \<lparr>vd_quickCheckOk = True, vd_countKnowledge = 2, vd_countCandidates = 0, vd_ragReady = True,
       vd_noPlaintextSecrets = True, vd_noDanglingMounts = True\<rparr>\<rparr>"

definition empty_world :: import_world where
  "empty_world = \<lparr>iw_sessions = Map.empty, iw_calls = []\<rparr>"

definition sample_run :: "bool \<Rightarrow> (import_error + (legacy_session option \<times> import_verification \<times> apply_effect)) \<times> import_world" where
  "sample_run worker_up = apply_import (sample_ports worker_up) sample_plan sample_selection None empty_world"

lemmas sample_defs = sample_run_def sample_ports_def sample_plan_def sample_selection_def sample_manifest_def sample_item_def
  empty_world_def apply_import_def begin_session_def createSession_def backup_phase_def text_or_null_def write_phases_def
  item_refs_def

lemma sample_run_fails: "fst (sample_run False) = Inl (Port_error ''worker down'')"
  "Call_main ''p'' \<in> set (iw_calls (snd (sample_run False)))"
  by (simp_all add: sample_defs Let_def)

theorem import_writes_are_backed_up_witness:
  "sources_as_planned (sample_ports False) sample_selection sample_plan
   \<and> (\<exists>sid. row_backed (iw_sessions (snd (sample_run False))) sid ''bk-1''
        \<and> Call_backup (''legacy-import-'' @ sid) \<in> set (takeWhile (\<lambda>c. \<not> is_write c) (iw_calls (snd (sample_run False)))))"
proof -
  have run: "apply_import (sample_ports False) sample_plan sample_selection None empty_world = (fst (sample_run False), snd (sample_run False))"
    by (simp add: sample_run_def)
  have wrote: "filter is_write (iw_calls (snd (sample_run False))) \<noteq> []"
    using sample_run_fails(2) by (auto simp: filter_empty_conv intro: bexI [of _ "Call_main ''p''"])
  show ?thesis
    using import_writes_are_backed_up [OF run] wrote by (auto simp: has_backup_def empty_world_def sample_ports_def)
qed

theorem import_end_is_recorded_witness:
  "\<exists>sid row. iw_sessions (snd (sample_run False)) sid = Some row \<and> is_state row = Ss_FAILED_RECOVERABLE
     \<and> is_error row = Some ''worker down''"
proof -
  have "apply_import (sample_ports False) sample_plan sample_selection None empty_world = (fst (sample_run False), snd (sample_run False))"
    by (simp add: sample_run_def)
  note ended = import_end_is_recorded [OF this]
  have "\<exists>c. is_write c \<and> count_list (iw_calls (snd (sample_run False))) c > count_list (iw_calls empty_world) c"
    using sample_run_fails(2) by (intro exI [of _ "Call_main ''p''"]) (simp add: empty_world_def count_list_0_iff neq0_conv [symmetric])
  moreover have "ip_ragRebuild (sample_ports False) \<noteq> Inl (Port_error ''worker down'')" by (simp add: sample_ports_def)
  ultimately show ?thesis using ended by (simp add: sample_run_fails)
qed

subsection \<open>Resuming and cancelling\<close>

text \<open>A resumed import starts over: whatever state the session was left in, a successful resumption makes
  every planned write again.\<close>

theorem resumed_import_starts_over:
  assumes "apply_import P plan selection (Some sid) w = (Inr x, w')"
  shows "\<exists>d. iw_calls w' = iw_calls w @ d \<and> filter is_write d = planned_writes plan"
  by (rule apply_import_cases [OF assms]) (auto simp: calls_between_def)

text \<open>A cancelled session is not closed: it can be resumed with its plan.\<close>

theorem cancelled_import_can_be_resumed:
  assumes "iw_sessions w sid = Some s" and "sid \<noteq> []" and "is_session_id s = sid" and "is_plan_sha256 s = pl_plan_sha256 plan"
  shows "\<exists>session. begin_session P plan (Some sid) (iw_sessions (snd (cancel_import now sid w))) = Inr session"
proof -
  have "\<exists>s'. iw_sessions (snd (cancel_import now sid w)) sid = Some s' \<and> is_plan_sha256 s' = pl_plan_sha256 plan"
    using assms by (auto simp: cancel_import_def get_session_def mapSession_def create_row_def updateState_def appendPhase_def Let_def)
  then show ?thesis using assms(2) by (auto simp: begin_session_def resumeSession_def get_session_def mapSession_def)
qed

text \<open>Cancelling a completed import marks it as failed.\<close>

theorem cancelling_a_completed_import_fails_it:
  assumes "iw_sessions w sid = Some s" and "is_state s = Ss_COMPLETED" and "1 < length (is_phases s)"
  shows "row_says (iw_sessions (snd (cancel_import now sid w))) sid Ss_FAILED_RECOVERABLE (Some ''cancelled after mutation'')"
  using assms updateState_row [of "iw_sessions w" sid s now Ss_FAILED_RECOVERABLE Ph_FAILED "Some ''cancelled after mutation''"]
  by (auto simp: cancel_import_def get_session_def mapSession_def Let_def row_says_def)

text \<open>The policy named after inserting the missing also overwrites the existing.\<close>

theorem insert_missing_never_skips: "resolveConflict existing INSERT_MISSING = Do_insert"
  by simp

theorem existing_is_preserved_by_default:
  "resolveConflict existing DEFAULT_CONFLICT_POLICY \<noteq> Do_insert \<longleftrightarrow> existing \<noteq> None"
  by (simp add: DEFAULT_CONFLICT_POLICY_def)

end
