(* ===== verification/Legacy_Planning_Props.thy ===== *)
theory Legacy_Planning_Props imports Legacy_Planning Legacy_Import_Props begin

text \<open>
  A scan finds exactly the files below the chosen directory, but not within its limit; the detection of secrets finds the secret keys of a value
  down to its depth, and no others; and an import runs the plan that was confirmed, once.
\<close>

subsection \<open>Scanning\<close>

text \<open>The files below the entries of a directory, with their sizes; hidden directories and \<open>node_modules\<close> are left out.\<close>

fun tree_files :: "file_path \<Rightarrow> scan_entry list \<Rightarrow> (file_path \<times> nat) list"
and entry_files :: "file_path \<Rightarrow> scan_entry \<Rightarrow> (file_path \<times> nat) list" where
  "tree_files dir [] = []"
| "tree_files dir (e # es) = entry_files dir e @ tree_files dir es"
| "entry_files dir (Scan_link n target) = []"
| "entry_files dir (Scan_other n) = []"
| "entry_files dir (Scan_dir n es) = (if n = ''node_modules'' \<or> prefix ''.'' n then [] else tree_files (dir @ [n]) es)"
| "entry_files dir (Scan_file n len) = [(dir @ [n], len)]"

lemma walk_collects:
  "walk_entries lim root dir es out = Inr files \<Longrightarrow> files = out @ map fst (tree_files dir es)
     \<and> (\<forall>(f, len)\<in>set (tree_files dir es). len \<le> lim_maxFileBytes lim)"
  "walk_entry lim root dir e out = Inr files \<Longrightarrow> files = out @ map fst (entry_files dir e)
     \<and> (\<forall>(f, len)\<in>set (entry_files dir e). len \<le> lim_maxFileBytes lim)"
proof (induction lim root dir es out and lim root dir e out arbitrary: files and files rule: walk_entries_walk_entry.induct)
  case (2 lim root dir e es out)
  obtain x where inside: "assertInsideRoot root (dir @ [entry_name e]) = Inr x"
    using 2(3) by (cases "assertInsideRoot root (dir @ [entry_name e])") auto
  then obtain out' where first: "walk_entry lim root dir e out = Inr out'" and rest: "walk_entries lim root dir es out' = Inr files"
    using 2(3) by (cases "walk_entry lim root dir e out") auto
  from 2(1) [OF inside first] 2(2) [OF inside first rest] show ?case by auto
qed (auto split: if_splits)

lemma tree_files_below:
  "(f, len) \<in> set (tree_files dir es) \<Longrightarrow> strict_prefix dir f"
  "(f, len) \<in> set (entry_files dir e) \<Longrightarrow> strict_prefix dir f"
proof (induction dir es and dir e rule: tree_files_entry_files.induct)
  case (5 dir n es)
  then have "strict_prefix (dir @ [n]) f" by (auto split: if_splits)
  then show ?case by (auto simp: strict_prefix_def prefix_def)
qed (auto simp: strict_prefix_def)

text \<open>A scan that succeeds has found, in order, exactly the files below the root that are not hidden, and none is too large.\<close>

theorem scan_finds_the_files:
  assumes "walk lim root entries = Inr files"
  shows "files = map fst (tree_files root entries) \<and> (\<forall>f\<in>set files. strict_prefix root f)
    \<and> (\<forall>(f, len)\<in>set (tree_files root entries). len \<le> lim_maxFileBytes lim)"
proof -
  have "walk_entries lim root root entries [] = Inr files"
    using assms by (auto simp: walk_def split: if_splits)
  from walk_collects(1) [OF this] tree_files_below(1) [of _ _ root entries] show ?thesis by auto
qed

text \<open>The limit on the number of files is checked per directory, before its own subdirectories are read.\<close>

theorem scan_exceeds_its_limit:
  "\<exists>files. walk \<lparr>lim_maxFiles = 3, lim_maxFileBytes = 9\<rparr> [''r'']
       [Scan_dir ''d'' [Scan_file ''a'' 1, Scan_file ''b'' 1, Scan_file ''c'' 1], Scan_file ''e'' 1, Scan_file ''f'' 1] = Inr files
     \<and> length files = 5"
  by (simp add: walk_def assertInsideRoot_def)

subsection \<open>Secrets\<close>

text \<open>The keys of the objects within a value, down to a number of levels.\<close>

function keys_within :: "nat \<Rightarrow> json \<Rightarrow> string set" where
  "keys_within n v =
     (case v of
        JArr vs \<Rightarrow> if n = 0 then {} else (\<Union>x\<in>set vs. keys_within (n - 1) x)
      | JObj kvs \<Rightarrow> fst ` set kvs \<union> (if n = 0 then {} else (\<Union>kv\<in>set kvs. keys_within (n - 1) (snd kv)))
      | _ \<Rightarrow> {})"
  by pat_completeness auto
termination
  by (relation "measure fst") auto

declare keys_within.simps [simp del]

lemma merge_list_set: "set (merge_list t s) = set t \<union> set s"
proof -
  have "set (fold (\<lambda>v t. if v \<in> set t then t else t @ [v]) s t) = set t \<union> set s"
    by (induction s arbitrary: t) auto
  then show ?thesis by (simp add: merge_list_def)
qed

lemma merge_fields [simp]:
  "set (det_fields (mergeDetection a b)) = set (det_fields a) \<union> set (det_fields b)"
  "set (det_must_not_persist (mergeDetection a b)) = set (det_must_not_persist a) \<union> set (det_must_not_persist b)"
  "set (det_seller (mergeDetection a b)) = set (det_seller a) \<union> set (det_seller b)"
  "set (det_provider (mergeDetection a b)) = set (det_provider a) \<union> set (det_provider b)"
  by (simp_all add: mergeDetection_def merge_list_set)

text \<open>What a detection shows: the secret keys, and which of them are secrets of the seller.\<close>

definition secret_keys :: "string set \<Rightarrow> secret_detection \<Rightarrow> bool" where
  "secret_keys ks d \<longleftrightarrow> set (det_fields d) = {k \<in> ks. seller_key k \<or> provider_key k}
     \<and> set (det_seller d) = {k \<in> ks. seller_key k} \<and> set (det_must_not_persist d) = {k \<in> ks. seller_key k}
     \<and> set (det_provider d) = {k \<in> ks. provider_key k \<and> \<not> seller_key k}"

lemma secret_keys_none: "secret_keys {} no_detection"
  by (simp add: secret_keys_def no_detection_def)

lemma secret_keys_merge: "secret_keys A a \<Longrightarrow> secret_keys B b \<Longrightarrow> secret_keys (A \<union> B) (mergeDetection a b)"
  by (auto simp: secret_keys_def)

lemma secret_keys_note: "secret_keys A a \<Longrightarrow> secret_keys (insert k A) (note_key k a)"
  by (auto simp: secret_keys_def note_key_def)

lemma secret_keys_values:
  "secret_keys A out \<Longrightarrow> (\<And>x. x \<in> set vs \<Longrightarrow> secret_keys (K x) (d x)) \<Longrightarrow>
   secret_keys (A \<union> (\<Union>x\<in>set vs. K x)) (fold (\<lambda>x out. mergeDetection out (d x)) vs out)"
proof (induction vs arbitrary: A out)
  case (Cons v vs)
  have "secret_keys (A \<union> K v) (mergeDetection out (d v))" using Cons.prems by (intro secret_keys_merge) auto
  from Cons.IH [OF this] Cons.prems(2) show ?case by (simp add: Un_assoc)
qed simp

lemma secret_keys_entries:
  "secret_keys A out \<Longrightarrow> (\<And>kv. kv \<in> set kvs \<Longrightarrow> secret_keys (K kv) (d kv)) \<Longrightarrow>
   secret_keys (A \<union> fst ` set kvs \<union> (\<Union>kv\<in>set kvs. K kv)) (fold (\<lambda>kv out. mergeDetection (note_key (fst kv) out) (d kv)) kvs out)"
proof (induction kvs arbitrary: A out)
  case (Cons kv kvs)
  have "secret_keys (insert (fst kv) A \<union> K kv) (mergeDetection (note_key (fst kv) out) (d kv))"
    using Cons.prems by (intro secret_keys_merge secret_keys_note) auto
  from Cons.IH [OF this] Cons.prems(2) show ?case by (simp add: Un_ac)
qed simp

lemma detectSecrets_keys: "depth \<le> 32 \<Longrightarrow> secret_keys (keys_within (32 - depth) v) (detectSecrets depth v)"
proof (induction depth v rule: detectSecrets.induct)
  case (1 depth v)
  have below: "secret_keys (if 32 - depth = 0 then {} else keys_within (32 - depth - 1) x) (detectSecrets (Suc depth) x)"
    if "(\<exists>vs. v = JArr vs \<and> x \<in> set vs) \<or> (\<exists>kvs kv. v = JObj kvs \<and> kv \<in> set kvs \<and> x = snd kv)" for x
  proof (cases "depth = 32")
    case True
    then show ?thesis by (simp add: detectSecrets.simps [of 33] secret_keys_none)
  next
    case False
    then have "32 - Suc depth = 32 - depth - 1" "Suc depth \<le> 32" using 1(3) by auto
    then show ?thesis using that 1(1,2) 1(3) by auto
  qed
  show ?case
  proof (cases v)
    case (JArr vs)
    let ?K = "\<lambda>x. if 32 - depth = 0 then {} else keys_within (32 - depth - 1) x"
    have step: "detectSecrets depth v = fold (\<lambda>x out. mergeDetection out (detectSecrets (Suc depth) x)) vs no_detection"
      using 1(3) by (simp add: detectSecrets.simps [of depth] JArr)
    have "secret_keys ({} \<union> (\<Union>x\<in>set vs. ?K x)) (detectSecrets depth v)"
      unfolding step by (rule secret_keys_values [OF secret_keys_none]) (use below JArr in blast)
    then show ?thesis by (simp add: keys_within.simps JArr split: if_splits)
  next
    case (JObj kvs)
    let ?K = "\<lambda>kv. if 32 - depth = 0 then {} else keys_within (32 - depth - 1) (snd kv)"
    have step: "detectSecrets depth v
        = fold (\<lambda>kv out. mergeDetection (note_key (fst kv) out) (detectSecrets (Suc depth) (snd kv))) kvs no_detection"
      using 1(3) by (simp add: detectSecrets.simps [of depth] JObj)
    have "secret_keys ({} \<union> fst ` set kvs \<union> (\<Union>kv\<in>set kvs. ?K kv)) (detectSecrets depth v)"
      unfolding step by (rule secret_keys_entries [OF secret_keys_none]) (use below JObj in blast)
    then show ?thesis by (simp add: keys_within.simps JObj split: if_splits)
  qed (simp_all add: detectSecrets.simps [of depth] keys_within.simps secret_keys_none)
qed

text \<open>
  Property C38. The secret policy finds every secret. In a value read from an old file, the reported keys are exactly the keys of objects at most
  32 levels deep that contain the name of a secret; the keys of the seller's secrets, which must not be stored, are told apart from those of
  the provider.
\<close>

theorem secrets_are_found:
  "set (det_fields (detectSecrets 0 v)) = {k \<in> keys_within 32 v. seller_key k \<or> provider_key k}
   \<and> set (det_must_not_persist (detectSecrets 0 v)) = {k \<in> keys_within 32 v. seller_key k}
   \<and> set (det_provider (detectSecrets 0 v)) = {k \<in> keys_within 32 v. provider_key k \<and> \<not> seller_key k}"
  using detectSecrets_keys [of 0 v] by (simp add: secret_keys_def)

text \<open>A CSV file is never searched: its columns are part of one text.\<close>

theorem csv_secrets_are_not_found:
  "ty \<in> {St_knowledge, St_products, St_transfer_rules, St_messages} \<Longrightarrow> det_fields (detectSecrets 0 (parseRawForSecrets parse ty raw)) = []"
  by (auto simp: parseRawForSecrets_def detectSecrets.simps [of 0] detectSecrets.simps [of "Suc 0"] mergeDetection_def note_key_def merge_list_def
      no_detection_def seller_key_def provider_key_def SELLER_SECRET_FIELDS_def PROVIDER_SECRET_FIELDS_def to_lower_def lower_char_def Let_def)

subsection \<open>The confirmed plan\<close>

lemma plan_text_selection:
  assumes "json_stringify (plan_object s ms opts) = json_stringify (plan_object s' ms' opts')"
  shows "s = s'"
proof -
  have "\<exists>r. json_stringify (plan_object a xs ys) = ''{'' @ quote ''selection_id'' @ '':'' @ quote a @ r" for a xs ys
    by (simp add: plan_object_def)
  then obtain r r' where "quote s @ r = quote s' @ r'" using assms by (metis same_append_eq)
  then show ?thesis using quote_delimited by blast
qed

text \<open>
  Property C24. The desktop imports what was confirmed, once. With a checksum, an application changes no session and makes no call, apart
  from the event of the dry run, unless the
  token stands for a selection whose plan, made again from the files as they are now, has that checksum; then what happens is the
  application of that plan to that selection, and the completion event when it succeeds. The token is used up, whatever
  the end, so that a second application with it changes nothing at all.
\<close>

theorem import_runs_the_confirmed_plan:
  assumes "apply_source env P token sha sessionId options t w = (r, t', w')" and "sha \<noteq> []"
  shows "(w' \<noteq> w \<and> w' \<noteq> log_call (Emit ''legacy_import.dry_run'') w \<longrightarrow>
        (\<exists>sel plan. t token = Some sel \<and> planImport env sel options = Inr plan \<and> pl_plan_sha256 plan = sha
        \<and> (\<exists>e v. apply_import P plan sel sessionId (log_call (Emit ''legacy_import.dry_run'') w) = (e, v)
              \<and> w' = (if isl e then v else log_call (Emit ''completed'') v))))
    \<and> t' = t(token := None)
    \<and> apply_source env2 P2 token sha2 sessionId2 options2 t' w2 = (Inl (Plan_error ''unknown or expired selection token''), t', w2)"
proof -
  let ?w = "log_call (Emit ''legacy_import.dry_run'') w"
  have t': "t' = t(token := None)"
    using assms by (auto simp: apply_source_def dryRun_plan_def take_selection_def split: option.splits sum.splits prod.splits if_splits)
  moreover have "\<exists>sel plan. t token = Some sel \<and> planImport env sel options = Inr plan \<and> pl_plan_sha256 plan = sha
        \<and> (\<exists>e v. apply_import P plan sel sessionId ?w = (e, v) \<and> w' = (if isl e then v else log_call (Emit ''completed'') v))"
    if changed: "w' \<noteq> w" "w' \<noteq> ?w"
  proof -
    obtain sel where sel: "t token = Some sel"
      using assms(1) changed by (cases "t token") (auto simp: apply_source_def take_selection_def)
    obtain plan where plan: "planImport env sel options = Inr plan"
      using assms(1) changed sel by (cases "planImport env sel options") (auto simp: apply_source_def take_selection_def dryRun_plan_def)
    have sha: "pl_plan_sha256 plan = sha"
      using assms changed sel plan by (auto simp: apply_source_def take_selection_def dryRun_plan_def split: if_splits)
    obtain e v where run: "apply_import P plan sel sessionId ?w = (e, v)" by (meson surj_pair)
    have "w' = (if isl e then v else log_call (Emit ''completed'') v)"
      using assms sel plan sha run
      by (cases e) (auto simp: apply_source_def take_selection_def dryRun_plan_def split: prod.splits)
    with sel plan sha run show ?thesis by blast
  qed
  ultimately show ?thesis by (simp add: apply_source_def take_selection_def)
qed

definition sample_env :: planning_env where
  "sample_env = \<lparr>pe_fingerprint = (\<lambda>_. Some \<lparr>sf_sha256 = ''d'', sf_size = 3, sf_mtime_ms = ''1''\<rparr>), pe_read = (\<lambda>_. []),
     pe_parse = (\<lambda>_. None), pe_count = (\<lambda>_. 1), pe_hash = (\<lambda>_. ''h''), pe_uuid = ''12345678'', pe_scan = (\<lambda>_. Inr [])\<rparr>"

definition sample_apply :: "(planning_error + legacy_session option) \<times> selection_table \<times> import_world" where
  "sample_apply = apply_source sample_env (sample_ports False) ''tok'' ''h'' None (apply_options None None) [''tok'' \<mapsto> sample_selection] empty_world"

lemma sample_apply_runs: "1 < length (iw_calls (snd (snd sample_apply)))"
  by (simp add: sample_apply_def apply_source_def dryRun_plan_def take_selection_def planImport_def sample_env_def buildItemManifest_def planFingerprint_def
      apply_options_def sample_defs Let_def)

theorem import_runs_the_confirmed_plan_witness:
  "(\<exists>plan. planImport sample_env sample_selection (apply_options None None) = Inr plan \<and> pl_plan_sha256 plan = ''h'')
   \<and> fst (snd sample_apply) ''tok'' = None"
proof -
  have run: "apply_source sample_env (sample_ports False) ''tok'' ''h'' None (apply_options None None) [''tok'' \<mapsto> sample_selection] empty_world
      = (fst sample_apply, fst (snd sample_apply), snd (snd sample_apply))"
    by (simp add: sample_apply_def)
  have "snd (snd sample_apply) \<noteq> empty_world" "snd (snd sample_apply) \<noteq> log_call (Emit ''legacy_import.dry_run'') empty_world"
    using sample_apply_runs by (auto simp: empty_world_def)
  then show ?thesis
    using import_runs_the_confirmed_plan [OF run, where ?env2.0 = sample_env and ?P2.0 = "sample_ports True" and ?sha2.0 = "''h''"
        and ?sessionId2.0 = None and ?options2.0 = "apply_options None None" and ?w2.0 = empty_world]
    by auto
qed

text \<open>
  A session that failed cannot be resumed through the desktop: the token is used up, and a plan of any other selection has another checksum, since
  the identifier of the selection is part of it, unless two texts have the same hash.
\<close>

theorem failed_import_cannot_be_resumed:
  assumes "t token = Some sel" and "planImport env sel options = Inr plan"
    and row: "get_session (iw_sessions w) sid = Some row" "is_plan_sha256 row = planFingerprint (pe_hash env) s0 ms0 options0" "sid \<noteq> []"
    and other: "sl_selection_id sel \<noteq> s0" and no_collision: "inj (pe_hash env)"
    and sha: "sha = [] \<or> sha = pl_plan_sha256 plan"
  shows "apply_source env P token sha (Some sid) options t w
    = (Inl (Import_failed (Import_error E_PLAN_MISMATCH ''plan fingerprint mismatch'')), t(token := None),
       log_call (Emit ''legacy_import.dry_run'') w)"
proof -
  obtain ms where "pl_plan_sha256 plan = planFingerprint (pe_hash env) (sl_selection_id sel) ms options"
    using assms(2) by (auto simp: planImport_def split: sum.splits if_splits)
  moreover have "planFingerprint (pe_hash env) (sl_selection_id sel) ms options \<noteq> planFingerprint (pe_hash env) s0 ms0 options0"
    using other no_collision plan_text_selection by (auto simp: planFingerprint_def dest!: injD)
  ultimately have "begin_session P plan (Some sid) (iw_sessions w) = Inl (Import_error E_PLAN_MISMATCH ''plan fingerprint mismatch'')"
    using row by (simp add: begin_session_def resumeSession_def)
  then show ?thesis using assms(1,2) sha by (auto simp: apply_source_def dryRun_plan_def take_selection_def apply_import_def)
qed

text \<open>
  A conflict policy that was part of the confirmed plan makes the application fail: the apply handler never passes one on, and the checksum
  covers it.
\<close>

lemma plan_text_policy:
  assumes "json_stringify (plan_object s ms opts) = json_stringify (plan_object s ms opts')"
  shows "io_conflict_policy opts = None \<longleftrightarrow> io_conflict_policy opts' = None"
proof -
  define key :: "import_options \<Rightarrow> string" where "key o1 = (if io_conflict_policy o1 = None then ''legacy_timezone'' else ''conflict_policy'')" for o1
  obtain I where I0: "\<And>o1. plan_object s ms o1 = JObj [(''selection_id'', JStr s), (''items'', I), (''options'', JObj (
      (case io_conflict_policy o1 of Some p \<Rightarrow> [(''conflict_policy'', JStr (policy_text p))] | None \<Rightarrow> []) @
          [(''legacy_timezone'', (case io_legacy_timezone o1 of Some z \<Rightarrow> JStr z | None \<Rightarrow> JNull)),
           (''import_provider_secret'', JBool (case io_import_provider_secret o1 of Some b \<Rightarrow> b | None \<Rightarrow> False)),
           (''rebuild_rag'', JBool (case io_rebuild_rag o1 of Some b \<Rightarrow> b | None \<Rightarrow> True))]))]"
    unfolding plan_object_def by blast
  have I: "\<exists>fields. plan_object s ms o1 = JObj [(''selection_id'', JStr s), (''items'', I), (''options'', JObj fields)]
      \<and> fields \<noteq> [] \<and> fst (hd fields) = key o1" for o1
    unfolding I0 key_def by (auto split: option.splits)
  have "\<exists>r. json_stringify (plan_object s ms o1) = (''{'' @ quote ''selection_id'' @ '':'' @ quote s @ '','' @ quote ''items'' @ '':'' @ json_stringify I
      @ '','' @ quote ''options'' @ '':'' @ ''{'') @ quote (key o1) @ r" for o1
  proof -
    obtain k v fields where "plan_object s ms o1 = JObj [(''selection_id'', JStr s), (''items'', I), (''options'', JObj ((k, v) # fields))]" and "k = key o1"
      using I [of o1] by (metis list.exhaust_sel prod.collapse)
    then show ?thesis by (cases fields) simp_all
  qed
  then obtain r r' where "quote (key opts) @ r = quote (key opts') @ r'" using assms by (metis same_append_eq)
  then have "key opts = key opts'" using quote_delimited by blast
  then show ?thesis by (auto simp: key_def split: if_splits)
qed

theorem chosen_policy_cannot_be_applied:
  assumes "t token = Some sel" and "planImport env sel (opts\<lparr>io_conflict_policy := Some p\<rparr>) = Inr plan" and "inj (pe_hash env)"
    and "pl_plan_sha256 plan \<noteq> []"
  shows "fst (apply_source env P token (pl_plan_sha256 plan) sessionId (apply_options tz secret) t w) = Inl (Plan_error ''plan checksum mismatch'')"
proof -
  obtain items ms where items: "(if sl_items sel \<noteq> [] then Inr (sl_items sel) else pe_scan env (sl_root sel)) = Inr items"
      "build_manifests env items = Inr ms"
    and plan: "pl_plan_sha256 plan = planFingerprint (pe_hash env) (sl_selection_id sel) ms (opts\<lparr>io_conflict_policy := Some p\<rparr>)"
    using assms(2) by (auto simp: planImport_def split: sum.splits)
  obtain plan' where plan': "planImport env sel (apply_options tz secret) = Inr plan'"
      "pl_plan_sha256 plan' = planFingerprint (pe_hash env) (sl_selection_id sel) ms (apply_options tz secret)"
    using items by (simp add: planImport_def)
  have "pl_plan_sha256 plan' \<noteq> pl_plan_sha256 plan"
    using plan_text_policy [of "sl_selection_id sel" ms "apply_options tz secret" "opts\<lparr>io_conflict_policy := Some p\<rparr>"] assms(3)
    unfolding plan plan'(2) planFingerprint_def by (auto simp: apply_options_def dest!: injD)
  then show ?thesis using assms(1,4) plan'(1) by (simp add: apply_source_def dryRun_plan_def take_selection_def)
qed

end
