(* ===== verification/Legacy_Csv.thy ===== *)
theory Legacy_Csv imports Prelude begin

text \<open>
  The CSV reader of the legacy import, \<open>packages/legacy-import/src/parsers/csv-utils.ts\<close>, and the
  row mappings of the parsers that use it (products, transfer rules, messages, knowledge).

  A file is read with the encoding UTF-8 and modelled by its bytes: the characters the reader looks for are
  ASCII, so that it cuts the bytes where it cuts the decoded text. A row object is the map from its header names to its cells.

  A table printed the usual way is read back as long as no cell holds a quote character. With quotes it is
  not: an escaped quote is unescaped twice, once per line and once per cell.
\<close>

subsection \<open>The reader\<close>

definition quote_char :: char where "quote_char = CHR 0x22"
definition lf :: char where "lf = CHR 0x0A"
definition cr :: char where "cr = CHR 0x0D"
definition comma :: char where "comma = CHR '',''"

definition starts_with_char :: "string \<Rightarrow> char \<Rightarrow> bool" where
  "starts_with_char s c \<longleftrightarrow> s \<noteq> [] \<and> hd s = c"

text \<open>\<open>String.prototype.trim\<close> on UTF-8 bytes: the encodings of the white space characters and line
  terminators. An encoding is found at a character boundary from either end.\<close>

definition ws_encodings :: "string list" where
  "ws_encodings = map (\<lambda>n. bytes [n]) [9, 10, 11, 12, 13, 32]
     @ map (\<lambda>n. bytes [226, 128, n]) [128, 129, 130, 131, 132, 133, 134, 135, 136, 137, 138, 168, 169, 175]
     @ map bytes [[194, 160], [225, 154, 128], [226, 129, 159], [227, 128, 128], [239, 187, 191]]"

function drop_leading :: "string list \<Rightarrow> string \<Rightarrow> string" where
  "drop_leading ws s = (case find (\<lambda>w. w \<noteq> [] \<and> prefix w s) ws of
     Some w \<Rightarrow> drop_leading ws (drop (length w) s)
   | None \<Rightarrow> s)"
  by pat_completeness auto
termination
  by (relation "measure (\<lambda>(ws, s). length s)") (auto simp: find_Some_iff prefix_def)

declare drop_leading.simps [simp del]

definition utf8_trim :: "string \<Rightarrow> string" where
  "utf8_trim s = rev (drop_leading (map rev ws_encodings) (rev (drop_leading ws_encodings s)))"

text \<open>The loop of \<open>splitCsvRows\<close> over the rest of the text.\<close>

function split_loop :: "string \<Rightarrow> bool \<Rightarrow> string \<Rightarrow> string list" where
  "split_loop cur inQuotes [] = (if cur \<noteq> [] then [cur] else [])"
| "split_loop cur inQuotes (ch # rest) =
     (if ch = quote_char then
        (if inQuotes \<and> starts_with_char rest quote_char then split_loop (cur @ [quote_char]) inQuotes (tl rest)
         else split_loop (cur @ [ch]) (\<not> inQuotes) rest)
      else if (ch = lf \<or> ch = cr) \<and> \<not> inQuotes then
        cur # split_loop [] inQuotes (if ch = cr \<and> starts_with_char rest lf then tl rest else rest)
      else split_loop (cur @ [ch]) inQuotes rest)"
  by pat_completeness auto
termination
  by (relation "measure (\<lambda>(_, _, s). length s)") auto

definition splitCsvRows :: "string \<Rightarrow> string list" where
  "splitCsvRows s = split_loop [] False s"

text \<open>The loop of \<open>parseCsvLine\<close>.\<close>

function cell_loop :: "string \<Rightarrow> bool \<Rightarrow> string \<Rightarrow> string list" where
  "cell_loop cur inQuotes [] = [cur]"
| "cell_loop cur inQuotes (ch # rest) =
     (if ch = quote_char then
        (if inQuotes \<and> starts_with_char rest quote_char then cell_loop (cur @ [quote_char]) inQuotes (tl rest)
         else cell_loop cur (\<not> inQuotes) rest)
      else if ch = comma \<and> \<not> inQuotes then cur # cell_loop [] inQuotes rest
      else cell_loop (cur @ [ch]) inQuotes rest)"
  by pat_completeness auto
termination
  by (relation "measure (\<lambda>(_, _, s). length s)") auto

text \<open>\<open>c.replace(/^"(.*)"$/s, "$1")\<close>.\<close>

definition strip_quotes :: "string \<Rightarrow> string" where
  "strip_quotes c = (if 2 \<le> length c \<and> hd c = quote_char \<and> last c = quote_char then butlast (tl c) else c)"

definition parseCsvLine :: "string \<Rightarrow> string list" where
  "parseCsvLine line = map strip_quotes (cell_loop [] False line)"

type_synonym csv_row = "string \<rightharpoonup> string"

text \<open>The loop that fills a row object; a missing cell is the empty text.\<close>

fun row_of :: "string list \<Rightarrow> string list \<Rightarrow> csv_row \<Rightarrow> csv_row" where
  "row_of [] cells row = row"
| "row_of (h # headers) [] row = row_of headers [] (row(h \<mapsto> []))"
| "row_of (h # headers) (c # cells) row = row_of headers cells (row(h \<mapsto> c))"

record csv_table =
  ct_headers :: "string list"
  ct_rows :: "csv_row list"

definition byte_order_mark :: string where
  "byte_order_mark = bytes [239, 187, 191]"

definition strip_bom :: "string \<Rightarrow> string" where
  "strip_bom s = (if prefix byte_order_mark s then drop (length byte_order_mark) s else s)"

definition parseCsv :: "string \<Rightarrow> csv_table" where
  "parseCsv content = (case splitCsvRows (strip_bom content) of
     [] \<Rightarrow> \<lparr>ct_headers = [], ct_rows = []\<rparr>
   | first # rows \<Rightarrow>
       (let headers = parseCsvLine first in
        \<lparr>ct_headers = headers,
         ct_rows = map (\<lambda>r. row_of headers (parseCsvLine r) Map.empty) (filter (\<lambda>r. utf8_trim r \<noteq> []) rows)\<rparr>))"

subsection \<open>The row mappings\<close>

text \<open>\<open>String(r[a] ?? r[b] ?? d)\<close>: the first of the columns that exists.\<close>

fun column :: "csv_row \<Rightarrow> string list \<Rightarrow> string \<Rightarrow> string" where
  "column r [] d = d"
| "column r (h # hs) d = (case r h of Some v \<Rightarrow> v | None \<Rightarrow> column r hs d)"

definition COL_PRODUCT_Id :: string where
  "COL_PRODUCT_Id = bytes [229, 149, 134, 229, 147, 129] @ ''Id''"
definition COL_PRODUCT_ID :: string where
  "COL_PRODUCT_ID = bytes [229, 149, 134, 229, 147, 129] @ ''ID''"

record product_row =
  pw_product_id :: string
  pw_title :: string
  pw_detail :: string
  pw_shop :: string
  pw_note :: string

datatype csv_error = Empty_csv string

definition product_of_row :: "csv_row \<Rightarrow> product_row" where
  "product_of_row r =
     \<lparr>pw_product_id = hd (js_split ''|'' (column r [COL_PRODUCT_Id, COL_PRODUCT_ID] [])),
      pw_title = column r [bytes [229, 174, 157, 232, 180, 157, 230, 160, 135, 233, 162, 152],
        bytes [229, 149, 134, 229, 147, 129, 230, 160, 135, 233, 162, 152]] [],
      pw_detail = column r [bytes [229, 149, 134, 229, 147, 129, 232, 175, 166, 230, 131, 133]] [],
      pw_shop = column r [bytes [230, 137, 128, 229, 177, 158, 229, 186, 151, 233, 147, 186]] [],
      pw_note = column r [bytes [229, 164, 135, 230, 179, 168]] []\<rparr>"

definition parseProductsCsv :: "string \<Rightarrow> csv_error + product_row list" where
  "parseProductsCsv file = (let table = parseCsv file in
     if length (ct_headers table) = 0 then Inl (Empty_csv ''empty product CSV'')
     else Inr (map product_of_row (ct_rows table)))"

record transfer_row =
  tr_keyword :: string
  tr_transfer_to :: string
  tr_transfer_message :: string
  tr_work_hours :: string
  tr_source_agent :: string
  tr_status :: string
  tr_order_state :: string
  tr_applicable_shops :: string

definition COL_AGENT_SOURCE :: string where
  "COL_AGENT_SOURCE = bytes [229, 174, 162, 230, 156, 141, 230, 157, 165, 230, 186, 144]"
definition COL_SOURCE_AGENT :: string where
  "COL_SOURCE_AGENT = bytes [230, 157, 165, 230, 186, 144, 229, 174, 162, 230, 156, 141]"
definition STATUS_DISABLED :: string where
  "STATUS_DISABLED = bytes [231, 166, 129, 231, 148, 168]"

definition transfer_of_row :: "csv_row \<Rightarrow> transfer_row" where
  "transfer_of_row r =
     \<lparr>tr_keyword = column r [bytes [232, 189, 172, 230, 142, 165, 229, 133, 179, 233, 148, 174, 229, 173, 151]] [],
      tr_transfer_to = column r [bytes [232, 189, 172, 230, 142, 165, 229, 136, 176]] [],
      tr_transfer_message = column r [bytes [232, 189, 172, 230, 142, 165, 230, 151, 182, 229, 143, 145, 230, 157, 161, 230, 182, 136, 230, 129, 175]] [],
      tr_work_hours = column r [bytes [229, 183, 165, 228, 189, 156, 230, 151, 182, 233, 151, 180]] [],
      tr_source_agent = column r [COL_SOURCE_AGENT, COL_AGENT_SOURCE] [],
      tr_status = column r [bytes [231, 138, 182, 230, 128, 129]] STATUS_DISABLED,
      tr_order_state = column r [bytes [231, 148, 159, 230, 149, 136, 228, 184, 139, 229, 141, 149, 231, 138, 182, 230, 128, 129]] [],
      tr_applicable_shops = column r [bytes [233, 128, 130, 231, 148, 168, 229, 186, 151, 233, 147, 186]] []\<rparr>"

definition parseTransferRulesCsv :: "string \<Rightarrow> csv_error + (transfer_row list \<times> bool)" where
  "parseTransferRulesCsv file = (let table = parseCsv file in
     if length (ct_headers table) = 0 then Inl (Empty_csv ''empty transfer CSV'')
     else Inr (map transfer_of_row (ct_rows table), COL_AGENT_SOURCE \<in> set (ct_headers table)))"

record history_row =
  mw_product_id :: string
  mw_time :: string
  mw_buyer_name :: string
  mw_question :: string
  mw_ai_reply :: string
  mw_chat_history :: string
  mw_highest_similarity :: string
  mw_agent_name :: string

definition COL_QUESTION :: string where
  "COL_QUESTION = bytes [233, 151, 174, 233, 162, 152]"

definition message_of_row :: "csv_row \<Rightarrow> history_row" where
  "message_of_row r =
     \<lparr>mw_product_id = column r [COL_PRODUCT_ID] [],
      mw_time = column r [bytes [230, 151, 182, 233, 151, 180]] [],
      mw_buyer_name = column r [bytes [228, 185, 176, 229, 174, 182, 229, 144, 141, 231, 167, 176]] [],
      mw_question = column r [COL_QUESTION] [],
      mw_ai_reply = column r [''AI'' @ bytes [229, 155, 158, 229, 164, 141]] [],
      mw_chat_history = column r [bytes [232, 129, 138, 229, 164, 169, 232, 174, 176, 229, 189, 149]] [],
      mw_highest_similarity = column r [bytes [230, 156, 128, 233, 171, 152, 231, 155, 184, 228, 188, 188, 229, 186, 166]] [],
      mw_agent_name = column r [bytes [229, 174, 162, 230, 156, 141, 229, 144, 141, 231, 167, 176]] []\<rparr>"

definition parseMessagesCsv :: "string \<Rightarrow> history_row list \<times> string list" where
  "parseMessagesCsv file = (let table = parseCsv file in (map message_of_row (ct_rows table), ct_headers table))"

record knowledge_row =
  kr_question :: string
  kr_answer :: string
  kr_product_id :: string
  kr_tags :: "string list"
  kr_library :: string

text \<open>\<open>split(/[,\<close> fullwidth comma \<open>]/)\<close>: at every comma of either kind.\<close>

definition split_tags :: "string \<Rightarrow> string list" where
  "split_tags s = filter (\<lambda>t. t \<noteq> []) (map utf8_trim
     (concat (map (js_split (bytes [239, 188, 140])) (js_split '','' s))))"

definition LIB_A :: string where "LIB_A = ''A'' @ bytes [229, 186, 147]"
definition LIB_B :: string where "LIB_B = ''B'' @ bytes [229, 186, 147]"
definition PENDING_REVIEW :: string where "PENDING_REVIEW = bytes [229, 190, 133, 229, 174, 161, 230, 160, 184]"
definition HUMAN_CONFIRMED :: string where "HUMAN_CONFIRMED = bytes [228, 186, 186, 229, 183, 165, 231, 161, 174, 232, 174, 164]"
definition AUTO_COLLECTED :: string where "AUTO_COLLECTED = bytes [229, 133, 168, 232, 135, 170, 229, 138, 168, 230, 148, 182, 229, 189, 149]"

definition libraryForPath :: "string \<Rightarrow> string" where
  "libraryForPath path = (if js_includes path HUMAN_CONFIRMED then LIB_B
     else if js_includes path PENDING_REVIEW then PENDING_REVIEW
     else if js_includes path AUTO_COLLECTED \<or> js_includes path LIB_A then LIB_A
     else LIB_A)"

definition knowledge_of_row :: "string \<Rightarrow> csv_row \<Rightarrow> knowledge_row" where
  "knowledge_of_row library r =
     \<lparr>kr_question = column r [COL_QUESTION] [],
      kr_answer = column r [bytes [231, 173, 148, 230, 161, 136]] [],
      kr_product_id = column r [COL_PRODUCT_ID, COL_PRODUCT_Id] [],
      kr_tags = split_tags (column r [bytes [230, 160, 135, 231, 173, 190]] []),
      kr_library = library\<rparr>"

definition buildKnowledgeRows :: "string \<Rightarrow> string \<Rightarrow> knowledge_row list" where
  "buildKnowledgeRows path file = map (knowledge_of_row (libraryForPath path)) (ct_rows (parseCsv file))"

end
