(* ===== verification/Legacy_Csv_Props.thy ===== *)
theory Legacy_Csv_Props imports Legacy_Csv begin

text \<open>
  The CSV reader reads back a table that was printed with quotes around the cells that need them, as long as
  no cell holds a quote character; and what it does to cells with quote characters.
\<close>

subsection \<open>Printing\<close>

definition needs_quotes :: "string \<Rightarrow> bool" where
  "needs_quotes c \<longleftrightarrow> comma \<in> set c \<or> lf \<in> set c \<or> cr \<in> set c \<or> quote_char \<in> set c"

definition print_cell :: "string \<Rightarrow> string" where
  "print_cell c = (if needs_quotes c
     then quote_char # concat (map (\<lambda>x. if x = quote_char then [quote_char, quote_char] else [x]) c) @ [quote_char] else c)"

definition print_line :: "string list \<Rightarrow> string" where
  "print_line cells = js_join [comma] (map print_cell cells)"

definition print_csv :: "string list list \<Rightarrow> string" where
  "print_csv lines = concat (map (\<lambda>l. print_line l @ [lf]) lines)"

definition plain_cell :: "string \<Rightarrow> bool" where
  "plain_cell c \<longleftrightarrow> quote_char \<notin> set c"

lemmas csv_chars = quote_char_def lf_def cr_def comma_def

lemma csv_chars_distinct [simp]:
  "quote_char \<noteq> lf" "lf \<noteq> quote_char" "quote_char \<noteq> cr" "cr \<noteq> quote_char" "quote_char \<noteq> comma" "comma \<noteq> quote_char"
  "lf \<noteq> cr" "cr \<noteq> lf" "comma \<noteq> lf" "lf \<noteq> comma" "comma \<noteq> cr" "cr \<noteq> comma"
  by (simp_all add: csv_chars)

lemma starts_with_char_simps [simp]: "\<not> starts_with_char [] c" "starts_with_char (d # s) c \<longleftrightarrow> d = c"
  by (simp_all add: starts_with_char_def)

lemma print_plain_cell:
  "plain_cell c \<Longrightarrow> print_cell c = (if needs_quotes c then quote_char # c @ [quote_char] else c)"
proof -
  assume "plain_cell c"
  then have "concat (map (\<lambda>x. if x = quote_char then [quote_char, quote_char] else [x]) c) = c"
    by (induction c) (auto simp: plain_cell_def)
  then show ?thesis by (simp add: print_cell_def)
qed

subsection \<open>Lines\<close>

lemma split_loop_inside:
  "quote_char \<notin> set c \<Longrightarrow> \<not> starts_with_char rest quote_char \<Longrightarrow>
   split_loop cur True (c @ quote_char # rest) = split_loop (cur @ c @ [quote_char]) False rest"
  by (induction c arbitrary: cur) auto

lemma split_loop_outside:
  "quote_char \<notin> set c \<Longrightarrow> lf \<notin> set c \<Longrightarrow> cr \<notin> set c \<Longrightarrow>
   split_loop cur False (c @ rest) = split_loop (cur @ c) False rest"
  by (induction c arbitrary: cur) auto

lemma split_loop_cell:
  assumes "plain_cell c" and "\<not> starts_with_char rest quote_char"
  shows "split_loop cur False (print_cell c @ rest) = split_loop (cur @ print_cell c) False rest"
proof (cases "needs_quotes c")
  case True
  then show ?thesis
    using assms split_loop_inside [of c rest "cur @ [quote_char]"]
    by (auto simp: print_plain_cell plain_cell_def)
next
  case False
  then show ?thesis
    using assms split_loop_outside [of c cur rest]
    by (simp add: print_plain_cell plain_cell_def needs_quotes_def)
qed

lemma split_loop_line:
  "\<forall>c\<in>set cells. plain_cell c \<Longrightarrow>
   split_loop cur False (print_line cells @ lf # rest) = (cur @ print_line cells) # split_loop [] False rest"
proof (induction cells arbitrary: cur)
  case Nil
  then show ?case by (simp add: print_line_def)
next
  case (Cons c cells)
  show ?case
  proof (cases cells)
    case Nil
    then show ?thesis
      using Cons.prems split_loop_cell [of c "lf # rest" cur] by (simp add: print_line_def)
  next
    case (Cons d ds)
    then have line: "print_line (c # cells) = print_cell c @ comma # print_line cells" by (simp add: print_line_def)
    have "split_loop cur False (print_line (c # cells) @ lf # rest)
      = split_loop (cur @ print_cell c @ [comma]) False (print_line cells @ lf # rest)"
      using Cons.prems split_loop_cell [of c "comma # print_line cells @ lf # rest" cur] by (simp add: line)
    then show ?thesis using Cons.IH Cons.prems by (simp add: line)
  qed
qed

lemma split_print:
  "\<forall>l\<in>set lines. \<forall>c\<in>set l. plain_cell c \<Longrightarrow> splitCsvRows (print_csv lines) = map print_line lines"
  unfolding splitCsvRows_def
proof (induction lines)
  case (Cons l lines)
  then show ?case using split_loop_line [of l "[]" "print_csv lines"] by (simp add: print_csv_def)
qed (simp add: print_csv_def)

subsection \<open>Cells\<close>

lemma cell_loop_inside:
  "quote_char \<notin> set c \<Longrightarrow> \<not> starts_with_char rest quote_char \<Longrightarrow>
   cell_loop cur True (c @ quote_char # rest) = cell_loop (cur @ c) False rest"
  by (induction c arbitrary: cur) auto

lemma cell_loop_outside:
  "quote_char \<notin> set c \<Longrightarrow> comma \<notin> set c \<Longrightarrow> cell_loop cur False (c @ rest) = cell_loop (cur @ c) False rest"
  by (induction c arbitrary: cur) auto

lemma cell_loop_cell:
  assumes "plain_cell c" and "\<not> starts_with_char rest quote_char"
  shows "cell_loop cur False (print_cell c @ rest) = cell_loop (cur @ c) False rest"
proof (cases "needs_quotes c")
  case True
  then show ?thesis
    using assms cell_loop_inside [of c rest cur] by (auto simp: print_plain_cell plain_cell_def)
next
  case False
  then show ?thesis
    using assms cell_loop_outside [of c cur rest]
    by (simp add: print_plain_cell plain_cell_def needs_quotes_def)
qed

lemma cell_loop_line:
  "\<forall>c\<in>set cells. plain_cell c \<Longrightarrow> cells \<noteq> [] \<Longrightarrow> cell_loop [] False (print_line cells) = cells"
proof (induction cells)
  case (Cons c cells)
  show ?case
  proof (cases cells)
    case Nil
    then show ?thesis using Cons.prems cell_loop_cell [of c "[]" "[]"] by (simp add: print_line_def)
  next
    case (Cons d ds)
    then have line: "print_line (c # cells) = print_cell c @ comma # print_line cells" by (simp add: print_line_def)
    have "cell_loop [] False (print_line cells) = cells" using Cons.IH Cons.prems Cons by simp
    then show ?thesis
      using Cons.prems cell_loop_cell [of c "comma # print_line cells" "[]"] unfolding line by simp
  qed
qed simp

lemma strip_plain: "plain_cell c \<Longrightarrow> strip_quotes c = c"
  by (cases c) (auto simp: strip_quotes_def plain_cell_def)

lemma parse_line: "\<forall>c\<in>set cells. plain_cell c \<Longrightarrow> cells \<noteq> [] \<Longrightarrow> parseCsvLine (print_line cells) = cells"
  unfolding parseCsvLine_def by (simp add: cell_loop_line strip_plain map_idI)

lemma row_of_zip: "length headers = length cells \<Longrightarrow> row_of headers cells row = row ++ map_of (rev (zip headers cells))"
  by (induction headers cells row rule: row_of.induct) auto

lemma map_of_rev_keys: "distinct (map fst xs) \<Longrightarrow> map_of (rev xs) = map_of xs"
proof (induction xs)
  case (Cons kv xs)
  then have "map_of xs (fst kv) = None" by (simp add: map_of_eq_None_iff)
  with Cons show ?case by (cases kv) (simp add: map_add_upd_left map_add_empty dom_map_of_conv_image_fst [symmetric] domIff map_add_upd_left)
qed simp

subsection \<open>Round trip\<close>

text \<open>
  Property C37. The CSV reader of the legacy import reads back what was printed. A table of cells without
  quote characters, printed with quotes around the cells that hold a comma or a line break, and with or
  without a byte order mark in front, is read with the same header, and row by row with every cell under the
  name of its column; commas and line breaks inside cells survive.
\<close>

theorem csv_is_read_back:
  assumes plain: "\<forall>l\<in>set (header # rows). \<forall>c\<in>set l. plain_cell c"
    and header: "header \<noteq> []" "distinct header"
    and rows: "\<forall>r\<in>set rows. length r = length header \<and> utf8_trim (print_line r) \<noteq> []"
    and no_mark: "\<not> prefix byte_order_mark (print_csv (header # rows))"
    and f: "file = print_csv (header # rows) \<or> file = byte_order_mark @ print_csv (header # rows)"
  shows "parseCsv file = \<lparr>ct_headers = header, ct_rows = map (\<lambda>r. map_of (zip header r)) rows\<rparr>"
proof -
  have "strip_bom file = print_csv (header # rows)"
    using no_mark f by (auto simp: strip_bom_def)
  then have split: "splitCsvRows (strip_bom file) = print_line header # map print_line rows"
    using split_print [OF plain] by simp
  have h: "parseCsvLine (print_line header) = header" using plain header by (simp add: parse_line)
  have "row_of header (parseCsvLine (print_line r)) Map.empty = map_of (zip header r)" if r: "r \<in> set rows" for r
  proof -
    have len: "length header = length r" and "r \<noteq> []" using rows r header by auto
    then have "parseCsvLine (print_line r) = r" using plain r by (simp add: parse_line)
    moreover have "map_of (rev (zip header r)) = map_of (zip header r)"
      using header(2) len by (simp add: map_of_rev_keys)
    ultimately show ?thesis using row_of_zip [OF len, of Map.empty] by simp
  qed
  moreover have "filter (\<lambda>r. utf8_trim r \<noteq> []) (map print_line rows) = map print_line rows"
    using rows by (intro filter_True) auto
  ultimately show ?thesis
    by (simp add: parseCsv_def split h Let_def)
qed

theorem csv_is_read_back_witness:
  "parseCsv (print_csv [[''a'', ''b''], [''1,5'', [lf]]]) = \<lparr>ct_headers = [''a'', ''b''], ct_rows = [map_of (zip [''a'', ''b''] [''1,5'', [lf]])]\<rparr>"
proof -
  have "utf8_trim (print_line [''1,5'', [lf]]) \<noteq> []" by code_simp
  moreover have "\<not> prefix byte_order_mark (print_csv [[''a'', ''b''], [''1,5'', [lf]]])" by code_simp
  moreover have "\<forall>l\<in>set [[''a'', ''b''], [''1,5'', [lf]]]. \<forall>c\<in>set l. plain_cell c" by (simp add: plain_cell_def csv_chars)
  ultimately show ?thesis
    using csv_is_read_back [of "[''a'', ''b'']" "[[''1,5'', [lf]]]" "print_csv [[''a'', ''b''], [''1,5'', [lf]]]"] by simp
qed

text \<open>
  A cell with an escaped quote is damaged: the quotes disappear, and a comma between them cuts the cell, so
  that the rest of it lands in the next column.
\<close>

theorem quoted_quotes_damage_a_row:
  "map (\<lambda>r. (r ''q'', r ''a'')) (ct_rows (parseCsv (print_csv [[''q'', ''a''], [''say '' @ [quote_char] @ ''x,y'' @ [quote_char] @ '' z'', ''yes'']])))
   = [(Some ''say x'', Some ''y z'')]"
  by code_simp

subsection \<open>Rows\<close>

text \<open>The old column name of a transfer rule is used exactly when the new one is missing.\<close>

theorem source_agent_is_migrated:
  "tr_source_agent (transfer_of_row r) = (case r COL_SOURCE_AGENT of Some v \<Rightarrow> v
     | None \<Rightarrow> (case r COL_AGENT_SOURCE of Some v \<Rightarrow> v | None \<Rightarrow> []))"
  by (simp add: transfer_of_row_def split: option.split)

text \<open>A product is known by the part of its identifier before the first bar.\<close>

theorem product_id_is_the_main_id:
  assumes "CHR 0x7C \<notin> set main" and "r COL_PRODUCT_Id = Some (main @ ''|'' @ attached)"
  shows "pw_product_id (product_of_row r) = main"
proof -
  have "hd (js_split ''|'' (main @ ''|'' @ attached)) = main" using assms(1)
  proof (induction main)
    case Nil
    then show ?case using js_split_match [of "''|''" "''|'' @ attached"] by simp
  next
    case (Cons c main)
    then have "\<not> prefix ''|'' (c # main @ ''|'' @ attached)" by auto
    then obtain p ps where "js_split ''|'' (main @ ''|'' @ attached) = p # ps"
      "js_split ''|'' (c # main @ ''|'' @ attached) = (c # p) # ps" using js_split_step [of "''|''"] by blast
    with Cons show ?case by simp
  qed
  with assms(2) show ?thesis by (simp add: product_of_row_def)
qed

end
