(* ===== verification/Forbidden_Filter_Props.thy ===== *)
theory Forbidden_Filter_Props imports Forbidden_Filter begin

text \<open>
  The automaton of the forbidden words is right: the trie holds the prefixes of the words, the failure link
  of a node is its longest proper suffix in the trie, and a node has an output exactly when a word ends there.
  From this the filter is shown to return, and to return the result of the reference scan.
\<close>

subsection \<open>The trie\<close>

text \<open>The keys of every node are those that lead to a path in \<open>N\<close>.\<close>

definition shape :: "node_path set \<Rightarrow> node_store \<Rightarrow> bool" where
  "shape N t \<longleftrightarrow> (\<forall>p. set (an_next (t p)) = {c. p @ [c] \<in> N} \<and> distinct (an_next (t p)))"

definition prefix_closed :: "node_path set \<Rightarrow> bool" where
  "prefix_closed N \<longleftrightarrow> (\<forall>p q. p @ q \<in> N \<longrightarrow> p \<in> N)"

text \<open>The trie of the paths \<open>N\<close> with the words \<open>W\<close>.\<close>

definition trie_inv :: "node_path set \<Rightarrow> node_path set \<Rightarrow> node_store \<Rightarrow> bool" where
  "trie_inv N W t \<longleftrightarrow> prefix_closed N \<and> shape N t \<and> W \<subseteq> N
     \<and> (\<forall>p. an_output (t p) \<noteq> None \<longleftrightarrow> p \<in> W) \<and> an_failure (t []) = None"

lemma shape_next: "shape N t \<Longrightarrow> c \<in> set (an_next (t p)) \<longleftrightarrow> p @ [c] \<in> N"
  by (simp add: shape_def)

lemma trie_inv_grow:
  assumes inv: "trie_inv N W t" and p: "p \<in> N" and c: "p @ [c] \<notin> N"
  shows "trie_inv (insert (p @ [c]) N) W ((t(p @ [c] := new_node))(p := (t p)\<lparr>an_next := an_next (t p) @ [c]\<rparr>))"
    (is "trie_inv ?N W ?t")
proof -
  have closed: "prefix_closed N" and sh: "shape N t" using inv by (auto simp: trie_inv_def)
  have "prefix_closed ?N"
    unfolding prefix_closed_def
  proof (intro allI impI)
    fix u v assume "u @ v \<in> ?N"
    then consider "u @ v \<in> N" | "u @ v = p @ [c]" by auto
    then show "u \<in> ?N"
    proof cases
      case 2
      then show ?thesis using p closed by (cases v rule: rev_cases) (auto simp: prefix_closed_def)
    qed (use closed in \<open>auto simp: prefix_closed_def\<close>)
  qed
  moreover have "shape ?N ?t"
    unfolding shape_def
  proof
    fix u
    have child: "p @ [c] @ [d] \<notin> N" for d
    proof
      assume "p @ [c] @ [d] \<in> N"
      then have "(p @ [c]) @ [d] \<in> N" by simp
      with c closed show False unfolding prefix_closed_def by blast
    qed
    consider "u = p" | "u = p @ [c]" | "u \<noteq> p" "u \<noteq> p @ [c]" by blast
    then show "set (an_next (?t u)) = {d. u @ [d] \<in> ?N} \<and> distinct (an_next (?t u))"
      by cases (use sh c child in \<open>auto simp: shape_def new_node_def\<close>)
  qed
  ultimately show ?thesis
    using inv c p by (auto simp: trie_inv_def new_node_def)
qed

lemma insert_path_inv:
  assumes "trie_inv N W t" and "p \<in> N"
  shows "\<exists>t'. insert_path p w t = (p @ w, t') \<and> trie_inv (N \<union> {p @ v |v. prefix v w}) W t'"
  using assms
proof (induction w arbitrary: p t N)
  case Nil
  then have "N \<union> {p @ v |v. prefix v []} = N" by auto
  with Nil show ?case by simp
next
  case (Cons c w)
  have paths: "insert (p @ [c]) N \<union> {(p @ [c]) @ v |v. prefix v w} = N \<union> {p @ v |v. prefix v (c # w)}"
    using Cons.prems(2) by (auto simp: prefix_Cons)
  show ?case
  proof (cases "p @ [c] \<in> N")
    case True
    then have "insert (p @ [c]) N = N" by blast
    with Cons.IH [OF Cons.prems(1) True] paths show ?thesis
      using True Cons.prems(1) shape_next [of N t c p] by (auto simp: trie_inv_def)
  next
    case False
    define t1 where "t1 = (t(p @ [c] := new_node))(p := (t p)\<lparr>an_next := an_next (t p) @ [c]\<rparr>)"
    have "insert_path p (c # w) t = insert_path (p @ [c]) w t1"
      using False Cons.prems(1) shape_next [of N t c p] by (simp add: trie_inv_def t1_def)
    moreover have "trie_inv (insert (p @ [c]) N) W t1"
      unfolding t1_def by (rule trie_inv_grow [OF Cons.prems False])
    ultimately show ?thesis using Cons.IH [of "insert (p @ [c]) N" t1 "p @ [c]"] paths by simp
  qed
qed

lemma insert_word_inv:
  assumes "trie_inv N W t" and "[] \<in> N"
  shows "trie_inv (N \<union> {v. prefix v (symbols w)}) (W \<union> ({symbols w} - {[]})) (insert_word w t)"
proof (cases "w = []")
  case True
  with assms have "N \<union> {v. prefix v (symbols w)} = N" by auto
  with True assms show ?thesis by (simp add: insert_word_def)
next
  case False
  let ?s = "symbols w"
  obtain t' where t': "insert_path [] ?s t = (?s, t')" "trie_inv (N \<union> {v. prefix v ?s}) W t'"
    using insert_path_inv [OF assms, of ?s] by auto
  have "insert_word w t = t'(?s := (t' ?s)\<lparr>an_output := Some (length w)\<rparr>)"
    using False t'(1) by (simp add: insert_word_def)
  moreover have "?s \<noteq> []" using False by simp
  ultimately show ?thesis using t'(2) by (auto simp: trie_inv_def shape_def simp del: symbols_Nil_iff)
qed

lemma build_trie_fold:
  "trie_inv N W t \<Longrightarrow> [] \<in> N \<Longrightarrow>
   trie_inv (N \<union> {v. \<exists>w\<in>symbols ` set words. prefix v w}) (W \<union> (symbols ` set words - {[]})) (fold insert_word words t)"
proof (induction words arbitrary: N W t)
  case (Cons w words)
  have "N \<union> {v. prefix v (symbols w)} \<union> {v. \<exists>w\<in>symbols ` set words. prefix v w} = N \<union> {v. \<exists>w\<in>symbols ` set (w # words). prefix v w}"
    and "W \<union> ({symbols w} - {[]}) \<union> (symbols ` set words - {[]}) = W \<union> (symbols ` set (w # words) - {[]})" by auto
  with Cons.IH [OF insert_word_inv [OF Cons.prems, of w]] Cons.prems(2) show ?case by simp
qed simp

lemma build_trie_inv: "trie_inv {p. node (map symbols words) p} (set (map symbols words) - {[]}) (build_trie words)"
proof -
  have "trie_inv {[]} {} (\<lambda>_. new_node)"
    by (auto simp: trie_inv_def prefix_closed_def shape_def new_node_def)
  from build_trie_fold [OF this, of words]
  have "trie_inv ({[]} \<union> {v. \<exists>w\<in>symbols ` set words. prefix v w}) (symbols ` set words - {[]}) (build_trie words)"
    by (simp add: build_trie_def)
  moreover have "{[]} \<union> {v. \<exists>w\<in>symbols ` set words. prefix v w} = {p. node (map symbols words) p}" by (auto simp: node_def)
  ultimately show ?thesis by simp
qed

subsection \<open>Failure links\<close>

text \<open>
  The state of the linking: the nodes in \<open>L\<close> have their failure link and final output, the others the
  output of the trie.
\<close>

definition linked :: "symbol list list \<Rightarrow> node_store \<Rightarrow> node_path \<Rightarrow> bool" where
  "linked words t p \<longleftrightarrow> an_failure (t p) = Some (longest words (tl p))
     \<and> (an_output (t p) \<noteq> None \<longleftrightarrow> hit words p)"

definition link_inv :: "symbol list list \<Rightarrow> node_path set \<Rightarrow> node_store \<Rightarrow> bool" where
  "link_inv words L t \<longleftrightarrow> shape {p. node words p} t \<and> an_failure (t []) = None \<and> an_output (t []) = None
     \<and> (\<forall>p. p \<noteq> [] \<longrightarrow> node words p \<longrightarrow> (if p \<in> L then linked words t p else (an_output (t p) \<noteq> None \<longleftrightarrow> p \<in> set words)))"

lemma link_inv_next: "link_inv words L t \<Longrightarrow> c \<in> set (an_next (t p)) \<longleftrightarrow> node words (p @ [c])"
  by (simp add: link_inv_def shape_def)

text \<open>The walk along the failure links finds the longest suffix that can be continued.\<close>

lemma find_fallback_longest:
  assumes inv: "link_inv words L t"
    and short: "\<forall>q. node words q \<longrightarrow> q \<noteq> [] \<longrightarrow> length q \<le> n \<longrightarrow> q \<in> L"
  shows "node words f \<Longrightarrow> length f \<le> n \<Longrightarrow> \<exists>r. find_fallback t c (Some f) = Some r
    \<and> (case r of Some g \<Rightarrow> g @ [c] | None \<Rightarrow> []) = longest words (f @ [c])"
proof (induction f rule: length_induct)
  case (1 f)
  show ?case
  proof (cases "node words (f @ [c])")
    case True
    then show ?thesis
      using link_inv_next [OF inv, of c f]
      by (subst find_fallback.simps) (auto simp: longest_node intro!: exI [of _ "Some f"])
  next
    case no: False
    have unfold: "find_fallback t c (Some f) = find_fallback t c (an_failure (t f))"
      using no link_inv_next [OF inv, of c f] by (subst find_fallback.simps) simp
    show ?thesis
    proof (cases "f = []")
      case True
      then have "find_fallback t c (Some f) = Some None"
        using unfold inv by (subst (asm) find_fallback.simps [of t c "an_failure (t f)"]) (simp add: link_inv_def)
      moreover have "longest words (f @ [c]) = []" using True no by simp
      ultimately show ?thesis by (intro exI [of _ None]) simp
    next
      case False
      let ?g = "longest words (tl f)"
      have "f \<in> L" using False "1.prems" short by blast
      then have fail: "an_failure (t f) = Some ?g"
        using inv False "1.prems"(1) by (auto simp: link_inv_def linked_def)
      have "length ?g < length f" using False by (rule length_longest_tl)
      then obtain r where r: "find_fallback t c (Some ?g) = Some r"
        "(case r of Some g \<Rightarrow> g @ [c] | None \<Rightarrow> []) = longest words (?g @ [c])"
        using "1.IH" [rule_format, of ?g] "1.prems"(2) node_longest by fastforce
      show ?thesis
        unfolding unfold fail longest_snoc_step [OF False no] using r by blast
    qed
  qed
qed

lemma link_inv_update:
  assumes inv: "link_inv words L t" and q: "q \<noteq> []" and n: "an_next n = an_next (t q)" and l: "linked words (t(q := n)) q"
  shows "link_inv words (insert q L) (t(q := n))"
proof -
  have "linked words (t(q := n)) u \<longleftrightarrow> linked words t u" if "u \<noteq> q" for u
    using that by (simp add: linked_def)
  then have "if u \<in> insert q L then linked words (t(q := n)) u else (an_output ((t(q := n)) u) \<noteq> None \<longleftrightarrow> u \<in> set words)"
    if "u \<noteq> []" "node words u" for u
    using inv l that by (cases "u = q") (auto simp: link_inv_def)
  moreover have "shape {p. node words p} (t(q := n))"
    using inv n by (simp add: link_inv_def shape_def)
  moreover have "an_failure ((t(q := n)) []) = None" "an_output ((t(q := n)) []) = None"
    using inv q by (simp_all add: link_inv_def)
  ultimately show ?thesis unfolding link_inv_def by blast
qed

lemma link_child_spec:
  assumes inv: "link_inv words L t" and p: "p \<noteq> []" "node words (p @ [c])" and new: "p @ [c] \<notin> L"
    and short: "\<forall>q. node words q \<longrightarrow> q \<noteq> [] \<longrightarrow> length q \<le> length p \<longrightarrow> q \<in> L"
  shows "\<exists>t'. link_child p c t = Some t' \<and> link_inv words (insert (p @ [c]) L) t'"
proof -
  let ?q = "p @ [c]" and ?f = "longest words (tl p)" and ?g = "longest words (tl p @ [c])"
  have np: "node words p" using p(2) by (rule node_prefix)
  then have "an_failure (t p) = Some ?f"
    using inv short p(1) by (auto simp: link_inv_def linked_def)
  moreover obtain r where r: "find_fallback t c (Some ?f) = Some r"
    "(case r of Some g \<Rightarrow> g @ [c] | None \<Rightarrow> []) = longest words (?f @ [c])"
    using find_fallback_longest [OF inv short, of ?f c] length_longest_tl [OF p(1), of words] by auto
  moreover have "longest words (?f @ [c]) = ?g" by (rule longest_snoc [symmetric])
  ultimately have child: "link_child p c t = Some (t(?q :=
     (if an_output (t ?q) = None \<and> an_output (t ?g) \<noteq> None
      then (t ?q)\<lparr>an_failure := Some ?g, an_output := an_output (t ?g)\<rparr> else (t ?q)\<lparr>an_failure := Some ?g\<rparr>)))"
    (is "_ = Some ?t")
    by (simp add: link_child_def Let_def)
  have tlq: "tl ?q = tl p @ [c]" using p(1) by simp
  have "length ?g \<le> length p"
    using length_longest_tl [of ?q words] by (simp add: tlq)
  then have out_g: "an_output (t ?g) \<noteq> None \<longleftrightarrow> hit words ?g"
    using inv short by (cases "?g = []") (auto simp: link_inv_def linked_def)
  have out_q: "an_output (t ?q) \<noteq> None \<longleftrightarrow> ?q \<in> set words"
    using inv p new by (auto simp: link_inv_def)
  have "linked words ?t ?q"
    using hit_step [of ?q words] p(2) out_g out_q by (auto simp: linked_def tlq)
  then have "link_inv words (insert ?q L) ?t"
    by (intro link_inv_update [OF inv]) simp_all
  with child show ?thesis by blast
qed

lemma link_children_spec:
  assumes "link_inv words L t" and "p \<noteq> []" and "\<forall>c\<in>set cs. node words (p @ [c]) \<and> p @ [c] \<notin> L" and "distinct cs"
    and "\<forall>q. node words q \<longrightarrow> q \<noteq> [] \<longrightarrow> length q \<le> length p \<longrightarrow> q \<in> L"
  shows "\<exists>t'. link_children p cs (t, queue) = Some (t', queue @ map (\<lambda>c. p @ [c]) cs)
    \<and> link_inv words (L \<union> {p @ [c] |c. c \<in> set cs}) t'"
  using assms
proof (induction cs arbitrary: L t queue)
  case (Cons c cs)
  obtain t1 where t1: "link_child p c t = Some t1" "link_inv words (insert (p @ [c]) L) t1"
    using link_child_spec [of words L t p c] Cons.prems by auto
  have "\<exists>t'. link_children p cs (t1, queue @ [p @ [c]]) = Some (t', (queue @ [p @ [c]]) @ map (\<lambda>c. p @ [c]) cs)
    \<and> link_inv words (insert (p @ [c]) L \<union> {p @ [c] |c. c \<in> set cs}) t'"
    using Cons.prems by (intro Cons.IH [OF t1(2)]) auto
  moreover have "insert (p @ [c]) L \<union> {p @ [c] |c. c \<in> set cs} = L \<union> {p @ [d] |d. d \<in> set (c # cs)}" by auto
  ultimately show ?case using t1(1) by simp
qed simp

text \<open>
  The queue of the breadth-first walk: its nodes are linked, their children are not, it is ordered by depth
  and spans two levels at most, and every node that is not linked lies below one of it.
\<close>

definition queue_inv :: "symbol list list \<Rightarrow> node_path set \<Rightarrow> node_path list \<Rightarrow> bool" where
  "queue_inv words L queue \<longleftrightarrow> set queue \<subseteq> L \<and> L \<subseteq> {p. node words p \<and> p \<noteq> []}
     \<and> (\<forall>p c. p \<noteq> [] \<longrightarrow> p @ [c] \<in> L \<longrightarrow> p \<in> L) \<and> (\<forall>p\<in>set queue. \<forall>c. p @ [c] \<notin> L)
     \<and> distinct queue \<and> sorted (map length queue)
     \<and> (\<forall>p\<in>set queue. length p \<le> Suc (length (hd queue)))
     \<and> (\<forall>q. node words q \<longrightarrow> q \<noteq> [] \<longrightarrow> q \<notin> L \<longrightarrow> (\<exists>p\<in>set queue. strict_prefix p q))"

lemma queue_inv_short:
  assumes "queue_inv words L (p # rest)" and "node words q" and "q \<noteq> []" and "length q \<le> length p"
  shows "q \<in> L"
proof (rule ccontr)
  assume "q \<notin> L"
  then obtain r where "r \<in> set (p # rest)" "strict_prefix r q"
    using assms(1-3) unfolding queue_inv_def by blast
  moreover from this have "length p \<le> length r" using assms(1) by (auto simp: queue_inv_def)
  ultimately show False using assms(4) prefix_length_less [of r q] by simp
qed

lemma queue_inv_step:
  assumes inv: "queue_inv words L (p # rest)" and cs: "set cs = {c. node words (p @ [c])}" "distinct cs"
  shows "queue_inv words (L \<union> {p @ [c] |c. c \<in> set cs}) (rest @ map (\<lambda>c. p @ [c]) cs)"
    (is "queue_inv words ?L ?queue")
proof -
  have inL: "set (p # rest) \<subseteq> L" and nodes: "L \<subseteq> {p. node words p \<and> p \<noteq> []}"
    and up: "\<And>u c. u \<noteq> [] \<Longrightarrow> u @ [c] \<in> L \<Longrightarrow> u \<in> L" and new: "\<And>u c. u \<in> set (p # rest) \<Longrightarrow> u @ [c] \<notin> L"
    and dist: "distinct (p # rest)" and sort: "sorted (map length (p # rest))"
    and span: "\<And>u. u \<in> set (p # rest) \<Longrightarrow> length u \<le> Suc (length p)"
    and below: "\<And>u. node words u \<Longrightarrow> u \<noteq> [] \<Longrightarrow> u \<notin> L \<Longrightarrow> \<exists>r\<in>set (p # rest). strict_prefix r u"
    using inv unfolding queue_inv_def list.sel by blast+
  have p: "p \<in> L" "p \<noteq> []" using inL nodes by auto
  have fresh: "p @ [c] \<notin> L" for c using new by simp
  have deep: "(p @ [c]) @ [d] \<notin> L" for c d using up [of "p @ [c]" d] fresh by blast
  have "r @ [c] \<notin> ?L" if "r \<in> set ?queue" for r c
  proof (cases "r \<in> set rest")
    case True
    then have "r \<noteq> p" using dist by auto
    with True new show ?thesis by simp
  next
    case False
    with that obtain d where "r = p @ [d]" by auto
    with deep show ?thesis by auto
  qed
  moreover have "u \<in> ?L" if "u \<noteq> []" "u @ [c] \<in> ?L" for u c using that up p(1) by auto
  moreover have "distinct ?queue"
    using dist inL fresh cs(2) by (auto simp: distinct_map inj_on_def)
  moreover have "sorted (map length ?queue)"
    using sort span by (simp add: sorted_append comp_def map_replicate_const)
  moreover have "length r \<le> Suc (length (hd ?queue))" if "r \<in> set ?queue" for r
  proof -
    have "length p \<le> length (hd ?queue)" using sort that by (cases rest; cases cs) auto
    moreover have "length r \<le> Suc (length p)" using span that by auto
    ultimately show ?thesis by simp
  qed
  moreover have "\<exists>r\<in>set ?queue. strict_prefix r u" if u: "node words u" "u \<noteq> []" "u \<notin> ?L" for u
  proof -
    obtain r where r: "r \<in> set (p # rest)" "strict_prefix r u" using below u by blast
    show ?thesis
    proof (cases "r = p")
      case True
      then obtain c v where v: "u = p @ c # v" using r(2) by (auto elim: strict_prefixE')
      then have child: "node words (p @ [c])" using u(1) node_prefix [of words "p @ [c]" v] by simp
      then have "v \<noteq> []" using u(3) v cs(1) by auto
      then have "strict_prefix (p @ [c]) u" using v by (simp add: strict_prefix_def)
      with child cs(1) show ?thesis by auto
    qed (use r in auto)
  qed
  moreover have "set ?queue \<subseteq> ?L" "?L \<subseteq> {p. node words p \<and> p \<noteq> []}" using inL nodes cs(1) by auto
  ultimately show ?thesis by (simp only: queue_inv_def) blast
qed

lemma finite_nodes: "finite {p. node words p}"
proof -
  have "{p. node words p} \<subseteq> insert [] (\<Union>w\<in>set words. set (prefixes w))" by (auto simp: node_def)
  then show ?thesis by (rule finite_subset) simp
qed

lemma link_queue_spec:
  assumes "link_inv words L t" and "queue_inv words L queue"
  shows "\<exists>t'. link_queue queue t = Some t' \<and> link_inv words {p. node words p \<and> p \<noteq> []} t'"
  using assms
proof (induction "2 * card ({p. node words p} - L) + length queue" arbitrary: L t queue rule: less_induct)
  case less
  show ?case
  proof (cases queue)
    case Nil
    then have "L = {p. node words p \<and> p \<noteq> []}" using less.prems(2) by (auto simp: queue_inv_def)
    with Nil less.prems(1) show ?thesis by (subst link_queue.simps) simp
  next
    case (Cons p rest)
    let ?cs = "an_next (t p)" let ?L = "L \<union> {p @ [c] |c. c \<in> set ?cs}"
    have cs: "set ?cs = {c. node words (p @ [c])}" "distinct ?cs"
      using less.prems(1) by (simp_all add: link_inv_def shape_def)
    have q: "queue_inv words L (p # rest)" using less.prems(2) Cons by simp
    have p: "p \<noteq> []" "\<forall>c. p @ [c] \<notin> L" using q by (auto simp: queue_inv_def)
    obtain t' where t': "link_children p ?cs (t, rest) = Some (t', rest @ map (\<lambda>c. p @ [c]) ?cs)" "link_inv words ?L t'"
      using link_children_spec [of words L t p ?cs rest] less.prems(1) p cs queue_inv_short [OF q] by auto
    have unfold: "link_queue queue t = link_queue (rest @ map (\<lambda>c. p @ [c]) ?cs) t'"
      unfolding Cons by (subst link_queue.simps) (simp add: t'(1))
    have "card ({p. node words p} - ?L) + length ?cs = card ({p. node words p} - L)"
    proof -
      have kids: "{p @ [c] |c. c \<in> set ?cs} = (\<lambda>c. p @ [c]) ` set ?cs" by auto
      have "card ((\<lambda>c. p @ [c]) ` set ?cs) = length ?cs"
        using cs(2) by (simp add: card_image inj_on_def distinct_card)
      moreover have "{p. node words p} - ?L = ({p. node words p} - L) - (\<lambda>c. p @ [c]) ` set ?cs" unfolding kids by auto
      moreover have "(\<lambda>c. p @ [c]) ` set ?cs \<subseteq> {p. node words p} - L" using cs(1) p(2) by auto
      ultimately show ?thesis
        using card_Diff_subset [of "(\<lambda>c. p @ [c]) ` set ?cs" "{p. node words p} - L"]
          card_mono [of "{p. node words p} - L" "(\<lambda>c. p @ [c]) ` set ?cs"] finite_nodes [of words] by simp
    qed
    then have "2 * card ({p. node words p} - ?L) + length (rest @ map (\<lambda>c. p @ [c]) ?cs)
      < 2 * card ({p. node words p} - L) + length queue" using Cons by simp
    from less.hyps [OF this t'(2) queue_inv_step [OF q cs]] unfold show ?thesis by simp
  qed
qed

text \<open>The root comes first: its children have the empty suffix.\<close>

lemma link_root_fold:
  "link_inv words L t \<Longrightarrow> \<forall>c\<in>set cs. node words [c] \<and> [c] \<notin> L \<Longrightarrow> distinct cs \<Longrightarrow>
   link_inv words (L \<union> {[c] |c. c \<in> set cs}) (fold link_root_child cs t)"
proof (induction cs arbitrary: L t)
  case (Cons c cs)
  let ?t = "link_root_child c t"
  have "hit words [c] \<longleftrightarrow> [c] \<in> set words" using hit_step [of "[c]" words] Cons.prems(2) by simp
  then have "linked words ?t [c]"
    using Cons.prems by (auto simp: linked_def link_inv_def link_root_child_def)
  then have "link_inv words (insert [c] L) ?t"
    unfolding link_root_child_def by (intro link_inv_update [OF Cons.prems(1)]) simp_all
  then have "link_inv words (insert [c] L \<union> {[c] |c. c \<in> set cs}) (fold link_root_child cs ?t)"
    using Cons.prems(2,3) by (intro Cons.IH) auto
  moreover have "insert [c] L \<union> {[c] |c. c \<in> set cs} = L \<union> {[d] |d. d \<in> set (c # cs)}" by auto
  ultimately show ?case by simp
qed simp

lemma build_automaton_spec:
  "\<exists>t. build_automaton words = Some t \<and> link_inv (map symbols words) {p. node (map symbols words) p \<and> p \<noteq> []} t"
proof -
  let ?W = "map symbols words" let ?t = "build_trie words" let ?cs = "an_next (?t [])" let ?L = "{[c] |c. c \<in> set ?cs}"
  note trie = build_trie_inv [of words]
  have cs: "set ?cs = {c. node ?W [c]}" "distinct ?cs" using trie by (auto simp: trie_inv_def shape_def)
  have start: "link_inv ?W {} ?t"
    using trie by (auto simp: trie_inv_def link_inv_def)
  then have inv: "link_inv ?W ?L (link_root ?t)"
    using link_root_fold [of ?W "{}" ?t ?cs] cs by (simp add: link_root_def)
  have next_same: "an_next (fold link_root_child xs u p) = an_next (u p)" for xs u p
    by (induction xs arbitrary: u) (simp_all add: link_root_child_def)
  have cs': "an_next (link_root ?t []) = ?cs" by (simp add: link_root_def next_same)
  have "queue_inv ?W ?L (map (\<lambda>c. [c]) ?cs)"
  proof -
    have "\<exists>p\<in>set (map (\<lambda>c. [c]) ?cs). strict_prefix p q" if q: "node ?W q" "q \<noteq> []" "q \<notin> ?L" for q
    proof -
      obtain c v where v: "q = c # v" using q(2) by (cases q) auto
      then have "node ?W [c]" using q(1) node_prefix [of ?W "[c]" v] by simp
      with q(3) v cs(1) have "v \<noteq> []" "c \<in> set ?cs" by auto
      with v show ?thesis by (cases v) (auto simp: strict_prefix_def)
    qed
    moreover have "sorted (map length (map (\<lambda>c. [c]) ?cs))" by (simp add: comp_def map_replicate_const)
    moreover have "distinct (map (\<lambda>c. [c]) ?cs)" using cs(2) by (simp add: distinct_map inj_on_def)
    moreover have "\<forall>p\<in>set (map (\<lambda>c. [c]) ?cs). length p \<le> Suc (length (hd (map (\<lambda>c. [c]) ?cs)))" by auto
    ultimately show ?thesis using cs(1) unfolding queue_inv_def by auto
  qed
  from link_queue_spec [OF inv this] show ?thesis by (simp add: build_automaton_def Let_def cs')
qed

subsection \<open>The loop\<close>

definition automaton_ok :: "symbol list list \<Rightarrow> node_store \<Rightarrow> bool" where
  "automaton_ok words t \<longleftrightarrow> link_inv words {p. node words p \<and> p \<noteq> []} t"

lemma automaton_output: "automaton_ok words t \<Longrightarrow> node words p \<Longrightarrow> an_output (t p) \<noteq> None \<longleftrightarrow> hit words p"
  by (cases "p = []") (auto simp: automaton_ok_def link_inv_def linked_def)

lemma automaton_failure: "automaton_ok words t \<Longrightarrow> node words p \<Longrightarrow> p \<noteq> [] \<Longrightarrow> an_failure (t p) = Some (longest words (tl p))"
  by (auto simp: automaton_ok_def link_inv_def linked_def)

lemma automaton_next: "automaton_ok words t \<Longrightarrow> c \<in> set (an_next (t p)) \<longleftrightarrow> node words (p @ [c])"
  unfolding automaton_ok_def by (rule link_inv_next)

text \<open>The rounds that read one character: the failure links are walked without an output on the way.\<close>

lemma filter_loop_char:
  assumes t: "automaton_ok words t" and i: "i < length msg"
  shows "node words p \<Longrightarrow> \<not> hit words p \<Longrightarrow> filter_loop t msg (i, p, out) =
    (let q = longest words (p @ [[msg ! i]]) in
     filter_loop t msg (Suc i, if hit words q then [] else q, if q = [] then out @ [msg ! i] else out))"
proof (induction p rule: length_induct)
  case (1 p)
  let ?u = "msg ! i"
  show ?case
  proof (cases "node words (p @ [[?u]])")
    case True
    then have "filter_step t ?u (i, p, out) = Some (Suc i, p @ [[?u]], out)"
      using automaton_next [OF t] by (simp add: filter_step_def)
    then show ?thesis
      using True i automaton_output [OF t True]
      by (subst filter_loop.simps) (simp add: reset_on_output_def longest_node Let_def)
  next
    case no: False
    show ?thesis
    proof (cases "p = []")
      case True
      then have "filter_step t ?u (i, p, out) = Some (Suc i, [], out @ [?u])"
        using no automaton_next [OF t] by (simp add: filter_step_def)
      moreover have "longest words (p @ [[?u]]) = []" using True no by simp
      ultimately show ?thesis
        using i automaton_output [OF t, of "[]"]
        by (subst filter_loop.simps) (simp add: reset_on_output_def Let_def)
    next
      case False
      let ?g = "longest words (tl p)"
      have "filter_step t ?u (i, p, out) = Some (i, ?g, out)"
        using no False automaton_next [OF t] automaton_failure [OF t "1.prems"(1) False] by (simp add: filter_step_def)
      moreover have quiet: "\<not> hit words ?g" using hit_step [OF False "1.prems"(1)] "1.prems"(2) by blast
      ultimately have "filter_loop t msg (i, p, out) = filter_loop t msg (i, ?g, out)"
        using i automaton_output [OF t, of ?g]
        by (subst filter_loop.simps) (simp add: reset_on_output_def)
      moreover have "length ?g < length p" using False by (rule length_longest_tl)
      ultimately show ?thesis
        using "1.IH" quiet longest_snoc_step [OF False no] by simp
    qed
  qed
qed

lemma filter_loop_scan:
  assumes t: "automaton_ok words t"
  shows "i \<le> length msg \<Longrightarrow> node words p \<Longrightarrow> \<not> hit words p \<Longrightarrow>
    filter_loop t msg (i, p, out) = Some (out @ scan words p (drop i msg))"
proof (induction "length msg - i" arbitrary: i p out)
  case 0
  then show ?case by (subst filter_loop.simps) simp
next
  case (Suc n)
  then have i: "i < length msg" by simp
  let ?q = "longest words (p @ [[msg ! i]])"
  have "filter_loop t msg (Suc i, if hit words ?q then [] else ?q, if ?q = [] then out @ [msg ! i] else out)
    = Some ((if ?q = [] then out @ [msg ! i] else out) @ scan words (if hit words ?q then [] else ?q) (drop (Suc i) msg))"
    using Suc by (intro Suc.hyps(1)) auto
  moreover have "drop i msg = msg ! i # drop (Suc i) msg" using i by (simp add: Cons_nth_drop_Suc)
  ultimately show ?case
    using filter_loop_char [OF t i Suc.prems(2,3), of out] by (simp add: Let_def)
qed

lemma filter_scan: "filter_text msg words = Some (scan (map symbols words) [] msg)"
proof (cases "msg = [] \<or> words = []")
  case True
  have "scan [] [] s = s" for s by (induction s) (simp_all add: Let_def node_def)
  with True show ?thesis by (auto simp: filter_text_def)
next
  case False
  obtain t where t: "build_automaton words = Some t" "automaton_ok (map symbols words) t"
    using build_automaton_spec [of words] by (auto simp: automaton_ok_def)
  have "filter_loop t msg (0, [], []) = Some (scan (map symbols words) [] msg)"
    using filter_loop_scan [OF t(2), of 0 msg "[]" "[]"] by simp
  with False t(1) show ?thesis by (simp add: filter_text_def)
qed

text \<open>
  Property C26. The automaton of forbidden words is right, and the filter always returns: for every text
  and every list of words it gives the result of the reference scan, which has no automaton, no failure
  links and no queue but looks up the longest suffix of the text read that begins a forbidden word. The scan compares as the
  code does: a word is the sequence of its characters (code points, as strings), the text the
  sequence of its code units, so that a character of a word outside the basic plane is equal to nothing in the text.
\<close>

theorem filter_is_the_reference_scan: "filter_text msg words = Some (scan (map symbols words) [] msg)"
  by (rule filter_scan)

subsection \<open>What the filter removes\<close>

lemma longest_empty: "longest words (p @ [c]) = [] \<Longrightarrow> \<not> node words [c]"
  using longest_is_longest [of "[c]" "p @ [c]" words] by auto

lemma scan_kept: "u \<in> set (scan words p s) \<Longrightarrow> \<not> node words [[u]]"
  by (induction words p s rule: scan.induct) (auto simp: Let_def longest_empty split: if_splits)

lemma subseq_scan: "subseq (scan words p s) s"
  by (induction words p s rule: scan.induct) (auto simp: Let_def)

lemma scan_intact: "\<forall>u\<in>set s. \<not> node words [[u]] \<Longrightarrow> scan words [] s = s"
  by (induction s) (simp_all add: Let_def)

lemma first_char_node: "w \<in> set words \<Longrightarrow> w \<noteq> [] \<Longrightarrow> node words [hd w]"
  by (cases w) (auto simp: node_def intro!: bexI [of _ w])

text \<open>A word begins in the basic plane when its first character is one unit; no word is empty of characters.\<close>

definition basic_start :: "js_string \<Rightarrow> bool" where
  "basic_start w \<longleftrightarrow> w \<noteq> [] \<and> \<not> (is_high (hd w) \<and> tl w \<noteq> [] \<and> is_low (hd (tl w)))"

lemma hd_symbols: "w \<noteq> [] \<Longrightarrow> hd (symbols w) = (if basic_start w then [hd w] else take 2 w)"
  by (cases w rule: symbols.cases) (auto simp: basic_start_def)

lemma begins_node:
  assumes "w \<in> set words" and "basic_start w"
  shows "node (map symbols words) [[hd w]]"
proof -
  have "w \<noteq> []" using assms(2) by (simp add: basic_start_def)
  then show ?thesis
    using first_char_node [of "symbols w" "map symbols words"] assms by (simp add: hd_symbols)
qed

lemma node_begins:
  assumes "node (map symbols words) [[u]]"
  shows "\<exists>w\<in>set words. basic_start w \<and> hd w = u"
proof -
  obtain w where w: "w \<in> set words" "prefix [[u]] (symbols w)" using assms by (auto simp: node_def)
  then have n: "w \<noteq> []" "hd (symbols w) = [u]" by (cases "symbols w"; auto)+
  have "basic_start w"
  proof (rule ccontr)
    assume no: "\<not> basic_start w"
    then have "take 2 w = [u]" using n by (simp add: hd_symbols)
    moreover have "tl w \<noteq> []" using no n(1) by (auto simp: basic_start_def)
    ultimately show False using n(1) by (cases w; cases "tl w") auto
  qed
  with n w(1) show ?thesis by (auto simp: hd_symbols)
qed

lemma filter_intact:
  assumes "\<forall>w\<in>set words. basic_start w \<longrightarrow> hd w \<notin> set msg"
  shows "filter_text msg words = Some msg"
proof -
  have "\<not> node (map symbols words) [[u]]" if "u \<in> set msg" for u
    using node_begins [of words u] assms that by blast
  then show ?thesis using scan_intact [of msg "map symbols words"] filter_scan [of msg words] by simp
qed

text \<open>
  Property C40. No forbidden word that begins with a character of the basic plane survives the filter. The filter returns, its
  result keeps the order of the
  text (it is a subsequence of it), and it contains none of these words; a text without any
  character that begins such a word is returned as it is. Words that begin outside the basic plane are never removed
  (\<open>astral_words_are_never_removed\<close>).
\<close>

theorem forbidden_words_are_removed:
  "\<exists>out. filter_text msg words = Some out \<and> subseq out msg
     \<and> (\<forall>w\<in>set words. basic_start w \<longrightarrow> \<not> sublist w out)
     \<and> ((\<forall>w\<in>set words. basic_start w \<longrightarrow> hd w \<notin> set msg) \<longrightarrow> out = msg)"
proof -
  let ?out = "scan (map symbols words) [] msg"
  have "\<not> sublist w ?out" if w: "w \<in> set words" "basic_start w" for w
  proof
    assume "sublist w ?out"
    then have "set w \<subseteq> set ?out" by (rule set_mono_sublist)
    moreover have "hd w \<in> set w" using w(2) by (simp add: basic_start_def)
    ultimately show False using scan_kept [of "hd w"] begins_node [OF w] by blast
  qed
  then show ?thesis
    using subseq_scan [of "map symbols words" "[]" msg] filter_scan [of msg words] filter_intact [of words msg] by auto
qed

text \<open>The code units of a text in Latin-1.\<close>

definition units :: "string \<Rightarrow> js_string" where
  "units s = map of_char s"

theorem forbidden_words_are_removed_witness:
  "\<exists>out. filter_text (units ''add me on wx ok'') [units ''wx'', units ''qq''] = Some out \<and> subseq out (units ''add me on wx ok'')
     \<and> \<not> sublist (units ''wx'') out"
proof -
  have "basic_start (units ''wx'')" by (simp add: units_def basic_start_def is_high_def)
  then show ?thesis
    using forbidden_words_are_removed [of "units ''add me on wx ok''" "[units ''wx'', units ''qq'']"] by auto
qed

text \<open>
  A word that begins outside the basic plane is never matched, not even in the text that is this word: the key of its first
  node has two units.
\<close>

theorem astral_words_are_never_removed:
  assumes "\<forall>w\<in>set words. \<not> basic_start w"
  shows "filter_text msg words = Some msg"
  using assms by (intro filter_intact) blast

text \<open>
  The filter removes more than the forbidden words: a text that merely begins like one loses these
  characters, at its end and before a character that breaks the match off.
\<close>

theorem beginnings_of_words_are_lost:
  assumes "2 \<le> length w" and "basic_start w"
  shows "filter_text [hd w] [w] = Some [] \<and> \<not> sublist w [hd w]"
proof -
  have "scan (map symbols [w]) [] [hd w] = []"
    using begins_node [of w "[w]"] assms(2) by (auto simp: Let_def)
  with filter_scan [of "[hd w]" "[w]"] assms(1) show ?thesis by (auto dest: sublist_length_le)
qed

theorem harmless_text_is_damaged: "filter_text (units ''wait for it'') [units ''wx''] = Some (units ''ait for it'')"
  unfolding filter_scan units_def by code_simp

end
