(* ===== verification/Intent_Props.thy ===== *)
theory Intent_Props imports Execution_Intent begin

text \<open>
  Facts about execution intents: the hash determines every immutable field (given that the digest does not
  collide on the two texts at hand), creation succeeds exactly on well-formed input, and the state machine
  reaches an attempt only through a bound plan, a confirmation and a claim.
\<close>

subsection \<open>Sorting the keys\<close>

function norm :: "json \<Rightarrow> json" where
  "norm (JArr vs) = JArr (map norm vs)"
| "norm (JObj kvs) = JObj (sort_key fst (map (\<lambda>kv. (fst kv, norm (snd kv))) kvs))"
| "norm JNull = JNull"
| "norm (JBool b) = JBool b"
| "norm (JNum n) = JNum n"
| "norm (JStr s) = JStr s"
  by pat_completeness auto
termination
  by (relation "measure size") (simp_all add: json_size_entry [simplified] json_size_element [simplified])

text \<open>Values whose objects have distinct keys and whose numbers are integral.\<close>

fun proper :: "json \<Rightarrow> bool" where
  "proper (JNum (Fractional t)) = False"
| "proper (JArr vs) = (\<forall>v\<in>set vs. proper v)"
| "proper (JObj kvs) = (distinct (map fst kvs) \<and> (\<forall>kv\<in>set kvs. proper (snd kv)))"
| "proper _ = True"

lemma sort_key_map_fst:
  "sort_key fst (map (\<lambda>kv. (fst kv, g (snd kv))) kvs) = map (\<lambda>kv. (fst kv, g (snd kv))) (sort_key fst kvs)"
proof -
  have ins: "insort_key fst (fst kv, g (snd kv)) (map (\<lambda>kv. (fst kv, g (snd kv))) xs) =
      map (\<lambda>kv. (fst kv, g (snd kv))) (insort_key fst kv xs)" for kv and xs
    by (induction xs) auto
  show ?thesis by (induction kvs) (auto simp: ins)
qed

lemma canonicalize_norm: "canonicalize (norm v) = canonicalize v"
proof (induction v rule: norm.induct)
  case (1 vs)
  then have "map (canonicalize \<circ> norm) vs = map canonicalize vs" by simp
  then show ?case by (simp only: norm.simps canonicalize.simps map_map)
next
  case (2 kvs)
  have "sort_key fst (sort_key fst (map (\<lambda>kv. (fst kv, norm (snd kv))) kvs)) = sort_key fst (map (\<lambda>kv. (fst kv, norm (snd kv))) kvs)"
    by (rule sort_sorted) simp
  then show ?case
    using 2 by (auto simp: sort_key_map_fst comp_def intro!: arg_cong [where f = "js_join '',''"])
qed simp_all

lemma distinct_fst_sort: "distinct (map fst (sort_key fst kvs)) = distinct (map fst kvs)"
  by (simp add: distinct_map)

lemma canonical_norm: "proper v \<Longrightarrow> canonical (norm v)"
proof (induction v rule: proper.induct)
  case (3 kvs)
  have "distinct (map fst (sort_key fst (map (\<lambda>kv. (fst kv, norm (snd kv))) kvs)))"
    using 3 by (simp add: distinct_fst_sort comp_def)
  with 3 show ?case by auto
qed simp_all

lemma norm_map_of:
  assumes "distinct (map fst kvs)"
  shows "map_of (sort_key fst (map (\<lambda>kv. (fst kv, norm (snd kv))) kvs)) k = map_option norm (map_of kvs k)"
proof -
  let ?ns = "map (\<lambda>kv. (fst kv, norm (snd kv))) kvs"
  have "distinct (map fst ?ns)" using assms by (simp add: comp_def)
  then have "map_of (sort_key fst ?ns) = map_of ?ns"
    by (subst map_of_inject_set) (simp_all add: distinct_fst_sort)
  moreover have "map_of ?ns k = map_option norm (map_of kvs k)"
    by (induction kvs) auto
  ultimately show ?thesis by simp
qed

lemma same_norm_entries:
  assumes "norm (JObj kvs) = norm (JObj kws)" and "distinct (map fst kvs)" and "distinct (map fst kws)"
  shows "map_option norm (map_of kvs k) = map_option norm (map_of kws k)"
  using assms(1) norm_map_of [OF assms(2), of k] norm_map_of [OF assms(3), of k] by simp

lemma same_text_norm:
  assumes "proper v" and "proper w" and "canonicalize v = canonicalize w"
  shows "norm v = norm w"
proof (rule canonicalize_inj)
  show "canonicalize (norm v) = canonicalize (norm w)" using assms(3) by (simp only: canonicalize_norm)
qed (use assms canonical_norm in auto)

subsection \<open>The hash payload determines the fields\<close>

lemma norm_customer: "norm (customer_json c) = norm (customer_json d) \<Longrightarrow> c = d"
  unfolding customer_json_def
  by (frule same_norm_entries [where k = "''kind''"], simp, simp, drule same_norm_entries [where k = "''value''"], simp, simp) simp

lemma norm_plan: "norm (plan_json c) = norm (plan_json d) \<Longrightarrow> c = d"
  unfolding plan_json_def
  by (frule same_norm_entries [where k = "''plan_id''"], simp, simp, drule same_norm_entries [where k = "''plan_hash''"], simp, simp) simp

lemma norm_policy: "norm (policy_json c) = norm (policy_json d) \<Longrightarrow> c = d"
  by (simp add: policy_json_def)

lemma map_of_opt_key [simp]: "map_of (opt_key k f v) j = (if j = k then map_option f v else None)"
  by (simp add: opt_key_def split: option.split)

lemma keys_opt_key [simp]: "map fst (opt_key k f v) = (if v = None then [] else [k])"
  by (auto simp: opt_key_def split: option.split)

lemma fst_opt_key [simp]: "fst ` set (opt_key k f v) = (if v = None then {} else {k})"
  by (auto simp: opt_key_def split: option.splits)

lemma proper_opt_key [simp]: "(\<forall>kv\<in>set (opt_key k f v). proper (snd kv)) \<longleftrightarrow> (\<forall>x. v = Some x \<longrightarrow> proper (f x))"
  by (auto simp: opt_key_def split: option.splits)

lemma map_of_append_at: "map_of (xs @ ys) k = (case map_of xs k of None \<Rightarrow> map_of ys k | Some v \<Rightarrow> Some v)"
  by (induction xs) auto

lemma map_option_inj: "map_option f x = map_option f y \<Longrightarrow> (\<And>a b. f a = f b \<Longrightarrow> a = b) \<Longrightarrow> x = y"
  by (cases x; cases y) auto

lemma norm_lock:
  assumes "norm (lock_json l) = norm (lock_json m)"
  shows "l = m"
proof -
  let ?l = "case lock_json l of JObj kvs \<Rightarrow> kvs" and ?m = "case lock_json m of JObj kvs \<Rightarrow> kvs"
  have e: "map_option norm (map_of ?l k) = map_option norm (map_of ?m k)" for k
    by (rule same_norm_entries) (use assms in \<open>simp_all add: lock_json_def\<close>)
  note look = e [unfolded lock_json_def json.case map_of_append_at]
  have "map_option (norm \<circ> customer_json) (il_customer_identity l) = map_option (norm \<circ> customer_json) (il_customer_identity m)"
    using look [of "''customer_identity''"] by (cases "il_customer_identity l"; cases "il_customer_identity m") simp_all
  then have "il_customer_identity l = il_customer_identity m"
    by (rule map_option_inj) (simp add: norm_customer)
  moreover have "il_generation l = il_generation m"
    using look [of "''generation''"] by (cases "il_generation l"; cases "il_generation m") auto
  ultimately show ?thesis
    using look [of "''merchant_id''"] look [of "''store_id''"] look [of "''platform''"] look [of "''platform_account_id''"]
      look [of "''conversation_id''"] look [of "''trigger_message_id''"]
    by (auto split: option.splits)
qed

lemma norm_confirmation:
  assumes "norm (confirmation_json l) = norm (confirmation_json m)"
  shows "l = m"
proof -
  let ?l = "case confirmation_json l of JObj kvs \<Rightarrow> kvs" and ?m = "case confirmation_json m of JObj kvs \<Rightarrow> kvs"
  have e: "map_option norm (map_of ?l k) = map_option norm (map_of ?m k)" for k
    by (rule same_norm_entries) (use assms in \<open>simp_all add: confirmation_json_def\<close>)
  note look = e [unfolded confirmation_json_def json.case map_of_append_at]
  have "cr_expires_at l = cr_expires_at m"
    using look [of "''expires_at''"] by (cases "cr_expires_at l"; cases "cr_expires_at m") auto
  then show ?thesis
    using look [of "''confirmation_id''"] look [of "''confirmation_hash''"] look [of "''confirmed_at''"]
    by (auto split: option.splits)
qed

lemma source_text_inj: "source_text a = source_text b \<Longrightarrow> a = b"
  by (cases a; cases b) auto

lemma norm_payload:
  assumes "norm (getHashPayload i) = norm (getHashPayload j)"
  shows "intent_fields.truncate i = intent_fields.truncate j"
proof -
  let ?i = "case getHashPayload i of JObj kvs \<Rightarrow> kvs" and ?j = "case getHashPayload j of JObj kvs \<Rightarrow> kvs"
  have e: "map_option norm (map_of ?i k) = map_option norm (map_of ?j k)" for k
    by (rule same_norm_entries) (use assms in \<open>simp_all add: getHashPayload_def\<close>)
  note look = e [unfolded getHashPayload_def json.case map_of_append_at]
  have "map_option (norm \<circ> lock_json) (ei_identity_lock i) = map_option (norm \<circ> lock_json) (ei_identity_lock j)"
    using look [of "''identity_lock''"] by (cases "ei_identity_lock i"; cases "ei_identity_lock j") simp_all
  then have "ei_identity_lock i = ei_identity_lock j" by (rule map_option_inj) (simp add: norm_lock)
  moreover have "map_option (norm \<circ> plan_json) (ei_plan_ref i) = map_option (norm \<circ> plan_json) (ei_plan_ref j)"
    using look [of "''plan_ref''"] by (cases "ei_plan_ref i"; cases "ei_plan_ref j"; cases "ei_identity_lock i"; cases "ei_identity_lock j") simp_all
  then have "ei_plan_ref i = ei_plan_ref j" by (rule map_option_inj) (simp add: norm_plan)
  moreover have "map_option (norm \<circ> policy_json) (ei_policy_ref i) = map_option (norm \<circ> policy_json) (ei_policy_ref j)"
    using look [of "''policy_ref''"] by (cases "ei_policy_ref i"; cases "ei_policy_ref j") simp_all
  then have "ei_policy_ref i = ei_policy_ref j" by (rule map_option_inj) (simp add: norm_policy)
  moreover have "map_option (norm \<circ> confirmation_json) (ei_confirmation_ref i) = map_option (norm \<circ> confirmation_json) (ei_confirmation_ref j)"
    using look [of "''confirmation_ref''"] by (cases "ei_confirmation_ref i"; cases "ei_confirmation_ref j") simp_all
  then have "ei_confirmation_ref i = ei_confirmation_ref j" by (rule map_option_inj) (simp add: norm_confirmation)
  moreover have "ei_authorization_source i = ei_authorization_source j"
    by (rule source_text_inj) (use look [of "''authorization_source''"] in simp)
  ultimately show ?thesis
    using look [of "''schema_version''"] look [of "''intent_id''"] look [of "''session_generation''"] look [of "''document_generation''"]
      look [of "''created_at''"] look [of "''expires_at''"] look [of "''nonce''"]
    by (simp add: intent_fields.truncate_def)
qed

text \<open>Validation leaves only integral generations, so that the payload of a valid intent is proper.\<close>

definition integral_lock :: "'a intent_fields_scheme \<Rightarrow> bool" where
  "integral_lock i \<longleftrightarrow> (\<forall>l t. ei_identity_lock i = Some l \<longrightarrow> il_generation l \<noteq> Some (Fractional t))"

lemma proper_lock: "(\<forall>t. il_generation l \<noteq> Some (Fractional t)) \<Longrightarrow> proper (lock_json l)"
proof -
  assume "\<forall>t. il_generation l \<noteq> Some (Fractional t)"
  then have "il_generation l = Some n \<Longrightarrow> proper (JNum n)" for n by (cases n) auto
  then show ?thesis by (simp add: lock_json_def customer_json_def ball_Un)
qed

lemma proper_payload: "integral_lock i \<Longrightarrow> proper (getHashPayload i)"
  by (simp add: getHashPayload_def integral_lock_def proper_lock plan_json_def policy_json_def confirmation_json_def ball_Un)

lemma payload_text_inj:
  assumes "integral_lock i" and "integral_lock j" and "canonicalize (getHashPayload i) = canonicalize (getHashPayload j)"
  shows "intent_fields.truncate i = intent_fields.truncate j"
  using norm_payload same_text_norm [OF proper_payload [OF assms(1)] proper_payload [OF assms(2)] assms(3)] by blast

subsection \<open>Creation\<close>

definition lock_ok :: "identity_lock \<Rightarrow> bool" where
  "lock_ok l \<longleftrightarrow> list_all isNonEmptyString [il_merchant_id l, il_store_id l, il_platform l, il_platform_account_id l,
      il_conversation_id l, il_trigger_message_id l]
    \<and> (\<exists>c. il_customer_identity l = Some c \<and> isNonEmptyString (ci_kind c) \<and> isNonEmptyString (ci_value c))
    \<and> (\<forall>t. il_generation l \<noteq> Some (Fractional t))"

definition confirmation_ok :: "(string \<Rightarrow> int option) \<Rightarrow> confirmation_ref \<Rightarrow> bool" where
  "confirmation_ok date_parse r \<longleftrightarrow> isNonEmptyString (cr_confirmation_id r) \<and> isNonEmptyString (cr_confirmation_hash r)
    \<and> isIsoDate date_parse (cr_confirmed_at r) \<and> (\<forall>e. cr_expires_at r = Some e \<longrightarrow> isIsoDate date_parse e)"

text \<open>What an executable intent promises: who, what plan, under which policy, on whose authority, and until when.\<close>

definition fields_ok :: "(string \<Rightarrow> int option) \<Rightarrow> 'a intent_fields_scheme \<Rightarrow> bool" where
  "fields_ok date_parse i \<longleftrightarrow> isNonEmptyString (ei_intent_id i)
    \<and> (\<exists>l. ei_identity_lock i = Some l \<and> lock_ok l)
    \<and> (\<exists>p. ei_plan_ref i = Some p \<and> isNonEmptyString (pr_plan_id p) \<and> isNonEmptyString (pr_plan_hash p))
    \<and> (\<exists>v. ei_policy_ref i = Some v \<and> isNonEmptyString v)
    \<and> (case ei_authorization_source i of
         HUMAN_CONFIRMATION \<Rightarrow> \<exists>r. ei_confirmation_ref i = Some r \<and> confirmation_ok date_parse r
       | POLICY_AUTHORIZATION \<Rightarrow> ei_confirmation_ref i = None)
    \<and> isNonEmptyString (ei_session_generation i) \<and> isNonEmptyString (ei_document_generation i) \<and> isNonEmptyString (ei_nonce i)
    \<and> isIsoDate date_parse (ei_created_at i) \<and> isIsoDate date_parse (ei_expires_at i)
    \<and> the (date_parse (ei_created_at i)) < the (date_parse (ei_expires_at i))"

lemma add_when_Nil [simp]: "add_when b f r = [] \<longleftrightarrow> \<not> b"
  by (simp add: add_when_def)

lemma check_lock_Nil: "check_lock lock = [] \<longleftrightarrow> (\<exists>l. lock = Some l \<and> lock_ok l)"
  by (cases lock) (auto simp: check_lock_def lock_ok_def required_def split: option.splits number.splits)

lemma check_confirmation_Nil:
  "check_confirmation p src c = [] \<longleftrightarrow> (case src of HUMAN_CONFIRMATION \<Rightarrow> \<exists>r. c = Some r \<and> confirmation_ok p r
     | POLICY_AUTHORIZATION \<Rightarrow> c = None)"
  by (cases src; cases c) (auto simp: check_confirmation_def confirmation_ok_def required_def split: option.splits)

lemma validate_Nil:
  "validateExecutionIntent p i = [] \<longleftrightarrow> ei_schema_version i = SCHEMA_VERSION \<and> fields_ok p i \<and> hash_format (ei_intent_hash i)"
  unfolding validateExecutionIntent_def append_is_Nil_conv check_lock_Nil check_confirmation_Nil
  by (auto simp: fields_ok_def check_plan_def check_policy_def check_dates_def required_def isIsoDate_def split: option.splits if_splits)

lemma hash_of_intent_of [simp]: "getHashPayload (intent_of f st h) = getHashPayload f"
  by (simp add: getHashPayload_def intent_of_def)

lemma computeIntentHash_intent_of [simp]: "computeIntentHash c (intent_of f st h) = computeIntentHash c f"
  by (simp add: computeIntentHash_def split: option.split)

lemma fields_ok_intent_of [simp]: "fields_ok p (intent_of f st h) = fields_ok p f"
  by (cases "ei_authorization_source f") (simp_all add: fields_ok_def intent_of_def)

lemma hash_format_nonempty: "hash_format h \<Longrightarrow> isNonEmptyString h"
proof -
  assume "hash_format h"
  then obtain r where "h = CHR ''s'' # r" by (auto simp: hash_format_def prefix_def)
  moreover have "\<not> is_ws CHR ''s''" by (simp add: is_ws_def)
  ultimately have "js_trim h \<noteq> []" by (simp add: js_trim_Nil_iff)
  then show ?thesis by (simp add: isNonEmptyString_def)
qed

lemma create_iff:
  assumes digest: "\<And>t. hash_format (''sha256-'' @ digest t)"
  shows "createExecutionIntent (Some digest) p st f =
    (let g = f\<lparr>ei_schema_version := SCHEMA_VERSION\<rparr>;
         i = intent_of g (case st of None \<Rightarrow> CREATED | Some s \<Rightarrow> s) (''sha256-'' @ digest (canonicalize (getHashPayload g)))
     in if fields_ok p f then Inr i else Inl (Validation_error (validateExecutionIntent p i)))"
proof -
  let ?g = "f\<lparr>ei_schema_version := SCHEMA_VERSION\<rparr>"
  let ?h = "''sha256-'' @ digest (canonicalize (getHashPayload ?g))"
  have ok: "fields_ok p ?g = fields_ok p f"
    by (cases "ei_authorization_source f") (simp_all add: fields_ok_def)
  have h: "computeIntentHash (Some digest) ?g = Inr ?h" by (simp add: computeIntentHash_def)
  have v: "validateExecutionIntent p (intent_of ?g s ?h) = [] \<longleftrightarrow> fields_ok p f" for s
    using digest by (subst validate_Nil, subst fields_ok_intent_of, subst ok) (simp add: intent_of_def)
  have "verifyIntentHash (Some digest) (intent_of ?g s ?h) = Inr True" for s
    using hash_format_nonempty [OF digest] h unfolding verifyIntentHash_def computeIntentHash_intent_of
    by (simp add: intent_of_def)
  then show ?thesis
    using v unfolding createExecutionIntent_def Let_def h by simp
qed

subsection \<open>The state machine\<close>

fun run_transitions :: "intent_state list \<Rightarrow> execution_intent \<Rightarrow> intent_error + execution_intent" where
  "run_transitions [] i = Inr i"
| "run_transitions (s # ss) i = (case transitionExecutionIntent i s of Inl e \<Rightarrow> Inl e | Inr j \<Rightarrow> run_transitions ss j)"

fun path :: "intent_state \<Rightarrow> intent_state list \<Rightarrow> bool" where
  "path s [] = True"
| "path s (t # ts) = (isTransitionAllowed s t \<and> path t ts)"

lemma run_transitions_path:
  "run_transitions ss i = Inr j \<Longrightarrow> path (ei_state i) ss \<and> j = i\<lparr>ei_state := last (ei_state i # ss)\<rparr>"
proof (induction ss arbitrary: i)
  case (Cons s ss)
  then have "isTransitionAllowed (ei_state i) s" "run_transitions ss (i\<lparr>ei_state := s\<rparr>) = Inr j"
    by (auto simp: transitionExecutionIntent_def split: if_splits)
  with Cons.IH [of "i\<lparr>ei_state := s\<rparr>"] show ?case by simp
qed simp

definition ended :: "intent_state \<Rightarrow> bool" where
  "ended s \<longleftrightarrow> ALLOWED_TRANSITIONS s = []"

lemma path_ended: "ended s \<Longrightarrow> path s ss \<longleftrightarrow> ss = []"
  by (cases ss) (auto simp: ended_def isTransitionAllowed_def)

lemma ended_states [simp]: "ended I_ACKNOWLEDGED" "ended I_REJECTED" "ended I_UNKNOWN" "ended EXPIRED" "ended I_CANCELLED"
  by (simp_all add: ended_def)

lemma path_attempted: "path ATTEMPTED ss \<Longrightarrow> ss \<in> {[], [I_ACKNOWLEDGED], [I_REJECTED], [I_UNKNOWN]}"
  by (cases ss) (auto simp: isTransitionAllowed_def path_ended)

lemma path_claimed: "path CLAIMED ss \<Longrightarrow> ss = [] \<or> ss = [I_CANCELLED] \<or> (\<exists>ts. ss = ATTEMPTED # ts \<and> path ATTEMPTED ts)"
  by (cases ss) (auto simp: isTransitionAllowed_def path_ended)

lemma path_confirmed:
  "path CONFIRMED ss \<Longrightarrow> ss = [] \<or> ss = [I_CANCELLED] \<or> ss = [EXPIRED] \<or> (\<exists>ts. ss = CLAIMED # ts \<and> path CLAIMED ts)"
  by (cases ss) (auto simp: isTransitionAllowed_def path_ended)

lemma path_bound:
  "path PLAN_BOUND ss \<Longrightarrow> ss = [] \<or> ss = [I_CANCELLED] \<or> ss = [EXPIRED] \<or> (\<exists>ts. ss = CONFIRMED # ts \<and> path CONFIRMED ts)"
  by (cases ss) (auto simp: isTransitionAllowed_def path_ended)

lemma path_created:
  "path CREATED ss \<Longrightarrow> ss = [] \<or> ss = [I_CANCELLED] \<or> ss = [EXPIRED] \<or> (\<exists>ts. ss = PLAN_BOUND # ts \<and> path PLAN_BOUND ts)"
  by (cases ss) (auto simp: isTransitionAllowed_def path_ended)

lemma path_attempt_prefix:
  assumes "path CREATED ss"
  shows "length ss \<le> 5 \<and> (ATTEMPTED \<in> set ss \<longrightarrow> take 4 ss = [PLAN_BOUND, CONFIRMED, CLAIMED, ATTEMPTED])
    \<and> (length ss > 3 \<longrightarrow> EXPIRED \<notin> set (drop 3 ss))"
  using path_created [OF assms] by (auto dest!: path_bound path_confirmed path_claimed path_attempted)

lemma outcome_needs_attempt:
  "path s ss \<Longrightarrow> last (s # ss) \<in> {I_ACKNOWLEDGED, I_REJECTED, I_UNKNOWN} \<Longrightarrow> s \<notin> {I_ACKNOWLEDGED, I_REJECTED, I_UNKNOWN, ATTEMPTED} \<Longrightarrow>
     ATTEMPTED \<in> set ss"
proof (induction ss arbitrary: s)
  case (Cons t ts)
  then show ?case by (cases s; cases t) (auto simp: isTransitionAllowed_def path_ended split: if_splits)
qed auto

subsection \<open>Properties\<close>

text \<open>
  Property C27. The hash of an execution intent binds its immutable fields. When two valid intents carry the
  same hash and both verify, then they agree in every immutable field (identity lock, plan, policy,
  confirmation, generations, times and nonce), provided that the digest does not collide on their two
  canonical texts: the canonical text itself is injective, whatever the strings contain.
\<close>

theorem intent_hash_binds_fields:
  assumes "validateExecutionIntent p i = []" and "validateExecutionIntent p j = []"
    and "verifyIntentHash (Some digest) i = Inr True" and "verifyIntentHash (Some digest) j = Inr True"
    and "ei_intent_hash i = ei_intent_hash j"
    and no_collision: "digest (canonicalize (getHashPayload i)) = digest (canonicalize (getHashPayload j)) \<Longrightarrow>
      canonicalize (getHashPayload i) = canonicalize (getHashPayload j)"
  shows "intent_fields.truncate i = intent_fields.truncate j"
proof -
  have "integral_lock i" "integral_lock j"
    using assms(1,2) by (auto simp: validate_Nil fields_ok_def lock_ok_def integral_lock_def)
  moreover have "digest (canonicalize (getHashPayload i)) = digest (canonicalize (getHashPayload j))"
    using assms(3-5) by (auto simp: verifyIntentHash_def computeIntentHash_def split: if_splits)
  ultimately show ?thesis using no_collision payload_text_inj by blast
qed

definition demo_fields :: intent_fields where
  "demo_fields = \<lparr>ei_schema_version = [], ei_intent_id = ''i1'', ei_authorization_source = HUMAN_CONFIRMATION,
     ei_identity_lock = Some \<lparr>il_merchant_id = ''m'', il_store_id = ''s'', il_platform = ''PDD'', il_platform_account_id = ''a'',
       il_customer_identity = Some \<lparr>ci_kind = ''customerUid'', ci_value = ''u''\<rparr>, il_conversation_id = ''c'',
       il_trigger_message_id = ''t'', il_generation = Some (Integral 7)\<rparr>,
     ei_plan_ref = Some \<lparr>pr_plan_id = ''p'', pr_plan_hash = ''h''\<rparr>, ei_policy_ref = Some ''v1'',
     ei_confirmation_ref = Some \<lparr>cr_confirmation_id = ''k'', cr_confirmation_hash = ''h'', cr_confirmed_at = ''1'', cr_expires_at = None\<rparr>,
     ei_session_generation = ''g'', ei_document_generation = ''d'', ei_created_at = ''1'', ei_expires_at = ''2'', ei_nonce = ''n''\<rparr>"

definition demo_parse :: "string \<Rightarrow> int option" where
  "demo_parse s = (if s = ''1'' then Some 1 else if s = ''2'' then Some 2 else None)"

definition demo_digest :: "string \<Rightarrow> string" where
  "demo_digest t = replicate 64 CHR ''0''"

lemma demo_digest_format: "hash_format (''sha256-'' @ demo_digest t)"
  by (simp add: hash_format_def demo_digest_def lower_hex_def list_all_iff)

lemma demo_fields_ok: "fields_ok demo_parse demo_fields"
  by (simp add: fields_ok_def demo_fields_def lock_ok_def isNonEmptyString_def js_trim_def is_ws_def confirmation_ok_def
      isIsoDate_def demo_parse_def)

definition demo_intent :: execution_intent where
  "demo_intent = intent_of (demo_fields\<lparr>ei_schema_version := SCHEMA_VERSION\<rparr>) CREATED (''sha256-'' @ demo_digest [])"

lemma demo_create: "createExecutionIntent (Some demo_digest) demo_parse None demo_fields = Inr demo_intent"
  using create_iff [of demo_digest demo_parse None demo_fields] demo_fields_ok demo_digest_format
  by (simp add: Let_def demo_intent_def demo_digest_def)

lemma demo_valid: "validateExecutionIntent demo_parse (demo_intent\<lparr>ei_state := s\<rparr>) = []"
  "verifyIntentHash (Some demo_digest) (demo_intent\<lparr>ei_state := s\<rparr>) = Inr True"
proof -
  have i: "demo_intent\<lparr>ei_state := s\<rparr> = intent_of (demo_fields\<lparr>ei_schema_version := SCHEMA_VERSION\<rparr>) s (''sha256-'' @ demo_digest [])"
    by (simp add: demo_intent_def intent_of_def)
  have ok: "fields_ok demo_parse (demo_fields\<lparr>ei_schema_version := SCHEMA_VERSION\<rparr>)"
    using demo_fields_ok by (simp add: fields_ok_def demo_fields_def)
  show "validateExecutionIntent demo_parse (demo_intent\<lparr>ei_state := s\<rparr>) = []"
    unfolding i validate_Nil fields_ok_intent_of using ok demo_digest_format [of "[]"] by (simp add: intent_of_def)
  show "verifyIntentHash (Some demo_digest) (demo_intent\<lparr>ei_state := s\<rparr>) = Inr True"
    unfolding i verifyIntentHash_def computeIntentHash_intent_of
    using hash_format_nonempty [OF demo_digest_format [of "[]"]]
    by (simp add: intent_of_def computeIntentHash_def demo_digest_def)
qed

theorem intent_hash_binds_fields_witness:
  "validateExecutionIntent demo_parse (demo_intent\<lparr>ei_state := PLAN_BOUND\<rparr>) = []
   \<and> intent_fields.truncate (demo_intent\<lparr>ei_state := PLAN_BOUND\<rparr>) = intent_fields.truncate (demo_intent\<lparr>ei_state := CREATED\<rparr>)"
  by (intro conjI demo_valid intent_hash_binds_fields [OF demo_valid(1) demo_valid(1) demo_valid(2) demo_valid(2)])
    (simp_all add: getHashPayload_def)

text \<open>
  Creation succeeds exactly on well-formed input. With a digest of 64 lower-case hexadecimal
  characters, \<open>createExecutionIntent\<close> returns an intent if and only if every identity field, the plan, the policy
  version, the generations and the nonce are present, the expiry is after the creation, and the
  confirmation is present exactly under human authorization; the intent then has the given state (CREATED
  by default) and a hash that verifies, and on any other input the failures are returned. Without Web
  Crypto it always fails.
\<close>

theorem intents_created_iff_well_formed:
  assumes "\<And>t. hash_format (''sha256-'' @ digest t)"
  shows "(fields_ok p f \<longrightarrow> (\<exists>i. createExecutionIntent (Some digest) p st f = Inr i
            \<and> intent_fields.truncate i = f\<lparr>ei_schema_version := SCHEMA_VERSION\<rparr> \<and> ei_state i = (case st of None \<Rightarrow> CREATED | Some s \<Rightarrow> s)
            \<and> verifyIntentHash (Some digest) i = Inr True \<and> validateExecutionIntent p i = []))
    \<and> (\<not> fields_ok p f \<longrightarrow> (\<exists>fs. createExecutionIntent (Some digest) p st f = Inl (Validation_error fs) \<and> fs \<noteq> []))
    \<and> createExecutionIntent None p st f = Inl Hashing_unsupported"
proof -
  let ?g = "f\<lparr>ei_schema_version := SCHEMA_VERSION\<rparr>"
  let ?h = "''sha256-'' @ digest (canonicalize (getHashPayload ?g))"
  let ?i = "intent_of ?g (case st of None \<Rightarrow> CREATED | Some s \<Rightarrow> s) ?h"
  have ok: "fields_ok p ?g = fields_ok p f"
    by (cases "ei_authorization_source f") (simp_all add: fields_ok_def)
  have v: "validateExecutionIntent p ?i = [] \<longleftrightarrow> fields_ok p f"
    using assms by (subst validate_Nil, subst fields_ok_intent_of, subst ok) (simp add: intent_of_def)
  have "verifyIntentHash (Some digest) ?i = Inr True"
    using hash_format_nonempty [OF assms] unfolding verifyIntentHash_def computeIntentHash_intent_of
    by (simp add: intent_of_def computeIntentHash_def)
  moreover have "intent_fields.truncate ?i = ?g" "ei_state ?i = (case st of None \<Rightarrow> CREATED | Some s \<Rightarrow> s)"
    by (simp_all add: intent_of_def intent_fields.truncate_def)
  moreover have "createExecutionIntent None p st f = Inl Hashing_unsupported"
    by (simp add: createExecutionIntent_def computeIntentHash_def Let_def)
  ultimately show ?thesis
    using create_iff [OF assms, where p = p and st = st and f = f] v by (simp add: Let_def)
qed

theorem intents_created_iff_well_formed_witness:
  "(\<exists>i. createExecutionIntent (Some demo_digest) demo_parse None demo_fields = Inr i \<and> ei_state i = CREATED
      \<and> verifyIntentHash (Some demo_digest) i = Inr True)
   \<and> createExecutionIntent None demo_parse None demo_fields = Inl Hashing_unsupported"
  using intents_created_iff_well_formed [of demo_digest demo_parse demo_fields None] demo_fields_ok demo_digest_format by auto

text \<open>
  The life of an execution intent. An intent created in the default state takes at most five
  transitions, an outcome (acknowledged, rejected or unknown) is reached only through exactly PLAN_BOUND,
  CONFIRMED, CLAIMED and ATTEMPTED in this order, a claimed intent no longer expires, no transition
  changes an immutable field or the hash, so that the hash still verifies, and from a final state every
  transition is refused.
\<close>

theorem intent_lifecycle:
  assumes c: "createExecutionIntent (Some digest) p None f = Inr i" and r: "run_transitions ss i = Inr j"
  shows "length ss \<le> 5
    \<and> (ei_state j \<in> {I_ACKNOWLEDGED, I_REJECTED, I_UNKNOWN} \<longrightarrow> take 4 ss = [PLAN_BOUND, CONFIRMED, CLAIMED, ATTEMPTED])
    \<and> (length ss > 3 \<longrightarrow> EXPIRED \<notin> set (drop 3 ss))
    \<and> intent_fields.truncate j = intent_fields.truncate i \<and> ei_intent_hash j = ei_intent_hash i
    \<and> verifyIntentHash (Some digest) j = Inr True
    \<and> (ended (ei_state j) \<longrightarrow> transitionExecutionIntent j s = Inl (Invalid_transition (ei_state j) s))"
proof -
  have st: "ei_state i = CREATED" and v: "verifyIntentHash (Some digest) i = Inr True"
    using c by (auto simp: createExecutionIntent_def Let_def intent_of_def split: sum.splits if_splits)
  have path: "path CREATED ss" and j: "j = i\<lparr>ei_state := last (CREATED # ss)\<rparr>"
    using run_transitions_path [OF r] st by auto
  have "getHashPayload j = getHashPayload i" by (simp add: j getHashPayload_def)
  then have "computeIntentHash (Some digest) j = computeIntentHash (Some digest) i" "ei_intent_hash j = ei_intent_hash i"
    by (simp_all add: computeIntentHash_def) (simp add: j)
  then have "verifyIntentHash (Some digest) j = Inr True"
    using v by (auto simp: verifyIntentHash_def split: sum.splits if_splits)
  moreover have "ei_state j \<in> {I_ACKNOWLEDGED, I_REJECTED, I_UNKNOWN} \<longrightarrow> ATTEMPTED \<in> set ss"
    using outcome_needs_attempt [OF path] j by auto
  moreover have "ended (ei_state j) \<longrightarrow> transitionExecutionIntent j s = Inl (Invalid_transition (ei_state j) s)"
    by (simp add: ended_def transitionExecutionIntent_def isTransitionAllowed_def)
  ultimately show ?thesis
    using path_attempt_prefix [OF path] by (auto simp: j intent_fields.truncate_def)
qed

theorem intent_lifecycle_witness:
  "verifyIntentHash (Some demo_digest) (demo_intent\<lparr>ei_state := I_UNKNOWN\<rparr>) = Inr True
   \<and> transitionExecutionIntent (demo_intent\<lparr>ei_state := I_UNKNOWN\<rparr>) ATTEMPTED = Inl (Invalid_transition I_UNKNOWN ATTEMPTED)"
proof -
  have "ei_state demo_intent = CREATED" by (simp add: demo_intent_def intent_of_def)
  then have "run_transitions [PLAN_BOUND, CONFIRMED, CLAIMED, ATTEMPTED, I_UNKNOWN] demo_intent = Inr (demo_intent\<lparr>ei_state := I_UNKNOWN\<rparr>)"
    by (simp add: transitionExecutionIntent_def isTransitionAllowed_def)
  from intent_lifecycle [OF demo_create this, of ATTEMPTED] show ?thesis by simp
qed

end
