(* ===== verification/Domain_Contracts_Props.thy ===== *)
theory Domain_Contracts_Props imports Domain_Contracts Intent_Props begin

text \<open>
  Properties of the domain contracts: the audit trail as the history of what was recorded, the format of a
  confirmation hash and how little it binds, policy decisions, the knowledge filter, the validator of adapter
  evidence and the ownership actions.
\<close>

subsection \<open>The confirmation hash\<close>

lemma hash_step_linear: "hash_step c h = 31 * h + word_of_nat (of_char c)"
  by (simp add: hash_step_def push_bit_eq_mult algebra_simps)

lemma fold_hash_step: "fold hash_step s h = 31 ^ length s * h + hash_text s"
proof (induction s arbitrary: h)
  case (Cons c s)
  have "fold hash_step (c # s) h = 31 ^ length s * (31 * h + word_of_nat (of_char c)) + hash_text s"
    using Cons.IH [of "hash_step c h"] by (simp add: hash_step_linear [of c])
  moreover have "hash_text (c # s) = 31 ^ length s * word_of_nat (of_char c) + hash_text s"
    using Cons.IH [of "hash_step c 0"] by (simp add: hash_text_def hash_step_linear [of c])
  ultimately show ?case by (simp add: algebra_simps)
qed (simp add: hash_text_def)

lemma hash_text_append: "hash_text (s @ t) = 31 ^ length t * hash_text s + hash_text t"
  using fold_hash_step [of t "hash_text s"] by (simp add: hash_text_def)

text \<open>The hash is that of a polynomial of degree one in 31: a middle part may be exchanged for another of
  the same length and hash.\<close>

lemma hash_text_middle:
  "length x = length y \<Longrightarrow> hash_text x = hash_text y \<Longrightarrow> hash_text (s @ x @ t) = hash_text (s @ y @ t)"
  by (simp add: hash_text_append)

lemma hash_text_twins: "hash_text ''Aa'' = hash_text ''BB''"
  by (simp add: hash_text_def hash_step_linear)

lemma length_show_hex: "n < 16 ^ k \<Longrightarrow> 0 < k \<Longrightarrow> length (show_hex n) \<le> k"
proof (induction k arbitrary: n)
  case (Suc k)
  show ?case
  proof (cases "n < 16")
    case True
    then show ?thesis by (subst show_hex.simps) simp
  next
    case False
    with Suc.prems have "n div 16 < 16 ^ k" by (simp add: less_mult_imp_div_less mult.commute)
    moreover from False Suc.prems have "0 < k" by (cases k) auto
    ultimately show ?thesis using Suc.IH [of "n div 16"] False by (subst show_hex.simps) simp
  qed
qed simp

lemma length_pad_zeros: "length s \<le> n \<Longrightarrow> length (pad_zeros n s) = n"
  by (simp add: pad_zeros_def)

lemma signed_32_bits: "nat \<bar>sint (h :: 32 word)\<bar> < 16 ^ 8"
  using sint_greater_eq [of h] sint_less [of h] by simp

theorem confirmation_hash_has_eight_digits:
  "length (computeConfirmationHash b) = 15"
  unfolding computeConfirmationHash_def
  by (simp add: length_pad_zeros length_show_hex [OF signed_32_bits])

lemma quote_append: "quote (s @ t) = CHR 0x22 # concat (map escape s) @ tl (quote t)"
  by (simp add: quote_def)

text \<open>
  Two plans whose identifiers differ in \<open>Aa\<close> and \<open>BB\<close> have the same confirmation hash, everything else
  being equal, although a confirmation for one plan must not authorize a different plan.
\<close>

theorem different_plans_share_a_confirmation_hash:
  fixes b :: "'a confirmation_body_scheme"
  shows "computeConfirmationHash (b\<lparr>cb_plan_id := p @ ''Aa'' @ q\<rparr>)
       = computeConfirmationHash (b\<lparr>cb_plan_id := p @ ''BB'' @ q\<rparr>)"
proof -
  define A where "A = ''{'' @ quote ''confirmation_id'' @ '':'' @ quote (cb_confirmation_id b) @ '','' @ quote ''plan_id''
     @ '':'' @ CHR 0x22 # concat (map escape p)"
  define B where "B = concat (map escape q) @ CHR 0x22 # '','' @ quote ''identity_lock'' @ '':'' @ json_stringify (lock_object (cb_identity_lock b))
     @ '','' @ quote ''policy_version'' @ '':'' @ quote (cb_policy_version b) @ '','' @ quote ''confirmed_at'' @ '':''
     @ quote (cb_confirmed_at b) @ '','' @ quote ''confirmed_by'' @ '':'' @ quote (cb_confirmed_by b) @ ''}''"
  have plan: "quote (p @ s @ q) = CHR 0x22 # concat (map escape p) @ concat (map escape s) @ concat (map escape q) @ [CHR 0x22]" for s
    by (simp add: quote_def)
  have sel: "cb_confirmation_id (b\<lparr>cb_plan_id := s\<rparr>) = cb_confirmation_id b" "cb_plan_id (b\<lparr>cb_plan_id := s\<rparr>) = s"
    "cb_identity_lock (b\<lparr>cb_plan_id := s\<rparr>) = cb_identity_lock b" "cb_policy_version (b\<lparr>cb_plan_id := s\<rparr>) = cb_policy_version b"
    "cb_confirmed_at (b\<lparr>cb_plan_id := s\<rparr>) = cb_confirmed_at b" "cb_confirmed_by (b\<lparr>cb_plan_id := s\<rparr>) = cb_confirmed_by b" for s
    by simp_all
  have content: "confirmation_content (b\<lparr>cb_plan_id := p @ s @ q\<rparr>) = A @ concat (map escape s) @ B" for s
    unfolding confirmation_content_def json_stringify.simps list.map fst_conv snd_conv js_join.simps
    by (simp only: plan sel A_def B_def append.simps append_assoc)
  have esc: "concat (map escape ''Aa'') = ''Aa''" "concat (map escape ''BB'') = ''BB''" by (simp_all add: escape_def)
  have "hash_text (confirmation_content (b\<lparr>cb_plan_id := p @ ''Aa'' @ q\<rparr>))
      = hash_text (confirmation_content (b\<lparr>cb_plan_id := p @ ''BB'' @ q\<rparr>))"
    unfolding content esc by (rule hash_text_middle) (simp_all only: hash_text_twins list.size)
  then show ?thesis unfolding computeConfirmationHash_def by (simp only:)
qed

subsection \<open>The audit trail\<close>

text \<open>The calls that build an audit trail, with the clock of the two that read it.\<close>

datatype audit_call =
    Record_confirmation confirmation_binding
  | Record_verification verification_record
  | Record_outcome transport_outcome
  | Record_notification desktop_notification
  | Complete string
  | Fail string "string option"

fun audit_step :: "audit_call \<Rightarrow> audit_correlation \<Rightarrow> audit_correlation" where
  "audit_step (Record_confirmation c) a = recordConfirmation a c"
| "audit_step (Record_verification v) a = recordVerification a v"
| "audit_step (Record_outcome t) a = recordOutcome a t"
| "audit_step (Record_notification n) a = recordNotification a n"
| "audit_step (Complete now) a = completeAudit now a"
| "audit_step (Fail now reason) a = failAudit now a reason"

definition audit_run :: "audit_call list \<Rightarrow> audit_correlation \<Rightarrow> audit_correlation" where
  "audit_run calls a = fold audit_step calls a"

text \<open>What the history of calls says: the recorded items, and the last call that closed the trail.\<close>

definition last_of :: "('a \<Rightarrow> 'b option) \<Rightarrow> 'a list \<Rightarrow> 'b option" where
  "last_of f xs = (case List.map_filter f (rev xs) of [] \<Rightarrow> None | y # _ \<Rightarrow> Some y)"

lemma last_of_snoc: "last_of f (xs @ [x]) = (case f x of Some y \<Rightarrow> Some y | None \<Rightarrow> last_of f xs)"
  by (simp add: last_of_def map_filter_simps split: option.split)

lemma last_of_Nil: "last_of f [] = None"
  by (simp add: last_of_def map_filter_simps)

lemma last_of_some: "last_of f xs = Some y \<Longrightarrow> \<exists>x\<in>set xs. f x = Some y"
  by (induction xs rule: rev_induct) (auto simp: last_of_Nil last_of_snoc split: option.splits)

lemma last_of_none: "last_of f xs = None \<longleftrightarrow> (\<forall>x\<in>set xs. f x = None)"
  by (induction xs rule: rev_induct) (auto simp: last_of_Nil last_of_snoc split: option.splits)

fun call_confirmation :: "audit_call \<Rightarrow> confirmation_binding option" where
  "call_confirmation (Record_confirmation c) = Some c" | "call_confirmation _ = None"

fun call_verification :: "audit_call \<Rightarrow> verification_record option" where
  "call_verification (Record_verification v) = Some v" | "call_verification _ = None"

fun call_outcome :: "audit_call \<Rightarrow> transport_outcome option" where
  "call_outcome (Record_outcome t) = Some t" | "call_outcome _ = None"

fun call_notification :: "audit_call \<Rightarrow> desktop_notification option" where
  "call_notification (Record_notification n) = Some n" | "call_notification _ = None"

fun call_closing :: "audit_call \<Rightarrow> (audit_status \<times> string) option" where
  "call_closing (Complete now) = Some (A_COMPLETED, now)"
| "call_closing (Fail now _) = Some (A_FAILED, now)"
| "call_closing _ = None"

definition closing_status :: "(audit_status \<times> string) option \<Rightarrow> audit_status" where
  "closing_status c = (case c of None \<Rightarrow> A_IN_PROGRESS | Some (s, _) \<Rightarrow> s)"

lemmas audit_defs = recordConfirmation_def recordVerification_def recordOutcome_def recordNotification_def
  completeAudit_def failAudit_def

lemma audit_run_Nil: "audit_run [] a = a"
  by (simp add: audit_run_def)

lemma audit_run_snoc: "audit_run (calls @ [c]) a = audit_step c (audit_run calls a)"
  by (simp add: audit_run_def)

lemma map_filter_snoc: "List.map_filter f (xs @ [x]) = List.map_filter f xs @ (case f x of Some y \<Rightarrow> [y] | None \<Rightarrow> [])"
  by (induction xs) (auto simp: map_filter_simps split: option.split)

lemma audit_step_ids:
  "au_audit_id (audit_step c a) = au_audit_id a" "au_shop_id (audit_step c a) = au_shop_id a"
  "au_conversation_id (audit_step c a) = au_conversation_id a" "au_plan_id (audit_step c a) = au_plan_id a"
  "au_created_at (audit_step c a) = au_created_at a"
  by (cases c; simp add: audit_defs)+

lemma audit_run_ids:
  "au_audit_id (audit_run calls a) = au_audit_id a" "au_shop_id (audit_run calls a) = au_shop_id a"
  "au_conversation_id (audit_run calls a) = au_conversation_id a" "au_plan_id (audit_run calls a) = au_plan_id a"
  "au_created_at (audit_run calls a) = au_created_at a"
  by (induction calls rule: rev_induct; simp add: audit_run_Nil audit_run_snoc audit_step_ids)+

lemma started_is_empty:
  "au_status (startAudit millis rnd now ctx) = A_IN_PROGRESS" "au_completed_at (startAudit millis rnd now ctx) = None"
  "au_confirmation (startAudit millis rnd now ctx) = None" "au_verifications (startAudit millis rnd now ctx) = []"
  "au_outcome (startAudit millis rnd now ctx) = None" "au_notification (startAudit millis rnd now ctx) = None"
  by (simp_all add: startAudit_def)

lemma audit_step_items:
  "au_verifications (audit_step c a) = au_verifications a @ (case call_verification c of Some v \<Rightarrow> [v] | None \<Rightarrow> [])"
  "au_confirmation (audit_step c a) = (case call_confirmation c of Some y \<Rightarrow> Some y | None \<Rightarrow> au_confirmation a)"
  "au_outcome (audit_step c a) = (case call_outcome c of Some y \<Rightarrow> Some y | None \<Rightarrow> au_outcome a)"
  "au_notification (audit_step c a) = (case call_notification c of Some y \<Rightarrow> Some y | None \<Rightarrow> au_notification a)"
  "au_status (audit_step c a) = (case call_closing c of Some y \<Rightarrow> fst y | None \<Rightarrow> au_status a)"
  "au_completed_at (audit_step c a) = (case call_closing c of Some y \<Rightarrow> Some (snd y) | None \<Rightarrow> au_completed_at a)"
  by (cases c; simp add: audit_defs)+

lemma audit_run_items:
  assumes a: "a = startAudit millis rnd now ctx"
  shows "au_verifications (audit_run calls a) = List.map_filter call_verification calls"
    and "au_confirmation (audit_run calls a) = last_of call_confirmation calls"
    and "au_outcome (audit_run calls a) = last_of call_outcome calls"
    and "au_notification (audit_run calls a) = last_of call_notification calls"
    and "au_status (audit_run calls a) = closing_status (last_of call_closing calls)"
    and "au_completed_at (audit_run calls a) = map_option snd (last_of call_closing calls)"
  unfolding a
  by (induction calls rule: rev_induct;
      simp add: audit_run_Nil audit_run_snoc started_is_empty audit_step_items last_of_Nil last_of_snoc
        map_filter_snoc map_filter_simps closing_status_def split: option.split)+

text \<open>
  An audit trail is the history of the calls that built it. Whatever is recorded and in
  whatever order, the identifiers and the creation time stay those of the start, the verifications are all
  the recorded ones in order, confirmation, outcome and notification are the last recorded ones, the
  completion time is set exactly when the trail was completed or failed, and the trail counts as complete
  exactly when the last closing call was a completion and a verification, an outcome and a notification have
  been recorded.
\<close>

theorem audit_trail_is_its_history:
  "let a = audit_run calls (startAudit millis rnd now ctx) in
    au_audit_id a = ''audit-'' @ show_nat millis @ ''-'' @ rnd \<and> au_shop_id a = ac_shop_id ctx
    \<and> au_conversation_id a = ac_conversation_id ctx \<and> au_plan_id a = ac_plan_id ctx \<and> au_created_at a = now
    \<and> au_verifications a = List.map_filter call_verification calls
    \<and> au_confirmation a = last_of call_confirmation calls \<and> au_outcome a = last_of call_outcome calls
    \<and> au_notification a = last_of call_notification calls
    \<and> (au_completed_at a = None \<longleftrightarrow> au_status a = A_IN_PROGRESS)
    \<and> (isAuditComplete a \<longleftrightarrow> (\<exists>t. last_of call_closing calls = Some (A_COMPLETED, t))
         \<and> (\<exists>v. Record_verification v \<in> set calls) \<and> (\<exists>t. Record_outcome t \<in> set calls)
         \<and> (\<exists>n. Record_notification n \<in> set calls))"
proof -
  define a where "a = audit_run calls (startAudit millis rnd now ctx)"
  note items = audit_run_items [OF refl, of calls millis rnd now ctx, folded a_def]
  have ids: "au_audit_id a = ''audit-'' @ show_nat millis @ ''-'' @ rnd" "au_shop_id a = ac_shop_id ctx"
    "au_conversation_id a = ac_conversation_id ctx" "au_plan_id a = ac_plan_id ctx" "au_created_at a = now"
    by (simp_all add: a_def audit_run_ids startAudit_def fresh_id_def)
  have closing: "s \<noteq> A_IN_PROGRESS" if "last_of call_closing calls = Some (s, t)" for s t
    using last_of_some [OF that] by (metis call_closing.elims option.sel option.distinct(1) prod.inject audit_status.distinct(1,3))
  have time: "au_completed_at a = None \<longleftrightarrow> au_status a = A_IN_PROGRESS"
    using closing by (cases "last_of call_closing calls") (auto simp: items closing_status_def)
  have verified: "length (au_verifications a) > 0 \<longleftrightarrow> (\<exists>v. Record_verification v \<in> set calls)"
    unfolding items by (induction calls rule: list.induct) (auto simp: map_filter_simps split: option.split elim: call_verification.elims)
  have outcome: "au_outcome a \<noteq> None \<longleftrightarrow> (\<exists>t. Record_outcome t \<in> set calls)"
    unfolding items last_of_none by (metis call_outcome.elims call_outcome.simps(1) option.distinct(1))
  have notification: "au_notification a \<noteq> None \<longleftrightarrow> (\<exists>n. Record_notification n \<in> set calls)"
    unfolding items last_of_none by (metis call_notification.elims call_notification.simps(1) option.distinct(1))
  have completed: "au_status a = A_COMPLETED \<longleftrightarrow> (\<exists>t. last_of call_closing calls = Some (A_COMPLETED, t))"
    by (auto simp: items closing_status_def split: option.split)
  show ?thesis
    unfolding Let_def a_def [symmetric] isAuditComplete_def verified outcome notification completed
    using ids time items(1-4) by simp
qed

text \<open>
  A trail that was failed can be completed afterwards: it then counts as complete, and only the failure
  reason in its metadata tells.
\<close>

lemma map_of_set_key: "map_of (set_key k v kvs) = (map_of kvs)(k \<mapsto> v)"
  by (induction k v kvs rule: set_key.induct) auto

theorem failed_trail_can_be_completed:
  assumes "au_verifications a \<noteq> []" and "hasOutcome a" and "hasNotification a"
  shows "isAuditComplete (completeAudit t2 (failAudit t1 a reason))
    \<and> map_of (the (au_metadata (completeAudit t2 (failAudit t1 a reason)))) ''failure_reason'' = Some (map_option JStr reason)"
  using assms by (simp add: isAuditComplete_def completeAudit_def failAudit_def hasOutcome_def hasNotification_def map_of_set_key)

text \<open>
  A trail can be complete although everything in it belongs to another trail, its only verification failed,
  and nobody confirmed.
\<close>

theorem complete_trail_of_foreign_items:
  "let v = createFailedVerification 1 ''r1'' ''t1'' ''other'' V_WRONG_TARGET [] None;
       u = createUnknownOutcome ''t2'' ''attempt'' ''timeout'' None None;
       n = createAcknowledgedNotification 2 ''r2'' ''t3'' ''another'' ''sent'' ''sent'' None;
       a = completeAudit ''t4'' (recordNotification (recordOutcome (recordVerification
             (startAudit 3 ''r3'' ''t0'' \<lparr>ac_shop_id = ''s'', ac_conversation_id = ''c'', ac_plan_id = ''p'', ac_metadata = None\<rparr>)
             v) u) n)
   in isAuditComplete a \<and> \<not> hasConfirmation a
     \<and> (\<forall>r\<in>set (au_verifications a). isVerificationFailed r \<and> vr_audit_id r \<noteq> au_audit_id a)"
  by code_simp

subsection \<open>Outcomes, notifications and decisions\<close>

text \<open>The constructors establish what the refined outcome types require, and the type guard of exactly one
  kind holds of each.\<close>

theorem outcomes_meet_their_types:
  "acknowledged_outcome (createAcknowledgedOutcome now attempt platform_id at)
    \<and> rejected_outcome (createRejectedOutcome now attempt at raw)
    \<and> unknown_outcome (createUnknownOutcome now attempt reason ctx raw)
    \<and> length (filter (\<lambda>g. g t) [isUnknownOutcome, isAcknowledgedOutcome, isRejectedOutcome]) = 1"
  by (cases "to_outcome_type t")
    (simp_all add: acknowledged_outcome_def rejected_outcome_def unknown_outcome_def createAcknowledgedOutcome_def
      createRejectedOutcome_def createUnknownOutcome_def isUnknownOutcome_def isAcknowledgedOutcome_def isRejectedOutcome_def)

text \<open>Every notification built as an error asks for a human, and a notification of a rejected send does not.\<close>

theorem unknown_and_failed_notifications_ask_for_a_human:
  "requiresHumanAction (createUnknownNotification m r now audit title msg md)
    \<and> requiresHumanAction (createVerificationFailedNotification m r now audit title msg md)
    \<and> requiresHumanAction (createConfirmationRequiredNotification m r now audit title msg act md)
    \<and> \<not> requiresHumanAction (createAcknowledgedNotification m r now audit title msg md)
    \<and> \<not> requiresHumanAction (createRejectedNotification m r now audit title msg md)
    \<and> dn_audit_id (createUnknownNotification m r now audit title msg md) = audit"
  by (simp add: requiresHumanAction_def notification_of_def createUnknownNotification_def
      createVerificationFailedNotification_def createConfirmationRequiredNotification_def
      createAcknowledgedNotification_def createRejectedNotification_def)

text \<open>
  No decision with a blocking issue is allowed, and a confirmation is asked for exactly in the mode
  \<open>HUMAN_CONFIRM\<close>. A decision for the mode \<open>OFF\<close> is allowed too.
\<close>

theorem decisions_are_consistent:
  assumes "d = createBlockedDecision now issues reasons version \<or> d = createModeDecision now mode reasons warnings version why"
  shows "(pd_blocking_issues d \<noteq> [] \<longrightarrow> \<not> pd_allowed d)
    \<and> (pd_requires_confirmation d \<longleftrightarrow> pd_rollout_mode d = R_HUMAN_CONFIRM)"
  using assms by (auto simp: createBlockedDecision_def createModeDecision_def)

theorem off_decision_is_allowed:
  "pd_allowed (createModeDecision now R_OFF reasons warnings version why)"
  by (simp add: createModeDecision_def)

subsection \<open>The knowledge filter\<close>

theorem scene_filter_is_from_the_table:
  assumes "\<forall>s. scene = Some s \<longrightarrow> s \<notin> set object_prototype_keys"
  shows "getKnowledgeFilter scene = (case scene of None \<Rightarrow> DEFAULT_FILTER
    | Some s \<Rightarrow> (case map_of SCENE_KNOWLEDGE_MAPPING s of Some f \<Rightarrow> f | None \<Rightarrow> DEFAULT_FILTER))"
proof (cases scene)
  case (Some s)
  have "isRecognizedScene s \<longleftrightarrow> map_of SCENE_KNOWLEDGE_MAPPING s \<noteq> None"
    using assms Some by (auto simp: isRecognizedScene_def map_of_eq_None_iff)
  moreover have "map_of SCENE_KNOWLEDGE_MAPPING [] = None" by (simp add: SCENE_KNOWLEDGE_MAPPING_def)
  ultimately show ?thesis using Some by (auto simp: getKnowledgeFilter_def scene_entry_def)
qed (simp add: getKnowledgeFilter_def)

text \<open>A scene with the name of an inherited property is taken for a recognized one, and its filter is not the
  default one: it has no knowledge type at all.\<close>

theorem inherited_scene_has_no_filter:
  assumes "s \<in> set object_prototype_keys"
  shows "isRecognizedScene s \<and> s \<notin> set getAllScenes \<and> \<not> isDefaultFilter (getKnowledgeFilter (Some s))
    \<and> kf_knowledgeType (getKnowledgeFilter (Some s)) = None"
  using assms
  by (auto simp: object_prototype_keys_def isRecognizedScene_def getAllScenes_def SCENE_KNOWLEDGE_MAPPING_def
      isDefaultFilter_def getKnowledgeFilter_def scene_entry_def)

subsection \<open>Adapter evidence\<close>

lemma evidence_lock_Nil: "evidence_lock x = [] \<longleftrightarrow> (\<exists>l. x = Some l \<and> lock_ok l)"
  by (auto simp: evidence_lock_def lock_ok_def required_def split: option.splits number.splits)

text \<open>
  The validator accepts exactly the evidence that is marked complete, is dated and named, and carries a shop,
  a session, both generations and a complete identity lock; it reports at least one failure for every other.
\<close>

theorem only_complete_evidence_is_valid:
  "(fst (validateAdapterIdentityEvidence date_parse e) \<longleftrightarrow> snd (validateAdapterIdentityEvidence date_parse e) = [])
   \<and> (fst (validateAdapterIdentityEvidence date_parse e) \<longleftrightarrow>
     isNonEmptyString (ae_evidence_id e) \<and> isIsoDate date_parse (ae_observed_at e) \<and> isNonEmptyString (ae_source e)
     \<and> ae_availability e = E_COMPLETE
     \<and> (\<forall>x\<in>set [ae_runtime_shop_id e, ae_session_id e, ae_session_generation e, ae_document_generation e]. present_text x)
     \<and> (\<exists>l. ae_identity_lock e = Some l \<and> lock_ok l))"
  by (auto simp: validateAdapterIdentityEvidence_def evidence_failures_def complete_field_def evidence_lock_Nil)

subsection \<open>Ownership\<close>

text \<open>An action leaves the conversation without an owner exactly when it releases it; a handoff names its
  target, every other action its actor; only a handoff without a target fails.\<close>

theorem ownership_follows_the_action:
  "(\<forall>e. targetOwnershipFor r = Inl e \<longrightarrow> or_action r = A_handoff \<and> (or_targetMemberId r = None \<or> or_targetMemberId r = Some []))
   \<and> (\<forall>t. targetOwnershipFor r = Inr t \<longrightarrow>
       (ot_ownerRef t = None \<longleftrightarrow> ot_state t = O_RELEASED) \<and> (ot_state t = O_RELEASED \<longleftrightarrow> or_action r = A_release)
       \<and> (or_action r = A_handoff \<longrightarrow> (\<exists>m. or_targetMemberId r = Some m \<and> m \<noteq> [] \<and> ot_ownerRef t = Some (Member m)))
       \<and> (or_action r \<in> {A_claim, A_supervisor_takeover} \<longrightarrow> ot_ownerRef t = Some (or_actor r)))"
  by (cases "or_action r") (auto simp: targetOwnershipFor_def split: option.splits ownership_actor.splits if_splits)

end
