(* ===== verification/Workbench_Store.thy ===== *)
theory Workbench_Store imports Workbench Pdd_View begin

text \<open>
  The store of the workbench, \<open>apps/desktop/src/renderer/state/workbench-store.ts\<close>: what an event of the user or of Main does to the
  state and which calls of the desktop API it makes, and what the answer to a call does. \<open>has\<close> says which optional methods the API has.
\<close>

subsection \<open>Calls and answers\<close>

datatype api_call =
    Call_bootstrap
  | Call_getSnapshot "string option"
  | Call_listConversations queue_scope "string option"
  | Call_listConversationMessages string
  | Call_setMode string string string
  | Call_manualSend string string
  | Call_noSaveSend string string
  | Call_cancel string string
  | Call_activatePlatformShop string
  | Call_getPlatformStatus string
  | Call_setPlatformViewBounds string view_bounds
  | Call_reloadPlatform string
  | Call_listJobs
  | Call_startLearning string
  | Call_reviewAction string
  | Call_auditAction string
  | Call_optimizationAction string string "string option"
  | Call_cancelJob string
  | Call_selectLegacyImportSource
  | Call_dryRunLegacyImport string
  | Call_applyLegacyImport string string
  | Call_cancelLegacyImport string
  | Call_getLegacyImportStatus string

datatype continuation =
    K_boot | K_resync | K_queue nat | K_timeline nat string | K_command | K_activate string | K_status string | K_bounds string
  | K_reload | K_jobs | K_then_jobs | K_select | K_plan | K_apply | K_import_cancel string | K_import_status | K_none

record platform_status =
  pt_shop_id :: string
  pt_platform :: string
  pt_session_status :: string
  pt_view_visible :: bool
  pt_last_error :: "string option"
  pt_capabilities :: "(string \<times> bool) list"

text \<open>\<open>A_error\<close> is the typed failure with its message, \<open>A_rejected\<close> a promise that is rejected.\<close>

datatype api_answer =
    A_error string
  | A_rejected
  | A_view workbench_view
  | A_queue "queue_item list" queue_scope "store_option list" "string list"
  | A_timeline "timeline_message list"
  | A_ok bool
  | A_status platform_status
  | A_jobs "job_view list"
  | A_selected string nat
  | A_plan "import_plan option"
  | A_session string
  | A_import_status import_session

record workbench =
  wb_ui :: ui_state
  wb_resyncInFlight :: bool
  wb_queueRequestSeq :: nat
  wb_timelineRequestSeq :: nat
  wb_calls :: "(api_call \<times> continuation) list"
  wb_answered :: "(api_call \<times> continuation \<times> api_answer) list"

definition new_workbench :: workbench where
  "new_workbench = \<lparr>wb_ui = EMPTY_UI_STATE, wb_resyncInFlight = False, wb_queueRequestSeq = 0, wb_timelineRequestSeq = 0, wb_calls = [], wb_answered = []\<rparr>"

definition api :: "api_call \<Rightarrow> continuation \<Rightarrow> workbench \<Rightarrow> workbench" where
  "api c k w = w\<lparr>wb_calls := wb_calls w @ [(c, k)]\<rparr>"

definition set_ui :: "(ui_state \<Rightarrow> ui_state) \<Rightarrow> workbench \<Rightarrow> workbench" where
  "set_ui f w = w\<lparr>wb_ui := f (wb_ui w)\<rparr>"

definition safeMessage :: "string \<Rightarrow> string" where
  "safeMessage msg = take 200 msg"

definition set_error :: "string \<Rightarrow> workbench \<Rightarrow> workbench" where
  "set_error msg = set_ui (\<lambda>u. u\<lparr>ui_lastError := Some (safeMessage msg)\<rparr>)"

definition selected :: "workbench \<Rightarrow> string option" where
  "selected w = ui_selectedShopId (wb_ui w)"

definition first_shop :: "workbench_view \<Rightarrow> string option" where
  "first_shop vm = (case wv_shop_summaries vm of [] \<Rightarrow> None | s # _ \<Rightarrow> Some (su_shop_id s))"

definition shop_type :: "string \<Rightarrow> ui_state \<Rightarrow> string option" where
  "shop_type shop u = Option.bind (ui_viewModel u) (\<lambda>vm. map_option su_type (find (\<lambda>s. su_shop_id s = shop) (wv_shop_summaries vm)))"

subsection \<open>Start, queue and timeline\<close>

definition wb_boot :: "workbench \<Rightarrow> workbench" where
  "wb_boot w = api Call_bootstrap K_boot (set_ui (\<lambda>u. u\<lparr>ui_loading := True, ui_lastError := None\<rparr>) w)"

definition refreshQueue :: "(string \<Rightarrow> bool) \<Rightarrow> queue_scope option \<Rightarrow> string option \<Rightarrow> workbench \<Rightarrow> workbench" where
  "refreshQueue has scope platform w =
     (let targetScope = (case scope of Some s \<Rightarrow> s | None \<Rightarrow> ui_queueScope (wb_ui w));
          targetPlatform = (case platform of Some p \<Rightarrow> Some p | None \<Rightarrow> ui_queuePlatform (wb_ui w));
          w1 = set_ui (ui_setQueuePlatform targetPlatform) (set_ui (ui_setQueueScope targetScope) w) in
      if \<not> has ''listConversations'' then set_ui (ui_setQueueError (bytes [233, 152, 159, 229, 136, 151, 230, 159, 165, 232, 175, 162, 228, 184, 141, 229, 143, 175, 231, 148, 168])) w1
      else let seq = Suc (wb_queueRequestSeq w1) in
        api (Call_listConversations targetScope targetPlatform) (K_queue seq) (w1\<lparr>wb_queueRequestSeq := seq\<rparr>))"

definition applyBootstrap :: "(string \<Rightarrow> bool) \<Rightarrow> workbench_view \<Rightarrow> workbench \<Rightarrow> workbench" where
  "applyBootstrap has vm w =
     (let sel = (case wv_selected_shop_id vm of Some s \<Rightarrow> Some s | None \<Rightarrow> first_shop vm) in
      refreshQueue has None None (set_ui (\<lambda>u. u\<lparr>ui_viewModel := Some vm, ui_selectedShopId := sel, ui_loading := False, ui_lastError := None,
        ui_pendingCommand := None\<rparr>) w))"

definition applyViewModel :: "workbench_view \<Rightarrow> workbench \<Rightarrow> workbench" where
  "applyViewModel vm = set_ui (\<lambda>u. u\<lparr>ui_viewModel := Some vm,
     ui_selectedShopId := (case ui_selectedShopId u of Some s \<Rightarrow> Some s | None \<Rightarrow> (case wv_selected_shop_id vm of Some s \<Rightarrow> Some s | None \<Rightarrow> first_shop vm)),
     ui_loading := False, ui_lastError := None\<rparr>)"

definition wb_setQueueScope :: "(string \<Rightarrow> bool) \<Rightarrow> queue_scope \<Rightarrow> workbench \<Rightarrow> workbench" where
  "wb_setQueueScope has sc = refreshQueue has (Some sc) None"

definition wb_setQueuePlatform :: "(string \<Rightarrow> bool) \<Rightarrow> string option \<Rightarrow> workbench \<Rightarrow> workbench" where
  "wb_setQueuePlatform has p = refreshQueue has None p"

definition refreshTimeline :: "(string \<Rightarrow> bool) \<Rightarrow> string \<Rightarrow> workbench \<Rightarrow> workbench" where
  "refreshTimeline has c w =
     (let w1 = set_ui (ui_setTimelineLoading c) w in
      if \<not> has ''listConversationMessages'' then set_ui (ui_setTimelineError c (bytes [228, 188, 154, 232, 175, 157, 230, 182, 136, 230, 129, 175, 228, 184, 141, 229, 143, 175, 231, 148, 168])) w1
      else let seq = Suc (wb_timelineRequestSeq w1) in
        api (Call_listConversationMessages c) (K_timeline seq c) (w1\<lparr>wb_timelineRequestSeq := seq\<rparr>))"

definition activateConversation :: "(string \<Rightarrow> bool) \<Rightarrow> string option \<Rightarrow> workbench \<Rightarrow> workbench" where
  "activateConversation has conv w =
     (let w1 = set_ui (ui_setActiveConversation conv) w in
      case conv of
        None \<Rightarrow> set_ui ui_clearTimeline w1
      | Some c \<Rightarrow>
          refreshTimeline has c (if ui_timelineConversationId (wb_ui w1) \<noteq> Some c then set_ui ui_clearTimeline w1 else w1))"

subsection \<open>Composer\<close>

definition updateComposerDraft :: "string \<Rightarrow> workbench \<Rightarrow> workbench" where
  "updateComposerDraft txt w = (case ui_activeConversationId (wb_ui w) of None \<Rightarrow> w | Some c \<Rightarrow> set_ui (ui_setComposerDraft c txt) w)"

definition applySuggestion :: "workbench \<Rightarrow> workbench" where
  "applySuggestion w =
     (case (ui_activeConversationId (wb_ui w), Option.bind (ui_viewModel (wb_ui w)) wv_suggestion) of
        (Some c, Some s) \<Rightarrow> set_ui (ui_applySuggestion c (sg_reply s)) w
      | _ \<Rightarrow> w)"

definition submitComposer :: "workbench \<Rightarrow> workbench" where
  "submitComposer w =
     (case ui_activeConversationId (wb_ui w) of
        None \<Rightarrow> w
      | Some c \<Rightarrow>
          if blank (draft_of c (wb_ui w)) then w
          else if \<not> ui_composerSendAvailable (wb_ui w) then set_ui (\<lambda>u. u\<lparr>ui_composerNote := Some (bytes [229, 143, 145, 233, 128, 129, 229, 138, 159, 232, 131, 189, 230, 154, 130, 228, 184, 141, 229, 143, 175, 231, 148, 168])\<rparr>) w
          else w)"

subsection \<open>Snapshots and the platform\<close>

definition resync :: "workbench \<Rightarrow> workbench" where
  "resync w = (if wb_resyncInFlight w then w else api (Call_getSnapshot (non_empty (selected w))) K_resync (w\<lparr>wb_resyncInFlight := True\<rparr>))"

definition onEvent :: "orchestrator_notice \<Rightarrow> workbench \<Rightarrow> workbench" where
  "onEvent ev w = (if reduceEvent (wb_ui w) ev = Ignored_stale then w else resync w)"

definition activatePlatformFor :: "string \<Rightarrow> workbench \<Rightarrow> workbench" where
  "activatePlatformFor shop w =
     (if selected w \<noteq> Some shop then w
      else if shop_type shop (wb_ui w) = Some ''pdd'' then api (Call_activatePlatformShop shop) (K_activate shop) w
      else set_ui (\<lambda>u. u\<lparr>ui_platform := EMPTY_PLATFORM_VIEW_STATE\<rparr>) w)"

definition closed_bounds :: view_bounds where
  "closed_bounds = \<lparr>vb_x = 0, vb_y = 0, vb_width = 0, vb_height = 0, vb_visible = False\<rparr>"

definition wb_selectShop :: "string \<Rightarrow> workbench \<Rightarrow> workbench" where
  "wb_selectShop shop w =
     (let prior = selected w;
          w1 = set_ui (\<lambda>u. (ui_selectShop shop u)\<lparr>ui_pendingCommand := None, ui_platform := EMPTY_PLATFORM_VIEW_STATE\<rparr>) w;
          w2 = (case non_empty prior of
                  Some p \<Rightarrow> if p \<noteq> shop \<and> shop_type shop (wb_ui w1) \<noteq> Some ''pdd''
                    then api (Call_setPlatformViewBounds p closed_bounds) K_none w1 else w1
                | None \<Rightarrow> w1) in
      resync (activatePlatformFor shop w2))"

definition applyPlatformStatus :: "platform_status \<Rightarrow> workbench \<Rightarrow> workbench" where
  "applyPlatformStatus v w =
     (if selected w \<noteq> Some (pt_shop_id v) then w
      else set_ui (\<lambda>u. u\<lparr>ui_platform := \<lparr>pl_activeShopId = Some (pt_shop_id v), pl_platformType = Some (pt_platform v),
        pl_sessionStatus = Some (pt_session_status v), pl_viewVisible = pt_view_visible v, pl_lastSafeError = pt_last_error v,
        pl_capabilities = pt_capabilities v\<rparr>\<rparr>) w)"

definition applyPlatformStatusChanged :: "string \<Rightarrow> string \<Rightarrow> string option \<Rightarrow> workbench \<Rightarrow> workbench" where
  "applyPlatformStatusChanged shop st e w =
     (if selected w \<noteq> Some shop then w
      else set_ui (\<lambda>u. u\<lparr>ui_platform := (ui_platform u)\<lparr>pl_activeShopId := Some shop,
        pl_platformType := (case pl_platformType (ui_platform u) of Some t \<Rightarrow> Some t | None \<Rightarrow> Some ''pdd''),
        pl_sessionStatus := Some st, pl_lastSafeError := e\<rparr>\<rparr>) w)"

definition reportPlatformBounds :: "string \<Rightarrow> view_bounds \<Rightarrow> workbench \<Rightarrow> workbench" where
  "reportPlatformBounds shop b w =
     (if selected w \<noteq> Some shop \<or> pl_activeShopId (ui_platform (wb_ui w)) \<noteq> Some shop then w
      else api (Call_setPlatformViewBounds shop b) (K_bounds shop) w)"

definition wb_reloadPlatform :: "workbench \<Rightarrow> workbench" where
  "wb_reloadPlatform w = (case non_empty (selected w) of None \<Rightarrow> w | Some shop \<Rightarrow> api (Call_reloadPlatform shop) K_reload w)"

subsection \<open>Commands\<close>

definition view_conversation :: "workbench \<Rightarrow> string option" where
  "view_conversation w = map_option cw_conversation_id (Option.bind (ui_viewModel (wb_ui w)) wv_conversation)"

definition wb_setMode :: "string \<Rightarrow> workbench \<Rightarrow> workbench" where
  "wb_setMode mode w =
     (case non_empty (selected w) of
        None \<Rightarrow> w
      | Some shop \<Rightarrow> api (Call_setMode shop (case view_conversation w of Some c \<Rightarrow> c | None \<Rightarrow> shop) mode) K_command
          (set_ui (\<lambda>u. u\<lparr>ui_pendingCommand := Some Cmd_set_mode\<rparr>) w))"

definition run_command :: "pending_command \<Rightarrow> (string \<Rightarrow> string \<Rightarrow> api_call) \<Rightarrow> workbench \<Rightarrow> workbench" where
  "run_command cmd mk w =
     (case (non_empty (selected w), non_empty (view_conversation w)) of
        (Some shop, Some c) \<Rightarrow> api (mk shop c) K_command (set_ui (\<lambda>u. u\<lparr>ui_pendingCommand := Some cmd\<rparr>) w)
      | _ \<Rightarrow> w)"

definition finishCommand :: "string option \<Rightarrow> workbench \<Rightarrow> workbench" where
  "finishCommand failure w =
     (let w1 = set_ui (\<lambda>u. u\<lparr>ui_pendingCommand := None\<rparr>) w in
      case failure of None \<Rightarrow> resync w1 | Some msg \<Rightarrow> set_error msg w1)"

subsection \<open>Panels\<close>

definition refreshJobs :: "(string \<Rightarrow> bool) \<Rightarrow> workbench \<Rightarrow> workbench" where
  "refreshJobs has w = (if has ''listJobs'' then api Call_listJobs K_jobs w else w)"

definition panel_call :: "(string \<Rightarrow> bool) \<Rightarrow> string \<Rightarrow> api_call \<Rightarrow> workbench \<Rightarrow> workbench" where
  "panel_call has m c w = (if has m then api c K_then_jobs w else w)"

definition setM10 :: "(m10_view \<Rightarrow> m10_view) \<Rightarrow> workbench \<Rightarrow> workbench" where
  "setM10 f = set_ui (\<lambda>u. u\<lparr>ui_m10 := f (ui_m10 u)\<rparr>)"

definition setLegacyImport :: "(import_view \<Rightarrow> import_view) \<Rightarrow> workbench \<Rightarrow> workbench" where
  "setLegacyImport f = set_ui (\<lambda>u. u\<lparr>ui_legacyImport := f (ui_legacyImport u)\<rparr>)"

definition import_session_id :: "workbench \<Rightarrow> string option" where
  "import_session_id w = map_option iv_session_id (im_session (ui_legacyImport (wb_ui w)))"

definition planLegacyImport :: "(string \<Rightarrow> bool) \<Rightarrow> workbench \<Rightarrow> workbench" where
  "planLegacyImport has w = (case non_empty (im_selection_token (ui_legacyImport (wb_ui w))) of
       Some t \<Rightarrow> if has ''dryRunLegacyImport'' then api (Call_dryRunLegacyImport t) K_plan w else w
     | None \<Rightarrow> w)"

definition applyLegacyImport :: "(string \<Rightarrow> bool) \<Rightarrow> workbench \<Rightarrow> workbench" where
  "applyLegacyImport has w = (case non_empty (im_selection_token (ui_legacyImport (wb_ui w))) of
       Some t \<Rightarrow> if has ''applyLegacyImport''
         then api (Call_applyLegacyImport t (case im_plan_sha256 (ui_legacyImport (wb_ui w)) of Some h \<Rightarrow> h | None \<Rightarrow> [])) K_apply w else w
     | None \<Rightarrow> w)"

definition refreshLegacyImportStatus :: "(string \<Rightarrow> bool) \<Rightarrow> string option \<Rightarrow> workbench \<Rightarrow> workbench" where
  "refreshLegacyImportStatus has sid w =
     (case non_empty (case sid of Some s \<Rightarrow> Some s | None \<Rightarrow> import_session_id w) of
        Some s \<Rightarrow> if has ''getLegacyImportStatus'' then api (Call_getLegacyImportStatus s) K_import_status w else w
      | None \<Rightarrow> w)"

definition cancelLegacyImport :: "(string \<Rightarrow> bool) \<Rightarrow> workbench \<Rightarrow> workbench" where
  "cancelLegacyImport has w = (case non_empty (import_session_id w) of
       Some s \<Rightarrow> if has ''cancelLegacyImport'' then api (Call_cancelLegacyImport s) (K_import_cancel s) w else w
     | None \<Rightarrow> w)"

subsection \<open>Answers\<close>

definition platform_error :: "string \<Rightarrow> string \<Rightarrow> platform_view" where
  "platform_error shop msg = EMPTY_PLATFORM_VIEW_STATE\<lparr>pl_activeShopId := Some shop, pl_platformType := Some ''pdd'', pl_sessionStatus := Some ''ERROR'',
     pl_lastSafeError := Some msg\<rparr>"

definition on_error :: "api_answer \<Rightarrow> (string \<Rightarrow> 'a) \<Rightarrow> 'a \<Rightarrow> 'a" where
  "on_error a f x = (case a of A_error m \<Rightarrow> f m | _ \<Rightarrow> x)"

definition queue_answered :: "nat \<Rightarrow> api_answer \<Rightarrow> workbench \<Rightarrow> workbench" where
  "queue_answered seq a w =
     (if seq \<noteq> wb_queueRequestSeq w then w
      else case a of
          A_error m \<Rightarrow> set_ui (ui_setQueueError (safeMessage m)) w
        | A_queue items sc stores platforms \<Rightarrow> set_ui (ui_setQueueItems items sc) (set_ui (ui_setQueueOptions stores platforms) w)
        | _ \<Rightarrow> w)"

definition timeline_answered :: "nat \<Rightarrow> string \<Rightarrow> api_answer \<Rightarrow> workbench \<Rightarrow> workbench" where
  "timeline_answered seq c a w =
     (if seq \<noteq> wb_timelineRequestSeq w then w
      else case a of
          A_error m \<Rightarrow> set_ui (ui_setTimelineError c (safeMessage m)) w
        | A_timeline ms \<Rightarrow> set_ui (ui_setTimelineItems c ms) w
        | _ \<Rightarrow> w)"

definition resync_answered :: "api_answer \<Rightarrow> workbench \<Rightarrow> workbench" where
  "resync_answered a w = (case a of A_view vm \<Rightarrow> applyViewModel vm w | A_error m \<Rightarrow> set_error m w | _ \<Rightarrow> w)\<lparr>wb_resyncInFlight := False\<rparr>"

definition activation_answered :: "string \<Rightarrow> api_answer \<Rightarrow> workbench \<Rightarrow> workbench" where
  "activation_answered shop a w =
     (if selected w \<noteq> Some shop then w
      else case a of
          A_ok done1 \<Rightarrow> if done1 then api (Call_getPlatformStatus shop) (K_status shop) w
            else set_ui (\<lambda>u. u\<lparr>ui_platform := platform_error shop (bytes [229, 185, 179, 229, 143, 176, 228, 188, 154, 232, 175, 157, 230, 156, 170, 230, 191, 128, 230, 180, 187])\<rparr>) w
        | A_error m \<Rightarrow> set_ui (\<lambda>u. u\<lparr>ui_platform := platform_error shop (safeMessage m)\<rparr>) w
        | _ \<Rightarrow> w)"

definition command_answered :: "api_answer \<Rightarrow> workbench \<Rightarrow> workbench" where
  "command_answered a w = (case a of A_ok _ \<Rightarrow> finishCommand None w | A_error m \<Rightarrow> finishCommand (Some m) w | _ \<Rightarrow> w)"

fun resume :: "(string \<Rightarrow> bool) \<Rightarrow> continuation \<Rightarrow> api_answer \<Rightarrow> workbench \<Rightarrow> workbench" where
  "resume has K_boot a w = (case a of
       A_view vm \<Rightarrow> applyBootstrap has vm w
     | A_error m \<Rightarrow> set_ui (\<lambda>u. u\<lparr>ui_loading := False, ui_lastError := Some (safeMessage m)\<rparr>) w
     | _ \<Rightarrow> w)"
| "resume has K_resync a w = resync_answered a w"
| "resume has (K_queue seq) a w = queue_answered seq a w"
| "resume has (K_timeline seq c) a w = timeline_answered seq c a w"
| "resume has K_command a w = command_answered a w"
| "resume has (K_activate shop) a w = activation_answered shop a w"
| "resume has (K_status shop) a w = (case a of A_status v \<Rightarrow> if selected w = Some shop then applyPlatformStatus v w else w | _ \<Rightarrow> w)"
| "resume has (K_bounds shop) a w = on_error a (\<lambda>m. if selected w = Some shop then set_error m w else w) w"
| "resume has K_reload a w = on_error a (\<lambda>m. set_error m w) w"
| "resume has K_jobs a w = (case a of A_jobs js \<Rightarrow> setM10 (\<lambda>v. v\<lparr>mv_jobs := js\<rparr>) w | _ \<Rightarrow> on_error a (\<lambda>m. set_error m w) w)"
| "resume has K_then_jobs a w = (if a = A_rejected then w else refreshJobs has (on_error a (\<lambda>m. set_error m w) w))"
| "resume has K_select a w = (case a of
       A_selected t n \<Rightarrow> setLegacyImport (\<lambda>v. v\<lparr>im_selection_token := Some t, im_item_count := n, im_plan := None, im_plan_sha256 := None\<rparr>) w
     | _ \<Rightarrow> on_error a (\<lambda>m. set_error m w) w)"
| "resume has K_plan a w = (case a of
       A_plan p \<Rightarrow> setLegacyImport (\<lambda>v. v\<lparr>im_plan := p, im_plan_sha256 := map_option ip_plan_sha256 p\<rparr>) w
     | _ \<Rightarrow> on_error a (\<lambda>m. set_error m w) w)"
| "resume has K_apply a w = (case a of A_session s \<Rightarrow> refreshLegacyImportStatus has (Some s) w | _ \<Rightarrow> on_error a (\<lambda>m. set_error m w) w)"
| "resume has (K_import_cancel s) a w = (if a = A_rejected then w else refreshLegacyImportStatus has (Some s) w)"
| "resume has K_import_status a w = (case a of
       A_import_status v \<Rightarrow> setLegacyImport (\<lambda>x. x\<lparr>im_session := Some v\<rparr>) w
     | _ \<Rightarrow> on_error a (\<lambda>m. set_error m w) w)"
| "resume has K_none a w = w"

subsection \<open>Events\<close>

datatype workbench_event =
    Wb_boot
  | Wb_answer nat api_answer
  | Wb_select_shop string
  | Wb_orchestrator_event orchestrator_notice
  | Wb_changed
  | Wb_platform_status_changed string string "string option"
  | Wb_platform_bounds string view_bounds
  | Wb_reload_platform
  | Wb_set_mode string
  | Wb_manual_send
  | Wb_no_save_send
  | Wb_cancel
  | Wb_activate_conversation "string option"
  | Wb_queue_scope queue_scope
  | Wb_queue_platform "string option"
  | Wb_draft string
  | Wb_apply_suggestion
  | Wb_submit
  | Wb_refresh_jobs
  | Wb_start_learning string
  | Wb_review string
  | Wb_audit string
  | Wb_optimization string string "string option"
  | Wb_cancel_job string
  | Wb_jobs_changed
  | Wb_learning_changed string
  | Wb_review_changed string
  | Wb_audit_changed string
  | Wb_optimization_changed string
  | Wb_import_select
  | Wb_import_plan
  | Wb_import_apply
  | Wb_import_cancel
  | Wb_import_refresh
  | Wb_import_changed "string option"

definition answer_call :: "(string \<Rightarrow> bool) \<Rightarrow> nat \<Rightarrow> api_answer \<Rightarrow> workbench \<Rightarrow> workbench" where
  "answer_call has n a w =
     (if n \<ge> length (wb_calls w) then w
      else let c = fst (wb_calls w ! n); k = snd (wb_calls w ! n) in
        resume has k a (w\<lparr>wb_calls := take n (wb_calls w) @ drop (Suc n) (wb_calls w), wb_answered := wb_answered w @ [(c, k, a)]\<rparr>))"

text \<open>\<open>Wb_changed\<close> stands for the change of the worker's status and of the shops.\<close>

fun workbench_step :: "(string \<Rightarrow> bool) \<Rightarrow> workbench_event \<Rightarrow> workbench \<Rightarrow> workbench" where
  "workbench_step has Wb_boot w = wb_boot w"
| "workbench_step has (Wb_answer n a) w = answer_call has n a w"
| "workbench_step has (Wb_select_shop shop) w = wb_selectShop shop w"
| "workbench_step has (Wb_orchestrator_event ev) w = onEvent ev w"
| "workbench_step has Wb_changed w = resync w"
| "workbench_step has (Wb_platform_status_changed shop st e) w = applyPlatformStatusChanged shop st e w"
| "workbench_step has (Wb_platform_bounds shop b) w = reportPlatformBounds shop b w"
| "workbench_step has Wb_reload_platform w = wb_reloadPlatform w"
| "workbench_step has (Wb_set_mode mode) w = wb_setMode mode w"
| "workbench_step has Wb_manual_send w = run_command Cmd_manual_send Call_manualSend w"
| "workbench_step has Wb_no_save_send w = run_command Cmd_no_save_send Call_noSaveSend w"
| "workbench_step has Wb_cancel w = run_command Cmd_cancel Call_cancel w"
| "workbench_step has (Wb_activate_conversation c) w = activateConversation has c w"
| "workbench_step has (Wb_queue_scope sc) w = wb_setQueueScope has sc w"
| "workbench_step has (Wb_queue_platform p) w = wb_setQueuePlatform has p w"
| "workbench_step has (Wb_draft txt) w = updateComposerDraft txt w"
| "workbench_step has Wb_apply_suggestion w = applySuggestion w"
| "workbench_step has Wb_submit w = submitComposer w"
| "workbench_step has Wb_refresh_jobs w = refreshJobs has w"
| "workbench_step has (Wb_start_learning src) w = panel_call has ''startLearning'' (Call_startLearning src) w"
| "workbench_step has (Wb_review a) w = panel_call has ''reviewAction'' (Call_reviewAction a) w"
| "workbench_step has (Wb_audit a) w = panel_call has ''auditAction'' (Call_auditAction a) w"
| "workbench_step has (Wb_optimization a product detail) w = panel_call has ''optimizationAction'' (Call_optimizationAction a product detail) w"
| "workbench_step has (Wb_cancel_job j) w = panel_call has ''cancelJob'' (Call_cancelJob j) w"
| "workbench_step has Wb_jobs_changed w = refreshJobs has w"
| "workbench_step has (Wb_learning_changed e) w = setM10 (\<lambda>v. v\<lparr>mv_lastLearningEvent := Some e\<rparr>) w"
| "workbench_step has (Wb_review_changed e) w = setM10 (\<lambda>v. v\<lparr>mv_lastReviewEvent := Some e\<rparr>) w"
| "workbench_step has (Wb_audit_changed e) w = setM10 (\<lambda>v. v\<lparr>mv_lastAuditEvent := Some e\<rparr>) w"
| "workbench_step has (Wb_optimization_changed e) w = setM10 (\<lambda>v. v\<lparr>mv_lastOptimizationEvent := Some e\<rparr>) w"
| "workbench_step has Wb_import_select w = (if has ''selectLegacyImportSource'' then api Call_selectLegacyImportSource K_select w else w)"
| "workbench_step has Wb_import_plan w = planLegacyImport has w"
| "workbench_step has Wb_import_apply w = applyLegacyImport has w"
| "workbench_step has Wb_import_cancel w = cancelLegacyImport has w"
| "workbench_step has Wb_import_refresh w = refreshLegacyImportStatus has None w"
| "workbench_step has (Wb_import_changed sid) w = (case sid of None \<Rightarrow> w | Some s \<Rightarrow> refreshLegacyImportStatus has (Some s) w)"

end
