(* ===== verification/Workbench_Props.thy ===== *)
theory Workbench_Props imports Workbench_Store begin

text \<open>
  Properties of the workbench over every order of events and answers: the timeline is that of the active conversation and was sent for
  it, the platform panel is that of the selected shop, at most one snapshot is asked for at a time, and drafts are only changed by
  the user. The last section shows what goes wrong when a shop, a filter or a conversation is left while calls are under way.
\<close>

lemmas workbench_defs = wb_boot_def refreshQueue_def applyBootstrap_def applyViewModel_def wb_setQueueScope_def wb_setQueuePlatform_def
  refreshTimeline_def activateConversation_def updateComposerDraft_def applySuggestion_def submitComposer_def resync_def onEvent_def
  activatePlatformFor_def wb_selectShop_def applyPlatformStatus_def applyPlatformStatusChanged_def reportPlatformBounds_def
  wb_reloadPlatform_def wb_setMode_def run_command_def finishCommand_def refreshJobs_def panel_call_def setM10_def setLegacyImport_def
  planLegacyImport_def applyLegacyImport_def refreshLegacyImportStatus_def cancelLegacyImport_def queue_answered_def timeline_answered_def
  resync_answered_def activation_answered_def command_answered_def on_error_def set_error_def selected_def

lemmas ui_defs = ui_selectShop_def ui_setQueueScope_def ui_setQueueItems_def ui_setQueuePlatform_def ui_setQueueOptions_def ui_setQueueError_def
  ui_setActiveConversation_def ui_setTimelineLoading_def ui_setTimelineItems_def ui_setTimelineError_def ui_clearTimeline_def
  ui_setComposerDraft_def ui_applySuggestion_def

lemma api_simps [simp]: "wb_ui (api c k w) = wb_ui w" "wb_calls (api c k w) = wb_calls w @ [(c, k)]" "wb_answered (api c k w) = wb_answered w"
  "wb_timelineRequestSeq (api c k w) = wb_timelineRequestSeq w" "wb_queueRequestSeq (api c k w) = wb_queueRequestSeq w"
  "wb_resyncInFlight (api c k w) = wb_resyncInFlight w"
  by (simp_all add: api_def)

lemma set_ui_simps [simp]: "wb_ui (set_ui f w) = f (wb_ui w)" "wb_calls (set_ui f w) = wb_calls w" "wb_answered (set_ui f w) = wb_answered w"
  "wb_timelineRequestSeq (set_ui f w) = wb_timelineRequestSeq w" "wb_queueRequestSeq (set_ui f w) = wb_queueRequestSeq w"
  "wb_resyncInFlight (set_ui f w) = wb_resyncInFlight w"
  by (simp_all add: set_ui_def)

text \<open>A part of the state that the store's operations leave alone is read by \<open>f\<close>; \<open>keeps\<close> lists the operations it has to survive.\<close>

subsection \<open>The timeline\<close>

definition timeline_calls :: "workbench \<Rightarrow> (nat \<times> string) set" where
  "timeline_calls w = {(n, c). K_timeline n c \<in> snd ` set (wb_calls w)}"

definition timeline_requests :: "workbench \<Rightarrow> (api_call \<times> nat \<times> string) set" where
  "timeline_requests w = {(x, n, c). (x, K_timeline n c) \<in> set (wb_calls w)}"

lemma timeline_calls_requests: "timeline_calls w = snd ` timeline_requests w"
  by (force simp: timeline_calls_def timeline_requests_def)

text \<open>The conversation that a pending request asks for is the one that its continuation puts on the timeline.\<close>

definition asked :: "workbench \<Rightarrow> bool" where
  "asked w \<longleftrightarrow> (\<forall>(x, n, c) \<in> timeline_requests w. x = Call_listConversationMessages c)"

definition timeline_part :: "workbench \<Rightarrow> string option \<times> timeline_message list \<times> string option \<times> nat \<times> (api_call \<times> nat \<times> string) set
    \<times> (api_call \<times> continuation \<times> api_answer) list" where
  "timeline_part w = (ui_timelineConversationId (wb_ui w), ui_timelineMessages (wb_ui w), ui_activeConversationId (wb_ui w),
     wb_timelineRequestSeq w, timeline_requests w, wb_answered w)"

lemma timeline_part_api [simp]: "(\<And>n c. k \<noteq> K_timeline n c) \<Longrightarrow> timeline_part (api a k w) = timeline_part w"
  by (auto simp: timeline_part_def timeline_requests_def)

lemma timeline_part_fields [simp]: "timeline_part (w\<lparr>wb_resyncInFlight := b\<rparr>) = timeline_part w" "timeline_part (w\<lparr>wb_queueRequestSeq := q\<rparr>) = timeline_part w"
  by (simp_all add: timeline_part_def timeline_requests_def)

lemma timeline_part_set_ui:
  "ui_timelineConversationId (f (wb_ui w)) = ui_timelineConversationId (wb_ui w) \<Longrightarrow> ui_timelineMessages (f (wb_ui w)) = ui_timelineMessages (wb_ui w) \<Longrightarrow>
   ui_activeConversationId (f (wb_ui w)) = ui_activeConversationId (wb_ui w) \<Longrightarrow> timeline_part (set_ui f w) = timeline_part w"
  by (simp add: timeline_part_def timeline_requests_def)

lemma timeline_part_queue [simp]: "timeline_part (refreshQueue has sc p w) = timeline_part w"
  by (auto simp: refreshQueue_def timeline_part_set_ui ui_defs Let_def)

lemma timeline_part_resync [simp]: "timeline_part (resync w) = timeline_part w" "timeline_part (set_error m w) = timeline_part w"
  "timeline_part (refreshJobs has w) = timeline_part w" "timeline_part (refreshLegacyImportStatus has s w) = timeline_part w"
  by (auto simp: resync_def set_error_def refreshJobs_def refreshLegacyImportStatus_def timeline_part_set_ui split: option.split)

lemma timeline_part_finish [simp]: "timeline_part (finishCommand e w) = timeline_part w"
  by (auto simp: finishCommand_def timeline_part_set_ui Let_def split: option.split)

lemma timeline_part_activate [simp]: "timeline_part (activatePlatformFor shop w) = timeline_part w" "timeline_part (wb_selectShop shop w) = timeline_part w"
  by (auto simp: activatePlatformFor_def wb_selectShop_def timeline_part_set_ui ui_defs Let_def split: option.split)

lemma timeline_part_resume:
  assumes "\<And>n c. k \<noteq> K_timeline n c"
  shows "timeline_part (resume has k a w) = timeline_part w"
  using assms
  by (cases k; cases a)
    (auto simp: applyBootstrap_def queue_answered_def resync_answered_def applyViewModel_def activation_answered_def command_answered_def
      on_error_def applyPlatformStatus_def setM10_def setLegacyImport_def timeline_part_set_ui ui_defs)

lemma timeline_part_step:
  assumes "\<And>n a. e \<noteq> Wb_answer n a" and "\<And>c. e \<noteq> Wb_activate_conversation c"
  shows "timeline_part (workbench_step has e w) = timeline_part w"
  using assms
  by (cases e)
    (auto simp: wb_boot_def onEvent_def applyPlatformStatusChanged_def reportPlatformBounds_def wb_reloadPlatform_def wb_setMode_def run_command_def
      wb_setQueueScope_def wb_setQueuePlatform_def updateComposerDraft_def applySuggestion_def submitComposer_def panel_call_def setM10_def
      planLegacyImport_def applyLegacyImport_def cancelLegacyImport_def timeline_part_set_ui ui_defs split: option.split)

definition tl_ok :: "bool \<Rightarrow> string option \<Rightarrow> timeline_message list \<Rightarrow> string option \<Rightarrow> nat \<Rightarrow> (nat \<times> string) set \<Rightarrow> (api_call \<times> continuation \<times> api_answer) list \<Rightarrow> bool" where
  "tl_ok h tid ms active seq calls answered \<longleftrightarrow>
     (\<forall>c. active = Some c \<longrightarrow> tid = Some c) \<and> (tid = None \<longrightarrow> ms = [])
     \<and> (\<forall>c. tid = Some c \<longrightarrow> ms \<noteq> [] \<longrightarrow> (\<exists>n. (Call_listConversationMessages c, K_timeline n c, A_timeline ms) \<in> set answered))
     \<and> (\<not> h \<longrightarrow> calls = {})
     \<and> (\<forall>c d. (seq, c) \<in> calls \<longrightarrow> (seq, d) \<in> calls \<longrightarrow> c = d)
     \<and> (\<forall>n c. (n, c) \<in> calls \<longrightarrow> n \<le> seq)
     \<and> (\<forall>c. (seq, c) \<in> calls \<longrightarrow> tid \<in> {None, Some c} \<and> active \<in> {None, Some c})"

definition tl_inv :: "(string \<Rightarrow> bool) \<Rightarrow> workbench \<Rightarrow> bool" where
  "tl_inv has w \<longleftrightarrow> (case timeline_part w of (tid, ms, active, seq, reqs, answered) \<Rightarrow> tl_ok (has ''listConversationMessages'') tid ms active seq (snd ` reqs) answered)"

lemma tl_okI:
  "(\<And>c. active = Some c \<Longrightarrow> tid = Some c) \<Longrightarrow> (tid = None \<Longrightarrow> ms = []) \<Longrightarrow>
   (\<And>c. tid = Some c \<Longrightarrow> ms \<noteq> [] \<Longrightarrow> \<exists>n. (Call_listConversationMessages c, K_timeline n c, A_timeline ms) \<in> set answered) \<Longrightarrow> (\<not> h \<Longrightarrow> calls = {}) \<Longrightarrow>
   (\<And>c d. (seq, c) \<in> calls \<Longrightarrow> (seq, d) \<in> calls \<Longrightarrow> c = d) \<Longrightarrow> (\<And>n c. (n, c) \<in> calls \<Longrightarrow> n \<le> seq) \<Longrightarrow>
   (\<And>c. (seq, c) \<in> calls \<Longrightarrow> tid = None \<or> tid = Some c) \<Longrightarrow> (\<And>c. (seq, c) \<in> calls \<Longrightarrow> active = None \<or> active = Some c) \<Longrightarrow>
   tl_ok h tid ms active seq calls answered"
  unfolding tl_ok_def by simp

lemma tl_okD:
  assumes "tl_ok h tid ms active seq calls answered"
  shows "active = Some c \<Longrightarrow> tid = Some c" "tid = None \<Longrightarrow> ms = []"
    "tid = Some c \<Longrightarrow> ms \<noteq> [] \<Longrightarrow> \<exists>n. (Call_listConversationMessages c, K_timeline n c, A_timeline ms) \<in> set answered" "\<not> h \<Longrightarrow> calls = {}"
    "(seq, c) \<in> calls \<Longrightarrow> (seq, d) \<in> calls \<Longrightarrow> c = d" "(n, c) \<in> calls \<Longrightarrow> n \<le> seq"
    "(seq, c) \<in> calls \<Longrightarrow> tid = None \<or> tid = Some c" "(seq, c) \<in> calls \<Longrightarrow> active = None \<or> active = Some c"
  using assms unfolding tl_ok_def by auto

lemma tl_ok_calls:
  assumes "tl_ok h tid ms active seq calls answered" and sub: "calls' \<subseteq> calls"
  shows "tl_ok h tid ms active seq calls' (answered @ extra)"
proof -
  note D = tl_okD [OF assms(1)]
  have old: "\<And>n c. (n, c) \<in> calls' \<Longrightarrow> (n, c) \<in> calls" using sub by blast
  show ?thesis
  proof (rule tl_okI)
    show "\<exists>n. (Call_listConversationMessages c, K_timeline n c, A_timeline ms) \<in> set (answered @ extra)" if "tid = Some c" "ms \<noteq> []" for c
      using D(3) [OF that] by auto
    show "calls' = {}" if "\<not> h" using D(4) [OF that] sub by simp
    show "tid = Some c" if "active = Some c" for c by (rule D(1) [OF that])
    show "ms = []" if "tid = None" by (rule D(2) [OF that])
    show "c = d" if "(seq, c) \<in> calls'" "(seq, d) \<in> calls'" for c d by (rule D(5) [OF old [OF that(1)] old [OF that(2)]])
    show "n \<le> seq" if "(n, c) \<in> calls'" for n c by (rule D(6) [OF old [OF that]])
    show "tid = None \<or> tid = Some c" if "(seq, c) \<in> calls'" for c by (rule D(7) [OF old [OF that]])
    show "active = None \<or> active = Some c" if "(seq, c) \<in> calls'" for c by (rule D(8) [OF old [OF that]])
  qed
qed

lemma tl_ok_close: "tl_ok h tid ms active seq calls answered \<Longrightarrow> tl_ok h None [] None seq calls answered"
  by (rule tl_okI) (auto dest: tl_okD)

lemma tl_ok_open:
  assumes "tl_ok h tid ms active seq calls answered"
  shows "h \<Longrightarrow> tl_ok h (Some c) (if tid = Some c then ms else []) (Some c) (Suc seq) (insert (Suc seq, c) calls) answered"
    and "\<not> h \<Longrightarrow> tl_ok h (Some c) (if tid = Some c then ms else []) (Some c) seq calls answered"
proof -
  note D = tl_okD [OF assms]
  have new: "(Suc seq, d) \<notin> calls" for d using D(6) [of "Suc seq" d] by auto
  have ms: "\<exists>n. (Call_listConversationMessages d, K_timeline n d, A_timeline (if tid = Some c then ms else [])) \<in> set answered"
    if "Some c = Some d" "(if tid = Some c then ms else []) \<noteq> []" for d
    using D(3) [of d] that by (auto split: if_split_asm)
  show "tl_ok h (Some c) (if tid = Some c then ms else []) (Some c) (Suc seq) (insert (Suc seq, c) calls) answered" if h
  proof (rule tl_okI)
    show "n \<le> Suc seq" if "(n, d) \<in> insert (Suc seq, c) calls" for n d using D(6) [of n d] that by auto
  qed (use new ms that in auto)
  show "tl_ok h (Some c) (if tid = Some c then ms else []) (Some c) seq calls answered" if "\<not> h"
    by (rule tl_okI) (use D(4) [OF that] ms that in auto)
qed

lemma tl_ok_answer:
  assumes "tl_ok h tid ms active seq calls answered" and c: "(seq, c) \<in> calls" and sub: "calls' \<subseteq> calls"
    and ms: "ms' \<noteq> [] \<Longrightarrow> \<exists>n. (Call_listConversationMessages c, K_timeline n c, A_timeline ms') \<in> set (answered @ extra)"
  shows "tl_ok h (Some c) ms' active seq calls' (answered @ extra)"
proof -
  note D = tl_okD [OF assms(1)]
  have old: "\<And>n d. (n, d) \<in> calls' \<Longrightarrow> (n, d) \<in> calls" using sub by blast
  have same: "d = c" if "(seq, d) \<in> calls'" for d using D(5) [OF old [OF that] c] .
  show ?thesis
  proof (rule tl_okI)
    show "Some c = Some d" if "active = Some d" for d using D(8) [OF c] that by auto
    show "\<exists>n. (Call_listConversationMessages d, K_timeline n d, A_timeline ms') \<in> set (answered @ extra)" if "Some c = Some d" "ms' \<noteq> []" for d using ms that by auto
    show "calls' = {}" if "\<not> h" using D(4) [OF that] sub by simp
    show "d = e" if "(seq, d) \<in> calls'" "(seq, e) \<in> calls'" for d e using same that by blast
    show "n \<le> seq" if "(n, d) \<in> calls'" for n d using D(6) old that by blast
    show "Some c = None \<or> Some c = Some d" if "(seq, d) \<in> calls'" for d using same [OF that] by simp
    show "active = None \<or> active = Some d" if "(seq, d) \<in> calls'" for d using D(8) [OF c] same [OF that] by simp
  qed simp
qed

lemma tl_inv_part: "timeline_part v = timeline_part w \<Longrightarrow> tl_inv has v = tl_inv has w" "timeline_part v = timeline_part w \<Longrightarrow> asked v = asked w"
  by (simp add: tl_inv_def) (simp add: asked_def timeline_part_def)

text \<open>Taking a call out of the list and noting its answer.\<close>

definition taken :: "nat \<Rightarrow> api_answer \<Rightarrow> workbench \<Rightarrow> workbench" where
  "taken n a w = w\<lparr>wb_calls := take n (wb_calls w) @ drop (Suc n) (wb_calls w), wb_answered := wb_answered w @ [(fst (wb_calls w ! n), snd (wb_calls w ! n), a)]\<rparr>"

lemma answer_call_taken: "answer_call has n a w = (if n \<ge> length (wb_calls w) then w else resume has (snd (wb_calls w ! n)) a (taken n a w))"
  by (simp add: answer_call_def taken_def Let_def)

lemma taken_simps [simp]: "wb_ui (taken n a w) = wb_ui w" "wb_timelineRequestSeq (taken n a w) = wb_timelineRequestSeq w"
  "wb_queueRequestSeq (taken n a w) = wb_queueRequestSeq w" "wb_resyncInFlight (taken n a w) = wb_resyncInFlight w"
  "wb_answered (taken n a w) = wb_answered w @ [(fst (wb_calls w ! n), snd (wb_calls w ! n), a)]"
  by (simp_all add: taken_def)

lemma taken_calls: "set (wb_calls (taken n a w)) \<subseteq> set (wb_calls w)"
  by (auto simp: taken_def dest: in_set_takeD in_set_dropD)

lemma taken_timeline_calls: "timeline_calls (taken n a w) \<subseteq> timeline_calls w"
  using taken_calls [of n a w] by (auto simp: timeline_calls_def)

lemma timeline_calls_simps [simp]: "timeline_calls (set_ui f v) = timeline_calls v" "timeline_calls (v\<lparr>wb_timelineRequestSeq := q\<rparr>) = timeline_calls v"
  "timeline_calls (api x (K_timeline q d) v) = insert (q, d) (timeline_calls v)"
  by (auto simp: timeline_calls_def)

lemma tl_inv_iff: "tl_inv has w \<longleftrightarrow> tl_ok (has ''listConversationMessages'') (ui_timelineConversationId (wb_ui w)) (ui_timelineMessages (wb_ui w))
    (ui_activeConversationId (wb_ui w)) (wb_timelineRequestSeq w) (timeline_calls w) (wb_answered w)"
  by (simp add: tl_inv_def timeline_part_def timeline_calls_requests)

lemma askedD: "asked w \<Longrightarrow> (x, K_timeline n c) \<in> set (wb_calls w) \<Longrightarrow> x = Call_listConversationMessages c"
  unfolding asked_def timeline_requests_def by blast

lemma asked_fewer: "asked w \<Longrightarrow> set (wb_calls v) \<subseteq> set (wb_calls w) \<Longrightarrow> asked v"
  unfolding asked_def timeline_requests_def by blast

lemma taken_inv: "tl_inv has w \<Longrightarrow> tl_inv has (taken n a w)"
  using tl_ok_calls [OF _ taken_timeline_calls] by (simp add: tl_inv_iff)

lemmas taken_asked = asked_fewer [OF _ taken_calls]

lemma asked_call:
  assumes "asked w" and "n < length (wb_calls w)" and "snd (wb_calls w ! n) = K_timeline k c"
  shows "fst (wb_calls w ! n) = Call_listConversationMessages c"
  using askedD [OF assms(1), of "fst (wb_calls w ! n)" k c] nth_mem [OF assms(2)] by (simp add: assms(3) [symmetric])

lemma timeline_requests_simps [simp]: "timeline_requests (set_ui f v) = timeline_requests v"
  "timeline_requests (v\<lparr>wb_timelineRequestSeq := q\<rparr>) = timeline_requests v"
  "timeline_requests (api x (K_timeline q d) v) = insert (x, q, d) (timeline_requests v)"
  by (auto simp: timeline_requests_def)

lemma timeline_answered_asked: "asked w \<Longrightarrow> asked (timeline_answered k c a w)"
  by (cases a) (simp_all add: timeline_answered_def asked_def)

lemma activateConversation_asked: "asked w \<Longrightarrow> asked (activateConversation has conv w)"
  by (cases conv) (auto simp: asked_def activateConversation_def refreshTimeline_def ui_defs Let_def)

lemma timeline_answered_inv:
  assumes "tl_inv has w" and "n < length (wb_calls w)" and "snd (wb_calls w ! n) = K_timeline k c"
    and "fst (wb_calls w ! n) = Call_listConversationMessages c"
  shows "tl_inv has (timeline_answered k c a (taken n a w))"
proof (cases "k = wb_timelineRequestSeq w")
  case True
  have mem: "(wb_timelineRequestSeq w, c) \<in> timeline_calls w" using nth_mem [OF assms(2)] assms(3) True by (force simp: timeline_calls_def)
  note answer = tl_ok_answer [OF assms(1) [unfolded tl_inv_iff] mem taken_timeline_calls]
  show ?thesis
  proof (cases a)
    case (A_error m)
    have "\<exists>n. (Call_listConversationMessages c, K_timeline n c, A_timeline (ui_timelineMessages (wb_ui w))) \<in> set (wb_answered w)" if "ui_timelineMessages (wb_ui w) \<noteq> []"
      using tl_okD(7) [OF assms(1) [unfolded tl_inv_iff] mem] tl_okD(2) [OF assms(1) [unfolded tl_inv_iff]]
        tl_okD(3) [OF assms(1) [unfolded tl_inv_iff], of c] that by auto
    then show ?thesis using True answer [of "ui_timelineMessages (wb_ui w)" "[(fst (wb_calls w ! n), snd (wb_calls w ! n), a)]" n a]
      by (auto simp: A_error timeline_answered_def tl_inv_iff ui_setTimelineError_def)
  next
    case (A_timeline ms)
    then show ?thesis using True assms(3,4) answer [of ms "[(fst (wb_calls w ! n), snd (wb_calls w ! n), a)]" n a]
      by (auto simp: timeline_answered_def tl_inv_iff ui_setTimelineItems_def)
  qed (use taken_inv [OF assms(1)] in \<open>simp_all add: timeline_answered_def\<close>)
next
  case False
  then show ?thesis using taken_inv [OF assms(1)] by (simp add: timeline_answered_def)
qed

lemma activateConversation_inv:
  assumes "tl_inv has w"
  shows "tl_inv has (activateConversation has conv w)"
proof (cases conv)
  case None
  then show ?thesis using tl_ok_close [OF assms [unfolded tl_inv_iff]] by (simp add: tl_inv_iff activateConversation_def ui_defs)
next
  case (Some c)
  note ok = tl_ok_open [OF assms [unfolded tl_inv_iff], of c]
  show ?thesis
  proof (cases "has ''listConversationMessages''")
    case True
    then show ?thesis using ok(1) by (cases "ui_timelineConversationId (wb_ui w) = Some c") (simp_all add: Some tl_inv_iff activateConversation_def refreshTimeline_def ui_defs Let_def)
  next
    case False
    then show ?thesis using ok(2) by (cases "ui_timelineConversationId (wb_ui w) = Some c") (simp_all add: Some tl_inv_iff activateConversation_def refreshTimeline_def ui_defs Let_def)
  qed
qed

lemma answer_call_inv:
  assumes inv: "tl_inv has w" and ask: "asked w"
  shows "tl_inv has (answer_call has n a w) \<and> asked (answer_call has n a w)"
proof (cases "n < length (wb_calls w)")
  case len: True
  show ?thesis
  proof (cases "\<exists>k c. snd (wb_calls w ! n) = K_timeline k c")
    case True
    then obtain k c where k: "snd (wb_calls w ! n) = K_timeline k c" by blast
    show ?thesis using timeline_answered_inv [OF inv len k asked_call [OF ask len k]] timeline_answered_asked [OF taken_asked [OF ask]] len
      by (simp add: answer_call_taken k)
  next
    case False
    then have "timeline_part (resume has (snd (wb_calls w ! n)) a (taken n a w)) = timeline_part (taken n a w)" by (intro timeline_part_resume) blast
    from tl_inv_part [OF this] show ?thesis using taken_inv [OF inv] taken_asked [OF ask] len by (simp add: answer_call_taken)
  qed
qed (use inv ask in \<open>simp add: answer_call_taken\<close>)

interpretation workbench_timeline: step_invariant "workbench_step has" "\<lambda>w. tl_inv has w \<and> asked w" "\<lambda>_. True" for has
proof unfold_locales
  fix w e assume inv: "tl_inv has w \<and> asked w"
  consider n a where "e = Wb_answer n a" | c where "e = Wb_activate_conversation c"
    | "\<And>n a. e \<noteq> Wb_answer n a" "\<And>c. e \<noteq> Wb_activate_conversation c" by blast
  then show "tl_inv has (workbench_step has e w) \<and> asked (workbench_step has e w)"
  proof cases
    case 1
    then show ?thesis using answer_call_inv inv by simp
  next
    case 2
    then show ?thesis using activateConversation_inv activateConversation_asked inv by simp
  next
    case 3
    show ?thesis using tl_inv_part [OF timeline_part_step [OF 3]] inv by simp
  qed
qed

text \<open>
  Property C35. Whatever the user opens, closes and refreshes and in whatever order the answers come, fail or are rejected: while a
  conversation is active the timeline is that conversation's, and messages on it are those that came in answer to a call of
  \<open>listConversationMessages\<close> with that very conversation.
\<close>

theorem timeline_follows_active_conversation:
  assumes "w = run (workbench_step has) es new_workbench" and "ui_activeConversationId (wb_ui w) = Some c"
  shows "ui_timelineConversationId (wb_ui w) = Some c
    \<and> (ui_timelineMessages (wb_ui w) = [] \<or> (\<exists>n. (Call_listConversationMessages c, K_timeline n c, A_timeline (ui_timelineMessages (wb_ui w))) \<in> set (wb_answered w)))"
proof -
  have "tl_inv has new_workbench \<and> asked new_workbench"
    by (simp add: tl_inv_iff tl_ok_def timeline_calls_def asked_def timeline_requests_def new_workbench_def EMPTY_UI_STATE_def)
  then have "tl_inv has w \<and> asked w" unfolding assms(1) by (rule workbench_timeline.run_keeps) simp
  then show ?thesis using assms(2) tl_okD(1,3) unfolding tl_inv_iff by blast
qed

subsection \<open>The platform panel\<close>

definition platform_part :: "workbench \<Rightarrow> string option \<times> string option \<times> bool" where
  "platform_part w = (pl_activeShopId (ui_platform (wb_ui w)), ui_selectedShopId (wb_ui w), K_boot \<in> snd ` set (wb_calls w))"

definition platform_ok :: "workbench \<Rightarrow> bool" where
  "platform_ok w \<longleftrightarrow> (case platform_part w of (active, sel, boot) \<Rightarrow> (\<forall>shop. active = Some shop \<longrightarrow> sel = Some shop) \<and> \<not> boot)"

lemma platform_part_api [simp]: "k \<noteq> K_boot \<Longrightarrow> platform_part (api c k w) = platform_part w"
  by (auto simp: platform_part_def)

lemma platform_part_fields [simp]: "platform_part (w\<lparr>wb_resyncInFlight := b\<rparr>) = platform_part w" "platform_part (w\<lparr>wb_queueRequestSeq := q\<rparr>) = platform_part w"
  "platform_part (w\<lparr>wb_timelineRequestSeq := q\<rparr>) = platform_part w"
  by (simp_all add: platform_part_def)

lemma platform_part_set_ui:
  "ui_platform (f (wb_ui w)) = ui_platform (wb_ui w) \<Longrightarrow> ui_selectedShopId (f (wb_ui w)) = ui_selectedShopId (wb_ui w) \<Longrightarrow>
   platform_part (set_ui f w) = platform_part w"
  by (simp add: platform_part_def)

lemma platform_part_common [simp]: "platform_part (resync w) = platform_part w" "platform_part (set_error m w) = platform_part w"
  "platform_part (refreshJobs has w) = platform_part w" "platform_part (refreshLegacyImportStatus has s w) = platform_part w"
  "platform_part (refreshQueue has sc p w) = platform_part w" "platform_part (refreshTimeline has c w) = platform_part w"
  by (auto simp: resync_def set_error_def refreshJobs_def refreshLegacyImportStatus_def refreshQueue_def refreshTimeline_def platform_part_set_ui
      ui_defs Let_def split: option.split)

lemma platform_part_conversation [simp]: "platform_part (activateConversation has c w) = platform_part w"
  by (auto simp: activateConversation_def platform_part_set_ui ui_defs Let_def split: option.split)

lemma platform_part_finish [simp]: "platform_part (finishCommand e w) = platform_part w"
  by (auto simp: finishCommand_def platform_part_set_ui Let_def split: option.split)

lemma platform_part_taken: "platform_ok w \<Longrightarrow> platform_ok (taken n a w)"
  using taken_calls [of n a w] by (auto simp: platform_ok_def platform_part_def)

lemma platform_ok_part: "platform_part v = platform_part w \<Longrightarrow> platform_ok v = platform_ok w"
  by (simp add: platform_ok_def)

text \<open>What may set the panel.\<close>

lemma platform_ok_set:
  assumes "platform_ok w" and "pl_activeShopId p \<in> {None, selected w}"
  shows "platform_ok (set_ui (\<lambda>u. u\<lparr>ui_platform := p\<rparr>) w)"
  using assms by (auto simp: platform_ok_def platform_part_def selected_def)

lemma platform_ok_view: "platform_ok w \<Longrightarrow> platform_ok (applyViewModel vm w)"
  by (auto simp: platform_ok_def platform_part_def applyViewModel_def split: option.split)

lemma platform_ok_status: "platform_ok w \<Longrightarrow> platform_ok (applyPlatformStatus v w)" "platform_ok w \<Longrightarrow> platform_ok (applyPlatformStatusChanged shop st e w)"
  by (auto simp: applyPlatformStatus_def applyPlatformStatusChanged_def platform_ok_def platform_part_def selected_def)

lemma platform_ok_activate: "platform_ok w \<Longrightarrow> platform_ok (activatePlatformFor shop w)"
  by (auto simp: activatePlatformFor_def platform_ok_def platform_part_def EMPTY_PLATFORM_VIEW_STATE_def)

lemma platform_ok_select:
  assumes "platform_ok w"
  shows "platform_ok (wb_selectShop shop w)"
proof -
  let ?w1 = "set_ui (\<lambda>u. (ui_selectShop shop u)\<lparr>ui_pendingCommand := None, ui_platform := EMPTY_PLATFORM_VIEW_STATE\<rparr>) w"
  have "platform_ok ?w1" using assms by (simp add: platform_ok_def platform_part_def EMPTY_PLATFORM_VIEW_STATE_def)
  then have "platform_ok (case non_empty (selected w) of
       Some p \<Rightarrow> if p \<noteq> shop \<and> shop_type shop (wb_ui ?w1) \<noteq> Some ''pdd'' then api (Call_setPlatformViewBounds p closed_bounds) K_none ?w1 else ?w1
     | None \<Rightarrow> ?w1)"
    by (auto simp: platform_ok_part [OF platform_part_api] split: option.split)
  then show ?thesis using platform_ok_activate platform_ok_part [OF platform_part_common(1)] by (simp add: wb_selectShop_def Let_def)
qed

lemma platform_ok_resume:
  assumes ok: "platform_ok w" and "k \<noteq> K_boot"
  shows "platform_ok (resume has k a w)"
proof (cases "(\<exists>shop. k = K_activate shop) \<or> (\<exists>shop. k = K_status shop) \<or> k = K_resync")
  case True
  have e: "pl_activeShopId (platform_error shop m) = Some shop" for shop m by (simp add: platform_error_def)
  have api: "platform_ok (api (Call_getPlatformStatus shop) (K_status shop) w)" for shop using ok by (simp add: platform_ok_def)
  have f: "platform_ok (v\<lparr>wb_resyncInFlight := b\<rparr>) = platform_ok v" for v b by (rule platform_ok_part) simp
  have m: "platform_ok (set_error x w)" for x using ok by (simp add: platform_ok_def)
  show ?thesis using True ok platform_ok_set [OF ok] platform_ok_status(1) [OF ok] platform_ok_view [OF ok] api f m
    by (cases a) (auto simp: activation_answered_def resync_answered_def e)
next
  case False
  have "platform_part (resume has k a w) = platform_part w"
    using assms(2) False
    by (cases k; cases a)
      (auto simp: queue_answered_def timeline_answered_def command_answered_def on_error_def setM10_def setLegacyImport_def platform_part_set_ui ui_defs)
  then show ?thesis using platform_ok_part ok by blast
qed

lemma platform_ok_step:
  assumes ok: "platform_ok w" and "e \<noteq> Wb_boot"
  shows "platform_ok (workbench_step has e w)"
proof -
  have answer: "platform_ok (answer_call has n a w)" for n a
  proof (cases "n < length (wb_calls w)")
    case True
    have "snd (wb_calls w ! n) \<noteq> K_boot" using ok nth_mem [OF True] by (force simp: platform_ok_def platform_part_def)
    then show ?thesis using platform_ok_resume [OF platform_part_taken [OF ok]] True by (simp add: answer_call_taken)
  qed (use ok in \<open>simp add: answer_call_taken\<close>)
  consider n a where "e = Wb_answer n a" | shop where "e = Wb_select_shop shop" | shop st x where "e = Wb_platform_status_changed shop st x"
    | "\<And>n a. e \<noteq> Wb_answer n a" "\<And>shop. e \<noteq> Wb_select_shop shop" "\<And>shop st x. e \<noteq> Wb_platform_status_changed shop st x" by blast
  then show ?thesis
  proof cases
    case 4
    have "platform_part (workbench_step has e w) = platform_part w"
      using 4 assms(2)
      by (cases e)
        (auto simp: onEvent_def reportPlatformBounds_def wb_reloadPlatform_def wb_setMode_def run_command_def
          wb_setQueueScope_def wb_setQueuePlatform_def updateComposerDraft_def applySuggestion_def submitComposer_def panel_call_def setM10_def
          planLegacyImport_def applyLegacyImport_def cancelLegacyImport_def platform_part_set_ui ui_defs split: option.split)
    then show ?thesis using platform_ok_part ok by blast
  qed (use ok answer platform_ok_select platform_ok_status(2) in auto)
qed

interpretation workbench_platform: step_invariant "workbench_step has" platform_ok "\<lambda>e. e \<noteq> Wb_boot" for has
  by unfold_locales (rule platform_ok_step)

text \<open>
  After the workbench has started, whatever shops are selected and in whatever order activations, status queries, pushed status
  changes and snapshots are answered, fail or are rejected, the platform panel shows a session of the selected shop or none.
\<close>

theorem platform_panel_is_of_selected_shop:
  assumes "w = run (workbench_step has) es (applyBootstrap has vm new_workbench)" and "Wb_boot \<notin> set es"
    and "pl_activeShopId (ui_platform (wb_ui w)) = Some shop"
  shows "ui_selectedShopId (wb_ui w) = Some shop"
proof -
  have "platform_ok (applyBootstrap has vm new_workbench)"
    by (simp add: applyBootstrap_def platform_ok_def)
      (simp add: platform_part_def new_workbench_def EMPTY_UI_STATE_def EMPTY_PLATFORM_VIEW_STATE_def)
  then have "platform_ok w" unfolding assms(1) by (rule workbench_platform.run_keeps) (use assms(2) in auto)
  then show ?thesis using assms(3) by (simp add: platform_ok_def platform_part_def)
qed

subsection \<open>Snapshots\<close>

definition snapshot_calls :: "workbench \<Rightarrow> nat" where
  "snapshot_calls w = length (filter (\<lambda>x. snd x = K_resync) (wb_calls w))"

definition snapshot_ok :: "workbench \<Rightarrow> bool" where
  "snapshot_ok w \<longleftrightarrow> snapshot_calls w = (if wb_resyncInFlight w then 1 else 0)"

definition snapshot_part :: "workbench \<Rightarrow> nat \<times> bool" where
  "snapshot_part w = (snapshot_calls w, wb_resyncInFlight w)"

lemma snapshot_ok_part: "snapshot_part v = snapshot_part w \<Longrightarrow> snapshot_ok v = snapshot_ok w"
  by (simp add: snapshot_ok_def snapshot_part_def)

lemma snapshot_part_simps [simp]: "k \<noteq> K_resync \<Longrightarrow> snapshot_part (api c k w) = snapshot_part w" "snapshot_part (set_ui f w) = snapshot_part w"
  "snapshot_part (w\<lparr>wb_queueRequestSeq := q\<rparr>) = snapshot_part w" "snapshot_part (w\<lparr>wb_timelineRequestSeq := q\<rparr>) = snapshot_part w"
  by (simp_all add: snapshot_part_def snapshot_calls_def)

lemma snapshot_ok_resync: "snapshot_ok w \<Longrightarrow> snapshot_ok (resync w)"
  by (simp add: snapshot_ok_def resync_def snapshot_calls_def)

lemma snapshot_part_common [simp]: "snapshot_part (set_error m w) = snapshot_part w"
  "snapshot_part (refreshJobs has w) = snapshot_part w" "snapshot_part (refreshLegacyImportStatus has s w) = snapshot_part w"
  "snapshot_part (refreshQueue has sc p w) = snapshot_part w" "snapshot_part (refreshTimeline has c w) = snapshot_part w"
  "snapshot_part (activateConversation has conv w) = snapshot_part w" "snapshot_part (activatePlatformFor shop w) = snapshot_part w"
  by (auto simp: set_error_def refreshJobs_def refreshLegacyImportStatus_def refreshQueue_def refreshTimeline_def activateConversation_def
      activatePlatformFor_def Let_def split: option.split)

lemma snapshot_ok_more:
  assumes "snapshot_ok w"
  shows "snapshot_ok (finishCommand e w)" "snapshot_ok (wb_selectShop shop w)" "snapshot_ok (onEvent ev w)"
proof -
  have s: "snapshot_ok (set_ui f v) = snapshot_ok v" for f v by (rule snapshot_ok_part) simp
  show "snapshot_ok (finishCommand e w)"
    using assms snapshot_ok_resync s snapshot_ok_part [OF snapshot_part_common(1)] by (auto simp: finishCommand_def Let_def split: option.split)
  let ?w1 = "set_ui (\<lambda>u. (ui_selectShop shop u)\<lparr>ui_pendingCommand := None, ui_platform := EMPTY_PLATFORM_VIEW_STATE\<rparr>) w"
  let ?w2 = "case non_empty (selected w) of
       Some p \<Rightarrow> if p \<noteq> shop \<and> shop_type shop (wb_ui ?w1) \<noteq> Some ''pdd'' then api (Call_setPlatformViewBounds p closed_bounds) K_none ?w1 else ?w1
     | None \<Rightarrow> ?w1"
  have "snapshot_part (activatePlatformFor shop ?w2) = snapshot_part w" by (auto split: option.split)
  from snapshot_ok_resync [OF iffD2 [OF snapshot_ok_part [OF this] assms]] show "snapshot_ok (wb_selectShop shop w)"
    by (simp add: wb_selectShop_def Let_def)
  show "snapshot_ok (onEvent ev w)" using assms snapshot_ok_resync by (simp add: onEvent_def)
qed

lemma snapshot_part_resume:
  assumes "k \<noteq> K_resync" and "k \<noteq> K_command"
  shows "snapshot_part (resume has k a w) = snapshot_part w"
  using assms
  by (cases k; cases a)
    (auto simp: applyBootstrap_def queue_answered_def timeline_answered_def activation_answered_def
      on_error_def applyPlatformStatus_def setM10_def setLegacyImport_def)

lemma filter_take_drop:
  assumes "n < length xs"
  shows "length (filter P (take n xs @ drop (Suc n) xs)) = length (filter P xs) - (if P (xs ! n) then 1 else 0)"
proof -
  have "filter P xs = filter P (take n xs @ xs ! n # drop (Suc n) xs)" using id_take_nth_drop [OF assms] by simp
  then show ?thesis by simp
qed

lemma snapshot_ok_answer:
  assumes ok: "snapshot_ok w"
  shows "snapshot_ok (answer_call has n a w)"
proof (cases "n < length (wb_calls w)")
  case len: True
  let ?k = "snd (wb_calls w ! n)" and ?v = "taken n a w"
  have calls: "snapshot_calls ?v = snapshot_calls w - (if ?k = K_resync then 1 else 0)"
    using filter_take_drop [OF len] by (simp add: snapshot_calls_def taken_def)
  show ?thesis
  proof (cases "?k = K_resync")
    case True
    then have "0 < snapshot_calls w" using nth_mem [OF len] by (force simp: snapshot_calls_def filter_empty_conv)
    then have "snapshot_calls ?v = 0" using ok calls True by (simp add: snapshot_ok_def split: if_split_asm)
    moreover have "snapshot_calls (applyViewModel vm ?v) = snapshot_calls ?v" "snapshot_calls (set_error m ?v) = snapshot_calls ?v" for vm m
      by (simp_all add: applyViewModel_def set_error_def snapshot_calls_def)
    ultimately show ?thesis using True len
      by (cases a) (simp_all add: answer_call_taken resync_answered_def snapshot_ok_def, simp_all add: snapshot_calls_def)
  next
    case False
    then have v: "snapshot_ok ?v" using ok calls by (simp add: snapshot_ok_def)
    show ?thesis
    proof (cases "?k = K_command")
      case True
      have "snapshot_ok (command_answered a ?v)" using v snapshot_ok_more(1) [OF v] by (cases a) (simp_all add: command_answered_def)
      then show ?thesis using True len by (simp add: answer_call_taken)
    next
      case no: False
      show ?thesis using snapshot_ok_part [OF snapshot_part_resume [OF False no]] v len by (simp add: answer_call_taken)
    qed
  qed
qed (use ok in \<open>simp add: answer_call_taken\<close>)

lemma snapshot_ok_step:
  assumes ok: "snapshot_ok w"
  shows "snapshot_ok (workbench_step has e w)"
proof -
  consider n a where "e = Wb_answer n a" | shop where "e = Wb_select_shop shop" | ev where "e = Wb_orchestrator_event ev" | "e = Wb_changed"
    | "\<And>n a. e \<noteq> Wb_answer n a" "\<And>shop. e \<noteq> Wb_select_shop shop" "\<And>ev. e \<noteq> Wb_orchestrator_event ev" "e \<noteq> Wb_changed" by blast
  then show ?thesis
  proof cases
    case 5
    have "snapshot_part (workbench_step has e w) = snapshot_part w"
      using 5
      by (cases e)
        (auto simp: wb_boot_def applyPlatformStatusChanged_def reportPlatformBounds_def wb_reloadPlatform_def wb_setMode_def run_command_def
          wb_setQueueScope_def wb_setQueuePlatform_def updateComposerDraft_def applySuggestion_def submitComposer_def panel_call_def setM10_def
          planLegacyImport_def applyLegacyImport_def cancelLegacyImport_def split: option.split)
    then show ?thesis using snapshot_ok_part ok by blast
  qed (use ok snapshot_ok_answer snapshot_ok_more snapshot_ok_resync in auto)
qed

interpretation workbench_snapshots: step_invariant "workbench_step has" snapshot_ok "\<lambda>_. True" for has
  by unfold_locales (rule snapshot_ok_step)

text \<open>Over every history at most one snapshot is asked for at a time, and the flag says whether one is: it is never stuck.\<close>

theorem one_snapshot_at_a_time:
  assumes "w = run (workbench_step has) es new_workbench"
  shows "length (filter (\<lambda>x. snd x = K_resync) (wb_calls w)) = (if wb_resyncInFlight w then 1 else 0)"
proof -
  have "snapshot_ok new_workbench" by (simp add: snapshot_ok_def snapshot_calls_def new_workbench_def)
  then have "snapshot_ok w" unfolding assms by (rule workbench_snapshots.run_keeps) simp
  then show ?thesis by (simp add: snapshot_ok_def snapshot_calls_def)
qed

subsection \<open>Drafts\<close>

definition drafts :: "workbench \<Rightarrow> (string \<times> string) list" where
  "drafts w = ui_composerDrafts (wb_ui w)"

lemma drafts_set_ui: "ui_composerDrafts (f (wb_ui w)) = ui_composerDrafts (wb_ui w) \<Longrightarrow> drafts (set_ui f w) = drafts w"
  by (simp add: drafts_def)

lemma drafts_simps [simp]: "drafts (api c k w) = drafts w" "drafts (w\<lparr>wb_queueRequestSeq := q\<rparr>) = drafts w" "drafts (w\<lparr>wb_timelineRequestSeq := q\<rparr>) = drafts w"
  "drafts (w\<lparr>wb_resyncInFlight := b\<rparr>) = drafts w" "drafts (taken n a w) = drafts w"
  by (simp_all add: drafts_def)

lemma drafts_common [simp]: "drafts (resync w) = drafts w" "drafts (set_error m w) = drafts w"
  "drafts (refreshJobs has w) = drafts w" "drafts (refreshLegacyImportStatus has s w) = drafts w" "drafts (refreshQueue has sc p w) = drafts w"
  "drafts (refreshTimeline has c w) = drafts w"
  by (auto simp: resync_def set_error_def refreshJobs_def refreshLegacyImportStatus_def refreshQueue_def refreshTimeline_def
      drafts_set_ui ui_defs Let_def split: option.split)

lemma drafts_more [simp]: "drafts (finishCommand e w) = drafts w" "drafts (activateConversation has conv w) = drafts w"
  "drafts (activatePlatformFor shop w) = drafts w"
  by (auto simp: finishCommand_def activateConversation_def activatePlatformFor_def drafts_set_ui ui_defs Let_def split: option.split)

lemma drafts_select [simp]: "drafts (wb_selectShop shop w) = drafts w"
  by (auto simp: wb_selectShop_def drafts_set_ui ui_defs Let_def split: option.split)

lemma drafts_resume [simp]: "drafts (resume has k a w) = drafts w"
  by (cases k; cases a)
    (auto simp: applyBootstrap_def queue_answered_def timeline_answered_def resync_answered_def applyViewModel_def activation_answered_def
      command_answered_def on_error_def applyPlatformStatus_def setM10_def setLegacyImport_def drafts_set_ui ui_defs)

text \<open>
  A draft belongs to its conversation and to the user: whatever event or answer the workbench handles, the draft of a conversation changes
  only when that conversation is active and the user types, and then to what was typed, or applies the suggestion, and then only
  when the draft was empty.
\<close>

theorem drafts_change_only_by_the_user:
  "map_of (ui_composerDrafts (wb_ui (workbench_step has e w))) c = map_of (ui_composerDrafts (wb_ui w)) c
   \<or> (ui_activeConversationId (wb_ui w) = Some c
      \<and> ((\<exists>txt. e = Wb_draft txt \<and> map_of (ui_composerDrafts (wb_ui (workbench_step has e w))) c = Some txt)
         \<or> (e = Wb_apply_suggestion \<and> draft_of c (wb_ui w) = []
            \<and> map_of (ui_composerDrafts (wb_ui (workbench_step has e w))) c = map_option sg_reply (Option.bind (ui_viewModel (wb_ui w)) wv_suggestion))))"
proof -
  consider n a where "e = Wb_answer n a" | d where "e = Wb_draft d" | "e = Wb_apply_suggestion"
    | "\<And>n a. e \<noteq> Wb_answer n a" "\<And>txt. e \<noteq> Wb_draft txt" "e \<noteq> Wb_apply_suggestion" by blast
  then show ?thesis
  proof cases
    case 1
    then have "drafts (workbench_step has e w) = drafts w" by (simp add: answer_call_taken)
    then show ?thesis by (simp add: drafts_def)
  next
    case 2
    then show ?thesis by (auto simp: updateComposerDraft_def ui_setComposerDraft_def split: option.split)
  next
    case 3
    then show ?thesis
      by (cases "ui_activeConversationId (wb_ui w)"; cases "Option.bind (ui_viewModel (wb_ui w)) wv_suggestion")
        (auto simp: applySuggestion_def ui_applySuggestion_def draft_of_def split: option.split_asm)
  next
    case 4
    have "drafts (workbench_step has e w) = drafts w"
      using 4
      by (cases e)
        (auto simp: wb_boot_def onEvent_def applyPlatformStatusChanged_def reportPlatformBounds_def wb_reloadPlatform_def wb_setMode_def run_command_def
          wb_setQueueScope_def wb_setQueuePlatform_def submitComposer_def panel_call_def setM10_def
          planLegacyImport_def applyLegacyImport_def cancelLegacyImport_def drafts_set_ui split: option.split)
    then show ?thesis by (simp add: drafts_def)
  qed
qed

subsection \<open>A started workbench, witnesses and defects\<close>

definition sample_status :: worker_status_view where
  "sample_status = \<lparr>wk_status = ''ready'', wk_worker_version = None, wk_protocol_version = None, wk_last_error = None\<rparr>"

definition two_shop_view :: workbench_view where
  "two_shop_view = \<lparr>wv_revision = 1,
     wv_shop_summaries = [\<lparr>su_shop_id = ''a'', su_name = ''A'', su_type = ''pdd'', su_enabled = True\<rparr>, \<lparr>su_shop_id = ''b'', su_name = ''B'', su_type = ''pdd'', su_enabled = True\<rparr>],
     wv_selected_shop_id = Some ''a'',
     wv_conversation = Some \<lparr>cw_conversation_id = ''conv-of-a'', cw_shop_id = ''a'', cw_state = ''open'', cw_buyer = None\<rparr>,
     wv_suggestion = None, wv_mode = None, wv_countdown = None, wv_send_status = None, wv_takeover_status = None,
     wv_worker_status = sample_status, wv_last_error = None, wv_platform_capability = ''pdd''\<rparr>"

definition sample_messages :: "timeline_message list" where
  "sample_messages = [\<lparr>tl_message_id = ''m'', tl_actor = None, tl_content_kind = None, tl_content_text = None, tl_occurred_at = None\<rparr>]"

definition opened :: workbench where
  "opened = run (workbench_step (\<lambda>_. True))
     [Wb_activate_conversation (Some ''c1''), Wb_activate_conversation (Some ''c2''), Wb_answer 0 (A_error ''late''), Wb_answer 0 (A_timeline sample_messages)] new_workbench"

lemma opened_state: "ui_activeConversationId (wb_ui opened) = Some ''c2''" "ui_timelineMessages (wb_ui opened) = sample_messages"
  by code_simp+

theorem timeline_follows_active_conversation_witness:
  "ui_timelineConversationId (wb_ui opened) = Some ''c2'' \<and> ui_timelineMessages (wb_ui opened) = sample_messages
     \<and> (\<exists>n. (Call_listConversationMessages ''c2'', K_timeline n ''c2'', A_timeline sample_messages) \<in> set (wb_answered opened))"
  using timeline_follows_active_conversation [OF opened_def opened_state(1)] by (simp add: opened_state(2)) (simp add: sample_messages_def)

definition switched :: workbench where
  "switched = run (workbench_step (\<lambda>_. True))
     [Wb_select_shop ''b'', Wb_platform_status_changed ''b'' ''READY'' None] (applyBootstrap (\<lambda>_. True) two_shop_view new_workbench)"

lemma switched_panel: "pl_activeShopId (ui_platform (wb_ui switched)) = Some ''b''"
  by code_simp

theorem platform_panel_is_of_selected_shop_witness:
  "ui_selectedShopId (wb_ui switched) = Some ''b'' \<and> pl_activeShopId (ui_platform (wb_ui switched)) = Some ''b''"
proof -
  have "Wb_boot \<notin> set [Wb_select_shop ''b'', Wb_platform_status_changed ''b'' ''READY'' None]" by simp
  from platform_panel_is_of_selected_shop [OF switched_def this switched_panel] switched_panel show ?thesis by simp
qed

text \<open>
  Until the next snapshot arrives the view model is that of the shop selected before, and a send command names the selected shop together with the
  conversation of the other one. A snapshot already under way is not asked for again, and its answer, for the other shop, stays.
\<close>

theorem send_names_conversation_of_other_shop:
  "(Call_manualSend ''b'' ''conv-of-a'', K_command) \<in> set (wb_calls (run (workbench_step (\<lambda>_. True))
     [Wb_changed, Wb_select_shop ''b'', Wb_answer 1 (A_view two_shop_view), Wb_manual_send] (applyBootstrap (\<lambda>_. True) two_shop_view new_workbench)))"
  "length (filter (\<lambda>x. snd x = K_resync) (wb_calls (run (workbench_step (\<lambda>_. True))
     [Wb_changed, Wb_select_shop ''b'', Wb_answer 1 (A_view two_shop_view)] (applyBootstrap (\<lambda>_. True) two_shop_view new_workbench)))) = 0"
  by code_simp+

text \<open>Closing a conversation does not invalidate its request: the answer brings its messages back.\<close>

theorem closed_conversation_comes_back:
  "(\<lambda>u. (ui_activeConversationId u, ui_timelineConversationId u, ui_timelineMessages u)) (wb_ui (run (workbench_step (\<lambda>_. True))
     [Wb_activate_conversation (Some ''c1''), Wb_activate_conversation None, Wb_answer 0 (A_timeline sample_messages)] new_workbench))
   = (None, Some ''c1'', sample_messages)"
  by code_simp

text \<open>Choosing all platforms asks for the platform chosen before.\<close>

theorem platform_filter_cannot_be_cleared:
  assumes "has ''listConversations''"
  shows "(Call_listConversations (ui_queueScope (wb_ui w)) (ui_queuePlatform (wb_ui w)), K_queue (Suc (wb_queueRequestSeq w)))
      \<in> set (wb_calls (workbench_step has (Wb_queue_platform None) w))
    \<and> ui_queuePlatform (wb_ui (workbench_step has (Wb_queue_platform None) w)) = ui_queuePlatform (wb_ui w)"
  using assms by (simp add: wb_setQueuePlatform_def refreshQueue_def ui_defs Let_def)

text \<open>A snapshot that was under way when a command failed wipes its error.\<close>

theorem command_error_is_wiped:
  "ui_lastError (wb_ui (run (workbench_step (\<lambda>_. True)) [Wb_changed, Wb_manual_send, Wb_answer 2 (A_error ''failed'')]
      (applyBootstrap (\<lambda>_. True) two_shop_view new_workbench))) = Some ''failed''"
  "ui_lastError (wb_ui (run (workbench_step (\<lambda>_. True)) [Wb_changed, Wb_manual_send, Wb_answer 2 (A_error ''failed''), Wb_answer 1 (A_view two_shop_view)]
      (applyBootstrap (\<lambda>_. True) two_shop_view new_workbench))) = None"
  by code_simp+

end
