(* ===== verification/Pdd_Coordinator_Props.thy ===== *)
theory Pdd_Coordinator_Props imports Pdd_Coordinator begin

text \<open>
  Only the view of the selected shop is ever shown, whatever the order in which activations are begun, superseded and settled. A
  view is shown when it is visible and not closed. The lemmas say which operations leave the owners of views alone, which
  hide and which show.
\<close>

definition shown :: "view_host \<Rightarrow> bool" where
  "shown x \<longleftrightarrow> vh_visible x \<and> Close_views \<notin> set (vh_ops x)"

definition shown_in :: "service \<Rightarrow> nat \<Rightarrow> bool" where
  "shown_in s n \<longleftrightarrow> (\<exists>x. map_of (ps_views s) n = Some x \<and> shown x)"

text \<open>The view of the session of a shop.\<close>

definition host_view :: "service \<Rightarrow> nat \<Rightarrow> pdd_view option" where
  "host_view s i = Option.bind (map_of (ps_hosts s) i) sh_view"

definition view_of :: "service \<Rightarrow> string \<Rightarrow> nat option" where
  "view_of s shop = map_option pv_id (Option.bind (map_of (ps_sessions s) shop) (host_view s))"

lemma shown_simps [simp]:
  "\<not> shown (hide_view x)" "\<not> shown (dispose_view x)" "\<not> shown (new_view_host m hs u)" "shown (setRoute r u x) = shown x"
  "shown (snd (loadLocalFixture f x)) = shown x" "shown (snd (handleNavigation parse_url url x)) = shown x"
  by (auto simp: shown_def hide_view_def dispose_view_def new_view_host_def setRoute_def applyReadOnlyShield_def call_def
      loadLocalFixture_def handleNavigation_def Let_def)

lemma shown_entry [simp]: "shown (snd (loadProductionEntry parse_url u x)) = shown x"
  by (auto simp: loadProductionEntry_def split: option.split)

subsection \<open>What the operations do to views\<close>

lemma host_setStatus_view [simp]: "sh_view (snd (host_setStatus nxt err h)) = sh_view h"
  by (simp add: host_setStatus_def split: sum.split)

lemma event_status_view [simp]: "sh_view (snd (event_status ev h)) = sh_view h"
  by (simp add: event_status_def split: option.split)

lemma beginDocumentLifecycle_view [simp]: "sh_view (snd (beginDocumentLifecycle b h)) = sh_view h"
  by (auto simp: beginDocumentLifecycle_def host_setStatus_def Let_def split: sum.split prod.split)

lemma failClosed_view [simp]: "sh_view (failClosed r h) = sh_view h"
  by (auto simp: failClosed_def host_setStatus_def split: sum.split)

lemma handleEvent_view [simp]: "sh_view (handleEvent ev h) = sh_view h"
proof -
  obtain ok k where e: "event_status ev h = (ok, k)" by fastforce
  then have "sh_view k = sh_view h" using event_status_view [of ev h] by simp
  then show ?thesis by (simp add: handleEvent_def hook_def e)
qed

lemma host_views [simp]:
  "sh_view (create_settled ok h) = sh_view h" "sh_view (document_lifecycle e h) = sh_view h" "sh_view (snd (reload_session b h)) = sh_view h"
proof -
  show "sh_view (create_settled ok h) = sh_view h" by (simp add: create_settled_def)
  show "sh_view (document_lifecycle e h) = sh_view h"
    by (cases e) (auto simp: onMainFrameNavigationStart_def onMainFrameDomReady_def onMainFrameLoadFailure_def split: option.split)
  show "sh_view (snd (reload_session b h)) = sh_view h"
    using beginDocumentLifecycle_view [of True h] by (cases "beginDocumentLifecycle True h") (auto simp: reload_session_def)
qed

text \<open>Operations that change neither views nor which view a session has.\<close>

definition same_owners :: "service \<Rightarrow> service \<Rightarrow> bool" where
  "same_owners s k \<longleftrightarrow> ps_sessions k = ps_sessions s \<and> ps_activationEpoch k = ps_activationEpoch s
     \<and> host_view k = host_view s \<and> shown_in k = shown_in s"

lemma same_owners_refl [simp]: "same_owners s s"
  by (simp add: same_owners_def)

lemma same_owners_trans: "same_owners s k \<Longrightarrow> same_owners k m \<Longrightarrow> same_owners s m"
  by (simp add: same_owners_def)

lemma update_host_owners: "map_of (ps_hosts s) i = Some h \<Longrightarrow> sh_view k = sh_view h \<Longrightarrow> same_owners s (update_host i k s)"
  by (auto simp: same_owners_def update_host_def shown_in_def host_view_def fun_eq_iff)

lemma update_view_owners: "(\<And>x. shown (f x) = shown x) \<Longrightarrow> same_owners s (update_view f h s)"
  by (auto simp: same_owners_def update_view_def shown_in_def host_view_def fun_eq_iff split: option.split)

lemma stopInboundObserver_owners: "same_owners s (stopInboundObserver shop r s)"
  by (auto simp: same_owners_def stopInboundObserver_def handleObserverStopped_def recordInboundDecision_def shown_in_def host_view_def Let_def fun_eq_iff split: option.split)

lemma view_of_owners: "same_owners s k \<Longrightarrow> view_of k = view_of s"
  by (rule ext) (simp add: view_of_def same_owners_def)

lemma stopInboundObserver_hosts [simp]: "ps_hosts (stopInboundObserver shop r s) = ps_hosts s"
  by (simp add: stopInboundObserver_def handleObserverStopped_def recordInboundDecision_def Let_def split: option.split)

lemma legacy_owners: "same_owners s k \<Longrightarrow> same_owners s (k\<lparr>ps_legacy := l\<rparr>)"
  by (simp add: same_owners_def host_view_def [abs_def] shown_in_def [abs_def])

lemma handlePageEvent_owners: "same_owners s (handlePageEvent opts ev sender s)"
proof (cases "event_session opts ev sender s")
  case e: (Some i)
  show ?thesis
  proof (cases "map_of (ps_hosts s) i")
    case h: (Some h)
    have "same_owners s (update_host i (handleEvent f h) (stopInboundObserver shop r s))" for f shop r
      by (rule same_owners_trans [OF stopInboundObserver_owners update_host_owners [of _ i h]]) (simp_all add: h)
    moreover have "same_owners s (update_host i (handleEvent f h) s)" for f
      by (rule update_host_owners [of _ i h]) (simp_all add: h)
    ultimately show ?thesis by (simp add: handlePageEvent_def e h Let_def legacy_owners)
  qed (simp add: handlePageEvent_def e)
qed (simp add: handlePageEvent_def)

subsection \<open>Hiding\<close>

definition hide_session :: "string \<times> nat \<Rightarrow> service \<Rightarrow> service" where
  "hide_session = (\<lambda>(_, i) s. case map_of (ps_hosts s) i of Some h \<Rightarrow> update_view hide_view h s | None \<Rightarrow> s)"

lemma update_view_keeps [simp]:
  "ps_hosts (update_view f h s) = ps_hosts s" "ps_sessions (update_view f h s) = ps_sessions s" "host_view (update_view f h s) = host_view s"
  "ps_activationEpoch (update_view f h s) = ps_activationEpoch s" "ps_startups (update_view f h s) = ps_startups s"
  by (auto simp: update_view_def host_view_def fun_eq_iff split: option.split)

lemma shown_update_view:
  "(\<And>x. \<not> shown (f x)) \<Longrightarrow> shown_in (update_view f h s) n \<longleftrightarrow> shown_in s n \<and> map_option pv_id (sh_view h) \<noteq> Some n"
  by (auto simp: update_view_def shown_in_def split: option.split)

lemma hide_session_keeps [simp]:
  "ps_hosts (hide_session p s) = ps_hosts s" "ps_sessions (hide_session p s) = ps_sessions s" "host_view (hide_session p s) = host_view s"
  "ps_activationEpoch (hide_session p s) = ps_activationEpoch s"
  by (auto simp: hide_session_def split: prod.split option.split)

lemma shown_hide_session: "shown_in (hide_session p s) n \<longleftrightarrow> shown_in s n \<and> map_option pv_id (host_view s (snd p)) \<noteq> Some n"
  by (cases p; cases "map_of (ps_hosts s) (snd p)") (auto simp: hide_session_def shown_update_view host_view_def)

lemma hide_sessions:
  "ps_sessions (fold hide_session ps s) = ps_sessions s \<and> host_view (fold hide_session ps s) = host_view s
   \<and> ps_activationEpoch (fold hide_session ps s) = ps_activationEpoch s
   \<and> (shown_in (fold hide_session ps s) n \<longleftrightarrow> shown_in s n \<and> (\<forall>p \<in> set ps. map_option pv_id (host_view s (snd p)) \<noteq> Some n))"
  by (induction ps arbitrary: s) (auto simp: shown_hide_session)

lemma hideAllViews_fold:
  "hideAllViews s = fold hide_session (ps_sessions s) (s\<lparr>ps_activationEpoch := Suc (ps_activationEpoch s), ps_activeViewShopId := None\<rparr>)"
  by (simp add: hideAllViews_def hide_session_def)

lemma hideAllViews_keeps [simp]:
  "ps_sessions (hideAllViews s) = ps_sessions s" "host_view (hideAllViews s) = host_view s" "view_of (hideAllViews s) = view_of s"
proof -
  let ?s = "s\<lparr>ps_activationEpoch := Suc (ps_activationEpoch s), ps_activeViewShopId := None\<rparr>"
  have hv: "host_view ?s = host_view s" by (simp add: host_view_def fun_eq_iff)
  show s: "ps_sessions (hideAllViews s) = ps_sessions s" and h: "host_view (hideAllViews s) = host_view s"
    using hide_sessions [of "ps_sessions s" ?s undefined] hv by (simp_all add: hideAllViews_fold)
  then show "view_of (hideAllViews s) = view_of s" by (intro ext) (simp add: view_of_def)
qed

text \<open>Every view that is shown belongs to the target.\<close>

definition owned :: "view_target option \<Rightarrow> service \<Rightarrow> bool" where
  "owned T s \<longleftrightarrow> (\<forall>n. shown_in s n \<longrightarrow> (\<exists>t. T = Some t \<and> vt_platform t = ''pdd'' \<and> view_of s (vt_shopId t) = Some n))"

definition none_shown :: "service \<Rightarrow> bool" where
  "none_shown s \<longleftrightarrow> (\<forall>n. \<not> shown_in s n)"

lemma none_shown_owned: "none_shown s \<Longrightarrow> owned T s"
  by (simp add: none_shown_def owned_def)

lemma owned_None: "owned None s \<longleftrightarrow> none_shown s"
  by (simp add: none_shown_def owned_def)

lemma same_owners_owned: "same_owners s k \<Longrightarrow> owned T s \<Longrightarrow> owned T k"
  using view_of_owners [of s k] by (simp add: owned_def same_owners_def)

lemma same_owners_none: "same_owners s k \<Longrightarrow> none_shown s \<Longrightarrow> none_shown k"
  by (simp add: none_shown_def same_owners_def)

lemma hideAllViews_none: "owned T s \<Longrightarrow> none_shown (hideAllViews s)"
proof -
  assume o: "owned T s"
  let ?s = "s\<lparr>ps_activationEpoch := Suc (ps_activationEpoch s), ps_activeViewShopId := None\<rparr>"
  have hv: "host_view ?s = host_view s" and sh: "shown_in ?s = shown_in s" by (simp_all add: host_view_def shown_in_def fun_eq_iff)
  have "\<not> shown_in (hideAllViews s) n" for n
  proof
    assume "shown_in (hideAllViews s) n"
    then have s: "shown_in s n" and no: "\<forall>p \<in> set (ps_sessions s). map_option pv_id (host_view s (snd p)) \<noteq> Some n"
      using hide_sessions [of "ps_sessions s" ?s n] hv sh by (simp_all add: hideAllViews_fold)
    from o s obtain t :: view_target where "view_of s (vt_shopId t) = Some n" by (auto simp: owned_def)
    then obtain i where "map_of (ps_sessions s) (vt_shopId t) = Some i" "map_option pv_id (host_view s i) = Some n"
      by (auto simp: view_of_def bind_eq_Some_conv)
    then show False using no map_of_SomeD by fastforce
  qed
  then show ?thesis by (simp add: none_shown_def)
qed

subsection \<open>Failing\<close>

lemma dispose_session_view [simp]: "sh_view (dispose_session h) = None"
  by (auto simp: dispose_session_def host_setStatus_def split: sum.split)

lemma dispose_host_effect:
  "ps_sessions (dispose_host i s) = ps_sessions s" "host_view (dispose_host i s) = (host_view s)(i := None)"
  "shown_in (dispose_host i s) n \<longleftrightarrow> shown_in s n \<and> map_option pv_id (host_view s i) \<noteq> Some n"
proof -
  have u: "shown_in (update_host i k s) = shown_in s" "host_view (update_host i k s) = (host_view s)(i := sh_view k)" "ps_sessions (update_host i k s) = ps_sessions s" for k s
    by (simp_all add: update_host_def shown_in_def host_view_def fun_eq_iff)
  show "ps_sessions (dispose_host i s) = ps_sessions s" "host_view (dispose_host i s) = (host_view s)(i := None)"
    "shown_in (dispose_host i s) n \<longleftrightarrow> shown_in s n \<and> map_option pv_id (host_view s i) \<noteq> Some n"
    by (cases "map_of (ps_hosts s) i"; auto simp: dispose_host_def u shown_update_view host_view_def fun_eq_iff)+
qed

lemma activation_failed_effect:
  "ps_sessions (activation_failed opts shop i s) = map_delete shop (ps_sessions s)" "host_view (activation_failed opts shop i s) = (host_view s)(i := None)"
  "shown_in (activation_failed opts shop i s) n \<longleftrightarrow> shown_in s n \<and> map_option pv_id (host_view s i) \<noteq> Some n"
proof -
  define s1 where "s1 = (case map_of (ps_hosts s) i of
      Some h \<Rightarrow> if so_navigationMode opts = Nav_production
        then update_host i (handleEvent (service_event_of Dom_unsupported h (Some ''PRODUCTION_ENTRY_CONFIG_INVALID'')) h) s else s
    | None \<Rightarrow> s)"
  have "same_owners s s1" by (auto simp: s1_def intro: update_host_owners split: option.split)
  then have k: "same_owners s (stopInboundObserver shop ''INITIALIZATION_FAILED'' s1)"
    using same_owners_trans stopInboundObserver_owners by blast
  have d: "ps_sessions (s2\<lparr>ps_sessions := q\<rparr>) = q" "host_view (s2\<lparr>ps_sessions := q\<rparr>) = host_view s2" "shown_in (s2\<lparr>ps_sessions := q\<rparr>) = shown_in s2" for s2 q
    by (simp_all add: host_view_def shown_in_def fun_eq_iff)
  show "ps_sessions (activation_failed opts shop i s) = map_delete shop (ps_sessions s)" "host_view (activation_failed opts shop i s) = (host_view s)(i := None)"
    "shown_in (activation_failed opts shop i s) n \<longleftrightarrow> shown_in s n \<and> map_option pv_id (host_view s i) \<noteq> Some n"
    using k unfolding activation_failed_def s1_def [symmetric] Let_def by (simp_all add: d dispose_host_effect same_owners_def)
qed

lemma activation_failed_owned:
  assumes "owned T s" and "map_of (ps_sessions s) shop = Some i"
  shows "owned T (activation_failed opts shop i s)"
  unfolding owned_def
proof (intro allI impI)
  fix n assume "shown_in (activation_failed opts shop i s) n"
  then have s: "shown_in s n" and no: "map_option pv_id (host_view s i) \<noteq> Some n" by (simp_all add: activation_failed_effect)
  from assms(1) s obtain t :: view_target where t: "T = Some t" "vt_platform t = ''pdd''" "view_of s (vt_shopId t) = Some n" by (auto simp: owned_def)
  then obtain j where j: "map_of (ps_sessions s) (vt_shopId t) = Some j" "map_option pv_id (host_view s j) = Some n"
    by (auto simp: view_of_def bind_eq_Some_conv)
  then have "j \<noteq> i" "vt_shopId t \<noteq> shop" using no assms(2) by auto
  then show "\<exists>t. T = Some t \<and> vt_platform t = ''pdd'' \<and> view_of (activation_failed opts shop i s) (vt_shopId t) = Some n"
    using t j by (auto simp: view_of_def activation_failed_effect)
qed

lemma activation_failed_none: "none_shown s \<Longrightarrow> none_shown (activation_failed opts shop i s)"
  by (simp add: none_shown_def activation_failed_effect)

subsection \<open>Activating\<close>

lemma on_view_created_effect:
  assumes "\<not> shown x"
  shows "ps_sessions (on_view_created opts shop i v x s) = ps_sessions s" "host_view (on_view_created opts shop i v x s) = host_view s"
    "none_shown s \<Longrightarrow> none_shown (on_view_created opts shop i v x s)"
    "ps_activationEpoch (on_view_created opts shop i v x s) = ps_activationEpoch s"
  using assms by (simp_all add: on_view_created_def Let_def host_view_def [abs_def] none_shown_def shown_in_def)

lemma update_view_none: "none_shown s \<Longrightarrow> (\<And>x. shown (f x) \<Longrightarrow> shown x) \<Longrightarrow> none_shown (update_view f h s)"
  by (auto simp: none_shown_def shown_in_def update_view_def split: option.split)

lemma show_session_owned:
  assumes "none_shown s \<or> (\<forall>n. shown_in s n \<longrightarrow> view_of s shop = Some n)" and "map_of (ps_sessions s) shop = Some i" and "host_view s i = sh_view h"
  shows "shown_in (update_view f h s) n \<longrightarrow> view_of (update_view f h s) shop = Some n"
proof -
  have "view_of (update_view f h s) shop = map_option pv_id (sh_view h)" using assms(2,3) by (simp add: view_of_def)
  moreover have "shown_in (update_view f h s) n \<Longrightarrow> shown_in s n \<or> map_option pv_id (sh_view h) = Some n"
    by (auto simp: update_view_def shown_in_def split: option.split_asm if_split_asm)
  moreover have "shown_in s n \<Longrightarrow> map_option pv_id (sh_view h) = Some n" using assms by (auto simp: none_shown_def view_of_def)
  ultimately show ?thesis by auto
qed

text \<open>The three ways in which an activation begins.\<close>

lemma activate_begin_effect:
  assumes own: "owned T s0" and hidden: "\<forall>v x. view = Some (v, x) \<longrightarrow> \<not> shown x"
    and res: "activate_begin opts parse_url entryUrl shop view fixture mayShow s0 = (r, s1)"
  obtains
    (existing) i where "r = Activation_done" "map_of (ps_sessions s0) shop = Some i" "ps_sessions s1 = ps_sessions s0"
      "\<And>n. shown_in s1 n \<Longrightarrow> view_of s1 shop = Some n"
  | (threw) "r = Activation_threw" "map_of (ps_sessions s0) shop = None" "map_of (ps_sessions s1) = map_of (ps_sessions s0)" "none_shown s1"
  | (waits) i st ep where "r = Activation_waits i st ep" "map_of (ps_sessions s0) shop = None"
      "map_of (ps_sessions s1) = (map_of (ps_sessions s0))(shop \<mapsto> i)" "none_shown s1"
proof -
  define s where "s = (hideAllViews s0)\<lparr>ps_activeViewShopId := Some shop\<rparr>"
  have upd: "ps_sessions (k\<lparr>ps_activeViewShopId := q\<rparr>) = ps_sessions k" "host_view (k\<lparr>ps_activeViewShopId := q\<rparr>) = host_view k"
    "shown_in (k\<lparr>ps_activeViewShopId := q\<rparr>) = shown_in k" for k q by (simp_all add: host_view_def [abs_def] shown_in_def [abs_def])
  have none: "none_shown s" using hideAllViews_none [OF own] by (simp add: s_def none_shown_def upd)
  have sess: "ps_sessions s = ps_sessions s0" by (simp add: s_def)
  show ?thesis
  proof (cases "map_of (ps_sessions s) shop")
    case (Some i)
    have r: "r = Activation_done" and s1: "s1 = (case map_of (ps_hosts s) i of Some h \<Rightarrow> if mayShow then update_view show_view h s else s | None \<Rightarrow> s)"
      using res Some unfolding activate_begin_def s_def [symmetric] by (simp_all add: Let_def)
    have "shown_in s1 n \<Longrightarrow> view_of s1 shop = Some n" for n
    proof (cases "map_of (ps_hosts s) i")
      case (Some h)
      then show "shown_in s1 n \<Longrightarrow> view_of s1 shop = Some n"
        using show_session_owned [OF disjI1 [OF none] \<open>map_of (ps_sessions s) shop = Some i\<close>, of h show_view n] none
        by (auto simp: s1 host_view_def none_shown_def split: if_split_asm)
    qed (use none in \<open>simp add: s1 none_shown_def\<close>)
    moreover have "ps_sessions s1 = ps_sessions s0" by (simp add: s1 sess split: option.split)
    ultimately show ?thesis using existing r Some sess by simp
  next
    case None
    define i where "i = ps_next s"
    define path where "path = (if so_navigationMode opts = Nav_fixture then non_empty fixture else None)"
    obtain ok h where create: "createAndLoad (map_option fst view) (path \<noteq> None) (new_host shop) = (ok, h)" by fastforce
    define s1' where "s1' = (update_host i h s)\<lparr>ps_sessions := map_set shop i (ps_sessions s), ps_next := Suc (ps_next s)\<rparr>"
    define s2 where "s2 = (case view of Some (v, x) \<Rightarrow> on_view_created opts shop i v x s1' | None \<Rightarrow> s1')"
    have "none_shown s1'" using none by (simp add: s1'_def none_shown_def shown_in_def update_host_def)
    then have n2: "none_shown s2" and sess2: "ps_sessions s2 = map_set shop i (ps_sessions s0)"
      using hidden by (auto simp: s2_def s1'_def sess on_view_created_effect split: option.split)
    have fail: "map_of (ps_sessions (activation_failed opts shop i k)) = map_of (ps_sessions s0)" "none_shown k \<Longrightarrow> none_shown (activation_failed opts shop i k)"
      if "ps_sessions k = ps_sessions s2" for k
      using that None sess by (auto simp: activation_failed_effect sess2 activation_failed_none fun_eq_iff)
    define waiting where "waiting = Activation_waits i (if so_mode opts = Mode_canonical then map_of (ps_startups s2) shop else None) (ps_activationEpoch s2)"
    define url where "url = Some (case entryUrl of Some u \<Rightarrow> u | None \<Rightarrow> PDD_PRODUCTION_CHAT_URL)"
    have body: "(r, s1) = (if \<not> ok then (Activation_threw, activation_failed opts shop i s2)
        else if so_navigationMode opts = Nav_fixture
        then (waiting, case path of Some f \<Rightarrow> update_view (\<lambda>x. snd (loadLocalFixture f x)) h s2 | None \<Rightarrow> s2)
        else (case Option.bind view (\<lambda>(v, _). map_of (ps_views s2) (pv_id v)) of
              None \<Rightarrow> (Activation_threw, activation_failed opts shop i s2)
            | Some x \<Rightarrow> (let (loaded, x1) = loadProductionEntry parse_url url x; s3 = update_view (\<lambda>_. x1) h s2 in
                if loaded = None then (Activation_threw, activation_failed opts shop i s3) else (waiting, s3))))"
      using res create unfolding activate_begin_def s_def [symmetric] Let_def None option.case prod.case i_def [symmetric] path_def [symmetric]
        waiting_def s2_def s1'_def url_def by (simp only: prod.case)
    have threw_at: ?thesis if "r = Activation_threw" "s1 = activation_failed opts shop i k" "ps_sessions k = ps_sessions s2" "none_shown k" for k
      using threw that None sess fail by simp
    have waits_at: ?thesis if "r = waiting" "ps_sessions s1 = ps_sessions s2" "none_shown s1"
      using waits that None sess by (simp add: sess2 waiting_def)
    show ?thesis
    proof (cases ok)
      case False
      then show ?thesis using body threw_at n2 by simp
    next
      case ok: True
      show ?thesis
      proof (cases "so_navigationMode opts = Nav_fixture")
        case True
        have "ps_sessions s1 = ps_sessions s2" "none_shown s1"
          using body ok True n2 by (auto intro!: update_view_none [OF n2] split: option.splits)
        then show ?thesis using body ok True waits_at by auto
      next
        case mode: False
        show ?thesis
        proof (cases "Option.bind view (\<lambda>(v, _). map_of (ps_views s2) (pv_id v))")
          case vNone: None
          then show ?thesis using body ok mode threw_at n2 by simp
        next
          case x: (Some x)
          obtain loaded y where y: "loadProductionEntry parse_url url x = (loaded, y)" by fastforce
          from x obtain m where "map_of (ps_views s2) m = Some x" by (auto simp: bind_eq_Some_conv)
          then have "\<not> shown x" using n2 by (auto simp: none_shown_def shown_in_def)
          then have "\<not> shown y" using shown_entry [of parse_url _ x] y by (metis snd_conv)
          then have n3: "none_shown (update_view (\<lambda>_. y) h s2)" by (intro update_view_none [OF n2]) simp
          show ?thesis
          proof (cases loaded)
            case lNone: None
            then show ?thesis using body ok mode x y threw_at [of "update_view (\<lambda>_. y) h s2"] n3 by simp
          next
            case (Some u)
            then show ?thesis using body ok mode x y waits_at n3 by auto
          qed
        qed
      qed
    qed
  qed
qed


subsection \<open>The other operations of the service\<close>

lemma route_decided_owners: "same_owners s (route_decided shop r s)"
  by (auto simp: route_decided_def intro: update_host_owners split: option.split)

lemma navigate_shop_owners: "same_owners s (navigate_shop env shop url s)"
proof (cases "shop_session shop s")
  case (Some h)
  have "same_owners s (update_view (\<lambda>x. snd (handleNavigation (ae_parseUrl env) url x)) h s)" by (rule update_view_owners) simp
  then show ?thesis using route_decided_owners same_owners_trans by (auto simp: navigate_shop_def Some Let_def)
qed (simp add: navigate_shop_def)

lemma document_of_owners: "same_owners s (document_of i e s)"
  by (auto simp: document_of_def intro: update_host_owners split: option.split)

lemma onPageEvent_owners: "same_owners s (onPageEvent opts v ev sender s)"
  by (auto simp: onPageEvent_def handlePageEvent_owners split: option.split)

lemma service_reload_owners: "same_owners s (snd (service_reload env shop fixture s))"
proof (cases "map_of (ps_sessions s) shop")
  case i: (Some i)
  show ?thesis
  proof (cases "map_of (ps_hosts s) i")
    case h: (Some h)
    obtain go k where k: "reload_session True h = (go, k)" by fastforce
    then have u: "same_owners s (update_host i k s)" using host_views(3) [of True h] h by (auto intro: update_host_owners)
    moreover have "same_owners m (update_view (\<lambda>x. snd (loadLocalFixture f x)) h m)" for f m by (rule update_view_owners) simp
    moreover have "same_owners s (update_view (\<lambda>x. snd (loadProductionEntry parse q x)) h s)" for parse q by (rule update_view_owners) simp
    ultimately show ?thesis by (auto simp: service_reload_def i h k Let_def intro: same_owners_trans split: option.split)
  qed (simp add: service_reload_def i)
qed (simp add: service_reload_def)

lemma disposeAll_none:
  assumes "owned T s0"
  shows "none_shown (disposeAll s0)"
proof -
  define stop where "stop = (\<lambda>shop. stopInboundObserver shop ''SERVICE_DISPOSED'')"
  have "same_owners s (fold stop shops s)" for shops s
    by (induction shops arbitrary: s) (auto simp: stop_def intro: same_owners_trans stopInboundObserver_owners)
  then have n: "none_shown (fold stop shops (hideAllViews s0))" for shops
    using hideAllViews_none [OF assms] same_owners_none by blast
  have d: "none_shown s \<Longrightarrow> none_shown (fold (\<lambda>(_, i). dispose_host i) ps s)" for ps :: "(string \<times> nat) list" and s
    by (induction ps arbitrary: s) (auto simp: none_shown_def dispose_host_effect)
  have u: "none_shown (s\<lparr>ps_sessions := a, ps_bridges := b, ps_adapters := c, ps_trusted := e, ps_senderSessions := f\<rparr>) = none_shown s"
    "none_shown (s\<lparr>ps_registry := r, ps_connectionAdmissions := a2, ps_revokedKeys := b2, ps_httpBindings := c2, ps_revokedShops := e2, ps_lastAdmissionId := f2\<rparr>)
      = none_shown s" for s a b c e f r a2 b2 c2 e2 f2
    by (simp_all add: none_shown_def shown_in_def)
  show ?thesis unfolding disposeAll_def Let_def stop_def [symmetric] u(1) by (rule d) (simp only: u(2) n)
qed

subsection \<open>The invariant of the coordinator\<close>

text \<open>An activation that waits knows the session of its shop; when its target is still the current one, the target is its shop.\<close>

definition waits_for :: "view_target option \<Rightarrow> nat \<Rightarrow> service \<Rightarrow> waiting \<Rightarrow> bool" where
  "waits_for T k s w \<longleftrightarrow> wa_object w = 0 \<and> wa_target w < k \<and> map_of (ps_sessions s) (wa_shopId w) = Some (wa_session w)
     \<and> (\<forall>t. T = Some t \<and> vt_id t = wa_target w \<longrightarrow> vt_platform t = ''pdd'' \<and> vt_shopId t = wa_shopId w)"

definition live_co :: "coordinator \<Rightarrow> service \<Rightarrow> bool" where
  "live_co c s \<longleftrightarrow> co_objects c = [(0, s)] \<and> co_services c = [(''pdd'', 0)] \<and> owned (co_target c) s
     \<and> distinct (map wa_shopId (co_waiting c)) \<and> (\<forall>w \<in> set (co_waiting c). waits_for (co_target c) (co_next c) s w)"

definition closed_co :: "coordinator \<Rightarrow> service \<Rightarrow> bool" where
  "closed_co c s \<longleftrightarrow> co_objects c = [(0, s)] \<and> co_services c = [] \<and> co_target c = None \<and> none_shown s \<and> (\<forall>w \<in> set (co_waiting c). wa_object w = 0)"

definition co_inv :: "coordinator \<Rightarrow> bool" where
  "co_inv c \<longleftrightarrow> (\<exists>s. live_co c s \<or> closed_co c s)"

lemma waits_for_sessions: "waits_for T k s w \<Longrightarrow> map_of (ps_sessions m) (wa_shopId w) = map_of (ps_sessions s) (wa_shopId w) \<Longrightarrow> waits_for T k m w"
  by (simp add: waits_for_def)

lemma waits_for_None: "waits_for T k s w \<Longrightarrow> waits_for None k s w"
  by (simp add: waits_for_def)

lemma live_co_same: "live_co c s \<Longrightarrow> same_owners s m \<Longrightarrow> live_co (c\<lparr>co_objects := [(0, m)]\<rparr>) m"
  using same_owners_owned by (auto simp: live_co_def same_owners_def waits_for_def)

lemma closed_co_same: "closed_co c s \<Longrightarrow> same_owners s m \<Longrightarrow> closed_co (c\<lparr>co_objects := [(0, m)]\<rparr>) m"
  using same_owners_none by (auto simp: closed_co_def)

lemma update_object_inv:
  assumes "co_inv c" and "\<And>s. same_owners s (f s)"
  shows "co_inv (update_object n f c)"
proof -
  from assms(1) obtain s where s: "live_co c s \<or> closed_co c s" by (auto simp: co_inv_def)
  then have o: "co_objects c = [(0, s)]" by (auto simp: live_co_def closed_co_def)
  have u: "update_object n f c = (if n = 0 then c\<lparr>co_objects := [(0, f s)]\<rparr> else c)" by (auto simp: update_object_def o)
  have "co_inv (c\<lparr>co_objects := [(0, f s)]\<rparr>)"
    using s live_co_same [OF _ assms(2)] closed_co_same [OF _ assms(2)] unfolding co_inv_def by blast
  then show ?thesis using assms(1) by (simp add: u)
qed

lemma hide_live:
  "co_objects c = [(0, s)] \<Longrightarrow> co_services c = [(''pdd'', 0)] \<Longrightarrow> hide_services c = c\<lparr>co_objects := [(0, hideAllViews s)]\<rparr>"
  by (simp add: hide_services_def update_object_def)

lemma hide_live_co:
  assumes "co_objects c = [(0, s)]" "co_services c = [(''pdd'', 0)]" "owned T s" "distinct (map wa_shopId (co_waiting c))"
    "\<forall>w \<in> set (co_waiting c). waits_for (co_target c) (co_next c) s w"
  shows "live_co (hide_services (c\<lparr>co_target := None\<rparr>)) (hideAllViews s)"
  using assms hideAllViews_none [OF assms(3)] by (auto simp: hide_live live_co_def owned_None waits_for_def)

lemma activateShop_inv:
  assumes "co_inv c"
  shows "co_inv (snd (activateShop env p shop made fixture c))"
proof (cases "map_of (co_services c) p")
  case (Some n)
  then obtain s where live: "live_co c s" using assms by (auto simp: co_inv_def closed_co_def)
  then have [simp]: "co_objects c = [(0, s)]" "co_services c = [(''pdd'', 0)]" by (simp_all add: live_co_def)
  have [simp]: "n = 0" and p: "p = ''pdd''" using Some by (auto split: if_split_asm)
  define t where "t = \<lparr>vt_id = co_next c, vt_platform = p, vt_shopId = shop\<rparr>"
  define s0 where "s0 = hideAllViews s"
  define view where "view = (if made then Some (\<lparr>pv_id = co_next c, pv_webContents = co_next c\<rparr>,
      new_view_host (so_navigationMode (ae_options env)) (ae_hosts env) (ae_entryUrl env)) else None)"
  have own: "owned None s0" using live hideAllViews_none by (auto simp: s0_def owned_None live_co_def)
  have hidden: "\<forall>v x. view = Some (v, x) \<longrightarrow> \<not> shown x" by (auto simp: view_def split: if_split_asm)
  obtain r s1 where begun: "activate_begin (ae_options env) (ae_parseUrl env) (ae_entryUrl env) shop view fixture True s0 = (r, s1)" by fastforce
  define c2 where "c2 = c\<lparr>co_target := Some t, co_next := Suc (co_next c), co_objects := [(0, s1)]\<rparr>"
  have res: "snd (activateShop env p shop made fixture c) = (case r of
       Activation_done \<Rightarrow> c2
     | Activation_threw \<Rightarrow> activation_rejected (co_next c) c2
     | Activation_waits i st ep \<Rightarrow> c2\<lparr>co_waiting := co_waiting c2 @ [\<lparr>wa_object = 0, wa_shopId = shop, wa_session = i, wa_startup = st, wa_epoch = ep, wa_target = co_next c\<rparr>]\<rparr>)"
    using begun unfolding activateShop_def Some view_def [symmetric]
    by (simp add: hide_live [of _ s] update_object_def s0_def c2_def t_def Let_def view_def split: activation.split)
  have W: "distinct (map wa_shopId (co_waiting c))" "\<forall>w \<in> set (co_waiting c). waits_for (co_target c) (co_next c) s w"
    using live by (simp_all add: live_co_def)
  have old: "waits_for (Some t) (Suc (co_next c)) m w" if "w \<in> set (co_waiting c)" "map_of (ps_sessions m) (wa_shopId w) = map_of (ps_sessions s) (wa_shopId w)" for m w
    using W(2) that by (auto simp: waits_for_def t_def)
  from own show ?thesis
  proof (cases rule: activate_begin_effect [OF _ hidden begun, consumes 1, case_names existing threw waits])
    case (existing i)
    then have "owned (Some t) s1" by (auto simp: owned_def t_def p)
    then have "live_co c2 s1" using W(1) old existing(3) by (simp add: live_co_def c2_def s0_def)
    then show ?thesis using res existing(1) by (auto simp: co_inv_def)
  next
    case threw
    have "live_co (hide_services (c2\<lparr>co_target := None\<rparr>)) (hideAllViews s1)"
      using W(1) old threw(3,4) by (intro hide_live_co [where T = None]) (simp_all add: c2_def owned_None s0_def)
    moreover have "is_current_target (co_next c) c2" by (simp add: is_current_target_def c2_def t_def)
    ultimately show ?thesis using res threw(1) by (auto simp: co_inv_def activation_rejected_def)
  next
    case (waits i st ep)
    have ne: "wa_shopId w \<noteq> shop" if "w \<in> set (co_waiting c)" for w using W(2) that waits(2) by (auto simp: waits_for_def s0_def)
    let ?w = "\<lparr>wa_object = 0, wa_shopId = shop, wa_session = i, wa_startup = st, wa_epoch = ep, wa_target = co_next c\<rparr>"
    have "\<forall>w \<in> set (co_waiting c). waits_for (Some t) (Suc (co_next c)) s1 w" using old ne waits(3) by (simp add: s0_def)
    moreover have "waits_for (Some t) (Suc (co_next c)) s1 ?w" using waits(3) by (simp add: waits_for_def t_def p)
    moreover have "distinct (map wa_shopId (co_waiting c @ [?w]))" using W(1) ne by auto
    moreover have "owned (Some t) s1" by (rule none_shown_owned [OF waits(4)])
    ultimately have "live_co (snd (activateShop env p shop made fixture c)) s1" by (simp add: live_co_def res waits(1) c2_def)
    then show ?thesis by (auto simp: co_inv_def)
  qed
qed (use assms in \<open>simp add: activateShop_def\<close>)

lemma activate_settled_effect:
  assumes "map_of (ps_sessions s) shop = Some i" and res: "activate_settled opts shop i st ep loaded started mayShow s = (ok, s1)"
  obtains (failed) m where "\<not> ok" "same_owners s m" "s1 = activation_failed opts shop i m"
  | (kept) "same_owners s s1"
  | (shown) m h where "ok" mayShow "same_owners s m" "host_view m i = sh_view h" "s1 = update_view show_view h m"
proof (cases "map_of (ps_hosts s) i")
  case None
  then show ?thesis using res kept by (simp add: activate_settled_def)
next
  case (Some h)
  define m where "m = (if so_navigationMode opts = Nav_fixture then update_host i (create_settled loaded h) s else s)"
  have m: "same_owners s m" using Some by (auto simp: m_def intro: update_host_owners)
  then have v: "host_view m i = sh_view h" using Some by (simp add: same_owners_def host_view_def)
  have "(ok, s1) = (if \<not> loaded \<or> (st \<noteq> None \<and> (\<not> started \<or> map_of (ps_startups m) shop \<noteq> st)) then (False, activation_failed opts shop i m)
      else (True, if ep = ps_activationEpoch m \<and> mayShow then update_view show_view h m else m))"
    using res unfolding activate_settled_def Some option.case m_def [symmetric] Let_def by simp
  then show ?thesis using failed [OF _ m] kept shown [OF _ _ m v] m by (auto split: if_split_asm)
qed

text \<open>Taking one waiting activation out of the list.\<close>

lemma waiting_split:
  assumes "k < length ws" "distinct (map wa_shopId ws)"
  shows "distinct (map wa_shopId (take k ws @ drop (Suc k) ws))"
    and "\<And>w. w \<in> set (take k ws @ drop (Suc k) ws) \<Longrightarrow> w \<in> set ws \<and> wa_shopId w \<noteq> wa_shopId (ws ! k)"
proof -
  have ws: "ws = take k ws @ ws ! k # drop (Suc k) ws" using assms(1) by (rule id_take_nth_drop)
  have "distinct (map wa_shopId (take k ws @ ws ! k # drop (Suc k) ws))" using assms(2) ws by metis
  then show "distinct (map wa_shopId (take k ws @ drop (Suc k) ws))"
    and "\<And>w. w \<in> set (take k ws @ drop (Suc k) ws) \<Longrightarrow> w \<in> set ws \<and> wa_shopId w \<noteq> wa_shopId (ws ! k)"
    by (simp_all, auto dest: in_set_takeD in_set_dropD simp: image_iff)
qed

lemma settle_closed:
  assumes "closed_co c s" "k < length (co_waiting c)"
  shows "co_inv (snd (activation_settles env k loaded started c))"
proof -
  define w where "w = co_waiting c ! k"
  define c1 where "c1 = c\<lparr>co_waiting := take k (co_waiting c) @ drop (Suc k) (co_waiting c)\<rparr>"
  have [simp]: "co_objects c = [(0, s)]" "wa_object w = 0" "co_target c = None" using assms by (simp_all add: closed_co_def w_def)
  obtain ok m where m: "activate_settled (ae_options env) (wa_shopId w) (wa_session w) (wa_startup w) (wa_epoch w) loaded started False s = (ok, m)" by fastforce
  have "none_shown m"
  proof -
    have "none_shown (if so_navigationMode (ae_options env) = Nav_fixture then update_host (wa_session w) (create_settled loaded h) s else s)"
      if "map_of (ps_hosts s) (wa_session w) = Some h" for h
      using assms(1) that same_owners_none [OF update_host_owners] by (auto simp: closed_co_def)
    then show ?thesis using m assms(1)
      by (auto simp: activate_settled_def Let_def closed_co_def activation_failed_none split: option.split_asm if_split_asm)
  qed
  moreover have "snd (activation_settles env k loaded started c) = c1\<lparr>co_objects := [(0, m)]\<rparr>"
    using assms(2) m unfolding activation_settles_def w_def [symmetric] c1_def [symmetric]
    by (simp add: c1_def update_object_def is_current_target_def activation_rejected_def Let_def)
  ultimately have "closed_co (snd (activation_settles env k loaded started c)) m"
    using assms by (auto simp: closed_co_def c1_def dest: in_set_takeD in_set_dropD)
  then show ?thesis by (auto simp: co_inv_def)
qed

lemma settle_live:
  assumes live: "live_co c s" and k: "k < length (co_waiting c)"
  shows "co_inv (snd (activation_settles env k loaded started c))"
proof -
  define w where "w = co_waiting c ! k"
  define rest where "rest = take k (co_waiting c) @ drop (Suc k) (co_waiting c)"
  define cur where "cur = is_current_target (wa_target w) c"
  have w: "waits_for (co_target c) (co_next c) s w" using live k by (simp add: live_co_def w_def)
  then have [simp]: "wa_object w = 0" and sess: "map_of (ps_sessions s) (wa_shopId w) = Some (wa_session w)" by (simp_all add: waits_for_def)
  have [simp]: "co_objects c = [(0, s)]" "co_services c = [(''pdd'', 0)]" and own: "owned (co_target c) s" using live by (simp_all add: live_co_def)
  have d: "distinct (map wa_shopId rest)" and r: "\<And>v. v \<in> set rest \<Longrightarrow> waits_for (co_target c) (co_next c) s v \<and> wa_shopId v \<noteq> wa_shopId w"
    using waiting_split [OF k] live by (auto simp: rest_def w_def live_co_def)
  obtain ok m where m: "activate_settled (ae_options env) (wa_shopId w) (wa_session w) (wa_startup w) (wa_epoch w) loaded started cur s = (ok, m)" by fastforce
  define c2 where "c2 = c\<lparr>co_waiting := rest, co_objects := [(0, m)]\<rparr>"
  have cur2: "is_current_target (wa_target w) c2 = cur" by (simp add: cur_def is_current_target_def c2_def)
  have res: "snd (activation_settles env k loaded started c) = (if ok then c2 else activation_rejected (wa_target w) c2)"
    using k m unfolding activation_settles_def w_def [symmetric] rest_def [symmetric]
    by (simp add: update_object_def is_current_target_def c2_def cur_def Let_def)
  have go: "co_inv (if ok then c2 else activation_rejected (wa_target w) c2)"
    if o: "owned (co_target c) m" and s: "\<And>v. v \<in> set rest \<Longrightarrow> map_of (ps_sessions m) (wa_shopId v) = map_of (ps_sessions s) (wa_shopId v)"
  proof -
    have ws: "\<forall>v \<in> set rest. waits_for (co_target c) (co_next c) m v" using r s by (blast intro: waits_for_sessions)
    then have "live_co c2 m" using d o by (simp add: live_co_def c2_def)
    moreover have "live_co (hide_services (c2\<lparr>co_target := None\<rparr>)) (hideAllViews m)"
      by (rule hide_live_co [where T = "co_target c"]) (use d o ws in \<open>simp_all add: c2_def\<close>)
    ultimately show ?thesis by (auto simp: co_inv_def activation_rejected_def)
  qed
  have same: "ps_sessions n = ps_sessions s" "owned (co_target c) n" if "same_owners s n" for n
    using that own same_owners_owned by (auto simp: same_owners_def)
  from sess m show ?thesis
  proof (cases rule: activate_settled_effect)
    case (failed n)
    have "map_of (ps_sessions n) (wa_shopId w) = Some (wa_session w)" using same(1) [OF failed(2)] sess by simp
    then have "owned (co_target c) m" unfolding failed(3) by (rule activation_failed_owned [OF same(2) [OF failed(2)]])
    moreover have "map_of (ps_sessions m) (wa_shopId v) = map_of (ps_sessions s) (wa_shopId v)" if "v \<in> set rest" for v
      using same(1) [OF failed(2)] r [OF that] unfolding failed(3) activation_failed_effect by simp
    ultimately show ?thesis unfolding res by (rule go)
  next
    case kept
    show ?thesis unfolding res by (rule go [OF same(2) [OF kept]]) (simp add: same(1) [OF kept])
  next
    case (shown n h)
    then obtain t :: view_target where t: "co_target c = Some t" "vt_platform t = ''pdd''" "vt_shopId t = wa_shopId w"
      using w by (auto simp: cur_def is_current_target_def waits_for_def)
    have a: "\<forall>j. shown_in n j \<longrightarrow> view_of n (wa_shopId w) = Some j" using same(2) [OF shown(3)] t by (auto simp: owned_def)
    have b: "map_of (ps_sessions n) (wa_shopId w) = Some (wa_session w)" using sess same(1) [OF shown(3)] by simp
    have "shown_in m j \<longrightarrow> view_of m (wa_shopId w) = Some j" for j
      unfolding shown(5) by (rule show_session_owned [OF disjI2 [OF a] b shown(4)])
    then have o: "owned (co_target c) m" using t by (auto simp: owned_def)
    have e: "ps_sessions m = ps_sessions s" unfolding shown(5) using same(1) [OF shown(3)] by simp
    show ?thesis unfolding res by (rule go [OF o]) (simp add: e)
  qed
qed

lemma co_settle_inv: "co_inv c \<Longrightarrow> co_inv (snd (activation_settles env k loaded started c))"
  using settle_live settle_closed by (cases "k < length (co_waiting c)") (auto simp: co_inv_def activation_settles_def)

lemma co_bounds_inv:
  assumes "co_inv c"
  shows "co_inv (snd (co_setViewBounds p shop b content c))"
proof (cases "co_services c = [] \<or> co_target c = None")
  case True
  then show ?thesis using assms by (auto simp: co_setViewBounds_def split: option.split)
next
  case False
  then obtain s where live: "live_co c s" using assms by (auto simp: co_inv_def closed_co_def)
  obtain t :: view_target where t: "co_target c = Some t" using False by auto
  have [simp]: "co_objects c = [(0, s)]" "co_services c = [(''pdd'', 0)]" and own: "owned (Some t) s" using live t by (simp_all add: live_co_def)
  show ?thesis
  proof (cases "p = ''pdd'' \<and> vt_platform t = p \<and> vt_shopId t = shop")
    case no: False
    then show ?thesis using assms t by (auto simp: co_setViewBounds_def split: option.split)
  next
    case yes: True
    show ?thesis
    proof (cases "vb_visible b")
      case False
      have "live_co (hide_services (c\<lparr>co_target := None\<rparr>)) (hideAllViews s)"
        by (rule hide_live_co [OF _ _ own]) (use live in \<open>simp_all add: live_co_def\<close>)
      then show ?thesis using yes False t by (auto simp: co_setViewBounds_def serviceFor_def co_inv_def)
    next
      case True
      obtain ok m where m: "service_setViewBounds shop b content s = (ok, m)" by fastforce
      have eq: "snd (co_setViewBounds p shop b content c) = c\<lparr>co_objects := [(0, m)]\<rparr>"
        using yes True t m by (simp add: co_setViewBounds_def serviceFor_def update_object_def)
      have sess: "ps_sessions m = ps_sessions s" using m by (auto simp: service_setViewBounds_def split: option.split_asm if_split_asm)
      have "owned (Some t) m"
      proof (cases "m = s")
        case False
        then obtain i h where h: "map_of (ps_sessions s) shop = Some i" "map_of (ps_hosts s) i = Some h" "m = update_view (setBounds b content) h s"
          using m by (auto simp: service_setViewBounds_def shop_session_def bind_eq_Some_conv split: option.split_asm if_split_asm)
        have "\<forall>j. shown_in s j \<longrightarrow> view_of s shop = Some j" using own yes by (auto simp: owned_def)
        then show ?thesis
          using show_session_owned [OF disjI2 h(1), of h "setBounds b content"] h yes by (auto simp: owned_def host_view_def)
      qed (use own in simp)
      then have "live_co (c\<lparr>co_objects := [(0, m)]\<rparr>) m" using live sess t by (auto simp: live_co_def waits_for_def)
      then show ?thesis unfolding eq by (auto simp: co_inv_def)
    qed
  qed
qed

lemma reload_inv: "co_inv c \<Longrightarrow> co_inv (snd (co_reload env p shop fixture c))"
proof (cases "map_of (co_services c) p")
  case (Some n)
  assume c: "co_inv c"
  show ?thesis
  proof (cases "map_of (co_objects c) n")
    case s: (Some s)
    have "snd (co_reload env p shop fixture c) = update_object n (\<lambda>s. snd (service_reload env shop fixture s)) c"
      by (simp add: co_reload_def serviceFor_def Some s update_object_def split: prod.split)
    then show ?thesis using update_object_inv [OF c service_reload_owners] by simp
  qed (use c in \<open>simp add: co_reload_def serviceFor_def Some\<close>)
qed (simp add: co_reload_def)

lemma co_dispose_inv:
  assumes "co_inv c"
  shows "co_inv (co_disposeAll c)"
proof -
  from assms obtain s where s: "live_co c s \<or> closed_co c s" by (auto simp: co_inv_def)
  then have "closed_co (co_disposeAll c) (if live_co c s then disposeAll s else s)"
    using disposeAll_none [of "co_target c" s] by (auto simp: co_disposeAll_def live_co_def closed_co_def waits_for_def update_object_def)
  then show ?thesis by (auto simp: co_inv_def)
qed

interpretation coordinator: step_invariant "coordinator_step env v" co_inv "\<lambda>_. True" for env v
proof unfold_locales
  fix c e assume c: "co_inv c"
  have "co_inv (update_object n f c)" if "\<And>s. same_owners s (f s)" for n f using update_object_inv c that .
  then show "co_inv (coordinator_step env v e c)"
    using c activateShop_inv co_settle_inv co_bounds_inv reload_inv co_dispose_inv
    by (cases e) (auto simp: co_handlePageEvent_def onPageEvent_owners handlePageEvent_owners document_of_owners navigate_shop_owners split: option.split)
qed

lemma coordinator_start: "co_inv (register_service ''pdd'' new_service new_coordinator)"
  by (auto simp: co_inv_def live_co_def register_service_def new_coordinator_def new_service_def owned_def shown_in_def)

text \<open>Property C5. Whatever shops are activated, in whatever order their pages finish loading or fail, and whatever bounds, reloads,
  navigations, page and document events and disposals come between, a view that is visible and not closed is the view of the shop
  that is the current target of the coordinator: a superseded activation never shows its view, and no two shops are on screen at once.
\<close>

theorem only_selected_view_is_shown:
  assumes "c = run (coordinator_step env v) es (register_service ''pdd'' new_service new_coordinator)" and "map_of (co_objects c) k = Some s"
    and "map_of (ps_views s) n = Some x" and "vh_visible x" and "Close_views \<notin> set (vh_ops x)"
  shows "\<exists>t. co_target c = Some t \<and> vt_platform t = ''pdd'' \<and> view_of s (vt_shopId t) = Some n"
proof -
  have "co_inv c" unfolding assms(1) by (rule coordinator.run_keeps [OF coordinator_start]) simp
  then have "owned (co_target c) s"
    using assms(2) none_shown_owned by (auto simp: co_inv_def live_co_def closed_co_def split: if_split_asm)
  moreover have "shown_in s n" using assms(3-5) by (auto simp: shown_in_def shown_def)
  ultimately show ?thesis by (simp add: owned_def)
qed

text \<open>Two shops are activated, the first page finishes loading after the second shop was selected.\<close>

definition fixture_env :: activation_env where
  "fixture_env = \<lparr>ae_options = \<lparr>so_navigationMode = Nav_fixture, so_mode = Mode_legacy, so_provider = None, so_resolveScope = None, so_resolveIdentity = None,
       so_validator = None, so_found = None, so_collector = None, so_decodeFrame = None, so_decodeHttp = None, so_allowedUrl = (\<lambda>_. False),
       so_allowedHttp = None, so_uuid = (\<lambda>_. [])\<rparr>,
     ae_parseUrl = (\<lambda>_. None), ae_entryUrl = None, ae_hosts = []\<rparr>"

definition two_shops :: coordinator where
  "two_shops = run (coordinator_step fixture_env None)
     [Co_activate ''pdd'' ''a'' True (Some ''f''), Co_activate ''pdd'' ''b'' True (Some ''f''), Co_settle 0 True True, Co_settle 0 True True]
     (register_service ''pdd'' new_service new_coordinator)"

lemma two_shops_shown:
  "case map_of (co_objects two_shops) 0 of None \<Rightarrow> False
   | Some s \<Rightarrow> (case map_of (ps_views s) 2 of None \<Rightarrow> False | Some x \<Rightarrow> vh_visible x \<and> Close_views \<notin> set (vh_ops x))"
  by code_simp

theorem only_selected_view_is_shown_witness:
  "\<exists>s x t. map_of (co_objects two_shops) 0 = Some s \<and> map_of (ps_views s) 2 = Some x \<and> vh_visible x \<and> co_target two_shops = Some t
     \<and> view_of s (vt_shopId t) = Some 2"
proof -
  obtain s x where s: "map_of (co_objects two_shops) 0 = Some s" "map_of (ps_views s) 2 = Some x" "vh_visible x" "Close_views \<notin> set (vh_ops x)"
    using two_shops_shown by (auto split: option.split_asm)
  from only_selected_view_is_shown [OF two_shops_def s] s show ?thesis by blast
qed

end
