(* ===== verification/Pdd_Decoded.thy ===== *)
theory Pdd_Decoded imports Pdd_Service begin

text \<open>
  The decoded page-event path: the observer script and the adapter of
  \<open>apps/desktop/src/main/platforms/pdd/pdd-decoded-inbound-event-adapter.ts\<close>, and the start, drain and stop of a capture in
  \<open>pdd-platform-service.ts\<close>. The page is the buffer that the script keeps in it, \<open>None\<close> when there is none or its installation failed: then it has no operations. A value
  that a page sends is a \<open>json\<close>; the coercions \<open>Number\<close> and \<open>String\<close> of values other than numbers and nullish ones are the
  arguments of \<open>coercions\<close>. The probe of the merchant SDK and the tally of mutation names are left out.
\<close>

subsection \<open>The observer in the page\<close>

record page_buffer =
  pb_via :: string
  pb_events :: "json list"
  pb_dropped :: nat
  pb_generation :: "int option"

definition max_events :: nat where
  "max_events = 400"

definition MESSAGE_MUTATIONS :: "string list" where
  "MESSAGE_MUTATIONS = [''UPDATE_CHAT_LIST_ONE'', ''CHANGE_MESSAGE'', ''UPDATE_CHAT_LIST_ALL'']"

fun is_object :: "json option \<Rightarrow> bool" where
  "is_object (Some (JObj _)) = True"
| "is_object (Some (JArr _)) = True"
| "is_object _ = False"

text \<open>\<open>typeof item.msg_id === 'string'\<close> for an object.\<close>

definition has_msg_id :: "json option \<Rightarrow> bool" where
  "has_msg_id v = (as_string (opt_get v ''msg_id'') \<noteq> None)"

definition toMessages :: "json option \<Rightarrow> json list" where
  "toMessages payload =
     (case opt_get payload ''lastMessage'' of Some m \<Rightarrow> if has_msg_id (Some m) then [m] else [] | None \<Rightarrow> [])
     @ (case opt_get payload ''messageList'' of Some (JArr items) \<Rightarrow> filter (\<lambda>m. has_msg_id (Some m)) items | _ \<Rightarrow> [])"

definition or_null :: "json option \<Rightarrow> json" where
  "or_null v = (case v of Some w \<Rightarrow> w | None \<Rightarrow> JNull)"

definition string_or_null :: "json option \<Rightarrow> json" where
  "string_or_null v = (case v of Some (JStr s) \<Rightarrow> JStr s | _ \<Rightarrow> JNull)"

definition party :: "json option \<Rightarrow> json" where
  "party v = (if is_object v then JObj [(''role'', or_null (opt_get v ''role'')), (''uid'', or_null (opt_get v ''uid''))] else JNull)"

definition page_message :: "json \<Rightarrow> json" where
  "page_message m = JObj
     [(''msg_id'', string_or_null (jget m ''msg_id'')), (''client_msg_id'', string_or_null (jget m ''client_msg_id'')),
      (''type'', case jget m ''type'' of Some (JNum n) \<Rightarrow> JNum n | _ \<Rightarrow> JNull), (''content'', string_or_null (jget m ''content'')),
      (''ts'', or_null (jget m ''ts'')), (''is_history'', JBool (jget m ''is_history'' = Some (JBool True))),
      (''from'', party (jget m ''from'')), (''to'', party (jget m ''to''))]"

definition page_entry :: "string \<Rightarrow> string \<Rightarrow> int option \<Rightarrow> json \<Rightarrow> json" where
  "page_entry now name gen m = JObj
     [(''observedAt'', JStr now), (''mutation'', JStr name),
      (''pageDocumentGeneration'', case gen of Some g \<Rightarrow> JNum (Integral g) | None \<Rightarrow> JNull), (''message'', page_message m)]"

definition take_entry :: "json \<Rightarrow> page_buffer \<Rightarrow> page_buffer" where
  "take_entry e p = (if length (pb_events p) \<ge> max_events then p\<lparr>pb_dropped := Suc (pb_dropped p)\<rparr> else p\<lparr>pb_events := pb_events p @ [e]\<rparr>)"

text \<open>A mutation of the store of the page; \<open>name\<close> is \<open>None\<close> when its type is not a string.\<close>

definition page_record :: "string \<Rightarrow> string option \<Rightarrow> json option \<Rightarrow> page_buffer \<Rightarrow> page_buffer" where
  "page_record now name payload p =
     (case name of
        None \<Rightarrow> p
      | Some n \<Rightarrow> if n \<notin> set MESSAGE_MUTATIONS then p else fold (\<lambda>m. take_entry (page_entry now n (pb_generation p) m)) (toMessages payload) p)"

text \<open>How the script finds the store of the page, and whether it can subscribe to it.\<close>

record page_world =
  pw_store :: "string option"
  pw_subscribe_error :: "string option"

definition page_install :: "page_world \<Rightarrow> page_buffer option \<Rightarrow> json option \<times> page_buffer option" where
  "page_install world page =
     (case page of
        Some p \<Rightarrow> (Some (JObj [(''ok'', JBool True), (''alreadyInstalled'', JBool True), (''storeReachableVia'', JStr (pb_via p))]), page)
      | None \<Rightarrow>
          (case pw_store world of
             None \<Rightarrow> (Some (JObj [(''ok'', JBool False), (''reason'', JStr ''STORE_UNREACHABLE'')]), None)
           | Some via \<Rightarrow>
               (case pw_subscribe_error world of
                  Some e \<Rightarrow> (Some (JObj [(''ok'', JBool False), (''reason'', JStr (''SUBSCRIBE_FAILED:'' @ e))]), None)
                | None \<Rightarrow> (Some (JObj [(''ok'', JBool True), (''installed'', JBool True), (''storeReachableVia'', JStr via)]),
                     Some \<lparr>pb_via = via, pb_events = [], pb_dropped = 0, pb_generation = None\<rparr>))))"

definition page_setGeneration :: "int \<Rightarrow> page_buffer option \<Rightarrow> page_buffer option" where
  "page_setGeneration g page = map_option (\<lambda>p. p\<lparr>pb_generation := Some g\<rparr>) page"

definition page_drain :: "int \<Rightarrow> page_buffer option \<Rightarrow> json option \<times> page_buffer option" where
  "page_drain maxn page =
     (case page of
        None \<Rightarrow> (Some JNull, None)
      | Some p \<Rightarrow>
          let limit = (if maxn > 0 then nat maxn else length (pb_events p)); p1 = p\<lparr>pb_events := drop limit (pb_events p)\<rparr> in
          (Some (JObj [(''events'', JArr (take limit (pb_events p))), (''remaining'', JNum (Integral (int (length (pb_events p1))))),
                       (''dropped'', JNum (Integral (int (pb_dropped p))))]), Some p1))"

definition page_uninstall :: "page_buffer option \<Rightarrow> json option \<times> page_buffer option" where
  "page_uninstall page =
     (case page of
        None \<Rightarrow> (Some (JObj [(''ok'', JBool False), (''reason'', JStr ''NOT_INSTALLED'')]), None)
      | Some _ \<Rightarrow> (Some (JObj [(''ok'', JBool True)]), None))"

subsection \<open>The adapter\<close>

datatype adapter_state = Adapter_disabled | Adapter_installed | Adapter_failed | Adapter_unloaded

record coercions =
  je_number :: "json \<Rightarrow> number option"
  je_string :: "json \<Rightarrow> string"

definition adapter_start :: "bool \<Rightarrow> adapter_state" where
  "adapter_start enabled = (if enabled then Adapter_failed else Adapter_disabled)"

definition alnum :: "char \<Rightarrow> bool" where
  "alnum c = (let n = (of_char c :: nat) in (48 \<le> n \<and> n \<le> 57) \<or> (65 \<le> n \<and> n \<le> 90) \<or> (97 \<le> n \<and> n \<le> 122))"

text \<open>The name and the text of an error.\<close>

definition sanitized :: "string \<Rightarrow> string \<Rightarrow> string" where
  "sanitized name txt =
     (let t = to_lower txt in
      if js_includes t ''timeout'' \<or> js_includes t ''timed out'' then ''TIMEOUT''
      else if js_includes t ''destroyed'' \<or> js_includes t ''detached'' \<or> js_includes t ''not attached'' then ''PAGE_UNAVAILABLE''
      else ''ERROR_'' @ take 24 (map upper_char (filter alnum name)))"

text \<open>What an evaluation in the page gives: a value, or the name and text of an error.\<close>

type_synonym page_answer = "(string \<times> string) + json option"

definition reason_or :: "string \<Rightarrow> json option \<Rightarrow> string" where
  "reason_or d v = (case as_string (opt_get v ''reason'') of Some r \<Rightarrow> r | None \<Rightarrow> d)"

definition adapter_installed :: "page_answer \<Rightarrow> (string + string option) \<times> adapter_state" where
  "adapter_installed answer =
     (case answer of
        Inl (name, txt) \<Rightarrow> (Inl (sanitized name txt), Adapter_failed)
      | Inr v \<Rightarrow>
          if opt_get v ''ok'' \<noteq> Some (JBool True) then (Inl (reason_or ''PAGE_OBSERVER_NOT_INSTALLED'' v), Adapter_failed)
          else (Inr (as_string (opt_get v ''storeReachableVia'')), Adapter_installed))"

definition drain_refusal :: "adapter_state \<Rightarrow> string option" where
  "drain_refusal st = (case st of
       Adapter_disabled \<Rightarrow> Some ''ADAPTER_DISABLED''
     | Adapter_unloaded \<Rightarrow> Some ''ADAPTER_UNLOADED''
     | Adapter_failed \<Rightarrow> Some ''ADAPTER_NOT_INSTALLED''
     | Adapter_installed \<Rightarrow> None)"

record drained =
  da_messages :: "json list"
  da_dropped :: "number option"
  da_duplicates :: nat
  da_diagnostics :: "string list"

text \<open>\<open>Number (v ?? 0)\<close>; \<open>None\<close> is not a number.\<close>

definition number_or_zero :: "coercions \<Rightarrow> json option \<Rightarrow> number option" where
  "number_or_zero co v = (case v of None \<Rightarrow> Some (Integral 0) | Some JNull \<Rightarrow> Some (Integral 0) | Some (JNum n) \<Rightarrow> Some n | Some w \<Rightarrow> je_number co w)"

fun positive :: "number option \<Rightarrow> bool" where
  "positive None = False"
| "positive (Some (Integral n)) = (n > 0)"
| "positive (Some (Fractional t)) = (take 1 t \<noteq> ''-'')"

definition string_of_value :: "coercions \<Rightarrow> json option \<Rightarrow> string" where
  "string_of_value co v = (case v of None \<Rightarrow> ''undefined'' | Some JNull \<Rightarrow> ''null'' | Some (JNum n) \<Rightarrow> show_number n | Some w \<Rightarrow> je_string co w)"

definition delivered_message :: "json \<Rightarrow> json \<Rightarrow> json" where
  "delivered_message m e = JObj
     [(''source'', JStr ''PAGE_DECODED_EVENT''), (''identityAuthority'', JStr ''PAYLOAD_SUPPLIED_UNVERIFIED''), (''message'', m),
      (''mutation'', or_null (jget e ''mutation''))]"

definition deliver_entry :: "json option \<Rightarrow> json \<Rightarrow> drained \<Rightarrow> drained" where
  "deliver_entry m e d = d\<lparr>da_messages := da_messages d @ [delivered_message (or_null m) e],
     da_diagnostics := da_diagnostics d @ (if opt_get m ''is_history'' = Some (JBool True) then [] else [''NEWNESS_UNVERIFIED''])\<rparr>"

text \<open>One entry of a drained batch; \<open>seen\<close> are the ids seen in it.\<close>

definition drain_entry :: "int \<Rightarrow> json \<Rightarrow> string list \<times> drained \<Rightarrow> string list \<times> drained" where
  "drain_entry gen e = (\<lambda>(seen, d).
     (let m = jget e ''message'' in
      if \<not> is_object m then (seen, d\<lparr>da_diagnostics := da_diagnostics d @ [''MESSAGE_SHAPE_INVALID'']\<rparr>)
      else
        let (seen1, d1) = (case as_string (opt_get m ''msg_id'') of
              None \<Rightarrow> (seen, d)
            | Some i \<Rightarrow> if i \<in> set seen then (seen, d\<lparr>da_duplicates := Suc (da_duplicates d)\<rparr>) else (add_set i seen, d)) in
        case jget e ''pageDocumentGeneration'' of
          Some (JNum n) \<Rightarrow>
            if n \<noteq> Integral gen then (seen1, d1\<lparr>da_diagnostics := da_diagnostics d1 @ [''GENERATION_MISMATCH'']\<rparr>)
            else (seen1, deliver_entry m e d1)
        | _ \<Rightarrow> (seen1, deliver_entry m e d1)))"

definition no_drained :: drained where
  "no_drained = \<lparr>da_messages = [], da_dropped = Some (Integral 0), da_duplicates = 0, da_diagnostics = []\<rparr>"

text \<open>The drain after its two evaluations; \<open>gen\<close> is the generation of the document when it began.\<close>

definition adapter_drained :: "coercions \<Rightarrow> int \<Rightarrow> page_answer \<Rightarrow> string + drained" where
  "adapter_drained co gen answer =
     (case answer of
        Inl (name, txt) \<Rightarrow> Inl (sanitized name txt)
      | Inr payload \<Rightarrow>
          (case opt_get payload ''events'' of
             Some (JArr entries) \<Rightarrow>
               let (_, d) = fold (drain_entry gen) entries ([], no_drained);
                   remaining = number_or_zero co (opt_get payload ''remaining'');
                   dropped = number_or_zero co (opt_get payload ''dropped'') in
               Inr (d\<lparr>da_dropped := dropped, da_diagnostics := da_diagnostics d
                 @ (if positive remaining then [''BATCH_LIMIT_REACHED_REMAINING_'' @ show_number (the remaining)] else [])
                 @ (if positive dropped then [''PAGE_OBSERVER_DROPPED_'' @ string_of_value co (opt_get payload ''dropped'')] else [])\<rparr>)
           | _ \<Rightarrow> Inl ''DRAIN_SHAPE_INVALID''))"

definition adapter_unloaded :: "page_answer \<Rightarrow> string option" where
  "adapter_unloaded answer =
     (case answer of
        Inl (name, txt) \<Rightarrow> Some (sanitized name txt)
      | Inr v \<Rightarrow> if opt_get v ''ok'' = Some (JBool True) then None else Some (reason_or ''UNLOAD_FAILED'' v))"

subsection \<open>The capture of a shop\<close>

text \<open>
  A capture is an object: a drain that resumes after the capture was stopped still counts in its own. \<open>cp_dropped\<close> holds the
  summands of the counter of dropped messages; the other counters and the ledger are left out.
\<close>

record capture =
  cp_adapter :: adapter_state
  cp_dropped :: "number list"
  cp_batchLimited :: nat

record captures =
  cs_objects :: "(nat \<times> capture) list"
  cs_states :: "(string \<times> nat) list"
  cs_next :: nat

definition no_captures :: captures where
  "no_captures = \<lparr>cs_objects = [], cs_states = [], cs_next = 0\<rparr>"

text \<open>\<open>startDecodedEventCapture\<close> before its await: the result, or \<open>None\<close> when the observer is to be installed.\<close>

definition capture_start :: "service_options \<Rightarrow> bool \<Rightarrow> string \<Rightarrow> captures \<Rightarrow> string option option" where
  "capture_start opts enabled shop cs =
     (if \<not> enabled then Some (Some ''DECODED_EVENT_CAPTURE_DISABLED'')
      else if so_collector opts = None then Some (Some ''COLLECTOR_MISSING'')
      else if map_of (cs_states cs) shop \<noteq> None then Some None else None)"

definition capture_started :: "string \<Rightarrow> page_answer \<Rightarrow> captures \<Rightarrow> string option \<times> captures" where
  "capture_started shop answer cs =
     (case adapter_installed answer of
        (Inl r, _) \<Rightarrow> (Some r, cs)
      | (Inr _, st) \<Rightarrow> (None, cs\<lparr>cs_objects := map_set (cs_next cs) \<lparr>cp_adapter = st, cp_dropped = [], cp_batchLimited = 0\<rparr> (cs_objects cs),
           cs_states := map_set shop (cs_next cs) (cs_states cs), cs_next := Suc (cs_next cs)\<rparr>))"

text \<open>\<open>drainDecodedEvents\<close> up to the evaluations of the adapter: the capture, the session and the generation to ask for.\<close>

definition capture_drain :: "service_options \<Rightarrow> string \<Rightarrow> captures \<Rightarrow> service \<Rightarrow> (string + nat \<times> nat \<times> int) \<times> service" where
  "capture_drain opts shop cs s =
     (case Option.bind (map_of (cs_states cs) shop) (\<lambda>n. map_option (Pair n) (map_of (cs_objects cs) n)) of
        None \<Rightarrow> (Inl ''DECODED_EVENT_CAPTURE_NOT_STARTED'', s)
      | Some (n, c) \<Rightarrow>
          (case drain_begin opts shop s of
             (Inl r, s1) \<Rightarrow> (Inl r, s1)
           | (Inr i, s1) \<Rightarrow>
               (case drain_refusal (cp_adapter c) of
                  Some r \<Rightarrow> (Inl r, s1)
                | None \<Rightarrow> (Inr (n, i, case Option.bind (shop_session shop s1) (resolveActiveCanonicalDocumentBinding (live_contents s1)) of
                      Some b \<Rightarrow> db_documentGeneration b | None \<Rightarrow> -1), s1))))"

record capture_report =
  cr_drained :: nat
  cr_ingested :: nat
  cr_duplicates :: nat
  cr_remaining :: "number option"
  cr_dropped :: "number option"
  cr_gap :: bool
  cr_diagnostics :: "string list"

definition remaining_entry :: "coercions \<Rightarrow> string list \<Rightarrow> number option" where
  "remaining_entry co ds = (case find (prefix ''BATCH_LIMIT_REACHED_REMAINING_'') ds of
       None \<Rightarrow> Some (Integral 0)
     | Some d \<Rightarrow> je_number co (JStr (last (js_split ''_'' d))))"

definition update_capture :: "nat \<Rightarrow> (capture \<Rightarrow> capture) \<Rightarrow> captures \<Rightarrow> captures" where
  "update_capture n f cs = (case map_of (cs_objects cs) n of None \<Rightarrow> cs | Some c \<Rightarrow> cs\<lparr>cs_objects := map_set n (f c) (cs_objects cs)\<rparr>)"

definition capture_drained ::
  "coercions \<Rightarrow> service_options \<Rightarrow> (service \<Rightarrow> service) \<Rightarrow> string \<Rightarrow> nat \<Rightarrow> nat \<Rightarrow> int \<Rightarrow> page_answer \<Rightarrow> captures \<Rightarrow> service \<Rightarrow>
   (string + capture_report) \<times> collected \<times> captures \<times> service" where
  "capture_drained co opts reenter shop n i gen answer cs s =
     (case adapter_drained co gen answer of
        Inl r \<Rightarrow> (Inl r, [], cs, s)
      | Inr d \<Rightarrow>
          (case drain_finish opts reenter shop i (map (\<lambda>e. jget e ''message'') (da_messages d)) (da_diagnostics d) s of
             (Inl r, calls, s1) \<Rightarrow> (Inl r, calls, cs, s1)
           | (Inr rep, calls, s1) \<Rightarrow>
               let remaining = remaining_entry co (dr_diagnostics rep);
                   cs1 = (if positive remaining then update_capture n (\<lambda>c. c\<lparr>cp_batchLimited := Suc (cp_batchLimited c)\<rparr>) cs else cs);
                   cs2 = (if positive (da_dropped d) then update_capture n (\<lambda>c. c\<lparr>cp_dropped := cp_dropped c @ [the (da_dropped d)]\<rparr>) cs1 else cs1) in
               (Inr \<lparr>cr_drained = length (da_messages d), cr_ingested = dr_ingested rep, cr_duplicates = dr_duplicates rep, cr_remaining = remaining,
                  cr_dropped = da_dropped d, cr_gap = positive (da_dropped d), cr_diagnostics = dr_diagnostics rep\<rparr>, calls, cs2, s1)))"

text \<open>\<open>stopDecodedEventCapture\<close> before and after the page answers the request to unload; the capture is the one found before.\<close>

definition capture_stop :: "string \<Rightarrow> captures \<Rightarrow> string + nat" where
  "capture_stop shop cs = (case map_of (cs_states cs) shop of None \<Rightarrow> Inl ''DECODED_EVENT_CAPTURE_NOT_STARTED'' | Some n \<Rightarrow> Inr n)"

definition capture_stopped :: "string \<Rightarrow> nat \<Rightarrow> page_answer \<Rightarrow> captures \<Rightarrow> string option \<times> captures" where
  "capture_stopped shop n answer cs = (adapter_unloaded answer,
     (update_capture n (\<lambda>c. c\<lparr>cp_adapter := Adapter_unloaded\<rparr>) cs)\<lparr>cs_states := map_delete shop (cs_states cs)\<rparr>)"

subsection \<open>Histories of the page\<close>

datatype page_input =
    Page_mutation string "string option" "json option"
  | Page_generation int
  | Page_drain int

text \<open>The entries a mutation makes.\<close>

definition entries_of :: "page_input \<Rightarrow> page_buffer \<Rightarrow> json list" where
  "entries_of ev p = (case ev of
       Page_mutation now (Some n) payload \<Rightarrow>
         if n \<in> set MESSAGE_MUTATIONS then map (page_entry now n (pb_generation p)) (toMessages payload) else []
     | _ \<Rightarrow> [])"

fun page_step :: "page_input \<Rightarrow> page_buffer \<Rightarrow> json list \<times> page_buffer" where
  "page_step (Page_mutation now name payload) p = ([], page_record now name payload p)"
| "page_step (Page_generation g) p = ([], the (page_setGeneration g (Some p)))"
| "page_step (Page_drain m) p = (case page_drain m (Some p) of
       (answer, page) \<Rightarrow> (case opt_get answer ''events'' of Some (JArr es) \<Rightarrow> es | _ \<Rightarrow> [], the page))"

text \<open>What was drained, what was recorded and the buffer at the end.\<close>

fun page_run :: "page_input list \<Rightarrow> page_buffer \<Rightarrow> json list \<times> json list \<times> page_buffer" where
  "page_run [] p = ([], [], p)"
| "page_run (ev # evs) p =
     (let (out, p1) = page_step ev p; (outs, rec, p2) = page_run evs p1 in (out @ outs, entries_of ev p @ rec, p2))"

end
