(* ===== verification/Inbound_Props.thy ===== *)
theory Inbound_Props imports Inbound_Ingress begin

text \<open>
  What the canonical ingress guarantees: the type guards accept exactly the typed bindings, the source
  time check accepts exactly the printed valid times, and an envelope that leaves the ingress belongs to
  the shop, scope, customer and message it was observed for.
\<close>

subsection \<open>Type guards\<close>

text \<open>A typed binding: every string of it is non-empty.\<close>

definition typed_res :: "string identity_resolution \<Rightarrow> bool" where
  "typed_res r = (case r of Id_resolved s \<Rightarrow> s \<noteq> [] | _ \<Rightarrow> True)"

definition typed_opt :: "string option \<Rightarrow> bool" where
  "typed_opt v = (case v of Some s \<Rightarrow> s \<noteq> [] | None \<Rightarrow> True)"

definition typed_scope :: "scope_binding \<Rightarrow> bool" where
  "typed_scope s = (typed_res (sb_merchantId s) \<and> typed_res (sb_storeId s) \<and> typed_res (sb_platformAccountId s))"

definition typed_association :: "message_association \<Rightarrow> bool" where
  "typed_association a = (as_ownerRuntimeShopId a \<noteq> [] \<and> typed_scope (as_ownerScope a) \<and> typed_opt (as_platformCustomerId a)
     \<and> typed_opt (as_platformMessageId a) \<and> typed_res (as_internalConversationId a) \<and> typed_res (as_localMessageId a))"

definition typed_identity :: "identity_binding \<Rightarrow> bool" where
  "typed_identity b = (typed_res (ib_runtimeShop b) \<and> typed_res (ib_runtimeConversationReference b) \<and> typed_scope (ib_scope b)
     \<and> (case ib_association b of Some a \<Rightarrow> typed_association a | None \<Rightarrow> True)
     \<and> (case ib_selected b of Some (Customer_selected c) \<Rightarrow> c \<noteq> [] | _ \<Rightarrow> True))"

text \<open>The object of a typed binding.\<close>

definition ref_json :: "string \<Rightarrow> json" where
  "ref_json s = JObj [(''value'', JStr s)]"

fun res_json :: "(string \<Rightarrow> json) \<Rightarrow> string identity_resolution \<Rightarrow> json" where
  "res_json f (Id_resolved s) = JObj [(''status'', JStr ''RESOLVED''), (''value'', f s)]"
| "res_json f Id_unknown = JObj [(''status'', JStr ''UNKNOWN'')]"
| "res_json f Id_unresolved = JObj [(''status'', JStr ''UNRESOLVED'')]"

definition scope_json :: "scope_binding \<Rightarrow> json" where
  "scope_json s = JObj [(''merchantId'', res_json JStr (sb_merchantId s)), (''storeId'', res_json JStr (sb_storeId s)),
     (''platformAccountId'', res_json JStr (sb_platformAccountId s))]"

definition association_json :: "message_association \<Rightarrow> json" where
  "association_json a = JObj ([(''ownerRuntimeShopId'', JStr (as_ownerRuntimeShopId a)), (''ownerScope'', scope_json (as_ownerScope a)),
     (''internalConversationId'', res_json JStr (as_internalConversationId a)), (''localMessageId'', res_json JStr (as_localMessageId a))]
     @ opt_entry ''platformCustomerId'' (map_option JStr (as_platformCustomerId a))
     @ opt_entry ''platformMessageId'' (map_option JStr (as_platformMessageId a)))"

fun selected_json :: "selected_customer \<Rightarrow> json" where
  "selected_json (Customer_selected c) = JObj [(''status'', JStr ''SELECTED''), (''platformCustomerId'', ref_json c)]"
| "selected_json Customer_none = JObj [(''status'', JStr ''NONE'')]"
| "selected_json Customer_unknown = JObj [(''status'', JStr ''UNKNOWN'')]"

definition identity_json :: "identity_binding \<Rightarrow> json" where
  "identity_json b = JObj ([(''runtimeShop'', res_json ref_json (ib_runtimeShop b)), (''scope'', scope_json (ib_scope b)),
     (''runtimeConversationReference'', res_json ref_json (ib_runtimeConversationReference b))]
     @ opt_entry ''association'' (map_option association_json (ib_association b))
     @ opt_entry ''selectedCustomerObservation'' (map_option selected_json (ib_selected b)))"

lemma map_of_opt_entry [simp]: "map_of (opt_entry k v) j = (if j = k then v else None)"
  by (cases v) (simp_all add: opt_entry_def)

lemma res_json_string [simp]:
  "typed_res r \<Longrightarrow> isIdentityResolution nonEmptyString (Some (res_json JStr r))"
  "read_resolution string_of (Some (res_json JStr r)) = r"
  by (cases r; simp add: typed_res_def isIdentityResolution_def read_resolution_def isRecord_def has_own_def nonEmptyString_iff)+

lemma res_json_ref [simp]:
  "typed_res r \<Longrightarrow> isIdentityResolution isReferenceValue (Some (res_json ref_json r))"
  "read_resolution read_ref (Some (res_json ref_json r)) = r"
  by (cases r; simp add: typed_res_def isIdentityResolution_def read_resolution_def isRecord_def has_own_def nonEmptyString_iff
      isReferenceValue_def ref_json_def read_ref_def)+

lemma scope_json_ok [simp]:
  "typed_scope s \<Longrightarrow> isScopeBinding (Some (scope_json s))" "read_scope (Some (scope_json s)) = s"
  by (simp_all add: typed_scope_def isScopeBinding_def scope_json_def isRecord_def read_scope_def)

lemma association_json_ok [simp]:
  "typed_association a \<Longrightarrow> isMessageAssociation (Some (association_json a))"
  "read_association (Some (association_json a)) = a"
  by (cases "as_platformCustomerId a"; cases "as_platformMessageId a";
      simp add: typed_association_def isMessageAssociation_def association_json_def isRecord_def read_association_def
        nonEmptyString_iff typed_opt_def map_add_def as_string_def)+

lemma selected_json_ok [simp]:
  "(case c of Customer_selected i \<Rightarrow> i \<noteq> [] | _ \<Rightarrow> True) \<Longrightarrow> isSelectedCustomerObservation (Some (selected_json c))"
  "read_selected (Some (selected_json c)) = c"
  by (cases c; simp add: isSelectedCustomerObservation_def isRecord_def read_selected_def isReferenceValue_def ref_json_def
      nonEmptyString_iff read_ref_def)+

lemma identity_json_ok:
  "typed_identity b \<Longrightarrow> isIdentityBinding (Some (identity_json b))"
  "read_identity (Some (identity_json b)) = b"
  by (cases "ib_association b"; cases "ib_selected b";
      simp add: typed_identity_def isIdentityBinding_def identity_json_def isRecord_def read_identity_def map_add_def)+

lemma guarded_res:
  "isIdentityResolution nonEmptyString v \<Longrightarrow> typed_res (read_resolution string_of v)"
  "isIdentityResolution isReferenceValue v \<Longrightarrow> typed_res (read_resolution read_ref v)"
  by (auto simp: isIdentityResolution_def read_resolution_def typed_res_def nonEmptyString_iff isReferenceValue_def read_ref_def
      split: if_splits)

lemma guarded_scope: "isScopeBinding v \<Longrightarrow> typed_scope (read_scope v)"
  by (simp add: isScopeBinding_def typed_scope_def read_scope_def guarded_res)

lemma guarded_opt: "(v \<noteq> None \<longrightarrow> nonEmptyString v) \<Longrightarrow> typed_opt (as_string v)"
  by (cases v) (auto simp: nonEmptyString_iff typed_opt_def as_string_def)

lemma guarded_association: "isMessageAssociation v \<Longrightarrow> typed_association (read_association v)"
  unfolding isMessageAssociation_def typed_association_def read_association_def
  using guarded_opt [of "opt_get v ''platformCustomerId''"] guarded_opt [of "opt_get v ''platformMessageId''"]
  by (auto simp: guarded_res guarded_scope nonEmptyString_iff)

lemma guarded_identity: "isIdentityBinding v \<Longrightarrow> typed_identity (read_identity v)"
  by (cases "opt_get v ''association''"; cases "opt_get v ''selectedCustomerObservation''")
    (auto simp: isIdentityBinding_def typed_identity_def read_identity_def guarded_res guarded_scope guarded_association
      isSelectedCustomerObservation_def read_selected_def isReferenceValue_def nonEmptyString_iff read_ref_def)

text \<open>
  The declared types of the bindings, independent of the guards: which JSON values denote which typed binding. A
  resolution is an object with one of the three states; it has a value when it is resolved and none otherwise; a
  reference is an object with a non-empty string as its only property.
\<close>

definition denotes_text :: "json \<Rightarrow> string \<Rightarrow> bool" where
  "denotes_text w s \<longleftrightarrow> w = JStr s \<and> s \<noteq> []"

definition denotes_ref :: "json \<Rightarrow> string \<Rightarrow> bool" where
  "denotes_ref w s \<longleftrightarrow> w = JObj [(''value'', JStr s)] \<and> s \<noteq> []"

inductive denotes_res :: "(json \<Rightarrow> string \<Rightarrow> bool) \<Rightarrow> json option \<Rightarrow> string identity_resolution \<Rightarrow> bool" for val where
  resolved: "map_of kvs ''status'' = Some (JStr ''RESOLVED'') \<Longrightarrow> map_of kvs ''value'' = Some w \<Longrightarrow> val w s
    \<Longrightarrow> denotes_res val (Some (JObj kvs)) (Id_resolved s)"
| unknown: "map_of kvs ''status'' = Some (JStr ''UNKNOWN'') \<Longrightarrow> map_of kvs ''value'' = None
    \<Longrightarrow> denotes_res val (Some (JObj kvs)) Id_unknown"
| unresolved: "map_of kvs ''status'' = Some (JStr ''UNRESOLVED'') \<Longrightarrow> map_of kvs ''value'' = None
    \<Longrightarrow> denotes_res val (Some (JObj kvs)) Id_unresolved"

inductive_simps denotes_res_object: "denotes_res val (Some (JObj kvs)) r"
inductive_simps denotes_res_value: "denotes_res val v r"

definition denotes_scope :: "json option \<Rightarrow> scope_binding \<Rightarrow> bool" where
  "denotes_scope v s \<longleftrightarrow> (\<exists>kvs. v = Some (JObj kvs)
     \<and> denotes_res denotes_text (map_of kvs ''merchantId'') (sb_merchantId s)
     \<and> denotes_res denotes_text (map_of kvs ''storeId'') (sb_storeId s)
     \<and> denotes_res denotes_text (map_of kvs ''platformAccountId'') (sb_platformAccountId s))"

definition denotes_optional :: "(json \<Rightarrow> 'a \<Rightarrow> bool) \<Rightarrow> json option \<Rightarrow> 'a option \<Rightarrow> bool" where
  "denotes_optional val v x \<longleftrightarrow> (v = None \<and> x = None) \<or> (\<exists>w y. v = Some w \<and> x = Some y \<and> val w y)"

definition denotes_association :: "json option \<Rightarrow> message_association \<Rightarrow> bool" where
  "denotes_association v a \<longleftrightarrow> (\<exists>kvs. v = Some (JObj kvs)
     \<and> (\<exists>w. map_of kvs ''ownerRuntimeShopId'' = Some w \<and> denotes_text w (as_ownerRuntimeShopId a))
     \<and> denotes_scope (map_of kvs ''ownerScope'') (as_ownerScope a)
     \<and> denotes_optional denotes_text (map_of kvs ''platformCustomerId'') (as_platformCustomerId a)
     \<and> denotes_optional denotes_text (map_of kvs ''platformMessageId'') (as_platformMessageId a)
     \<and> denotes_res denotes_text (map_of kvs ''internalConversationId'') (as_internalConversationId a)
     \<and> denotes_res denotes_text (map_of kvs ''localMessageId'') (as_localMessageId a))"

definition denotes_selected :: "json option \<Rightarrow> selected_customer \<Rightarrow> bool" where
  "denotes_selected v c \<longleftrightarrow> (\<exists>kvs. v = Some (JObj kvs) \<and> (case c of
       Customer_selected s \<Rightarrow> map_of kvs ''status'' = Some (JStr ''SELECTED'')
         \<and> (\<exists>w. map_of kvs ''platformCustomerId'' = Some w \<and> denotes_ref w s)
     | Customer_none \<Rightarrow> map_of kvs ''status'' = Some (JStr ''NONE'')
     | Customer_unknown \<Rightarrow> map_of kvs ''status'' = Some (JStr ''UNKNOWN'')))"

definition denotes_identity :: "json option \<Rightarrow> identity_binding \<Rightarrow> bool" where
  "denotes_identity v b \<longleftrightarrow> (\<exists>kvs. v = Some (JObj kvs)
     \<and> denotes_res denotes_ref (map_of kvs ''runtimeShop'') (ib_runtimeShop b)
     \<and> denotes_res denotes_ref (map_of kvs ''runtimeConversationReference'') (ib_runtimeConversationReference b)
     \<and> denotes_scope (map_of kvs ''scope'') (ib_scope b)
     \<and> denotes_optional (\<lambda>w. denotes_association (Some w)) (map_of kvs ''association'') (ib_association b)
     \<and> denotes_optional (\<lambda>w. denotes_selected (Some w)) (map_of kvs ''selectedCustomerObservation'') (ib_selected b))"

lemma record_object: "isRecord v \<longleftrightarrow> (\<exists>kvs. v = Some (JObj kvs))"
  by (auto simp: isRecord_def split: option.splits json.splits)

lemma denotes_text_guard: "denotes_text w s \<longleftrightarrow> nonEmptyString (Some w) \<and> string_of (Some w) = s"
  by (auto simp: denotes_text_def nonEmptyString_iff)

lemma denotes_ref_guard: "denotes_ref w s \<longleftrightarrow> isReferenceValue (Some w) \<and> read_ref (Some w) = s"
proof
  assume r: "isReferenceValue (Some w) \<and> read_ref (Some w) = s"
  then obtain kvs where w: "w = JObj kvs" "length kvs = 1" by (auto simp: isReferenceValue_def record_object)
  then obtain k x where "kvs = [(k, x)]" by (cases kvs) auto
  with r w show "denotes_ref w s"
    by (auto simp: denotes_ref_def isReferenceValue_def nonEmptyString_iff read_ref_def split: if_splits)
qed (auto simp: denotes_ref_def isReferenceValue_def record_object nonEmptyString_iff read_ref_def)

lemma denotes_res_guard:
  assumes "\<And>w s. val w s \<longleftrightarrow> ok (Some w) \<and> rd (Some w) = s"
  shows "denotes_res val v r \<longleftrightarrow> isIdentityResolution ok v \<and> read_resolution rd v = r"
proof (cases "isRecord v")
  case True
  then obtain kvs where "v = Some (JObj kvs)" by (auto simp: record_object)
  then show ?thesis
    by (auto simp: denotes_res_object isIdentityResolution_def read_resolution_def record_object has_own_def assms split: if_splits)
qed (auto simp: denotes_res_value isIdentityResolution_def record_object)

lemma denotes_res_guards:
  "denotes_res denotes_text v r \<longleftrightarrow> isIdentityResolution nonEmptyString v \<and> read_resolution string_of v = r"
  "denotes_res denotes_ref v r \<longleftrightarrow> isIdentityResolution isReferenceValue v \<and> read_resolution read_ref v = r"
  by (rule denotes_res_guard, rule denotes_text_guard) (rule denotes_res_guard, rule denotes_ref_guard)

lemma denotes_scope_guard: "denotes_scope v s \<longleftrightarrow> isScopeBinding v \<and> read_scope v = s"
  by (cases s) (auto simp: denotes_scope_def isScopeBinding_def read_scope_def record_object denotes_res_guards)

lemma denotes_optional_text: "denotes_optional denotes_text v x \<longleftrightarrow> (v \<noteq> None \<longrightarrow> nonEmptyString v) \<and> as_string v = x"
  by (cases v) (auto simp: denotes_optional_def denotes_text_def nonEmptyString_iff as_string_def)

lemma denotes_association_guard: "denotes_association v a \<longleftrightarrow> isMessageAssociation v \<and> read_association v = a"
  by (cases a) (auto simp: denotes_association_def isMessageAssociation_def read_association_def record_object denotes_res_guards
      denotes_scope_guard denotes_optional_text denotes_text_def nonEmptyString_iff)

lemma denotes_selected_guard: "denotes_selected v c \<longleftrightarrow> isSelectedCustomerObservation v \<and> read_selected v = c"
proof (cases "isRecord v")
  case True
  then obtain kvs where v: "v = Some (JObj kvs)" by (auto simp: record_object)
  show ?thesis
  proof (cases "map_of kvs ''platformCustomerId''")
    case None
    then have "\<not> isReferenceValue (map_of kvs ''platformCustomerId'')" by (simp add: isReferenceValue_def record_object)
    with None show ?thesis
      by (cases c) (auto simp: v denotes_selected_def isSelectedCustomerObservation_def read_selected_def record_object split: if_splits)
  next
    case (Some w)
    then show ?thesis
      by (cases c) (auto simp: v denotes_selected_def isSelectedCustomerObservation_def read_selected_def record_object
          denotes_ref_guard split: if_splits)
  qed
qed (auto simp: denotes_selected_def isSelectedCustomerObservation_def record_object)

lemma denotes_identity_guard: "denotes_identity v b \<longleftrightarrow> isIdentityBinding v \<and> read_identity v = b"
proof -
  have opt: "denotes_optional (\<lambda>w. denotes_association (Some w)) x y
      \<longleftrightarrow> (x \<noteq> None \<longrightarrow> isMessageAssociation x) \<and> map_option (\<lambda>a. read_association (Some a)) x = y"
    "denotes_optional (\<lambda>w. denotes_selected (Some w)) x z
      \<longleftrightarrow> (x \<noteq> None \<longrightarrow> isSelectedCustomerObservation x) \<and> map_option (\<lambda>a. read_selected (Some a)) x = z" for x y z
    by (cases x; auto simp: denotes_optional_def denotes_association_guard denotes_selected_guard)+
  show ?thesis
    by (cases b) (auto simp: denotes_identity_def isIdentityBinding_def read_identity_def record_object denotes_res_guards
        denotes_scope_guard opt)
qed

text \<open>
  Property C36. The type guards of the ingress are exact. A value is accepted by \<open>isIdentityBinding\<close>, and read by
  the code behind the guard as the binding \<open>b\<close>, exactly when it denotes \<open>b\<close> by the declared types: every
  resolution is \<open>RESOLVED\<close> with a value of its type or \<open>UNKNOWN\<close> or \<open>UNRESOLVED\<close> without one, every reference holds
  a non-empty string and nothing else, and the optional parts are absent or well-typed. The same holds of
  \<open>isScopeBinding\<close>. And every typed binding or scope is denoted by some value, so none is turned away.
\<close>

theorem guards_accept_typed_bindings:
  "(isIdentityBinding v \<and> read_identity v = b \<longleftrightarrow> denotes_identity v b)
   \<and> (isScopeBinding v \<and> read_scope v = s \<longleftrightarrow> denotes_scope v s)
   \<and> ((\<exists>x. isIdentityBinding x \<and> read_identity x = b) \<longleftrightarrow> typed_identity b)
   \<and> ((\<exists>x. isScopeBinding x \<and> read_scope x = s) \<longleftrightarrow> typed_scope s)"
  using guarded_identity identity_json_ok [of b] guarded_scope scope_json_ok [of s] denotes_identity_guard denotes_scope_guard
  by metis

subsection \<open>Source time\<close>

text \<open>The reference: a calendar time, its validity, and its text with \<open>n\<close> digits per field.\<close>

definition leap_year :: "nat \<Rightarrow> bool" where
  "leap_year y \<longleftrightarrow> 4 dvd y \<and> (100 dvd y \<longrightarrow> 400 dvd y)"

definition month_length :: "nat \<Rightarrow> nat \<Rightarrow> nat" where
  "month_length y m = [31, if leap_year y then 29 else 28, 31, 30, 31, 30, 31, 31, 30, 31, 30, 31] ! (m - 1)"

record calendar_time =
  ct_year :: nat
  ct_month :: nat
  ct_day :: nat
  ct_hour :: nat
  ct_minute :: nat
  ct_second :: nat

definition valid_time :: "calendar_time \<Rightarrow> bool" where
  "valid_time t \<longleftrightarrow> 1 \<le> ct_year t \<and> ct_year t \<le> 9999 \<and> 1 \<le> ct_month t \<and> ct_month t \<le> 12
     \<and> 1 \<le> ct_day t \<and> ct_day t \<le> month_length (ct_year t) (ct_month t)
     \<and> ct_hour t < 24 \<and> ct_minute t < 60 \<and> ct_second t < 60"

fun pad :: "nat \<Rightarrow> nat \<Rightarrow> string" where
  "pad 0 v = []"
| "pad (Suc n) v = pad n (v div 10) @ [char_of (48 + v mod 10)]"

definition show_fraction :: "string \<Rightarrow> string" where
  "show_fraction fr = (if fr = [] then [] else CHR ''.'' # fr)"

definition show_time :: "calendar_time \<Rightarrow> string \<Rightarrow> string" where
  "show_time t fr = pad 4 (ct_year t) @ ''-'' @ pad 2 (ct_month t) @ ''-'' @ pad 2 (ct_day t) @ ''T''
     @ pad 2 (ct_hour t) @ '':'' @ pad 2 (ct_minute t) @ '':'' @ pad 2 (ct_second t) @ show_fraction fr @ ''Z''"

definition fraction_ok :: "string \<Rightarrow> bool" where
  "fraction_ok fr \<longleftrightarrow> length fr \<le> 9 \<and> list_all is_digit fr"

lemma daysInMonth_eq: "1 \<le> m \<Longrightarrow> m \<le> 12 \<Longrightarrow> daysInMonth y m = month_length y m"
proof -
  assume "1 \<le> m" "m \<le> 12"
  then have "m \<in> set [1..<13]" by simp
  then have "m \<in> set [1, 2, 3, 4, 5, 6, 7, 8, 9, 10, 11, 12]" by (simp add: upt_rec eval_nat_numeral)
  then show ?thesis
    by (auto simp: daysInMonth_def month_length_def leap_year_def dvd_eq_mod_eq_0 nth_Cons')
qed

lemma length_pad [simp]: "length (pad n v) = n"
  by (induction n arbitrary: v) auto

lemma pad_digits: "list_all is_digit (pad n v)"
  by (induction n arbitrary: v) (auto simp: is_digit_char_of list_all_iff)

lemma read_number_snoc: "read_number (s @ [c]) = 10 * read_number s + digit_value c"
  by (simp add: read_number_def)

lemma digit_value_char_of: "d < 10 \<Longrightarrow> digit_value (char_of (48 + d :: nat)) = d"
  by (simp add: digit_value_def of_char_of)

lemma read_number_pad: "v < 10 ^ n \<Longrightarrow> read_number (pad n v) = v"
proof (induction n arbitrary: v)
  case 0
  then show ?case by (simp add: read_number_def)
next
  case (Suc n)
  then have "read_number (pad n (v div 10)) = v div 10" by (simp add: less_mult_imp_div_less)
  then show ?case by (simp add: read_number_snoc digit_value_char_of)
qed

lemma digit_char: "is_digit c \<Longrightarrow> char_of (48 + digit_value c) = c \<and> digit_value c < 10"
  by (auto simp: is_digit_def digit_value_def)

lemma pad_read_number: "list_all is_digit s \<Longrightarrow> pad (length s) (read_number s) = s \<and> read_number s < 10 ^ length s"
proof (induction s rule: rev_induct)
  case Nil
  then show ?case by (simp add: read_number_def)
next
  case (snoc c s)
  then have "is_digit c" by simp
  note d = digit_char [OF this]
  have "(10 * read_number s + digit_value c) div 10 = read_number s"
    "(10 * read_number s + digit_value c) mod 10 = digit_value c"
    using d by auto
  then show ?case using snoc d by (simp add: read_number_snoc)
qed

lemma take_digits_iff: "take_digits n s = Some (v, r) \<longleftrightarrow> v < 10 ^ n \<and> s = pad n v @ r"
proof
  assume "take_digits n s = Some (v, r)"
  then have *: "n \<le> length s" "list_all is_digit (take n s)" "v = read_number (take n s)" "r = drop n s"
    by (auto simp: take_digits_def split: if_splits)
  then have "length (take n s) = n" by simp
  with pad_read_number [OF *(2)] have "pad n v = take n s" "v < 10 ^ n" using *(3) by simp_all
  then show "v < 10 ^ n \<and> s = pad n v @ r" using *(4) by simp
next
  assume "v < 10 ^ n \<and> s = pad n v @ r"
  then show "take_digits n s = Some (v, r)"
    using pad_digits [of n v] by (simp add: take_digits_def read_number_pad)
qed

lemma take_char_iff: "take_char c s = Some r \<longleftrightarrow> s = c # r"
  by (auto simp: take_char_def split: list.splits)

lemma fraction_end_iff: "fraction_end s \<longleftrightarrow> (\<exists>fr. fraction_ok fr \<and> s = show_fraction fr @ ''Z'')"
proof
  assume "fraction_end s"
  then consider "s = ''Z''"
    | n where "1 \<le> n" "n < 10" "take 1 s = ''.''" "length s = n + 2" "list_all is_digit (take n (drop 1 s))" "drop (n + 1) s = ''Z''"
    unfolding fraction_end_def list_ex_iff by auto
  then show "\<exists>fr. fraction_ok fr \<and> s = show_fraction fr @ ''Z''"
  proof cases
    case 1
    then have "fraction_ok [] \<and> s = show_fraction [] @ ''Z''" by (simp add: fraction_ok_def show_fraction_def)
    then show ?thesis by blast
  next
    case 2
    let ?fr = "take n (drop 1 s)"
    have "?fr \<noteq> []" using 2 by (cases s) auto
    moreover have "s = ''.'' @ ?fr @ ''Z''"
      using 2 append_take_drop_id [of 1 s] append_take_drop_id [of n "drop 1 s"] by (simp add: add.commute)
    ultimately have "fraction_ok ?fr \<and> s = show_fraction ?fr @ ''Z''"
      using 2 by (simp add: fraction_ok_def show_fraction_def)
    then show ?thesis by blast
  qed
next
  assume "\<exists>fr. fraction_ok fr \<and> s = show_fraction fr @ ''Z''"
  then obtain fr where fr: "fraction_ok fr" "s = show_fraction fr @ ''Z''" by blast
  show "fraction_end s"
  proof (cases "fr = []")
    case True
    with fr show ?thesis by (simp add: fraction_end_def show_fraction_def)
  next
    case False
    then have "length fr \<in> set [1..<10]" using fr(1) by (cases fr) (auto simp: fraction_ok_def)
    then show ?thesis
      using fr False unfolding fraction_end_def list_ex_iff
      by (intro disjI2 bexI [of _ "length fr"]) (simp_all add: show_fraction_def fraction_ok_def)
  qed
qed

definition time_of :: "nat \<times> nat \<times> nat \<times> nat \<times> nat \<times> nat \<Rightarrow> calendar_time" where
  "time_of = (\<lambda>(y, mo, d, h, mi, sec). \<lparr>ct_year = y, ct_month = mo, ct_day = d, ct_hour = h, ct_minute = mi, ct_second = sec\<rparr>)"

definition in_width :: "calendar_time \<Rightarrow> bool" where
  "in_width t \<longleftrightarrow> ct_year t < 10000 \<and> ct_month t < 100 \<and> ct_day t < 100 \<and> ct_hour t < 100 \<and> ct_minute t < 100 \<and> ct_second t < 100"

lemma match_time_iff:
  "match_time s = Some (y, mo, d, h, mi, sec) \<longleftrightarrow>
     in_width (time_of (y, mo, d, h, mi, sec)) \<and> (\<exists>fr. fraction_ok fr \<and> s = show_time (time_of (y, mo, d, h, mi, sec)) fr)"
  (is "?l \<longleftrightarrow> ?r")
proof
  assume ?l
  then show ?r
    unfolding match_time_def
    by (auto simp: bind_eq_Some_conv take_digits_iff take_char_iff fraction_end_iff in_width_def time_of_def show_time_def
        split: if_splits)
next
  assume ?r
  then obtain fr where fr: "fraction_ok fr" "s = show_time (time_of (y, mo, d, h, mi, sec)) fr"
    and w: "in_width (time_of (y, mo, d, h, mi, sec))" by blast
  have digits: "take_digits n (pad n v @ r) = Some (v, r)" if "v < 10 ^ n" for n v r
    using that by (simp add: take_digits_iff)
  have "fraction_end (show_fraction fr @ ''Z'')" using fr(1) fraction_end_iff by blast
  then show ?l
    using w unfolding fr(2) match_time_def show_time_def in_width_def time_of_def
    by (simp add: digits take_char_def)
qed

text \<open>
  The source-time check accepts a string exactly when it is the text of a valid
  Gregorian calendar time in UTC, with an optional fraction of one to nine digits; what it accepts it
  returns unchanged and without a diagnostic.
\<close>

theorem source_time_accepts_calendar_times:
  "normalizeSourceOccurredAt (Some (JStr s)) = (Some s, []) \<longleftrightarrow>
     (\<exists>t fr. valid_time t \<and> fraction_ok fr \<and> s = show_time t fr)"
proof
  assume "normalizeSourceOccurredAt (Some (JStr s)) = (Some s, [])"
  then obtain y mo d h mi sec where m: "match_time s = Some (y, mo, d, h, mi, sec)"
    and v: "1 \<le> y" "y \<le> 9999" "1 \<le> mo" "mo \<le> 12" "1 \<le> d" "d \<le> daysInMonth y mo" "h \<le> 23" "mi \<le> 59" "sec \<le> 59"
    unfolding normalizeSourceOccurredAt_def by (auto simp: is_nullish_def split: option.splits if_splits)
  have "valid_time (time_of (y, mo, d, h, mi, sec))"
    using v by (simp add: valid_time_def time_of_def daysInMonth_eq)
  with m show "\<exists>t fr. valid_time t \<and> fraction_ok fr \<and> s = show_time t fr"
    unfolding match_time_iff by blast
next
  assume "\<exists>t fr. valid_time t \<and> fraction_ok fr \<and> s = show_time t fr"
  then obtain t fr where t: "valid_time t" "fraction_ok fr" "s = show_time t fr" by blast
  let ?p = "(ct_year t, ct_month t, ct_day t, ct_hour t, ct_minute t, ct_second t)"
  have eq: "time_of ?p = t" by (simp add: time_of_def)
  have "month_length (ct_year t) (ct_month t) \<le> 31"
    using t(1) daysInMonth_eq [of "ct_month t" "ct_year t"] by (simp add: valid_time_def daysInMonth_def split: if_splits)
  then have "in_width t" using t(1) by (auto simp: valid_time_def in_width_def)
  then have "match_time s = Some ?p" unfolding match_time_iff eq using t by blast
  then show "normalizeSourceOccurredAt (Some (JStr s)) = (Some s, [])"
    using t(1) by (auto simp: normalizeSourceOccurredAt_def is_nullish_def valid_time_def daysInMonth_eq)
qed

subsection \<open>The ingress stays within its scope\<close>

lemma sameResolution_iff [simp]: "sameResolution l r \<longleftrightarrow> l = r"
  by (cases l; cases r) (simp_all add: sameResolution_def)

lemma sameScope_iff [simp]: "sameScope l r \<longleftrightarrow> l = r"
  by (auto simp: sameScope_def)

lemma check_association_None:
  assumes "check_association doc sc m a = None"
  shows "as_ownerRuntimeShopId a = db_shopId doc" and "as_ownerScope a = sc"
    and "as_platformCustomerId a = cm_customerUid m" and "as_platformMessageId a = cm_platformMessageId m"
    and "is_resolved (as_internalConversationId a) \<Longrightarrow> cm_customerUid m \<noteq> None"
    and "is_resolved (as_localMessageId a) \<Longrightarrow> cm_platformMessageId m \<noteq> None"
  using assms unfolding check_association_def by (auto split: if_split_asm)

text \<open>An envelope the mapper builds, field by field.\<close>

lemma mapped_envelope:
  assumes "mapPddInboundToCanonical m ident sid gen occurred = Map_mapped env ds"
  shows "il_platform (ie_lock env) = ''pdd''" "il_runtimeShop (ie_lock env) = ib_runtimeShop ident"
    "il_merchantId (ie_lock env) = sb_merchantId (ib_scope ident)" "il_storeId (ie_lock env) = sb_storeId (ib_scope ident)"
    "il_platformAccountId (ie_lock env) = sb_platformAccountId (ib_scope ident)"
    "il_platformCustomerId (ie_lock env) = mapPlatformCustomerId (cm_customerUid m)"
    "il_messageIdentity (ie_lock env) = mapPlatformMessageIdentity (cm_platformMessageId m)"
    "il_internalConversationId (ie_lock env) = (case ib_association ident of None \<Rightarrow> Id_unknown | Some a \<Rightarrow> as_internalConversationId a)"
    "il_localMessageId (ie_lock env) = (case ib_association ident of None \<Rightarrow> Id_unknown | Some a \<Rightarrow> as_localMessageId a)"
    "il_evidence (ie_lock env) = mapRuntimeEvidence sid gen (ib_selected ident)"
    "ie_text env = cm_content m" "ie_sourceOccurredAt env = occurred" "ie_kind env = ''text''" "sid \<noteq> []" "1 \<le> gen"
  using assms unfolding mapPddInboundToCanonical_def by (auto split: if_split_asm)

text \<open>What a run of the ingress that maps has passed.\<close>

lemma ingress_mapped_path:
  assumes "processPddInboundIngress found opts cache = (Ingress_mapped env ds, cache')"
  obtains m sv v mds where
    "normalizePddInboundForCanonical (opt_get (io_input opts) ''payload'') = Canon_accepted m"
    "io_resolveScope opts (io_document opts) = Some sv" "isScopeBinding sv"
    "io_resolveIdentity opts m (io_document opts) = Some v" "isIdentityBinding v"
    "ib_runtimeShop (read_identity v) = Id_resolved (db_shopId (io_document opts))"
    "ib_scope (read_identity v) = read_scope sv"
    "Option.bind (ib_association (read_identity v)) (check_association (io_document opts) (read_scope sv) m) = None"
    "mapPddInboundToCanonical m (read_identity v) (db_sessionId (io_document opts)) (db_documentGeneration (io_document opts))
       (fst (normalizeSourceOccurredAt (opt_get (io_input opts) ''sourceOccurredAt''))) = Map_mapped env mds"
    "fst (validateCanonicalEnvelope found env (io_canonicalValidator opts) cache) = None"
proof -
  obtain m where m: "normalizePddInboundForCanonical (opt_get (io_input opts) ''payload'') = Canon_accepted m"
    using assms by (cases "normalizePddInboundForCanonical (opt_get (io_input opts) ''payload'')")
      (auto simp: processPddInboundIngress_def split: if_split_asm)
  obtain sv where sv: "io_resolveScope opts (io_document opts) = Some sv" "isScopeBinding sv"
    using assms m by (cases "io_resolveScope opts (io_document opts)") (auto simp: processPddInboundIngress_def split: if_split_asm)
  obtain v where v: "io_resolveIdentity opts m (io_document opts) = Some v"
    using assms m sv by (cases "io_resolveIdentity opts m (io_document opts)") (auto simp: processPddInboundIngress_def split: if_split_asm)
  have i: "ingress_identity found opts m (read_scope sv) v cache = (Ingress_mapped env ds, cache')"
    using assms m sv v by (auto simp: processPddInboundIngress_def split: if_split_asm)
  then have g: "isIdentityBinding v" "ib_runtimeShop (read_identity v) = Id_resolved (db_shopId (io_document opts))"
    "ib_scope (read_identity v) = read_scope sv"
    "Option.bind (ib_association (read_identity v)) (check_association (io_document opts) (read_scope sv) m) = None"
    and im: "ingress_map found opts m (read_identity v) cache = (Ingress_mapped env ds, cache')"
    by (auto simp: ingress_identity_def Let_def split: if_split_asm option.split_asm)
  obtain mds where "mapPddInboundToCanonical m (read_identity v) (db_sessionId (io_document opts)) (db_documentGeneration (io_document opts))
       (fst (normalizeSourceOccurredAt (opt_get (io_input opts) ''sourceOccurredAt''))) = Map_mapped env mds"
    "fst (validateCanonicalEnvelope found env (io_canonicalValidator opts) cache) = None"
    using im unfolding ingress_map_def
    by (auto simp: Let_def split: prod.split_asm mapping_result.split_asm option.split_asm)
  with m sv v g show ?thesis by (rule that)
qed

text \<open>The canonical scope of an envelope.\<close>

definition envelope_scope :: "inbound_envelope \<Rightarrow> scope_binding" where
  "envelope_scope env = \<lparr>sb_merchantId = il_merchantId (ie_lock env), sb_storeId = il_storeId (ie_lock env),
     sb_platformAccountId = il_platformAccountId (ie_lock env)\<rparr>"

text \<open>
  Property C16. Whatever the resolvers and the validator answer, an envelope that leaves the ingress belongs
  to the document it was observed in: its runtime shop, session and generation are those of the
  document, its scope is the authoritative scope Main resolved for that document, its text and message id are
  those of the payload, and its customer is the digits-only uid of the payload or unknown. Its internal conversation
  and local message are those of the association that the identity resolver returned, and unknown without one; the
  association is owned by the shop of the document, in the scope of the envelope, and made for the very customer and
  message of the envelope (or for none, when the payload names none, and then no conversation or local message is
  attached). The validator accepted the envelope.
\<close>

theorem ingress_stays_in_scope:
  assumes "processPddInboundIngress found opts cache = (Ingress_mapped env ds, cache')"
  defines "doc \<equiv> io_document opts" and "payload \<equiv> opt_get (io_input opts) ''payload''" and "lock \<equiv> ie_lock env"
  shows "il_runtimeShop lock = Id_resolved (db_shopId doc)
    \<and> il_evidence lock = mapRuntimeEvidence (db_sessionId doc) (db_documentGeneration doc) (rv_selected (il_evidence lock))
    \<and> 1 \<le> db_documentGeneration doc
    \<and> (\<exists>sv. io_resolveScope opts doc = Some sv \<and> isScopeBinding sv \<and> envelope_scope env = read_scope sv)
    \<and> opt_get payload ''content'' = Some (JStr (ie_text env)) \<and> ie_text env \<noteq> []
    \<and> (\<exists>u. uid_ok (opt_get (opt_get payload ''from'') ''uid'') u \<and> il_platformCustomerId lock = mapPlatformCustomerId u)
    \<and> (\<exists>i. mid_ok (opt_get payload ''msg_id'') i \<and> il_messageIdentity lock = mapPlatformMessageIdentity i)
    \<and> (\<exists>m v. normalizePddInboundForCanonical payload = Canon_accepted m \<and> io_resolveIdentity opts m doc = Some v \<and> isIdentityBinding v
         \<and> (case ib_association (read_identity v) of
              None \<Rightarrow> il_internalConversationId lock = Id_unknown \<and> il_localMessageId lock = Id_unknown
            | Some a \<Rightarrow> il_internalConversationId lock = as_internalConversationId a \<and> il_localMessageId lock = as_localMessageId a
                \<and> as_ownerRuntimeShopId a = db_shopId doc \<and> as_ownerScope a = envelope_scope env
                \<and> mapPlatformCustomerId (as_platformCustomerId a) = il_platformCustomerId lock
                \<and> mapPlatformMessageIdentity (as_platformMessageId a) = il_messageIdentity lock))
    \<and> (is_resolved (il_internalConversationId lock) \<longrightarrow> is_resolved (il_platformCustomerId lock))
    \<and> (is_resolved (il_localMessageId lock) \<longrightarrow> il_messageIdentity lock \<noteq> Unknown_message_id)
    \<and> fst (validateCanonicalEnvelope found env (io_canonicalValidator opts) cache) = None"
proof -
  from assms(1) obtain m sv v mds where path:
    "normalizePddInboundForCanonical payload = Canon_accepted m"
    "io_resolveScope opts doc = Some sv" "isScopeBinding sv"
    "io_resolveIdentity opts m doc = Some v" "isIdentityBinding v"
    "ib_runtimeShop (read_identity v) = Id_resolved (db_shopId doc)"
    "ib_scope (read_identity v) = read_scope sv"
    "Option.bind (ib_association (read_identity v)) (check_association doc (read_scope sv) m) = None"
    and mp: "mapPddInboundToCanonical m (read_identity v) (db_sessionId doc) (db_documentGeneration doc)
       (fst (normalizeSourceOccurredAt (opt_get (io_input opts) ''sourceOccurredAt''))) = Map_mapped env mds"
    and val: "fst (validateCanonicalEnvelope found env (io_canonicalValidator opts) cache) = None"
    unfolding doc_def payload_def by (rule ingress_mapped_path)
  note env = mapped_envelope [OF mp, folded lock_def] and acc = canonical_accepted [OF path(1)]
  have scope: "envelope_scope env = read_scope sv" using env path(7) by (simp add: envelope_scope_def lock_def)
  have bound: "is_resolved (il_internalConversationId lock) \<longrightarrow> cm_customerUid m \<noteq> None"
    "is_resolved (il_localMessageId lock) \<longrightarrow> cm_platformMessageId m \<noteq> None"
    using env(8,9) path(8) check_association_None(5,6) by (cases "ib_association (read_identity v)"; simp add: is_resolved_def)+
  have "is_resolved (il_internalConversationId lock) \<longrightarrow> is_resolved (il_platformCustomerId lock)"
    "is_resolved (il_localMessageId lock) \<longrightarrow> il_messageIdentity lock \<noteq> Unknown_message_id"
    using bound env(6,7) by (auto simp: is_resolved_def mapPlatformCustomerId_def mapPlatformMessageIdentity_def)
  moreover have "case ib_association (read_identity v) of
      None \<Rightarrow> il_internalConversationId lock = Id_unknown \<and> il_localMessageId lock = Id_unknown
    | Some a \<Rightarrow> il_internalConversationId lock = as_internalConversationId a \<and> il_localMessageId lock = as_localMessageId a
        \<and> as_ownerRuntimeShopId a = db_shopId doc \<and> as_ownerScope a = envelope_scope env
        \<and> mapPlatformCustomerId (as_platformCustomerId a) = il_platformCustomerId lock
        \<and> mapPlatformMessageIdentity (as_platformMessageId a) = il_messageIdentity lock"
    using path(8) env(6-9) scope by (cases "ib_association (read_identity v)") (simp_all add: check_association_None)
  moreover have "il_evidence lock = mapRuntimeEvidence (db_sessionId doc) (db_documentGeneration doc) (rv_selected (il_evidence lock))"
    using env(10) by (simp add: mapRuntimeEvidence_def)
  ultimately show ?thesis
    using env(2,6,7,11,15) acc(3-6) path(1-6) scope val by (intro conjI) auto
qed

text \<open>A document, a scope and a binding with an association, and the payload of one message.\<close>

definition sample_document :: document_binding where
  "sample_document = \<lparr>db_sessionId = ''sess'', db_shopId = ''shop-1'', db_documentGeneration = 2\<rparr>"

definition sample_scope :: scope_binding where
  "sample_scope = \<lparr>sb_merchantId = Id_resolved ''m1'', sb_storeId = Id_resolved ''st1'', sb_platformAccountId = Id_resolved ''acc1''\<rparr>"

definition sample_identity :: identity_binding where
  "sample_identity = \<lparr>ib_runtimeShop = Id_resolved ''shop-1'', ib_scope = sample_scope, ib_runtimeConversationReference = Id_unknown,
     ib_association = Some \<lparr>as_ownerRuntimeShopId = ''shop-1'', as_ownerScope = sample_scope, as_platformCustomerId = Some ''42'',
       as_platformMessageId = Some ''m-7'', as_internalConversationId = Id_resolved ''conv-1'', as_localMessageId = Id_unknown\<rparr>,
     ib_selected = None\<rparr>"

definition sample_event :: json where
  "sample_event = JObj [(''from'', JObj [(''role'', JStr ''user''), (''uid'', JStr ''42'')]),
     (''to'', JObj [(''role'', JStr ''mall_cs'')]), (''type'', JNum (Integral 0)),
     (''content'', JStr ''hello''), (''msg_id'', JStr ''m-7'')]"

definition sample_input :: event_ingress_input where
  "sample_input = \<lparr>ei_fromUid = Some (JStr ''42''), ei_toUid = None, ei_content = ''hello'', ei_msg_id = ''m-7''\<rparr>"

definition sample_options :: ingress_options where
  "sample_options = \<lparr>io_document = sample_document, io_input = Some (ingress_input sample_input),
     io_resolveScope = (\<lambda>_. Some (Some (scope_json sample_scope))),
     io_resolveIdentity = (\<lambda>_ _. Some (Some (identity_json sample_identity))),
     io_canonicalValidator = Some (Some (\<lambda>_. Some True))\<rparr>"

definition sample_envelope :: inbound_envelope where
  "sample_envelope = \<lparr>ie_lock = \<lparr>il_platform = ''pdd'', il_runtimeShop = Id_resolved ''shop-1'', il_merchantId = Id_resolved ''m1'',
     il_storeId = Id_resolved ''st1'', il_platformAccountId = Id_resolved ''acc1'', il_platformCustomerId = Id_resolved ''42'',
     il_internalConversationId = Id_resolved ''conv-1'', il_runtimeConversationReference = Id_unknown, il_localMessageId = Id_unknown,
     il_messageIdentity = Authoritative_platform_id ''m-7'',
     il_evidence = \<lparr>rv_sessionId = ''sess'', rv_documentGeneration = 2, rv_selected = None\<rparr>\<rparr>,
     ie_kind = ''text'', ie_text = ''hello'', ie_sourceOccurredAt = None\<rparr>"

lemma is_digit_literals [simp]: "is_digit (CHR ''4'')" "is_digit (CHR ''2'')"
  by (simp_all add: is_digit_def)

lemma not_blank_literals [simp]: "\<not> blank ''hello''" "\<not> blank ''m-7''"
  by (simp_all add: blank_iff is_ws_def)

lemma sample_normalized:
  "normalizePddInboundForCanonical (Some (ingress_payload sample_input)) = Canon_accepted
     \<lparr>cm_customerUid = Some ''42'', cm_platformMessageId = Some ''m-7'', cm_content = ''hello'', cm_diagnostics = []\<rparr>"
  by (subst normalize_ingress_payload) (simp_all add: sample_input_def is_nullish_def customerUidString_iff)

lemma sample_typed: "typed_scope sample_scope" "typed_identity sample_identity"
  by (simp_all add: sample_scope_def sample_identity_def typed_scope_def typed_identity_def typed_association_def typed_res_def typed_opt_def)

lemma identity_json_not_null: "identity_json b \<noteq> JNull"
  by (simp add: identity_json_def)

lemma sample_options_simps:
  "io_document sample_options = sample_document" "io_input sample_options = Some (ingress_input sample_input)"
  "io_resolveScope sample_options doc = Some (Some (scope_json sample_scope))"
  "io_resolveIdentity sample_options m doc = Some (Some (identity_json sample_identity))"
  "io_canonicalValidator sample_options = Some (Some (\<lambda>_. Some True))"
  by (simp_all add: sample_options_def)

lemma sample_input_simps:
  "isRecord (Some (ingress_input i))" "opt_get (Some (ingress_input i)) ''payload'' = Some (ingress_payload i)"
  "opt_get (Some (ingress_input i)) ''sourceOccurredAt'' = Some JNull"
  by (simp_all add: isRecord_def ingress_input_def)

lemma sample_ingress:
  "processPddInboundIngress None sample_options None = (Ingress_mapped sample_envelope [''SOURCE_TIME_MISSING''], None)"
proof -
  let ?m = "\<lparr>cm_customerUid = Some ''42'', cm_platformMessageId = Some ''m-7'', cm_content = ''hello'', cm_diagnostics = []\<rparr>"
  have "ingress_map None sample_options ?m sample_identity None = (Ingress_mapped sample_envelope [''SOURCE_TIME_MISSING''], None)"
    by (simp add: ingress_map_def sample_options_simps sample_input_simps normalizeSourceOccurredAt_def is_nullish_def
        mapPddInboundToCanonical_def is_resolved_def sample_identity_def sample_scope_def sample_document_def sample_envelope_def
        validateCanonicalEnvelope_def mapPlatformCustomerId_def mapPlatformMessageIdentity_def mapRuntimeEvidence_def)
  moreover have "Option.bind (ib_association sample_identity) (check_association sample_document sample_scope ?m) = None"
    "ib_runtimeShop sample_identity = Id_resolved (db_shopId sample_document)" "ib_scope sample_identity = sample_scope"
    by (simp_all add: sample_identity_def sample_document_def check_association_def)
  ultimately show ?thesis
    by (simp add: processPddInboundIngress_def ingress_identity_def Let_def sample_options_simps sample_input_simps has_own_def
        sample_normalized identity_json_ok sample_typed identity_json_not_null)
qed

theorem ingress_stays_in_scope_witness:
  "processPddInboundIngress None sample_options None = (Ingress_mapped sample_envelope [''SOURCE_TIME_MISSING''], None)
   \<and> il_runtimeShop (ie_lock sample_envelope) = Id_resolved (db_shopId (io_document sample_options))"
  using ingress_stays_in_scope [OF sample_ingress] sample_ingress by blast

subsection \<open>From the page event to the envelope\<close>

text \<open>
  A page-decoded event that becomes a candidate and is mapped by the ingress gives an
  envelope with the event's own text, platform message id and customer, and no source time; and such an
  event is a customer text message addressed to the shop that the page did not mark as history.
\<close>

theorem page_event_is_mapped_faithfully:
  assumes "toInboundEventCandidate event = Candidate i cds"
    and "processPddInboundIngress found (opts\<lparr>io_input := Some (ingress_input i)\<rparr>) cache = (Ingress_mapped env ds, cache')"
  shows "opt_get event ''content'' = Some (JStr (ie_text env)) \<and> \<not> blank (ie_text env)
    \<and> (\<exists>mid. opt_get event ''msg_id'' = Some (JStr mid) \<and> il_messageIdentity (ie_lock env) = Authoritative_platform_id mid)
    \<and> (\<exists>u. uid_ok (opt_get (opt_get event ''from'') ''uid'') u \<and> il_platformCustomerId (ie_lock env) = mapPlatformCustomerId u)
    \<and> ie_sourceOccurredAt env = None
    \<and> opt_get (opt_get event ''from'') ''role'' = Some (JStr ''user'') \<and> opt_get (opt_get event ''to'') ''role'' = Some (JStr ''mall_cs'')
    \<and> opt_get event ''is_history'' \<noteq> Some (JBool True) \<and> opt_get event ''type'' = Some (JNum (Integral 0))"
proof -
  note c = candidate_of_event [OF assms(1)]
  from assms(2) obtain m v mds where
    m: "normalizePddInboundForCanonical (Some (ingress_payload i)) = Canon_accepted m"
    and mp: "mapPddInboundToCanonical m (read_identity v) (db_sessionId (io_document opts)) (db_documentGeneration (io_document opts)) None = Map_mapped env mds"
    by (rule ingress_mapped_path) (simp add: ingress_input_def normalizeSourceOccurredAt_def is_nullish_def)
  have content: "cm_content m = ei_content i" and mid: "cm_platformMessageId m = Some (ei_msg_id i)"
    using m unfolding normalize_ingress_payload [OF c(6,8)] by (auto split: if_split_asm)
  have uid: "uid_ok (ei_fromUid i) (cm_customerUid m)"
    using canonical_accepted(5) [OF m] by (simp add: ingress_payload_def)
  show ?thesis
    using c mapped_envelope(6,7,11,12) [OF mp] content mid uid by (auto simp: mapPlatformMessageIdentity_def)
qed

theorem page_event_is_mapped_faithfully_witness:
  "toInboundEventCandidate (Some sample_event) = Candidate sample_input [''SOURCE_TIME_UNVERIFIED'']
   \<and> opt_get (Some sample_event) ''content'' = Some (JStr (ie_text sample_envelope))"
proof -
  have c: "toInboundEventCandidate (Some sample_event) = Candidate sample_input [''SOURCE_TIME_UNVERIFIED'']"
    by (simp add: toInboundEventCandidate_def sample_event_def isRecord_def kindForPlatformType_def nonBlankString_iff sample_input_def)
  have "sample_options\<lparr>io_input := Some (ingress_input sample_input)\<rparr> = sample_options" by (simp add: sample_options_def)
  then show ?thesis
    using page_event_is_mapped_faithfully [OF c, of None sample_options None sample_envelope] sample_ingress c by simp
qed

end
