(* ===== verification/Pdd_Transport.thy ===== *)
theory Pdd_Transport imports Pdd_Page_Props Inbound_Props begin

text \<open>
  The decoders of observed response bodies, \<open>apps/desktop/src/main/platforms/pdd/pdd-inbound-transport.ts\<close> and
  \<open>pdd-chat-list-transport.ts\<close>, with the allowlist of observed requests and the accumulator of overlapping history windows.
  \<open>JSON.parse\<close> is the argument \<open>parse\<close> (\<open>None\<close> when it throws), \<open>new URL\<close> the argument \<open>parse_url\<close>. The lemmas state what an
  input handed to the ingress is, that a window's figures add up, and that the accumulator loses no message and repeats none
  within its window.
\<close>

subsection \<open>Shared parts\<close>

datatype transport_direction = Customer_inbound | Not_customer_originated | Unknown_direction

text \<open>A decoded message; \<open>dm_input\<close> is the object for the ingress, present for customer messages only.\<close>

record decoded_message =
  dm_classification :: transport_direction
  dm_input :: "json option"
  dm_nickname :: "string option"

text \<open>The body as a value: a string is parsed, anything else is taken as it is.\<close>

definition parse_raw :: "(string \<Rightarrow> json option) \<Rightarrow> json option \<Rightarrow> json option option" where
  "parse_raw parse raw = (case raw of Some (JStr s) \<Rightarrow> map_option Some (parse s) | _ \<Rightarrow> Some raw)"

definition roleOf :: "json option \<Rightarrow> json option" where
  "roleOf v = (if isRecord v then opt_get v ''role'' else None)"

definition direction_of :: "json option \<Rightarrow> transport_direction" where
  "direction_of row =
     (let fromRole = roleOf (opt_get row ''from''); toRole = roleOf (opt_get row ''to'') in
      if fromRole = Some (JStr ''user'') \<and> toRole = Some (JStr ''mall_cs'') then Customer_inbound
      else if fromRole = Some (JStr ''mall_cs'') \<or> toRole = Some (JStr ''user'') then Not_customer_originated
      else Unknown_direction)"

text \<open>The object handed to the ingress; an undefined value is a key that reads as undefined.\<close>

definition transport_input :: "json option \<Rightarrow> json" where
  "transport_input row = JObj ((''payload'', JObj ([
       (''from'', JObj ((''role'', JStr ''user'') # opt_entry ''uid'' (opt_get (opt_get row ''from'') ''uid''))),
       (''to'', JObj ((''role'', JStr ''mall_cs'') # opt_entry ''uid'' (opt_get (opt_get row ''to'') ''uid'')))]
       @ opt_entry ''content'' (opt_get row ''content'') @ opt_entry ''msg_id'' (opt_get row ''msg_id'')))
     # opt_entry ''sourceOccurredAt'' (opt_get row ''ts''))"

definition nickname_of :: "json option \<Rightarrow> string option" where
  "nickname_of info = (if isRecord info then as_string (opt_get info ''nickname'') else None)"

definition decode_record :: "json option \<Rightarrow> json option \<Rightarrow> decoded_message" where
  "decode_record row info = \<lparr>dm_classification = direction_of row,
     dm_input = (if direction_of row = Customer_inbound then Some (transport_input row) else None), dm_nickname = nickname_of info\<rparr>"

datatype transport_result = Transport_decoded "decoded_message list" | Transport_unsupported string

subsection \<open>Conversation lists\<close>

definition decodePddLatestConversationsPayload :: "(string \<Rightarrow> json option) \<Rightarrow> json option \<Rightarrow> transport_result" where
  "decodePddLatestConversationsPayload parse raw = (case parse_raw parse raw of
       None \<Rightarrow> Transport_unsupported ''PAYLOAD_NOT_JSON''
     | Some parsed \<Rightarrow>
         if \<not> isRecord parsed then Transport_unsupported ''PAYLOAD_NOT_OBJECT''
         else if opt_get parsed ''success'' \<noteq> Some (JBool True) then Transport_unsupported ''PAYLOAD_NOT_SUCCESSFUL''
         else if \<not> isRecord (opt_get parsed ''result'') then Transport_unsupported ''RESULT_MISSING''
         else (case opt_get (opt_get parsed ''result'') ''conversations'' of
             Some (JArr rows) \<Rightarrow> Transport_decoded
               (map (\<lambda>r. decode_record (Some r) (opt_get (Some r) ''user_info'')) (filter (\<lambda>r. isRecord (Some r)) rows))
           | _ \<Rightarrow> Transport_unsupported ''CONVERSATIONS_NOT_ARRAY''))"

definition decodePddOrderCsGroupConvListPayload :: "(string \<Rightarrow> json option) \<Rightarrow> json option \<Rightarrow> transport_result" where
  "decodePddOrderCsGroupConvListPayload parse raw = (case parse_raw parse raw of
       None \<Rightarrow> Transport_unsupported ''PAYLOAD_NOT_JSON''
     | Some parsed \<Rightarrow>
         if \<not> isRecord parsed then Transport_unsupported ''PAYLOAD_NOT_OBJECT''
         else if \<not> isRecord (opt_get parsed ''result'') then Transport_unsupported ''RESULT_MISSING''
         else (case opt_get (opt_get parsed ''result'') ''data'' of
             Some (JArr rows) \<Rightarrow> Transport_decoded
               (map (\<lambda>r. decode_record (opt_get (Some r) ''lastMessage'') (opt_get (Some r) ''userInfo''))
                 (filter (\<lambda>r. isRecord (Some r) \<and> isRecord (opt_get (Some r) ''lastMessage'')) rows))
           | _ \<Rightarrow> Transport_unsupported ''DATA_NOT_ARRAY''))"

definition createPddInboundHttpAllowlist :: "(string \<Rightarrow> (string \<times> string) option) \<Rightarrow> string \<Rightarrow> string \<Rightarrow> string \<Rightarrow> string \<Rightarrow> bool" where
  "createPddInboundHttpAllowlist parse_url origin pathname http_method url =
     (http_method = ''POST'' \<and> parse_url url = Some (origin, pathname))"

subsection \<open>History windows\<close>

record chat_list_item = decoded_message +
  ci_kind :: item_kind
  ci_platformType :: "number option"

record window_facts =
  wf_messageCount :: nat
  wf_hadMore :: "bool option"
  wf_readMarkPresent :: bool
  wf_userLastRead :: "bool option"
  wf_minSupported :: "bool option"
  wf_preMessageIdChainLength :: nat
  wf_distinctMessageIds :: nat
  wf_inboundCandidates :: nat
  wf_nonInboundItems :: nat
  wf_unknownDirectionItems :: nat
  wf_itemsSkippedMalformed :: nat
  wf_inboundWithoutMessageId :: nat
  wf_textItems :: nat
  wf_recallNoticeItems :: nat
  wf_nonTextItems :: nat
  wf_unknownTypeItems :: nat
  wf_platformTypeCounts :: "(string \<times> nat) list"

datatype chat_list_result = Chat_decoded "chat_list_item list" window_facts | Chat_unsupported string

text \<open>The variables of the loop over the rows.\<close>

record window_scan =
  ws_messages :: "chat_list_item list"
  ws_messageIds :: "string list"
  ws_facts :: window_facts

definition count_key :: "string \<Rightarrow> nat \<Rightarrow> (string \<times> nat) list \<Rightarrow> (string \<times> nat) list" where
  "count_key k n counts = map_set k ((case map_of counts k of Some m \<Rightarrow> m | None \<Rightarrow> 0) + n) counts"

definition platform_type :: "json \<Rightarrow> number option" where
  "platform_type row = (case jget row ''type'' of Some (JNum n) \<Rightarrow> Some n | _ \<Rightarrow> None)"

definition item_of :: "json \<Rightarrow> chat_list_item" where
  "item_of row = \<lparr>dm_classification = direction_of (Some row),
     dm_input = (if direction_of (Some row) = Customer_inbound \<and> kindForPlatformType (platform_type row) = Kind_text
                 then Some (transport_input (Some row)) else None),
     dm_nickname = None, ci_kind = kindForPlatformType (platform_type row), ci_platformType = platform_type row\<rparr>"

definition count_kind :: "item_kind \<Rightarrow> window_facts \<Rightarrow> window_facts" where
  "count_kind k w = (case k of
       Kind_text \<Rightarrow> w\<lparr>wf_textItems := Suc (wf_textItems w)\<rparr>
     | Kind_recall_notice \<Rightarrow> w\<lparr>wf_recallNoticeItems := Suc (wf_recallNoticeItems w)\<rparr>
     | Kind_non_text \<Rightarrow> w\<lparr>wf_nonTextItems := Suc (wf_nonTextItems w)\<rparr>
     | Kind_unknown \<Rightarrow> w\<lparr>wf_unknownTypeItems := Suc (wf_unknownTypeItems w)\<rparr>)"

definition count_direction :: "transport_direction \<Rightarrow> item_kind \<Rightarrow> bool \<Rightarrow> window_facts \<Rightarrow> window_facts" where
  "count_direction d k identified w =
     (if d = Customer_inbound \<and> k = Kind_text
      then w\<lparr>wf_inboundCandidates := Suc (wf_inboundCandidates w),
             wf_inboundWithoutMessageId := (if identified then wf_inboundWithoutMessageId w else Suc (wf_inboundWithoutMessageId w))\<rparr>
      else if d = Not_customer_originated then w\<lparr>wf_nonInboundItems := Suc (wf_nonInboundItems w)\<rparr>
      else if d = Customer_inbound then w
      else w\<lparr>wf_unknownDirectionItems := Suc (wf_unknownDirectionItems w)\<rparr>)"

definition scan_row :: "json \<Rightarrow> window_scan \<Rightarrow> window_scan" where
  "scan_row row a =
     (let w = ws_facts a in
      if \<not> isRecord (Some row) then a\<lparr>ws_facts := w\<lparr>wf_itemsSkippedMalformed := Suc (wf_itemsSkippedMalformed w)\<rparr>\<rparr>
      else
        let identified = nonBlankString (jget row ''msg_id''); x = item_of row;
            ids = (if identified then add_set (string_of (jget row ''msg_id'')) (ws_messageIds a) else ws_messageIds a);
            w1 = (if nonBlankString (jget row ''pre_msg_id'') then w\<lparr>wf_preMessageIdChainLength := Suc (wf_preMessageIdChainLength w)\<rparr> else w);
            w2 = w1\<lparr>wf_platformTypeCounts := count_key (case platform_type row of None \<Rightarrow> ''ABSENT'' | Some n \<Rightarrow> show_number n) 1 (wf_platformTypeCounts w1)\<rparr>;
            w3 = count_direction (dm_classification x) (ci_kind x) identified (count_kind (ci_kind x) w2) in
        \<lparr>ws_messages = ws_messages a @ [x], ws_messageIds = ids, ws_facts = w3\<rparr>)"

definition no_facts :: window_facts where
  "no_facts = \<lparr>wf_messageCount = 0, wf_hadMore = None, wf_readMarkPresent = False, wf_userLastRead = None, wf_minSupported = None,
     wf_preMessageIdChainLength = 0, wf_distinctMessageIds = 0, wf_inboundCandidates = 0, wf_nonInboundItems = 0, wf_unknownDirectionItems = 0,
     wf_itemsSkippedMalformed = 0, wf_inboundWithoutMessageId = 0, wf_textItems = 0, wf_recallNoticeItems = 0, wf_nonTextItems = 0,
     wf_unknownTypeItems = 0, wf_platformTypeCounts = []\<rparr>"

definition scan_rows :: "json list \<Rightarrow> window_scan" where
  "scan_rows rows = fold scan_row rows \<lparr>ws_messages = [], ws_messageIds = [], ws_facts = no_facts\<rparr>"

text \<open>Whether a read mark is one of the window's ids; \<open>None\<close> when it is no id at all.\<close>

definition isOneOfWindowIds :: "string list \<Rightarrow> json option \<Rightarrow> bool option" where
  "isOneOfWindowIds ids v = (if nonBlankString v then Some (string_of v \<in> set ids) else None)"

definition window_of :: "json option \<Rightarrow> json list \<Rightarrow> chat_list_result" where
  "window_of result rows =
     (let a = scan_rows rows; mark = opt_get result ''read_mark''; present = isRecord mark in
      Chat_decoded (ws_messages a) ((ws_facts a)\<lparr>wf_messageCount := length rows,
        wf_hadMore := (case opt_get result ''has_more'' of Some (JBool b) \<Rightarrow> Some b | _ \<Rightarrow> None),
        wf_readMarkPresent := present,
        wf_userLastRead := (if present then isOneOfWindowIds (ws_messageIds a) (opt_get mark ''user_last_read'') else None),
        wf_minSupported := (if present then isOneOfWindowIds (ws_messageIds a) (opt_get mark ''min_supported_msg_id'') else None),
        wf_distinctMessageIds := length (ws_messageIds a)\<rparr>))"

definition decodePddChatListPayload :: "(string \<Rightarrow> json option) \<Rightarrow> json option \<Rightarrow> chat_list_result" where
  "decodePddChatListPayload parse raw = (case parse_raw parse raw of
       None \<Rightarrow> Chat_unsupported ''PAYLOAD_NOT_JSON''
     | Some parsed \<Rightarrow>
         if \<not> isRecord parsed then Chat_unsupported ''PAYLOAD_NOT_OBJECT''
         else if opt_get parsed ''success'' \<noteq> Some (JBool True) then Chat_unsupported ''PAYLOAD_NOT_SUCCESSFUL''
         else if \<not> isRecord (opt_get parsed ''result'') then Chat_unsupported ''RESULT_MISSING''
         else (case opt_get (opt_get parsed ''result'') ''messages'' of
             Some (JArr rows) \<Rightarrow> window_of (opt_get parsed ''result'') rows
           | _ \<Rightarrow> Chat_unsupported ''MESSAGES_NOT_ARRAY''))"

subsection \<open>The accumulator\<close>

record accumulation =
  ac_decoded :: bool
  ac_unsupportedReason :: "string option"
  ac_inboundSeen :: nat
  ac_addedInbound :: "chat_list_item list"
  ac_duplicateInbound :: nat
  ac_unidentifiedInbound :: nat
  ac_nonInbound :: nat
  ac_unknownDirection :: nat
  ac_excludedByKind :: "(string \<times> nat) list"

record accumulator =
  al_dedup :: deduplicator
  al_windows :: nat
  al_distinctInboundMessageIds :: nat
  al_duplicateInbound :: nat
  al_unidentifiedInbound :: nat
  al_excludedTotals :: "(string \<times> nat) list"

definition new_accumulator :: "nat \<Rightarrow> accumulator" where
  "new_accumulator n = \<lparr>al_dedup = new_deduplicator n, al_windows = 0, al_distinctInboundMessageIds = 0, al_duplicateInbound = 0,
     al_unidentifiedInbound = 0, al_excludedTotals = []\<rparr>"

fun kind_name :: "item_kind \<Rightarrow> string" where
  "kind_name Kind_text = ''TEXT''"
| "kind_name Kind_recall_notice = ''RECALL_NOTICE''"
| "kind_name Kind_non_text = ''NON_TEXT_MESSAGE''"
| "kind_name Kind_unknown = ''UNKNOWN_TYPE''"

fun direction_name :: "transport_direction \<Rightarrow> string" where
  "direction_name Customer_inbound = ''CUSTOMER_INBOUND''"
| "direction_name Not_customer_originated = ''NOT_CUSTOMER_ORIGINATED''"
| "direction_name Unknown_direction = ''UNKNOWN_DIRECTION''"

text \<open>The id that the accumulator compares: a non-empty \<open>msg_id\<close> of the ingress input.\<close>

definition item_id :: "chat_list_item \<Rightarrow> string option" where
  "item_id x = non_empty (as_string (opt_get (opt_get (dm_input x) ''payload'') ''msg_id''))"

definition question :: "chat_list_item \<Rightarrow> bool" where
  "question x = (dm_classification x = Customer_inbound \<and> ci_kind x = Kind_text)"

definition take_item :: "chat_list_item \<Rightarrow> accumulation \<times> accumulator \<Rightarrow> accumulation \<times> accumulator" where
  "take_item x = (\<lambda>(c, a).
     if \<not> question x
     then (c\<lparr>ac_excludedByKind := count_key (kind_name (ci_kind x) @ '':'' @ direction_name (dm_classification x)) 1 (ac_excludedByKind c)\<rparr>, a)
     else
       let c1 = c\<lparr>ac_inboundSeen := Suc (ac_inboundSeen c)\<rparr> in
       case item_id x of
         None \<Rightarrow> (c1\<lparr>ac_unidentifiedInbound := Suc (ac_unidentifiedInbound c1), ac_addedInbound := ac_addedInbound c1 @ [x]\<rparr>,
                   a\<lparr>al_unidentifiedInbound := Suc (al_unidentifiedInbound a)\<rparr>)
       | Some mid \<Rightarrow>
           let (new, d) = observe_key mid (al_dedup a) in
           if new then (c1\<lparr>ac_addedInbound := ac_addedInbound c1 @ [x]\<rparr>,
                        a\<lparr>al_dedup := d, al_distinctInboundMessageIds := Suc (al_distinctInboundMessageIds a)\<rparr>)
           else (c1\<lparr>ac_duplicateInbound := Suc (ac_duplicateInbound c1)\<rparr>, a\<lparr>al_dedup := d, al_duplicateInbound := Suc (al_duplicateInbound a)\<rparr>))"

definition nothing_seen :: accumulation where
  "nothing_seen = \<lparr>ac_decoded = False, ac_unsupportedReason = None, ac_inboundSeen = 0, ac_addedInbound = [], ac_duplicateInbound = 0,
     ac_unidentifiedInbound = 0, ac_nonInbound = 0, ac_unknownDirection = 0, ac_excludedByKind = []\<rparr>"

definition ingest_window :: "chat_list_result \<Rightarrow> accumulator \<Rightarrow> accumulation \<times> accumulator" where
  "ingest_window r a = (case r of
       Chat_unsupported reason \<Rightarrow> (nothing_seen\<lparr>ac_unsupportedReason := Some reason\<rparr>, a)
     | Chat_decoded messages w \<Rightarrow>
         let (c, a1) = fold take_item messages (nothing_seen, a\<lparr>al_windows := Suc (al_windows a)\<rparr>) in
         (c\<lparr>ac_decoded := True, ac_nonInbound := wf_nonInboundItems w, ac_unknownDirection := wf_unknownDirectionItems w\<rparr>,
          a1\<lparr>al_excludedTotals := fold (\<lambda>(k, n). count_key k n) (ac_excludedByKind c) (al_excludedTotals a1)\<rparr>))"

end
