(* ===== verification/Pdd_Transport_Props.thy ===== *)
theory Pdd_Transport_Props imports Pdd_Transport begin

text \<open>
  What the decoders guarantee. The figures of a window add up; what is handed to the ingress is the text of a customer, and the
  envelope made of it is the row's own; the accumulator neither loses a question nor repeats one within its window. The
  conversation-list decoders do not look at the kind of a record, which one theorem states.
\<close>

subsection \<open>The figures of a window\<close>

text \<open>The invariant of the loop: what has been counted after \<open>n\<close> rows.\<close>

definition scan_inv :: "nat \<Rightarrow> window_scan \<Rightarrow> bool" where
  "scan_inv n a \<longleftrightarrow> (let w = ws_facts a; ms = ws_messages a in
     n = wf_itemsSkippedMalformed w + length ms
     \<and> wf_textItems w + wf_recallNoticeItems w + wf_nonTextItems w + wf_unknownTypeItems w = length ms
     \<and> wf_inboundCandidates w = length (filter (\<lambda>x. dm_input x \<noteq> None) ms)
     \<and> wf_nonInboundItems w = length (filter (\<lambda>x. dm_classification x = Not_customer_originated) ms)
     \<and> wf_unknownDirectionItems w = length (filter (\<lambda>x. dm_classification x = Unknown_direction) ms)
     \<and> wf_inboundWithoutMessageId w \<le> wf_inboundCandidates w \<and> length (ws_messageIds a) \<le> length ms
     \<and> sum_list (map snd (wf_platformTypeCounts w)) = length ms)"

lemma sum_map_set_absent: "map_of ps k = None \<Longrightarrow> sum_list (map snd (map_set k n ps)) = sum_list (map snd ps) + (n :: nat)"
  by (induction ps) (auto split: if_splits)

lemma sum_map_set_present: "map_of ps k = Some m \<Longrightarrow> sum_list (map snd (map_set k (m + n) ps)) = sum_list (map snd ps) + (n :: nat)"
  by (induction ps) (auto split: if_splits)

lemma sum_count_key [simp]: "sum_list (map snd (count_key k n ps)) = sum_list (map snd ps) + n"
  by (cases "map_of ps k") (simp_all add: count_key_def sum_map_set_absent sum_map_set_present)

lemma length_add_set: "length (add_set x xs) \<le> Suc (length xs)"
  by (simp add: add_set_def)

lemma item_of_simps [simp]:
  "ci_kind (item_of row) = kindForPlatformType (platform_type row)" "dm_classification (item_of row) = direction_of (Some row)"
  "dm_input (item_of row) = (if direction_of (Some row) = Customer_inbound \<and> kindForPlatformType (platform_type row) = Kind_text
     then Some (transport_input (Some row)) else None)"
  by (simp_all add: item_of_def)

lemma scan_row_inv:
  assumes "scan_inv n a"
  shows "scan_inv (Suc n) (scan_row row a)"
proof (cases "isRecord (Some row)")
  case False
  then show ?thesis using assms by (simp add: scan_row_def scan_inv_def Let_def)
next
  case True
  have ids: "length (if P then add_set x xs else xs) \<le> Suc (length xs)" for P x and xs :: "string list"
    using length_add_set [of x xs] by simp
  show ?thesis
    using assms True le_trans [OF ids, of "ws_messageIds a" "Suc (length (ws_messages a))"]
    by (cases "kindForPlatformType (platform_type row)"; cases "direction_of (Some row)")
      (simp_all add: scan_row_def scan_inv_def Let_def count_kind_def count_direction_def)
qed

lemma scan_rows_fold: "scan_inv n a \<Longrightarrow> scan_inv (n + length rows) (fold scan_row rows a)"
proof (induction rows arbitrary: n a)
  case (Cons row rows)
  then show ?case using scan_row_inv [of n a row] Cons.IH [of "Suc n"] by simp
qed simp

lemma scan_rows_inv: "scan_inv (length rows) (scan_rows rows)"
  using scan_rows_fold [of 0 _ rows] by (simp add: scan_rows_def scan_inv_def no_facts_def)

lemma scan_rows_messages: "ws_messages (fold scan_row rows a) = ws_messages a @ map item_of (filter (\<lambda>r. isRecord (Some r)) rows)"
proof (induction rows arbitrary: a)
  case (Cons row rows)
  then show ?case by (simp add: scan_row_def Let_def)
qed simp

text \<open>A decoded window is the loop over the array of rows of a successful response.\<close>

lemma chat_decoded:
  assumes "decodePddChatListPayload parse raw = Chat_decoded ms w"
  obtains parsed rows where "parse_raw parse raw = Some parsed" "opt_get (opt_get parsed ''result'') ''messages'' = Some (JArr rows)"
    "opt_get parsed ''success'' = Some (JBool True)" "window_of (opt_get parsed ''result'') rows = Chat_decoded ms w"
    "ms = map item_of (filter (\<lambda>r. isRecord (Some r)) rows)"
proof -
  obtain parsed rows where p: "parse_raw parse raw = Some parsed" "opt_get (opt_get parsed ''result'') ''messages'' = Some (JArr rows)"
    "opt_get parsed ''success'' = Some (JBool True)" and win: "window_of (opt_get parsed ''result'') rows = Chat_decoded ms w"
    using assms unfolding decodePddChatListPayload_def by (auto split: option.split_asm if_split_asm json.split_asm)
  have "ms = map item_of (filter (\<lambda>r. isRecord (Some r)) rows)"
    using win scan_rows_messages [of rows] by (auto simp: window_of_def scan_rows_def Let_def)
  with p win show ?thesis by (rule that)
qed

text \<open>
  The figures reported for a decoded window agree with its items: every row is an item or counted as malformed, every
  item has exactly one kind and one platform type, the three directions are counted exactly, and no more messages lack an id than
  there are candidates.
\<close>

theorem window_figures_add_up:
  assumes "decodePddChatListPayload parse raw = Chat_decoded ms w"
  shows "wf_messageCount w = wf_itemsSkippedMalformed w + length ms
    \<and> wf_textItems w + wf_recallNoticeItems w + wf_nonTextItems w + wf_unknownTypeItems w = length ms
    \<and> sum_list (map snd (wf_platformTypeCounts w)) = length ms
    \<and> wf_inboundCandidates w = length (filter (\<lambda>x. dm_input x \<noteq> None) ms)
    \<and> wf_nonInboundItems w = length (filter (\<lambda>x. dm_classification x = Not_customer_originated) ms)
    \<and> wf_unknownDirectionItems w = length (filter (\<lambda>x. dm_classification x = Unknown_direction) ms)
    \<and> wf_inboundWithoutMessageId w \<le> wf_inboundCandidates w \<and> wf_distinctMessageIds w \<le> length ms"
proof -
  obtain parsed rows where win: "window_of (opt_get parsed ''result'') rows = Chat_decoded ms w"
    using assms by (rule chat_decoded)
  then have "ms = ws_messages (scan_rows rows)" "wf_messageCount w = length rows" "wf_distinctMessageIds w = length (ws_messageIds (scan_rows rows))"
    "wf_itemsSkippedMalformed w = wf_itemsSkippedMalformed (ws_facts (scan_rows rows))"
    "wf_textItems w = wf_textItems (ws_facts (scan_rows rows))" "wf_recallNoticeItems w = wf_recallNoticeItems (ws_facts (scan_rows rows))"
    "wf_nonTextItems w = wf_nonTextItems (ws_facts (scan_rows rows))" "wf_unknownTypeItems w = wf_unknownTypeItems (ws_facts (scan_rows rows))"
    "wf_platformTypeCounts w = wf_platformTypeCounts (ws_facts (scan_rows rows))"
    "wf_inboundCandidates w = wf_inboundCandidates (ws_facts (scan_rows rows))" "wf_nonInboundItems w = wf_nonInboundItems (ws_facts (scan_rows rows))"
    "wf_unknownDirectionItems w = wf_unknownDirectionItems (ws_facts (scan_rows rows))"
    "wf_inboundWithoutMessageId w = wf_inboundWithoutMessageId (ws_facts (scan_rows rows))"
    by (auto simp: window_of_def Let_def)
  then show ?thesis using scan_rows_inv [of rows] by (simp add: scan_inv_def Let_def)
qed

text \<open>A window with a question, a reply of an agent and a malformed row.\<close>

definition sample_row :: json where
  "sample_row = JObj [(''from'', JObj [(''role'', JStr ''user''), (''uid'', JStr ''42'')]), (''to'', JObj [(''role'', JStr ''mall_cs'')]),
     (''type'', JNum (Integral 0)), (''content'', JStr ''hello''), (''msg_id'', JStr ''m-7''), (''ts'', JNull)]"

definition sample_reply :: json where
  "sample_reply = JObj [(''from'', JObj [(''role'', JStr ''mall_cs'')]), (''to'', JObj [(''role'', JStr ''user'')]), (''type'', JNum (Integral 0))]"

definition sample_body :: json where
  "sample_body = JObj [(''success'', JBool True), (''result'', JObj [(''messages'', JArr [sample_row, sample_reply, JNull])])]"

lemma sample_items:
  "isRecord (Some sample_row)" "isRecord (Some sample_reply)" "direction_of (Some sample_row) = Customer_inbound"
  "direction_of (Some sample_reply) = Not_customer_originated" "platform_type sample_row = Some (Integral 0)" "platform_type sample_reply = Some (Integral 0)"
  by (simp_all add: sample_row_def sample_reply_def isRecord_def direction_of_def roleOf_def platform_type_def)

lemma sample_window:
  "\<exists>w. decodePddChatListPayload parse (Some sample_body) = Chat_decoded [item_of sample_row, item_of sample_reply] w \<and> wf_messageCount w = 3"
proof -
  have r: "isRecord (Some (JObj kvs))" "\<not> isRecord (Some JNull)" for kvs by (simp_all add: isRecord_def)
  show ?thesis
    by (simp add: decodePddChatListPayload_def parse_raw_def sample_body_def r window_of_def scan_rows_def scan_row_def sample_items Let_def)
qed

theorem window_figures_add_up_witness:
  "\<exists>w. decodePddChatListPayload (\<lambda>_. None) (Some sample_body) = Chat_decoded [item_of sample_row, item_of sample_reply] w
     \<and> wf_itemsSkippedMalformed w = 1 \<and> wf_nonInboundItems w = 1"
proof -
  obtain w where w: "decodePddChatListPayload (\<lambda>_. None) (Some sample_body) = Chat_decoded [item_of sample_row, item_of sample_reply] w" "wf_messageCount w = 3"
    using sample_window by blast
  show ?thesis using window_figures_add_up [OF w(1)] w by (simp add: sample_items)
qed

subsection \<open>What reaches the ingress\<close>

lemma transport_payload_get [simp]:
  "opt_get (Some (transport_input row)) ''sourceOccurredAt'' = opt_get row ''ts''"
  "opt_get (opt_get (Some (transport_input row)) ''payload'') ''content'' = opt_get row ''content''"
  "opt_get (opt_get (Some (transport_input row)) ''payload'') ''msg_id'' = opt_get row ''msg_id''"
  "opt_get (opt_get (opt_get (Some (transport_input row)) ''payload'') ''from'') ''uid'' = opt_get (opt_get row ''from'') ''uid''"
  by (simp_all add: transport_input_def map_add_def split: option.split)

lemma customer_direction:
  "direction_of row = Customer_inbound \<Longrightarrow> opt_get (opt_get row ''from'') ''role'' = Some (JStr ''user'') \<and> opt_get (opt_get row ''to'') ''role'' = Some (JStr ''mall_cs'')"
  by (auto simp: direction_of_def roleOf_def Let_def split: if_split_asm)

text \<open>An envelope made of a decoded row has the row's text, customer, message id and time.\<close>

definition envelope_of_row :: "json option \<Rightarrow> inbound_envelope \<Rightarrow> bool" where
  "envelope_of_row row env \<longleftrightarrow> opt_get (opt_get row ''from'') ''role'' = Some (JStr ''user'')
     \<and> opt_get (opt_get row ''to'') ''role'' = Some (JStr ''mall_cs'') \<and> opt_get row ''content'' = Some (JStr (ie_text env)) \<and> ie_text env \<noteq> []
     \<and> (\<exists>u. uid_ok (opt_get (opt_get row ''from'') ''uid'') u \<and> il_platformCustomerId (ie_lock env) = mapPlatformCustomerId u)
     \<and> (\<exists>m. mid_ok (opt_get row ''msg_id'') m \<and> il_messageIdentity (ie_lock env) = mapPlatformMessageIdentity m)
     \<and> ie_sourceOccurredAt env = fst (normalizeSourceOccurredAt (opt_get row ''ts''))"

lemma ingress_of_row:
  assumes "direction_of row = Customer_inbound"
    and "processPddInboundIngress found (opts\<lparr>io_input := Some (transport_input row)\<rparr>) cache = (Ingress_mapped env ds, cache')"
  shows "envelope_of_row row env"
proof -
  from assms(2) obtain m v mds where
    m: "normalizePddInboundForCanonical (opt_get (Some (transport_input row)) ''payload'') = Canon_accepted m"
    and mp: "mapPddInboundToCanonical m (read_identity v) (db_sessionId (io_document opts)) (db_documentGeneration (io_document opts))
      (fst (normalizeSourceOccurredAt (opt_get row ''ts''))) = Map_mapped env mds"
    by (rule ingress_mapped_path) simp
  show ?thesis
    using canonical_accepted(3-6) [OF m] mapped_envelope(6,7,11,12) [OF mp] customer_direction [OF assms(1)]
    unfolding envelope_of_row_def by auto
qed

text \<open>
  Whatever a response body contains, an envelope that the ingress makes of a history window belongs to a row of
  the window that the platform marks as a text from a customer to the shop, and has that row's text, customer id, message id and
  time; agent messages, recall notices and other kinds never become envelopes.
\<close>

theorem history_window_is_mapped_faithfully:
  assumes "decodePddChatListPayload parse raw = Chat_decoded ms w" and "x \<in> set ms" and "dm_input x = Some input"
    and "processPddInboundIngress found (opts\<lparr>io_input := Some input\<rparr>) cache = (Ingress_mapped env ds, cache')"
  shows "\<exists>parsed rows row. parse_raw parse raw = Some parsed \<and> opt_get (opt_get parsed ''result'') ''messages'' = Some (JArr rows)
    \<and> row \<in> set rows \<and> jget row ''type'' = Some (JNum (Integral 0)) \<and> envelope_of_row (Some row) env"
proof -
  from assms(1) obtain parsed rows where p: "parse_raw parse raw = Some parsed" "opt_get (opt_get parsed ''result'') ''messages'' = Some (JArr rows)"
    and ms: "ms = map item_of (filter (\<lambda>r. isRecord (Some r)) rows)" by (rule chat_decoded)
  from assms(2) ms obtain row where row: "row \<in> set rows" "x = item_of row" by auto
  have cust: "direction_of (Some row) = Customer_inbound" and kind: "kindForPlatformType (platform_type row) = Kind_text"
    and input: "input = transport_input (Some row)"
    using assms(3) row by (auto split: if_split_asm)
  have "jget row ''type'' = Some (JNum (Integral 0))"
    using kind by (auto simp: kindForPlatformType_def platform_type_def split: option.split_asm json.split_asm number.split_asm if_split_asm)
  moreover have "envelope_of_row (Some row) env" using ingress_of_row [OF cust] assms(4) input by blast
  ultimately show ?thesis using p row by blast
qed

lemma sample_transport_input: "transport_input (Some sample_row) = ingress_input sample_input"
  by (simp add: transport_input_def sample_row_def ingress_input_def ingress_payload_def sample_input_def opt_entry_def)

theorem history_window_is_mapped_faithfully_witness:
  "\<exists>ms w. decodePddChatListPayload (\<lambda>_. None) (Some sample_body) = Chat_decoded ms w \<and> item_of sample_row \<in> set ms
     \<and> (\<exists>row. envelope_of_row (Some row) sample_envelope)"
proof -
  obtain w where w: "decodePddChatListPayload (\<lambda>_. None) (Some sample_body) = Chat_decoded [item_of sample_row, item_of sample_reply] w"
    using sample_window by blast
  have input: "dm_input (item_of sample_row) = Some (ingress_input sample_input)"
    by (simp add: sample_items kindForPlatformType_def sample_transport_input)
  have same: "sample_options\<lparr>io_input := Some (ingress_input sample_input)\<rparr> = sample_options" by (simp add: sample_options_def)
  have mem: "item_of sample_row \<in> set [item_of sample_row, item_of sample_reply]" by simp
  show ?thesis
    using history_window_is_mapped_faithfully [OF w mem input, of None sample_options None sample_envelope "[''SOURCE_TIME_MISSING'']" None]
      sample_ingress w unfolding same by auto
qed

text \<open>The conversation-list decoders hand on recall notices and other kinds as messages of the customer.\<close>

theorem conversation_lists_ignore_kind:
  assumes "row = JObj [(''from'', JObj [(''role'', JStr ''user''), (''uid'', JStr ''7'')]), (''to'', JObj [(''role'', JStr ''mall_cs'')]),
      (''content'', JStr ''withdrawn''), (''type'', JNum (Integral 31)), (''msg_id'', JStr ''m-1'')]"
  shows "decodePddLatestConversationsPayload parse (Some (JObj [(''success'', JBool True), (''result'', JObj [(''conversations'', JArr [row])])]))
      = Transport_decoded [\<lparr>dm_classification = Customer_inbound, dm_input = Some (transport_input (Some row)), dm_nickname = None\<rparr>]
    \<and> decodePddOrderCsGroupConvListPayload parse (Some (JObj [(''success'', JBool False), (''result'', JObj [(''data'', JArr [JObj [(''lastMessage'', row)]])])]))
      = Transport_decoded [\<lparr>dm_classification = Customer_inbound, dm_input = Some (transport_input (Some row)), dm_nickname = None\<rparr>]
    \<and> dm_input (item_of row) = None"
  unfolding assms
  by (simp add: decodePddLatestConversationsPayload_def decodePddOrderCsGroupConvListPayload_def parse_raw_def decode_record_def direction_of_def
      roleOf_def isRecord_def nickname_of_def platform_type_def kindForPlatformType_def Let_def)

subsection \<open>Overlapping windows\<close>

definition added_ids :: "chat_list_item list \<Rightarrow> string list" where
  "added_ids xs = List.map_filter item_id xs"

lemma added_ids_append [simp]: "added_ids (xs @ ys) = added_ids xs @ added_ids ys"
  by (simp add: added_ids_def map_filter_def)

lemma added_ids_single [simp]: "added_ids [x] = (case item_id x of Some i \<Rightarrow> [i] | None \<Rightarrow> [])"
  by (simp add: added_ids_def map_filter_def split: option.split)

fun ingest_windows :: "chat_list_result list \<Rightarrow> accumulator \<Rightarrow> accumulation list \<times> accumulator" where
  "ingest_windows [] a = ([], a)"
| "ingest_windows (r # rs) a = (let (c, a1) = ingest_window r a; (cs, a2) = ingest_windows rs a1 in (c # cs, a2))"

definition acc_inv :: "nat \<Rightarrow> string list \<Rightarrow> accumulator \<Rightarrow> bool" where
  "acc_inv n before a \<longleftrightarrow> dedup_tracks n before (al_dedup a) \<and> al_distinctInboundMessageIds a = length before"

definition balanced :: "accumulation \<Rightarrow> bool" where
  "balanced c \<longleftrightarrow> ac_inboundSeen c = length (ac_addedInbound c) + ac_duplicateInbound c
     \<and> length (ac_addedInbound c) = length (added_ids (ac_addedInbound c)) + ac_unidentifiedInbound c
     \<and> list_all question (ac_addedInbound c)"

lemma take_item_inv:
  assumes "acc_inv n (old @ added_ids (ac_addedInbound c)) a" and "balanced c" and "take_item x (c, a) = (c1, a1)"
  shows "acc_inv n (old @ added_ids (ac_addedInbound c1)) a1 \<and> balanced c1"
proof (cases "question x")
  case False
  then show ?thesis using assms by (auto simp: take_item_def balanced_def)
next
  case q: True
  show ?thesis
  proof (cases "item_id x")
    case None
    then show ?thesis using assms q by (auto simp: take_item_def balanced_def acc_inv_def Let_def)
  next
    case (Some i)
    have t: "dedup_tracks n (old @ added_ids (ac_addedInbound c)) (al_dedup a)" using assms(1) by (simp add: acc_inv_def)
    show ?thesis
      using observe_tracks(1) [OF t, of i] assms q Some
      by (cases "observe_key i (al_dedup a)") (auto simp: take_item_def balanced_def acc_inv_def Let_def split: if_split_asm)
  qed
qed

lemma take_items_inv:
  assumes "acc_inv n (old @ added_ids (ac_addedInbound c)) a" and "balanced c" and "fold take_item xs (c, a) = (c1, a1)"
  shows "acc_inv n (old @ added_ids (ac_addedInbound c1)) a1 \<and> balanced c1"
  using assms
proof (induction xs arbitrary: c a)
  case (Cons x xs)
  obtain c2 a2 where step: "take_item x (c, a) = (c2, a2)" by fastforce
  have rest: "fold take_item xs (c2, a2) = (c1, a1)" using Cons.prems(3) step by simp
  have "acc_inv n (old @ added_ids (ac_addedInbound c2)) a2" "balanced c2" using take_item_inv [OF Cons.prems(1,2) step] by simp_all
  then show ?case using rest by (rule Cons.IH)
qed simp

lemma ingest_window_inv:
  assumes "acc_inv n old a" and "ingest_window r a = (c, a1)"
  shows "acc_inv n (old @ added_ids (ac_addedInbound c)) a1 \<and> balanced c"
proof (cases r)
  case (Chat_unsupported reason)
  then show ?thesis using assms by (auto simp: ingest_window_def nothing_seen_def balanced_def added_ids_def map_filter_def)
next
  case (Chat_decoded ms w)
  obtain c2 a2 where f: "fold take_item ms (nothing_seen, a\<lparr>al_windows := Suc (al_windows a)\<rparr>) = (c2, a2)" by fastforce
  have "acc_inv n (old @ added_ids (ac_addedInbound nothing_seen)) (a\<lparr>al_windows := Suc (al_windows a)\<rparr>)" "balanced nothing_seen"
    using assms(1) by (simp_all add: acc_inv_def nothing_seen_def balanced_def added_ids_def map_filter_def)
  note inv = take_items_inv [OF this f]
  show ?thesis using inv assms(2) f Chat_decoded by (auto simp: ingest_window_def acc_inv_def balanced_def)
qed

lemma ingest_windows_inv:
  assumes "acc_inv n old a" and "ingest_windows rs a = (cs, a1)"
  shows "acc_inv n (old @ added_ids (concat (map ac_addedInbound cs))) a1 \<and> list_all balanced cs"
  using assms
proof (induction rs arbitrary: old a cs)
  case Nil
  then show ?case by (simp add: added_ids_def map_filter_def)
next
  case (Cons r rs)
  obtain c a2 where step: "ingest_window r a = (c, a2)" by fastforce
  obtain ds where rest: "ingest_windows rs a2 = (ds, a1)" and cs: "cs = c # ds"
    using Cons.prems(2) step by (auto split: prod.split_asm)
  note one = ingest_window_inv [OF Cons.prems(1) step]
  show ?case using Cons.IH [OF conjunct1 [OF one] rest] one cs by simp
qed

text \<open>
  However the windows overlap, over any sequence of responses every customer question of every window is either added
  or counted as a duplicate, only questions are added, questions without an id are always added, an id is
  added again only after \<open>n\<close> other ids (so never twice while at most \<open>n\<close> distinct ids occur), and the number of distinct ids
  reported is the number of ids added. A single response is decided by the same window: a new id is added exactly when it is not among the
  last \<open>n\<close> added.
\<close>

theorem history_windows_are_merged:
  assumes "ingest_windows rs (new_accumulator n) = (cs, a)" and "ids = added_ids (concat (map ac_addedInbound cs))"
  shows "spaced n ids \<and> al_distinctInboundMessageIds a = length ids
    \<and> list_all (\<lambda>c. ac_inboundSeen c = length (ac_addedInbound c) + ac_duplicateInbound c
        \<and> length (ac_addedInbound c) = length (added_ids (ac_addedInbound c)) + ac_unidentifiedInbound c \<and> list_all question (ac_addedInbound c)) cs
    \<and> (question x \<and> item_id x = Some i \<longrightarrow>
        ac_addedInbound (fst (ingest_window (Chat_decoded [x] w) a)) = (if i \<in> set (last_n n ids) then [] else [x]))"
proof -
  have "acc_inv n [] (new_accumulator n)" by (simp add: acc_inv_def new_accumulator_def)
  note inv = ingest_windows_inv [OF this assms(1)]
  have t: "dedup_tracks n ids (al_dedup a)" using inv assms(2) by (simp add: acc_inv_def)
  have "ac_addedInbound (fst (ingest_window (Chat_decoded [x] w) a)) = (if i \<in> set (last_n n ids) then [] else [x])" if "question x" "item_id x = Some i"
    using observe_tracks(2) [OF t, of i] that
    by (cases "observe_key i (al_dedup a)") (simp add: ingest_window_def take_item_def nothing_seen_def Let_def)
  then show ?thesis
    using inv t assms(2) by (auto simp: acc_inv_def dedup_tracks_def balanced_def [abs_def])
qed

theorem history_windows_are_merged_witness:
  "al_distinctInboundMessageIds (snd (ingest_windows [Chat_decoded [item_of sample_row] no_facts, Chat_decoded [item_of sample_row] no_facts] (new_accumulator 4096))) = 1"
proof -
  let ?rs = "[Chat_decoded [item_of sample_row] no_facts, Chat_decoded [item_of sample_row] no_facts]"
  obtain cs a where run: "ingest_windows ?rs (new_accumulator 4096) = (cs, a)" by fastforce
  have q: "question (item_of sample_row)" and i: "item_id (item_of sample_row) = Some ''m-7''"
    by (simp_all add: question_def item_id_def sample_items kindForPlatformType_def)
      (simp add: sample_row_def non_empty_def)
  have "map ac_addedInbound cs = [[item_of sample_row], []]"
    using run q i by (simp add: ingest_window_def take_item_def nothing_seen_def new_accumulator_def observe_key_def new_deduplicator_def
        record_key_def dedup_isDuplicate_def split: prod.split_asm) auto
  then show ?thesis using history_windows_are_merged [OF run refl, where x = "item_of sample_row" and i = "''m-7''" and w = no_facts] run i
    by simp
qed

end
