(* ===== verification/Pdd_Service_Props.thy ===== *)
theory Pdd_Service_Props imports Pdd_Service Inbound_Props begin

text \<open>
  What the platform service guarantees: the collector gets an envelope only for the document its view shows at that moment, under an admission
  that is valid at that moment, whatever the resolvers do to the service meanwhile; page events of foreign senders change nothing; and a
  revoked shop is shut out. The last two theorems state that it stays shut out, and that revocation misses the admissions of
  the HTTP path.
\<close>

subsection \<open>Re-entrant calls\<close>

text \<open>What code that is called back may do to the sessions: a session keeps its identity and the contexts it has handed out.\<close>

definition keeps_sessions :: "(service \<Rightarrow> service) \<Rightarrow> bool" where
  "keeps_sessions f \<longleftrightarrow> (\<forall>s i h. map_of (ps_hosts s) i = Some h \<longrightarrow> (\<exists>k. map_of (ps_hosts (f s)) i = Some k
     \<and> ss_sessionId (sh_state k) = ss_sessionId (sh_state h) \<and> ss_shopId (sh_state k) = ss_shopId (sh_state h)
     \<and> (\<forall>x r. map_of (sh_contexts h) x = Some r \<longrightarrow> map_of (sh_contexts k) x = Some r)))"

lemma keeps_sessionsD:
  assumes "keeps_sessions f" and "map_of (ps_hosts s) i = Some h"
  obtains k where "map_of (ps_hosts (f s)) i = Some k" "ss_sessionId (sh_state k) = ss_sessionId (sh_state h)"
    "ss_shopId (sh_state k) = ss_shopId (sh_state h)" "\<And>x r. map_of (sh_contexts h) x = Some r \<Longrightarrow> map_of (sh_contexts k) x = Some r"
  using assms unfolding keeps_sessions_def by blast

text \<open>A navigation in every view is such a change.\<close>

definition navigate_all :: "service \<Rightarrow> service" where
  "navigate_all s = s\<lparr>ps_hosts := map (\<lambda>(i, h). (i, onMainFrameNavigationStart h)) (ps_hosts s)\<rparr>"

lemma map_of_map_values: "map_of (map (\<lambda>(k, v). (k, f v)) ps) k = map_option f (map_of ps k)"
  by (induction ps) auto

lemma navigate_all_keeps: "keeps_sessions navigate_all"
proof -
  have "host_advances h (onMainFrameNavigationStart h)" for h
    using host_step_ok [of Host_navigation_start h] by (simp add: host_ok_def)
  then show ?thesis
    unfolding keeps_sessions_def navigate_all_def by (auto simp: map_of_map_values host_advances_def)
qed

subsection \<open>What reaches the collector\<close>

definition envelope_of :: "service_options \<Rightarrow> document_binding \<Rightarrow> inbound_envelope \<Rightarrow> bool" where
  "envelope_of opts b env \<longleftrightarrow> il_runtimeShop (ie_lock env) = Id_resolved (db_shopId b)
     \<and> rv_sessionId (il_evidence (ie_lock env)) = db_sessionId b \<and> rv_documentGeneration (il_evidence (ie_lock env)) = db_documentGeneration b
     \<and> (\<exists>scope sv. so_resolveScope opts = Some scope \<and> scope b = Some sv \<and> isScopeBinding sv \<and> envelope_scope env = read_scope sv)"

text \<open>The state at the call: the view of the connection is live, in an admissible state, and shows the document the envelope names, and
  an admission of exactly this connection for this document is valid.\<close>

definition collected_ok :: "service_options \<Rightarrow> bool \<Rightarrow> connection_evidence \<Rightarrow> inbound_envelope \<times> service \<Rightarrow> bool" where
  "collected_ok opts canon c = (\<lambda>(env, s). \<exists>i h v b aid. map_of (ps_hosts s) i = Some h \<and> sh_view h = Some v \<and> pv_webContents v = ce_webContents c
     \<and> live_contents s (ce_webContents c) \<and> (if canon then canonical_status else legacy_status) (host_status h)
     \<and> getCurrentInboundDocumentBinding h = Some b \<and> envelope_of opts b env
     \<and> validate_admission aid \<lparr>aq_webContents = ce_webContents c, aq_connection = c, aq_binding = b\<rparr> (ps_registry s))"

lemma mapped_envelope_of:
  assumes "processPddInboundIngress found \<lparr>io_document = b, io_input = input, io_resolveScope = scope, io_resolveIdentity = ident,
      io_canonicalValidator = validator\<rparr> cache = (Ingress_mapped env ds, cache')"
    and "so_resolveScope opts = Some scope"
  shows "envelope_of opts b env"
proof (rule ingress_mapped_path [OF assms(1)], goal_cases)
  case (1 m sv v mds)
  note env = mapped_envelope [OF 1(9)]
  have "envelope_scope env = read_scope sv" using env 1(7) by (simp add: envelope_scope_def)
  then show ?case using env 1 assms(2) by (auto simp: envelope_of_def mapRuntimeEvidence_def)
qed

lemma resolve_document_Some:
  assumes "resolve_document canon ctx wc h s = Some b"
  obtains x r v where "ctx = Some x" "map_of (sh_contexts h) x = Some r" "sh_view h = Some v" "cx_sender r = wc" "cx_view r = v"
    "(if canon then canonical_status else legacy_status) (host_status h)" "live_contents s (pv_webContents v)"
    "getCurrentInboundDocumentBinding h = Some b" "db_documentGeneration b = cx_documentGeneration r"
proof -
  have r: "resolve_context (if canon then canonical_status else legacy_status) (live_contents s) ctx (Some wc) h = Some b"
    using assms by (simp add: resolve_document_def resolveCanonicalInboundIngressBinding_def resolveInboundIngressBinding_def split: if_splits)
  then obtain x where x: "ctx = Some x" by (cases ctx) (auto simp: resolve_context_def split: option.splits)
  have "db_documentGeneration b = cx_documentGeneration r" if "map_of (sh_contexts h) x = Some r" for r
    using assms that x by (auto simp: resolve_document_def resolveCanonicalInboundIngressBinding_def resolveInboundIngressBinding_def
        resolve_context_def split: if_splits option.splits)
  then show ?thesis using resolve_context_Some [OF r [unfolded x]] that x by auto
qed

lemma binding_fields:
  "getCurrentInboundDocumentBinding h = Some b \<Longrightarrow> db_sessionId b = ss_sessionId (sh_state h) \<and> db_shopId b = ss_shopId (sh_state h)"
  by (auto simp: getCurrentInboundDocumentBinding_def split: option.splits)

text \<open>A context names the web contents of its own view.\<close>

definition context_fits :: "nat option \<Rightarrow> session_host \<Rightarrow> bool" where
  "context_fits ctx h \<longleftrightarrow> (\<forall>x r. ctx = Some x \<longrightarrow> map_of (sh_contexts h) x = Some r \<longrightarrow> pv_webContents (cx_view r) = cx_sender r)"

lemma collect_calls: "collect opts reenter env ds s = (r, calls, s1) \<Longrightarrow> set calls \<subseteq> {(env, s)}"
  by (auto simp: collect_def split: option.splits)

lemma ingress_for_ok:
  assumes keep: "keeps_sessions reenter" and h: "map_of (ps_hosts s) i = Some h"
    and run: "ingress_for opts reenter (Some (admission_guard i wc aid c)) canon wc ctx input i h s = (res, calls, s')"
    and wc: "wc = ce_webContents c" and fits: "context_fits ctx h" and x: "x \<in> set calls"
  shows "collected_ok opts canon c x"
proof -
  obtain d scope ident where d: "resolve_document canon ctx wc h s = Some d" and r: "so_resolveScope opts = Some scope" "so_resolveIdentity opts = Some ident"
    using run x by (auto simp: ingress_for_def Let_def split: if_split_asm option.split_asm)
  obtain result cache where p: "processPddInboundIngress (so_found opts) \<lparr>io_document = d, io_input = input, io_resolveScope = scope,
      io_resolveIdentity = ident, io_canonicalValidator = so_validator opts\<rparr> (ps_cache s) = (result, cache)" by fastforce
  let ?s1 = "reenter (s\<lparr>ps_cache := cache\<rparr>)"
  obtain env ds where m: "result = Ingress_mapped env ds"
    using run x d r p by (cases result) (auto simp: ingress_for_def Let_def split: if_split_asm)
  obtain k e where k: "map_of (ps_hosts ?s1) i = Some k" "resolve_document canon ctx wc k ?s1 = Some e"
    and g: "admission_guard i wc aid c ?s1" and col: "\<exists>q t. collect opts reenter env ds ?s1 = (q, calls, t)"
    using run x d r p m by (auto simp: ingress_for_def Let_def split: if_split_asm option.split_asm bind_splits)
  have "x = (env, ?s1)" using col collect_calls x by blast
  moreover have "collected_ok opts canon c (env, ?s1)"
  proof -
    obtain k2 where k2: "map_of (ps_hosts ?s1) i = Some k2" "ss_sessionId (sh_state k2) = ss_sessionId (sh_state h)"
      "ss_shopId (sh_state k2) = ss_shopId (sh_state h)" "\<And>x r. map_of (sh_contexts h) x = Some r \<Longrightarrow> map_of (sh_contexts k2) x = Some r"
      using keeps_sessionsD [OF keep, of "s\<lparr>ps_cache := cache\<rparr>" i h] h by auto
    obtain y r v where a: "ctx = Some y" "map_of (sh_contexts h) y = Some r" "getCurrentInboundDocumentBinding h = Some d"
      "db_documentGeneration d = cx_documentGeneration r"
      using resolve_document_Some [OF d] by metis
    obtain y2 r2 v2 where b: "ctx = Some y2" "map_of (sh_contexts k) y2 = Some r2" "sh_view k = Some v2" "cx_sender r2 = wc" "cx_view r2 = v2"
      "(if canon then canonical_status else legacy_status) (host_status k)" "live_contents ?s1 (pv_webContents v2)"
      "getCurrentInboundDocumentBinding k = Some e" "db_documentGeneration e = cx_documentGeneration r2"
      using resolve_document_Some [OF k(2)] by metis
    have kk: "k2 = k" using k k2 by simp
    have rr: "r2 = r" using a(1,2) b(1,2) k2(4) kk by force
    have "e = d" using binding_fields [OF a(3)] binding_fields [OF b(8)] a(4) b(9) k2(2,3) kk rr by simp
    moreover have "pv_webContents v2 = wc" using fits a(1,2) b(4,5) rr by (simp add: context_fits_def)
    ultimately show ?thesis
      using k(1) b(3,6,7,8) g mapped_envelope_of [OF p [unfolded m] r(1)] wc
      unfolding collected_ok_def admission_guard_def prod.case
      by (intro exI [of _ i] exI [of _ k] exI [of _ v2] exI [of _ d] exI [of _ aid]) auto
  qed
  ultimately show ?thesis by simp
qed

lemma trusted_ok:
  assumes keep: "keeps_sessions reenter" and i: "map_of (ps_senderSessions s) wc = Some i" and h: "map_of (ps_hosts s) i = Some h"
    and run: "handleTrustedInboundIngress opts reenter (Some (admission_guard i wc aid c)) canon (Some wc) ctx input s = (res, calls, s')"
    and "wc = ce_webContents c" "context_fits ctx h" "x \<in> set calls"
  shows "collected_ok opts canon c x"
proof -
  have "ingress_for opts reenter (Some (admission_guard i wc aid c)) canon wc ctx input i h s = (res, calls, s')"
    using run i h by (simp add: handleTrustedInboundIngress_def)
  then show ?thesis by (rule ingress_for_ok [OF keep h _ assms(5-7)])
qed

lemma admitted_ok:
  assumes keep: "keeps_sessions reenter" and i: "map_of (ps_senderSessions s) (ce_webContents c) = Some i" and h: "map_of (ps_hosts s) i = Some h"
    and run: "handleAdmittedInboundIngress opts reenter canon (Some (ce_webContents c)) ctx aid input c s = (res, calls, s')"
    and "context_fits ctx h" "x \<in> set calls"
  shows "collected_ok opts canon c x \<and> so_mode opts = Mode_canonical"
proof -
  have "handleTrustedInboundIngress opts reenter (Some (admission_guard i (ce_webContents c) aid c)) canon (Some (ce_webContents c)) ctx input s = (res, calls, s')"
    "so_mode opts = Mode_canonical"
    using run i assms(6) by (auto simp: handleAdmittedInboundIngress_def split: if_split_asm)
  then show ?thesis using trusted_ok [OF keep i h _ refl assms(5,6)] by blast
qed

lemma make_context_facts:
  assumes "make_context canon wc i h s = (ctx, s1)" and h: "map_of (ps_hosts s) i = Some h"
  shows "\<exists>k. map_of (ps_hosts s1) i = Some k \<and> context_fits ctx k \<and> getCurrentInboundDocumentBinding k = getCurrentInboundDocumentBinding h"
    and "ps_senderSessions s1 = ps_senderSessions s" and "ps_revokedKeys s1 = ps_revokedKeys s" and "ps_revokedShops s1 = ps_revokedShops s"
    and "ps_connectionAdmissions s1 = ps_connectionAdmissions s" and "ps_registry s1 = ps_registry s"
proof -
  let ?adm = "if canon then canonical_status else legacy_status"
  obtain k where k: "create_context ?adm (live_contents s) (Some wc) (ps_next s) h = (ctx, k)" "s1 = (update_host i k s)\<lparr>ps_next := Suc (ps_next s)\<rparr>"
    using assms(1) by (auto simp: make_context_def Let_def createInboundIngressContext_def createCanonicalInboundIngressContext_def split: prod.splits if_splits)
  have "context_fits ctx k \<and> getCurrentInboundDocumentBinding k = getCurrentInboundDocumentBinding h"
    using k(1) by (auto simp: create_context_def context_fits_def getCurrentInboundDocumentBinding_def split: option.splits if_split_asm)
  then show "\<exists>k. map_of (ps_hosts s1) i = Some k \<and> context_fits ctx k \<and> getCurrentInboundDocumentBinding k = getCurrentInboundDocumentBinding h"
    using k(2) by (simp add: update_host_def)
  show "ps_senderSessions s1 = ps_senderSessions s" "ps_revokedKeys s1 = ps_revokedKeys s" "ps_revokedShops s1 = ps_revokedShops s"
    "ps_connectionAdmissions s1 = ps_connectionAdmissions s" "ps_registry s1 = ps_registry s"
    using k(2) by (simp_all add: update_host_def)
qed

lemma ensure_admission_keeps:
  assumes "ensure_admission opts key q s = (adm, s1)"
  shows "ps_hosts s1 = ps_hosts s" "ps_senderSessions s1 = ps_senderSessions s" "ps_revokedShops s1 = ps_revokedShops s" "ps_revokedKeys s1 = ps_revokedKeys s"
  using assms by (auto simp: ensure_admission_def evaluate_def Let_def split: option.splits prod.splits admission_decision.splits if_splits)

lemma record_keeps [simp]:
  "ps_revokedShops (recordInboundDecision r s) = ps_revokedShops s"
  by (simp add: recordInboundDecision_def)

lemma admitted_frame_ok:
  assumes keep: "keeps_sessions reenter" and i: "map_of (ps_senderSessions s) (ce_webContents (of_connection f)) = Some i"
    and h: "map_of (ps_hosts s) i = Some h" and fits: "context_fits (Some ctx) h"
    and run: "admitted_frame opts reenter f b ctx s = (calls, s')" and x: "x \<in> set calls"
  shows "collected_ok opts False (of_connection f) x \<and> so_mode opts = Mode_canonical"
proof -
  let ?c = "of_connection f"
  obtain adm s1 where adm: "ensure_admission opts (connectionKey ?c) \<lparr>aq_webContents = ce_webContents ?c, aq_connection = ?c, aq_binding = b\<rparr> s = (adm, s1)" by fastforce
  note keeps = ensure_admission_keeps [OF adm]
  obtain aid new input where "adm = Inr (aid, new)"
    and call: "\<exists>res s2. handleAdmittedInboundIngress opts reenter False (Some (ce_webContents ?c)) (Some ctx) aid (Some input) ?c s1 = (res, calls, s2)"
    using run x adm by (auto simp: admitted_frame_def Let_def split: if_split_asm sum.split_asm prod.split_asm option.split_asm)
  from call obtain res s2 where
    made: "handleAdmittedInboundIngress opts reenter False (Some (ce_webContents ?c)) (Some ctx) aid (Some input) ?c s1 = (res, calls, s2)" by blast
  show ?thesis by (rule admitted_ok [where i = i, OF keep _ _ made fits x]) (simp_all add: keeps i h)
qed

lemma observed_frame_ok:
  assumes keep: "keeps_sessions reenter" and run: "handleObservedFrame opts reenter f s = (calls, s')" and x: "x \<in> set calls"
  shows "collected_ok opts False (of_connection f) x \<and> so_mode opts = Mode_canonical"
proof -
  let ?wc = "ce_webContents (of_connection f)"
  obtain i h b ctx s1 where i: "map_of (ps_senderSessions s) ?wc = Some i" and h: "map_of (ps_hosts s) i = Some h"
    and m: "make_context False ?wc i h s = (Some ctx, s1)" and c: "admitted_frame opts reenter f b ctx s1 = (calls, s')"
    using run x by (auto simp: handleObservedFrame_def Let_def sender_session_def split: if_split_asm option.split_asm prod.split_asm)
  obtain k where "map_of (ps_hosts s1) i = Some k" "context_fits (Some ctx) k" "map_of (ps_senderSessions s1) ?wc = Some i"
    using make_context_facts [OF m h] i by auto
  then show ?thesis using admitted_frame_ok [OF keep _ _ _ c x] by blast
qed

lemma http_input_ok:
  assumes keep: "keeps_sessions reenter" and run: "http_input opts reenter c input s = (go, calls, s')" and x: "x \<in> set calls"
  shows "collected_ok opts True c x \<and> so_mode opts = Mode_canonical \<and> ce_shopId c \<notin> set (ps_revokedShops s)"
proof -
  let ?wc = "ce_webContents c"
  note run' = run [unfolded http_input_def Let_def]
  obtain i h where i: "map_of (ps_senderSessions s) ?wc = Some i" and hs: "sender_session ?wc s = Some h"
    using run' x by (cases "map_of (ps_senderSessions s) ?wc"; cases "sender_session ?wc s") auto
  then have h: "map_of (ps_hosts s) i = Some h" by (simp add: sender_session_def)
  obtain b where b: "getCurrentInboundDocumentBinding h = Some b" using run' x i hs by (cases "getCurrentInboundDocumentBinding h") auto
  have ok: "canAcceptCanonicalInbound opts c b None s = None" using run' x i hs b by (cases "canAcceptCanonicalInbound opts c b None s") auto
  obtain xc s1 where m0: "make_context True ?wc i h s = (xc, s1)" by fastforce
  obtain ctx where xc: "xc = Some ctx" using run' x i hs b ok m0 by (cases xc) auto
  note m = m0 [unfolded xc]
  have nr: "connectionKey c \<notin> set (ps_revokedKeys s1)" "ce_shopId c \<notin> set (ps_revokedShops s1)"
    using run' x i hs b ok m by (auto split: if_split_asm)
  obtain k where k: "map_of (ps_hosts s1) i = Some k" "context_fits (Some ctx) k" "map_of (ps_senderSessions s1) ?wc = Some i"
    "ps_revokedShops s1 = ps_revokedShops s"
    using make_context_facts [OF m h] i by auto
  obtain adm s2 where e0: "ensure_admission opts (connectionKey c) \<lparr>aq_webContents = ?wc, aq_connection = c, aq_binding = b\<rparr> s1 = (adm, s2)" by fastforce
  obtain aid new where adm: "adm = Inr (aid, new)" using run' x i hs b ok m nr e0 by (cases adm) auto
  note e = e0 [unfolded adm]
  obtain res s4 where call: "handleAdmittedInboundIngress opts reenter True (Some ?wc) (Some ctx) aid (Some input) c
           (if new then s2\<lparr>ps_revokedShops := removeAll (ce_shopId c) (ps_revokedShops s2)\<rparr> else s2) = (res, calls, s4)"
    using run' x i hs b ok m nr e by (auto split: option.split_asm prod.split_asm)
  note keeps = ensure_admission_keeps [OF e]
  have "collected_ok opts True c x \<and> so_mode opts = Mode_canonical"
    by (rule admitted_ok [where i = i, OF keep _ _ call k(2) x]) (simp_all add: keeps k)
  then show ?thesis using nr(2) k(4) by simp
qed

lemma http_inputs_ok:
  assumes keep: "keeps_sessions reenter" and run: "http_inputs opts reenter c inputs s = (calls, s')" and x: "x \<in> set calls"
  shows "collected_ok opts True c x \<and> so_mode opts = Mode_canonical"
  using run x
proof (induction inputs arbitrary: s calls)
  case Nil
  then show ?case by simp
next
  case (Cons input inputs)
  obtain go cs s1 where one: "http_input opts reenter c input s = (go, cs, s1)" by (metis prod_cases3)
  obtain more s2 where rest: "http_inputs opts reenter c inputs s1 = (more, s2)" by fastforce
  have "x \<in> set cs \<or> (x \<in> set more \<and> s2 = s')" using Cons.prems one rest by (auto split: if_split_asm)
  then show ?case using http_input_ok [OF keep one] Cons.IH rest by blast
qed

lemma observed_response_ok:
  assumes keep: "keeps_sessions reenter" and run: "handleObservedHttpResponse opts reenter f s = (calls, s')" and x: "x \<in> set calls"
  shows "collected_ok opts True (hb_connection (hr_binding f)) x \<and> so_mode opts = Mode_canonical"
proof -
  let ?c = "hb_connection (hr_binding f)"
  obtain inputs where "http_inputs opts reenter ?c inputs (s\<lparr>ps_httpBindings := map_delete (connectionKey ?c) (ps_httpBindings s)\<rparr>) = (calls, s')"
    using run x by (auto simp: handleObservedHttpResponse_def Let_def split: if_split_asm option.split_asm)
  then show ?thesis by (rule http_inputs_ok [OF keep _ x])
qed

lemma dispatch_ok:
  assumes keep: "keeps_sessions reenter" and run: "dispatch opts reenter shop out s = (calls, s')" and x: "x \<in> set calls"
  shows "\<exists>canon c. collected_ok opts canon c x \<and> so_mode opts = Mode_canonical"
proof (cases out)
  case (On_frame f)
  then show ?thesis using observed_frame_ok [OF keep _ x, of opts f s s'] run by auto
next
  case (On_http_response r)
  then show ?thesis using observed_response_ok [OF keep _ x, of opts r s s'] run by auto
qed (use run x in auto)

lemma dispatch_all_ok:
  assumes keep: "keeps_sessions reenter" and run: "dispatch_all opts reenter shop outs s = (calls, s')" and x: "x \<in> set calls"
  shows "\<exists>canon c. collected_ok opts canon c x \<and> so_mode opts = Mode_canonical"
  using run x
proof (induction outs arbitrary: s calls)
  case Nil
  then show ?case by simp
next
  case (Cons out outs)
  obtain cs s1 where one: "dispatch opts reenter shop out s = (cs, s1)" by fastforce
  obtain more s2 where rest: "dispatch_all opts reenter shop outs s1 = (more, s2)" by fastforce
  have "x \<in> set cs \<or> (x \<in> set more \<and> s2 = s')" using Cons.prems one rest by auto
  then show ?case using dispatch_ok [OF keep one] Cons.IH rest by blast
qed

text \<open>
  Property C4. The data that the network observer hands on (socket frames and HTTP answers): whatever the page's network does,
  whatever the decoders return, and whatever the resolvers and the collector do to the
  service while they run (short of replacing its sessions), the collector is called for it only in the controlled mode, with an envelope of the shop, session, generation and
  scope of the document that the connection's view shows at the moment of the call; that view is live and its session
  in a state that admits data, and an admission for exactly this connection and this document is valid at that moment.
  The collector has two more callers, which this does not speak of: \<open>drainDecodedEvents\<close> (theory \<open>Pdd_Decoded\<close>), which
  evaluates an admission before and after the drain but neither the mode nor an admission per message, and
  \<open>handleTrustedInboundIngress\<close> called directly, which checks the document and only the guard it is given.
\<close>

theorem collector_gets_current_admitted_data:
  assumes "keeps_sessions reenter" and "observe_shop opts reenter shop ev s = (calls, s')" and "x \<in> set calls"
  shows "so_mode opts = Mode_canonical \<and> (\<exists>canon c. collected_ok opts canon c x)"
proof -
  obtain outs t where "dispatch_all opts reenter shop outs t = (calls, s')"
    using assms(2,3) by (auto simp: observe_shop_def Let_def split: option.split_asm)
  then show ?thesis using dispatch_all_ok [OF assms(1) _ assms(3)] by blast
qed

text \<open>A ready session with one socket, for the witness.\<close>

definition sample_host :: session_host where
  "sample_host = (new_host ''shop-1'')\<lparr>sh_state := \<lparr>ss_shopId = ''shop-1'', ss_sessionId = ''sess'', ss_status = Session_ready, ss_lastError = None,
     ss_activeConversationId = None, ss_buyerId = None, ss_selected = None\<rparr>, sh_view := Some sample_view, sh_documentGeneration := 2,
     sh_activeDocumentGeneration := Some 2\<rparr>"

definition sample_connection :: connection_evidence where
  "sample_connection = \<lparr>ce_webContents = 7, ce_observerId = ''o'', ce_observerLifecycleId = 1, ce_sessionId = ''sess'', ce_shopId = ''shop-1'',
     ce_documentGeneration = 2, ce_cdpSessionId = [], ce_requestId = ''r'', ce_url = ''u''\<rparr>"

definition sample_observer :: inbound_observer where
  "sample_observer = (new_observer ''o'' 7)\<lparr>ob_lifecycleId := 1, ob_enabled := True, ob_connections := [(observer_key ''o'' 1 [] ''r'', sample_connection)]\<rparr>"

definition sample_service :: service where
  "sample_service = new_service\<lparr>ps_hosts := [(0, sample_host)], ps_sessions := [(''shop-1'', 0)], ps_senderSessions := [(7, 0)],
     ps_observers := [(''shop-1'', sample_observer)], ps_connections := [(connectionKey sample_connection, sample_connection)], ps_next := 1\<rparr>"

definition sample_service_options :: service_options where
  "sample_service_options = \<lparr>so_navigationMode = Nav_production, so_mode = Mode_canonical, so_provider = Some (\<lambda>_. Provider_grants),
     so_resolveScope = Some (io_resolveScope sample_options), so_resolveIdentity = Some (io_resolveIdentity sample_options),
     so_validator = io_canonicalValidator sample_options, so_found = None, so_collector = Some (\<lambda>_. Collector_returns None),
     so_decodeFrame = Some (\<lambda>_. Some (io_input sample_options)), so_decodeHttp = None, so_allowedUrl = (\<lambda>_. True), so_allowedHttp = None,
     so_uuid = (\<lambda>_. ''a'')\<rparr>"

lemma sample_options_eta:
  "\<lparr>io_document = sample_document, io_input = io_input sample_options, io_resolveScope = io_resolveScope sample_options,
     io_resolveIdentity = io_resolveIdentity sample_options, io_canonicalValidator = io_canonicalValidator sample_options\<rparr> = sample_options"
  by (simp add: sample_options_def)

lemma sample_frame_collected:
  "map fst (fst (handleObservedFrame sample_service_options (\<lambda>s. s) \<lparr>of_connection = sample_connection, of_payloadData = ''p''\<rparr>
     (sample_service\<lparr>ps_observers := [(''shop-1'', sample_observer\<lparr>ob_out := out\<rparr>)]\<rparr>))) = [sample_envelope]"
proof -
  have ingress: "processPddInboundIngress None \<lparr>io_document = \<lparr>db_sessionId = ''sess'', db_shopId = ''shop-1'', db_documentGeneration = 2\<rparr>, io_input = Some (ingress_input sample_input), io_resolveScope = io_resolveScope sample_options,
     io_resolveIdentity = io_resolveIdentity sample_options, io_canonicalValidator = io_canonicalValidator sample_options\<rparr> None
     = (Ingress_mapped sample_envelope [''SOURCE_TIME_MISSING''], None)"
    using sample_ingress sample_options_eta by (simp add: sample_options_simps(2) sample_document_def)
  show ?thesis
    by (simp add: handleObservedFrame_def sample_service_def sample_service_options_def new_service_def sample_observer_def new_observer_def
        observer_current_def sample_connection_def webContentsFor_def shop_session_def sample_host_def new_host_def sender_session_def sample_view_def
        getCurrentInboundDocumentBinding_def same_document_binding_def make_context_def createInboundIngressContext_def create_context_def
        legacy_status_def live_contents_def update_host_def admitted_frame_def ensure_admission_def evaluate_def evaluate_admission_def
        handleAdmittedInboundIngress_def admission_guard_def validate_admission_def handleTrustedInboundIngress_def ingress_for_def
        resolve_document_def resolveInboundIngressBinding_def resolve_context_def ingress collect_def recordInboundDecision_def Let_def
        sample_options_simps(2))
qed

lemma sample_observed:
  "observe_shop sample_service_options (\<lambda>s. s) ''shop-1'' (\<lambda>b. Observer_message b (Frame_received (Some ''r'') (Some 1) (Some ''p'')) [] 1) sample_service
   = handleObservedFrame sample_service_options (\<lambda>s. s) \<lparr>of_connection = sample_connection, of_payloadData = ''p''\<rparr>
       (sample_service\<lparr>ps_observers := [(''shop-1'', sample_observer\<lparr>ob_out := [On_frame \<lparr>of_connection = sample_connection, of_payloadData = ''p''\<rparr>]\<rparr>)]\<rparr>)"
  by (simp add: observe_shop_def sample_service_def new_service_def sample_observer_def new_observer_def handleDebuggerMessage_def
      network_message_def present_string_def emit_out_def Let_def case_prod_beta)

theorem collector_gets_current_admitted_data_witness:
  "\<exists>s1 canon c. (sample_envelope, s1) \<in> set (fst (observe_shop sample_service_options (\<lambda>s. s) ''shop-1''
      (\<lambda>b. Observer_message b (Frame_received (Some ''r'') (Some 1) (Some ''p'')) [] 1) sample_service))
    \<and> collected_ok sample_service_options canon c (sample_envelope, s1)"
proof -
  let ?o = "observe_shop sample_service_options (\<lambda>s. s) ''shop-1'' (\<lambda>b. Observer_message b (Frame_received (Some ''r'') (Some 1) (Some ''p'')) [] 1) sample_service"
  have "map fst (fst ?o) = [sample_envelope]" unfolding sample_observed by (rule sample_frame_collected)
  then obtain s1 where s1: "(sample_envelope, s1) \<in> set (fst ?o)" by (cases "fst ?o") auto
  have "keeps_sessions (\<lambda>s. s)" by (simp add: keeps_sessions_def)
  from collector_gets_current_admitted_data [OF this prod.collapse [symmetric] s1] s1 show ?thesis by blast
qed

subsection \<open>Page events\<close>

lemma handleObserverStopped_simps [simp]:
  "ps_hosts (handleObserverStopped shop r s) = ps_hosts s" "ps_observers (handleObserverStopped shop r s) = map_delete shop (ps_observers s)"
  by (simp_all add: handleObserverStopped_def recordInboundDecision_def Let_def)

lemma stopInboundObserver_simps [simp]:
  "ps_hosts (stopInboundObserver shop r s) = ps_hosts s" "map_of (ps_observers (stopInboundObserver shop r s)) shop = None"
  by (simp_all add: stopInboundObserver_def split: option.split)

text \<open>
  A page event from web contents the service did not create, or without a sender outside the legacy mode, changes nothing. One
  from a known view changes at most the session of that view: every other session stays as it is, and so does its own when the event names
  another session or shop.
\<close>

theorem page_event_stays_with_its_sender:
  assumes "k = handlePageEvent opts ev sender s"
  shows "((case sender of Some wc \<Rightarrow> map_of (ps_senderSessions s) wc = None | None \<Rightarrow> so_mode opts \<noteq> Mode_legacy) \<longrightarrow> k = s)
    \<and> (\<forall>wc i h j. sender = Some wc \<and> map_of (ps_senderSessions s) wc = Some i \<and> map_of (ps_hosts s) i = Some h
        \<and> (j \<noteq> i \<or> pe_session_id ev \<noteq> ss_sessionId (sh_state h) \<or> pe_shop_id ev \<notin> {None, Some (ss_shopId (sh_state h))})
        \<longrightarrow> map_of (ps_hosts k) j = map_of (ps_hosts s) j)"
  unfolding assms by (cases sender) (auto simp: handlePageEvent_def event_session_def update_host_def Let_def split: option.split)

theorem page_event_stays_with_its_sender_witness:
  "handlePageEvent sample_service_options (sample_page_event Page_ready None) (Some 8) sample_service = sample_service"
  using page_event_stays_with_its_sender [OF refl, where opts = sample_service_options and ev = "sample_page_event Page_ready None"
      and sender = "Some 8" and s = sample_service]
  by (simp add: sample_service_def)

subsection \<open>Re-authentication\<close>

lemma no_observer_no_data:
  assumes "map_of (ps_observers s) shop = None"
  shows "ce_shopId (of_connection f) = shop \<Longrightarrow> fst (handleObservedFrame opts reenter f s) = []"
    and "ce_shopId (hb_connection (hr_binding r)) = shop \<Longrightarrow> fst (handleObservedHttpResponse opts reenter r s) = []"
  using assms by (auto simp: handleObservedFrame_def handleObservedHttpResponse_def observer_current_def Let_def)

lemma stop_revokes:
  assumes x: "map_of (ps_observers s) shop = Some x" and wc: "aq_webContents q = ob_webContents x"
  shows "\<not> validate_admission aid q (ps_registry (stopInboundObserver shop r s))"
proof -
  have "ps_registry (stopInboundObserver shop r s) = revokeForWebContents (ob_webContents x) (ps_registry s)"
    using x by (simp add: stopInboundObserver_def handleObserverStopped_def recordInboundDecision_def observer_stop_def emit_out_def Let_def)
  then show ?thesis using wc by (auto simp: validate_iff map_of_revokeForWebContents)
qed

text \<open>
  When a known view reports that its login has expired, inbound capture of the shop stops at once: until the shop gets a new observer no frame
  and no response of it reaches the collector, and no admission of its web contents validates any more.
\<close>

theorem reauth_cuts_off_inbound:
  assumes "map_of (ps_senderSessions s) wc = Some i" and "map_of (ps_hosts s) i = Some h" and "pe_event ev = Auth_reauth_required"
    and "pe_session_id ev = ss_sessionId (sh_state h)" and "pe_shop_id ev = None \<or> pe_shop_id ev = Some shop" and "shop = ss_shopId (sh_state h)"
    and "k = handlePageEvent opts ev (Some wc) s"
    and "ce_shopId (of_connection f) = shop" and "ce_shopId (hb_connection (hr_binding r)) = shop"
  shows "fst (handleObservedFrame opts reenter f k) = [] \<and> fst (handleObservedHttpResponse opts reenter r k) = []
    \<and> (\<forall>x aid q. map_of (ps_observers s) shop = Some x \<and> aq_webContents q = ob_webContents x \<longrightarrow> \<not> validate_admission aid q (ps_registry k))"
proof -
  let ?t = "stopInboundObserver shop ''AUTH_REAUTH_REQUIRED'' s"
  have k: "ps_observers k = ps_observers ?t" "ps_registry k = ps_registry ?t"
    using assms(1-7) by (auto simp: handlePageEvent_def event_session_def update_host_def Let_def)
  then have "map_of (ps_observers k) shop = None" by simp
  then show ?thesis using no_observer_no_data assms(8,9) stop_revokes k(2) by auto
qed

definition sample_reauth_event :: page_event where
  "sample_reauth_event = buildAuthReauthRequired ''sess''"

definition sample_response :: http_response where
  "sample_response = \<lparr>hr_binding = \<lparr>hb_connection = sample_connection, hb_method = ''GET'', hb_url = ''u''\<rparr>, hr_status = 200, hr_mimeType = [], hr_body = []\<rparr>"

theorem reauth_cuts_off_inbound_witness:
  "fst (handleObservedFrame sample_service_options (\<lambda>s. s) \<lparr>of_connection = sample_connection, of_payloadData = ''p''\<rparr>
     (handlePageEvent sample_service_options sample_reauth_event (Some 7) sample_service)) = []"
proof -
  let ?f = "\<lparr>of_connection = sample_connection, of_payloadData = ''p''\<rparr>"
  have a: "map_of (ps_senderSessions sample_service) 7 = Some 0" "map_of (ps_hosts sample_service) 0 = Some sample_host"
    by (simp_all add: sample_service_def)
  have b: "pe_event sample_reauth_event = Auth_reauth_required" "pe_session_id sample_reauth_event = ss_sessionId (sh_state sample_host)"
    "pe_shop_id sample_reauth_event = None \<or> pe_shop_id sample_reauth_event = Some ''shop-1''" "''shop-1'' = ss_shopId (sh_state sample_host)"
    by (simp_all add: sample_reauth_event_def builders sample_host_def)
  have c: "ce_shopId (of_connection ?f) = ''shop-1''" "ce_shopId (hb_connection (hr_binding sample_response)) = ''shop-1''"
    by (simp_all add: sample_connection_def sample_response_def)
  show ?thesis by (rule conjunct1 [OF reauth_cuts_off_inbound [OF a b refl c]])
qed

subsection \<open>Revocation\<close>

lemma add_set_in [simp]: "x \<in> set (add_set x xs)" "y \<in> set xs \<Longrightarrow> y \<in> set (add_set x xs)"
  by (auto simp: add_set_def)

lemma revoke_entries_shops: "ps_revokedShops (fold (\<lambda>(key, aid). revoke_entry key aid) mine s) = ps_revokedShops s"
  by (induction mine arbitrary: s) (auto simp: revoke_entry_def)

lemma revoked_after: "shop \<in> set (ps_revokedShops (snd (revokeMainAdmissionsForShop shop s)))"
  by (simp add: revokeMainAdmissionsForShop_def Let_def revoke_entries_shops)

lemma revoked_input:
  assumes "ce_shopId c \<in> set (ps_revokedShops s)"
  shows "\<exists>s1. http_input opts reenter c input s = (False, [], s1) \<and> ps_revokedShops s1 = ps_revokedShops s"
proof (cases "map_of (ps_senderSessions s) (ce_webContents c)")
  case None
  then show ?thesis by (simp add: http_input_def Let_def)
next
  case (Some i)
  show ?thesis
  proof (cases "map_of (ps_hosts s) i")
    case None
    then show ?thesis using Some by (simp add: http_input_def sender_session_def Let_def)
  next
    case h: (Some h)
    obtain ctx s1 where m: "make_context True (ce_webContents c) i h s = (ctx, s1)" by fastforce
    have "ps_revokedShops s1 = ps_revokedShops s" using make_context_facts(4) [OF m h] .
    then show ?thesis
      using Some h m assms by (auto simp: http_input_def sender_session_def Let_def split: option.split)
  qed
qed

lemma revoked_inputs:
  assumes "ce_shopId c \<in> set (ps_revokedShops s)"
  shows "fst (http_inputs opts reenter c inputs s) = [] \<and> ps_revokedShops (snd (http_inputs opts reenter c inputs s)) = ps_revokedShops s"
proof (cases inputs)
  case (Cons input rest)
  obtain s1 where "http_input opts reenter c input s = (False, [], s1)" "ps_revokedShops s1 = ps_revokedShops s"
    using revoked_input [OF assms] by blast
  then show ?thesis by (simp add: Cons)
qed simp

text \<open>
  After the admissions of a shop are revoked, no response of the shop reaches the collector, no decoded page event is drained
  into it, even when the revocation comes while the drain is under way, and the shop is still revoked after such an attempt, whatever the
  admission provider would answer: only disposing the service ends it.
\<close>

theorem revoked_shop_is_shut_out:
  assumes "s = snd (revokeMainAdmissionsForShop shop t)" and "ce_shopId (hb_connection (hr_binding f)) = shop"
  shows "fst (handleObservedHttpResponse opts reenter f s) = [] \<and> shop \<in> set (ps_revokedShops (snd (handleObservedHttpResponse opts reenter f s)))
    \<and> fst (snd (drain_finish opts reenter shop i ms ds s)) = [] \<and> (\<exists>r. fst (drain_begin opts shop s) = Inl r)"
proof -
  have r: "shop \<in> set (ps_revokedShops s)" unfolding assms(1) by (rule revoked_after)
  let ?c = "hb_connection (hr_binding f)"
  let ?s0 = "s\<lparr>ps_httpBindings := map_delete (connectionKey ?c) (ps_httpBindings s)\<rparr>"
  have "fst (http_inputs opts reenter ?c inputs ?s0) = [] \<and> shop \<in> set (ps_revokedShops (snd (http_inputs opts reenter ?c inputs ?s0)))" for inputs
    using revoked_inputs [of ?c ?s0 opts reenter inputs] r assms(2) by simp
  then have "fst (handleObservedHttpResponse opts reenter f s) = [] \<and> shop \<in> set (ps_revokedShops (snd (handleObservedHttpResponse opts reenter f s)))"
    using r by (auto simp: handleObservedHttpResponse_def Let_def split: option.split)
  moreover have refused: "\<exists>x. evaluateDecodedEventAdmission opts shop hh s = (Some x, s)" for hh
    using r by (auto simp: evaluateDecodedEventAdmission_def split: option.split)
  moreover have "fst (snd (drain_finish opts reenter shop i ms ds s)) = []"
  proof -
    obtain x where "evaluateDecodedEventAdmission opts shop (map_of (ps_hosts s) i) s = (Some x, s)" using refused by blast
    then show ?thesis by (simp add: drain_finish_def)
  qed
  moreover have "\<exists>x. fst (drain_begin opts shop s) = Inl x"
  proof -
    obtain x where "evaluateDecodedEventAdmission opts shop (shop_session shop s) s = (Some x, s)" using refused by blast
    then show ?thesis by (simp add: drain_begin_def)
  qed
  ultimately show ?thesis by blast
qed

theorem revoked_shop_is_shut_out_witness:
  "fst (handleObservedHttpResponse sample_service_options (\<lambda>s. s) sample_response (snd (revokeMainAdmissionsForShop ''shop-1'' sample_service))) = []
   \<and> ''shop-1'' \<in> set (ps_revokedShops (snd (handleObservedHttpResponse sample_service_options (\<lambda>s. s) sample_response
        (snd (revokeMainAdmissionsForShop ''shop-1'' sample_service)))))"
proof -
  have "ce_shopId (hb_connection (hr_binding sample_response)) = ''shop-1''" by (simp add: sample_connection_def sample_response_def)
  from revoked_shop_is_shut_out [OF refl this] show ?thesis by blast
qed

text \<open>
  The connection of a request is never recorded in \<open>connections\<close>, so that revoking a shop finds none of the admissions of the HTTP path: they
  stay valid in the registry and are not counted.
\<close>

theorem revocation_misses_http_admissions:
  assumes "\<forall>(key, aid) \<in> set (ps_connectionAdmissions s). map_of (ps_connections s) key = None"
  shows "fst (revokeMainAdmissionsForShop shop s) = 0 \<and> ps_registry (snd (revokeMainAdmissionsForShop shop s)) = ps_registry s"
proof -
  have "filter (\<lambda>(key, aid). map_option ce_shopId (map_of (ps_connections s) key) = Some shop) (ps_connectionAdmissions s) = []"
    using assms by (auto simp: filter_empty_conv)
  then show ?thesis by (simp add: revokeMainAdmissionsForShop_def Let_def)
qed

end
