(* ===== verification/Pdd_Decoded_Props.thy ===== *)
theory Pdd_Decoded_Props imports Pdd_Decoded Pdd_Transport_Props Pdd_Service_Props begin

text \<open>
  Properties of the decoded page-event path: the buffer in the page neither loses nor repeats a message without counting it, the
  adapter accounts for every entry of a batch, the projection in the page does not change what the gate decides, and what reaches
  the collector was recorded as a text from a customer.
\<close>

subsection \<open>The buffer in the page\<close>

definition buffer_ok :: "json list \<Rightarrow> json list \<Rightarrow> page_buffer \<Rightarrow> bool" where
  "buffer_ok out rec p \<longleftrightarrow> subseq (out @ pb_events p) rec \<and> length (out @ pb_events p) + pb_dropped p = length rec
     \<and> length (pb_events p) \<le> max_events \<and> (pb_dropped p = 0 \<longrightarrow> out @ pb_events p = rec)"

lemma take_entry_ok:
  assumes "buffer_ok out rec p"
  shows "buffer_ok out (rec @ [e]) (take_entry e p)"
proof -
  have s: "subseq (out @ pb_events p) rec" using assms by (simp add: buffer_ok_def)
  then have "subseq ((out @ pb_events p) @ [e]) (rec @ [e])" by (rule list_emb_append_mono) simp
  moreover have "subseq (out @ pb_events p) (rec @ [e])" using s by (rule subseq_rev_drop_many)
  ultimately show ?thesis using assms by (auto simp: buffer_ok_def take_entry_def)
qed

lemma take_entries_ok: "buffer_ok out rec p \<Longrightarrow> buffer_ok out (rec @ es) (fold take_entry es p)"
proof (induction es arbitrary: rec p)
  case (Cons e es)
  from Cons.IH [OF take_entry_ok [OF Cons.prems]] show ?case by simp
qed simp

lemma take_entry_generation [simp]: "pb_generation (take_entry e p) = pb_generation p"
  by (simp add: take_entry_def)

lemma page_step_ok:
  assumes "buffer_ok out rec p" and "page_step ev p = (o1, q)"
  shows "buffer_ok (out @ o1) (rec @ entries_of ev p) q"
proof (cases ev)
  case (Page_mutation now name payload)
  show ?thesis
  proof (cases name)
    case (Some n)
    have q: "o1 = []" "q = page_record now (Some n) payload p" using assms(2) by (simp_all add: Page_mutation Some)
    show ?thesis
      using take_entries_ok [OF assms(1), of "map (page_entry now n (pb_generation p)) (toMessages payload)"] assms(1)
      by (simp add: q Page_mutation Some page_record_def entries_of_def fold_map comp_def)
  qed (use assms in \<open>auto simp: Page_mutation page_record_def entries_of_def\<close>)
next
  case (Page_generation g)
  then show ?thesis using assms by (auto simp: page_setGeneration_def entries_of_def buffer_ok_def)
next
  case (Page_drain m)
  define k where "k = (if m > 0 then nat m else length (pb_events p))"
  have "o1 = take k (pb_events p)" "q = p\<lparr>pb_events := drop k (pb_events p)\<rparr>"
    using assms(2) by (auto simp: Page_drain page_drain_def Let_def k_def)
  then show ?thesis using assms(1) by (auto simp: Page_drain entries_of_def buffer_ok_def)
qed

lemma page_run_ok: "buffer_ok out rec p \<Longrightarrow> page_run evs p = (o1, r1, q) \<Longrightarrow> buffer_ok (out @ o1) (rec @ r1) q"
proof (induction evs arbitrary: out rec p o1 r1)
  case (Cons ev evs)
  obtain a p1 where a: "page_step ev p = (a, p1)" by fastforce
  obtain b c where b: "page_run evs p1 = (b, c, q)" and "o1 = a @ b" "r1 = entries_of ev p @ c"
    using Cons.prems(2) a by (auto split: prod.splits)
  then show ?case using Cons.IH [OF page_step_ok [OF Cons.prems(1) a] b] by simp
qed simp

text \<open>
  Whatever messages the merchant page announces and however drains and generation changes come between, the messages
  that were drained followed by those still in the buffer are a subsequence of those recorded, the others are counted as dropped, nothing is dropped
  silently, duplicated or reordered, the buffer never holds more than 400, and as long as nothing is counted as dropped, everything is there.
\<close>

theorem page_buffer_loses_nothing_silently:
  assumes "page_run evs \<lparr>pb_via = via, pb_events = [], pb_dropped = 0, pb_generation = g\<rparr> = (drained, recorded, p)"
  shows "subseq (drained @ pb_events p) recorded \<and> length (drained @ pb_events p) + pb_dropped p = length recorded
    \<and> length (pb_events p) \<le> 400 \<and> (pb_dropped p = 0 \<longrightarrow> drained @ pb_events p = recorded)"
  using page_run_ok [of "[]" "[]", OF _ assms] by (simp add: buffer_ok_def max_events_def)

definition sample_inputs :: "page_input list" where
  "sample_inputs = [Page_mutation ''t1'' (Some ''CHANGE_MESSAGE'') (Some (JObj [(''lastMessage'', JObj [(''msg_id'', JStr ''m-1'')])])),
     Page_mutation ''t2'' (Some ''CHANGE_MESSAGE'') (Some (JObj [(''messageList'', JArr [JObj [(''msg_id'', JStr ''m-2'')], JNull])])), Page_drain 1]"

lemma sample_page_run:
  "page_run sample_inputs \<lparr>pb_via = [], pb_events = [], pb_dropped = 0, pb_generation = None\<rparr> =
     (let e1 = page_entry ''t1'' ''CHANGE_MESSAGE'' None (JObj [(''msg_id'', JStr ''m-1'')]); e2 = page_entry ''t2'' ''CHANGE_MESSAGE'' None (JObj [(''msg_id'', JStr ''m-2'')]) in
      ([e1], [e1, e2], \<lparr>pb_via = [], pb_events = [e2], pb_dropped = 0, pb_generation = None\<rparr>))"
  by (simp add: sample_inputs_def page_record_def MESSAGE_MUTATIONS_def toMessages_def has_msg_id_def take_entry_def max_events_def page_drain_def
      entries_of_def as_string_def Let_def)

theorem page_buffer_loses_nothing_silently_witness:
  "\<exists>drained recorded p. page_run sample_inputs \<lparr>pb_via = [], pb_events = [], pb_dropped = 0, pb_generation = None\<rparr> = (drained, recorded, p)
     \<and> length drained = 1 \<and> length recorded = 2 \<and> drained @ pb_events p = recorded"
  using page_buffer_loses_nothing_silently [OF sample_page_run [unfolded Let_def]] sample_page_run by (simp add: Let_def)

subsection \<open>The adapter\<close>

definition noted :: "string \<Rightarrow> drained \<Rightarrow> nat" where
  "noted x d = length (filter (\<lambda>y. y = x) (da_diagnostics d))"

text \<open>An entry of a batch that the adapter may hand on: its message is an object and it does not name another generation.\<close>

definition admissible_entry :: "int \<Rightarrow> json \<Rightarrow> bool" where
  "admissible_entry gen e \<longleftrightarrow> is_object (jget e ''message'') \<and> (\<forall>n. jget e ''pageDocumentGeneration'' = Some (JNum n) \<longrightarrow> n = Integral gen)"

lemma drain_entry_effect:
  assumes "drain_entry gen e (seen, d) = (seen1, d1)"
  shows "da_messages d1 = da_messages d @ (if admissible_entry gen e then [delivered_message (or_null (jget e ''message'')) e] else [])"
    and "noted ''MESSAGE_SHAPE_INVALID'' d1 = noted ''MESSAGE_SHAPE_INVALID'' d + (if is_object (jget e ''message'') then 0 else 1)"
    and "noted ''GENERATION_MISMATCH'' d1 = noted ''GENERATION_MISMATCH'' d + (if is_object (jget e ''message'') \<and> \<not> admissible_entry gen e then 1 else 0)"
  using assms
  by (auto simp: drain_entry_def deliver_entry_def admissible_entry_def noted_def Let_def split: if_split_asm option.split_asm json.split_asm)

lemma drain_entries_effect:
  "fold (drain_entry gen) es (seen, d) = (seen1, d1) \<Longrightarrow>
   da_messages d1 = da_messages d @ map (\<lambda>e. delivered_message (or_null (jget e ''message'')) e) (filter (admissible_entry gen) es)
   \<and> length (da_messages d1) + noted ''MESSAGE_SHAPE_INVALID'' d1 + noted ''GENERATION_MISMATCH'' d1
     = length (da_messages d) + noted ''MESSAGE_SHAPE_INVALID'' d + noted ''GENERATION_MISMATCH'' d + length es"
proof (induction es arbitrary: seen d)
  case (Cons e es)
  obtain s2 d2 where e: "drain_entry gen e (seen, d) = (s2, d2)" by fastforce
  have "fold (drain_entry gen) es (s2, d2) = (seen1, d1)" using Cons.prems e by simp
  note IH = Cons.IH [OF this] and eff = drain_entry_effect [OF e]
  have "is_object (jget e ''message'')" if "admissible_entry gen e" using that by (simp add: admissible_entry_def)
  then show ?case using IH eff by auto
qed simp

lemma adapter_accounts:
  assumes "adapter_drained co gen (Inr (Some (JObj kvs))) = Inr d" and "map_of kvs ''events'' = Some (JArr es)"
  shows "da_messages d = map (\<lambda>e. delivered_message (or_null (jget e ''message'')) e) (filter (admissible_entry gen) es)"
    and "length (da_messages d) + noted ''MESSAGE_SHAPE_INVALID'' d + noted ''GENERATION_MISMATCH'' d = length es"
proof -
  obtain seen d1 where f: "fold (drain_entry gen) es ([], no_drained) = (seen, d1)" by fastforce
  then have "da_messages d = da_messages d1" "noted ''MESSAGE_SHAPE_INVALID'' d = noted ''MESSAGE_SHAPE_INVALID'' d1"
    "noted ''GENERATION_MISMATCH'' d = noted ''GENERATION_MISMATCH'' d1"
    using assms by (auto simp: adapter_drained_def noted_def Let_def)
  moreover have "noted x no_drained = 0" "da_messages no_drained = []" for x by (simp_all add: no_drained_def noted_def)
  ultimately show "da_messages d = map (\<lambda>e. delivered_message (or_null (jget e ''message'')) e) (filter (admissible_entry gen) es)"
    and "length (da_messages d) + noted ''MESSAGE_SHAPE_INVALID'' d + noted ''GENERATION_MISMATCH'' d = length es"
    using drain_entries_effect [OF f] by auto
qed


text \<open>
  The adapter accounts for every entry of a batch, whatever the page sends: the messages it hands on are, in order, those
  of the entries that hold an object and do not name another document generation, and every other entry is
  noted as malformed or as a generation mismatch.
\<close>

theorem adapter_accounts_for_every_entry:
  assumes "adapter_drained co gen (Inr (Some (JObj kvs))) = Inr d" and "map_of kvs ''events'' = Some (JArr es)"
  shows "da_messages d = map (\<lambda>e. delivered_message (or_null (jget e ''message'')) e) (filter (admissible_entry gen) es)
    \<and> length (da_messages d) + noted ''MESSAGE_SHAPE_INVALID'' d + noted ''GENERATION_MISMATCH'' d = length es"
  using adapter_accounts [OF assms] by blast

definition sample_batch :: "(string \<times> json) list" where
  "sample_batch = [(''events'', JArr [JObj [(''message'', sample_event), (''pageDocumentGeneration'', JNum (Integral 2))],
     JObj [(''message'', sample_event), (''pageDocumentGeneration'', JNum (Integral 1))]]), (''remaining'', JNum (Integral 0)), (''dropped'', JNum (Integral 0))]"

definition sample_coercions :: coercions where
  "sample_coercions = \<lparr>je_number = (\<lambda>_. None), je_string = (\<lambda>_. [])\<rparr>"

lemma sample_batch_drained:
  "adapter_drained sample_coercions 2 (Inr (Some (JObj sample_batch))) = Inr \<lparr>da_messages =
     [delivered_message sample_event (JObj [(''message'', sample_event), (''pageDocumentGeneration'', JNum (Integral 2))])],
     da_dropped = Some (Integral 0), da_duplicates = 1, da_diagnostics = [''NEWNESS_UNVERIFIED'', ''GENERATION_MISMATCH'']\<rparr>"
  by (simp add: adapter_drained_def sample_batch_def drain_entry_def deliver_entry_def no_drained_def sample_event_def as_string_def or_null_def
      number_or_zero_def add_set_def Let_def)

theorem adapter_accounts_for_every_entry_witness:
  "\<exists>d. adapter_drained sample_coercions 2 (Inr (Some (JObj sample_batch))) = Inr d \<and> length (da_messages d) = 1
     \<and> noted ''GENERATION_MISMATCH'' d = 1 \<and> noted ''MESSAGE_SHAPE_INVALID'' d = 0"
proof -
  have "map_of sample_batch ''events'' = Some (JArr [JObj [(''message'', sample_event), (''pageDocumentGeneration'', JNum (Integral 2))],
     JObj [(''message'', sample_event), (''pageDocumentGeneration'', JNum (Integral 1))]])" by (simp add: sample_batch_def)
  note all_entries = adapter_accounts_for_every_entry [OF sample_batch_drained this, THEN conjunct2]
  show ?thesis by (rule exI, rule conjI, rule sample_batch_drained) (use all_entries in \<open>simp add: noted_def\<close>)
qed

subsection \<open>The projection in the page\<close>

lemma party_get: "opt_get (Some (party v)) ''role'' = (if is_object v then Some (or_null (opt_get v ''role'')) else None)"
  "opt_get (Some (party v)) ''uid'' = (if is_object v then Some (or_null (opt_get v ''uid'')) else None)"
  by (simp_all add: party_def)

lemma page_message_get:
  "jget (page_message m) ''msg_id'' = Some (string_or_null (jget m ''msg_id''))"
  "jget (page_message m) ''client_msg_id'' = Some (string_or_null (jget m ''client_msg_id''))"
  "jget (page_message m) ''type'' = Some (case jget m ''type'' of Some (JNum n) \<Rightarrow> JNum n | _ \<Rightarrow> JNull)"
  "jget (page_message m) ''content'' = Some (string_or_null (jget m ''content''))"
  "jget (page_message m) ''is_history'' = Some (JBool (jget m ''is_history'' = Some (JBool True)))"
  "jget (page_message m) ''from'' = Some (party (jget m ''from''))" "jget (page_message m) ''to'' = Some (party (jget m ''to''))"
  by (simp_all add: page_message_def)

text \<open>The decision of the gate on a message and on its projection: nothing but an undefined uid that has become null differs.\<close>

definition same_decision :: "event_candidate \<Rightarrow> event_candidate \<Rightarrow> bool" where
  "same_decision a b \<longleftrightarrow> (case (a, b) of
       (Candidate i ds, Candidate j es) \<Rightarrow> ei_content j = ei_content i \<and> ei_msg_id j = ei_msg_id i \<and> es = ds
         \<and> ei_fromUid j = Some (or_null (ei_fromUid i)) \<and> ei_toUid j = Some (or_null (ei_toUid i))
     | (Event_rejected r ds, Event_rejected q es) \<Rightarrow> q = r \<and> es = ds
     | _ \<Rightarrow> False)"

lemma role_of_party:
  "as_string (opt_get (if isRecord (Some (party v)) then Some (party v) else None) ''role'')
    = as_string (opt_get (if isRecord v then v else None) ''role'')"
  by (cases v rule: is_object.cases) (auto simp: party_def or_null_def isRecord_def as_string_def opt_get_def split: option.split json.split)

lemma is_object_role:
  "as_string (opt_get (if isRecord v then v else None) ''role'') \<noteq> None \<Longrightarrow>
   opt_get (if isRecord (Some (party v)) then Some (party v) else None) ''uid'' = Some (or_null (opt_get (if isRecord v then v else None) ''uid''))"
  by (cases v rule: is_object.cases) (auto simp: party_def isRecord_def as_string_def opt_get_def split: option.split json.split)

lemma string_or_null_simps:
  "nonBlankString (Some (string_or_null v)) = nonBlankString v" "nonBlankString v \<Longrightarrow> string_of (Some (string_or_null v)) = string_of v"
  by (auto simp: nonBlankString_iff string_or_null_def split: option.split json.split)

text \<open>
  The copy that the observer makes of a message in the page loses nothing the gate looks at: a message and its copy are
  accepted as a candidate together, with the same text and message id and the same uids up to a missing one being null, or rejected for the same reason.
\<close>

theorem projection_keeps_decision:
  "same_decision (toInboundEventCandidate (Some (JObj kvs))) (toInboundEventCandidate (Some (page_message (JObj kvs))))"
proof -
  define m where "m = JObj kvs"
  define gate where "gate = (\<lambda>f t h k c i l.
     if as_string (opt_get f ''role'') \<noteq> Some ''user'' \<or> as_string (opt_get t ''role'') \<noteq> Some ''mall_cs'' then Event_rejected NOT_CUSTOMER_DIRECTION []
     else if h = Some (JBool True) then Event_rejected HISTORY_LOAD []
     else if k \<noteq> Kind_text then Event_rejected (kind_reason k) []
     else if \<not> nonBlankString c then Event_rejected CONTENT_MISSING []
     else if \<not> nonBlankString i then Event_rejected PLATFORM_MESSAGE_ID_MISSING (if nonBlankString l then [''CLIENT_MSG_ID_PRESENT_WITHOUT_PLATFORM_ID''] else [])
     else Candidate \<lparr>ei_fromUid = opt_get f ''uid'', ei_toUid = opt_get t ''uid'', ei_content = string_of c, ei_msg_id = string_of i\<rparr> [''SOURCE_TIME_UNVERIFIED''])"
  define F where "F = (\<lambda>v k. if isRecord (jget v k) then jget v k else None)"
  have g: "toInboundEventCandidate (Some v) = gate (F v ''from'') (F v ''to'') (jget v ''is_history'')
      (kindForPlatformType (case jget v ''type'' of Some (JNum n) \<Rightarrow> Some n | _ \<Rightarrow> None)) (jget v ''content'') (jget v ''msg_id'') (jget v ''client_msg_id'')"
    if "isRecord (Some v)" for v
    by (simp only: that toInboundEventCandidate_def gate_def F_def Let_def opt_get_def [of "Some v"] option.case not_True_eq_False if_False)
  have role: "as_string (opt_get (F (page_message m) k) ''role'') = as_string (opt_get (F m k) ''role'')"
    and uid: "as_string (opt_get (F m k) ''role'') \<noteq> None \<Longrightarrow> opt_get (F (page_message m) k) ''uid'' = Some (or_null (opt_get (F m k) ''uid''))"
    if k: "k = ''from'' \<or> k = ''to''" for k
  proof -
    have p: "jget (page_message m) k = Some (party (jget m k))" using k by (elim disjE) (simp_all add: page_message_get)
    show "as_string (opt_get (F (page_message m) k) ''role'') = as_string (opt_get (F m k) ''role'')"
      unfolding F_def p by (rule role_of_party)
    show "as_string (opt_get (F m k) ''role'') \<noteq> None \<Longrightarrow> opt_get (F (page_message m) k) ''uid'' = Some (or_null (opt_get (F m k) ''uid''))"
      unfolding F_def p by (rule is_object_role)
  qed
  have kind: "(case jget (page_message m) ''type'' of Some (JNum n) \<Rightarrow> Some n | _ \<Rightarrow> None) = (case jget m ''type'' of Some (JNum n) \<Rightarrow> Some n | _ \<Rightarrow> None)"
    by (auto simp: page_message_get split: option.split json.split)
  have recs: "isRecord (Some m)" "isRecord (Some (page_message m))" by (simp_all add: m_def isRecord_def page_message_def)
  note at = role [OF disjI1 [OF refl]] role [OF disjI2 [OF refl]]
  have history: "(jget (page_message m) ''is_history'' = Some (JBool True)) = (jget m ''is_history'' = Some (JBool True))"
    by (simp add: page_message_get)
  have texts: "jget (page_message m) k = Some (string_or_null (jget m k))" if "k \<in> {''content'', ''msg_id'', ''client_msg_id''}" for k
    using that by (auto simp: page_message_get)
  note text_at = texts [of "''content''"] texts [of "''msg_id''"] texts [of "''client_msg_id''"]
  have "same_decision (toInboundEventCandidate (Some m)) (toInboundEventCandidate (Some (page_message m)))"
  proof (cases "as_string (opt_get (F m ''from'') ''role'') = Some ''user'' \<and> as_string (opt_get (F m ''to'') ''role'') = Some ''mall_cs''")
    case False
    then show ?thesis unfolding g [OF recs(1)] g [OF recs(2)] kind gate_def at by (auto simp: same_decision_def)
  next
    case True
    then have "opt_get (F (page_message m) ''from'') ''uid'' = Some (or_null (opt_get (F m ''from'') ''uid''))"
      "opt_get (F (page_message m) ''to'') ''uid'' = Some (or_null (opt_get (F m ''to'') ''uid''))"
      using uid [of "''from''"] uid [of "''to''"] by simp_all
    then show ?thesis using True unfolding g [OF recs(1)] g [OF recs(2)] kind gate_def at history
      by (auto simp: same_decision_def text_at string_or_null_simps)
  qed
  then show ?thesis by (simp add: m_def)
qed

subsection \<open>What reaches the collector\<close>

text \<open>An envelope made of an entry of a batch: the entry is a text from a customer, not marked as history and not of another generation.\<close>

definition envelope_of_entry :: "int \<Rightarrow> json \<Rightarrow> inbound_envelope \<Rightarrow> bool" where
  "envelope_of_entry gen e env \<longleftrightarrow> admissible_entry gen e
     \<and> (let m = jget e ''message'' in
        opt_get (opt_get m ''from'') ''role'' = Some (JStr ''user'') \<and> opt_get (opt_get m ''to'') ''role'' = Some (JStr ''mall_cs'')
        \<and> opt_get m ''is_history'' \<noteq> Some (JBool True) \<and> opt_get m ''type'' = Some (JNum (Integral 0))
        \<and> opt_get m ''content'' = Some (JStr (ie_text env)) \<and> \<not> blank (ie_text env)
        \<and> (\<exists>i. opt_get m ''msg_id'' = Some (JStr i) \<and> \<not> blank i \<and> il_messageIdentity (ie_lock env) = mapPlatformMessageIdentity (Some i))
        \<and> (\<exists>u. uid_ok (opt_get (opt_get m ''from'') ''uid'') u \<and> il_platformCustomerId (ie_lock env) = mapPlatformCustomerId u))"

lemma drain_message_calls:
  assumes "drain_message opts reenter i msg r s = (r1, calls, s1)" and "x \<in> set calls"
  obtains c ds b scope ident cache k where "toInboundEventCandidate msg = Candidate c ds"
    "fst (processPddInboundIngress (so_found opts) \<lparr>io_document = b, io_input = Some (ingress_input c), io_resolveScope = scope,
       io_resolveIdentity = ident, io_canonicalValidator = so_validator opts\<rparr> cache) = Ingress_mapped (fst x) k"
  using assms
  by (auto simp: drain_message_def Let_def case_prod_beta split: event_candidate.split_asm option.split_asm ingress_result.split_asm if_split_asm)

lemma drain_messages_calls:
  "x \<in> set (fst (snd (drain_messages opts reenter i ms r s))) \<Longrightarrow> \<exists>msg \<in> set ms. \<exists>r s. x \<in> set (fst (snd (drain_message opts reenter i msg r s)))"
proof (induction ms arbitrary: r s)
  case (Cons m ms)
  obtain r2 c2 s2 where m: "drain_message opts reenter i m r s = (r2, c2, s2)" by (metis prod.collapse)
  obtain r3 c3 s3 where ms: "drain_messages opts reenter i ms r2 s2 = (r3, c3, s3)" by (metis prod.collapse)
  have "x \<in> set c2 \<or> x \<in> set c3" using Cons.prems m ms by auto
  then show ?case
  proof
    assume "x \<in> set c2"
    then have "x \<in> set (fst (snd (drain_message opts reenter i m r s)))" using m by simp
    then show ?thesis by (meson list.set_intros(1))
  next
    assume "x \<in> set c3"
    then show ?thesis using Cons.IH [of r2 s2] ms by auto
  qed
qed simp

lemma event_envelope:
  assumes "toInboundEventCandidate (Some m) = Candidate c ds"
    and "processPddInboundIngress found \<lparr>io_document = b, io_input = Some (ingress_input c), io_resolveScope = scope,
       io_resolveIdentity = ident, io_canonicalValidator = va\<rparr> cache = (Ingress_mapped env k, cache')"
    and "admissible_entry gen e" and "jget e ''message'' = Some m"
  shows "envelope_of_entry gen e env"
proof -
  note cand = candidate_of_event [OF assms(1)]
  from assms(2) obtain n v mds occ where n: "normalizePddInboundForCanonical (Some (ingress_payload c)) = Canon_accepted n"
    and mp: "mapPddInboundToCanonical n (read_identity v) (db_sessionId b) (db_documentGeneration b) occ = Map_mapped env mds"
    by (rule ingress_mapped_path) (simp add: ingress_input_def)
  have u: "uid_ok (ei_fromUid c) (cm_customerUid n)" "cm_content n = ei_content c" "cm_platformMessageId n = Some (ei_msg_id c)"
    using n normalize_ingress_payload [OF cand(6,8)] by (auto simp: uid_ok_def customerUidString_iff split: if_split_asm)
  show ?thesis
    unfolding envelope_of_entry_def Let_def assms(4)
    using assms(3) cand u mapped_envelope(6,7,11) [OF mp] by auto
qed

text \<open>
  Whatever the page sends in a batch, an envelope that a drain hands to the collector was made of one entry of the
  batch that names no other document generation than the current one, is marked as a text from a customer to the shop and not as
  history, and it has the text, the message id and the customer of that entry.
\<close>

theorem collected_events_are_customer_texts:
  assumes "capture_drained co opts reenter shop n i gen (Inr (Some (JObj kvs))) cs s = (report, calls, cs1, s1)"
    and "map_of kvs ''events'' = Some (JArr es)" and "x \<in> set calls"
  shows "\<exists>e \<in> set es. envelope_of_entry gen e (fst x)"
proof -
  obtain d where d: "adapter_drained co gen (Inr (Some (JObj kvs))) = Inr d"
    using assms(2) by (auto simp: adapter_drained_def Let_def case_prod_beta)
  let ?ms = "map (\<lambda>e. jget e ''message'') (da_messages d)"
  obtain rep s2 where "drain_finish opts reenter shop i ?ms (da_diagnostics d) s = (rep, calls, s2)"
    using assms(1) d by (auto simp: capture_drained_def Let_def split: sum.split_asm prod.split_asm)
  then obtain r s r1 s1 where "drain_messages opts reenter i ?ms r s = (r1, calls, s1)"
    using assms(3) by (auto simp: drain_finish_def Let_def split: prod.split_asm option.split_asm)
  then obtain msg r s r1 c1 s1 where msg: "msg \<in> set ?ms" "drain_message opts reenter i msg r s = (r1, c1, s1)" "x \<in> set c1"
    using drain_messages_calls [of x opts reenter i ?ms r s] assms(3) by (metis fst_conv prod.collapse snd_conv)
  from msg(2,3) obtain c ds b scope ident cache k where c: "toInboundEventCandidate msg = Candidate c ds"
    "fst (processPddInboundIngress (so_found opts) \<lparr>io_document = b, io_input = Some (ingress_input c), io_resolveScope = scope,
       io_resolveIdentity = ident, io_canonicalValidator = so_validator opts\<rparr> cache) = Ingress_mapped (fst x) k"
    by (rule drain_message_calls)
  from msg(1) obtain e where e: "e \<in> set es" "admissible_entry gen e" "msg = Some (or_null (jget e ''message''))"
    using adapter_accounts [OF d assms(2)] by (auto simp: delivered_message_def)
  then obtain m where m: "jget e ''message'' = Some m" "msg = Some m" by (auto simp: admissible_entry_def or_null_def split: option.split_asm)
  have "envelope_of_entry gen e (fst x)"
    using event_envelope [OF c(1) [unfolded m(2)] _ e(2) m(1)] c(2) by (metis prod.collapse)
  then show ?thesis using e(1) by blast
qed

lemma sample_drain_collected:
  "map fst (fst (snd (capture_drained sample_coercions sample_service_options (\<lambda>s. s) ''shop-1'' 0 0 2 (Inr (Some (JObj sample_batch))) no_captures sample_service)))
   = [sample_envelope]"
proof -
  have ingress: "processPddInboundIngress None \<lparr>io_document = \<lparr>db_sessionId = ''sess'', db_shopId = ''shop-1'', db_documentGeneration = 2\<rparr>, io_input = Some (ingress_input sample_input), io_resolveScope = io_resolveScope sample_options,
     io_resolveIdentity = io_resolveIdentity sample_options, io_canonicalValidator = io_canonicalValidator sample_options\<rparr> None
     = (Ingress_mapped sample_envelope [''SOURCE_TIME_MISSING''], None)"
    using sample_ingress sample_options_eta by (simp add: sample_options_simps(2) sample_document_def)
  have cand: "toInboundEventCandidate (Some sample_event) = Candidate sample_input [''SOURCE_TIME_UNVERIFIED'']"
    by (simp add: toInboundEventCandidate_def sample_event_def isRecord_def kindForPlatformType_def nonBlankString_iff sample_input_def)
  show ?thesis
    by (simp add: capture_drained_def sample_batch_drained delivered_message_def drain_finish_def evaluateDecodedEventAdmission_def
        sample_service_def sample_service_options_def new_service_def webContentsFor_def shop_session_def sample_host_def new_host_def sample_view_def
        resolveActiveCanonicalDocumentBinding_def getCurrentInboundDocumentBinding_def live_contents_def evaluate_def evaluate_admission_def
        drain_message_def cand ingress Let_def sample_options_simps(2) canonical_status_def inbound_blocked_def)
qed

theorem collected_events_are_customer_texts_witness:
  "\<exists>report cs1 s1 s2. capture_drained sample_coercions sample_service_options (\<lambda>s. s) ''shop-1'' 0 0 2 (Inr (Some (JObj sample_batch))) no_captures sample_service
       = (report, [(sample_envelope, s2)], cs1, s1)
     \<and> (\<exists>e. envelope_of_entry 2 e sample_envelope)"
proof -
  let ?r = "capture_drained sample_coercions sample_service_options (\<lambda>s. s) ''shop-1'' 0 0 2 (Inr (Some (JObj sample_batch))) no_captures sample_service"
  obtain report calls cs1 s1 where r: "?r = (report, calls, cs1, s1)" by (metis prod.collapse)
  then have "map fst calls = [sample_envelope]" using sample_drain_collected by simp
  then obtain s2 where c: "calls = [(sample_envelope, s2)]" by auto
  have es: "map_of sample_batch ''events'' = Some (JArr [JObj [(''message'', sample_event), (''pageDocumentGeneration'', JNum (Integral 2))],
     JObj [(''message'', sample_event), (''pageDocumentGeneration'', JNum (Integral 1))]])" by (simp add: sample_batch_def)
  have "(sample_envelope, s2) \<in> set calls" by (simp add: c)
  from collected_events_are_customer_texts [OF r es this] r c show ?thesis by auto
qed

subsection \<open>Two defects\<close>

text \<open>
  The page reports how many messages it has dropped since it was installed, a drain leaves that number as it is, and the service adds
  the report of every drain to its counter.
\<close>

theorem dropped_is_counted_at_every_drain:
  assumes "capture_drained co opts reenter shop n i gen (Inr (fst (page_drain m (Some p)))) cs s = (Inr report, calls, cs1, s1)"
    and "0 < pb_dropped p" and "map_of (cs_objects cs) n = Some c"
  shows "map_option cp_dropped (map_of (cs_objects cs1) n) = Some (cp_dropped c @ [Integral (int (pb_dropped p))])
    \<and> map_option pb_dropped (snd (page_drain m (Some p))) = Some (pb_dropped p)"
proof -
  obtain d where d: "adapter_drained co gen (Inr (fst (page_drain m (Some p)))) = Inr d" "da_dropped d = Some (Integral (int (pb_dropped p)))"
    by (cases "fold (drain_entry gen) (take (if 0 < m then nat m else length (pb_events p)) (pb_events p)) ([], no_drained)")
      (simp add: adapter_drained_def page_drain_def number_or_zero_def Let_def)
  have "\<exists>c1. map_of (cs_objects cs1) n = Some c1 \<and> cp_dropped c1 = cp_dropped c @ [Integral (int (pb_dropped p))]"
    using assms d by (auto simp: capture_drained_def update_capture_def Let_def split: sum.split_asm prod.split_asm if_split_asm)
  then show ?thesis by (auto simp: page_drain_def Let_def)
qed

text \<open>A new document has no observer, and starting again does not install one: the capture stays silent until it is stopped.\<close>

theorem started_capture_is_not_reinstalled:
  assumes "map_of (cs_states cs) shop = Some n"
  shows "capture_start opts True shop cs = (if so_collector opts = None then Some (Some ''COLLECTOR_MISSING'') else Some None)
    \<and> page_drain m (page_setGeneration g None) = (Some JNull, None) \<and> adapter_drained co g (Inr (fst (page_drain m None))) = Inl ''DRAIN_SHAPE_INVALID''"
  using assms by (simp add: capture_start_def page_drain_def page_setGeneration_def adapter_drained_def opt_get_def)

end
