(* ===== verification/Pdd_Observer_Props.thy ===== *)
theory Pdd_Observer_Props imports Pdd_Observer begin

text \<open>
  What the inbound observer guarantees: it hands on only data of allowed requests and sockets that it saw
  start, a response body only while the document of its request is still the current one, and nothing after it
  has stopped.
\<close>

subsection \<open>The invariant\<close>

text \<open>Evidence is allowed and was announced when the request or the socket started.\<close>

definition request_known :: "(string \<Rightarrow> string \<Rightarrow> bool) option \<Rightarrow> inbound_observer \<Rightarrow> http_binding \<Rightarrow> bool" where
  "request_known ah s e \<longleftrightarrow> (\<exists>ok. ah = Some ok \<and> ok (hb_method e) (hb_url e)) \<and> On_http_request e \<in> set (ob_out s)"

definition connection_known :: "(string \<Rightarrow> bool) \<Rightarrow> inbound_observer \<Rightarrow> connection_evidence \<Rightarrow> bool" where
  "connection_known au s c \<longleftrightarrow> au (ce_url c) \<and> On_connection c \<in> set (ob_out s)"

definition observer_inv :: "(string \<Rightarrow> bool) \<Rightarrow> (string \<Rightarrow> string \<Rightarrow> bool) option \<Rightarrow> inbound_observer \<Rightarrow> bool" where
  "observer_inv au ah s \<longleftrightarrow>
     (\<forall>(k, e) \<in> set (ob_httpRequests s). request_known ah s e)
     \<and> (\<forall>r \<in> set (ob_reads s). request_known ah s (br_evidence r))
     \<and> (\<forall>(k, c) \<in> set (ob_connections s). connection_known au s c)
     \<and> (ob_terminal s \<longrightarrow> \<not> ob_enabled s)"

text \<open>What a step may emit: \<open>s\<close> before the step, \<open>bind\<close> the current document at its time.\<close>

fun output_ok :: "(string \<Rightarrow> bool) \<Rightarrow> (string \<Rightarrow> string \<Rightarrow> bool) option \<Rightarrow> inbound_observer \<Rightarrow> document_binding option \<Rightarrow> observer_output \<Rightarrow> bool" where
  "output_ok au ah s bind (On_http_response r) \<longleftrightarrow> ob_enabled s \<and> request_known ah s (hr_binding r)
     \<and> (\<exists>b. bind = Some b \<and> same_document_binding (hb_connection (hr_binding r)) b)"
| "output_ok au ah s bind (On_frame f) \<longleftrightarrow> ob_enabled s \<and> connection_known au s (of_connection f)"
| "output_ok au ah s bind (On_http_request e) \<longleftrightarrow> ob_enabled s \<and> (\<exists>ok. ah = Some ok \<and> ok (hb_method e) (hb_url e))
     \<and> (\<exists>b. bind = Some b \<and> same_document_binding (hb_connection e) b)"
| "output_ok au ah s bind (On_connection c) \<longleftrightarrow> ob_enabled s \<and> au (ce_url c) \<and> (\<exists>b. bind = Some b \<and> same_document_binding c b)"
| "output_ok au ah s bind (On_stopped reason) \<longleftrightarrow> \<not> ob_terminal s"

text \<open>A step keeps the invariant and appends acceptable outputs.\<close>

definition good_step :: "(string \<Rightarrow> bool) \<Rightarrow> (string \<Rightarrow> string \<Rightarrow> bool) option \<Rightarrow> document_binding option \<Rightarrow> inbound_observer \<Rightarrow> inbound_observer \<Rightarrow> bool" where
  "good_step au ah bind s s1 \<longleftrightarrow> observer_inv au ah s1 \<and> (\<exists>new. ob_out s1 = ob_out s @ new \<and> list_all (output_ok au ah s bind) new)"

lemma good_step_silent:
  assumes "observer_inv au ah s" and "ob_out s1 = ob_out s" and "set (ob_httpRequests s1) \<subseteq> set (ob_httpRequests s)"
    and "set (ob_connections s1) \<subseteq> set (ob_connections s)" and "set (ob_reads s1) \<subseteq> set (ob_reads s)"
    and "ob_terminal s1 \<longrightarrow> \<not> ob_enabled s1"
  shows "good_step au ah bind s s1"
  using assms unfolding good_step_def observer_inv_def request_known_def connection_known_def by auto

lemma emit_out_inv: "observer_inv au ah s \<Longrightarrow> observer_inv au ah (emit_out x s)"
  unfolding observer_inv_def request_known_def connection_known_def emit_out_def by fastforce

lemma forget_request_simps [simp]:
  "ob_out (forget_request k s) = ob_out s" "ob_connections (forget_request k s) = ob_connections s" "ob_reads (forget_request k s) = ob_reads s"
  "ob_terminal (forget_request k s) = ob_terminal s" "ob_enabled (forget_request k s) = ob_enabled s"
  "ob_httpRequests (forget_request k s) = map_delete k (ob_httpRequests s)"
  by (simp_all add: forget_request_def)

lemma count_stop_simps [simp]:
  "ob_out (count_stop k s) = ob_out s" "ob_connections (count_stop k s) = ob_connections s" "ob_reads (count_stop k s) = ob_reads s"
  "ob_terminal (count_stop k s) = ob_terminal s" "ob_enabled (count_stop k s) = ob_enabled s"
  "ob_httpRequests (count_stop k s) = ob_httpRequests s"
  by (simp_all add: count_stop_def)

lemma observer_stop_good:
  assumes "observer_inv au ah s"
  shows "good_step au ah bind s (observer_stop reason l s)"
proof (cases "ob_terminal s \<or> l \<noteq> ob_lifecycleId s")
  case True
  then show ?thesis using assms by (auto simp: observer_stop_def good_step_def observer_inv_def)
next
  case False
  then show ?thesis
    using assms by (auto simp: observer_stop_def good_step_def observer_inv_def emit_out_def request_known_def)
qed

lemma request_sent_good:
  assumes inv: "observer_inv au ah s" and "ob_enabled s"
  shows "good_step au ah bind s (request_sent ah bind l cdp rid url verb s)"
proof (cases "\<exists>ok b. ah = Some ok \<and> ok verb url \<and> bind = Some b \<and> observer_key (ob_id s) l cdp rid \<notin> fst ` set (ob_httpRequests s)")
  case False
  then have "request_sent ah bind l cdp rid url verb s = s" by (auto simp: request_sent_def Let_def split: option.splits)
  then show ?thesis using inv by (simp add: good_step_silent observer_inv_def)
next
  case True
  then obtain ok b where ok: "ah = Some ok" "ok verb url" "bind = Some b" "observer_key (ob_id s) l cdp rid \<notin> fst ` set (ob_httpRequests s)" by blast
  let ?k = "observer_key (ob_id s) l cdp rid"
  let ?e = "\<lparr>hb_connection = evidence_for b l cdp rid url s, hb_method = verb, hb_url = url\<rparr>"
  let ?s1 = "request_sent ah bind l cdp rid url verb s"
  have s1: "?s1 = emit_out (On_http_request ?e)
      (s\<lparr>ob_httpRequests := map_set ?k ?e (ob_httpRequests s), ob_httpResponses := map_delete ?k (ob_httpResponses s)\<rparr>)"
    using ok by (simp add: request_sent_def Let_def)
  have "set (ob_httpRequests ?s1) \<subseteq> insert (?k, ?e) (set (ob_httpRequests s))"
    unfolding s1 emit_out_def using set_map_set [of ?k ?e "ob_httpRequests s"] by simp
  then have "observer_inv au ah ?s1"
    using inv ok unfolding observer_inv_def request_known_def connection_known_def s1 emit_out_def by fastforce
  moreover have "output_ok au ah s bind (On_http_request ?e)"
    using ok assms(2) by (simp add: same_document_binding_def evidence_for_def)
  ultimately show ?thesis unfolding good_step_def s1 emit_out_def by simp
qed

lemma socket_created_good:
  assumes inv: "observer_inv au ah s" and "ob_enabled s"
  shows "good_step au ah bind s (socket_created au bind l cdp rid url s)"
proof (cases "\<exists>b. au url \<and> bind = Some b \<and> observer_key (ob_id s) l cdp rid \<notin> fst ` set (ob_connections s)")
  case False
  then have "socket_created au bind l cdp rid url s = s" by (auto simp: socket_created_def Let_def split: option.splits)
  then show ?thesis using inv by (simp add: good_step_silent observer_inv_def)
next
  case True
  then obtain b where ok: "au url" "bind = Some b" "observer_key (ob_id s) l cdp rid \<notin> fst ` set (ob_connections s)" by blast
  let ?k = "observer_key (ob_id s) l cdp rid" and ?c = "evidence_for b l cdp rid url s"
  let ?s1 = "socket_created au bind l cdp rid url s"
  have s1: "?s1 = emit_out (On_connection ?c) (s\<lparr>ob_connections := map_set ?k ?c (ob_connections s)\<rparr>)"
    using ok by (simp add: socket_created_def Let_def)
  have "set (ob_connections ?s1) \<subseteq> insert (?k, ?c) (set (ob_connections s))"
    unfolding s1 emit_out_def using set_map_set [of ?k ?c "ob_connections s"] by simp
  then have "observer_inv au ah ?s1"
    using inv ok unfolding observer_inv_def request_known_def connection_known_def s1 emit_out_def
    by (fastforce simp: evidence_for_def)
  moreover have "output_ok au ah s bind (On_connection ?c)"
    using ok assms(2) by (simp add: same_document_binding_def evidence_for_def)
  ultimately show ?thesis unfolding good_step_def s1 emit_out_def by simp
qed

lemma forget_good: "observer_inv au ah s \<Longrightarrow> good_step au ah bind s (forget_request k s)"
  by (rule good_step_silent) (auto simp: set_map_delete observer_inv_def)

lemma begin_read_good:
  assumes inv: "observer_inv au ah s" and "request_known ah s e"
  shows "good_step au ah bind s (begin_read bind k e st mime l s)"
proof -
  let ?s1 = "s\<lparr>ob_readAttempts := Suc (ob_readAttempts s)\<rparr>"
  have silent: "good_step au ah bind s (forget_request k (count_stop r ?s1))" for r
    using inv by (intro good_step_silent) (simp_all add: set_map_delete observer_inv_def)
  have reads: "good_step au ah bind s (?s1\<lparr>ob_reads := ob_reads ?s1 @ [r]\<rparr>)" if "br_evidence r = e" for r
    using inv assms(2) that unfolding good_step_def observer_inv_def request_known_def connection_known_def by auto
  show ?thesis
  proof (cases "begin_read bind k e st mime l s = ?s1\<lparr>ob_reads := ob_reads ?s1 @ [\<lparr>br_key = k, br_evidence = e, br_status = st, br_mimeType = mime,
      br_lifecycle = l, br_epoch = ob_lifecycleEpoch ?s1, br_navigation = ob_navigationEpoch ?s1\<rparr>]\<rparr>")
    case True
    then show ?thesis using reads by (simp only: body_read.simps)
  next
    case False
    then have "\<exists>r. begin_read bind k e st mime l s = forget_request k (count_stop r ?s1)"
      unfolding begin_read_def Let_def by (simp split: option.split_asm if_split_asm) blast+
    then show ?thesis using silent by metis
  qed
qed

lemma end_read_cases:
  obtains (stopped) x where "end_read bind answer r s = count_stop x s"
  | (handed_on) q b where "end_read bind answer r s = emit_out (On_http_response q) (s\<lparr>ob_readOk := Suc (ob_readOk s)\<rparr>)"
      "hr_binding q = br_evidence r" "ob_enabled s" "bind = Some b" "same_document_binding (hb_connection (br_evidence r)) b"
proof (cases "\<exists>x. end_read bind answer r s = count_stop x s")
  case False
  then have "\<exists>q b. end_read bind answer r s = emit_out (On_http_response q) (s\<lparr>ob_readOk := Suc (ob_readOk s)\<rparr>)
      \<and> hr_binding q = br_evidence r \<and> ob_enabled s \<and> bind = Some b \<and> same_document_binding (hb_connection (br_evidence r)) b"
    by (force simp: end_read_def Let_def split: body_answer.split_asm option.split_asm if_split_asm)
  then show ?thesis using handed_on by blast
qed (use stopped in blast)

lemma settle_read_good:
  assumes inv: "observer_inv au ah s"
  shows "good_step au ah bind s (settle_read bind answer i s)"
proof (cases "i < length (ob_reads s)")
  case False
  then show ?thesis using inv by (simp add: settle_read_def good_step_silent observer_inv_def)
next
  case True
  let ?r = "ob_reads s ! i" and ?s0 = "s\<lparr>ob_reads := take i (ob_reads s) @ drop (Suc i) (ob_reads s)\<rparr>"
  have known: "request_known ah s (br_evidence ?r)" using inv True by (simp add: observer_inv_def)
  have sub: "set (ob_reads ?s0) \<subseteq> set (ob_reads s)" by (auto dest: in_set_takeD in_set_dropD)
  have silent: "good_step au ah bind s (forget_request k (count_stop x ?s0))" for x k
    using inv sub by (intro good_step_silent) (auto simp: set_map_delete observer_inv_def)
  have emitted: "good_step au ah bind s (forget_request k (emit_out (On_http_response q) (?s0\<lparr>ob_readOk := n\<rparr>)))"
    if "hr_binding q = br_evidence ?r" "ob_enabled s" "bind = Some b" "same_document_binding (hb_connection (br_evidence ?r)) b" for k q n b
  proof -
    have "observer_inv au ah (forget_request k (emit_out (On_http_response q) (?s0\<lparr>ob_readOk := n\<rparr>)))"
      using inv sub set_map_delete [of k "ob_httpRequests s"]
      unfolding observer_inv_def request_known_def connection_known_def by (auto simp: emit_out_def)
    then show ?thesis using that known unfolding good_step_def by (simp add: emit_out_def)
  qed
  show ?thesis
  proof (cases answer)
    case Body_failed
    then show ?thesis using True silent by (simp add: settle_read_def end_read_def Let_def)
  next
    case (Body_text body enc)
    have eq: "settle_read bind answer i s = forget_request (br_key ?r) (end_read bind answer ?r ?s0)"
      using True by (simp add: settle_read_def)
    show ?thesis
    proof (rule end_read_cases [of bind answer ?r ?s0])
      fix x assume "end_read bind answer ?r ?s0 = count_stop x ?s0"
      then show ?thesis using silent [of "br_key ?r" x] by (simp only: eq)
    next
      fix q b assume h: "end_read bind answer ?r ?s0 = emit_out (On_http_response q) (?s0\<lparr>ob_readOk := Suc (ob_readOk ?s0)\<rparr>)"
        "hr_binding q = br_evidence ?r" "ob_enabled ?s0" "bind = Some b" "same_document_binding (hb_connection (br_evidence ?r)) b"
      from h(3) have "ob_enabled s" by simp
      from emitted [OF h(2) this h(4,5)] show ?thesis by (simp only: eq h(1))
    qed
  qed
qed

lemma map_of_known: "observer_inv au ah s \<Longrightarrow> map_of (ob_httpRequests s) k = Some e \<Longrightarrow> request_known ah s e"
  using map_of_SomeD by (fastforce simp: observer_inv_def)

lemma frame_good:
  assumes "observer_inv au ah s" and "ob_enabled s" and "map_of (ob_connections s) k = Some c"
  shows "good_step au ah bind s (emit_out (On_frame \<lparr>of_connection = c, of_payloadData = p\<rparr>) s)"
proof -
  have "connection_known au s c" using assms(1) map_of_SomeD [OF assms(3)] by (auto simp: observer_inv_def)
  then show ?thesis using assms(2) emit_out_inv [OF assms(1)] by (simp add: good_step_def emit_out_def)
qed

lemma network_message_good:
  assumes inv: "observer_inv au ah s" and en: "ob_enabled s"
  shows "good_step au ah bind s (network_message au ah bind msg cdp l s)"
proof -
  have same: "good_step au ah bind s s" using inv by (simp add: good_step_silent observer_inv_def)
  have resp: "good_step au ah bind s (s\<lparr>ob_httpResponses := x\<rparr>)" for x
    using inv by (intro good_step_silent) (auto simp: observer_inv_def)
  show ?thesis
    unfolding network_message_def Let_def
    by (auto simp: same resp request_sent_good [OF inv en] socket_created_good [OF inv en] forget_good [OF inv]
        intro!: begin_read_good [OF inv] frame_good [OF inv en] dest: map_of_known [OF inv]
        split: cdp_message.split option.split prod.split)
qed

lemma handleDebuggerMessage_good:
  assumes inv: "observer_inv au ah s"
  shows "good_step au ah bind s (handleDebuggerMessage au ah bind msg cdp l s)"
proof -
  have same: "good_step au ah bind s s" using inv by (simp add: good_step_silent observer_inv_def)
  have "good_step au ah bind s s1" if "target_message msg s = Some s1" for s1
    using inv that by (cases msg) (auto intro!: good_step_silent simp: observer_inv_def split: option.splits)
  then show ?thesis
    unfolding handleDebuggerMessage_def by (auto simp: same network_message_good [OF inv] split: option.split)
qed

fun event_binding :: "observer_event \<Rightarrow> document_binding option" where
  "event_binding (Observer_message bind _ _ _) = bind"
| "event_binding (Observer_body bind _ _) = bind"
| "event_binding _ = None"

lemma navigation_good: "observer_inv au ah s \<Longrightarrow> good_step au ah bind s (navigation_started inPlace mainFrame l s)"
proof -
  assume inv: "observer_inv au ah s"
  let ?s1 = "s\<lparr>ob_navigationEpoch := Suc (ob_navigationEpoch s)\<rparr>"
  have "observer_inv au ah ?s1" using inv by (simp add: observer_inv_def request_known_def connection_known_def)
  from observer_stop_good [OF this, of bind "''MAIN_DOCUMENT_REPLACEMENT''" l]
  have stop: "good_step au ah bind s (observer_stop ''MAIN_DOCUMENT_REPLACEMENT'' l ?s1)"
    by (auto simp: good_step_def observer_stop_def emit_out_def)
  have "good_step au ah bind s s" "good_step au ah bind s ?s1" "good_step au ah bind s (?s1\<lparr>ob_initialNavigationSeen := True\<rparr>)"
    using inv by (auto intro!: good_step_silent simp: observer_inv_def)
  then show ?thesis
    unfolding navigation_started_def Let_def using stop by (simp only: if_split) blast
qed

lemma observer_step_good:
  assumes inv: "observer_inv au ah s"
  shows "good_step au ah (event_binding e) s (observer_step au ah e s)"
proof (cases e)
  case Observer_start
  then show ?thesis using inv by (auto intro!: good_step_silent simp: observer_start_def observer_inv_def)
next
  case (Observer_enabled l ok)
  moreover have "good_step au ah None s (s\<lparr>ob_enabled := True\<rparr>)" if "\<not> ob_terminal s"
    using inv that by (intro good_step_silent) (auto simp: observer_inv_def)
  moreover have "good_step au ah None s s" using inv by (simp add: good_step_silent observer_inv_def)
  ultimately show ?thesis using observer_stop_good [OF inv] by (simp add: enable_settled_def)
next
  case (Observer_message bind msg cdp l)
  moreover have "good_step au ah bind s s" using inv by (simp add: good_step_silent observer_inv_def)
  ultimately show ?thesis using handleDebuggerMessage_good [OF inv] by simp
qed (use observer_stop_good [OF inv] settle_read_good [OF inv] navigation_good [OF inv] in simp_all)

interpretation observer_sys: step_invariant "observer_step au ah" "observer_inv au ah" "\<lambda>_. True" for au ah
  using observer_step_good by unfold_locales (auto simp: good_step_def)

lemma new_observer_inv: "observer_inv au ah (new_observer oid wc)"
  by (simp add: observer_inv_def new_observer_def)

lemma stopped_step_silent: "observer_inv au ah s \<Longrightarrow> ob_terminal s \<Longrightarrow> ob_out (observer_step au ah e s) = ob_out s \<and> ob_terminal (observer_step au ah e s)"
proof -
  assume inv: "observer_inv au ah s" and t: "ob_terminal s"
  then have "\<not> ob_enabled s" by (simp add: observer_inv_def)
  from observer_step_good [OF inv, of e] obtain new where
    new: "ob_out (observer_step au ah e s) = ob_out s @ new" "list_all (output_ok au ah s (event_binding e)) new"
    by (auto simp: good_step_def)
  have "\<not> output_ok au ah s b x" for b x using t \<open>\<not> ob_enabled s\<close> by (cases x) auto
  then have "new = []" using new(2) by (cases new) auto
  moreover have "ob_terminal (observer_step au ah e s)"
    using t by (cases e) (simp_all add: observer_start_def enable_settled_def observer_stop_def navigation_started_def settle_read_def end_read_def Let_def
        emit_out_def split: body_answer.split option.split)
  ultimately show ?thesis using new(1) by simp
qed

text \<open>
  After any history, and whatever message, navigation or body answer comes next, the observer
  hands on a response body only if it is enabled, the request was on the allowlist and its start was announced, and the
  document that is current at that moment is the one in which the request started; and a text frame only if it is enabled and
  the socket's URL is allowed and its opening was announced. Once stopped it never hands on anything
  again.
\<close>

theorem observer_hands_on_current_data_only:
  assumes "s = run (observer_step au ah) es (new_observer oid wc)"
  shows "(\<exists>new. ob_out (observer_step au ah e s) = ob_out s @ new \<and> list_all (output_ok au ah s (event_binding e)) new)
    \<and> (ob_terminal s \<longrightarrow> ob_out (run (observer_step au ah) fs s) = ob_out s)"
proof -
  have inv: "observer_inv au ah s" unfolding assms by (rule observer_sys.run_keeps [OF new_observer_inv]) simp
  have "ob_out (run (observer_step au ah) fs k) = ob_out k" if "ob_terminal k" "observer_inv au ah k" for k
    using that
  proof (induction fs arbitrary: k)
    case (Cons e fs)
    then show ?case using stopped_step_silent [of au ah k e] observer_step_good [of au ah k e] by (simp add: good_step_def)
  qed simp
  then show ?thesis using inv observer_step_good [OF inv, of e] by (simp add: good_step_def)
qed

theorem observer_hands_on_current_data_only_witness:
  "ob_terminal (run (observer_step (\<lambda>_. True) None) [Observer_start, Observer_stop ''x''] (new_observer ''o'' 7))
   \<and> ob_out (run (observer_step (\<lambda>_. True) None) [Observer_message None (Frame_received (Some ''r'') (Some 1) (Some ''p'')) [] 1]
       (run (observer_step (\<lambda>_. True) None) [Observer_start, Observer_stop ''x''] (new_observer ''o'' 7))) = [On_stopped ''x'']"
proof -
  let ?s = "run (observer_step (\<lambda>_. True) None) [Observer_start, Observer_stop ''x''] (new_observer ''o'' 7)"
  have t: "ob_terminal ?s" "ob_out ?s = [On_stopped ''x'']"
    by (simp_all add: observer_start_def new_observer_def observer_stop_def emit_out_def)
  show ?thesis using observer_hands_on_current_data_only [OF refl, where au = "\<lambda>_. True" and ah = None and es = "[Observer_start, Observer_stop ''x'']" and oid = "''o''" and wc = 7] t by metis
qed

end
