(* ===== verification/Inbound_Persistence.thy ===== *)
theory Inbound_Persistence imports Inbound_Ingress Delivery begin

text \<open>
  Canonical inbound persistence, \<open>apps/desktop/src/main/services/canonical-inbound-persistence.ts\<close>, over the
  conversation and message tables of \<open>Delivery\<close>. SHA-256 is the argument \<open>digest\<close> (text to hexadecimal
  text) and the ingestion clock the argument \<open>now\<close>. A thrown \<open>CanonicalInboundPersistenceError\<close> is the left
  injection, with its reason. The lemmas say which envelopes are stored, that a message is stored once,
  and that no message enters a conversation of another shop.
\<close>

datatype persistence_error =
    IDENTITY_NOT_RESOLVED | SCOPE_NOT_RESOLVED | CONTENT_NOT_TEXT | CONVERSATION_SCOPE_CONFLICT | STORAGE_FAILED

datatype receipt_status = INGESTED | DUPLICATE

record receipt =
  rc_status :: receipt_status
  rc_conversationId :: string
  rc_messageId :: string
  rc_dedupeKey :: string

definition hashId :: "(string \<Rightarrow> string) \<Rightarrow> string list \<Rightarrow> string" where
  "hashId digest parts = take 40 (digest (js_join [CHR 0x00] parts))"

definition conversationExternalRef :: "string identity_resolution \<Rightarrow> string option" where
  "conversationExternalRef r = (case r of Id_resolved v \<Rightarrow> if v = [] then None else Some v | _ \<Rightarrow> None)"

definition messageIdentityKey :: "inbound_envelope \<Rightarrow> string option" where
  "messageIdentityKey env = (case il_messageIdentity (ie_lock env) of
       Authoritative_platform_id v \<Rightarrow> Some (''authoritative:'' @ v)
     | Local_fingerprint v \<Rightarrow> Some (''local-derived:'' @ v)
     | Synthetic_id v \<Rightarrow> Some (''synthetic:'' @ v)
     | Unknown_message_id \<Rightarrow> None)"

text \<open>\<open>key.slice(key.indexOf(":") + 1)\<close>.\<close>

definition after_colon :: "string \<Rightarrow> string" where
  "after_colon k = (case dropWhile (\<lambda>c. c \<noteq> CHR '':'') k of [] \<Rightarrow> k | _ # r \<Rightarrow> r)"

definition dedupe_parts :: "inbound_envelope \<Rightarrow> string \<Rightarrow> string list" where
  "dedupe_parts env cid =
     [''inbound'', il_platform (ie_lock env), cid, (case messageIdentityKey env of None \<Rightarrow> ''unknown'' | Some k \<Rightarrow> k)]"

definition message_id_of :: "(string \<Rightarrow> string) \<Rightarrow> inbound_envelope \<Rightarrow> string \<Rightarrow> string" where
  "message_id_of digest env cid = ''msg-inbound-'' @ hashId digest (dedupe_parts env cid)"

text \<open>The writes, once the scope is resolved.\<close>

definition ingest_resolved ::
  "(string \<Rightarrow> string) \<Rightarrow> string \<Rightarrow> inbound_envelope \<Rightarrow> string \<Rightarrow> string \<Rightarrow> string \<Rightarrow> string \<Rightarrow> database \<Rightarrow>
   (persistence_error + receipt) \<times> database" where
  "ingest_resolved digest now env merchantId storeId platformAccountId cid db =
     (let key = messageIdentityKey env;
          dk = hashId digest (dedupe_parts env cid);
          mid = message_id_of digest env cid;
          receipt = (\<lambda>s. \<lparr>rc_status = s, rc_conversationId = cid, rc_messageId = mid, rc_dedupeKey = dk\<rparr>);
          existing = findConversation cid db in
      if (case existing of
            None \<Rightarrow> False
          | Some c \<Rightarrow> nc_merchantId c \<noteq> merchantId \<or> nc_storeId c \<noteq> storeId \<or> nc_platformAccountId c \<noteq> platformAccountId)
      then (Inl CONVERSATION_SCOPE_CONFLICT, db)
      else if findMessage mid db \<noteq> None then (Inr (receipt DUPLICATE), db)
      else
        case (if existing = None
              then saveConversation \<lparr>nc_id = cid, nc_merchantId = merchantId, nc_storeId = storeId,
                     nc_platformAccountId = platformAccountId,
                     nc_externalRef = conversationExternalRef (il_runtimeConversationReference (ie_lock env))\<rparr> db
              else Inr db) of
          Inl _ \<Rightarrow> (Inl STORAGE_FAILED, db)
        | Inr db1 \<Rightarrow>
            (case saveMessage \<lparr>ms_id = mid, ms_conversationId = cid, ms_externalRef = map_option after_colon key,
                    ms_actor = Some Customer, ms_contentKind = Some Text_content, ms_contentText = Some (ie_text env),
                    ms_occurredAt = ie_sourceOccurredAt env, ms_observedAt = Some now\<rparr> db1 of
               Inl _ \<Rightarrow> (Inl STORAGE_FAILED, db1)
             | Inr db2 \<Rightarrow> (Inr (receipt INGESTED), db2)))"

definition ingest_inbound ::
  "(string \<Rightarrow> string) \<Rightarrow> string \<Rightarrow> inbound_envelope \<Rightarrow> database \<Rightarrow> (persistence_error + receipt) \<times> database" where
  "ingest_inbound digest now env db =
     (case il_merchantId (ie_lock env) of
        Id_resolved merchantId \<Rightarrow>
          (case il_storeId (ie_lock env) of
             Id_resolved storeId \<Rightarrow>
               (case il_platformAccountId (ie_lock env) of
                  Id_resolved platformAccountId \<Rightarrow>
                    (case il_internalConversationId (ie_lock env) of
                       Id_resolved cid \<Rightarrow>
                         if ie_kind env \<noteq> ''text'' then (Inl CONTENT_NOT_TEXT, db)
                         else ingest_resolved digest now env merchantId storeId platformAccountId cid db
                     | _ \<Rightarrow> (Inl IDENTITY_NOT_RESOLVED, db))
                | _ \<Rightarrow> (Inl SCOPE_NOT_RESOLVED, db))
           | _ \<Rightarrow> (Inl SCOPE_NOT_RESOLVED, db))
      | _ \<Rightarrow> (Inl SCOPE_NOT_RESOLVED, db))"

text \<open>A sequence of envelopes, each with its ingestion time.\<close>

fun ingest_all ::
  "(string \<Rightarrow> string) \<Rightarrow> (string \<times> inbound_envelope) list \<Rightarrow> database \<Rightarrow> (persistence_error + receipt) list \<times> database" where
  "ingest_all digest [] db = ([], db)"
| "ingest_all digest ((now, env) # es) db =
     (let (r, db1) = ingest_inbound digest now env db; (rs, db2) = ingest_all digest es db1 in (r # rs, db2))"

subsection \<open>One ingestion\<close>

lemma findConversation_Some: "findConversation i db = Some c \<Longrightarrow> c \<in> set (db_conversations db) \<and> nc_id c = i"
  by (auto simp: findConversation_def find_Some_iff)

lemma findConversation_None: "findConversation i db = None \<longleftrightarrow> i \<notin> nc_id ` set (db_conversations db)"
  by (auto simp: findConversation_def find_None_iff)

lemma findMessage_None: "findMessage i db = None \<longleftrightarrow> i \<notin> mr_id ` set (db_messages db)"
  by (auto simp: findMessage_def find_None_iff)

text \<open>The scope and conversation of an envelope, when all four are resolved and the content is text.\<close>

definition storable :: "inbound_envelope \<Rightarrow> (string \<times> string \<times> string \<times> string) option" where
  "storable env = (case (il_merchantId (ie_lock env), il_storeId (ie_lock env), il_platformAccountId (ie_lock env),
       il_internalConversationId (ie_lock env)) of
     (Id_resolved m, Id_resolved s, Id_resolved a, Id_resolved c) \<Rightarrow> if ie_kind env = ''text'' then Some (m, s, a, c) else None
   | _ \<Rightarrow> None)"

lemma ingest_storable:
  "storable env = Some (m, s, a, c) \<Longrightarrow> ingest_inbound digest now env db = ingest_resolved digest now env m s a c db"
  by (auto simp: storable_def ingest_inbound_def split: identity_resolution.splits if_splits)

lemma ingest_not_storable: "storable env = None \<Longrightarrow> \<exists>e. ingest_inbound digest now env db = (Inl e, db)"
  by (auto simp: storable_def ingest_inbound_def split: identity_resolution.splits if_splits)

text \<open>The three ends of an ingestion: refused with nothing written; recognised as stored already; stored,
  with the conversation created when it is new. In no case is the database left half written.\<close>

definition stored_row :: "(string \<Rightarrow> string) \<Rightarrow> string \<Rightarrow> inbound_envelope \<Rightarrow> string \<Rightarrow> message_row" where
  "stored_row digest now env cid = \<lparr>mr_id = message_id_of digest env cid, mr_conversation_id = cid,
     mr_external_ref = map_option after_colon (messageIdentityKey env), mr_actor = Some ''customer'', mr_content_kind = Some ''text'',
     mr_content_text = Some (ie_text env), mr_occurred_at = ie_sourceOccurredAt env, mr_observed_at = Some now\<rparr>"

definition owns :: "database \<Rightarrow> string \<Rightarrow> string \<Rightarrow> string \<Rightarrow> string \<Rightarrow> bool" where
  "owns db m s a cid = (case findConversation cid db of
       None \<Rightarrow> False
     | Some c \<Rightarrow> nc_merchantId c = m \<and> nc_storeId c = s \<and> nc_platformAccountId c = a)"

lemma saveMessage_fresh:
  assumes "ms_id m \<notin> mr_id ` set (db_messages db)" and "ms_conversationId m \<in> nc_id ` set (db_conversations db)"
  shows "saveMessage m db = Inr (db\<lparr>db_messages := db_messages db @ [message_row_of m]\<rparr>)"
  using assms by (simp add: saveMessage_def)

lemma ingest_resolved_cases:
  obtains (refused) e where "ingest_resolved digest now env m s a cid db = (Inl e, db)"
      and "findConversation cid db \<noteq> None \<longrightarrow> \<not> owns db m s a cid"
  | (duplicate) r where "ingest_resolved digest now env m s a cid db = (Inr r, db)"
      and "rc_status r = DUPLICATE" and "message_id_of digest env cid \<in> mr_id ` set (db_messages db)"
      and "findConversation cid db \<noteq> None \<longrightarrow> owns db m s a cid"
  | (stored) r db' where "ingest_resolved digest now env m s a cid db = (Inr r, db')"
      and "rc_status r = INGESTED" and "message_id_of digest env cid \<notin> mr_id ` set (db_messages db)"
      and "db_messages db' = db_messages db @ [stored_row digest now env cid]" and "owns db' m s a cid"
      and "\<exists>cs. db_conversations db' = db_conversations db @ cs"
      and "db_attempts db' = db_attempts db"
proof -
  let ?mid = "message_id_of digest env cid"
  let ?conv = "\<lparr>nc_id = cid, nc_merchantId = m, nc_storeId = s, nc_platformAccountId = a,
                     nc_externalRef = conversationExternalRef (il_runtimeConversationReference (ie_lock env))\<rparr>"
  let ?msg = "\<lparr>ms_id = ?mid, ms_conversationId = cid, ms_externalRef = map_option after_colon (messageIdentityKey env),
                    ms_actor = Some Customer, ms_contentKind = Some Text_content, ms_contentText = Some (ie_text env),
                    ms_occurredAt = ie_sourceOccurredAt env, ms_observedAt = Some now\<rparr>"
  have row: "message_row_of ?msg = stored_row digest now env cid" by (simp add: message_row_of_def stored_row_def)
  note def = ingest_resolved_def Let_def
  show ?thesis
  proof (cases "findConversation cid db")
    case None
    show ?thesis
    proof (cases "findMessage ?mid db = None")
      case True
      show ?thesis
      proof (cases "saveConversation ?conv db")
        case (Inl e)
        show ?thesis by (rule refused [of STORAGE_FAILED]) (use None True Inl in \<open>simp_all add: def\<close>)
      next
        case (Inr db1)
        then have db1: "db1 = db\<lparr>db_conversations := db_conversations db @ [?conv]\<rparr>"
          by (simp add: saveConversation_def split: if_splits)
        then have save: "saveMessage ?msg db1 = Inr (db1\<lparr>db_messages := db_messages db @ [stored_row digest now env cid]\<rparr>)"
          using True by (subst saveMessage_fresh) (simp_all add: findMessage_None row)
        have own: "findConversation cid (db1\<lparr>db_messages := ms\<rparr>) = Some ?conv" for ms
          using None by (simp add: db1 findConversation_def find_append)
        show ?thesis
          by (rule stored, unfold def None, use True Inr save in simp)
            (use True in \<open>simp_all add: findMessage_None db1 owns_def own [unfolded db1]\<close>)
      qed
    next
      case False
      show ?thesis by (rule duplicate, unfold def None, use False in simp) (use False in \<open>simp_all add: findMessage_None None\<close>)
    qed
  next
    case (Some c)
    show ?thesis
    proof (cases "owns db m s a cid")
      case False
      then show ?thesis
        by (intro refused [of CONVERSATION_SCOPE_CONFLICT]) (use Some in \<open>auto simp: def owns_def\<close>)
    next
      case own: True
      then have sc: "nc_merchantId c = m" "nc_storeId c = s" "nc_platformAccountId c = a" using Some by (simp_all add: owns_def)
      show ?thesis
      proof (cases "findMessage ?mid db = None")
        case True
        have "cid \<in> nc_id ` set (db_conversations db)" using findConversation_Some [OF Some] by auto
        then have save: "saveMessage ?msg db = Inr (db\<lparr>db_messages := db_messages db @ [stored_row digest now env cid]\<rparr>)"
          using True by (subst saveMessage_fresh) (simp_all add: findMessage_None row)
        show ?thesis
          by (rule stored, unfold def Some, use True sc save in simp)
            (use True own in \<open>simp_all add: findMessage_None owns_def findConversation_def\<close>)
      next
        case False
        show ?thesis by (rule duplicate, unfold def Some, use False sc in simp) (use False own in \<open>simp_all add: findMessage_None\<close>)
      qed
    qed
  qed
qed

end
