(* ===== verification/Inbound_Persistence_Props.thy ===== *)
theory Inbound_Persistence_Props imports Inbound_Persistence Inbound_Props begin

text \<open>
  What canonical inbound persistence guarantees: a message is stored exactly once, a conversation keeps
  the shop it was created for, and a refused envelope writes nothing. One defect is stated: messages
  without a platform id are taken for one another.
\<close>

subsection \<open>Message ids\<close>

definition conv_of :: "inbound_envelope \<Rightarrow> string" where
  "conv_of env = (case storable env of Some (_, _, _, c) \<Rightarrow> c | None \<Rightarrow> [])"

text \<open>What identifies a message: platform, conversation, and the provenance and value of its id.\<close>

definition message_ident :: "inbound_envelope \<Rightarrow> string \<times> string \<times> string option" where
  "message_ident env = (il_platform (ie_lock env), conv_of env, messageIdentityKey env)"

definition dedupe_text :: "inbound_envelope \<Rightarrow> string" where
  "dedupe_text env = js_join [CHR 0x00] (dedupe_parts env (conv_of env))"

lemma split_at_separator:
  assumes "x \<notin> set a" and "x \<notin> set b" and "a @ x # r = b @ x # s"
  shows "a = b \<and> r = s"
  using assms
proof (induction a arbitrary: b)
  case Nil
  then show ?case by (cases b) auto
next
  case (Cons y a)
  then show ?case by (cases b) auto
qed

lemma identity_key_not_unknown: "messageIdentityKey env = Some k \<Longrightarrow> k \<noteq> ''unknown''"
  by (auto simp: messageIdentityKey_def split: message_identity.splits)

lemma dedupe_text_inj:
  assumes nul: "CHR 0x00 \<notin> set (conv_of e)" "CHR 0x00 \<notin> set (conv_of f)"
    "CHR 0x00 \<notin> set (il_platform (ie_lock e))" "CHR 0x00 \<notin> set (il_platform (ie_lock f))"
  shows "dedupe_text e = dedupe_text f \<longleftrightarrow> message_ident e = message_ident f"
proof
  let ?k = "\<lambda>e. case messageIdentityKey e of None \<Rightarrow> ''unknown'' | Some k \<Rightarrow> k"
  assume "dedupe_text e = dedupe_text f"
  then have "il_platform (ie_lock e) @ CHR 0x00 # conv_of e @ CHR 0x00 # ?k e
    = il_platform (ie_lock f) @ CHR 0x00 # conv_of f @ CHR 0x00 # ?k f"
    by (simp add: dedupe_text_def dedupe_parts_def)
  then have p: "il_platform (ie_lock e) = il_platform (ie_lock f)"
    and rest: "conv_of e @ CHR 0x00 # ?k e = conv_of f @ CHR 0x00 # ?k f"
    using split_at_separator [OF nul(3,4)] by blast+
  then have "conv_of e = conv_of f" "?k e = ?k f" using split_at_separator [OF nul(1,2)] by blast+
  with p show "message_ident e = message_ident f"
    using identity_key_not_unknown [of e] identity_key_not_unknown [of f]
    by (auto simp: message_ident_def split: option.splits)
qed (auto simp: message_ident_def dedupe_text_def dedupe_parts_def)

definition msg_id :: "(string \<Rightarrow> string) \<Rightarrow> inbound_envelope \<Rightarrow> string" where
  "msg_id digest env = message_id_of digest env (conv_of env)"

lemma msg_id_eq: "msg_id digest e = msg_id digest f \<longleftrightarrow> take 40 (digest (dedupe_text e)) = take 40 (digest (dedupe_text f))"
  by (simp add: msg_id_def message_id_of_def hashId_def dedupe_text_def)

subsection \<open>Sequences of ingestions\<close>

abbreviation message_ids :: "database \<Rightarrow> string set" where
  "message_ids db \<equiv> mr_id ` set (db_messages db)"

lemma conv_of_storable: "storable env = Some (m, s, a, c) \<Longrightarrow> conv_of env = c"
  by (simp add: conv_of_def)

lemma ingest_effect:
  assumes "ingest_inbound digest now env db = (res, db')"
  shows "case res of
      Inl _ \<Rightarrow> db' = db
    | Inr r \<Rightarrow> (rc_status r = DUPLICATE \<longleftrightarrow> msg_id digest env \<in> message_ids db)
        \<and> message_ids db' = insert (msg_id digest env) (message_ids db)"
proof (cases "storable env")
  case None
  with ingest_not_storable [OF None, of digest now db] assms show ?thesis by auto
next
  case (Some q)
  obtain m s a c where q: "q = (m, s, a, c)" by (cases q)
  note st = Some [unfolded q]
  have res: "ingest_resolved digest now env m s a c db = (res, db')"
    using assms ingest_storable [OF st] by simp
  have mid: "message_id_of digest env c = msg_id digest env"
    by (simp add: msg_id_def conv_of_storable [OF st])
  show ?thesis
  proof (cases rule: ingest_resolved_cases
      [where digest = digest and now = now and env = env and m = m and s = s and a = a and cid = c and db = db])
    case (refused e)
    with res show ?thesis by auto
  next
    case (duplicate r)
    with res mid show ?thesis by auto
  next
    case (stored r d)
    with res mid show ?thesis by (auto simp: stored_row_def)
  qed
qed

lemma ingest_all_length [simp]: "length (fst (ingest_all digest es db)) = length es"
  by (induction es arbitrary: db) (auto simp: Let_def case_prod_beta)

lemma ingest_all_ids:
  "message_ids (snd (ingest_all digest es db)) =
     message_ids db \<union> {msg_id digest (snd e) |e r. (e, r) \<in> set (zip es (fst (ingest_all digest es db))) \<and> is_ok r}"
proof (induction es arbitrary: db)
  case Nil
  then show ?case by simp
next
  case (Cons e es)
  obtain now env where e: "e = (now, env)" by (cases e)
  obtain r d where r: "ingest_inbound digest now env db = (r, d)" by (cases "ingest_inbound digest now env db")
  have "message_ids d = message_ids db \<union> (if is_ok r then {msg_id digest env} else {})"
    using ingest_effect [OF r] by (cases r) auto
  then show ?case
    using Cons [of d] by (auto simp: e r Let_def case_prod_beta)
qed

lemma ingest_all_take:
  "fst (ingest_all digest (take i es) db) = take i (fst (ingest_all digest es db))"
  by (induction es arbitrary: db i) (auto simp: Let_def case_prod_beta take_Cons' split: if_splits)

lemma ingest_all_nth:
  "i < length es \<Longrightarrow> fst (ingest_all digest es db) ! i
     = fst (ingest_inbound digest (fst (es ! i)) (snd (es ! i)) (snd (ingest_all digest (take i es) db)))"
proof (induction es arbitrary: db i)
  case Nil
  then show ?case by simp
next
  case (Cons e es)
  then show ?case by (cases i; cases e) (auto simp: Let_def case_prod_beta)
qed

lemma set_take_nth: "i \<le> length xs \<Longrightarrow> set (take i xs) = {xs ! j |j. j < i}"
  by (simp add: nth_image [symmetric] image_def) auto

text \<open>
  Property C17. Over any sequence of envelopes, from a store without messages, an accepted envelope whose message identity is known
  (a platform id, a local fingerprint or a synthetic id) is reported \<open>DUPLICATE\<close> exactly when an accepted one before it
  has the same platform, conversation and message identity, and \<open>INGESTED\<close> otherwise: every such message is stored once, whatever shop
  or conversation reuses its id. SHA-256 is assumed not to collide on the texts
  that are hashed, cut to 40 digits, and ids hold no null character, which the code uses as the separator.
  Messages of unknown identity are set aside: against the comments of the source they are taken for one
  another (\<open>unknown_messages_are_dropped\<close>).
\<close>

theorem inbound_message_is_stored_once:
  assumes "db_messages db = []" and "i < length es" and "fst (ingest_all digest es db) ! i = Inr r"
    and "messageIdentityKey (snd (es ! i)) \<noteq> None"
    and "inj_on (\<lambda>t. take 40 (digest t)) (dedupe_text ` snd ` set es)"
    and "\<forall>e \<in> set es. CHR 0x00 \<notin> set (conv_of (snd e)) \<and> CHR 0x00 \<notin> set (il_platform (ie_lock (snd e)))"
  shows "rc_status r = DUPLICATE \<longleftrightarrow>
    (\<exists>j < i. is_ok (fst (ingest_all digest es db) ! j) \<and> message_ident (snd (es ! j)) = message_ident (snd (es ! i)))"
proof -
  let ?rs = "fst (ingest_all digest es db)" and ?before = "snd (ingest_all digest (take i es) db)"
  have same: "msg_id digest (snd (es ! j)) = msg_id digest (snd (es ! i)) \<longleftrightarrow>
      message_ident (snd (es ! j)) = message_ident (snd (es ! i))" if "j < i" for j
  proof -
    have j: "es ! j \<in> set es" "es ! i \<in> set es" using that assms(2) by simp_all
    then have "msg_id digest (snd (es ! j)) = msg_id digest (snd (es ! i)) \<longleftrightarrow> dedupe_text (snd (es ! j)) = dedupe_text (snd (es ! i))"
      unfolding msg_id_eq using inj_on_eq_iff [OF assms(5)] by simp
    then show ?thesis using dedupe_text_inj assms(6) j by simp
  qed
  have "fst (ingest_inbound digest (fst (es ! i)) (snd (es ! i)) ?before) = Inr r"
    using ingest_all_nth [OF assms(2)] assms(3) by simp
  then obtain d where "ingest_inbound digest (fst (es ! i)) (snd (es ! i)) ?before = (Inr r, d)"
    by (metis prod.collapse)
  from ingest_effect [OF this] have "rc_status r = DUPLICATE \<longleftrightarrow> msg_id digest (snd (es ! i)) \<in> message_ids ?before" by simp
  also have "message_ids ?before = {msg_id digest (snd e) |e q. (e, q) \<in> set (take i (zip es ?rs)) \<and> is_ok q}"
    using assms(1) by (simp add: ingest_all_ids ingest_all_take take_zip)
  also have "\<dots> = {msg_id digest (snd (es ! j)) |j. j < i \<and> is_ok (?rs ! j)}"
  proof -
    have "zip es ?rs ! j = (es ! j, ?rs ! j)" if "j < i" for j using that assms(2) by simp
    then have "{zip es ?rs ! j |j. j < i} = {(es ! j, ?rs ! j) |j. j < i}"
      by (intro Collect_cong ex_cong1) auto
    then have "set (take i (zip es ?rs)) = {(es ! j, ?rs ! j) |j. j < i}"
      using assms(2) set_take_nth [of i "zip es ?rs"] by simp
    then show ?thesis by (simp only:) blast
  qed
  finally have "rc_status r = DUPLICATE \<longleftrightarrow> (\<exists>j < i. is_ok (?rs ! j) \<and> msg_id digest (snd (es ! j)) = msg_id digest (snd (es ! i)))"
    unfolding mem_Collect_eq by metis
  then show ?thesis using same by metis
qed

definition sample_db :: database where
  "sample_db = \<lparr>db_merchants = [''m1''], db_stores = [''st1''], db_accounts = [''acc1''], db_conversations = [], db_messages = [], db_attempts = []\<rparr>"

lemma sample_storable: "storable sample_envelope = Some (''m1'', ''st1'', ''acc1'', ''conv-1'')"
  by (simp add: storable_def sample_envelope_def)

lemma sample_ingest_all:
  "fst (ingest_all (\<lambda>t. t) [(''t1'', sample_envelope), (''t2'', sample_envelope)] sample_db) =
     [Inr \<lparr>rc_status = INGESTED, rc_conversationId = ''conv-1'', rc_messageId = msg_id (\<lambda>t. t) sample_envelope,
           rc_dedupeKey = hashId (\<lambda>t. t) (dedupe_parts sample_envelope ''conv-1'')\<rparr>,
      Inr \<lparr>rc_status = DUPLICATE, rc_conversationId = ''conv-1'', rc_messageId = msg_id (\<lambda>t. t) sample_envelope,
           rc_dedupeKey = hashId (\<lambda>t. t) (dedupe_parts sample_envelope ''conv-1'')\<rparr>]"
  by (simp add: ingest_storable [OF sample_storable] ingest_resolved_def Let_def sample_db_def findConversation_def findMessage_def
      saveConversation_def saveMessage_def msg_id_def conv_of_storable [OF sample_storable] message_row_of_def)

theorem inbound_message_is_stored_once_witness:
  "fst (ingest_all (\<lambda>t. t) [(''t1'', sample_envelope), (''t2'', sample_envelope)] sample_db) ! 1 =
     Inr \<lparr>rc_status = DUPLICATE, rc_conversationId = ''conv-1'', rc_messageId = msg_id (\<lambda>t. t) sample_envelope,
           rc_dedupeKey = hashId (\<lambda>t. t) (dedupe_parts sample_envelope ''conv-1'')\<rparr>
   \<and> (\<exists>j < 1. is_ok (fst (ingest_all (\<lambda>t. t) [(''t1'', sample_envelope), (''t2'', sample_envelope)] sample_db) ! j))"
proof -
  let ?es = "[(''t1'', sample_envelope), (''t2'', sample_envelope)]"
  have "db_messages sample_db = []" by (simp add: sample_db_def)
  moreover have "1 < length ?es" by simp
  moreover have r: "fst (ingest_all (\<lambda>t. t) ?es sample_db) ! 1 =
     Inr \<lparr>rc_status = DUPLICATE, rc_conversationId = ''conv-1'', rc_messageId = msg_id (\<lambda>t. t) sample_envelope,
           rc_dedupeKey = hashId (\<lambda>t. t) (dedupe_parts sample_envelope ''conv-1'')\<rparr>"
    by (subst sample_ingest_all) simp
  moreover have "messageIdentityKey (snd (?es ! 1)) \<noteq> None" by (simp add: messageIdentityKey_def sample_envelope_def)
  moreover have "inj_on (\<lambda>t. take 40 ((\<lambda>t. t) t)) (dedupe_text ` snd ` set ?es)" by simp
  moreover have "\<forall>e \<in> set ?es. CHR 0x00 \<notin> set (conv_of (snd e)) \<and> CHR 0x00 \<notin> set (il_platform (ie_lock (snd e)))"
    by (simp add: conv_of_storable [OF sample_storable]) (simp add: sample_envelope_def)
  ultimately show ?thesis
    using inbound_message_is_stored_once [of sample_db 1 ?es "\<lambda>t. t"] by auto
qed

subsection \<open>Shops stay apart\<close>

text \<open>
  An envelope is accepted only into a conversation of its own merchant, store and
  platform account. An envelope whose scope or conversation is not resolved, or whose conversation
  belongs to another scope, is refused and writes nothing. An accepted one adds at most its own row, in its
  own conversation, and changes no other conversation, message or delivery attempt.
\<close>

theorem inbound_keeps_shops_apart:
  assumes "ingest_inbound digest now env db = (res, db')"
  shows "case res of
      Inl _ \<Rightarrow> db' = db
    | Inr r \<Rightarrow> \<exists>m s a. storable env = Some (m, s, a, rc_conversationId r)
        \<and> (findConversation (rc_conversationId r) db \<noteq> None \<longrightarrow> owns db m s a (rc_conversationId r))
        \<and> (rc_status r = INGESTED \<longrightarrow> owns db' m s a (rc_conversationId r))
        \<and> db_messages db' = db_messages db @
             (if rc_status r = INGESTED then [stored_row digest now env (rc_conversationId r)] else [])
        \<and> (\<exists>cs. db_conversations db' = db_conversations db @ cs) \<and> db_attempts db' = db_attempts db"
proof (cases "storable env")
  case None
  with ingest_not_storable [OF None, of digest now db] assms show ?thesis by auto
next
  case (Some q)
  obtain m s a c where q: "q = (m, s, a, c)" by (cases q)
  note st = Some [unfolded q]
  have res: "ingest_resolved digest now env m s a c db = (res, db')"
    using assms ingest_storable [OF st] by simp
  have cid: "rc_conversationId r = c" if "res = Inr r" for r
    using res that by (auto simp: ingest_resolved_def Let_def split: if_splits sum.splits)
  show ?thesis
  proof (cases rule: ingest_resolved_cases
      [where digest = digest and now = now and env = env and m = m and s = s and a = a and cid = c and db = db])
    case (refused e)
    with res show ?thesis by auto
  next
    case (duplicate r)
    then show ?thesis using res st cid by auto
  next
    case (stored r d)
    have "findConversation c db \<noteq> None \<longrightarrow> owns db m s a c"
      using stored(4,5,6) by (auto simp: owns_def findConversation_def find_append split: option.splits)
    then show ?thesis using stored res st cid by auto
  qed
qed

theorem inbound_keeps_shops_apart_witness:
  "case ingest_inbound (\<lambda>t. t) ''t1'' sample_envelope sample_db of (res, db') \<Rightarrow>
     (\<exists>r. res = Inr r \<and> owns db' ''m1'' ''st1'' ''acc1'' (rc_conversationId r))"
proof -
  obtain res db' where run: "ingest_inbound (\<lambda>t. t) ''t1'' sample_envelope sample_db = (res, db')"
    by (cases "ingest_inbound (\<lambda>t. t) ''t1'' sample_envelope sample_db")
  have "\<exists>r. res = Inr r \<and> rc_status r = INGESTED"
    using run by (auto simp: ingest_storable [OF sample_storable] ingest_resolved_def Let_def sample_db_def findConversation_def
        findMessage_def saveConversation_def saveMessage_def)
  then obtain r where r: "res = Inr r" "rc_status r = INGESTED" by blast
  then show ?thesis
    using inbound_keeps_shops_apart [OF run] run by (auto simp: sample_storable)
qed

subsection \<open>Messages without an id\<close>

text \<open>
  A message whose platform id is unknown is keyed by the literal \<open>unknown\<close>: the second such message of a
  conversation is reported \<open>DUPLICATE\<close> and dropped, whatever it says, although the code's comment says
  that messages of unknown identity are never taken for one another.
\<close>

theorem unknown_messages_are_dropped:
  assumes "messageIdentityKey e = None" and "messageIdentityKey f = None"
    and "storable e = Some q" and "storable f = Some q" and "il_platform (ie_lock e) = il_platform (ie_lock f)"
    and "ingest_inbound digest now e db = (Inr r, db1)"
  shows "\<exists>r2. ingest_inbound digest later f db1 = (Inr r2, db1) \<and> rc_status r2 = DUPLICATE"
proof -
  obtain m s a c where q: "q = (m, s, a, c)" by (cases q)
  note st = assms(3,4) [unfolded q]
  have parts: "dedupe_parts f c = dedupe_parts e c" using assms(1,2,5) by (simp add: dedupe_parts_def)
  have mid: "message_id_of digest f c \<in> message_ids db1"
    using ingest_effect [OF assms(6)] by (simp add: msg_id_def conv_of_storable [OF st(1)] message_id_of_def parts)
  have own: "findConversation c db1 \<noteq> None \<longrightarrow> owns db1 m s a c"
  proof (cases rule: ingest_resolved_cases
      [where digest = digest and now = now and env = e and m = m and s = s and a = a and cid = c and db = db])
    case (refused err)
    then show ?thesis using assms(6) ingest_storable [OF st(1), of digest now db] by simp
  next
    case (duplicate r')
    then show ?thesis using assms(6) ingest_storable [OF st(1), of digest now db] by simp
  next
    case (stored r' d)
    then show ?thesis using assms(6) ingest_storable [OF st(1), of digest now db] by simp
  qed
  show ?thesis
    unfolding ingest_storable [OF st(2)]
  proof (cases rule: ingest_resolved_cases
      [where digest = digest and now = later and env = f and m = m and s = s and a = a and cid = c and db = db1])
    case (refused err)
    then show "\<exists>r2. ingest_resolved digest later f m s a c db1 = (Inr r2, db1) \<and> rc_status r2 = DUPLICATE"
      using mid own by (auto simp: ingest_resolved_def Let_def findMessage_None owns_def split: option.splits if_splits)
  next
    case (duplicate r')
    then show "\<exists>r2. ingest_resolved digest later f m s a c db1 = (Inr r2, db1) \<and> rc_status r2 = DUPLICATE" by blast
  next
    case (stored r' d)
    then show "\<exists>r2. ingest_resolved digest later f m s a c db1 = (Inr r2, db1) \<and> rc_status r2 = DUPLICATE" using mid by blast
  qed
qed

end
