(* ===== verification/Turn_Builder.thy ===== *)
theory Turn_Builder imports Prelude "HOL-Library.List_Lexorder" "HOL-Library.Char_ord" "HOL-Library.Product_Lexorder"
  "HOL-Library.Multiset" begin

text \<open>
  The in-memory turn builder, \<open>apps/desktop/src/main/services/inbound-turn-builder.ts\<close>: consecutive messages
  of one identity scope are collected in a window and emitted as one turn after a quiet time. The clock
  is read twice per \<open>ingest\<close> (expiry, new deadline) and both readings are arguments; the turn sink is a
  predicate saying on which turns it throws; \<open>created_at\<close> is kept as the instant in milliseconds whose
  ISO text the code stores. The timer of the expiry driver is the environment that calls \<open>poll\<close>.
\<close>

subsection \<open>Data\<close>

datatype turn_receipt_status = Receipt_ingested | Receipt_duplicate

record turn_request =
  tq_status :: turn_receipt_status
  tq_conversationId :: string
  tq_messageId :: string
  tq_platform :: "string option"
  tq_merchantId :: "string option"
  tq_storeId :: "string option"
  tq_platformAccountId :: "string option"
  tq_customerId :: "string option"
  tq_observedAt :: "string option"
  tq_actor :: "string option"
  tq_contentKind :: "string option"
  tq_contentText :: "string option"

record turn_identity =
  ti_platform :: string
  ti_merchantId :: string
  ti_storeId :: string
  ti_platformAccountId :: string
  ti_conversationId :: string
  ti_customerId :: "string option"

record window_message =
  wm_messageId :: string
  wm_observedAt :: "string option"
  wm_ordinal :: nat

record turn_window =
  tw_key :: string
  tw_identity :: turn_identity
  tw_messages :: "window_message list"
  tw_deadlineMs :: int

record inbound_turn =
  tt_turn_id :: string
  tt_identity_lock :: turn_identity
  tt_source_message_ids :: "string list"
  tt_source_observed_at :: "string option list"
  tt_created_at :: int

datatype turn_refusal =
    NOT_INGESTED_RECEIPT | TURN_AGGREGATION_DISABLED | TURN_AGGREGATION_STOPPED | SCOPE_INCOMPLETE | OBSERVED_AT_UNKNOWN
  | NON_CUSTOMER_ACTOR | NON_TEXT_CONTENT | TURN_CONTENT_MISSING | IDENTITY_WINDOW_CONFLICT | DUPLICATE_MESSAGE_ID

datatype turn_outcome =
    Aggregated nat
  | Dropped
  | Refused turn_refusal nat

datatype expiry_driver = Driver_none | Driver_running | Driver_stopped

record turn_builder =
  tb_enabled :: bool
  tb_quietWindowMs :: int
  tb_stopped :: bool
  tb_driver :: expiry_driver
  tb_windows :: "(string \<times> turn_window) list"
  tb_emitted :: "inbound_turn list"
  tb_ingestedReceipts :: nat
  tb_aggregatedMessages :: nat
  tb_emittedTurns :: nat
  tb_droppedDuplicateReceipts :: nat
  tb_sinkFailures :: nat
  tb_refusedByReason :: "(turn_refusal \<times> nat) list"
  tb_turnSequence :: nat

subsection \<open>Operations\<close>

definition cleanString :: "string option \<Rightarrow> string option" where
  "cleanString v = (case v of Some s \<Rightarrow> if js_trim s \<noteq> [] then Some s else None | None \<Rightarrow> None)"

text \<open>\<open>undefined\<close> and numbers that are not finite select the default; a finite number is given by its floor.\<close>

definition clampQuietWindow :: "int option \<Rightarrow> int" where
  "clampQuietWindow q = min 5000 (max 3000 (case q of Some v \<Rightarrow> v | None \<Rightarrow> 4000))"

definition compareMessages :: "window_message \<Rightarrow> window_message \<Rightarrow> int" where
  "compareMessages l r =
     (if wm_observedAt l = None \<and> wm_observedAt r \<noteq> None then 1
      else if wm_observedAt l \<noteq> None \<and> wm_observedAt r = None then - 1
      else if wm_observedAt l \<noteq> wm_observedAt r then (if the (wm_observedAt l) < the (wm_observedAt r) then - 1 else 1)
      else if wm_ordinal l \<noteq> wm_ordinal r then int (wm_ordinal l) - int (wm_ordinal r)
      else if wm_messageId l = wm_messageId r then 0
      else if wm_messageId l < wm_messageId r then - 1 else 1)"

text \<open>The key by which \<open>compareMessages\<close> orders; \<open>Array.prototype.sort\<close> is stable.\<close>

definition message_key :: "window_message \<Rightarrow> bool \<times> string \<times> nat \<times> string" where
  "message_key m = (wm_observedAt m = None, (case wm_observedAt m of Some t \<Rightarrow> t | None \<Rightarrow> []), wm_ordinal m, wm_messageId m)"

definition order_messages :: "window_message list \<Rightarrow> window_message list" where
  "order_messages ms = sort_key message_key ms"

text \<open>\<open>String(n).padStart(6, "0")\<close>.\<close>

definition pad_start :: "nat \<Rightarrow> string" where
  "pad_start n = replicate (6 - length (show_nat n)) (CHR ''0'') @ show_nat n"

definition createInboundTurnBuilder :: "bool \<Rightarrow> int option \<Rightarrow> turn_builder" where
  "createInboundTurnBuilder enabled quiet = \<lparr>tb_enabled = enabled, tb_quietWindowMs = clampQuietWindow quiet, tb_stopped = False,
     tb_driver = (if enabled then Driver_running else Driver_none), tb_windows = [], tb_emitted = [], tb_ingestedReceipts = 0,
     tb_aggregatedMessages = 0, tb_emittedTurns = 0, tb_droppedDuplicateReceipts = 0, tb_sinkFailures = 0,
     tb_refusedByReason = [], tb_turnSequence = 0\<rparr>"

definition refuse :: "turn_refusal \<Rightarrow> nat \<Rightarrow> turn_builder \<Rightarrow> turn_outcome \<times> turn_builder" where
  "refuse reason n s =
     (Refused reason n,
      s\<lparr>tb_refusedByReason := map_set reason (Suc (case map_of (tb_refusedByReason s) reason of Some k \<Rightarrow> k | None \<Rightarrow> 0))
          (tb_refusedByReason s)\<rparr>)"

definition turn_of_window :: "int \<Rightarrow> nat \<Rightarrow> turn_window \<Rightarrow> inbound_turn" where
  "turn_of_window now sq w =
     (let ordered = order_messages (tw_messages w) in
      \<lparr>tt_turn_id = ''turn-'' @ ti_platform (tw_identity w) @ ''-'' @ pad_start sq,
       tt_identity_lock = tw_identity w,
       tt_source_message_ids = map wm_messageId ordered,
       tt_source_observed_at = map wm_observedAt ordered,
       tt_created_at = now\<rparr>)"

definition emit_window :: "(inbound_turn \<Rightarrow> bool) \<Rightarrow> int \<Rightarrow> string \<Rightarrow> turn_window \<Rightarrow> turn_builder \<Rightarrow> inbound_turn \<times> turn_builder" where
  "emit_window sinkThrows now key w s =
     (let sq = Suc (tb_turnSequence s); turn = turn_of_window now sq w in
      (turn, s\<lparr>tb_windows := map_delete key (tb_windows s), tb_turnSequence := sq, tb_emitted := tb_emitted s @ [turn],
               tb_emittedTurns := Suc (tb_emittedTurns s),
               tb_sinkFailures := (if sinkThrows turn then Suc (tb_sinkFailures s) else tb_sinkFailures s)\<rparr>))"

fun emit_loop :: "(inbound_turn \<Rightarrow> bool) \<Rightarrow> int \<Rightarrow> (string \<times> turn_window) list \<Rightarrow> turn_builder \<Rightarrow> inbound_turn list \<times> turn_builder" where
  "emit_loop sinkThrows now [] s = ([], s)"
| "emit_loop sinkThrows now ((key, w) # ws) s =
     (if tw_deadlineMs w > now then emit_loop sinkThrows now ws s
      else let (turn, s1) = emit_window sinkThrows now key w s; (turns, s2) = emit_loop sinkThrows now ws s1
           in (turn # turns, s2))"

definition emitExpired :: "(inbound_turn \<Rightarrow> bool) \<Rightarrow> int \<Rightarrow> turn_builder \<Rightarrow> inbound_turn list \<times> turn_builder" where
  "emitExpired sinkThrows now s = emit_loop sinkThrows now (tb_windows s) s"

definition poll_turns :: "(inbound_turn \<Rightarrow> bool) \<Rightarrow> int \<Rightarrow> turn_builder \<Rightarrow> inbound_turn list \<times> turn_builder" where
  "poll_turns sinkThrows now s = (if \<not> tb_enabled s \<or> tb_stopped s then ([], s) else emitExpired sinkThrows now s)"

definition window_key :: "turn_identity \<Rightarrow> string" where
  "window_key i = js_join [CHR 0x00] [ti_platform i, ti_merchantId i, ti_storeId i, ti_platformAccountId i, ti_conversationId i,
     (case ti_customerId i of Some c \<Rightarrow> c | None \<Rightarrow> ''<unknown>'')]"

text \<open>The identity of a request whose six required strings are present; the message id beside it.\<close>

definition request_identity :: "turn_request \<Rightarrow> (turn_identity \<times> string) option" where
  "request_identity q =
     (case (cleanString (tq_platform q), cleanString (tq_merchantId q), cleanString (tq_storeId q),
            cleanString (tq_platformAccountId q), cleanString (Some (tq_conversationId q)), cleanString (Some (tq_messageId q))) of
        (Some p, Some m, Some st, Some a, Some c, Some i) \<Rightarrow>
          Some (\<lparr>ti_platform = p, ti_merchantId = m, ti_storeId = st, ti_platformAccountId = a, ti_conversationId = c,
                 ti_customerId = cleanString (tq_customerId q)\<rparr>, i)
      | _ \<Rightarrow> None)"

text \<open>Adding an accepted message to its window, at the clock reading \<open>now\<close>.\<close>

definition aggregate :: "turn_identity \<Rightarrow> string \<Rightarrow> string \<Rightarrow> int \<Rightarrow> turn_builder \<Rightarrow> turn_outcome \<times> turn_builder" where
  "aggregate ident mid observedAt now s =
     (let key = window_key ident in
      case find (\<lambda>(_, w). ti_conversationId (tw_identity w) = ti_conversationId ident \<and> tw_key w \<noteq> key) (tb_windows s) of
        Some (_, w) \<Rightarrow> refuse IDENTITY_WINDOW_CONFLICT (length (tw_messages w)) s
      | None \<Rightarrow>
          (case map_of (tb_windows s) key of
             Some w \<Rightarrow>
               if mid \<in> wm_messageId ` set (tw_messages w) then refuse DUPLICATE_MESSAGE_ID (length (tw_messages w)) s
               else
                 let w1 = w\<lparr>tw_messages := tw_messages w @ [\<lparr>wm_messageId = mid, wm_observedAt = Some observedAt, wm_ordinal = length (tw_messages w)\<rparr>],
                            tw_deadlineMs := now + tb_quietWindowMs s\<rparr>
                 in (Aggregated (length (tw_messages w1)),
                     s\<lparr>tb_windows := map_set key w1 (tb_windows s), tb_aggregatedMessages := Suc (tb_aggregatedMessages s)\<rparr>)
           | None \<Rightarrow>
               let w = \<lparr>tw_key = key, tw_identity = ident, tw_messages = [\<lparr>wm_messageId = mid, wm_observedAt = Some observedAt, wm_ordinal = 0\<rparr>],
                        tw_deadlineMs = now + tb_quietWindowMs s\<rparr>
               in (Aggregated 1, s\<lparr>tb_windows := map_set key w (tb_windows s), tb_aggregatedMessages := Suc (tb_aggregatedMessages s)\<rparr>)))"

definition admit :: "turn_request \<Rightarrow> int \<Rightarrow> turn_builder \<Rightarrow> turn_outcome \<times> turn_builder" where
  "admit q now s =
     (if tq_status q = Receipt_duplicate
      then (Dropped, s\<lparr>tb_droppedDuplicateReceipts := Suc (tb_droppedDuplicateReceipts s)\<rparr>)
      else
        let s1 = s\<lparr>tb_ingestedReceipts := Suc (tb_ingestedReceipts s)\<rparr> in
        case request_identity q of
          None \<Rightarrow> refuse SCOPE_INCOMPLETE 0 s1
        | Some (ident, mid) \<Rightarrow>
            (case cleanString (tq_observedAt q) of
               None \<Rightarrow> refuse OBSERVED_AT_UNKNOWN 0 s1
             | Some observedAt \<Rightarrow>
                 if tq_actor q \<noteq> Some ''customer'' then refuse NON_CUSTOMER_ACTOR 0 s1
                 else if tq_contentKind q \<noteq> Some ''text'' then refuse NON_TEXT_CONTENT 0 s1
                 else if cleanString (tq_contentText q) = None then refuse TURN_CONTENT_MISSING 0 s1
                 else aggregate ident mid observedAt now s1))"

definition ingest_turn :: "(inbound_turn \<Rightarrow> bool) \<Rightarrow> turn_request \<Rightarrow> int \<Rightarrow> int \<Rightarrow> turn_builder \<Rightarrow> turn_outcome \<times> turn_builder" where
  "ingest_turn sinkThrows q now now' s =
     (if tb_stopped s then refuse TURN_AGGREGATION_STOPPED 0 s
      else if \<not> tb_enabled s then refuse TURN_AGGREGATION_DISABLED 0 s
      else admit q now' (snd (emitExpired sinkThrows now s)))"

definition stop_turns :: "turn_builder \<Rightarrow> turn_builder" where
  "stop_turns s = (if tb_stopped s then s
     else s\<lparr>tb_stopped := True, tb_driver := (if tb_driver s = Driver_running then Driver_stopped else tb_driver s), tb_windows := []\<rparr>)"

record turn_diagnostics =
  td_enabled :: bool
  td_quietWindowMs :: int
  td_ingestedReceipts :: nat
  td_aggregatedMessages :: nat
  td_emittedTurns :: nat
  td_openWindows :: nat
  td_droppedDuplicateReceipts :: nat
  td_refusedByReason :: "(turn_refusal \<times> nat) list"
  td_expiryDriver :: expiry_driver
  td_sinkFailures :: nat

definition diagnostics_turns :: "turn_builder \<Rightarrow> turn_diagnostics" where
  "diagnostics_turns s = \<lparr>td_enabled = tb_enabled s, td_quietWindowMs = tb_quietWindowMs s, td_ingestedReceipts = tb_ingestedReceipts s,
     td_aggregatedMessages = tb_aggregatedMessages s, td_emittedTurns = tb_emittedTurns s, td_openWindows = length (tb_windows s),
     td_droppedDuplicateReceipts = tb_droppedDuplicateReceipts s, td_refusedByReason = tb_refusedByReason s,
     td_expiryDriver = tb_driver s, td_sinkFailures = tb_sinkFailures s\<rparr>"

text \<open>The default expiry driver: the interval of the timer that is running, if one is.\<close>

definition scheduler_start :: "int \<Rightarrow> int option \<Rightarrow> int option" where
  "scheduler_start tickMs handle = (case handle of Some h \<Rightarrow> Some h | None \<Rightarrow> Some (max 50 tickMs))"

definition scheduler_stop :: "int option \<Rightarrow> int option" where
  "scheduler_stop handle = None"

datatype turn_event =
    Turn_ingest turn_request int int
  | Turn_poll int
  | Turn_stop

fun turn_step :: "(inbound_turn \<Rightarrow> bool) \<Rightarrow> turn_event \<Rightarrow> turn_builder \<Rightarrow> turn_builder" where
  "turn_step sinkThrows (Turn_ingest q now now') s = snd (ingest_turn sinkThrows q now now' s)"
| "turn_step sinkThrows (Turn_poll now) s = snd (poll_turns sinkThrows now s)"
| "turn_step sinkThrows Turn_stop s = stop_turns s"

end
