(* ===== verification/Turn_Builder_Props.thy ===== *)
theory Turn_Builder_Props imports Turn_Builder begin

text \<open>
  What the turn builder guarantees: windows are well formed along every run, no accepted message is lost,
  repeated or moved to another scope, a turn lists its messages in order, and a window is emitted when its quiet time is over and
  not before.
\<close>

subsection \<open>Ordering\<close>

lemma compareMessages_key:
  "(compareMessages l r < 0 \<longleftrightarrow> message_key l < message_key r) \<and> (compareMessages l r = 0 \<longleftrightarrow> message_key l = message_key r)"
  by (cases "wm_observedAt l"; cases "wm_observedAt r")
    (auto simp: compareMessages_def message_key_def less_prod_def)

lemma mset_order_messages [simp]: "mset (order_messages ms) = mset ms"
  by (simp add: order_messages_def)

lemma set_order_messages [simp]: "set (order_messages ms) = set ms"
  by (simp add: order_messages_def)

subsection \<open>Emission\<close>

definition window_ok :: "string \<times> turn_window \<Rightarrow> bool" where
  "window_ok p \<longleftrightarrow> (case p of (k, w) \<Rightarrow> tw_key w = k \<and> window_key (tw_identity w) = k \<and> tw_messages w \<noteq> []
     \<and> distinct (map wm_messageId (tw_messages w)) \<and> map wm_ordinal (tw_messages w) = [0..<length (tw_messages w)])"

text \<open>One window per key and per conversation, each well formed; every emitted turn lists distinct messages,
  by time of observation, unknown times last.\<close>

definition time_key :: "string option \<Rightarrow> bool \<times> string" where
  "time_key t = (t = None, case t of Some x \<Rightarrow> x | None \<Rightarrow> [])"

definition turn_ok :: "inbound_turn \<Rightarrow> bool" where
  "turn_ok t \<longleftrightarrow> tt_source_message_ids t \<noteq> [] \<and> distinct (tt_source_message_ids t)
     \<and> length (tt_source_observed_at t) = length (tt_source_message_ids t) \<and> sorted (map time_key (tt_source_observed_at t))"

definition builder_inv :: "turn_builder \<Rightarrow> bool" where
  "builder_inv s \<longleftrightarrow> list_all window_ok (tb_windows s) \<and> distinct (map fst (tb_windows s))
     \<and> distinct (map (\<lambda>p. ti_conversationId (tw_identity (snd p))) (tb_windows s)) \<and> list_all turn_ok (tb_emitted s)
     \<and> 3000 \<le> tb_quietWindowMs s \<and> tb_quietWindowMs s \<le> 5000"

text \<open>Messages with the key of their scope, in the windows and in the emitted turns.\<close>

definition window_pairs :: "string \<times> turn_window \<Rightarrow> (string \<times> string) multiset" where
  "window_pairs p = image_mset (\<lambda>m. (fst p, wm_messageId m)) (mset (tw_messages (snd p)))"

definition open_pairs :: "turn_builder \<Rightarrow> (string \<times> string) multiset" where
  "open_pairs s = sum_list (map window_pairs (tb_windows s))"

definition turn_pairs :: "inbound_turn \<Rightarrow> (string \<times> string) multiset" where
  "turn_pairs t = image_mset (\<lambda>i. (window_key (tt_identity_lock t), i)) (mset (tt_source_message_ids t))"

definition emitted_pairs :: "turn_builder \<Rightarrow> (string \<times> string) multiset" where
  "emitted_pairs s = sum_list (map turn_pairs (tb_emitted s))"

abbreviation expired :: "int \<Rightarrow> string \<times> turn_window \<Rightarrow> bool" where
  "expired now p \<equiv> tw_deadlineMs (snd p) \<le> now"

lemma message_key_time: "message_key l \<le> message_key r \<Longrightarrow> time_key (wm_observedAt l) \<le> time_key (wm_observedAt r)"
  by (cases "wm_observedAt l"; cases "wm_observedAt r") (auto simp: message_key_def time_key_def)

lemma turn_of_window_ok: "window_ok (k, w) \<Longrightarrow> turn_ok (turn_of_window now n w)"
proof -
  assume ok: "window_ok (k, w)"
  then have "order_messages (tw_messages w) \<noteq> []"
    by (simp add: window_ok_def flip: set_empty)
  moreover have "distinct (map wm_messageId (order_messages (tw_messages w)))"
    using ok by (simp add: window_ok_def distinct_map order_messages_def)
  moreover have "sorted (map (time_key \<circ> wm_observedAt) (order_messages (tw_messages w)))"
  proof -
    have "sorted_wrt (\<lambda>l r. message_key l \<le> message_key r) (order_messages (tw_messages w))"
      using sorted_sort_key [of message_key "tw_messages w"] by (simp only: sorted_map order_messages_def)
    then have "sorted_wrt (\<lambda>l r. (time_key \<circ> wm_observedAt) l \<le> (time_key \<circ> wm_observedAt) r) (order_messages (tw_messages w))"
      by (rule sorted_wrt_mono_rel [rotated]) (simp add: message_key_time)
    then show ?thesis by (simp only: sorted_map)
  qed
  ultimately show ?thesis by (simp add: turn_ok_def turn_of_window_def Let_def)
qed

lemma turn_pairs_window: "window_ok (k, w) \<Longrightarrow> turn_pairs (turn_of_window now n w) = window_pairs (k, w)"
  by (simp add: turn_pairs_def window_pairs_def turn_of_window_def Let_def window_ok_def multiset.map_comp comp_def)

lemma emit_loop_Cons:
  "emit_loop sk now (p # ws) s =
     (if expired now p
      then let r = emit_window sk now (fst p) (snd p) s; q = emit_loop sk now ws (snd r) in (fst r # fst q, snd q)
      else emit_loop sk now ws s)"
  by (cases p) (auto simp: Let_def case_prod_beta)

text \<open>The loop over the windows, from a state that holds at least these windows.\<close>

lemma emit_loop_windows:
  "tb_windows (snd (emit_loop sk now ws s)) = filter (\<lambda>p. fst p \<notin> fst ` set (filter (expired now) ws)) (tb_windows s)"
proof (induction ws arbitrary: s)
  case Nil
  then show ?case by simp
next
  case (Cons p ws)
  obtain k w where p: "p = (k, w)" by (cases p)
  show ?case
    by (cases "tw_deadlineMs w > now")
      (auto simp: p Cons emit_window_def Let_def case_prod_beta map_delete_def intro: filter_cong)
qed

lemma emit_loop_emitted:
  "tb_emitted (snd (emit_loop sk now ws s)) = tb_emitted s @ fst (emit_loop sk now ws s)"
  by (induction ws arbitrary: s) (auto simp: emit_window_def Let_def case_prod_beta)

lemma emit_loop_turns:
  "map tt_identity_lock (fst (emit_loop sk now ws s)) = map (tw_identity \<circ> snd) (filter (expired now) ws)"
  "list_all window_ok ws \<Longrightarrow> list_all turn_ok (fst (emit_loop sk now ws s))"
  "list_all window_ok ws \<Longrightarrow> map turn_pairs (fst (emit_loop sk now ws s)) = map window_pairs (filter (expired now) ws)"
  by (induction ws arbitrary: s)
    (auto simp: emit_window_def Let_def case_prod_beta turn_of_window_ok turn_pairs_window; simp add: turn_of_window_def Let_def)+

lemma emit_loop_keeps [keeps]:
  "tb_enabled (snd (emit_loop sk now ws s)) = tb_enabled s" "tb_stopped (snd (emit_loop sk now ws s)) = tb_stopped s"
  "tb_quietWindowMs (snd (emit_loop sk now ws s)) = tb_quietWindowMs s"
  by (induction ws arbitrary: s) (simp_all add: emit_loop_Cons emit_window_def Let_def del: emit_loop.simps(2))

lemma filter_expired_keys:
  assumes "distinct (map fst ws)"
  shows "filter (\<lambda>p. fst p \<notin> fst ` {x \<in> set ws. Q x}) ws = filter (\<lambda>p. \<not> Q p) ws"
proof (rule filter_cong [OF refl])
  fix p assume "p \<in> set ws"
  then show "(fst p \<notin> fst ` {x \<in> set ws. Q x}) = (\<not> Q p)"
    using assms by (auto simp: distinct_map inj_on_def)
qed

lemma emitExpired_windows:
  "builder_inv s \<Longrightarrow> tb_windows (snd (emitExpired sk now s)) = filter (\<lambda>p. \<not> expired now p) (tb_windows s)"
  by (simp add: emitExpired_def emit_loop_windows builder_inv_def filter_expired_keys)

lemma sum_list_partition:
  "sum_list (map f xs) = sum_list (map f (filter P xs)) + sum_list (map f (filter (\<lambda>x. \<not> P x) xs :: 'b list)) "
  for f :: "'b \<Rightarrow> 'c multiset"
  by (induction xs) (auto simp: ac_simps)

lemma emitExpired_keeps [keeps]:
  "tb_enabled (snd (emitExpired sk now s)) = tb_enabled s" "tb_stopped (snd (emitExpired sk now s)) = tb_stopped s"
  "tb_quietWindowMs (snd (emitExpired sk now s)) = tb_quietWindowMs s"
  by (simp_all add: emitExpired_def emit_loop_keeps)

lemma emitExpired_inv: "builder_inv s \<Longrightarrow> builder_inv (snd (emitExpired sk now s))"
proof -
  assume inv: "builder_inv s"
  have "list_all turn_ok (tb_emitted (snd (emitExpired sk now s)))"
    using inv emit_loop_turns(2) by (simp add: emitExpired_def emit_loop_emitted builder_inv_def)
  moreover have "distinct (map f (filter P (tb_windows s)))" if "distinct (map f (tb_windows s))" for f :: "string \<times> turn_window \<Rightarrow> string" and P
    using that by (simp add: distinct_map_filter)
  ultimately show ?thesis
    using inv unfolding builder_inv_def emitExpired_windows [OF inv] by (simp add: list_all_iff emitExpired_keeps)
qed

text \<open>Expiry moves messages from windows to turns and loses none.\<close>

lemma emitExpired_pairs:
  assumes inv: "builder_inv s"
  shows "emitted_pairs (snd (emitExpired sk now s)) + open_pairs (snd (emitExpired sk now s)) = emitted_pairs s + open_pairs s"
proof -
  have "list_all window_ok (tb_windows s)" using inv by (simp add: builder_inv_def)
  then have "emitted_pairs (snd (emitExpired sk now s)) = emitted_pairs s + sum_list (map window_pairs (filter (expired now) (tb_windows s)))"
    by (simp add: emitted_pairs_def emitExpired_def emit_loop_emitted emit_loop_turns(3))
  moreover have "open_pairs (snd (emitExpired sk now s)) = sum_list (map window_pairs (filter (\<lambda>p. \<not> expired now p) (tb_windows s)))"
    by (simp add: open_pairs_def emitExpired_windows [OF inv])
  ultimately show ?thesis
    using sum_list_partition [of window_pairs "tb_windows s" "expired now"] by (simp add: open_pairs_def ac_simps)
qed


subsection \<open>Aggregation\<close>

lemma refuse_keeps [keeps]:
  "tb_windows (snd (refuse x n s)) = tb_windows s" "tb_emitted (snd (refuse x n s)) = tb_emitted s"
  "tb_stopped (snd (refuse x n s)) = tb_stopped s" "tb_enabled (snd (refuse x n s)) = tb_enabled s"
  "tb_quietWindowMs (snd (refuse x n s)) = tb_quietWindowMs s" "fst (refuse x n s) = Refused x n"
  by (simp_all add: refuse_def)

definition is_aggregated :: "turn_outcome \<Rightarrow> bool" where
  "is_aggregated out = (case out of Aggregated _ \<Rightarrow> True | _ \<Rightarrow> False)"

lemma is_aggregated_simps [simp]: "is_aggregated (Aggregated n)" "\<not> is_aggregated Dropped" "\<not> is_aggregated (Refused x n)"
  by (simp_all add: is_aggregated_def)

text \<open>Setting the window of a key, in place or at the end.\<close>

lemma map_set_split:
  obtains (new) "k \<notin> fst ` set ps" "map_set k v ps = ps @ [(k, v)]"
  | (old) xs u ys where "ps = xs @ (k, u) # ys" "k \<notin> fst ` set xs" "map_set k v ps = xs @ (k, v) # ys" "map_of ps k = Some u"
proof (induction ps arbitrary: thesis)
  case Nil
  then show ?case by simp
next
  case (Cons p ps)
  show ?case
  proof (cases "fst p = k")
    case True
    then show ?thesis by (intro Cons.prems(2) [of "[]" "snd p" ps]) (cases p; simp)+
  next
    case False
    show ?thesis
    proof (rule Cons.IH)
      assume "k \<notin> fst ` set ps" "map_set k v ps = ps @ [(k, v)]"
      then show thesis using False by (intro Cons.prems(1)) simp_all
    next
      fix xs u ys assume "ps = xs @ (k, u) # ys" "k \<notin> fst ` set xs" "map_set k v ps = xs @ (k, v) # ys" "map_of ps k = Some u"
      then show thesis using False by (intro Cons.prems(2) [of "p # xs" u ys]) (cases p; simp)+
    qed
  qed
qed

text \<open>What \<open>aggregate\<close> does: a refusal changes no window; otherwise the message joins the window of its key,
  which then expires a quiet time after the clock reading.\<close>

definition joined :: "turn_identity \<Rightarrow> string \<Rightarrow> string \<Rightarrow> int \<Rightarrow> turn_builder \<Rightarrow> turn_window" where
  "joined ident mid obs now s = (case map_of (tb_windows s) (window_key ident) of
       None \<Rightarrow> \<lparr>tw_key = window_key ident, tw_identity = ident,
          tw_messages = [\<lparr>wm_messageId = mid, wm_observedAt = Some obs, wm_ordinal = 0\<rparr>], tw_deadlineMs = now + tb_quietWindowMs s\<rparr>
     | Some w \<Rightarrow> w\<lparr>tw_messages := tw_messages w @ [\<lparr>wm_messageId = mid, wm_observedAt = Some obs, wm_ordinal = length (tw_messages w)\<rparr>],
                  tw_deadlineMs := now + tb_quietWindowMs s\<rparr>)"

lemma aggregate_cases:
  obtains (refused) x n where "aggregate ident mid obs now s = refuse x n s"
  | (aggregated) n where
      "aggregate ident mid obs now s = (Aggregated n, s\<lparr>tb_windows := map_set (window_key ident) (joined ident mid obs now s) (tb_windows s),
         tb_aggregatedMessages := Suc (tb_aggregatedMessages s)\<rparr>)"
      "\<And>k w. (k, w) \<in> set (tb_windows s) \<Longrightarrow> ti_conversationId (tw_identity w) = ti_conversationId ident \<Longrightarrow> tw_key w = window_key ident"
      "\<And>w. map_of (tb_windows s) (window_key ident) = Some w \<Longrightarrow> mid \<notin> wm_messageId ` set (tw_messages w)"
proof (cases "find (\<lambda>(_, w). ti_conversationId (tw_identity w) = ti_conversationId ident \<and> tw_key w \<noteq> window_key ident) (tb_windows s)")
  case (Some p)
  then show ?thesis by (intro refused) (auto simp: aggregate_def Let_def case_prod_beta)
next
  case None
  then have conv: "(k, w) \<in> set (tb_windows s) \<Longrightarrow> ti_conversationId (tw_identity w) = ti_conversationId ident \<Longrightarrow> tw_key w = window_key ident" for k w
    by (auto simp: find_None_iff)
  show ?thesis
  proof (cases "map_of (tb_windows s) (window_key ident)")
    case None2: None
    then show ?thesis using None conv by (intro aggregated) (auto simp: aggregate_def Let_def joined_def)
  next
    case (Some w)
    show ?thesis
    proof (cases "mid \<in> wm_messageId ` set (tw_messages w)")
      case True
      then show ?thesis using None Some by (intro refused) (simp add: aggregate_def Let_def)
    next
      case False
      then show ?thesis using None Some conv by (intro aggregated) (auto simp: aggregate_def Let_def joined_def)
    qed
  qed
qed

lemma window_ok_joined:
  assumes inv: "builder_inv s" and fresh: "\<And>w. map_of (tb_windows s) (window_key ident) = Some w \<Longrightarrow> mid \<notin> wm_messageId ` set (tw_messages w)"
  shows "window_ok (window_key ident, joined ident mid obs now s)"
proof (cases "map_of (tb_windows s) (window_key ident)")
  case None
  then show ?thesis by (simp add: window_ok_def joined_def)
next
  case (Some w)
  then have "(window_key ident, w) \<in> set (tb_windows s)" by (rule map_of_SomeD)
  then have "window_ok (window_key ident, w)" using inv by (simp add: builder_inv_def list_all_iff)
  then show ?thesis using fresh [OF Some] Some by (auto simp: window_ok_def joined_def)
qed

lemma aggregate_inv:
  assumes inv: "builder_inv s"
  shows "builder_inv (snd (aggregate ident mid obs now s))"
proof (cases rule: aggregate_cases [where ident = ident and mid = mid and obs = obs and now = now and s = s])
  case (refused x n)
  then show ?thesis using inv by (simp add: builder_inv_def refuse_keeps)
next
  case (aggregated n)
  let ?k = "window_key ident" and ?w = "joined ident mid obs now s"
  have ok: "window_ok (?k, ?w)" using aggregated(3) by (rule window_ok_joined [OF inv])
  show ?thesis
  proof (cases rule: map_set_split [where k = ?k and v = ?w and ps = "tb_windows s"])
    case new
    have "tw_identity ?w = ident"
      using new(1) map_of_eq_None_iff [of "tb_windows s" ?k] by (simp add: joined_def)
    moreover have "ti_conversationId ident \<notin> (\<lambda>p. ti_conversationId (tw_identity (snd p))) ` set (tb_windows s)"
    proof
      assume "ti_conversationId ident \<in> (\<lambda>p. ti_conversationId (tw_identity (snd p))) ` set (tb_windows s)"
      then obtain k w where kw: "(k, w) \<in> set (tb_windows s)" "ti_conversationId (tw_identity w) = ti_conversationId ident" by force
      then have "tw_key w = ?k" by (rule aggregated(2))
      moreover have "tw_key w = k" using inv kw(1) by (auto simp: builder_inv_def list_all_iff window_ok_def)
      ultimately show False using new(1) kw(1) by force
    qed
    ultimately show ?thesis using inv ok new aggregated(1) by (simp add: builder_inv_def)
  next
    case (old xs u ys)
    then have "tw_identity ?w = tw_identity u" by (simp add: joined_def)
    then show ?thesis using inv ok old(1,3) aggregated(1) by (simp add: builder_inv_def)
  qed
qed

lemma aggregate_pairs:
  assumes inv: "builder_inv s"
  shows "open_pairs (snd (aggregate ident mid obs now s)) = open_pairs s +
    (if is_aggregated (fst (aggregate ident mid obs now s)) then {#(window_key ident, mid)#} else {#})"
proof (cases rule: aggregate_cases [where ident = ident and mid = mid and obs = obs and now = now and s = s])
  case (refused x n)
  then show ?thesis by (simp add: open_pairs_def refuse_keeps)
next
  case (aggregated n)
  let ?k = "window_key ident" and ?w = "joined ident mid obs now s"
  show ?thesis
  proof (cases rule: map_set_split [where k = ?k and v = ?w and ps = "tb_windows s"])
    case new
    have "window_pairs (?k, ?w) = {#(?k, mid)#}"
      using new(1) map_of_eq_None_iff [of "tb_windows s" ?k] by (simp add: joined_def window_pairs_def)
    then show ?thesis using new aggregated(1) by (simp add: open_pairs_def)
  next
    case (old xs u ys)
    then have "window_pairs (?k, ?w) = window_pairs (?k, u) + {#(?k, mid)#}" by (simp add: joined_def window_pairs_def)
    then show ?thesis using old(1,3) aggregated(1) by (simp add: open_pairs_def ac_simps)
  qed
qed

lemma aggregate_keeps [keeps]:
  "tb_emitted (snd (aggregate ident mid obs now s)) = tb_emitted s" "tb_stopped (snd (aggregate ident mid obs now s)) = tb_stopped s"
  "tb_enabled (snd (aggregate ident mid obs now s)) = tb_enabled s" "tb_quietWindowMs (snd (aggregate ident mid obs now s)) = tb_quietWindowMs s"
  by (cases rule: aggregate_cases [where ident = ident and mid = mid and obs = obs and now = now and s = s]; simp add: refuse_keeps)+

subsection \<open>Runs\<close>

definition request_pair :: "turn_request \<Rightarrow> string \<times> string" where
  "request_pair q = (case request_identity q of Some (ident, mid) \<Rightarrow> (window_key ident, mid) | None \<Rightarrow> ([], []))"

lemma admit_cases:
  obtains (other) x s1 where "admit q now s = (x, s1)" "\<not> is_aggregated x" "tb_windows s1 = tb_windows s" "tb_emitted s1 = tb_emitted s"
      "tb_stopped s1 = tb_stopped s" "tb_enabled s1 = tb_enabled s" "tb_quietWindowMs s1 = tb_quietWindowMs s"
  | (aggregate) ident mid obs where "request_identity q = Some (ident, mid)"
      "admit q now s = aggregate ident mid obs now (s\<lparr>tb_ingestedReceipts := Suc (tb_ingestedReceipts s)\<rparr>)"
proof -
  have refused: thesis if "admit q now s = refuse x n (s\<lparr>tb_ingestedReceipts := Suc (tb_ingestedReceipts s)\<rparr>)" for x n
    by (rule other [of "Refused x n" "snd (admit q now s)"]) (simp_all add: that refuse_def)
  show thesis
  proof (cases "tq_status q = Receipt_duplicate")
    case True
    show thesis by (rule other [of "fst (admit q now s)" "snd (admit q now s)"]) (simp_all add: admit_def True)
  next
    case dup: False
    show thesis
    proof (cases "request_identity q")
      case None
      then show thesis using dup by (intro refused) (simp add: admit_def)
    next
      case (Some p)
      then obtain ident mid where p: "request_identity q = Some (ident, mid)" by (cases p) simp
      show thesis
      proof (cases "cleanString (tq_observedAt q)")
        case None
        then show thesis using dup p by (intro refused) (simp add: admit_def)
      next
        case (Some obs)
        consider "tq_actor q \<noteq> Some ''customer''" | "tq_actor q = Some ''customer''" "tq_contentKind q \<noteq> Some ''text''"
          | "tq_actor q = Some ''customer''" "tq_contentKind q = Some ''text''" "cleanString (tq_contentText q) = None"
          | "tq_actor q = Some ''customer''" "tq_contentKind q = Some ''text''" "cleanString (tq_contentText q) \<noteq> None" by blast
        then show thesis
        proof cases
          case 1
          then show ?thesis using dup p Some by (intro refused) (simp add: admit_def)
        next
          case 2
          then show ?thesis using dup p Some by (intro refused) (simp add: admit_def)
        next
          case 3
          then show ?thesis using dup p Some by (intro refused) (simp add: admit_def)
        next
          case 4
          then show ?thesis using dup p Some by (intro aggregate [OF p, of obs]) (auto simp: admit_def Let_def)
        qed
      qed
    qed
  qed
qed

lemma builder_inv_cong: "tb_windows s1 = tb_windows s \<Longrightarrow> tb_emitted s1 = tb_emitted s \<Longrightarrow> tb_quietWindowMs s1 = tb_quietWindowMs s \<Longrightarrow> builder_inv s1 = builder_inv s"
  by (simp add: builder_inv_def)

lemma admit_effect:
  assumes inv: "builder_inv s"
  shows "builder_inv (snd (admit q now s)) \<and> tb_emitted (snd (admit q now s)) = tb_emitted s
    \<and> tb_stopped (snd (admit q now s)) = tb_stopped s \<and> tb_enabled (snd (admit q now s)) = tb_enabled s
    \<and> tb_quietWindowMs (snd (admit q now s)) = tb_quietWindowMs s
    \<and> open_pairs (snd (admit q now s)) = open_pairs s + (if is_aggregated (fst (admit q now s)) then {#request_pair q#} else {#})"
proof (cases rule: admit_cases [where q = q and now = now and s = s])
  case (other x s1)
  then show ?thesis using inv builder_inv_cong [of s1 s] by (simp add: open_pairs_def)
next
  case (aggregate ident mid obs)
  let ?s = "s\<lparr>tb_ingestedReceipts := Suc (tb_ingestedReceipts s)\<rparr>"
  have i: "builder_inv ?s" using inv by (simp add: builder_inv_def)
  have "open_pairs ?s = open_pairs s" by (simp add: open_pairs_def)
  then show ?thesis
    using aggregate_inv [OF i, of ident mid obs now] aggregate_pairs [OF i, of ident mid obs now] aggregate
    by (simp add: aggregate_keeps request_pair_def)
qed

text \<open>The messages accepted along a run.\<close>

fun accepted :: "(inbound_turn \<Rightarrow> bool) \<Rightarrow> turn_event list \<Rightarrow> turn_builder \<Rightarrow> (string \<times> string) multiset" where
  "accepted sk [] s = {#}"
| "accepted sk (e # es) s =
     (case e of Turn_ingest q now now' \<Rightarrow> (if is_aggregated (fst (ingest_turn sk q now now' s)) then {#request_pair q#} else {#}) | _ \<Rightarrow> {#})
     + accepted sk es (turn_step sk e s)"

lemma ingest_turn_cases:
  obtains (refused) x n where "ingest_turn sk q now now' s = refuse x n s"
  | (admitted) "\<not> tb_stopped s" "tb_enabled s" "ingest_turn sk q now now' s = admit q now' (snd (emitExpired sk now s))"
  by (cases "tb_stopped s"; cases "tb_enabled s") (simp_all add: ingest_turn_def)

lemma ingest_turn_effect:
  assumes inv: "builder_inv s"
  shows "builder_inv (snd (ingest_turn sk q now now' s))
    \<and> tb_quietWindowMs (snd (ingest_turn sk q now now' s)) = tb_quietWindowMs s
    \<and> emitted_pairs (snd (ingest_turn sk q now now' s)) + open_pairs (snd (ingest_turn sk q now now' s))
      = emitted_pairs s + open_pairs s + (if is_aggregated (fst (ingest_turn sk q now now' s)) then {#request_pair q#} else {#})"
proof (cases rule: ingest_turn_cases [where sk = sk and q = q and now = now and now' = now' and s = s])
  case (refused x n)
  then show ?thesis using inv by (simp add: builder_inv_def open_pairs_def emitted_pairs_def refuse_keeps)
next
  case admitted
  let ?e = "snd (emitExpired sk now s)"
  note ad = admit_effect [OF emitExpired_inv [OF inv], of q now' sk now]
  have "emitted_pairs (snd (admit q now' ?e)) = emitted_pairs ?e" using ad by (simp add: emitted_pairs_def)
  then show ?thesis
    using ad emitExpired_pairs [OF inv, of sk now, symmetric] admitted(3) by (simp add: emitExpired_keeps ac_simps)
qed

lemma turn_step_inv: "builder_inv s \<Longrightarrow> builder_inv (turn_step sk e s)"
proof (cases e)
  case Turn_stop
  moreover assume "builder_inv s"
  ultimately show ?thesis by (simp add: builder_inv_def stop_turns_def)
qed (use ingest_turn_effect emitExpired_inv in \<open>auto simp: poll_turns_def\<close>)

interpretation turns: step_invariant "turn_step sk" builder_inv "\<lambda>_. True" for sk
  by unfold_locales (rule turn_step_inv)

lemma new_builder_inv: "builder_inv (createInboundTurnBuilder en quiet)"
  by (simp add: builder_inv_def createInboundTurnBuilder_def clampQuietWindow_def)

lemma turn_step_pairs:
  assumes "builder_inv s" and "e \<noteq> Turn_stop"
  shows "emitted_pairs (turn_step sk e s) + open_pairs (turn_step sk e s) = emitted_pairs s + open_pairs s +
    (case e of Turn_ingest q now now' \<Rightarrow> (if is_aggregated (fst (ingest_turn sk q now now' s)) then {#request_pair q#} else {#}) | _ \<Rightarrow> {#})"
  using assms ingest_turn_effect [OF assms(1)] emitExpired_pairs [OF assms(1)]
  by (cases e) (simp_all add: poll_turns_def)

lemma run_pairs:
  "builder_inv s \<Longrightarrow> Turn_stop \<notin> set es \<Longrightarrow>
   emitted_pairs (run (turn_step sk) es s) + open_pairs (run (turn_step sk) es s) = emitted_pairs s + open_pairs s + accepted sk es s"
proof (induction es arbitrary: s)
  case Nil
  then show ?case by simp
next
  case (Cons e es)
  then have "emitted_pairs (run (turn_step sk) es (turn_step sk e s)) + open_pairs (run (turn_step sk) es (turn_step sk e s))
    = emitted_pairs (turn_step sk e s) + open_pairs (turn_step sk e s) + accepted sk es (turn_step sk e s)"
    by (simp add: turn_step_inv)
  also have "emitted_pairs (turn_step sk e s) + open_pairs (turn_step sk e s) = emitted_pairs s + open_pairs s +
    (case e of Turn_ingest q now now' \<Rightarrow> (if is_aggregated (fst (ingest_turn sk q now now' s)) then {#request_pair q#} else {#}) | _ \<Rightarrow> {#})"
    using Cons.prems by (intro turn_step_pairs) auto
  finally show ?case by (simp add: add.assoc)
qed

text \<open>
  Along every run of ingestions and polls, whatever the clock readings and whether the sink
  throws, the messages the builder accepted are exactly those in the emitted turns and in the open
  windows, each once and under the scope it was accepted for: none is lost, repeated or moved to another
  scope. There is one window per conversation, and every emitted turn lists distinct messages ordered by
  observation time.
\<close>

theorem turns_conserve_messages:
  assumes "Turn_stop \<notin> set es" and "s = run (turn_step sk) es (createInboundTurnBuilder en quiet)"
  shows "accepted sk es (createInboundTurnBuilder en quiet) = emitted_pairs s + open_pairs s
    \<and> distinct (map (\<lambda>p. ti_conversationId (tw_identity (snd p))) (tb_windows s))
    \<and> list_all turn_ok (tb_emitted s)"
proof -
  have "builder_inv s" unfolding assms(2) by (rule turns.run_keeps [OF new_builder_inv]) simp
  moreover have "emitted_pairs (createInboundTurnBuilder en quiet) = {#}" "open_pairs (createInboundTurnBuilder en quiet) = {#}"
    by (simp_all add: emitted_pairs_def open_pairs_def createInboundTurnBuilder_def)
  ultimately show ?thesis
    using run_pairs [OF new_builder_inv assms(1), of sk en quiet] by (simp add: assms(2) builder_inv_def)
qed

definition sample_request :: "string \<Rightarrow> string \<Rightarrow> turn_request" where
  "sample_request i t = \<lparr>tq_status = Receipt_ingested, tq_conversationId = ''c1'', tq_messageId = i, tq_platform = Some ''pdd'',
     tq_merchantId = Some ''m1'', tq_storeId = Some ''st1'', tq_platformAccountId = Some ''acc1'', tq_customerId = Some ''42'',
     tq_observedAt = Some t, tq_actor = Some ''customer'', tq_contentKind = Some ''text'', tq_contentText = Some ''hi''\<rparr>"

definition sample_turn_run :: "turn_event list" where
  "sample_turn_run = [Turn_ingest (sample_request ''a'' ''t2'') 0 0, Turn_ingest (sample_request ''b'' ''t1'') 1000 1000, Turn_poll 5000]"

lemmas turn_eval = sample_turn_run_def sample_request_def createInboundTurnBuilder_def clampQuietWindow_def ingest_turn_def emitExpired_def
  admit_def request_identity_def cleanString_def js_trim_def is_ws_def aggregate_def Let_def window_key_def poll_turns_def
  emit_window_def turn_of_window_def order_messages_def message_key_def map_delete_def

lemma sample_turns:
  "map tt_source_message_ids (tb_emitted (run (turn_step (\<lambda>_. False)) sample_turn_run (createInboundTurnBuilder True None))) = [[''b'', ''a'']]"
  "tb_windows (run (turn_step (\<lambda>_. False)) sample_turn_run (createInboundTurnBuilder True None)) = []"
  by (simp_all add: turn_eval)

theorem turns_conserve_messages_witness:
  "Turn_stop \<notin> set sample_turn_run
   \<and> accepted (\<lambda>_. False) sample_turn_run (createInboundTurnBuilder True None)
     = emitted_pairs (run (turn_step (\<lambda>_. False)) sample_turn_run (createInboundTurnBuilder True None))
   \<and> map tt_source_message_ids (tb_emitted (run (turn_step (\<lambda>_. False)) sample_turn_run (createInboundTurnBuilder True None))) = [[''b'', ''a'']]"
proof -
  have no_stop: "Turn_stop \<notin> set sample_turn_run" by (simp add: sample_turn_run_def)
  show ?thesis
    using turns_conserve_messages [OF no_stop refl, of "\<lambda>_. False" True None] no_stop sample_turns by (simp add: open_pairs_def)
qed

subsection \<open>Expiry\<close>

lemma aggregate_window:
  assumes "aggregate ident mid obs now s = (Aggregated n, s1)"
  shows "\<exists>w. map_of (tb_windows s1) (window_key ident) = Some w \<and> tw_deadlineMs w = now + tb_quietWindowMs s
    \<and> mid \<in> wm_messageId ` set (tw_messages w)"
proof (cases rule: aggregate_cases [where ident = ident and mid = mid and obs = obs and now = now and s = s])
  case (refused x m)
  then show ?thesis using assms by (simp add: refuse_def)
next
  case (aggregated m)
  then show ?thesis using assms by (auto simp: joined_def split: option.splits)
qed

lemma poll_pairs:
  assumes "builder_inv s" and "tb_enabled s" and "\<not> tb_stopped s"
  shows "(\<exists>turn \<in> set (fst (poll_turns sk t s)). x \<in># turn_pairs turn) \<longleftrightarrow> (\<exists>p \<in> set (tb_windows s). expired t p \<and> x \<in># window_pairs p)"
proof -
  have "map turn_pairs (fst (poll_turns sk t s)) = map window_pairs (filter (expired t) (tb_windows s))"
    using assms by (simp add: poll_turns_def emitExpired_def emit_loop_turns(3) builder_inv_def)
  then have "turn_pairs ` set (fst (poll_turns sk t s)) = window_pairs ` {p \<in> set (tb_windows s). expired t p}"
    by (simp flip: set_map set_filter)
  then have "(\<exists>y \<in> turn_pairs ` set (fst (poll_turns sk t s)). x \<in># y) \<longleftrightarrow> (\<exists>y \<in> window_pairs ` {p \<in> set (tb_windows s). expired t p}. x \<in># y)"
    by (simp only:)
  then show ?thesis by (simp only: bex_simps) blast
qed

text \<open>
  Property C19. The quiet window is between three and five seconds whatever is configured. After any run, a
  message that is accepted at clock reading \<open>now'\<close> is emitted by a poll at time \<open>t\<close>, with no other
  message in between, exactly when \<open>t\<close> is a quiet window later or more: never early, and never kept back.
\<close>

theorem turn_is_emitted_after_quiet_time:
  assumes "s = run (turn_step sk) es (createInboundTurnBuilder en quiet)"
    and "ingest_turn sk q now now' s = (Aggregated n, s1)"
  shows "3000 \<le> tb_quietWindowMs s \<and> tb_quietWindowMs s \<le> 5000
    \<and> (\<forall>t. (\<exists>turn \<in> set (fst (poll_turns sk t s1)). request_pair q \<in># turn_pairs turn) \<longleftrightarrow> now' + tb_quietWindowMs s \<le> t)"
proof -
  have inv: "builder_inv s" unfolding assms(1) by (rule turns.run_keeps [OF new_builder_inv]) simp
  have adm: "\<not> tb_stopped s" "tb_enabled s" "admit q now' (snd (emitExpired sk now s)) = (Aggregated n, s1)"
    using assms(2) by (cases rule: ingest_turn_cases [where sk = sk and q = q and now = now and now' = now' and s = s]; simp add: refuse_def)+
  note ei = emitExpired_inv [OF inv, of sk now] and ek = emitExpired_keeps [of sk now s]
  have s1: "builder_inv s1" "tb_enabled s1" "\<not> tb_stopped s1"
    using admit_effect [OF ei, of q now'] adm ek by simp_all
  obtain ident mid obs where ag: "request_identity q = Some (ident, mid)"
    "aggregate ident mid obs now' (snd (emitExpired sk now s)\<lparr>tb_ingestedReceipts := Suc (tb_ingestedReceipts (snd (emitExpired sk now s)))\<rparr>)
       = (Aggregated n, s1)"
    using adm(3) by (cases rule: admit_cases [where q = q and now = now' and s = "snd (emitExpired sk now s)"]) auto
  from aggregate_window [OF ag(2)] obtain w where w: "map_of (tb_windows s1) (window_key ident) = Some w"
    "tw_deadlineMs w = now' + tb_quietWindowMs s" "mid \<in> wm_messageId ` set (tw_messages w)" using ek by auto
  have pair: "request_pair q = (window_key ident, mid)" using ag(1) by (simp add: request_pair_def)
  have only: "p = (window_key ident, w)" if "p \<in> set (tb_windows s1)" "request_pair q \<in># window_pairs p" for p
  proof -
    have "fst p = window_key ident" using that(2) by (auto simp: window_pairs_def pair)
    moreover have "map_of (tb_windows s1) (fst p) = Some (snd p)"
      using that(1) s1(1) by (intro map_of_is_SomeI) (simp_all add: builder_inv_def)
    ultimately show ?thesis using w(1) by (simp add: prod_eq_iff)
  qed
  have here: "(window_key ident, w) \<in> set (tb_windows s1)" "request_pair q \<in># window_pairs (window_key ident, w)"
    using map_of_SomeD [OF w(1)] w(3) by (auto simp: window_pairs_def pair)
  have "(\<exists>turn \<in> set (fst (poll_turns sk t s1)). request_pair q \<in># turn_pairs turn) \<longleftrightarrow> now' + tb_quietWindowMs s \<le> t" for t
  proof -
    have "(\<exists>p \<in> set (tb_windows s1). expired t p \<and> request_pair q \<in># window_pairs p) \<longleftrightarrow> expired t (window_key ident, w)"
      using only here by blast
    then show ?thesis unfolding poll_pairs [OF s1] by (simp only: snd_conv w(2))
  qed
  then show ?thesis using inv by (simp add: builder_inv_def)
qed

theorem turn_is_emitted_after_quiet_time_witness:
  "ingest_turn (\<lambda>_. False) (sample_request ''a'' ''t1'') 0 0 (createInboundTurnBuilder True (Some 9000)) =
     (Aggregated 1, turn_step (\<lambda>_. False) (Turn_ingest (sample_request ''a'' ''t1'') 0 0) (createInboundTurnBuilder True (Some 9000)))
   \<and> (\<exists>turn \<in> set (fst (poll_turns (\<lambda>_. False) 5000
        (turn_step (\<lambda>_. False) (Turn_ingest (sample_request ''a'' ''t1'') 0 0) (createInboundTurnBuilder True (Some 9000))))).
      request_pair (sample_request ''a'' ''t1'') \<in># turn_pairs turn)"
proof -
  have run: "ingest_turn (\<lambda>_. False) (sample_request ''a'' ''t1'') 0 0 (createInboundTurnBuilder True (Some 9000)) =
     (Aggregated 1, turn_step (\<lambda>_. False) (Turn_ingest (sample_request ''a'' ''t1'') 0 0) (createInboundTurnBuilder True (Some 9000)))"
    by (simp add: turn_eval)
  have "tb_quietWindowMs (createInboundTurnBuilder True (Some 9000)) = 5000" by (simp add: turn_eval)
  then show ?thesis
    using turn_is_emitted_after_quiet_time [of "createInboundTurnBuilder True (Some 9000)" "\<lambda>_. False" "[]", OF _ run] run by simp
qed

end
