(* ===== verification/Inbound_Pipeline.thy ===== *)
theory Inbound_Pipeline imports Inbound_Persistence_Props Turn_Builder_Props begin

text \<open>
  The composition of canonical persistence and turn aggregation: \<open>onCanonicalInbound\<close> of
  \<open>apps/desktop/src/main/bootstrap.ts\<close>. The envelope is stored first; the receipt, with the observation time of
  the stored row, is then offered to the turn builder. Both run in one synchronous call, so a step of the
  pipeline is one envelope, one poll of the expiry driver, or the final stop.
\<close>

record pipeline =
  pl_db :: database
  pl_turns :: turn_builder
  pl_ingested :: nat
  pl_duplicates :: nat
  pl_rejected :: nat
  pl_lastReason :: "persistence_error option"

definition resolved_id :: "string identity_resolution \<Rightarrow> string option" where
  "resolved_id r = (case r of Id_resolved v \<Rightarrow> Some v | _ \<Rightarrow> None)"

definition turn_request_of :: "inbound_envelope \<Rightarrow> receipt \<Rightarrow> database \<Rightarrow> turn_request" where
  "turn_request_of env r db =
     (let lock = ie_lock env in
      \<lparr>tq_status = (case rc_status r of INGESTED \<Rightarrow> Receipt_ingested | DUPLICATE \<Rightarrow> Receipt_duplicate),
       tq_conversationId = rc_conversationId r, tq_messageId = rc_messageId r, tq_platform = Some (il_platform lock),
       tq_merchantId = resolved_id (il_merchantId lock), tq_storeId = resolved_id (il_storeId lock),
       tq_platformAccountId = resolved_id (il_platformAccountId lock), tq_customerId = resolved_id (il_platformCustomerId lock),
       tq_observedAt = Option.bind (findMessage (rc_messageId r) db) ms_observedAt, tq_actor = Some ''customer'',
       tq_contentKind = Some (ie_kind env), tq_contentText = Some (ie_text env)\<rparr>)"

text \<open>\<open>now\<close> is the ingestion time of the store, \<open>t\<close> and \<open>t'\<close> the two clock readings of the builder.\<close>

definition onCanonicalInbound ::
  "(string \<Rightarrow> string) \<Rightarrow> (inbound_turn \<Rightarrow> bool) \<Rightarrow> string \<Rightarrow> int \<Rightarrow> int \<Rightarrow> inbound_envelope \<Rightarrow> pipeline \<Rightarrow>
   (persistence_error + receipt) \<times> pipeline" where
  "onCanonicalInbound digest sk now t t' env s =
     (case ingest_inbound digest now env (pl_db s) of
        (Inl e, db) \<Rightarrow> (Inl e, s\<lparr>pl_db := db, pl_rejected := Suc (pl_rejected s), pl_lastReason := Some e\<rparr>)
      | (Inr r, db) \<Rightarrow>
          let s1 = s\<lparr>pl_db := db,
                     pl_ingested := (if rc_status r = INGESTED then Suc (pl_ingested s) else pl_ingested s),
                     pl_duplicates := (if rc_status r = INGESTED then pl_duplicates s else Suc (pl_duplicates s))\<rparr>
          in (Inr r, if tb_enabled (pl_turns s1)
                     then s1\<lparr>pl_turns := snd (ingest_turn sk (turn_request_of env r db) t t' (pl_turns s1))\<rparr>
                     else s1))"

datatype pipeline_event =
    Envelope_in string int int inbound_envelope
  | Expiry_tick int
  | Pipeline_stop

fun pipeline_step :: "(string \<Rightarrow> string) \<Rightarrow> (inbound_turn \<Rightarrow> bool) \<Rightarrow> pipeline_event \<Rightarrow> pipeline \<Rightarrow> pipeline" where
  "pipeline_step digest sk (Envelope_in now t t' env) s = snd (onCanonicalInbound digest sk now t t' env s)"
| "pipeline_step digest sk (Expiry_tick t) s = s\<lparr>pl_turns := snd (poll_turns sk t (pl_turns s))\<rparr>"
| "pipeline_step digest sk Pipeline_stop s = s\<lparr>pl_turns := stop_turns (pl_turns s)\<rparr>"

definition new_pipeline :: "bool \<Rightarrow> int option \<Rightarrow> database \<Rightarrow> pipeline" where
  "new_pipeline en quiet db = \<lparr>pl_db = db, pl_turns = createInboundTurnBuilder en quiet, pl_ingested = 0, pl_duplicates = 0,
     pl_rejected = 0, pl_lastReason = None\<rparr>"

subsection \<open>Every message in at most one turn\<close>

definition turn_messages :: "turn_builder \<Rightarrow> string multiset" where
  "turn_messages s = image_mset snd (emitted_pairs s + open_pairs s)"

text \<open>Every message in a turn or window is stored, and is there once.\<close>

definition pipeline_inv :: "pipeline \<Rightarrow> bool" where
  "pipeline_inv s \<longleftrightarrow> builder_inv (pl_turns s) \<and> set_mset (turn_messages (pl_turns s)) \<subseteq> message_ids (pl_db s)
     \<and> (\<forall>i. count (turn_messages (pl_turns s)) i \<le> 1)"

lemma request_pair_message:
  assumes "is_aggregated (fst (ingest_turn sk q t t' s))"
  shows "snd (request_pair q) = tq_messageId q" and "tq_status q = Receipt_ingested"
proof -
  obtain u where a: "is_aggregated (fst (admit q t' u))"
    using assms by (cases rule: ingest_turn_cases [where sk = sk and q = q and now = t and now' = t' and s = s]) (auto simp: refuse_def)
  show "tq_status q = Receipt_ingested" using a by (cases "tq_status q") (simp_all add: admit_def)
  obtain ident mid where "request_identity q = Some (ident, mid)"
    using a by (cases rule: admit_cases [where q = q and now = t' and s = u]) auto
  then show "snd (request_pair q) = tq_messageId q"
    by (auto simp: request_pair_def request_identity_def cleanString_def split: option.splits if_splits)
qed

lemma ingest_turn_messages:
  assumes "builder_inv s"
  shows "turn_messages (snd (ingest_turn sk q t t' s)) = turn_messages s +
    (if is_aggregated (fst (ingest_turn sk q t t' s)) then {#tq_messageId q#} else {#})"
  using ingest_turn_effect [OF assms, of sk q t t'] request_pair_message [of sk q t t' s] by (auto simp: turn_messages_def)

lemma fresh_message:
  assumes fresh: "i \<notin> message_ids db" and sub: "set_mset ms \<subseteq> message_ids db" and one: "\<forall>j. count ms j \<le> 1"
  shows "\<forall>j. count (ms + {#i#}) j \<le> 1"
proof
  fix j
  have "i \<notin># ms" using fresh sub by blast
  then show "count (ms + {#i#}) j \<le> 1" using one by (cases "j = i") (simp_all add: not_in_iff)
qed

lemma receipt_message:
  "ingest_inbound digest now env db = (Inr r, db') \<Longrightarrow> rc_messageId r = msg_id digest env"
proof -
  assume run: "ingest_inbound digest now env db = (Inr r, db')"
  then obtain m s a c where st: "storable env = Some (m, s, a, c)"
    using ingest_not_storable [of env digest now db] by (cases "storable env") auto
  then show ?thesis
    using run by (auto simp: ingest_storable [OF st] ingest_resolved_def Let_def msg_id_def conv_of_storable [OF st] split: if_splits sum.splits)
qed

lemma envelope_step_inv:
  assumes inv: "pipeline_inv s"
  shows "pipeline_inv (snd (onCanonicalInbound digest sk now t t' env s))"
proof -
  obtain res db where run: "ingest_inbound digest now env (pl_db s) = (res, db)" by (cases "ingest_inbound digest now env (pl_db s)")
  note eff = ingest_effect [OF run]
  show ?thesis
  proof (cases res)
    case (Inl e)
    then show ?thesis using inv run eff by (simp add: onCanonicalInbound_def pipeline_inv_def)
  next
    case (Inr r)
    let ?q = "turn_request_of env r db" and ?b = "pl_turns s"
    let ?b1 = "snd (ingest_turn sk ?q t t' ?b)"
    have b: "builder_inv ?b" and sub: "set_mset (turn_messages ?b) \<subseteq> message_ids (pl_db s)" and one: "\<forall>i. count (turn_messages ?b) i \<le> 1"
      using inv by (simp_all add: pipeline_inv_def)
    have ids: "message_ids db = insert (msg_id digest env) (message_ids (pl_db s))"
      and dup: "rc_status r = DUPLICATE \<longleftrightarrow> msg_id digest env \<in> message_ids (pl_db s)" using eff Inr by simp_all
    have mid: "tq_messageId ?q = msg_id digest env" using receipt_message [of digest now env "pl_db s"] run Inr by (simp add: turn_request_of_def Let_def)
    have msgs: "turn_messages ?b1 = turn_messages ?b + (if is_aggregated (fst (ingest_turn sk ?q t t' ?b)) then {#msg_id digest env#} else {#})"
      using ingest_turn_messages [OF b] mid by simp
    have "\<forall>i. count (turn_messages ?b1) i \<le> 1"
    proof (cases "is_aggregated (fst (ingest_turn sk ?q t t' ?b))")
      case True
      then have "rc_status r = INGESTED" using request_pair_message(2) [OF True] by (cases "rc_status r") (simp_all add: turn_request_of_def Let_def)
      then have "msg_id digest env \<notin> message_ids (pl_db s)" using dup by auto
      then show ?thesis using fresh_message [OF _ sub one] True msgs by simp
    next
      case False
      then show ?thesis using msgs one by simp
    qed
    moreover have "set_mset (turn_messages ?b1) \<subseteq> message_ids db" using msgs sub ids by auto
    moreover have "builder_inv ?b1" using ingest_turn_effect [OF b] by blast
    ultimately have "pipeline_inv (s\<lparr>pl_db := db, pl_turns := ?b1\<rparr>)" by (simp add: pipeline_inv_def)
    moreover have "pipeline_inv (s\<lparr>pl_db := db\<rparr>)" using b sub one ids by (auto simp: pipeline_inv_def)
    ultimately show ?thesis using run Inr by (simp add: onCanonicalInbound_def Let_def pipeline_inv_def)
  qed
qed

lemma poll_messages: "builder_inv s \<Longrightarrow> turn_messages (snd (poll_turns sk t s)) = turn_messages s"
  using emitExpired_pairs [of s sk t, THEN arg_cong, of "image_mset snd"] by (simp add: turn_messages_def poll_turns_def)

lemma pipeline_step_inv: "pipeline_inv s \<Longrightarrow> pipeline_inv (pipeline_step digest sk e s)"
proof (cases e)
  case (Envelope_in now t t' env)
  moreover assume "pipeline_inv s"
  ultimately show ?thesis by (simp add: envelope_step_inv)
next
  case (Expiry_tick t)
  moreover assume inv: "pipeline_inv s"
  moreover have "builder_inv (snd (poll_turns sk t (pl_turns s)))"
    using inv emitExpired_inv by (simp add: poll_turns_def pipeline_inv_def)
  ultimately show ?thesis by (simp add: pipeline_inv_def poll_messages)
next
  case Pipeline_stop
  assume inv: "pipeline_inv s"
  have "turn_messages (stop_turns (pl_turns s)) \<subseteq># turn_messages (pl_turns s)"
    by (simp add: turn_messages_def stop_turns_def emitted_pairs_def open_pairs_def)
  then have "set_mset (turn_messages (stop_turns (pl_turns s))) \<subseteq> set_mset (turn_messages (pl_turns s))"
    "\<forall>i. count (turn_messages (stop_turns (pl_turns s))) i \<le> count (turn_messages (pl_turns s)) i"
    by (simp_all add: set_mset_mono mset_subset_eq_count)
  moreover have "builder_inv (stop_turns (pl_turns s))" using inv by (simp add: pipeline_inv_def stop_turns_def builder_inv_def)
  ultimately show ?thesis using inv Pipeline_stop unfolding pipeline_inv_def by (auto intro: order_trans)
qed

interpretation pipeline_sys: step_invariant "pipeline_step digest sk" pipeline_inv "\<lambda>_. True" for digest sk
  by unfold_locales (rule pipeline_step_inv)

lemma new_pipeline_inv: "pipeline_inv (new_pipeline en quiet db)"
proof -
  have "turn_messages (createInboundTurnBuilder en quiet) = {#}"
    by (simp add: turn_messages_def emitted_pairs_def open_pairs_def createInboundTurnBuilder_def)
  then show ?thesis by (simp add: new_pipeline_def pipeline_inv_def new_builder_inv)
qed

lemma turn_message_counted: "turn \<in> set (tb_emitted s) \<Longrightarrow> i \<in> set (tt_source_message_ids turn) \<Longrightarrow> i \<in># turn_messages s"
proof -
  assume turn: "turn \<in> set (tb_emitted s)" and i: "i \<in> set (tt_source_message_ids turn)"
  have "(window_key (tt_identity_lock turn), i) \<in># turn_pairs turn" using i by (simp add: turn_pairs_def)
  then have "(window_key (tt_identity_lock turn), i) \<in># emitted_pairs s"
    using turn by (auto simp: emitted_pairs_def set_mset_sum_list)
  then show ?thesis by (force simp: turn_messages_def)
qed

text \<open>
  Property C18. End to end, over any sequence of envelopes, expiry ticks and a stop, from any database
  and whether or not SHA-256 collides: every message listed in an emitted turn has a row in the message
  table, and no message is in two turns, or twice in one, or in a turn and in an open window.
\<close>

theorem stored_message_is_in_one_turn:
  assumes "s = run (pipeline_step digest sk) es (new_pipeline en quiet db)"
  shows "(\<forall>turn \<in> set (tb_emitted (pl_turns s)). set (tt_source_message_ids turn) \<subseteq> message_ids (pl_db s))
    \<and> (\<forall>i. count (turn_messages (pl_turns s)) i \<le> 1)"
proof -
  have inv: "pipeline_inv s" unfolding assms by (rule pipeline_sys.run_keeps [OF new_pipeline_inv]) simp
  then show ?thesis
    using turn_message_counted [of _ "pl_turns s"] by (auto simp: pipeline_inv_def)
qed

definition sample_pipeline_run :: "pipeline_event list" where
  "sample_pipeline_run = [Envelope_in ''t1'' 0 0 sample_envelope, Envelope_in ''t2'' 1 1 sample_envelope, Expiry_tick 9000]"

lemma sample_pipeline:
  "map tt_source_message_ids (tb_emitted (pl_turns (run (pipeline_step (\<lambda>t. t) (\<lambda>_. False)) sample_pipeline_run (new_pipeline True None sample_db))))
     = [[msg_id (\<lambda>t. t) sample_envelope]]"
proof -
  define mid where "mid = msg_id (\<lambda>t. t) sample_envelope"
  define row where "row = stored_row (\<lambda>t. t) ''t1'' sample_envelope ''conv-1''"
  define dk where "dk = hashId (\<lambda>t. t) (dedupe_parts sample_envelope ''conv-1'')"
  have "hd mid = CHR ''m''" "mid \<noteq> []" by (simp_all add: mid_def msg_id_def message_id_of_def)
  then have clean: "cleanString (Some mid) = Some mid"
    by (cases mid) (auto simp: cleanString_def js_trim_Nil_iff is_ws_def)
  let ?r = "\<lambda>st. \<lparr>rc_status = st, rc_conversationId = ''conv-1'', rc_messageId = mid, rc_dedupeKey = dk\<rparr>"
  define db1 where "db1 = sample_db\<lparr>db_conversations := [\<lparr>nc_id = ''conv-1'', nc_merchantId = ''m1'', nc_storeId = ''st1'', nc_platformAccountId = ''acc1'', nc_externalRef = None\<rparr>],
                  db_messages := [row]\<rparr>"
  have r: "mr_id row = mid" "mr_observed_at row = Some ''t1''"
    by (simp_all add: row_def mid_def stored_row_def msg_id_def conv_of_storable [OF sample_storable])
  have ext: "conversationExternalRef (il_runtimeConversationReference (ie_lock sample_envelope)) = None"
    by (simp add: sample_envelope_def conversationExternalRef_def)
  have one: "ingest_inbound (\<lambda>t. t) ''t1'' sample_envelope sample_db = (Inr (?r INGESTED), db1)"
    by (simp add: ingest_storable [OF sample_storable] ingest_resolved_def Let_def sample_db_def findConversation_def findMessage_def ext
        saveConversation_def saveMessage_def msg_id_def conv_of_storable [OF sample_storable] message_row_of_def stored_row_def mid_def dk_def row_def db1_def)
  have two: "ingest_inbound (\<lambda>t. t) ''t2'' sample_envelope db1 = (Inr (?r DUPLICATE), db1)"
    using r(1) by (simp add: ingest_storable [OF sample_storable] ingest_resolved_def Let_def sample_db_def findConversation_def findMessage_def
        msg_id_def conv_of_storable [OF sample_storable] mid_def dk_def db1_def)
  have "Option.bind (findMessage mid db1) ms_observedAt = Some ''t1''"
    using r by (simp add: findMessage_def mapMsgRow_def db1_def)
  then have q: "turn_request_of sample_envelope (?r INGESTED) db1 = (sample_request mid ''t1'')\<lparr>tq_conversationId := ''conv-1'', tq_contentText := Some ''hello''\<rparr>"
      and dup: "tq_status (turn_request_of sample_envelope (?r DUPLICATE) db1) = Receipt_duplicate"
    by (simp_all add: turn_request_of_def Let_def sample_request_def) (simp add: sample_envelope_def resolved_id_def)
  show ?thesis
    unfolding mid_def [symmetric]
    by (simp add: sample_pipeline_run_def onCanonicalInbound_def new_pipeline_def one two q dup Let_def
        createInboundTurnBuilder_def clampQuietWindow_def ingest_turn_def emitExpired_def admit_def)
      (simp add: q sample_request_def request_identity_def clean, simp add: q sample_request_def dup Let_def ingest_turn_def admit_def cleanString_def js_trim_def is_ws_def aggregate_def
        poll_turns_def emitExpired_def emit_window_def turn_of_window_def order_messages_def map_delete_def Let_def)
qed

theorem stored_message_is_in_one_turn_witness:
  "map tt_source_message_ids (tb_emitted (pl_turns (run (pipeline_step (\<lambda>t. t) (\<lambda>_. False)) sample_pipeline_run (new_pipeline True None sample_db))))
     = [[msg_id (\<lambda>t. t) sample_envelope]]
   \<and> (\<forall>i. count (turn_messages (pl_turns (run (pipeline_step (\<lambda>t. t) (\<lambda>_. False)) sample_pipeline_run (new_pipeline True None sample_db)))) i \<le> 1)"
  using stored_message_is_in_one_turn [OF refl] sample_pipeline by blast

end
