(* ===== verification/Feedback.thy ===== *)
theory Feedback imports Prelude "HOL-Library.List_Lexorder" "HOL-Library.Char_ord" begin

text \<open>
  The feedback service, \<open>packages/feedback/src\<close>: the table of effects per intent class, the bounded
  idempotency set, the retry policy, and \<open>FeedbackService\<close> over the SQLite repository
  \<open>packages/persistence/src/sqlite/sqlite-feedback-repository.ts\<close>.

  \<open>applyEffect\<close> is cut at its two awaits: \<open>fb_calls\<close> holds the flows whose knowledge client call is in
  progress, \<open>fb_timers\<close> the flows that sleep before the next attempt. A flow is one call of \<open>handle\<close> or
  \<open>retry\<close>; its result is recorded in \<open>fb_results\<close>. Class and trust strings are kept as strings, as in the
  code, whose table is looked up by the class string. \<open>fb_clientLog\<close> records the calls made to the
  knowledge client, with the flow that made them.
\<close>

subsection \<open>Effect policy\<close>

datatype knowledge_op = Op_none | Op_append | Op_insert

datatype index_refresh = Refresh_none | Refresh_incremental | Refresh_deferred

record intent_effect =
  ie_knowledge_op :: knowledge_op
  ie_knowledge_trust :: string
  ie_record_trust :: string
  ie_record_written :: bool
  ie_index_refresh :: index_refresh

record feedback_intent =
  fi_class :: string
  fi_trust :: string
  fi_conversationId :: "string option"
  fi_shopId :: "string option"
  fi_reply :: "string option"
  fi_question :: "string option"

definition EFFECTS :: "(string \<times> intent_effect) list" where
  "EFFECTS =
    [(''AUTO'', \<lparr>ie_knowledge_op = Op_append, ie_knowledge_trust = ''AUTO'', ie_record_trust = ''AUTO'',
        ie_record_written = True, ie_index_refresh = Refresh_none\<rparr>),
     (''MANUAL'', \<lparr>ie_knowledge_op = Op_append, ie_knowledge_trust = ''HUMAN_CONFIRMED'', ie_record_trust = ''HUMAN_CONFIRMED'',
        ie_record_written = True, ie_index_refresh = Refresh_none\<rparr>),
     (''NO_SAVE'', \<lparr>ie_knowledge_op = Op_none, ie_knowledge_trust = '''', ie_record_trust = '''',
        ie_record_written = False, ie_index_refresh = Refresh_none\<rparr>),
     (''CORRECTION'', \<lparr>ie_knowledge_op = Op_insert, ie_knowledge_trust = ''HUMAN_CONFIRMED'', ie_record_trust = ''HUMAN_CONFIRMED'',
        ie_record_written = True, ie_index_refresh = Refresh_incremental\<rparr>),
     (''AUDIT_APPROVE'', \<lparr>ie_knowledge_op = Op_insert, ie_knowledge_trust = ''HUMAN_CONFIRMED'', ie_record_trust = ''HUMAN_CONFIRMED'',
        ie_record_written = True, ie_index_refresh = Refresh_incremental\<rparr>),
     (''RESTORE'', \<lparr>ie_knowledge_op = Op_append, ie_knowledge_trust = ''AUTO'', ie_record_trust = ''AUTO'',
        ie_record_written = True, ie_index_refresh = Refresh_deferred\<rparr>)]"

definition effectForIntent :: "feedback_intent \<Rightarrow> intent_effect" where
  "effectForIntent i = (case map_of EFFECTS (fi_class i) of Some e \<Rightarrow> e
     | None \<Rightarrow> \<lparr>ie_knowledge_op = Op_none, ie_knowledge_trust = '''', ie_record_trust = fi_trust i,
                ie_record_written = True, ie_index_refresh = Refresh_none\<rparr>)"

definition isNoSave :: "feedback_intent \<Rightarrow> bool" where
  "isNoSave i \<longleftrightarrow> fi_class i = ''NO_SAVE''"

subsection \<open>Retry policy\<close>

definition shouldRetry :: "nat \<Rightarrow> nat \<Rightarrow> string option \<Rightarrow> bool" where
  "shouldRetry maxAttempts attempt lastError =
     (if attempt \<ge> maxAttempts then False
      else case lastError of None \<Rightarrow> False
           | Some e \<Rightarrow> e \<noteq> [] \<and> \<not> js_includes e ''FAILED_FINAL'')"

definition feedback_nextDelayMs :: "nat \<Rightarrow> nat" where
  "feedback_nextDelayMs attempt = min (200 * 2 ^ attempt) 2000"

subsection \<open>The repository\<close>

datatype effect_status = Effect_pending | Effect_applied | Effect_failed_retryable | Effect_failed_final

record feedback_record =
  fr_record_id :: string
  fr_conversation_id :: string
  fr_class :: string
  fr_trust_level :: string
  fr_created_at :: string
  fr_effect_status :: effect_status
  fr_attempts :: nat
  fr_last_error :: string
  fr_applied_at :: "string option"

datatype feedback_error = Feedback_retry_exhausted string | Feedback_insert_failed

definition feedback_add :: "feedback_record \<Rightarrow> feedback_record list \<Rightarrow> feedback_error + feedback_record list" where
  "feedback_add r rows = (if fr_record_id r \<in> set (map fr_record_id rows) then Inl Feedback_insert_failed else Inr (rows @ [r]))"

text \<open>\<open>ORDER BY created_at DESC LIMIT n\<close>; ties in insertion order.\<close>

definition feedback_list :: "nat \<Rightarrow> feedback_record list \<Rightarrow> feedback_record list" where
  "feedback_list limit rows = take limit (rev (sort_key fr_created_at (rev rows)))"

text \<open>\<open>COALESCE\<close> keeps the old attempts and time when none is given.\<close>

definition updateEffectStatus :: "string \<Rightarrow> effect_status \<Rightarrow> nat option \<Rightarrow> string option \<Rightarrow> string option \<Rightarrow>
    feedback_record list \<Rightarrow> feedback_record list" where
  "updateEffectStatus recordId status attempts lastError appliedAt rows =
     map (\<lambda>r. if fr_record_id r = recordId
       then r\<lparr>fr_effect_status := status,
              fr_attempts := (case attempts of None \<Rightarrow> fr_attempts r | Some n \<Rightarrow> n),
              fr_last_error := (case lastError of None \<Rightarrow> [] | Some e \<Rightarrow> e),
              fr_applied_at := (case appliedAt of None \<Rightarrow> fr_applied_at r | Some t \<Rightarrow> Some t)\<rparr>
       else r) rows"

subsection \<open>Idempotency\<close>

text \<open>A \<open>Set\<close> in insertion order.\<close>

definition isDuplicate :: "string \<Rightarrow> string list \<Rightarrow> bool" where
  "isDuplicate recordId seen \<longleftrightarrow> recordId \<in> set seen"

definition mark :: "nat \<Rightarrow> string \<Rightarrow> string list \<Rightarrow> string list" where
  "mark maxSize recordId seen =
     (let seen = (if recordId \<in> set seen then seen else seen @ [recordId])
      in if length seen > maxSize then tl seen else seen)"

definition isEffectApplied :: "string \<Rightarrow> feedback_record list \<Rightarrow> bool" where
  "isEffectApplied recordId rows =
     (case List.find (\<lambda>r. fr_record_id r = recordId) (feedback_list 10000 rows) of
        None \<Rightarrow> False | Some r \<Rightarrow> fr_effect_status r = Effect_applied)"

subsection \<open>The service\<close>

record knowledge_request =
  kr_record_id :: string
  kr_conversation_id :: string
  kr_class :: string
  kr_trust_level :: string
  kr_question :: string
  kr_answer :: string
  kr_product_id :: string
  kr_created_at :: string
  kr_retry :: bool

record knowledge_result =
  kn_ok :: bool
  kn_error :: "string option"

record status_view =
  sv_record_id :: string
  sv_effect_status :: effect_status
  sv_attempts :: nat
  sv_last_error :: "string option"
  sv_applied_at :: "string option"

record effect_flow =
  ef_id :: nat
  ef_request :: knowledge_request
  ef_attempt :: nat

datatype feedback_event =
    Feedback_no_save string
  | Feedback_recorded string string
  | Feedback_applied string

record feedback_state =
  fb_maxAttempts :: nat
  fb_maxSeen :: nat
  fb_rows :: "feedback_record list"
  fb_seen :: "string list"
  fb_calls :: "effect_flow list"
  fb_timers :: "effect_flow list"
  fb_next :: nat
  fb_clientLog :: "(nat \<times> knowledge_request) list"
  fb_events :: "feedback_event list"
  fb_results :: "(nat \<times> (feedback_error + status_view)) list"

definition fb_emit :: "feedback_event \<Rightarrow> feedback_state \<Rightarrow> feedback_state" where
  "fb_emit e s = s\<lparr>fb_events := fb_events s @ [e]\<rparr>"

definition fb_settle :: "nat \<Rightarrow> feedback_error + status_view \<Rightarrow> feedback_state \<Rightarrow> feedback_state" where
  "fb_settle k r s = s\<lparr>fb_results := fb_results s @ [(k, r)]\<rparr>"

text \<open>\<open>applyEffect\<close> up to the call of the knowledge client.\<close>

definition applyEffect_start :: "string \<Rightarrow> effect_flow \<Rightarrow> feedback_state \<Rightarrow> feedback_state" where
  "applyEffect_start now f s =
     (let rid = kr_record_id (ef_request f) in
      if isDuplicate rid (fb_seen s) \<or> isEffectApplied rid (fb_rows s)
      then fb_settle (ef_id f) (Inr \<lparr>sv_record_id = rid, sv_effect_status = Effect_applied, sv_attempts = ef_attempt f,
             sv_last_error = None, sv_applied_at = Some now\<rparr>) s
      else s\<lparr>fb_calls := fb_calls s @ [f], fb_clientLog := fb_clientLog s @ [(ef_id f, ef_request f)]\<rparr>)"

text \<open>\<open>applyEffect\<close> after the client answered; a throw of the client is the result with its message.\<close>

definition applyEffect_answer :: "string \<Rightarrow> knowledge_result \<Rightarrow> effect_flow \<Rightarrow> feedback_state \<Rightarrow> feedback_state" where
  "applyEffect_answer now result f s =
     (let rid = kr_record_id (ef_request f) in
      if kn_ok result then
        fb_settle (ef_id f) (Inr \<lparr>sv_record_id = rid, sv_effect_status = Effect_applied, sv_attempts = ef_attempt f,
            sv_last_error = None, sv_applied_at = Some now\<rparr>)
          (fb_emit (Feedback_applied rid)
            (s\<lparr>fb_seen := mark (fb_maxSeen s) rid (fb_seen s),
               fb_rows := updateEffectStatus rid Effect_applied (Some (ef_attempt f)) None (Some now) (fb_rows s)\<rparr>))
      else
        let lastError = (case kn_error result of None \<Rightarrow> ''unknown'' | Some e \<Rightarrow> e) in
        if shouldRetry (fb_maxAttempts s) (ef_attempt f) (Some lastError) then
          s\<lparr>fb_rows := updateEffectStatus rid Effect_failed_retryable (Some (ef_attempt f)) (Some lastError) None (fb_rows s),
            fb_timers := fb_timers s @ [f\<lparr>ef_request := (ef_request f)\<lparr>kr_retry := True\<rparr>, ef_attempt := ef_attempt f + 1\<rparr>]\<rparr>
        else
          fb_settle (ef_id f) (Inl (Feedback_retry_exhausted lastError))
            (s\<lparr>fb_rows := updateEffectStatus rid Effect_failed_final (Some (ef_attempt f)) (Some lastError) None (fb_rows s)\<rparr>))"

definition new_flow :: "string \<Rightarrow> knowledge_request \<Rightarrow> feedback_state \<Rightarrow> feedback_state" where
  "new_flow now req s =
     applyEffect_start now \<lparr>ef_id = fb_next s, ef_request = req, ef_attempt = 1\<rparr> (s\<lparr>fb_next := fb_next s + 1\<rparr>)"

definition option_or :: "'a option \<Rightarrow> 'a \<Rightarrow> 'a" where
  "option_or v d = (case v of None \<Rightarrow> d | Some x \<Rightarrow> x)"

definition handle :: "string \<Rightarrow> string \<Rightarrow> feedback_intent \<Rightarrow> feedback_state \<Rightarrow> feedback_state" where
  "handle recordId now intent s =
     (let effect = effectForIntent intent in
      if isNoSave intent then
        fb_settle (fb_next s) (Inr \<lparr>sv_record_id = [], sv_effect_status = Effect_applied, sv_attempts = 0,
            sv_last_error = None, sv_applied_at = None\<rparr>)
          (fb_emit (Feedback_no_save (fi_class intent)) (s\<lparr>fb_next := fb_next s + 1\<rparr>))
      else
        case feedback_add \<lparr>fr_record_id = recordId,
               fr_conversation_id = (case fi_conversationId intent of Some c \<Rightarrow> c | None \<Rightarrow> option_or (fi_shopId intent) []),
               fr_class = fi_class intent, fr_trust_level = ie_record_trust effect, fr_created_at = now,
               fr_effect_status = Effect_pending, fr_attempts = 0, fr_last_error = [], fr_applied_at = None\<rparr> (fb_rows s) of
          Inl e \<Rightarrow> fb_settle (fb_next s) (Inl e) (s\<lparr>fb_next := fb_next s + 1\<rparr>)
        | Inr rows \<Rightarrow>
            new_flow now \<lparr>kr_record_id = recordId, kr_conversation_id = option_or (fi_conversationId intent) [],
                kr_class = fi_class intent, kr_trust_level = ie_knowledge_trust effect,
                kr_question = option_or (fi_question intent) [], kr_answer = option_or (fi_reply intent) [],
                kr_product_id = [], kr_created_at = now, kr_retry = False\<rparr>
              (fb_emit (Feedback_recorded recordId (fi_class intent)) (s\<lparr>fb_rows := rows\<rparr>)))"

definition feedback_retry :: "string \<Rightarrow> string \<Rightarrow> knowledge_request \<Rightarrow> feedback_state \<Rightarrow> feedback_state" where
  "feedback_retry recordId now req s = new_flow now (req\<lparr>kr_record_id := recordId, kr_retry := True\<rparr>) s"

definition feedback_status :: "string \<Rightarrow> feedback_state \<Rightarrow> status_view option" where
  "feedback_status recordId s =
     (case List.find (\<lambda>r. fr_record_id r = recordId) (feedback_list 10000 (fb_rows s)) of None \<Rightarrow> None
      | Some r \<Rightarrow> Some \<lparr>sv_record_id = fr_record_id r, sv_effect_status = fr_effect_status r, sv_attempts = fr_attempts r,
                    sv_last_error = Some (fr_last_error r), sv_applied_at = fr_applied_at r\<rparr>)"

subsection \<open>Steps\<close>

datatype feedback_call =
    F_handle string string feedback_intent
  | F_retry string string knowledge_request
  | F_answer string nat knowledge_result
  | F_timer string nat

definition take_flow :: "nat \<Rightarrow> effect_flow list \<Rightarrow> effect_flow option" where
  "take_flow k fs = List.find (\<lambda>f. ef_id f = k) fs"

fun feedback_step :: "feedback_call \<Rightarrow> feedback_state \<Rightarrow> feedback_state" where
  "feedback_step (F_handle rid now i) s = handle rid now i s"
| "feedback_step (F_retry rid now req) s = feedback_retry rid now req s"
| "feedback_step (F_answer now k res) s = (case take_flow k (fb_calls s) of None \<Rightarrow> s
     | Some f \<Rightarrow> applyEffect_answer now res f (s\<lparr>fb_calls := filter (\<lambda>g. ef_id g \<noteq> k) (fb_calls s)\<rparr>))"
| "feedback_step (F_timer now k) s = (case take_flow k (fb_timers s) of None \<Rightarrow> s
     | Some f \<Rightarrow> applyEffect_start now f (s\<lparr>fb_timers := filter (\<lambda>g. ef_id g \<noteq> k) (fb_timers s)\<rparr>))"

definition new_feedback :: feedback_state where
  "new_feedback = \<lparr>fb_maxAttempts = 3, fb_maxSeen = 2048, fb_rows = [], fb_seen = [], fb_calls = [], fb_timers = [],
     fb_next = 0, fb_clientLog = [], fb_events = [], fb_results = []\<rparr>"

end
