(* ===== verification/Feedback_Props.thy ===== *)
theory Feedback_Props imports Feedback begin

text \<open>
  Facts about the feedback service: every flow makes a bounded number of calls to the knowledge client and
  settles exactly once, under every interleaving of flows; and an effect that was applied is not applied
  again while its record is within the bound of the idempotency set.
\<close>

subsection \<open>The accounting of flows\<close>

definition calls_of :: "nat \<Rightarrow> feedback_state \<Rightarrow> nat" where
  "calls_of k s = length (filter (\<lambda>e. fst e = k) (fb_clientLog s))"

definition flow_ids :: "feedback_state \<Rightarrow> nat list" where
  "flow_ids s = map ef_id (fb_calls s) @ map ef_id (fb_timers s) @ map fst (fb_results s)"

text \<open>The invariant, with a set of flows that are between two lists inside a step.\<close>

definition flows_ok :: "nat set \<Rightarrow> feedback_state \<Rightarrow> bool" where
  "flows_ok L s \<longleftrightarrow> distinct (flow_ids s) \<and> set (flow_ids s) = {..<fb_next s} - L
     \<and> (\<forall>f\<in>set (fb_calls s). calls_of (ef_id f) s = ef_attempt f \<and> 1 \<le> ef_attempt f)
     \<and> (\<forall>f\<in>set (fb_timers s). calls_of (ef_id f) s + 1 = ef_attempt f \<and> ef_attempt f \<le> fb_maxAttempts s)
     \<and> (\<forall>k. calls_of k s \<le> fb_maxAttempts s) \<and> (\<forall>k\<ge>fb_next s. calls_of k s = 0)"

lemma find_SomeD: "List.find P xs = Some x \<Longrightarrow> x \<in> set xs \<and> P x"
  by (auto simp: find_Some_iff in_set_conv_nth)

lemma take_flowD: "take_flow k fs = Some f \<Longrightarrow> f \<in> set fs \<and> ef_id f = k"
  unfolding take_flow_def by (drule find_SomeD) auto

lemma map_filter_id: "map ef_id (filter (\<lambda>g. ef_id g \<noteq> k) fs) = filter (\<lambda>i. i \<noteq> k) (map ef_id fs)"
  by (induction fs) auto

lemma flow_counts:
  assumes "flows_ok L s" and "set (flow_ids s) \<inter> L = {}"
  shows "\<forall>g\<in>set (fb_calls s). ef_id g \<notin> L" and "\<forall>g\<in>set (fb_timers s). ef_id g \<notin> L"
  using assms(2) by (auto simp: flow_ids_def)

lemma settle_ok:
  assumes "flows_ok {k} s" and "k < fb_next s"
  shows "flows_ok {} (fb_settle k r s)"
  using assms by (auto simp: flows_ok_def fb_settle_def flow_ids_def calls_of_def)

lemma flows_ok_cong:
  "fb_calls s' = fb_calls s \<Longrightarrow> fb_timers s' = fb_timers s \<Longrightarrow> fb_results s' = fb_results s \<Longrightarrow>
   fb_clientLog s' = fb_clientLog s \<Longrightarrow> fb_next s' = fb_next s \<Longrightarrow> fb_maxAttempts s' = fb_maxAttempts s \<Longrightarrow>
   flows_ok L s \<Longrightarrow> flows_ok L s'"
  by (simp add: flows_ok_def flow_ids_def calls_of_def)

lemma calls_of_new_call:
  "calls_of k (s\<lparr>fb_calls := cs, fb_clientLog := fb_clientLog s @ [(i, req)]\<rparr>) = calls_of k s + (if i = k then 1 else 0)"
  by (simp add: calls_of_def)

lemma add_call_ok:
  assumes "flows_ok {ef_id f} s" and "ef_id f < fb_next s" and "calls_of (ef_id f) s + 1 = ef_attempt f"
    and "ef_attempt f \<le> fb_maxAttempts s"
  shows "flows_ok {} (s\<lparr>fb_calls := fb_calls s @ [f], fb_clientLog := fb_clientLog s @ [(ef_id f, ef_request f)]\<rparr>)"
    (is "flows_ok {} ?s")
proof -
  have ids: "set (flow_ids s) = {..<fb_next s} - {ef_id f}" and dist: "distinct (flow_ids s)"
    using assms(1) by (auto simp: flows_ok_def)
  then have "\<forall>g\<in>set (fb_calls s). ef_id g \<notin> {ef_id f}" "\<forall>g\<in>set (fb_timers s). ef_id g \<notin> {ef_id f}"
    using flow_counts [OF assms(1)] by blast+
  then have other: "\<forall>g\<in>set (fb_calls s). ef_id f \<noteq> ef_id g" "\<forall>g\<in>set (fb_timers s). ef_id f \<noteq> ef_id g"
    by (metis singletonI)+
  have "set (flow_ids ?s) = insert (ef_id f) (set (flow_ids s))" by (auto simp: flow_ids_def)
  then have "set (flow_ids ?s) = {..<fb_next ?s} - {}" using ids assms(2) by auto
  moreover have "distinct (flow_ids ?s)" using dist ids by (auto simp: flow_ids_def)
  ultimately show ?thesis
    using assms other unfolding flows_ok_def calls_of_new_call by simp
qed

lemma add_timer_ok:
  assumes "flows_ok {ef_id f} s" and "ef_id f < fb_next s" and "calls_of (ef_id f) s + 1 = ef_attempt f"
    and "ef_attempt f \<le> fb_maxAttempts s"
  shows "flows_ok {} (s\<lparr>fb_rows := rows, fb_timers := fb_timers s @ [f]\<rparr>)" (is "flows_ok {} ?s")
proof -
  have ids: "set (flow_ids s) = {..<fb_next s} - {ef_id f}" and dist: "distinct (flow_ids s)"
    using assms(1) by (auto simp: flows_ok_def)
  have "set (flow_ids ?s) = insert (ef_id f) (set (flow_ids s))" by (auto simp: flow_ids_def)
  then have "set (flow_ids ?s) = {..<fb_next ?s} - {}" using ids assms(2) by auto
  moreover have "distinct (flow_ids ?s)" using dist ids by (auto simp: flow_ids_def)
  moreover have "calls_of k ?s = calls_of k s" for k by (simp add: calls_of_def)
  ultimately show ?thesis using assms unfolding flows_ok_def by simp
qed

lemma start_ok:
  assumes "flows_ok {ef_id f} s" and "ef_id f < fb_next s" and "calls_of (ef_id f) s + 1 = ef_attempt f"
    and "ef_attempt f \<le> fb_maxAttempts s"
  shows "flows_ok {} (applyEffect_start now f s)"
  using settle_ok [OF assms(1,2)] add_call_ok [OF assms] by (simp add: applyEffect_start_def Let_def)

lemma answer_ok:
  assumes "flows_ok {ef_id f} s" and "ef_id f < fb_next s" and "calls_of (ef_id f) s = ef_attempt f"
  shows "flows_ok {} (applyEffect_answer now res f s)"
proof -
  let ?rid = "kr_record_id (ef_request f)"
  have same: "flows_ok {ef_id f} (fb_emit e (s\<lparr>fb_seen := x, fb_rows := rows\<rparr>))" "flows_ok {ef_id f} (s\<lparr>fb_rows := rows\<rparr>)" for e x rows
    by (rule flows_ok_cong [OF _ _ _ _ _ _ assms(1)], simp_all add: fb_emit_def)+
  have "shouldRetry (fb_maxAttempts s) (ef_attempt f) e \<Longrightarrow> ef_attempt f < fb_maxAttempts s" for e
    by (auto simp: shouldRetry_def split: if_splits)
  then show ?thesis
    using settle_ok [OF same(1)] settle_ok [OF same(2)] assms
      add_timer_ok [of "f\<lparr>ef_request := (ef_request f)\<lparr>kr_retry := True\<rparr>, ef_attempt := ef_attempt f + 1\<rparr>" s]
    by (simp add: applyEffect_answer_def Let_def fb_emit_def Suc_le_eq)
qed

lemma new_flow_ok:
  assumes "flows_ok {} s" and "1 \<le> fb_maxAttempts s"
  shows "flows_ok {} (new_flow now req s)"
  unfolding new_flow_def
proof (rule start_ok)
  show "flows_ok {ef_id \<lparr>ef_id = fb_next s, ef_request = req, ef_attempt = 1\<rparr>} (s\<lparr>fb_next := fb_next s + 1\<rparr>)"
    using assms by (auto simp: flows_ok_def flow_ids_def calls_of_def)
  show "calls_of (ef_id \<lparr>ef_id = fb_next s, ef_request = req, ef_attempt = 1\<rparr>) (s\<lparr>fb_next := fb_next s + 1\<rparr>) + 1 =
      ef_attempt \<lparr>ef_id = fb_next s, ef_request = req, ef_attempt = 1\<rparr>"
    using assms by (auto simp: flows_ok_def calls_of_def)
qed (use assms in auto)

lemma settle_new_ok:
  assumes "flows_ok {} s"
  shows "flows_ok {} (fb_settle (fb_next s) r (s\<lparr>fb_next := fb_next s + 1\<rparr>))"
  using assms by (auto simp: flows_ok_def fb_settle_def flow_ids_def calls_of_def)

lemma remove_call_ok:
  assumes "flows_ok {} s" and "f \<in> set (fb_calls s)"
  shows "flows_ok {ef_id f} (s\<lparr>fb_calls := filter (\<lambda>g. ef_id g \<noteq> ef_id f) (fb_calls s)\<rparr>)"
proof -
  have f: "ef_id f \<in> ef_id ` set (fb_calls s)" using assms(2) by simp
  have "set (flow_ids s) = {..<fb_next s}" "distinct (flow_ids s)" using assms by (auto simp: flows_ok_def)
  then have "ef_id ` set (fb_calls s) \<union> ef_id ` set (fb_timers s) \<union> fst ` set (fb_results s) = {..<fb_next s}"
    and "ef_id f \<notin> ef_id ` set (fb_timers s)" "ef_id f \<notin> fst ` set (fb_results s)"
    using f by (auto simp: flow_ids_def)
  then have "set (flow_ids (s\<lparr>fb_calls := filter (\<lambda>g. ef_id g \<noteq> ef_id f) (fb_calls s)\<rparr>)) = {..<fb_next s} - {ef_id f}"
    by (auto simp: flow_ids_def)
  moreover have "distinct (flow_ids (s\<lparr>fb_calls := filter (\<lambda>g. ef_id g \<noteq> ef_id f) (fb_calls s)\<rparr>))"
    using \<open>distinct (flow_ids s)\<close> by (auto simp: flow_ids_def map_filter_id)
  moreover have "calls_of k (s\<lparr>fb_calls := filter (\<lambda>g. ef_id g \<noteq> ef_id f) (fb_calls s)\<rparr>) = calls_of k s" for k
    by (simp add: calls_of_def)
  ultimately show ?thesis using assms unfolding flows_ok_def by simp
qed

lemma remove_timer_ok:
  assumes "flows_ok {} s" and "f \<in> set (fb_timers s)"
  shows "flows_ok {ef_id f} (s\<lparr>fb_timers := filter (\<lambda>g. ef_id g \<noteq> ef_id f) (fb_timers s)\<rparr>)"
proof -
  have f: "ef_id f \<in> ef_id ` set (fb_timers s)" using assms(2) by simp
  have "set (flow_ids s) = {..<fb_next s}" "distinct (flow_ids s)" using assms by (auto simp: flows_ok_def)
  then have "ef_id ` set (fb_calls s) \<union> ef_id ` set (fb_timers s) \<union> fst ` set (fb_results s) = {..<fb_next s}"
    and "ef_id f \<notin> ef_id ` set (fb_calls s)" "ef_id f \<notin> fst ` set (fb_results s)"
    using f by (auto simp: flow_ids_def)
  then have "set (flow_ids (s\<lparr>fb_timers := filter (\<lambda>g. ef_id g \<noteq> ef_id f) (fb_timers s)\<rparr>)) = {..<fb_next s} - {ef_id f}"
    by (auto simp: flow_ids_def)
  moreover have "distinct (flow_ids (s\<lparr>fb_timers := filter (\<lambda>g. ef_id g \<noteq> ef_id f) (fb_timers s)\<rparr>))"
    using \<open>distinct (flow_ids s)\<close> by (auto simp: flow_ids_def map_filter_id)
  moreover have "calls_of k (s\<lparr>fb_timers := filter (\<lambda>g. ef_id g \<noteq> ef_id f) (fb_timers s)\<rparr>) = calls_of k s" for k
    by (simp add: calls_of_def)
  ultimately show ?thesis using assms unfolding flows_ok_def by simp
qed

lemma maxAttempts_keeps [simp]:
  "fb_maxAttempts (applyEffect_start now f s) = fb_maxAttempts s" "fb_maxAttempts (applyEffect_answer now res f s) = fb_maxAttempts s"
  "fb_maxAttempts (new_flow now req s) = fb_maxAttempts s" "fb_maxAttempts (fb_settle k r s) = fb_maxAttempts s"
  "fb_maxAttempts (fb_emit e s) = fb_maxAttempts s"
  by (simp_all add: applyEffect_start_def applyEffect_answer_def new_flow_def fb_settle_def fb_emit_def Let_def)

lemma handle_ok:
  assumes "flows_ok {} s" and "1 \<le> fb_maxAttempts s"
  shows "flows_ok {} (handle rid now i s)"
proof -
  have new: "flows_ok {} (new_flow now req (fb_emit e (s\<lparr>fb_rows := rows\<rparr>)))" for req e rows
    by (rule new_flow_ok, rule flows_ok_cong [of _ s]) (use assms in \<open>auto simp: fb_emit_def\<close>)
  have silent: "flows_ok {} (fb_settle (fb_next s) r (fb_emit e (s\<lparr>fb_next := fb_next s + 1\<rparr>)))" for e r
    by (rule flows_ok_cong [OF _ _ _ _ _ _ settle_new_ok [OF assms(1), of r]]) (simp_all add: fb_emit_def fb_settle_def)
  show ?thesis
    unfolding handle_def Let_def
    by (cases "isNoSave i")
      (use new silent settle_new_ok [OF assms(1)] in \<open>simp_all split: sum.split\<close>)
qed

definition feedback_inv :: "feedback_state \<Rightarrow> bool" where
  "feedback_inv s \<longleftrightarrow> flows_ok {} s \<and> fb_maxAttempts s = 3 \<and> fb_maxSeen s = 2048"

lemma maxSeen_keeps [simp]:
  "fb_maxSeen (applyEffect_start now f s) = fb_maxSeen s" "fb_maxSeen (applyEffect_answer now res f s) = fb_maxSeen s"
  "fb_maxSeen (new_flow now req s) = fb_maxSeen s" "fb_maxSeen (fb_settle k r s) = fb_maxSeen s"
  "fb_maxSeen (fb_emit e s) = fb_maxSeen s"
  by (simp_all add: applyEffect_start_def applyEffect_answer_def new_flow_def fb_settle_def fb_emit_def Let_def)

lemma handle_keeps [simp]: "fb_maxAttempts (handle rid now i s) = fb_maxAttempts s" "fb_maxSeen (handle rid now i s) = fb_maxSeen s"
  by (simp_all add: handle_def Let_def split: sum.splits)

lemma open_flow_bounds:
  assumes "flows_ok {} s" and "f \<in> set (fb_calls s) \<union> set (fb_timers s)"
  shows "ef_id f < fb_next s" and "ef_attempt f \<le> fb_maxAttempts s"
proof -
  have "ef_id f \<in> set (flow_ids s)" using assms(2) by (auto simp: flow_ids_def)
  then show "ef_id f < fb_next s" using assms(1) by (auto simp: flows_ok_def)
  have "calls_of (ef_id f) s \<le> fb_maxAttempts s" using assms(1) by (simp add: flows_ok_def)
  moreover have "calls_of (ef_id f) s = ef_attempt f \<or> ef_attempt f \<le> fb_maxAttempts s"
    using assms by (auto simp: flows_ok_def)
  ultimately show "ef_attempt f \<le> fb_maxAttempts s" by linarith
qed

lemma feedback_inv_step: "feedback_inv s \<Longrightarrow> feedback_inv (feedback_step c s)"
proof (cases c)
  case (F_handle rid now i)
  then show "feedback_inv s \<Longrightarrow> ?thesis" by (simp add: feedback_inv_def handle_ok)
next
  case (F_retry rid now req)
  then show "feedback_inv s \<Longrightarrow> ?thesis" by (simp add: feedback_inv_def feedback_retry_def new_flow_ok)
next
  case (F_answer now k res)
  show "feedback_inv s \<Longrightarrow> ?thesis"
  proof (cases "take_flow k (fb_calls s)")
    case (Some f)
    assume inv: "feedback_inv s"
    have f: "f \<in> set (fb_calls s)" "ef_id f = k" using take_flowD Some by auto
    have "flows_ok {} (applyEffect_answer now res f (s\<lparr>fb_calls := filter (\<lambda>g. ef_id g \<noteq> ef_id f) (fb_calls s)\<rparr>))"
    proof (rule answer_ok)
      show "flows_ok {ef_id f} (s\<lparr>fb_calls := filter (\<lambda>g. ef_id g \<noteq> ef_id f) (fb_calls s)\<rparr>)"
        using inv f(1) by (intro remove_call_ok) (simp_all add: feedback_inv_def)
      show "ef_id f < fb_next (s\<lparr>fb_calls := filter (\<lambda>g. ef_id g \<noteq> ef_id f) (fb_calls s)\<rparr>)"
        using open_flow_bounds(1) [of s f] inv f(1) by (simp add: feedback_inv_def)
    qed (use inv f(1) in \<open>simp_all add: feedback_inv_def flows_ok_def calls_of_def\<close>)
    with inv f Some F_answer show ?thesis by (simp add: feedback_inv_def)
  qed (use F_answer in simp)
next
  case (F_timer now k)
  show "feedback_inv s \<Longrightarrow> ?thesis"
  proof (cases "take_flow k (fb_timers s)")
    case (Some f)
    assume inv: "feedback_inv s"
    have f: "f \<in> set (fb_timers s)" "ef_id f = k" using take_flowD Some by auto
    have "flows_ok {} (applyEffect_start now f (s\<lparr>fb_timers := filter (\<lambda>g. ef_id g \<noteq> ef_id f) (fb_timers s)\<rparr>))"
    proof (rule start_ok)
      show "flows_ok {ef_id f} (s\<lparr>fb_timers := filter (\<lambda>g. ef_id g \<noteq> ef_id f) (fb_timers s)\<rparr>)"
        using inv f(1) by (intro remove_timer_ok) (simp_all add: feedback_inv_def)
      show "ef_id f < fb_next (s\<lparr>fb_timers := filter (\<lambda>g. ef_id g \<noteq> ef_id f) (fb_timers s)\<rparr>)"
        using open_flow_bounds(1) [of s f] inv f(1) by (simp add: feedback_inv_def)
    qed (use inv f(1) in \<open>auto simp: feedback_inv_def flows_ok_def calls_of_def\<close>)
    with inv f Some F_timer show ?thesis by (simp add: feedback_inv_def)
  qed (use F_timer in simp)
qed

interpretation feedback_flows: step_invariant feedback_step feedback_inv "\<lambda>_. True"
  by unfold_locales (rule feedback_inv_step)

lemma feedback_inv_reachable: "feedback_inv (run feedback_step cs new_feedback)"
  by (rule feedback_flows.run_keeps)
    (auto simp: feedback_inv_def flows_ok_def flow_ids_def calls_of_def new_feedback_def)

subsection \<open>Every flow settles\<close>

text \<open>The number of answers and timers the open flows can still take.\<close>

definition call_weight :: "nat \<Rightarrow> effect_flow \<Rightarrow> nat" where
  "call_weight m f = 2 * (m - ef_attempt f) + 1"

definition timer_weight :: "nat \<Rightarrow> effect_flow \<Rightarrow> nat" where
  "timer_weight m f = 2 * (m - ef_attempt f) + 2"

definition work_left :: "feedback_state \<Rightarrow> nat" where
  "work_left s = sum_list (map (call_weight (fb_maxAttempts s)) (fb_calls s))
     + sum_list (map (timer_weight (fb_maxAttempts s)) (fb_timers s))"

lemma sum_list_remove_flow:
  assumes "distinct (map ef_id fs)" and "f \<in> set fs"
  shows "sum_list (map w fs) = w f + sum_list (map w (filter (\<lambda>g. ef_id g \<noteq> ef_id f) fs) :: nat list)"
  using assms
proof (induction fs)
  case (Cons g fs)
  show ?case
  proof (cases "f = g")
    case True
    then have "\<forall>h\<in>set fs. ef_id h \<noteq> ef_id f" using Cons.prems by (auto simp: image_iff)
    then have "filter (\<lambda>h. ef_id h \<noteq> ef_id f) fs = fs" by (simp add: filter_id_conv)
    with True show ?thesis by simp
  next
    case False
    then have "ef_id g \<noteq> ef_id f" using Cons.prems by (auto simp: image_iff)
    with False Cons show ?thesis by simp
  qed
qed simp

lemma flows_distinct:
  assumes "flows_ok {} s"
  shows "distinct (map ef_id (fb_calls s))" and "distinct (map ef_id (fb_timers s))"
  using assms by (auto simp: flows_ok_def flow_ids_def)

lemma work_left_answer:
  assumes ok: "flows_ok {} s" and f: "take_flow k (fb_calls s) = Some f"
  shows "work_left (feedback_step (F_answer now k res) s) < work_left s"
proof -
  have mem: "f \<in> set (fb_calls s)" "ef_id f = k" using take_flowD f by auto
  let ?s = "s\<lparr>fb_calls := filter (\<lambda>g. ef_id g \<noteq> k) (fb_calls s)\<rparr>"
  have "work_left s = call_weight (fb_maxAttempts s) f + work_left ?s"
    using sum_list_remove_flow [OF flows_distinct(1) [OF ok] mem(1)] mem(2) by (simp add: work_left_def)
  moreover have "work_left (applyEffect_answer now res f ?s) < call_weight (fb_maxAttempts s) f + work_left ?s"
    by (auto simp: applyEffect_answer_def Let_def fb_settle_def fb_emit_def work_left_def call_weight_def timer_weight_def
        shouldRetry_def split: if_splits)
  ultimately show ?thesis using f by simp
qed

lemma work_left_timer:
  assumes ok: "flows_ok {} s" and f: "take_flow k (fb_timers s) = Some f"
  shows "work_left (feedback_step (F_timer now k) s) < work_left s"
proof -
  have mem: "f \<in> set (fb_timers s)" "ef_id f = k" using take_flowD f by auto
  let ?s = "s\<lparr>fb_timers := filter (\<lambda>g. ef_id g \<noteq> k) (fb_timers s)\<rparr>"
  have "work_left s = timer_weight (fb_maxAttempts s) f + work_left ?s"
    using sum_list_remove_flow [OF flows_distinct(2) [OF ok] mem(1)] mem(2) by (simp add: work_left_def)
  moreover have "work_left (applyEffect_start now f ?s) < timer_weight (fb_maxAttempts s) f + work_left ?s"
    by (auto simp: applyEffect_start_def Let_def fb_settle_def work_left_def call_weight_def timer_weight_def)
  ultimately show ?thesis using f by simp
qed

lemma work_left_zero: "work_left s = 0 \<longleftrightarrow> fb_calls s = [] \<and> fb_timers s = []"
  by (cases "fb_calls s"; cases "fb_timers s") (auto simp: work_left_def call_weight_def timer_weight_def)

lemma sum_list_bound: "(\<forall>f\<in>set fs. w f \<le> c) \<Longrightarrow> sum_list (map w fs) \<le> c * length fs" for c :: nat
  by (induction fs) auto

lemma work_left_bound:
  assumes ok: "flows_ok {} s"
  shows "work_left s \<le> 2 * fb_maxAttempts s * (length (fb_calls s) + length (fb_timers s))"
proof -
  let ?c = "2 * fb_maxAttempts s"
  have "\<forall>f\<in>set (fb_calls s). call_weight (fb_maxAttempts s) f \<le> ?c"
  proof
    fix f assume f: "f \<in> set (fb_calls s)"
    then have "1 \<le> ef_attempt f" "ef_attempt f \<le> fb_maxAttempts s"
      using ok open_flow_bounds(2) [OF ok, of f] by (auto simp: flows_ok_def)
    then show "call_weight (fb_maxAttempts s) f \<le> ?c" by (simp add: call_weight_def)
  qed
  moreover have "\<forall>f\<in>set (fb_timers s). timer_weight (fb_maxAttempts s) f \<le> ?c"
  proof
    fix f assume f: "f \<in> set (fb_timers s)"
    then have fa: "calls_of (ef_id f) s + 1 = ef_attempt f" "ef_attempt f \<le> fb_maxAttempts s"
      using ok by (auto simp: flows_ok_def)
    then show "timer_weight (fb_maxAttempts s) f \<le> ?c" by (simp add: timer_weight_def)
  qed
  ultimately show ?thesis
    using sum_list_bound [of "fb_calls s" "call_weight (fb_maxAttempts s)" ?c]
      sum_list_bound [of "fb_timers s" "timer_weight (fb_maxAttempts s)" ?c]
    by (simp add: work_left_def distrib_left)
qed

subsection \<open>The idempotency set\<close>

text \<open>How many entries of the set are younger than a given one.\<close>

definition younger :: "string \<Rightarrow> string list \<Rightarrow> nat" where
  "younger r seen = length (takeWhile (\<lambda>x. x \<noteq> r) (rev seen))"

definition seen_ok :: "nat \<Rightarrow> string list \<Rightarrow> bool" where
  "seen_ok n seen \<longleftrightarrow> distinct seen \<and> length seen \<le> n"

lemma mark_seen_ok: "seen_ok n seen \<Longrightarrow> 0 < n \<Longrightarrow> seen_ok n (mark n x seen)"
  by (auto simp: seen_ok_def mark_def Let_def distinct_tl)

lemma takeWhile_neq_append: "r \<in> set xs \<Longrightarrow> takeWhile (\<lambda>x. x \<noteq> r) (xs @ ys) = takeWhile (\<lambda>x. x \<noteq> r) xs"
  by (induction xs) auto

lemma younger_hd: "distinct (r # xs) \<Longrightarrow> younger r (r # xs) = length xs"
proof -
  assume "distinct (r # xs)"
  then have "\<forall>x\<in>set (rev xs). x \<noteq> r" by auto
  then have "takeWhile (\<lambda>x. x \<noteq> r) (rev xs @ [r]) = rev xs"
    by (subst takeWhile_append2) auto
  then show ?thesis by (simp add: younger_def)
qed

lemma mark_keeps:
  assumes ok: "seen_ok n seen" and r: "r \<in> set seen" and young: "younger r seen + 1 < n"
  shows "r \<in> set (mark n x seen)" and "younger r (mark n x seen) \<le> younger r seen + 1"
proof -
  obtain a rest where seen: "seen = a # rest" using r by (cases seen) auto
  have "r \<in> set (mark n x seen) \<and> younger r (mark n x seen) \<le> younger r seen + 1"
  proof (cases "x \<in> set seen")
    case True
    with ok r show ?thesis by (simp add: mark_def seen_ok_def)
  next
    case False
    then have xr: "x \<noteq> r" using r by blast
    show ?thesis
    proof (cases "length seen < n")
      case True
      with False r xr show ?thesis by (simp add: mark_def younger_def)
    next
      case full: False
      then have len: "length seen = n" using ok by (simp add: seen_ok_def)
      have "a \<noteq> r" using younger_hd [of a rest] young len seen ok by (auto simp: seen_ok_def)
      then have rest: "r \<in> set rest" using r seen by simp
      then have "younger r (rest @ [x]) = younger r seen + 1"
        using takeWhile_neq_append [of r "rev rest" "[a]"] xr seen by (simp add: younger_def)
      with rest False len seen show ?thesis by (simp add: mark_def)
    qed
  qed
  then show "r \<in> set (mark n x seen)" and "younger r (mark n x seen) \<le> younger r seen + 1" by auto
qed

fun is_applied_answer :: "feedback_call \<Rightarrow> bool" where
  "is_applied_answer (F_answer now k res) = kn_ok res"
| "is_applied_answer _ = False"

lemma seen_start [simp]: "fb_seen (applyEffect_start now f s) = fb_seen s"
  by (simp add: applyEffect_start_def Let_def fb_settle_def)

lemma seen_answer: "fb_seen (applyEffect_answer now res f s) =
    (if kn_ok res then mark (fb_maxSeen s) (kr_record_id (ef_request f)) (fb_seen s) else fb_seen s)"
  by (simp add: applyEffect_answer_def Let_def fb_settle_def fb_emit_def)

lemma seen_handle [simp]: "fb_seen (handle rid now i s) = fb_seen s"
  by (simp add: handle_def Let_def fb_settle_def fb_emit_def new_flow_def split: sum.split)

lemma seen_step:
  "fb_seen (feedback_step c s) = fb_seen s \<or>
   (is_applied_answer c \<and> (\<exists>x. fb_seen (feedback_step c s) = mark (fb_maxSeen s) x (fb_seen s)))"
  by (cases c) (auto simp: feedback_retry_def new_flow_def seen_answer split: option.splits)

lemma seen_ok_step: "seen_ok 2048 (fb_seen s) \<and> fb_maxSeen s = 2048 \<Longrightarrow> seen_ok 2048 (fb_seen (feedback_step c s))"
  using seen_step [of c s] mark_seen_ok [of 2048 "fb_seen s"] by auto

lemma maxSeen_step [simp]: "fb_maxSeen (feedback_step c s) = fb_maxSeen s"
  by (cases c) (auto simp: feedback_retry_def split: option.splits)

interpretation seen_bound: step_invariant feedback_step "\<lambda>s. seen_ok 2048 (fb_seen s) \<and> fb_maxSeen s = 2048" "\<lambda>_. True"
  by unfold_locales (auto intro: seen_ok_step)

lemma seen_ok_reachable:
  "seen_ok 2048 (fb_seen (run feedback_step cs new_feedback)) \<and> fb_maxSeen (run feedback_step cs new_feedback) = 2048"
  by (rule seen_bound.run_keeps) (auto simp: new_feedback_def seen_ok_def)

lemma seen_survives:
  assumes "seen_ok 2048 (fb_seen s)" and "fb_maxSeen s = 2048" and "r \<in> set (fb_seen s)"
    and "younger r (fb_seen s) + length (filter is_applied_answer cs) < 2048"
  shows "r \<in> set (fb_seen (run feedback_step cs s))"
  using assms
proof (induction cs arbitrary: s)
  case (Cons c cs)
  consider "fb_seen (feedback_step c s) = fb_seen s" |
    x where "is_applied_answer c" "fb_seen (feedback_step c s) = mark 2048 x (fb_seen s)"
    using seen_step [of c s] Cons.prems(2) by auto
  then have "r \<in> set (fb_seen (feedback_step c s))
      \<and> younger r (fb_seen (feedback_step c s)) + length (filter is_applied_answer cs) < 2048"
  proof cases
    case 1
    with Cons.prems show ?thesis by (auto split: if_splits)
  next
    case 2
    with Cons.prems have "younger r (fb_seen s) + 1 < 2048" by simp
    from mark_keeps [OF Cons.prems(1,3) this, of x] 2 Cons.prems(4) show ?thesis by simp
  qed
  with Cons.IH [of "feedback_step c s"] seen_ok_step [of s c] Cons.prems(1,2) show ?case by simp
qed simp

subsection \<open>Properties\<close>

text \<open>
  Property C33. Feedback effects are retried a bounded number of times. In every reachable state, whatever
  the interleaving of flows, each call of \<open>handle\<close> or \<open>retry\<close> has called the knowledge client at most
  three times; every flow started so far is in exactly one of the states awaiting the client, awaiting the
  timer, settled; each client answer and each timer brings the open flows strictly closer to their end,
  of at most six such events per open flow; and when nothing is left every flow has exactly one result.
\<close>

theorem feedback_retries_are_bounded:
  fixes cs :: "feedback_call list"
  defines "s \<equiv> run feedback_step cs new_feedback"
  shows "calls_of k s \<le> 3
    \<and> distinct (flow_ids s) \<and> set (flow_ids s) = {..<fb_next s}
    \<and> (take_flow k (fb_calls s) = Some f \<longrightarrow> work_left (feedback_step (F_answer now k res) s) < work_left s)
    \<and> (take_flow k (fb_timers s) = Some f \<longrightarrow> work_left (feedback_step (F_timer now k) s) < work_left s)
    \<and> work_left s \<le> 6 * (length (fb_calls s) + length (fb_timers s))
    \<and> (work_left s = 0 \<longrightarrow> distinct (map fst (fb_results s)) \<and> set (map fst (fb_results s)) = {..<fb_next s})"
proof -
  have inv: "flows_ok {} s" "fb_maxAttempts s = 3"
    using feedback_inv_reachable [of cs] by (simp_all add: s_def feedback_inv_def)
  have "calls_of k s \<le> 3" "distinct (flow_ids s)" "set (flow_ids s) = {..<fb_next s}"
    using inv by (auto simp: flows_ok_def)
  moreover have "work_left s = 0 \<longrightarrow> distinct (map fst (fb_results s)) \<and> set (map fst (fb_results s)) = {..<fb_next s}"
    using inv by (auto simp: work_left_zero flows_ok_def flow_ids_def)
  ultimately show ?thesis
    using work_left_answer [OF inv(1), of k f] work_left_timer [OF inv(1), of k f] work_left_bound [OF inv(1)] inv(2) by simp
qed

definition demo_request :: knowledge_request where
  "demo_request = \<lparr>kr_record_id = ''r'', kr_conversation_id = ''c1'', kr_class = ''MANUAL'', kr_trust_level = ''HUMAN_CONFIRMED'',
     kr_question = [], kr_answer = ''yes'', kr_product_id = [], kr_created_at = ''t'', kr_retry = False\<rparr>"

lemmas feedback_run_defs = new_feedback_def feedback_retry_def new_flow_def applyEffect_start_def applyEffect_answer_def
  isDuplicate_def isEffectApplied_def feedback_list_def Let_def take_flow_def shouldRetry_def fb_settle_def fb_emit_def
  updateEffectStatus_def mark_def demo_request_def

theorem feedback_retries_are_bounded_witness:
  "take_flow 0 (fb_calls (run feedback_step [F_retry ''r'' ''t'' demo_request] new_feedback)) \<noteq> None
   \<and> work_left (feedback_step (F_answer ''t'' 0 \<lparr>kn_ok = False, kn_error = None\<rparr>)
         (run feedback_step [F_retry ''r'' ''t'' demo_request] new_feedback))
      < work_left (run feedback_step [F_retry ''r'' ''t'' demo_request] new_feedback)"
proof -
  have "take_flow 0 (fb_calls (run feedback_step [F_retry ''r'' ''t'' demo_request] new_feedback)) =
      Some \<lparr>ef_id = 0, ef_request = demo_request\<lparr>kr_retry := True\<rparr>, ef_attempt = 1\<rparr>"
    by (simp add: feedback_run_defs)
  with feedback_retries_are_bounded [of 0 "[F_retry ''r'' ''t'' demo_request]" _ "''t''" "\<lparr>kn_ok = False, kn_error = None\<rparr>"]
  show ?thesis by blast
qed

text \<open>
  An applied effect is not repeated. When the client acknowledges the effect of a record that
  was not marked before, then after any further run in which fewer than 2048 other acknowledgements
  arrive, every new attempt for the same record makes no client call and settles at once as APPLIED.
\<close>

theorem applied_effect_is_not_repeated:
  assumes s: "s = run feedback_step cs new_feedback" and f: "take_flow k (fb_calls s) = Some f"
    and r: "r = kr_record_id (ef_request f)" and new: "r \<notin> set (fb_seen s)" and ok: "kn_ok res"
    and few: "length (filter is_applied_answer ds) < 2048"
    and t: "t = run feedback_step ds (feedback_step (F_answer now k res) s)"
    and g: "kr_record_id (ef_request g) = r"
  shows "fb_clientLog (applyEffect_start later g t) = fb_clientLog t
    \<and> fb_calls (applyEffect_start later g t) = fb_calls t
    \<and> fb_results (applyEffect_start later g t) = fb_results t @ [(ef_id g, Inr \<lparr>sv_record_id = r,
        sv_effect_status = Effect_applied, sv_attempts = ef_attempt g, sv_last_error = None, sv_applied_at = Some later\<rparr>)]"
proof -
  let ?s = "feedback_step (F_answer now k res) s"
  have base: "seen_ok 2048 (fb_seen s)" "fb_maxSeen s = 2048" using seen_ok_reachable [of cs] s by auto
  have seen: "fb_seen ?s = mark 2048 r (fb_seen s)" using f ok r base by (simp add: seen_answer)
  have "younger r (fb_seen ?s) = 0 \<and> r \<in> set (fb_seen ?s)"
    using new base(1) unfolding seen by (cases "fb_seen s") (auto simp: mark_def younger_def seen_ok_def Let_def)
  then have "r \<in> set (fb_seen t)"
    using seen_survives [of ?s r ds] seen_ok_step [of s "F_answer now k res"] base few t
    by (simp del: feedback_step.simps)
  with g show ?thesis by (simp add: applyEffect_start_def isDuplicate_def fb_settle_def)
qed

theorem applied_effect_is_not_repeated_witness:
  "let s = run feedback_step [F_retry ''r'' ''t'' demo_request] new_feedback;
       t = run feedback_step [] (feedback_step (F_answer ''t'' 0 \<lparr>kn_ok = True, kn_error = None\<rparr>) s)
   in fb_clientLog (applyEffect_start ''u'' \<lparr>ef_id = 1, ef_request = demo_request, ef_attempt = 1\<rparr> t) = fb_clientLog t"
proof -
  let ?s = "run feedback_step [F_retry ''r'' ''t'' demo_request] new_feedback"
  have f: "take_flow 0 (fb_calls ?s) = Some \<lparr>ef_id = 0, ef_request = demo_request\<lparr>kr_retry := True\<rparr>, ef_attempt = 1\<rparr>"
    and new: "''r'' \<notin> set (fb_seen ?s)" by (simp_all add: feedback_run_defs)
  have r: "''r'' = kr_record_id (ef_request \<lparr>ef_id = 0, ef_request = demo_request\<lparr>kr_retry := True\<rparr>, ef_attempt = 1\<rparr>)"
    "kr_record_id (ef_request \<lparr>ef_id = 1, ef_request = demo_request, ef_attempt = 1\<rparr>) = ''r''"
    by (simp_all add: demo_request_def)
  have few: "length (filter is_applied_answer []) < 2048" by simp
  show ?thesis
    using applied_effect_is_not_repeated [OF refl f r(1) new, of "\<lparr>kn_ok = True, kn_error = None\<rparr>", OF _ few refl r(2), of "''u''" "''t''"]
    unfolding Let_def by simp
qed

end
