(* ===== verification/Rpc_Framing.thy ===== *)
theory Rpc_Framing imports Prelude begin

text \<open>
  The wire protocol of the AI worker: error model and JSONL framing
  (\<open>packages/worker-rpc/src/protocol/constants.ts\<close>, \<open>errors.ts\<close>, \<open>framing.ts\<close>). \<open>JSON.parse\<close> and
  \<open>JSON.stringify\<close> are parameters: \<open>parse\<close> returns \<open>None\<close> where \<open>JSON.parse\<close> throws. What framing relies on is
  the predicate \<open>json_line\<close>: a printed value is one non-blank line and parses back.
\<close>

subsection \<open>Constants\<close>

definition RPC_PROTOCOL_VERSION :: int where "RPC_PROTOCOL_VERSION = 1"
definition READY_EVENT :: string where "READY_EVENT = ''worker.ready''"
definition DEFAULT_MAX_FRAME_BYTES :: nat where "DEFAULT_MAX_FRAME_BYTES = 1048576"

subsection \<open>Errors\<close>

datatype rpc_error_code =
    NOT_READY | TIMEOUT | CANCELLED | WORKER_CRASHED | PROTOCOL_ERROR | VERSION_UNSUPPORTED
  | METHOD_NOT_FOUND | BACKPRESSURE | FRAME_TOO_LARGE | SHUTDOWN | STARTUP_TIMEOUT

fun code_text :: "rpc_error_code \<Rightarrow> string" where
  "code_text NOT_READY = ''not_ready''"
| "code_text TIMEOUT = ''timeout''"
| "code_text CANCELLED = ''cancelled''"
| "code_text WORKER_CRASHED = ''worker_crashed''"
| "code_text PROTOCOL_ERROR = ''protocol_error''"
| "code_text VERSION_UNSUPPORTED = ''version.unsupported''"
| "code_text METHOD_NOT_FOUND = ''method.unknown''"
| "code_text BACKPRESSURE = ''backpressure''"
| "code_text FRAME_TOO_LARGE = ''payload.oversize''"
| "code_text SHUTDOWN = ''shutdown''"
| "code_text STARTUP_TIMEOUT = ''startup_timeout''"

definition all_codes :: "rpc_error_code list" where
  "all_codes = [NOT_READY, TIMEOUT, CANCELLED, WORKER_CRASHED, PROTOCOL_ERROR, VERSION_UNSUPPORTED,
     METHOD_NOT_FOUND, BACKPRESSURE, FRAME_TOO_LARGE, SHUTDOWN, STARTUP_TIMEOUT]"

datatype rpc_category = Validation | Config | Credentials | Provider | Retrieval | Tool | Timeout_cat
  | Network | Internal | Cancelled_cat | Unknown_cat

record error_spec =
  es_category :: rpc_category
  es_retryable :: bool
  es_message :: string

fun SPECS :: "rpc_error_code \<Rightarrow> error_spec" where
  "SPECS NOT_READY = \<lparr>es_category = Internal, es_retryable = True, es_message = ''worker is not ready''\<rparr>"
| "SPECS TIMEOUT = \<lparr>es_category = Timeout_cat, es_retryable = True, es_message = ''request timed out''\<rparr>"
| "SPECS CANCELLED = \<lparr>es_category = Cancelled_cat, es_retryable = False, es_message = ''request cancelled''\<rparr>"
| "SPECS WORKER_CRASHED = \<lparr>es_category = Internal, es_retryable = True, es_message = ''worker process crashed''\<rparr>"
| "SPECS PROTOCOL_ERROR = \<lparr>es_category = Validation, es_retryable = False, es_message = ''protocol error''\<rparr>"
| "SPECS VERSION_UNSUPPORTED = \<lparr>es_category = Validation, es_retryable = False, es_message = ''unsupported protocol version''\<rparr>"
| "SPECS METHOD_NOT_FOUND = \<lparr>es_category = Validation, es_retryable = False, es_message = ''unknown method''\<rparr>"
| "SPECS BACKPRESSURE = \<lparr>es_category = Internal, es_retryable = True, es_message = ''backpressure: in-flight limit reached''\<rparr>"
| "SPECS FRAME_TOO_LARGE = \<lparr>es_category = Validation, es_retryable = False, es_message = ''frame exceeds maximum size''\<rparr>"
| "SPECS SHUTDOWN = \<lparr>es_category = Internal, es_retryable = False, es_message = ''worker is shutting down''\<rparr>"
| "SPECS STARTUP_TIMEOUT = \<lparr>es_category = Timeout_cat, es_retryable = True, es_message = ''worker failed to become ready in time''\<rparr>"

text \<open>\<open>SPECS[code]\<close> on an arbitrary string.\<close>

definition spec_of :: "string \<Rightarrow> error_spec option" where
  "spec_of code = map_option SPECS (find (\<lambda>c. code_text c = code) all_codes)"

text \<open>An \<open>RpcError\<close>; the details object is a value of type \<open>'j\<close>.\<close>

record 'j rpc_error =
  re_code :: string
  re_message :: string
  re_category :: rpc_category
  re_retryable :: bool
  re_details :: "'j option"
  re_correlationId :: "string option"

record 'j error_opts =
  eo_category :: "rpc_category option"
  eo_retryable :: "bool option"
  eo_details :: "'j option"
  eo_correlationId :: "string option"

definition no_opts :: "'j error_opts" where
  "no_opts = \<lparr>eo_category = None, eo_retryable = None, eo_details = None, eo_correlationId = None\<rparr>"

definition or_else :: "'a option \<Rightarrow> 'a \<Rightarrow> 'a" where
  "or_else v d = (case v of Some x \<Rightarrow> x | None \<Rightarrow> d)"

definition mk_rpc_error :: "string \<Rightarrow> string option \<Rightarrow> 'j error_opts \<Rightarrow> 'j rpc_error" where
  "mk_rpc_error code message opts =
     (let spec = or_else (spec_of code)
            \<lparr>es_category = or_else (eo_category opts) Unknown_cat, es_retryable = or_else (eo_retryable opts) False,
             es_message = or_else message code\<rparr>
      in \<lparr>re_code = code, re_message = or_else message (es_message spec),
          re_category = or_else (eo_category opts) (es_category spec),
          re_retryable = or_else (eo_retryable opts) (es_retryable spec),
          re_details = eo_details opts, re_correlationId = eo_correlationId opts\<rparr>)"

definition rpc_error_of :: "rpc_error_code \<Rightarrow> 'j rpc_error" where
  "rpc_error_of c = mk_rpc_error (code_text c) None no_opts"

record 'j error_shape =
  sh_code :: string
  sh_category :: rpc_category
  sh_message :: string
  sh_retryable :: bool
  sh_details :: "'j option"
  sh_correlation_id :: "string option"

definition toShape :: "'j rpc_error \<Rightarrow> 'j error_shape" where
  "toShape e =
     \<lparr>sh_code = re_code e, sh_category = re_category e, sh_message = re_message e, sh_retryable = re_retryable e,
      sh_details = re_details e,
      sh_correlation_id = (case re_correlationId e of Some c \<Rightarrow> if c = [] then None else Some c | None \<Rightarrow> None)\<rparr>"

text \<open>A thrown value: an \<open>RpcError\<close>, or anything else with the string \<open>code\<close> it may carry and its text.\<close>

datatype 'j thrown = Thrown_rpc "'j rpc_error" | Thrown_other "string option" string

definition toRpcError :: "'j thrown \<Rightarrow> string \<Rightarrow> 'j error_shape" where
  "toRpcError e fallbackCode = (case e of
       Thrown_rpc r \<Rightarrow> toShape r
     | Thrown_other code message \<Rightarrow> toShape (mk_rpc_error (or_else code fallbackCode) (Some message) no_opts))"

lemma spec_of_code: "spec_of (code_text c) = Some (SPECS c)"
  by (cases c) (simp_all add: spec_of_def all_codes_def)

lemma rpc_error_of_fields:
  "re_code (rpc_error_of c) = code_text c" "re_retryable (rpc_error_of c) = es_retryable (SPECS c)"
  "re_category (rpc_error_of c) = es_category (SPECS c)" "re_message (rpc_error_of c) = es_message (SPECS c)"
  by (simp_all add: rpc_error_of_def mk_rpc_error_def spec_of_code no_opts_def or_else_def Let_def)

subsection \<open>Decoding\<close>

datatype 'j decode_outcome = Frame 'j | Malformed string nat | Oversize nat nat

record decoder =
  dc_buffer :: string
  dc_maxFrameBytes :: nat

definition new_decoder :: "nat \<Rightarrow> decoder" where
  "new_decoder mx = \<lparr>dc_buffer = [], dc_maxFrameBytes = mx\<rparr>"

definition newline :: char where "newline = CHR 0x0A"

definition processLine :: "(string \<Rightarrow> 'j option) \<Rightarrow> nat \<Rightarrow> string \<Rightarrow> 'j decode_outcome list" where
  "processLine parse mx line =
     (let frameBytes = utf8_len line in
      if frameBytes > mx then [Oversize frameBytes mx]
      else if js_trim line = [] then []
      else case parse line of None \<Rightarrow> [Malformed line frameBytes] | Some frame \<Rightarrow> [Frame frame])"

text \<open>The loop of \<open>push\<close>: cut at each newline and process the line; the rest stays in the buffer.\<close>

function push_loop :: "(string \<Rightarrow> 'j option) \<Rightarrow> nat \<Rightarrow> string \<Rightarrow> 'j decode_outcome list \<times> string" where
  "push_loop parse mx buffer =
     (if newline \<in> set buffer
      then let line = takeWhile (\<lambda>c. c \<noteq> newline) buffer;
               (os, rest) = push_loop parse mx (drop (length line + 1) buffer)
           in (processLine parse mx line @ os, rest)
      else ([], buffer))"
  by pat_completeness auto
termination
  by (relation "measure (\<lambda>(parse, mx, buffer). length buffer)") (auto dest: length_pos_if_in_set)

declare push_loop.simps [simp del]

definition push :: "(string \<Rightarrow> 'j option) \<Rightarrow> string \<Rightarrow> decoder \<Rightarrow> 'j decode_outcome list \<times> decoder" where
  "push parse chunk d =
     (let mx = dc_maxFrameBytes d;
          (os, rest) = push_loop parse mx (dc_buffer d @ chunk)
      in if length rest > mx then (os @ [Oversize (length rest) mx], d\<lparr>dc_buffer := []\<rparr>)
         else (os, d\<lparr>dc_buffer := rest\<rparr>))"

fun push_all :: "(string \<Rightarrow> 'j option) \<Rightarrow> string list \<Rightarrow> decoder \<Rightarrow> 'j decode_outcome list \<times> decoder" where
  "push_all parse [] d = ([], d)"
| "push_all parse (c # cs) d =
     (let (os, d1) = push parse c d; (ps, d2) = push_all parse cs d1 in (os @ ps, d2))"

subsection \<open>Encoding\<close>

definition encodeFrame :: "('j \<Rightarrow> string) \<Rightarrow> 'j \<Rightarrow> nat \<Rightarrow> 'e rpc_error + string" where
  "encodeFrame stringify obj mx =
     (let line = stringify obj in
      if utf8_len line > mx
      then Inl (mk_rpc_error (code_text FRAME_TOO_LARGE)
             (Some (''frame exceeds maximum size ('' @ show_nat (utf8_len line) @ '' > '' @ show_nat mx @ '')'')) no_opts)
      else Inr (line @ [newline]))"

text \<open>What the framing relies on of JSON printing and parsing, for one value.\<close>

definition json_line :: "('j \<Rightarrow> string) \<Rightarrow> (string \<Rightarrow> 'j option) \<Rightarrow> 'j \<Rightarrow> bool" where
  "json_line stringify parse v \<longleftrightarrow>
     parse (stringify v) = Some v \<and> newline \<notin> set (stringify v) \<and> \<not> blank (stringify v)"

subsection \<open>Lemmas\<close>

lemma push_loop_none: "newline \<notin> set b \<Longrightarrow> push_loop parse mx b = ([], b)"
  by (simp add: push_loop.simps)

lemma push_loop_line:
  assumes "newline \<notin> set l"
  shows "push_loop parse mx (l @ newline # b) =
    (processLine parse mx l @ fst (push_loop parse mx b), snd (push_loop parse mx b))"
proof -
  have "takeWhile (\<lambda>c. c \<noteq> newline) (l @ newline # b) = l"
    using assms by (induction l) auto
  then show ?thesis
    by (subst push_loop.simps) (simp add: Let_def case_prod_beta')
qed

lemma split_first_newline:
  assumes "newline \<in> set b"
  obtains l r where "b = l @ newline # r" and "newline \<notin> set l"
  using split_list_first [OF assms] by blast

text \<open>Feeding a text in two pieces is feeding it at once, as far as the loop goes.\<close>

lemma push_loop_append:
  "push_loop parse mx (a @ c) =
     (fst (push_loop parse mx a) @ fst (push_loop parse mx (snd (push_loop parse mx a) @ c)),
      snd (push_loop parse mx (snd (push_loop parse mx a) @ c)))"
proof (induction a rule: length_induct)
  case (1 a)
  show ?case
  proof (cases "newline \<in> set a")
    case False
    then show ?thesis by (simp add: push_loop_none)
  next
    case True
    then obtain l r where a: "a = l @ newline # r" and l: "newline \<notin> set l"
      by (rule split_first_newline)
    have "push_loop parse mx (r @ c) =
        (fst (push_loop parse mx r) @ fst (push_loop parse mx (snd (push_loop parse mx r) @ c)),
         snd (push_loop parse mx (snd (push_loop parse mx r) @ c)))"
      using "1.IH" a by simp
    then show ?thesis
      using push_loop_line [OF l, of parse mx r] push_loop_line [OF l, of parse mx "r @ c"]
      by (simp add: a)
  qed
qed

lemma push_loop_rest: "newline \<notin> set (snd (push_loop parse mx b))"
proof (induction b rule: length_induct)
  case (1 b)
  show ?case
  proof (cases "newline \<in> set b")
    case True
    then obtain l r where b: "b = l @ newline # r" and l: "newline \<notin> set l"
      by (rule split_first_newline)
    have "newline \<notin> set (snd (push_loop parse mx r))"
      using "1.IH" b by simp
    then show ?thesis by (simp add: b push_loop_line [OF l])
  qed (simp add: push_loop_none)
qed

lemma push_bounded: "length (dc_buffer (snd (push parse c d))) \<le> dc_maxFrameBytes (snd (push parse c d))"
  by (simp add: push_def Let_def case_prod_beta')

text \<open>The lines of a stream: none longer than the limit means no partial line is ever rejected.\<close>

definition short_lines :: "nat \<Rightarrow> string \<Rightarrow> bool" where
  "short_lines mx s \<longleftrightarrow> list_all (\<lambda>l. length l \<le> mx) (js_split [newline] s)"

lemma js_split_line:
  assumes "newline \<notin> set l"
  shows "js_split [newline] (l @ newline # b) = l # js_split [newline] b"
  using assms
proof (induction l)
  case Nil
  then show ?case by (simp add: js_split_match)
next
  case (Cons c l)
  then have "\<not> prefix [newline] (c # l @ newline # b)" by auto
  then show ?case
    using Cons by (subst js_split.simps) simp
qed

lemma js_split_no_newline: "newline \<notin> set b \<Longrightarrow> js_split [newline] b = [b]"
proof (induction b)
  case (Cons c b)
  then have "\<not> prefix [newline] (c # b)" by auto
  with Cons show ?case by (subst js_split.simps) simp
qed simp

lemma short_lines_rest:
  assumes "short_lines mx (b @ c)"
  shows "length (snd (push_loop parse mx b)) \<le> mx \<and> short_lines mx (snd (push_loop parse mx b) @ c)"
  using assms
proof (induction b rule: length_induct)
  case (1 b)
  show ?case
  proof (cases "newline \<in> set b")
    case True
    then obtain l r where b: "b = l @ newline # r" and l: "newline \<notin> set l"
      by (rule split_first_newline)
    have "short_lines mx (r @ c)"
      using "1.prems" js_split_line [OF l, of "r @ c"] by (simp add: b short_lines_def)
    then show ?thesis
      using "1.IH" b push_loop_line [OF l, of parse] by simp
  next
    case False
    have "length b \<le> mx"
    proof (cases "newline \<in> set c")
      case True
      then obtain l r where c: "c = l @ newline # r" and l: "newline \<notin> set l"
        by (rule split_first_newline)
      then have "newline \<notin> set (b @ l)" using False by simp
      then show ?thesis
        using "1.prems" js_split_line [of "b @ l" r] by (simp add: c short_lines_def)
    next
      case no: False
      then have "newline \<notin> set (b @ c)" using False by simp
      then show ?thesis
        using "1.prems" js_split_no_newline [of "b @ c"] by (simp add: short_lines_def)
    qed
    with "1.prems" False show ?thesis by (simp add: push_loop_none)
  qed
qed

lemma push_short:
  assumes "short_lines (dc_maxFrameBytes d) (dc_buffer d @ c @ rest)"
  shows "push parse c d = (fst (push_loop parse (dc_maxFrameBytes d) (dc_buffer d @ c)),
           d\<lparr>dc_buffer := snd (push_loop parse (dc_maxFrameBytes d) (dc_buffer d @ c))\<rparr>)"
  using short_lines_rest [of "dc_maxFrameBytes d" "dc_buffer d @ c" rest parse] assms
  by (simp add: push_def Let_def case_prod_beta')

lemma push_all_short:
  assumes "short_lines (dc_maxFrameBytes d) (dc_buffer d @ concat cs)" and "newline \<notin> set (dc_buffer d)"
  shows "push_all parse cs d = (fst (push_loop parse (dc_maxFrameBytes d) (dc_buffer d @ concat cs)),
           d\<lparr>dc_buffer := snd (push_loop parse (dc_maxFrameBytes d) (dc_buffer d @ concat cs))\<rparr>)"
  using assms
proof (induction cs arbitrary: d)
  case Nil
  then show ?case by (simp add: push_loop_none)
next
  case (Cons c cs)
  let ?mx = "dc_maxFrameBytes d"
  let ?d = "d\<lparr>dc_buffer := snd (push_loop parse ?mx (dc_buffer d @ c))\<rparr>"
  have step: "push parse c d = (fst (push_loop parse ?mx (dc_buffer d @ c)), ?d)"
    using Cons.prems by (intro push_short [where rest = "concat cs"]) simp
  have "short_lines ?mx (dc_buffer ?d @ concat cs)"
    using Cons.prems short_lines_rest [of ?mx "dc_buffer d @ c" "concat cs" parse] by simp
  then have "push_all parse cs ?d = (fst (push_loop parse ?mx (dc_buffer ?d @ concat cs)),
      ?d\<lparr>dc_buffer := snd (push_loop parse ?mx (dc_buffer ?d @ concat cs))\<rparr>)"
    using Cons.IH [of ?d] push_loop_rest [of parse ?mx "dc_buffer d @ c"] by simp
  with step show ?case
    using push_loop_append [of parse ?mx "dc_buffer d @ c" "concat cs"] by simp
qed

lemma processLine_json:
  assumes "json_line stringify parse v" and "utf8_len (stringify v) \<le> mx"
  shows "processLine parse mx (stringify v) = [Frame v]"
  using assms by (auto simp: processLine_def json_line_def blank_def Let_def)

lemma push_loop_frames:
  assumes "\<And>v. v \<in> set vs \<Longrightarrow> json_line stringify parse v \<and> utf8_len (stringify v) \<le> mx"
  shows "push_loop parse mx (concat (map (\<lambda>v. stringify v @ [newline]) vs)) = (map Frame vs, [])"
  using assms
proof (induction vs)
  case Nil
  then show ?case by (simp add: push_loop_none)
next
  case (Cons v vs)
  have "newline \<notin> set (stringify v)"
    using Cons.prems by (simp add: json_line_def)
  then show ?case
    using Cons push_loop_line [of "stringify v" parse] processLine_json [of stringify parse v mx] by simp
qed

lemma short_lines_frames:
  assumes "\<And>v. v \<in> set vs \<Longrightarrow> newline \<notin> set (stringify v) \<and> utf8_len (stringify v) \<le> mx"
  shows "short_lines mx (concat (map (\<lambda>v. stringify v @ [newline]) vs))"
  using assms
proof (induction vs)
  case (Cons v vs)
  then show ?case
    using js_split_line [of "stringify v"] length_le_utf8_len [of "stringify v"]
    by (auto simp: short_lines_def intro: order_trans)
qed (simp add: short_lines_def)

end
