(* ===== verification/Rpc_Pending.thy ===== *)
theory Rpc_Pending imports Rpc_Framing begin

text \<open>
  The pending-request registry of the worker client
  (\<open>packages/worker-rpc/src/client/pending-request-registry.ts\<close>). A promise is a number; the registry
  records what each promise settled with (the first settlement counts, as for every promise), which
  timeout timers and abort listeners are armed, and the calls of the \<open>onTimeout\<close> and \<open>onAbort\<close>
  callbacks. The lemmas show that every armed timer belongs to a pending entry, that a promise
  settles at most once, and that the terminal paths leave nothing behind.
\<close>

datatype 'j rpc_result = Resolved 'j | Failed "'j rpc_error"

record pending_entry =
  pe_method :: string
  pe_promise :: nat
  pe_signal :: bool  \<comment> \<open>an abort listener was added\<close>

record 'j registry_state =
  pr_pending :: "(string \<times> pending_entry) list"  \<comment> \<open>the map, in insertion order\<close>
  pr_next :: nat  \<comment> \<open>the next promise\<close>
  pr_results :: "nat \<Rightarrow> 'j rpc_result option"
  pr_timers :: "(nat \<times> string) list"  \<comment> \<open>armed timers: promise and request id\<close>
  pr_listeners :: "(nat \<times> string) list"  \<comment> \<open>abort listeners\<close>
  pr_notified :: "string list"  \<comment> \<open>calls of \<open>onTimeout\<close> and \<open>onAbort\<close>\<close>

definition new_pending :: "'j registry_state" where
  "new_pending = \<lparr>pr_pending = [], pr_next = 0, pr_results = Map.empty, pr_timers = [], pr_listeners = [],
     pr_notified = []\<rparr>"

definition pending_size :: "'j registry_state \<Rightarrow> nat" where
  "pending_size s = length (pr_pending s)"

definition pending_has :: "string \<Rightarrow> 'j registry_state \<Rightarrow> bool" where
  "pending_has rid s \<longleftrightarrow> rid \<in> fst ` set (pr_pending s)"

text \<open>Settling a promise; a second settlement has no effect.\<close>

definition settle_promise :: "nat \<Rightarrow> 'j rpc_result \<Rightarrow> 'j registry_state \<Rightarrow> 'j registry_state" where
  "settle_promise p r s =
     (if pr_results s p = None then s\<lparr>pr_results := (pr_results s)(p \<mapsto> r)\<rparr> else s)"

text \<open>\<open>clearTimeout\<close>, \<open>removeEventListener\<close> and \<open>pending.delete\<close> for an entry.\<close>

definition clear_entry :: "string \<Rightarrow> pending_entry \<Rightarrow> 'j registry_state \<Rightarrow> 'j registry_state" where
  "clear_entry rid e s =
     s\<lparr>pr_pending := map_delete rid (pr_pending s),
       pr_timers := filter (\<lambda>t. fst t \<noteq> pe_promise e) (pr_timers s),
       pr_listeners := filter (\<lambda>t. fst t \<noteq> pe_promise e) (pr_listeners s)\<rparr>"

definition remove :: "string \<Rightarrow> 'j registry_state \<Rightarrow> 'j registry_state" where
  "remove rid s = (case map_of (pr_pending s) rid of None \<Rightarrow> s | Some e \<Rightarrow> clear_entry rid e s)"

datatype abort_signal = No_signal | Live_signal | Aborted_signal

text \<open>
  \<open>register\<close>: the promise, or the reason of the refusal. With a signal that has already aborted the
  timer is armed and cleared again and the promise rejected.
\<close>

definition register ::
  "string \<Rightarrow> string \<Rightarrow> abort_signal \<Rightarrow> 'j registry_state \<Rightarrow> (string + nat) \<times> 'j registry_state" where
  "register rid method sig s =
     (if pending_has rid s then (Inl (''duplicate active request id: '' @ rid), s)
      else let p = pr_next s; s1 = s\<lparr>pr_next := Suc p\<rparr> in
        if sig = Aborted_signal
        then (Inl ''signal already aborted'', settle_promise p (Failed (rpc_error_of CANCELLED)) (remove rid s1))
        else (Inr p, s1\<lparr>pr_pending := map_set rid \<lparr>pe_method = method, pe_promise = p, pe_signal = (sig = Live_signal)\<rparr> (pr_pending s1),
                        pr_timers := pr_timers s1 @ [(p, rid)],
                        pr_listeners := pr_listeners s1 @ (if sig = Live_signal then [(p, rid)] else [])\<rparr>))"

text \<open>\<open>settle\<close>; an entry in the map is never settled yet, so the test of \<open>entry.settled\<close> is the lookup.\<close>

definition settle :: "string \<Rightarrow> 'j rpc_result \<Rightarrow> 'j registry_state \<Rightarrow> bool \<times> 'j registry_state" where
  "settle rid r s = (case map_of (pr_pending s) rid of
       None \<Rightarrow> (False, s)
     | Some e \<Rightarrow> (True, settle_promise (pe_promise e) r (clear_entry rid e s)))"

fun fail_entries :: "'j rpc_error \<Rightarrow> (string \<times> pending_entry) list \<Rightarrow> 'j registry_state \<Rightarrow> 'j registry_state" where
  "fail_entries err [] s = s"
| "fail_entries err ((rid, e) # es) s =
     fail_entries err es (settle_promise (pe_promise e) (Failed err) (remove rid s))"

definition failAll :: "'j rpc_error \<Rightarrow> 'j registry_state \<Rightarrow> nat \<times> 'j registry_state" where
  "failAll err s = (length (pr_pending s), fail_entries err (pr_pending s) s)"

definition failAllExcept :: "string option \<Rightarrow> 'j rpc_error \<Rightarrow> 'j registry_state \<Rightarrow> nat \<times> 'j registry_state" where
  "failAllExcept keep err s =
     (let es = filter (\<lambda>p. Some (fst p) \<noteq> keep) (pr_pending s) in (length es, fail_entries err es s))"

text \<open>The timer of a promise fires: remove the request, notify, reject.\<close>

definition timer_fires :: "nat \<Rightarrow> 'j registry_state \<Rightarrow> 'j registry_state" where
  "timer_fires p s = (case map_of (pr_timers s) p of
       None \<Rightarrow> s
     | Some rid \<Rightarrow>
         let s1 = remove rid (s\<lparr>pr_timers := filter (\<lambda>t. fst t \<noteq> p) (pr_timers s)\<rparr>);
             s2 = s1\<lparr>pr_notified := pr_notified s1 @ [rid]\<rparr>
         in settle_promise p (Failed (rpc_error_of TIMEOUT)) s2)"

definition signal_aborts :: "nat \<Rightarrow> 'j registry_state \<Rightarrow> 'j registry_state" where
  "signal_aborts p s = (case map_of (pr_listeners s) p of
       None \<Rightarrow> s
     | Some rid \<Rightarrow>
         let s1 = remove rid (s\<lparr>pr_listeners := filter (\<lambda>t. fst t \<noteq> p) (pr_listeners s)\<rparr>);
             s2 = s1\<lparr>pr_notified := pr_notified s1 @ [rid]\<rparr>
         in settle_promise p (Failed (rpc_error_of CANCELLED)) s2)"

datatype 'j pending_event =
    Register string string abort_signal
  | Settle_response string "'j rpc_result"
  | Remove string
  | Fail_all "'j rpc_error"
  | Fail_all_except "string option" "'j rpc_error"
  | Timer_fires nat
  | Signal_aborts nat

definition pending_step :: "'j pending_event \<Rightarrow> 'j registry_state \<Rightarrow> 'j registry_state" where
  "pending_step e s = (case e of
       Register rid m sig \<Rightarrow> snd (register rid m sig s)
     | Settle_response rid r \<Rightarrow> snd (settle rid r s)
     | Remove rid \<Rightarrow> remove rid s
     | Fail_all err \<Rightarrow> snd (failAll err s)
     | Fail_all_except keep err \<Rightarrow> snd (failAllExcept keep err s)
     | Timer_fires p \<Rightarrow> timer_fires p s
     | Signal_aborts p \<Rightarrow> signal_aborts p s)"

subsection \<open>The invariant\<close>

text \<open>
  The armed timers are exactly those of the pending entries, listeners belong to entries with a signal,
  and the promise of a pending entry is open.
\<close>

definition timer_of :: "string \<times> pending_entry \<Rightarrow> nat \<times> string" where
  "timer_of p = (pe_promise (snd p), fst p)"

definition pending_inv :: "'j registry_state \<Rightarrow> bool" where
  "pending_inv s \<longleftrightarrow>
     distinct (map fst (pr_pending s)) \<and> distinct (map (\<lambda>p. pe_promise (snd p)) (pr_pending s)) \<and>
     pr_timers s = map timer_of (pr_pending s) \<and>
     pr_listeners s = map timer_of (filter (\<lambda>p. pe_signal (snd p)) (pr_pending s)) \<and>
     (\<forall>p\<in>set (pr_pending s). pe_promise (snd p) < pr_next s \<and> pr_results s (pe_promise (snd p)) = None) \<and>
     (\<forall>n. pr_next s \<le> n \<longrightarrow> pr_results s n = None)"

lemma new_pending_inv: "pending_inv new_pending"
  by (simp add: pending_inv_def new_pending_def)

lemma map_set_new: "k \<notin> fst ` set ps \<Longrightarrow> map_set k v ps = ps @ [(k, v)]"
  by (induction ps) auto

lemma map_of_entry:
  assumes "pending_inv s"
  shows "map_of (pr_pending s) rid = Some e \<longleftrightarrow> (rid, e) \<in> set (pr_pending s)"
  using assms by (simp add: pending_inv_def)

lemma delete_by_promise:
  assumes "distinct (map fst ps)" and "distinct (map (\<lambda>p. pe_promise (snd p)) ps)" and "(rid, e) \<in> set ps"
  shows "filter (\<lambda>p. pe_promise (snd p) \<noteq> pe_promise e) ps = map_delete rid ps"
  unfolding map_delete_def
proof (rule filter_cong)
  fix q
  assume "q \<in> set ps"
  then have "pe_promise (snd q) = pe_promise (snd (rid, e)) \<longleftrightarrow> q = (rid, e)" and "fst q = fst (rid, e) \<longleftrightarrow> q = (rid, e)"
    using assms unfolding distinct_map by (meson inj_on_eq_iff)+
  then show "pe_promise (snd q) \<noteq> pe_promise e \<longleftrightarrow> fst q \<noteq> rid"
    by simp
qed simp

lemma clear_entry_eq:
  assumes "pending_inv s" and "(rid, e) \<in> set (pr_pending s)"
  shows "clear_entry rid e s = s\<lparr>pr_pending := map_delete rid (pr_pending s),
           pr_timers := map timer_of (map_delete rid (pr_pending s)),
           pr_listeners := map timer_of (filter (\<lambda>p. pe_signal (snd p)) (map_delete rid (pr_pending s)))\<rparr>"
proof -
  have d: "filter (\<lambda>p. pe_promise (snd p) \<noteq> pe_promise e) (pr_pending s) = map_delete rid (pr_pending s)"
    using assms by (intro delete_by_promise) (simp_all add: pending_inv_def)
  have "filter (\<lambda>t. fst t \<noteq> pe_promise e) (map timer_of ps) = map timer_of (filter (\<lambda>p. pe_promise (snd p) \<noteq> pe_promise e) ps)" for ps
    by (simp add: filter_map timer_of_def comp_def)
  then show ?thesis
    using assms(1) d by (simp add: pending_inv_def clear_entry_def filter_filter conj_commute flip: d)
qed

lemma map_delete_subset: "set (map_delete k ps) \<subseteq> set ps"
  by (auto simp: map_delete_def)

lemma distinct_map_filter_delete: "distinct (map f ps) \<Longrightarrow> distinct (map f (map_delete k ps))"
  unfolding map_delete_def by (rule distinct_map_filter)

lemma clear_settle_inv:
  assumes "pending_inv s" and "(rid, e) \<in> set (pr_pending s)"
  shows "pending_inv (clear_entry rid e s)"
    and "pending_inv (settle_promise (pe_promise e) r (clear_entry rid e s))"
proof -
  let ?s = "clear_entry rid e s"
  show inv: "pending_inv ?s"
    using assms map_delete_subset [of rid "pr_pending s"]
    by (auto simp: clear_entry_eq pending_inv_def distinct_map_filter_delete)
  have other: "pe_promise (snd q) \<noteq> pe_promise e" if "q \<in> set (map_delete rid (pr_pending s))" for q
  proof -
    have "filter (\<lambda>p. pe_promise (snd p) \<noteq> pe_promise e) (pr_pending s) = map_delete rid (pr_pending s)"
      using assms by (intro delete_by_promise) (simp_all add: pending_inv_def)
    with that show ?thesis by (metis (mono_tags, lifting) mem_Collect_eq set_filter)
  qed
  have "pe_promise e < pr_next s"
    using assms by (auto simp: pending_inv_def)
  then show "pending_inv (settle_promise (pe_promise e) r ?s)"
    using inv other assms by (auto simp: settle_promise_def pending_inv_def clear_entry_eq)
qed

lemma remove_inv: "pending_inv s \<Longrightarrow> pending_inv (remove rid s)"
  by (auto simp: remove_def map_of_entry clear_settle_inv split: option.splits)

lemma settle_inv: "pending_inv s \<Longrightarrow> pending_inv (snd (settle rid r s))"
  by (auto simp: settle_def map_of_entry clear_settle_inv split: option.splits)

lemma register_inv: "pending_inv s \<Longrightarrow> pending_inv (snd (register rid m sig s))"
proof (cases "pending_has rid s")
  case False
  assume inv: "pending_inv s"
  have new: "rid \<notin> fst ` set (pr_pending s)"
    using False by (simp add: pending_has_def)
  then have none: "map_of (pr_pending s) rid = None"
    by (simp add: map_of_eq_None_iff)
  show ?thesis
  proof (cases "sig = Aborted_signal")
    case True
    with inv False none show ?thesis
      by (auto simp: register_def Let_def remove_def settle_promise_def pending_inv_def)
  next
    case no: False
    from inv have "\<forall>q\<in>set (pr_pending s). pe_promise (snd q) \<noteq> pr_next s"
      by (auto simp: pending_inv_def)
    with inv False no new show ?thesis
      by (auto simp: register_def Let_def pending_inv_def map_set_new timer_of_def)
  qed
qed (simp add: register_def)

lemma fail_entries_inv:
  assumes "pending_inv s" and "set es \<subseteq> set (pr_pending s)" and "distinct (map fst es)"
  shows "pending_inv (fail_entries err es s)"
  using assms
proof (induction es arbitrary: s)
  case (Cons p es)
  obtain rid e where p: "p = (rid, e)" by (cases p)
  have mem: "(rid, e) \<in> set (pr_pending s)"
    using Cons.prems p by simp
  let ?s = "settle_promise (pe_promise e) (Failed err) (clear_entry rid e s)"
  have rem: "remove rid s = clear_entry rid e s"
    using mem map_of_entry [OF Cons.prems(1), of rid e] by (simp add: remove_def)
  have "set es \<subseteq> set (pr_pending ?s)"
    using Cons.prems p mem by (auto simp: settle_promise_def clear_entry_def map_delete_def)
  then have "pending_inv (fail_entries err es ?s)"
    using Cons.IH clear_settle_inv(2) [OF Cons.prems(1) mem] Cons.prems(3) p by simp
  then show ?case by (simp add: p rem)
qed simp

lemma failAll_inv: "pending_inv s \<Longrightarrow> pending_inv (snd (failAll err s))"
  by (simp add: failAll_def fail_entries_inv pending_inv_def [of s])

lemma failAllExcept_inv: "pending_inv s \<Longrightarrow> pending_inv (snd (failAllExcept k err s))"
  by (auto simp: failAllExcept_def Let_def pending_inv_def [of s] intro!: fail_entries_inv distinct_map_filter)

text \<open>An armed timer, or a listener, names the pending entry it belongs to.\<close>

lemma timer_entry:
  assumes "pending_inv s" and "map_of (pr_timers s) p = Some rid"
  shows "\<exists>e. (rid, e) \<in> set (pr_pending s) \<and> pe_promise e = p"
proof -
  have "(p, rid) \<in> timer_of ` set (pr_pending s)"
    using assms by (auto simp: pending_inv_def dest!: map_of_SomeD)
  then show ?thesis by (force simp: timer_of_def)
qed

lemma listener_entry:
  assumes "pending_inv s" and "map_of (pr_listeners s) p = Some rid"
  shows "\<exists>e. (rid, e) \<in> set (pr_pending s) \<and> pe_promise e = p"
proof -
  have "(p, rid) \<in> timer_of ` set (pr_pending s)"
    using assms by (auto simp: pending_inv_def dest!: map_of_SomeD)
  then show ?thesis by (force simp: timer_of_def)
qed

lemma fires_eq:
  assumes "pending_inv s" and "map_of (pr_timers s) p = Some rid" and "(rid, e) \<in> set (pr_pending s)" and "pe_promise e = p"
  shows "timer_fires p s = (settle_promise p (Failed (rpc_error_of TIMEOUT)) (clear_entry rid e s))
           \<lparr>pr_notified := pr_notified s @ [rid]\<rparr>"
  using assms map_of_entry [OF assms(1), of rid e]
  by (simp add: timer_fires_def remove_def clear_entry_def settle_promise_def Let_def filter_filter)

lemma aborts_eq:
  assumes "pending_inv s" and "map_of (pr_listeners s) p = Some rid" and "(rid, e) \<in> set (pr_pending s)" and "pe_promise e = p"
  shows "signal_aborts p s = (settle_promise p (Failed (rpc_error_of CANCELLED)) (clear_entry rid e s))
           \<lparr>pr_notified := pr_notified s @ [rid]\<rparr>"
  using assms map_of_entry [OF assms(1), of rid e]
  by (simp add: signal_aborts_def remove_def clear_entry_def settle_promise_def Let_def filter_filter)

lemma pending_inv_notified: "pending_inv (s\<lparr>pr_notified := n\<rparr>) = pending_inv s"
  by (simp add: pending_inv_def)

lemma timer_fires_inv:
  assumes "pending_inv s"
  shows "pending_inv (timer_fires p s)"
proof (cases "map_of (pr_timers s) p")
  case None
  with assms show ?thesis by (simp add: timer_fires_def)
next
  case (Some rid)
  then obtain e where "(rid, e) \<in> set (pr_pending s)" "pe_promise e = p"
    using timer_entry assms by blast
  with assms Some show ?thesis
    using fires_eq clear_settle_inv(2) pending_inv_notified by metis
qed

lemma signal_aborts_inv:
  assumes "pending_inv s"
  shows "pending_inv (signal_aborts p s)"
proof (cases "map_of (pr_listeners s) p")
  case None
  with assms show ?thesis by (simp add: signal_aborts_def)
next
  case (Some rid)
  then obtain e where "(rid, e) \<in> set (pr_pending s)" "pe_promise e = p"
    using listener_entry assms by blast
  with assms Some show ?thesis
    using aborts_eq clear_settle_inv(2) pending_inv_notified by metis
qed

interpretation pending_sys: step_invariant pending_step pending_inv "\<lambda>_. True"
proof
  fix s :: "'j registry_state" and e
  assume "pending_inv s"
  then show "pending_inv (pending_step e s)"
    by (cases e)
       (simp_all add: pending_step_def register_inv settle_inv remove_inv failAll_inv failAllExcept_inv
         timer_fires_inv signal_aborts_inv)
qed

subsection \<open>Promises settle once\<close>

lemma settle_promise_keeps: "pr_results s p = Some r \<Longrightarrow> pr_results (settle_promise q x s) p = Some r"
  by (auto simp: settle_promise_def)

lemma remove_results [simp]: "pr_results (remove rid s) = pr_results s" "pr_results (clear_entry rid e s) = pr_results s"
  by (simp_all add: remove_def clear_entry_def split: option.splits)

lemma fail_entries_keeps: "pr_results s p = Some r \<Longrightarrow> pr_results (fail_entries err es s) p = Some r"
proof (induction es arbitrary: s)
  case (Cons q es)
  then show ?case by (cases q) (simp add: settle_promise_keeps)
qed simp

lemma step_keeps_result: "pr_results s p = Some r \<Longrightarrow> pr_results (pending_step e s) p = Some r"
  by (cases e)
     (simp_all add: pending_step_def register_def settle_def failAll_def failAllExcept_def timer_fires_def
       signal_aborts_def Let_def settle_promise_keeps fail_entries_keeps split: option.splits)

interpretation settled_sys: step_invariant pending_step "\<lambda>s. pr_results s p = Some r" "\<lambda>_. True" for p r
  by unfold_locales (rule step_keeps_result)

text \<open>\<open>failAll\<close> rejects every pending promise with the error and empties the registry.\<close>

lemma fail_entries_pending:
  assumes "pending_inv s" and "set es \<subseteq> set (pr_pending s)" and "distinct (map fst es)"
  shows "pr_pending (fail_entries err es s) = filter (\<lambda>p. fst p \<notin> fst ` set es) (pr_pending s)"
    and "(rid, e) \<in> set es \<Longrightarrow> pr_results (fail_entries err es s) (pe_promise e) = Some (Failed err)"
proof -
  have "pr_pending (fail_entries err es s) = filter (\<lambda>p. fst p \<notin> fst ` set es) (pr_pending s) \<and>
    ((rid, e) \<in> set es \<longrightarrow> pr_results (fail_entries err es s) (pe_promise e) = Some (Failed err))"
    using assms
  proof (induction es arbitrary: s)
    case (Cons q es)
    obtain rid' e' where q: "q = (rid', e')" by (cases q)
    have mem: "(rid', e') \<in> set (pr_pending s)" using Cons.prems q by simp
    let ?s = "settle_promise (pe_promise e') (Failed err) (clear_entry rid' e' s)"
    have rem: "remove rid' s = clear_entry rid' e' s"
      using mem map_of_entry [OF Cons.prems(1), of rid' e'] by (simp add: remove_def)
    have open1: "pr_results s (pe_promise e') = None"
      using mem Cons.prems(1) by (auto simp: pending_inv_def)
    have "set es \<subseteq> set (pr_pending ?s)"
      using Cons.prems q mem by (auto simp: settle_promise_def clear_entry_def map_delete_def)
    then have IH: "pr_pending (fail_entries err es ?s) = filter (\<lambda>p. fst p \<notin> fst ` set es) (pr_pending ?s) \<and>
      ((rid, e) \<in> set es \<longrightarrow> pr_results (fail_entries err es ?s) (pe_promise e) = Some (Failed err))"
      using Cons.IH clear_settle_inv(2) [OF Cons.prems(1) mem] Cons.prems(3) q by simp
    have "pr_results (fail_entries err es ?s) (pe_promise e') = Some (Failed err)"
      by (rule fail_entries_keeps) (simp add: settle_promise_def open1)
    moreover have "pr_pending ?s = filter (\<lambda>p. fst p \<noteq> rid') (pr_pending s)"
      by (simp add: settle_promise_def clear_entry_def map_delete_def)
    ultimately show ?case
      using IH by (auto simp: q rem filter_filter intro: filter_cong)
  qed simp
  then show "pr_pending (fail_entries err es s) = filter (\<lambda>p. fst p \<notin> fst ` set es) (pr_pending s)"
    and "(rid, e) \<in> set es \<Longrightarrow> pr_results (fail_entries err es s) (pe_promise e) = Some (Failed err)"
    by simp_all
qed

lemma failAll_empties:
  assumes "pending_inv s"
  shows "pr_pending (snd (failAll err s)) = []"
    and "(rid, e) \<in> set (pr_pending s) \<Longrightarrow> pr_results (snd (failAll err s)) (pe_promise e) = Some (Failed err)"
  using fail_entries_pending [OF assms, where es = "pr_pending s" and err = err] assms
  by (auto simp: failAll_def pending_inv_def filter_empty_conv)

end
