(* ===== verification/Rpc_Queue.thy ===== *)
theory Rpc_Queue imports Prelude begin

text \<open>
  The bounded write queue and the restart policy of the worker client
  (\<open>packages/worker-rpc/src/client/write-queue.ts\<close>, \<open>restart-policy.ts\<close>). The stream is a parameter:
  \<open>ok n\<close> is what its n-th \<open>write\<close> returns. The pump is cut at its \<open>await\<close> for the drain event:
  \<open>wq_writing\<close> is true between the steps exactly while it waits.
\<close>

subsection \<open>The write queue\<close>

definition DEFAULT_MAX_QUEUED_FRAMES :: nat where "DEFAULT_MAX_QUEUED_FRAMES = 32"

record write_queue =
  wq_queue :: "string list"
  wq_writing :: bool
  wq_maxQueuedFrames :: nat
  wq_written :: "string list"  \<comment> \<open>what the stream received\<close>

definition new_write_queue :: "nat option \<Rightarrow> write_queue" where
  "new_write_queue mx = \<lparr>wq_queue = [], wq_writing = False,
     wq_maxQueuedFrames = (case mx of Some m \<Rightarrow> m | None \<Rightarrow> DEFAULT_MAX_QUEUED_FRAMES), wq_written = []\<rparr>"

text \<open>The loop: write until the queue is empty or the stream asks to wait; the flag tells which.\<close>

fun pump_loop :: "(nat \<Rightarrow> bool) \<Rightarrow> string list \<Rightarrow> string list \<Rightarrow> string list \<times> string list \<times> bool" where
  "pump_loop ok [] w = ([], w, False)"
| "pump_loop ok (frame # q) w = (if ok (length w) then pump_loop ok q (w @ [frame]) else (q, w @ [frame], True))"

definition pump_run :: "(nat \<Rightarrow> bool) \<Rightarrow> write_queue \<Rightarrow> write_queue" where
  "pump_run ok s = (let (q, w, waiting) = pump_loop ok (wq_queue s) (wq_written s)
     in s\<lparr>wq_queue := q, wq_written := w, wq_writing := waiting\<rparr>)"

definition pump :: "(nat \<Rightarrow> bool) \<Rightarrow> write_queue \<Rightarrow> write_queue" where
  "pump ok s = (if wq_writing s then s else pump_run ok s)"

definition wq_push :: "(nat \<Rightarrow> bool) \<Rightarrow> string \<Rightarrow> write_queue \<Rightarrow> bool \<times> write_queue" where
  "wq_push ok frame s =
     (if length (wq_queue s) \<ge> wq_maxQueuedFrames s then (False, s)
      else (True, pump ok (s\<lparr>wq_queue := wq_queue s @ [frame]\<rparr>)))"

text \<open>The stream drained: the waiting pump goes on.\<close>

definition wq_drained :: "(nat \<Rightarrow> bool) \<Rightarrow> write_queue \<Rightarrow> write_queue" where
  "wq_drained ok s = (if wq_writing s then pump_run ok s else s)"

definition wq_idle :: "write_queue \<Rightarrow> bool" where
  "wq_idle s \<longleftrightarrow> wq_queue s = [] \<and> \<not> wq_writing s"

datatype queue_event = Push_frame string | Drained

definition queue_step :: "(nat \<Rightarrow> bool) \<Rightarrow> queue_event \<Rightarrow> write_queue \<Rightarrow> write_queue" where
  "queue_step ok e s = (case e of Push_frame f \<Rightarrow> snd (wq_push ok f s) | Drained \<Rightarrow> wq_drained ok s)"

text \<open>The frames whose \<open>push\<close> returned true, in order.\<close>

fun accepted :: "(nat \<Rightarrow> bool) \<Rightarrow> queue_event list \<Rightarrow> write_queue \<Rightarrow> string list" where
  "accepted ok [] s = []"
| "accepted ok (e # es) s =
     (case e of Push_frame f \<Rightarrow> if fst (wq_push ok f s) then [f] else [] | Drained \<Rightarrow> []) @
     accepted ok es (queue_step ok e s)"

definition wq_inv :: "write_queue \<Rightarrow> bool" where
  "wq_inv s \<longleftrightarrow> (wq_writing s \<or> wq_queue s = []) \<and> length (wq_queue s) \<le> wq_maxQueuedFrames s"

lemma pump_loop_keeps:
  assumes "pump_loop ok q w = (q', w', b)"
  shows "w' @ q' = w @ q" and "length q' \<le> length q" and "b \<or> q' = []" and "q \<noteq> [] \<Longrightarrow> length q' < length q"
proof -
  have "w' @ q' = w @ q \<and> length q' \<le> length q \<and> (b \<or> q' = []) \<and> (q \<noteq> [] \<longrightarrow> length q' < length q)"
    using assms
  proof (induction ok q w rule: pump_loop.induct)
    case (2 ok frame q w)
    then show ?case by (cases "ok (length w)") fastforce+
  qed simp
  then show "w' @ q' = w @ q" and "length q' \<le> length q" and "b \<or> q' = []" and "q \<noteq> [] \<Longrightarrow> length q' < length q"
    by simp_all
qed

lemma pump_run_keeps:
  "wq_written (pump_run ok s) @ wq_queue (pump_run ok s) = wq_written s @ wq_queue s"
  "length (wq_queue (pump_run ok s)) \<le> length (wq_queue s)"
  "wq_writing (pump_run ok s) \<or> wq_queue (pump_run ok s) = []"
  "wq_queue s \<noteq> [] \<Longrightarrow> length (wq_queue (pump_run ok s)) < length (wq_queue s)"
  "wq_maxQueuedFrames (pump_run ok s) = wq_maxQueuedFrames s"
proof -
  obtain q w b where "pump_loop ok (wq_queue s) (wq_written s) = (q, w, b)"
    by (metis prod_cases3)
  from this pump_loop_keeps [OF this] show
    "wq_written (pump_run ok s) @ wq_queue (pump_run ok s) = wq_written s @ wq_queue s"
    "length (wq_queue (pump_run ok s)) \<le> length (wq_queue s)"
    "wq_writing (pump_run ok s) \<or> wq_queue (pump_run ok s) = []"
    "wq_queue s \<noteq> [] \<Longrightarrow> length (wq_queue (pump_run ok s)) < length (wq_queue s)"
    "wq_maxQueuedFrames (pump_run ok s) = wq_maxQueuedFrames s"
    by (simp_all add: pump_run_def)
qed

lemma wq_push_inv: "wq_inv s \<Longrightarrow> wq_inv (snd (wq_push ok f s))"
  using pump_run_keeps(2,3,5) [of ok "s\<lparr>wq_queue := wq_queue s @ [f]\<rparr>"]
  by (auto simp: wq_push_def pump_def wq_inv_def)

lemma wq_drained_inv: "wq_inv s \<Longrightarrow> wq_inv (wq_drained ok s)"
  using pump_run_keeps(2,3,5) [of ok s] by (auto simp: wq_drained_def wq_inv_def)

interpretation queue_sys: step_invariant "queue_step ok" wq_inv "\<lambda>_. True" for ok
  by unfold_locales (simp add: queue_step_def wq_push_inv wq_drained_inv split: queue_event.splits)

lemma new_write_queue_inv: "wq_inv (new_write_queue mx)"
  by (simp add: wq_inv_def new_write_queue_def)

text \<open>Nothing accepted is lost, duplicated or reordered.\<close>

lemma queue_step_order:
  "wq_written (queue_step ok e s) @ wq_queue (queue_step ok e s) =
     wq_written s @ wq_queue s @ (case e of Push_frame f \<Rightarrow> if fst (wq_push ok f s) then [f] else [] | Drained \<Rightarrow> [])"
proof (cases e)
  case (Push_frame f)
  then show ?thesis
    using pump_run_keeps(1) [of ok "s\<lparr>wq_queue := wq_queue s @ [f]\<rparr>"]
    by (simp add: queue_step_def wq_push_def pump_def)
next
  case Drained
  then show ?thesis
    using pump_run_keeps(1) [of ok s] by (simp add: queue_step_def wq_drained_def)
qed

lemma queue_order:
  "wq_written (run (queue_step ok) es s) @ wq_queue (run (queue_step ok) es s) =
     wq_written s @ wq_queue s @ accepted ok es s"
proof (induction es arbitrary: s)
  case (Cons e es)
  show ?case
    using Cons [of "queue_step ok e s"] queue_step_order [of ok e s] by simp
qed simp

text \<open>Enough drain events write everything out.\<close>

lemma drains_empty_queue:
  assumes "wq_inv s" and "length (wq_queue s) < n"
  shows "wq_idle (run (queue_step ok) (replicate n Drained) s)"
  using assms
proof (induction n arbitrary: s)
  case (Suc n)
  let ?s = "queue_step ok Drained s"
  have inv: "wq_inv ?s"
    using Suc.prems(1) queue_sys.step_keeps by blast
  show ?case
  proof (cases "wq_writing s \<and> wq_queue s \<noteq> []")
    case True
    then have "length (wq_queue ?s) < n"
      using Suc.prems pump_run_keeps(4) [of s ok] by (simp add: queue_step_def wq_drained_def)
    with Suc.IH inv show ?thesis by simp
  next
    case False
    have idle: "wq_idle ?s"
      using False Suc.prems(1) by (auto simp: queue_step_def wq_drained_def wq_inv_def wq_idle_def pump_run_def)
    have "run (queue_step ok) (replicate m Drained) t = t" if "wq_idle t" for m t
      using that by (induction m) (simp_all add: queue_step_def wq_drained_def wq_idle_def)
    with idle show ?thesis by simp
  qed
qed simp

subsection \<open>The restart policy\<close>

record restart_policy =
  rp_enabled :: bool
  rp_max_attempts :: nat
  rp_initial_backoff_ms :: nat
  rp_max_backoff_ms :: nat
  rp_attempt :: nat

definition DEFAULT_RESTART_POLICY :: restart_policy where
  "DEFAULT_RESTART_POLICY = \<lparr>rp_enabled = True, rp_max_attempts = 3, rp_initial_backoff_ms = 1000,
     rp_max_backoff_ms = 30000, rp_attempt = 0\<rparr>"

definition rp_reset :: "restart_policy \<Rightarrow> restart_policy" where
  "rp_reset p = p\<lparr>rp_attempt := 0\<rparr>"

definition nextDelayMs :: "restart_policy \<Rightarrow> nat option \<times> restart_policy" where
  "nextDelayMs p =
     (if \<not> rp_enabled p then (None, p)
      else if rp_attempt p \<ge> rp_max_attempts p then (None, p)
      else (Some (min (rp_initial_backoff_ms p * 2 ^ rp_attempt p) (rp_max_backoff_ms p)),
            p\<lparr>rp_attempt := rp_attempt p + 1\<rparr>))"

definition canRetry :: "restart_policy \<Rightarrow> bool" where
  "canRetry p \<longleftrightarrow> rp_enabled p \<and> rp_attempt p < rp_max_attempts p"

fun next_delays :: "nat \<Rightarrow> restart_policy \<Rightarrow> nat option list" where
  "next_delays 0 p = []"
| "next_delays (Suc n) p = (let (d, p') = nextDelayMs p in d # next_delays n p')"

lemma next_delays_from:
  assumes "rp_enabled p"
  shows "next_delays n p = map (\<lambda>k. if k < rp_max_attempts p
     then Some (min (rp_initial_backoff_ms p * 2 ^ k) (rp_max_backoff_ms p)) else None) [rp_attempt p..<rp_attempt p + n]"
  using assms
proof (induction n arbitrary: p)
  case (Suc n)
  show ?case
  proof (cases "rp_attempt p < rp_max_attempts p")
    case True
    have "next_delays (Suc n) p = Some (min (rp_initial_backoff_ms p * 2 ^ rp_attempt p) (rp_max_backoff_ms p)) #
        next_delays n (p\<lparr>rp_attempt := rp_attempt p + 1\<rparr>)"
      using True Suc.prems by (simp add: nextDelayMs_def)
    then show ?thesis
      using Suc True by (simp add: upt_conv_Cons del: upt_Suc next_delays.simps)
  next
    case False
    have "next_delays m p = replicate m None" for m
      using False Suc.prems by (induction m) (simp_all add: nextDelayMs_def)
    moreover have "map (\<lambda>k. if k < rp_max_attempts p
       then Some (min (rp_initial_backoff_ms p * 2 ^ k) (rp_max_backoff_ms p)) else None)
       [rp_attempt p..<rp_attempt p + Suc n] = replicate (Suc n) None"
      using False by (intro nth_equalityI) (auto simp del: upt_Suc replicate_Suc)
    ultimately show ?thesis by (simp only:)
  qed
qed simp

lemma canRetry_iff: "canRetry p \<longleftrightarrow> fst (nextDelayMs p) \<noteq> None"
  by (simp add: canRetry_def nextDelayMs_def)

end
