(* ===== verification/Rpc_Client.thy ===== *)
theory Rpc_Client imports Rpc_Pending Rpc_Queue begin

text \<open>
  The worker client: \<open>packages/worker-rpc/src/client/ai-worker-client.ts\<close> with
  \<open>client-state.ts\<close> and the parts of \<open>worker-process.ts\<close> it relies on. Asynchronous methods are cut at their
  \<open>await\<close>s: pending handshakes, sleeping restarts and stops in progress are lists in the state, and the
  events of \<open>client_event\<close> are the calls, the frames, the exits and the timers, in any order.

  Parameters (record \<open>rpc_env\<close>): the printer of requests, the two schema validators of
  \<open>@fastwork/contracts\<close> (for the ready payload together with the version list it holds), the
  payload builders and the stream's answers. Request and correlation ids, random in the program, are
  arguments of the calls.
\<close>

datatype client_state = STOPPED | STARTING | READY | STOPPING | CRASHED | RESTARTING

definition CLIENT_STATES :: "client_state list" where
  "CLIENT_STATES = [STOPPED, STARTING, READY, STOPPING, CRASHED, RESTARTING]"

definition isTerminal :: "client_state \<Rightarrow> bool" where
  "isTerminal s \<longleftrightarrow> s = STOPPED \<or> s = CRASHED"

record rpc_context =
  cx_shop_id :: string
  cx_correlation_id :: string
  cx_cancellation_token :: "string option"

record 'j rpc_request =
  rq_version :: int
  rq_request_id :: string
  rq_method :: string
  rq_payload :: 'j
  rq_context :: rpc_context

record 'j rpc_response =
  rs_request_id :: string
  rs_ok :: bool
  rs_result :: 'j
  rs_error :: "'j error_shape option"

datatype 'j frame = Event_frame string 'j | Response_frame "'j rpc_response" | Other_frame

record request_options =
  ro_signal :: abort_signal
  ro_shop_id :: "string option"
  ro_correlation_id :: "string option"
  ro_cancellation_token :: "string option"

definition no_options :: request_options where
  "no_options = \<lparr>ro_signal = No_signal, ro_shop_id = None, ro_correlation_id = None, ro_cancellation_token = None\<rparr>"

record 'j rpc_env =
  en_stringify :: "'j rpc_request \<Rightarrow> string"
  en_valid_response :: "'j rpc_response \<Rightarrow> bool"
  en_ready_versions :: "'j \<Rightarrow> int list option"  \<comment> \<open>\<open>None\<close> when the payload is invalid\<close>
  en_ready_error :: "'j \<Rightarrow> string"
  en_version_error :: "int list \<Rightarrow> string"
  en_cancel_payload :: "string \<Rightarrow> 'j"
  en_empty_payload :: 'j
  en_write_ok :: "nat \<Rightarrow> bool"

datatype 'j handshake = Hs_waiting | Hs_ready 'j | Hs_failed "'j rpc_error"

datatype stop_task = Await_shutdown nat nat | Await_exit nat

record 'j client =
  cl_state :: client_state
  cl_process :: "nat option"  \<comment> \<open>the current worker process\<close>
  cl_children :: "nat list"  \<comment> \<open>worker processes that have not exited\<close>
  cl_queue :: "write_queue option"
  cl_pending :: "'j registry_state"
  cl_policy :: restart_policy
  cl_intentionalStop :: bool
  cl_readyPromise :: bool
  cl_readyHandler :: "nat option"  \<comment> \<open>the handshake whose handler is installed\<close>
  cl_readyPayload :: "'j option"
  cl_handshakes :: "(nat \<times> 'j handshake) list"  \<comment> \<open>\<open>doHandshake\<close> calls in progress\<close>
  cl_sleeping :: "nat list"  \<comment> \<open>restarts waiting for their delay\<close>
  cl_stops :: "stop_task list"  \<comment> \<open>\<open>stop\<close> calls in progress\<close>
  cl_subscribers :: "nat list"
  cl_dispatched :: "(nat \<times> string \<times> 'j) list"
  cl_nextProcess :: nat
  cl_nextHandshake :: nat
  cl_maxFrameBytes :: nat
  cl_maxInFlight :: nat
  cl_maxQueuedFrames :: nat

definition DEFAULT_MAX_INFLIGHT :: nat where "DEFAULT_MAX_INFLIGHT = 8"

record client_options =
  co_maxFrameBytes :: "nat option"
  co_maxInFlight :: "nat option"
  co_maxQueuedFrames :: "nat option"
  co_restart :: restart_policy  \<comment> \<open>the default policy with the overrides applied\<close>

definition new_client :: "client_options \<Rightarrow> 'j client" where
  "new_client opts =
     \<lparr>cl_state = STOPPED, cl_process = None, cl_children = [], cl_queue = None, cl_pending = new_pending,
      cl_policy = co_restart opts, cl_intentionalStop = False, cl_readyPromise = False,
      cl_readyHandler = None, cl_readyPayload = None, cl_handshakes = [], cl_sleeping = [], cl_stops = [],
      cl_subscribers = [], cl_dispatched = [], cl_nextProcess = 0, cl_nextHandshake = 0,
      cl_maxFrameBytes = or_else (co_maxFrameBytes opts) DEFAULT_MAX_FRAME_BYTES,
      cl_maxInFlight = or_else (co_maxInFlight opts) DEFAULT_MAX_INFLIGHT,
      cl_maxQueuedFrames = or_else (co_maxQueuedFrames opts) (or_else (co_maxInFlight opts) DEFAULT_MAX_INFLIGHT)\<rparr>"

definition setState :: "client_state \<Rightarrow> 'j client \<Rightarrow> 'j client" where
  "setState st c = c\<lparr>cl_state := st\<rparr>"

subsection \<open>Starting\<close>

definition spawnWorker :: "'j client \<Rightarrow> 'j client" where
  "spawnWorker c =
     (let p = cl_nextProcess c
      in c\<lparr>cl_process := Some p, cl_children := cl_children c @ [p], cl_nextProcess := Suc p,
           cl_queue := Some (new_write_queue (Some (cl_maxQueuedFrames c)))\<rparr>)"

text \<open>\<open>doHandshake\<close> up to its \<open>await\<close>.\<close>

definition doHandshake :: "'j client \<Rightarrow> 'j client" where
  "doHandshake c =
     (let h = cl_nextHandshake c
      in spawnWorker (c\<lparr>cl_readyPayload := None, cl_nextHandshake := Suc h,
                        cl_handshakes := cl_handshakes c @ [(h, Hs_waiting)], cl_readyHandler := Some h\<rparr>))"

definition spawnAndHandshake :: "'j client \<Rightarrow> 'j client" where
  "spawnAndHandshake c = doHandshake ((setState STARTING c)\<lparr>cl_readyPromise := True\<rparr>)"

definition start :: "'j client \<Rightarrow> 'j client" where
  "start c =
     (if cl_state c = READY then c
      else if cl_state c = STARTING \<and> cl_readyPromise c then c
      else spawnAndHandshake (c\<lparr>cl_intentionalStop := False\<rparr>))"

definition killWorker :: "'j client \<Rightarrow> 'j client" where
  "killWorker c = c\<lparr>cl_process := None\<rparr>"

text \<open>Settling the promise of a handshake, once.\<close>

definition settle_handshake :: "nat \<Rightarrow> 'j handshake \<Rightarrow> 'j client \<Rightarrow> 'j client" where
  "settle_handshake h v c =
     (if map_of (cl_handshakes c) h = Some Hs_waiting
      then c\<lparr>cl_handshakes := map_set h v (cl_handshakes c)\<rparr> else c)"

definition onReady :: "'j rpc_env \<Rightarrow> nat \<Rightarrow> 'j \<Rightarrow> 'j client \<Rightarrow> 'j client" where
  "onReady env h payload c =
     (case en_ready_versions env payload of
        None \<Rightarrow> settle_handshake h (Hs_failed (mk_rpc_error (code_text PROTOCOL_ERROR) (Some (en_ready_error env payload)) no_opts)) c
      | Some versions \<Rightarrow>
          if RPC_PROTOCOL_VERSION \<notin> set versions
          then settle_handshake h (Hs_failed (mk_rpc_error (code_text VERSION_UNSUPPORTED) (Some (en_version_error env versions)) no_opts)) c
          else settle_handshake h (Hs_ready payload) (c\<lparr>cl_readyPayload := Some payload\<rparr>))"

definition handshake_timer :: "nat \<Rightarrow> 'j client \<Rightarrow> 'j client" where
  "handshake_timer h c = settle_handshake h (Hs_failed (rpc_error_of STARTUP_TIMEOUT)) c"

text \<open>\<open>doHandshake\<close> after its \<open>await\<close>.\<close>

definition continue_handshake :: "nat \<Rightarrow> 'j client \<Rightarrow> 'j client" where
  "continue_handshake h c = (case map_of (cl_handshakes c) h of
       Some (Hs_ready _) \<Rightarrow>
         setState READY (c\<lparr>cl_handshakes := map_delete h (cl_handshakes c), cl_policy := rp_reset (cl_policy c)\<rparr>)
     | Some (Hs_failed _) \<Rightarrow>
         (setState STOPPED (killWorker (c\<lparr>cl_handshakes := map_delete h (cl_handshakes c)\<rparr>)))\<lparr>cl_readyHandler := None\<rparr>
     | _ \<Rightarrow> c)"

subsection \<open>Frames and exits\<close>

definition dispatchEvent :: "string \<Rightarrow> 'j \<Rightarrow> 'j client \<Rightarrow> 'j client" where
  "dispatchEvent name payload c =
     c\<lparr>cl_dispatched := cl_dispatched c @ map (\<lambda>sub. (sub, name, payload)) (cl_subscribers c)\<rparr>"

definition response_result :: "'j rpc_response \<Rightarrow> 'j rpc_result" where
  "response_result res =
     (if rs_ok res then Resolved (rs_result res)
      else Failed (case rs_error res of
          Some e \<Rightarrow> mk_rpc_error (sh_code e) (Some (sh_message e))
            \<lparr>eo_category = Some (sh_category e), eo_retryable = Some (sh_retryable e),
             eo_details = sh_details e, eo_correlationId = sh_correlation_id e\<rparr>
        | None \<Rightarrow> mk_rpc_error (code_text PROTOCOL_ERROR) None no_opts))"

definition settleResponse :: "'j rpc_response \<Rightarrow> 'j client \<Rightarrow> 'j client" where
  "settleResponse res c = c\<lparr>cl_pending := snd (settle (rs_request_id res) (response_result res) (cl_pending c))\<rparr>"

definition handleFrame :: "'j rpc_env \<Rightarrow> 'j frame \<Rightarrow> 'j client \<Rightarrow> 'j client" where
  "handleFrame env f c = (case f of
       Event_frame name payload \<Rightarrow>
         dispatchEvent name payload
           (case cl_readyHandler c of
              Some h \<Rightarrow> if name = READY_EVENT then onReady env h payload c else c
            | None \<Rightarrow> c)
     | Response_frame res \<Rightarrow> if en_valid_response env res then settleResponse res c else c
     | Other_frame \<Rightarrow> c)"

text \<open>\<open>maybeRestart\<close> up to its sleep.\<close>

definition maybeRestart :: "'j client \<Rightarrow> 'j client" where
  "maybeRestart c =
     (if cl_intentionalStop c then c
      else case nextDelayMs (cl_policy c) of
             (None, _) \<Rightarrow> c
           | (Some delay, policy) \<Rightarrow>
               (setState RESTARTING c)\<lparr>cl_policy := policy, cl_sleeping := cl_sleeping c @ [delay]\<rparr>)"

definition sleep_over :: "nat \<Rightarrow> 'j client \<Rightarrow> 'j client" where
  "sleep_over i c =
     (if i < length (cl_sleeping c)
      then let c1 = c\<lparr>cl_sleeping := take i (cl_sleeping c) @ drop (Suc i) (cl_sleeping c)\<rparr>
           in if cl_intentionalStop c1 then c1 else spawnAndHandshake c1
      else c)"

definition fail_pending :: "rpc_error_code \<Rightarrow> 'j client \<Rightarrow> 'j client" where
  "fail_pending code c = c\<lparr>cl_pending := snd (failAll (rpc_error_of code) (cl_pending c))\<rparr>"

definition handleExit :: "'j client \<Rightarrow> 'j client" where
  "handleExit c =
     (let c1 = c\<lparr>cl_queue := None\<rparr>
      in if \<not> cl_intentionalStop c1 then maybeRestart (fail_pending WORKER_CRASHED (setState CRASHED c1))
         else fail_pending SHUTDOWN (setState STOPPED c1))"

definition process_exits :: "nat \<Rightarrow> 'j client \<Rightarrow> 'j client" where
  "process_exits p c =
     (if p \<in> set (cl_children c) then (handleExit c)\<lparr>cl_children := remove1 p (cl_children c)\<rparr> else c)"

subsection \<open>Requests\<close>

definition is_control :: "string \<Rightarrow> bool" where
  "is_control method = prefix ''system.'' method"

definition rawRequest ::
  "'j rpc_env \<Rightarrow> string \<Rightarrow> string \<Rightarrow> string \<Rightarrow> 'j \<Rightarrow> request_options \<Rightarrow> 'j client \<Rightarrow> ('j rpc_error + nat) \<times> 'j client" where
  "rawRequest env rid corr method payload opts c =
     (case (cl_queue c, cl_process c) of
        (Some q, Some _) \<Rightarrow>
          if \<not> is_control method \<and> pending_size (cl_pending c) \<ge> cl_maxInFlight c then (Inl (rpc_error_of BACKPRESSURE), c)
          else if ro_signal opts = Aborted_signal then (Inl (rpc_error_of CANCELLED), c)
          else let req = \<lparr>rq_version = RPC_PROTOCOL_VERSION, rq_request_id = rid, rq_method = method, rq_payload = payload,
                          rq_context = \<lparr>cx_shop_id = or_else (ro_shop_id opts) [],
                                        cx_correlation_id = or_else (ro_correlation_id opts) corr,
                                        cx_cancellation_token = ro_cancellation_token opts\<rparr>\<rparr>
               in (case encodeFrame (en_stringify env) req (cl_maxFrameBytes c) of
                     Inl e \<Rightarrow> (Inl e, c)
                   | Inr frame \<Rightarrow>
                       (case register rid method (ro_signal opts) (cl_pending c) of
                          (Inl reason, pr) \<Rightarrow> (Inl (mk_rpc_error (code_text PROTOCOL_ERROR) (Some reason) no_opts), c\<lparr>cl_pending := pr\<rparr>)
                        | (Inr p, pr) \<Rightarrow>
                            (case wq_push (en_write_ok env) frame q of
                               (True, q1) \<Rightarrow> (Inr p, c\<lparr>cl_pending := pr, cl_queue := Some q1\<rparr>)
                             | (False, q1) \<Rightarrow> (Inl (rpc_error_of BACKPRESSURE), c\<lparr>cl_pending := remove rid pr, cl_queue := Some q1\<rparr>))))
      | _ \<Rightarrow> (Inl (rpc_error_of NOT_READY), c))"

definition request ::
  "'j rpc_env \<Rightarrow> string \<Rightarrow> string \<Rightarrow> string \<Rightarrow> 'j \<Rightarrow> request_options \<Rightarrow> 'j client \<Rightarrow> ('j rpc_error + nat) \<times> 'j client" where
  "request env rid corr method payload opts c =
     (if cl_state c = STOPPING \<or> cl_state c = STOPPED then (Inl (rpc_error_of SHUTDOWN), c)
      else if cl_state c \<noteq> READY then (Inl (rpc_error_of NOT_READY), c)
      else rawRequest env rid corr method payload opts c)"

definition cancelRequest :: "'j rpc_env \<Rightarrow> string \<Rightarrow> string \<Rightarrow> string \<Rightarrow> 'j client \<Rightarrow> ('j rpc_error + nat) \<times> 'j client" where
  "cancelRequest env rid corr target c = request env rid corr ''system.cancel'' (en_cancel_payload env target) no_options c"

text \<open>\<open>health\<close>: the request, and the check of its result.\<close>

definition health :: "'j rpc_env \<Rightarrow> string \<Rightarrow> string \<Rightarrow> 'j client \<Rightarrow> ('j rpc_error + nat) \<times> 'j client" where
  "health env rid corr c = request env rid corr ''system.health'' (en_empty_payload env) no_options c"

definition health_result :: "'j rpc_env \<Rightarrow> 'j \<Rightarrow> 'j rpc_error + 'j" where
  "health_result env result =
     (if en_valid_response env \<lparr>rs_request_id = ''health'', rs_ok = True, rs_result = result, rs_error = None\<rparr>
      then Inr result else Inl (mk_rpc_error (code_text PROTOCOL_ERROR) (Some ''invalid health result'') no_opts))"

text \<open>
  The timeout or the abort of a pending request: the registry removes it and the callback asks the
  worker to cancel, with the ids the cancellation draws; its failure is ignored.
\<close>

definition notifyCancel :: "'j rpc_env \<Rightarrow> string \<Rightarrow> string \<Rightarrow> string \<Rightarrow> 'j client \<Rightarrow> 'j client" where
  "notifyCancel env rid corr target c =
     snd (request env rid corr ''system.cancel'' (en_cancel_payload env target) no_options c)"

definition request_timeout :: "'j rpc_env \<Rightarrow> string \<Rightarrow> string \<Rightarrow> nat \<Rightarrow> 'j client \<Rightarrow> 'j client" where
  "request_timeout env rid corr p c = (case map_of (pr_timers (cl_pending c)) p of
       None \<Rightarrow> c
     | Some target \<Rightarrow> notifyCancel env rid corr target (c\<lparr>cl_pending := timer_fires p (cl_pending c)\<rparr>))"

definition request_abort :: "'j rpc_env \<Rightarrow> string \<Rightarrow> string \<Rightarrow> nat \<Rightarrow> 'j client \<Rightarrow> 'j client" where
  "request_abort env rid corr p c = (case map_of (pr_listeners (cl_pending c)) p of
       None \<Rightarrow> c
     | Some target \<Rightarrow> notifyCancel env rid corr target (c\<lparr>cl_pending := signal_aborts p (cl_pending c)\<rparr>))"

definition subscribeEvents :: "nat \<Rightarrow> 'j client \<Rightarrow> 'j client" where
  "subscribeEvents sub c = c\<lparr>cl_subscribers := List.insert sub (cl_subscribers c)\<rparr>"

definition unsubscribe :: "nat \<Rightarrow> 'j client \<Rightarrow> 'j client" where
  "unsubscribe sub c = c\<lparr>cl_subscribers := removeAll sub (cl_subscribers c)\<rparr>"

subsection \<open>Stopping\<close>

definition stop :: "'j rpc_env \<Rightarrow> string \<Rightarrow> string \<Rightarrow> 'j client \<Rightarrow> 'j client" where
  "stop env rid corr c =
     (if cl_state c = STOPPED then c
      else let c1 = setState STOPPING (c\<lparr>cl_intentionalStop := True\<rparr>)
           in case cl_process c1 of
                None \<Rightarrow> setState STOPPED c1
              | Some proc \<Rightarrow>
                  (case rawRequest env rid corr ''system.shutdown'' (en_empty_payload env) no_options (fail_pending SHUTDOWN c1) of
                     (Inr p, c2) \<Rightarrow> c2\<lparr>cl_stops := cl_stops c2 @ [Await_shutdown p proc]\<rparr>
                   | (Inl _, c2) \<Rightarrow> c2\<lparr>cl_stops := cl_stops c2 @ [Await_exit proc]\<rparr>))"

definition finish_stop :: "nat \<Rightarrow> 'j client \<Rightarrow> 'j client" where
  "finish_stop i c =
     (setState STOPPED (c\<lparr>cl_stops := take i (cl_stops c) @ drop (Suc i) (cl_stops c)\<rparr>))\<lparr>cl_queue := None, cl_readyHandler := None\<rparr>"

text \<open>
  \<open>stop\<close> goes on when the shutdown request settled, and ends when the child has exited, or (\<open>grace\<close>) when
  the deadline passed and the child was killed.
\<close>

definition continue_stop :: "nat \<Rightarrow> bool \<Rightarrow> 'j client \<Rightarrow> 'j client" where
  "continue_stop i grace c =
     (if i < length (cl_stops c)
      then case cl_stops c ! i of
             Await_shutdown p proc \<Rightarrow>
               if pr_results (cl_pending c) p \<noteq> None then c\<lparr>cl_stops := (cl_stops c)[i := Await_exit proc]\<rparr> else c
           | Await_exit proc \<Rightarrow> if proc \<notin> set (cl_children c) \<or> grace then finish_stop i c else c
      else c)"

subsection \<open>The step function\<close>

datatype 'j client_event =
    Start
  | Stop string string
  | Request string string string 'j request_options
  | Cancel_request string string string
  | Health string string
  | Frame_received "'j frame"
  | Process_exits nat
  | Handshake_timer nat
  | Continue_handshake nat
  | Sleep_over nat
  | Request_timeout string string nat
  | Request_abort string string nat
  | Stream_drained
  | Continue_stop nat bool
  | Subscribe nat
  | Unsubscribe nat

definition client_step :: "'j rpc_env \<Rightarrow> 'j client_event \<Rightarrow> 'j client \<Rightarrow> 'j client" where
  "client_step env e c = (case e of
       Start \<Rightarrow> start c
     | Stop rid corr \<Rightarrow> stop env rid corr c
     | Request rid corr m payload opts \<Rightarrow> snd (request env rid corr m payload opts c)
     | Cancel_request rid corr target \<Rightarrow> snd (cancelRequest env rid corr target c)
     | Health rid corr \<Rightarrow> snd (health env rid corr c)
     | Frame_received f \<Rightarrow> handleFrame env f c
     | Process_exits p \<Rightarrow> process_exits p c
     | Handshake_timer h \<Rightarrow> handshake_timer h c
     | Continue_handshake h \<Rightarrow> continue_handshake h c
     | Sleep_over i \<Rightarrow> sleep_over i c
     | Request_timeout rid corr p \<Rightarrow> request_timeout env rid corr p c
     | Request_abort rid corr p \<Rightarrow> request_abort env rid corr p c
     | Stream_drained \<Rightarrow> c\<lparr>cl_queue := map_option (wq_drained (en_write_ok env)) (cl_queue c)\<rparr>
     | Continue_stop i grace \<Rightarrow> continue_stop i grace c
     | Subscribe n \<Rightarrow> subscribeEvents n c
     | Unsubscribe n \<Rightarrow> unsubscribe n c)"

text \<open>The definitions a concrete run unfolds.\<close>

lemmas client_run_defs =
  client_step_def start_def spawnAndHandshake_def doHandshake_def spawnWorker_def setState_def killWorker_def
  settle_handshake_def onReady_def handshake_timer_def continue_handshake_def dispatchEvent_def
  response_result_def settleResponse_def handleFrame_def maybeRestart_def sleep_over_def fail_pending_def
  handleExit_def process_exits_def is_control_def rawRequest_def request_def new_client_def or_else_def
  encodeFrame_def register_def settle_def failAll_def remove_def clear_entry_def settle_promise_def
  pending_has_def pending_size_def new_pending_def wq_push_def pump_def pump_run_def new_write_queue_def
  nextDelayMs_def rp_reset_def map_delete_def no_options_def READY_EVENT_def RPC_PROTOCOL_VERSION_def
  DEFAULT_MAX_FRAME_BYTES_def DEFAULT_MAX_INFLIGHT_def DEFAULT_RESTART_POLICY_def utf8_len_def Let_def

end
