(* ===== verification/Rpc_Client_Props.thy ===== *)
theory Rpc_Client_Props imports Rpc_Client begin

text \<open>
  What the worker client guarantees over every sequence of calls, frames, exits and timers: the registry
  and the write queue keep their invariants, at most \<open>maxInFlight\<close> requests that are not control
  messages are pending, and READY is reached only through a handshake whose payload offered the protocol
  version.
\<close>

subsection \<open>Operations of the registry only drop entries\<close>

definition in_flight :: "'j registry_state \<Rightarrow> nat" where
  "in_flight s = length (filter (\<lambda>p. \<not> is_control (pe_method (snd p))) (pr_pending s))"

definition drops :: "'j registry_state \<Rightarrow> 'j registry_state \<Rightarrow> bool" where
  "drops s t \<longleftrightarrow> (\<exists>P. pr_pending t = filter P (pr_pending s))"

lemma drops_in_flight: "drops s t \<Longrightarrow> in_flight t \<le> in_flight s"
  unfolding drops_def in_flight_def
  by (metis (no_types, lifting) filter_filter length_filter_le conj_commute filter_cong)

lemma drops_refl [simp]: "drops s s"
  unfolding drops_def by (rule exI [of _ "\<lambda>_. True"]) simp

lemma drops_trans: "drops s t \<Longrightarrow> drops t u \<Longrightarrow> drops s u"
  unfolding drops_def by (metis filter_filter)

lemma drops_settle_promise [simp]: "drops s (settle_promise p r t) = drops s t"
  by (simp add: drops_def settle_promise_def)

lemma drops_clear_entry: "drops s (clear_entry rid e s)"
  unfolding drops_def clear_entry_def map_delete_def by (rule exI [of _ "\<lambda>p. fst p \<noteq> rid"]) simp

lemma drops_remove: "drops s (remove rid s)"
  by (simp add: remove_def drops_clear_entry split: option.splits)

lemma drops_settle: "drops s (snd (settle rid r s))"
  by (simp add: settle_def drops_clear_entry split: option.splits)

lemma drops_fail_entries: "drops s (fail_entries err es s)"
proof (induction es arbitrary: s)
  case (Cons p es)
  obtain rid e where p: "p = (rid, e)" by (cases p)
  show ?case
    using Cons [of "settle_promise (pe_promise e) (Failed err) (remove rid s)"] drops_remove [of s rid]
    by (simp add: p) (metis drops_settle_promise drops_trans)
qed simp

lemma drops_failAll: "drops s (snd (failAll err s))"
  by (simp add: failAll_def drops_fail_entries)

lemma drops_timer_fires: "drops s (timer_fires p s)"
proof -
  have "drops s (remove rid (s\<lparr>pr_timers := ts\<rparr>))" for rid ts
    using drops_remove [of "s\<lparr>pr_timers := ts\<rparr>" rid] by (simp add: drops_def)
  then have "drops s ((remove rid (s\<lparr>pr_timers := ts\<rparr>))\<lparr>pr_notified := n\<rparr>)" for rid ts n
    by (simp add: drops_def)
  then show ?thesis by (simp add: timer_fires_def Let_def split: option.splits)
qed

lemma drops_signal_aborts: "drops s (signal_aborts p s)"
proof -
  have "drops s (remove rid (s\<lparr>pr_listeners := ts\<rparr>))" for rid ts
    using drops_remove [of "s\<lparr>pr_listeners := ts\<rparr>" rid] by (simp add: drops_def)
  then have "drops s ((remove rid (s\<lparr>pr_listeners := ts\<rparr>))\<lparr>pr_notified := n\<rparr>)" for rid ts n
    by (simp add: drops_def)
  then show ?thesis by (simp add: signal_aborts_def Let_def split: option.splits)
qed

lemma register_in_flight:
  "in_flight (snd (register rid m sig s)) \<le> in_flight s + (if is_control m then 0 else 1)"
proof (cases "pending_has rid s")
  case False
  have new: "rid \<notin> fst ` set (pr_pending s)"
    using False by (simp add: pending_has_def)
  then have "map_of (pr_pending s) rid = None"
    by (simp add: map_of_eq_None_iff)
  with False new show ?thesis
    by (simp add: register_def Let_def in_flight_def map_set_new remove_def settle_promise_def)
qed (simp add: register_def)

lemma in_flight_le_size: "in_flight s \<le> pending_size s"
  by (simp add: in_flight_def pending_size_def)

subsection \<open>The client invariant\<close>

definition client_inv :: "'j client \<Rightarrow> bool" where
  "client_inv c \<longleftrightarrow> pending_inv (cl_pending c) \<and> in_flight (cl_pending c) \<le> cl_maxInFlight c \<and>
     (case cl_queue c of None \<Rightarrow> True | Some q \<Rightarrow> wq_inv q)"

lemma client_inv_pending:
  assumes "client_inv c" and "pending_inv t" and "drops (cl_pending c) t"
  shows "client_inv (c\<lparr>cl_pending := t\<rparr>)"
  using assms drops_in_flight [OF assms(3)] by (simp add: client_inv_def)

lemma new_client_inv: "client_inv (new_client opts)"
  by (simp add: client_inv_def new_client_def new_pending_inv in_flight_def new_pending_def) (simp add: new_pending_inv flip: new_pending_def)

lemma inv_fields [simp]:
  "client_inv (setState st c) = client_inv c" "client_inv (killWorker c) = client_inv c"
  "client_inv (c\<lparr>cl_readyHandler := h\<rparr>) = client_inv c" "client_inv (c\<lparr>cl_handshakes := hs\<rparr>) = client_inv c"
  "client_inv (c\<lparr>cl_policy := p\<rparr>) = client_inv c" "client_inv (c\<lparr>cl_sleeping := sl\<rparr>) = client_inv c"
  "client_inv (c\<lparr>cl_children := ch\<rparr>) = client_inv c" "client_inv (c\<lparr>cl_stops := sp\<rparr>) = client_inv c"
  "client_inv (c\<lparr>cl_intentionalStop := b\<rparr>) = client_inv c" "client_inv (c\<lparr>cl_dispatched := d\<rparr>) = client_inv c"
  "client_inv (c\<lparr>cl_subscribers := s\<rparr>) = client_inv c" "client_inv (c\<lparr>cl_readyPayload := pl\<rparr>) = client_inv c"
  by (simp_all add: client_inv_def setState_def killWorker_def)

lemma inv_no_queue: "client_inv c \<Longrightarrow> client_inv (c\<lparr>cl_queue := None\<rparr>)"
  by (simp add: client_inv_def)

lemma spawnAndHandshake_inv: "client_inv c \<Longrightarrow> client_inv (spawnAndHandshake c)"
  by (simp add: spawnAndHandshake_def doHandshake_def spawnWorker_def setState_def client_inv_def Let_def
      new_write_queue_inv)

lemma settle_handshake_inv: "client_inv c \<Longrightarrow> client_inv (settle_handshake h v c)"
  by (simp add: settle_handshake_def)

lemma onReady_inv: "client_inv c \<Longrightarrow> client_inv (onReady env h payload c)"
  by (simp add: onReady_def settle_handshake_inv split: option.splits)

lemma continue_handshake_inv: "client_inv c \<Longrightarrow> client_inv (continue_handshake h c)"
  by (simp add: continue_handshake_def split: option.splits handshake.splits)

lemma fail_pending_inv: "client_inv c \<Longrightarrow> client_inv (fail_pending code c)"
  unfolding fail_pending_def
  by (rule client_inv_pending) (simp_all add: failAll_inv drops_failAll client_inv_def)

lemma settleResponse_inv: "client_inv c \<Longrightarrow> client_inv (settleResponse res c)"
  unfolding settleResponse_def
  by (rule client_inv_pending) (simp_all add: settle_inv drops_settle client_inv_def)

lemma handleFrame_inv: "client_inv c \<Longrightarrow> client_inv (handleFrame env f c)"
  by (simp add: handleFrame_def dispatchEvent_def onReady_inv settleResponse_inv split: frame.splits option.splits)

lemma maybeRestart_inv: "client_inv c \<Longrightarrow> client_inv (maybeRestart c)"
  by (simp add: maybeRestart_def split: prod.splits option.splits)

lemma handleExit_inv: "client_inv c \<Longrightarrow> client_inv (handleExit c)"
  by (simp add: handleExit_def Let_def maybeRestart_inv fail_pending_inv inv_no_queue)

lemma rawRequest_registers:
  assumes inv: "client_inv c" and reg: "register rid m sig (cl_pending c) = (r, pr)"
    and room: "is_control m \<or> pending_size (cl_pending c) < cl_maxInFlight c"
  shows "pending_inv pr \<and> in_flight pr \<le> cl_maxInFlight c"
proof -
  have "pending_inv pr"
    using register_inv [of "cl_pending c" rid m sig] inv reg by (simp add: client_inv_def)
  moreover have "in_flight pr \<le> in_flight (cl_pending c) + (if is_control m then 0 else 1)"
    using register_in_flight [of rid m sig "cl_pending c"] reg by simp
  ultimately show ?thesis
    using inv room in_flight_le_size [of "cl_pending c"] by (auto simp: client_inv_def split: if_splits)
qed

lemma rawRequest_inv: "client_inv c \<Longrightarrow> client_inv (snd (rawRequest env rid corr m payload opts c))"
proof -
  assume inv: "client_inv c"
  have "client_inv (c\<lparr>cl_pending := remove rid pr, cl_queue := Some q1\<rparr>)"
    if "pending_inv pr \<and> in_flight pr \<le> cl_maxInFlight c" and "wq_inv q1" for pr q1
    using that drops_in_flight [OF drops_remove [of pr rid]] by (simp add: client_inv_def remove_inv)
  moreover have "wq_inv q1" if "cl_queue c = Some q" and "wq_push ok f q = (b, q1)" for q ok f b q1
    using inv that wq_push_inv [of q ok f] by (simp add: client_inv_def)
  ultimately show ?thesis
    using inv rawRequest_registers [OF inv]
    by (auto simp: rawRequest_def Let_def client_inv_def split: option.splits prod.splits sum.splits bool.splits)
qed

lemma request_inv: "client_inv c \<Longrightarrow> client_inv (snd (request env rid corr m payload opts c))"
  by (simp add: request_def rawRequest_inv)

lemma request_timeout_inv: "client_inv c \<Longrightarrow> client_inv (request_timeout env rid corr p c)"
proof -
  assume "client_inv c"
  then have "client_inv (c\<lparr>cl_pending := timer_fires p (cl_pending c)\<rparr>)"
    by (intro client_inv_pending) (simp_all add: timer_fires_inv drops_timer_fires client_inv_def)
  with \<open>client_inv c\<close> show ?thesis
    by (simp add: request_timeout_def notifyCancel_def request_inv split: option.splits)
qed

lemma request_abort_inv: "client_inv c \<Longrightarrow> client_inv (request_abort env rid corr p c)"
proof -
  assume "client_inv c"
  then have "client_inv (c\<lparr>cl_pending := signal_aborts p (cl_pending c)\<rparr>)"
    by (intro client_inv_pending) (simp_all add: signal_aborts_inv drops_signal_aborts client_inv_def)
  with \<open>client_inv c\<close> show ?thesis
    by (simp add: request_abort_def notifyCancel_def request_inv split: option.splits)
qed

lemma stop_inv: "client_inv c \<Longrightarrow> client_inv (stop env rid corr c)"
proof -
  assume "client_inv c"
  then have "client_inv (fail_pending SHUTDOWN (setState STOPPING (c\<lparr>cl_intentionalStop := True\<rparr>)))"
    by (simp add: fail_pending_inv)
  then have "client_inv (snd (rawRequest env rid corr ''system.shutdown'' (en_empty_payload env) no_options
      (fail_pending SHUTDOWN (setState STOPPING (c\<lparr>cl_intentionalStop := True\<rparr>)))))"
    by (rule rawRequest_inv)
  with \<open>client_inv c\<close> show ?thesis
    by (auto simp: stop_def Let_def split: option.splits prod.splits sum.splits)
qed

lemma continue_stop_inv: "client_inv c \<Longrightarrow> client_inv (continue_stop i grace c)"
  by (simp add: continue_stop_def finish_stop_def inv_no_queue split: stop_task.splits)

lemma drained_inv: "client_inv c \<Longrightarrow> client_inv (c\<lparr>cl_queue := map_option (wq_drained ok) (cl_queue c)\<rparr>)"
  by (simp add: client_inv_def wq_drained_inv split: option.splits)

interpretation client_sys: step_invariant "client_step env" client_inv "\<lambda>_. True" for env
proof
  fix c :: "'a client" and e
  assume "client_inv c"
  then show "client_inv (client_step env e c)"
    by (cases e)
       (simp_all add: client_step_def start_def stop_inv request_inv cancelRequest_def health_def handleFrame_inv
         process_exits_def handleExit_inv handshake_timer_def settle_handshake_inv continue_handshake_inv
         sleep_over_def Let_def spawnAndHandshake_inv request_timeout_inv request_abort_inv drained_inv
         continue_stop_inv subscribeEvents_def unsubscribe_def)
qed

subsection \<open>READY comes from a valid handshake\<close>

definition ready_ok :: "'j rpc_env \<Rightarrow> 'j handshake \<Rightarrow> bool" where
  "ready_ok env hs = (case hs of
       Hs_ready payload \<Rightarrow> (case en_ready_versions env payload of Some vs \<Rightarrow> RPC_PROTOCOL_VERSION \<in> set vs | None \<Rightarrow> False)
     | _ \<Rightarrow> True)"

definition handshakes_ok :: "'j rpc_env \<Rightarrow> 'j client \<Rightarrow> bool" where
  "handshakes_ok env c \<longleftrightarrow> list_all (\<lambda>p. ready_ok env (snd p)) (cl_handshakes c)"

lemma list_all_set_snd:
  "list_all (\<lambda>p. P (snd p)) ps \<Longrightarrow> P v \<Longrightarrow> list_all (\<lambda>p. P (snd p)) (map_set k v ps)"
  by (induction ps) auto

lemma list_all_delete: "list_all P ps \<Longrightarrow> list_all P (map_delete k ps)"
  by (simp add: map_delete_def list_all_iff)

lemma settle_handshake_ok: "handshakes_ok env c \<Longrightarrow> ready_ok env v \<Longrightarrow> handshakes_ok env (settle_handshake h v c)"
  by (simp add: settle_handshake_def handshakes_ok_def list_all_set_snd)

lemma spawnAndHandshake_ok: "handshakes_ok env c \<Longrightarrow> handshakes_ok env (spawnAndHandshake c)"
  by (simp add: spawnAndHandshake_def doHandshake_def spawnWorker_def setState_def handshakes_ok_def Let_def ready_ok_def)

lemma rawRequest_frame:
  "cl_handshakes (snd (rawRequest env rid corr m payload opts c)) = cl_handshakes c"
  "cl_state (snd (rawRequest env rid corr m payload opts c)) = cl_state c"
  by (simp_all add: rawRequest_def Let_def split: option.splits prod.splits sum.splits bool.splits)

lemma request_frame:
  "cl_handshakes (snd (request env rid corr m payload opts c)) = cl_handshakes c"
  "cl_state (snd (request env rid corr m payload opts c)) = cl_state c"
  by (simp_all add: request_def rawRequest_frame)

lemma maybeRestart_frame:
  "cl_handshakes (maybeRestart c) = cl_handshakes c" "cl_state c \<noteq> READY \<Longrightarrow> cl_state (maybeRestart c) \<noteq> READY"
  by (simp_all add: maybeRestart_def setState_def split: prod.splits option.splits)

lemma handleExit_frame: "cl_handshakes (handleExit c) = cl_handshakes c" "cl_state (handleExit c) \<noteq> READY"
  by (simp_all add: handleExit_def Let_def maybeRestart_frame fail_pending_def setState_def)

lemma stop_frame: "cl_handshakes (stop env rid corr c) = cl_handshakes c" "cl_state (stop env rid corr c) \<noteq> READY"
proof -
  let ?c = "fail_pending SHUTDOWN (setState STOPPING (c\<lparr>cl_intentionalStop := True\<rparr>))"
  have "cl_handshakes (snd (rawRequest env rid corr ''system.shutdown'' (en_empty_payload env) no_options ?c)) = cl_handshakes c"
    and "cl_state (snd (rawRequest env rid corr ''system.shutdown'' (en_empty_payload env) no_options ?c)) = STOPPING"
    by (simp_all add: rawRequest_frame fail_pending_def setState_def)
  then show "cl_handshakes (stop env rid corr c) = cl_handshakes c" and "cl_state (stop env rid corr c) \<noteq> READY"
    by (auto simp: stop_def Let_def setState_def split: option.splits prod.splits sum.splits)
qed

lemma handleFrame_ok: "handshakes_ok env c \<Longrightarrow> handshakes_ok env (handleFrame env f c)"
proof -
  assume ok: "handshakes_ok env c"
  have "handshakes_ok env (onReady env h payload c)" for h payload
    using ok by (auto simp: onReady_def intro!: settle_handshake_ok split: option.splits)
       (auto simp: ready_ok_def handshakes_ok_def)
  with ok show ?thesis
    by (simp add: handleFrame_def dispatchEvent_def settleResponse_def handshakes_ok_def split: frame.splits option.splits)
qed

lemma handleFrame_state: "cl_state (handleFrame env f c) = cl_state c"
  by (simp add: handleFrame_def dispatchEvent_def settleResponse_def onReady_def settle_handshake_def
      split: frame.splits option.splits)

interpretation handshake_sys: step_invariant "client_step env" "handshakes_ok env" "\<lambda>_. True" for env
proof
  fix c :: "'a client" and e
  assume ok: "handshakes_ok env c"
  show "handshakes_ok env (client_step env e c)"
  proof (cases e)
    case Start
    with ok spawnAndHandshake_ok [of env "c\<lparr>cl_intentionalStop := False\<rparr>"] show ?thesis
      by (simp add: client_step_def start_def handshakes_ok_def)
  next
    case (Sleep_over i)
    with ok spawnAndHandshake_ok [of env "c\<lparr>cl_sleeping := take i (cl_sleeping c) @ drop (Suc i) (cl_sleeping c)\<rparr>"]
    show ?thesis by (simp add: client_step_def sleep_over_def Let_def handshakes_ok_def)
  next
    case (Frame_received f)
    with ok show ?thesis by (simp add: client_step_def handleFrame_ok)
  next
    case (Handshake_timer h)
    with ok show ?thesis by (simp add: client_step_def handshake_timer_def settle_handshake_ok ready_ok_def)
  next
    case (Continue_handshake h)
    with ok show ?thesis
      by (auto simp: client_step_def continue_handshake_def setState_def killWorker_def handshakes_ok_def
          list_all_delete split: option.splits handshake.splits)
  qed (use ok in \<open>auto simp: client_step_def handshakes_ok_def stop_frame request_frame cancelRequest_def health_def
         process_exits_def handleExit_frame request_timeout_def request_abort_def notifyCancel_def
         continue_stop_def finish_stop_def setState_def subscribeEvents_def unsubscribe_def
         split: option.splits stop_task.splits\<close>)
qed

lemma ready_by_handshake:
  assumes "cl_state (client_step env e c) = READY" and "cl_state c \<noteq> READY"
  shows "\<exists>h payload. e = Continue_handshake h \<and> map_of (cl_handshakes c) h = Some (Hs_ready payload)"
  using assms
  by (cases e)
     (auto simp: client_step_def start_def stop_frame request_frame cancelRequest_def health_def handleFrame_state
       process_exits_def handleExit_frame handshake_timer_def settle_handshake_def continue_handshake_def
       sleep_over_def spawnAndHandshake_def doHandshake_def spawnWorker_def Let_def setState_def killWorker_def
       request_timeout_def request_abort_def notifyCancel_def continue_stop_def finish_stop_def
       subscribeEvents_def unsubscribe_def
       split: option.splits handshake.splits stop_task.splits if_splits)

end
