(* ===== verification/Delivery_Props.thy ===== *)
theory Delivery_Props imports Delivery begin

text \<open>
  Guarantees of the delivery journal: an attempt's captured identity and payload never change and its
  terminal states are final (\<open>db_advances\<close>); an acknowledged attempt and its delivered message go together
  (\<open>delivered_inv\<close>); recovery touches exactly the in-flight attempts it is asked for; the timeline of a
  conversation is a function of the set of its messages.
\<close>

subsection \<open>Attempts only advance\<close>

definition terminal :: "delivery_attempt_status \<Rightarrow> bool" where
  "terminal st \<longleftrightarrow> st \<in> {ACKNOWLEDGED, REJECTED, UNKNOWN}"

definition attempt_advances :: "delivery_attempt \<Rightarrow> delivery_attempt \<Rightarrow> bool" where
  "attempt_advances a b \<longleftrightarrow>
     da_id b = da_id a \<and> da_conversationId b = da_conversationId a \<and> da_storeId b = da_storeId a \<and>
     da_platformAccountId b = da_platformAccountId a \<and> da_textPayload b = da_textPayload a \<and>
     da_createdAt b = da_createdAt a \<and>
     (terminal (da_status a) \<longrightarrow> b = a) \<and> (da_status a = IN_FLIGHT \<longrightarrow> da_status b \<noteq> PENDING)"

definition db_advances :: "database \<Rightarrow> database \<Rightarrow> bool" where
  "db_advances d e \<longleftrightarrow> length (db_attempts d) \<le> length (db_attempts e) \<and>
     (\<forall>i<length (db_attempts d). attempt_advances (db_attempts d ! i) (db_attempts e ! i)) \<and>
     set (db_messages d) \<subseteq> set (db_messages e)"

lemma attempt_advances_refl [simp]: "attempt_advances a a"
  by (simp add: attempt_advances_def)

lemma attempt_advances_trans: "attempt_advances a b \<Longrightarrow> attempt_advances b c \<Longrightarrow> attempt_advances a c"
  by (cases "da_status a"; cases "da_status b") (auto simp: attempt_advances_def terminal_def)

lemma db_advances_refl [simp]: "db_advances d d"
  by (simp add: db_advances_def)

lemma db_advances_trans:
  assumes "db_advances d e" and "db_advances e f"
  shows "db_advances d f"
  unfolding db_advances_def
proof (intro conjI allI impI)
  fix i
  assume "i < length (db_attempts d)"
  then have "attempt_advances (db_attempts d ! i) (db_attempts e ! i)" "attempt_advances (db_attempts e ! i) (db_attempts f ! i)"
    using assms by (auto simp: db_advances_def)
  then show "attempt_advances (db_attempts d ! i) (db_attempts f ! i)"
    by (rule attempt_advances_trans)
qed (use assms in \<open>auto simp: db_advances_def\<close>)

lemma update_advances:
  assumes "\<And>a. wh a \<Longrightarrow> attempt_advances a (f a)"
  shows "db_advances d (update_attempts wh f d)"
  using assms by (simp add: db_advances_def update_attempts_def)

lemma markInFlight_advances: "db_advances d (snd (markInFlight i t d))"
  unfolding markInFlight_def Let_def
  by simp (rule update_advances, auto simp: attempt_advances_def terminal_def)

lemma resolve_advances: "terminal st \<Longrightarrow> db_advances d (snd (resolve i st t d))"
  unfolding resolve_def Let_def
  by simp (rule update_advances, auto simp: attempt_advances_def terminal_def)

lemma updateAcknowledged_advances: "db_advances d (snd (updateAcknowledged i t mid src occ d))"
  unfolding updateAcknowledged_def Let_def
  by simp (rule update_advances, auto simp: attempt_advances_def terminal_def)

lemma recoverInFlight_advances: "db_advances d (snd (recoverInFlight t d))"
  by (auto simp: recoverInFlight_def Let_def attempt_advances_def terminal_def intro!: update_advances)

lemma append_advances:
  "db_advances d (d\<lparr>db_attempts := db_attempts d @ as\<rparr>)" "db_advances d (d\<lparr>db_messages := db_messages d @ ms\<rparr>)"
  "db_advances d (d\<lparr>db_conversations := cs\<rparr>)"
  by (simp_all add: db_advances_def nth_append)

lemma saveMessage_advances: "saveMessage m d = Inr e \<Longrightarrow> db_advances d e"
  by (auto simp: saveMessage_def append_advances split: if_splits)

lemma create_advances: "createAuthorizedDeliveryAttempt au i cid text t d = Inr (a, e) \<Longrightarrow> db_advances d e"
  by (auto simp: createAuthorizedDeliveryAttempt_def createAttempt_def Let_def append_advances
      split: if_splits option.splits sum.splits)

lemma finalize_advances:
  assumes "finalizeAcknowledgedDelivery i mid ext t src occ now d = Inr (a, e)"
  shows "db_advances d e"
proof -
  have "e = d \<or> (\<exists>m d1. saveMessage m d = Inr d1 \<and> e = snd (updateAcknowledged i t mid src occ d1))"
    using assms by (auto simp: finalizeAcknowledgedDelivery_def Let_def split: if_splits option.splits sum.splits)
  then show ?thesis
    using saveMessage_advances updateAcknowledged_advances db_advances_trans by fastforce
qed

lemma run_dispatch_db: "snd (run_dispatch i t d) = snd (markInFlight i t d)"
  by (simp add: run_dispatch_def case_prod_beta' Let_def split: option.splits)

lemma run_complete_advances: "db_advances d (snd (run_complete a r t d))"
proof (cases "dl_outcome r = Out_acknowledged")
  case True
  then show ?thesis
    using finalize_advances [of "da_id a" "generateDeliveryMessageId (da_id a)" None t "dl_sourceRef r" "dl_occurredAt r" t d]
    by (auto simp: run_complete_def split: sum.splits)
next
  case False
  then have "terminal (outcome_status (dl_outcome r))"
    by (cases "dl_outcome r") (simp_all add: outcome_status_def terminal_def)
  then show ?thesis
    using False resolve_advances by (simp add: run_complete_def case_prod_beta' Let_def split: option.splits)
qed

lemma recover_loop_advances: "db_advances d (snd (recover_loop m t as res d))"
proof (induction as arbitrary: res d)
  case (Cons a as)
  have "db_advances d (snd (recover_loop m t as res' (snd (resolve (da_id a) UNKNOWN t d))))" for res'
    using Cons resolve_advances [of UNKNOWN d "da_id a" t] db_advances_trans by (simp add: terminal_def)
  with Cons show ?case
    by (simp add: case_prod_beta' Let_def split: option.splits)
qed simp

lemma journal_step_advances: "db_advances (jn_db s) (jn_db (journal_step e s))"
  by (cases e)
     (auto simp: journal_step_def run_complete_advances recoverInFlightAttempts_def recoverInFlight_advances
       recoverWorkspaceInFlightDeliveryAttempts_def recover_loop_advances saveConversation_def append_advances
       resolve_advances terminal_def
       dest: create_advances finalize_advances saveMessage_advances
       split: sum.splits prod.splits if_splits,
      metis markInFlight_advances run_dispatch_db snd_conv, metis markInFlight_advances run_dispatch_db snd_conv)

lemma journal_run_advances: "db_advances (jn_db s) (jn_db (run journal_step es s))"
proof (induction es arbitrary: s)
  case (Cons e es)
  show ?case
    using db_advances_trans [OF journal_step_advances Cons] by simp
qed simp

lemma find_attempt_advances:
  assumes "db_advances d e" and "findAttempt i d = Some a"
  shows "\<exists>b. findAttempt i e = Some b \<and> attempt_advances a b"
proof -
  obtain n where n: "n < length (db_attempts d)" "a = db_attempts d ! n" "da_id a = i"
    and first: "\<forall>j<n. da_id (db_attempts d ! j) \<noteq> i"
    using assms(2) by (auto simp: findAttempt_def find_Some_iff)
  have adv: "attempt_advances (db_attempts d ! j) (db_attempts e ! j)" if "j \<le> n" for j
    using assms(1) n that by (simp add: db_advances_def)
  have len: "n < length (db_attempts e)"
    using assms(1) n by (simp add: db_advances_def)
  have "da_id (db_attempts e ! j) = da_id (db_attempts d ! j)" if "j \<le> n" for j
    using adv [OF that] by (simp add: attempt_advances_def)
  then have "findAttempt i e = Some (db_attempts e ! n)"
    unfolding findAttempt_def find_Some_iff using n first len by (intro exI [of _ n]) auto
  with adv [of n] n show ?thesis by auto
qed

subsection \<open>Acknowledged means delivered\<close>

definition delivered_by :: "message_row list \<Rightarrow> delivery_attempt \<Rightarrow> bool" where
  "delivered_by ms a \<longleftrightarrow> list_ex (\<lambda>m. da_deliveredMessageId a = Some (mr_id m) \<and>
     mr_conversation_id m = da_conversationId a \<and> mr_actor m = Some ''agent'' \<and>
     mr_content_kind m = Some ''text'' \<and> mr_content_text m = Some (da_textPayload a)) ms"

definition attempt_ok :: "message_row list \<Rightarrow> delivery_attempt \<Rightarrow> bool" where
  "attempt_ok ms a \<longleftrightarrow> (if da_status a = ACKNOWLEDGED then delivered_by ms a else da_deliveredMessageId a = None)"

definition delivered_inv :: "database \<Rightarrow> bool" where
  "delivered_inv d \<longleftrightarrow> distinct (map da_id (db_attempts d)) \<and> distinct (map mr_id (db_messages d)) \<and>
     list_all (attempt_ok (db_messages d)) (db_attempts d)"

lemma delivered_by_mono: "set ms \<subseteq> set ms' \<Longrightarrow> delivered_by ms a \<Longrightarrow> delivered_by ms' a"
  by (auto simp: delivered_by_def list_ex_iff)

lemma attempt_ok_mono: "set ms \<subseteq> set ms' \<Longrightarrow> attempt_ok ms a \<Longrightarrow> attempt_ok ms' a"
  using delivered_by_mono by (auto simp: attempt_ok_def split: if_splits)

lemma in_update:
  "b \<in> set (db_attempts (update_attempts wh f d)) \<Longrightarrow> \<exists>a\<in>set (db_attempts d). b = (if wh a then f a else a)"
  by (auto simp: update_attempts_def simp del: if_image_distrib)

lemma delivered_update:
  assumes "delivered_inv d" and "\<And>a. wh a \<Longrightarrow> da_id (f a) = da_id a"
    and "\<And>a. a \<in> set (db_attempts d) \<Longrightarrow> wh a \<Longrightarrow> attempt_ok (db_messages d) a \<Longrightarrow> attempt_ok (db_messages d) (f a)"
  shows "delivered_inv (update_attempts wh f d)"
proof -
  have ids: "map da_id (db_attempts (update_attempts wh f d)) = map da_id (db_attempts d)"
    using assms(2) by (simp add: update_attempts_def)
  have ms: "db_messages (update_attempts wh f d) = db_messages d"
    by (simp add: update_attempts_def)
  have "attempt_ok (db_messages d) b" if b: "b \<in> set (db_attempts (update_attempts wh f d))" for b
  proof -
    obtain a where "a \<in> set (db_attempts d)" and "b = (if wh a then f a else a)"
      using in_update [OF b] by blast
    with assms(1,3) show ?thesis by (auto simp: delivered_inv_def list_all_iff)
  qed
  then show ?thesis
    using assms(1) by (simp add: delivered_inv_def ids ms list_all_iff)
qed

lemma markInFlight_delivered: "delivered_inv d \<Longrightarrow> delivered_inv (snd (markInFlight i t d))"
  unfolding markInFlight_def Let_def by simp (rule delivered_update, auto simp: attempt_ok_def)

lemma resolve_delivered: "delivered_inv d \<Longrightarrow> st \<noteq> ACKNOWLEDGED \<Longrightarrow> delivered_inv (snd (resolve i st t d))"
  unfolding resolve_def Let_def by simp (rule delivered_update, auto simp: attempt_ok_def)

lemma recoverInFlight_delivered: "delivered_inv d \<Longrightarrow> delivered_inv (snd (recoverInFlight t d))"
  by (auto simp: recoverInFlight_def Let_def attempt_ok_def intro!: delivered_update)

lemma saveMessage_delivered: "delivered_inv d \<Longrightarrow> saveMessage m d = Inr e \<Longrightarrow> delivered_inv e"
proof -
  assume inv: "delivered_inv d" and "saveMessage m d = Inr e"
  then have e: "e = d\<lparr>db_messages := db_messages d @ [message_row_of m]\<rparr>" and new: "ms_id m \<notin> mr_id ` set (db_messages d)"
    by (auto simp: saveMessage_def split: if_splits)
  have "attempt_ok (db_messages e) a" if "a \<in> set (db_attempts d)" for a
    using inv that attempt_ok_mono [of "db_messages d" "db_messages e" a] by (auto simp: delivered_inv_def list_all_iff e)
  with inv new show ?thesis
    by (auto simp: delivered_inv_def e list_all_iff message_row_of_def)
qed

lemma createAttempt_delivered:
  "delivered_inv d \<Longrightarrow> da_deliveredMessageId a = None \<Longrightarrow> createAttempt a d = Inr e \<Longrightarrow> delivered_inv e"
  by (auto simp: createAttempt_def delivered_inv_def attempt_ok_def split: if_splits)

lemma create_delivered:
  "delivered_inv d \<Longrightarrow> createAuthorizedDeliveryAttempt au i cid text t d = Inr (a, e) \<Longrightarrow> delivered_inv e"
  by (auto simp: createAuthorizedDeliveryAttempt_def Let_def dest!: createAttempt_delivered [rotated 2]
      split: if_splits option.splits sum.splits)

lemma unique_attempt:
  assumes "delivered_inv d" and "findAttempt i d = Some a" and "b \<in> set (db_attempts d)" and "da_id b = i"
  shows "b = a"
proof -
  have "a \<in> set (db_attempts d)" and "da_id a = i"
    using assms(2) by (auto simp: findAttempt_def find_Some_iff)
  then show ?thesis
    using assms by (auto simp: delivered_inv_def distinct_map inj_on_def)
qed

lemma finalize_delivered:
  assumes inv: "delivered_inv d" and fin: "finalizeAcknowledgedDelivery i mid ext t src occ now d = Inr (r, e)"
  shows "delivered_inv e"
proof -
  obtain a where a: "findAttempt i d = Some a"
    using fin by (auto simp: finalizeAcknowledgedDelivery_def split: option.splits)
  let ?m = "\<lparr>ms_id = mid, ms_conversationId = da_conversationId a, ms_externalRef = ext, ms_actor = Some Agent,
     ms_contentKind = Some Text_content, ms_contentText = Some (da_textPayload a), ms_occurredAt = occ, ms_observedAt = Some now\<rparr>"
  have "e = d \<or> (\<exists>d1. saveMessage ?m d = Inr d1 \<and> e = snd (updateAcknowledged i t mid src occ d1))"
    using fin a by (auto simp: finalizeAcknowledgedDelivery_def Let_def split: if_splits option.splits sum.splits)
  then show ?thesis
  proof
    assume "\<exists>d1. saveMessage ?m d = Inr d1 \<and> e = snd (updateAcknowledged i t mid src occ d1)"
    then obtain d1 where save: "saveMessage ?m d = Inr d1" and e: "e = snd (updateAcknowledged i t mid src occ d1)"
      by blast
    have d1: "db_attempts d1 = db_attempts d" "message_row_of ?m \<in> set (db_messages d1)"
      using save by (auto simp: saveMessage_def split: if_splits)
    have "delivered_inv d1"
      using saveMessage_delivered [OF inv save] .
    then show ?thesis
      unfolding e updateAcknowledged_def Let_def snd_conv
    proof (rule delivered_update)
      fix b
      assume "b \<in> set (db_attempts d1)" and "da_id b = i \<and> da_status b = IN_FLIGHT"
      then have "b = a"
        using unique_attempt [OF inv a] d1 by simp
      then show "attempt_ok (db_messages d1) (b\<lparr>da_status := ACKNOWLEDGED, da_resolvedAt := Some t,
          da_deliveredMessageId := Some mid, da_ackSourceRef := src, da_ackOccurredAt := occ\<rparr>)"
        using d1(2) by (auto simp: attempt_ok_def delivered_by_def list_ex_iff message_row_of_def intro!: bexI)
    qed simp
  qed (use inv in simp)
qed

lemma run_complete_delivered: "delivered_inv d \<Longrightarrow> delivered_inv (snd (run_complete a r t d))"
proof (cases "dl_outcome r")
  case Out_acknowledged
  assume "delivered_inv d"
  with Out_acknowledged show ?thesis
    using finalize_delivered [of d "da_id a" "generateDeliveryMessageId (da_id a)" None t "dl_sourceRef r" "dl_occurredAt r" t]
    by (auto simp: run_complete_def split: sum.splits)
qed (simp_all add: run_complete_def case_prod_beta' Let_def outcome_status_def resolve_delivered split: option.splits)

lemma recover_loop_delivered: "delivered_inv d \<Longrightarrow> delivered_inv (snd (recover_loop m t as res d))"
proof (induction as arbitrary: res d)
  case (Cons a as)
  then show ?case
    by (simp add: case_prod_beta' Let_def resolve_delivered split: option.splits)
qed simp

interpretation delivered_sys: step_invariant journal_step "\<lambda>s :: journal. delivered_inv (jn_db s)" "\<lambda>_. True"
proof
  fix s :: journal and e
  assume inv: "delivered_inv (jn_db s)"
  show "delivered_inv (jn_db (journal_step e s))"
  proof (cases e)
    case (Dispatch i now)
    have "delivered_inv (snd (run_dispatch i now (jn_db s)))"
      using inv by (simp add: run_dispatch_db markInFlight_delivered)
    with Dispatch show ?thesis
      by (auto simp: journal_step_def split: prod.splits sum.splits)
  next
    case (Save_conversation c)
    with inv show ?thesis
      by (simp add: journal_step_def saveConversation_def delivered_inv_def)
  qed (use inv in \<open>auto simp: journal_step_def run_complete_delivered recoverInFlightAttempts_def
         recoverInFlight_delivered recoverWorkspaceInFlightDeliveryAttempts_def recover_loop_delivered
         resolve_delivered intro: create_delivered finalize_delivered saveMessage_delivered
         split: sum.splits prod.splits\<close>)
qed

lemma empty_journal_delivered: "delivered_inv (jn_db (empty_journal ms ss as))"
  by (simp add: empty_journal_def delivered_inv_def)

subsection \<open>Finalization is idempotent\<close>

lemma finalize_acknowledges:
  assumes inv: "delivered_inv d" and fin: "finalizeAcknowledgedDelivery i mid ext t src occ now d = Inr (r, e)"
  shows "findAttempt i e = Some r \<and> da_status r = ACKNOWLEDGED"
proof -
  obtain a where a: "findAttempt i d = Some a"
    using fin by (auto simp: finalizeAcknowledgedDelivery_def split: option.splits)
  show ?thesis
  proof (cases "da_status a = ACKNOWLEDGED")
    case True
    with fin a show ?thesis by (simp add: finalizeAcknowledgedDelivery_def)
  next
    case False
    then obtain d1 m where e: "e = snd (updateAcknowledged i t mid src occ d1)" and save: "saveMessage m d = Inr d1"
      and r: "findAttempt i e = Some r" and st: "da_status a = IN_FLIGHT"
      using fin a by (auto simp: finalizeAcknowledgedDelivery_def Let_def split: if_splits option.splits sum.splits)
    have att: "db_attempts d1 = db_attempts d"
      using save by (auto simp: saveMessage_def split: if_splits)
    have "r \<in> set (db_attempts e)" and "da_id r = i"
      using r by (auto simp: findAttempt_def find_Some_iff)
    then obtain b where b: "b \<in> set (db_attempts d)" and
      rb: "r = (if da_id b = i \<and> da_status b = IN_FLIGHT then b\<lparr>da_status := ACKNOWLEDGED, da_resolvedAt := Some t,
        da_deliveredMessageId := Some mid, da_ackSourceRef := src, da_ackOccurredAt := occ\<rparr> else b)"
      using e att in_update [of r "\<lambda>a. da_id a = i \<and> da_status a = IN_FLIGHT" _ d1]
      by (simp add: updateAcknowledged_def Let_def) blast
    have "da_id b = i"
      using rb \<open>da_id r = i\<close> by (auto split: if_splits)
    then have "b = a"
      using unique_attempt [OF inv a b] by simp
    with rb st \<open>da_id b = i\<close> r show ?thesis by simp
  qed
qed

lemma finalize_again:
  assumes "findAttempt i e = Some r" and "da_status r = ACKNOWLEDGED"
  shows "finalizeAcknowledgedDelivery i mid ext t src occ now e = Inr (r, e)"
  using assms by (simp add: finalizeAcknowledgedDelivery_def)

subsection \<open>Scoped recovery\<close>

definition owned_by :: "string \<Rightarrow> database \<Rightarrow> delivery_attempt \<Rightarrow> bool" where
  "owned_by m d a = (case findConversation (da_conversationId a) d of Some c \<Rightarrow> nc_merchantId c = m | None \<Rightarrow> False)"

abbreviation to_unknown :: "string \<Rightarrow> delivery_attempt \<Rightarrow> delivery_attempt" where
  "to_unknown t a \<equiv> a\<lparr>da_status := UNKNOWN, da_resolvedAt := Some t\<rparr>"

definition unresolved_in :: "string set \<Rightarrow> delivery_attempt \<Rightarrow> bool" where
  "unresolved_in ids a \<longleftrightarrow> da_id a \<in> ids \<and> da_status a \<in> {PENDING, IN_FLIGHT}"

lemma update_twice:
  "update_attempts (unresolved_in B) (to_unknown t) (update_attempts (unresolved_in A) (to_unknown t) d) =
     update_attempts (unresolved_in (A \<union> B)) (to_unknown t) d"
proof -
  have "(\<lambda>a. if unresolved_in B a then to_unknown t a else a) \<circ> (\<lambda>a. if unresolved_in A a then to_unknown t a else a) =
      (\<lambda>a. if unresolved_in (A \<union> B) a then to_unknown t a else a)"
    by (auto simp: unresolved_in_def fun_eq_iff)
  then show ?thesis by (simp add: update_attempts_def)
qed

lemma resolve_unknown:
  "resolve i UNKNOWN t d = (findAttempt i (update_attempts (unresolved_in {i}) (to_unknown t) d),
     update_attempts (unresolved_in {i}) (to_unknown t) d)"
proof -
  have "(\<lambda>a. da_id a = i \<and> da_status a \<in> {PENDING, IN_FLIGHT}) = unresolved_in {i}"
    by (auto simp: unresolved_in_def)
  then show ?thesis by (simp add: resolve_def Let_def)
qed

lemma owned_by_update [simp]: "owned_by m (update_attempts wh f d) = owned_by m d"
  by (simp add: owned_by_def update_attempts_def findConversation_def fun_eq_iff)

lemma ids_update [simp]: "da_id ` set (db_attempts (update_attempts (unresolved_in A) (to_unknown t) d)) = da_id ` set (db_attempts d)"
proof -
  have "da_id (if unresolved_in A a then to_unknown t a else a) = da_id a" for a
    by simp
  then show ?thesis
    by (simp add: update_attempts_def image_image del: if_image_distrib cong: if_cong)
qed

lemma findAttempt_None: "findAttempt i d = None \<longleftrightarrow> i \<notin> da_id ` set (db_attempts d)"
  by (auto simp: findAttempt_def find_None_iff)

lemma find_after_update:
  "i \<in> da_id ` set (db_attempts d) \<Longrightarrow> findAttempt i (update_attempts (unresolved_in A) (to_unknown t) d) \<noteq> None"
  by (simp only: findAttempt_None ids_update not_not)

lemma recover_loop_eq:
  assumes "da_id ` set as \<subseteq> da_id ` set (db_attempts d)"
  shows "recover_loop m t as res d =
    (\<lparr>rr_recovered = rr_recovered res + length (filter (owned_by m d) as),
      rr_untouched = rr_untouched res + length (filter (\<lambda>a. \<not> owned_by m d a) as)\<rparr>,
     update_attempts (unresolved_in (da_id ` set (filter (owned_by m d) as))) (to_unknown t) d)"
  using assms
proof (induction as arbitrary: res d)
  case Nil
  have "update_attempts (unresolved_in {}) (to_unknown t) d = d"
    by (simp add: update_attempts_def unresolved_in_def)
  then show ?case by simp
next
  case (Cons a as)
  show ?case
  proof (cases "owned_by m d a")
    case True
    then obtain c where c: "findConversation (da_conversationId a) d = Some c" "nc_merchantId c = m"
      by (auto simp: owned_by_def split: option.splits)
    let ?d = "update_attempts (unresolved_in {da_id a}) (to_unknown t) d"
    have "recover_loop m t (a # as) res d = recover_loop m t as (res\<lparr>rr_recovered := rr_recovered res + 1\<rparr>) ?d"
      using c Cons.prems find_after_update [of "da_id a" d] by (simp add: resolve_unknown)
    also have "\<dots> = (\<lparr>rr_recovered = rr_recovered res + length (filter (owned_by m d) (a # as)),
        rr_untouched = rr_untouched res + length (filter (\<lambda>a. \<not> owned_by m d a) (a # as))\<rparr>,
       update_attempts (unresolved_in (da_id ` set (filter (owned_by m d) as))) (to_unknown t) ?d)"
      using Cons.IH [of ?d] Cons.prems True by simp
    finally show ?thesis
      using True by (simp add: update_twice)
  next
    case False
    then have "recover_loop m t (a # as) res d = recover_loop m t as (res\<lparr>rr_untouched := rr_untouched res + 1\<rparr>) d"
      by (auto simp: owned_by_def split: option.splits)
    with False Cons show ?thesis by simp
  qed
qed

lemma recover_workspace_eq:
  assumes "distinct (map da_id (db_attempts d))"
  shows "recoverWorkspaceInFlightDeliveryAttempts m t d =
    (\<lparr>rr_recovered = length (filter (\<lambda>a. da_status a = IN_FLIGHT \<and> owned_by m d a) (db_attempts d)),
      rr_untouched = length (filter (\<lambda>a. da_status a = IN_FLIGHT \<and> \<not> owned_by m d a) (db_attempts d))\<rparr>,
     update_attempts (\<lambda>a. da_status a = IN_FLIGHT \<and> owned_by m d a) (to_unknown t) d)"
proof -
  let ?fl = "filter (\<lambda>a. da_status a = IN_FLIGHT) (db_attempts d)"
  have lens: "length (filter P (listInFlight d)) = length (filter P ?fl)" for P
    unfolding listInFlight_def by (metis mset_filter mset_sort size_mset)
  have set: "set (filter (owned_by m d) (listInFlight d)) = {a \<in> set (db_attempts d). da_status a = IN_FLIGHT \<and> owned_by m d a}"
    by (auto simp: listInFlight_def)
  have "unresolved_in (da_id ` {a \<in> set (db_attempts d). da_status a = IN_FLIGHT \<and> owned_by m d a}) a \<longleftrightarrow>
      da_status a = IN_FLIGHT \<and> owned_by m d a" if "a \<in> set (db_attempts d)" for a
    using assms that by (auto simp: unresolved_in_def distinct_map inj_on_def)
  then have "update_attempts (unresolved_in (da_id ` {a \<in> set (db_attempts d). da_status a = IN_FLIGHT \<and> owned_by m d a})) (to_unknown t) d =
      update_attempts (\<lambda>a. da_status a = IN_FLIGHT \<and> owned_by m d a) (to_unknown t) d"
    by (simp add: update_attempts_def cong: map_cong)
  moreover have sub: "da_id ` set (listInFlight d) \<subseteq> da_id ` set (db_attempts d)"
    by (auto simp: listInFlight_def)
  ultimately show ?thesis
    unfolding recoverWorkspaceInFlightDeliveryAttempts_def recover_loop_eq [OF sub] set lens
    by (simp add: conj_commute)
qed

lemma recover_again:
  assumes "distinct (map da_id (db_attempts d))"
  shows "rr_recovered (fst (recoverWorkspaceInFlightDeliveryAttempts m t'
    (update_attempts (\<lambda>a. da_status a = IN_FLIGHT \<and> owned_by m d a) (to_unknown t) d))) = 0"
proof -
  let ?d = "update_attempts (\<lambda>a. da_status a = IN_FLIGHT \<and> owned_by m d a) (to_unknown t) d"
  have "map da_id (db_attempts ?d) = map da_id (db_attempts d)"
    by (simp add: update_attempts_def)
  then have "distinct (map da_id (db_attempts ?d))"
    using assms by (simp only:)
  moreover have "\<not> (da_status b = IN_FLIGHT \<and> owned_by m d b)" if b: "b \<in> set (db_attempts ?d)" for b
  proof -
    obtain a where "b = (if da_status a = IN_FLIGHT \<and> owned_by m d a then to_unknown t a else a)"
      using in_update [OF b] by blast
    then show ?thesis by auto
  qed
  ultimately show ?thesis
    by (simp add: recover_workspace_eq filter_empty_conv)
qed

subsection \<open>Messages\<close>

lemma mapMsgRow_row_of: "mapMsgRow (message_row_of m) = m"
proof (rule message_record.equality)
  show "ms_actor (mapMsgRow (message_row_of m)) = ms_actor m"
  proof (cases "ms_actor m")
    case (Some a)
    then show ?thesis by (cases a) (simp_all add: mapMsgRow_def message_row_of_def)
  qed (simp add: mapMsgRow_def message_row_of_def)
  show "ms_contentKind (mapMsgRow (message_row_of m)) = ms_contentKind m"
  proof (cases "ms_contentKind m")
    case (Some k)
    then show ?thesis by (cases k) (simp add: mapMsgRow_def message_row_of_def)
  qed (simp add: mapMsgRow_def message_row_of_def)
qed (simp_all add: mapMsgRow_def message_row_of_def)

lemma find_append_new: "(\<And>x. x \<in> set xs \<Longrightarrow> \<not> P x) \<Longrightarrow> P y \<Longrightarrow> find P (xs @ [y]) = Some y"
  by (induction xs) auto

lemma findMessage_saved:
  assumes "saveMessage m d = Inr e"
  shows "findMessage (ms_id m) e = Some m"
proof -
  have e: "e = d\<lparr>db_messages := db_messages d @ [message_row_of m]\<rparr>" and "ms_id m \<notin> mr_id ` set (db_messages d)"
    using assms by (auto simp: saveMessage_def split: if_splits)
  then have "mr_id r \<noteq> ms_id m" if "r \<in> set (db_messages d)" for r
    using that by (metis image_eqI)
  then have "find (\<lambda>r. mr_id r = ms_id m) (db_messages d @ [message_row_of m]) = Some (message_row_of m)"
    by (intro find_append_new) (simp_all add: message_row_of_def)
  then show ?thesis
    by (simp add: findMessage_def e mapMsgRow_row_of)
qed

lemma timeline_key_inject: "timeline_key r = timeline_key q \<Longrightarrow> mr_id r = mr_id q"
  by (auto simp: timeline_key_def split: option.splits)

text \<open>The timeline does not depend on the order in which the messages were stored.\<close>

lemma timeline_deterministic:
  assumes "distinct (map mr_id (db_messages d))" and "mset (db_messages d) = mset (db_messages e)"
  shows "listByConversation cid d = listByConversation cid e"
proof -
  let ?f = "filter (\<lambda>r. mr_conversation_id r = cid)"
  have eq: "mset (?f (db_messages d)) = mset (?f (db_messages e))"
    using assms(2) by (metis mset_filter)
  have inj: "inj_on timeline_key (set (?f (db_messages d)))"
  proof (rule inj_onI)
    fix r q
    assume rq: "r \<in> set (?f (db_messages d))" "q \<in> set (?f (db_messages d))" and "timeline_key r = timeline_key q"
    then have "mr_id r = mr_id q"
      using timeline_key_inject by blast
    moreover have "inj_on mr_id (set (db_messages d))"
      using assms(1) by (simp add: distinct_map)
    ultimately show "r = q"
      using rq by (auto dest: inj_onD)
  qed
  have "sort_key timeline_key (?f (db_messages d)) = sort_key timeline_key (?f (db_messages e))"
    using eq inj by (intro sort_key_inj_key_eq) simp_all
  then show ?thesis by (simp add: listByConversation_def)
qed

end
