(* ===== verification/Spec2Isabelle.thy ===== *)
theory Spec2Isabelle imports Job_Services_Props Knowledge_Retrieval Db_Migration_Props Desktop_Ipc_Props Legacy_Planning_Props Legacy_Csv_Props Forbidden_Filter_Props Domain_Contracts_Props Workbench_Props Pdd_Coordinator_Props Pdd_Decoded_Props Pdd_Service_Props Pdd_Observer_Props Main_Admission Inbound_Pipeline Jobs_Props Feedback_Props Intent_Props Orchestrator_Setup
  Rpc_Client_Props Delivery_Props begin

text \<open>
  A verification library for the FastWork desktop client: a customer-service assistant that observes the
  Pinduoduo (PDD) merchant chat page, asks a local AI worker process for reply suggestions, and sends them under
  the operator's control. The sources are TypeScript (\<open>packages/\<close> and \<open>apps/desktop\<close> under \<open>src/\<close>).

  \<^bold>\<open>The program.\<close> A page event or a network frame is normalized, mapped to a canonical inbound envelope and
  stored; consecutive messages of a conversation are collected into turns. The conversation orchestrator keeps
  the state of each conversation, asks the worker for a reply, and sends replies through the
  platform adapter, automatically or when the operator says so. The worker is a Python child process spoken to over
  newline-delimited JSON. Deliveries, background jobs and feedback are journalled in SQLite. Execution
  intents bind a planned message to the identity and plan it was confirmed for.

  \<^bold>\<open>Modelling conventions\<close> (theory \<open>Prelude\<close>). A string is a list of characters of the Latin-1 range, \<open>null\<close>
  and \<open>undefined\<close> are \<open>None\<close>, a thrown error is the left injection of a sum, a mutable object is a record passed
  through its operations, a \<open>Map\<close> whose order matters is an association list. An asynchronous function is cut at its
  awaits: what is in progress is data of the state (a list of tasks, flows or pending runs), and a
  settlement is an event with the answer as its argument, so that every interleaving of calls and
  settlements is a list of events. Clocks, random ids, digests, JSON parsing, schema validators, resolvers and
  the answers of other processes are arguments. Callbacks into ports are assumed not to throw unless the
  code catches it. The locales \<open>step_invariant\<close> and \<open>step_monotone\<close> carry an invariant or a monotone quantity
  over all runs; each component interprets them on its own step function.

  \<^bold>\<open>Sending\<close> (\<open>packages/orchestrator\<close>).
  \<^item> \<open>Policies\<close>, \<open>Segments\<close>, \<open>Send_Failure\<close>, \<open>Target_Checks\<close>: mode policies and generation tokens, the segmented
    sender (sequential and scheduled, with its timers), retry classification, checks before a send.
  \<^item> \<open>Serializer\<close>: the per-conversation send queue.
  \<^item> \<open>Orchestrator\<close>, \<open>Orchestrator_Props\<close>, \<open>Orchestrator_Safety\<close>, \<open>Orchestrator_Setup\<close>: the conversation
    orchestrator as one state with its tasks in progress, every handler, construction, snapshots and shop registry.
  The properties: one send in flight per conversation, and one more for each call of \<open>dequeueNext\<close>, a public operation that starts
  the next request beside the running one; queued requests are served when no send is rejected (three settlements per
  request suffice; a rejected send strands the queue); replies of an older generation are ignored (the regeneration before a
  send has no such check); review mode sends nothing by itself when no seeded countdown is running (a restored one
  sends when it ends); sends have checked targets, retries only when nothing can have been sent, FIFO order, shops do not
  affect each other, segment text is preserved.
  \<^item> \<open>Forbidden_Filter\<close>, \<open>Forbidden_Filter_Props\<close>: the filter of forbidden words, an automaton whose nodes are addressed by their path.
    Texts are UTF-16 code units, words are inserted by code points and scanned by code units as in the code: it computes the reference
    scan, removes every word of the basic plane, and never a word with a character outside it.

  \<^bold>\<open>The worker\<close> (\<open>packages/worker-rpc\<close>). \<open>Rpc_Framing\<close> (line framing with its size limit), \<open>Rpc_Pending\<close> (request
  registry), \<open>Rpc_Queue\<close> (write queue and restart back-off), \<open>Rpc_Client\<close> and \<open>Rpc_Client_Props\<close> (handshake, requests,
  crash and restart). Framing is independent of chunking, no request leaks, a crash fails every
  pending request and schedules a restart after its back-off until the attempts are used up, memory is bounded, ready implies a valid handshake.

  \<^bold>\<open>Durable state\<close> (\<open>packages/persistence\<close>, \<open>packages/background-jobs\<close>, \<open>packages/feedback\<close>). \<open>Delivery\<close> and \<open>Delivery_Props\<close> (delivery
  attempts, conversations, messages), \<open>Db_Backup\<close> and \<open>Db_Backup_Props\<close> (snapshots, checksums, restore, rotation over a file system of
  paths), \<open>Db_Migration\<close> and \<open>Db_Migration_Props\<close> (runner of the schema migrations, transactions, workspace identity), \<open>Jobs\<close> and \<open>Jobs_Props\<close>, \<open>Feedback\<close> and \<open>Feedback_Props\<close> (at most six events per
  open flow). Attempts only advance, an acknowledged attempt has its message, finalization is idempotent, recovery
  is scoped, job states follow the life cycle, feedback retries are bounded and applied effects not repeated. A
  restore replaces the database completely or not at all, a backup restores what was copied, migrations are applied in order behind a
  backup and rolled back when one fails.

  \<^bold>\<open>Work as jobs\<close> (\<open>packages/product-optimization\<close>, \<open>apps/desktop/src/main/services\<close>). \<open>Products\<close> (the product repositories and the
  port \<open>product_store\<close>, a locale with both as instances), \<open>Optimization\<close> and \<open>Optimization_Props\<close> (guards, cooldown, propose, apply),
  \<open>Job_Services\<close> and \<open>Job_Services_Props\<close> (learning, review, audit and optimization as background jobs), \<open>Knowledge_Retrieval\<close> (store
  knowledge through the worker). Optimizations of a product are spaced by the cooldown, a run ends with what it waits for, the guards
  accept exactly clean details, a retrieval answers whole or fails.

  \<^bold>\<open>Import of the old program's data\<close> (\<open>packages/legacy-import\<close>). \<open>Legacy_Csv\<close> and \<open>Legacy_Csv_Props\<close> (the CSV reader and the row
  mappings), \<open>Legacy_Import\<close> and \<open>Legacy_Import_Props\<close> (sessions, verification, apply, cancel, resume, conflict policies), \<open>Legacy_Planning\<close>
  and \<open>Legacy_Planning_Props\<close> (path safety, selection, scan, secrets, plans, and the desktop services in front). A printed table is
  read back, nothing is written without unchanged sources and a backup that was really made, the end of an import is durable, the confirmed
  plan is the one applied, secret keys are found.

  \<^bold>\<open>Execution intents\<close> (\<open>packages/domain/src/execution-intent.ts\<close>). \<open>Canonical_Json\<close> (the canonical text determines the
  value), \<open>Execution_Intent\<close>, \<open>Intent_Props\<close>. \<open>Domain_Contracts\<close> and \<open>Domain_Contracts_Props\<close>: the contracts around an execution
  (confirmations and their hash, verification, outcomes, notifications, the audit trail, policy decisions, scene filter, ownership).

  \<^bold>\<open>Inbound\<close> (\<open>packages/platform-pdd\<close>, \<open>apps/desktop/src/main\<close>).
  \<^item> \<open>Inbound_Normalizer\<close>: normalizers and the page-event gate; unknown values are JSON values.
  \<^item> \<open>Inbound_Ingress\<close>, \<open>Inbound_Props\<close>: identity types, mapper, type guards, source time, \<open>processPddInboundIngress\<close>.
  \<^item> \<open>Main_Admission\<close>: which observer connections are admitted.
  \<^item> \<open>Inbound_Persistence\<close>, \<open>Inbound_Persistence_Props\<close>: storing an envelope once, in its own shop, when its identity is known.
  \<^item> \<open>Turn_Builder\<close>, \<open>Turn_Builder_Props\<close>: windows and turns.
  \<^item> \<open>Inbound_Pipeline\<close>: persistence and aggregation composed as \<open>bootstrap.ts\<close> composes them.
  \<^bold>\<open>The merchant page\<close> (\<open>packages/platform-pdd\<close> in the page, \<open>apps/desktop/src/main/platforms/pdd\<close> in the main process).
  \<^item> \<open>Pdd_Session\<close>, \<open>Pdd_Session_Props\<close>: the session status machine, document generations, page events and ingress contexts.
  \<^item> \<open>Pdd_Observer\<close>, \<open>Pdd_Observer_Props\<close>: the network observer; a body read is cut at its await.
  \<^item> \<open>Pdd_Dom\<close>: readers and drivers of the page. A document is a forest of elements; how CSS selectors match and how
    the page reacts to a click are arguments. Chinese texts are their UTF-8 bytes.
  \<^item> \<open>Pdd_Page\<close>, \<open>Pdd_Page_Props\<close>: de-duplicator, message normalizer, event builders and the page runtime.
  \<^item> \<open>Pdd_View\<close>: navigation, partition and permission policies, and the view host as the sequence of its native calls.
  \<^item> \<open>Pdd_Adapter\<close>: the preload bridge, the platform adapter, capabilities and send semantics.
  \<^item> \<open>Pdd_Service\<close>, \<open>Pdd_Service_Props\<close>: the platform service. Sessions, views and web contents have numbers as identities; a resolver or
    collector may change the service while it runs, which is the argument \<open>reenter\<close>.
  The properties: the collector gets only data of the live document under a valid admission, re-authentication and revocation cut
  a shop off (for what the observer sees; decoded events of the page and trusted envelopes have checks of their own), the observer hands on only current data of allowed requests, a stale page cannot change its
  session, each message is reported once within the window, the shield covers the page at every native call, a transfer
  clicks only its target and confirms only a click that was possible (an element without a click method is taken as clicked),
  commands settle exactly once, a segment is typed once.

  \<^item> \<open>Pdd_Transport\<close>, \<open>Pdd_Transport_Props\<close>: the decoders of observed response bodies and the accumulator of overlapping windows.
  \<^item> \<open>Pdd_Decoded\<close>, \<open>Pdd_Decoded_Props\<close>: the decoded page events, the buffer in the page and its captures.
  \<^item> \<open>Pdd_Coordinator\<close>, \<open>Pdd_Coordinator_Props\<close>: the session coordinator above the service; only the view of the selected shop is shown.

  \<^bold>\<open>The desktop shell\<close> (\<open>apps/desktop/src/renderer/state\<close>, \<open>packages/desktop-ipc\<close>, \<open>apps/desktop/src/main/ipc\<close>).
  \<^item> \<open>Workbench\<close>, \<open>Workbench_Store\<close>, \<open>Workbench_Props\<close>: view models, event reducer and store of the renderer; answers come in any order. The
    timeline shows the answer to the request for the active conversation.
  \<^item> \<open>Desktop_Ipc\<close>, \<open>Desktop_Ipc_Props\<close>: the guard of the handlers, the query handlers and the projection of their answers. A handler
    runs only on validated requests of a trusted window, and a query answers only about the merchant asked for, while the projections
    and the accounts are consistent.

  Each component theory also states, as plain lemmas or theorems, the defects the model shows; the manifest lists
  them as findings.

  \<^bold>\<open>Bounds.\<close> Recursion of the models ends by a measure of its data; the only fuel is depth of the code itself (the secret search
  stops at 32 levels, as the code does).

  \<^bold>\<open>Not modelled.\<close> Electron itself, process entry points and the wiring of \<open>bootstrap.ts\<close>; the preload scripts; the renderer's
  components (DOM construction); diagnostics (the observer's tallies and target coverage, the service's broadcasts, ledger and
  snapshots); the worker subprocess and the Python worker; schema validation, a library, whose validators are arguments; SQL text (a
  table is the list of its rows); the row writers and JSON parsers of the import; type declarations without operations; controlled
  and smoke-test programs, which drive the program from outside; archived designs. Strings outside Latin-1 are
  outside the model, apart from constants and file texts, which are UTF-8 bytes, and the texts of \<open>Forbidden_Filter\<close>: case mapping, white space and length would differ there.
\<close>

subsection \<open>Sending\<close>

text \<open>
  Property C1. Over every interleaving of handler calls and promise settlements (rejections included),
  starting from a fresh orchestrator, a conversation has at most one drain loop in progress, hence at
  most one send in flight, and at most one more for each call of \<open>onDequeueNext\<close> for it. No part of the
  application calls \<open>onDequeueNext\<close>, which frees the key although a loop is in progress
  (\<open>dequeue_opens_a_second_loop\<close>); a run without such calls never has two.
\<close>

theorem one_send_at_a_time:
  "drains (ser_key shop cid) (or_tasks (run orch_step es (new_orchestrator tick)))
     \<le> 1 + length (filter (dequeue_of (ser_key shop cid)) es)"
  using run_excl [OF new_orchestrator_invs(1) [of "\<lambda>_. 0"]] by (simp add: excl_inv_def)

definition buyer_says :: "string \<Rightarrow> string \<Rightarrow> buyer_message" where
  "buyer_says i t = \<lparr>bm_message_id = Some i, bm_buyer = None, bm_content = Some t, bm_message = None\<rparr>"

definition engine_says :: "string \<Rightarrow> ai_result" where
  "engine_says t = \<lparr>ar_reply = Some t, ar_decision = None, ar_generation = None\<rparr>"

text \<open>A buyer message answered by a suggestion that the operator sends, up to the sender's call.\<close>

definition reviewed_send :: "orch_event list" where
  "reviewed_send =
     [Buyer_message ''s'' ''c'' (buyer_says ''m1'' ''q''), Settle_task 0 (Reply_value (engine_says ''old'')),
      Settle_task 0 Unit_value, Manual_send ''s'' ''c'' ''Enter'', Settle_task 0 (Current_value None)]"

lemmas scenario_defs = buyer_says_def engine_says_def reviewed_send_def

theorem dequeue_opens_a_second_loop:
  "drains (ser_key ''s'' ''c'') (or_tasks (run orch_step
     (reviewed_send @ [Dequeue_next ''s'' ''c'', Send_request ''s'' ''c'' (Some ''x'') None]) (new_orchestrator 1000))) = 2"
  unfolding scenario_defs by code_simp

text \<open>
  Property C7. As long as no sender promise is rejected and \<open>onDequeueNext\<close> is not called, no request is
  stranded: in every state such a run reaches, a conversation's queue is emptied once its sends are
  answered. Whatever attempts the platform returns (successful or failed, but returned), three settlements
  per waiting request and three for the running one leave the conversation idle with nothing queued. A
  rejected promise does strand the queue (\<open>rejected_send_strands_the_queue\<close>).
\<close>

theorem queued_requests_are_served:
  fixes es :: "orch_event list" and tick :: int
  defines "s \<equiv> run orch_step es (new_orchestrator tick)"
  assumes "list_all no_dequeue_no_reject es"
  shows "(let t = or_serializer (serve_all (3 * (queueSize (or_serializer s) k + 1)) ans k s)
          in queue_of t k = [] \<and> \<not> isSending t k)"
proof -
  have "serial_inv s"
    unfolding s_def using assms by (intro serial_sys.run_keeps new_orchestrator_invs) (auto simp: list_all_iff)
  then have "serial_inv (serve_all (3 * (queueSize (or_serializer s) k + 1)) ans k s) \<and>
      \<not> isSending (or_serializer (serve_all (3 * (queueSize (or_serializer s) k + 1)) ans k s)) k"
    using serve_all_idle [OF _ work_bound] by (simp add: queueSize_def)
  then show ?thesis
    by (simp add: serial_inv_def isSending_def Let_def)
qed

theorem queued_requests_are_served_witness:
  "list_all no_dequeue_no_reject (reviewed_send @ [Send_request ''s'' ''c'' (Some ''x'') None]) \<and>
   (let s = run orch_step (reviewed_send @ [Send_request ''s'' ''c'' (Some ''x'') None]) (new_orchestrator 1000);
        t = or_serializer (serve_all (3 * (queueSize (or_serializer s) (ser_key ''s'' ''c'') + 1)) (\<lambda>_. ok_attempt) (ser_key ''s'' ''c'') s)
    in queue_of t (ser_key ''s'' ''c'') = [] \<and> \<not> isSending t (ser_key ''s'' ''c''))"
proof -
  have "list_all no_dequeue_no_reject (reviewed_send @ [Send_request ''s'' ''c'' (Some ''x'') None])"
    by (simp add: scenario_defs no_dequeue_no_reject_def)
  then show ?thesis
    using queued_requests_are_served [of "reviewed_send @ [Send_request ''s'' ''c'' (Some ''x'') None]" 1000]
    unfolding Let_def by blast
qed

theorem rejected_send_strands_the_queue:
  "let s = run orch_step (reviewed_send @ [Send_request ''s'' ''c'' (Some ''x'') None, Settle_task 0 Rejected]) (new_orchestrator 1000)
   in queueSize (or_serializer s) (ser_key ''s'' ''c'') = 1 \<and> isSending (or_serializer s) (ser_key ''s'' ''c'') \<and> or_tasks s = []"
  unfolding scenario_defs by code_simp

text \<open>
  Property C2. A reply the engine was asked for by a buyer message, before a human takeover or a newer buyer
  message, is dropped whenever it arrives: after any further run, its settlement leaves the
  conversation's suggestion, the effects on every port and the send queues as they were, and starts no
  task. The reply may name its generation, as long as that is not a newer one. The reply of a
  regeneration before a send (\<open>PreSendController.revalidate\<close>) is not of this kind: it replaces the suggestion
  unchecked (\<open>late_regeneration_is_used\<close>).
\<close>

theorem late_reply_is_ignored:
  assumes "(case ar_generation r of Some g' \<Rightarrow> g' | None \<Rightarrow> g) \<le> gen (ser_key shop cid) before"
    and "e = Human_takeover shop cid \<or> e = Buyer_message shop cid m"
    and "s = run orch_step es (orch_step e before)"
    and "i < length (or_tasks s)" and "or_tasks s ! i = T_reply shop cid g"
  shows "cv_suggestion (conv shop cid (settle_task i (Reply_value r) s)) = cv_suggestion (conv shop cid s) \<and>
     or_effects (settle_task i (Reply_value r) s) = or_effects s \<and>
     or_serializer (settle_task i (Reply_value r) s) = or_serializer s \<and>
     or_tasks (settle_task i (Reply_value r) s) = take i (or_tasks s) @ drop (Suc i) (or_tasks s)"
proof -
  have "(case ar_generation r of Some g' \<Rightarrow> g' | None \<Rightarrow> g) < gen (ser_key shop cid) (orch_step e before)"
    using assms(1,2) by (auto simp: gen_bump)
  also have "\<dots> \<le> gen (ser_key shop cid) s"
    unfolding assms(3) by (rule gen_sys.run_mono) simp
  finally show ?thesis
    using settle_stale_reply [OF assms(4,5)] by blast
qed

theorem late_reply_is_ignored_witness:
  "let s0 = run orch_step [Buyer_message ''s'' ''c'' (buyer_says ''m1'' ''q'')] (new_orchestrator 1000);
       s = run orch_step [] (orch_step (Human_takeover ''s'' ''c'') s0)
   in or_tasks s = [T_reply ''s'' ''c'' 1] \<and>
      cv_suggestion (conv ''s'' ''c'' (settle_task 0 (Reply_value (engine_says ''old'')) s)) = cv_suggestion (conv ''s'' ''c'' s)"
proof -
  let ?before = "run orch_step [Buyer_message ''s'' ''c'' (buyer_says ''m1'' ''q'')] (new_orchestrator 1000)"
  let ?s = "run orch_step [] (orch_step (Human_takeover ''s'' ''c'') ?before)"
  have g: "1 \<le> gen (ser_key ''s'' ''c'') ?before"
    unfolding scenario_defs by code_simp
  have t: "or_tasks ?s = [T_reply ''s'' ''c'' 1]"
    unfolding scenario_defs by code_simp
  have r: "(case ar_generation (engine_says ''old'') of Some g' \<Rightarrow> g' | None \<Rightarrow> 1) \<le> gen (ser_key ''s'' ''c'') ?before"
    using g by (simp add: engine_says_def)
  show ?thesis
    using late_reply_is_ignored [where g = 1 and before = ?before and s = ?s and es = "[]" and i = 0
        and e = "Human_takeover ''s'' ''c''" and r = "engine_says ''old''", OF r disjI1 [OF refl] refl] t
    unfolding Let_def by (metis length_Cons nth_Cons_0 zero_less_Suc)
qed

text \<open>A confirmation finds a newer message and asks for a new reply; before that arrives a human takes over.\<close>

theorem late_regeneration_is_used:
  "let s = run orch_step (take 4 reviewed_send @ [Settle_task 0 (Current_value (Some True)), Human_takeover ''s'' ''c'']) (new_orchestrator 1000)
   in map_option sg_status (cv_suggestion (conv ''s'' ''c'' s)) = Some Cancelled \<and> or_tasks s = [T_revalidate ''s'' ''c'' 2] \<and> gen (ser_key ''s'' ''c'') s = 3 \<and>
      map_option (\<lambda>g. (sg_reply g, sg_status g))
        (cv_suggestion (conv ''s'' ''c'' (settle_task 0 (Reply_value (engine_says ''new'')) s))) = Some (''new'', Pending)"
  unfolding scenario_defs by code_simp

text \<open>
  Property C3. In human-review mode nothing is sent without a human, unless a seed enabled a countdown: an orchestrator
  whose seeds neither set full automation nor enable a countdown sends nothing, as long as no operator presses
  send, calls a direct send or switches a conversation to full automation, whatever the engine answers, whatever
  arrives and whichever timers fire. A seeded countdown does send in review mode
  (\<open>countdown_sends_in_review_mode\<close>).
\<close>

theorem review_mode_sends_nothing:
  assumes "list_all (\<lambda>p. quiet_seed (snd p)) (oo_initialState opts)" and "list_all no_human_send es"
  shows "SegmentedSend sh cd t \<notin> set (or_effects (run orch_step es (construct dflt opts)))"
proof -
  have "quiet_inv (run orch_step es (construct dflt opts))"
    using assms by (intro quiet_sys.run_keeps construct_quiet) (auto simp: list_all_iff)
  then show ?thesis
    by (auto simp: quiet_inv_def list_all_iff)
qed

definition pending_seed :: "bool \<Rightarrow> seed" where
  "pending_seed counting = \<lparr>sd_shop_id = Some ''s'', sd_mode = Some ''human_review'', sd_current_generation = None,
     sd_last_message_id = None, sd_suggestion = None, sd_pending_suggestion = Some True,
     sd_countdown = Some \<lparr>sc_enabled = Some counting, sc_remaining_ticks = Some 1, sc_tick_ms = Some 1000\<rparr>,
     sd_sending = None, sd_queue = None, sd_consecutive_replies = None, sd_first_reply_at = None, sd_ai_inflight = None\<rparr>"

definition seeded :: "bool \<Rightarrow> orch_options" where
  "seeded counting = \<lparr>oo_countdownTickMs = None, oo_initialState = [(''c'', pending_seed counting)]\<rparr>"

theorem review_mode_sends_nothing_witness:
  "list_all (\<lambda>p. quiet_seed (snd p)) (oo_initialState (seeded False)) \<and>
   list_all no_human_send (take 3 reviewed_send @ [Countdown_elapsed ''s'' ''c'' 99999]) \<and>
   SegmentedSend ''s'' ''c'' ''r'' \<notin>
     set (or_effects (run orch_step (take 3 reviewed_send @ [Countdown_elapsed ''s'' ''c'' 99999]) (construct ''r'' (seeded False))))"
proof -
  have "list_all (\<lambda>p. quiet_seed (snd p)) (oo_initialState (seeded False))"
    "list_all no_human_send (take 3 reviewed_send @ [Countdown_elapsed ''s'' ''c'' 99999])"
    by (simp_all add: seeded_def pending_seed_def quiet_seed_def scenario_defs no_human_send_def)
  then show ?thesis
    using review_mode_sends_nothing by blast
qed

theorem countdown_sends_in_review_mode:
  "SegmentedSend ''s'' ''c'' ''r'' \<in>
     set (or_effects (run orch_step [Countdown_elapsed ''s'' ''c'' 1000] (construct ''r'' (seeded True))))
   \<and> cv_mode (conv ''s'' ''c'' (construct ''r'' (seeded True))) = Human_review"
  unfolding seeded_def pending_seed_def by code_simp

text \<open>
  Property C6. Every reply handed to the segmented sender, in any run, goes to a shop and a
  conversation that the wrong-target validator accepted: both ids are there and not blank.
\<close>

theorem sends_have_valid_targets:
  assumes "SegmentedSend sh cd t \<in> set (or_effects (run orch_step es (new_orchestrator tick)))"
  shows "\<not> blank sh \<and> \<not> blank cd"
proof -
  have "target_inv (run orch_step es (new_orchestrator tick))"
    by (rule target_sys.run_keeps [OF new_orchestrator_target]) simp
  with assms show ?thesis
    by (auto simp: target_inv_def list_all_iff)
qed

theorem sends_have_valid_targets_witness:
  "SegmentedSend ''s'' ''c'' ''old'' \<in> set (or_effects (run orch_step reviewed_send (new_orchestrator 1000))) \<and>
   \<not> blank ''s'' \<and> \<not> blank ''c''"
proof -
  have "SegmentedSend ''s'' ''c'' ''old'' \<in> set (or_effects (run orch_step reviewed_send (new_orchestrator 1000)))"
    unfolding scenario_defs by code_simp
  then show ?thesis
    using sends_have_valid_targets by blast
qed

text \<open>
  What follows a settled send: success completes it; a failure is reported and the reply
  is handed to the sender again exactly when this was the first try, the platform gave no message id,
  the message holds no rejection keyword and it holds a safe pre-attempt keyword.
\<close>

theorem retry_only_when_safe:
  "or_effects (after_send shop cid r retry a s) = or_effects s @
     (if sa_ok a then [Emit_SendCompleted (sr_shopId r) (sr_conversationId r) (sr_generation r)]
      else Emit_SendFailed (sr_shopId r) (sr_conversationId r) (Attempt_error (sa_error a)) #
        (if \<not> retry \<and> \<not> truthy (sa_messageId a) \<and>
            \<not> isExplicitRejection (to_lower (normalizeError (sa_error a))) \<and>
            isSafePreAttempt (to_lower (normalizeError (sa_error a)))
         then [Emit_SendStarted (sr_shopId r) (sr_conversationId r) (sr_generation r),
               SegmentedSend (sr_shopId r) (sr_conversationId r) (sr_reply r)]
         else []))"
  by (simp add: after_send_def start_sender_def Let_def decideRetry_iff classifyFailure_safe_iff)

text \<open>
  Property C8. The serializer is first in, first out per conversation: whatever was queued for a key
  comes out first, then the new requests in the order they were submitted, and then the key has nothing queued;
  other keys keep their queue, after the requests were submitted and after they were taken.
\<close>

theorem serializer_is_fifo:
  "let filled = enq_all (\<lambda>k r se. snd (enqueue k r se)) k rs se;
       (out, left) = deq_n dequeue (queueSize se k + length rs) k filled
   in out = map Some (queue_of se k @ rs) \<and> queue_of left k = [] \<and>
      (\<forall>k'. k' = k \<or> (queue_of filled k' = queue_of se k' \<and> queue_of left k' = queue_of se k'))"
  using ser.fifo [where q = se and k = k and rs = rs] ser.drained [where q = se and k = k and rs = rs]
  by (simp add: queueSize_def ser.contents_enq_all Let_def case_prod_beta')

text \<open>
  Property C9. Shops are isolated: after any run of the registry, the orchestrator of a shop is in the
  state its own events alone lead to from its construction, whatever the other shops did in between.
\<close>

theorem shops_are_isolated:
  "shop_view dflt shop (run (registry_step dflt) es (new_registry opts)) =
     run orch_step (shop_events shop es) (construct dflt opts)"
  using registry_refines [of dflt shop es "new_registry opts"]
  by (simp add: shop_view_def rg_get_def new_registry_def)

subsection \<open>Segments\<close>

text \<open>
  Splitting a reply at \<open>###\<close> loses nothing but separators: the raw parts joined by the
  separator are the reply, the parts sent are the non-empty ones in order, none holds a separator,
  and the k-th is due k intervals after the start.
\<close>

theorem segments_are_faithful:
  "js_join ''###'' (js_split ''###'' reply) = reply \<and>
   map sp_text (seg_split reply i) = filter (\<lambda>p. p \<noteq> []) (js_split ''###'' reply) \<and>
   list_all (\<lambda>p. \<not> sublist ''###'' (sp_text p)) (seg_split reply i) \<and>
   map sp_virtualTimeMs (seg_split reply i) = map (\<lambda>k. int k * max 0 i) [0..<length (seg_split reply i)]"
proof (intro conjI)
  show "js_join ''###'' (js_split ''###'' reply) = reply"
    by (simp add: js_join_split)
  show "map sp_text (seg_split reply i) = filter (\<lambda>p. p \<noteq> []) (js_split ''###'' reply)"
    by (rule seg_split_texts)
  show "list_all (\<lambda>p. \<not> sublist ''###'' (sp_text p)) (seg_split reply i)"
    using seg_split_no_separator(2) by (auto simp: list_all_iff)
  show "map sp_virtualTimeMs (seg_split reply i) = map (\<lambda>k. int k * max 0 i) [0..<length (seg_split reply i)]"
    by (rule nth_equalityI) (simp_all add: seg_split_time)
qed

text \<open>
  The sequential sender stops at the first failure: with good answers for the parts
  before, the failed part is the last one sent, nothing after it goes out, and the failure is the
  result of the send.
\<close>

theorem sequential_send_stops_at_first_failure:
  assumes "i \<le> 0" and "map sp_text (seg_split reply i) = us @ t # ts"
    and "length gs = length us" and "list_all good gs" and "\<not> good b"
  shows "\<exists>st. sender_send reply i = Sequential st \<and> sender_calls (gs @ b # rs) st = us @ [t] \<and>
     run sender_response (gs @ b # rs) st = Settled b"
proof -
  have "seg_split reply i \<noteq> []"
    using assms(2) by auto
  then have "sender_send reply i = Sequential (sender_start (us @ t # ts))"
    using assms(1,2) by (simp add: sender_send_def Let_def)
  with sender_first_failure [OF assms(3-5)] show ?thesis by blast
qed

theorem sequential_send_stops_at_first_failure_witness:
  "map sp_text (seg_split ''a###b###c'' 0) = [''a''] @ ''b'' # [''c''] \<and>
   (\<exists>st. sender_send ''a###b###c'' 0 = Sequential st \<and>
      sender_calls ([Inr ok_attempt] @ Inl OtherError # []) st = [''a''] @ [''b''])"
proof -
  have "map sp_text (seg_split ''a###b###c'' 0) = [''a''] @ ''b'' # [''c'']"
    by code_simp
  moreover have "list_all good [Inr ok_attempt]" and "\<not> good (Inl OtherError)"
    by (simp_all add: good_def ok_attempt_def)
  ultimately show ?thesis
    using sequential_send_stops_at_first_failure [of 0 "''a###b###c''" "[''a'']" "''b''" "[''c'']"
        "[Inr ok_attempt]" "Inl OtherError" "[]"] by auto
qed

text \<open>
  A scheduled send of several parts whose calls succeed delivers everything: once all
  timers fired and all calls settled, in whatever order, the promise is resolved with success and the
  calls made are exactly the parts.
\<close>

theorem scheduled_send_delivers_all_parts:
  assumes "0 < i" and "2 \<le> length (seg_split reply i)" and "list_all good_event es"
    and "s = run sched_step es (sched_start (seg_split reply i))"
    and "sc_timers s = []" and "sc_inflight s = 0"
  shows "sc_promise s = Some ok_attempt \<and> mset (sc_calls s) = mset (map sp_text (sc_parts s))"
proof -
  have "parts_accounted s"
    unfolding assms(4)
    using assms(1-3) sender_send_scheduled(2) [of i reply]
    by (intro accounted_sys.run_keeps sched_start_accounted) (auto simp: list_all_iff)
  then show ?thesis
    using assms(5,6) by (simp add: parts_accounted_def sched_inv_def)
qed

theorem scheduled_send_delivers_all_parts_witness:
  "let s = run sched_step [Fire 0, Settle (Inr ok_attempt), Fire 1, Settle (Inr ok_attempt)] (sched_start (seg_split ''a###b'' 800))
   in sc_timers s = [] \<and> sc_inflight s = 0 \<and> sc_promise s = Some ok_attempt \<and>
      mset (sc_calls s) = mset (map sp_text (sc_parts s))"
proof -
  let ?es = "[Fire 0, Settle (Inr ok_attempt), Fire 1, Settle (Inr ok_attempt)]"
  let ?s = "run sched_step ?es (sched_start (seg_split ''a###b'' 800))"
  have parts: "2 \<le> length (seg_split ''a###b'' 800)"
    by code_simp
  have fin: "sc_timers ?s = []" "sc_inflight ?s = 0"
    by code_simp+
  have "list_all good_event ?es"
    by (simp add: good_def ok_attempt_def)
  with parts fin scheduled_send_delivers_all_parts [of 800 "''a###b''" ?es ?s] show ?thesis
    by (simp add: Let_def)
qed

text \<open>
  A defect of the scheduled path: when a part has failed while the timer of another part
  has not fired, the promise never resolves, whatever happens later. The drain loop that awaits it
  stays suspended and the conversation stays busy.
\<close>

theorem failed_part_leaves_send_pending:
  assumes "0 < i" and "2 \<le> length (seg_split reply i)"
    and "s = run sched_step es (sched_start (seg_split reply i))"
    and "sc_failed s = None" and "sc_timers s \<noteq> []" and "0 < sc_inflight s" and "\<not> good b"
  shows "sc_promise (run sched_step (Settle b # later) s) = None"
proof -
  have "sched_inv s"
    unfolding assms(3) using assms(1,2) sender_send_scheduled(2) [of i reply]
    by (intro sched_sys.run_keeps sched_start_inv) auto
  then have "stuck (sched_step (Settle b) s)"
    using assms failure_before_last_timer_sticks by blast
  then have "stuck (run sched_step later (sched_step (Settle b) s))"
    by (intro stuck_sys.run_keeps) auto
  then show ?thesis by (simp add: stuck_def)
qed

theorem failed_part_leaves_send_pending_witness:
  "let s = run sched_step [Fire 0] (sched_start (seg_split ''a###b'' 800))
   in sc_promise (run sched_step (Settle (Inl OtherError) # [Fire 1]) s) = None"
proof -
  let ?s = "run sched_step [Fire 0] (sched_start (seg_split ''a###b'' 800))"
  have parts: "2 \<le> length (seg_split ''a###b'' 800)"
    by code_simp
  have st: "sc_failed ?s = None" "sc_timers ?s \<noteq> []" "0 < sc_inflight ?s"
    by code_simp+
  show ?thesis
    using failed_part_leaves_send_pending [OF _ parts refl st, of "Inl OtherError" "[Fire 1]"]
    by (simp add: Let_def good_def)
qed

text \<open>
  A defect of the scheduled path: a reply with one segment and a positive interval is
  passed to \<open>sendText\<close> twice, by the zero-delay guard and by the timer the guard does not cancel.
\<close>

theorem single_segment_is_sent_twice:
  assumes "0 < i" and "length (seg_split reply i) = 1"
  shows "\<exists>t s. sender_send reply i = Scheduled s \<and> map sp_text (seg_split reply i) = [t] \<and>
     sc_calls (run sched_step [Guard, Fire 0] s) = [t, t]"
proof -
  obtain t where "seg_split reply i = [\<lparr>sp_text = t, sp_virtualTimeMs = 0\<rparr>]"
    using seg_split_single [OF assms(2)] .
  with assms(1) show ?thesis
    by (simp add: sender_send_def sched_start_def sched_step_def guard_ran_def timer_fired_def Let_def)
qed

theorem single_segment_is_sent_twice_witness:
  "length (seg_split ''hello'' 800) = 1 \<and>
   (\<exists>t s. sender_send ''hello'' 800 = Scheduled s \<and> sc_calls (run sched_step [Guard, Fire 0] s) = [t, t])"
proof -
  have "length (seg_split ''hello'' 800) = 1"
    by code_simp
  then show ?thesis
    using single_segment_is_sent_twice [of 800 "''hello''"] by fastforce
qed

subsection \<open>Defects of the orchestrator\<close>

text \<open>
  A suggestion stays pending while its send is in progress, so pressing Enter twice before the
  send completes sends the same reply twice, though one suggestion was made.
\<close>

theorem double_enter_sends_twice:
  "filter is_send (or_effects (run orch_step
     (take 4 reviewed_send @
      [Manual_send ''s'' ''c'' ''Enter'', Settle_task 0 (Current_value None), Settle_task 0 (Current_value None),
       Settle_task 0 (Attempt_value ok_attempt), Settle_task 0 Unit_value]) (new_orchestrator 1000))) =
   [SegmentedSend ''s'' ''c'' ''old'', SegmentedSend ''s'' ''c'' ''old'']"
  unfolding scenario_defs by code_simp

text \<open>
  When a send completes, whichever suggestion is pending then is marked as sent: a new
  suggestion made while the old reply was on its way ends up \<open>Sent\<close> though only the old one went out.
\<close>

theorem unsent_suggestion_marked_sent:
  "let s = run orch_step
     (reviewed_send @
      [Buyer_message ''s'' ''c'' (buyer_says ''m2'' ''q2''), Settle_task 1 (Reply_value (engine_says ''new'')),
       Settle_task 0 (Attempt_value ok_attempt)]) (new_orchestrator 1000)
   in filter is_send (or_effects s) = [SegmentedSend ''s'' ''c'' ''old''] \<and>
      map_option (\<lambda>sg. (sg_reply sg, sg_status sg)) (cv_suggestion (conv ''s'' ''c'' s)) = Some (''new'', Sent)"
  unfolding scenario_defs by code_simp

subsection \<open>The worker protocol\<close>

text \<open>
  Property C28. Framing is a round trip that does not depend on chunking: frames that \<open>encodeFrame\<close>
  accepted, concatenated and cut into arbitrary chunks, come out of the decoder as the same frames in
  order, with an empty buffer at the end.
\<close>

theorem frames_survive_chunking:
  fixes lines :: "string list"
  assumes "list_all (json_line stringify parse) vs"
    and "list_all2 (\<lambda>v l. encodeFrame stringify v mx = (Inr l :: unit rpc_error + string)) vs lines"
    and "concat chunks = concat lines"
  shows "push_all parse chunks (new_decoder mx) = (map Frame vs, new_decoder mx)"
proof -
  have each: "utf8_len (stringify v) \<le> mx \<and> l = stringify v @ [newline]"
    if "encodeFrame stringify v mx = (Inr l :: unit rpc_error + string)" for v l
    using that by (auto simp: encodeFrame_def Let_def split: if_splits)
  have fits: "utf8_len (stringify v) \<le> mx" if "v \<in> set vs" for v
    using that assms(2) each by (force simp: list_all2_conv_all_nth in_set_conv_nth)
  have "lines = map (\<lambda>v. stringify v @ [newline]) vs"
    using assms(2) each by (intro nth_equalityI) (auto simp: list_all2_conv_all_nth)
  then have stream: "concat chunks = concat (map (\<lambda>v. stringify v @ [newline]) vs)"
    using assms(3) by simp
  have js: "json_line stringify parse v" if "v \<in> set vs" for v
    using that assms(1) by (simp add: list_all_iff)
  have "short_lines mx (concat chunks)"
    unfolding stream using fits js by (intro short_lines_frames) (auto simp: json_line_def)
  then have "push_all parse chunks (new_decoder mx) =
      (fst (push_loop parse mx (concat chunks)), (new_decoder mx)\<lparr>dc_buffer := snd (push_loop parse mx (concat chunks))\<rparr>)"
    using push_all_short [of "new_decoder mx" chunks parse] by (simp add: new_decoder_def)
  then show ?thesis
    using push_loop_frames [of vs stringify parse mx] fits js by (simp add: stream new_decoder_def)
qed

definition bool_text :: "bool \<Rightarrow> string" where
  "bool_text b = (if b then ''true'' else ''false'')"

definition bool_parse :: "string \<Rightarrow> bool option" where
  "bool_parse s = (if s = ''true'' then Some True else if s = ''false'' then Some False else None)"

theorem frames_survive_chunking_witness:
  "push_all bool_parse [''tr'', ''ue'' @ [newline] @ ''fal'', ''se'' @ [newline]] (new_decoder 5) =
     (map Frame [True, False], new_decoder 5)"
proof -
  have "list_all (json_line bool_text bool_parse) [True, False]"
    by code_simp
  moreover have "list_all2 (\<lambda>v l. encodeFrame bool_text v 5 = (Inr l :: unit rpc_error + string)) [True, False]
      [''true'' @ [newline], ''false'' @ [newline]]"
    by (simp add: encodeFrame_def bool_text_def utf8_len_def)
  moreover have "concat [''tr'', ''ue'' @ [newline] @ ''fal'', ''se'' @ [newline]] = concat [''true'' @ [newline], ''false'' @ [newline]]"
    by simp
  ultimately show ?thesis
    by (rule frames_survive_chunking)
qed

text \<open>
  A defect of the decoder: when a line longer than the limit arrives in pieces, the buffered
  part is dropped but the rest of the line is read as a line of its own, so a fragment of a rejected line
  can come out as a frame. In one piece the same text gives one rejection and no frame.
\<close>

theorem oversized_line_tail_becomes_frame:
  "fst (push_all bool_parse [''xxxxxx'', ''true'' @ [newline]] (new_decoder 5)) = [Oversize 6 5, Frame True] \<and>
   fst (push_all bool_parse [''xxxxxx'' @ ''true'' @ [newline]] (new_decoder 5)) = [Oversize 10 5]"
  by code_simp

text \<open>
  The pending-request registry is leak free over every run of its operations: the armed
  timeouts are exactly those of the pending entries, abort listeners belong to pending entries, and the
  promise of every pending entry is open.
\<close>

theorem registry_is_leak_free:
  "let s = run pending_step es (new_pending :: 'j registry_state)
   in pr_timers s = map timer_of (pr_pending s) \<and>
      set (pr_listeners s) \<subseteq> timer_of ` set (pr_pending s) \<and>
      list_all (\<lambda>p. pr_results s (pe_promise (snd p)) = None) (pr_pending s)"
proof -
  have "pending_inv (run pending_step es (new_pending :: 'j registry_state))"
    by (rule pending_sys.run_keeps [OF new_pending_inv]) simp
  then show ?thesis
    by (auto simp: pending_inv_def list_all_iff Let_def)
qed

text \<open>
  A response, a timeout or a failure settles a request once: what a promise settled with
  never changes in any later run, and a response for an id that is not pending changes nothing.
\<close>

theorem late_responses_are_ignored:
  "(pr_results s p = Some r \<longrightarrow> pr_results (run pending_step es s) p = Some r) \<and>
   (\<not> pending_has rid s \<longrightarrow> settle rid v s = (False, s))"
proof -
  have "pr_results s p = Some r \<Longrightarrow> pr_results (run pending_step es s) p = Some r"
    by (rule settled_sys.run_keeps) simp_all
  moreover have "\<not> pending_has rid s \<Longrightarrow> map_of (pr_pending s) rid = None"
    by (simp add: pending_has_def map_of_eq_None_iff)
  ultimately show ?thesis
    by (auto simp: settle_def)
qed

theorem late_responses_are_ignored_witness:
  "let s = run pending_step [Register ''r'' ''m'' No_signal, Timer_fires 0] (new_pending :: bool registry_state)
   in pr_results s 0 = Some (Failed (rpc_error_of TIMEOUT)) \<and> \<not> pending_has ''r'' s \<and>
      settle ''r'' (Resolved True) s = (False, s) \<and>
      pr_results (run pending_step [Settle_response ''r'' (Resolved True)] s) 0 = Some (Failed (rpc_error_of TIMEOUT))"
proof -
  let ?s = "run pending_step [Register ''r'' ''m'' No_signal, Timer_fires 0] (new_pending :: bool registry_state)"
  have "pr_results ?s 0 = Some (Failed (rpc_error_of TIMEOUT))"
    by (simp add: pending_step_def register_def timer_fires_def new_pending_def pending_has_def remove_def
        clear_entry_def settle_promise_def Let_def)
  moreover have "\<not> pending_has ''r'' ?s"
    by (simp add: pending_step_def register_def timer_fires_def new_pending_def pending_has_def remove_def
        clear_entry_def settle_promise_def Let_def)
  ultimately show ?thesis
    using late_responses_are_ignored [of ?s 0 "Failed (rpc_error_of TIMEOUT)" "[Settle_response ''r'' (Resolved True)]" "''r''" "Resolved True"]
    unfolding Let_def by blast
qed

text \<open>
  Property C29. Over every run of the client, at most \<open>maxInFlight\<close> requests other than control messages
  are pending, and the write queue never holds more than its bound.
\<close>

theorem client_is_bounded:
  "let c = run (client_step env) es (new_client opts)
   in in_flight (cl_pending c) \<le> cl_maxInFlight c \<and>
      (case cl_queue c of Some q \<Rightarrow> length (wq_queue q) \<le> wq_maxQueuedFrames q | None \<Rightarrow> True)"
proof -
  have "client_inv (run (client_step env) es (new_client opts))"
    by (rule client_sys.run_keeps [OF new_client_inv]) simp
  then show ?thesis
    by (auto simp: client_inv_def wq_inv_def Let_def split: option.splits)
qed

text \<open>
  The client becomes READY only when it resumes a handshake whose payload passed validation
  and offered the protocol version; requests are accepted in no other state.
\<close>

theorem ready_requires_valid_handshake:
  assumes "c = run (client_step env) es (new_client opts)"
    and "cl_state (client_step env e c) = READY" and "cl_state c \<noteq> READY"
  shows "\<exists>h payload vs. e = Continue_handshake h \<and> map_of (cl_handshakes c) h = Some (Hs_ready payload) \<and>
            en_ready_versions env payload = Some vs \<and> RPC_PROTOCOL_VERSION \<in> set vs \<and>
            \<not> is_ok (fst (request env rid corr m payload' ro c))"
proof -
  have "handshakes_ok env c"
    unfolding assms(1)
    by (rule handshake_sys.run_keeps) (simp_all add: handshakes_ok_def new_client_def)
  moreover obtain h payload where h: "e = Continue_handshake h" "map_of (cl_handshakes c) h = Some (Hs_ready payload)"
    using ready_by_handshake [OF assms(2,3)] by blast
  ultimately have "ready_ok env (Hs_ready payload)"
    by (auto simp: handshakes_ok_def list_all_iff dest!: map_of_SomeD)
  then have "\<exists>vs. en_ready_versions env payload = Some vs \<and> RPC_PROTOCOL_VERSION \<in> set vs"
    by (simp add: ready_ok_def split: option.splits)
  with h assms(3) show ?thesis
    by (auto simp: request_def)
qed

definition demo_env :: "bool rpc_env" where
  "demo_env = \<lparr>en_stringify = (\<lambda>r. rq_request_id r), en_valid_response = (\<lambda>_. True),
     en_ready_versions = (\<lambda>b. if b then Some [1] else None), en_ready_error = (\<lambda>_. []), en_version_error = (\<lambda>_. []),
     en_cancel_payload = (\<lambda>_. False), en_empty_payload = False, en_write_ok = (\<lambda>_. True)\<rparr>"

definition demo_options :: client_options where
  "demo_options = \<lparr>co_maxFrameBytes = None, co_maxInFlight = None, co_maxQueuedFrames = None, co_restart = DEFAULT_RESTART_POLICY\<rparr>"

definition handshake_run :: "bool client_event list" where
  "handshake_run = [Start, Frame_received (Event_frame ''worker.ready'' True)]"

lemmas demo_defs = demo_env_def demo_options_def handshake_run_def

theorem ready_requires_valid_handshake_witness:
  "let c = run (client_step demo_env) handshake_run (new_client demo_options)
   in cl_state (client_step demo_env (Continue_handshake 0) c) = READY \<and>
      (\<exists>h payload. map_of (cl_handshakes c) h = Some (Hs_ready payload)) \<and>
      \<not> is_ok (fst (request demo_env ''r'' ''k'' ''m'' True no_options c))"
proof -
  let ?c = "run (client_step demo_env) handshake_run (new_client demo_options)"
  have st: "cl_state ?c \<noteq> READY" and ready: "cl_state (client_step demo_env (Continue_handshake 0) ?c) = READY"
    by (simp_all add: demo_defs client_run_defs)
  show ?thesis
    using ready_requires_valid_handshake [OF refl ready st, of "''r''" "''k''" "''m''" True no_options] ready
    unfolding Let_def by blast
qed

text \<open>
  Property C30. A crash fails the whole in-flight set and restarts within the policy: when a worker exits without a stop having been
  asked for, every pending request is rejected with the crash error, the registry is empty and the write
  queue is gone. While attempts are left, one restart is scheduled after the delay of the policy (the initial delay doubled with every
  attempt, up to the maximum), the attempt is counted and the client is restarting; when the delay is over a new worker is
  spawned and the client is starting. When none is left nothing is scheduled and the client stays crashed.
\<close>

theorem crash_fails_all_pending:
  assumes "c = run (client_step env) es (new_client opts)"
    and "p \<in> set (cl_children c)" and "\<not> cl_intentionalStop c"
  shows "let c' = process_exits p c; policy = cl_policy c; c'' = sleep_over (length (cl_sleeping c)) c'
         in pr_pending (cl_pending c') = [] \<and> cl_queue c' = None \<and>
            (\<forall>(rid, e)\<in>set (pr_pending (cl_pending c)).
               pr_results (cl_pending c') (pe_promise e) = Some (Failed (rpc_error_of WORKER_CRASHED))) \<and>
            (if rp_enabled policy \<and> rp_attempt policy < rp_max_attempts policy
             then cl_state c' = RESTARTING \<and> cl_policy c' = policy\<lparr>rp_attempt := rp_attempt policy + 1\<rparr> \<and>
               cl_sleeping c' = cl_sleeping c @ [min (rp_initial_backoff_ms policy * 2 ^ rp_attempt policy) (rp_max_backoff_ms policy)] \<and>
               cl_state c'' = STARTING \<and> cl_process c'' = Some (cl_nextProcess c) \<and>
               cl_children c'' = remove1 p (cl_children c) @ [cl_nextProcess c] \<and> cl_sleeping c'' = cl_sleeping c
             else cl_state c' = CRASHED \<and> cl_policy c' = policy \<and> cl_sleeping c' = cl_sleeping c)"
proof -
  have "client_inv c"
    unfolding assms(1) by (rule client_sys.run_keeps [OF new_client_inv]) simp
  then have inv: "pending_inv (cl_pending c)"
    by (simp add: client_inv_def)
  note exit_defs = process_exits_def handleExit_def maybeRestart_def fail_pending_def setState_def Let_def nextDelayMs_def
  have "cl_pending (process_exits p c) = snd (failAll (rpc_error_of WORKER_CRASHED) (cl_pending c))"
    and "cl_queue (process_exits p c) = None"
    using assms(2,3) by (auto simp: exit_defs split: option.splits prod.splits)
  moreover have "if rp_enabled (cl_policy c) \<and> rp_attempt (cl_policy c) < rp_max_attempts (cl_policy c)
      then cl_state (process_exits p c) = RESTARTING \<and> cl_policy (process_exits p c) = (cl_policy c)\<lparr>rp_attempt := rp_attempt (cl_policy c) + 1\<rparr> \<and>
        cl_sleeping (process_exits p c) = cl_sleeping c @
          [min (rp_initial_backoff_ms (cl_policy c) * 2 ^ rp_attempt (cl_policy c)) (rp_max_backoff_ms (cl_policy c))] \<and>
        \<not> cl_intentionalStop (process_exits p c) \<and> cl_nextProcess (process_exits p c) = cl_nextProcess c \<and>
        cl_children (process_exits p c) = remove1 p (cl_children c)
      else cl_state (process_exits p c) = CRASHED \<and> cl_policy (process_exits p c) = cl_policy c \<and> cl_sleeping (process_exits p c) = cl_sleeping c"
    using assms(2,3) by (simp add: exit_defs)
  moreover have "cl_state (sleep_over n d) = STARTING" "cl_process (sleep_over n d) = Some (cl_nextProcess d)"
      "cl_children (sleep_over n d) = cl_children d @ [cl_nextProcess d]" "cl_sleeping (sleep_over n d) = xs"
    if "cl_sleeping d = xs @ [x]" "n = length xs" "\<not> cl_intentionalStop d" for d :: "'a client" and n x xs
    using that by (simp_all add: sleep_over_def spawnAndHandshake_def doHandshake_def spawnWorker_def setState_def Let_def)
  ultimately show ?thesis
    using failAll_empties [OF inv] by (auto simp: Let_def)
qed

theorem crash_fails_all_pending_witness:
  "let c = run (client_step demo_env) (handshake_run @ [Continue_handshake 0, Request ''r'' ''k'' ''m'' True no_options]) (new_client demo_options);
       c' = process_exits 0 c
   in map fst (pr_pending (cl_pending c)) = [''r''] \<and> pr_pending (cl_pending c') = [] \<and>
      cl_state c' = RESTARTING \<and> cl_sleeping c' = [1000] \<and> cl_state (sleep_over 0 c') = STARTING"
proof -
  let ?es = "handshake_run @ [Continue_handshake 0, Request ''r'' ''k'' ''m'' True no_options]"
  let ?c = "run (client_step demo_env) ?es (new_client demo_options)"
  have "map fst (pr_pending (cl_pending ?c)) = [''r'']" and "0 \<in> set (cl_children ?c)"
    and "\<not> cl_intentionalStop ?c" and "cl_sleeping ?c = []"
    and policy: "cl_policy ?c = DEFAULT_RESTART_POLICY"
    by (simp_all add: demo_defs client_run_defs)
  moreover have "rp_enabled DEFAULT_RESTART_POLICY" "rp_attempt DEFAULT_RESTART_POLICY = 0" "rp_max_attempts DEFAULT_RESTART_POLICY = 3"
    "rp_initial_backoff_ms DEFAULT_RESTART_POLICY = 1000" "rp_max_backoff_ms DEFAULT_RESTART_POLICY = 30000"
    by (simp_all add: DEFAULT_RESTART_POLICY_def)
  ultimately show ?thesis
    using crash_fails_all_pending [of ?c demo_env ?es demo_options 0] by (simp add: Let_def)
qed

text \<open>
  A defect of the client: a worker that exits during the handshake leaves the handshake's
  startup timer armed. After the restarted worker is READY, that timer fires, the stale handshake fails,
  and its handler drops the healthy worker and sets the client to STOPPED.
\<close>

theorem stale_startup_timer_stops_new_worker:
  "let c = run (client_step demo_env)
       [Start, Process_exits 0, Sleep_over 0, Frame_received (Event_frame ''worker.ready'' True), Continue_handshake 1] (new_client demo_options);
       c' = run (client_step demo_env) [Handshake_timer 0, Continue_handshake 0] c
   in cl_state c = READY \<and> cl_process c = Some 1 \<and>
      cl_state c' = STOPPED \<and> cl_process c' = None \<and> cl_children c' = [1]"
  by (simp add: demo_defs client_run_defs)

text \<open>
  The write queue neither loses, duplicates nor reorders frames: what the stream received
  followed by what waits is what was accepted, in order; and once the stream has drained often enough
  everything accepted has been written.
\<close>

theorem write_queue_keeps_order:
  fixes ok :: "nat \<Rightarrow> bool" and es :: "queue_event list" and mx :: "nat option"
  defines "s \<equiv> run (queue_step ok) es (new_write_queue mx)"
  shows "wq_written s @ wq_queue s = accepted ok es (new_write_queue mx) \<and>
     (let t = run (queue_step ok) (replicate (length (wq_queue s) + 1) Drained) s
      in wq_idle t \<and> wq_written t = accepted ok es (new_write_queue mx))"
proof -
  let ?ds = "replicate (length (wq_queue s) + 1) Drained"
  have eq: "wq_written s @ wq_queue s = accepted ok es (new_write_queue mx)"
    unfolding s_def using queue_order [of ok es "new_write_queue mx"] by (simp add: new_write_queue_def)
  have "wq_inv s"
    unfolding s_def by (rule queue_sys.run_keeps [OF new_write_queue_inv]) simp
  then have idle: "wq_idle (run (queue_step ok) ?ds s)"
    by (intro drains_empty_queue) simp_all
  have "accepted ok (replicate n Drained) t = []" for n t
    by (induction n arbitrary: t) simp_all
  then have "wq_written (run (queue_step ok) ?ds s) = wq_written s @ wq_queue s"
    using queue_order [of ok ?ds s] idle by (simp add: wq_idle_def)
  with eq idle show ?thesis
    by (simp add: Let_def)
qed

text \<open>
  Restart delays: an enabled policy, after a reset, gives the delays \<open>initial * 2^k\<close> capped
  at the maximum for its first \<open>max_attempts\<close> crashes, and none after that; in particular restarts are
  bounded between two successful handshakes.
\<close>

theorem restart_delays:
  assumes "rp_enabled p"
  shows "next_delays n (rp_reset p) = map (\<lambda>k. if k < rp_max_attempts p
     then Some (min (rp_initial_backoff_ms p * 2 ^ k) (rp_max_backoff_ms p)) else None) [0..<n]"
  using next_delays_from [of "rp_reset p" n] assms by (simp add: rp_reset_def)

theorem restart_delays_witness:
  "next_delays 5 (rp_reset DEFAULT_RESTART_POLICY) = [Some 1000, Some 2000, Some 4000, None, None]"
  using restart_delays [of DEFAULT_RESTART_POLICY 5] by (simp add: DEFAULT_RESTART_POLICY_def upt_rec)

subsection \<open>The delivery journal\<close>

text \<open>
  Property C10. A delivery attempt stays what it was: over every run of the journal (dispatches, port
  answers, finalizations, recoveries, in any order) an attempt keeps its id, target, payload and creation
  time, never falls back to PENDING once in flight, and does not change at all once it is acknowledged,
  rejected or unknown.
\<close>

theorem attempts_only_advance:
  assumes "findAttempt i (jn_db s) = Some a"
  shows "\<exists>b. findAttempt i (jn_db (run journal_step es s)) = Some b \<and>
     da_conversationId b = da_conversationId a \<and> da_storeId b = da_storeId a \<and>
     da_platformAccountId b = da_platformAccountId a \<and> da_textPayload b = da_textPayload a \<and>
     da_createdAt b = da_createdAt a \<and>
     (if da_status a \<in> {ACKNOWLEDGED, REJECTED, UNKNOWN} then b = a
      else da_status a = IN_FLIGHT \<longrightarrow> da_status b \<noteq> PENDING)"
proof -
  obtain b where "findAttempt i (jn_db (run journal_step es s)) = Some b" and "attempt_advances a b"
    using find_attempt_advances [OF journal_run_advances assms] by blast
  then show ?thesis
    by (auto simp: attempt_advances_def terminal_def)
qed

definition demo_conversation :: normalized_conversation where
  "demo_conversation = \<lparr>nc_id = ''c'', nc_merchantId = ''m'', nc_storeId = ''st'', nc_platformAccountId = ''pa'', nc_externalRef = None\<rparr>"

definition delivery_run :: "journal_event list" where
  "delivery_run = [Save_conversation demo_conversation, Create_authorized ALLOWED ''a'' ''c'' ''hi'' ''t0'', Dispatch ''a'' ''t1'']"

definition demo_journal :: journal where
  "demo_journal = empty_journal [''m''] [''st''] [''pa'']"

definition acknowledged :: delivery_result where
  "acknowledged = \<lparr>dl_outcome = Out_acknowledged, dl_sourceRef = Some ''ref'', dl_occurredAt = None\<rparr>"

definition rejected :: delivery_result where
  "rejected = \<lparr>dl_outcome = Out_rejected, dl_sourceRef = None, dl_occurredAt = None\<rparr>"

lemmas delivery_demo_defs = demo_conversation_def delivery_run_def demo_journal_def acknowledged_def rejected_def

theorem attempts_only_advance_witness:
  "let s = run journal_step delivery_run demo_journal
   in \<exists>a b. findAttempt ''a'' (jn_db s) = Some a \<and>
        findAttempt ''a'' (jn_db (run journal_step [Port_answers 0 acknowledged ''t2''] s)) = Some b \<and>
        da_textPayload b = da_textPayload a"
proof -
  let ?s = "run journal_step delivery_run demo_journal"
  have "findAttempt ''a'' (jn_db ?s) \<noteq> None"
    unfolding delivery_demo_defs by code_simp
  then obtain a where "findAttempt ''a'' (jn_db ?s) = Some a"
    by blast
  then show ?thesis
    using attempts_only_advance [of "''a''" ?s a "[Port_answers 0 acknowledged ''t2'']"]
    unfolding Let_def by blast
qed

text \<open>
  Property C11. Acknowledged and delivered go together: in every reachable journal, each acknowledged
  attempt points to a stored agent text message of its conversation with its payload, and an attempt in
  any other state points to none.
\<close>

theorem acknowledged_iff_delivered:
  "let d = jn_db (run journal_step es (empty_journal ms ss as))
   in list_all (\<lambda>a. if da_status a = ACKNOWLEDGED then delivered_by (db_messages d) a
                    else da_deliveredMessageId a = None) (db_attempts d)"
proof -
  have "delivered_inv (jn_db (run journal_step es (empty_journal ms ss as)))"
    by (rule delivered_sys.run_keeps [OF empty_journal_delivered]) simp
  then show ?thesis
    by (simp add: delivered_inv_def attempt_ok_def list_all_iff Let_def)
qed

text \<open>
  Finalization is idempotent: once an attempt was finalized, finalizing it again with any
  arguments succeeds, returns the same record and writes nothing, so the timeline gets no second message.
\<close>

theorem finalize_is_idempotent:
  assumes "d = jn_db (run journal_step es (empty_journal ms ss as))"
    and "finalizeAcknowledgedDelivery i mid ext t src occ now d = Inr (r, d')"
  shows "finalizeAcknowledgedDelivery i mid' ext' t' src' occ' now' d' = Inr (r, d')"
proof -
  have "delivered_inv d"
    unfolding assms(1) by (rule delivered_sys.run_keeps [OF empty_journal_delivered]) simp
  then show ?thesis
    using finalize_acknowledges [OF _ assms(2)] finalize_again by blast
qed

theorem finalize_is_idempotent_witness:
  "\<exists>r d'. finalizeAcknowledgedDelivery ''a'' ''dlv-a'' None ''t2'' None None ''t2'' (jn_db (run journal_step delivery_run (empty_journal [''m''] [''st''] [''pa'']))) = Inr (r, d') \<and>
     finalizeAcknowledgedDelivery ''a'' ''other'' None ''t3'' None None ''t3'' d' = Inr (r, d')"
proof -
  let ?d = "jn_db (run journal_step delivery_run (empty_journal [''m''] [''st''] [''pa'']))"
  have "is_ok (finalizeAcknowledgedDelivery ''a'' ''dlv-a'' None ''t2'' None None ''t2'' ?d)"
    unfolding delivery_demo_defs by code_simp
  then obtain r d' where fin: "finalizeAcknowledgedDelivery ''a'' ''dlv-a'' None ''t2'' None None ''t2'' ?d = Inr (r, d')"
    by (auto simp: is_ok_def split: sum.splits)
  have "finalizeAcknowledgedDelivery ''a'' ''other'' None ''t3'' None None ''t3'' d' = Inr (r, d')"
    by (rule finalize_is_idempotent [OF refl fin])
  with fin show ?thesis by blast
qed

text \<open>
  Startup recovery is scoped and complete: it turns exactly the in-flight attempts whose
  conversation belongs to the merchant into UNKNOWN, counts them and the ones it leaves, changes nothing
  else, and a second run recovers nothing.
\<close>

theorem recovery_is_scoped:
  assumes "d = jn_db (run journal_step es (empty_journal ms ss as))"
  shows "let (res, d') = recoverWorkspaceInFlightDeliveryAttempts m t d
         in d' = d\<lparr>db_attempts := map (\<lambda>a. if da_status a = IN_FLIGHT \<and> owned_by m d a
                      then a\<lparr>da_status := UNKNOWN, da_resolvedAt := Some t\<rparr> else a) (db_attempts d)\<rparr> \<and>
            rr_recovered res = length (filter (\<lambda>a. da_status a = IN_FLIGHT \<and> owned_by m d a) (db_attempts d)) \<and>
            rr_untouched res = length (filter (\<lambda>a. da_status a = IN_FLIGHT \<and> \<not> owned_by m d a) (db_attempts d)) \<and>
            rr_recovered (fst (recoverWorkspaceInFlightDeliveryAttempts m t' d')) = 0"
proof -
  have inv: "delivered_inv d"
    unfolding assms by (rule delivered_sys.run_keeps [OF empty_journal_delivered]) simp
  have "distinct (map da_id (db_attempts d))"
    using inv by (simp add: delivered_inv_def)
  then show ?thesis
    using recover_workspace_eq [of d m t] recover_again [of d m t' t] by (simp add: update_attempts_def Let_def)
qed

theorem recovery_is_scoped_witness:
  "let d = jn_db (run journal_step delivery_run (empty_journal [''m''] [''st''] [''pa'']))
   in rr_recovered (fst (recoverWorkspaceInFlightDeliveryAttempts ''m'' ''t9'' d)) = 1 \<and>
      rr_recovered (fst (recoverWorkspaceInFlightDeliveryAttempts ''m'' ''t10'' (snd (recoverWorkspaceInFlightDeliveryAttempts ''m'' ''t9'' d)))) = 0"
proof -
  let ?d = "jn_db (run journal_step delivery_run (empty_journal [''m''] [''st''] [''pa'']))"
  have "rr_recovered (fst (recoverWorkspaceInFlightDeliveryAttempts ''m'' ''t9'' ?d)) = 1"
    unfolding delivery_demo_defs by code_simp
  then show ?thesis
    using recovery_is_scoped [where d = ?d and es = delivery_run and m = "''m''" and t = "''t9''" and t' = "''t10''", OF refl]
    unfolding Let_def case_prod_beta' by blast
qed

text \<open>
  A stored message reads back as it was saved, and the timeline of a conversation depends
  only on the set of stored messages, not on the order in which they arrived.
\<close>

theorem messages_round_trip_and_timeline:
  "(saveMessage m d = Inr d' \<longrightarrow> findMessage (ms_id m) d' = Some m) \<and>
   (distinct (map mr_id (db_messages d)) \<and> mset (db_messages d) = mset (db_messages e) \<longrightarrow>
      listByConversation cid d = listByConversation cid e)"
  using findMessage_saved timeline_deterministic by blast

theorem messages_round_trip_and_timeline_witness:
  "let m = \<lparr>ms_id = ''x'', ms_conversationId = ''c'', ms_externalRef = None, ms_actor = Some Customer, ms_contentKind = Some Text_content,
            ms_contentText = Some ''q'', ms_occurredAt = None, ms_observedAt = None\<rparr>;
       d = jn_db (run journal_step delivery_run demo_journal)
   in is_ok (saveMessage m d) \<and> (\<exists>d'. saveMessage m d = Inr d' \<and> findMessage (ms_id m) d' = Some m)"
proof -
  let ?m = "\<lparr>ms_id = ''x'', ms_conversationId = ''c'', ms_externalRef = None, ms_actor = Some Customer, ms_contentKind = Some Text_content,
            ms_contentText = Some ''q'', ms_occurredAt = None, ms_observedAt = None\<rparr>"
  let ?d = "jn_db (run journal_step delivery_run demo_journal)"
  have ok: "is_ok (saveMessage ?m ?d)"
    unfolding delivery_demo_defs by code_simp
  then obtain d' where "saveMessage ?m ?d = Inr d'"
    by (auto simp: is_ok_def split: sum.splits)
  then show ?thesis
    using messages_round_trip_and_timeline [of ?m ?d d' ?d "[]"] ok unfolding Let_def by blast
qed

text \<open>
  A defect of \<open>runDeliveryAttempt\<close>: when recovery has made the attempt UNKNOWN before the port
  answers with a rejection, the run reports the outcome REJECTED together with a record whose durable
  status is UNKNOWN, as \<open>resolve\<close> does not say whether it changed the row.
\<close>

theorem reported_outcome_can_contradict_journal:
  "let s = run journal_step (delivery_run @ [Recover_workspace ''m'' ''t2'']) demo_journal;
       r = fst (run_complete (jn_awaiting s ! 0) rejected ''t3'' (jn_db s))
   in (case r of Inr (a, oc) \<Rightarrow> oc = Out_rejected \<and> da_status a = UNKNOWN | Inl _ \<Rightarrow> False)"
  unfolding delivery_demo_defs by code_simp

end
